(* ===== verification/HT_Prelude.thy ===== *)
theory HT_Prelude
  imports Main "HOL-Library.Word" "HOL-Library.Multiset"
begin

text \<open>
  Shared vocabulary of the development: the machine integers of the 32-bit target, the
  kernel's error codes and return codes, the bit-mask arithmetic the driver uses for
  alignment, words as bytes in memory, the generic lemmas on lists the component theories share, and three
  interfaces stated as locales: transition systems with an inductive invariant, codecs
  (an encoder with its decoder), and banks of hardware registers.
\<close>

unbundle bit_operations_syntax

section \<open>Machine integers and error codes\<close>

type_synonym u8 = "8 word"
type_synonym u16 = "16 word"
type_synonym u32 = "32 word"
type_synonym u64 = "64 word"

text \<open>
  The error codes the driver returns or passes on. A function that returns \<open>0\<close> or
  \<open>-E...\<close> is modelled with the result type \<open>rc\<close>; a bare \<open>-1\<close> is \<open>-EPERM\<close>, which has that
  number; \<open>EOTHER n\<close> is any other code a kernel service hands back.
\<close>

datatype errno =
    EPERM | EINTR | EIO | ENXIO | EAGAIN | ENOMEM | EACCES | EFAULT | EBUSY | ENODEV | EINVAL | ENOTTY | EDEADLK | ENOSYS | ETIME
  | ERESTARTSYS | ENOIOCTLCMD | EOTHER nat

datatype rc = OK | Err errno

named_theorems chip_simps \<open>reading and writing the registers of the bridge chip\<close>
named_theorems window_simps \<open>updates of the window table\<close>
named_theorems window_wf \<open>operations keep the invariant of the window table\<close>
named_theorems dma_simps \<open>the DMA descriptor chain\<close>
named_theorems irq_simps \<open>the interrupt tables\<close>

section \<open>Alignment by bit masks\<close>

text \<open>\<open>align_down n x\<close> is the C expression \<open>x & ~((1 << n) - 1)\<close>.\<close>

definition align_down :: "nat \<Rightarrow> 'a::len word \<Rightarrow> 'a word" where
  "align_down n x = x AND NOT (mask n)"

text \<open>\<open>low_bits n x\<close> is \<open>x & ((1 << n) - 1)\<close>, the part that \<open>align_down\<close> clears.\<close>

definition low_bits :: "nat \<Rightarrow> 'a::len word \<Rightarrow> 'a word" where
  "low_bits n x = x AND mask n"

lemma unat_low_bits: "unat (low_bits n x) = unat x mod 2 ^ n"
proof -
  have "unat (take_bit n x) = take_bit n (unat x)"
    by (rule unsigned_take_bit_eq)
  then show ?thesis
    by (simp only: low_bits_def take_bit_eq_mask [symmetric] take_bit_eq_mod [of n "unat x"])
qed

lemma align_down_plus_low_bits: "align_down n x + low_bits n x = x"
proof -
  have "align_down n x + low_bits n x = align_down n x OR low_bits n x"
    by (rule disjunctive_add) (auto simp: align_down_def low_bits_def bit_simps)
  also have "\<dots> = x"
    by (rule bit_word_eqI) (auto simp: align_down_def low_bits_def bit_simps)
  finally show ?thesis .
qed

lemma align_down_eq_minus: "align_down n x = x - low_bits n x"
  using align_down_plus_low_bits [of n x] by (simp add: eq_diff_eq)

lemma low_bits_le: "low_bits n x \<le> x"
  by (simp add: word_le_nat_alt unat_low_bits)

lemma unat_align_down: "unat (align_down n x) = unat x - unat x mod 2 ^ n"
  by (simp add: align_down_eq_minus unat_sub low_bits_le unat_low_bits)

lemma unat_align_down_mult: "unat (align_down n x) = 2 ^ n * (unat x div 2 ^ n)"
  by (simp add: unat_align_down minus_mod_eq_mult_div)

lemma align_down_le: "align_down n x \<le> x"
  by (simp add: word_le_nat_alt unat_align_down)

lemma low_bits_align_down [simp]: "low_bits n (align_down n x) = 0"
proof -
  have "unat (low_bits n (align_down n x)) = 0"
    by (simp add: unat_low_bits unat_align_down_mult)
  then show ?thesis by (simp only: unat_eq_0)
qed

lemma low_bits_0 [simp]: "low_bits n 0 = 0"
  by (simp add: low_bits_def)

lemma low_bits_eq_0_iff: "low_bits n x = 0 \<longleftrightarrow> 2 ^ n dvd unat x"
  by (simp add: unat_eq_0 [symmetric] unat_low_bits dvd_eq_mod_eq_0)

lemma low_bits_0_le: "low_bits n x = 0 \<Longrightarrow> m \<le> n \<Longrightarrow> low_bits m x = 0"
  by (auto simp: low_bits_eq_0_iff dest: dvd_trans [OF le_imp_power_dvd])

lemma align_down_id: "low_bits n x = 0 \<Longrightarrow> align_down n x = x"
  by (simp add: align_down_eq_minus)

lemma low_bits_add:
  fixes x y :: "'a::len word"
  assumes "n \<le> LENGTH('a)" and "low_bits n x = 0" and "low_bits n y = 0"
  shows "low_bits n (x + y) = 0"
proof -
  have "(2::nat) ^ n dvd 2 ^ LENGTH('a)" using assms(1) by (rule le_imp_power_dvd)
  then show ?thesis using assms(2,3)
    by (simp add: low_bits_eq_0_iff unat_word_ariths dvd_mod)
qed

lemma low_bits_diff:
  fixes x y :: "'a::len word"
  assumes "n \<le> LENGTH('a)" and "low_bits n x = 0" and "low_bits n y = 0"
  shows "low_bits n (x - y) = 0"
proof -
  have "(2::nat) ^ n dvd 2 ^ LENGTH('a)" using assms(1) by (rule le_imp_power_dvd)
  then have "2 ^ n dvd unat x + 2 ^ LENGTH('a)" using assms(2) by (simp add: low_bits_eq_0_iff)
  then have "2 ^ n dvd unat x + 2 ^ LENGTH('a) - unat y" and "2 ^ n dvd unat x - unat y"
    using assms(2,3) by (simp_all add: low_bits_eq_0_iff)
  then show ?thesis
    by (simp add: low_bits_eq_0_iff unat_sub_if')
qed

text \<open>The low bits the code masks with a literal.\<close>

lemma low_bits_literal:
  "x AND 0xffff = low_bits 16 x" "x AND 0xfff = low_bits 12 x"
  by (simp_all add: low_bits_def mask_eq_exp_minus_1)

section \<open>Byte order\<close>

text \<open>
  \<open>bswap32\<close> reverses the four bytes of a word. \<open>cpu_to_be32 le\<close> is the kernel's macro of that
  name: the identity on a big-endian host (\<open>le = False\<close>), a byte swap on a little-endian one.
\<close>

definition bswap32 :: "u32 \<Rightarrow> u32" where
  "bswap32 x = push_bit 24 (take_bit 8 x) OR push_bit 16 (take_bit 8 (drop_bit 8 x))
     OR push_bit 8 (take_bit 8 (drop_bit 16 x)) OR take_bit 8 (drop_bit 24 x)"

definition cpu_to_be32 :: "bool \<Rightarrow> u32 \<Rightarrow> u32" where
  "cpu_to_be32 le x = (if le then bswap32 x else x)"

definition be32_to_cpu :: "bool \<Rightarrow> u32 \<Rightarrow> u32" where
  "be32_to_cpu le x = (if le then bswap32 x else x)"

lemma bit_ge_32 [simp]: "32 \<le> n \<Longrightarrow> \<not> bit (x :: u32) n"
  by (auto dest: bit_imp_le_length)

lemma bit_bswap32_byte:
  assumes "r < 8"
  shows "bit (bswap32 x) r = bit x (24 + r)" "bit (bswap32 x) (8 + r) = bit x (16 + r)"
    "bit (bswap32 x) (16 + r) = bit x (8 + r)" "bit (bswap32 x) (24 + r) = bit x r"
  using assms by (simp_all add: bswap32_def bit_simps)

lemma bswap32_bswap32 [simp]: "bswap32 (bswap32 x) = x"
proof (rule bit_word_eqI)
  fix n assume "n < LENGTH(32)"
  then have "n < 32" by simp
  then have "n < 8 \<or> (\<exists>r<8. n = 8 + r) \<or> (\<exists>r<8. n = 16 + r) \<or> (\<exists>r<8. n = 24 + r)"
    by presburger
  then show "bit (bswap32 (bswap32 x)) n = bit x n"
    by (elim disjE exE conjE) (simp_all add: bit_bswap32_byte)
qed

lemma be32_roundtrip [simp]: "be32_to_cpu le (cpu_to_be32 le x) = x"
  by (simp add: be32_to_cpu_def cpu_to_be32_def)

text \<open>A number stored in memory, and read back, in the byte order of the processor.\<close>

definition word_bytes :: "bool \<Rightarrow> nat \<Rightarrow> u32 \<Rightarrow> u8 list" where
  "word_bytes cpu_big n v =
    (let little = map (\<lambda>j. ucast (drop_bit (8 * j) v)) [0..<n] in if cpu_big then rev little else little)"

definition bytes_word :: "bool \<Rightarrow> u8 list \<Rightarrow> u32" where
  "bytes_word cpu_big bs =
    foldr (\<lambda>x acc. ucast x OR push_bit 8 acc) (if cpu_big then rev bs else bs) 0"

definition overwrite :: "(nat \<Rightarrow> u8) \<Rightarrow> nat \<Rightarrow> u8 list \<Rightarrow> nat \<Rightarrow> u8" where
  "overwrite f at bs = (\<lambda>i. if at \<le> i \<and> i < at + length bs then bs ! (i - at) else f i)"

definition slice :: "(nat \<Rightarrow> u8) \<Rightarrow> nat \<Rightarrow> nat \<Rightarrow> u8 list" where
  "slice f at n = map f [at..<at + n]"

lemma length_word_bytes [simp]: "length (word_bytes c n v) = n"
  by (simp add: word_bytes_def Let_def)

lemma length_slice [simp]: "length (slice f a n) = n"
  by (simp add: slice_def)

lemma nth_slice [simp]: "i < n \<Longrightarrow> slice f a n ! i = f (a + i)"
  by (simp add: slice_def)

section \<open>Interfaces\<close>

text \<open>
  A component with state: the states it starts in, its steps, and the invariant that the
  start has and every step keeps. Every state of a run then has the invariant.
\<close>

locale invariant_system =
  fixes start :: "'s \<Rightarrow> bool" and step :: "'s \<Rightarrow> 's \<Rightarrow> bool" and invar :: "'s \<Rightarrow> bool"
  assumes start_invar: "start s \<Longrightarrow> invar s"
    and step_invar: "step s t \<Longrightarrow> invar s \<Longrightarrow> invar t"
begin

lemma steps_invar: "step\<^sup>*\<^sup>* s t \<Longrightarrow> invar s \<Longrightarrow> invar t"
  by (induction rule: rtranclp_induct) (auto intro: step_invar)

lemma reachable_invar: "start s \<Longrightarrow> step\<^sup>*\<^sup>* s t \<Longrightarrow> invar t"
  using start_invar steps_invar by blast

lemma reachable_safe:
  assumes "\<And>s. invar s \<Longrightarrow> safe s" and "start s" and "step\<^sup>*\<^sup>* s t"
  shows "safe t"
  using assms reachable_invar by blast

end

text \<open>
  An encoding with its decoder. \<open>valid\<close> is the set of values the encoder accepts; the law
  makes the encoding injective on it.
\<close>

locale codec =
  fixes encode :: "'a \<Rightarrow> 'b" and decode :: "'b \<Rightarrow> 'a option" and valid :: "'a \<Rightarrow> bool"
  assumes decode_encode: "valid x \<Longrightarrow> decode (encode x) = Some x"
begin

lemma encode_inject: "valid x \<Longrightarrow> valid y \<Longrightarrow> encode x = encode y \<longleftrightarrow> x = y"
  by (metis decode_encode option.inject)

lemma map_encode_inject:
  assumes "list_all valid xs" and "list_all valid ys" and "map encode xs = map encode ys"
  shows "xs = ys"
  using assms(3,1,2)
  by (induction xs ys rule: list_induct2') (auto simp: encode_inject)

end

interpretation be32: codec "cpu_to_be32 le" "\<lambda>x. Some (be32_to_cpu le x)" "\<lambda>_. True"
  by unfold_locales simp

text \<open>
  A bank of identical register blocks, read and written one block at a time. A write to one
  block leaves the others alone; writes to different blocks commute as far as any read can
  tell.
\<close>

locale register_bank =
  fixes rd :: "'c \<Rightarrow> nat \<Rightarrow> 'r" and wr :: "nat \<Rightarrow> ('r \<Rightarrow> 'r) \<Rightarrow> 'c \<Rightarrow> 'c" and blocks :: "'c \<Rightarrow> nat"
  assumes rd_wr_same: "i < blocks c \<Longrightarrow> rd (wr i f c) i = f (rd c i)"
    and rd_wr_other: "i \<noteq> j \<Longrightarrow> rd (wr i f c) j = rd c j"
    and blocks_wr: "blocks (wr i f c) = blocks c"
begin

lemma rd_wr: "i < blocks c \<Longrightarrow> rd (wr i f c) j = (if i = j then f (rd c i) else rd c j)"
  by (simp add: rd_wr_same rd_wr_other)

lemma wr_commute:
  assumes "i \<noteq> j" and "i < blocks c" and "j < blocks c"
  shows "rd (wr i f (wr j g c)) n = rd (wr j g (wr i f c)) n"
  using assms by (simp add: rd_wr blocks_wr)

lemma blocks_fold: "blocks (fold (\<lambda>i. wr i f) is c) = blocks c"
  by (induction "is" arbitrary: c) (simp_all add: blocks_wr)

lemma rd_fold_wr:
  assumes "\<forall>i\<in>set is. i < blocks c" and "f \<circ> f = f"
  shows "rd (fold (\<lambda>i. wr i f) is c) j = (if j \<in> set is then f (rd c j) else rd c j)"
  using assms(1)
proof (induction "is" arbitrary: c)
  case (Cons i "is")
  have ff: "f (f x) = f x" for x using assms(2) by (metis comp_apply)
  show ?case using Cons by (auto simp: rd_wr blocks_wr ff)
qed simp

end

section \<open>Lists\<close>

lemma list_update_nth_if:
  "i < length xs \<Longrightarrow> (xs[i := x]) ! j = (if i = j then x else xs ! j)"
  by (simp add: nth_list_update)

lemma length_filter_remove1:
  "x \<in> set xs \<Longrightarrow> length (remove1 x xs) = length xs - 1"
  by (rule length_remove1 [THEN trans]) simp

end
