(* ===== verification/Vmebus.thy ===== *)
theory Vmebus
  imports HT_Prelude
begin

text \<open>
  The public data types of the PCI-VME bridge driver, from \<open>src/vmebridge/driver/vmebus.h\<close>
  and \<open>vme_dma.h\<close>. Enumerations arrive from user space unchecked, so an enumeration field is a
  32-bit word and the enumerators are names for words; \<open>struct\<close>s are records whose field names
  carry a short prefix (\<open>vm_\<close> for \<open>vme_mapping\<close>, \<open>da_\<close> for \<open>vme_dma_attr\<close>, and so on).
  Pointers are 32-bit words, \<open>NULL\<close> is \<open>0\<close>; the C \<open>int\<close>s that are only compared and used as
  an index are \<open>int\<close>.
\<close>

section \<open>Enumerations\<close>

text \<open>\<open>enum vme_read_prefetch_size\<close>, \<open>vme_data_width\<close> and \<open>vme_2esst_mode\<close>.\<close>

abbreviation (input) VME_PREFETCH_2 :: u32 where "VME_PREFETCH_2 \<equiv> 0"
abbreviation (input) VME_PREFETCH_4 :: u32 where "VME_PREFETCH_4 \<equiv> 1"
abbreviation (input) VME_PREFETCH_8 :: u32 where "VME_PREFETCH_8 \<equiv> 2"
abbreviation (input) VME_PREFETCH_16 :: u32 where "VME_PREFETCH_16 \<equiv> 3"
abbreviation (input) VME_D8 :: u32 where "VME_D8 \<equiv> 8"
abbreviation (input) VME_D16 :: u32 where "VME_D16 \<equiv> 16"
abbreviation (input) VME_D32 :: u32 where "VME_D32 \<equiv> 32"
abbreviation (input) VME_D64 :: u32 where "VME_D64 \<equiv> 64"
abbreviation (input) VME_SST160 :: u32 where "VME_SST160 \<equiv> 0"
abbreviation (input) VME_SST267 :: u32 where "VME_SST267 \<equiv> 1"
abbreviation (input) VME_SST320 :: u32 where "VME_SST320 \<equiv> 2"

text \<open>\<open>enum vme_address_modifier\<close>.\<close>

abbreviation (input) VME_A64_MBLT :: u32 where "VME_A64_MBLT \<equiv> 0x00"
abbreviation (input) VME_A64_SCT :: u32 where "VME_A64_SCT \<equiv> 0x01"
abbreviation (input) VME_A64_BLT :: u32 where "VME_A64_BLT \<equiv> 0x03"
abbreviation (input) VME_A64_LCK :: u32 where "VME_A64_LCK \<equiv> 0x04"
abbreviation (input) VME_A32_LCK :: u32 where "VME_A32_LCK \<equiv> 0x05"
abbreviation (input) VME_A32_USER_MBLT :: u32 where "VME_A32_USER_MBLT \<equiv> 0x08"
abbreviation (input) VME_A32_USER_DATA_SCT :: u32 where "VME_A32_USER_DATA_SCT \<equiv> 0x09"
abbreviation (input) VME_A32_USER_PRG_SCT :: u32 where "VME_A32_USER_PRG_SCT \<equiv> 0x0a"
abbreviation (input) VME_A32_USER_BLT :: u32 where "VME_A32_USER_BLT \<equiv> 0x0b"
abbreviation (input) VME_A32_SUP_MBLT :: u32 where "VME_A32_SUP_MBLT \<equiv> 0x0c"
abbreviation (input) VME_A32_SUP_DATA_SCT :: u32 where "VME_A32_SUP_DATA_SCT \<equiv> 0x0d"
abbreviation (input) VME_A32_SUP_PRG_SCT :: u32 where "VME_A32_SUP_PRG_SCT \<equiv> 0x0e"
abbreviation (input) VME_A32_SUP_BLT :: u32 where "VME_A32_SUP_BLT \<equiv> 0x0f"
abbreviation (input) VME_2e6U :: u32 where "VME_2e6U \<equiv> 0x20"
abbreviation (input) VME_2e3U :: u32 where "VME_2e3U \<equiv> 0x21"
abbreviation (input) VME_A16_USER :: u32 where "VME_A16_USER \<equiv> 0x29"
abbreviation (input) VME_A16_LCK :: u32 where "VME_A16_LCK \<equiv> 0x2c"
abbreviation (input) VME_A16_SUP :: u32 where "VME_A16_SUP \<equiv> 0x2d"
abbreviation (input) VME_CR_CSR :: u32 where "VME_CR_CSR \<equiv> 0x2f"
abbreviation (input) VME_A40_SCT :: u32 where "VME_A40_SCT \<equiv> 0x34"
abbreviation (input) VME_A40_LCK :: u32 where "VME_A40_LCK \<equiv> 0x35"
abbreviation (input) VME_A40_BLT :: u32 where "VME_A40_BLT \<equiv> 0x37"
abbreviation (input) VME_A24_USER_MBLT :: u32 where "VME_A24_USER_MBLT \<equiv> 0x38"
abbreviation (input) VME_A24_USER_DATA_SCT :: u32 where "VME_A24_USER_DATA_SCT \<equiv> 0x39"
abbreviation (input) VME_A24_USER_PRG_SCT :: u32 where "VME_A24_USER_PRG_SCT \<equiv> 0x3a"
abbreviation (input) VME_A24_USER_BLT :: u32 where "VME_A24_USER_BLT \<equiv> 0x3b"
abbreviation (input) VME_A24_SUP_MBLT :: u32 where "VME_A24_SUP_MBLT \<equiv> 0x3c"
abbreviation (input) VME_A24_SUP_DATA_SCT :: u32 where "VME_A24_SUP_DATA_SCT \<equiv> 0x3d"
abbreviation (input) VME_A24_SUP_PRG_SCT :: u32 where "VME_A24_SUP_PRG_SCT \<equiv> 0x3e"
abbreviation (input) VME_A24_SUP_BLT :: u32 where "VME_A24_SUP_BLT \<equiv> 0x3f"

text \<open>The address modifiers grouped by address space, as the driver's \<open>switch\<close>es group them.\<close>

definition am_A16 :: "u32 list" where
  "am_A16 = [VME_A16_USER, VME_A16_LCK, VME_A16_SUP]"

definition am_A24 :: "u32 list" where
  "am_A24 = [VME_A24_USER_MBLT, VME_A24_USER_DATA_SCT, VME_A24_USER_PRG_SCT, VME_A24_USER_BLT,
     VME_A24_SUP_MBLT, VME_A24_SUP_DATA_SCT, VME_A24_SUP_PRG_SCT, VME_A24_SUP_BLT]"

definition am_A32 :: "u32 list" where
  "am_A32 = [VME_A32_LCK, VME_A32_USER_MBLT, VME_A32_USER_DATA_SCT, VME_A32_USER_PRG_SCT,
     VME_A32_USER_BLT, VME_A32_SUP_MBLT, VME_A32_SUP_DATA_SCT, VME_A32_SUP_PRG_SCT,
     VME_A32_SUP_BLT]"

definition am_A40 :: "u32 list" where
  "am_A40 = [VME_A40_SCT, VME_A40_LCK, VME_A40_BLT]"

text \<open>\<open>enum vme_dma_block_size\<close>, \<open>vme_dma_backoff\<close> (their bounds) and \<open>vme_dma_dir\<close>.\<close>

abbreviation (input) VME_DMA_BSIZE_32 :: u32 where "VME_DMA_BSIZE_32 \<equiv> 0"
abbreviation (input) VME_DMA_BSIZE_4096 :: u32 where "VME_DMA_BSIZE_4096 \<equiv> 7"
abbreviation (input) VME_DMA_BACKOFF_0 :: u32 where "VME_DMA_BACKOFF_0 \<equiv> 0"
abbreviation (input) VME_DMA_BACKOFF_64 :: u32 where "VME_DMA_BACKOFF_64 \<equiv> 7"
abbreviation (input) VME_DMA_TO_DEVICE :: u32 where "VME_DMA_TO_DEVICE \<equiv> 1"
abbreviation (input) VME_DMA_FROM_DEVICE :: u32 where "VME_DMA_FROM_DEVICE \<equiv> 2"

section \<open>Descriptors\<close>

record vme_mapping =
  vm_window_num :: int
  vm_kernel_va :: u32
  vm_user_va :: u32
  vm_fd :: int
  vm_window_enabled :: u32
  vm_data_width :: u32
  vm_am :: u32
  vm_read_prefetch_enabled :: u32
  vm_read_prefetch_size :: u32
  vm_v2esst_mode :: u32
  vm_bcast_select :: u32
  vm_pci_addru :: u32
  vm_pci_addrl :: u32
  vm_sizeu :: u32
  vm_sizel :: u32
  vm_vme_addru :: u32
  vm_vme_addrl :: u32

text \<open>A descriptor cleared by \<open>kzalloc\<close> or placed in zero-initialised storage.\<close>

definition zero_mapping :: vme_mapping where
  "zero_mapping = \<lparr>vm_window_num = 0, vm_kernel_va = 0, vm_user_va = 0, vm_fd = 0,
     vm_window_enabled = 0, vm_data_width = 0, vm_am = 0, vm_read_prefetch_enabled = 0,
     vm_read_prefetch_size = 0, vm_v2esst_mode = 0, vm_bcast_select = 0, vm_pci_addru = 0,
     vm_pci_addrl = 0, vm_sizeu = 0, vm_sizel = 0, vm_vme_addru = 0, vm_vme_addrl = 0\<rparr>"

record vme_dma_attr =
  da_data_width :: u32
  da_am :: u32
  da_v2esst_mode :: u32
  da_bcast_select :: u32
  da_addru :: u32
  da_addrl :: u32

record vme_dma_ctrl =
  dc_vme_block_size :: u32
  dc_vme_backoff_time :: u32
  dc_pci_block_size :: u32
  dc_pci_backoff_time :: u32

record vme_dma =
  dm_status :: u32
  dm_length :: u32
  dm_novmeinc :: u32
  dm_dir :: u32
  dm_src :: vme_dma_attr
  dm_dst :: vme_dma_attr
  dm_ctrl :: vme_dma_ctrl

record vme_bus_error =
  be_address :: u64
  be_am :: u32

record vme_bus_error_desc =
  bd_error :: vme_bus_error
  bd_valid :: bool

end
