(* ===== verification/Tsi148_Chip.thy ===== *)
theory Tsi148_Chip
  imports Vmebus
begin

text \<open>
  The register file of the Tundra TSI148 bridge chip (\<open>src/vmebridge/driver/tsi148.h\<close>) and the
  low-level routines of \<open>tsi148.c\<close> that only read and write registers: bus error reporting,
  interrupt generation, interrupt masks, the CRG image, quiescing and initialisation.

  \<open>iowrite32be\<close> to a plain register stores the word and \<open>ioread32be\<close> returns the word stored.
  Registers whose bits change by themselves or on a write (error status, interrupt enables,
  interrupt control) are read and written through the functions of a \<open>tsi148_hw\<close> record, the
  hardware's side of the model.
\<close>

section \<open>Registers\<close>

record tsi148_otrans =
  otsau :: u32
  otsal :: u32
  oteau :: u32
  oteal :: u32
  otofu :: u32
  otofl :: u32
  otbs :: u32
  otat :: u32

record tsi148_itrans =
  itsau :: u32
  itsal :: u32
  iteau :: u32
  iteal :: u32
  itofu :: u32
  itofl :: u32
  itat :: u32

record tsi148_dma_desc =
  dsau :: u32
  dsal :: u32
  ddau :: u32
  ddal :: u32
  dsat :: u32
  ddat :: u32
  dnlau :: u32
  dnlal :: u32
  dcnt :: u32
  ddbs :: u32

record tsi148_dma =
  dctl :: u32
  dsta :: u32
  dcsau :: u32
  dcsal :: u32
  dcdau :: u32
  dcdal :: u32
  dclau :: u32
  dclal :: u32
  dma_desc :: tsi148_dma_desc

text \<open>
  \<open>struct tsi148_lcsr\<close>: the IACK window (\<open>viack\<close>) is not storage but a bus cycle, see
  \<open>tsi148_iack8\<close>.
\<close>

record tsi148_lcsr =
  otrans :: "tsi148_otrans list"
  rmwau :: u32
  rmwal :: u32
  rmwen :: u32
  rmwc :: u32
  rmws :: u32
  vmctrl :: u32
  vctrl :: u32
  vstat :: u32
  pstat :: u32
  vmefl :: u32
  veau :: u32
  veal :: u32
  veat :: u32
  edpau :: u32
  edpal :: u32
  edpxa :: u32
  edpxs :: u32
  edpat :: u32
  itrans :: "tsi148_itrans list"
  gbau :: u32
  gbal :: u32
  gcsrat :: u32
  cbau :: u32
  cbal :: u32
  crgat :: u32
  crou :: u32
  crol :: u32
  crat :: u32
  lmbau :: u32
  lmbal :: u32
  lmat :: u32
  bcu :: u32
  bcl :: u32
  bpgtr :: u32
  bpctr :: u32
  vicr :: u32
  inten :: u32
  inteo :: u32
  ints :: u32
  intc :: u32
  intm1 :: u32
  intm2 :: u32
  dma_regs :: "tsi148_dma list"

abbreviation (input) TSI148_NUM_OUT_WINDOWS :: nat where "TSI148_NUM_OUT_WINDOWS \<equiv> 8"
abbreviation (input) TSI148_NUM_DMA_CHANNELS :: nat where "TSI148_NUM_DMA_CHANNELS \<equiv> 2"

text \<open>The arrays of the register file have the sizes the chip has.\<close>

definition wf_lcsr :: "tsi148_lcsr \<Rightarrow> bool" where
  "wf_lcsr c \<longleftrightarrow> length (otrans c) = TSI148_NUM_OUT_WINDOWS \<and> length (itrans c) = 8
     \<and> length (dma_regs c) = TSI148_NUM_DMA_CHANNELS"

text \<open>Writing one block of the outbound translation registers, or of the DMA registers.\<close>

definition otrans_write :: "nat \<Rightarrow> (tsi148_otrans \<Rightarrow> tsi148_otrans) \<Rightarrow> tsi148_lcsr \<Rightarrow> tsi148_lcsr" where
  "otrans_write i f c = c\<lparr>otrans := (otrans c)[i := f (otrans c ! i)]\<rparr>"

definition itrans_write :: "nat \<Rightarrow> (tsi148_itrans \<Rightarrow> tsi148_itrans) \<Rightarrow> tsi148_lcsr \<Rightarrow> tsi148_lcsr" where
  "itrans_write i f c = c\<lparr>itrans := (itrans c)[i := f (itrans c ! i)]\<rparr>"

definition dma_write :: "nat \<Rightarrow> (tsi148_dma \<Rightarrow> tsi148_dma) \<Rightarrow> tsi148_lcsr \<Rightarrow> tsi148_lcsr" where
  "dma_write i f c = c\<lparr>dma_regs := (dma_regs c)[i := f (dma_regs c ! i)]\<rparr>"

interpretation ow: register_bank "\<lambda>c i. otrans c ! i" otrans_write "\<lambda>c. length (otrans c)"
  by unfold_locales (simp_all add: otrans_write_def)

interpretation iw: register_bank "\<lambda>c i. itrans c ! i" itrans_write "\<lambda>c. length (itrans c)"
  by unfold_locales (simp_all add: itrans_write_def)

interpretation dw: register_bank "\<lambda>c i. dma_regs c ! i" dma_write "\<lambda>c. length (dma_regs c)"
  by unfold_locales (simp_all add: dma_write_def)

lemmas bank_simps [chip_simps] =
  ow.rd_wr_same ow.rd_wr_other ow.blocks_wr iw.rd_wr_same iw.rd_wr_other iw.blocks_wr
  dw.rd_wr_same dw.rd_wr_other dw.blocks_wr

lemma write_frame [chip_simps]:
  "otrans (itrans_write i h c) = otrans c" "otrans (dma_write i g c) = otrans c"
  "itrans (otrans_write i f c) = itrans c" "itrans (dma_write i g c) = itrans c"
  "dma_regs (otrans_write i f c) = dma_regs c" "dma_regs (itrans_write i h c) = dma_regs c"
  by (simp_all add: otrans_write_def itrans_write_def dma_write_def)

lemma wf_lcsr_write [chip_simps]:
  "wf_lcsr (otrans_write i f c) = wf_lcsr c" "wf_lcsr (itrans_write i h c) = wf_lcsr c"
  "wf_lcsr (dma_write i g c) = wf_lcsr c"
  by (simp_all add: wf_lcsr_def chip_simps)

text \<open>
  The hardware's side: what a write leaves in a register whose bits are not plain storage. The
  first argument is the old contents, the second the word written.
\<close>

record tsi148_hw =
  hw_veat :: "u32 \<Rightarrow> u32 \<Rightarrow> u32"
  hw_edpat :: "u32 \<Rightarrow> u32 \<Rightarrow> u32"
  hw_pstat :: "u32 \<Rightarrow> u32 \<Rightarrow> u32"
  hw_vicr :: "u32 \<Rightarrow> u32 \<Rightarrow> u32"
  hw_inteo :: "u32 \<Rightarrow> u32 \<Rightarrow> u32"
  hw_inten :: "u32 \<Rightarrow> u32 \<Rightarrow> u32"
  hw_intc :: "u32 \<Rightarrow> u32 \<Rightarrow> u32"
  hw_vstat :: "u32 \<Rightarrow> u32 \<Rightarrow> u32"

text \<open>Bits of these registers, from the header.\<close>

abbreviation (input) TSI148_LCSR_VEAT_VES :: u32 where "TSI148_LCSR_VEAT_VES \<equiv> 0x80000000"
abbreviation (input) TSI148_LCSR_VEAT_VEOF :: u32 where "TSI148_LCSR_VEAT_VEOF \<equiv> 0x40000000"
abbreviation (input) TSI148_LCSR_VEAT_VESCL :: u32 where "TSI148_LCSR_VEAT_VESCL \<equiv> 0x20000000"
abbreviation (input) TSI148_LCSR_VEAT_AM :: u32 where "TSI148_LCSR_VEAT_AM \<equiv> 0x3f00"
abbreviation (input) TSI148_LCSR_EDPAT_EDPCL :: u32 where "TSI148_LCSR_EDPAT_EDPCL \<equiv> 0x20000000"
abbreviation (input) TSI148_LCSR_VICR_STID_M :: u32 where "TSI148_LCSR_VICR_STID_M \<equiv> 0xff"
abbreviation (input) TSI148_LCSR_VICR_IRQL_M :: u32 where "TSI148_LCSR_VICR_IRQL_M \<equiv> 0x700"
abbreviation (input) TSI148_LCSR_VICR_IRQS :: u32 where "TSI148_LCSR_VICR_IRQS \<equiv> 0x800"
abbreviation (input) TSI148_LCSR_VICR_IRQC :: u32 where "TSI148_LCSR_VICR_IRQC \<equiv> 0x8000"

text \<open>The header's inline routines.\<close>

definition tsi148_get_slotnum :: "tsi148_lcsr \<Rightarrow> u32" where
  "tsi148_get_slotnum c = vstat c AND 0x1f"

definition tsi148_get_syscon :: "tsi148_lcsr \<Rightarrow> bool" where
  "tsi148_get_syscon c \<longleftrightarrow> vstat c AND 0x100 \<noteq> 0"

definition tsi148_set_interrupts :: "tsi148_hw \<Rightarrow> u32 \<Rightarrow> tsi148_lcsr \<Rightarrow> rc \<times> tsi148_lcsr" where
  "tsi148_set_interrupts hw m c =
     (let c1 = c\<lparr>inteo := hw_inteo hw (inteo c) m\<rparr>;
          c2 = c1\<lparr>inten := hw_inten hw (inten c1) m\<rparr>
      in (if inteo c2 \<noteq> m \<or> inten c2 \<noteq> m then Err EPERM else OK, c2))"

definition tsi148_get_int_enabled :: "tsi148_lcsr \<Rightarrow> u32" where
  "tsi148_get_int_enabled c = inteo c"

definition tsi148_get_int_status :: "tsi148_lcsr \<Rightarrow> u32" where
  "tsi148_get_int_status c = ints c"

definition tsi148_clear_int :: "tsi148_hw \<Rightarrow> u32 \<Rightarrow> tsi148_lcsr \<Rightarrow> tsi148_lcsr" where
  "tsi148_clear_int hw m c = c\<lparr>intc := hw_intc hw (intc c) m\<rparr>"

text \<open>An IACK cycle at level \<open>irq\<close> returns the vector the interrupter puts on the bus.\<close>

definition tsi148_iack8 :: "(nat \<Rightarrow> u8) \<Rightarrow> nat \<Rightarrow> nat" where
  "tsi148_iack8 viack irq = unat (viack (irq * 4 + 3) AND 0xff)"

definition tsi148_bus_error_chk :: "tsi148_hw \<Rightarrow> bool \<Rightarrow> tsi148_lcsr \<Rightarrow> bool \<times> tsi148_lcsr" where
  "tsi148_bus_error_chk hw clr c =
     (if veat c AND TSI148_LCSR_VEAT_VES \<noteq> 0
      then (True, if clr then c\<lparr>veat := hw_veat hw (veat c) TSI148_LCSR_VEAT_VESCL\<rparr> else c)
      else (False, c))"

section \<open>Bus errors and interrupt generation\<close>

definition reg_join :: "u32 \<Rightarrow> u32 \<Rightarrow> u64" where
  "reg_join high low = push_bit 32 (ucast high) OR ucast low"

definition tsi148_handle_pci_error :: "tsi148_hw \<Rightarrow> tsi148_lcsr \<Rightarrow> tsi148_lcsr" where
  "tsi148_handle_pci_error hw c = c\<lparr>edpat := hw_edpat hw (edpat c) TSI148_LCSR_EDPAT_EDPCL\<rparr>"

definition tsi148_handle_vme_error :: "tsi148_hw \<Rightarrow> tsi148_lcsr \<Rightarrow> vme_bus_error \<times> tsi148_lcsr" where
  "tsi148_handle_vme_error hw c =
     (let attr = veat c;
          err = \<lparr>be_address = reg_join (veau c) (veal c),
                 be_am = drop_bit 8 (attr AND TSI148_LCSR_VEAT_AM)\<rparr>
      in (err, c\<lparr>veat := hw_veat hw attr TSI148_LCSR_VEAT_VESCL\<rparr>))"

text \<open>
  Waiting for the acknowledge of a generated interrupt: \<open>rd n\<close> is what the \<open>n\<close>-th read of the
  control register returns, \<open>sched n t\<close> the time left after the \<open>n\<close>-th \<open>schedule_timeout(t)\<close>.
  The loop returns the number of reads made; a loop that never returns is \<open>None\<close>.
\<close>

partial_function (option) wait_iack ::
    "(nat \<Rightarrow> u32) \<Rightarrow> (nat \<Rightarrow> nat \<Rightarrow> nat) \<Rightarrow> nat \<Rightarrow> nat \<Rightarrow> nat option" where
  "wait_iack rd sched n timeout =
     (if rd n AND TSI148_LCSR_VICR_IRQS = 0 then Some (Suc n)
      else if sched n timeout = 0 then Some (Suc n)
      else wait_iack rd sched (Suc n) (sched n timeout))"

text \<open>
  \<open>tsi148_generate_interrupt\<close>: the outcome, and the register contents. \<open>rd\<close> and \<open>sched\<close> are the
  hardware and the scheduler during the wait.
\<close>

definition tsi148_generate_interrupt ::
    "tsi148_hw \<Rightarrow> (nat \<Rightarrow> u32) \<Rightarrow> (nat \<Rightarrow> nat \<Rightarrow> nat) \<Rightarrow> int \<Rightarrow> int \<Rightarrow> nat \<Rightarrow> tsi148_lcsr
      \<Rightarrow> (rc \<times> tsi148_lcsr) option" where
  "tsi148_generate_interrupt hw rd sched level vector timeout c =
     (if level < 1 \<or> level > 7 then Some (Err EINVAL, c)
      else if vector < 0 \<or> vector > 255 then Some (Err EINVAL, c)
      else let val = (vicr c AND NOT TSI148_LCSR_VICR_STID_M)
                       OR (push_bit 8 (word_of_int level) OR word_of_int vector);
               c1 = c\<lparr>vicr := hw_vicr hw (vicr c) val\<rparr>
           in case wait_iack rd sched 0 timeout of
                None \<Rightarrow> None
              | Some n \<Rightarrow>
                  if rd n AND TSI148_LCSR_VICR_IRQS \<noteq> 0
                  then let v = rd (Suc n);
                           v1 = (v AND NOT (TSI148_LCSR_VICR_IRQL_M OR TSI148_LCSR_VICR_STID_M))
                                  OR TSI148_LCSR_VICR_IRQC
                       in Some (Err ETIME, c1\<lparr>vicr := hw_vicr hw v v1\<rparr>)
                  else Some (OK, c1))"

end
