(* ===== verification/Tsi148_Attr.thy ===== *)
theory Tsi148_Attr
  imports Tsi148_Chip
begin

text \<open>
  Address modifiers and attribute words of the TSI148 (\<open>tsi148.c\<close>): the conversion between a
  VME address modifier and the chip's four attribute fields, the attribute words of an
  outbound window and of a DMA endpoint, and the 64-bit sums and differences on pairs of
  32-bit registers. The results: the conversions are inverse to each other, the attribute
  words decode to what was encoded and never look like an error code, and the split
  arithmetic is 64-bit arithmetic.
\<close>

section \<open>The attribute fields\<close>

abbreviation (input) TSI148_A16 :: u32 where "TSI148_A16 \<equiv> 0"
abbreviation (input) TSI148_A24 :: u32 where "TSI148_A24 \<equiv> 1"
abbreviation (input) TSI148_A32 :: u32 where "TSI148_A32 \<equiv> 2"
abbreviation (input) TSI148_A64 :: u32 where "TSI148_A64 \<equiv> 4"
abbreviation (input) TSI148_CRCSR :: u32 where "TSI148_CRCSR \<equiv> 5"
abbreviation (input) TSI148_USER1 :: u32 where "TSI148_USER1 \<equiv> 8"
abbreviation (input) TSI148_USER2 :: u32 where "TSI148_USER2 \<equiv> 9"
abbreviation (input) TSI148_USER3 :: u32 where "TSI148_USER3 \<equiv> 10"
abbreviation (input) TSI148_USER4 :: u32 where "TSI148_USER4 \<equiv> 11"
abbreviation (input) TSI148_USER :: u32 where "TSI148_USER \<equiv> 0"
abbreviation (input) TSI148_SUPER :: u32 where "TSI148_SUPER \<equiv> 1"
abbreviation (input) TSI148_DATA :: u32 where "TSI148_DATA \<equiv> 0"
abbreviation (input) TSI148_PROG :: u32 where "TSI148_PROG \<equiv> 1"
abbreviation (input) TSI148_SCT :: u32 where "TSI148_SCT \<equiv> 0"
abbreviation (input) TSI148_BLT :: u32 where "TSI148_BLT \<equiv> 1"
abbreviation (input) TSI148_MBLT :: u32 where "TSI148_MBLT \<equiv> 2"
abbreviation (input) TSI148_2eVME :: u32 where "TSI148_2eVME \<equiv> 3"
abbreviation (input) TSI148_2eSST :: u32 where "TSI148_2eSST \<equiv> 4"
abbreviation (input) TSI148_2eSSTB :: u32 where "TSI148_2eSSTB \<equiv> 5"
abbreviation (input) TSI148_DW_16 :: u32 where "TSI148_DW_16 \<equiv> 0"
abbreviation (input) TSI148_DW_32 :: u32 where "TSI148_DW_32 \<equiv> 1"

record am_attr =
  addr_size :: u32
  transfer_mode :: u32
  data_access :: u32
  user_access :: u32

definition mk_attr :: "u32 \<Rightarrow> u32 \<Rightarrow> u32 \<Rightarrow> u32 \<Rightarrow> am_attr" where
  "mk_attr s t d u = \<lparr>addr_size = s, transfer_mode = t, data_access = d, user_access = u\<rparr>"

text \<open>
  The cases of the \<open>switch\<close> of \<open>am_to_attr\<close>, in its order: for each address modifier the address
  size, the transfer mode, the data access and the user access.
\<close>

definition am_attr_cases :: "(u32 \<times> am_attr) list" where
  "am_attr_cases =
    [(VME_A16_USER, mk_attr TSI148_A16 TSI148_SCT TSI148_DATA TSI148_USER),
     (VME_A16_SUP, mk_attr TSI148_A16 TSI148_SCT TSI148_DATA TSI148_SUPER),
     (VME_A24_USER_MBLT, mk_attr TSI148_A24 TSI148_MBLT TSI148_DATA TSI148_USER),
     (VME_A24_USER_DATA_SCT, mk_attr TSI148_A24 TSI148_SCT TSI148_DATA TSI148_USER),
     (VME_A24_USER_PRG_SCT, mk_attr TSI148_A24 TSI148_SCT TSI148_PROG TSI148_USER),
     (VME_A24_USER_BLT, mk_attr TSI148_A24 TSI148_BLT TSI148_DATA TSI148_USER),
     (VME_A24_SUP_MBLT, mk_attr TSI148_A24 TSI148_MBLT TSI148_DATA TSI148_SUPER),
     (VME_A24_SUP_DATA_SCT, mk_attr TSI148_A24 TSI148_SCT TSI148_DATA TSI148_SUPER),
     (VME_A24_SUP_PRG_SCT, mk_attr TSI148_A24 TSI148_SCT TSI148_PROG TSI148_SUPER),
     (VME_A24_SUP_BLT, mk_attr TSI148_A24 TSI148_BLT TSI148_DATA TSI148_SUPER),
     (VME_A32_USER_MBLT, mk_attr TSI148_A32 TSI148_MBLT TSI148_DATA TSI148_USER),
     (VME_A32_USER_DATA_SCT, mk_attr TSI148_A32 TSI148_SCT TSI148_DATA TSI148_USER),
     (VME_A32_USER_PRG_SCT, mk_attr TSI148_A32 TSI148_SCT TSI148_PROG TSI148_USER),
     (VME_A32_USER_BLT, mk_attr TSI148_A32 TSI148_BLT TSI148_DATA TSI148_USER),
     (VME_A32_SUP_MBLT, mk_attr TSI148_A32 TSI148_MBLT TSI148_DATA TSI148_SUPER),
     (VME_A32_SUP_DATA_SCT, mk_attr TSI148_A32 TSI148_SCT TSI148_DATA TSI148_SUPER),
     (VME_A32_SUP_PRG_SCT, mk_attr TSI148_A32 TSI148_SCT TSI148_PROG TSI148_SUPER),
     (VME_A32_SUP_BLT, mk_attr TSI148_A32 TSI148_BLT TSI148_DATA TSI148_SUPER),
     (VME_A64_SCT, mk_attr TSI148_A64 TSI148_SCT TSI148_DATA TSI148_SUPER),
     (VME_A64_BLT, mk_attr TSI148_A64 TSI148_BLT TSI148_DATA TSI148_SUPER),
     (VME_A64_MBLT, mk_attr TSI148_A64 TSI148_MBLT TSI148_DATA TSI148_SUPER),
     (VME_CR_CSR, mk_attr TSI148_CRCSR TSI148_SCT TSI148_DATA TSI148_USER)]"

text \<open>\<open>am_to_attr\<close>: \<open>None\<close> is the \<open>default\<close> branch, which returns \<open>-1\<close>.\<close>

definition am_to_attr :: "u32 \<Rightarrow> am_attr option" where
  "am_to_attr am = map_of am_attr_cases am"

text \<open>\<open>attr_to_am\<close> assigns through its pointer in some branches only: the last argument is the
  value the caller's variable had before.\<close>

definition attr_to_am :: "am_attr \<Rightarrow> u32 \<Rightarrow> u32" where
  "attr_to_am a am =
    (if addr_size a = TSI148_A16 then
       (if user_access a = TSI148_USER then VME_A16_USER else VME_A16_SUP)
     else if addr_size a = TSI148_A24 then
       (if user_access a = TSI148_USER then
          (if transfer_mode a = TSI148_SCT then
             (if data_access a = TSI148_DATA then VME_A24_USER_DATA_SCT else VME_A24_USER_PRG_SCT)
           else if transfer_mode a = TSI148_BLT then VME_A24_USER_BLT
           else if transfer_mode a = TSI148_MBLT then VME_A24_USER_MBLT
           else am)
        else if user_access a = TSI148_SUPER then
          (if transfer_mode a = TSI148_SCT then
             (if data_access a = TSI148_DATA then VME_A24_SUP_DATA_SCT else VME_A24_SUP_PRG_SCT)
           else if transfer_mode a = TSI148_BLT then VME_A24_SUP_BLT
           else if transfer_mode a = TSI148_MBLT then VME_A24_SUP_MBLT
           else am)
        else am)
     else if addr_size a = TSI148_A32 then
       (if user_access a = TSI148_USER then
          (if transfer_mode a = TSI148_SCT then
             (if data_access a = TSI148_DATA then VME_A32_USER_DATA_SCT else VME_A32_USER_PRG_SCT)
           else if transfer_mode a = TSI148_BLT then VME_A32_USER_BLT
           else if transfer_mode a = TSI148_MBLT then VME_A32_USER_MBLT
           else am)
        else if user_access a = TSI148_SUPER then
          (if transfer_mode a = TSI148_SCT then
             (if data_access a = TSI148_DATA then VME_A32_SUP_DATA_SCT else VME_A32_SUP_PRG_SCT)
           else if transfer_mode a = TSI148_BLT then VME_A32_SUP_BLT
           else if transfer_mode a = TSI148_MBLT then VME_A32_SUP_MBLT
           else am)
        else am)
     else if addr_size a = TSI148_A64 then
       (if transfer_mode a = TSI148_SCT then VME_A64_SCT
        else if transfer_mode a = TSI148_BLT then VME_A64_BLT
        else if transfer_mode a = TSI148_MBLT then VME_A64_MBLT
        else am)
     else if addr_size a = TSI148_CRCSR then VME_CR_CSR
     else am)"

section \<open>64-bit arithmetic on register pairs\<close>

definition sub64hi :: "u32 \<Rightarrow> u32 \<Rightarrow> u32 \<Rightarrow> u32 \<Rightarrow> u32" where
  "sub64hi lo0 hi0 lo1 hi1 = (if lo0 < lo1 then hi0 - hi1 - 1 else hi0 - hi1)"

definition add64hi :: "u32 \<Rightarrow> u32 \<Rightarrow> u32 \<Rightarrow> u32 \<Rightarrow> u32" where
  "add64hi lo0 hi0 lo1 hi1 = (if lo0 + lo1 < lo1 then hi0 + hi1 + 1 else hi0 + hi1)"

section \<open>Attribute words\<close>

text \<open>
  The two attribute words have the same layout but for the width of the 2eSST field: the mask
  is the parameter \<open>sstm\<close>. The word is built field by field, each field shifted into place and
  masked, after its value was checked. An error is \<open>Inl\<close>.
\<close>

definition attr_fields :: "u32 \<Rightarrow> u32 \<Rightarrow> u32 \<Rightarrow> am_attr \<Rightarrow> u32" where
  "attr_fields sstm v2esst_mode dbw a =
     (push_bit 11 v2esst_mode AND sstm)
     OR (push_bit 6 dbw AND 0xc0)
     OR (push_bit 8 (transfer_mode a) AND 0x700)
     OR (if user_access a = TSI148_SUPER then 0x20 else 0)
     OR (if data_access a = TSI148_PROG then 0x10 else 0)
     OR (addr_size a AND 0xf)"

definition setup_attributes :: "u32 \<Rightarrow> u32 \<Rightarrow> u32 \<Rightarrow> u32 \<Rightarrow> errno + u32" where
  "setup_attributes sstm v2esst_mode data_width am =
     (if v2esst_mode \<notin> set [VME_SST160, VME_SST267, VME_SST320] then Inl EINVAL
      else if data_width \<noteq> VME_D16 \<and> data_width \<noteq> VME_D32 then Inl EINVAL
      else case am_to_attr am of
        None \<Rightarrow> Inl EINVAL
      | Some a \<Rightarrow>
          if transfer_mode a \<notin> set [TSI148_SCT, TSI148_BLT, TSI148_MBLT, TSI148_2eVME,
                TSI148_2eSST, TSI148_2eSSTB] then Inl EINVAL
          else if user_access a \<noteq> TSI148_SUPER \<and> user_access a \<noteq> TSI148_USER then Inl EINVAL
          else if data_access a \<noteq> TSI148_PROG \<and> data_access a \<noteq> TSI148_DATA then Inl EINVAL
          else if addr_size a \<notin> set [TSI148_A16, TSI148_A24, TSI148_A32, TSI148_A64, TSI148_CRCSR,
                TSI148_USER1, TSI148_USER2, TSI148_USER3, TSI148_USER4] then Inl EINVAL
          else Inr (attr_fields sstm v2esst_mode
                 (if data_width = VME_D16 then TSI148_DW_16 else TSI148_DW_32) a))"

text \<open>\<open>TSI148_LCSR_DSAT_2eSSTM_M\<close> is \<open>3 << 11\<close>, \<open>TSI148_LCSR_OTAT_2eSSTM_M\<close> is \<open>7 << 11\<close>.\<close>

definition tsi148_setup_dma_attributes :: "u32 \<Rightarrow> u32 \<Rightarrow> u32 \<Rightarrow> errno + u32" where
  "tsi148_setup_dma_attributes v2esst_mode data_width am =
     setup_attributes 0x1800 v2esst_mode data_width am"

definition tsi148_setup_window_attributes :: "u32 \<Rightarrow> u32 \<Rightarrow> u32 \<Rightarrow> errno + u32" where
  "tsi148_setup_window_attributes v2esst_mode data_width am =
     setup_attributes 0x3800 v2esst_mode data_width am"

text \<open>The fields of an attribute word, as \<open>tsi148_get_window_attr\<close> reads them back.\<close>

definition attr_of_word :: "u32 \<Rightarrow> am_attr" where
  "attr_of_word w = \<lparr>addr_size = w AND 0xf,
     transfer_mode = drop_bit 8 (w AND 0x700),
     data_access = (if w AND 0x10 \<noteq> 0 then TSI148_PROG else TSI148_DATA),
     user_access = (if w AND 0x20 \<noteq> 0 then TSI148_SUPER else TSI148_USER)\<rparr>"

section \<open>Properties\<close>

lemma am_attr_cases_mem:
  "am_to_attr am = Some a \<Longrightarrow> (am, a) \<in> set am_attr_cases"
  by (auto simp: am_to_attr_def dest: map_of_SomeD)

lemma am_attr_cases_all:
  assumes "am_to_attr am = Some a" and "\<forall>(m, b) \<in> set am_attr_cases. P m b"
  shows "P am a"
  using am_attr_cases_mem [OF assms(1)] assms(2) by auto

lemma attr_to_am_all: "\<forall>(m, b) \<in> set am_attr_cases. attr_to_am b x = m"
  by (simp add: am_attr_cases_def mk_attr_def attr_to_am_def)

text \<open>
  The conversion of an address modifier to the chip's fields is undone by the conversion back,
  whatever the caller's variable held before.
\<close>

lemma attr_to_am_am_to_attr: "am_to_attr am = Some a \<Longrightarrow> attr_to_am a x = am"
  using am_attr_cases_all [OF _ attr_to_am_all] by blast

interpretation am: codec "\<lambda>am. the (am_to_attr am)" "\<lambda>a. Some (attr_to_am a 0xffffffff)"
  "\<lambda>am. am_to_attr am \<noteq> None"
  by unfold_locales (auto simp: attr_to_am_am_to_attr)

lemma am_attr_fields_valid:
  "\<forall>(m, b) \<in> set am_attr_cases. transfer_mode b \<in> {0, 1, 2} \<and> user_access b \<in> {0, 1}
     \<and> data_access b \<in> {0, 1} \<and> addr_size b \<in> {0, 1, 2, 4, 5}"
  by (simp add: am_attr_cases_def mk_attr_def)

lemma am_to_attr_valid:
  assumes "am_to_attr am = Some a"
  shows "transfer_mode a \<in> {0, 1, 2}" "user_access a \<in> {0, 1}" "data_access a \<in> {0, 1}"
    "addr_size a \<in> {0, 1, 2, 4, 5}"
  using am_attr_cases_all [OF assms am_attr_fields_valid] by blast+

text \<open>So the checks after \<open>am_to_attr\<close> never fail.\<close>

lemma setup_attributes_eq:
  "setup_attributes sstm sst dw am =
     (case am_to_attr am of
        Some a \<Rightarrow> if sst \<in> {0, 1, 2} \<and> (dw = 16 \<or> dw = 32)
          then Inr (attr_fields sstm sst (if dw = 16 then 0 else 1) a) else Inl EINVAL
      | None \<Rightarrow> Inl EINVAL)"
proof (cases "am_to_attr am")
  case (Some a)
  with am_to_attr_valid [OF Some] show ?thesis by (auto simp: setup_attributes_def)
qed (auto simp: setup_attributes_def)

text \<open>The fields occupy disjoint bits: masking the word masks each field.\<close>

lemma attr_fields_and:
  "attr_fields sstm sst dbw a AND m =
     (push_bit 11 sst AND (sstm AND m)) OR (push_bit 6 dbw AND (0xc0 AND m))
     OR (push_bit 8 (transfer_mode a) AND (0x700 AND m))
     OR (if user_access a = 1 then 0x20 AND m else 0) OR (if data_access a = 1 then 0x10 AND m else 0)
     OR (addr_size a AND (0xf AND m))"
  by (simp add: attr_fields_def bit.conj_disj_distrib2 and.assoc)

lemma attr_fields_decode:
  assumes "am_to_attr am = Some a" and "sst \<in> {0, 1, 2}" and "dbw \<in> {0, 1}"
    and "sstm = 0x1800 \<or> sstm = 0x3800"
  shows "attr_of_word (attr_fields sstm sst dbw a) = a"
    "drop_bit 11 (attr_fields sstm sst dbw a AND sstm) = sst"
    "drop_bit 6 (attr_fields sstm sst dbw a AND 0xc0) = dbw"
    "attr_fields sstm sst dbw a AND 0x3fff = attr_fields sstm sst dbw a"
proof -
  note v = am_to_attr_valid [OF assms(1)]
  have m: "sstm AND 0xf = 0" "sstm AND 0x700 = 0" "sstm AND 0x10 = 0" "sstm AND 0x20 = 0"
    "sstm AND 0xc0 = 0" "0xc0 AND sstm = 0" "0x700 AND sstm = 0" "0x20 AND sstm = 0"
    "0x10 AND sstm = 0" "0xf AND sstm = 0" "sstm AND 0x3fff = sstm"
    using assms(4) by auto
  show "drop_bit 11 (attr_fields sstm sst dbw a AND sstm) = sst"
    unfolding attr_fields_and m using assms(2,4) by auto
  show "drop_bit 6 (attr_fields sstm sst dbw a AND 0xc0) = dbw"
    unfolding attr_fields_and m using assms(3) by auto
  show "attr_fields sstm sst dbw a AND 0x3fff = attr_fields sstm sst dbw a"
    unfolding attr_fields_and m by (simp add: attr_fields_def)
  have "attr_fields sstm sst dbw a AND 0xf = addr_size a"
    unfolding attr_fields_and m using v(4) by auto
  moreover have "drop_bit 8 (attr_fields sstm sst dbw a AND 0x700) = transfer_mode a"
    unfolding attr_fields_and m using v(1) by auto
  moreover have "(attr_fields sstm sst dbw a AND 0x10 \<noteq> 0) = (data_access a = 1)"
    unfolding attr_fields_and m by simp
  moreover have "(attr_fields sstm sst dbw a AND 0x20 \<noteq> 0) = (user_access a = 1)"
    unfolding attr_fields_and m by simp
  ultimately show "attr_of_word (attr_fields sstm sst dbw a) = a"
    unfolding attr_of_word_def using v(2,3) by (cases a) auto
qed

text \<open>
  A register pair read as one 64-bit number. The carry and the borrow that \<open>add64hi\<close> and
  \<open>sub64hi\<close> compute make the pair arithmetic agree with 64-bit arithmetic, wrap-around
  included.
\<close>

lemma reg_join_of_nat: "reg_join h l = of_nat (unat h * 2 ^ 32 + unat l)"
proof -
  have "reg_join h l = push_bit 32 (ucast h) + ucast l"
    unfolding reg_join_def
    by (rule disjunctive_add [symmetric]) (auto simp: bit_simps)
  then show ?thesis
    by (simp add: push_bit_eq_mult)
qed

lemma of_nat_hi: "(of_nat (n mod 2 ^ 32 * 2 ^ 32 + m) :: u64) = of_nat (n * 2 ^ 32 + m)"
proof -
  have "(n mod 2 ^ 32 * 2 ^ 32 + m) mod 2 ^ 64 = (n * 2 ^ 32 + m) mod 2 ^ 64"
    by (rule mod_add_cong) (simp_all add: mult_mod_left)
  then show ?thesis
    unfolding word_of_nat_eq_iff take_bit_eq_mod by simp
qed

lemma add64_join: "reg_join (add64hi lo0 hi0 lo1 hi1) (lo0 + lo1) = reg_join hi0 lo0 + reg_join hi1 lo1"
proof -
  let ?A = "unat hi0 + unat hi1" and ?B = "unat lo0 + unat lo1"
  have rhs: "reg_join hi0 lo0 + reg_join hi1 lo1 = of_nat (?A * 2 ^ 32 + ?B)"
    by (simp add: reg_join_of_nat algebra_simps)
  have b: "unat lo0 < 2 ^ 32" "unat lo1 < 2 ^ 32" using unsigned_less [of lo0] unsigned_less [of lo1] by simp_all
  show ?thesis
  proof (cases "lo0 + lo1 < lo1")
    case True
    then have c: "?B \<ge> 2 ^ 32" and l: "unat (lo0 + lo1) + 2 ^ 32 = ?B"
      using b by (auto simp: word_less_nat_alt unat_word_ariths mod_if split: if_splits)
    have "unat (hi0 + hi1 + 1) = (?A + 1) mod 2 ^ 32" by (simp add: unat_word_ariths mod_simps)
    then have "reg_join (hi0 + hi1 + 1) (lo0 + lo1) = of_nat ((?A + 1) * 2 ^ 32 + unat (lo0 + lo1))"
      unfolding reg_join_of_nat by (simp only: of_nat_hi)
    also have "(?A + 1) * 2 ^ 32 + unat (lo0 + lo1) = ?A * 2 ^ 32 + ?B" using l by simp
    finally show ?thesis using True rhs by (simp add: add64hi_def)
  next
    case False
    then have l: "unat (lo0 + lo1) = ?B"
      using b by (auto simp: word_less_nat_alt unat_word_ariths mod_if split: if_splits)
    have "unat (hi0 + hi1) = ?A mod 2 ^ 32" by (simp add: unat_word_ariths)
    then have "reg_join (hi0 + hi1) (lo0 + lo1) = of_nat (?A * 2 ^ 32 + ?B)"
      unfolding reg_join_of_nat l by (simp only: of_nat_hi)
    then show ?thesis using False rhs by (simp add: add64hi_def)
  qed
qed

lemma sub64_join: "reg_join (sub64hi lo0 hi0 lo1 hi1) (lo0 - lo1) = reg_join hi0 lo0 - reg_join hi1 lo1"
proof -
  have hi: "add64hi (lo0 - lo1) (sub64hi lo0 hi0 lo1 hi1) lo1 hi1 = hi0"
    by (simp add: add64hi_def sub64hi_def)
  have "reg_join (sub64hi lo0 hi0 lo1 hi1) (lo0 - lo1) + reg_join hi1 lo1 = reg_join hi0 lo0"
    using add64_join [of "lo0 - lo1" "sub64hi lo0 hi0 lo1 hi1" lo1 hi1] hi by simp
  then show ?thesis by (simp add: eq_diff_eq)
qed
end
