(* ===== verification/Tsi148_Init.thy ===== *)
theory Tsi148_Init
  imports Tsi148_Attr
begin

text \<open>
  The CRG image of the TSI148 on the VME bus, quiescing the chip and initialising it
  (\<open>tsi148.c\<close>). The results: a failed \<open>tsi148_setup_crg\<close> leaves no base address behind, the
  attribute word of the image is enabled and carries the space of the address modifier, and a
  quiesced chip decodes nothing.
\<close>

section \<open>The CRG image\<close>

text \<open>\<open>am_to_crgattrs\<close>: the attribute bits of the image, \<open>Inl\<close> for an unusable modifier.\<close>

definition am_to_crgattrs :: "u32 \<Rightarrow> errno + u32" where
  "am_to_crgattrs am =
     (case am_to_attr am of
        None \<Rightarrow> Inl EINVAL
      | Some a \<Rightarrow>
          (if addr_size a \<notin> set [TSI148_A16, TSI148_A24, TSI148_A32, TSI148_A64] then Inl EINVAL
           else if data_access a \<noteq> TSI148_PROG \<and> data_access a \<noteq> TSI148_DATA then Inl EINVAL
           else if user_access a \<noteq> TSI148_SUPER \<and> user_access a \<noteq> TSI148_USER then Inl EINVAL
           else Inr ((if addr_size a = TSI148_A16 then 0x00
                      else if addr_size a = TSI148_A24 then 0x10
                      else if addr_size a = TSI148_A32 then 0x20
                      else 0x40)
                     OR (if data_access a = TSI148_PROG then 0x2 else 0x1)
                     OR (if user_access a = TSI148_SUPER then 0x8 else 0x4))))"

definition tsi148_setup_crg :: "u32 \<Rightarrow> u32 \<Rightarrow> tsi148_lcsr \<Rightarrow> rc \<times> tsi148_lcsr" where
  "tsi148_setup_crg vme_base am c =
     (let c1 = c\<lparr>cbau := 0, cbal := vme_base\<rparr>
      in case am_to_crgattrs am of
           Inl e \<Rightarrow> (Err EPERM, c1\<lparr>cbal := 0\<rparr>)
         | Inr attrs \<Rightarrow> (OK, c1\<lparr>crgat := attrs OR 0x80\<rparr>))"

definition tsi148_disable_crg :: "tsi148_lcsr \<Rightarrow> tsi148_lcsr" where
  "tsi148_disable_crg c = c\<lparr>crgat := 0, cbau := 0, cbal := 0\<rparr>"

section \<open>Quiescing and initialising\<close>

text \<open>The first loop of \<open>tsi148_quiesce\<close>: both decoders of each window are switched off.\<close>

definition quiesce_windows :: "tsi148_lcsr \<Rightarrow> tsi148_lcsr" where
  "quiesce_windows c = fold (\<lambda>i c. otrans_write i (\<lambda>t. t\<lparr>otat := 0\<rparr>)
     (itrans_write i (\<lambda>t. t\<lparr>itat := 0\<rparr>) c)) [0..<TSI148_NUM_OUT_WINDOWS] c"

text \<open>The second loop: the chains of the DMA channels are cut.\<close>

definition quiesce_dma :: "tsi148_lcsr \<Rightarrow> tsi148_lcsr" where
  "quiesce_dma c = fold (\<lambda>i. dma_write i
     (\<lambda>d. d\<lparr>dma_desc := (dma_desc d)\<lparr>dnlau := 0, dnlal := 0, dcnt := 0\<rparr>\<rparr>))
     [0..<TSI148_NUM_DMA_CHANNELS] c"

definition tsi148_quiesce :: "tsi148_hw \<Rightarrow> tsi148_lcsr \<Rightarrow> tsi148_lcsr" where
  "tsi148_quiesce hw c =
     (let c = quiesce_windows c;
          c = quiesce_dma c;
          c = c\<lparr>lmat := 0\<rparr>;
          c = tsi148_disable_crg c;
          c = c\<lparr>edpat := hw_edpat hw (edpat c) TSI148_LCSR_EDPAT_EDPCL\<rparr>;
          c = c\<lparr>veat := hw_veat hw (veat c) TSI148_LCSR_VEAT_VESCL\<rparr>;
          c = c\<lparr>pstat := hw_pstat hw (pstat c) 0x7000700\<rparr>;
          c = c\<lparr>vicr := hw_vicr hw (vicr c) TSI148_LCSR_VICR_IRQC\<rparr>;
          c = c\<lparr>inteo := hw_inteo hw (inteo c) 0\<rparr>;
          c = c\<lparr>intc := hw_intc hw (intc c) 0xffffffff\<rparr>;
          c = c\<lparr>inten := hw_inten hw (inten c) 0xffffffff\<rparr>;
          c = c\<lparr>intm1 := 0, intm2 := 0\<rparr>;
          val = (vmctrl c AND NOT (0x700 OR 0x18)) OR (0x700 OR 0x18)
      in c\<lparr>vmctrl := val\<rparr>)"

definition tsi148_init :: "tsi148_hw \<Rightarrow> tsi148_lcsr \<Rightarrow> tsi148_lcsr" where
  "tsi148_init hw c =
     c\<lparr>vstat := hw_vstat hw (vstat c) ((vstat c AND NOT 0x4000) OR 0x8000)\<rparr>"

section \<open>Properties\<close>

lemma setup_crg_cases:
  "tsi148_setup_crg base am c = (r, c') \<Longrightarrow>
     (r = OK \<and> (\<exists>at. am_to_crgattrs am = Inr at \<and> cbau c' = 0 \<and> cbal c' = base \<and> crgat c' = at OR 0x80))
     \<or> (r = Err EPERM \<and> (\<exists>e. am_to_crgattrs am = Inl e) \<and> cbal c' = 0 \<and> crgat c' = crgat c)"
  by (auto simp: tsi148_setup_crg_def Let_def split: sum.splits)

lemma setup_crg_frame [chip_simps]:
  "otrans (snd (tsi148_setup_crg base am c)) = otrans c"
  "wf_lcsr (snd (tsi148_setup_crg base am c)) = wf_lcsr c"
  "otrans (tsi148_disable_crg c) = otrans c" "wf_lcsr (tsi148_disable_crg c) = wf_lcsr c"
  by (auto simp: tsi148_setup_crg_def tsi148_disable_crg_def wf_lcsr_def Let_def split: sum.splits)

text \<open>The bits of \<open>am_to_crgattrs\<close> fit the attribute register beside its enable bit.\<close>

lemma am_to_crgattrs_bound:
  assumes "am_to_crgattrs am = Inr at"
  shows "at AND 0x7f = at"
  using assms unfolding am_to_crgattrs_def
  by (auto split: option.splits if_splits)

lemma upt_8 [chip_simps]: "[0..<8] = [0, 1, 2, 3, 4, 5, 6, 7]" and upt_2 [chip_simps]: "[0..<2] = [0, Suc 0]"
  by (simp_all add: upt_rec)

lemma quiesce_windows_off:
  assumes "wf_lcsr c" and "i < 8"
  shows "otat (otrans (quiesce_windows c) ! i) = 0" "itat (itrans (quiesce_windows c) ! i) = 0"
proof -
  have l: "length (otrans c) = 8" "length (itrans c) = 8" using assms by (simp_all add: wf_lcsr_def)
  have "\<forall>j \<in> set [0..<8]. otat (otrans (quiesce_windows c) ! j) = 0 \<and> itat (itrans (quiesce_windows c) ! j) = 0"
    by (simp add: quiesce_windows_def chip_simps l)
  then show "otat (otrans (quiesce_windows c) ! i) = 0" "itat (itrans (quiesce_windows c) ! i) = 0"
    using assms(2) by auto
qed

lemma quiesce_windows_frame [chip_simps]:
  "dma_regs (quiesce_windows c) = dma_regs c" "wf_lcsr (quiesce_windows c) = wf_lcsr c"
  by (simp_all add: quiesce_windows_def chip_simps)

lemma quiesce_dma_frame [chip_simps]:
  "otrans (quiesce_dma c) = otrans c" "itrans (quiesce_dma c) = itrans c"
  "wf_lcsr (quiesce_dma c) = wf_lcsr c"
  by (simp_all add: quiesce_dma_def chip_simps)

lemma quiesce_dma_cut:
  assumes "wf_lcsr c" and "i < 2"
  shows "dnlal (dma_desc (dma_regs (quiesce_dma c) ! i)) = 0"
    "dcnt (dma_desc (dma_regs (quiesce_dma c) ! i)) = 0"
proof -
  have l: "length (dma_regs c) = 2" using assms by (simp add: wf_lcsr_def)
  have "i = 0 \<or> i = Suc 0" using assms(2) by arith
  then show "dnlal (dma_desc (dma_regs (quiesce_dma c) ! i)) = 0"
    "dcnt (dma_desc (dma_regs (quiesce_dma c) ! i)) = 0"
    by (auto simp: quiesce_dma_def chip_simps l)
qed

lemma tsi148_quiesce_arrays:
  "otrans (tsi148_quiesce hw c) = otrans (quiesce_windows c)"
  "itrans (tsi148_quiesce hw c) = itrans (quiesce_windows c)"
  "dma_regs (tsi148_quiesce hw c) = dma_regs (quiesce_dma (quiesce_windows c))"
  by (simp_all add: tsi148_quiesce_def tsi148_disable_crg_def Let_def chip_simps)

lemma wf_tsi148_quiesce: "wf_lcsr c \<Longrightarrow> wf_lcsr (tsi148_quiesce hw c)"
  using quiesce_windows_frame(2) [of c] quiesce_dma_frame(3) [of "quiesce_windows c"]
  by (simp add: wf_lcsr_def tsi148_quiesce_arrays chip_simps)

lemma wf_tsi148_init: "wf_lcsr (tsi148_init hw c) = wf_lcsr c"
  "otrans (tsi148_init hw c) = otrans c"
  by (simp_all add: tsi148_init_def wf_lcsr_def)

end
