(* ===== verification/Tsi148_Window.thy ===== *)
theory Tsi148_Window
  imports Tsi148_Init
begin

text \<open>
  Outbound windows of the TSI148 (\<open>tsi148.c\<close>): programming a window, reading its attributes
  back, removing it. The hardware's side, \<open>otrans_decodes\<close> and \<open>otrans_translate\<close>, is how the
  chip interprets the eight registers of a window: it decodes a PCI address whose 64K page
  lies between the starting and the ending address, and puts the sum of address and offset on
  the VME bus. The results: a programmed window translates exactly its PCI range to its VME
  range, and what can be read back from the chip is what was programmed, but for the size.
\<close>

section \<open>Window operations\<close>

abbreviation (input) TSI148_LCSR_OTAT_EN :: u32 where "TSI148_LCSR_OTAT_EN \<equiv> 0x80000000"
abbreviation (input) TSI148_LCSR_OTAT_MRPFD :: u32 where "TSI148_LCSR_OTAT_MRPFD \<equiv> 0x40000"
abbreviation (input) TSI148_LCSR_OTAT_PFS_M :: u32 where "TSI148_LCSR_OTAT_PFS_M \<equiv> 0x30000"

text \<open>
  \<open>tsi148_get_window_attr\<close>. The \<open>switch\<close> on the data width compares the field, shifted down to
  bit 0, with the enumerators \<open>0 << 6\<close> and \<open>1 << 6\<close>.
\<close>

definition tsi148_get_window_attr :: "vme_mapping \<Rightarrow> tsi148_lcsr \<Rightarrow> vme_mapping" where
  "tsi148_get_window_attr desc c =
     (let trans = otrans c ! nat (vm_window_num desc);
          at = otat trans;
          d = (if at AND TSI148_LCSR_OTAT_EN \<noteq> 0 then desc\<lparr>vm_window_enabled := 1\<rparr> else desc);
          d = (if at AND TSI148_LCSR_OTAT_MRPFD = 0 then d\<lparr>vm_read_prefetch_enabled := 1\<rparr> else d);
          d = d\<lparr>vm_read_prefetch_size := drop_bit 16 (at AND TSI148_LCSR_OTAT_PFS_M)\<rparr>;
          d = d\<lparr>vm_v2esst_mode := drop_bit 11 (at AND 0x3800)\<rparr>;
          dbw = drop_bit 6 (at AND 0xc0);
          d = (if dbw = 0 then d\<lparr>vm_data_width := VME_D16\<rparr>
               else if dbw = 0x40 then d\<lparr>vm_data_width := VME_D32\<rparr> else d);
          d = d\<lparr>vm_bcast_select := otbs trans\<rparr>;
          a = attr_of_word at;
          d = d\<lparr>vm_am := attr_to_am a 0xffffffff\<rparr>;
          d = d\<lparr>vm_pci_addrl := otsal trans, vm_pci_addru := otsau trans\<rparr>;
          d = d\<lparr>vm_sizel := oteal trans - otsal trans,
                 vm_sizeu := sub64hi (oteal trans) (oteau trans) (otsal trans) (otsau trans)\<rparr>;
          d = d\<lparr>vm_vme_addrl := otofl trans + otsal trans\<rparr>
      in d\<lparr>vm_vme_addru := (if addr_size a = TSI148_A64
            then add64hi (otofl trans) (otofu trans) (otsal trans) (otsau trans) else 0)\<rparr>)"

text \<open>The sanity part of \<open>tsi148_create_window\<close>: VME address and size to 64K boundaries.\<close>

definition window_realign :: "vme_mapping \<Rightarrow> vme_mapping" where
  "window_realign desc =
     (let addr = (if vm_vme_addrl desc AND 0xffff \<noteq> 0 then align_down 16 (vm_vme_addrl desc)
                  else vm_vme_addrl desc);
          size = (if vm_sizel desc AND 0xffff \<noteq> 0
                  then align_down 16 (vm_vme_addrl desc + vm_sizel desc + 0x10000)
                  else vm_sizel desc)
      in desc\<lparr>vm_vme_addrl := addr, vm_sizel := size\<rparr>)"

text \<open>The attribute register of the window, from the attribute word \<open>attrs\<close>.\<close>

definition window_otat :: "vme_mapping \<Rightarrow> u32 \<Rightarrow> u32" where
  "window_otat d attrs =
     (let at = attrs OR TSI148_LCSR_OTAT_EN
      in if vm_read_prefetch_enabled d \<noteq> 0
         then (at AND NOT TSI148_LCSR_OTAT_MRPFD)
                OR (push_bit 16 (vm_read_prefetch_size d) AND TSI148_LCSR_OTAT_PFS_M)
         else at OR TSI148_LCSR_OTAT_MRPFD)"

text \<open>The eight register writes of \<open>tsi148_create_window\<close>.\<close>

definition program_window :: "vme_mapping \<Rightarrow> u32 \<Rightarrow> tsi148_otrans \<Rightarrow> tsi148_otrans" where
  "program_window d attrs t =
     t\<lparr>otbs := vm_bcast_select d AND 0xfffff,
       otsal := vm_pci_addrl d AND 0xffff0000,
       otsau := vm_pci_addru d,
       oteal := align_down 16 (vm_pci_addrl d + vm_sizel d - 1),
       oteau := add64hi (vm_pci_addrl d) (vm_pci_addru d) (vm_sizel d) (vm_sizeu d),
       otofl := vm_vme_addrl d - vm_pci_addrl d,
       otofu := sub64hi (vm_vme_addrl d) (vm_vme_addru d) (vm_pci_addrl d) (vm_pci_addru d),
       otat := window_otat d attrs\<rparr>"

definition tsi148_create_window ::
    "vme_mapping \<Rightarrow> tsi148_lcsr \<Rightarrow> rc \<times> vme_mapping \<times> tsi148_lcsr" where
  "tsi148_create_window desc c =
     (let d = window_realign desc
      in if vm_pci_addrl d AND 0xffff \<noteq> 0 then (Err EINVAL, d, c)
         else case tsi148_setup_window_attributes (vm_v2esst_mode d) (vm_data_width d) (vm_am d) of
                Inl e \<Rightarrow> (Err e, d, c)
              | Inr attrs \<Rightarrow>
                  (OK, d\<lparr>vm_window_enabled := 1\<rparr>,
                   otrans_write (nat (vm_window_num d)) (program_window d attrs) c))"

definition zero_otrans :: tsi148_otrans where
  "zero_otrans = \<lparr>otsau = 0, otsal = 0, oteau = 0, oteal = 0, otofu = 0, otofl = 0, otbs = 0, otat = 0\<rparr>"

definition tsi148_remove_window :: "vme_mapping \<Rightarrow> tsi148_lcsr \<Rightarrow> vme_mapping \<times> tsi148_lcsr" where
  "tsi148_remove_window desc c =
     (desc\<lparr>vm_window_enabled := 0\<rparr>,
      otrans_write (nat (vm_window_num desc))
        (\<lambda>t. t\<lparr>otat := 0, otsal := 0, otsau := 0, oteal := 0, oteau := 0, otofl := 0, otofu := 0,
                otbs := 0\<rparr>) c)"

section \<open>What the chip does with a window\<close>

definition otrans_decodes :: "tsi148_otrans \<Rightarrow> u64 \<Rightarrow> bool" where
  "otrans_decodes t a \<longleftrightarrow> otat t AND TSI148_LCSR_OTAT_EN \<noteq> 0
     \<and> reg_join (otsau t) (otsal t) \<le> align_down 16 a
     \<and> align_down 16 a \<le> reg_join (oteau t) (oteal t)"

definition otrans_translate :: "tsi148_otrans \<Rightarrow> u64 \<Rightarrow> u64" where
  "otrans_translate t a = a + reg_join (otofu t) (otofl t)"

section \<open>Properties\<close>

lemma window_realign_aligned:
  "low_bits 16 (vm_vme_addrl (window_realign d)) = 0" "low_bits 16 (vm_sizel (window_realign d)) = 0"
  by (simp_all add: window_realign_def Let_def low_bits_literal)

lemma window_realign_id:
  assumes "low_bits 16 (vm_vme_addrl d) = 0" and "low_bits 16 (vm_sizel d) = 0"
  shows "window_realign d = d"
  using assms by (simp add: window_realign_def Let_def low_bits_literal)

lemma window_realign_frame [simp]:
  "vm_window_num (window_realign d) = vm_window_num d" "vm_kernel_va (window_realign d) = vm_kernel_va d"
  "vm_pci_addrl (window_realign d) = vm_pci_addrl d" "vm_pci_addru (window_realign d) = vm_pci_addru d"
  "vm_am (window_realign d) = vm_am d" "vm_data_width (window_realign d) = vm_data_width d"
  "vm_v2esst_mode (window_realign d) = vm_v2esst_mode d" "vm_sizeu (window_realign d) = vm_sizeu d"
  "vm_vme_addru (window_realign d) = vm_vme_addru d"
  by (simp_all add: window_realign_def Let_def)

lemma setup_window_attributes_InrD:
  assumes "tsi148_setup_window_attributes sst dw am = Inr attrs"
  obtains a where "am_to_attr am = Some a" "sst \<in> {0, 1, 2}" "dw = 16 \<or> dw = 32"
    "attrs = attr_fields 0x3800 sst (if dw = 16 then 0 else 1) a"
  using assms
  by (auto simp: tsi148_setup_window_attributes_def setup_attributes_eq split: option.splits if_splits)

lemma setup_window_attributes_Inl:
  "tsi148_setup_window_attributes sst dw am = Inl e \<Longrightarrow> e = EINVAL"
  by (auto simp: tsi148_setup_window_attributes_def setup_attributes_eq split: option.splits if_splits)

lemma create_window_OK:
  assumes "tsi148_create_window d c = (OK, d', c')"
  obtains attrs where
    "tsi148_setup_window_attributes (vm_v2esst_mode d) (vm_data_width d) (vm_am d) = Inr attrs"
    "d' = (window_realign d)\<lparr>vm_window_enabled := 1\<rparr>" "low_bits 16 (vm_pci_addrl d) = 0"
    "c' = otrans_write (nat (vm_window_num d)) (program_window (window_realign d) attrs) c"
  using assms by (auto simp: tsi148_create_window_def Let_def low_bits_literal split: if_splits sum.splits)

lemma create_window_Err:
  assumes "tsi148_create_window d c = (Err e, d', c')"
  shows "c' = c" "e = EINVAL" "d' = window_realign d"
  using assms
  by (auto simp: tsi148_create_window_def Let_def split: if_splits sum.splits
       dest: setup_window_attributes_Inl)

lemma program_window_overwrites: "program_window d attrs t = program_window d attrs t'"
  by (simp add: program_window_def)

lemma remove_window_zero:
  assumes "wf_lcsr c" and "nat (vm_window_num d) < 8"
  shows "otrans (snd (tsi148_remove_window d c)) ! nat (vm_window_num d) = zero_otrans"
  using assms by (simp add: tsi148_remove_window_def chip_simps wf_lcsr_def zero_otrans_def)

lemma and_bit_ne_0: "(x :: 'a::len word) AND 2 ^ n \<noteq> 0 \<longleftrightarrow> bit x n"
  by (simp add: and_exp_eq_0_iff_not_bit)

lemma otat_EN_bit: "(x :: u32) AND 0x80000000 \<noteq> 0 \<longleftrightarrow> bit x 31"
  using and_bit_ne_0 [of x 31] by simp

lemma bit_literals_31:
  "bit (0x80000000 :: u32) 31" "\<not> bit (0x40000 :: u32) 31" "bit (0xffff0000::u32) n = (16 \<le> n \<and> n < 32)"
proof -
  have eq: "(0xffff0000::u32) = NOT (mask 16)" by (simp add: mask_eq_exp_minus_1)
  show "bit (0xffff0000::u32) n = (16 \<le> n \<and> n < 32)" unfolding eq by (auto simp: bit_simps)
qed simp_all

lemma window_otat_enabled: "window_otat d attrs AND 0x80000000 \<noteq> 0"
  unfolding otat_EN_bit window_otat_def Let_def by (auto simp: bit_simps)

text \<open>Register pairs and masks as numbers.\<close>

lemma unat_reg_join: "unat (reg_join h l) = unat h * 2 ^ 32 + unat l"
proof -
  have "unat h < 2 ^ 32" and "unat l < 2 ^ 32"
    using unsigned_less [of h] unsigned_less [of l] by simp_all
  then have "unat h * 2 ^ 32 + unat l < 2 ^ 64" by simp
  then show ?thesis unfolding reg_join_of_nat unat_of_nat by simp
qed

lemma and_upper_half: "(x :: u32) AND 0xffff0000 = align_down 16 x"
proof -
  have "(0xffff0000 :: u32) = NOT (mask 16)" by (simp add: mask_eq_exp_minus_1)
  then show ?thesis by (simp only: align_down_def)
qed

text \<open>A 64-bit address lies in a page between two aligned bounds iff it lies between them.\<close>

lemma page_between:
  fixes s e a :: u64
  assumes "low_bits 16 s = 0" and "low_bits 16 e = 0"
  shows "s \<le> align_down 16 a \<and> align_down 16 a \<le> e \<longleftrightarrow> unat s \<le> unat a \<and> unat a < unat e + 0x10000"
proof -
  obtain i j where ij: "unat s = 0x10000 * i" "unat e = 0x10000 * j"
    using assms by (auto simp: low_bits_eq_0_iff dvd_def)
  obtain k r where a: "unat a = 0x10000 * k + r" "r < 0x10000"
    by (metis mult_div_mod_eq mod_less_divisor zero_less_numeral)
  have "unat (align_down 16 a) = 0x10000 * k"
    using a by (simp add: unat_align_down)
  then show ?thesis
    unfolding word_le_nat_alt ij a(1) using a(2) by simp arith
qed

lemma unat_align_last:
  fixes p s :: u32
  assumes "low_bits 16 p = 0" and "low_bits 16 s = 0" and "s \<noteq> 0" and "unat p + unat s < 2 ^ 32"
  shows "unat (align_down 16 (p + s - 1)) + 0x10000 = unat p + unat s"
proof -
  obtain i j where ij: "unat p = 0x10000 * i" "unat s = 0x10000 * j"
    using assms(1,2) by (auto simp: low_bits_eq_0_iff dvd_def)
  have j: "j \<noteq> 0" using assms(3) ij(2) by (metis mult_0_right unat_eq_0)
  have ps: "unat (p + s) = unat p + unat s" using assms(4) by (simp add: unat_word_ariths)
  then have "p + s \<noteq> 0" using assms(3) by (metis add_is_0 unat_eq_0)
  then have "unat (p + s - 1) = 0x10000 * (i + j) - 1"
    using ps ij by (simp add: unat_minus_one)
  moreover obtain m where "i + j = Suc m" using j by (metis add_is_0 not0_implies_Suc)
  ultimately show ?thesis using ij by (simp add: unat_align_down_mult)
qed

text \<open>The range of PCI addresses a programmed window decodes, and where they go.\<close>

lemma programmed_window_decodes:
  assumes "vm_pci_addru d = 0" and "vm_sizeu d = 0" and "low_bits 16 (vm_pci_addrl d) = 0"
    and "low_bits 16 (vm_sizel d) = 0" and "vm_sizel d \<noteq> 0"
    and "unat (vm_pci_addrl d) + unat (vm_sizel d) < 2 ^ 32"
  shows "otrans_decodes (program_window d attrs t) a \<longleftrightarrow>
    unat (vm_pci_addrl d) \<le> unat a \<and> unat a < unat (vm_pci_addrl d) + unat (vm_sizel d)"
proof -
  let ?t = "program_window d attrs t"
  let ?s = "reg_join (otsau ?t) (otsal ?t)" and ?e = "reg_join (oteau ?t) (oteal ?t)"
  have "unat (vm_pci_addrl d + vm_sizel d) = unat (vm_pci_addrl d) + unat (vm_sizel d)"
    using assms(6) by (simp add: unat_word_ariths)
  then have "\<not> vm_pci_addrl d + vm_sizel d < vm_sizel d" by (simp add: word_less_nat_alt)
  then have "oteau ?t = 0" using assms(1,2) by (simp add: program_window_def add64hi_def)
  then have ue: "unat ?e = unat (align_down 16 (vm_pci_addrl d + vm_sizel d - 1))"
    by (simp add: unat_reg_join program_window_def)
  have us: "unat ?s = unat (vm_pci_addrl d)"
    using assms(1,3) by (simp add: unat_reg_join program_window_def and_upper_half align_down_id)
  have "low_bits 16 ?s = 0" using us assms(3) by (simp add: low_bits_eq_0_iff)
  moreover have "low_bits 16 ?e = 0"
    using ue low_bits_align_down [of 16 "vm_pci_addrl d + vm_sizel d - 1"]
    by (simp only: low_bits_eq_0_iff)
  ultimately have "?s \<le> align_down 16 a \<and> align_down 16 a \<le> ?e \<longleftrightarrow>
      unat ?s \<le> unat a \<and> unat a < unat ?e + 0x10000"
    by (rule page_between)
  moreover have "otat ?t AND 0x80000000 \<noteq> 0"
    using window_otat_enabled by (simp add: program_window_def)
  ultimately show ?thesis
    unfolding otrans_decodes_def us ue unat_align_last [OF assms(3,4,5,6)] by simp
qed

lemma programmed_window_translates:
  "otrans_translate (program_window d attrs t) (reg_join (vm_pci_addru d) (vm_pci_addrl d) + off)
     = reg_join (vm_vme_addru d) (vm_vme_addrl d) + off"
  by (simp add: otrans_translate_def program_window_def sub64_join)


text \<open>The attribute register keeps the attribute word beside its own bits.\<close>

lemma window_otat_fields:
  "window_otat d attrs AND 0xf = attrs AND 0xf" "window_otat d attrs AND 0x10 = attrs AND 0x10"
  "window_otat d attrs AND 0x20 = attrs AND 0x20" "window_otat d attrs AND 0xc0 = attrs AND 0xc0"
  "window_otat d attrs AND 0x700 = attrs AND 0x700" "window_otat d attrs AND 0x3800 = attrs AND 0x3800"
  by (simp_all add: window_otat_def Let_def bit.conj_disj_distrib2 and.assoc)

lemma attr_of_word_window_otat: "attr_of_word (window_otat d attrs) = attr_of_word attrs"
  by (simp add: attr_of_word_def window_otat_fields)

lemma align_down_pred:
  fixes x :: u32
  assumes "low_bits 16 x = 0"
  shows "align_down 16 (x - 1) = x - 0x10000"
proof (cases "x = 0")
  case True
  have "(- 1 :: u32) AND NOT (mask 16) = - 0x10000" by (simp add: mask_eq_exp_minus_1)
  with True show ?thesis by (simp add: align_down_def)
next
  case False
  obtain i where i: "unat x = 0x10000 * i" using assms by (auto simp: low_bits_eq_0_iff dvd_def)
  with False obtain m where m: "i = Suc m" by (metis mult_0_right not0_implies_Suc unat_eq_0)
  have "unat (align_down 16 (x - 1)) = unat (x - 0x10000)"
    using i m False by (simp add: unat_align_down_mult unat_minus_one unat_sub_if')
  then show ?thesis by (simp only: word_unat_eq_iff)
qed

text \<open>What the chip reports of a programmed window.\<close>

lemma get_window_attr_programmed:
  assumes at: "tsi148_setup_window_attributes (vm_v2esst_mode d) (vm_data_width d) (vm_am d) = Inr attrs"
    and t: "otrans c ! nat (vm_window_num desc) = program_window d attrs t"
    and p: "low_bits 16 (vm_pci_addrl d) = 0" and s: "low_bits 16 (vm_sizel d) = 0"
  defines "r \<equiv> tsi148_get_window_attr desc c"
  shows "vm_am r = vm_am d" "vm_v2esst_mode r = vm_v2esst_mode d"
    "vm_pci_addrl r = vm_pci_addrl d" "vm_pci_addru r = vm_pci_addru d"
    "vm_vme_addrl r = vm_vme_addrl d" "vm_window_enabled r = 1"
    "vm_sizel r = vm_sizel d - 0x10000"
    "vm_data_width r = (if vm_data_width d = 16 then 16 else vm_data_width desc)"
proof -
  from at obtain a where a: "am_to_attr (vm_am d) = Some a" and sst: "vm_v2esst_mode d \<in> {0, 1, 2}"
    and dw: "vm_data_width d = 16 \<or> vm_data_width d = 32"
    and w: "attrs = attr_fields 0x3800 (vm_v2esst_mode d) (if vm_data_width d = 16 then 0 else 1) a"
    by (rule setup_window_attributes_InrD)
  have dec: "attr_of_word attrs = a" "drop_bit 11 (attrs AND 0x3800) = vm_v2esst_mode d"
    "drop_bit 6 (attrs AND 0xc0) = (if vm_data_width d = 16 then 0 else 1)"
    unfolding w using attr_fields_decode [OF a sst,
        where dbw = "if vm_data_width d = 16 then 0 else 1" and sstm = "0x3800"]
    by simp_all
  have otat: "otat (program_window d attrs t) = window_otat d attrs"
    and sal: "otsal (program_window d attrs t) = vm_pci_addrl d"
    using p by (simp_all add: program_window_def and_upper_half align_down_id)
  have "low_bits 16 (vm_pci_addrl d + vm_sizel d) = 0" using p s by (intro low_bits_add) simp_all
  from align_down_pred [OF this]
  have eal: "oteal (program_window d attrs t) = vm_pci_addrl d + vm_sizel d - 0x10000"
    by (simp add: program_window_def)
  note defs = r_def tsi148_get_window_attr_def Let_def t otat
  show "vm_am r = vm_am d"
    unfolding defs by (simp add: attr_of_word_window_otat dec attr_to_am_am_to_attr [OF a])
  show "vm_v2esst_mode r = vm_v2esst_mode d"
    unfolding defs window_otat_fields dec by simp
  show "vm_pci_addrl r = vm_pci_addrl d" "vm_pci_addru r = vm_pci_addru d"
    unfolding defs sal by (simp_all add: program_window_def)
  show "vm_vme_addrl r = vm_vme_addrl d"
    unfolding defs sal by (simp add: program_window_def)
  show "vm_window_enabled r = 1"
    unfolding defs using window_otat_enabled by simp
  show "vm_sizel r = vm_sizel d - 0x10000"
    unfolding defs sal eal by simp
  show "vm_data_width r = (if vm_data_width d = 16 then 16 else vm_data_width desc)"
    unfolding defs window_otat_fields dec by simp
qed

section \<open>A chip to evaluate on\<close>

text \<open>A register file of zeros, and hardware that stores what is written but clears error reports.\<close>

definition zero_desc :: tsi148_dma_desc where
  "zero_desc = \<lparr>dsau = 0, dsal = 0, ddau = 0, ddal = 0, dsat = 0, ddat = 0, dnlau = 0, dnlal = 0, dcnt = 0, ddbs = 0\<rparr>"

definition zero_lcsr :: tsi148_lcsr where
  "zero_lcsr = \<lparr>otrans = replicate 8 zero_otrans, rmwau = 0, rmwal = 0, rmwen = 0, rmwc = 0, rmws = 0,
     vmctrl = 0, vctrl = 0, vstat = 0, pstat = 0, vmefl = 0, veau = 0, veal = 0, veat = 0, edpau = 0,
     edpal = 0, edpxa = 0, edpxs = 0, edpat = 0,
     itrans = replicate 8 \<lparr>itsau = 0, itsal = 0, iteau = 0, iteal = 0, itofu = 0, itofl = 0, itat = 0\<rparr>,
     gbau = 0, gbal = 0, gcsrat = 0, cbau = 0, cbal = 0, crgat = 0, crou = 0, crol = 0, crat = 0,
     lmbau = 0, lmbal = 0, lmat = 0, bcu = 0, bcl = 0, bpgtr = 0, bpctr = 0, vicr = 0, inten = 0,
     inteo = 0, ints = 0, intc = 0, intm1 = 0, intm2 = 0,
     dma_regs = replicate 2 \<lparr>dctl = 0, dsta = 0, dcsau = 0, dcsal = 0, dcdau = 0, dcdal = 0, dclau = 0,
       dclal = 0, dma_desc = zero_desc\<rparr>\<rparr>"

definition plain_hw :: tsi148_hw where
  "plain_hw = \<lparr>hw_veat = (\<lambda>old new. 0), hw_edpat = (\<lambda>old new. 0), hw_pstat = (\<lambda>old new. new),
     hw_vicr = (\<lambda>old new. new), hw_inteo = (\<lambda>old new. new), hw_inten = (\<lambda>old new. new),
     hw_intc = (\<lambda>old new. 0), hw_vstat = (\<lambda>old new. new)\<rparr>"

lemma wf_zero_lcsr [simp]: "wf_lcsr zero_lcsr"
  by (simp add: wf_lcsr_def zero_lcsr_def)

end
