(* ===== verification/Vme_Misc.thy ===== *)
theory Vme_Misc
  imports Tsi148_Window
begin

text \<open>
  VME bus errors (\<open>src/vmebridge/driver/vme_misc.c\<close>, with the dispatch of \<open>vme_irq.c\<close>): the last
  bus error caught and the list of handlers registered for ranges of VME addresses. The state
  is the part of \<open>struct vme_bridge_device\<close> these routines use, together with the registers of
  the chip; the window, interrupt and DMA components extend this record with their own state.

  A handler is known by the address \<open>kzalloc\<close> gave it; its function is a number, and calling it is
  an entry in the list of calls a dispatch returns. The spinlock is taken and given back
  inside every routine with no early return, so each routine is one atomic step.
\<close>

section \<open>State\<close>

record vme_berr_handler =
  bh_addr :: nat
  bh_error :: vme_bus_error
  bh_size :: u32
  bh_func :: nat

record bridge_dev =
  lcsr :: tsi148_lcsr
  verr_desc :: vme_bus_error_desc
  h_list :: "vme_berr_handler list"

section \<open>Operations\<close>

definition vme_bus_error_check ::
    "tsi148_hw \<Rightarrow> bool \<Rightarrow> 'a bridge_dev_scheme \<Rightarrow> bool \<times> 'a bridge_dev_scheme" where
  "vme_bus_error_check hw clr s =
     (let (r, c) = tsi148_bus_error_chk hw clr (lcsr s) in (r, s\<lparr>lcsr := c\<rparr>))"

definition vme_bus_error_check_clear ::
    "vme_bus_error \<Rightarrow> 'a bridge_dev_scheme \<Rightarrow> bool \<times> 'a bridge_dev_scheme" where
  "vme_bus_error_check_clear err s =
     (let desc = verr_desc s
      in if bd_valid desc \<and> be_am (bd_error desc) = be_am err
            \<and> be_address (bd_error desc) = be_address err
         then (True, s\<lparr>verr_desc := desc\<lparr>bd_valid := False\<rparr>\<rparr>)
         else (False, s))"

text \<open>\<open>alloc\<close> is the address \<open>kzalloc\<close> returns, \<open>None\<close> when it fails.\<close>

definition vme_register_berr_handler ::
    "nat option \<Rightarrow> vme_bus_error \<Rightarrow> u32 \<Rightarrow> nat \<Rightarrow> 'a bridge_dev_scheme
      \<Rightarrow> (errno + nat) \<times> 'a bridge_dev_scheme" where
  "vme_register_berr_handler alloc err sz func s =
     (if sz = 0 then (Inl EINVAL, s)
      else case alloc of
        None \<Rightarrow> (Inl ENOMEM, s)
      | Some p \<Rightarrow> (Inr p, s\<lparr>h_list := h_list s @
            [\<lparr>bh_addr = p, bh_error = err, bh_size = sz, bh_func = func\<rparr>]\<rparr>))"

fun unregister_walk :: "nat \<Rightarrow> vme_berr_handler list \<Rightarrow> vme_berr_handler list" where
  "unregister_walk p [] = []"
| "unregister_walk p (h # hs) = (if bh_addr h = p then hs else h # unregister_walk p hs)"

definition vme_unregister_berr_handler ::
    "nat \<Rightarrow> 'a bridge_dev_scheme \<Rightarrow> 'a bridge_dev_scheme" where
  "vme_unregister_berr_handler p s = s\<lparr>h_list := unregister_walk p (h_list s)\<rparr>"

definition vme_berr_match :: "vme_bus_error \<Rightarrow> vme_berr_handler \<Rightarrow> bool" where
  "vme_berr_match error h \<longleftrightarrow> be_am error = be_am (bh_error h)
     \<and> be_address (bh_error h) \<le> be_address error
     \<and> be_address error < be_address (bh_error h) + ucast (bh_size h)"

fun vme_dispatch_berr :: "vme_bus_error \<Rightarrow> vme_berr_handler list \<Rightarrow> (nat \<times> vme_bus_error) list" where
  "vme_dispatch_berr error [] = []"
| "vme_dispatch_berr error (h # hs) =
     (if vme_berr_match error h then [(bh_func h, error)] else []) @ vme_dispatch_berr error hs"

text \<open>The body of \<open>handle_vme_error\<close> under the spinlock: the calls made, and the new state.\<close>

definition catch_vme_error ::
    "tsi148_hw \<Rightarrow> 'a bridge_dev_scheme \<Rightarrow> (nat \<times> vme_bus_error) list \<times> 'a bridge_dev_scheme" where
  "catch_vme_error hw s =
     (let (err, c) = tsi148_handle_vme_error hw (lcsr s);
          s' = s\<lparr>lcsr := c, verr_desc := \<lparr>bd_error = err, bd_valid = True\<rparr>\<rparr>
      in (vme_dispatch_berr err (h_list s'), s'))"

text \<open>\<open>vme_misc_read\<close>, \<open>vme_misc_write\<close>: the number of bytes; \<open>vme_misc_ioctl\<close>: no command.\<close>

definition vme_misc_read :: "u32 \<Rightarrow> u32" where "vme_misc_read n = 0"

definition vme_misc_write :: "u32 \<Rightarrow> u32" where "vme_misc_write n = 0"

definition vme_misc_ioctl :: "u32 \<Rightarrow> rc" where "vme_misc_ioctl cmd = Err ENOIOCTLCMD"

section \<open>Lemmas\<close>

lemma dispatch_filter:
  "vme_dispatch_berr error hs = map (\<lambda>h. (bh_func h, error)) (filter (vme_berr_match error) hs)"
  by (induction hs) auto

lemma unregister_walk_notin: "p \<notin> bh_addr ` set hs \<Longrightarrow> unregister_walk p hs = hs"
  by (induction hs) auto

lemma unregister_walk_append:
  "p \<notin> bh_addr ` set hs \<Longrightarrow> unregister_walk p (hs @ h # ks)
     = (if bh_addr h = p then hs @ ks else hs @ h # unregister_walk p ks)"
  by (induction hs) auto

lemma unregister_walk_distinct:
  assumes "distinct (map bh_addr hs)"
  shows "unregister_walk p hs = filter (\<lambda>h. bh_addr h \<noteq> p) hs"
  using assms
proof (induction hs)
  case (Cons h hs)
  have "filter (\<lambda>x. bh_addr x \<noteq> bh_addr h) hs = hs"
    using Cons.prems by (intro filter_True) (metis distinct.simps(2) image_eqI list.set_map list.simps(9))
  then show ?case using Cons by auto
qed simp

lemma unat_ucast_64: "unat (ucast (x :: u32) :: u64) = unat x"
proof -
  have "unat (ucast x :: u64) = take_bit 64 (unat x)"
    by (simp add: unsigned_ucast_eq)
  also have "\<dots> = unat x"
    using unsigned_less [of x, where 'a = nat] by (simp add: take_bit_nat_eq_self_iff)
  finally show ?thesis .
qed

text \<open>A handler's range does not wrap when it ends below \<open>2^64\<close>.\<close>

lemma berr_match_range:
  assumes "unat (be_address (bh_error h)) + unat (bh_size h) < 2 ^ 64"
  shows "vme_berr_match error h \<longleftrightarrow> be_am error = be_am (bh_error h)
    \<and> unat (be_address error) \<in> {unat (be_address (bh_error h)) ..<
          unat (be_address (bh_error h)) + unat (bh_size h)}"
proof -
  have "unat (ucast (bh_size h) :: u64) = unat (bh_size h)"
    by (rule unat_ucast_64)
  then have "unat (be_address (bh_error h) + ucast (bh_size h))
      = unat (be_address (bh_error h)) + unat (bh_size h)"
    using assms by (simp add: unat_word_ariths)
  then show ?thesis
    by (auto simp: vme_berr_match_def word_le_nat_alt word_less_nat_alt)
qed

section \<open>Properties\<close>

text \<open>
  C35: a bus error caught by the bridge is handed to exactly the registered handlers whose
  address modifier is that of the error and whose address range contains the address, in the
  order they were registered; it is then the last error on record, and a later
  \<open>vme_bus_error_check_clear\<close> reports it once: a second check for the same error finds nothing.
\<close>

theorem bus_error_dispatched_and_reported_once:
  assumes "catch_vme_error hw s = (calls, s1)"
    and "\<forall>h \<in> set (h_list s). unat (be_address (bh_error h)) + unat (bh_size h) < 2 ^ 64"
  defines "err \<equiv> \<lparr>be_address = reg_join (veau (lcsr s)) (veal (lcsr s)),
                   be_am = drop_bit 8 (veat (lcsr s) AND TSI148_LCSR_VEAT_AM)\<rparr>"
  shows "calls = map (\<lambda>h. (bh_func h, err)) (filter (\<lambda>h. be_am (bh_error h) = be_am err
            \<and> unat (be_address (bh_error h)) \<le> unat (be_address err)
            \<and> unat (be_address err) < unat (be_address (bh_error h)) + unat (bh_size h)) (h_list s))
    \<and> fst (vme_bus_error_check_clear err s1)
    \<and> \<not> fst (vme_bus_error_check_clear err (snd (vme_bus_error_check_clear err s1)))
    \<and> (\<forall>other. other \<noteq> err \<longrightarrow> vme_bus_error_check_clear other s1 = (False, s1))"
proof (intro conjI)
  have s1: "calls = vme_dispatch_berr err (h_list s)"
    and desc: "verr_desc s1 = \<lparr>bd_error = err, bd_valid = True\<rparr>"
    using assms(1) by (auto simp: catch_vme_error_def tsi148_handle_vme_error_def err_def Let_def)
  show "calls = map (\<lambda>h. (bh_func h, err)) (filter (\<lambda>h. be_am (bh_error h) = be_am err
            \<and> unat (be_address (bh_error h)) \<le> unat (be_address err)
            \<and> unat (be_address err) < unat (be_address (bh_error h)) + unat (bh_size h)) (h_list s))"
    unfolding s1 dispatch_filter using assms(2)
    by (intro arg_cong2 [where f = map] refl filter_cong) (auto simp: berr_match_range)
  show "fst (vme_bus_error_check_clear err s1)"
    and "\<not> fst (vme_bus_error_check_clear err (snd (vme_bus_error_check_clear err s1)))"
    and "\<forall>other. other \<noteq> err \<longrightarrow> vme_bus_error_check_clear other s1 = (False, s1)"
    using desc by (auto simp: vme_bus_error_check_clear_def Let_def)
qed

text \<open>
  Registering a handler and unregistering it again restores the handler list, and while
  it is registered it is called last.
\<close>

lemma berr_handler_roundtrip:
  assumes "p \<notin> bh_addr ` set (h_list s)" and "sz \<noteq> 0"
    and "h = \<lparr>bh_addr = p, bh_error = err, bh_size = sz, bh_func = func\<rparr>"
  shows "\<exists>s'. vme_register_berr_handler (Some p) err sz func s = (Inr p, s')
    \<and> vme_unregister_berr_handler p s' = s
    \<and> vme_dispatch_berr e (h_list s') = vme_dispatch_berr e (h_list s)
        @ (if vme_berr_match e h then [(func, e)] else [])"
  using assms
  by (simp add: vme_register_berr_handler_def vme_unregister_berr_handler_def
      unregister_walk_append dispatch_filter)

section \<open>Witnesses\<close>

text \<open>
  A bridge whose registers are all zero but for the bus error registers, which report an error
  at address 0x1010 with address modifier 0x39, and which has two handlers registered.
\<close>

definition demo_handler :: "nat \<Rightarrow> u64 \<Rightarrow> u32 \<Rightarrow> vme_berr_handler" where
  "demo_handler p a n = \<lparr>bh_addr = p, bh_error = \<lparr>be_address = a, be_am = 0x39\<rparr>, bh_size = n, bh_func = p\<rparr>"

definition demo_bridge :: bridge_dev where
  "demo_bridge = \<lparr>lcsr = zero_lcsr\<lparr>veal := 0x1010, veat := 0x80003900\<rparr>,
     verr_desc = \<lparr>bd_error = \<lparr>be_address = 0, be_am = 0\<rparr>, bd_valid = False\<rparr>,
     h_list = [demo_handler 1 0x1000 0x100, demo_handler 2 0x2000 0x100]\<rparr>"

theorem bus_error_dispatched_and_reported_once_witness:
  "fst (vme_bus_error_check_clear \<lparr>be_address = reg_join 0 0x1010, be_am = 0x39\<rparr>
     (snd (catch_vme_error plain_hw demo_bridge)))"
proof -
  have "drop_bit 8 (0x80003900 AND TSI148_LCSR_VEAT_AM) = (0x39 :: u32)" by code_simp
  then show ?thesis
    using bus_error_dispatched_and_reported_once [of plain_hw demo_bridge
        "fst (catch_vme_error plain_hw demo_bridge)" "snd (catch_vme_error plain_hw demo_bridge)"]
    by (simp add: demo_bridge_def demo_handler_def zero_lcsr_def)
qed

lemma berr_handler_roundtrip_example:
  "\<exists>s'. vme_register_berr_handler (Some 3) \<lparr>be_address = 0, be_am = 0x39\<rparr> 16 7 demo_bridge = (Inr 3, s')
    \<and> vme_unregister_berr_handler 3 s' = demo_bridge"
  using berr_handler_roundtrip [of 3 demo_bridge 16 _ "\<lparr>be_address = 0, be_am = 0x39\<rparr>" 7]
  by (auto simp: demo_bridge_def demo_handler_def)

end
