(* ===== verification/Vme_Window.thy ===== *)
theory Vme_Window
  imports Vme_Misc
begin

text \<open>
  The window manager (\<open>src/vmebridge/driver/vme_window.c\<close>): the table of the eight outbound
  windows, the logical mappings made on top of them, and the file operations of the window
  device.

  State: \<open>wstate\<close> extends the bridge device by the window table and the two module parameters, and by
  what the kernel holds for the driver: the PCI memory regions given out (keyed by the window whose
  \<open>struct resource\<close> is in the resource tree) and the virtual addresses \<open>ioremap\<close> returned and
  \<open>iounmap\<close> has not taken back. Every mutex is a flag of its window.

  The kernel is the record \<open>kernel\<close> of what its services answer during one call of the driver:
  whether \<open>mutex_lock_interruptible\<close> on a window is interrupted by a signal, whether
  \<open>kmalloc\<close> and \<open>kzalloc\<close> succeed, which region \<open>pci_bus_alloc_resource\<close> hands out, which address
  \<open>ioremap\<close> returns, whether user memory can be read and written. A caller that asks for a mutex
  it holds already can only be woken by a signal.
\<close>

section \<open>State\<close>

record resource =
  rs_name :: "string option"
  rs_start :: u32
  rs_end :: u32

definition zero_resource :: resource where
  "zero_resource = \<lparr>rs_name = None, rs_start = 0, rs_end = 0\<rparr>"

text \<open>\<open>file\<close> is the identity of the open file, \<open>None\<close> the null pointer of a request from the kernel.\<close>

record vme_taskinfo =
  pid_nr :: int
  ti_name :: string
  ti_file :: "nat option"

record mapping =
  mp_desc :: vme_mapping
  mp_client :: vme_taskinfo

record window =
  w_lock :: bool
  w_active :: bool
  w_rsrc :: resource
  w_desc :: vme_mapping
  w_mappings :: "mapping list"
  w_users :: int

record wstate = bridge_dev +
  window_table :: "window list"
  vme_create_on_find_fail :: u32
  vme_destroy_on_remove :: u32
  pci_regions :: "nat \<Rightarrow> (u32 \<times> u32) option"
  iomaps :: "u32 list"

record kernel =
  k_lock :: "nat \<Rightarrow> bool"
  k_relock :: "nat \<Rightarrow> bool"
  k_kmalloc :: bool
  k_kzalloc :: bool
  k_alloc_resource :: "(nat \<Rightarrow> (u32 \<times> u32) option) \<Rightarrow> u32 \<Rightarrow> errno + u32"
  k_ioremap :: "u32 list \<Rightarrow> u32 \<Rightarrow> u32 \<Rightarrow> u32"
  k_pid :: int
  k_comm :: string
  k_copy_from_user :: bool
  k_copy_to_user :: bool
  k_remap :: rc

text \<open>
  The kernel during a call the driver makes to one of its own entry points: the mutexes
  are asked for once more.
\<close>

definition nested :: "kernel \<Rightarrow> kernel" where
  "nested k = k\<lparr>k_lock := k_relock k\<rparr>"

section \<open>Helpers\<close>

definition set_window :: "nat \<Rightarrow> (window \<Rightarrow> window) \<Rightarrow> 'a wstate_scheme \<Rightarrow> 'a wstate_scheme" where
  "set_window i f s = s\<lparr>window_table := (window_table s)[i := f (window_table s ! i)]\<rparr>"

definition mutex_lock_interruptible :: "kernel \<Rightarrow> nat \<Rightarrow> 'a wstate_scheme \<Rightarrow> 'a wstate_scheme option" where
  "mutex_lock_interruptible k i s =
     (if k_lock k i \<and> \<not> w_lock (window_table s ! i)
      then Some (set_window i (\<lambda>w. w\<lparr>w_lock := True\<rparr>) s) else None)"

definition mutex_unlock :: "nat \<Rightarrow> 'a wstate_scheme \<Rightarrow> 'a wstate_scheme" where
  "mutex_unlock i s = set_window i (\<lambda>w. w\<lparr>w_lock := False\<rparr>) s"

text \<open>The loop over the mappings of a window that drops those of one file.\<close>

fun release_walk :: "nat option \<Rightarrow> mapping list \<Rightarrow> int \<Rightarrow> mapping list \<times> int" where
  "release_walk file [] users = ([], users)"
| "release_walk file (m # ms) users =
     (if ti_file (mp_client m) = file then release_walk file ms (users - 1)
      else let (ms', users') = release_walk file ms users in (m # ms', users'))"

fun vme_window_release_from :: "kernel \<Rightarrow> nat option \<Rightarrow> nat list \<Rightarrow> 'a wstate_scheme \<Rightarrow> rc \<times> 'a wstate_scheme" where
  "vme_window_release_from k file [] s = (OK, s)"
| "vme_window_release_from k file (i # is) s =
     (case mutex_lock_interruptible k i s of
        None \<Rightarrow> (Err ERESTARTSYS, s)
      | Some s1 \<Rightarrow>
          (let w = window_table s1 ! i;
               s2 = (if \<not> w_active w \<or> w_mappings w = [] then s1
                     else let (ms, users) = release_walk file (w_mappings w) (w_users w)
                          in set_window i (\<lambda>w. w\<lparr>w_mappings := ms, w_users := users\<rparr>) s1)
           in vme_window_release_from k file is (mutex_unlock i s2)))"

definition vme_window_release :: "kernel \<Rightarrow> nat option \<Rightarrow> 'a wstate_scheme \<Rightarrow> rc \<times> 'a wstate_scheme" where
  "vme_window_release k file s = vme_window_release_from k file [0..<TSI148_NUM_OUT_WINDOWS] s"

definition add_mapping ::
    "kernel \<Rightarrow> nat \<Rightarrow> vme_mapping \<Rightarrow> nat option \<Rightarrow> 'a wstate_scheme \<Rightarrow> rc \<times> 'a wstate_scheme" where
  "add_mapping k i desc file s =
     (if \<not> k_kzalloc k then (Err ENOMEM, s)
      else let client = (case file of
                 Some f \<Rightarrow> \<lparr>pid_nr = k_pid k, ti_name = k_comm k, ti_file = Some f\<rparr>
               | None \<Rightarrow> \<lparr>pid_nr = 0, ti_name = ''kernel'', ti_file = None\<rparr>)
           in (OK, set_window i (\<lambda>w. w\<lparr>w_mappings := w_mappings w @ [\<lparr>mp_desc = desc, mp_client = client\<rparr>],
                                      w_users := w_users w + 1\<rparr>) s))"

definition mapping_matches :: "vme_mapping \<Rightarrow> nat option \<Rightarrow> mapping \<Rightarrow> bool" where
  "mapping_matches desc file m \<longleftrightarrow>
     vm_vme_addru (mp_desc m) = vm_vme_addru desc \<and> vm_vme_addrl (mp_desc m) = vm_vme_addrl desc
     \<and> vm_sizeu (mp_desc m) = vm_sizeu desc \<and> vm_sizel (mp_desc m) = vm_sizel desc
     \<and> vm_kernel_va (mp_desc m) = vm_kernel_va desc
     \<and> (file = None \<or> ti_file (mp_client m) = file)"

fun remove_first :: "(mapping \<Rightarrow> bool) \<Rightarrow> mapping list \<Rightarrow> mapping list option" where
  "remove_first P [] = None"
| "remove_first P (m # ms) =
     (if P m then Some ms else case remove_first P ms of None \<Rightarrow> None | Some ms' \<Rightarrow> Some (m # ms'))"

definition remove_mapping ::
    "nat \<Rightarrow> vme_mapping \<Rightarrow> nat option \<Rightarrow> 'a wstate_scheme \<Rightarrow> rc \<times> 'a wstate_scheme" where
  "remove_mapping i desc file s =
     (case remove_first (mapping_matches desc file) (w_mappings (window_table s ! i)) of
        None \<Rightarrow> (Err EINVAL, s)
      | Some ms \<Rightarrow> (OK, set_window i (\<lambda>w. w\<lparr>w_mappings := ms, w_users := w_users w - 1\<rparr>) s))"

fun find_mapping_from :: "kernel \<Rightarrow> u32 \<Rightarrow> nat list \<Rightarrow> 'a wstate_scheme \<Rightarrow> vme_mapping option \<times> 'a wstate_scheme" where
  "find_mapping_from k logaddr [] s = (None, s)"
| "find_mapping_from k logaddr (i # is) s =
     (case mutex_lock_interruptible k i s of
        None \<Rightarrow> (None, s)
      | Some s1 \<Rightarrow>
          (case filter (\<lambda>m. vm_kernel_va (mp_desc m) = logaddr) (w_mappings (window_table s1 ! i)) of
             m # _ \<Rightarrow> (Some (mp_desc m), mutex_unlock i s1)
           | [] \<Rightarrow> find_mapping_from k logaddr is (mutex_unlock i s1)))"

definition find_vme_mapping_from_addr ::
    "kernel \<Rightarrow> u32 \<Rightarrow> 'a wstate_scheme \<Rightarrow> vme_mapping option \<times> 'a wstate_scheme" where
  "find_vme_mapping_from_addr k logaddr s = find_mapping_from k logaddr [0..<TSI148_NUM_OUT_WINDOWS] s"

definition bad_window_num :: "int \<Rightarrow> bool" where
  "bad_window_num n \<longleftrightarrow> n < 0 \<or> n \<ge> int TSI148_NUM_OUT_WINDOWS"

definition vme_get_window_attr ::
    "kernel \<Rightarrow> vme_mapping \<Rightarrow> 'a wstate_scheme \<Rightarrow> rc \<times> vme_mapping \<times> 'a wstate_scheme" where
  "vme_get_window_attr k desc s =
     (let n = nat (vm_window_num desc)
      in if bad_window_num (vm_window_num desc) then (Err EINVAL, desc, s)
         else case mutex_lock_interruptible k n s of
                None \<Rightarrow> (Err ERESTARTSYS, desc, s)
              | Some s1 \<Rightarrow>
                  let d = w_desc (window_table s1 ! n)
                  in (OK, tsi148_get_window_attr d (lcsr s1), mutex_unlock n s1))"

section \<open>Creating and destroying a window\<close>

text \<open>The two roundings at the head of \<open>vme_create_window\<close>.\<close>

definition round_window :: "vme_mapping \<Rightarrow> vme_mapping" where
  "round_window desc =
     (let d = (if vm_vme_addrl desc AND 0xffff \<noteq> 0
               then let lowaddr = align_down 16 (vm_vme_addrl desc);
                        d1 = desc\<lparr>vm_vme_addrl := lowaddr\<rparr>
                    in d1\<lparr>vm_sizel := vm_sizel d1 + (vm_vme_addrl d1 - lowaddr)\<rparr>
               else desc)
      in if vm_sizel d AND 0xffff \<noteq> 0
         then d\<lparr>vm_sizel := align_down 16 (vm_sizel d + 0x10000)\<rparr> else d)"

definition ioremap :: "kernel \<Rightarrow> u32 \<Rightarrow> u32 \<Rightarrow> 'a wstate_scheme \<Rightarrow> u32 \<times> 'a wstate_scheme" where
  "ioremap k start sz s =
     (let va = k_ioremap k (iomaps s) start sz
      in (va, if va = 0 then s else s\<lparr>iomaps := va # iomaps s\<rparr>))"

definition iounmap :: "u32 \<Rightarrow> 'a wstate_scheme \<Rightarrow> 'a wstate_scheme" where
  "iounmap va s = s\<lparr>iomaps := remove1 va (iomaps s)\<rparr>"

text \<open>
  \<open>pci_bus_alloc_resource\<close> on the resource of window \<open>i\<close>, and \<open>release_resource\<close> on it.
\<close>

definition pci_bus_alloc_resource :: "kernel \<Rightarrow> nat \<Rightarrow> u32 \<Rightarrow> 'a wstate_scheme \<Rightarrow> rc \<times> 'a wstate_scheme" where
  "pci_bus_alloc_resource k i sz s =
     (case k_alloc_resource k (pci_regions s) sz of
        Inl e \<Rightarrow> (Err e, s)
      | Inr start \<Rightarrow>
          (OK, (set_window i (\<lambda>w. w\<lparr>w_rsrc := (w_rsrc w)\<lparr>rs_start := start, rs_end := start + sz - 1\<rparr>\<rparr>) s)
                 \<lparr>pci_regions := (pci_regions s)(i \<mapsto> (start, sz))\<rparr>))"

definition release_resource :: "nat \<Rightarrow> 'a wstate_scheme \<Rightarrow> 'a wstate_scheme" where
  "release_resource i s = s\<lparr>pci_regions := (pci_regions s)(i := None)\<rparr>"

text \<open>The labels \<open>out_unmap\<close>, \<open>out_release\<close>, \<open>out_free\<close> and \<open>out_unlock\<close>.\<close>

definition create_out_free :: "nat \<Rightarrow> 'a wstate_scheme \<Rightarrow> 'a wstate_scheme" where
  "create_out_free i s = mutex_unlock i (set_window i (\<lambda>w. w\<lparr>w_rsrc := zero_resource\<rparr>) s)"

definition create_out_release :: "nat \<Rightarrow> 'a wstate_scheme \<Rightarrow> 'a wstate_scheme" where
  "create_out_release i s = create_out_free i (release_resource i s)"

definition create_out_unmap :: "nat \<Rightarrow> u32 \<Rightarrow> 'a wstate_scheme \<Rightarrow> 'a wstate_scheme" where
  "create_out_unmap i va s = create_out_release i (iounmap va s)"

definition window_name :: "nat \<Rightarrow> string" where
  "window_name i = ''VME Window '' @ [char_of (48 + i)]"

definition vme_create_window ::
    "kernel \<Rightarrow> vme_mapping \<Rightarrow> 'a wstate_scheme \<Rightarrow> rc \<times> vme_mapping \<times> 'a wstate_scheme" where
  "vme_create_window k desc0 s =
     (let n = nat (vm_window_num desc0)
      in if bad_window_num (vm_window_num desc0) then (Err EINVAL, desc0, s)
         else if vm_sizel desc0 = 0 then (Err EINVAL, desc0, s)
         else let desc = round_window desc0
         in case mutex_lock_interruptible k n s of
              None \<Rightarrow> (Err ERESTARTSYS, desc, s)
            | Some s1 \<Rightarrow>
               if w_active (window_table s1 ! n) then (Err EBUSY, desc, mutex_unlock n s1)
               else let name = (if k_kmalloc k then Some (window_name n) else None);
                        s2 = set_window n (\<lambda>w. w\<lparr>w_rsrc := \<lparr>rs_name = name, rs_start = 0, rs_end = vm_sizel desc\<rparr>\<rparr>) s1
               in case pci_bus_alloc_resource k n (vm_sizel desc) s2 of
                    (Err e, s3) \<Rightarrow> (Err e, desc, create_out_free n s3)
                  | (OK, s3) \<Rightarrow>
                     let start = rs_start (w_rsrc (window_table s3 ! n));
                         (va, s4) = ioremap k start (vm_sizel desc) s3;
                         desc1 = desc\<lparr>vm_kernel_va := va\<rparr>
                     in if va = 0 then (Err ENOMEM, desc1, create_out_release n s4)
                        else let desc2 = desc1\<lparr>vm_pci_addrl := start\<rparr>
                        in case tsi148_create_window desc2 (lcsr s4) of
                             (Err e, desc3, c) \<Rightarrow> (Err e, desc3, create_out_unmap n va (s4\<lparr>lcsr := c\<rparr>))
                           | (OK, desc3, c) \<Rightarrow>
                              (OK, desc3, mutex_unlock n
                                 (set_window n (\<lambda>w. w\<lparr>w_desc := desc3, w_active := True\<rparr>) (s4\<lparr>lcsr := c\<rparr>))))"

text \<open>The loop of \<open>vme_destroy_window\<close> that frees every mapping.\<close>

fun destroy_walk :: "mapping list \<Rightarrow> int \<Rightarrow> mapping list \<times> int" where
  "destroy_walk [] users = ([], users)"
| "destroy_walk (m # ms) users = destroy_walk ms (users - 1)"

definition destroy_mappings :: "window \<Rightarrow> mapping list \<times> int" where
  "destroy_mappings w =
     (if w_users w > 0 then destroy_walk (w_mappings w) (w_users w) else (w_mappings w, w_users w))"

definition vme_destroy_window :: "kernel \<Rightarrow> int \<Rightarrow> 'a wstate_scheme \<Rightarrow> rc \<times> 'a wstate_scheme" where
  "vme_destroy_window k window_num s =
     (let n = nat window_num
      in if bad_window_num window_num then (Err EINVAL, s)
         else case mutex_lock_interruptible k n s of
                None \<Rightarrow> (Err ERESTARTSYS, s)
              | Some s1 \<Rightarrow>
                 let w = window_table s1 ! n
                 in if \<not> w_active w then (Err EINVAL, mutex_unlock n s1)
                    else let (ms, users) = destroy_mappings w;
                             s2 = set_window n (\<lambda>w. w\<lparr>w_mappings := ms, w_users := users, w_active := False\<rparr>) s1;
                             s3 = iounmap (vm_kernel_va (w_desc w)) s2;
                             (d, c) = tsi148_remove_window ((w_desc w)\<lparr>vm_kernel_va := 0\<rparr>) (lcsr s3);
                             s4 = release_resource n (set_window n (\<lambda>w. w\<lparr>w_desc := d\<rparr>) (s3\<lparr>lcsr := c\<rparr>));
                             s5 = set_window n (\<lambda>w. w\<lparr>w_rsrc := zero_resource\<rparr>) s4
                         in (OK, mutex_unlock n s5))"

section \<open>Finding and releasing a mapping\<close>

definition vme_optimize_window_size :: "vme_mapping \<Rightarrow> vme_mapping" where
  "vme_optimize_window_size desc =
     (let resize = (if vm_am desc \<in> set am_A24 then 0x1000000
                    else if vm_am desc \<in> set am_A16 then 0x10000 else 0)
      in if resize = 0 then desc
         else desc\<lparr>vm_sizeu := 0, vm_sizel := resize, vm_vme_addru := 0, vm_vme_addrl := 0\<rparr>)"

definition vme_mapping_sanity_check :: "vme_mapping \<Rightarrow> rc" where
  "vme_mapping_sanity_check m =
     (let u = vm_vme_addru m; l = vm_vme_addrl m;
          err = (if vm_am m \<in> set am_A16 then u \<noteq> 0 \<or> l AND NOT 0xffff \<noteq> 0
                 else if vm_am m \<in> set am_A24 then u \<noteq> 0 \<or> l AND NOT 0xffffff \<noteq> 0
                 else if vm_am m \<in> set am_A32 then u \<noteq> 0
                 else if vm_am m \<in> set am_A40 then u AND NOT 0xff \<noteq> 0
                 else False)
      in if err then Err EINVAL else OK)"

text \<open>The tests the search makes on a window, in order.\<close>

definition window_suits :: "vme_mapping \<Rightarrow> window \<Rightarrow> bool" where
  "window_suits match w \<longleftrightarrow>
     (let d = w_desc w
      in w_active w \<and> vm_window_enabled d \<noteq> 0 \<and> \<not> (vm_vme_addru d \<noteq> 0 \<or> vm_sizeu d \<noteq> 0)
         \<and> \<not> (vm_am d \<noteq> vm_am match \<or> vm_data_width d \<noteq> vm_data_width match)
         \<and> \<not> (vm_vme_addrl d > vm_vme_addrl match
              \<or> vm_vme_addrl d + vm_sizel d < vm_vme_addrl match + vm_sizel match)
         \<and> \<not> (vm_am d = VME_2e6U \<and> vm_v2esst_mode d \<noteq> vm_v2esst_mode match))"

text \<open>
  The search. A hit leaves the loop with the lock of the window held (\<open>Inr (Some i)\<close>); \<open>Inr None\<close>
  is a search without a hit.
\<close>

fun search_window :: "kernel \<Rightarrow> vme_mapping \<Rightarrow> nat list \<Rightarrow> 'a wstate_scheme \<Rightarrow> (errno + nat option) \<times> 'a wstate_scheme" where
  "search_window k match [] s = (Inr None, s)"
| "search_window k match (i # is) s =
     (case mutex_lock_interruptible k i s of
        None \<Rightarrow> (Inl ERESTARTSYS, s)
      | Some s1 \<Rightarrow> if window_suits match (window_table s1 ! i) then (Inr (Some i), s1)
                   else search_window k match is (mutex_unlock i s1))"

text \<open>The first window that is not active.\<close>

fun first_unused :: "window list \<Rightarrow> nat \<Rightarrow> nat option" where
  "first_unused [] i = None"
| "first_unused (w # ws) i = (if \<not> w_active w then Some i else first_unused ws (Suc i))"

definition place_mapping :: "vme_mapping \<Rightarrow> vme_mapping \<Rightarrow> int \<Rightarrow> vme_mapping" where
  "place_mapping match d n =
     (let offset = vm_vme_addrl match - vm_vme_addrl d
      in match\<lparr>vm_kernel_va := vm_kernel_va d + offset, vm_pci_addrl := vm_pci_addrl d + offset,
               vm_window_num := n\<rparr>)"

definition vme_find_mapping_file ::
    "kernel \<Rightarrow> vme_mapping \<Rightarrow> bool \<Rightarrow> nat option \<Rightarrow> 'a wstate_scheme \<Rightarrow> rc \<times> vme_mapping \<times> 'a wstate_scheme" where
  "vme_find_mapping_file k match force file s =
     (case vme_mapping_sanity_check match of Err e \<Rightarrow> (Err e, match, s)
      | OK \<Rightarrow>
     (case search_window k match [0..<TSI148_NUM_OUT_WINDOWS] s of
        (Inl e, s1) \<Rightarrow> (Err e, match, s1)
      | (Inr (Some i), s1) \<Rightarrow>
          let match' = place_mapping match (w_desc (window_table s1 ! i)) (int i);
              (rc, s2) = add_mapping k i match' file s1
          in (rc, match', mutex_unlock i s2)
      | (Inr None, s1) \<Rightarrow>
          if \<not> force then (Err EBUSY, match, s1)
          else case first_unused (window_table s1) 0 of
                 None \<Rightarrow> (Err EBUSY, match, s1)
               | Some i \<Rightarrow>
                   (case vme_create_window (nested k) (vme_optimize_window_size (match\<lparr>vm_window_num := int i\<rparr>)) s1 of
                      (Err e, wnd, s2) \<Rightarrow> (Err e, match, s2)
                    | (OK, wnd, s2) \<Rightarrow>
                        let n = nat (vm_window_num wnd);
                            match' = place_mapping match (w_desc (window_table s2 ! n)) (vm_window_num wnd);
                            (rc, s3) = add_mapping k n match' file s2
                        in (rc, match', s3))))"

definition vme_release_mapping_file ::
    "kernel \<Rightarrow> vme_mapping \<Rightarrow> bool \<Rightarrow> nat option \<Rightarrow> 'a wstate_scheme \<Rightarrow> rc \<times> 'a wstate_scheme" where
  "vme_release_mapping_file k desc force file s =
     (let n = nat (vm_window_num desc)
      in if bad_window_num (vm_window_num desc) then (Err EINVAL, s)
         else case mutex_lock_interruptible k n s of
                None \<Rightarrow> (Err ERESTARTSYS, s)
              | Some s1 \<Rightarrow>
                 if \<not> w_active (window_table s1 ! n) then (Err EINVAL, mutex_unlock n s1)
                 else case remove_mapping n desc file s1 of
                        (Err e, s2) \<Rightarrow> (Err e, mutex_unlock n s2)
                      | (OK, s2) \<Rightarrow>
                          if w_users (window_table s2 ! n) = 0 \<and> force
                          then vme_destroy_window (nested k) (vm_window_num desc) (mutex_unlock n s2)
                          else (OK, mutex_unlock n s2))"

definition vme_find_mapping ::
    "kernel \<Rightarrow> vme_mapping \<Rightarrow> bool \<Rightarrow> 'a wstate_scheme \<Rightarrow> rc \<times> vme_mapping \<times> 'a wstate_scheme" where
  "vme_find_mapping k match force s = vme_find_mapping_file k match force None s"

definition vme_release_mapping :: "kernel \<Rightarrow> vme_mapping \<Rightarrow> bool \<Rightarrow> 'a wstate_scheme \<Rightarrow> rc \<times> 'a wstate_scheme" where
  "vme_release_mapping k desc force s = vme_release_mapping_file k desc force None s"

section \<open>File operations\<close>

text \<open>
  The commands of the window device with what their argument points to in user memory, and
  what a command writes back there.
\<close>

datatype window_cmd =
    VME_IOCTL_GET_WINDOW_ATTR vme_mapping
  | VME_IOCTL_CREATE_WINDOW vme_mapping
  | VME_IOCTL_DESTROY_WINDOW int
  | VME_IOCTL_FIND_MAPPING vme_mapping
  | VME_IOCTL_RELEASE_MAPPING vme_mapping
  | VME_IOCTL_GET_CREATE_ON_FIND_FAIL
  | VME_IOCTL_SET_CREATE_ON_FIND_FAIL u32
  | VME_IOCTL_GET_DESTROY_ON_REMOVE
  | VME_IOCTL_SET_DESTROY_ON_REMOVE u32
  | VME_IOCTL_GET_BUS_ERROR
  | VME_IOCTL_CHECK_CLEAR_BUS_ERROR vme_bus_error_desc
  | OTHER_IOCTL u32

datatype user_out = No_out | Out_mapping vme_mapping | Out_uint u32 | Out_berr vme_bus_error_desc

definition vme_destroy_window_ioctl :: "kernel \<Rightarrow> int \<Rightarrow> 'a wstate_scheme \<Rightarrow> rc \<times> 'a wstate_scheme" where
  "vme_destroy_window_ioctl k window_num s =
     (if \<not> k_copy_from_user k then (Err EFAULT, s) else vme_destroy_window k window_num s)"

definition vme_bus_error_check_clear_ioctl ::
    "kernel \<Rightarrow> vme_bus_error_desc \<Rightarrow> 'a wstate_scheme \<Rightarrow> rc \<times> user_out \<times> 'a wstate_scheme" where
  "vme_bus_error_check_clear_ioctl k desc s =
     (if \<not> k_copy_from_user k then (Err EFAULT, No_out, s)
      else let (v, s') = vme_bus_error_check_clear (bd_error desc) s
           in if \<not> k_copy_to_user k then (Err EFAULT, No_out, s')
              else (OK, Out_berr (desc\<lparr>bd_valid := v\<rparr>), s'))"

text \<open>The common frame of the commands that take a descriptor in and give it back.\<close>

definition ioctl_mapping ::
    "kernel \<Rightarrow> (vme_mapping \<Rightarrow> 'a wstate_scheme \<Rightarrow> rc \<times> vme_mapping \<times> 'a wstate_scheme) \<Rightarrow> vme_mapping
      \<Rightarrow> 'a wstate_scheme \<Rightarrow> rc \<times> user_out \<times> 'a wstate_scheme" where
  "ioctl_mapping k f desc s =
     (if \<not> k_copy_from_user k then (Err EFAULT, No_out, s)
      else case f desc s of
             (Err e, d, s') \<Rightarrow> (Err e, No_out, s')
           | (OK, d, s') \<Rightarrow> if \<not> k_copy_to_user k then (Err EFAULT, No_out, s') else (OK, Out_mapping d, s'))"

definition put_user :: "kernel \<Rightarrow> u32 \<Rightarrow> rc \<times> user_out" where
  "put_user k v = (if k_copy_to_user k then (OK, Out_uint v) else (Err EFAULT, No_out))"

text \<open>A failed \<open>get_user\<close> sets its variable to zero.\<close>

definition get_user :: "kernel \<Rightarrow> u32 \<Rightarrow> rc \<times> u32" where
  "get_user k v = (if k_copy_from_user k then (OK, v) else (Err EFAULT, 0))"

fun vme_window_ioctl ::
    "tsi148_hw \<Rightarrow> kernel \<Rightarrow> nat option \<Rightarrow> window_cmd \<Rightarrow> 'a wstate_scheme \<Rightarrow> rc \<times> user_out \<times> 'a wstate_scheme" where
  "vme_window_ioctl hw k file (VME_IOCTL_GET_WINDOW_ATTR d) s = ioctl_mapping k (vme_get_window_attr k) d s"
| "vme_window_ioctl hw k file (VME_IOCTL_CREATE_WINDOW d) s = ioctl_mapping k (vme_create_window k) d s"
| "vme_window_ioctl hw k file (VME_IOCTL_DESTROY_WINDOW n) s =
     (let (rc, s') = vme_destroy_window_ioctl k n s in (rc, No_out, s'))"
| "vme_window_ioctl hw k file (VME_IOCTL_FIND_MAPPING d) s =
     ioctl_mapping k (\<lambda>d s. vme_find_mapping_file k d (vme_create_on_find_fail s \<noteq> 0) file s) d s"
| "vme_window_ioctl hw k file (VME_IOCTL_RELEASE_MAPPING d) s =
     (if \<not> k_copy_from_user k then (Err EFAULT, No_out, s)
      else let (rc, s') = vme_release_mapping_file k d (vme_destroy_on_remove s \<noteq> 0) file s in (rc, No_out, s'))"
| "vme_window_ioctl hw k file VME_IOCTL_GET_CREATE_ON_FIND_FAIL s =
     (let (rc, out) = put_user k (vme_create_on_find_fail s) in (rc, out, s))"
| "vme_window_ioctl hw k file (VME_IOCTL_SET_CREATE_ON_FIND_FAIL v) s =
     (let (rc, x) = get_user k v in (rc, No_out, s\<lparr>vme_create_on_find_fail := x\<rparr>))"
| "vme_window_ioctl hw k file VME_IOCTL_GET_DESTROY_ON_REMOVE s =
     (let (rc, out) = put_user k (vme_destroy_on_remove s) in (rc, out, s))"
| "vme_window_ioctl hw k file (VME_IOCTL_SET_DESTROY_ON_REMOVE v) s =
     (let (rc, x) = get_user k v in (rc, No_out, s\<lparr>vme_destroy_on_remove := x\<rparr>))"
| "vme_window_ioctl hw k file VME_IOCTL_GET_BUS_ERROR s =
     (let (v, s') = vme_bus_error_check hw True s; (rc, out) = put_user k (if v then 1 else 0) in (rc, out, s'))"
| "vme_window_ioctl hw k file (VME_IOCTL_CHECK_CLEAR_BUS_ERROR d) s = vme_bus_error_check_clear_ioctl k d s"
| "vme_window_ioctl hw k file (OTHER_IOCTL c) s = (Err ENOIOCTLCMD, No_out, s)"

text \<open>The fields of \<open>vm_area_struct\<close> the driver reads; \<open>vma_io\<close> stands for the flags and protection set.\<close>

record vm_area =
  vm_start :: u32
  vm_end :: u32
  vm_pgoff :: u32
  vma_io :: bool

text \<open>
  \<open>vme_remap_pfn_range\<close>: the PCI range handed to \<open>io_remap_pfn_range\<close>, which answers \<open>k_remap\<close>.
\<close>

definition vme_remap_pfn_range :: "kernel \<Rightarrow> vm_area \<Rightarrow> rc \<times> vm_area \<times> (u32 \<times> u32)" where
  "vme_remap_pfn_range k vma =
     (k_remap k, vma\<lparr>vma_io := True\<rparr>, (push_bit 12 (vm_pgoff vma), vm_end vma - vm_start vma))"

definition vme_check_mmap_region :: "vme_mapping \<Rightarrow> vme_mapping \<Rightarrow> u32 \<Rightarrow> u32 \<Rightarrow> bool" where
  "vme_check_mmap_region window mapping addr sz =
     (if addr < vm_pci_addrl window \<or> addr + sz > vm_pci_addrl window + vm_sizel window then False
      else let aligned_start = align_down 12 (vm_pci_addrl mapping);
               e = vm_pci_addrl mapping + vm_sizel mapping;
               aligned_end = (if e AND 0xfff \<noteq> 0 then align_down 12 e + 0x1000 else e)
           in aligned_start = addr \<and> aligned_end = addr + sz)"

text \<open>The result, the area, the range mapped if any, and the state.\<close>

fun vme_window_mmap_from ::
    "kernel \<Rightarrow> nat option \<Rightarrow> nat list \<Rightarrow> vm_area \<Rightarrow> 'a wstate_scheme
      \<Rightarrow> rc \<times> vm_area \<times> (u32 \<times> u32) option \<times> 'a wstate_scheme" where
  "vme_window_mmap_from k file [] vma s = (Err EINVAL, vma, None, s)"
| "vme_window_mmap_from k file (i # is) vma s =
     (case mutex_lock_interruptible k i s of
        None \<Rightarrow> (Err ERESTARTSYS, vma, None, s)
      | Some s1 \<Rightarrow>
          let w = window_table s1 ! i;
              addr = push_bit 12 (vm_pgoff vma);
              sz = vm_end vma - vm_start vma
          in if w_active w \<and> (\<exists>m \<in> set (w_mappings w). ti_file (mp_client m) = file
                  \<and> vme_check_mmap_region (w_desc w) (mp_desc m) addr sz)
             then let (rc, vma', r) = vme_remap_pfn_range k vma
                  in (rc, vma', Some r, mutex_unlock i s1)
             else vme_window_mmap_from k file is vma (mutex_unlock i s1))"

definition vme_window_mmap ::
    "kernel \<Rightarrow> nat option \<Rightarrow> vm_area \<Rightarrow> 'a wstate_scheme
      \<Rightarrow> rc \<times> vm_area \<times> (u32 \<times> u32) option \<times> 'a wstate_scheme" where
  "vme_window_mmap k file vma s = vme_window_mmap_from k file [0..<TSI148_NUM_OUT_WINDOWS] vma s"

section \<open>Module start and end\<close>

definition vme_window_init :: "'a wstate_scheme \<Rightarrow> 'a wstate_scheme" where
  "vme_window_init s = fold (\<lambda>i. set_window i (\<lambda>w. w\<lparr>w_mappings := [], w_lock := False, w_active := False\<rparr>))
     [0..<TSI148_NUM_OUT_WINDOWS] s"

text \<open>The calls of \<open>vme_destroy_window\<close>, one after the other; their results are not looked at.\<close>

fun window_exit_from :: "kernel \<Rightarrow> nat list \<Rightarrow> 'a wstate_scheme \<Rightarrow> 'a wstate_scheme" where
  "window_exit_from k [] s = s"
| "window_exit_from k (i # is) s =
     window_exit_from k is (if w_active (window_table s ! i) then snd (vme_destroy_window k (int i) s) else s)"

definition vme_window_exit :: "kernel \<Rightarrow> 'a wstate_scheme \<Rightarrow> 'a wstate_scheme" where
  "vme_window_exit k s = window_exit_from k [0..<TSI148_NUM_OUT_WINDOWS] s"

end
