(* ===== verification/Vme_Window_Inv.thy ===== *)
theory Vme_Window_Inv
  imports Vme_Window
begin

text \<open>
  The invariant of the window table and its preservation. Each operation is first brought into
  a closed form on states whose mutexes are free: an operation that fails leaves the state
  as it was, an operation that succeeds is one update of the table. The invariant and
  its preservation are read off these forms.
\<close>

section \<open>The invariant\<close>

text \<open>
  A mapping of a window: it carries the number of the window, its address modifier and data
  width, lies above the base of the window, and its PCI and virtual addresses are as far from the
  base of the window as its VME address is.
\<close>

definition mapping_ok :: "nat \<Rightarrow> vme_mapping \<Rightarrow> vme_mapping \<Rightarrow> bool" where
  "mapping_ok i d m \<longleftrightarrow> vm_window_num m = int i \<and> vm_am m = vm_am d \<and> vm_data_width m = vm_data_width d
     \<and> vm_vme_addrl d \<le> vm_vme_addrl m
     \<and> vm_kernel_va m = vm_kernel_va d + (vm_vme_addrl m - vm_vme_addrl d)
     \<and> vm_pci_addrl m = vm_pci_addrl d + (vm_vme_addrl m - vm_vme_addrl d)"

text \<open>The registers of an active window are those its descriptor asks for.\<close>

definition programmed :: "vme_mapping \<Rightarrow> tsi148_otrans \<Rightarrow> bool" where
  "programmed d t \<longleftrightarrow> (\<exists>attrs t'.
     tsi148_setup_window_attributes (vm_v2esst_mode d) (vm_data_width d) (vm_am d) = Inr attrs
     \<and> t = program_window d attrs t')"

definition active_ok :: "nat \<Rightarrow> tsi148_otrans \<Rightarrow> (u32 \<times> u32) option \<Rightarrow> window \<Rightarrow> bool" where
  "active_ok i t r w \<longleftrightarrow>
     (let d = w_desc w
      in vm_window_num d = int i \<and> vm_window_enabled d = 1 \<and> vm_kernel_va d \<noteq> 0
         \<and> low_bits 16 (vm_vme_addrl d) = 0 \<and> low_bits 16 (vm_sizel d) = 0 \<and> low_bits 16 (vm_pci_addrl d) = 0
         \<and> r = Some (vm_pci_addrl d, vm_sizel d) \<and> rs_start (w_rsrc w) = vm_pci_addrl d
         \<and> programmed d t \<and> (\<forall>m \<in> set (w_mappings w). mapping_ok i d (mp_desc m)))"

definition idle_ok :: "tsi148_otrans \<Rightarrow> (u32 \<times> u32) option \<Rightarrow> window \<Rightarrow> bool" where
  "idle_ok t r w \<longleftrightarrow> w_mappings w = [] \<and> w_rsrc w = zero_resource \<and> otat t = 0 \<and> r = None"

definition window_ok :: "nat \<Rightarrow> tsi148_otrans \<Rightarrow> (u32 \<times> u32) option \<Rightarrow> window \<Rightarrow> bool" where
  "window_ok i t r w \<longleftrightarrow> \<not> w_lock w \<and> w_users w = int (length (w_mappings w))
     \<and> (if w_active w then active_ok i t r w else idle_ok t r w)"

definition active_vas :: "window list \<Rightarrow> u32 multiset" where
  "active_vas ws = image_mset (\<lambda>w. vm_kernel_va (w_desc w)) (filter_mset w_active (mset ws))"

definition winv :: "'a wstate_scheme \<Rightarrow> bool" where
  "winv s \<longleftrightarrow> wf_lcsr (lcsr s) \<and> length (window_table s) = TSI148_NUM_OUT_WINDOWS
     \<and> (\<forall>i < TSI148_NUM_OUT_WINDOWS. window_ok i (otrans (lcsr s) ! i) (pci_regions s i) (window_table s ! i))
     \<and> mset (iomaps s) = active_vas (window_table s)"

section \<open>Windows of the table\<close>

lemma set_window_fields [window_simps]:
  "window_table (set_window i f s) = (window_table s)[i := f (window_table s ! i)]"
  "lcsr (set_window i f s) = lcsr s" "verr_desc (set_window i f s) = verr_desc s"
  "h_list (set_window i f s) = h_list s"
  "pci_regions (set_window i f s) = pci_regions s" "iomaps (set_window i f s) = iomaps s"
  "vme_create_on_find_fail (set_window i f s) = vme_create_on_find_fail s"
  "vme_destroy_on_remove (set_window i f s) = vme_destroy_on_remove s"
  by (simp_all add: set_window_def)

lemma set_window_id [window_simps]: "f (window_table s ! i) = window_table s ! i \<Longrightarrow> set_window i f s = s"
  by (simp add: set_window_def)

lemma set_window_set_window [window_simps]:
  "i < length (window_table s) \<Longrightarrow> set_window i f (set_window i g s) = set_window i (\<lambda>w. f (g w)) s"
  by (simp add: set_window_def)

lemma winvD:
  assumes "winv s"
  shows "wf_lcsr (lcsr s)" "length (window_table s) = 8" "mset (iomaps s) = active_vas (window_table s)"
  using assms by (simp_all add: winv_def)

lemma winv_window:
  "winv s \<Longrightarrow> i < 8 \<Longrightarrow> window_ok i (otrans (lcsr s) ! i) (pci_regions s i) (window_table s ! i)"
  by (simp add: winv_def)

lemma winv_unlocked: "winv s \<Longrightarrow> i < 8 \<Longrightarrow> \<not> w_lock (window_table s ! i)"
  by (auto dest: winv_window simp: window_ok_def)

lemma winv_active:
  "winv s \<Longrightarrow> i < 8 \<Longrightarrow> w_active (window_table s ! i)
    \<Longrightarrow> active_ok i (otrans (lcsr s) ! i) (pci_regions s i) (window_table s ! i)"
  by (auto dest: winv_window simp: window_ok_def)

lemma winv_idle:
  "winv s \<Longrightarrow> i < 8 \<Longrightarrow> \<not> w_active (window_table s ! i)
    \<Longrightarrow> idle_ok (otrans (lcsr s) ! i) (pci_regions s i) (window_table s ! i)"
  by (auto dest: winv_window simp: window_ok_def)

lemma winv_users: "winv s \<Longrightarrow> i < 8 \<Longrightarrow> w_users (window_table s ! i) = int (length (w_mappings (window_table s ! i)))"
  by (auto dest: winv_window simp: window_ok_def)

text \<open>Taking and giving back a mutex.\<close>

lemma lock_winv:
  assumes "winv s" and "i < 8"
  shows "mutex_lock_interruptible k i s
    = (if k_lock k i then Some (set_window i (\<lambda>w. w\<lparr>w_lock := True\<rparr>) s) else None)"
  using winv_unlocked [OF assms] by (simp add: mutex_lock_interruptible_def)

lemma unlock_lock [window_simps]:
  assumes "i < length (window_table s)" and "\<not> w_lock (window_table s ! i)"
  shows "mutex_unlock i (set_window i (\<lambda>w. w\<lparr>w_lock := True\<rparr>) s) = s"
  using assms by (simp add: mutex_unlock_def set_window_set_window set_window_id)

lemma unlock_set_lock:
  assumes "i < length (window_table s)" and "\<And>w. w_lock (f w) = w_lock w" and "\<And>w b. f (w\<lparr>w_lock := b\<rparr>) = (f w)\<lparr>w_lock := b\<rparr>"
    and "\<not> w_lock (window_table s ! i)"
  shows "mutex_unlock i (set_window i f (set_window i (\<lambda>w. w\<lparr>w_lock := True\<rparr>) s)) = set_window i f s"
proof -
  have "(f (window_table s ! i))\<lparr>w_lock := False\<rparr> = f (window_table s ! i)"
    using assms(2) [of "window_table s ! i"] assms(4) by simp
  then show ?thesis using assms(1,3) by (simp add: mutex_unlock_def set_window_def)
qed

text \<open>Replacing one window keeps the invariant when the new one is in order.\<close>

lemma active_vas_update:
  assumes "i < length ws"
  obtains R where "active_vas ws = (if w_active (ws ! i) then {#vm_kernel_va (w_desc (ws ! i))#} else {#}) + R"
    and "\<And>w. active_vas (ws[i := w]) = (if w_active w then {#vm_kernel_va (w_desc w)#} else {#}) + R"
proof -
  define M where "M = mset ws - {#ws ! i#}"
  have "mset ws = add_mset (ws ! i) M" using assms by (simp add: M_def)
  moreover have "mset (ws[i := w]) = add_mset w M" for w using assms by (simp add: mset_update M_def)
  ultimately show ?thesis
    by (intro that [of "image_mset (\<lambda>w. vm_kernel_va (w_desc w)) (filter_mset w_active M)"])
      (simp_all add: active_vas_def)
qed

lemma winv_set_window:
  assumes "winv s" and "i < 8"
    and "window_ok i (otrans (lcsr s) ! i) (pci_regions s i) (f (window_table s ! i))"
    and "w_active (f (window_table s ! i)) = w_active (window_table s ! i)"
    and "w_desc (f (window_table s ! i)) = w_desc (window_table s ! i)"
  shows "winv (set_window i f s)"
proof -
  note len = winvD(2) [OF assms(1)]
  obtain R where "active_vas (window_table s) = (if w_active (window_table s ! i) then {#vm_kernel_va (w_desc (window_table s ! i))#} else {#}) + R"
    and "\<And>w. active_vas ((window_table s)[i := w]) = (if w_active w then {#vm_kernel_va (w_desc w)#} else {#}) + R"
    using active_vas_update [of i "window_table s"] assms(2) len by metis
  then have "active_vas (window_table (set_window i f s)) = active_vas (window_table s)"
    using assms(4,5) by (simp add: set_window_fields)
  then show ?thesis
    using assms(1-3) len by (auto simp: winv_def set_window_fields nth_list_update)
qed

section \<open>Creating a window\<close>

lemma round_window_aligned:
  "low_bits 16 (vm_vme_addrl (round_window d)) = 0" "low_bits 16 (vm_sizel (round_window d)) = 0"
  by (simp_all add: round_window_def Let_def low_bits_literal)

lemma round_window_addr: "vm_vme_addrl (round_window d) = align_down 16 (vm_vme_addrl d)"
  by (simp add: round_window_def Let_def low_bits_literal align_down_id)

lemma round_window_size:
  "vm_sizel (round_window d) = (if low_bits 16 (vm_sizel d) = 0 then vm_sizel d
     else align_down 16 (vm_sizel d + 0x10000))"
  by (simp add: round_window_def Let_def low_bits_literal)

lemma round_window_frame [simp]:
  "vm_window_num (round_window d) = vm_window_num d" "vm_am (round_window d) = vm_am d"
  "vm_data_width (round_window d) = vm_data_width d" "vm_v2esst_mode (round_window d) = vm_v2esst_mode d"
  "vm_pci_addru (round_window d) = vm_pci_addru d" "vm_sizeu (round_window d) = vm_sizeu d"
  "vm_vme_addru (round_window d) = vm_vme_addru d"
  by (simp_all add: round_window_def Let_def)

lemma good_window_num:
  assumes "\<not> bad_window_num n"
  shows "nat n < 8" "int (nat n) = n"
  using assms by (auto simp: bad_window_num_def)

text \<open>The descriptor and the state a successful creation leaves.\<close>

definition created_desc :: "vme_mapping \<Rightarrow> u32 \<Rightarrow> u32 \<Rightarrow> vme_mapping" where
  "created_desc d0 va start = (round_window d0)\<lparr>vm_kernel_va := va, vm_pci_addrl := start, vm_window_enabled := 1\<rparr>"

definition created_state ::
    "nat \<Rightarrow> string option \<Rightarrow> vme_mapping \<Rightarrow> u32 \<Rightarrow> 'a wstate_scheme \<Rightarrow> 'a wstate_scheme" where
  "created_state n name d attrs s =
     (set_window n (\<lambda>w. w\<lparr>w_rsrc := \<lparr>rs_name = name, rs_start = vm_pci_addrl d,
            rs_end = vm_pci_addrl d + vm_sizel d - 1\<rparr>, w_desc := d, w_active := True\<rparr>) s)
       \<lparr>pci_regions := (pci_regions s)(n \<mapsto> (vm_pci_addrl d, vm_sizel d)),
        iomaps := vm_kernel_va d # iomaps s,
        lcsr := otrans_write n (program_window d attrs) (lcsr s)\<rparr>"

lemma program_window_enabled_irrelevant:
  "program_window (d\<lparr>vm_window_enabled := x\<rparr>) attrs = program_window d attrs"
  by (rule ext) (simp add: program_window_def window_otat_def Let_def)

lemma create_out_unmap_id:
  assumes "winv s" and "n < 8" and "\<not> w_active (window_table s ! n)"
    and "s4 = (set_window n (\<lambda>w. w\<lparr>w_lock := True, w_rsrc := r\<rparr>) s)
           \<lparr>pci_regions := (pci_regions s)(n \<mapsto> x), iomaps := va # iomaps s\<rparr>"
  shows "create_out_unmap n va s4 = s"
proof -
  let ?w = "window_table s ! n"
  have w: "w_rsrc ?w = zero_resource" "pci_regions s n = None" "\<not> w_lock ?w"
    using winv_idle [OF assms(1-3)] winv_unlocked [OF assms(1,2)] by (simp_all add: idle_ok_def)
  then have "?w\<lparr>w_rsrc := zero_resource, w_lock := False\<rparr> = ?w" by simp
  moreover have "(pci_regions s)(n := None) = pci_regions s" using w(2) by auto
  ultimately show ?thesis using assms(2) winvD(2) [OF assms(1)]
    by (simp add: assms(4) create_out_unmap_def create_out_release_def create_out_free_def release_resource_def
        iounmap_def mutex_unlock_def set_window_def)
qed

lemma create_out_release_id:
  assumes "winv s" and "n < 8" and "\<not> w_active (window_table s ! n)"
    and "s4 = (set_window n (\<lambda>w. w\<lparr>w_lock := True, w_rsrc := r\<rparr>) s)\<lparr>pci_regions := (pci_regions s)(n \<mapsto> x)\<rparr>"
  shows "create_out_release n s4 = s"
proof -
  have "create_out_release n s4 = create_out_unmap n 0 (s4\<lparr>iomaps := 0 # iomaps s\<rparr>)"
    by (simp add: create_out_unmap_def iounmap_def assms(4) set_window_def)
  also have "\<dots> = s" using assms(4) by (intro create_out_unmap_id [OF assms(1-3)]) simp
  finally show ?thesis .
qed

lemma create_out_free_id:
  assumes "winv s" and "n < 8" and "\<not> w_active (window_table s ! n)"
    and "s4 = set_window n (\<lambda>w. w\<lparr>w_lock := True, w_rsrc := r\<rparr>) s"
  shows "create_out_free n s4 = s"
proof -
  have "pci_regions s n = None" using winv_idle [OF assms(1-3)] by (simp add: idle_ok_def)
  then have "(pci_regions s)(n := None) = pci_regions s" by auto
  then have "create_out_free n s4 = create_out_release n (s4\<lparr>pci_regions := (pci_regions s)(n \<mapsto> (0, 0))\<rparr>)"
    by (simp add: create_out_release_def release_resource_def assms(4) set_window_def)
  also have "\<dots> = s" using assms(4) by (intro create_out_release_id [OF assms(1-3)]) simp
  finally show ?thesis .
qed

lemma create_window_realigned:
  assumes "low_bits 16 (vm_vme_addrl d) = 0" and "low_bits 16 (vm_sizel d) = 0"
    and "tsi148_create_window d c = (r, d', c')"
  shows "(\<exists>e. r = Err e \<and> c' = c) \<or>
    (\<exists>attrs. r = OK \<and> d' = d\<lparr>vm_window_enabled := 1\<rparr> \<and> low_bits 16 (vm_pci_addrl d) = 0
      \<and> tsi148_setup_window_attributes (vm_v2esst_mode d) (vm_data_width d) (vm_am d) = Inr attrs
      \<and> c' = otrans_write (nat (vm_window_num d)) (program_window d attrs) c)"
proof (cases r)
  case OK
  with assms(3) have "tsi148_create_window d c = (OK, d', c')" by simp
  then show ?thesis using OK window_realign_id [OF assms(1,2)] by (auto elim: create_window_OK)
next
  case (Err e)
  with assms(3) create_window_Err(1) show ?thesis by blast
qed

text \<open>A failed creation leaves the state as it was.\<close>

lemma vme_create_window_cases:
  assumes inv: "winv s" and run: "vme_create_window k d0 s = (r, d', s')"
  obtains (err) e where "r = Err e" "s' = s"
  | (ok) n name start va attrs where "r = OK" "n < 8" "vm_window_num d0 = int n" "vm_sizel d0 \<noteq> 0"
    "\<not> w_active (window_table s ! n)"
    "k_alloc_resource k (pci_regions s) (vm_sizel (round_window d0)) = Inr start" "va \<noteq> 0"
    "low_bits 16 start = 0" "d' = created_desc d0 va start"
    "tsi148_setup_window_attributes (vm_v2esst_mode d') (vm_data_width d') (vm_am d') = Inr attrs"
    "s' = created_state n name d' attrs s"
proof (cases "bad_window_num (vm_window_num d0) \<or> vm_sizel d0 = 0 \<or> \<not> k_lock k (nat (vm_window_num d0))")
  case True
  then show ?thesis
    using run inv err by (auto simp: vme_create_window_def Let_def lock_winv good_window_num split: if_splits)
next
  case False
  define n where "n = nat (vm_window_num d0)"
  define d where "d = round_window d0"
  have n: "n < 8" "vm_window_num d0 = int n" using False good_window_num by (simp_all add: n_def)
  have len: "n < length (window_table s)" using n winvD(2) [OF inv] by simp
  have unl: "\<not> w_lock (window_table s ! n)" using winv_unlocked inv n by blast
  have lock: "mutex_lock_interruptible k n s = Some (set_window n (\<lambda>w. w\<lparr>w_lock := True\<rparr>) s)"
    using lock_winv [OF inv n(1)] False by (simp add: n_def)
  show ?thesis
  proof (cases "w_active (window_table s ! n)")
    case True
    then have "s' = s \<and> r = Err EBUSY"
      using run False lock len unl
      by (simp add: vme_create_window_def Let_def n_def window_simps)
    then show ?thesis using err by blast
  next
    case idle: False
    define nm where "nm = (if k_kmalloc k then Some (window_name n) else None)"
    note eqs = nm_def [symmetric] vme_create_window_def Let_def n_def [symmetric] d_def [symmetric] lock pci_bus_alloc_resource_def
      set_window_fields len
    show ?thesis
    proof (cases "k_alloc_resource k (pci_regions s) (vm_sizel d)")
      case (Inl e)
      then have "r = Err e" and "s' = create_out_free n (set_window n
          (\<lambda>w. w\<lparr>w_lock := True, w_rsrc := \<lparr>rs_name = nm, rs_start = 0, rs_end = vm_sizel d\<rparr>\<rparr>) s)"
        using run False idle by (auto simp: eqs set_window_set_window)
      then show ?thesis using create_out_free_id [OF inv n(1) idle refl] err by simp
    next
      case (Inr start)
      define va where "va = k_ioremap k (iomaps s) start (vm_sizel d)"
      define rs where "rs = \<lparr>rs_name = nm, rs_start = start, rs_end = start + vm_sizel d - 1\<rparr>"
      define s3 where "s3 = (set_window n (\<lambda>w. w\<lparr>w_lock := True, w_rsrc := rs\<rparr>) s)
        \<lparr>pci_regions := (pci_regions s)(n \<mapsto> (start, vm_sizel d))\<rparr>"
      define d2 where "d2 = d\<lparr>vm_kernel_va := va, vm_pci_addrl := start\<rparr>"
      have s3: "pci_bus_alloc_resource k n (vm_sizel d) (set_window n (\<lambda>w. w\<lparr>w_rsrc := \<lparr>rs_name = nm, rs_start = 0,
           rs_end = vm_sizel d\<rparr>\<rparr>) (set_window n (\<lambda>w. w\<lparr>w_lock := True\<rparr>) s)) = (OK, s3)"
        using Inr len by (simp add: pci_bus_alloc_resource_def set_window_fields set_window_set_window s3_def rs_def)
      have s3f: "rs_start (w_rsrc (window_table s3 ! n)) = start" "iomaps s3 = iomaps s" "lcsr s3 = lcsr s"
        using len by (simp_all add: s3_def rs_def set_window_fields)
      show ?thesis
      proof (cases "va = 0")
        case True
        then have "r = Err ENOMEM" and "s' = create_out_release n s3"
          using run False idle Inr s3 s3f len
          by (simp_all add: vme_create_window_def Let_def n_def [symmetric] d_def [symmetric] lock set_window_fields
              nm_def [symmetric] ioremap_def va_def)
        then show ?thesis using create_out_release_id [OF inv n(1) idle s3_def] err by simp
      next
        case va: False
        obtain r' d3 c where cw: "tsi148_create_window d2 (lcsr s) = (r', d3, c)" by (metis prod_cases3)
        have al: "low_bits 16 (vm_vme_addrl d2) = 0" "low_bits 16 (vm_sizel d2) = 0"
          by (simp_all add: d2_def d_def round_window_aligned)
        let ?s4 = "s3\<lparr>iomaps := va # iomaps s\<rparr>"
        have res: "(r, d', s') = (case r' of Err e \<Rightarrow> (Err e, d3, create_out_unmap n va (?s4\<lparr>lcsr := c\<rparr>))
            | OK \<Rightarrow> (OK, d3, mutex_unlock n (set_window n (\<lambda>w. w\<lparr>w_desc := d3, w_active := True\<rparr>) (?s4\<lparr>lcsr := c\<rparr>))))"
          using run False idle Inr s3 s3f len va cw
          by (auto simp: vme_create_window_def Let_def n_def [symmetric] d_def [symmetric] lock set_window_fields
              nm_def [symmetric] ioremap_def va_def [symmetric] d2_def split: rc.splits)
        from create_window_realigned [OF al cw] show ?thesis
        proof (elim disjE exE conjE)
          fix e assume "r' = Err e" "c = lcsr s"
          then have "r = Err e" "s' = create_out_unmap n va ?s4"
            using res by (simp_all add: s3_def set_window_def)
          moreover have "create_out_unmap n va ?s4 = s"
            by (rule create_out_unmap_id [OF inv n(1) idle]) (simp add: s3_def)
          ultimately show ?thesis using err by simp
        next
          fix attrs assume crt: "r' = OK" "d3 = d2\<lparr>vm_window_enabled := 1\<rparr>" "low_bits 16 (vm_pci_addrl d2) = 0"
            "tsi148_setup_window_attributes (vm_v2esst_mode d2) (vm_data_width d2) (vm_am d2) = Inr attrs"
            "c = otrans_write (nat (vm_window_num d2)) (program_window d2 attrs) (lcsr s)"
          have d3: "d3 = created_desc d0 va start" by (simp add: crt(2) d2_def d_def created_desc_def)
          have "vm_window_num d2 = int n" using n by (simp add: d2_def d_def)
          then have c: "c = otrans_write n (program_window d3 attrs) (lcsr s)"
            by (simp add: crt(2,5) program_window_enabled_irrelevant)
          have same: "w\<lparr>w_rsrc := a, w_desc := b, w_active := True, w_lock := False\<rparr>
              = w\<lparr>w_rsrc := a, w_desc := b, w_active := True\<rparr>" if "\<not> w_lock w" for w a b
            using that by (cases w) simp
          have "s' = created_state n nm d3 attrs s"
            using res crt(1) len same [OF unl]
            by (simp add: c created_state_def s3_def rs_def mutex_unlock_def set_window_def d3 created_desc_def d_def)
          moreover have r: "r = OK" "d' = d3" using res crt(1) by simp_all
          moreover have "low_bits 16 start = 0" "tsi148_setup_window_attributes (vm_v2esst_mode d3)
              (vm_data_width d3) (vm_am d3) = Inr attrs"
            using crt(3,4) by (simp_all add: crt(2) d2_def)
          ultimately show ?thesis
            using ok [of n start va attrs nm] n False idle Inr va d3 by (simp add: d_def)
        qed
      qed
    qed
  qed
qed

lemma created_state_fields:
  assumes "n < length (window_table s)"
  shows "lcsr (created_state n name d attrs s) = otrans_write n (program_window d attrs) (lcsr s)"
    "pci_regions (created_state n name d attrs s) = (pci_regions s)(n \<mapsto> (vm_pci_addrl d, vm_sizel d))"
    "iomaps (created_state n name d attrs s) = vm_kernel_va d # iomaps s"
    "length (window_table (created_state n name d attrs s)) = length (window_table s)"
    "window_table (created_state n name d attrs s) ! i = (if i = n
       then (window_table s ! n)\<lparr>w_rsrc := \<lparr>rs_name = name, rs_start = vm_pci_addrl d,
            rs_end = vm_pci_addrl d + vm_sizel d - 1\<rparr>, w_desc := d, w_active := True\<rparr>
       else window_table s ! i)"
  using assms by (simp_all add: created_state_def set_window_fields nth_list_update)

lemma winv_created_state:
  assumes inv: "winv s" and n: "n < 8" and idle: "\<not> w_active (window_table s ! n)"
    and d: "vm_window_num d = int n" "vm_window_enabled d = 1" "vm_kernel_va d \<noteq> 0"
      "low_bits 16 (vm_vme_addrl d) = 0" "low_bits 16 (vm_sizel d) = 0" "low_bits 16 (vm_pci_addrl d) = 0"
    and at: "tsi148_setup_window_attributes (vm_v2esst_mode d) (vm_data_width d) (vm_am d) = Inr attrs"
  shows "winv (created_state n name d attrs s)"
proof -
  let ?s = "created_state n name d attrs s"
  note len = winvD(2) [OF inv] and wf = winvD(1) [OF inv]
  have ln: "n < length (window_table s)" using len n by simp
  note fields = created_state_fields [OF ln]
  have no: "n < length (otrans (lcsr s))" using wf n by (simp add: wf_lcsr_def)
  have w: "w_mappings (window_table s ! n) = []" using winv_idle [OF inv n idle] by (simp add: idle_ok_def)
  have ok: "window_ok i (otrans (lcsr ?s) ! i) (pci_regions ?s i) (window_table ?s ! i)" if "i < 8" for i
  proof (cases "i = n")
    case True
    have "programmed d (otrans (lcsr ?s) ! n)"
      using at no by (auto simp: programmed_def fields chip_simps)
    then show ?thesis
      using True d w winv_window [OF inv n] by (simp add: fields window_ok_def active_ok_def Let_def)
  next
    case False
    then show ?thesis using winv_window [OF inv that] no by (simp add: fields chip_simps)
  qed
  have "mset (iomaps ?s) = active_vas (window_table ?s)"
    by (rule active_vas_update [OF ln])
      (simp add: created_state_def set_window_fields winvD(3) [OF inv] idle)
  then show ?thesis using ok wf len fields by (simp add: winv_def chip_simps)
qed

lemma created_desc_fields [simp]:
  "vm_window_num (created_desc d va st) = vm_window_num d" "vm_window_enabled (created_desc d va st) = 1"
  "vm_kernel_va (created_desc d va st) = va" "vm_pci_addrl (created_desc d va st) = st"
  "vm_am (created_desc d va st) = vm_am d" "vm_data_width (created_desc d va st) = vm_data_width d"
  "vm_v2esst_mode (created_desc d va st) = vm_v2esst_mode d"
  "vm_vme_addrl (created_desc d va st) = align_down 16 (vm_vme_addrl d)"
  "vm_sizel (created_desc d va st) = vm_sizel (round_window d)"
  "vm_vme_addru (created_desc d va st) = vm_vme_addru d" "vm_sizeu (created_desc d va st) = vm_sizeu d"
  "vm_pci_addru (created_desc d va st) = vm_pci_addru d"
  by (simp_all add: created_desc_def round_window_addr)

lemma winv_create [window_wf]:
  assumes "winv s" and "vme_create_window k d0 s = (r, d', s')"
  shows "winv s'"
  using assms
proof (cases rule: vme_create_window_cases)
  case (ok n name start va attrs)
  then show ?thesis
    using winv_created_state [OF assms(1) ok(2,5), of d' attrs name]
    by (simp add: round_window_aligned)
qed (use assms(1) in simp)

section \<open>Destroying a window\<close>

lemma destroy_walk_eq: "destroy_walk ms users = ([], users - int (length ms))"
  by (induction ms arbitrary: users) simp_all

lemma destroy_mappings_all:
  "w_users w = int (length (w_mappings w)) \<Longrightarrow> destroy_mappings w = ([], 0)"
  by (simp add: destroy_mappings_def destroy_walk_eq)

definition destroyed_state :: "nat \<Rightarrow> 'a wstate_scheme \<Rightarrow> 'a wstate_scheme" where
  "destroyed_state n s =
     (let d = (w_desc (window_table s ! n))\<lparr>vm_kernel_va := 0\<rparr>
      in (set_window n (\<lambda>w. w\<lparr>w_mappings := [], w_users := 0, w_active := False,
            w_desc := d\<lparr>vm_window_enabled := 0\<rparr>, w_rsrc := zero_resource\<rparr>) s)
         \<lparr>iomaps := remove1 (vm_kernel_va (w_desc (window_table s ! n))) (iomaps s),
          lcsr := snd (tsi148_remove_window d (lcsr s)),
          pci_regions := (pci_regions s)(n := None)\<rparr>)"

lemma vme_destroy_window_cases:
  assumes inv: "winv s" and run: "vme_destroy_window k num s = (r, s')"
  obtains (err) e where "r = Err e" "s' = s"
    "bad_window_num num \<or> \<not> k_lock k (nat num) \<or> \<not> w_active (window_table s ! nat num)"
  | (ok) n where "r = OK" "n < 8" "num = int n" "w_active (window_table s ! n)" "k_lock k n"
    "s' = destroyed_state n s"
proof (cases "bad_window_num num \<or> \<not> k_lock k (nat num)")
  case True
  then show ?thesis using run inv err
    by (auto simp: vme_destroy_window_def Let_def lock_winv good_window_num split: if_splits)
next
  case False
  define n where "n = nat num"
  have n: "n < 8" "num = int n" using False good_window_num by (simp_all add: n_def)
  have len: "n < length (window_table s)" using n winvD(2) [OF inv] by simp
  have unl: "\<not> w_lock (window_table s ! n)" using winv_unlocked inv n by blast
  have lock: "mutex_lock_interruptible k n s = Some (set_window n (\<lambda>w. w\<lparr>w_lock := True\<rparr>) s)"
    using lock_winv [OF inv n(1)] False by (simp add: n_def)
  show ?thesis
  proof (cases "w_active (window_table s ! n)")
    case False
    then have "s' = s \<and> r = Err EINVAL"
      using run lock len unl \<open>\<not> (bad_window_num num \<or> \<not> k_lock k (nat num))\<close>
      by (auto simp: vme_destroy_window_def Let_def n_def [symmetric] window_simps)
    then show ?thesis using err False by (auto simp: n_def)
  next
    case True
    have same: "w\<lparr>w_mappings := a, w_users := u, w_active := b, w_desc := c, w_rsrc := e, w_lock := False\<rparr>
        = w\<lparr>w_mappings := a, w_users := u, w_active := b, w_desc := c, w_rsrc := e\<rparr>"
      if "\<not> w_lock w" for w a b c e u
      using that by (cases w) simp
    have users: "w_users (window_table s ! n) = int (length (w_mappings (window_table s ! n)))"
      using winv_users inv n by blast
    have walk: "destroy_mappings ((window_table s ! n)\<lparr>w_lock := True\<rparr>) = ([], 0)"
      using users by (intro destroy_mappings_all) simp
    have "vme_destroy_window k num s = (OK, destroyed_state n s)"
      using \<open>\<not> (bad_window_num num \<or> \<not> k_lock k (nat num))\<close>
      by (simp add: vme_destroy_window_def n_def [symmetric] lock set_window_fields len True walk
          set_window_def destroyed_state_def iounmap_def release_resource_def mutex_unlock_def
          tsi148_remove_window_def same [OF unl])
    then have "(r, s') = (OK, destroyed_state n s)" using run by simp
    then show ?thesis using ok [OF _ n True] \<open>\<not> (bad_window_num num \<or> \<not> k_lock k (nat num))\<close>
      unfolding n_def by blast
  qed
qed

lemma destroyed_state_fields:
  assumes "n < length (window_table s)"
  shows "pci_regions (destroyed_state n s) = (pci_regions s)(n := None)"
    "iomaps (destroyed_state n s) = remove1 (vm_kernel_va (w_desc (window_table s ! n))) (iomaps s)"
    "length (window_table (destroyed_state n s)) = length (window_table s)"
    "lcsr (destroyed_state n s)
       = snd (tsi148_remove_window ((w_desc (window_table s ! n))\<lparr>vm_kernel_va := 0\<rparr>) (lcsr s))"
    "window_table (destroyed_state n s) ! i = (if i = n
       then (window_table s ! n)\<lparr>w_mappings := [], w_users := 0, w_active := False,
         w_desc := (w_desc (window_table s ! n))\<lparr>vm_kernel_va := 0, vm_window_enabled := 0\<rparr>,
         w_rsrc := zero_resource\<rparr>
       else window_table s ! i)"
  using assms by (simp_all add: destroyed_state_def set_window_fields nth_list_update Let_def)

lemma winv_destroyed_state:
  assumes inv: "winv s" and n: "n < 8" and act: "w_active (window_table s ! n)"
  shows "winv (destroyed_state n s)"
proof -
  let ?s = "destroyed_state n s" and ?w = "window_table s ! n"
  note len = winvD(2) [OF inv] and wf = winvD(1) [OF inv]
  have ln: "n < length (window_table s)" using len n by simp
  note fields = destroyed_state_fields [OF ln]
  have no: "n < length (otrans (lcsr s))" using wf n by (simp add: wf_lcsr_def)
  have num: "vm_window_num (w_desc ?w) = int n" using winv_active [OF inv n act] by (simp add: active_ok_def Let_def)
  have ok: "window_ok i (otrans (lcsr ?s) ! i) (pci_regions ?s i) (window_table ?s ! i)" if "i < 8" for i
    using winv_window [OF inv that] no num
    by (auto simp: fields window_ok_def idle_ok_def tsi148_remove_window_def chip_simps)
  have "mset (iomaps ?s) = active_vas (window_table ?s)"
    by (rule active_vas_update [OF ln])
      (simp add: destroyed_state_def set_window_fields Let_def winvD(3) [OF inv] act)
  then show ?thesis using ok wf len fields by (simp add: winv_def tsi148_remove_window_def chip_simps)
qed

lemma winv_destroy [window_wf]:
  assumes "winv s" and "vme_destroy_window k num s = (r, s')"
  shows "winv s'"
  using assms
proof (cases rule: vme_destroy_window_cases)
  case (ok n)
  then show ?thesis using winv_destroyed_state [OF assms(1)] by simp
qed (use assms(1) in simp)

section \<open>Closing a file\<close>

text \<open>\<open>drop_file\<close> is what closing a file does to a window: its mappings go, the others stay in order.\<close>

definition drop_file :: "nat option \<Rightarrow> window \<Rightarrow> window" where
  "drop_file file w =
     (let ms = filter (\<lambda>m. ti_file (mp_client m) \<noteq> file) (w_mappings w)
      in w\<lparr>w_mappings := ms, w_users := int (length ms)\<rparr>)"

lemma release_walk_eq:
  "release_walk file ms users = (filter (\<lambda>m. ti_file (mp_client m) \<noteq> file) ms,
     users - int (length ms) + int (length (filter (\<lambda>m. ti_file (mp_client m) \<noteq> file) ms)))"
  by (induction ms arbitrary: users) auto

lemma winv_drop_file: "winv s \<Longrightarrow> i < 8 \<Longrightarrow> winv (set_window i (drop_file file) s)"
  by (rule winv_set_window)
    (auto simp: drop_file_def Let_def window_ok_def active_ok_def idle_ok_def dest: winv_window)

lemma drop_file_idle:
  assumes "w_mappings w = []" and "w_users w = 0"
  shows "drop_file file w = w"
  using assms by (cases w) (simp add: drop_file_def)

lemma window_release_step:
  assumes inv: "winv s" and i: "i < 8" and "k_lock k i"
  shows "vme_window_release_from k file (i # is) s
    = vme_window_release_from k file is (set_window i (drop_file file) s)"
proof -
  let ?w = "window_table s ! i"
  have len: "i < length (window_table s)" using i winvD(2) [OF inv] by simp
  have unl: "\<not> w_lock ?w" and users: "w_users ?w = int (length (w_mappings ?w))"
    using winv_unlocked winv_users inv i by blast+
  show ?thesis
  proof (cases "\<not> w_active ?w \<or> w_mappings ?w = []")
    case True
    then have "w_mappings ?w = []" using winv_idle [OF inv i] by (auto simp: idle_ok_def)
    then have "drop_file file ?w = ?w" using users by (simp add: drop_file_idle)
    then have "set_window i (drop_file file) s = s" by (rule set_window_id)
    then show ?thesis
      using True assms(3) len unl by (simp add: lock_winv [OF inv i] set_window_fields unlock_lock)
  next
    case False
    let ?f = "\<lambda>w. w\<lparr>w_mappings := fst (release_walk file (w_mappings ?w) (w_users ?w)),
                w_users := snd (release_walk file (w_mappings ?w) (w_users ?w))\<rparr>"
    have "set_window i (drop_file file) s = set_window i ?f s"
      using users by (simp add: set_window_def drop_file_def release_walk_eq Let_def)
    moreover have "mutex_unlock i (set_window i ?f (set_window i (\<lambda>w. w\<lparr>w_lock := True\<rparr>) s)) = set_window i ?f s"
      using len unl by (intro unlock_set_lock) simp_all
    ultimately show ?thesis
      using False assms(3) len by (simp add: lock_winv [OF inv i] set_window_fields split_def Let_def comp_def)
  qed
qed

lemma window_release_from_eq:
  assumes "winv s" and "set is \<subseteq> {..<8}"
  shows "vme_window_release_from k file is s = (if \<forall>i\<in>set is. k_lock k i then OK else Err ERESTARTSYS,
    fold (\<lambda>i. set_window i (drop_file file)) (takeWhile (k_lock k) is) s)"
  using assms
proof (induction "is" arbitrary: s)
  case (Cons i "is")
  show ?case
  proof (cases "k_lock k i")
    case True
    have "winv (set_window i (drop_file file) s)" using Cons.prems winv_drop_file by auto
    from Cons.IH [OF this] show ?thesis
      using True Cons.prems window_release_step [OF Cons.prems(1)] by simp
  next
    case False
    then show ?thesis using Cons.prems by (simp add: lock_winv)
  qed
qed simp

lemma winv_fold_drop: "winv s \<Longrightarrow> set is \<subseteq> {..<8} \<Longrightarrow> winv (fold (\<lambda>i. set_window i (drop_file file)) is s)"
  by (induction "is" arbitrary: s) (auto intro: winv_drop_file)

lemma window_indices: "set [0..<8] \<subseteq> {..<(8::nat)}"
  by auto

lemma winv_release [window_wf]:
  assumes "winv s" and "vme_window_release k file s = (r, s')"
  shows "winv s'"
proof -
  have "set (takeWhile (k_lock k) [0..<8]) \<subseteq> {..<8}" by (auto dest: set_takeWhileD)
  then show ?thesis
    using assms(2) winv_fold_drop [OF assms(1)] window_release_from_eq [OF assms(1) window_indices, of k "file"]
    by (auto simp: vme_window_release_def)
qed

section \<open>Adding and removing mappings\<close>

definition client_of :: "kernel \<Rightarrow> nat option \<Rightarrow> vme_taskinfo" where
  "client_of k file = (case file of
       Some f \<Rightarrow> \<lparr>pid_nr = k_pid k, ti_name = k_comm k, ti_file = Some f\<rparr>
     | None \<Rightarrow> \<lparr>pid_nr = 0, ti_name = ''kernel'', ti_file = None\<rparr>)"

definition push_mapping :: "mapping \<Rightarrow> window \<Rightarrow> window" where
  "push_mapping m w = w\<lparr>w_mappings := w_mappings w @ [m], w_users := w_users w + 1\<rparr>"

lemma add_mapping_eq:
  "add_mapping k i d file s = (if k_kzalloc k
     then (OK, set_window i (push_mapping \<lparr>mp_desc = d, mp_client = client_of k file\<rparr>) s)
     else (Err ENOMEM, s))"
  by (simp add: add_mapping_def client_of_def push_mapping_def [abs_def])

lemma ti_file_client_of [simp]: "ti_file (client_of k file) = file"
  by (simp add: client_of_def split: option.split)

lemma winv_push_mapping:
  assumes "winv s" and "i < 8" and "w_active (window_table s ! i)"
    and "mapping_ok i (w_desc (window_table s ! i)) (mp_desc m)"
  shows "winv (set_window i (push_mapping m) s)"
  using assms winv_window [OF assms(1,2)]
  by (intro winv_set_window) (auto simp: push_mapping_def window_ok_def active_ok_def Let_def)

lemma remove_first_Some:
  assumes "remove_first P ms = Some ms'"
  shows "\<exists>xs m ys. ms = xs @ m # ys \<and> ms' = xs @ ys \<and> P m \<and> (\<forall>x \<in> set xs. \<not> P x)"
  using assms
proof (induction ms arbitrary: ms')
  case (Cons a ms)
  show ?case
  proof (cases "P a")
    case True
    then show ?thesis using Cons.prems by (intro exI [of _ "[]"] exI [of _ a] exI [of _ ms]) simp
  next
    case False
    then obtain ms1 where "remove_first P ms = Some ms1" "ms' = a # ms1"
      using Cons.prems by (auto split: option.splits)
    with Cons.IH obtain xs m ys where "ms = xs @ m # ys" "ms1 = xs @ ys" "P m" "\<forall>x \<in> set xs. \<not> P x"
      by blast
    with \<open>ms' = a # ms1\<close> False show ?thesis
      by (intro exI [of _ "a # xs"] exI [of _ m] exI [of _ ys]) simp
  qed
qed simp

lemma remove_first_None: "remove_first P ms = None \<longleftrightarrow> (\<forall>m \<in> set ms. \<not> P m)"
  by (induction ms) (auto split: option.splits)

lemma remove_first_append:
  "\<forall>x \<in> set xs. \<not> P x \<Longrightarrow> P m \<Longrightarrow> remove_first P (xs @ m # ys) = Some (xs @ ys)"
  by (induction xs) auto

lemma remove_first_length: "remove_first P ms = Some ms' \<Longrightarrow> length ms = Suc (length ms')"
  using remove_first_Some by fastforce

lemma remove_first_subset: "remove_first P ms = Some ms' \<Longrightarrow> set ms' \<subseteq> set ms"
  using remove_first_Some by fastforce

definition pop_mapping :: "mapping list \<Rightarrow> window \<Rightarrow> window" where
  "pop_mapping ms w = w\<lparr>w_mappings := ms, w_users := w_users w - 1\<rparr>"

lemma winv_pop_mapping:
  assumes "winv s" and "i < 8" and "remove_first P (w_mappings (window_table s ! i)) = Some ms"
  shows "winv (set_window i (pop_mapping ms) s)"
proof -
  have "w_active (window_table s ! i)"
    using winv_idle [OF assms(1,2)] assms(3) by (cases "w_active (window_table s ! i)") (auto simp: idle_ok_def)
  then show ?thesis
    using assms(1,2) winv_window [OF assms(1,2)] remove_first_length [OF assms(3)] remove_first_subset [OF assms(3)]
    by (intro winv_set_window) (auto simp: pop_mapping_def window_ok_def active_ok_def Let_def)
qed

section \<open>Finding a mapping\<close>

lemma window_suits_lock [simp]: "window_suits match (w\<lparr>w_lock := b\<rparr>) = window_suits match w"
  by (simp add: window_suits_def)

lemma search_window_cases:
  assumes inv: "winv s" and "set is \<subseteq> {..<8}"
  obtains (signal) "search_window k match is s = (Inl ERESTARTSYS, s)" "\<exists>i \<in> set is. \<not> k_lock k i"
  | (hit) i where "search_window k match is s = (Inr (Some i), set_window i (\<lambda>w. w\<lparr>w_lock := True\<rparr>) s)"
      "i \<in> set is" "window_suits match (window_table s ! i)"
  | (miss) "search_window k match is s = (Inr None, s)"
      "\<forall>i \<in> set is. \<not> window_suits match (window_table s ! i)"
  using assms(2)
proof (induction "is" arbitrary: thesis)
  case Nil
  then show ?case by simp
next
  case (Cons i "is")
  have i: "i < 8" "i < length (window_table s)" using Cons.prems(4) winvD(2) [OF inv] by auto
  note step = lock_winv [OF inv i(1)] set_window_fields i(2) unlock_lock [OF i(2) winv_unlocked [OF inv i(1)]]
  show ?case
  proof (cases "k_lock k i \<and> \<not> window_suits match (window_table s ! i)")
    case True
    then have eq: "search_window k match (i # is) s = search_window k match is s" by (simp add: step)
    have sub: "set is \<subseteq> {..<8}" using Cons.prems(4) by simp
    show ?thesis
      by (rule Cons.IH [OF _ _ _ sub]) (use eq True Cons.prems(1-3) in auto)
  next
    case False
    then show ?thesis using Cons.prems(1,2) by (cases "k_lock k i") (auto simp: step)
  qed
qed

lemma first_unused_Some:
  "first_unused ws j = Some i \<Longrightarrow> j \<le> i \<and> i - j < length ws \<and> \<not> w_active (ws ! (i - j))
     \<and> (\<forall>m < i - j. w_active (ws ! m))"
proof (induction ws arbitrary: j)
  case (Cons w ws)
  show ?case
  proof (cases "w_active w")
    case True
    then have "first_unused ws (Suc j) = Some i" using Cons.prems by simp
    note IH = Cons.IH [OF this]
    then have "i - j = Suc (i - Suc j)" by auto
    then show ?thesis using IH True by (auto simp: nth_Cons split: nat.splits)
  qed (use Cons.prems in auto)
qed simp

lemma first_unused_None: "first_unused ws j = None \<longleftrightarrow> (\<forall>w \<in> set ws. w_active w)"
  by (induction ws arbitrary: j) auto

lemma place_mapping_ok:
  assumes "vm_am m = vm_am d" and "vm_data_width m = vm_data_width d" and "vm_vme_addrl d \<le> vm_vme_addrl m"
  shows "mapping_ok i d (place_mapping m d (int i))"
  using assms by (simp add: mapping_ok_def place_mapping_def Let_def)

lemma optimize_fields [simp]:
  "vm_window_num (vme_optimize_window_size d) = vm_window_num d" "vm_am (vme_optimize_window_size d) = vm_am d"
  "vm_data_width (vme_optimize_window_size d) = vm_data_width d"
  by (simp_all add: vme_optimize_window_size_def Let_def)

lemma optimize_addr_le: "vm_vme_addrl (vme_optimize_window_size d) \<le> vm_vme_addrl d"
  by (simp add: vme_optimize_window_size_def Let_def)

text \<open>
  Finding a mapping has four outcomes: nothing happened; a new window was made, but there
  was no memory for the mapping; the mapping is on a window that was there; the mapping is on a
  new window.
\<close>

lemma find_mapping_cases:
  assumes inv: "winv s" and run: "vme_find_mapping_file k match force file s = (r, m', s')"
  obtains (err) e where "r = Err e" "s' = s"
  | (nomem) wnd where "r = Err ENOMEM" "force"
      "vme_create_window (nested k) wnd s = (OK, w_desc (window_table s' ! nat (vm_window_num wnd)), s')"
  | (hit) i where "r = OK" "i < 8" "window_suits match (window_table s ! i)"
      "m' = place_mapping match (w_desc (window_table s ! i)) (int i)"
      "s' = set_window i (push_mapping \<lparr>mp_desc = m', mp_client = client_of k file\<rparr>) s"
  | (new) i d s2 where "r = OK" "i < 8" "force" "\<not> w_active (window_table s ! i)"
      "\<forall>j < 8. \<not> window_suits match (window_table s ! j)"
      "vme_create_window (nested k) (vme_optimize_window_size (match\<lparr>vm_window_num := int i\<rparr>)) s = (OK, d, s2)"
      "d = w_desc (window_table s2 ! i)" "w_active (window_table s2 ! i)"
      "m' = place_mapping match d (int i)"
      "s' = set_window i (push_mapping \<lparr>mp_desc = m', mp_client = client_of k file\<rparr>) s2"
proof (cases "vme_mapping_sanity_check match")
  case (Err e)
  then have "vme_find_mapping_file k match force file s = (Err e, match, s)"
    by (simp add: vme_find_mapping_file_def)
  then show ?thesis using run err by simp
next
  case OK
  show ?thesis
    using inv window_indices
  proof (cases rule: search_window_cases [where k = k and match = match])
    case signal
    then have "vme_find_mapping_file k match force file s = (Err ERESTARTSYS, match, s)"
      using OK by (simp add: vme_find_mapping_file_def)
    then show ?thesis using run err by simp
  next
    case (hit i)
    then have i: "i < 8" "i < length (window_table s)" using winvD(2) [OF inv] by auto
    define d where "d = w_desc (window_table s ! i)"
    have unl: "\<not> w_lock (window_table s ! i)" using winv_unlocked inv i by blast
    have "mutex_unlock i (set_window i (push_mapping m) (set_window i (\<lambda>w. w\<lparr>w_lock := True\<rparr>) s))
        = set_window i (push_mapping m) s" for m
      using i(2) unl by (intro unlock_set_lock) (simp_all add: push_mapping_def)
    then have "r = (if k_kzalloc k then OK else Err ENOMEM) \<and> m' = place_mapping match d (int i)
      \<and> s' = (if k_kzalloc k then set_window i (push_mapping \<lparr>mp_desc = m', mp_client = client_of k file\<rparr>) s else s)"
      using run OK hit(1) i(2) unlock_lock [OF i(2) unl]
      by (cases "k_kzalloc k"; auto simp: vme_find_mapping_file_def add_mapping_eq Let_def set_window_fields d_def)
    then show ?thesis
      using err that(3) [of i] hit(3) i(1) by (cases "k_kzalloc k") (auto simp: d_def)
  next
    case miss
    show ?thesis
    proof (cases "force \<and> first_unused (window_table s) 0 \<noteq> None")
      case False
      then have "vme_find_mapping_file k match force file s = (Err EBUSY, match, s)"
        using OK miss(1) by (cases force) (auto simp: vme_find_mapping_file_def)
      then show ?thesis using run err by simp
    next
      case True
      then obtain i where fu: "first_unused (window_table s) 0 = Some i" by auto
      from first_unused_Some [OF this] have i: "i < 8" "\<not> w_active (window_table s ! i)"
        using winvD(2) [OF inv] by auto
      define wnd where "wnd = vme_optimize_window_size (match\<lparr>vm_window_num := int i\<rparr>)"
      obtain rr d s2 where cr: "vme_create_window (nested k) wnd s = (rr, d, s2)" by (metis prod_cases3)
      have run': "(r, m', s') = (case rr of Err e \<Rightarrow> (Err e, match, s2)
          | OK \<Rightarrow> let n = nat (vm_window_num d);
                     match' = place_mapping match (w_desc (window_table s2 ! n)) (vm_window_num d);
                     (rc, s3) = add_mapping k n match' file s2 in (rc, match', s3))"
        using run OK miss True fu cr by (auto simp: vme_find_mapping_file_def wnd_def split: rc.splits)
      show ?thesis
        using inv cr
      proof (cases rule: vme_create_window_cases)
        case (err e)
        then show ?thesis using run' that(1) by simp
      next
        case (ok n name start va attrs)
        have n: "n = i" "vm_window_num d = int i" "n < length (window_table s)"
          using ok(3,9) i winvD(2) [OF inv] ok(2) by (simp_all add: wnd_def)
        have w: "w_desc (window_table s2 ! i) = d" "w_active (window_table s2 ! i)"
          using ok(11) n by (simp_all add: created_state_fields)
        have none: "\<forall>j<8. \<not> window_suits match (window_table s ! j)" using miss(2) by simp
        have res: "(r, m', s') = (if k_kzalloc k
            then (OK, place_mapping match d (int i), set_window i (push_mapping
                \<lparr>mp_desc = place_mapping match d (int i), mp_client = client_of k file\<rparr>) s2)
            else (Err ENOMEM, place_mapping match d (int i), s2))"
          using run' ok(1) n(2) w by (simp add: add_mapping_eq Let_def)
        show ?thesis
        proof (cases "k_kzalloc k")
          case mem: True
          have "m' = place_mapping match d (int i)"
            and "s' = set_window i (push_mapping \<lparr>mp_desc = m', mp_client = client_of k file\<rparr>) s2" and "r = OK"
            using res mem by simp_all
          note new = that(4) [OF this(3) i(1) _ i(2) none _ w(1) [symmetric] w(2) this(1,2)]
          show ?thesis by (rule new) (use True cr ok(1) in \<open>simp_all add: wnd_def\<close>)
        next
          case False
          have "nat (vm_window_num wnd) = i" by (simp add: wnd_def)
          moreover have "r = Err ENOMEM" "s' = s2" using res False by simp_all
          ultimately show ?thesis using that(2) [of wnd] True cr ok(1) w(1) by auto
        qed
      qed
    qed
  qed
qed

lemma new_window_below:
  assumes "winv s" and "vme_create_window k (vme_optimize_window_size (m\<lparr>vm_window_num := int i\<rparr>)) s = (OK, d, s')"
  shows "vm_am m = vm_am d" "vm_data_width m = vm_data_width d" "vm_vme_addrl d \<le> vm_vme_addrl m"
proof -
  from assms obtain va start where
    d: "d = created_desc (vme_optimize_window_size (m\<lparr>vm_window_num := int i\<rparr>)) va start"
    by (auto elim: vme_create_window_cases)
  show "vm_am m = vm_am d" "vm_data_width m = vm_data_width d" by (simp_all add: d)
  show "vm_vme_addrl d \<le> vm_vme_addrl m"
    using order_trans [OF align_down_le optimize_addr_le [of "m\<lparr>vm_window_num := int i\<rparr>"]]
    by (simp add: d)
qed

lemma winv_find [window_wf]:
  assumes "winv s" and "vme_find_mapping_file k match force file s = (r, m', s')"
  shows "winv s'"
  using assms
proof (cases rule: find_mapping_cases)
  case (hit i)
  then have "w_active (window_table s ! i)" "mapping_ok i (w_desc (window_table s ! i)) m'"
    by (auto simp: window_suits_def Let_def intro: place_mapping_ok)
  then show ?thesis using winv_push_mapping [OF assms(1)] hit by simp
next
  case (new i d s2)
  have "winv s2" using winv_create assms(1) new(6) by blast
  moreover have "mapping_ok i d m'"
    using new_window_below [OF assms(1) new(6)] new(9) place_mapping_ok by simp
  ultimately show ?thesis unfolding new(10) using new(2,7,8) by (intro winv_push_mapping) auto
qed (use assms(1) winv_create in auto)

section \<open>Releasing a mapping\<close>

lemma release_mapping_cases:
  assumes inv: "winv s" and run: "vme_release_mapping_file k desc force file s = (r, s')"
  obtains (err) e where "r = Err e" "s' = s"
  | (popped) n ms s1 where "n < 8" "vm_window_num desc = int n" "w_active (window_table s ! n)"
      "remove_first (mapping_matches desc file) (w_mappings (window_table s ! n)) = Some ms"
      "s1 = set_window n (pop_mapping ms) s"
      "if force \<and> ms = [] then vme_destroy_window (nested k) (int n) s1 = (r, s') else r = OK \<and> s' = s1"
proof (cases "bad_window_num (vm_window_num desc) \<or> \<not> k_lock k (nat (vm_window_num desc))")
  case True
  then have "fst (vme_release_mapping_file k desc force file s) \<noteq> OK
      \<and> snd (vme_release_mapping_file k desc force file s) = s"
    using inv by (auto simp: vme_release_mapping_file_def Let_def lock_winv good_window_num)
  then show ?thesis using run err by (cases r) auto
next
  case False
  define n where "n = nat (vm_window_num desc)"
  have n: "n < 8" "vm_window_num desc = int n" using False good_window_num by (simp_all add: n_def)
  have len: "n < length (window_table s)" using n winvD(2) [OF inv] by simp
  have unl: "\<not> w_lock (window_table s ! n)" using winv_unlocked inv n by blast
  have lock: "mutex_lock_interruptible k n s = Some (set_window n (\<lambda>w. w\<lparr>w_lock := True\<rparr>) s)"
    using lock_winv [OF inv n(1)] False by (simp add: n_def)
  let ?ms = "w_mappings (window_table s ! n)"
  show ?thesis
  proof (cases "w_active (window_table s ! n) \<and> remove_first (mapping_matches desc file) ?ms \<noteq> None")
    case False
    then have "fst (vme_release_mapping_file k desc force file s) \<noteq> OK
        \<and> snd (vme_release_mapping_file k desc force file s) = s"
      using \<open>\<not> (_ \<or> _)\<close> lock len unl
      by (auto simp: vme_release_mapping_file_def Let_def n_def [symmetric] set_window_fields unlock_lock
          remove_mapping_def)
    then show ?thesis using run err by (cases r) auto
  next
    case True
    then obtain ms where act: "w_active (window_table s ! n)"
      and ms: "remove_first (mapping_matches desc file) ?ms = Some ms" by auto
    define s1 where "s1 = set_window n (pop_mapping ms) s"
    have s1: "mutex_unlock n (set_window n (pop_mapping ms) (set_window n (\<lambda>w. w\<lparr>w_lock := True\<rparr>) s)) = s1"
      unfolding s1_def using len unl by (intro unlock_set_lock) (simp_all add: pop_mapping_def)
    have users: "w_users (window_table s ! n) - 1 = int (length ms)"
      using winv_users [OF inv n(1)] remove_first_length [OF ms] by simp
    have "vme_release_mapping_file k desc force file s
        = (if ms = [] \<and> force then vme_destroy_window (nested k) (int n) s1 else (OK, s1))"
      using \<open>\<not> (bad_window_num _ \<or> _)\<close> lock len act ms s1 users n(2)
      by (auto simp: vme_release_mapping_file_def n_def [symmetric] set_window_fields remove_mapping_def
          pop_mapping_def [abs_def])
    then show ?thesis using popped [OF n act ms s1_def] run by (auto split: if_splits)
  qed
qed

lemma winv_release_mapping [window_wf]:
  assumes "winv s" and "vme_release_mapping_file k desc force file s = (r, s')"
  shows "winv s'"
  using assms
proof (cases rule: release_mapping_cases)
  case (popped n ms s1)
  then have "winv s1" using winv_pop_mapping [OF assms(1)] by simp
  then show ?thesis using popped(6) winv_destroy by (auto split: if_splits)
qed (use assms(1) in simp)

section \<open>Operations that only look\<close>

lemma find_mapping_from_eq:
  assumes "winv s" and "set is \<subseteq> {..<8}"
  shows "snd (find_mapping_from k a is s) = s"
  using assms(2)
proof (induction "is")
  case (Cons i "is")
  have i: "i < 8" "i < length (window_table s)" using Cons.prems winvD(2) [OF assms(1)] by auto
  then show ?case
    using Cons lock_winv [OF assms(1) i(1)] unlock_lock [OF i(2) winv_unlocked [OF assms(1) i(1)]]
    by (auto simp: set_window_fields split: option.splits list.splits)
qed simp

lemma find_vme_mapping_from_addr_state: "winv s \<Longrightarrow> snd (find_vme_mapping_from_addr k a s) = s"
  unfolding find_vme_mapping_from_addr_def by (rule find_mapping_from_eq [OF _ window_indices])

lemma get_window_attr_state:
  assumes "winv s" and "vme_get_window_attr k d s = (r, d', s')"
  shows "s' = s"
  using assms winv_unlocked [OF assms(1)] winvD(2) [OF assms(1)]
  by (auto simp: vme_get_window_attr_def Let_def lock_winv good_window_num unlock_lock split: if_splits)

lemma mmap_from_eq:
  assumes "winv s" and "set is \<subseteq> {..<8}" and "vme_window_mmap_from k file is vma s = (r, vma', rng, s')"
  shows "s' = s \<and> (case rng of None \<Rightarrow> vma' = vma \<and> r \<noteq> OK
    | Some (a, n) \<Rightarrow> r = k_remap k \<and> a = push_bit 12 (vm_pgoff vma) \<and> n = vm_end vma - vm_start vma \<and>
        (\<exists>i \<in> set is. w_active (window_table s ! i) \<and> (\<exists>m \<in> set (w_mappings (window_table s ! i)).
           ti_file (mp_client m) = file \<and> vme_check_mmap_region (w_desc (window_table s ! i)) (mp_desc m) a n)))"
  using assms(2,3)
proof (induction "is")
  case (Cons i "is")
  have i: "i < 8" "i < length (window_table s)" using Cons.prems(1) winvD(2) [OF assms(1)] by auto
  note step = lock_winv [OF assms(1) i(1)] unlock_lock [OF i(2) winv_unlocked [OF assms(1) i(1)]]
  show ?case
  proof (cases "k_lock k i")
    case False
    then show ?thesis using Cons.prems(2) step(1) by auto
  next
    case True
    then show ?thesis
      using Cons.prems Cons.IH step i(2)
      by (auto simp: set_window_fields Let_def vme_remap_pfn_range_def split: if_splits option.splits)
  qed
qed auto

section \<open>The file operations keep the invariant\<close>

lemma winv_fields:
  assumes "window_table s' = window_table s" and "lcsr s' = lcsr s" and "pci_regions s' = pci_regions s"
    and "iomaps s' = iomaps s"
  shows "winv s' = winv s"
  using assms by (simp add: winv_def)

lemma winv_bus_error_check:
  assumes "winv s"
  shows "winv (snd (vme_bus_error_check hw clr s))"
  using assms
  by (simp add: vme_bus_error_check_def tsi148_bus_error_chk_def winv_def wf_lcsr_def Let_def split_def)

lemma winv_check_clear: "winv s \<Longrightarrow> winv (snd (vme_bus_error_check_clear e s))"
  by (simp add: vme_bus_error_check_clear_def Let_def winv_def)

lemma winv_ioctl_mapping:
  assumes "\<And>d s r d' s'. winv s \<Longrightarrow> f d s = (r, d', s') \<Longrightarrow> winv s'" and "winv s"
  shows "winv (snd (snd (ioctl_mapping k f d s)))"
  using assms by (auto simp: ioctl_mapping_def split: prod.splits rc.splits)

lemma winv_ioctl [window_wf]:
  fixes s :: "'a wstate_scheme"
  assumes "winv s"
  shows "winv (snd (snd (vme_window_ioctl hw k file cmd s)))"
proof (cases cmd)
  case (VME_IOCTL_GET_WINDOW_ATTR d)
  have "winv s'" if "winv s0" "vme_get_window_attr k e s0 = (r, d', s')"
    for e and s0 :: "'a wstate_scheme" and r d' s'
    using that get_window_attr_state [OF that] by simp
  then show ?thesis using VME_IOCTL_GET_WINDOW_ATTR assms by (auto intro!: winv_ioctl_mapping)
next
  case (VME_IOCTL_CREATE_WINDOW d)
  then show ?thesis using assms winv_create by (auto intro!: winv_ioctl_mapping)
next
  case (VME_IOCTL_DESTROY_WINDOW n)
  then show ?thesis using assms winv_destroy by (auto simp: vme_destroy_window_ioctl_def split: prod.split)
next
  case (VME_IOCTL_FIND_MAPPING d)
  then show ?thesis using assms winv_find by (auto intro!: winv_ioctl_mapping)
next
  case (VME_IOCTL_RELEASE_MAPPING d)
  then show ?thesis using assms winv_release_mapping by (auto split: prod.split)
next
  case VME_IOCTL_GET_BUS_ERROR
  then show ?thesis using winv_bus_error_check [OF assms, of hw True] by (auto split: prod.splits)
next
  case (VME_IOCTL_CHECK_CLEAR_BUS_ERROR d)
  then show ?thesis using assms winv_check_clear [OF assms, of "bd_error d"]
    by (auto simp: vme_bus_error_check_clear_ioctl_def split: prod.splits)
qed (use assms in \<open>auto simp: winv_def split: prod.splits\<close>)

section \<open>Module start and end\<close>

text \<open>
  At load time the table is zero-initialised, the kernel holds nothing for the driver, and
  the chip has been quiesced.
\<close>

definition module_start :: "'a wstate_scheme \<Rightarrow> bool" where
  "module_start s \<longleftrightarrow> length (window_table s) = TSI148_NUM_OUT_WINDOWS
     \<and> (\<forall>w \<in> set (window_table s). w_users w = 0 \<and> w_rsrc w = zero_resource)
     \<and> wf_lcsr (lcsr s) \<and> (\<forall>t \<in> set (otrans (lcsr s)). otat t = 0)
     \<and> iomaps s = [] \<and> (\<forall>i. pci_regions s i = None)"

lemma window_init_table:
  assumes "set is \<subseteq> {..<length (window_table s)}"
  shows "let s' = fold (\<lambda>i. set_window i (\<lambda>w. w\<lparr>w_mappings := [], w_lock := False, w_active := False\<rparr>)) is s
    in length (window_table s') = length (window_table s) \<and> lcsr s' = lcsr s \<and> iomaps s' = iomaps s
       \<and> pci_regions s' = pci_regions s \<and> (\<forall>j < length (window_table s). window_table s' ! j = (if j \<in> set is
         then (window_table s ! j)\<lparr>w_mappings := [], w_lock := False, w_active := False\<rparr> else window_table s ! j))"
  using assms
proof (induction "is" arbitrary: s)
  case (Cons i "is")
  let ?f = "\<lambda>w. w\<lparr>w_mappings := [], w_lock := False, w_active := False\<rparr>"
  have "set is \<subseteq> {..<length (window_table (set_window i ?f s))}" using Cons.prems by (simp add: set_window_fields)
  from Cons.IH [OF this] show ?case
    using Cons.prems by (auto simp: Let_def set_window_fields nth_list_update)
qed simp

lemma winv_init [window_wf]:
  assumes "module_start s"
  shows "winv (vme_window_init s)"
proof -
  let ?s = "vme_window_init s"
  have len: "length (window_table s) = 8" using assms by (simp add: module_start_def)
  have sub: "set [0..<8] \<subseteq> {..<length (window_table s)}" using len by auto
  have s: "length (window_table ?s) = 8" "lcsr ?s = lcsr s" "iomaps ?s = iomaps s" "pci_regions ?s = pci_regions s"
    "\<And>j. j < 8 \<Longrightarrow> window_table ?s ! j
       = (window_table s ! j)\<lparr>w_mappings := [], w_lock := False, w_active := False\<rparr>"
    using window_init_table [OF sub] len by (simp_all add: vme_window_init_def Let_def)
  have "\<forall>w \<in> set (window_table ?s). \<not> w_active w" using s(1,5) by (auto simp: in_set_conv_nth)
  then have "filter_mset w_active (mset (window_table ?s)) = {#}" by (auto simp: filter_mset_eq_conv)
  then have "active_vas (window_table ?s) = {#}" by (simp add: active_vas_def)
  then show ?thesis
    using assms len unfolding winv_def s(1-4)
    by (auto simp: module_start_def s window_ok_def idle_ok_def wf_lcsr_def)
qed

lemma winv_window_exit_from: "winv s \<Longrightarrow> set is \<subseteq> {..<8} \<Longrightarrow> winv (window_exit_from k is s)"
proof (induction "is" arbitrary: s)
  case (Cons i "is")
  obtain r s1 where "vme_destroy_window k (int i) s = (r, s1)" by fastforce
  then show ?case using Cons winv_destroy [of s k "int i" r s1] by auto
qed simp

end
