(* ===== verification/Vme_Window_Props.thy ===== *)
theory Vme_Window_Props
  imports Vme_Window_Inv
begin

text \<open>
  What the window manager guarantees: the transition system of its entry points and its
  invariant, the translation of addresses through the windows, the contracts of finding,
  releasing, closing, destroying and mapping into user space, and the cases in which the
  arithmetic of the code wraps.
\<close>

section \<open>The PCI regions\<close>

text \<open>
  What \<open>pci_bus_alloc_resource\<close> promises: the region it returns ends in the 32-bit space
  and is disjoint from every region given out before.
\<close>

definition disjoint_regions :: "u32 \<times> u32 \<Rightarrow> u32 \<times> u32 \<Rightarrow> bool" where
  "disjoint_regions r q \<longleftrightarrow> unat (fst r) + unat (snd r) \<le> unat (fst q) \<or> unat (fst q) + unat (snd q) \<le> unat (fst r)"

definition pci_alloc_ok :: "kernel \<Rightarrow> bool" where
  "pci_alloc_ok k \<longleftrightarrow> (\<forall>regions sz start. k_alloc_resource k regions sz = Inr start \<longrightarrow>
     unat start + unat sz \<le> 2 ^ 32 \<and> (\<forall>j < 8. \<forall>q. regions j = Some q \<longrightarrow> disjoint_regions (start, sz) q))"

definition regions_ok :: "(nat \<Rightarrow> (u32 \<times> u32) option) \<Rightarrow> bool" where
  "regions_ok pr \<longleftrightarrow> (\<forall>i < 8. \<forall>r. pr i = Some r \<longrightarrow> unat (fst r) + unat (snd r) \<le> 2 ^ 32
     \<and> (\<forall>j < 8. \<forall>q. i \<noteq> j \<longrightarrow> pr j = Some q \<longrightarrow> disjoint_regions r q))"

lemma disjoint_regions_sym: "disjoint_regions r q = disjoint_regions q r"
  by (auto simp: disjoint_regions_def)

lemma regions_ok_alloc:
  assumes "regions_ok pr" and "pci_alloc_ok k" and "k_alloc_resource k pr sz = Inr start"
  shows "regions_ok (pr(n \<mapsto> (start, sz)))"
proof -
  have new: "unat start + unat sz \<le> 2 ^ 32" "\<And>j q. j < 8 \<Longrightarrow> pr j = Some q \<Longrightarrow> disjoint_regions (start, sz) q"
    using assms(2,3) unfolding pci_alloc_ok_def by blast+
  show ?thesis
    using assms(1) new disjoint_regions_sym unfolding regions_ok_def
    by (auto split: if_splits)
qed

lemma regions_ok_free: "regions_ok pr \<Longrightarrow> regions_ok (pr(n := None))"
  by (auto simp: regions_ok_def split: if_splits)

lemma pci_alloc_ok_nested [simp]: "pci_alloc_ok (nested k) = pci_alloc_ok k"
  by (simp add: pci_alloc_ok_def nested_def)

text \<open>The window table together with the regions.\<close>

definition table_ok :: "'a wstate_scheme \<Rightarrow> bool" where
  "table_ok s \<longleftrightarrow> winv s \<and> regions_ok (pci_regions s)"

lemma table_ok_winv: "table_ok s \<Longrightarrow> winv s"
  by (simp add: table_ok_def)

lemma table_ok_same: "table_ok s \<Longrightarrow> winv t \<Longrightarrow> pci_regions t = pci_regions s \<Longrightarrow> table_ok t"
  by (simp add: table_ok_def)

lemma table_ok_create:
  assumes "table_ok s" and "pci_alloc_ok k" and "vme_create_window k d0 s = (r, d', s')"
  shows "table_ok s'"
  using table_ok_winv [OF assms(1)] assms(3)
proof (cases rule: vme_create_window_cases)
  case (ok n name start va attrs)
  have "n < length (window_table s)" using winvD(2) table_ok_winv assms(1) ok(2) by fastforce
  then have "pci_regions s' = (pci_regions s)(n \<mapsto> (start, vm_sizel (round_window d0)))"
    using ok by (simp add: created_state_fields)
  then show ?thesis
    using assms ok(6) regions_ok_alloc winv_create by (auto simp: table_ok_def)
qed (use assms(1) in simp)

lemma table_ok_destroy:
  assumes "table_ok s" and "vme_destroy_window k num s = (r, s')"
  shows "table_ok s'"
  using table_ok_winv [OF assms(1)] assms(2)
proof (cases rule: vme_destroy_window_cases)
  case (ok n)
  have "n < length (window_table s)" using winvD(2) table_ok_winv assms(1) ok(2) by fastforce
  then have "pci_regions s' = (pci_regions s)(n := None)" using ok(6) by (simp add: destroyed_state_fields)
  then show ?thesis using assms regions_ok_free winv_destroy by (auto simp: table_ok_def)
qed (use assms(1) in simp)

lemma table_ok_find:
  assumes "table_ok s" and "pci_alloc_ok k" and "vme_find_mapping_file k match force file s = (r, m', s')"
  shows "table_ok s'"
proof -
  note inv = table_ok_winv [OF assms(1)]
  have inv': "winv s'" using winv_find inv assms(3) by blast
  show ?thesis using inv assms(3)
  proof (cases rule: find_mapping_cases)
    case (nomem wnd)
    then show ?thesis using table_ok_create [OF assms(1), of "nested k"] assms(2) by simp
  next
    case (hit i)
    then show ?thesis using assms(1) inv' table_ok_same by (fastforce simp: set_window_fields)
  next
    case (new i d s2)
    then have "table_ok s2" using table_ok_create [OF assms(1), of "nested k"] assms(2) by auto
    then show ?thesis using new(10) inv' table_ok_same by (fastforce simp: set_window_fields)
  qed (use assms(1) in simp)
qed

lemma table_ok_release_mapping:
  assumes "table_ok s" and "vme_release_mapping_file k desc force file s = (r, s')"
  shows "table_ok s'"
  using table_ok_winv [OF assms(1)] assms(2)
proof (cases rule: release_mapping_cases)
  case (popped n ms s1)
  have "winv s1" using winv_pop_mapping [OF table_ok_winv [OF assms(1)]] popped by simp
  then have "table_ok s1" using assms(1) popped(5) by (simp add: table_ok_def set_window_fields)
  then show ?thesis using popped(6) table_ok_destroy by (auto split: if_splits)
qed (use assms(1) in simp)

lemma fold_drop_frame:
  "pci_regions (fold (\<lambda>i. set_window i (drop_file file)) is s) = pci_regions s
   \<and> lcsr (fold (\<lambda>i. set_window i (drop_file file)) is s) = lcsr s
   \<and> iomaps (fold (\<lambda>i. set_window i (drop_file file)) is s) = iomaps s
   \<and> length (window_table (fold (\<lambda>i. set_window i (drop_file file)) is s)) = length (window_table s)"
  by (induction "is" arbitrary: s) (simp_all add: set_window_fields)

lemma table_ok_release:
  assumes "table_ok s" and "vme_window_release k file s = (r, s')"
  shows "table_ok s'"
proof -
  note inv = table_ok_winv [OF assms(1)]
  have "pci_regions s' = pci_regions s"
    using assms(2) window_release_from_eq [OF inv window_indices, of k "file"] fold_drop_frame
    by (auto simp: vme_window_release_def)
  then show ?thesis using table_ok_same [OF assms(1) winv_release [OF inv assms(2)]] by simp
qed

lemma table_ok_ioctl:
  fixes s :: "'a wstate_scheme"
  assumes "table_ok s" and "pci_alloc_ok k"
  shows "table_ok (snd (snd (vme_window_ioctl hw k file cmd s)))"
proof -
  have frame: "table_ok (snd (snd (ioctl_mapping k f d s)))"
    if "\<And>d r d' s'. f d s = (r, d', s') \<Longrightarrow> table_ok s'" for f d
    using assms(1) that by (auto simp: ioctl_mapping_def split: prod.splits rc.splits)
  note inv = winv_ioctl [OF table_ok_winv [OF assms(1)], of hw k "file" cmd]
  show ?thesis
  proof (cases cmd)
    case (VME_IOCTL_GET_WINDOW_ATTR d)
    have "s' = s" if "vme_get_window_attr k e s = (r, d', s')" for e r d' s'
      using get_window_attr_state that table_ok_winv [OF assms(1)] by blast
    then show ?thesis using VME_IOCTL_GET_WINDOW_ATTR assms(1) by (auto intro!: frame)
  next
    case (VME_IOCTL_CREATE_WINDOW d)
    then show ?thesis using assms table_ok_create by (auto intro!: frame)
  next
    case (VME_IOCTL_DESTROY_WINDOW n)
    then show ?thesis using assms table_ok_destroy by (auto simp: vme_destroy_window_ioctl_def split: prod.split)
  next
    case (VME_IOCTL_FIND_MAPPING d)
    then show ?thesis using assms table_ok_find by (auto intro!: frame)
  next
    case (VME_IOCTL_RELEASE_MAPPING d)
    then show ?thesis using assms table_ok_release_mapping by (auto split: prod.split)
  next
    case VME_IOCTL_GET_BUS_ERROR
    then show ?thesis using assms(1) winv_bus_error_check [of s hw True]
      by (auto simp: table_ok_def vme_bus_error_check_def split: prod.splits)
  next
    case (VME_IOCTL_CHECK_CLEAR_BUS_ERROR d)
    then show ?thesis using assms(1) winv_check_clear [of s "bd_error d"]
      by (auto simp: table_ok_def vme_bus_error_check_clear_ioctl_def vme_bus_error_check_clear_def Let_def
          split: prod.splits if_splits)
  qed (use assms inv in \<open>auto simp: table_ok_def split: prod.splits\<close>)
qed

lemma table_ok_exit_from: "table_ok s \<Longrightarrow> table_ok (window_exit_from k is s)"
proof (induction "is" arbitrary: s)
  case (Cons i "is")
  obtain r s1 where "vme_destroy_window k (int i) s = (r, s1)" by fastforce
  then show ?case using Cons table_ok_destroy [of s k "int i" r s1] by auto
qed simp

section \<open>The entry points as a transition system\<close>

inductive wstep :: "'a wstate_scheme \<Rightarrow> 'a wstate_scheme \<Rightarrow> bool" where
  ioctl: "pci_alloc_ok k \<Longrightarrow> vme_window_ioctl hw k file cmd s = (r, out, t) \<Longrightarrow> wstep s t"
| close: "vme_window_release k file s = (r, t) \<Longrightarrow> wstep s t"
| mmap: "vme_window_mmap k file vma s = (r, vma', rng, t) \<Longrightarrow> wstep s t"
| create: "pci_alloc_ok k \<Longrightarrow> vme_create_window k d s = (r, d', t) \<Longrightarrow> wstep s t"
| destroy: "vme_destroy_window k n s = (r, t) \<Longrightarrow> wstep s t"
| find: "pci_alloc_ok k \<Longrightarrow> vme_find_mapping k d force s = (r, d', t) \<Longrightarrow> wstep s t"
| release: "vme_release_mapping k d force s = (r, t) \<Longrightarrow> wstep s t"
| lookup: "find_vme_mapping_from_addr k a s = (r, t) \<Longrightarrow> wstep s t"
| get_attr: "vme_get_window_attr k d s = (r, d', t) \<Longrightarrow> wstep s t"
| exit: "vme_window_exit k s = t \<Longrightarrow> wstep s t"

definition wstart :: "'a wstate_scheme \<Rightarrow> bool" where
  "wstart s \<longleftrightarrow> (\<exists>s0. module_start s0 \<and> s = vme_window_init s0)"

lemma table_ok_step: "wstep s t \<Longrightarrow> table_ok s \<Longrightarrow> table_ok t"
proof (induction rule: wstep.induct)
  case (ioctl k hw "file" cmd s r out t)
  then show ?case using table_ok_ioctl [of s k hw "file" cmd] by simp
next
  case (mmap k "file" vma s r vma' rng t)
  have "vme_window_mmap_from k file [0..<8] vma s = (r, vma', rng, t)"
    using mmap.hyps by (simp add: vme_window_mmap_def)
  from mmap_from_eq [OF table_ok_winv [OF mmap.prems] window_indices this]
  show ?case using mmap.prems by simp
next
  case (lookup k a s r t)
  then show ?case using find_vme_mapping_from_addr_state [OF table_ok_winv] by (metis snd_conv)
next
  case (get_attr k d s r d' t)
  then show ?case using get_window_attr_state [OF table_ok_winv] by blast
next
  case (exit k s t)
  then show ?case using table_ok_exit_from by (auto simp: vme_window_exit_def)
qed (auto simp: vme_find_mapping_def vme_release_mapping_def
      intro: table_ok_release table_ok_create table_ok_destroy table_ok_find table_ok_release_mapping)

lemma table_ok_start: "wstart s \<Longrightarrow> table_ok s"
proof -
  assume "wstart s"
  then obtain s0 where s0: "module_start s0" "s = vme_window_init s0" by (auto simp: wstart_def)
  then have sub: "set [0..<8] \<subseteq> {..<length (window_table s0)}" by (auto simp: module_start_def)
  from window_init_table [OF this] have "pci_regions s = pci_regions s0"
    by (simp add: s0(2) vme_window_init_def Let_def)
  then show ?thesis
    using winv_init [OF s0(1)] s0 by (simp add: table_ok_def module_start_def regions_ok_def)
qed

interpretation win: invariant_system wstart wstep table_ok
  by unfold_locales (auto intro: table_ok_start table_ok_step)

section \<open>Address translation\<close>

text \<open>
  A window in the 32-bit spaces: the upper halves of its PCI address and of its size are zero, it
  is not empty and ends below 4G on the PCI side.
\<close>

definition plain_window :: "vme_mapping \<Rightarrow> bool" where
  "plain_window d \<longleftrightarrow> vm_pci_addru d = 0 \<and> vm_sizeu d = 0 \<and> vm_sizel d \<noteq> 0
     \<and> unat (vm_pci_addrl d) + unat (vm_sizel d) < 2 ^ 32"

lemma window_decodes:
  assumes "winv s" and "i < 8" and "w_active (window_table s ! i)" and "plain_window (w_desc (window_table s ! i))"
  shows "otrans_decodes (otrans (lcsr s) ! i) a \<longleftrightarrow>
    unat (vm_pci_addrl (w_desc (window_table s ! i))) \<le> unat a \<and>
    unat a < unat (vm_pci_addrl (w_desc (window_table s ! i))) + unat (vm_sizel (w_desc (window_table s ! i)))"
proof -
  let ?d = "w_desc (window_table s ! i)"
  from winv_active [OF assms(1-3)] obtain attrs t' where
    "otrans (lcsr s) ! i = program_window ?d attrs t'" "low_bits 16 (vm_sizel ?d) = 0" "low_bits 16 (vm_pci_addrl ?d) = 0"
    by (auto simp: active_ok_def Let_def programmed_def)
  then show ?thesis
    using programmed_window_decodes [of ?d] assms(4) by (simp add: plain_window_def)
qed

lemma idle_decodes_nothing:
  assumes "winv s" and "i < 8" and "\<not> w_active (window_table s ! i)"
  shows "\<not> otrans_decodes (otrans (lcsr s) ! i) a"
  using winv_idle [OF assms] by (simp add: idle_ok_def otrans_decodes_def)

lemma region_of_window:
  assumes "winv s" and "i < 8" and "w_active (window_table s ! i)"
  shows "pci_regions s i = Some (vm_pci_addrl (w_desc (window_table s ! i)), vm_sizel (w_desc (window_table s ! i)))"
  using winv_active [OF assms] by (simp add: active_ok_def Let_def)

lemma only_window_decoding:
  assumes ok: "table_ok s" and i: "i < 8" "w_active (window_table s ! i)"
    and plain: "\<And>j. j < 8 \<Longrightarrow> w_active (window_table s ! j) \<Longrightarrow> plain_window (w_desc (window_table s ! j))"
    and a: "otrans_decodes (otrans (lcsr s) ! i) a" and j: "j < 8" "otrans_decodes (otrans (lcsr s) ! j) a"
  shows "j = i"
proof (rule ccontr)
  assume ne: "j \<noteq> i"
  note inv = table_ok_winv [OF ok]
  have aj: "w_active (window_table s ! j)" using idle_decodes_nothing [OF inv j(1)] j(2) by blast
  have "disjoint_regions (vm_pci_addrl (w_desc (window_table s ! i)), vm_sizel (w_desc (window_table s ! i)))
      (vm_pci_addrl (w_desc (window_table s ! j)), vm_sizel (w_desc (window_table s ! j)))"
    using ok ne i(1) j(1) region_of_window [OF inv i] region_of_window [OF inv j(1) aj]
    unfolding table_ok_def regions_ok_def by blast
  then show False
    using a j(2) window_decodes [OF inv i plain [OF i]] window_decodes [OF inv j(1) aj plain [OF j(1) aj]]
    by (auto simp: disjoint_regions_def)
qed

text \<open>An address of a mapping, off bytes into it, as long as it lies in the window.\<close>

lemma mapping_address:
  fixes d m :: vme_mapping
  assumes "mapping_ok i d m" and "plain_window d"
    and "unat (vm_vme_addrl m) + off < unat (vm_vme_addrl d) + unat (vm_sizel d)"
  shows "unat (vm_pci_addrl m) + off = unat (vm_pci_addrl d) + (unat (vm_vme_addrl m) - unat (vm_vme_addrl d) + off)"
    "unat (vm_pci_addrl m) + off < unat (vm_pci_addrl d) + unat (vm_sizel d)"
    "unat (vm_vme_addrl d) \<le> unat (vm_vme_addrl m)"
proof -
  have le: "unat (vm_vme_addrl d) \<le> unat (vm_vme_addrl m)"
    using assms(1) by (simp add: mapping_ok_def word_le_nat_alt)
  then have "unat (vm_vme_addrl m - vm_vme_addrl d) = unat (vm_vme_addrl m) - unat (vm_vme_addrl d)"
    by (simp add: unat_sub word_le_nat_alt)
  moreover have "unat (vm_pci_addrl d) + (unat (vm_vme_addrl m) - unat (vm_vme_addrl d)) < 2 ^ 32"
    using assms(2,3) le by (simp add: plain_window_def) arith
  ultimately have "unat (vm_pci_addrl m) = unat (vm_pci_addrl d) + (unat (vm_vme_addrl m) - unat (vm_vme_addrl d))"
    using assms(1) by (simp add: mapping_ok_def unat_word_ariths)
  then show "unat (vm_pci_addrl m) + off = unat (vm_pci_addrl d) + (unat (vm_vme_addrl m) - unat (vm_vme_addrl d) + off)"
    "unat (vm_pci_addrl m) + off < unat (vm_pci_addrl d) + unat (vm_sizel d)"
    using assms(3) le by simp_all
  show "unat (vm_vme_addrl d) \<le> unat (vm_vme_addrl m)" by (rule le)
qed

lemma reg_join_0: "reg_join 0 x = of_nat (unat x)"
  by (simp add: reg_join_of_nat)

lemma window_translates:
  assumes "winv s" and "i < 8" and "w_active (window_table s ! i)" and "vm_pci_addru (w_desc (window_table s ! i)) = 0"
    and "vm_vme_addru (w_desc (window_table s ! i)) = 0"
  shows "otrans_translate (otrans (lcsr s) ! i) (of_nat (unat (vm_pci_addrl (w_desc (window_table s ! i))) + off))
    = of_nat (unat (vm_vme_addrl (w_desc (window_table s ! i))) + off)"
    and "attr_to_am (attr_of_word (otat (otrans (lcsr s) ! i))) x = vm_am (w_desc (window_table s ! i))"
proof -
  let ?d = "w_desc (window_table s ! i)"
  from winv_active [OF assms(1-3)] obtain attrs t' where
    at: "tsi148_setup_window_attributes (vm_v2esst_mode ?d) (vm_data_width ?d) (vm_am ?d) = Inr attrs"
    and t: "otrans (lcsr s) ! i = program_window ?d attrs t'"
    by (auto simp: active_ok_def Let_def programmed_def)
  show "otrans_translate (otrans (lcsr s) ! i) (of_nat (unat (vm_pci_addrl ?d) + off))
      = of_nat (unat (vm_vme_addrl ?d) + off)"
    using programmed_window_translates [of ?d attrs t' "of_nat off"] assms(4,5) by (simp add: t reg_join_0)
  from at obtain a where a: "am_to_attr (vm_am ?d) = Some a" "vm_v2esst_mode ?d \<in> {0, 1, 2}"
    and w: "attrs = attr_fields 0x3800 (vm_v2esst_mode ?d) (if vm_data_width ?d = 16 then 0 else 1) a"
    by (rule setup_window_attributes_InrD)
  have "attr_of_word attrs = a"
    unfolding w using attr_fields_decode [OF a, where dbw = "if vm_data_width ?d = 16 then 0 else 1" and sstm = "0x3800"]
    by simp
  then show "attr_to_am (attr_of_word (otat (otrans (lcsr s) ! i))) x = vm_am ?d"
    using attr_to_am_am_to_attr [OF a(1)] by (simp add: t program_window_def attr_of_word_window_otat)
qed

section \<open>Properties\<close>

text \<open>
  C1: whatever sequence of calls the user programs, the kernel clients and the module make after
  the window manager has been initialised, with whatever answers the kernel gives, the window
  table stays in order: every mutex is free between calls, the user count of a window is the
  number of its mappings, the registers of an active window are those of its descriptor,
  an idle window is disabled in the chip, the kernel holds exactly one PCI region and one
  \<open>ioremap\<close> per active window, and the regions are pairwise disjoint.
\<close>

theorem window_table_invariant:
  assumes "module_start s0" and "wstep\<^sup>*\<^sup>* (vme_window_init s0) s"
  shows "winv s \<and> regions_ok (pci_regions s)"
proof -
  have "wstart (vme_window_init s0)" using assms(1) by (auto simp: wstart_def)
  from win.reachable_invar [OF this assms(2)] show ?thesis by (simp add: table_ok_def)
qed


lemma find_mapping_placed:
  assumes "winv s" and "vme_find_mapping_file k match force file s = (OK, m', s')"
  defines "i \<equiv> nat (vm_window_num m')"
  shows "i < 8 \<and> w_active (window_table s' ! i) \<and> mapping_ok i (w_desc (window_table s' ! i)) m'
    \<and> (vm_vme_addrl m', vm_vme_addru m', vm_sizel m', vm_sizeu m', vm_am m', vm_data_width m')
        = (vm_vme_addrl match, vm_vme_addru match, vm_sizel match, vm_sizeu match, vm_am match, vm_data_width match)
    \<and> (\<exists>c. ti_file c = file \<and>
        w_mappings (window_table s' ! i) = w_mappings (window_table s ! i) @ [\<lparr>mp_desc = m', mp_client = c\<rparr>])
    \<and> (\<forall>j < 8. j \<noteq> i \<longrightarrow> window_table s' ! j = window_table s ! j)"
  using assms(1,2)
proof (cases rule: find_mapping_cases)
  case (hit n)
  have i: "i = n" using hit(4) by (simp add: i_def place_mapping_def Let_def)
  have len: "n < length (window_table s)" using hit(2) winvD(2) [OF assms(1)] by simp
  have "mapping_ok n (w_desc (window_table s ! n)) m'" "w_active (window_table s ! n)"
    using hit(3,4) by (auto simp: window_suits_def Let_def intro: place_mapping_ok)
  then show ?thesis
    using hit(2,4,5) len unfolding i
    by (auto simp: set_window_fields push_mapping_def place_mapping_def Let_def)
next
  case (new n d s2)
  have i: "i = n" using new(9) by (simp add: i_def place_mapping_def Let_def)
  have inv2: "winv s2" using winv_create assms(1) new(6) by blast
  then have len: "n < length (window_table s2)" "n < length (window_table s)"
    using new(2) winvD(2) assms(1) by fastforce+
  have ok: "mapping_ok n d m'" using new_window_below [OF assms(1) new(6)] new(9) place_mapping_ok by simp
  have s2: "window_table s2 ! j = window_table s ! j" if "j \<noteq> n" for j
    using assms(1) new(6)
    by (rule vme_create_window_cases) (use that len(2) in \<open>auto simp: created_state_fields\<close>)
  have ms: "w_mappings (window_table s2 ! n) = w_mappings (window_table s ! n)"
    using assms(1) new(6)
    by (rule vme_create_window_cases) (use len(2) in \<open>auto simp: created_state_fields\<close>)
  show ?thesis
    using new(2,8) len(1) ok s2 ms new(7) [symmetric] new(9) unfolding i new(10)
    by (auto simp: set_window_fields push_mapping_def place_mapping_def Let_def)
qed simp_all


text \<open>
  A mapping made on a window that exists already lies inside it: when neither the end of
  the window nor the end of the request wraps around at 4G, the request's VME range is a part of
  the window's.
\<close>

lemma found_window_contains_request:
  assumes "window_suits match w"
    and "unat (vm_vme_addrl (w_desc w)) + unat (vm_sizel (w_desc w)) < 2 ^ 32"
    and "unat (vm_vme_addrl match) + unat (vm_sizel match) < 2 ^ 32"
  shows "{unat (vm_vme_addrl match) ..< unat (vm_vme_addrl match) + unat (vm_sizel match)}
    \<subseteq> {unat (vm_vme_addrl (w_desc w)) ..< unat (vm_vme_addrl (w_desc w)) + unat (vm_sizel (w_desc w))}"
proof -
  have "vm_vme_addrl (w_desc w) \<le> vm_vme_addrl match"
    "vm_vme_addrl match + vm_sizel match \<le> vm_vme_addrl (w_desc w) + vm_sizel (w_desc w)"
    using assms(1) by (auto simp: window_suits_def Let_def)
  then show ?thesis
    using assms(2,3) by (auto simp: word_le_nat_alt unat_word_ariths)
qed

text \<open>
  The same test wraps around: a request of 128K at the top of the 32-bit VME space, whose end
  is 64K past zero, is accepted on a window of 64K at its beginning.
\<close>

lemma find_accepts_wrapping_request:
  "\<exists>w match. window_suits match w \<and> vm_vme_addrl (w_desc w) = 0x10000 \<and> vm_sizel (w_desc w) = 0x10000
     \<and> vm_vme_addrl match = 0xffff0000 \<and> vm_sizel match = 0x20000"
proof -
  let ?d = "zero_mapping\<lparr>vm_window_enabled := 1, vm_am := VME_A32_USER_DATA_SCT, vm_vme_addrl := 0x10000, vm_sizel := 0x10000\<rparr>"
  let ?m = "zero_mapping\<lparr>vm_am := VME_A32_USER_DATA_SCT, vm_vme_addrl := 0xffff0000, vm_sizel := 0x20000\<rparr>"
  let ?w = "\<lparr>w_lock = False, w_active = True, w_rsrc = zero_resource, w_desc = ?d, w_mappings = [], w_users = 0\<rparr>"
  have "window_suits ?m ?w" by (simp add: window_suits_def Let_def zero_mapping_def)
  then show ?thesis by (intro exI [of _ ?w] exI [of _ ?m]) (simp add: zero_mapping_def)
qed

text \<open>
  The window made for a request that starts on a 64K boundary covers it, provided its size
  can be rounded up within 32 bits.
\<close>

lemma new_window_covers_aligned_request:
  assumes "low_bits 16 (vm_vme_addrl d) = 0" and "unat (vm_sizel d) \<le> 0xffff0000"
  shows "vm_vme_addrl (round_window d) = vm_vme_addrl d \<and> unat (vm_sizel d) \<le> unat (vm_sizel (round_window d))
    \<and> unat (vm_sizel (round_window d)) < unat (vm_sizel d) + 0x10000"
proof -
  have "unat (vm_sizel d) \<le> unat (vm_sizel (round_window d))
      \<and> unat (vm_sizel (round_window d)) < unat (vm_sizel d) + 0x10000"
  proof (cases "low_bits 16 (vm_sizel d) = 0")
    case False
    then have ne: "unat (vm_sizel d) mod 0x10000 \<noteq> 0"
      by (simp add: low_bits_eq_0_iff dvd_eq_mod_eq_0)
    then have "unat (vm_sizel d) < 0xffff0000" using assms(2) by (cases "unat (vm_sizel d) = 0xffff0000") auto
    then have "unat (vm_sizel d + 0x10000) = unat (vm_sizel d) + 0x10000" by (simp add: unat_word_ariths)
    then have "unat (vm_sizel (round_window d)) = unat (vm_sizel d) + 0x10000 - unat (vm_sizel d) mod 0x10000"
      using False by (simp add: round_window_size unat_align_down)
    then show ?thesis using ne by (simp add: less_imp_le)
  qed (simp add: round_window_size)
  then show ?thesis using assms(1) by (simp add: round_window_addr align_down_id)
qed

text \<open>
  A request that does not start on a 64K boundary is moved down to one without being made longer:
  the window made for 8K of A32 space at 0x1000f000 ends at 0x10010000, in the middle of
  the request.
\<close>

lemma new_window_cuts_unaligned_request:
  "let d = round_window (zero_mapping\<lparr>vm_vme_addrl := 0x1000f000, vm_sizel := 0x2000\<rparr>)
   in vm_vme_addrl d = 0x10000000 \<and> vm_sizel d = 0x10000
      \<and> unat (vm_vme_addrl d) + unat (vm_sizel d) < 0x1000f000 + 0x2000"
  by (simp add: round_window_def zero_mapping_def align_down_def mask_eq_exp_minus_1)

text \<open>
  Releasing what was found gives the state back. A mapping made on an existing window, with
  no older mapping of the same owner at the same place, is undone exactly by releasing it with the
  same descriptor: the list, the user count and everything else are as before.
\<close>

lemma release_undoes_find:
  assumes "winv s" and "vme_find_mapping_file k match force file s = (OK, m', s')"
    and "i = nat (vm_window_num m')" and "w_active (window_table s ! i)"
    and "\<forall>m \<in> set (w_mappings (window_table s ! i)). \<not> mapping_matches m' file m"
    and "k_lock k' i" and "\<not> (destroy \<and> w_mappings (window_table s ! i) = [])"
  shows "vme_release_mapping_file k' m' destroy file s' = (OK, s)"
proof -
  have hit: "i < 8" "s' = set_window i (push_mapping \<lparr>mp_desc = m', mp_client = client_of k file\<rparr>) s"
    "vm_window_num m' = int i"
    using assms(1,2)
    by (cases rule: find_mapping_cases; use assms(3,4) in \<open>auto simp: place_mapping_def Let_def\<close>)+
  let ?w = "window_table s ! i"
  have inv': "winv s'" using winv_find assms(1,2) by blast
  have len: "i < length (window_table s)" using hit(1) winvD(2) [OF assms(1)] by simp
  have w': "window_table s' ! i = push_mapping \<lparr>mp_desc = m', mp_client = client_of k file\<rparr> ?w"
    using hit(2) len by (simp add: set_window_fields)
  have "mapping_matches m' file \<lparr>mp_desc = m', mp_client = client_of k file\<rparr>"
    by (simp add: mapping_matches_def)
  then have rf: "remove_first (mapping_matches m' file) (w_mappings (window_table s' ! i)) = Some (w_mappings ?w)"
    using remove_first_append [where ys = "[]"] assms(5) by (simp add: w' push_mapping_def)
  have "pop_mapping (w_mappings ?w) (push_mapping x ?w) = ?w" for x
    by (simp add: pop_mapping_def push_mapping_def)
  then have restored: "set_window i (pop_mapping (w_mappings ?w)) s' = s"
    using hit(2) len by (simp add: set_window_set_window set_window_id)
  obtain r t where run: "vme_release_mapping_file k' m' destroy file s' = (r, t)" by fastforce
  from inv' run show ?thesis
  proof (cases rule: release_mapping_cases)
    case (err e)
    have "bad_window_num (vm_window_num m') = False" using hit(1,3) by (simp add: bad_window_num_def)
    then have "fst (vme_release_mapping_file k' m' destroy file s') = OK"
      using hit(3) lock_winv [OF inv' hit(1)] assms(4,6,7) rf w' len hit(2) winv_users [OF assms(1) hit(1)]
      by (auto simp: vme_release_mapping_file_def Let_def set_window_fields remove_mapping_def push_mapping_def)
    then show ?thesis using run err(1) by simp
  next
    case (popped n ms s1)
    then have "n = i" "ms = w_mappings ?w" "s1 = s" using hit(3) rf restored by auto
    then show ?thesis using popped(6) assms(7) run by (auto split: if_splits)
  qed
qed

lemma fold_drop_window:
  "j < length (window_table s) \<Longrightarrow> distinct is \<Longrightarrow>
   window_table (fold (\<lambda>i. set_window i (drop_file file)) is s) ! j
     = (if j \<in> set is then drop_file file (window_table s ! j) else window_table s ! j)"
proof (induction "is" arbitrary: s)
  case (Cons i "is")
  then show ?case by (cases "i = j") (auto simp: set_window_fields)
qed simp

text \<open>
  Closing the device removes the mappings made through that file from every window, in place
  and with the user counts, and touches nothing else: no mapping of another file, no window, no
  register, no PCI region. It fails only when a signal arrives.
\<close>

lemma close_removes_files_mappings:
  assumes "winv s" and "\<forall>i < 8. k_lock k i"
  shows "\<exists>s'. vme_window_release k file s = (OK, s') \<and> lcsr s' = lcsr s \<and> pci_regions s' = pci_regions s
    \<and> iomaps s' = iomaps s
    \<and> (\<forall>j < 8. w_mappings (window_table s' ! j)
            = filter (\<lambda>m. ti_file (mp_client m) \<noteq> file) (w_mappings (window_table s ! j))
        \<and> w_users (window_table s' ! j) = int (length (w_mappings (window_table s' ! j)))
        \<and> w_active (window_table s' ! j) = w_active (window_table s ! j)
        \<and> w_desc (window_table s' ! j) = w_desc (window_table s ! j))"
proof -
  have tw: "takeWhile (k_lock k) [0..<8] = [0..<8]" using assms(2) by (simp add: takeWhile_eq_all_conv)
  let ?s = "fold (\<lambda>i. set_window i (drop_file file)) [0..<8] s"
  have "vme_window_release k file s = (OK, ?s)"
    using window_release_from_eq [OF assms(1) window_indices, of k "file"] assms(2)
    unfolding vme_window_release_def tw by simp
  moreover have "window_table ?s ! j = drop_file file (window_table s ! j)" if "j < 8" for j
    using fold_drop_window [of j s "[0..<8]" "file"] that winvD(2) [OF assms(1)] by simp
  ultimately show ?thesis
    using fold_drop_frame [of "file" "[0..<8]" s] by (simp add: drop_file_def Let_def)
qed

text \<open>
  C37: a window that could not be created leaves nothing behind: whatever step failed, the window
  table, the chip, the PCI regions and the \<open>ioremap\<close>s are as they were, and the mutex is free.
\<close>

theorem failed_create_leaves_no_trace:
  assumes "winv s" and "vme_create_window k d s = (Err e, d', s')"
  shows "s' = s"
  using assms by (rule vme_create_window_cases) simp_all

text \<open>
  A window that was created has its PCI region, its mapping in kernel space and its registers;
  the reported descriptor is the one kept in the table.
\<close>

lemma created_window_is_live:
  assumes "winv s" and "vme_create_window k d s = (OK, d', s')"
  defines "n \<equiv> nat (vm_window_num d)"
  shows "n < 8 \<and> \<not> w_active (window_table s ! n) \<and> w_active (window_table s' ! n)
    \<and> w_desc (window_table s' ! n) = d' \<and> vm_window_enabled d' = 1
    \<and> pci_regions s' n = Some (vm_pci_addrl d', vm_sizel d') \<and> vm_kernel_va d' \<in> set (iomaps s')
    \<and> otat (otrans (lcsr s') ! n) AND TSI148_LCSR_OTAT_EN \<noteq> 0
    \<and> (\<forall>j < 8. j \<noteq> n \<longrightarrow> window_table s' ! j = window_table s ! j
          \<and> otrans (lcsr s') ! j = otrans (lcsr s) ! j \<and> pci_regions s' j = pci_regions s j)"
  using assms(1,2)
proof (cases rule: vme_create_window_cases)
  case (ok m name start va attrs)
  have n: "n = m" using ok(3) by (simp add: n_def)
  have len: "m < length (window_table s)" "m < length (otrans (lcsr s))"
    using ok(2) winvD(1,2) [OF assms(1)] by (simp_all add: wf_lcsr_def)
  show ?thesis
    using ok(2,5,9) len window_otat_enabled unfolding n ok(11)
    by (auto simp: created_state_fields chip_simps program_window_def)
qed simp

text \<open>
  Destroying an active window, unless a signal interrupts it, disables it in the chip, so that
  it decodes no address, clears all eight of its registers, gives its PCI region and its
  kernel mapping back, drops its mappings, and leaves every other window alone.
\<close>

lemma destroyed_window_is_gone:
  assumes "winv s" and "n < 8" and "w_active (window_table s ! n)" and "k_lock k n"
  shows "\<exists>s'. vme_destroy_window k (int n) s = (OK, s') \<and> otrans (lcsr s') ! n = zero_otrans
    \<and> (\<forall>a. \<not> otrans_decodes (otrans (lcsr s') ! n) a)
    \<and> pci_regions s' = (pci_regions s)(n := None)
    \<and> iomaps s' = remove1 (vm_kernel_va (w_desc (window_table s ! n))) (iomaps s)
    \<and> \<not> w_active (window_table s' ! n) \<and> w_mappings (window_table s' ! n) = []
    \<and> (\<forall>j < 8. j \<noteq> n \<longrightarrow> window_table s' ! j = window_table s ! j \<and> otrans (lcsr s') ! j = otrans (lcsr s) ! j)"
proof -
  obtain r s' where run: "vme_destroy_window k (int n) s = (r, s')" by fastforce
  from assms(1) run show ?thesis
  proof (cases rule: vme_destroy_window_cases)
    case (err e)
    then show ?thesis using assms(2-4) by (simp add: bad_window_num_def)
  next
    case (ok m)
    have m: "m = n" using ok(3) by simp
    have len: "n < length (window_table s)" "n < length (otrans (lcsr s))"
      using assms(2) winvD(1,2) [OF assms(1)] by (simp_all add: wf_lcsr_def)
    have num: "vm_window_num (w_desc (window_table s ! n)) = int n"
      using winv_active [OF assms(1-3)] by (simp add: active_ok_def Let_def)
    have z: "otrans (lcsr s') ! n = zero_otrans"
      using len num ok(6) unfolding m
      by (simp add: destroyed_state_fields tsi148_remove_window_def chip_simps zero_otrans_def)
    then have "\<forall>a. \<not> otrans_decodes (otrans (lcsr s') ! n) a" by (simp add: otrans_decodes_def zero_otrans_def)
    then show ?thesis
      using run ok(1,6) z len num unfolding m
      by (simp add: destroyed_state_fields tsi148_remove_window_def chip_simps)
  qed
qed

text \<open>
  What \<open>vme_get_window_attr\<close> reports of an active window is its descriptor, read back from the chip,
  except that the size comes out 64K smaller than the window is.
\<close>

lemma window_attributes_read_back:
  assumes "winv s" and "n < 8" and "w_active (window_table s ! n)" and "k_lock k n" and "vm_window_num q = int n"
  defines "d \<equiv> w_desc (window_table s ! n)"
  shows "\<exists>r. vme_get_window_attr k q s = (OK, r, s) \<and> vm_am r = vm_am d \<and> vm_v2esst_mode r = vm_v2esst_mode d
    \<and> vm_pci_addrl r = vm_pci_addrl d \<and> vm_vme_addrl r = vm_vme_addrl d \<and> vm_window_enabled r = 1
    \<and> vm_kernel_va r = vm_kernel_va d \<and> vm_data_width r = vm_data_width d
    \<and> vm_sizel r = vm_sizel d - 0x10000"
proof -
  note act = winv_active [OF assms(1-3), unfolded active_ok_def Let_def d_def [symmetric]]
  then obtain attrs t where
    at: "tsi148_setup_window_attributes (vm_v2esst_mode d) (vm_data_width d) (vm_am d) = Inr attrs"
    and t: "otrans (lcsr s) ! n = program_window d attrs t" by (auto simp: programmed_def)
  have num: "nat (vm_window_num d) = n" using act by simp
  have len: "n < length (window_table s)" using assms(2) winvD(2) [OF assms(1)] by simp
  have "\<not> bad_window_num (vm_window_num q)" using assms(2,5) by (simp add: bad_window_num_def)
  then have run: "vme_get_window_attr k q s = (OK, tsi148_get_window_attr d (lcsr s), s)"
    using assms(4,5) len winv_unlocked [OF assms(1,2)]
    by (simp add: vme_get_window_attr_def Let_def lock_winv [OF assms(1,2)] set_window_fields unlock_lock d_def)
  have kv: "vm_kernel_va (tsi148_get_window_attr d (lcsr s)) = vm_kernel_va d"
    by (simp add: tsi148_get_window_attr_def Let_def)
  note prog = get_window_attr_programmed [OF at t [folded num] _ _]
  show ?thesis
    using run act kv prog by (auto split: if_splits)
qed

text \<open>
  C38: \<open>mmap\<close> gives a process only what it asked for and owns: when it maps something, the PCI range handed
  to \<open>io_remap_pfn_range\<close> is the range asked for, it is the hull in whole pages of a mapping made through the same open file (so that it can hold up to
  a page more at each end), and the state is unchanged. The range lies inside the PCI range of that mapping's window, provided that neither
  the range nor the window reaches 4G; the code compares wrapped sums, and beyond that nothing is said.
\<close>

theorem mmap_maps_own_mapping:
  assumes "winv s" and "vme_window_mmap k file vma s = (r, vma', Some (a, n), s')"
  shows "s' = s \<and> a = push_bit 12 (vm_pgoff vma) \<and> n = vm_end vma - vm_start vma \<and>
    (\<exists>i < 8. \<exists>m \<in> set (w_mappings (window_table s ! i)). ti_file (mp_client m) = file
      \<and> a = align_down 12 (vm_pci_addrl (mp_desc m))
      \<and> (let e = vm_pci_addrl (mp_desc m) + vm_sizel (mp_desc m)
         in a + n = (if low_bits 12 e = 0 then e else align_down 12 e + 0x1000))
      \<and> (let d = w_desc (window_table s ! i)
         in unat a + unat n < 2 ^ 32 \<and> unat (vm_pci_addrl d) + unat (vm_sizel d) < 2 ^ 32
            \<longrightarrow> unat (vm_pci_addrl d) \<le> unat a \<and> unat a + unat n \<le> unat (vm_pci_addrl d) + unat (vm_sizel d)))"
proof -
  have run: "vme_window_mmap_from k file [0..<8] vma s = (r, vma', Some (a, n), s')"
    using assms(2) by (simp add: vme_window_mmap_def)
  from mmap_from_eq [OF assms(1) window_indices this]
  obtain i m where s': "s' = s" "a = push_bit 12 (vm_pgoff vma)" "n = vm_end vma - vm_start vma"
    and i: "i < 8" "w_active (window_table s ! i)" and m: "m \<in> set (w_mappings (window_table s ! i))"
    "ti_file (mp_client m) = file"
    and chk: "vme_check_mmap_region (w_desc (window_table s ! i)) (mp_desc m) a n" by auto
  let ?d = "w_desc (window_table s ! i)"
  have "vm_pci_addrl ?d \<le> a" "a + n \<le> vm_pci_addrl ?d + vm_sizel ?d" "a = align_down 12 (vm_pci_addrl (mp_desc m))"
    "let e = vm_pci_addrl (mp_desc m) + vm_sizel (mp_desc m)
     in a + n = (if low_bits 12 e = 0 then e else align_down 12 e + 0x1000)"
    using chk by (auto simp: vme_check_mmap_region_def Let_def low_bits_literal split: if_splits)
  then show ?thesis
    using s' i m
    by (intro conjI exI [of _ i] bexI [of _ m]) (auto simp: word_le_nat_alt unat_word_ariths Let_def)
qed

lemma exit_from_inactive:
  assumes "winv s" and "set is \<subseteq> {..<8}" and "\<forall>i < 8. k_lock k i"
  shows "\<forall>j < 8. w_active (window_table (window_exit_from k is s) ! j)
     \<longleftrightarrow> w_active (window_table s ! j) \<and> j \<notin> set is"
  using assms(1,2)
proof (induction "is" arbitrary: s)
  case (Cons i "is")
  have len: "i < length (window_table s)" "i < 8" using Cons.prems winvD(2) [OF Cons.prems(1)] by auto
  show ?case
  proof (cases "w_active (window_table s ! i)")
    case True
    obtain r s1 where run: "vme_destroy_window k (int i) s = (r, s1)" by fastforce
    have inv1: "winv s1" using winv_destroy Cons.prems(1) run by blast
    from Cons.prems(1) run have "s1 = destroyed_state i s"
      by (cases rule: vme_destroy_window_cases)
        (use True len assms(3) in \<open>auto simp: bad_window_num_def\<close>)
    then have "w_active (window_table s1 ! j) \<longleftrightarrow> w_active (window_table s ! j) \<and> j \<noteq> i" for j
      using len(1) by (simp add: destroyed_state_fields)
    then show ?thesis using Cons.IH [OF inv1] Cons.prems(2) True run by auto
  next
    case False
    then show ?thesis using Cons by auto
  qed
qed simp

lemma window_exit_clean:
  assumes "winv s" and "\<forall>i < 8. k_lock k i"
  shows "\<forall>i < 8. \<not> w_active (window_table (vme_window_exit k s) ! i)" "winv (vme_window_exit k s)" "iomaps (vme_window_exit k s) = []"
    "\<forall>i < 8. otat (otrans (lcsr (vme_window_exit k s)) ! i) = 0 \<and> pci_regions (vme_window_exit k s) i = None"
proof -
  let ?t = "vme_window_exit k s"
  show inv: "winv ?t" unfolding vme_window_exit_def by (rule winv_window_exit_from [OF assms(1) window_indices])
  show off: "\<forall>i < 8. \<not> w_active (window_table ?t ! i)"
    using exit_from_inactive [OF assms(1) window_indices assms(2)] by (simp add: vme_window_exit_def)
  then have "\<forall>w \<in> set (window_table ?t). \<not> w_active w"
    using winvD(2) [OF inv] by (auto simp: in_set_conv_nth)
  then have "filter_mset w_active (mset (window_table ?t)) = {#}" by (auto simp: filter_mset_eq_conv)
  then have "mset (iomaps ?t) = {#}" using winvD(3) [OF inv] by (simp add: active_vas_def)
  then show "iomaps ?t = []" by simp
  show "\<forall>i < 8. otat (otrans (lcsr ?t) ! i) = 0 \<and> pci_regions ?t i = None"
    using off winv_idle [OF inv] by (auto simp: idle_ok_def)
qed

text \<open>
  Unloading the module, when no signal arrives, destroys every window: none is active, no PCI
  region and no \<open>ioremap\<close> is left, and no window of the chip is enabled.
\<close>

lemma module_exit_leaves_nothing:
  assumes "winv s" and "\<forall>i < 8. k_lock k i"
  defines "t \<equiv> vme_window_exit k s"
  shows "(\<forall>i < 8. \<not> w_active (window_table t ! i) \<and> otat (otrans (lcsr t) ! i) = 0 \<and> pci_regions t i = None)
    \<and> iomaps t = []"
  using window_exit_clean [OF assms(1,2)] by (simp add: t_def)

section \<open>Witnesses\<close>

text \<open>
  A machine to try the window manager on: an all-zero table and chip, and a kernel that answers every
  request, hands out PCI space at 0x80000000 when none is in use, and maps it at 0xd0000000.
\<close>

definition demo_window :: window where
  "demo_window = \<lparr>w_lock = False, w_active = False, w_rsrc = zero_resource, w_desc = zero_mapping,
     w_mappings = [], w_users = 0\<rparr>"

definition demo_start :: wstate where
  "demo_start = \<lparr>lcsr = zero_lcsr, verr_desc = \<lparr>bd_error = \<lparr>be_address = 0, be_am = 0\<rparr>, bd_valid = False\<rparr>,
     h_list = [], window_table = replicate 8 demo_window, vme_create_on_find_fail = 1,
     vme_destroy_on_remove = 0, pci_regions = (\<lambda>_. None), iomaps = []\<rparr>"

definition demo_kernel :: kernel where
  "demo_kernel = \<lparr>k_lock = (\<lambda>_. True), k_relock = (\<lambda>_. True), k_kmalloc = True, k_kzalloc = True,
     k_alloc_resource = (\<lambda>pr sz. if list_all (\<lambda>i. pr i = None) [0..<8] \<and> sz \<le> 0x70000000 then Inr 0x80000000 else Inl EBUSY),
     k_ioremap = (\<lambda>used start sz. 0xd0000000), k_pid = 42, k_comm = ''demo'',
     k_copy_from_user = True, k_copy_to_user = True, k_remap = OK\<rparr>"

definition demo_request :: vme_mapping where
  "demo_request = zero_mapping\<lparr>vm_am := VME_A24_USER_DATA_SCT, vm_data_width := VME_D32, vm_vme_addrl := 0x3000, vm_sizel := 0x1000\<rparr>"

definition demo_init :: wstate where
  "demo_init = vme_window_init demo_start"

definition demo_found :: "rc \<times> vme_mapping \<times> wstate" where
  "demo_found = vme_find_mapping_file demo_kernel demo_request True (Some 7) demo_init"

definition demo_state :: wstate where
  "demo_state = snd (snd demo_found)"

lemma demo_module_start: "module_start demo_start"
  by (simp add: module_start_def demo_start_def demo_window_def zero_lcsr_def zero_otrans_def wf_lcsr_def)

lemma demo_alloc_ok: "pci_alloc_ok demo_kernel"
  by (auto simp: pci_alloc_ok_def demo_kernel_def list_all_iff word_le_nat_alt split: if_splits)

lemma demo_found_eq: "demo_found = (OK, fst (snd demo_found), demo_state)"
proof -
  have "fst demo_found = OK" by code_simp
  then show ?thesis by (simp add: demo_state_def prod_eq_iff)
qed

lemma demo_table:
  "w_active (window_table demo_state ! 0)"
  "map (\<lambda>m. (vm_vme_addrl (mp_desc m), vm_pci_addrl (mp_desc m), ti_file (mp_client m))) (w_mappings (window_table demo_state ! 0))
     = [(0x3000, 0x80003000, Some 7)]"
  "map w_active (window_table demo_state) = True # replicate 7 False"
  "(\<lambda>d. (vm_vme_addrl d, vm_vme_addru d, vm_sizel d, vm_sizeu d, vm_pci_addrl d, vm_pci_addru d)) (w_desc (window_table demo_state ! 0))
     = (0, 0, 0x1000000, 0, 0x80000000, 0)"
  by code_simp+

lemma demo_reachable: "wstep\<^sup>*\<^sup>* (vme_window_init demo_start) demo_state"
proof -
  have flag: "vme_create_on_find_fail demo_init \<noteq> 0" by code_simp
  have "vme_window_ioctl plain_hw demo_kernel (Some 7) (VME_IOCTL_FIND_MAPPING demo_request) demo_init
      = (OK, Out_mapping (fst (snd demo_found)), demo_state)"
    using flag
    by (simp add: ioctl_mapping_def demo_found_def [symmetric])
      (subst demo_found_eq, simp add: demo_kernel_def)
  then have "wstep demo_init demo_state" by (rule wstep.ioctl [OF demo_alloc_ok])
  then show ?thesis by (simp add: demo_init_def)
qed

lemma demo_winv: "winv demo_init" "winv demo_state"
proof -
  show i: "winv demo_init" using winv_init [OF demo_module_start] by (simp add: demo_init_def)
  show "winv demo_state" using winv_find [OF i] demo_found_eq unfolding demo_found_def by blast
qed

lemma demo_active: "j < 8 \<Longrightarrow> w_active (window_table demo_state ! j) \<longleftrightarrow> j = 0"
proof -
  assume j: "j < 8"
  have "length (window_table demo_state) = 8" using winvD(2) demo_winv(2) by blast
  then have "w_active (window_table demo_state ! j) = (map w_active (window_table demo_state)) ! j" using j by simp
  also have "\<dots> = (j = 0)" unfolding demo_table(3) using j by (cases j) auto
  finally show ?thesis .
qed

lemma demo_desc:
  "vm_vme_addrl (w_desc (window_table demo_state ! 0)) = 0" "vm_vme_addru (w_desc (window_table demo_state ! 0)) = 0"
  "vm_sizel (w_desc (window_table demo_state ! 0)) = 0x1000000" "vm_pci_addrl (w_desc (window_table demo_state ! 0)) = 0x80000000"
  "plain_window (w_desc (window_table demo_state ! 0))"
  using demo_table(4) by (simp_all add: plain_window_def)

theorem window_table_invariant_witness: "winv demo_state \<and> regions_ok (pci_regions demo_state)"
  by (rule window_table_invariant [OF demo_module_start demo_reachable])



lemma found_window_contains_request_example:
  "{unat (0x3000 :: u32) ..< unat (0x3000 :: u32) + 0x1000} \<subseteq> {0 ..< 0x1000000}"
proof -
  have req: "vm_vme_addrl demo_request = 0x3000" "vm_sizel demo_request = 0x1000" by (simp_all add: demo_request_def)
  have "window_suits demo_request (window_table demo_state ! 0)" by code_simp
  from found_window_contains_request [OF this] show ?thesis by (simp add: demo_desc req)
qed

lemma new_window_covers_aligned_request_example:
  "unat (vm_sizel (round_window (demo_request\<lparr>vm_vme_addrl := 0x20000\<rparr>))) \<ge> 0x1000"
  using new_window_covers_aligned_request [of "demo_request\<lparr>vm_vme_addrl := 0x20000\<rparr>"]
  by (simp add: demo_request_def low_bits_def mask_eq_exp_minus_1)

text \<open>A second request of the same file on the window of the first, at another place.\<close>

definition demo_second :: "rc \<times> vme_mapping \<times> wstate" where
  "demo_second = vme_find_mapping_file demo_kernel (demo_request\<lparr>vm_vme_addrl := 0x8000\<rparr>) True (Some 7) demo_state"

lemma release_undoes_find_example:
  "vme_release_mapping_file demo_kernel (fst (snd demo_second)) False (Some 7) (snd (snd demo_second)) = (OK, demo_state)"
proof -
  have ok: "fst demo_second = OK" "nat (vm_window_num (fst (snd demo_second))) = 0" by code_simp+
  have run: "vme_find_mapping_file demo_kernel (demo_request\<lparr>vm_vme_addrl := 0x8000\<rparr>) True (Some 7) demo_state
      = (OK, fst (snd demo_second), snd (snd demo_second))"
    using ok(1) by (simp add: demo_second_def prod_eq_iff)
  have no: "\<forall>m \<in> set (w_mappings (window_table demo_state ! 0)).
      \<not> mapping_matches (fst (snd demo_second)) (Some 7) m"
    by code_simp
  show ?thesis
    by (rule release_undoes_find [OF demo_winv(2) run ok(2) [symmetric] demo_table(1) no])
      (simp_all add: demo_kernel_def)
qed

lemma close_removes_files_mappings_example:
  "\<exists>s'. vme_window_release demo_kernel (Some 7) demo_state = (OK, s') \<and> w_mappings (window_table s' ! 0) = []"
proof -
  obtain m where m: "w_mappings (window_table demo_state ! 0) = [m]" "ti_file (mp_client m) = Some 7"
    using demo_table(2) by (auto simp: map_eq_Cons_conv)
  show ?thesis
    using close_removes_files_mappings [OF demo_winv(2), of demo_kernel "Some 7"] m
    by (auto simp: demo_kernel_def)
qed

theorem failed_create_leaves_no_trace_witness:
  "\<exists>e d'. vme_create_window demo_kernel (demo_request\<lparr>vm_window_num := 0\<rparr>) demo_state = (Err e, d', demo_state)"
proof -
  let ?x = "vme_create_window demo_kernel (demo_request\<lparr>vm_window_num := 0\<rparr>) demo_state"
  have "fst ?x = Err EBUSY" by code_simp
  then have run: "?x = (Err EBUSY, fst (snd ?x), snd (snd ?x))" by (simp add: prod_eq_iff)
  from failed_create_leaves_no_trace [OF demo_winv(2) run] run show ?thesis by metis
qed

lemma created_window_is_live_example:
  "\<exists>d' s'. vme_create_window demo_kernel (demo_request\<lparr>vm_window_num := 3\<rparr>) demo_init = (OK, d', s')
     \<and> w_active (window_table s' ! 3)"
proof -
  let ?x = "vme_create_window demo_kernel (demo_request\<lparr>vm_window_num := 3\<rparr>) demo_init"
  have "fst ?x = OK" by code_simp
  then obtain d' s' where run: "?x = (OK, d', s')" by (metis prod.collapse)
  from created_window_is_live [OF demo_winv(1) run] run show ?thesis by simp
qed

lemma destroyed_window_is_gone_example:
  "\<exists>s'. vme_destroy_window demo_kernel 0 demo_state = (OK, s') \<and> otrans (lcsr s') ! 0 = zero_otrans"
  using destroyed_window_is_gone [OF demo_winv(2) _ demo_table(1), of demo_kernel]
  by (auto simp: demo_kernel_def)

lemma window_attributes_read_back_example:
  "\<exists>r. vme_get_window_attr demo_kernel zero_mapping demo_state = (OK, r, demo_state) \<and> vm_sizel r = 0xff0000"
  using window_attributes_read_back [OF demo_winv(2) _ demo_table(1), of demo_kernel zero_mapping]
  by (auto simp: demo_kernel_def zero_mapping_def demo_desc)

theorem mmap_maps_own_mapping_witness:
  "\<exists>i < 8. \<exists>m \<in> set (w_mappings (window_table demo_state ! i)). ti_file (mp_client m) = Some 7
    \<and> (0x80003000 :: u32) = align_down 12 (vm_pci_addrl (mp_desc m))"
proof -
  let ?vma = "\<lparr>vm_start = 0x40000000, vm_end = 0x40001000, vm_pgoff = 0x80003, vma_io = False\<rparr>"
  let ?x = "vme_window_mmap demo_kernel (Some 7) ?vma demo_state"
  have "fst (snd (snd ?x)) = Some (0x80003000, 0x1000)" by code_simp
  then have run: "?x = (fst ?x, fst (snd ?x), Some (0x80003000, 0x1000), snd (snd (snd ?x)))"
    by (simp add: prod_eq_iff)
  from mmap_maps_own_mapping [OF demo_winv(2) run] show ?thesis by blast
qed

lemma module_exit_leaves_nothing_example: "iomaps (vme_window_exit demo_kernel demo_state) = []"
  using module_exit_leaves_nothing [OF demo_winv(2), of demo_kernel] by (simp add: demo_kernel_def)

end
