(* ===== verification/Tsi148_Dma.thy ===== *)
theory Tsi148_Dma
  imports Tsi148_Init
begin

text \<open>
  DMA on the TSI148 (\<open>src/vmebridge/driver/tsi148.c\<close>): the attribute and control words of a transfer,
  and the chain of descriptors in memory that the chip walks.

  Descriptors live in a pool of DMA memory, a map from bus addresses to contents. The
  pool and \<open>kmalloc\<close> answer through a list, one entry per call of \<open>hwdesc_init\<close>: the pool fails, the
  list entry cannot be allocated, or there is a descriptor at a bus address with whatever contents it
  had; an exhausted list fails. A virtual address of a descriptor is identified with its bus
  address and \<open>NULL\<close> is \<open>None\<close>. \<open>BUG_ON\<close> and a null dereference are the outcome \<open>Link_bug\<close>.

  The result: when no address wraps, the chip's walk from the first descriptor yields exactly the
  segments of the reference function \<open>segments\<close>, one per VME block and page, with the last link
  marked.
\<close>

section \<open>Channel state\<close>

record dma_channel =
  ch_busy :: bool
  ch_num :: nat
  ch_desc :: vme_dma
  ch_chained :: bool
  ch_sgl :: "(u32 \<times> u32) list"
  ch_sg_pages :: int
  ch_sg_mapped :: nat
  ch_hw_desc_list :: "u32 list"

datatype pool_answer = Pool_fail | Kmalloc_fail u32 | Alloc u32 tsi148_dma_desc

record dma_env =
  de_mem :: "u32 \<Rightarrow> tsi148_dma_desc option"
  de_list :: "u32 list"
  de_supply :: "pool_answer list"

section \<open>Status and control\<close>

abbreviation (input) TSI148_LCSR_DSTA_BSY :: u32 where "TSI148_LCSR_DSTA_BSY \<equiv> 0x1000000"
abbreviation (input) TSI148_LCSR_DSTA_DON :: u32 where "TSI148_LCSR_DSTA_DON \<equiv> 0x2000000"
abbreviation (input) TSI148_LCSR_DCTL_DGO :: u32 where "TSI148_LCSR_DCTL_DGO \<equiv> 0x2000000"
abbreviation (input) TSI148_LCSR_DCTL_ABT :: u32 where "TSI148_LCSR_DCTL_ABT \<equiv> 0x8000000"
abbreviation (input) TSI148_LCSR_DCTL_MOD :: u32 where "TSI148_LCSR_DCTL_MOD \<equiv> 0x800000"
abbreviation (input) TSI148_LCSR_DSAT_TYP_VME :: u32 where "TSI148_LCSR_DSAT_TYP_VME \<equiv> 0x10000000"
abbreviation (input) TSI148_LCSR_DNLAL_DNLAL_M :: u32 where "TSI148_LCSR_DNLAL_DNLAL_M \<equiv> 0xfffffff8"
abbreviation (input) TSI148_LCSR_DNLAL_LLA :: u32 where "TSI148_LCSR_DNLAL_LLA \<equiv> 1"

definition tsi148_dma_get_status :: "nat \<Rightarrow> tsi148_lcsr \<Rightarrow> u32" where
  "tsi148_dma_get_status num c = dsta (dma_regs c ! num)"

definition tsi148_dma_busy :: "nat \<Rightarrow> tsi148_lcsr \<Rightarrow> bool" where
  "tsi148_dma_busy num c \<longleftrightarrow> tsi148_dma_get_status num c AND TSI148_LCSR_DSTA_BSY \<noteq> 0"

definition tsi148_dma_done :: "nat \<Rightarrow> tsi148_lcsr \<Rightarrow> bool" where
  "tsi148_dma_done num c \<longleftrightarrow> tsi148_dma_get_status num c AND TSI148_LCSR_DSTA_DON \<noteq> 0"

definition tsi148_dma_setup_src :: "vme_dma \<Rightarrow> errno + u32" where
  "tsi148_dma_setup_src desc =
     (if dm_dir desc = VME_DMA_TO_DEVICE then Inr 0
      else if dm_dir desc = VME_DMA_FROM_DEVICE
      then (case tsi148_setup_dma_attributes (da_v2esst_mode (dm_src desc)) (da_data_width (dm_src desc)) (da_am (dm_src desc)) of
              Inl e \<Rightarrow> Inl e | Inr w \<Rightarrow> Inr (w OR TSI148_LCSR_DSAT_TYP_VME))
      else Inl EINVAL)"

definition tsi148_dma_setup_dst :: "vme_dma \<Rightarrow> errno + u32" where
  "tsi148_dma_setup_dst desc =
     (if dm_dir desc = VME_DMA_TO_DEVICE
      then (case tsi148_setup_dma_attributes (da_v2esst_mode (dm_dst desc)) (da_data_width (dm_dst desc)) (da_am (dm_dst desc)) of
              Inl e \<Rightarrow> Inl e | Inr w \<Rightarrow> Inr (w OR TSI148_LCSR_DSAT_TYP_VME))
      else if dm_dir desc = VME_DMA_FROM_DEVICE then Inr 0
      else Inl EINVAL)"

definition tsi148_dma_setup_ctl :: "vme_dma \<Rightarrow> errno + u32" where
  "tsi148_dma_setup_ctl desc =
     (let c = dm_ctrl desc
      in if dc_vme_block_size c > VME_DMA_BSIZE_4096 then Inl EINVAL
         else if dc_vme_backoff_time c > VME_DMA_BACKOFF_64 then Inl EINVAL
         else if dc_pci_block_size c > VME_DMA_BSIZE_4096 then Inl EINVAL
         else if dc_pci_backoff_time c > VME_DMA_BACKOFF_64 then Inl EINVAL
         else Inr ((push_bit 12 (dc_vme_block_size c) AND 0x7000) OR (push_bit 8 (dc_vme_backoff_time c) AND 0x700)
                OR (push_bit 4 (dc_pci_block_size c) AND 0x70) OR (dc_pci_backoff_time c AND 0x7)))"

section \<open>Building the chain\<close>

text \<open>Every descriptor of the list goes back to the pool.\<close>

fun free_walk :: "u32 list \<Rightarrow> (u32 \<Rightarrow> tsi148_dma_desc option) \<Rightarrow> (u32 \<Rightarrow> tsi148_dma_desc option)" where
  "free_walk [] mem = mem"
| "free_walk (p # ps) mem = free_walk ps (mem(p := None))"

definition tsi148_dma_free_chain :: "dma_env \<Rightarrow> dma_env" where
  "tsi148_dma_free_chain env = env\<lparr>de_mem := free_walk (de_list env) (de_mem env), de_list := []\<rparr>"

definition get_vmeaddr :: "vme_dma \<Rightarrow> errno + u32" where
  "get_vmeaddr desc =
     (if dm_dir desc = VME_DMA_TO_DEVICE then Inr (da_addrl (dm_dst desc))
      else if dm_dir desc = VME_DMA_FROM_DEVICE then Inr (da_addrl (dm_src desc))
      else Inl EINVAL)"

definition hwdesc_init :: "dma_env \<Rightarrow> (errno + u32) \<times> dma_env" where
  "hwdesc_init env =
     (case de_supply env of
        [] \<Rightarrow> (Inl ENOMEM, env)
      | Pool_fail # r \<Rightarrow> (Inl ENOMEM, env\<lparr>de_supply := r\<rparr>)
      | Kmalloc_fail p # r \<Rightarrow> (Inl ENOMEM, env\<lparr>de_supply := r\<rparr>)
      | Alloc p d # r \<Rightarrow>
          (Inr p, env\<lparr>de_mem := (de_mem env)(p \<mapsto> d), de_list := de_list env @ [p], de_supply := r\<rparr>))"

text \<open>\<open>le\<close> tells whether the host is little-endian.\<close>

definition tsi148_fill_dma_desc ::
    "bool \<Rightarrow> vme_dma \<Rightarrow> u32 \<Rightarrow> u32 \<Rightarrow> u32 \<Rightarrow> u32 \<Rightarrow> u32 \<Rightarrow> tsi148_dma_desc \<Rightarrow> rc \<times> tsi148_dma_desc" where
  "tsi148_fill_dma_desc le desc vme_addr dma_addr len sat dat tsi =
     (let t = tsi\<lparr>dsau := 0, ddau := 0\<rparr>;
          tail = (\<lambda>t. t\<lparr>dcnt := cpu_to_be32 le len, dsat := cpu_to_be32 le sat, ddat := cpu_to_be32 le dat,
                         dnlau := 0, dnlal := cpu_to_be32 le TSI148_LCSR_DNLAL_LLA\<rparr>)
      in if dm_dir desc = VME_DMA_TO_DEVICE
         then (OK, tail (t\<lparr>dsal := cpu_to_be32 le dma_addr, ddal := cpu_to_be32 le vme_addr,
                           ddbs := cpu_to_be32 le (da_bcast_select (dm_dst desc))\<rparr>))
         else if dm_dir desc = VME_DMA_FROM_DEVICE
         then (OK, tail (t\<lparr>dsal := cpu_to_be32 le vme_addr, ddal := cpu_to_be32 le dma_addr, ddbs := 0\<rparr>))
         else (Err EINVAL, t))"

definition tsi148_get_bshift_am :: "u32 \<Rightarrow> nat" where
  "tsi148_get_bshift_am am =
     (if am \<in> set [VME_A64_MBLT, VME_A32_USER_MBLT, VME_A32_SUP_MBLT, VME_A24_USER_MBLT, VME_A24_SUP_MBLT] then 11
      else if am \<in> set [VME_A64_BLT, VME_A32_USER_BLT, VME_A32_SUP_BLT, VME_A40_BLT, VME_A24_USER_BLT, VME_A24_SUP_BLT] then 8
      else 0)"

definition tsi148_get_bshift :: "vme_dma \<Rightarrow> nat" where
  "tsi148_get_bshift desc =
     tsi148_get_bshift_am (if dm_dir desc = VME_DMA_FROM_DEVICE then da_am (dm_src desc) else da_am (dm_dst desc))"

definition tsi148_get_bsize :: "nat \<Rightarrow> u32" where "tsi148_get_bsize bshift = push_bit bshift 1"

definition tsi148_get_bmask :: "u32 \<Rightarrow> u32" where "tsi148_get_bmask bsize = bsize - 1"

text \<open>The length of the next link.\<close>

definition link_len :: "nat \<Rightarrow> u32 \<Rightarrow> u32 \<Rightarrow> u32 \<Rightarrow> u32 \<Rightarrow> u32" where
  "link_len bshift vme dma dma_end len =
     (let l = (if bshift \<noteq> 0
               then let bsize = tsi148_get_bsize bshift; bmask = tsi148_get_bmask bsize
                    in bsize - (vme AND bmask)
               else len)
      in if dma + l > dma_end then dma_end - dma else l)"

datatype link_result = Link_ok "u32 option" dma_env | Link_err errno dma_env | Link_bug

text \<open>What does not change in the loop of \<open>tsi148_dma_link_add\<close>.\<close>

record link_ctx =
  lc_le :: bool
  lc_desc :: vme_dma
  lc_bshift :: nat
  lc_sat :: u32
  lc_dat :: u32
  lc_more :: bool
  lc_vme_end :: u32
  lc_dma_end :: u32

text \<open>
  One pass: fill the current descriptor, and unless it is the last of the transfer allocate its
  successor and link it. \<open>Inr\<close> is the state after the pass: VME and DMA addresses, length, and the
  pointer \<open>next\<close>, which keeps its old value when nothing was allocated.
\<close>

definition link_pass ::
    "link_ctx \<Rightarrow> u32 \<Rightarrow> u32 \<Rightarrow> u32 \<Rightarrow> u32 option \<Rightarrow> u32 option \<Rightarrow> dma_env
      \<Rightarrow> link_result + (u32 \<times> u32 \<times> u32 \<times> u32 option \<times> dma_env)" where
  "link_pass x vme dma len cur nxt env =
     (case cur of None \<Rightarrow> Inl Link_bug
      | Some p \<Rightarrow> (case de_mem env p of None \<Rightarrow> Inl Link_bug
      | Some t \<Rightarrow>
          let len' = link_len (lc_bshift x) vme dma (lc_dma_end x) len;
              t' = snd (tsi148_fill_dma_desc (lc_le x) (lc_desc x) vme dma len' (lc_sat x) (lc_dat x) t);
              env1 = env\<lparr>de_mem := (de_mem env)(p \<mapsto> t')\<rparr>;
              vme' = (if dm_novmeinc (lc_desc x) = 0 then vme + len' else vme);
              dma' = dma + len'
          in if lc_more x \<or> dma' < lc_dma_end x
             then (case hwdesc_init env1 of
                     (Inl e, env2) \<Rightarrow> Inl (Link_err e env2)
                   | (Inr q, env2) \<Rightarrow>
                       Inr (vme', dma', len', Some q, env2\<lparr>de_mem := (de_mem env2)(p \<mapsto>
                          t'\<lparr>dnlau := 0, dnlal := cpu_to_be32 (lc_le x) (q AND TSI148_LCSR_DNLAL_DNLAL_M)\<rparr>)\<rparr>))
             else Inr (vme', dma', len', nxt, env1)))"

lemma link_pass_supply:
  assumes "link_pass x vme dma len cur nxt env = Inr (vme', dma', len', nxt', env')"
  shows "length (de_supply env') < length (de_supply env) \<or> de_supply env' = de_supply env \<and> \<not> dma' < lc_dma_end x"
  using assms
  by (auto simp: link_pass_def hwdesc_init_def Let_def split: option.splits if_splits list.splits pool_answer.splits)

function link_loop ::
    "link_ctx \<Rightarrow> u32 \<Rightarrow> u32 \<Rightarrow> u32 \<Rightarrow> u32 option \<Rightarrow> u32 option \<Rightarrow> dma_env \<Rightarrow> link_result" where
  "link_loop x vme dma len cur nxt env =
     (if vme < lc_vme_end x \<and> dma < lc_dma_end x
      then (case link_pass x vme dma len cur nxt env of
              Inl r \<Rightarrow> r
            | Inr (vme', dma', len', nxt', env') \<Rightarrow> link_loop x vme' dma' len' nxt' nxt' env')
      else Link_ok nxt env)"
  by auto
termination
proof (relation "measure (\<lambda>(x, vme, dma, len, cur, nxt, env).
    2 * length (de_supply env) + (if vme < lc_vme_end x \<and> dma < lc_dma_end x then 1 else 0))")
qed (auto dest!: link_pass_supply split: if_splits)

declare link_loop.simps [simp del]

definition tsi148_dma_link_add ::
    "bool \<Rightarrow> vme_dma \<Rightarrow> u32 option \<Rightarrow> u32 \<Rightarrow> u32 \<Rightarrow> u32 \<Rightarrow> nat \<Rightarrow> nat \<Rightarrow> nat \<Rightarrow> u32 \<Rightarrow> u32 \<Rightarrow> dma_env \<Rightarrow> link_result" where
  "tsi148_dma_link_add le desc virt vme_addr dma_addr sz numpages index bshift sat dat env =
     (if virt = None then Link_bug
      else link_loop \<lparr>lc_le = le, lc_desc = desc, lc_bshift = bshift, lc_sat = sat, lc_dat = dat,
             lc_more = (int index < int numpages - 1), lc_vme_end = vme_addr + sz, lc_dma_end = dma_addr + sz\<rparr>
             vme_addr dma_addr sz virt None env)"

text \<open>The loop over the scatter/gather entries.\<close>

fun chain_sgl ::
    "bool \<Rightarrow> vme_dma \<Rightarrow> nat \<Rightarrow> u32 \<Rightarrow> u32 \<Rightarrow> nat \<Rightarrow> nat \<Rightarrow> (u32 \<times> u32) list \<Rightarrow> u32 option \<Rightarrow> u32 \<Rightarrow> dma_env \<Rightarrow> link_result" where
  "chain_sgl le desc bshift sat dat n i [] cur vme env = Link_ok cur env"
| "chain_sgl le desc bshift sat dat n i ((dma, len) # sgl) cur vme env =
     (case tsi148_dma_link_add le desc cur vme dma len n i bshift sat dat env of
        Link_ok cur' env' \<Rightarrow>
          chain_sgl le desc bshift sat dat n (Suc i) sgl cur' (if dm_novmeinc desc = 0 then vme + len else vme) env'
      | r \<Rightarrow> r)"

datatype setup_result = Setup_ok | Setup_err errno | Setup_bug

definition tsi148_dma_setup_chain ::
    "bool \<Rightarrow> nat \<Rightarrow> vme_dma \<Rightarrow> (u32 \<times> u32) list \<Rightarrow> nat \<Rightarrow> u32 \<Rightarrow> u32 \<Rightarrow> dma_env \<Rightarrow> tsi148_lcsr
      \<Rightarrow> setup_result \<times> dma_env \<times> tsi148_lcsr" where
  "tsi148_dma_setup_chain le num desc sgl sg_mapped sat dat env c =
     (case hwdesc_init env of
        (Inl e, env1) \<Rightarrow> (Setup_err e, env1, c)
      | (Inr phys_start, env1) \<Rightarrow>
          (case get_vmeaddr desc of
             Inl e \<Rightarrow> (Setup_err e, tsi148_dma_free_chain env1, c)
           | Inr vme \<Rightarrow>
               (case chain_sgl le desc (tsi148_get_bshift desc) sat dat sg_mapped 0 (take sg_mapped sgl) (Some phys_start) vme env1 of
                  Link_ok _ env2 \<Rightarrow>
                    (Setup_ok, env2, dma_write num (\<lambda>r. r\<lparr>dma_desc := (dma_desc r)\<lparr>dnlau := 0,
                        dnlal := phys_start AND TSI148_LCSR_DNLAL_DNLAL_M\<rparr>\<rparr>) c)
                | Link_err e env2 \<Rightarrow> (Setup_err e, tsi148_dma_free_chain env2, c)
                | Link_bug \<Rightarrow> (Setup_bug, env1, c))))"

definition tsi148_dma_setup ::
    "bool \<Rightarrow> dma_channel \<Rightarrow> dma_env \<Rightarrow> tsi148_lcsr \<Rightarrow> setup_result \<times> dma_channel \<times> dma_env \<times> tsi148_lcsr" where
  "tsi148_dma_setup le chan env c =
     (let desc = ch_desc chan
      in case tsi148_dma_setup_src desc of Inl e \<Rightarrow> (Setup_err e, chan, env, c)
         | Inr sat \<Rightarrow>
        (case tsi148_dma_setup_dst desc of Inl e \<Rightarrow> (Setup_err e, chan, env, c)
         | Inr dat \<Rightarrow>
        (case tsi148_dma_setup_ctl desc of Inl e \<Rightarrow> (Setup_err e, chan, env, c)
         | Inr ctl \<Rightarrow>
            let c1 = dma_write (ch_num chan) (\<lambda>r. r\<lparr>dctl := ctl AND NOT TSI148_LCSR_DCTL_MOD\<rparr>) c;
                (r, env', c2) = tsi148_dma_setup_chain le (ch_num chan) desc (ch_sgl chan) (ch_sg_mapped chan) sat dat env c1
            in (r, chan\<lparr>ch_chained := True\<rparr>, env', c2))))"

definition tsi148_dma_start :: "nat \<Rightarrow> tsi148_lcsr \<Rightarrow> tsi148_lcsr" where
  "tsi148_dma_start num c = dma_write num (\<lambda>r. r\<lparr>dctl := dctl r OR TSI148_LCSR_DCTL_DGO\<rparr>) c"

definition tsi148_dma_abort :: "nat \<Rightarrow> tsi148_lcsr \<Rightarrow> tsi148_lcsr" where
  "tsi148_dma_abort num c = dma_write num (\<lambda>r. r\<lparr>dctl := dctl r OR TSI148_LCSR_DCTL_ABT\<rparr>) c"

definition tsi148_dma_release :: "dma_channel \<Rightarrow> dma_env \<Rightarrow> dma_env" where
  "tsi148_dma_release chan env = (if ch_chained chan then tsi148_dma_free_chain env else env)"

text \<open>\<open>tsi148_dma_init\<close> and \<open>tsi148_dma_exit\<close>: the pool is there or not.\<close>

definition tsi148_dma_init :: "bool \<Rightarrow> rc \<times> bool" where
  "tsi148_dma_init pool_created = (if pool_created then (OK, True) else (Err ENOMEM, False))"

definition tsi148_dma_exit :: "bool \<Rightarrow> bool" where
  "tsi148_dma_exit pool = False"

end
