(* ===== verification/Tsi148_Dma_Chain.thy ===== *)
theory Tsi148_Dma_Chain
  imports Tsi148_Dma Tsi148_Window "HOL-Library.Sublist"
begin

text \<open>
  The chain of DMA descriptors is what the chip needs. The chip's side is the walk \<open>dma_walk\<close>:
  fetch a descriptor, carry out its transfer, follow its link until the last-link bit. The
  specification is the list of segments of a transfer; the lemmas show that the loop builds a
  chain whose walk is that list.
\<close>

section \<open>The segments of a transfer\<close>

text \<open>
  \<open>segments noinc b v d n\<close>: \<open>n\<close> bytes at VME address \<open>v\<close> and bus address \<open>d\<close>, cut at VME block
  boundaries of \<open>2^b\<close> bytes (not cut when \<open>b = 0\<close>); with \<open>noinc\<close> the VME address stays.
\<close>

definition seg_len :: "nat \<Rightarrow> nat \<Rightarrow> nat \<Rightarrow> nat" where
  "seg_len b v n = (if b = 0 then n else min n (2 ^ b - v mod 2 ^ b))"

lemma seg_len_pos: "n \<noteq> 0 \<Longrightarrow> 0 < seg_len b v n"
  by (simp add: seg_len_def)

lemma seg_len_le: "seg_len b v n \<le> n"
  by (simp add: seg_len_def)

function segments :: "bool \<Rightarrow> nat \<Rightarrow> nat \<Rightarrow> nat \<Rightarrow> nat \<Rightarrow> (nat \<times> nat \<times> nat) list" where
  "segments noinc b v d n =
     (if n = 0 then []
      else let l = seg_len b v n
           in (v, d, l) # segments noinc b (if noinc then v else v + l) (d + l) (n - l))"
  by auto
termination
  by (relation "measure (\<lambda>(noinc, b, v, d, n). n)") (auto simp: seg_len_pos)

declare segments.simps [simp del] link_loop.simps [simp del]

fun transfer_segments :: "bool \<Rightarrow> nat \<Rightarrow> nat \<Rightarrow> (nat \<times> nat) list \<Rightarrow> (nat \<times> nat \<times> nat) list" where
  "transfer_segments noinc b v [] = []"
| "transfer_segments noinc b v ((d, n) # sgl) =
     segments noinc b v d n @ transfer_segments noinc b (if noinc then v else v + n) sgl"

lemma segments_sum: "(\<Sum>(v, d, l) \<leftarrow> segments noinc b v d n. l) = n"
proof (induction noinc b v d n rule: segments.induct)
  case (1 noinc b v d n)
  then show ?case using seg_len_le [of b v n] by (subst segments.simps) (auto simp: Let_def)
qed

lemma transfer_segments_sum:
  "(\<Sum>(v, d, l) \<leftarrow> transfer_segments noinc b v sgl. l) = (\<Sum>(d, n) \<leftarrow> sgl. n)"
  by (induction noinc b v sgl rule: transfer_segments.induct) (auto simp: segments_sum)

lemma seg_len_block:
  assumes "b \<noteq> 0" and "n \<noteq> 0"
  shows "(v + seg_len b v n - 1) div 2 ^ b = v div 2 ^ b"
proof -
  have "m + (min n (P - m) - 1) < P" if "m < P" for m P :: nat
    using that by (auto simp: min_def)
  from this [of "v mod 2 ^ b" "2 ^ b"]
  have "0 < seg_len b v n" "v mod 2 ^ b + (seg_len b v n - 1) < 2 ^ b"
    using assms by (auto simp: seg_len_def)
  moreover have "v + seg_len b v n - 1 = 2 ^ b * (v div 2 ^ b) + (v mod 2 ^ b + (seg_len b v n - 1))"
    using calculation(1) mult_div_mod_eq [of "2 ^ b" v] by linarith
  ultimately show ?thesis by (metis div_less div_mult_self4 add_0_right mult.commute power_eq_0_iff zero_neq_numeral)
qed

lemma segments_in_block:
  assumes "b \<noteq> 0" and "(x, d', l) \<in> set (segments noinc b v d n)"
  shows "0 < l \<and> (x + l - 1) div 2 ^ b = x div 2 ^ b"
  using assms
proof (induction noinc b v d n rule: segments.induct)
  case (1 noinc b v d n)
  show ?case
  proof (cases "n = 0")
    case True
    then show ?thesis using "1.prems"(2) by (simp add: segments.simps [of _ _ _ _ 0])
  next
    case False
    then have "segments noinc b v d n = (v, d, seg_len b v n)
        # segments noinc b (if noinc then v else v + seg_len b v n) (d + seg_len b v n) (n - seg_len b v n)"
      by (subst segments.simps) (simp add: Let_def)
    then consider "(x, d', l) = (v, d, seg_len b v n)"
      | "(x, d', l) \<in> set (segments noinc b (if noinc then v else v + seg_len b v n) (d + seg_len b v n) (n - seg_len b v n))"
      using "1.prems"(2) by (metis set_ConsD)
    then show ?thesis
    proof cases
      case 1
      then show ?thesis using seg_len_block [OF "1.prems"(1) False, of v] seg_len_pos [OF False] by simp
    next
      case 2
      then show ?thesis using "1.IH" [OF False refl "1.prems"(1)] by blast
    qed
  qed
qed

section \<open>What the chip does with a chain\<close>

record dma_fetch =
  f_src :: u64
  f_dst :: u64
  f_count :: u32
  f_sat :: u32
  f_dat :: u32
  f_bcast :: u32

definition fetch :: "bool \<Rightarrow> tsi148_dma_desc \<Rightarrow> dma_fetch" where
  "fetch le d = \<lparr>f_src = reg_join (be32_to_cpu le (dsau d)) (be32_to_cpu le (dsal d)),
     f_dst = reg_join (be32_to_cpu le (ddau d)) (be32_to_cpu le (ddal d)), f_count = be32_to_cpu le (dcnt d),
     f_sat = be32_to_cpu le (dsat d), f_dat = be32_to_cpu le (ddat d), f_bcast = be32_to_cpu le (ddbs d)\<rparr>"

definition next_link :: "bool \<Rightarrow> tsi148_dma_desc \<Rightarrow> u32 option" where
  "next_link le d = (let n = be32_to_cpu le (dnlal d)
     in if n AND TSI148_LCSR_DNLAL_LLA \<noteq> 0 then None else Some (n AND TSI148_LCSR_DNLAL_DNLAL_M))"

fun dma_walk :: "bool \<Rightarrow> (u32 \<Rightarrow> tsi148_dma_desc option) \<Rightarrow> nat \<Rightarrow> u32 \<Rightarrow> dma_fetch list option" where
  "dma_walk le mem 0 p = None"
| "dma_walk le mem (Suc fuel) p =
     (case mem p of None \<Rightarrow> None
      | Some d \<Rightarrow> (case next_link le d of None \<Rightarrow> Some [fetch le d]
                    | Some q \<Rightarrow> map_option ((#) (fetch le d)) (dma_walk le mem fuel q)))"

text \<open>The fetch a segment asks for.\<close>

definition fetch_of :: "vme_dma \<Rightarrow> u32 \<Rightarrow> u32 \<Rightarrow> nat \<times> nat \<times> nat \<Rightarrow> dma_fetch" where
  "fetch_of desc sat dat seg =
     (case seg of (v, d, l) \<Rightarrow>
        (if dm_dir desc = VME_DMA_TO_DEVICE
         then \<lparr>f_src = of_nat d, f_dst = of_nat v, f_count = of_nat l, f_sat = sat, f_dat = dat,
               f_bcast = da_bcast_select (dm_dst desc)\<rparr>
         else \<lparr>f_src = of_nat v, f_dst = of_nat d, f_count = of_nat l, f_sat = sat, f_dat = dat, f_bcast = 0\<rparr>))"

section \<open>Chains\<close>

text \<open>\<open>links le mem ps fs\<close>: the descriptors at all of \<open>ps\<close> but the last carry \<open>fs\<close>, each linked to the next.\<close>

fun links :: "bool \<Rightarrow> (u32 \<Rightarrow> tsi148_dma_desc option) \<Rightarrow> u32 list \<Rightarrow> dma_fetch list \<Rightarrow> bool" where
  "links le mem [p] [] = True"
| "links le mem (p # q # ps) (f # fs) =
     ((\<exists>d. mem p = Some d \<and> fetch le d = f \<and> next_link le d = Some q) \<and> links le mem (q # ps) fs)"
| "links le mem _ _ = False"

lemma links_snoc:
  assumes "links le mem (ps @ [p]) fs" and "mem p = Some d" and "fetch le d = f" and "next_link le d = Some q"
  shows "links le mem (ps @ [p, q]) (fs @ [f])"
  using assms(1)
proof (induction ps arbitrary: fs)
  case Nil
  then show ?case using assms(2-4) by (cases fs) auto
next
  case (Cons a ps)
  then obtain f' fs' where fs: "fs = f' # fs'" by (cases fs; cases ps) auto
  show ?case using Cons fs by (cases ps) auto
qed

lemma links_frame:
  assumes "links le mem ps fs" and "\<And>p. p \<in> set (butlast ps) \<Longrightarrow> mem' p = mem p"
  shows "links le mem' ps fs"
  using assms by (induction le mem ps fs rule: links.induct) auto

lemma links_walk:
  assumes "links le mem (ps @ [p]) fs" and "mem p = Some d" and "next_link le d = None"
  shows "dma_walk le mem (Suc (length fs)) (hd (ps @ [p])) = Some (fs @ [fetch le d])"
  using assms(1)
proof (induction ps arbitrary: fs)
  case Nil
  then show ?case using assms(2,3) by (cases fs) auto
next
  case (Cons a ps)
  then obtain f' fs' where fs: "fs = f' # fs'" by (cases fs; cases ps) auto
  have "links le mem (ps @ [p]) fs'" "\<exists>d. mem a = Some d \<and> fetch le d = f' \<and> next_link le d = Some (hd (ps @ [p]))"
    using Cons.prems fs by (cases ps; simp)+
  then show ?case using Cons.IH [of fs'] fs by auto
qed

text \<open>A chain being built: its last descriptor is there but not filled; and one that is complete.\<close>

definition chain_open :: "bool \<Rightarrow> dma_env \<Rightarrow> dma_fetch list \<Rightarrow> u32 \<Rightarrow> bool" where
  "chain_open le env fs p \<longleftrightarrow> (\<exists>ps. de_list env = ps @ [p]) \<and> distinct (de_list env)
     \<and> links le (de_mem env) (de_list env) fs \<and> de_mem env p \<noteq> None"

definition chain_closed :: "bool \<Rightarrow> dma_env \<Rightarrow> dma_fetch list \<Rightarrow> bool" where
  "chain_closed le env fs \<longleftrightarrow> (\<exists>ps p fs' d. de_list env = ps @ [p] \<and> distinct (de_list env) \<and> fs = fs' @ [fetch le d]
     \<and> links le (de_mem env) (de_list env) fs' \<and> de_mem env p = Some d \<and> next_link le d = None)"

lemma chain_closed_walk:
  assumes "chain_closed le env fs"
  shows "dma_walk le (de_mem env) (length fs) (hd (de_list env)) = Some fs"
  using assms links_walk unfolding chain_closed_def by fastforce

text \<open>The supply has \<open>m\<close> fresh, aligned descriptors.\<close>

definition supply_ok :: "dma_env \<Rightarrow> nat \<Rightarrow> bool" where
  "supply_ok env m \<longleftrightarrow> (\<exists>as r. de_supply env = map (\<lambda>(p, d). Alloc p d) as @ r \<and> length as = m
     \<and> distinct (de_list env @ map fst as) \<and> (\<forall>a \<in> set as. low_bits 3 (fst a) = 0))"

lemma supply_ok_mono:
  assumes "supply_ok env m" and "k \<le> m"
  shows "supply_ok env k"
proof -
  obtain as r where as: "de_supply env = map (\<lambda>(p, d). Alloc p d) as @ r" "length as = m"
    "distinct (de_list env @ map fst as)" "\<forall>a \<in> set as. low_bits 3 (fst a) = 0"
    using assms(1) by (auto simp: supply_ok_def)
  have "as = take k as @ drop k as" by simp
  then have "de_supply env = map (\<lambda>(p, d). Alloc p d) (take k as) @ (map (\<lambda>(p, d). Alloc p d) (drop k as) @ r)"
    using as(1) by (metis append.assoc map_append)
  moreover have "distinct (de_list env @ map fst (take k as))"
  proof -
    have "distinct (map fst (take k as))" using as(3) distinct_take [of "map fst as" k] by (simp add: take_map)
    then show ?thesis using as(3) set_take_subset [of k as] by auto
  qed
  moreover have "\<forall>a \<in> set (take k as). low_bits 3 (fst a) = 0" using as(4) by (auto dest: in_set_takeD)
  ultimately show ?thesis using as(2) assms(2) unfolding supply_ok_def
    by (intro exI [of _ "take k as"] exI [of _ "map (\<lambda>(p, d). Alloc p d) (drop k as) @ r"]) auto
qed

lemma hwdesc_init_supply:
  assumes "supply_ok env (Suc m)"
  obtains q d where "hwdesc_init env = (Inr q, env\<lparr>de_mem := (de_mem env)(q \<mapsto> d), de_list := de_list env @ [q],
      de_supply := tl (de_supply env)\<rparr>)"
    "low_bits 3 q = 0" "q \<notin> set (de_list env)"
    "\<And>mem. supply_ok (env\<lparr>de_mem := mem, de_list := de_list env @ [q], de_supply := tl (de_supply env)\<rparr>) m"
proof -
  obtain as r where as: "de_supply env = map (\<lambda>(p, d). Alloc p d) as @ r" "length as = Suc m"
    "distinct (de_list env @ map fst as)" "\<forall>a \<in> set as. low_bits 3 (fst a) = 0"
    using assms by (auto simp: supply_ok_def)
  then obtain q d as' where "as = (q, d) # as'" by (cases as) auto
  then show ?thesis
    using as by (intro that [of q d]) (auto simp: hwdesc_init_def supply_ok_def)
qed

lemma supply_ok_env: "de_list env' = de_list env \<Longrightarrow> de_supply env' = de_supply env \<Longrightarrow> supply_ok env' m = supply_ok env m"
  by (simp add: supply_ok_def)

section \<open>One pass of the loop\<close>

lemma unat_block:
  assumes "b < 32"
  shows "unat (tsi148_get_bsize b) = 2 ^ b" "tsi148_get_bmask (tsi148_get_bsize b) = mask b"
proof -
  have "tsi148_get_bsize b = 2 ^ b" by (simp add: tsi148_get_bsize_def push_bit_eq_mult)
  then show "tsi148_get_bmask (tsi148_get_bsize b) = mask b" by (simp add: tsi148_get_bmask_def mask_eq_exp_minus_1)
  have "(2 :: nat) ^ b < 2 ^ 32" using assms by (intro power_strict_increasing) simp_all
  then have "unat (of_nat (2 ^ b) :: u32) = 2 ^ b" unfolding unat_of_nat by simp
  then have "unat (2 ^ b :: u32) = 2 ^ b" by simp
  with \<open>tsi148_get_bsize b = 2 ^ b\<close> show "unat (tsi148_get_bsize b) = 2 ^ b" by simp
qed

lemma unat_link_len:
  assumes "b < 32" and "unat dma + n = unat dma_end" and "0 < n" and "b \<noteq> 0 \<longrightarrow> unat dma_end + 2 ^ b \<le> 2 ^ 32"
    and "b = 0 \<longrightarrow> unat len = n"
  shows "unat (link_len b vme dma dma_end len) = seg_len b (unat vme) n"
proof (cases "b = 0")
  case True
  then have "dma + len = dma_end"
    using assms(2,5) unsigned_less [of dma_end, where 'a = nat]
    by (simp add: word_unat_eq_iff unat_word_ariths)
  then show ?thesis using True assms(5) by (simp add: link_len_def seg_len_def)
next
  case False
  define l where "l = tsi148_get_bsize b - (vme AND mask b)"
  have "unat (vme AND mask b) = unat vme mod 2 ^ b"
    using unat_low_bits [of b vme] by (simp add: low_bits_def)
  moreover have "(vme AND mask b) \<le> tsi148_get_bsize b"
    unfolding word_le_nat_alt calculation unat_block(1) [OF assms(1)] by simp
  ultimately have l: "unat l = 2 ^ b - unat vme mod 2 ^ b"
    unfolding l_def using unat_block(1) [OF assms(1)] by (simp add: unat_sub)
  have "unat dma + unat l < 2 ^ 32" using assms(2-4) False l by simp
  then have sum: "unat (dma + l) = unat dma + unat l" by (simp add: unat_word_ariths)
  have diff: "unat (dma_end - dma) = n" using assms(2) by (simp add: unat_sub word_le_nat_alt)
  show ?thesis
    using False sum diff assms(2) l
    by (auto simp: link_len_def Let_def unat_block(2) [OF assms(1)] l_def [symmetric] seg_len_def word_less_nat_alt)
qed

lemma be32_zero [simp]: "be32_to_cpu le 0 = 0"
  by (simp add: be32_to_cpu_def bswap32_def)

lemma fetch_filled:
  assumes "dm_dir desc \<in> {VME_DMA_TO_DEVICE, VME_DMA_FROM_DEVICE}"
    and "snd (tsi148_fill_dma_desc le desc vme dma len sat dat t) = t'"
  shows "fetch le t' = fetch_of desc sat dat (unat vme, unat dma, unat len)" "next_link le t' = None"
    "fetch le (t'\<lparr>dnlau := u, dnlal := n\<rparr>) = fetch le t'"
  using assms
  by (auto simp: tsi148_fill_dma_desc_def fetch_def fetch_of_def Let_def reg_join_of_nat next_link_def)

lemma next_link_written:
  assumes "low_bits 3 q = 0"
  shows "next_link le (t\<lparr>dnlau := 0, dnlal := cpu_to_be32 le (q AND TSI148_LCSR_DNLAL_DNLAL_M)\<rparr>) = Some q"
proof -
  have m: "(0xfffffff8 :: u32) = NOT (mask 3)" by (simp add: mask_eq_exp_minus_1)
  have q: "q AND 0xfffffff8 = q" unfolding m using align_down_id [OF assms] by (simp add: align_down_def)
  have "q AND 1 = low_bits 1 q" by (simp add: low_bits_def mask_eq_exp_minus_1)
  also have "\<dots> = 0" using low_bits_0_le [OF assms] by simp
  finally show ?thesis by (simp add: next_link_def q)
qed

text \<open>
  The state of the loop: \<open>n\<close> bytes are left, and the addresses do not wrap.
\<close>

definition loop_ok :: "link_ctx \<Rightarrow> nat \<Rightarrow> u32 \<Rightarrow> u32 \<Rightarrow> u32 \<Rightarrow> bool" where
  "loop_ok x n vme dma len \<longleftrightarrow> dm_dir (lc_desc x) \<in> {VME_DMA_TO_DEVICE, VME_DMA_FROM_DEVICE}
     \<and> lc_bshift x < 32 \<and> unat dma + n = unat (lc_dma_end x)
     \<and> (lc_bshift x \<noteq> 0 \<longrightarrow> unat (lc_dma_end x) + 2 ^ lc_bshift x \<le> 2 ^ 32)
     \<and> (lc_bshift x = 0 \<longrightarrow> n \<noteq> 0 \<longrightarrow> unat len = n)
     \<and> (if dm_novmeinc (lc_desc x) = 0 then unat vme + n = unat (lc_vme_end x) else vme < lc_vme_end x)"

definition noinc :: "link_ctx \<Rightarrow> bool" where
  "noinc x \<longleftrightarrow> dm_novmeinc (lc_desc x) \<noteq> 0"

lemma link_pass_open:
  assumes ok: "loop_ok x n vme dma len" and n: "0 < n" and ch: "chain_open (lc_le x) env fs p"
    and sup: "supply_ok env (if lc_more x \<or> seg_len (lc_bshift x) (unat vme) n < n then Suc m else 0)"
  defines "l \<equiv> seg_len (lc_bshift x) (unat vme) n"
    and "f \<equiv> fetch_of (lc_desc x) (lc_sat x) (lc_dat x) (unat vme, unat dma, seg_len (lc_bshift x) (unat vme) n)"
  obtains vme' dma' len' nxt' env' where "link_pass x vme dma len (Some p) nxt env = Inr (vme', dma', len', nxt', env')"
    "loop_ok x (n - l) vme' dma' len'" "unat dma' = unat dma + l" "unat vme' = (if noinc x then unat vme else unat vme + l)"
    "if lc_more x \<or> l < n then (\<exists>q. nxt' = Some q \<and> chain_open (lc_le x) env' (fs @ [f]) q \<and> supply_ok env' m)
     else nxt' = nxt \<and> chain_closed (lc_le x) env' (fs @ [f])"
proof -
  let ?le = "lc_le x"
  obtain ps where ps: "de_list env = ps @ [p]" and dist: "distinct (de_list env)"
    and lk: "links ?le (de_mem env) (ps @ [p]) fs" using ch by (auto simp: chain_open_def)
  obtain t where t: "de_mem env p = Some t" using ch by (auto simp: chain_open_def)
  define len' where "len' = link_len (lc_bshift x) vme dma (lc_dma_end x) len"
  have ul: "unat len' = l"
    unfolding len'_def l_def using ok n by (intro unat_link_len) (auto simp: loop_ok_def)
  have lle: "l \<le> n" "0 < l" unfolding l_def using seg_len_le seg_len_pos n by auto
  define dma' where "dma' = dma + len'"
  define vme' where "vme' = (if dm_novmeinc (lc_desc x) = 0 then vme + len' else vme)"
  have "unat dma + l < 2 ^ 32" using ok lle unsigned_less [of "lc_dma_end x", where 'a = nat] by (simp add: loop_ok_def)
  then have ud: "unat dma' = unat dma + l" by (simp add: dma'_def unat_word_ariths ul)
  have uv: "unat vme' = (if noinc x then unat vme else unat vme + l)"
    using ok lle unsigned_less [of "lc_vme_end x", where 'a = nat]
    by (auto simp: vme'_def noinc_def unat_word_ariths ul loop_ok_def)
  have b0: "l = n" if "lc_bshift x = 0" using that by (simp add: l_def seg_len_def)
  have ok': "loop_ok x (n - l) vme' dma' len'"
    using ok ud uv lle b0 by (auto simp: loop_ok_def noinc_def vme'_def split: if_splits)
  have cont: "dma' < lc_dma_end x \<longleftrightarrow> l < n" using ok ud lle by (auto simp: word_less_nat_alt loop_ok_def)
  define t' where "t' = snd (tsi148_fill_dma_desc ?le (lc_desc x) vme dma len' (lc_sat x) (lc_dat x) t)"
  have dir: "dm_dir (lc_desc x) \<in> {VME_DMA_TO_DEVICE, VME_DMA_FROM_DEVICE}" using ok by (simp add: loop_ok_def)
  note t'f = fetch_filled [OF dir t'_def [symmetric], unfolded ul]
  have fr: "links ?le mem (ps @ [p]) fs" if "\<And>r. r \<in> set ps \<Longrightarrow> mem r = de_mem env r" for mem
    using links_frame [OF lk, of mem] that by simp
  let ?env1 = "env\<lparr>de_mem := (de_mem env)(p \<mapsto> t')\<rparr>"
  show ?thesis
  proof (cases "lc_more x \<or> l < n")
    case False
    have "link_pass x vme dma len (Some p) nxt env = Inr (vme', dma', len', nxt, ?env1)"
      using False cont t
      by (simp add: link_pass_def Let_def len'_def [symmetric] t'_def [symmetric] dma'_def [symmetric] vme'_def [symmetric])
    moreover have "links ?le ((de_mem env)(p \<mapsto> t')) (ps @ [p]) fs" using dist ps by (intro fr) auto
    then have "chain_closed ?le ?env1 (fs @ [f])"
      unfolding chain_closed_def using ps dist t'f(1,2)
      by (intro exI [of _ ps] exI [of _ p] exI [of _ fs] exI [of _ t']) (simp add: f_def l_def)
    ultimately show ?thesis using that [of vme' dma' len' nxt ?env1] ok' ud uv False by simp
  next
    case True
    then have "supply_ok ?env1 (Suc m)" using sup by (simp add: supply_ok_def l_def)
    then obtain q d where hw: "hwdesc_init ?env1 = (Inr q, ?env1\<lparr>de_mem := (de_mem ?env1)(q \<mapsto> d),
        de_list := de_list ?env1 @ [q], de_supply := tl (de_supply ?env1)\<rparr>)"
      and al: "low_bits 3 q = 0" and new: "q \<notin> set (de_list env)"
      and sup': "\<And>mem. supply_ok (?env1\<lparr>de_mem := mem, de_list := de_list ?env1 @ [q], de_supply := tl (de_supply ?env1)\<rparr>) m"
      by (rule hwdesc_init_supply) simp
    define t2 where "t2 = t'\<lparr>dnlau := 0, dnlal := cpu_to_be32 ?le (q AND TSI148_LCSR_DNLAL_DNLAL_M)\<rparr>"
    define mem2 where "mem2 = (de_mem env)(p \<mapsto> t', q \<mapsto> d, p \<mapsto> t2)"
    define env2 where "env2 = env\<lparr>de_mem := mem2, de_list := ps @ [p, q], de_supply := tl (de_supply env)\<rparr>"
    have pass: "link_pass x vme dma len (Some p) nxt env = Inr (vme', dma', len', Some q, env2)"
      using True cont t hw
      by (simp add: link_pass_def Let_def len'_def [symmetric] t'_def [symmetric] dma'_def [symmetric] vme'_def [symmetric]
          env2_def mem2_def t2_def ps)
    have "links ?le mem2 (ps @ [p]) fs" using dist ps new by (intro fr) (auto simp: mem2_def)
    moreover have "fetch ?le t2 = f" using t'f by (simp add: t2_def f_def l_def)
    moreover have "next_link ?le t2 = Some q" unfolding t2_def by (rule next_link_written [OF al])
    ultimately have "links ?le mem2 (ps @ [p, q]) (fs @ [f])"
      by (intro links_snoc [where d = t2]) (simp_all add: mem2_def)
    then have "chain_open ?le env2 (fs @ [f]) q"
      using dist ps new by (auto simp: chain_open_def env2_def mem2_def)
    moreover have "supply_ok env2 m" using sup' [of mem2] by (simp add: env2_def ps)
    ultimately show ?thesis using that [OF pass ok' ud uv] True by simp
  qed
qed

section \<open>The loop\<close>

definition loop_segments :: "link_ctx \<Rightarrow> u32 \<Rightarrow> u32 \<Rightarrow> nat \<Rightarrow> (nat \<times> nat \<times> nat) list" where
  "loop_segments x vme dma n = segments (noinc x) (lc_bshift x) (unat vme) (unat dma) n"

definition seg_fetch :: "link_ctx \<Rightarrow> nat \<times> nat \<times> nat \<Rightarrow> dma_fetch" where
  "seg_fetch x = fetch_of (lc_desc x) (lc_sat x) (lc_dat x)"

lemma segments_0 [simp]: "segments ni b v d 0 = []"
  by (simp add: segments.simps)

lemma segments_pos:
  "0 < n \<Longrightarrow> segments ni b v d n = (v, d, seg_len b v n)
     # segments ni b (if ni then v else v + seg_len b v n) (d + seg_len b v n) (n - seg_len b v n)"
  by (subst segments.simps) (simp add: Let_def)

lemma segments_nonempty: "0 < n \<Longrightarrow> segments ni b v d n \<noteq> []"
  by (simp add: segments_pos)

lemma loop_done:
  assumes "loop_ok x 0 vme dma len"
  shows "link_loop x vme dma len cur nxt env = Link_ok nxt env"
  using assms by (subst link_loop.simps) (auto simp: loop_ok_def word_less_nat_alt)

lemma loop_continues:
  assumes "loop_ok x n vme dma len" and "0 < n"
  shows "vme < lc_vme_end x \<and> dma < lc_dma_end x"
  using assms by (auto simp: loop_ok_def word_less_nat_alt split: if_splits)

lemma link_loop_chain:
  assumes "loop_ok x n vme dma len" and "0 < n" and "chain_open (lc_le x) env fs p"
    and "supply_ok env (if lc_more x then length (loop_segments x vme dma n) + m
                        else length (loop_segments x vme dma n) - 1)"
  shows "\<exists>nxt' env'. link_loop x vme dma len (Some p) nxt env = Link_ok nxt' env' \<and>
    (if lc_more x
     then (\<exists>q. nxt' = Some q \<and> chain_open (lc_le x) env' (fs @ map (seg_fetch x) (loop_segments x vme dma n)) q
              \<and> supply_ok env' m)
     else chain_closed (lc_le x) env' (fs @ map (seg_fetch x) (loop_segments x vme dma n)))"
  using assms
proof (induction n arbitrary: vme dma len env fs p nxt rule: less_induct)
  case (less n)
  define l where "l = seg_len (lc_bshift x) (unat vme) n"
  define f where "f = seg_fetch x (unat vme, unat dma, l)"
  have l: "0 < l" "l \<le> n" unfolding l_def using seg_len_pos seg_len_le less.prems(2) by auto
  define need where "need = (if lc_more x then length (segments (noinc x) (lc_bshift x)
      (if noinc x then unat vme else unat vme + l) (unat dma + l) (n - l)) + m
    else length (segments (noinc x) (lc_bshift x) (if noinc x then unat vme else unat vme + l) (unat dma + l) (n - l)) - 1)"
  have segs: "loop_segments x vme dma n = (unat vme, unat dma, l) # segments (noinc x) (lc_bshift x)
      (if noinc x then unat vme else unat vme + l) (unat dma + l) (n - l)"
    using segments_pos [OF less.prems(2)] by (simp add: loop_segments_def l_def)
  have sup: "supply_ok env (if lc_more x \<or> seg_len (lc_bshift x) (unat vme) n < n then Suc need else 0)"
  proof (cases "lc_more x \<or> l < n")
    case True
    then have "Suc need = (if lc_more x then length (loop_segments x vme dma n) + m
        else length (loop_segments x vme dma n) - 1)"
      using segments_nonempty [of "n - l"] by (auto simp: need_def segs Suc_diff_le length_greater_0_conv)
    then show ?thesis using less.prems(4) True by (simp add: l_def)
  next
    case False
    then show ?thesis using supply_ok_mono [OF less.prems(4)] by (simp add: l_def)
  qed
  obtain vme' dma' len' nxt' env' where pass: "link_pass x vme dma len (Some p) nxt env = Inr (vme', dma', len', nxt', env')"
    and ok': "loop_ok x (n - l) vme' dma' len'" and ud: "unat dma' = unat dma + l"
    and uv: "unat vme' = (if noinc x then unat vme else unat vme + l)"
    and res: "if lc_more x \<or> l < n then (\<exists>q. nxt' = Some q \<and> chain_open (lc_le x) env' (fs @ [f]) q \<and> supply_ok env' need)
      else nxt' = nxt \<and> chain_closed (lc_le x) env' (fs @ [f])"
    by (rule link_pass_open [OF less.prems(1-3) sup, where nxt = nxt]) (simp add: l_def f_def seg_fetch_def)
  have rest: "loop_segments x vme' dma' (n - l)
      = segments (noinc x) (lc_bshift x) (if noinc x then unat vme else unat vme + l) (unat dma + l) (n - l)"
    by (simp add: loop_segments_def uv ud)
  have step: "link_loop x vme dma len (Some p) nxt env = link_loop x vme' dma' len' nxt' nxt' env'"
    using loop_continues [OF less.prems(1,2)] pass by (subst link_loop.simps) simp
  show ?case
  proof (cases "l < n")
    case False
    then have "n - l = 0" using l by simp
    then have "link_loop x vme dma len (Some p) nxt env = Link_ok nxt' env'" using step loop_done ok' by simp
    then show ?thesis using res False \<open>n - l = 0\<close> by (auto simp: segs need_def f_def)
  next
    case True
    then obtain q where q: "nxt' = Some q" "chain_open (lc_le x) env' (fs @ [f]) q" "supply_ok env' need"
      using res by auto
    have "supply_ok env' (if lc_more x then length (loop_segments x vme' dma' (n - l)) + m
        else length (loop_segments x vme' dma' (n - l)) - 1)"
      using q(3) by (simp only: need_def rest)
    moreover have "n - l < n" "0 < n - l" using True l by simp_all
    moreover have "(fs @ [f]) @ map (seg_fetch x) (loop_segments x vme' dma' (n - l))
        = fs @ map (seg_fetch x) (loop_segments x vme dma n)"
      unfolding rest segs by (simp add: f_def)
    ultimately show ?thesis
      using less.IH [of "n - l" vme' dma' len' env' "fs @ [f]" q "Some q"] ok' q(2)
      unfolding step q(1) by metis
  qed
qed

section \<open>The whole chain\<close>

text \<open>
  The transfer stays clear of the top of both address spaces: no scatter/gather entry is empty
  or ends within one block of 4G, and the VME range ends below 4G.
\<close>

definition sgl_fits :: "bool \<Rightarrow> nat \<Rightarrow> nat \<Rightarrow> (u32 \<times> u32) list \<Rightarrow> bool" where
  "sgl_fits ni b v sgl \<longleftrightarrow> (\<forall>(d, n) \<in> set sgl. n \<noteq> 0 \<and> unat d + unat n + 2 ^ b \<le> 2 ^ 32 \<and> v + unat n < 2 ^ 32)
     \<and> (\<not> ni \<longrightarrow> v + (\<Sum>(d, n) \<leftarrow> sgl. unat n) < 2 ^ 32)"

definition nat_sgl :: "(u32 \<times> u32) list \<Rightarrow> (nat \<times> nat) list" where
  "nat_sgl sgl = map (\<lambda>(d, n). (unat d, unat n)) sgl"

lemma sgl_fits_Cons:
  assumes "sgl_fits ni b v ((d, n) # sgl)"
  shows "sgl_fits ni b (if ni then v else v + unat n) sgl"
proof -
  have "unat m \<le> (\<Sum>(d, n) \<leftarrow> sgl. unat n)" if "(e, m) \<in> set sgl" for e m
    using member_le_sum_list [of "unat m" "map (\<lambda>(d, n). unat n) sgl"] that by force
  then show ?thesis using assms by (fastforce simp: sgl_fits_def)
qed

lemma link_add_chain:
  assumes dir: "dm_dir desc \<in> {VME_DMA_TO_DEVICE, VME_DMA_FROM_DEVICE}" and b: "b < 32"
    and fits: "sgl_fits (dm_novmeinc desc \<noteq> 0) b (unat vme) ((dma, len) # sgl)"
    and ch: "chain_open le env fs p"
    and sup: "supply_ok env (if sgl \<noteq> [] then length (segments (dm_novmeinc desc \<noteq> 0) b (unat vme) (unat dma) (unat len)) + m
        else length (segments (dm_novmeinc desc \<noteq> 0) b (unat vme) (unat dma) (unat len)) - 1)"
  shows "\<exists>nxt' env'. tsi148_dma_link_add le desc (Some p) vme dma len (i + length ((dma, len) # sgl)) i b sat dat env
      = Link_ok nxt' env' \<and>
    (if sgl \<noteq> []
     then (\<exists>q. nxt' = Some q \<and> chain_open le env' (fs @ map (fetch_of desc sat dat)
             (segments (dm_novmeinc desc \<noteq> 0) b (unat vme) (unat dma) (unat len))) q \<and> supply_ok env' m)
     else chain_closed le env' (fs @ map (fetch_of desc sat dat)
             (segments (dm_novmeinc desc \<noteq> 0) b (unat vme) (unat dma) (unat len))))"
proof -
  define x where "x = \<lparr>lc_le = le, lc_desc = desc, lc_bshift = b, lc_sat = sat, lc_dat = dat,
    lc_more = (int i < int (i + length ((dma, len) # sgl)) - 1), lc_vme_end = vme + len, lc_dma_end = dma + len\<rparr>"
  have more: "lc_more x = (sgl \<noteq> [])" by (simp add: x_def)
  have f: "len \<noteq> 0" "unat dma + unat len + 2 ^ b \<le> 2 ^ 32" "unat vme + unat len < 2 ^ 32"
    using fits by (auto simp: sgl_fits_def)
  have pos: "0 < unat len" using f(1) by (simp add: unat_eq_0 [symmetric])
  have "0 < (2 :: nat) ^ b" by simp
  then have "unat dma + unat len < 2 ^ 32" using f(2) by linarith
  then have ends: "unat (dma + len) = unat dma + unat len" "unat (vme + len) = unat vme + unat len"
    using f(3) by (simp_all add: unat_word_ariths)
  have "loop_ok x (unat len) vme dma len"
    using dir b f ends pos by (auto simp: loop_ok_def x_def word_less_nat_alt)
  moreover have "chain_open (lc_le x) env fs p" using ch by (simp add: x_def)
  moreover have segs: "loop_segments x vme dma (unat len) = segments (dm_novmeinc desc \<noteq> 0) b (unat vme) (unat dma) (unat len)"
    by (simp add: loop_segments_def noinc_def x_def)
  moreover have "seg_fetch x = fetch_of desc sat dat" "lc_le x = le" by (simp_all add: seg_fetch_def x_def)
  moreover have "tsi148_dma_link_add le desc (Some p) vme dma len (i + length ((dma, len) # sgl)) i b sat dat env
      = link_loop x vme dma len (Some p) None env"
    by (simp add: tsi148_dma_link_add_def x_def)
  ultimately show ?thesis
    using link_loop_chain [of x "unat len" vme dma len env fs p m None] pos sup more by (simp only: if_True)
qed

lemma chain_sgl_chain:
  assumes "dm_dir desc \<in> {VME_DMA_TO_DEVICE, VME_DMA_FROM_DEVICE}" and "b < 32" and "sgl \<noteq> []"
    and "sgl_fits (dm_novmeinc desc \<noteq> 0) b (unat vme) sgl" and "chain_open le env fs p"
    and "supply_ok env (length (transfer_segments (dm_novmeinc desc \<noteq> 0) b (unat vme) (nat_sgl sgl)) - 1)"
  shows "\<exists>cur' env'. chain_sgl le desc b sat dat (i + length sgl) i sgl (Some p) vme env = Link_ok cur' env'
    \<and> chain_closed le env' (fs @ map (fetch_of desc sat dat) (transfer_segments (dm_novmeinc desc \<noteq> 0) b (unat vme) (nat_sgl sgl)))"
  using assms(3-6)
proof (induction sgl arbitrary: vme env fs p i)
  case (Cons e sgl)
  obtain dma len where e: "e = (dma, len)" by (cases e)
  let ?ni = "dm_novmeinc desc \<noteq> 0"
  let ?s1 = "segments ?ni b (unat vme) (unat dma) (unat len)"
  define vme' where "vme' = (if dm_novmeinc desc = 0 then vme + len else vme)"
  note fits = Cons.prems(2) [unfolded e]
  have uv: "unat vme' = (if ?ni then unat vme else unat vme + unat len)"
    using fits by (auto simp: vme'_def sgl_fits_def unat_word_ariths)
  let ?s2 = "transfer_segments ?ni b (unat vme') (nat_sgl sgl)"
  have ts: "transfer_segments ?ni b (unat vme) (nat_sgl (e # sgl)) = ?s1 @ ?s2"
    by (simp add: e nat_sgl_def uv)
  have ne: "?s1 \<noteq> []" using fits by (intro segments_nonempty) (auto simp: sgl_fits_def unat_eq_0 [symmetric])
  have fits': "sgl_fits ?ni b (unat vme') sgl" using sgl_fits_Cons [OF fits] by (simp add: uv)
  have ne2: "?s2 \<noteq> []" if nonempty: "sgl \<noteq> []"
  proof -
    obtain d n r where "sgl = (d, n) # r" using nonempty by (cases sgl) auto
    moreover from this have "n \<noteq> 0" using fits' by (simp add: sgl_fits_def)
    ultimately show ?thesis using segments_nonempty [of "unat n"] by (simp add: nat_sgl_def unat_eq_0 [symmetric])
  qed
  have "supply_ok env (if sgl \<noteq> [] then length ?s1 + (length ?s2 - 1) else length ?s1 - 1)"
  proof -
    have "(if sgl \<noteq> [] then length ?s1 + (length ?s2 - 1) else length ?s1 - 1) = length (?s1 @ ?s2) - 1"
    proof (cases "sgl = []")
      case False
      then obtain k where "length ?s2 = Suc k" using ne2 by (cases "length ?s2") auto
      then show ?thesis using False by simp
    qed (simp add: nat_sgl_def)
    then show ?thesis using Cons.prems(4) unfolding ts by simp
  qed
  from link_add_chain [OF assms(1,2) fits Cons.prems(3) this, of i sat dat]
  obtain nxt' env' where add: "tsi148_dma_link_add le desc (Some p) vme dma len (i + length (e # sgl)) i b sat dat env = Link_ok nxt' env'"
    and res: "if sgl \<noteq> [] then (\<exists>q. nxt' = Some q \<and> chain_open le env' (fs @ map (fetch_of desc sat dat) ?s1) q
        \<and> supply_ok env' (length ?s2 - 1)) else chain_closed le env' (fs @ map (fetch_of desc sat dat) ?s1)"
    unfolding e by auto
  show ?case
  proof (cases "sgl = []")
    case True
    then show ?thesis using add res ts by (simp add: e nat_sgl_def)
  next
    case False
    then obtain q where q: "nxt' = Some q" "chain_open le env' (fs @ map (fetch_of desc sat dat) ?s1) q"
      "supply_ok env' (length ?s2 - 1)" using res by auto
    from Cons.IH [OF False fits' q(2,3), of "Suc i"] show ?thesis
      using add q(1) ts by (auto simp: e vme'_def [symmetric])
  qed
qed simp

text \<open>The list of descriptors only grows at its end.\<close>

lemma link_pass_list:
  assumes "link_pass x vme dma len cur nxt env = Inr (vme', dma', len', nxt', env')"
  shows "prefix (de_list env) (de_list env')"
  using assms
  by (auto simp: link_pass_def hwdesc_init_def Let_def split: option.splits if_splits list.splits pool_answer.splits)

lemma link_loop_list:
  "link_loop x vme dma len cur nxt env = Link_ok nxt' env' \<Longrightarrow> prefix (de_list env) (de_list env')"
proof (induction x vme dma len cur nxt env rule: link_loop.induct)
  case (1 x vme dma len cur nxt env)
  show ?case
  proof (cases "vme < lc_vme_end x \<and> dma < lc_dma_end x")
    case True
    with "1.prems" obtain v d l n e where p: "link_pass x vme dma len cur nxt env = Inr (v, d, l, n, e)"
      and r: "link_loop x v d l n n e = Link_ok nxt' env'"
      by (subst (asm) link_loop.simps) (auto split: sum.splits simp: link_pass_def Let_def split: option.splits if_splits prod.splits)
    have "prefix (de_list e) (de_list env')" using "1.IH" [OF True p] r by blast
    then show ?thesis using link_pass_list [OF p] prefix_order.trans by blast
  next
    case False
    then show ?thesis using "1.prems" by (subst (asm) link_loop.simps) auto
  qed
qed

lemma chain_sgl_list:
  "chain_sgl le desc b sat dat n i sgl cur vme env = Link_ok cur' env' \<Longrightarrow> prefix (de_list env) (de_list env')"
proof (induction le desc b sat dat n i sgl cur vme env rule: chain_sgl.induct)
  case (2 le desc b sat dat n i dma len sgl cur vme env)
  then obtain c1 e1 where add: "tsi148_dma_link_add le desc cur vme dma len n i b sat dat env = Link_ok c1 e1"
    and rest: "chain_sgl le desc b sat dat n (Suc i) sgl c1 (if dm_novmeinc desc = 0 then vme + len else vme) e1 = Link_ok cur' env'"
    by (auto split: link_result.splits)
  have "prefix (de_list env) (de_list e1)"
    using add link_loop_list by (auto simp: tsi148_dma_link_add_def split: if_splits)
  moreover have "prefix (de_list e1) (de_list env')" using "2.IH" [OF add rest] by simp
  ultimately show ?case using prefix_order.trans by blast
qed simp

lemma links_length: "links le mem ps fs \<Longrightarrow> length ps = Suc (length fs)"
  by (induction le mem ps fs rule: links.induct) auto

lemma chain_closed_length: "chain_closed le env fs \<Longrightarrow> length (de_list env) = length fs"
  using links_length by (fastforce simp: chain_closed_def)

lemma get_bshift_lt: "tsi148_get_bshift desc < 32"
  by (simp add: tsi148_get_bshift_def tsi148_get_bshift_am_def)

definition dma_segments :: "vme_dma \<Rightarrow> u32 \<Rightarrow> (u32 \<times> u32) list \<Rightarrow> (nat \<times> nat \<times> nat) list" where
  "dma_segments desc vme sgl = transfer_segments (dm_novmeinc desc \<noteq> 0) (tsi148_get_bshift desc) (unat vme) (nat_sgl sgl)"

lemma setup_chain_walk:
  assumes "get_vmeaddr desc = Inr vme" and "take n sgl = sgl'" and "sgl' \<noteq> []" and "n = length sgl'"
    and "sgl_fits (dm_novmeinc desc \<noteq> 0) (tsi148_get_bshift desc) (unat vme) sgl'" and "de_list env = []"
    and "supply_ok env (length (dma_segments desc vme sgl'))"
  shows "\<exists>env' p. tsi148_dma_setup_chain le num desc sgl n sat dat env c
      = (Setup_ok, env', dma_write num (\<lambda>r. r\<lparr>dma_desc := (dma_desc r)\<lparr>dnlau := 0, dnlal := p\<rparr>\<rparr>) c)
    \<and> length (de_list env') = length (dma_segments desc vme sgl') \<and> distinct (de_list env')
    \<and> dma_walk le (de_mem env') (length (dma_segments desc vme sgl')) p
        = Some (map (fetch_of desc sat dat) (dma_segments desc vme sgl'))"
proof -
  let ?segs = "dma_segments desc vme sgl'"
  have dir: "dm_dir desc \<in> {VME_DMA_TO_DEVICE, VME_DMA_FROM_DEVICE}"
    using assms(1) by (auto simp: get_vmeaddr_def split: if_splits)
  have "?segs \<noteq> []"
  proof -
    obtain d m r where r: "sgl' = (d, m) # r" using assms(3) by (cases sgl') auto
    then have "0 < unat m" using assms(5) by (auto simp: sgl_fits_def unat_eq_0 [symmetric])
    then show ?thesis using r segments_nonempty by (simp add: dma_segments_def nat_sgl_def)
  qed
  then have "supply_ok env (Suc (length ?segs - 1))" using assms(7) by simp
  then obtain q d where hw: "hwdesc_init env = (Inr q, env\<lparr>de_mem := (de_mem env)(q \<mapsto> d), de_list := de_list env @ [q],
      de_supply := tl (de_supply env)\<rparr>)" and al: "low_bits 3 q = 0"
    and sup: "\<And>mem. supply_ok (env\<lparr>de_mem := mem, de_list := de_list env @ [q], de_supply := tl (de_supply env)\<rparr>) (length ?segs - 1)"
    by (rule hwdesc_init_supply) blast
  define env1 where "env1 = env\<lparr>de_mem := (de_mem env)(q \<mapsto> d), de_list := de_list env @ [q], de_supply := tl (de_supply env)\<rparr>"
  have "chain_open le env1 [] q" using assms(6) by (simp add: chain_open_def env1_def)
  moreover have "supply_ok env1 (length ?segs - 1)" using sup by (simp add: env1_def)
  ultimately obtain cur' env' where run: "chain_sgl le desc (tsi148_get_bshift desc) sat dat (0 + length sgl') 0 sgl' (Some q) vme env1 = Link_ok cur' env'"
    and cl: "chain_closed le env' ([] @ map (fetch_of desc sat dat) ?segs)"
    using chain_sgl_chain [OF dir get_bshift_lt assms(3,5), of le env1 "[]" q sat dat 0] by (auto simp: dma_segments_def)
  have hd: "hd (de_list env') = q" using chain_sgl_list [OF run] assms(6) by (auto simp: env1_def prefix_def)
  have "q AND 0xfffffff8 = q"
  proof -
    have "(0xfffffff8 :: u32) = NOT (mask 3)" by (simp add: mask_eq_exp_minus_1)
    then show ?thesis using align_down_id [OF al] by (simp add: align_down_def)
  qed
  then have "tsi148_dma_setup_chain le num desc sgl n sat dat env c
      = (Setup_ok, env', dma_write num (\<lambda>r. r\<lparr>dma_desc := (dma_desc r)\<lparr>dnlau := 0, dnlal := q\<rparr>\<rparr>) c)"
    using run assms(2) by (simp add: tsi148_dma_setup_chain_def hw assms(1,4) env1_def [symmetric])
  moreover have "length (de_list env') = length ?segs \<and> distinct (de_list env')"
    using chain_closed_length [OF cl] cl by (auto simp: chain_closed_def)
  ultimately show ?thesis
    using chain_closed_walk [OF cl] hd by auto
qed

section \<open>The bytes a transfer moves\<close>

text \<open>Pairs of VME and bus address, byte by byte.\<close>

definition seg_bytes :: "(nat \<times> nat \<times> nat) list \<Rightarrow> (nat \<times> nat) list" where
  "seg_bytes segs = concat (map (\<lambda>(v, d, l). map (\<lambda>k. (v + k, d + k)) [0..<l]) segs)"

fun sgl_bytes :: "nat \<Rightarrow> (nat \<times> nat) list \<Rightarrow> (nat \<times> nat) list" where
  "sgl_bytes v [] = []"
| "sgl_bytes v ((d, n) # sgl) = map (\<lambda>k. (v + k, d + k)) [0..<n] @ sgl_bytes (v + n) sgl"

lemma seg_bytes_simps [simp]:
  "seg_bytes [] = []" "seg_bytes ((v, d, l) # segs) = map (\<lambda>k. (v + k, d + k)) [0..<l] @ seg_bytes segs"
  "seg_bytes (s1 @ s2) = seg_bytes s1 @ seg_bytes s2"
  by (simp_all add: seg_bytes_def)

lemma seg_bytes_segments: "seg_bytes (segments False b v d n) = map (\<lambda>k. (v + k, d + k)) [0..<n]"
proof (induction n arbitrary: v d rule: less_induct)
  case (less n)
  show ?case
  proof (cases "n = 0")
    case False
    define l where "l = seg_len b v n"
    have l: "0 < l" "l \<le> n" using seg_len_pos seg_len_le False by (auto simp: l_def)
    have "[0..<n] = [0..<l] @ map (\<lambda>k. k + l) [0..<n - l]"
      using l(2) upt_add_eq_append [of 0 l "n - l"] map_add_upt [of l "n - l"] by simp
    then have "map (\<lambda>k. (v + k, d + k)) [0..<n] = map (\<lambda>k. (v + k, d + k)) [0..<l]
        @ map (\<lambda>k. (v + l + k, d + l + k)) [0..<n - l]"
      by (simp add: add.assoc add.commute [of l])
    moreover have "segments False b v d n = (v, d, l) # segments False b (v + l) (d + l) (n - l)"
      using segments_pos [of n False b v d] False by (simp add: l_def)
    ultimately show ?thesis using less [of "n - l" "v + l" "d + l"] l False by simp
  qed simp
qed

lemma seg_bytes_transfer: "seg_bytes (transfer_segments False b v sgl) = sgl_bytes v sgl"
  by (induction v sgl rule: sgl_bytes.induct) (simp_all add: seg_bytes_segments)

lemma transfer_segments_in_block:
  assumes "b \<noteq> 0" and "(x, d, l) \<in> set (transfer_segments ni b v sgl)"
  shows "0 < l \<and> (x + l - 1) div 2 ^ b = x div 2 ^ b"
  using assms
proof (induction ni b v sgl rule: transfer_segments.induct)
  case (2 ni b v d' n sgl)
  then show ?case using segments_in_block [OF "2.prems"(1)] by auto
qed simp

text \<open>The bytes a descriptor moves, as pairs of a source and a destination address, and the range of addresses of a segment.\<close>

definition fetch_bytes :: "dma_fetch \<Rightarrow> (nat \<times> nat) list" where
  "fetch_bytes f = map (\<lambda>k. (unat (f_src f) + k, unat (f_dst f) + k)) [0..<unat (f_count f)]"

definition fetch_vme :: "vme_dma \<Rightarrow> dma_fetch \<Rightarrow> nat" where
  "fetch_vme desc f = unat (if dm_dir desc = VME_DMA_TO_DEVICE then f_dst f else f_src f)"

lemma segments_bounds:
  "(x, e, l) \<in> set (segments ni b v d n) \<Longrightarrow> x + l \<le> v + n \<and> e + l \<le> d + n"
proof (induction ni b v d n rule: segments.induct)
  case (1 ni b v d n)
  show ?case
  proof (cases "n = 0")
    case False
    then have "(x, e, l) = (v, d, seg_len b v n) \<or> (x, e, l) \<in> set (segments ni b (if ni then v else v + seg_len b v n)
        (d + seg_len b v n) (n - seg_len b v n))"
      using "1.prems" by (simp add: segments_pos)
    then show ?thesis
      using "1.IH" [OF False refl] seg_len_le [of b v n] by (auto split: if_splits)
  qed (use "1.prems" in simp)
qed

lemma transfer_segments_bounds:
  assumes "sgl_fits ni b v sgl" and "(x, e, l) \<in> set (transfer_segments ni b v (nat_sgl sgl))"
  shows "x + l < 2 ^ 32 \<and> e + l < 2 ^ 32"
  using assms
proof (induction sgl arbitrary: v)
  case (Cons a sgl)
  obtain d n where a: "a = (d, n)" by (cases a)
  have fit: "unat d + unat n + 2 ^ b \<le> 2 ^ 32" "v + unat n < 2 ^ 32" "(0 :: nat) < 2 ^ b" using Cons.prems(1) by (simp_all add: a sgl_fits_def)
  have "(x, e, l) \<in> set (segments ni b v (unat d) (unat n))
      \<or> (x, e, l) \<in> set (transfer_segments ni b (if ni then v else v + unat n) (nat_sgl sgl))"
    using Cons.prems(2) by (simp add: a nat_sgl_def)
  then show ?case
    using Cons.IH [OF sgl_fits_Cons [OF Cons.prems(1) [unfolded a]]] segments_bounds [of x e l ni b v "unat d" "unat n"] fit by linarith
qed (simp add: nat_sgl_def)

lemma fetch_of_range:
  assumes "v + l < 2 ^ 32" and "d + l < 2 ^ 32" and "dm_dir desc \<in> {VME_DMA_TO_DEVICE, VME_DMA_FROM_DEVICE}"
  shows "fetch_vme desc (fetch_of desc sat dat (v, d, l)) = v" "unat (f_count (fetch_of desc sat dat (v, d, l))) = l"
    "fetch_bytes (fetch_of desc sat dat (v, d, l))
       = map (if dm_dir desc = VME_DMA_TO_DEVICE then prod.swap else id) (map (\<lambda>k. (v + k, d + k)) [0..<l])"
proof -
  have u: "unat (of_nat v :: u64) = v" "unat (of_nat d :: u64) = d" "unat (of_nat l :: u32) = l"
    using assms(1,2) by (simp_all add: unat_of_nat take_bit_nat_eq_self)
  then show "fetch_vme desc (fetch_of desc sat dat (v, d, l)) = v" "unat (f_count (fetch_of desc sat dat (v, d, l))) = l"
    "fetch_bytes (fetch_of desc sat dat (v, d, l))
       = map (if dm_dir desc = VME_DMA_TO_DEVICE then prod.swap else id) (map (\<lambda>k. (v + k, d + k)) [0..<l])"
    by (simp_all add: fetch_of_def fetch_vme_def fetch_bytes_def)
qed

lemma fetched_bytes:
  assumes "dm_dir desc \<in> {VME_DMA_TO_DEVICE, VME_DMA_FROM_DEVICE}"
    and "\<And>x e l. (x, e, l) \<in> set segs \<Longrightarrow> x + l < 2 ^ 32 \<and> e + l < 2 ^ 32"
  shows "concat (map fetch_bytes (map (fetch_of desc sat dat) segs))
    = map (if dm_dir desc = VME_DMA_TO_DEVICE then prod.swap else id) (seg_bytes segs)"
  using assms(2)
proof (induction segs)
  case (Cons g segs)
  obtain x e l where g: "g = (x, e, l)" by (cases g)
  have "x + l < 2 ^ 32" "e + l < 2 ^ 32" using Cons.prems [of x e l] g by simp_all
  note head = fetch_of_range(3) [OF this assms(1), of sat dat]
  have "concat (map fetch_bytes (map (fetch_of desc sat dat) segs))
      = map (if dm_dir desc = VME_DMA_TO_DEVICE then prod.swap else id) (seg_bytes segs)"
    using Cons.prems by (intro Cons.IH) (meson list.set_intros(2))
  then show ?case using head by (simp add: g seg_bytes_def)
qed (simp add: seg_bytes_def)

section \<open>Failures\<close>

text \<open>Beyond a set \<open>D\<close> of addresses, only descriptors of the list are allocated.\<close>

definition owned :: "u32 set \<Rightarrow> dma_env \<Rightarrow> bool" where
  "owned D env \<longleftrightarrow> dom (de_mem env) \<subseteq> D \<union> set (de_list env)"

lemma owned_hwdesc_init: "owned D env \<Longrightarrow> owned D (snd (hwdesc_init env))"
  by (auto simp: owned_def hwdesc_init_def split: list.splits pool_answer.splits)

lemma owned_link_pass:
  assumes "owned D env"
  shows "case link_pass x vme dma len cur nxt env of Inl (Link_err e env') \<Rightarrow> owned D env'
    | Inr (v, d, l, n, env') \<Rightarrow> owned D env' | _ \<Rightarrow> True"
  using assms
  by (auto simp: link_pass_def Let_def hwdesc_init_def owned_def dom_def
      split: option.splits list.splits pool_answer.splits if_splits)

definition result_owned :: "u32 set \<Rightarrow> link_result \<Rightarrow> bool" where
  "result_owned D r = (case r of Link_ok n env \<Rightarrow> owned D env | Link_err e env \<Rightarrow> owned D env | Link_bug \<Rightarrow> True)"

lemma link_pass_Inl: "link_pass x vme dma len cur nxt env = Inl r \<Longrightarrow> r = Link_bug \<or> (\<exists>e env'. r = Link_err e env')"
  by (auto simp: link_pass_def Let_def split: option.splits if_splits prod.splits sum.splits)

lemma owned_link_loop: "owned D env \<Longrightarrow> result_owned D (link_loop x vme dma len cur nxt env)"
proof (induction x vme dma len cur nxt env rule: link_loop.induct)
  case (1 x vme dma len cur nxt env)
  show ?case
  proof (cases "vme < lc_vme_end x \<and> dma < lc_dma_end x")
    case True
    show ?thesis
    proof (cases "link_pass x vme dma len cur nxt env")
      case (Inl r)
      then show ?thesis
        using True link_pass_Inl [OF Inl] owned_link_pass [OF "1.prems", of x vme dma len cur nxt]
        by (subst link_loop.simps) (auto simp: result_owned_def)
    next
      case (Inr st)
      obtain v d l n env' where st: "st = (v, d, l, n, env')" by (cases st)
      have "owned D env'" using owned_link_pass [OF "1.prems", of x vme dma len cur nxt] Inr st by simp
      then show ?thesis using "1.IH" [OF True Inr [unfolded st]] True Inr st
        by (subst link_loop.simps) auto
    qed
  next
    case False
    then show ?thesis using "1.prems" by (subst link_loop.simps) (auto simp: result_owned_def)
  qed
qed

lemma owned_chain_sgl: "owned D env \<Longrightarrow> result_owned D (chain_sgl le desc b sat dat n i sgl cur vme env)"
proof (induction le desc b sat dat n i sgl cur vme env rule: chain_sgl.induct)
  case (2 le desc b sat dat n i dma len sgl cur vme env)
  have "result_owned D (tsi148_dma_link_add le desc cur vme dma len n i b sat dat env)"
    using owned_link_loop [OF "2.prems"] by (simp add: tsi148_dma_link_add_def result_owned_def)
  then show ?case using "2.IH" by (auto simp: result_owned_def split: link_result.splits)
qed (simp add: result_owned_def)

lemma free_walk_dom: "dom (free_walk ps mem) = dom mem - set ps"
  by (induction ps arbitrary: mem) auto

lemma owned_free_chain: "owned D env \<Longrightarrow> dom (de_mem (tsi148_dma_free_chain env)) \<subseteq> D"
  by (auto simp: owned_def tsi148_dma_free_chain_def free_walk_dom)

text \<open>The set-up, for the properties that rest on the walk of its chain.\<close>

lemma setup_walk:
  assumes "tsi148_dma_setup_src (ch_desc chan) = Inr sat" and "tsi148_dma_setup_dst (ch_desc chan) = Inr dat"
    and "tsi148_dma_setup_ctl (ch_desc chan) = Inr ctl" and "get_vmeaddr (ch_desc chan) = Inr vme"
    and "ch_sg_mapped chan = length (ch_sgl chan)" and "ch_sgl chan \<noteq> []" and "ch_num chan < 2" and "wf_lcsr c"
    and "sgl_fits (dm_novmeinc (ch_desc chan) \<noteq> 0) (tsi148_get_bshift (ch_desc chan)) (unat vme) (ch_sgl chan)"
    and "de_list env = []" and "supply_ok env (length (dma_segments (ch_desc chan) vme (ch_sgl chan)))"
  defines "segs \<equiv> dma_segments (ch_desc chan) vme (ch_sgl chan)"
  shows "\<exists>env' c'. tsi148_dma_setup le chan env c = (Setup_ok, chan\<lparr>ch_chained := True\<rparr>, env', c')
    \<and> dma_walk le (de_mem env') (length segs) (dnlal (dma_desc (dma_regs c' ! ch_num chan)))
        = Some (map (fetch_of (ch_desc chan) sat dat) segs)
    \<and> dctl (dma_regs c' ! ch_num chan) = ctl AND NOT TSI148_LCSR_DCTL_MOD
    \<and> length (de_list env') = length segs \<and> distinct (de_list env')"
proof -
  let ?c1 = "dma_write (ch_num chan) (\<lambda>r. r\<lparr>dctl := ctl AND NOT TSI148_LCSR_DCTL_MOD\<rparr>) c"
  have take: "take (ch_sg_mapped chan) (ch_sgl chan) = ch_sgl chan" using assms(5) by simp
  from setup_chain_walk [OF assms(4) take assms(6,5,9-11), of le "ch_num chan" sat dat ?c1]
  obtain env' p where run: "tsi148_dma_setup_chain le (ch_num chan) (ch_desc chan) (ch_sgl chan) (ch_sg_mapped chan) sat dat env ?c1
      = (Setup_ok, env', dma_write (ch_num chan) (\<lambda>r. r\<lparr>dma_desc := (dma_desc r)\<lparr>dnlau := 0, dnlal := p\<rparr>\<rparr>) ?c1)"
    and res: "length (de_list env') = length segs" "distinct (de_list env')"
      "dma_walk le (de_mem env') (length segs) p = Some (map (fetch_of (ch_desc chan) sat dat) segs)"
    unfolding segs_def by blast
  have "ch_num chan < length (dma_regs c)" using assms(7,8) by (simp add: wf_lcsr_def)
  then show ?thesis
    using assms(1-3) run res by (simp add: tsi148_dma_setup_def chip_simps)
qed

lemma dir_of_vmeaddr: "get_vmeaddr desc = Inr vme \<Longrightarrow> dm_dir desc \<in> {VME_DMA_TO_DEVICE, VME_DMA_FROM_DEVICE}"
  by (auto simp: get_vmeaddr_def split: if_splits)

section \<open>Properties\<close>

text \<open>
  C2: a transfer that can be set up is set up right. When the attribute and control words are valid,
  the pool does not run out and no address wraps, \<open>tsi148_dma_setup\<close> succeeds, and the chip,
  walking from the address it finds in its next-link register, fetches exactly the segments of the
  transfer in order, each with its source, destination, count and attributes, up to the link
  marked as the last; the control register holds the control word in linked-list mode.
\<close>

theorem dma_setup_chain_is_the_transfer:
  assumes "tsi148_dma_setup_src (ch_desc chan) = Inr sat" and "tsi148_dma_setup_dst (ch_desc chan) = Inr dat"
    and "tsi148_dma_setup_ctl (ch_desc chan) = Inr ctl" and "get_vmeaddr (ch_desc chan) = Inr vme"
    and "ch_sg_mapped chan = length (ch_sgl chan)" and "ch_sgl chan \<noteq> []" and "ch_num chan < 2" and "wf_lcsr c"
    and "sgl_fits (dm_novmeinc (ch_desc chan) \<noteq> 0) (tsi148_get_bshift (ch_desc chan)) (unat vme) (ch_sgl chan)"
    and "de_list env = []" and "supply_ok env (length (dma_segments (ch_desc chan) vme (ch_sgl chan)))"
  defines "segs \<equiv> dma_segments (ch_desc chan) vme (ch_sgl chan)"
  shows "\<exists>env' c'. tsi148_dma_setup le chan env c = (Setup_ok, chan\<lparr>ch_chained := True\<rparr>, env', c')
    \<and> dma_walk le (de_mem env') (length segs) (dnlal (dma_desc (dma_regs c' ! ch_num chan)))
        = Some (map (fetch_of (ch_desc chan) sat dat) segs)
    \<and> dctl (dma_regs c' ! ch_num chan) = ctl AND NOT TSI148_LCSR_DCTL_MOD
    \<and> length (de_list env') = length segs \<and> distinct (de_list env')"
  unfolding segs_def by (rule setup_walk [OF assms(1-11)])

text \<open>
  C32: a transfer that is set up moves every byte of the buffer, once, in order, between its bus address and its
  VME address. When the attribute and control words are valid, the VME address increments, no entry of the scatter/gather list is empty, the pool does not run out and no address comes within a block
  of 4G, \<open>tsi148_dma_setup\<close> succeeds, and the descriptors the chip fetches from the address in its next-link register up to the last link move,
  byte by byte, what the scatter/gather list asks for: from the buffer to consecutive VME addresses, or back.
\<close>

theorem dma_setup_moves_every_byte:
  assumes "tsi148_dma_setup_src (ch_desc chan) = Inr sat" and "tsi148_dma_setup_dst (ch_desc chan) = Inr dat"
    and "tsi148_dma_setup_ctl (ch_desc chan) = Inr ctl" and "get_vmeaddr (ch_desc chan) = Inr vme"
    and "ch_sg_mapped chan = length (ch_sgl chan)" and "ch_sgl chan \<noteq> []" and "ch_num chan < 2" and "wf_lcsr c"
    and "sgl_fits (dm_novmeinc (ch_desc chan) \<noteq> 0) (tsi148_get_bshift (ch_desc chan)) (unat vme) (ch_sgl chan)"
    and "de_list env = []" and "supply_ok env (length (dma_segments (ch_desc chan) vme (ch_sgl chan)))"
    and "dm_novmeinc (ch_desc chan) = 0"
  shows "\<exists>env' c' fuel fs. tsi148_dma_setup le chan env c = (Setup_ok, chan\<lparr>ch_chained := True\<rparr>, env', c')
    \<and> dma_walk le (de_mem env') fuel (dnlal (dma_desc (dma_regs c' ! ch_num chan))) = Some fs
    \<and> concat (map fetch_bytes fs) = map (if dm_dir (ch_desc chan) = VME_DMA_TO_DEVICE then prod.swap else id)
        (sgl_bytes (unat vme) (nat_sgl (ch_sgl chan)))"
proof -
  let ?segs = "dma_segments (ch_desc chan) vme (ch_sgl chan)"
  have "concat (map fetch_bytes (map (fetch_of (ch_desc chan) sat dat) ?segs))
      = map (if dm_dir (ch_desc chan) = VME_DMA_TO_DEVICE then prod.swap else id) (seg_bytes ?segs)"
    using transfer_segments_bounds [OF assms(9)] by (intro fetched_bytes dir_of_vmeaddr [OF assms(4)]) (auto simp: dma_segments_def)
  moreover have "seg_bytes ?segs = sgl_bytes (unat vme) (nat_sgl (ch_sgl chan))"
    using assms(12) by (simp add: dma_segments_def seg_bytes_transfer)
  ultimately show ?thesis using setup_walk [OF assms(1-11), of le] by metis
qed

text \<open>
  C36: no descriptor makes the bridge cross a block boundary the VME64 standard forbids to cross:
  256 bytes for block transfers, 2048 bytes for multiplexed block transfers. When the attribute and control words are valid, no entry of the scatter/gather list is empty, the pool does not run out and
  no address comes within a block of 4G, \<open>tsi148_dma_setup\<close> succeeds, and each descriptor the chip fetches of its chain has a count above zero and
  a VME range inside one such block.
\<close>

theorem dma_descriptors_respect_blocks:
  assumes "tsi148_dma_setup_src (ch_desc chan) = Inr sat" and "tsi148_dma_setup_dst (ch_desc chan) = Inr dat"
    and "tsi148_dma_setup_ctl (ch_desc chan) = Inr ctl" and "get_vmeaddr (ch_desc chan) = Inr vme"
    and "ch_sg_mapped chan = length (ch_sgl chan)" and "ch_sgl chan \<noteq> []" and "ch_num chan < 2" and "wf_lcsr c"
    and "sgl_fits (dm_novmeinc (ch_desc chan) \<noteq> 0) (tsi148_get_bshift (ch_desc chan)) (unat vme) (ch_sgl chan)"
    and "de_list env = []" and "supply_ok env (length (dma_segments (ch_desc chan) vme (ch_sgl chan)))"
    and "am = (if dm_dir (ch_desc chan) = VME_DMA_FROM_DEVICE then da_am (dm_src (ch_desc chan)) else da_am (dm_dst (ch_desc chan)))"
  shows "\<exists>env' c' fuel fs. tsi148_dma_setup le chan env c = (Setup_ok, chan\<lparr>ch_chained := True\<rparr>, env', c')
    \<and> dma_walk le (de_mem env') fuel (dnlal (dma_desc (dma_regs c' ! ch_num chan))) = Some fs
    \<and> (\<forall>f \<in> set fs. let v = fetch_vme (ch_desc chan) f; l = unat (f_count f) in
        (am \<in> {VME_A64_BLT, VME_A32_USER_BLT, VME_A32_SUP_BLT, VME_A40_BLT, VME_A24_USER_BLT, VME_A24_SUP_BLT}
          \<longrightarrow> 0 < l \<and> v div 256 = (v + l - 1) div 256)
      \<and> (am \<in> {VME_A64_MBLT, VME_A32_USER_MBLT, VME_A32_SUP_MBLT, VME_A24_USER_MBLT, VME_A24_SUP_MBLT}
          \<longrightarrow> 0 < l \<and> v div 2048 = (v + l - 1) div 2048))"
proof -
  let ?segs = "dma_segments (ch_desc chan) vme (ch_sgl chan)" and ?b = "tsi148_get_bshift_am am"
  have b: "tsi148_get_bshift (ch_desc chan) = ?b" using assms(12) by (simp add: tsi148_get_bshift_def)
  have block: "0 < unat (f_count f) \<and> (fetch_vme (ch_desc chan) f + unat (f_count f) - 1) div 2 ^ ?b = fetch_vme (ch_desc chan) f div 2 ^ ?b"
    if fetched: "f \<in> set (map (fetch_of (ch_desc chan) sat dat) ?segs)" and cut: "?b \<noteq> 0" for f
  proof -
    obtain x e l where g: "(x, e, l) \<in> set ?segs" and f: "f = fetch_of (ch_desc chan) sat dat (x, e, l)" using fetched by auto
    have "x + l < 2 ^ 32" "e + l < 2 ^ 32" using transfer_segments_bounds [OF assms(9)] g by (auto simp: dma_segments_def)
    note r = fetch_of_range(1,2) [OF this dir_of_vmeaddr [OF assms(4)], of sat dat]
    have "0 < l \<and> (x + l - 1) div 2 ^ ?b = x div 2 ^ ?b"
      using transfer_segments_in_block [OF cut] g unfolding dma_segments_def b by blast
    then show ?thesis by (simp add: f r)
  qed
  obtain env' c' where run: "tsi148_dma_setup le chan env c = (Setup_ok, chan\<lparr>ch_chained := True\<rparr>, env', c')"
    "dma_walk le (de_mem env') (length ?segs) (dnlal (dma_desc (dma_regs c' ! ch_num chan))) = Some (map (fetch_of (ch_desc chan) sat dat) ?segs)"
    using setup_walk [OF assms(1-11), of le] by blast
  have shifts: "am \<in> {VME_A64_BLT, VME_A32_USER_BLT, VME_A32_SUP_BLT, VME_A40_BLT, VME_A24_USER_BLT, VME_A24_SUP_BLT} \<Longrightarrow> ?b = 8"
    "am \<in> {VME_A64_MBLT, VME_A32_USER_MBLT, VME_A32_SUP_MBLT, VME_A24_USER_MBLT, VME_A24_SUP_MBLT} \<Longrightarrow> ?b = 11"
    by (auto simp: tsi148_get_bshift_am_def)
  show ?thesis
    by (rule exI [of _ env'], rule exI [of _ c'], rule exI [of _ "length ?segs"], rule exI [of _ "map (fetch_of (ch_desc chan) sat dat) ?segs"],
        unfold Let_def, intro conjI run ballI impI; (frule block; simp only: shifts; simp)?)
qed

text \<open>
  A set-up that fails gives every descriptor back: the list of the channel is empty again and no
  descriptor is allocated that was not before.
\<close>

lemma dma_setup_failure_leaks_nothing:
  assumes "tsi148_dma_setup le chan env c = (Setup_err e, chan', env', c')" and "de_list env = []"
  shows "de_list env' = [] \<and> dom (de_mem env') \<subseteq> dom (de_mem env)"
proof -
  let ?D = "dom (de_mem env)"
  have own: "owned ?D env" by (simp add: owned_def)
  have chain: "de_list e2 = [] \<and> dom (de_mem e2) \<subseteq> ?D"
    if run: "tsi148_dma_setup_chain le num desc sgl n sat dat env c1 = (Setup_err e, e2, c2)" for num desc sgl n sat dat c1 e2 c2
  proof (cases "fst (hwdesc_init env)")
    case (Inl e')
    then show ?thesis
      using run assms(2) by (auto simp: tsi148_dma_setup_chain_def hwdesc_init_def split: list.splits pool_answer.splits)
  next
    case (Inr p)
    define env1 where "env1 = snd (hwdesc_init env)"
    have hw: "hwdesc_init env = (Inr p, env1)" using Inr by (simp add: env1_def prod_eq_iff)
    have own1: "owned ?D env1" unfolding env1_def by (rule owned_hwdesc_init [OF own])
    have "\<exists>ex. e2 = tsi148_dma_free_chain ex \<and> owned ?D ex"
    proof (cases "get_vmeaddr desc")
      case (Inl e')
      then show ?thesis using run own1 by (auto simp: tsi148_dma_setup_chain_def hw)
    next
      case (Inr v)
      then show ?thesis
        using run owned_chain_sgl [OF own1, of le desc "tsi148_get_bshift desc" sat dat n 0 "take n sgl" "Some p" v]
        by (auto simp: tsi148_dma_setup_chain_def hw result_owned_def split: link_result.splits)
    qed
    then obtain ex where ex: "e2 = tsi148_dma_free_chain ex" "owned ?D ex" by blast
    have "de_list (tsi148_dma_free_chain ex) = []" by (simp add: tsi148_dma_free_chain_def)
    then show ?thesis using owned_free_chain [OF ex(2)] ex(1) by simp
  qed
  show ?thesis
    using assms chain own
    by (auto simp: tsi148_dma_setup_def Let_def owned_def split: sum.splits prod.splits)
qed

text \<open>
  A VME range that ends exactly at 4G is not set up at all: the loop is not entered, the
  set-up reports success, and the chip is pointed at a descriptor that holds whatever the
  pool memory held before.
\<close>

lemma dma_chain_left_unfilled_at_4G:
  assumes "unat vme + unat n = 2 ^ 32" and "get_vmeaddr desc = Inr vme" and "de_supply env = Alloc p garbage # r"
    and "low_bits 3 p = 0"
  shows "\<exists>env' c'. tsi148_dma_setup_chain le num desc [(d, n)] 1 sat dat env c = (Setup_ok, env', c')
    \<and> de_mem env' p = Some garbage"
proof -
  have "vme + n = 0" using assms(1) by (simp add: word_unat_eq_iff unat_word_ariths)
  then show ?thesis
    using assms(2,3)
    by (simp add: tsi148_dma_setup_chain_def hwdesc_init_def tsi148_dma_link_add_def link_loop.simps)
qed

text \<open>
  A VME range that wraps around at 4G in an entry that is not the last stops the kernel: the
  pointer to the current descriptor becomes null, and the next entry runs into \<open>BUG_ON\<close>.
\<close>

lemma dma_chain_wrap_hits_bug_on:
  assumes "2 ^ 32 \<le> unat vme + unat n" and "get_vmeaddr desc = Inr vme" and "de_supply env = Alloc p d0 # r"
  shows "fst (tsi148_dma_setup_chain le num desc ((d, n) # e # sgl) (length sgl + 2) sat dat env c) = Setup_bug"
proof -
  have "unat vme + unat n - 2 ^ 32 < 2 ^ 32"
    using unsigned_less [of vme, where 'a = nat] unsigned_less [of n, where 'a = nat] by simp
  then have "unat (vme + n) = unat vme + unat n - 2 ^ 32"
    using assms(1) by (simp add: unat_word_ariths le_mod_geq)
  then have "\<not> vme < vme + n"
    using assms(1) unsigned_less [of n, where 'a = nat] by (simp add: word_less_nat_alt)
  then show ?thesis
    using assms(2,3) by (cases e)
      (simp add: tsi148_dma_setup_chain_def hwdesc_init_def tsi148_dma_link_add_def link_loop.simps)
qed

section \<open>Witnesses\<close>

text \<open>A block transfer of 0x180 bytes from VME to two pages, cut at 256-byte boundaries.\<close>

definition demo_dma_attr :: "u32 \<Rightarrow> vme_dma_attr" where
  "demo_dma_attr a = \<lparr>da_data_width = VME_D32, da_am = VME_A32_USER_BLT, da_v2esst_mode = 0, da_bcast_select = 0,
     da_addru = 0, da_addrl = a\<rparr>"

definition demo_dma :: vme_dma where
  "demo_dma = \<lparr>dm_status = 0, dm_length = 0x180, dm_novmeinc = 0, dm_dir = VME_DMA_FROM_DEVICE,
     dm_src = demo_dma_attr 0x10000080, dm_dst = demo_dma_attr 0x1f80,
     dm_ctrl = \<lparr>dc_vme_block_size = 7, dc_vme_backoff_time = 0, dc_pci_block_size = 7, dc_pci_backoff_time = 0\<rparr>\<rparr>"

definition demo_sgl :: "(u32 \<times> u32) list" where
  "demo_sgl = [(0x1f80, 0x80), (0x5000, 0x100)]"

definition demo_chan :: dma_channel where
  "demo_chan = \<lparr>ch_busy = True, ch_num = 1, ch_desc = demo_dma, ch_chained = False, ch_sgl = demo_sgl,
     ch_sg_pages = 2, ch_sg_mapped = 2, ch_hw_desc_list = []\<rparr>"

definition demo_env :: dma_env where
  "demo_env = \<lparr>de_mem = (\<lambda>_. None), de_list = [],
     de_supply = [Alloc 0x9000 zero_desc, Alloc 0x9040 zero_desc, Alloc 0x9080 zero_desc]\<rparr>"

lemma demo_bshift: "tsi148_get_bshift demo_dma = 8"
  by (simp add: tsi148_get_bshift_def tsi148_get_bshift_am_def demo_dma_def demo_dma_attr_def)

lemma demo_segments: "dma_segments demo_dma 0x10000080 demo_sgl = [(0x10000080, 0x1f80, 0x80), (0x10000100, 0x5000, 0x100)]"
  unfolding dma_segments_def demo_bshift
  by (simp add: demo_sgl_def nat_sgl_def segments_pos seg_len_def demo_dma_def)

lemma demo_supply: "supply_ok demo_env 2"
  unfolding supply_ok_def
  by (rule exI [of _ "[(0x9000, zero_desc), (0x9040, zero_desc)]"], rule exI [of _ "[Alloc 0x9080 zero_desc]"])
    (simp add: demo_env_def low_bits_def mask_eq_exp_minus_1)

lemma demo_words:
  "tsi148_dma_setup_src (ch_desc demo_chan) = Inr 0x10000142" "tsi148_dma_setup_dst (ch_desc demo_chan) = Inr 0"
  "tsi148_dma_setup_ctl (ch_desc demo_chan) = Inr 0x7070" "get_vmeaddr (ch_desc demo_chan) = Inr 0x10000080"
  by code_simp+

lemma demo_chan_fields:
  "ch_desc demo_chan = demo_dma" "ch_sg_mapped demo_chan = length (ch_sgl demo_chan)" "ch_sgl demo_chan \<noteq> []" "ch_num demo_chan < 2"
  "wf_lcsr zero_lcsr" "ch_sgl demo_chan = demo_sgl" "de_list demo_env = []"
  by (simp_all add: demo_chan_def demo_sgl_def demo_env_def)

lemma demo_fits:
  "sgl_fits (dm_novmeinc (ch_desc demo_chan) \<noteq> 0) (tsi148_get_bshift (ch_desc demo_chan)) (unat (0x10000080 :: u32)) (ch_sgl demo_chan)"
  "supply_ok demo_env (length (dma_segments (ch_desc demo_chan) 0x10000080 (ch_sgl demo_chan)))"
proof -
  show "sgl_fits (dm_novmeinc (ch_desc demo_chan) \<noteq> 0) (tsi148_get_bshift (ch_desc demo_chan)) (unat (0x10000080 :: u32)) (ch_sgl demo_chan)"
    unfolding demo_chan_fields demo_bshift by (simp add: sgl_fits_def demo_sgl_def demo_dma_def)
  show "supply_ok demo_env (length (dma_segments (ch_desc demo_chan) 0x10000080 (ch_sgl demo_chan)))"
    using demo_supply by (simp add: demo_chan_fields demo_segments numeral_2_eq_2)
qed

lemmas demo_set_up = demo_words demo_chan_fields(2-5) demo_fits(1) demo_chan_fields(7) demo_fits(2)

theorem dma_setup_chain_is_the_transfer_witness:
  "\<exists>env' c'. tsi148_dma_setup True demo_chan demo_env zero_lcsr = (Setup_ok, demo_chan\<lparr>ch_chained := True\<rparr>, env', c')
    \<and> length (de_list env') = 2"
  using dma_setup_chain_is_the_transfer [OF demo_set_up, of True] by (auto simp: demo_chan_fields demo_segments)

theorem dma_setup_moves_every_byte_witness:
  "\<exists>env' c' fuel fs. tsi148_dma_setup True demo_chan demo_env zero_lcsr = (Setup_ok, demo_chan\<lparr>ch_chained := True\<rparr>, env', c')
    \<and> dma_walk True (de_mem env') fuel (dnlal (dma_desc (dma_regs c' ! 1))) = Some fs
    \<and> concat (map fetch_bytes fs) = sgl_bytes 0x10000080 [(0x1f80, 0x80), (0x5000, 0x100)]"
proof -
  have d: "dm_novmeinc (ch_desc demo_chan) = 0" "dm_dir (ch_desc demo_chan) = VME_DMA_FROM_DEVICE" "ch_num demo_chan = 1"
    "nat_sgl (ch_sgl demo_chan) = [(0x1f80, 0x80), (0x5000, 0x100)]"
    by (simp_all add: demo_chan_def demo_dma_def nat_sgl_def demo_sgl_def)
  from dma_setup_moves_every_byte [OF demo_set_up d(1), of True] show ?thesis by (simp add: d)
qed

theorem dma_descriptors_respect_blocks_witness:
  "\<exists>env' c' fuel fs. tsi148_dma_setup True demo_chan demo_env zero_lcsr = (Setup_ok, demo_chan\<lparr>ch_chained := True\<rparr>, env', c')
    \<and> dma_walk True (de_mem env') fuel (dnlal (dma_desc (dma_regs c' ! 1))) = Some fs"
proof -
  have "ch_num demo_chan = 1" by (simp add: demo_chan_def)
  with dma_descriptors_respect_blocks [OF demo_set_up refl, of True] show ?thesis by metis
qed

lemma dma_setup_failure_leaks_nothing_example:
  "\<exists>e chan' env' c'. tsi148_dma_setup True demo_chan (demo_env\<lparr>de_supply := [Alloc 0x9000 zero_desc, Pool_fail]\<rparr>) zero_lcsr
     = (Setup_err e, chan', env', c') \<and> de_list env' = []"
proof -
  let ?x = "tsi148_dma_setup True demo_chan (demo_env\<lparr>de_supply := [Alloc 0x9000 zero_desc, Pool_fail]\<rparr>) zero_lcsr"
  have "fst ?x = Setup_err ENOMEM" by code_simp
  then obtain chan' env' c' where run: "?x = (Setup_err ENOMEM, chan', env', c')" by (metis prod.collapse)
  from dma_setup_failure_leaks_nothing [OF run] run show ?thesis by (simp add: demo_env_def)
qed

lemma dma_chain_left_unfilled_at_4G_example:
  "\<exists>env' c'. tsi148_dma_setup_chain True 0 (demo_dma\<lparr>dm_src := demo_dma_attr 0xfffff000\<rparr>) [(0x8000, 0x1000)] 1 0 0
      (demo_env\<lparr>de_supply := [Alloc 0x9000 zero_desc]\<rparr>) zero_lcsr = (Setup_ok, env', c') \<and> de_mem env' 0x9000 = Some zero_desc"
  using dma_chain_left_unfilled_at_4G [of "0xfffff000" "0x1000" "demo_dma\<lparr>dm_src := demo_dma_attr 0xfffff000\<rparr>"
      "demo_env\<lparr>de_supply := [Alloc 0x9000 zero_desc]\<rparr>" "0x9000" zero_desc "[]" True 0 "0x8000" 0 0 zero_lcsr]
  by (simp add: get_vmeaddr_def demo_dma_def demo_dma_attr_def low_bits_def mask_eq_exp_minus_1)

lemma dma_chain_wrap_hits_bug_on_example:
  "fst (tsi148_dma_setup_chain True 0 (demo_dma\<lparr>dm_src := demo_dma_attr 0xfffff800\<rparr>) [(0x8000, 0x1000), (0xa000, 0x1000)] 2 0 0
      demo_env zero_lcsr) = Setup_bug"
  using dma_chain_wrap_hits_bug_on [of "0xfffff800" "0x1000" "demo_dma\<lparr>dm_src := demo_dma_attr 0xfffff800\<rparr>"
      demo_env "0x9000" zero_desc "[Alloc 0x9040 zero_desc, Alloc 0x9080 zero_desc]" True 0 "0x8000" "(0xa000, 0x1000)" "[]" 0 0 zero_lcsr,
      unfolded list.size add_0]
  by (simp add: get_vmeaddr_def demo_dma_def demo_dma_attr_def demo_env_def)

end
