(* ===== verification/Vme_Dma.thy ===== *)
theory Vme_Dma
  imports Tsi148_Dma_Chain Vme_Window
begin

text \<open>
  DMA management (\<open>src/vmebridge/driver/vme_dma.c\<close>): pinning the buffer's pages and describing them in a
  scatter/gather list, setting up and running a transfer on a channel, the ioctl, module start
  and end. The state extends that of the window manager by the channels, the semaphore, the
  disable flag, the descriptor pool's memory and the reference counts of pages.

  The kernel's answers during one request are a record: allocations, the pages
  \<open>get_user_pages\<close> pins (it may pin fewer than asked for, or fail), the bus addresses
  \<open>pci_map_sg\<close> gives, how the two waits end, and the channel's status register after the wait. Memory from
  \<open>kmalloc\<close> has arbitrary contents (\<open>dk_garbage\<close>). An access outside an array ends in \<open>Setup_bug\<close>.
\<close>

section \<open>State\<close>

record dstate = wstate +
  channels :: "dma_channel list"
  dma_semaphore :: nat
  dma_disable :: bool
  dma_pool :: bool
  pool_mem :: "u32 \<Rightarrow> tsi148_dma_desc option"
  page_refs :: "nat \<Rightarrow> int"

text \<open>A scatter/gather entry before it is mapped: page, length, offset in the page.\<close>

type_synonym sg_entry = "nat \<times> u32 \<times> u32"

record dma_kernel =
  dk_le :: bool
  dk_kmalloc_sgl :: bool
  dk_kmalloc_pages :: bool
  dk_garbage :: "nat \<Rightarrow> sg_entry"
  dk_get_user_pages :: "u32 \<Rightarrow> nat \<Rightarrow> errno + nat list"
  dk_virt_addr_valid :: "u32 \<Rightarrow> bool"
  dk_virt_to_page :: "u32 \<Rightarrow> nat"
  dk_pci_map_sg :: "sg_entry list \<Rightarrow> (u32 \<times> u32) list"
  dk_supply :: "pool_answer list"
  dk_down :: rc
  dk_disabled_meanwhile :: bool
  dk_wait :: rc
  dk_dsta :: u32
  dk_copy_from_user :: bool
  dk_copy_to_user :: bool
  dk_pool_create :: bool

abbreviation (input) PAGE_SIZE :: u32 where "PAGE_SIZE \<equiv> 0x1000"

section \<open>Pages and scatter/gather lists\<close>

definition get_page_refs :: "nat list \<Rightarrow> (nat \<Rightarrow> int) \<Rightarrow> (nat \<Rightarrow> int)" where
  "get_page_refs ps refs = (\<lambda>p. refs p + int (count_list ps p))"

definition page_cache_release :: "nat list \<Rightarrow> (nat \<Rightarrow> int) \<Rightarrow> (nat \<Rightarrow> int)" where
  "page_cache_release ps refs = (\<lambda>p. refs p - int (count_list ps p))"

text \<open>The result is the number of pages got, or an error; the pages are pinned.\<close>

definition sgl_fill_user_pages :: "dma_kernel \<Rightarrow> u32 \<Rightarrow> nat \<Rightarrow> (nat \<Rightarrow> int) \<Rightarrow> (errno + nat list) \<times> (nat \<Rightarrow> int)" where
  "sgl_fill_user_pages k uaddr nr_pages refs =
     (case dk_get_user_pages k uaddr nr_pages of
        Inl e \<Rightarrow> (Inl e, refs)
      | Inr ps \<Rightarrow> (Inr ps, get_page_refs ps refs))"

definition sgl_fill_kernel_pages :: "dma_kernel \<Rightarrow> u32 \<Rightarrow> nat \<Rightarrow> errno + nat list" where
  "sgl_fill_kernel_pages k kaddr nr_pages =
     (if \<not> dk_virt_addr_valid k kaddr then Inl EINVAL
      else Inr (map (\<lambda>i. dk_virt_to_page k (kaddr + PAGE_SIZE * of_nat i)) [0..<nr_pages]))"

text \<open>The entries after the first, \<open>len\<close> bytes being left.\<close>

fun fill_pages :: "nat list \<Rightarrow> u32 \<Rightarrow> sg_entry list" where
  "fill_pages [] len = []"
| "fill_pages (p # ps) len =
     (p, if len < PAGE_SIZE then len else PAGE_SIZE, 0) # fill_pages ps (len - PAGE_SIZE)"

definition fill_sgl :: "u32 \<Rightarrow> u32 \<Rightarrow> nat list \<Rightarrow> sg_entry list" where
  "fill_sgl uaddr len pages =
     (let off = uaddr AND 0xfff
      in if length pages > 1
         then (hd pages, PAGE_SIZE - off, off) # fill_pages (tl pages) (len - (PAGE_SIZE - off))
         else [(hd pages, len, off)])"

datatype sgl_result = Sgl_ok int "sg_entry list" | Sgl_bug

text \<open>
  \<open>sgl_map_user_pages\<close>: the result is \<open>nr_pages\<close> also when the pages could not be had; then the
  list is what \<open>kmalloc\<close> left there. Writing the first entry of an empty list is out of bounds.
\<close>

definition sgl_map_user_pages ::
    "dma_kernel \<Rightarrow> nat \<Rightarrow> u32 \<Rightarrow> u32 \<Rightarrow> bool \<Rightarrow> (nat \<Rightarrow> int) \<Rightarrow> sgl_result \<times> (nat \<Rightarrow> int)" where
  "sgl_map_user_pages k nr_pages uaddr len to_user refs =
     (if \<not> dk_kmalloc_pages k then (Sgl_ok (-12) (map (dk_garbage k) [0..<nr_pages]), refs)
      else let (r, refs1) = (if to_user then sgl_fill_user_pages k uaddr nr_pages refs
                             else (sgl_fill_kernel_pages k uaddr nr_pages, refs))
           in case r of
                Inl e \<Rightarrow> (Sgl_ok (int nr_pages) (map (dk_garbage k) [0..<nr_pages]), refs1)
              | Inr pages \<Rightarrow>
                  if to_user \<and> length pages < nr_pages
                  then (Sgl_ok (int nr_pages) (map (dk_garbage k) [0..<nr_pages]), page_cache_release pages refs1)
                  else if nr_pages = 0 then (Sgl_bug, refs1)
                  else (Sgl_ok (int nr_pages) (fill_sgl uaddr len (take nr_pages pages)), refs1))"

definition sgl_unmap_user_pages :: "sg_entry list \<Rightarrow> bool \<Rightarrow> (nat \<Rightarrow> int) \<Rightarrow> (nat \<Rightarrow> int)" where
  "sgl_unmap_user_pages sgl to_user refs = (if to_user then page_cache_release (map fst sgl) refs else refs)"

definition dma_uaddr :: "vme_dma \<Rightarrow> u32" where
  "dma_uaddr desc = (if dm_dir desc = VME_DMA_TO_DEVICE then da_addrl (dm_src desc) else da_addrl (dm_dst desc))"

definition dma_nr_pages :: "u32 \<Rightarrow> u32 \<Rightarrow> nat" where
  "dma_nr_pages uaddr len = unat (drop_bit 12 ((uaddr AND 0xfff) + len + 0xfff))"

section \<open>Setting up a transfer\<close>

text \<open>
  \<open>vme_dma_setup\<close> on channel \<open>i\<close>. The result carries the unmapped list, which the caller needs for the clean-up.
\<close>

definition vme_dma_setup ::
    "dma_kernel \<Rightarrow> bool \<Rightarrow> nat \<Rightarrow> 'a dstate_scheme \<Rightarrow> setup_result \<times> sg_entry list \<times> 'a dstate_scheme" where
  "vme_dma_setup k to_user i s =
     (let chan = channels s ! i;
          desc = ch_desc chan;
          len = dm_length desc;
          uaddr = dma_uaddr desc
      in if uaddr + len < uaddr then (Setup_err EINVAL, [], s)
         else let nr = dma_nr_pages uaddr len
         in if \<not> dk_kmalloc_sgl k then (Setup_err ENOMEM, [], s)
            else case sgl_map_user_pages k nr uaddr len to_user (page_refs s) of
                   (Sgl_bug, refs) \<Rightarrow> (Setup_bug, [], s\<lparr>page_refs := refs\<rparr>)
                 | (Sgl_ok n sgl, refs) \<Rightarrow>
                    (let chan1 = chan\<lparr>ch_sg_pages := n\<rparr>
                     in if n < 0 then (Setup_err ENOMEM, [], s\<lparr>page_refs := refs, channels := (channels s)[i := chan1]\<rparr>)
                        else if n = 0 then (Setup_ok, [], s\<lparr>page_refs := refs, channels := (channels s)[i := chan1]\<rparr>)
                        else let mapped = dk_pci_map_sg k sgl;
                                 chan2 = chan1\<lparr>ch_sgl := mapped, ch_sg_mapped := length mapped\<rparr>;
                                 (r, chan3, env, c) = tsi148_dma_setup (dk_le k) chan2
                                    \<lparr>de_mem = pool_mem s, de_list = ch_hw_desc_list chan2, de_supply = dk_supply k\<rparr> (lcsr s);
                                 s1 = s\<lparr>lcsr := c, pool_mem := de_mem env,
                                        channels := (channels s)[i := chan3\<lparr>ch_hw_desc_list := de_list env\<rparr>]\<rparr>
                        in case r of
                             Setup_ok \<Rightarrow> (Setup_ok, sgl, s1\<lparr>page_refs := refs\<rparr>)
                           | Setup_bug \<Rightarrow> (Setup_bug, sgl, s1\<lparr>page_refs := refs\<rparr>)
                           | Setup_err e \<Rightarrow> (Setup_err e, [], s1\<lparr>page_refs := sgl_unmap_user_pages sgl to_user refs\<rparr>)))"

definition vme_dma_start :: "nat \<Rightarrow> 'a dstate_scheme \<Rightarrow> 'a dstate_scheme" where
  "vme_dma_start i s = s\<lparr>lcsr := tsi148_dma_start (ch_num (channels s ! i)) (lcsr s)\<rparr>"

section \<open>Channels\<close>

fun first_idle :: "dma_channel list \<Rightarrow> nat \<Rightarrow> nat option" where
  "first_idle [] i = None"
| "first_idle (c # cs) i = (if \<not> ch_busy c then Some i else first_idle cs (Suc i))"

definition lock_avail_channel :: "'a dstate_scheme \<Rightarrow> (errno + nat) \<times> 'a dstate_scheme" where
  "lock_avail_channel s =
     (case first_idle (channels s) 0 of
        Some i \<Rightarrow> (Inr i, s\<lparr>channels := (channels s)[i := (channels s ! i)\<lparr>ch_busy := True\<rparr>]\<rparr>)
      | None \<Rightarrow> (Inl EDEADLK, s))"

text \<open>
  \<open>down_interruptible\<close> takes the semaphore if it can; when it is not free the caller sleeps, and the
  only way out without another process is a signal.
\<close>

definition vme_dma_channel_acquire :: "dma_kernel \<Rightarrow> 'a dstate_scheme \<Rightarrow> (errno + nat) \<times> 'a dstate_scheme" where
  "vme_dma_channel_acquire k s =
     (if dma_disable s then (Inl EBUSY, s)
      else case dk_down k of
             Err e \<Rightarrow> (Inl e, s)
           | OK \<Rightarrow>
               if dma_semaphore s = 0 then (Inl EINTR, s)
               else let s1 = s\<lparr>dma_semaphore := dma_semaphore s - 1, dma_disable := dk_disabled_meanwhile k\<rparr>
                    in if dma_disable s1 then (Inl EBUSY, s1\<lparr>dma_semaphore := dma_semaphore s1 + 1\<rparr>)
                       else lock_avail_channel s1)"

definition vme_dma_channel_release :: "nat \<Rightarrow> 'a dstate_scheme \<Rightarrow> 'a dstate_scheme" where
  "vme_dma_channel_release i s =
     s\<lparr>channels := (channels s)[i := (channels s ! i)\<lparr>ch_busy := False\<rparr>],
       dma_semaphore := dma_semaphore s + 1\<rparr>"

text \<open>The end of a transfer: status, release of the chain, of the pages and of the channel.\<close>

definition dma_cleanup :: "bool \<Rightarrow> nat \<Rightarrow> sg_entry list \<Rightarrow> 'a dstate_scheme \<Rightarrow> 'a dstate_scheme" where
  "dma_cleanup to_user i sgl s =
     (let chan = channels s ! i;
          env = tsi148_dma_release chan \<lparr>de_mem = pool_mem s, de_list = ch_hw_desc_list chan, de_supply = []\<rparr>
      in s\<lparr>pool_mem := de_mem env, channels := (channels s)[i := chan\<lparr>ch_hw_desc_list := de_list env\<rparr>],
           page_refs := sgl_unmap_user_pages sgl to_user (page_refs s)\<rparr>)"

datatype dma_outcome = Dma_rc rc | Dma_bug

definition vme_do_dma_to ::
    "dma_kernel \<Rightarrow> vme_dma \<Rightarrow> bool \<Rightarrow> 'a dstate_scheme \<Rightarrow> dma_outcome \<times> vme_dma \<times> 'a dstate_scheme" where
  "vme_do_dma_to k desc to_user s =
     (if dm_length desc = 0 then (Dma_rc (Err EINVAL), desc, s)
      else if dm_dir desc \<noteq> VME_DMA_FROM_DEVICE \<and> dm_dir desc \<noteq> VME_DMA_TO_DEVICE then (Dma_rc (Err EINVAL), desc, s)
      else if da_addru (dm_src desc) \<noteq> 0 \<or> da_addru (dm_dst desc) \<noteq> 0 then (Dma_rc (Err EINVAL), desc, s)
      else case vme_dma_channel_acquire k s of
             (Inl e, s1) \<Rightarrow> (Dma_rc (Err e), desc, s1)
           | (Inr i, s1) \<Rightarrow>
              let s2 = s1\<lparr>channels := (channels s1)[i := (channels s1 ! i)\<lparr>ch_desc := desc\<rparr>]\<rparr>
              in case vme_dma_setup k to_user i s2 of
                   (Setup_bug, sgl, s3) \<Rightarrow> (Dma_bug, desc, s3)
                 | (Setup_err e, sgl, s3) \<Rightarrow> (Dma_rc (Err e), desc, vme_dma_channel_release i s3)
                 | (Setup_ok, sgl, s3) \<Rightarrow>
                    let num = ch_num (channels s3 ! i);
                        s4 = vme_dma_start i s3;
                        s5 = (if dk_wait k = OK then s4 else s4\<lparr>lcsr := tsi148_dma_abort num (lcsr s4)\<rparr>);
                        s6 = s5\<lparr>lcsr := dma_write num (\<lambda>r. r\<lparr>dsta := dk_dsta k\<rparr>) (lcsr s5)\<rparr>;
                        desc' = desc\<lparr>dm_status := tsi148_dma_get_status num (lcsr s6)\<rparr>
                    in (Dma_rc (dk_wait k), desc', vme_dma_channel_release i (dma_cleanup to_user i sgl s6)))"

definition vme_do_dma :: "dma_kernel \<Rightarrow> vme_dma \<Rightarrow> 'a dstate_scheme \<Rightarrow> dma_outcome \<times> vme_dma \<times> 'a dstate_scheme" where
  "vme_do_dma k desc s = vme_do_dma_to k desc True s"

definition vme_do_dma_kernel :: "dma_kernel \<Rightarrow> vme_dma \<Rightarrow> 'a dstate_scheme \<Rightarrow> dma_outcome \<times> vme_dma \<times> 'a dstate_scheme" where
  "vme_do_dma_kernel k desc s = vme_do_dma_to k desc False s"

datatype dma_cmd = VME_IOCTL_START_DMA vme_dma | OTHER_DMA_IOCTL u32

definition vme_dma_ioctl ::
    "dma_kernel \<Rightarrow> dma_cmd \<Rightarrow> 'a dstate_scheme \<Rightarrow> dma_outcome \<times> vme_dma option \<times> 'a dstate_scheme" where
  "vme_dma_ioctl k cmd s =
     (case cmd of
        OTHER_DMA_IOCTL c \<Rightarrow> (Dma_rc (Err ENOIOCTLCMD), None, s)
      | VME_IOCTL_START_DMA d \<Rightarrow>
          if \<not> dk_copy_from_user k then (Dma_rc (Err EFAULT), None, s)
          else case vme_do_dma k d s of
                 (Dma_rc OK, d', s') \<Rightarrow> if \<not> dk_copy_to_user k then (Dma_rc (Err EFAULT), None, s') else (Dma_rc OK, Some d', s')
               | (r, d', s') \<Rightarrow> (r, None, s'))"

section \<open>Module start and end\<close>

definition vme_dma_init :: "dma_kernel \<Rightarrow> 'a dstate_scheme \<Rightarrow> rc \<times> 'a dstate_scheme" where
  "vme_dma_init k s =
     (let chans = map (\<lambda>i. (channels s ! i)\<lparr>ch_num := i, ch_hw_desc_list := []\<rparr>) [0..<TSI148_NUM_DMA_CHANNELS];
          (r, pool) = tsi148_dma_init (dk_pool_create k)
      in (r, s\<lparr>channels := chans, dma_semaphore := TSI148_NUM_DMA_CHANNELS, dma_disable := False, dma_pool := pool\<rparr>))"

text \<open>
  \<open>vme_dma_exit\<close> when no process is inside: the two aborts, then twice down and up on the
  semaphore, which leave it as it was. How it runs beside other processes is the subject of the
  step relation of the next theory.
\<close>

definition vme_dma_exit :: "'a dstate_scheme \<Rightarrow> 'a dstate_scheme" where
  "vme_dma_exit s =
     (let s1 = s\<lparr>dma_disable := True\<rparr>;
          s2 = s1\<lparr>lcsr := fold (\<lambda>i. tsi148_dma_abort (ch_num (channels s1 ! i))) [0..<TSI148_NUM_DMA_CHANNELS] (lcsr s1)\<rparr>
      in s2\<lparr>dma_pool := tsi148_dma_exit (dma_pool s2)\<rparr>)"

end
