(* ===== verification/Vme_Dma_Props.thy ===== *)
theory Vme_Dma_Props
  imports Vme_Dma Vme_Window_Props
begin

text \<open>
  What a DMA request does: the scatter/gather list describes the buffer byte by byte, and whatever
  the outcome, the request gives back the channel, the semaphore and the descriptors, and the pages unless pinning them failed.
\<close>

section \<open>The scatter/gather list\<close>

definition sg_bytes :: "sg_entry list \<Rightarrow> (nat \<times> nat) list" where
  "sg_bytes sgl = concat (map (\<lambda>(p, l, off). map (\<lambda>k. (p, unat off + k)) [0..<unat l]) sgl)"

text \<open>The bytes of a buffer of \<open>n\<close> bytes that starts \<open>off\<close> bytes into the first of its pages.\<close>

definition buffer_bytes :: "nat list \<Rightarrow> nat \<Rightarrow> nat \<Rightarrow> (nat \<times> nat) list" where
  "buffer_bytes pages off n = map (\<lambda>k. (pages ! ((off + k) div 4096), (off + k) mod 4096)) [0..<n]"

lemma sg_bytes_simps [simp]:
  "sg_bytes [] = []" "sg_bytes ((p, l, off) # sgl) = map (\<lambda>k. (p, unat off + k)) [0..<unat l] @ sg_bytes sgl"
  by (simp_all add: sg_bytes_def)

lemma upt_split: "m \<le> n \<Longrightarrow> [0..<n] = [0..<m] @ map (\<lambda>k. k + m) [0..<n - m]"
  using upt_add_eq_append [of 0 m "n - m"] map_add_upt [of m "n - m"] by simp

lemma buffer_bytes_step:
  assumes "off < 4096" and "4096 - off \<le> n"
  shows "buffer_bytes (p # ps) off n = map (\<lambda>k. (p, off + k)) [0..<4096 - off] @ buffer_bytes ps 0 (n - (4096 - off))"
proof -
  have "buffer_bytes (p # ps) off n
      = map (\<lambda>k. ((p # ps) ! ((off + k) div 4096), (off + k) mod 4096)) [0..<4096 - off]
      @ map (\<lambda>k. ((p # ps) ! ((off + (k + (4096 - off))) div 4096), (off + (k + (4096 - off))) mod 4096)) [0..<n - (4096 - off)]"
    unfolding buffer_bytes_def upt_split [OF assms(2)] by simp
  moreover have "map (\<lambda>k. ((p # ps) ! ((off + k) div 4096), (off + k) mod 4096)) [0..<4096 - off]
      = map (\<lambda>k. (p, off + k)) [0..<4096 - off]"
    using assms(1) by (intro map_cong refl) simp
  moreover have "(off + (k + (4096 - off))) div 4096 = Suc (k div 4096)" "(off + (k + (4096 - off))) mod 4096 = k mod 4096" for k
  proof -
    have "off + (k + (4096 - off)) = k + 4096" using assms(1) by simp
    then show "(off + (k + (4096 - off))) div 4096 = Suc (k div 4096)" "(off + (k + (4096 - off))) mod 4096 = k mod 4096" by simp_all
  qed
  ultimately show ?thesis by (simp add: buffer_bytes_def)
qed

lemma buffer_bytes_one:
  assumes "off + n \<le> 4096"
  shows "buffer_bytes (p # ps) off n = map (\<lambda>k. (p, off + k)) [0..<n]"
  unfolding buffer_bytes_def using assms by (intro map_cong refl) auto

lemma sg_bytes_fill_pages:
  assumes "length ps = (unat len + 4095) div 4096"
  shows "sg_bytes (fill_pages ps len) = buffer_bytes ps 0 (unat len)"
  using assms
proof (induction ps arbitrary: len)
  case Nil
  then have "unat len = 0" by simp
  then show ?case by (simp add: buffer_bytes_def)
next
  case (Cons p ps)
  show ?case
  proof (cases "len < PAGE_SIZE")
    case True
    then have lt: "unat len < 4096" by (simp add: word_less_nat_alt)
    then have "(unat len + 4095) div 4096 \<le> 1" by simp
    moreover have "Suc (length ps) = (unat len + 4095) div 4096" using Cons.prems by simp
    ultimately have "length ps = 0" by linarith
    then have "ps = []" by simp
    then show ?thesis using True lt buffer_bytes_one [of 0 "unat len" p "[]"] by simp
  next
    case False
    then have ge: "4096 \<le> unat len" by (simp add: word_less_nat_alt not_less)
    then have "unat (len - PAGE_SIZE) = unat len - 4096" by (simp add: unat_sub word_le_nat_alt)
    moreover from this have "length ps = (unat (len - PAGE_SIZE) + 4095) div 4096" using Cons.prems ge by simp
    ultimately show ?thesis
      using False Cons.IH [of "len - PAGE_SIZE"] buffer_bytes_step [of 0 "unat len" p ps] ge by simp
  qed
qed

lemma unat_page_off: "unat (u AND 0xfff :: u32) = unat u mod 4096"
  unfolding low_bits_literal using unat_low_bits [of 12 u] by simp

lemma nr_pages_eq:
  assumes "unat u mod 4096 + unat len + 4095 < 2 ^ 32"
  shows "dma_nr_pages u len = (unat u mod 4096 + unat len + 4095) div 4096"
proof -
  have "unat ((u AND 0xfff) + len + 0xfff) = unat u mod 4096 + unat len + 4095"
    using assms unat_page_off [of u] by (simp add: unat_word_ariths)
  then show ?thesis using assms unfolding dma_nr_pages_def unsigned_drop_bit_eq
    by (simp add: drop_bit_eq_div take_bit_eq_mod)
qed

lemma fill_sgl_bytes:
  assumes "unat u mod 4096 + unat len + 4095 < 2 ^ 32" and "length pages = dma_nr_pages u len" and "len \<noteq> 0"
  shows "sg_bytes (fill_sgl u len pages) = buffer_bytes pages (unat u mod 4096) (unat len)"
proof -
  define off where "off = unat u mod 4096"
  have off: "off < 4096" "unat (u AND 0xfff) = off" using unat_page_off [of u] by (simp_all add: off_def)
  have pos: "0 < unat len" using assms(3) by (simp add: unat_eq_0 [symmetric])
  have nr: "length pages = (off + unat len + 4095) div 4096" using assms(2) nr_pages_eq [OF assms(1)] by (simp add: off_def)
  then have "length pages \<noteq> 0" using pos by simp
  then obtain p ps where pages: "pages = p # ps" by (cases pages) auto
  have first: "unat (PAGE_SIZE - (u AND 0xfff)) = 4096 - off"
    using off by (simp add: unat_sub word_le_nat_alt)
  show ?thesis
  proof (cases "ps = []")
    case True
    then have "off + unat len \<le> 4096" using nr pages by simp
    then show ?thesis
      using True pages off buffer_bytes_one [of off "unat len" p "[]"] by (simp add: fill_sgl_def off_def)
  next
    case False
    then have "2 \<le> length pages" using pages by (cases ps) auto
    then have big: "4096 - off \<le> unat len" using nr by simp
    have rest: "unat (len - (PAGE_SIZE - (u AND 0xfff))) = unat len - (4096 - off)"
      using big first by (simp add: unat_sub word_le_nat_alt)
    have "length ps = (unat len - (4096 - off) + 4095) div 4096"
    proof -
      have "off + unat len + 4095 = (unat len - (4096 - off) + 4095) + 4096" using big off(1) by simp
      then show ?thesis using nr pages by simp
    qed
    then have "sg_bytes (fill_pages ps (len - (PAGE_SIZE - (u AND 0xfff)))) = buffer_bytes ps 0 (unat len - (4096 - off))"
      using sg_bytes_fill_pages [of ps "len - (PAGE_SIZE - (u AND 0xfff))"] rest by simp
    then show ?thesis
      using False pages first off buffer_bytes_step [OF off(1) big, of p ps]
      by (simp add: fill_sgl_def Let_def off_def)
  qed
qed

lemma fill_pages_pages [simp]: "map fst (fill_pages ps len) = ps"
  by (induction ps arbitrary: len) auto

lemma fill_sgl_pages: "pages \<noteq> [] \<Longrightarrow> map fst (fill_sgl u len pages) = pages"
  by (cases pages) (auto simp: fill_sgl_def Let_def)

section \<open>The balance of a request\<close>

definition idle_channels :: "'a dstate_scheme \<Rightarrow> nat" where
  "idle_channels s = length (filter (\<lambda>c. \<not> ch_busy c) (channels s))"

text \<open>
  Between requests: two channels numbered 0 and 1, an idle channel has no descriptors, and the
  semaphore counts the idle channels.
\<close>

definition dma_ok :: "'a dstate_scheme \<Rightarrow> bool" where
  "dma_ok s \<longleftrightarrow> length (channels s) = TSI148_NUM_DMA_CHANNELS \<and> dma_semaphore s = idle_channels s
     \<and> wf_lcsr (lcsr s) \<and> (\<forall>i < TSI148_NUM_DMA_CHANNELS. ch_num (channels s ! i) = i)
     \<and> (\<forall>c \<in> set (channels s). \<not> ch_busy c \<longrightarrow> ch_hw_desc_list c = [])"

text \<open>\<open>get_user_pages\<close> pins all the pages it is asked for.\<close>

definition pins_all :: "dma_kernel \<Rightarrow> bool" where
  "pins_all k \<longleftrightarrow> (\<forall>u n. \<exists>ps. dk_get_user_pages k u n = Inr ps \<and> length ps = n)"

lemma first_idle_Some:
  "first_idle cs j = Some i \<Longrightarrow> j \<le> i \<and> i - j < length cs \<and> \<not> ch_busy (cs ! (i - j))"
proof (induction cs arbitrary: j)
  case (Cons c cs)
  show ?case
  proof (cases "ch_busy c")
    case True
    then have "first_idle cs (Suc j) = Some i" using Cons.prems by simp
    note IH = Cons.IH [OF this]
    then have "i - j = Suc (i - Suc j)" by auto
    then show ?thesis using IH by auto
  qed (use Cons.prems in auto)
qed simp

lemma first_idle_None: "first_idle cs j = None \<longleftrightarrow> (\<forall>c \<in> set cs. ch_busy c)"
  by (induction cs arbitrary: j) auto

lemma filter_update_length:
  assumes "i < length xs"
  shows "length (filter P (xs[i := x])) + (if P (xs ! i) then 1 else 0) = length (filter P xs) + (if P x then 1 else 0)"
  using assms
proof (induction xs arbitrary: i)
  case (Cons a xs)
  then show ?case by (cases i) auto
qed simp

text \<open>A channel is always there for who gets through the semaphore.\<close>

lemma acquire_cases:
  assumes "dma_ok s" and "vme_dma_channel_acquire k s = (r, s1)"
  obtains (err) e where "r = Inl e" "e \<noteq> EDEADLK \<or> dk_down k = Err EDEADLK"
      "s1 = s \<or> s1 = s\<lparr>dma_disable := True\<rparr>"
  | (ok) i where "r = Inr i" "i < 2" "\<not> ch_busy (channels s ! i)"
      "s1 = s\<lparr>dma_semaphore := dma_semaphore s - 1, dma_disable := False,
              channels := (channels s)[i := (channels s ! i)\<lparr>ch_busy := True\<rparr>]\<rparr>" "0 < dma_semaphore s"
proof (cases "dma_disable s \<or> dk_down k \<noteq> OK \<or> dma_semaphore s = 0 \<or> dk_disabled_meanwhile k")
  case True
  then have "\<exists>e. r = Inl e \<and> (e \<noteq> EDEADLK \<or> dk_down k = Err EDEADLK) \<and> (s1 = s \<or> s1 = s\<lparr>dma_disable := True\<rparr>)"
    using assms(2) by (auto simp: vme_dma_channel_acquire_def Let_def split: if_splits rc.splits)
  then show ?thesis using err by blast
next
  case False
  then have "idle_channels s \<noteq> 0" using assms(1) by (simp add: dma_ok_def)
  then have "\<exists>c \<in> set (channels s). \<not> ch_busy c" by (auto simp: idle_channels_def filter_empty_conv)
  then obtain i where i: "first_idle (channels s) 0 = Some i" using first_idle_None by fastforce
  from first_idle_Some [OF this] have "i < 2" "\<not> ch_busy (channels s ! i)" using assms(1) by (auto simp: dma_ok_def)
  then show ?thesis
    using assms(2) False i
    by (intro ok [of i]) (auto simp: vme_dma_channel_acquire_def lock_avail_channel_def Let_def split: if_splits rc.splits)
qed

lemma refs_balance: "page_cache_release ps (get_page_refs ps refs) = refs"
  by (simp add: page_cache_release_def get_page_refs_def)

lemma map_user_pages_balance:
  assumes "pins_all k \<or> \<not> to_user" and "sgl_map_user_pages k nr u len to_user refs = (Sgl_ok n sgl, refs')"
  shows "if 0 \<le> n then sgl_unmap_user_pages sgl to_user refs' = refs else refs' = refs"
proof (cases "dk_kmalloc_pages k")
  case False
  then show ?thesis using assms(2) by (auto simp: sgl_map_user_pages_def)
next
  case mem: True
  show ?thesis
  proof (cases to_user)
    case False
    then show ?thesis using assms(2) mem
      by (auto simp: sgl_map_user_pages_def Let_def sgl_unmap_user_pages_def split: sum.splits if_splits)
  next
    case True
    then obtain ps where ps: "dk_get_user_pages k u nr = Inr ps" "length ps = nr"
      using assms(1) unfolding pins_all_def by blast
    then have "sgl = fill_sgl u len ps" "refs' = get_page_refs ps refs" "n = int nr" "ps \<noteq> []"
      using assms(2) mem True
      by (auto simp: sgl_map_user_pages_def sgl_fill_user_pages_def split: if_splits)
    then show ?thesis
      using True fill_sgl_pages [of ps u len] by (simp add: sgl_unmap_user_pages_def refs_balance)
  qed
qed

text \<open>What a channel owns of the descriptor pool when it is free.\<close>

lemma free_chain_pool:
  assumes "de_list env = ps" and "dom (de_mem env) \<subseteq> D \<union> set ps"
  shows "de_list (tsi148_dma_free_chain env) = []" "dom (de_mem (tsi148_dma_free_chain env)) \<subseteq> D"
  using assms by (auto simp: tsi148_dma_free_chain_def free_walk_dom)

lemma owned_setup:
  assumes "owned D env" and "tsi148_dma_setup le chan env c = (r, chan', env', c')" and "r \<noteq> Setup_bug"
  shows "owned D env'" "r = Setup_ok \<longrightarrow> ch_chained chan'" "ch_busy chan' = ch_busy chan" "ch_num chan' = ch_num chan"
    "wf_lcsr c' = wf_lcsr c" "(\<exists>e. r = Setup_err e) \<longrightarrow> de_list env = [] \<longrightarrow> de_list env' = []"
proof -
  have chain: "owned D e2 \<and> (wf_lcsr c2 = wf_lcsr c1) \<and> ((\<exists>e. r1 = Setup_err e) \<longrightarrow> de_list env = [] \<longrightarrow> de_list e2 = [])"
    if run: "tsi148_dma_setup_chain le num desc sgl n sat dat env c1 = (r1, e2, c2)" and "r1 \<noteq> Setup_bug"
    for num desc sgl n sat dat c1 e2 c2 r1
  proof -
    obtain h env1 where hw: "hwdesc_init env = (h, env1)" by fastforce
    have own1: "owned D env1" using owned_hwdesc_init [OF assms(1)] hw by simp
    have fr: "owned D (tsi148_dma_free_chain ex)" "de_list (tsi148_dma_free_chain ex) = []" if "owned D ex" for ex
      using owned_free_chain [OF that] by (auto simp: owned_def tsi148_dma_free_chain_def)
    have "de_list env1 = de_list env" if "h = Inl e" for e
      using hw that by (auto simp: hwdesc_init_def split: list.splits pool_answer.splits)
    then show ?thesis
    proof (cases h)
      case (Inl e)
      then show ?thesis using run hw own1 \<open>\<And>e. h = Inl e \<Longrightarrow> de_list env1 = de_list env\<close>
        by (auto simp: tsi148_dma_setup_chain_def)
    next
      case (Inr p)
      show ?thesis
      proof (cases "get_vmeaddr desc")
        case (Inl e)
        then show ?thesis using run hw Inr fr [OF own1] by (auto simp: tsi148_dma_setup_chain_def)
      next
        case (Inr v)
        have "result_owned D (chain_sgl le desc (tsi148_get_bshift desc) sat dat n 0 (take n sgl) (Some p) v env1)"
          by (rule owned_chain_sgl [OF own1])
        then show ?thesis
          using run that(2) hw \<open>h = Inr p\<close> Inr fr
          by (auto simp: tsi148_dma_setup_chain_def result_owned_def wf_lcsr_def chip_simps split: link_result.splits)
      qed
    qed
  qed
  have "owned D env' \<and> (r = Setup_ok \<longrightarrow> ch_chained chan') \<and> ch_busy chan' = ch_busy chan \<and> ch_num chan' = ch_num chan
      \<and> wf_lcsr c' = wf_lcsr c \<and> ((\<exists>e. r = Setup_err e) \<longrightarrow> de_list env = [] \<longrightarrow> de_list env' = [])"
    using assms chain
    by (auto simp: tsi148_dma_setup_def Let_def chip_simps split: sum.splits prod.splits)
  then show "owned D env'" "r = Setup_ok \<longrightarrow> ch_chained chan'" "ch_busy chan' = ch_busy chan" "ch_num chan' = ch_num chan"
    "wf_lcsr c' = wf_lcsr c" "(\<exists>e. r = Setup_err e) \<longrightarrow> de_list env = [] \<longrightarrow> de_list env' = []" by blast+
qed

lemma map_user_pages_empty: "sgl_map_user_pages k nr u len to_user refs = (Sgl_ok 0 sgl, refs') \<Longrightarrow> sgl = []"
  by (auto simp: sgl_map_user_pages_def Let_def split: if_splits sum.splits prod.splits)

text \<open>The effect of a set-up on the channel it works on.\<close>

lemma vme_dma_setup_effect:
  assumes i: "i < 2" "length (channels s) = 2" "wf_lcsr (lcsr s)" and free: "ch_hw_desc_list (channels s ! i) = []"
    and run: "vme_dma_setup k to_user i s = (r, sgl, s')" and "r \<noteq> Setup_bug"
  shows "\<exists>c. channels s' = (channels s)[i := c] \<and> ch_busy c = ch_busy (channels s ! i) \<and> ch_num c = ch_num (channels s ! i)
    \<and> wf_lcsr (lcsr s') \<and> dma_semaphore s' = dma_semaphore s \<and> dma_disable s' = dma_disable s
    \<and> (if r = Setup_ok
       then (pins_all k \<or> \<not> to_user \<longrightarrow> sgl_unmap_user_pages sgl to_user (page_refs s') = page_refs s) \<and> (ch_chained c \<or> ch_hw_desc_list c = [])
         \<and> dom (pool_mem s') \<subseteq> dom (pool_mem s) \<union> set (ch_hw_desc_list c)
       else (pins_all k \<or> \<not> to_user \<longrightarrow> page_refs s' = page_refs s) \<and> ch_hw_desc_list c = [] \<and> dom (pool_mem s') \<subseteq> dom (pool_mem s))"
proof -
  let ?c = "channels s ! i"
  let ?u = "dma_uaddr (ch_desc ?c)" and ?len = "dm_length (ch_desc ?c)"
  have same: "(channels s)[i := ?c] = channels s" using i by simp
  show ?thesis
  proof (cases "?u + ?len < ?u \<or> \<not> dk_kmalloc_sgl k")
    case True
    then have "s' = s" "r \<noteq> Setup_ok" using run by (auto simp: vme_dma_setup_def Let_def split: if_splits)
    then show ?thesis using i(3) free same by (intro exI [of _ ?c]) simp
  next
    case False
    obtain res refs where map: "sgl_map_user_pages k (dma_nr_pages ?u ?len) ?u ?len to_user (page_refs s) = (res, refs)"
      by fastforce
    show ?thesis
    proof (cases res)
      case Sgl_bug
      then show ?thesis using run False map \<open>r \<noteq> Setup_bug\<close> by (simp add: vme_dma_setup_def Let_def)
    next
      case (Sgl_ok n sg)
      note bal = map_user_pages_balance [OF _ map [unfolded Sgl_ok]]
      show ?thesis
      proof (cases "n \<le> 0")
        case True
        have "sgl = []" "(r = Setup_ok) = (n = 0)" "s' = s\<lparr>page_refs := refs, channels := (channels s)[i := ?c\<lparr>ch_sg_pages := n\<rparr>]\<rparr>"
          using run False map Sgl_ok True by (auto simp: vme_dma_setup_def Let_def split: if_splits)
        moreover have "n = 0 \<Longrightarrow> sg = []" using map_user_pages_empty map Sgl_ok by blast
        ultimately show ?thesis
          using bal True i(3) free by (intro exI [of _ "?c\<lparr>ch_sg_pages := n\<rparr>"]) (auto split: if_splits)
      next
        case pos: False
        let ?c2 = "?c\<lparr>ch_sg_pages := n, ch_sgl := dk_pci_map_sg k sg, ch_sg_mapped := length (dk_pci_map_sg k sg)\<rparr>"
        let ?env = "\<lparr>de_mem = pool_mem s, de_list = ch_hw_desc_list ?c2, de_supply = dk_supply k\<rparr>"
        obtain r1 c3 env c where st: "tsi148_dma_setup (dk_le k) ?c2 ?env (lcsr s) = (r1, c3, env, c)" by (metis prod_cases4)
        have res: "s' = s\<lparr>lcsr := c, pool_mem := de_mem env, channels := (channels s)[i := c3\<lparr>ch_hw_desc_list := de_list env\<rparr>],
              page_refs := (if r1 = Setup_ok then refs else sgl_unmap_user_pages sg to_user refs)\<rparr>"
          "r = r1" "r1 = Setup_ok \<longrightarrow> sgl = sg"
          using run False map Sgl_ok pos st \<open>r \<noteq> Setup_bug\<close>
          by (auto simp: vme_dma_setup_def Let_def split: if_splits setup_result.splits)
        have own: "owned (dom (pool_mem s)) ?env" by (simp add: owned_def)
        note eff = owned_setup [OF own st, folded res(2), OF \<open>r \<noteq> Setup_bug\<close>]
        have "(\<exists>e. r = Setup_err e) \<or> r = Setup_ok" using \<open>r \<noteq> Setup_bug\<close> by (cases r) auto
        then show ?thesis
          using eff bal pos i(3) free res
          by (intro exI [of _ "c3\<lparr>ch_hw_desc_list := de_list env\<rparr>"]) (auto simp: owned_def)
      qed
    qed
  qed
qed

lemma no_chain_update: "ch_hw_desc_list c = [] \<Longrightarrow> c\<lparr>ch_hw_desc_list := []\<rparr> = c"
  by (cases c) simp

lemma dma_cleanup_effect:
  assumes "i < length (channels s)" and "ch_chained (channels s ! i) \<or> ch_hw_desc_list (channels s ! i) = []"
    and "dom (pool_mem s) \<subseteq> D \<union> set (ch_hw_desc_list (channels s ! i))"
  shows "channels (dma_cleanup to_user i sgl s) = (channels s)[i := (channels s ! i)\<lparr>ch_hw_desc_list := []\<rparr>]"
    "dom (pool_mem (dma_cleanup to_user i sgl s)) \<subseteq> D"
  using assms
  by (auto simp: no_chain_update dma_cleanup_def tsi148_dma_release_def tsi148_dma_free_chain_def free_walk_dom Let_def)

lemma dma_ok_return:
  assumes "dma_ok s" and "i < 2" and "\<not> ch_busy (channels s ! i)" and "channels t = (channels s)[i := c]" and "\<not> ch_busy c"
    and "ch_num c = i" and "ch_hw_desc_list c = []" and "dma_semaphore t = dma_semaphore s" and "wf_lcsr (lcsr t)"
  shows "dma_ok t" "map ch_busy (channels t) = map ch_busy (channels s)"
proof -
  have len: "length (channels s) = 2" using assms(1) by (simp add: dma_ok_def)
  have "idle_channels t = idle_channels s"
    using filter_update_length [of i "channels s" "\<lambda>c. \<not> ch_busy c" c] assms(2-5) len by (simp add: idle_channels_def)
  moreover have "set (channels t) \<subseteq> insert c (set (channels s))" using assms(4) set_update_subset_insert by metis
  ultimately show "dma_ok t" using assms len by (auto simp: dma_ok_def nth_list_update)
  show "map ch_busy (channels t) = map ch_busy (channels s)"
    using assms(2-5) len by (intro nth_equalityI) (auto simp: nth_list_update)
qed

text \<open>A request is turned away, or gets a channel and gives it back.\<close>

definition after_wait :: "dma_kernel \<Rightarrow> nat \<Rightarrow> 'a dstate_scheme \<Rightarrow> 'a dstate_scheme" where
  "after_wait k i s3 =
     (let num = ch_num (channels s3 ! i); s4 = vme_dma_start i s3;
          s5 = (if dk_wait k = OK then s4 else s4\<lparr>lcsr := tsi148_dma_abort num (lcsr s4)\<rparr>)
      in s5\<lparr>lcsr := dma_write num (\<lambda>r. r\<lparr>dsta := dk_dsta k\<rparr>) (lcsr s5)\<rparr>)"

lemma do_dma_cases:
  assumes "dma_ok s" and "vme_do_dma_to k desc to_user s = (Dma_rc r, desc', s')"
  obtains (rejected) "s' = s \<or> s' = s\<lparr>dma_disable := True\<rparr>"
  | (ran) i s2 q sgl s3 where "i < 2" "\<not> ch_busy (channels s ! i)" "0 < dma_semaphore s"
      "s2 = s\<lparr>dma_semaphore := dma_semaphore s - 1, dma_disable := False,
             channels := (channels s)[i := (channels s ! i)\<lparr>ch_busy := True, ch_desc := desc\<rparr>]\<rparr>"
      "vme_dma_setup k to_user i s2 = (q, sgl, s3)" "q \<noteq> Setup_bug"
      "s' = vme_dma_channel_release i (if q = Setup_ok then dma_cleanup to_user i sgl (after_wait k i s3) else s3)"
proof -
  obtain a s1 where acq: "vme_dma_channel_acquire k s = (a, s1)" by fastforce
  from assms(1) this show ?thesis
  proof (cases rule: acquire_cases)
    case (err e)
    then show ?thesis using assms(2) acq rejected by (auto simp: vme_do_dma_to_def split: if_splits)
  next
    case (ok i)
    define s2 where "s2 = s1\<lparr>channels := (channels s1)[i := (channels s1 ! i)\<lparr>ch_desc := desc\<rparr>]\<rparr>"
    have len: "i < length (channels s)" using assms(1) ok(2) by (simp add: dma_ok_def)
    have s2: "s2 = s\<lparr>dma_semaphore := dma_semaphore s - 1, dma_disable := False,
        channels := (channels s)[i := (channels s ! i)\<lparr>ch_busy := True, ch_desc := desc\<rparr>]\<rparr>"
      using ok(4) len by (simp add: s2_def)
    obtain q sgl s3 where st: "vme_dma_setup k to_user i s2 = (q, sgl, s3)" by (metis prod_cases3)
    have "s' = s \<or> q \<noteq> Setup_bug
        \<and> s' = vme_dma_channel_release i (if q = Setup_ok then dma_cleanup to_user i sgl (after_wait k i s3) else s3)"
      using assms(2) acq ok(1) st
      by (cases q) (auto simp: vme_do_dma_to_def s2_def [symmetric] Let_def after_wait_def split: if_splits)
    then show ?thesis using rejected ran [OF ok(2,3,5) s2 st] by blast
  qed
qed

lemma after_wait_fields:
  "channels (after_wait k i s) = channels s" "page_refs (after_wait k i s) = page_refs s"
  "pool_mem (after_wait k i s) = pool_mem s" "dma_semaphore (after_wait k i s) = dma_semaphore s"
  "wf_lcsr (lcsr (after_wait k i s)) = wf_lcsr (lcsr s)"
  by (simp_all add: after_wait_def Let_def vme_dma_start_def tsi148_dma_start_def tsi148_dma_abort_def chip_simps)

lemma dma_cleanup_fields:
  "page_refs (dma_cleanup to_user i sgl s) = sgl_unmap_user_pages sgl to_user (page_refs s)"
  "dma_semaphore (dma_cleanup to_user i sgl s) = dma_semaphore s" "lcsr (dma_cleanup to_user i sgl s) = lcsr s"
  by (simp_all add: dma_cleanup_def Let_def)

lemma release_fields:
  "page_refs (vme_dma_channel_release i s) = page_refs s" "pool_mem (vme_dma_channel_release i s) = pool_mem s"
  "dma_semaphore (vme_dma_channel_release i s) = dma_semaphore s + 1" "lcsr (vme_dma_channel_release i s) = lcsr s"
  "channels (vme_dma_channel_release i s) = (channels s)[i := (channels s ! i)\<lparr>ch_busy := False\<rparr>]"
  by (simp_all add: vme_dma_channel_release_def)

text \<open>
  C5: a DMA request is balanced. Whatever the kernel answers (allocations, pinning, the wait) and however the transfer ends, when
  \<open>__vme_do_dma\<close> returns the semaphore has its old value, the same channels are
  busy as before, and no descriptor of the pool stays allocated. The reference count of every page is what it was for a kernel buffer, and for a user
  buffer if \<open>get_user_pages\<close> pins all the pages it is asked for; when it does not, the code goes on with a list it has not filled and
  releases the pages named there, so nothing is claimed of the counts. A request does not return, and is not covered, when it stops the kernel in
  \<open>BUG_ON\<close> or writes out of bounds.
\<close>

theorem dma_request_is_balanced:
  assumes "dma_ok s" and "vme_do_dma_to k desc to_user s = (Dma_rc r, desc', s')"
  shows "dma_ok s' \<and> dma_semaphore s' = dma_semaphore s \<and> map ch_busy (channels s') = map ch_busy (channels s)
    \<and> dom (pool_mem s') \<subseteq> dom (pool_mem s) \<and> (pins_all k \<or> \<not> to_user \<longrightarrow> page_refs s' = page_refs s)"
  using assms(1,2)
proof (cases rule: do_dma_cases)
  case rejected
  then show ?thesis using assms(1) by (auto simp: dma_ok_def idle_channels_def)
next
  case (ran i s2 q sgl s3)
  have len: "length (channels s) = 2" and wf: "wf_lcsr (lcsr s)" and num: "ch_num (channels s ! i) = i"
    and idle: "ch_hw_desc_list (channels s ! i) = []"
    using assms(1) ran(1,2) by (auto simp: dma_ok_def)
  have s2: "ch_hw_desc_list (channels s2 ! i) = []" "length (channels s2) = 2" "wf_lcsr (lcsr s2)"
      "page_refs s2 = page_refs s" "pool_mem s2 = pool_mem s" "dma_semaphore s2 = dma_semaphore s - 1"
      "ch_num (channels s2 ! i) = i" "\<And>c. (channels s2)[i := c] = (channels s)[i := c]"
    using ran(1,4) len idle wf num by simp_all
  obtain c where eff: "channels s3 = (channels s)[i := c] \<and> ch_busy c = ch_busy (channels s2 ! i) \<and> ch_num c = i
      \<and> wf_lcsr (lcsr s3) \<and> dma_semaphore s3 = dma_semaphore s - 1 \<and> dma_disable s3 = dma_disable s2
      \<and> (if q = Setup_ok then (pins_all k \<or> \<not> to_user \<longrightarrow> sgl_unmap_user_pages sgl to_user (page_refs s3) = page_refs s)
           \<and> (ch_chained c \<or> ch_hw_desc_list c = []) \<and> dom (pool_mem s3) \<subseteq> dom (pool_mem s) \<union> set (ch_hw_desc_list c)
         else (pins_all k \<or> \<not> to_user \<longrightarrow> page_refs s3 = page_refs s) \<and> ch_hw_desc_list c = [] \<and> dom (pool_mem s3) \<subseteq> dom (pool_mem s))"
    using vme_dma_setup_effect [OF ran(1) s2(2,3,1) ran(5,6), unfolded s2(4-8)] ..
  then have c: "channels s3 = (channels s)[i := c]" "ch_num c = i" "wf_lcsr (lcsr s3)" "dma_semaphore s3 = dma_semaphore s - 1"
    by simp_all
  note fin = eff [THEN conjunct2, THEN conjunct2, THEN conjunct2, THEN conjunct2, THEN conjunct2, THEN conjunct2]
  have ci: "channels s3 ! i = c" "i < length (channels s3)" using c(1) ran(1) len by simp_all
  have clean: "channels (dma_cleanup to_user i sgl (after_wait k i s3)) = (channels s)[i := c\<lparr>ch_hw_desc_list := []\<rparr>]"
    "dom (pool_mem (dma_cleanup to_user i sgl (after_wait k i s3))) \<subseteq> dom (pool_mem s)" if "q = Setup_ok"
    using dma_cleanup_effect [of i "after_wait k i s3" "dom (pool_mem s)" to_user sgl] fin that ci c(1)
    by (simp_all add: after_wait_fields)
  have clean_end: "channels s' = (channels s)[i := c\<lparr>ch_hw_desc_list := [], ch_busy := False\<rparr>]
      \<and> (pins_all k \<or> \<not> to_user \<longrightarrow> page_refs s' = page_refs s) \<and> dom (pool_mem s') \<subseteq> dom (pool_mem s) \<and> wf_lcsr (lcsr s')
      \<and> dma_semaphore s' = dma_semaphore s"
  proof (cases "q = Setup_ok")
    case True
    have "s' = vme_dma_channel_release i (dma_cleanup to_user i sgl (after_wait k i s3))" using ran(7) True by simp
    then show ?thesis using clean [OF True] fin True c(3,4) ran(1,3) len
      by (simp add: release_fields dma_cleanup_fields after_wait_fields)
  next
    case False
    have "s' = vme_dma_channel_release i s3" using ran(7) False by simp
    then show ?thesis using fin False c(1,3,4) ci ran(1,3) len by (simp add: release_fields no_chain_update)
  qed
  then have ch: "channels s' = (channels s)[i := c\<lparr>ch_hw_desc_list := [], ch_busy := False\<rparr>]"
    and rest: "pins_all k \<or> \<not> to_user \<longrightarrow> page_refs s' = page_refs s" "dom (pool_mem s') \<subseteq> dom (pool_mem s)" "wf_lcsr (lcsr s')" "dma_semaphore s' = dma_semaphore s"
    by blast+
  from dma_ok_return [OF assms(1) ran(1,2) ch _ _ _ rest(4,3)] rest c(2) show ?thesis by simp
qed

text \<open>
  C33: the scatter/gather list built for a user buffer describes it byte by byte. When
  \<open>get_user_pages\<close> gives the pages and the buffer is short enough for the page count not to wrap, the pages are pinned once
  each and the entries, read in order, are exactly the bytes of the buffer: nothing before its
  first byte, nothing after its last, no hole between pages.
\<close>

theorem buffer_described_byte_by_byte:
  assumes "dk_kmalloc_pages k" and "dk_get_user_pages k uaddr (dma_nr_pages uaddr len) = Inr pages"
    and "length pages = dma_nr_pages uaddr len" and "len \<noteq> 0" and "unat uaddr mod 4096 + unat len + 4095 < 2 ^ 32"
  shows "\<exists>sgl. sgl_map_user_pages k (dma_nr_pages uaddr len) uaddr len True refs
      = (Sgl_ok (int (length pages)) sgl, get_page_refs pages refs)
    \<and> sg_bytes sgl = buffer_bytes pages (unat uaddr mod 4096) (unat len)"
proof -
  have "0 < unat len" using assms(4) by (simp add: unat_eq_0 [symmetric])
  then have "dma_nr_pages uaddr len \<noteq> 0" using nr_pages_eq [OF assms(5)] by simp
  then have "sgl_map_user_pages k (dma_nr_pages uaddr len) uaddr len True refs
      = (Sgl_ok (int (length pages)) (fill_sgl uaddr len pages), get_page_refs pages refs)"
    using assms(1-3) by (simp add: sgl_map_user_pages_def sgl_fill_user_pages_def)
  then show ?thesis using fill_sgl_bytes [OF assms(5,3,4)] by blast
qed

text \<open>
  A failure to pin the buffer goes unnoticed. When \<open>get_user_pages\<close> refuses (or \<open>virt_addr_valid\<close> does for a
  kernel buffer), \<open>sgl_map_user_pages\<close> still returns the number of pages, with the list as the allocator
  left it, and \<open>vme_dma_setup\<close> hands that list to the chip instead of returning the error.
\<close>

lemma pin_failure_is_not_reported:
  assumes "dk_kmalloc_pages k"
    and "if to_user then dk_get_user_pages k uaddr nr = Inl e else \<not> dk_virt_addr_valid k uaddr"
  shows "sgl_map_user_pages k nr uaddr len to_user refs = (Sgl_ok (int nr) (map (dk_garbage k) [0..<nr]), refs)"
  using assms
  by (cases to_user) (simp_all add: sgl_map_user_pages_def sgl_fill_user_pages_def sgl_fill_kernel_pages_def)

section \<open>Examples\<close>

text \<open>Two idle channels, and a kernel whose user pages are 10, 11, \<open>\<dots>\<close>; pages are mapped at their number times 4096.\<close>

definition demo_dma_kernel :: dma_kernel where
  "demo_dma_kernel = \<lparr>dk_le = True, dk_kmalloc_sgl = True, dk_kmalloc_pages = True, dk_garbage = (\<lambda>_. (0, 0, 0)),
     dk_get_user_pages = (\<lambda>u n. Inr [10..<10 + n]), dk_virt_addr_valid = (\<lambda>_. False), dk_virt_to_page = (\<lambda>_. 0),
     dk_pci_map_sg = map (\<lambda>(p, l, off). (of_nat p * 0x1000 + off, l)), dk_supply = de_supply demo_env,
     dk_down = OK, dk_disabled_meanwhile = False, dk_wait = OK, dk_dsta = 0x02000000,
     dk_copy_from_user = True, dk_copy_to_user = True, dk_pool_create = True\<rparr>"

definition demo_dma_state :: dstate where
  "demo_dma_state = wstate.extend demo_start
     \<lparr>channels = [demo_chan\<lparr>ch_busy := False, ch_num := 0\<rparr>, demo_chan\<lparr>ch_busy := False\<rparr>],
      dma_semaphore = 2, dma_disable = False, dma_pool = True, pool_mem = (\<lambda>_. None), page_refs = (\<lambda>_. 1)\<rparr>"

lemma demo_dma_ok: "dma_ok demo_dma_state"
  by (simp add: dma_ok_def demo_dma_state_def wstate.defs demo_start_def idle_channels_def demo_chan_def wf_lcsr_def
      zero_lcsr_def less_2_cases_iff)

lemma demo_pins_all: "pins_all demo_dma_kernel"
  by (simp add: pins_all_def demo_dma_kernel_def)

theorem dma_request_is_balanced_witness:
  "\<exists>s'. vme_do_dma_to demo_dma_kernel demo_dma True demo_dma_state = (Dma_rc OK, demo_dma\<lparr>dm_status := 0x02000000\<rparr>, s')
     \<and> dma_ok s' \<and> page_refs s' = page_refs demo_dma_state"
proof -
  let ?x = "vme_do_dma_to demo_dma_kernel demo_dma True demo_dma_state"
  have "fst ?x = Dma_rc OK" "fst (snd ?x) = demo_dma\<lparr>dm_status := 0x02000000\<rparr>" by code_simp+
  then obtain s' where run: "?x = (Dma_rc OK, demo_dma\<lparr>dm_status := 0x02000000\<rparr>, s')" by (metis prod.collapse)
  from dma_request_is_balanced [OF demo_dma_ok run] demo_pins_all run show ?thesis by simp
qed

theorem buffer_described_byte_by_byte_witness:
  "\<exists>sgl. sgl_map_user_pages demo_dma_kernel 2 0x1f80 0x180 True (\<lambda>_. 1) = (Sgl_ok 2 sgl, get_page_refs [10, 11] (\<lambda>_. 1))
    \<and> sg_bytes sgl = buffer_bytes [10, 11] 0xf80 0x180"
proof -
  have nr: "dma_nr_pages 0x1f80 0x180 = 2" by (simp add: nr_pages_eq)
  show ?thesis
    using buffer_described_byte_by_byte [of demo_dma_kernel "0x1f80" "0x180" "[10, 11]" "\<lambda>_. 1"] nr
    by (simp add: demo_dma_kernel_def upt_rec [of 10] upt_rec [of 11] upt_rec [of 12])
qed

lemma pin_failure_is_not_reported_example:
  "sgl_map_user_pages (demo_dma_kernel\<lparr>dk_get_user_pages := (\<lambda>_ _. Inl EFAULT)\<rparr>) 2 0x1f80 0x180 True (\<lambda>_. 1)
    = (Sgl_ok 2 [(0, 0, 0), (0, 0, 0)], \<lambda>_. 1)"
  using pin_failure_is_not_reported [of "demo_dma_kernel\<lparr>dk_get_user_pages := (\<lambda>_ _. Inl EFAULT)\<rparr>" True "0x1f80" 2 EFAULT "0x180" "\<lambda>_. 1"]
  by (simp add: demo_dma_kernel_def numeral_2_eq_2)

end
