(* ===== verification/Vme_Dma_Sched.thy ===== *)
theory Vme_Dma_Sched
  imports Vme_Dma_Props
begin

text \<open>
  Several processes and the module's exit at work on the DMA channels at the same time. A process
  goes through the calls of \<open>vme_dma_channel_acquire\<close> and \<open>vme_dma_channel_release\<close> one atomic
  operation at a time (the check of the disable flag, the semaphore, the second check, the search
  under the mutex); \<open>vme_dma_exit\<close> does the same on its side. The relation \<open>sched_step\<close> interleaves them
  in every possible way.
\<close>

datatype proc =
    Idle
  | Entered     \<comment> \<open>found the flag clear, waits on the semaphore\<close>
  | Got         \<comment> \<open>through the semaphore\<close>
  | Undo        \<comment> \<open>found the flag set, about to give the semaphore back\<close>
  | Checked     \<comment> \<open>found the flag clear again, about to look for a channel\<close>
  | Holding nat \<comment> \<open>a transfer on that channel\<close>
  | Freed nat   \<comment> \<open>cleared the busy flag, about to give the semaphore back\<close>
  | Deadlk      \<comment> \<open>found no channel: \<open>-EDEADLK\<close>\<close>

datatype exiting = Not_exiting | Exit_wait nat | Exit_hold nat | Exited

record sstate = dstate +
  sc_procs :: "proc list"
  sc_exit :: exiting

abbreviation set_proc :: "nat \<Rightarrow> proc \<Rightarrow> sstate \<Rightarrow> sstate" where
  "set_proc p x s \<equiv> s\<lparr>sc_procs := (sc_procs s)[p := x]\<rparr>"

inductive sched_step :: "sstate \<Rightarrow> sstate \<Rightarrow> bool" where
  enter: "p < length (sc_procs s) \<Longrightarrow> sc_procs s ! p = Idle \<Longrightarrow> \<not> dma_disable s \<Longrightarrow> sched_step s (set_proc p Entered s)"
| down: "p < length (sc_procs s) \<Longrightarrow> sc_procs s ! p = Entered \<Longrightarrow> 0 < dma_semaphore s
    \<Longrightarrow> sched_step s (set_proc p Got (s\<lparr>dma_semaphore := dma_semaphore s - 1\<rparr>))"
| signal: "p < length (sc_procs s) \<Longrightarrow> sc_procs s ! p = Entered \<Longrightarrow> sched_step s (set_proc p Idle s)"
| disabled: "p < length (sc_procs s) \<Longrightarrow> sc_procs s ! p = Got \<Longrightarrow> dma_disable s \<Longrightarrow> sched_step s (set_proc p Undo s)"
| undo: "p < length (sc_procs s) \<Longrightarrow> sc_procs s ! p = Undo
    \<Longrightarrow> sched_step s (set_proc p Idle (s\<lparr>dma_semaphore := dma_semaphore s + 1\<rparr>))"
| check: "p < length (sc_procs s) \<Longrightarrow> sc_procs s ! p = Got \<Longrightarrow> \<not> dma_disable s \<Longrightarrow> sched_step s (set_proc p Checked s)"
| lock: "p < length (sc_procs s) \<Longrightarrow> sc_procs s ! p = Checked \<Longrightarrow> lock_avail_channel s = (Inr i, s')
    \<Longrightarrow> sched_step s (set_proc p (Holding i) s')"
| no_channel: "p < length (sc_procs s) \<Longrightarrow> sc_procs s ! p = Checked \<Longrightarrow> lock_avail_channel s = (Inl e, s')
    \<Longrightarrow> sched_step s (set_proc p Deadlk s')"
| transfer: "p < length (sc_procs s) \<Longrightarrow> sc_procs s ! p = Holding i \<Longrightarrow> ch_busy c
    \<Longrightarrow> sched_step s (s\<lparr>channels := (channels s)[i := c], lcsr := r, pool_mem := m, page_refs := pr\<rparr>)"
| free: "p < length (sc_procs s) \<Longrightarrow> sc_procs s ! p = Holding i
    \<Longrightarrow> sched_step s (set_proc p (Freed i) (s\<lparr>channels := (channels s)[i := (channels s ! i)\<lparr>ch_busy := False\<rparr>]\<rparr>))"
| up: "p < length (sc_procs s) \<Longrightarrow> sc_procs s ! p = Freed i
    \<Longrightarrow> sched_step s (set_proc p Idle (s\<lparr>dma_semaphore := dma_semaphore s + 1\<rparr>))"
| exit_begin: "sc_exit s = Not_exiting
    \<Longrightarrow> sched_step s (s\<lparr>dma_disable := True, sc_exit := Exit_wait TSI148_NUM_DMA_CHANNELS,
          lcsr := fold (\<lambda>i. tsi148_dma_abort (ch_num (channels s ! i))) [0..<TSI148_NUM_DMA_CHANNELS] (lcsr s)\<rparr>)"
| exit_down: "sc_exit s = Exit_wait (Suc n) \<Longrightarrow> 0 < dma_semaphore s
    \<Longrightarrow> sched_step s (s\<lparr>dma_semaphore := dma_semaphore s - 1, sc_exit := Exit_hold n\<rparr>)"
| exit_up: "sc_exit s = Exit_hold n \<Longrightarrow> sched_step s (s\<lparr>dma_semaphore := dma_semaphore s + 1, sc_exit := Exit_wait n\<rparr>)"
| exit_done: "sc_exit s = Exit_wait 0 \<Longrightarrow> sched_step s (s\<lparr>dma_pool := tsi148_dma_exit (dma_pool s), sc_exit := Exited\<rparr>)"

inductive_cases sched_stepE: "sched_step s t"

definition sched_start :: "sstate \<Rightarrow> bool" where
  "sched_start s \<longleftrightarrow> length (channels s) = TSI148_NUM_DMA_CHANNELS \<and> (\<forall>c \<in> set (channels s). \<not> ch_busy c)
     \<and> dma_semaphore s = TSI148_NUM_DMA_CHANNELS \<and> \<not> dma_disable s
     \<and> (\<forall>x \<in> set (sc_procs s). x = Idle) \<and> sc_exit s = Not_exiting"

section \<open>Who holds what\<close>

fun holds :: "proc \<Rightarrow> bool" where
  "holds Got = True" | "holds Undo = True" | "holds Checked = True" | "holds (Holding i) = True"
| "holds (Freed i) = True" | "holds _ = False"

fun exit_holds :: "exiting \<Rightarrow> nat" where
  "exit_holds (Exit_hold n) = 1" | "exit_holds _ = 0"

text \<open>
  The invariant, over the busy flags, the semaphore, the processes and the exit: the semaphore
  counts who is not inside, a channel is busy exactly when a process holds it, no two processes
  hold the same one, and nobody found all channels taken.
\<close>

definition shared_ok :: "bool list \<Rightarrow> nat \<Rightarrow> proc list \<Rightarrow> exiting \<Rightarrow> bool" where
  "shared_ok b sem ps ex \<longleftrightarrow> length b = TSI148_NUM_DMA_CHANNELS
     \<and> sem + length (filter holds ps) + exit_holds ex = TSI148_NUM_DMA_CHANNELS \<and> Deadlk \<notin> set ps
     \<and> (\<forall>i < length b. b ! i \<longleftrightarrow> Holding i \<in> set ps)
     \<and> (\<forall>p < length ps. \<forall>i. ps ! p = Holding i \<longrightarrow> i < length b \<and> (\<forall>q < length ps. ps ! q = Holding i \<longrightarrow> p = q))"

definition sched_inv :: "sstate \<Rightarrow> bool" where
  "sched_inv s \<longleftrightarrow> shared_ok (map ch_busy (channels s)) (dma_semaphore s) (sc_procs s) (sc_exit s)"

lemma in_set_update:
  assumes "p < length xs" and "xs ! p \<noteq> y"
  shows "y \<in> set (xs[p := x]) \<longleftrightarrow> y = x \<or> y \<in> set xs"
  using assms by (auto simp: in_set_conv_nth nth_list_update)

text \<open>A process that is not on a channel, before or after, moves the semaphore at most.\<close>

lemma shared_ok_move:
  assumes "shared_ok b m ps ex" and "p < length ps" and "\<forall>i. ps ! p \<noteq> Holding i" and "\<forall>i. x \<noteq> Holding i" and "x \<noteq> Deadlk"
    and "n + (if holds x then 1 else 0) = m + (if holds (ps ! p) then 1 else 0)"
  shows "shared_ok b n (ps[p := x]) ex"
proof -
  have "n + length (filter holds (ps[p := x])) = m + length (filter holds ps)"
    using filter_update_length [OF assms(2), of holds x] assms(6) by (simp split: if_splits)
  moreover have "Holding i \<in> set (ps[p := x]) \<longleftrightarrow> Holding i \<in> set ps" for i
    using in_set_update [OF assms(2)] assms(3,4) by (metis (no_types))
  moreover have "Deadlk \<notin> set (ps[p := x])"
    using assms(1,5) set_update_subset_insert [of ps p x] by (auto simp: shared_ok_def)
  moreover have "(ps[p := x]) ! q = Holding i \<longleftrightarrow> ps ! q = Holding i" for q i
    using assms(2-4) by (metis nth_list_update)
  ultimately show ?thesis using assms(1) unfolding shared_ok_def length_list_update by auto
qed

lemma shared_ok_parts:
  assumes "shared_ok b m ps ex"
  shows "length b = 2" "m + length (filter holds ps) + exit_holds ex = 2" "Deadlk \<notin> set ps"
    "\<And>i. i < 2 \<Longrightarrow> b ! i \<longleftrightarrow> Holding i \<in> set ps"
  using assms unfolding shared_ok_def by simp_all

lemma shared_okD:
  assumes "shared_ok b m ps ex" and "p < length ps" and "ps ! p = Holding i"
  shows "i < 2" "\<And>q. q < length ps \<Longrightarrow> ps ! q = Holding i \<Longrightarrow> p = q" "b ! i"
proof -
  show i: "i < 2" and "\<And>q. q < length ps \<Longrightarrow> ps ! q = Holding i \<Longrightarrow> p = q"
    using assms unfolding shared_ok_def by (metis, metis)
  show "b ! i" using shared_ok_parts(4) [OF assms(1) i] assms(2,3) by (metis nth_mem)
qed

lemma shared_ok_lock:
  assumes "shared_ok b m ps ex" and "p < length ps" and "ps ! p = Checked" and "i < 2" and "\<not> b ! i"
  shows "shared_ok (b[i := True]) m (ps[p := Holding i]) ex"
proof -
  note parts = shared_ok_parts [OF assms(1)]
  have len: "length b = 2" and free: "Holding i \<notin> set ps" using parts(1,4) assms(4,5) by auto
  have "length (filter holds (ps[p := Holding i])) = length (filter holds ps)"
    using filter_update_length [OF assms(2), of holds "Holding i"] assms(3) by simp
  moreover have mem: "y \<in> set (ps[p := Holding i]) \<longleftrightarrow> y = Holding i \<or> y \<in> set ps" if "y \<noteq> Checked" for y
    using in_set_update [OF assms(2), of y "Holding i"] assms(3) that by simp
  moreover have "(b[i := True]) ! j \<longleftrightarrow> Holding j \<in> set (ps[p := Holding i])" if "j < 2" for j
    using parts(4) [OF that] assms(4) len that mem [of "Holding j"] by (simp add: nth_list_update)
  moreover have "j < 2 \<and> (\<forall>q' < length ps. (ps[p := Holding i]) ! q' = Holding j \<longrightarrow> q = q')"
    if "q < length ps" "(ps[p := Holding i]) ! q = Holding j" for q j
  proof (cases "q = p")
    case True
    then have "j = i" using that assms(2) by simp
    then show ?thesis using assms(4) free True by (metis nth_list_update_neq nth_mem)
  next
    case False
    then have q: "ps ! q = Holding j" using that by simp
    then have "j \<noteq> i" using free that(1) by (metis nth_mem)
    then have "(ps[p := Holding i]) ! q' = Holding j \<longleftrightarrow> ps ! q' = Holding j" if "q' < length ps" for q'
      using that assms(2,3) by (cases "q' = p") auto
    then show ?thesis using shared_okD [OF assms(1) that(1) q] by auto
  qed
  ultimately show ?thesis
    using parts len unfolding shared_ok_def length_list_update by auto
qed

lemma shared_ok_free:
  assumes "shared_ok b m ps ex" and "p < length ps" and "ps ! p = Holding i"
  shows "i < 2" "shared_ok (b[i := False]) m (ps[p := Freed i]) ex"
proof -
  note parts = shared_ok_parts [OF assms(1)]
  show i: "i < 2" by (rule shared_okD [OF assms])
  have len: "length b = 2" by (rule parts)
  have "length (filter holds (ps[p := Freed i])) = length (filter holds ps)"
    using filter_update_length [OF assms(2), of holds "Freed i"] assms(3) by simp
  moreover have mem: "y \<in> set (ps[p := Freed i]) \<longleftrightarrow> y = Freed i \<or> y \<in> set ps" if "y \<noteq> Holding i" for y
    using in_set_update [OF assms(2), of y "Freed i"] assms(3) that by simp
  moreover have "Holding i \<notin> set (ps[p := Freed i])"
    using assms(2) shared_okD(2) [OF assms] by (auto simp: in_set_conv_nth nth_list_update split: if_splits)
  then have "(b[i := False]) ! j \<longleftrightarrow> Holding j \<in> set (ps[p := Freed i])" if "j < 2" for j
    using parts(4) [OF that] i len that mem [of "Holding j"] by (cases "j = i") (simp_all add: nth_list_update)
  moreover have "j < 2 \<and> (\<forall>q' < length ps. (ps[p := Freed i]) ! q' = Holding j \<longrightarrow> q = q')"
    if "q < length ps" "(ps[p := Freed i]) ! q = Holding j" for q j
  proof -
    have other: "ps ! q' = Holding j" if "q' < length ps" "(ps[p := Freed i]) ! q' = Holding j" for q'
      using that assms(2) by (cases "q' = p") auto
    show ?thesis using shared_okD [OF assms(1) that(1) other [OF that]] other by auto
  qed
  ultimately show "shared_ok (b[i := False]) m (ps[p := Freed i]) ex"
    using parts len unfolding shared_ok_def length_list_update by auto
qed

text \<open>Two busy channels and a third process inside would be three past a semaphore of two.\<close>

lemma shared_ok_idle:
  assumes "shared_ok b m ps ex" and "p < length ps" and "ps ! p = Checked"
  shows "\<exists>i < 2. \<not> b ! i"
proof (rule ccontr)
  assume "\<not> ?thesis"
  then have "Holding 0 \<in> set ps" "Holding 1 \<in> set ps" using assms(1) by (auto simp: shared_ok_def)
  then obtain q r where qr: "q < length ps" "ps ! q = Holding 0" "r < length ps" "ps ! r = Holding 1"
    by (auto simp: in_set_conv_nth)
  then have dist: "card {p, q, r} = 3" using assms(3) by (auto simp: card_insert_if)
  have "{p, q, r} \<subseteq> {i. i < length ps \<and> holds (ps ! i)}" using assms(2,3) qr by auto
  from card_mono [OF _ this] have "3 \<le> length (filter holds ps)" using dist by (simp add: length_filter_conv_card)
  then show False using assms(1) by (simp add: shared_ok_def)
qed

lemma lock_avail_channel_cases:
  assumes "lock_avail_channel s = (r, s')" and "\<exists>i < 2. \<not> map ch_busy (channels s) ! i" and "length (channels s) = 2"
  obtains i where "r = Inr i" "i < 2" "\<not> map ch_busy (channels s) ! i"
    "s' = s\<lparr>channels := (channels s)[i := (channels s ! i)\<lparr>ch_busy := True\<rparr>]\<rparr>"
proof -
  have "first_idle (channels s) 0 \<noteq> None" using assms(2,3) by (auto simp: first_idle_None)
  then obtain i where i: "first_idle (channels s) 0 = Some i" by blast
  have "i < 2" "\<not> map ch_busy (channels s) ! i" using first_idle_Some [OF i] assms(3) by auto
  then show ?thesis using that [of i] assms(1) i by (auto simp: lock_avail_channel_def)
qed

lemma shared_ok_exit: "shared_ok b m ps ex \<Longrightarrow> n + exit_holds ex' = m + exit_holds ex \<Longrightarrow> shared_ok b n ps ex'"
  unfolding shared_ok_def by auto

lemma sched_inv_move:
  assumes "sched_inv s" and "p < length (sc_procs s)" and "\<forall>i. sc_procs s ! p \<noteq> Holding i" and "\<forall>i. x \<noteq> Holding i" and "x \<noteq> Deadlk"
    and "n + (if holds x then 1 else 0) = dma_semaphore s + (if holds (sc_procs s ! p) then 1 else 0)"
    and "channels t = channels s" and "dma_semaphore t = n" and "sc_procs t = (sc_procs s)[p := x]" and "sc_exit t = sc_exit s"
  shows "sched_inv t"
  using shared_ok_move [OF assms(1) [unfolded sched_inv_def] assms(2-6)] assms(7-10) by (simp only: sched_inv_def)

lemma sched_inv_exit:
  assumes "sched_inv s" and "n + exit_holds ex = dma_semaphore s + exit_holds (sc_exit s)"
    and "channels t = channels s" and "dma_semaphore t = n" and "sc_procs t = sc_procs s" and "sc_exit t = ex"
  shows "sched_inv t"
  using shared_ok_exit [OF assms(1) [unfolded sched_inv_def] assms(2)] assms(3-6) by (simp only: sched_inv_def)

lemma sched_inv_step: "sched_step s t \<Longrightarrow> sched_inv s \<Longrightarrow> sched_inv t"
proof (induction rule: sched_step.induct)
  case (lock p s i s')
  note inv = lock.prems [unfolded sched_inv_def]
  from shared_ok_parts(1) [OF inv] have "length (channels s) = 2" by simp
  from lock_avail_channel_cases [OF lock.hyps(3) shared_ok_idle [OF inv lock.hyps(1,2)] this]
  obtain j where "i = j" and j: "j < 2" "\<not> map ch_busy (channels s) ! j"
    "s' = s\<lparr>channels := (channels s)[j := (channels s ! j)\<lparr>ch_busy := True\<rparr>]\<rparr>" by (metis sum.inject(2))
  then show ?case using shared_ok_lock [OF inv lock.hyps(1,2) j(1,2)] by (simp add: sched_inv_def map_update)
next
  case (no_channel p s e s')
  note inv = no_channel.prems [unfolded sched_inv_def]
  from shared_ok_parts(1) [OF inv] have "length (channels s) = 2" by simp
  from lock_avail_channel_cases [OF no_channel.hyps(3) shared_ok_idle [OF inv no_channel.hyps(1,2)] this]
  show ?case by (metis sum.distinct(1))
next
  case (transfer p s i c r m pr)
  note inv = transfer.prems [unfolded sched_inv_def]
  have "(map ch_busy (channels s))[i := True] = map ch_busy (channels s)"
    using shared_okD(3) [OF inv transfer.hyps(1,2)] by (metis (full_types) list_update_id)
  then show ?case using inv transfer.hyps(3) by (simp add: sched_inv_def map_update)
next
  case (free p s i)
  then show ?case using shared_ok_free(2) [OF free.prems [unfolded sched_inv_def] free.hyps(1,2)]
    by (simp add: sched_inv_def map_update)
qed (erule sched_inv_move sched_inv_exit; simp; fail)+

lemma sched_inv_start:
  assumes "sched_start s"
  shows "sched_inv s"
proof -
  have idle: "x = Idle" if "x \<in> set (sc_procs s)" for x using assms that by (simp add: sched_start_def)
  have "filter holds (sc_procs s) = []" using idle by (auto simp: filter_empty_conv dest!: idle)
  moreover have "Deadlk \<notin> set (sc_procs s)" "Holding i \<notin> set (sc_procs s)" for i using idle by blast+
  moreover from this have "sc_procs s ! p \<noteq> Holding i" if "p < length (sc_procs s)" for p i using that by (metis nth_mem)
  ultimately show ?thesis using assms by (simp add: sched_inv_def shared_ok_def sched_start_def)
qed

interpretation sched: invariant_system sched_start sched_step sched_inv
  by unfold_locales (auto intro: sched_inv_start sched_inv_step)

section \<open>The channels are never shared\<close>

text \<open>
  C4: whatever processes and the module's exit do in whatever order, no two processes are ever on the same
  DMA channel, a channel is flagged busy exactly while a process is on it, and a process that got through the
  semaphore always finds a channel: the \<open>-EDEADLK\<close> of \<open>__lock_avail_channel\<close> cannot happen.
\<close>

theorem dma_channels_are_exclusive:
  assumes "sched_start s" and "sched_step\<^sup>*\<^sup>* s t"
  shows "Deadlk \<notin> set (sc_procs t)
    \<and> (\<forall>p < length (sc_procs t). \<forall>q < length (sc_procs t). \<forall>i.
         sc_procs t ! p = Holding i \<longrightarrow> sc_procs t ! q = Holding i \<longrightarrow> p = q)
    \<and> (\<forall>i < 2. ch_busy (channels t ! i) \<longleftrightarrow> Holding i \<in> set (sc_procs t))
    \<and> (\<forall>i. Holding i \<in> set (sc_procs t) \<longrightarrow> i < 2)
    \<and> dma_semaphore t \<le> 2"
proof -
  have inv: "shared_ok (map ch_busy (channels t)) (dma_semaphore t) (sc_procs t) (sc_exit t)"
    using sched.reachable_invar [OF assms] by (simp add: sched_inv_def)
  have "ch_busy (channels t ! i) \<longleftrightarrow> Holding i \<in> set (sc_procs t)" if "i < 2" for i
    using shared_ok_parts(1,4) [OF inv] that by simp
  moreover have "i < 2" if "Holding i \<in> set (sc_procs t)" for i
    using shared_okD(1) [OF inv] that by (auto simp: in_set_conv_nth)
  ultimately show ?thesis using shared_ok_parts(2,3) [OF inv] shared_okD(2) [OF inv] by simp
qed

text \<open>Every process past the semaphore can go on, and gives it back.\<close>

lemma step_then: "sched_step s u \<Longrightarrow> \<exists>t. sched_step\<^sup>*\<^sup>* u t \<and> P t \<Longrightarrow> \<exists>t. sched_step\<^sup>*\<^sup>* s t \<and> P t"
  by (meson converse_rtranclp_into_rtranclp)

lemma step_now: "sched_step s t \<Longrightarrow> P t \<Longrightarrow> \<exists>t. sched_step\<^sup>*\<^sup>* s t \<and> P t"
  by (meson r_into_rtranclp)

lemma proc_can_release:
  assumes "sched_inv s" and "p < length (sc_procs s)" and "holds (sc_procs s ! p)"
  shows "\<exists>t. sched_step\<^sup>*\<^sup>* s t \<and> 0 < dma_semaphore t"
proof -
  have freed: "\<exists>t. sched_step\<^sup>*\<^sup>* s t \<and> 0 < dma_semaphore t"
    if "p < length (sc_procs s)" "sc_procs s ! p = Freed i" for s i
    by (rule step_now [OF sched_step.up [OF that]]) simp
  have holding: "\<exists>t. sched_step\<^sup>*\<^sup>* s t \<and> 0 < dma_semaphore t"
    if "p < length (sc_procs s)" "sc_procs s ! p = Holding i" for s i
  proof -
    let ?s = "set_proc p (Freed i) (s\<lparr>channels := (channels s)[i := (channels s ! i)\<lparr>ch_busy := False\<rparr>]\<rparr>)"
    have "\<exists>t. sched_step\<^sup>*\<^sup>* ?s t \<and> 0 < dma_semaphore t" using that by (intro freed [of _ i]) simp_all
    then show ?thesis by (rule step_then [OF sched_step.free [OF that]])
  qed
  have checked: "\<exists>t. sched_step\<^sup>*\<^sup>* s t \<and> 0 < dma_semaphore t"
    if "sched_inv s" "p < length (sc_procs s)" "sc_procs s ! p = Checked" for s
  proof -
    note inv = that(1) [unfolded sched_inv_def]
    obtain r s' where run: "lock_avail_channel s = (r, s')" by fastforce
    have "length (channels s) = 2" using shared_ok_parts(1) [OF inv] by simp
    from lock_avail_channel_cases [OF run shared_ok_idle [OF inv that(2,3)] this]
    obtain i where i: "r = Inr i" "s' = s\<lparr>channels := (channels s)[i := (channels s ! i)\<lparr>ch_busy := True\<rparr>]\<rparr>" by metis
    have "\<exists>t. sched_step\<^sup>*\<^sup>* (set_proc p (Holding i) s') t \<and> 0 < dma_semaphore t"
      using that i(2) by (intro holding [of _ i]) simp_all
    then show ?thesis by (rule step_then [OF sched_step.lock [OF that(2,3) run [unfolded i(1)]]])
  qed
  have undo: "\<exists>t. sched_step\<^sup>*\<^sup>* s t \<and> 0 < dma_semaphore t"
    if "p < length (sc_procs s)" "sc_procs s ! p = Undo" for s
    by (rule step_now [OF sched_step.undo [OF that]]) simp
  have got: "\<exists>t. sched_step\<^sup>*\<^sup>* s t \<and> 0 < dma_semaphore t" if st: "sc_procs s ! p = Got"
  proof (cases "dma_disable s")
    case True
    have "\<exists>t. sched_step\<^sup>*\<^sup>* (set_proc p Undo s) t \<and> 0 < dma_semaphore t" using assms(2) by (intro undo) simp_all
    then show ?thesis by (rule step_then [OF sched_step.disabled [OF assms(2) st True]])
  next
    case False
    note step = sched_step.check [OF assms(2) st False]
    have "\<exists>t. sched_step\<^sup>*\<^sup>* (set_proc p Checked s) t \<and> 0 < dma_semaphore t"
      using assms(2) sched_inv_step [OF step assms(1)] by (intro checked) simp_all
    then show ?thesis by (rule step_then [OF step])
  qed
  show ?thesis
    using assms freed holding checked undo got by (cases "sc_procs s ! p") auto
qed

text \<open>
  C34: the queue for the DMA channels never gets stuck: from every state that can be reached, whoever waits
  on the semaphore (a process, or the module's exit), there is a way on in which the semaphore is free again.
\<close>

theorem dma_queue_never_stuck:
  assumes "sched_start s" and "sched_step\<^sup>*\<^sup>* s t"
  shows "\<exists>u. sched_step\<^sup>*\<^sup>* t u \<and> 0 < dma_semaphore u"
proof -
  have inv: "sched_inv t" by (rule sched.reachable_invar [OF assms])
  note sum = shared_ok_parts(2) [OF inv [unfolded sched_inv_def]]
  consider "0 < dma_semaphore t" | n where "sc_exit t = Exit_hold n" | "0 < length (filter holds (sc_procs t))"
    using sum by (cases "sc_exit t"; cases "dma_semaphore t"; cases "filter holds (sc_procs t)") auto
  then show ?thesis
  proof cases
    case 1
    then show ?thesis by blast
  next
    case (2 n)
    from step_now [OF sched_step.exit_up [OF this]] show ?thesis by simp
  next
    case 3
    then obtain x where "x \<in> set (sc_procs t)" "holds x" by (auto simp: filter_empty_conv)
    then show ?thesis using proc_can_release [OF inv] by (metis in_set_conv_nth)
  qed
qed

text \<open>
  Once the disable flag is set it stays set, and no process starts a transfer that had not passed the
  second check before: the processes that are past it only get fewer.
\<close>

lemma disable_stops_new_transfers:
  assumes "sched_step\<^sup>*\<^sup>* s t" and "dma_disable s"
  shows "dma_disable t \<and> length (sc_procs t) = length (sc_procs s)
    \<and> (\<forall>p < length (sc_procs s). (sc_procs t ! p = Checked \<or> (\<exists>i. sc_procs t ! p = Holding i))
         \<longrightarrow> (sc_procs s ! p = Checked \<or> (\<exists>i. sc_procs s ! p = Holding i)))"
  using assms
proof (induction rule: rtranclp_induct)
  case (step t u)
  have "dma_disable t" and IH: "length (sc_procs t) = length (sc_procs s)" using step.IH step.prems by auto
  have "dma_disable u \<and> length (sc_procs u) = length (sc_procs t)
      \<and> (\<forall>p < length (sc_procs t). (sc_procs u ! p = Checked \<or> (\<exists>i. sc_procs u ! p = Holding i))
         \<longrightarrow> (sc_procs t ! p = Checked \<or> (\<exists>i. sc_procs t ! p = Holding i)))"
    using step.hyps(2) \<open>dma_disable t\<close>
    by (cases rule: sched_step.cases)
      (auto simp: nth_list_update lock_avail_channel_def split: if_splits option.splits)
  then show ?case using step.IH step.prems IH by metis
qed simp

text \<open>
  C35: \<open>vme_dma_exit\<close> does not wait until all the channels are idle. It takes and gives back the semaphore
  once per channel; as long as one channel is idle the same slot serves both rounds, so that it
  can run to its end, destroying the descriptor pool, while a process is still on the other channel.
\<close>

lemma exit_does_not_wait_for_transfers:
  assumes "sc_exit t = Not_exiting" and "0 < dma_semaphore t"
  shows "\<exists>u. sched_step\<^sup>*\<^sup>* t u \<and> sc_exit u = Exited \<and> \<not> dma_pool u \<and> sc_procs u = sc_procs t \<and> channels u = channels t"
proof -
  let ?m = "dma_semaphore t"
  let ?e = "t\<lparr>dma_disable := True, sc_exit := Exit_wait 2,
      lcsr := fold (\<lambda>i. tsi148_dma_abort (ch_num (channels t ! i))) [0..<2] (lcsr t)\<rparr>"
  have begin_: "sched_step t ?e" by (rule sched_step.exit_begin [OF assms(1)])
  have round: "sched_step\<^sup>*\<^sup>* s (s\<lparr>sc_exit := Exit_wait n\<rparr>)" if "sc_exit s = Exit_wait (Suc n)" "0 < dma_semaphore s" for s n
  proof -
    let ?h = "s\<lparr>dma_semaphore := dma_semaphore s - 1, sc_exit := Exit_hold n\<rparr>"
    have "sched_step s ?h" by (rule sched_step.exit_down [OF that])
    moreover have "sched_step ?h (?h\<lparr>dma_semaphore := dma_semaphore ?h + 1, sc_exit := Exit_wait n\<rparr>)"
      by (rule sched_step.exit_up) simp
    moreover have "?h\<lparr>dma_semaphore := dma_semaphore ?h + 1, sc_exit := Exit_wait n\<rparr> = s\<lparr>sc_exit := Exit_wait n\<rparr>"
      using that(2) by simp
    ultimately show ?thesis by (metis r_into_rtranclp rtranclp.rtrancl_into_rtrancl)
  qed
  have "sched_step\<^sup>*\<^sup>* ?e (?e\<lparr>sc_exit := Exit_wait 1\<rparr>)" using assms(2) by (intro round) (simp_all add: numeral_2_eq_2)
  moreover have "sched_step\<^sup>*\<^sup>* (?e\<lparr>sc_exit := Exit_wait 1\<rparr>) (?e\<lparr>sc_exit := Exit_wait 1, sc_exit := Exit_wait 0\<rparr>)"
    using assms(2) by (intro round) simp_all
  moreover have "sched_step (?e\<lparr>sc_exit := Exit_wait 1, sc_exit := Exit_wait 0\<rparr>)
      (?e\<lparr>sc_exit := Exit_wait 1, sc_exit := Exit_wait 0, dma_pool := tsi148_dma_exit (dma_pool t), sc_exit := Exited\<rparr>)"
    using sched_step.exit_done [of "?e\<lparr>sc_exit := Exit_wait 1, sc_exit := Exit_wait 0\<rparr>"] by simp
  ultimately have "sched_step\<^sup>*\<^sup>* t
      (?e\<lparr>sc_exit := Exit_wait 1, sc_exit := Exit_wait 0, dma_pool := tsi148_dma_exit (dma_pool t), sc_exit := Exited\<rparr>)"
    using begin_ by (meson converse_rtranclp_into_rtranclp rtranclp.rtrancl_into_rtrancl rtranclp_trans)
  then show ?thesis
    by (intro exI [of _ "?e\<lparr>sc_exit := Exit_wait 1, sc_exit := Exit_wait 0, dma_pool := tsi148_dma_exit (dma_pool t), sc_exit := Exited\<rparr>"])
      (simp add: tsi148_dma_exit_def)
qed

section \<open>Examples\<close>

text \<open>Two processes; the first gets a channel.\<close>

definition demo_sched :: sstate where
  "demo_sched = dstate.extend demo_dma_state \<lparr>sc_procs = [Idle, Idle], sc_exit = Not_exiting\<rparr>"

definition demo_running :: sstate where
  "demo_running = (snd (lock_avail_channel (demo_sched\<lparr>dma_semaphore := 1\<rparr>)))\<lparr>sc_procs := [Holding 0, Idle]\<rparr>"

lemma demo_sched_start: "sched_start demo_sched"
  by (simp add: sched_start_def demo_sched_def dstate.defs demo_dma_state_def wstate.defs demo_chan_def)

lemma demo_running_reachable: "sched_step\<^sup>*\<^sup>* demo_sched demo_running"
proof -
  let ?a = "demo_sched\<lparr>sc_procs := [Entered, Idle]\<rparr>" and ?b = "demo_sched\<lparr>dma_semaphore := 1, sc_procs := [Got, Idle]\<rparr>"
    and ?c = "demo_sched\<lparr>dma_semaphore := 1, sc_procs := [Checked, Idle]\<rparr>"
  have f: "sc_procs demo_sched = [Idle, Idle]" "\<not> dma_disable demo_sched" "dma_semaphore demo_sched = 2"
    by (simp_all add: demo_sched_def dstate.defs demo_dma_state_def wstate.defs)
  have "sched_step demo_sched ?a" using sched_step.enter [of 0 demo_sched] f by simp
  moreover have "sched_step ?a ?b" using sched_step.down [of 0 ?a] f by simp
  moreover have "sched_step ?b ?c" using sched_step.check [of 0 ?b] f by simp
  moreover have "lock_avail_channel ?c = (Inr 0, snd (lock_avail_channel ?c))"
    "(snd (lock_avail_channel ?c))\<lparr>sc_procs := [Holding 0, Idle]\<rparr> = demo_running"
    by (simp_all add: demo_running_def demo_sched_def dstate.defs demo_dma_state_def wstate.defs lock_avail_channel_def demo_chan_def)
  then have "sched_step ?c demo_running"
    using sched_step.lock [of 0 ?c 0 "snd (lock_avail_channel ?c)"]
    by (simp add: lock_avail_channel_def split: option.splits)
  ultimately show ?thesis by (meson converse_rtranclp_into_rtranclp rtranclp.rtrancl_refl)
qed

lemma demo_running_fields:
  "sc_procs demo_running = [Holding 0, Idle]" "sc_exit demo_running = Not_exiting" "dma_semaphore demo_running = 1"
  "\<not> dma_disable demo_running"
  by (simp_all add: demo_running_def demo_sched_def dstate.defs demo_dma_state_def wstate.defs lock_avail_channel_def demo_chan_def)

theorem dma_channels_are_exclusive_witness:
  "ch_busy (channels demo_running ! 0) \<and> \<not> ch_busy (channels demo_running ! 1)"
  using dma_channels_are_exclusive [OF demo_sched_start demo_running_reachable] by (simp add: demo_running_fields)

theorem dma_queue_never_stuck_witness: "\<exists>u. sched_step\<^sup>*\<^sup>* demo_running u \<and> 0 < dma_semaphore u"
  by (rule dma_queue_never_stuck [OF demo_sched_start demo_running_reachable])

lemma disable_stops_new_transfers_example:
  "dma_disable (demo_running\<lparr>dma_disable := True,
     channels := (channels demo_running)[0 := (channels demo_running ! 0)\<lparr>ch_busy := False\<rparr>], sc_procs := [Freed 0, Idle]\<rparr>)"
proof -
  let ?s = "demo_running\<lparr>dma_disable := True\<rparr>"
  have "sched_step ?s (demo_running\<lparr>dma_disable := True,
      channels := (channels demo_running)[0 := (channels demo_running ! 0)\<lparr>ch_busy := False\<rparr>], sc_procs := [Freed 0, Idle]\<rparr>)"
    using sched_step.free [of 0 ?s 0] by (simp add: demo_running_fields)
  from disable_stops_new_transfers [OF r_into_rtranclp [of sched_step, OF this]] show ?thesis by simp
qed

lemma exit_does_not_wait_for_transfers_example:
  "\<exists>u. sched_step\<^sup>*\<^sup>* demo_running u \<and> sc_exit u = Exited \<and> sc_procs u ! 0 = Holding 0"
  using exit_does_not_wait_for_transfers [of demo_running] by (auto simp: demo_running_fields)

end
