(* ===== verification/Vme_Irq.thy ===== *)
theory Vme_Irq
  imports Vme_Dma
begin

text \<open>
  Interrupt management (\<open>src/vmebridge/driver/vme_irq.c\<close>, with \<open>handle_dma_interrupt\<close> of \<open>vme_dma.c\<close>): the
  table of handlers for the 256 VME vectors, the counters, the bridge's interrupt handler, and the
  enabling of interrupts.

  A handler and its argument are numbers; calling one, waking a channel's queue and the warning on a left-over
  bit are events in the list that the interrupt handler returns. The hardware during one run is a pair
  of functions: \<open>rd n\<close> is the interrupt status at the \<open>n\<close>-th turn of the loop, \<open>viack n\<close> the bytes of
  the IACK window then.
\<close>

section \<open>State\<close>

record vme_irq =
  vi_handler :: "nat option"
  vi_arg :: nat
  vi_count :: u32
  vi_name :: "string option"

abbreviation (input) VME_NUM_VECTORS :: nat where "VME_NUM_VECTORS \<equiv> 256"

record istate = dstate +
  vme_irq_table :: "vme_irq list"
  int_stats :: "u32 list"
  vme_interrupts_enabled :: u32

text \<open>\<open>enum interrupt_idx\<close>.\<close>

abbreviation (input) INT_DMA0 :: nat where "INT_DMA0 \<equiv> 0"
abbreviation (input) INT_DMA1 :: nat where "INT_DMA1 \<equiv> 1"
abbreviation (input) INT_MB0 :: nat where "INT_MB0 \<equiv> 2"
abbreviation (input) INT_MB1 :: nat where "INT_MB1 \<equiv> 3"
abbreviation (input) INT_MB2 :: nat where "INT_MB2 \<equiv> 4"
abbreviation (input) INT_MB3 :: nat where "INT_MB3 \<equiv> 5"
abbreviation (input) INT_LM0 :: nat where "INT_LM0 \<equiv> 6"
abbreviation (input) INT_LM1 :: nat where "INT_LM1 \<equiv> 7"
abbreviation (input) INT_LM2 :: nat where "INT_LM2 \<equiv> 8"
abbreviation (input) INT_LM3 :: nat where "INT_LM3 \<equiv> 9"
abbreviation (input) INT_IRQ1 :: nat where "INT_IRQ1 \<equiv> 10"
abbreviation (input) INT_PERR :: nat where "INT_PERR \<equiv> 17"
abbreviation (input) INT_VERR :: nat where "INT_VERR \<equiv> 18"
abbreviation (input) INT_SPURIOUS :: nat where "INT_SPURIOUS \<equiv> 19"

abbreviation (input) TSI148_LCSR_INT_DMA_M :: u32 where "TSI148_LCSR_INT_DMA_M \<equiv> 0x3000000"
abbreviation (input) TSI148_LCSR_INT_LM_M :: u32 where "TSI148_LCSR_INT_LM_M \<equiv> 0xf00000"
abbreviation (input) TSI148_LCSR_INT_MB_M :: u32 where "TSI148_LCSR_INT_MB_M \<equiv> 0xf0000"
abbreviation (input) TSI148_LCSR_INT_PERR :: u32 where "TSI148_LCSR_INT_PERR \<equiv> 0x2000"
abbreviation (input) TSI148_LCSR_INT_VERR :: u32 where "TSI148_LCSR_INT_VERR \<equiv> 0x1000"
abbreviation (input) TSI148_LCSR_INT_IRQM :: u32 where "TSI148_LCSR_INT_IRQM \<equiv> 0xfe"

datatype irq_event =
    Wake_up nat
  | Berr_call nat vme_bus_error
  | Irq_call nat nat
  | Unhandled u32

datatype irqreturn = IRQ_NONE | IRQ_HANDLED

section \<open>The handlers of the sources\<close>

definition bump :: "nat \<Rightarrow> 'a istate_scheme \<Rightarrow> 'a istate_scheme" where
  "bump i s = s\<lparr>int_stats := (int_stats s)[i := int_stats s ! i + 1]\<rparr>"

definition bump_if :: "bool \<Rightarrow> nat \<Rightarrow> 'a istate_scheme \<Rightarrow> 'a istate_scheme" where
  "bump_if b i s = (if b then bump i s else s)"

definition account_dma_interrupt :: "u32 \<Rightarrow> 'a istate_scheme \<Rightarrow> 'a istate_scheme" where
  "account_dma_interrupt m s = bump_if (m AND 2 \<noteq> 0) INT_DMA1 (bump_if (m AND 1 \<noteq> 0) INT_DMA0 s)"

definition handle_dma_interrupt :: "u32 \<Rightarrow> 'a istate_scheme \<Rightarrow> irq_event list \<times> 'a istate_scheme" where
  "handle_dma_interrupt m s =
     ((if m AND 1 \<noteq> 0 then [Wake_up 0] else []) @ (if m AND 2 \<noteq> 0 then [Wake_up 1] else []), account_dma_interrupt m s)"

definition handle_pci_error :: "tsi148_hw \<Rightarrow> 'a istate_scheme \<Rightarrow> 'a istate_scheme" where
  "handle_pci_error hw s = bump INT_PERR (s\<lparr>lcsr := tsi148_handle_pci_error hw (lcsr s)\<rparr>)"

definition handle_vme_error :: "tsi148_hw \<Rightarrow> 'a istate_scheme \<Rightarrow> irq_event list \<times> 'a istate_scheme" where
  "handle_vme_error hw s =
     (let (calls, s1) = catch_vme_error hw s in (map (\<lambda>(f, e). Berr_call f e) calls, bump INT_VERR s1))"

definition handle_mbox_interrupt :: "u32 \<Rightarrow> 'a istate_scheme \<Rightarrow> 'a istate_scheme" where
  "handle_mbox_interrupt m s =
     bump_if (m AND 8 \<noteq> 0) INT_MB3 (bump_if (m AND 4 \<noteq> 0) INT_MB2
       (bump_if (m AND 2 \<noteq> 0) INT_MB1 (bump_if (m AND 1 \<noteq> 0) INT_MB0 s)))"

definition handle_lm_interrupt :: "u32 \<Rightarrow> 'a istate_scheme \<Rightarrow> 'a istate_scheme" where
  "handle_lm_interrupt m s =
     bump_if (m AND 8 \<noteq> 0) INT_LM3 (bump_if (m AND 4 \<noteq> 0) INT_LM2
       (bump_if (m AND 2 \<noteq> 0) INT_LM1 (bump_if (m AND 1 \<noteq> 0) INT_LM0 s)))"

text \<open>One level of \<open>handle_vme_interrupt\<close>: the IACK cycle, the handler of the vector, the counters.\<close>

definition handle_level :: "(nat \<Rightarrow> u8) \<Rightarrow> nat \<Rightarrow> 'a istate_scheme \<Rightarrow> irq_event list \<times> 'a istate_scheme" where
  "handle_level viack i s =
     (let vec = tsi148_iack8 viack i;
          virq = vme_irq_table s ! vec
      in case vi_handler virq of
           None \<Rightarrow> ([], bump (INT_IRQ1 + i - 1) s)
         | Some h \<Rightarrow> ([Irq_call h (vi_arg virq)],
             bump (INT_IRQ1 + i - 1) (s\<lparr>vme_irq_table := (vme_irq_table s)[vec := virq\<lparr>vi_count := vi_count virq + 1\<rparr>]\<rparr>)))"

fun handle_levels :: "(nat \<Rightarrow> u8) \<Rightarrow> u32 \<Rightarrow> nat list \<Rightarrow> 'a istate_scheme \<Rightarrow> irq_event list \<times> 'a istate_scheme" where
  "handle_levels viack irq_mask [] s = ([], s)"
| "handle_levels viack irq_mask (i # is) s =
     (if irq_mask AND push_bit i 1 \<noteq> 0
      then let (ev, s1) = handle_level viack i s; (evs, s2) = handle_levels viack irq_mask is s1 in (ev @ evs, s2)
      else handle_levels viack irq_mask is s)"

definition handle_vme_interrupt :: "(nat \<Rightarrow> u8) \<Rightarrow> u32 \<Rightarrow> 'a istate_scheme \<Rightarrow> irq_event list \<times> 'a istate_scheme" where
  "handle_vme_interrupt viack irq_mask s = handle_levels viack irq_mask [7, 6, 5, 4, 3, 2, 1] s"

section \<open>The interrupt handler of the bridge\<close>

text \<open>The sources of one turn of the loop, \<open>pend\<close> (the variable \<open>mask\<close>) being what is raised and enabled.\<close>

definition service :: "tsi148_hw \<Rightarrow> (nat \<Rightarrow> u8) \<Rightarrow> u32 \<Rightarrow> 'a istate_scheme \<Rightarrow> irq_event list \<times> 'a istate_scheme" where
  "service hw viack pend s =
     (let (e1, s, pend) = (if pend AND TSI148_LCSR_INT_DMA_M \<noteq> 0
                           then let (e, s) = handle_dma_interrupt (drop_bit 24 (pend AND TSI148_LCSR_INT_DMA_M)) s
                                in (e, s, pend AND NOT TSI148_LCSR_INT_DMA_M) else ([], s, pend));
          (s, pend) = (if pend AND TSI148_LCSR_INT_PERR \<noteq> 0
                       then (handle_pci_error hw s, pend AND NOT TSI148_LCSR_INT_PERR) else (s, pend));
          (e2, s, pend) = (if pend AND TSI148_LCSR_INT_VERR \<noteq> 0
                           then let (e, s) = handle_vme_error hw s in (e, s, pend AND NOT TSI148_LCSR_INT_VERR)
                           else ([], s, pend));
          (s, pend) = (if pend AND TSI148_LCSR_INT_MB_M \<noteq> 0
                       then (handle_mbox_interrupt (drop_bit 16 (pend AND TSI148_LCSR_INT_MB_M)) s,
                             pend AND NOT TSI148_LCSR_INT_MB_M) else (s, pend));
          (s, pend) = (if pend AND TSI148_LCSR_INT_LM_M \<noteq> 0
                       then (handle_lm_interrupt (drop_bit 20 (pend AND TSI148_LCSR_INT_LM_M)) s,
                             pend AND NOT TSI148_LCSR_INT_LM_M) else (s, pend));
          (e3, s, pend) = (if pend AND TSI148_LCSR_INT_IRQM \<noteq> 0
                           then let (e, s) = handle_vme_interrupt viack (pend AND TSI148_LCSR_INT_IRQM) s
                                in (e, s, pend AND NOT TSI148_LCSR_INT_IRQM) else ([], s, pend))
      in (e1 @ e2 @ e3 @ (if pend \<noteq> 0 then [Unhandled pend] else []), s))"

text \<open>\<open>vme_bridge_interrupt\<close> from its \<open>n\<close>-th turn on; a run that never ends is \<open>None\<close>.\<close>

partial_function (option) interrupt_loop ::
    "tsi148_hw \<Rightarrow> (nat \<Rightarrow> u32) \<Rightarrow> (nat \<Rightarrow> nat \<Rightarrow> u8) \<Rightarrow> nat \<Rightarrow> irq_event list \<Rightarrow> 'a istate_scheme
      \<Rightarrow> (irqreturn \<times> irq_event list \<times> 'a istate_scheme) option" where
  "interrupt_loop hw rd viack n evs s =
     (let s1 = s\<lparr>lcsr := (lcsr s)\<lparr>ints := rd n\<rparr>\<rparr>;
          raised = tsi148_get_int_status (lcsr s1)
      in if raised = 0 then Some (IRQ_HANDLED, evs, s1)
         else let s2 = s1\<lparr>lcsr := tsi148_clear_int hw raised (lcsr s1)\<rparr>;
                  pend = raised AND vme_interrupts_enabled s2
              in if pend = 0 then Some (IRQ_NONE, evs, bump INT_SPURIOUS s2)
                 else interrupt_loop hw rd viack (Suc n) (evs @ fst (service hw (viack n) pend s2))
                        (snd (service hw (viack n) pend s2)))"

definition vme_bridge_interrupt ::
    "tsi148_hw \<Rightarrow> (nat \<Rightarrow> u32) \<Rightarrow> (nat \<Rightarrow> nat \<Rightarrow> u8) \<Rightarrow> 'a istate_scheme
      \<Rightarrow> (irqreturn \<times> irq_event list \<times> 'a istate_scheme) option" where
  "vme_bridge_interrupt hw rd viack s = interrupt_loop hw rd viack 0 [] s"

declare interrupt_loop.simps [code]

section \<open>Enabling interrupts, installing handlers\<close>

definition vme_enable_interrupts :: "tsi148_hw \<Rightarrow> u32 \<Rightarrow> 'a istate_scheme \<Rightarrow> rc \<times> 'a istate_scheme" where
  "vme_enable_interrupts hw m s =
     (let new = tsi148_get_int_enabled (lcsr s) OR m;
          (r, c) = tsi148_set_interrupts hw new (lcsr s)
      in (r, s\<lparr>vme_interrupts_enabled := new, lcsr := c\<rparr>))"

definition vme_disable_interrupts :: "tsi148_hw \<Rightarrow> u32 \<Rightarrow> 'a istate_scheme \<Rightarrow> rc \<times> 'a istate_scheme" where
  "vme_disable_interrupts hw m s =
     (let new = tsi148_get_int_enabled (lcsr s) AND NOT m;
          (r, c) = tsi148_set_interrupts hw new (lcsr s)
      in (r, s\<lparr>vme_interrupts_enabled := new, lcsr := c\<rparr>))"

text \<open>\<open>lock\<close> is what \<open>mutex_lock_interruptible\<close> returns.\<close>

definition vme_request_irq ::
    "rc \<Rightarrow> u32 \<Rightarrow> nat option \<Rightarrow> nat \<Rightarrow> string option \<Rightarrow> 'a istate_scheme \<Rightarrow> rc \<times> 'a istate_scheme" where
  "vme_request_irq lock vec handler arg name s =
     (if unat vec \<ge> VME_NUM_VECTORS then (Err EINVAL, s)
      else case lock of
             Err e \<Rightarrow> (Err e, s)
           | OK \<Rightarrow>
               let virq = vme_irq_table s ! unat vec
               in if vi_handler virq \<noteq> None then (Err EBUSY, s)
                  else (OK, s\<lparr>vme_irq_table := (vme_irq_table s)[unat vec :=
                          \<lparr>vi_handler = handler, vi_arg = arg, vi_count = 0,
                           vi_name = Some (case name of Some n \<Rightarrow> n | None \<Rightarrow> ''Unknown'')\<rparr>]\<rparr>))"

definition vme_free_irq :: "rc \<Rightarrow> u32 \<Rightarrow> 'a istate_scheme \<Rightarrow> rc \<times> 'a istate_scheme" where
  "vme_free_irq lock vec s =
     (if unat vec \<ge> VME_NUM_VECTORS then (Err EINVAL, s)
      else case lock of
             Err e \<Rightarrow> (Err e, s)
           | OK \<Rightarrow>
               if vi_handler (vme_irq_table s ! unat vec) = None then (Err EINVAL, s)
               else (OK, s\<lparr>vme_irq_table := (vme_irq_table s)[unat vec :=
                       \<lparr>vi_handler = None, vi_arg = 0, vi_count = 0, vi_name = None\<rparr>]\<rparr>))"

definition vme_generate_interrupt ::
    "tsi148_hw \<Rightarrow> (nat \<Rightarrow> u32) \<Rightarrow> (nat \<Rightarrow> nat \<Rightarrow> nat) \<Rightarrow> int \<Rightarrow> int \<Rightarrow> nat \<Rightarrow> 'a istate_scheme \<Rightarrow> (rc \<times> 'a istate_scheme) option" where
  "vme_generate_interrupt hw rd sched level vector timeout s =
     map_option (\<lambda>(r, c). (r, s\<lparr>lcsr := c\<rparr>)) (tsi148_generate_interrupt hw rd sched level vector timeout (lcsr s))"

end
