(* ===== verification/Vme_Irq_Props.thy ===== *)
theory Vme_Irq_Props
  imports Vme_Irq Vme_Dma_Props
begin

text \<open>
  What interrupt management does: every interrupt that is raised and enabled is accounted for once
  and its handlers are called, the interrupt handler returns, vectors are given to one client at
  a time.
\<close>

section \<open>Counters\<close>

definition add_at :: "nat \<Rightarrow> bool \<Rightarrow> u32 list \<Rightarrow> u32 list" where
  "add_at i b xs = xs[i := xs ! i + of_bool b]"

lemma length_add_at [simp]: "length (add_at i b xs) = length xs"
  by (simp add: add_at_def)

lemma nth_add_at:
  "i < length xs \<Longrightarrow> add_at i b xs ! j = (if i = j then xs ! j + of_bool b else xs ! j)"
  by (simp add: add_at_def nth_list_update)

lemma add_at_False [simp]: "add_at i False xs = xs"
  by (simp add: add_at_def)

lemma int_stats_bump [irq_simps]:
  "int_stats (bump i s) = add_at i True (int_stats s)" "int_stats (bump_if b i s) = add_at i b (int_stats s)"
  by (simp_all add: bump_def bump_if_def add_at_def)

lemma bump_frame [irq_simps]:
  "lcsr (bump i s) = lcsr s" "vme_irq_table (bump i s) = vme_irq_table s"
  "vme_interrupts_enabled (bump i s) = vme_interrupts_enabled s" "h_list (bump i s) = h_list s"
  "lcsr (bump_if b i s) = lcsr s" "vme_irq_table (bump_if b i s) = vme_irq_table s"
  "vme_interrupts_enabled (bump_if b i s) = vme_interrupts_enabled s" "h_list (bump_if b i s) = h_list s"
  by (simp_all add: bump_def bump_if_def)

text \<open>Testing a bit, and a group of bits.\<close>

lemma and_bit:
  "x AND 1 \<noteq> 0 \<longleftrightarrow> bit x 0" "x AND 2 \<noteq> 0 \<longleftrightarrow> bit x 1" "x AND 4 \<noteq> 0 \<longleftrightarrow> bit x 2" "x AND 8 \<noteq> 0 \<longleftrightarrow> bit x 3"
  "x AND 0x1000 \<noteq> 0 \<longleftrightarrow> bit x 12" "x AND 0x2000 \<noteq> 0 \<longleftrightarrow> bit x 13" for x :: u32
  using and_exp_eq_0_iff_not_bit [of x 0] and_exp_eq_0_iff_not_bit [of x 1] and_exp_eq_0_iff_not_bit [of x 2]
    and_exp_eq_0_iff_not_bit [of x 3] and_exp_eq_0_iff_not_bit [of x 12] and_exp_eq_0_iff_not_bit [of x 13]
  by simp_all

lemma group_clear: "(if x AND m \<noteq> 0 then x AND NOT m else x) = x AND NOT (m :: u32)"
proof (cases "x AND m = 0")
  case True
  then have "\<not> (bit x n \<and> bit m n)" for n by (metis bit_0_eq bit_and_iff bot_apply bot_bool_def)
  then have "x AND NOT m = x" by (intro bit_word_eqI) (auto simp: bit_simps)
  then show ?thesis using True by simp
qed simp

lemma group_bit: "x AND m = 0 \<Longrightarrow> bit m n \<Longrightarrow> \<not> bit (x :: u32) n"
  by (metis bit_0_eq bit_and_iff bot_apply bot_bool_def)

lemma dma_group:
  "int_stats (if x AND 0x3000000 \<noteq> 0 then snd (handle_dma_interrupt (drop_bit 24 (x AND 0x3000000)) s) else s)
     = add_at 1 (bit x 25) (add_at 0 (bit x 24) (int_stats s))"
  using group_bit [of x "0x3000000" 24] group_bit [of x "0x3000000" 25]
  by (auto simp: handle_dma_interrupt_def account_dma_interrupt_def irq_simps and_bit bit_simps)

lemma mbox_group:
  "int_stats (if x AND 0xf0000 \<noteq> 0 then handle_mbox_interrupt (drop_bit 16 (x AND 0xf0000)) s else s)
     = add_at 5 (bit x 19) (add_at 4 (bit x 18) (add_at 3 (bit x 17) (add_at 2 (bit x 16) (int_stats s))))"
  using group_bit [of x "0xf0000" 16] group_bit [of x "0xf0000" 17] group_bit [of x "0xf0000" 18] group_bit [of x "0xf0000" 19]
  by (auto simp: handle_mbox_interrupt_def irq_simps and_bit bit_simps)

lemma lm_group:
  "int_stats (if x AND 0xf00000 \<noteq> 0 then handle_lm_interrupt (drop_bit 20 (x AND 0xf00000)) s else s)
     = add_at 9 (bit x 23) (add_at 8 (bit x 22) (add_at 7 (bit x 21) (add_at 6 (bit x 20) (int_stats s))))"
  using group_bit [of x "0xf00000" 20] group_bit [of x "0xf00000" 21] group_bit [of x "0xf00000" 22] group_bit [of x "0xf00000" 23]
  by (auto simp: handle_lm_interrupt_def irq_simps and_bit bit_simps)

lemma catch_frame [irq_simps]:
  "int_stats (snd (catch_vme_error hw s)) = int_stats s" "vme_irq_table (snd (catch_vme_error hw s)) = vme_irq_table s"
  "vme_interrupts_enabled (snd (catch_vme_error hw s)) = vme_interrupts_enabled s"
  by (simp_all add: catch_vme_error_def Let_def split: prod.splits)

lemma error_stats [irq_simps]:
  "int_stats (handle_pci_error hw s) = add_at 17 True (int_stats s)"
  "int_stats (snd (handle_vme_error hw s)) = add_at 18 True (int_stats s)"
  using catch_frame(1) [of hw s] by (simp_all add: handle_pci_error_def handle_vme_error_def irq_simps split_beta Let_def)

lemma error_groups:
  "int_stats (if x AND 0x2000 \<noteq> 0 then handle_pci_error hw s else s) = add_at 17 (bit x 13) (int_stats s)"
  "int_stats (if x AND 0x1000 \<noteq> 0 then snd (handle_vme_error hw s) else s) = add_at 18 (bit x 12) (int_stats s)" for x :: u32
  unfolding and_bit by (simp_all add: irq_simps)

section \<open>The levels of the VME bus\<close>

definition irq_calls :: "vme_irq list \<Rightarrow> (nat \<Rightarrow> u8) \<Rightarrow> nat \<Rightarrow> irq_event list" where
  "irq_calls tbl viack i =
     (case vi_handler (tbl ! tsi148_iack8 viack i) of
        None \<Rightarrow> [] | Some h \<Rightarrow> [Irq_call h (vi_arg (tbl ! tsi148_iack8 viack i))])"

lemma irq_calls_count: "irq_calls (tbl[v := (tbl ! v)\<lparr>vi_count := n\<rparr>]) viack i = irq_calls tbl viack i"
  by (cases "v < length tbl"; cases "v = tsi148_iack8 viack i") (simp_all add: irq_calls_def list_update_beyond split: option.splits)

lemma level_bit: "x AND push_bit i 1 \<noteq> 0 \<longleftrightarrow> bit (x :: u32) i"
  using and_exp_eq_0_iff_not_bit [of x i] by (simp add: push_bit_eq_mult)

lemma level_effect:
  "int_stats (snd (handle_level viack i s)) = add_at (9 + i) True (int_stats s)"
  "fst (handle_level viack i s) = irq_calls (vme_irq_table s) viack i"
  "irq_calls (vme_irq_table (snd (handle_level viack i s))) viack j = irq_calls (vme_irq_table s) viack j"
  by (simp_all add: handle_level_def Let_def irq_simps irq_calls_count split: option.splits)
    (auto simp: irq_calls_def)

lemma handle_levels_Cons:
  "handle_levels viack x (i # is) s =
     (if bit x i then (fst (handle_level viack i s) @ fst (handle_levels viack x is (snd (handle_level viack i s))),
                       snd (handle_levels viack x is (snd (handle_level viack i s))))
      else handle_levels viack x is s)"
  unfolding handle_levels.simps level_bit by (simp add: split_beta Let_def)

lemma levels_stats: "int_stats (snd (handle_levels viack x is s)) = fold (\<lambda>i. add_at (9 + i) (bit x i)) is (int_stats s)"
  by (induction "is" arbitrary: s) (simp_all add: handle_levels_Cons level_effect del: handle_levels.simps(2))

lemma levels_events:
  "fst (handle_levels viack x is s) = concat (map (\<lambda>i. if bit x i then irq_calls (vme_irq_table s) viack i else []) is)"
  by (induction "is" arbitrary: s) (simp_all add: handle_levels_Cons level_effect del: handle_levels.simps(2) cong: if_cong)

section \<open>One turn of the interrupt handler\<close>

lemma if_triple:
  "(if b then let (e, t) = f in (e, t, x') else ([], s, x)) = (fst (if b then f else ([], s)), snd (if b then f else ([], s)), if b then x' else x)"
  "(if b then (t, x') else (s, x)) = (if b then t else s, if b then x' else x)"
  by (simp_all add: split_beta)

text \<open>\<open>service\<close> with the groups of bits taken from the whole mask, one state after the other.\<close>

definition svc_dma :: "u32 \<Rightarrow> 'a istate_scheme \<Rightarrow> irq_event list \<times> 'a istate_scheme" where
  "svc_dma x s = (if x AND 0x3000000 \<noteq> 0 then handle_dma_interrupt (drop_bit 24 (x AND 0x3000000)) s else ([], s))"

definition svc_pci :: "tsi148_hw \<Rightarrow> u32 \<Rightarrow> 'a istate_scheme \<Rightarrow> 'a istate_scheme" where
  "svc_pci hw x s = (if x AND 0x2000 \<noteq> 0 then handle_pci_error hw s else s)"

definition svc_vme :: "tsi148_hw \<Rightarrow> u32 \<Rightarrow> 'a istate_scheme \<Rightarrow> irq_event list \<times> 'a istate_scheme" where
  "svc_vme hw x s = (if x AND 0x1000 \<noteq> 0 then handle_vme_error hw s else ([], s))"

definition svc_mbox :: "u32 \<Rightarrow> 'a istate_scheme \<Rightarrow> 'a istate_scheme" where
  "svc_mbox x s = (if x AND 0xf0000 \<noteq> 0 then handle_mbox_interrupt (drop_bit 16 (x AND 0xf0000)) s else s)"

definition svc_lm :: "u32 \<Rightarrow> 'a istate_scheme \<Rightarrow> 'a istate_scheme" where
  "svc_lm x s = (if x AND 0xf00000 \<noteq> 0 then handle_lm_interrupt (drop_bit 20 (x AND 0xf00000)) s else s)"

definition svc_irq :: "(nat \<Rightarrow> u8) \<Rightarrow> u32 \<Rightarrow> 'a istate_scheme \<Rightarrow> irq_event list \<times> 'a istate_scheme" where
  "svc_irq viack x s = (if x AND 0xfe \<noteq> 0 then handle_vme_interrupt viack (x AND 0xfe) s else ([], s))"

lemma group_other: "m AND k = 0 \<Longrightarrow> (x AND NOT m) AND k = x AND (k :: u32)"
  using group_bit [of m k] by (intro bit_word_eqI) (auto simp: bit_simps)

lemma service_steps:
  "service hw viack x s =
     (let a = svc_dma x s; s2 = svc_pci hw x (snd a); b = svc_vme hw x s2; s4 = svc_mbox x (snd b);
          s5 = svc_lm x s4; c = svc_irq viack x s5; rest = x AND NOT 0x3ff30fe
      in (fst a @ fst b @ fst c @ (if rest \<noteq> 0 then [Unhandled rest] else []), snd c))"
proof -
  let ?x1 = "x AND NOT 0x3000000"
  let ?x2 = "?x1 AND NOT 0x2000"
  let ?x3 = "?x2 AND NOT 0x1000"
  let ?x4 = "?x3 AND NOT 0xf0000"
  let ?x5 = "?x4 AND NOT 0xf00000"
  have *: "?x1 AND 0x2000 = x AND 0x2000" "?x2 AND 0x1000 = x AND 0x1000" "?x3 AND 0xf0000 = x AND 0xf0000"
    "?x4 AND 0xf00000 = x AND 0xf00000" "?x5 AND 0xfe = x AND 0xfe" "?x5 AND NOT 0xfe = x AND NOT 0x3ff30fe"
    by (simp_all only: and.assoc) simp_all
  have "service hw viack x s =
     (let a = svc_dma x s; s2 = svc_pci hw ?x1 (snd a); b = svc_vme hw ?x2 s2; s4 = svc_mbox ?x3 (snd b);
          s5 = svc_lm ?x4 s4; c = svc_irq viack ?x5 s5; rest = ?x5 AND NOT 0xfe
      in (fst a @ fst b @ fst c @ (if rest \<noteq> 0 then [Unhandled rest] else []), snd c))"
    unfolding service_def if_triple group_clear
    unfolding svc_dma_def svc_pci_def svc_vme_def svc_mbox_def svc_lm_def svc_irq_def Let_def prod.case ..
  then show ?thesis
    unfolding svc_pci_def svc_vme_def svc_mbox_def svc_lm_def svc_irq_def Let_def * .
qed

lemma svc_stats [irq_simps]:
  "int_stats (snd (svc_dma x s)) = add_at 1 (bit x 25) (add_at 0 (bit x 24) (int_stats s))"
  "int_stats (svc_pci hw x s) = add_at 17 (bit x 13) (int_stats s)"
  "int_stats (snd (svc_vme hw x s)) = add_at 18 (bit x 12) (int_stats s)"
  "int_stats (svc_mbox x s) = add_at 5 (bit x 19) (add_at 4 (bit x 18) (add_at 3 (bit x 17) (add_at 2 (bit x 16) (int_stats s))))"
  "int_stats (svc_lm x s) = add_at 9 (bit x 23) (add_at 8 (bit x 22) (add_at 7 (bit x 21) (add_at 6 (bit x 20) (int_stats s))))"
  using dma_group [of x s] error_groups [of x hw s] mbox_group [of x s] lm_group [of x s]
  by (simp_all only: svc_dma_def svc_pci_def svc_vme_def svc_mbox_def svc_lm_def if_distrib [of snd] snd_conv)

lemma svc_irq_stats [irq_simps]:
  "int_stats (snd (svc_irq viack x s)) = fold (\<lambda>i. add_at (9 + i) (bit x i)) [7, 6, 5, 4, 3, 2, 1] (int_stats s)"
proof (cases "x AND 0xfe = 0")
  case True
  then have "\<not> bit x i" if "bit (0xfe :: u32) i" for i using group_bit that by blast
  then have "\<not> bit x 1" "\<not> bit x 2" "\<not> bit x 3" "\<not> bit x 4" "\<not> bit x 5" "\<not> bit x 6" "\<not> bit x 7" by simp_all
  then show ?thesis using True by (simp add: svc_irq_def)
next
  case False
  then have "int_stats (snd (svc_irq viack x s))
      = fold (\<lambda>i. add_at (9 + i) (bit (x AND 0xfe) i)) [7, 6, 5, 4, 3, 2, 1] (int_stats s)"
    by (simp only: svc_irq_def handle_vme_interrupt_def levels_stats if_True not_False_eq_True)
  then show ?thesis by (simp add: bit_simps)
qed

text \<open>The bit of the status register that belongs to each counter.\<close>

definition source_bits :: "nat list" where
  "source_bits = [24, 25, 16, 17, 18, 19, 20, 21, 22, 23, 1, 2, 3, 4, 5, 6, 7, 13, 12]"

lemma service_stats:
  assumes "length (int_stats s) = 20" and "i < 20"
  shows "int_stats (snd (service hw viack x s)) ! i
    = int_stats s ! i + of_bool (i < 19 \<and> bit x (source_bits ! i))"
    "length (int_stats (snd (service hw viack x s))) = 20"
proof -
  have chain: "int_stats (snd (service hw viack x s)) =
      fold (\<lambda>i. add_at (9 + i) (bit x i)) [7, 6, 5, 4, 3, 2, 1]
        (add_at 9 (bit x 23) (add_at 8 (bit x 22) (add_at 7 (bit x 21) (add_at 6 (bit x 20)
        (add_at 5 (bit x 19) (add_at 4 (bit x 18) (add_at 3 (bit x 17) (add_at 2 (bit x 16)
        (add_at 18 (bit x 12) (add_at 17 (bit x 13) (add_at 1 (bit x 25) (add_at 0 (bit x 24) (int_stats s)))))))))))))"
    unfolding service_steps Let_def snd_conv by (simp only: irq_simps)
  then show "length (int_stats (snd (service hw viack x s))) = 20" using assms(1) by simp
  have "\<forall>j \<in> set [0..<20]. int_stats (snd (service hw viack x s)) ! j
      = int_stats s ! j + of_bool (j < 19 \<and> bit x (source_bits ! j))"
    unfolding chain by (simp add: upt_rec nth_add_at assms(1) source_bits_def)
  then show "int_stats (snd (service hw viack x s)) ! i = int_stats s ! i + of_bool (i < 19 \<and> bit x (source_bits ! i))"
    using assms(2) by simp
qed

lemma svc_frame [irq_simps]:
  "vme_irq_table (snd (svc_dma x s)) = vme_irq_table s" "vme_irq_table (svc_pci hw x s) = vme_irq_table s"
  "vme_irq_table (snd (svc_vme hw x s)) = vme_irq_table s" "vme_irq_table (svc_mbox x s) = vme_irq_table s"
  "vme_irq_table (svc_lm x s) = vme_irq_table s"
  "vme_interrupts_enabled (snd (svc_dma x s)) = vme_interrupts_enabled s"
  "vme_interrupts_enabled (svc_pci hw x s) = vme_interrupts_enabled s"
  "vme_interrupts_enabled (snd (svc_vme hw x s)) = vme_interrupts_enabled s"
  "vme_interrupts_enabled (svc_mbox x s) = vme_interrupts_enabled s" "vme_interrupts_enabled (svc_lm x s) = vme_interrupts_enabled s"
  by (simp_all add: svc_dma_def svc_pci_def svc_vme_def svc_mbox_def svc_lm_def handle_dma_interrupt_def account_dma_interrupt_def
      handle_pci_error_def handle_vme_error_def handle_mbox_interrupt_def handle_lm_interrupt_def irq_simps split_beta Let_def)

lemma levels_frame:
  "vme_interrupts_enabled (snd (handle_levels viack x is s)) = vme_interrupts_enabled s"
proof (induction "is" arbitrary: s)
  case (Cons i "is")
  have "vme_interrupts_enabled (snd (handle_level viack i s)) = vme_interrupts_enabled s"
    by (simp add: handle_level_def Let_def irq_simps split: option.splits)
  then show ?case using Cons by (simp add: handle_levels_Cons del: handle_levels.simps(2))
qed simp

lemma svc_irq_enabled [irq_simps]: "vme_interrupts_enabled (snd (svc_irq viack x t)) = vme_interrupts_enabled t"
  by (simp only: svc_irq_def handle_vme_interrupt_def levels_frame if_distrib [of snd] if_distrib [of vme_interrupts_enabled] snd_conv if_cancel)

lemma service_enabled: "vme_interrupts_enabled (snd (service hw viack x s)) = vme_interrupts_enabled s"
  unfolding service_steps Let_def snd_conv by (simp only: irq_simps)

lemma svc_dma_events:
  "fst (svc_dma x s) = (if bit x 24 then [Wake_up 0] else []) @ (if bit x 25 then [Wake_up 1] else [])"
  using group_bit [of x "0x3000000" 24] group_bit [of x "0x3000000" 25]
  by (auto simp: svc_dma_def handle_dma_interrupt_def and_bit bit_simps)

lemma svc_error_view:
  "fst (tsi148_handle_vme_error hw (lcsr (svc_pci hw x (snd (svc_dma y s))))) = fst (tsi148_handle_vme_error hw (lcsr s))"
  "h_list (svc_pci hw x (snd (svc_dma y s))) = h_list s"
  by (simp_all add: svc_pci_def svc_dma_def handle_pci_error_def handle_dma_interrupt_def account_dma_interrupt_def
      tsi148_handle_vme_error_def tsi148_handle_pci_error_def irq_simps Let_def)

lemma svc_vme_events:
  "fst (svc_vme hw x s) = (if bit x 12
     then map (\<lambda>(f, e). Berr_call f e) (vme_dispatch_berr (fst (tsi148_handle_vme_error hw (lcsr s))) (h_list s)) else [])"
  unfolding svc_vme_def and_bit by (simp add: handle_vme_error_def catch_vme_error_def split_beta Let_def)

lemma svc_irq_events:
  "fst (svc_irq viack x s) = concat (map (\<lambda>i. if bit x i then irq_calls (vme_irq_table s) viack i else []) [7, 6, 5, 4, 3, 2, 1])"
proof (cases "x AND 0xfe = 0")
  case True
  then have "\<not> bit x i" if "bit (0xfe :: u32) i" for i using group_bit that by blast
  then have "\<not> bit x 1" "\<not> bit x 2" "\<not> bit x 3" "\<not> bit x 4" "\<not> bit x 5" "\<not> bit x 6" "\<not> bit x 7" by simp_all
  then show ?thesis using True by (simp add: svc_irq_def)
next
  case False
  then have "fst (svc_irq viack x s)
      = concat (map (\<lambda>i. if bit (x AND 0xfe) i then irq_calls (vme_irq_table s) viack i else []) [7, 6, 5, 4, 3, 2, 1])"
    by (simp only: svc_irq_def handle_vme_interrupt_def levels_events if_True not_False_eq_True)
  then show ?thesis by (simp add: bit_simps)
qed

section \<open>Properties\<close>

text \<open>
  C7: one turn of the bridge's interrupt handler serves every source that is raised and enabled,
  exactly once. The counter of a source goes up by one if its bit is in the mask and else stays; the queue of a
  DMA channel is woken if its bit is there; a bus error goes to the registered handlers; the
  VME levels are acknowledged from 7 down to 1, each calling the handler of the vector it
  answers with; bits of no known source are reported.
\<close>

theorem interrupt_turn_serves_each_source:
  assumes "length (int_stats s) = 20"
  shows "(\<forall>i < 20. int_stats (snd (service hw viack x s)) ! i = int_stats s ! i + of_bool (i < 19 \<and> bit x (source_bits ! i)))
    \<and> fst (service hw viack x s)
      = (if bit x 24 then [Wake_up 0] else []) @ (if bit x 25 then [Wake_up 1] else [])
        @ (if bit x 12
           then map (\<lambda>(f, e). Berr_call f e) (vme_dispatch_berr (fst (tsi148_handle_vme_error hw (lcsr s))) (h_list s)) else [])
        @ concat (map (\<lambda>i. if bit x i then irq_calls (vme_irq_table s) viack i else []) [7, 6, 5, 4, 3, 2, 1])
        @ (if x AND NOT 0x3ff30fe \<noteq> 0 then [Unhandled (x AND NOT 0x3ff30fe)] else [])"
proof
  show "\<forall>i < 20. int_stats (snd (service hw viack x s)) ! i = int_stats s ! i + of_bool (i < 19 \<and> bit x (source_bits ! i))"
    using service_stats(1) [OF assms] by blast
  have tbl: "vme_irq_table (svc_lm x (svc_mbox x (snd (svc_vme hw x (svc_pci hw x (snd (svc_dma x s))))))) = vme_irq_table s"
    by (simp only: irq_simps)
  show "fst (service hw viack x s)
      = (if bit x 24 then [Wake_up 0] else []) @ (if bit x 25 then [Wake_up 1] else [])
        @ (if bit x 12
           then map (\<lambda>(f, e). Berr_call f e) (vme_dispatch_berr (fst (tsi148_handle_vme_error hw (lcsr s))) (h_list s)) else [])
        @ concat (map (\<lambda>i. if bit x i then irq_calls (vme_irq_table s) viack i else []) [7, 6, 5, 4, 3, 2, 1])
        @ (if x AND NOT 0x3ff30fe \<noteq> 0 then [Unhandled (x AND NOT 0x3ff30fe)] else [])"
    unfolding service_steps Let_def fst_conv svc_dma_events svc_vme_events svc_irq_events tbl svc_error_view append_assoc ..
qed

text \<open>The loop, \<open>n - j\<close> turns before the status reads zero.\<close>

lemma interrupt_loop_counts:
  assumes "j \<le> n" and "rd n = 0" and "\<forall>k < n. rd k AND vme_interrupts_enabled s \<noteq> 0" and "length (int_stats s) = 20"
  shows "\<exists>evs' s'. interrupt_loop hw rd viack j evs s = Some (IRQ_HANDLED, evs', s')
    \<and> (\<forall>i < 20. int_stats s' ! i = int_stats s ! i
        + of_nat (length (filter (\<lambda>k. i < 19 \<and> bit (rd k AND vme_interrupts_enabled s) (source_bits ! i)) [j..<n])))"
  using assms
proof (induction "n - j" arbitrary: j evs s)
  case 0
  then have "j = n" by simp
  then show ?case using 0 by (subst interrupt_loop.simps) (simp add: tsi148_get_int_status_def)
next
  case (Suc d)
  let ?x = "rd j AND vme_interrupts_enabled s"
  define s2 where "s2 = s\<lparr>lcsr := tsi148_clear_int hw (rd j) ((lcsr s)\<lparr>ints := rd j\<rparr>)\<rparr>"
  let ?t = "snd (service hw (viack j) ?x s2)"
  have less: "j < n" and pend: "?x \<noteq> 0" using Suc by auto
  then have "rd j \<noteq> 0" by auto
  then have run: "interrupt_loop hw rd viack j evs s = interrupt_loop hw rd viack (Suc j) (evs @ fst (service hw (viack j) ?x s2)) ?t"
    using pend by (subst interrupt_loop.simps) (simp add: tsi148_get_int_status_def s2_def Let_def)
  have same: "vme_interrupts_enabled ?t = vme_interrupts_enabled s" "length (int_stats s2) = 20" "int_stats s2 = int_stats s"
    using Suc.prems(4) by (simp_all add: service_enabled s2_def)
  have stats: "length (int_stats ?t) = 20" "\<And>i. i < 20 \<Longrightarrow> int_stats ?t ! i = int_stats s ! i + of_bool (i < 19 \<and> bit ?x (source_bits ! i))"
    using service_stats [OF same(2)] unfolding same(3) by (metis zero_less_numeral)+
  have "d = n - Suc j" using Suc.hyps(2) by simp
  from Suc.hyps(1) [OF this _ Suc.prems(2) _ stats(1), of "evs @ fst (service hw (viack j) ?x s2)"] less Suc.prems(3)
  obtain evs' s' where out: "interrupt_loop hw rd viack (Suc j) (evs @ fst (service hw (viack j) ?x s2)) ?t = Some (IRQ_HANDLED, evs', s')"
      "\<And>i. i < 20 \<Longrightarrow> int_stats s' ! i = int_stats ?t ! i
        + of_nat (length (filter (\<lambda>k. i < 19 \<and> bit (rd k AND vme_interrupts_enabled s) (source_bits ! i)) [Suc j..<n]))"
    unfolding same(1) by auto
  have "[j..<n] = j # [Suc j..<n]" using less by (rule upt_conv_Cons)
  then show ?case using run out stats(2) by auto
qed

text \<open>
  C6: the bridge's interrupt handler returns as soon as the chip has nothing more to report, and over the whole
  run no interrupt is lost or counted twice: when the status reads zero at the \<open>n\<close>-th turn, and in each turn before an enabled
  interrupt was raised, the handler returns \<open>IRQ_HANDLED\<close> and the counter of every source has gone up by the
  number of turns in which its bit was raised and enabled; no interrupt is called spurious.
\<close>

theorem interrupt_handler_counts_every_turn:
  assumes "rd n = 0" and "\<forall>k < n. rd k AND vme_interrupts_enabled s \<noteq> 0" and "length (int_stats s) = 20"
  shows "\<exists>evs s'. vme_bridge_interrupt hw rd viack s = Some (IRQ_HANDLED, evs, s')
    \<and> (\<forall>i < 19. int_stats s' ! i = int_stats s ! i
        + of_nat (card {k. k < n \<and> bit (rd k AND vme_interrupts_enabled s) (source_bits ! i)}))
    \<and> int_stats s' ! INT_SPURIOUS = int_stats s ! INT_SPURIOUS"
proof -
  have "length (filter (\<lambda>k. i < 19 \<and> bit (rd k AND vme_interrupts_enabled s) (source_bits ! i)) [0..<n])
      = card {k. k < n \<and> bit (rd k AND vme_interrupts_enabled s) (source_bits ! i)}" if "i < 19" for i
    using that by (auto simp: length_filter_conv_card intro!: arg_cong [of _ _ card])
  then show ?thesis
    using interrupt_loop_counts [OF _ assms, of 0 hw viack "[]"] unfolding vme_bridge_interrupt_def by fastforce
qed

text \<open>
  A spurious interrupt, one that nobody enabled, is acknowledged to the chip, counted as such
  and refused (\<open>IRQ_NONE\<close>); no handler runs.
\<close>

lemma spurious_interrupt_is_refused:
  assumes "rd 0 \<noteq> 0" and "rd 0 AND vme_interrupts_enabled s = 0" and "length (int_stats s) = 20"
  shows "\<exists>s'. vme_bridge_interrupt hw rd viack s = Some (IRQ_NONE, [], s')
    \<and> intc (lcsr s') = hw_intc hw (intc (lcsr s)) (rd 0)
    \<and> int_stats s' = (int_stats s)[INT_SPURIOUS := int_stats s ! INT_SPURIOUS + 1] \<and> vme_irq_table s' = vme_irq_table s"
  using assms unfolding vme_bridge_interrupt_def
  by (subst interrupt_loop.simps) (simp add: tsi148_get_int_status_def tsi148_clear_int_def bump_def Let_def)

section \<open>Vectors\<close>

text \<open>
  The interface to the clients of interrupt vectors: a vector has at most one owner, only the
  owner's handler is found there, and removing it leaves the vector free. \<open>look\<close> is what an
  interrupt on a vector would call.
\<close>

locale vector_table =
  fixes look :: "'s \<Rightarrow> 'v \<Rightarrow> 'h option" and install :: "'v \<Rightarrow> 'h \<Rightarrow> 's \<Rightarrow> rc \<times> 's" and remove :: "'v \<Rightarrow> 's \<Rightarrow> rc \<times> 's"
    and wf :: "'s \<Rightarrow> bool" and vector :: "'v \<Rightarrow> bool"
  assumes install_free: "wf s \<Longrightarrow> vector v \<Longrightarrow> look s v = None \<Longrightarrow> \<exists>t. install v h s = (OK, t) \<and> wf t \<and> look t = (look s)(v \<mapsto> h)"
    and install_taken: "wf s \<Longrightarrow> vector v \<Longrightarrow> look s v \<noteq> None \<Longrightarrow> install v h s = (Err EBUSY, s)"
    and remove_taken: "wf s \<Longrightarrow> vector v \<Longrightarrow> look s v \<noteq> None \<Longrightarrow> \<exists>t. remove v s = (OK, t) \<and> wf t \<and> look t = (look s)(v := None)"
    and remove_free: "wf s \<Longrightarrow> vector v \<Longrightarrow> look s v = None \<Longrightarrow> remove v s = (Err EINVAL, s)"
    and no_vector: "\<not> vector v \<Longrightarrow> install v h s = (Err EINVAL, s) \<and> remove v s = (Err EINVAL, s)"
begin

lemma one_owner:
  assumes "wf s" and "vector v" and "look s v = None"
  shows "\<exists>t u. install v h s = (OK, t) \<and> look t = (look s)(v \<mapsto> h) \<and> (\<forall>h'. install v h' t = (Err EBUSY, t))
    \<and> remove v t = (OK, u) \<and> wf u \<and> look u = look s \<and> remove v u = (Err EINVAL, u)"
proof -
  obtain t where t: "install v h s = (OK, t)" "wf t" "look t = (look s)(v \<mapsto> h)" using install_free [OF assms] by blast
  then have taken: "look t v \<noteq> None" by simp
  then obtain u where u: "remove v t = (OK, u)" "wf u" "look u = (look t)(v := None)"
    using remove_taken [OF t(2) assms(2)] by blast
  have "look u = look s" using u(3) t(3) assms(3) by (metis fun_upd_triv fun_upd_upd)
  then show ?thesis using t u install_taken [OF t(2) assms(2) taken] remove_free [OF u(2) assms(2)] assms(3) by metis
qed

lemma install_outcome:
  assumes "wf s"
  shows "fst (install v h s) = (if \<not> vector v then Err EINVAL else if look s v = None then OK else Err EBUSY)"
  using install_free [OF assms] install_taken [OF assms] no_vector by (metis fst_conv)

end

definition irq_look :: "'a istate_scheme \<Rightarrow> u32 \<Rightarrow> (nat \<times> nat) option" where
  "irq_look s v = (if unat v < VME_NUM_VECTORS
     then map_option (\<lambda>h. (h, vi_arg (vme_irq_table s ! unat v))) (vi_handler (vme_irq_table s ! unat v)) else None)"

abbreviation (input) irq_table_ok :: "'a istate_scheme \<Rightarrow> bool" where
  "irq_table_ok s \<equiv> length (vme_irq_table s) = VME_NUM_VECTORS"

lemma irq_look_update:
  assumes "irq_table_ok s" and "unat v < VME_NUM_VECTORS"
  shows "irq_look (s\<lparr>vme_irq_table := (vme_irq_table s)[unat v := e]\<rparr>)
    = (irq_look s)(v := map_option (\<lambda>h. (h, vi_arg e)) (vi_handler e))"
  using assms by (auto simp: irq_look_def fun_eq_iff nth_list_update word_eq_iff_unsigned [where 'a = nat, of _ v])

interpretation vectors: vector_table irq_look "\<lambda>v h. vme_request_irq OK v (Some (fst h)) (snd h) name" "vme_free_irq OK"
  irq_table_ok "\<lambda>v. unat v < VME_NUM_VECTORS"
proof (unfold_locales, goal_cases)
  case (1 s v h)
  let ?e = "\<lparr>vi_handler = Some (fst h), vi_arg = snd h, vi_count = 0, vi_name = Some (case name of Some n \<Rightarrow> n | None \<Rightarrow> ''Unknown'')\<rparr>"
  let ?t = "s\<lparr>vme_irq_table := (vme_irq_table s)[unat v := ?e]\<rparr>"
  have "vme_request_irq OK v (Some (fst h)) (snd h) name s = (OK, ?t)" using 1 by (simp add: vme_request_irq_def irq_look_def)
  moreover have "irq_look ?t = (irq_look s)(v \<mapsto> h)" using irq_look_update [OF 1(1,2), of ?e] by simp
  ultimately show ?case using 1 by simp
next
  case (3 s v)
  let ?e = "\<lparr>vi_handler = None, vi_arg = 0, vi_count = 0, vi_name = None\<rparr>"
  let ?t = "s\<lparr>vme_irq_table := (vme_irq_table s)[unat v := ?e]\<rparr>"
  have "vme_free_irq OK v s = (OK, ?t)" using 3 by (auto simp: vme_free_irq_def irq_look_def)
  moreover have "irq_look ?t = (irq_look s)(v := None)" using irq_look_update [OF 3(1,2), of ?e] by simp
  ultimately show ?case using 3 by simp
qed (auto simp: vme_request_irq_def vme_free_irq_def irq_look_def)

text \<open>What an interrupt at a level calls, in terms of the vector that answers.\<close>

lemma irq_calls_look:
  "irq_calls (vme_irq_table s) viack i
     = (case irq_look s (of_nat (tsi148_iack8 viack i)) of None \<Rightarrow> [] | Some (h, a) \<Rightarrow> [Irq_call h a])"
proof -
  have "tsi148_iack8 viack i < 256" using unsigned_less [of "viack (i * 4 + 3) AND 0xff", where 'a = nat] by (simp add: tsi148_iack8_def)
  moreover from this have "unat (of_nat (tsi148_iack8 viack i) :: u32) = tsi148_iack8 viack i" by (simp add: unat_of_nat)
  ultimately show ?thesis by (simp add: irq_calls_def irq_look_def split: option.splits)
qed

text \<open>
  A VME interrupt vector has one owner. On a free vector \<open>vme_request_irq\<close> installs the handler:
  an interrupt that answers with the vector then calls it with its argument, all other vectors call what they
  did before, and a second request is refused with \<open>-EBUSY\<close>. \<open>vme_free_irq\<close> undoes it: every vector calls
  what it did before the request, and a second free fails with \<open>-EINVAL\<close>.
\<close>

lemma irq_vector_has_one_owner:
  assumes "length (vme_irq_table s) = VME_NUM_VECTORS" and "unat vec < VME_NUM_VECTORS" and "vi_handler (vme_irq_table s ! unat vec) = None"
  shows "\<exists>t u. vme_request_irq OK vec (Some h) arg name s = (OK, t)
    \<and> (\<forall>viack i. irq_calls (vme_irq_table t) viack i
        = (if tsi148_iack8 viack i = unat vec then [Irq_call h arg] else irq_calls (vme_irq_table s) viack i))
    \<and> (\<forall>h' arg'. vme_request_irq OK vec (Some h') arg' name t = (Err EBUSY, t))
    \<and> vme_free_irq OK vec t = (OK, u) \<and> (\<forall>viack i. irq_calls (vme_irq_table u) viack i = irq_calls (vme_irq_table s) viack i)
    \<and> vme_free_irq OK vec u = (Err EINVAL, u)"
proof -
  have "irq_look s vec = None" using assms(3) by (simp add: irq_look_def)
  from vectors.one_owner [OF assms(1,2) this, of "(h, arg)" name]
  obtain t u where tu: "vme_request_irq OK vec (Some h) arg name s = (OK, t)" "irq_look t = (irq_look s)(vec \<mapsto> (h, arg))"
      "\<And>h'. vme_request_irq OK vec (Some (fst h')) (snd h') name t = (Err EBUSY, t)" "vme_free_irq OK vec t = (OK, u)"
      "irq_look u = irq_look s" "vme_free_irq OK vec u = (Err EINVAL, u)" by auto
  have "vme_request_irq OK vec (Some h') arg' name t = (Err EBUSY, t)" for h' arg' using tu(3) [of "(h', arg')"] by simp
  moreover have "of_nat (tsi148_iack8 viack i) = vec \<longleftrightarrow> tsi148_iack8 viack i = unat vec" for viack i
  proof -
    have "tsi148_iack8 viack i < 2 ^ 32" using unsigned_less [of "viack (i * 4 + 3) AND 0xff", where 'a = nat] by (simp add: tsi148_iack8_def)
    then have "unat (of_nat (tsi148_iack8 viack i) :: u32) = tsi148_iack8 viack i" by (simp add: unat_of_nat)
    then show ?thesis by (simp add: word_eq_iff_unsigned [where 'a = nat, of _ vec])
  qed
  ultimately show ?thesis using tu by (auto simp: irq_calls_look)
qed

section \<open>Enabling interrupts\<close>

text \<open>The two enable registers keep what is written to them.\<close>

definition keeps_enables :: "tsi148_hw \<Rightarrow> bool" where
  "keeps_enables hw \<longleftrightarrow> hw_inteo hw = (\<lambda>_ v. v) \<and> hw_inten hw = (\<lambda>_ v. v)"

text \<open>
  Enabling and disabling interrupts. On a chip whose enable registers keep what is written, both
  succeed, the driver's mask and the chip's two registers agree afterwards, enabling adds exactly the bits
  asked for and disabling takes exactly those away again, so that disabling what was enabled from scratch restores
  the mask; interrupts not asked for are not touched.
\<close>

lemma enable_disable_interrupts:
  assumes "keeps_enables hw"
  shows "\<exists>t u. vme_enable_interrupts hw m s = (OK, t) \<and> vme_disable_interrupts hw m t = (OK, u)
    \<and> vme_interrupts_enabled t = inteo (lcsr s) OR m \<and> inteo (lcsr t) = vme_interrupts_enabled t \<and> inten (lcsr t) = vme_interrupts_enabled t
    \<and> vme_interrupts_enabled u = inteo (lcsr s) AND NOT m \<and> inteo (lcsr u) = vme_interrupts_enabled u
    \<and> (inteo (lcsr s) AND m = 0 \<longrightarrow> inteo (lcsr u) = inteo (lcsr s))"
proof -
  have "(x OR m) AND NOT m = x AND NOT m" for x :: u32 by (intro bit_word_eqI) (auto simp: bit_simps)
  moreover have "inteo (lcsr s) AND m = 0 \<longrightarrow> inteo (lcsr s) AND NOT m = inteo (lcsr s)"
    using group_clear [of "inteo (lcsr s)" m] by auto
  ultimately show ?thesis
    using assms
    by (simp add: vme_enable_interrupts_def vme_disable_interrupts_def tsi148_set_interrupts_def tsi148_get_int_enabled_def
        keeps_enables_def Let_def split_beta)
qed

section \<open>Generating an interrupt\<close>

text \<open>What is left of the time out after \<open>n\<close> calls of \<open>schedule_timeout\<close>.\<close>

fun left :: "(nat \<Rightarrow> nat \<Rightarrow> nat) \<Rightarrow> nat \<Rightarrow> nat \<Rightarrow> nat" where
  "left sched t 0 = t"
| "left sched t (Suc n) = sched n (left sched t n)"

lemma wait_iack_from:
  assumes "j \<le> N" and "left sched t (Suc N) = 0" and "\<forall>k < j. rd k AND 0x800 \<noteq> 0 \<and> left sched t (Suc k) \<noteq> 0"
  shows "\<exists>m. wait_iack rd sched j (left sched t j) = Some (Suc m) \<and> m \<le> N
    \<and> (\<forall>k < m. rd k AND 0x800 \<noteq> 0 \<and> left sched t (Suc k) \<noteq> 0) \<and> (rd m AND 0x800 = 0 \<or> left sched t (Suc m) = 0)"
  using assms
proof (induction "N - j" arbitrary: j)
  case 0
  then have "j = N" by simp
  then show ?case using 0 by (subst wait_iack.simps) (auto intro!: exI [of _ N])
next
  case (Suc d)
  show ?case
  proof (cases "rd j AND 0x800 = 0 \<or> left sched t (Suc j) = 0")
    case True
    then show ?thesis using Suc.prems by (subst wait_iack.simps) (auto intro!: exI [of _ j])
  next
    case False
    then have "wait_iack rd sched j (left sched t j) = wait_iack rd sched (Suc j) (left sched t (Suc j))"
      by (subst wait_iack.simps) simp
    moreover have "\<forall>k < Suc j. rd k AND 0x800 \<noteq> 0 \<and> left sched t (Suc k) \<noteq> 0" using False Suc.prems(3) by (simp add: less_Suc_eq)
    moreover have "j \<noteq> N" using False Suc.prems(2) by blast
    ultimately show ?thesis using Suc.hyps(1) [of "Suc j"] Suc.hyps(2) Suc.prems(1,2) by simp
  qed
qed

text \<open>
  Generating a VME interrupt. A level outside 1 to 7 or a vector outside 0 to 255 is refused and the
  chip is left alone. Otherwise the routine returns, provided the time out runs out at some point: with success
  when the last read of the control register shows the interrupt acknowledged, and else with \<open>-ETIME\<close>, having written
  the clear bit with level and vector zero; and when the acknowledge comes before the time is over and stays, it succeeds.
\<close>

lemma generate_interrupt_outcome:
  assumes "left sched timeout (Suc N) = 0"
  shows "if 1 \<le> level \<and> level \<le> 7 \<and> 0 \<le> vector \<and> vector \<le> 255
    then \<exists>m \<le> N. \<exists>s'. (if rd (Suc m) AND TSI148_LCSR_VICR_IRQS = 0
        then vme_generate_interrupt hw rd sched level vector timeout s = Some (OK, s')
        else vme_generate_interrupt hw rd sched level vector timeout s = Some (Err ETIME, s')
          \<and> vicr (lcsr s') = hw_vicr hw (rd (m + 2)) ((rd (m + 2) AND NOT 0x7ff) OR TSI148_LCSR_VICR_IRQC))
      \<and> (\<forall>k \<le> N. (\<forall>j < k. rd j AND TSI148_LCSR_VICR_IRQS \<noteq> 0 \<and> left sched timeout (Suc j) \<noteq> 0)
           \<longrightarrow> (\<forall>j \<ge> k. rd j AND TSI148_LCSR_VICR_IRQS = 0)
           \<longrightarrow> rd (Suc m) AND TSI148_LCSR_VICR_IRQS = 0)
    else vme_generate_interrupt hw rd sched level vector timeout s = Some (Err EINVAL, s)"
proof (cases "1 \<le> level \<and> level \<le> 7 \<and> 0 \<le> vector \<and> vector \<le> 255")
  case False
  then show ?thesis by (auto simp: vme_generate_interrupt_def tsi148_generate_interrupt_def)
next
  case True
  obtain m where m: "wait_iack rd sched 0 timeout = Some (Suc m)" "m \<le> N"
    "\<forall>k < m. rd k AND 0x800 \<noteq> 0 \<and> left sched timeout (Suc k) \<noteq> 0" "rd m AND 0x800 = 0 \<or> left sched timeout (Suc m) = 0"
    using wait_iack_from [of 0 N, OF _ assms] by auto
  have "rd (Suc m) AND 0x800 = 0" if "k \<le> N" "\<forall>j < k. rd j AND 0x800 \<noteq> 0 \<and> left sched timeout (Suc j) \<noteq> 0"
      "\<forall>j \<ge> k. rd j AND 0x800 = 0" for k
  proof -
    have "\<not> m < k" using that(2) m(4) by blast
    then show ?thesis using that(3) by simp
  qed
  then have stays: "\<forall>k \<le> N. (\<forall>j < k. rd j AND 0x800 \<noteq> 0 \<and> left sched timeout (Suc j) \<noteq> 0)
      \<longrightarrow> (\<forall>j \<ge> k. rd j AND 0x800 = 0) \<longrightarrow> rd (Suc m) AND 0x800 = 0" by blast
  have "\<exists>s'. (if rd (Suc m) AND 0x800 = 0
      then vme_generate_interrupt hw rd sched level vector timeout s = Some (OK, s')
      else vme_generate_interrupt hw rd sched level vector timeout s = Some (Err ETIME, s')
        \<and> vicr (lcsr s') = hw_vicr hw (rd (m + 2)) ((rd (m + 2) AND NOT 0x7ff) OR 0x8000))"
    using True m(1)
    by (cases "rd (Suc m) AND 0x800 = 0") (auto simp: vme_generate_interrupt_def tsi148_generate_interrupt_def Let_def)
  then show ?thesis unfolding if_P [OF True] using m(2) stays by blast
qed

section \<open>Examples\<close>

text \<open>A bridge with all vectors free and the interrupts of the DMA channels, the errors and the VME levels enabled.\<close>

definition free_vector :: vme_irq where
  "free_vector = \<lparr>vi_handler = None, vi_arg = 0, vi_count = 0, vi_name = None\<rparr>"

definition demo_irq_state :: istate where
  "demo_irq_state = dstate.extend demo_dma_state
     \<lparr>vme_irq_table = replicate 256 free_vector, int_stats = replicate 20 0, vme_interrupts_enabled = 0x30030fe\<rparr>"

lemma demo_irq_fields:
  "int_stats demo_irq_state = replicate 20 0" "vme_irq_table demo_irq_state = replicate 256 free_vector"
  "vme_interrupts_enabled demo_irq_state = 0x30030fe"
  by (simp_all add: demo_irq_state_def dstate.defs)

theorem interrupt_turn_serves_each_source_witness:
  "int_stats (snd (service plain_hw (\<lambda>_. 0) 0x1000000 demo_irq_state)) ! 0 = 1
   \<and> fst (service plain_hw (\<lambda>_. 0) 0x1000000 demo_irq_state) = [Wake_up 0]"
proof -
  have "length (int_stats demo_irq_state) = 20" by (simp add: demo_irq_fields)
  from interrupt_turn_serves_each_source [OF this, of plain_hw "\<lambda>_. 0" "0x1000000"]
  show ?thesis by (simp add: demo_irq_fields source_bits_def)
qed

theorem interrupt_handler_counts_every_turn_witness:
  "\<exists>evs s'. vme_bridge_interrupt plain_hw (\<lambda>n. if n < 2 then 0x80 else 0) (\<lambda>_ _. 0x42) demo_irq_state = Some (IRQ_HANDLED, evs, s')
    \<and> int_stats s' ! 16 = 2"
proof -
  let ?rd = "\<lambda>n :: nat. if n < 2 then 0x80 else 0 :: u32"
  have "card {k. k < 2 \<and> bit (?rd k AND 0x30030fe) (source_bits ! 16)} = 2"
  proof -
    have "{k. k < 2 \<and> bit (?rd k AND 0x30030fe) (source_bits ! 16)} = {0, 1}"
      by (auto simp: source_bits_def)
    then show ?thesis by simp
  qed
  then show ?thesis
    using interrupt_handler_counts_every_turn [of ?rd 2 demo_irq_state plain_hw "\<lambda>_ _. 0x42"]
    by (auto simp: demo_irq_fields)
qed

lemma spurious_interrupt_is_refused_example:
  "\<exists>s'. vme_bridge_interrupt plain_hw (\<lambda>_. 0x100) (\<lambda>_ _. 0) demo_irq_state = Some (IRQ_NONE, [], s')
    \<and> int_stats s' ! INT_SPURIOUS = 1"
  using spurious_interrupt_is_refused [of "\<lambda>_. 0x100" demo_irq_state plain_hw "\<lambda>_ _. 0"]
  by (auto simp: demo_irq_fields)

lemma irq_vector_has_one_owner_example:
  "\<exists>t. vme_request_irq OK 0x42 (Some 5) 6 None demo_irq_state = (OK, t) \<and> irq_calls (vme_irq_table t) (\<lambda>_. 0x42) 3 = [Irq_call 5 6]"
proof -
  have "tsi148_iack8 (\<lambda>_. 0x42) 3 = 0x42" by (simp add: tsi148_iack8_def)
  then show ?thesis
    using irq_vector_has_one_owner [of demo_irq_state "0x42" 5 6 None] by (auto simp: demo_irq_fields free_vector_def)
qed

lemma enable_disable_interrupts_example:
  "\<exists>t. vme_enable_interrupts plain_hw 0x100 demo_irq_state = (OK, t) \<and> inteo (lcsr t) = vme_interrupts_enabled t"
  using enable_disable_interrupts [of plain_hw "0x100" demo_irq_state]
  by (auto simp: keeps_enables_def plain_hw_def)

lemma generate_interrupt_outcome_example:
  "(\<exists>s'. vme_generate_interrupt plain_hw (\<lambda>_. 0) (\<lambda>_ t. t - 10) 3 0x42 10 demo_irq_state = Some (OK, s'))
   \<and> (\<exists>s'. vme_generate_interrupt plain_hw (\<lambda>_. 0x800) (\<lambda>_ t. t - 10) 3 0x42 10 demo_irq_state = Some (Err ETIME, s'))
   \<and> vme_generate_interrupt plain_hw (\<lambda>_. 0) (\<lambda>_ t. t - 10) 3 0x142 10 demo_irq_state = Some (Err EINVAL, demo_irq_state)"
proof -
  have time: "left (\<lambda>_ t. t - 10) 10 (Suc 0) = 0" by simp
  note out = generate_interrupt_outcome [OF time, of 3 _ _ plain_hw demo_irq_state]
  show ?thesis using out [of "0x42" "\<lambda>_. 0"] out [of "0x42" "\<lambda>_. 0x800"] out [of "0x142" "\<lambda>_. 0"] by auto
qed

end
