(* ===== verification/Vme_Cesif.thy ===== *)
theory Vme_Cesif
  imports Vme_Irq_Props
begin

text \<open>
  The emulation of the LynxOS CES driver (\<open>src/vmebridge/driver/vme_cesif.c\<close>): \<open>find_controller\<close> and
  \<open>return_controller\<close> over the window manager, \<open>vme_intset\<close> and \<open>vme_intclr\<close> over interrupt management. The
  state adds to that of the driver the number of mapping descriptors \<open>find_controller\<close> has allocated and not freed.
\<close>

section \<open>Operations\<close>

record cstate = istate +
  cesif_descs :: nat

record pdparam_master =
  pd_iack :: u32
  pd_rdpref :: u32
  pd_wrpost :: u32
  pd_swap :: u32
  pd_sgmin :: u32
  pd_dum :: "u32 list"

text \<open>
  \<open>alloc\<close> is whether \<open>kzalloc\<close> gives the descriptor. The result is the virtual address of the mapping, or
  all ones, the \<open>-1\<close> of a failure.
\<close>

definition find_controller ::
    "kernel \<Rightarrow> bool \<Rightarrow> u32 \<Rightarrow> u32 \<Rightarrow> u32 \<Rightarrow> u32 \<Rightarrow> u32 \<Rightarrow> pdparam_master \<Rightarrow> 'a cstate_scheme \<Rightarrow> u32 \<times> 'a cstate_scheme" where
  "find_controller k alloc vmeaddr len am offset sz param s =
     (if \<not> alloc then (- 1, s)
      else let s1 = s\<lparr>cesif_descs := cesif_descs s + 1\<rparr>;
               desc = zero_mapping;
               desc = (if pd_rdpref param \<noteq> 0 then desc\<lparr>vm_read_prefetch_enabled := 1, vm_read_prefetch_size := VME_PREFETCH_2\<rparr> else desc)
           in if sz \<noteq> 2 \<and> sz \<noteq> 4 then (- 1, s1\<lparr>cesif_descs := cesif_descs s1 - 1\<rparr>)
              else let desc = desc\<lparr>vm_data_width := (if sz = 2 then VME_D16 else VME_D32), vm_am := am, vm_bcast_select := 0,
                                   vm_sizel := len, vm_sizeu := 0, vm_vme_addrl := vmeaddr, vm_vme_addru := 0\<rparr>
                   in case vme_find_mapping k desc True s1 of
                        (OK, desc', s2) \<Rightarrow> (vm_kernel_va desc', s2)
                      | (Err e, desc', s2) \<Rightarrow> (- 1, s2\<lparr>cesif_descs := cesif_descs s2 - 1\<rparr>))"

definition return_controller :: "kernel \<Rightarrow> u32 \<Rightarrow> u32 \<Rightarrow> 'a cstate_scheme \<Rightarrow> u32 \<times> 'a cstate_scheme" where
  "return_controller k logaddr len s =
     (case find_vme_mapping_from_addr k logaddr s of
        (None, s1) \<Rightarrow> (- 1, s1)
      | (Some desc, s1) \<Rightarrow>
          (case vme_release_mapping k desc True s1 of
             (OK, s2) \<Rightarrow> (0, s2)
           | (Err e, s2) \<Rightarrow> (- 1, s2)))"

definition vme_intset :: "rc \<Rightarrow> int \<Rightarrow> nat option \<Rightarrow> nat \<Rightarrow> 'a istate_scheme \<Rightarrow> rc \<times> 'a istate_scheme" where
  "vme_intset lock vec handler arg s = vme_request_irq lock (word_of_int vec) handler arg None s"

definition vme_intclr :: "rc \<Rightarrow> int \<Rightarrow> 'a istate_scheme \<Rightarrow> rc \<times> 'a istate_scheme" where
  "vme_intclr lock vec s = vme_free_irq lock (word_of_int vec) s"

section \<open>Lemmas\<close>

text \<open>Looking for a virtual address that some window has a mapping at, all locks being granted.\<close>

lemma find_mapping_from_found:
  assumes "winv s" and "\<forall>i. k_lock k i" and "set is \<subseteq> {..<8}"
    and "\<exists>i \<in> set is. \<exists>m \<in> set (w_mappings (window_table s ! i)). vm_kernel_va (mp_desc m) = a"
  shows "\<exists>i \<in> set is. \<exists>m \<in> set (w_mappings (window_table s ! i)). vm_kernel_va (mp_desc m) = a
    \<and> find_mapping_from k a is s = (Some (mp_desc m), s)"
  using assms(3,4)
proof (induction "is")
  case (Cons i "is")
  have i: "i < 8" "i < length (window_table s)" using Cons.prems winvD(2) [OF assms(1)] by auto
  note step = lock_winv [OF assms(1) i(1)] unlock_lock [OF i(2) winv_unlocked [OF assms(1) i(1)]]
  let ?f = "filter (\<lambda>m. vm_kernel_va (mp_desc m) = a) (w_mappings (window_table s ! i))"
  show ?case
  proof (cases ?f)
    case Nil
    then have "\<exists>i \<in> set is. \<exists>m \<in> set (w_mappings (window_table s ! i)). vm_kernel_va (mp_desc m) = a"
      using Cons.prems(2) by (auto simp: filter_empty_conv)
    from Cons.IH [OF _ this] show ?thesis using Cons.prems(1) Nil step assms(2) i(2) by (auto simp: set_window_fields)
  next
    case (Cons m ms)
    then have "m \<in> set ?f" by simp
    then have m: "m \<in> set (w_mappings (window_table s ! i))" "vm_kernel_va (mp_desc m) = a" by simp_all
    moreover have "find_mapping_from k a (i # is) s = (Some (mp_desc m), s)"
      using Cons step assms(2) i(2) by (simp add: set_window_fields)
    ultimately show ?thesis by (intro bexI [of _ i] bexI [of _ m] conjI) simp_all
  qed
qed simp

lemma cesif_frame [simp]:
  "winv (s\<lparr>cesif_descs := n\<rparr>) = winv s" "window_table (s\<lparr>cesif_descs := n\<rparr>) = window_table s"
  by (simp_all add: winv_def)

text \<open>Releasing a mapping that a window has succeeds.\<close>

lemma release_own_mapping:
  assumes "winv s" and "i < 8" and "m \<in> set (w_mappings (window_table s ! i))" and "\<forall>i. k_lock k i" and "\<forall>i. k_relock k i"
  shows "\<exists>s'. vme_release_mapping k (mp_desc m) True s = (OK, s') \<and> winv s'"
proof -
  have act: "w_active (window_table s ! i)" using winv_idle [OF assms(1,2)] assms(3) by (cases "w_active (window_table s ! i)") (auto simp: idle_ok_def)
  then have num: "vm_window_num (mp_desc m) = int i" using winv_active [OF assms(1,2)] assms(3) by (auto simp: active_ok_def mapping_ok_def Let_def)
  have "mapping_matches (mp_desc m) None m" by (simp add: mapping_matches_def)
  then obtain ms where ms: "remove_first (mapping_matches (mp_desc m) None) (w_mappings (window_table s ! i)) = Some ms"
    using assms(3) remove_first_None by fastforce
  have good: "\<not> bad_window_num (int i)" using assms(2) by (simp add: bad_window_num_def)
  have len: "i < length (window_table s)" using assms(2) winvD(2) [OF assms(1)] by simp
  let ?s1 = "set_window i (pop_mapping ms) s"
  have s1: "mutex_unlock i (set_window i (pop_mapping ms) (set_window i (\<lambda>w. w\<lparr>w_lock := True\<rparr>) s)) = ?s1"
    using len winv_unlocked [OF assms(1,2)] by (intro unlock_set_lock) (simp_all add: pop_mapping_def)
  have rel: "vme_release_mapping_file k (mp_desc m) True None s
      = (if w_users (window_table s ! i) - 1 = 0 then vme_destroy_window (nested k) (int i) ?s1 else (OK, ?s1))"
    using num good lock_winv [OF assms(1,2)] assms(4) act ms s1 len
    by (auto simp: vme_release_mapping_file_def Let_def set_window_fields remove_mapping_def pop_mapping_def [abs_def])
  have inv1: "winv ?s1" using winv_pop_mapping [OF assms(1,2) ms] by simp
  obtain q u where d: "vme_destroy_window (nested k) (int i) ?s1 = (q, u)" by fastforce
  have "q = OK" using inv1 d
  proof (cases rule: vme_destroy_window_cases)
    case err
    then show ?thesis using good assms(5) act len by (auto simp: nested_def set_window_fields pop_mapping_def)
  qed simp
  then have "fst (vme_release_mapping_file k (mp_desc m) True None s) = OK" using rel d by simp
  moreover have "winv (snd (vme_release_mapping_file k (mp_desc m) True None s))"
    using winv_release_mapping assms(1) by (metis prod.collapse)
  ultimately show ?thesis unfolding vme_release_mapping_def by (metis prod.collapse)
qed

text \<open>The window manager does not touch what the other components keep.\<close>

lemma set_window_descs [simp]: "cesif_descs (set_window i f s) = cesif_descs s"
  by (simp add: set_window_def)

lemma create_descs: "winv s \<Longrightarrow> vme_create_window k d s = (r, d', s') \<Longrightarrow> cesif_descs s' = cesif_descs s"
  by (erule (1) vme_create_window_cases) (auto simp: created_state_def)

lemma find_descs:
  assumes "winv s" and "vme_find_mapping_file k d force f s = (r, d', s')"
  shows "cesif_descs s' = cesif_descs s"
  using assms
proof (cases rule: find_mapping_cases)
  case (nomem wnd)
  then show ?thesis using create_descs assms(1) by blast
next
  case (new i d s2)
  then show ?thesis using create_descs [OF assms(1) new(6)] by simp
qed simp_all

lemma release_descs:
  assumes "winv s" and "vme_release_mapping_file k d force f s = (r, s')"
  shows "cesif_descs s' = cesif_descs s"
  using assms
proof (cases rule: release_mapping_cases)
  case (popped n ms s1)
  have inv: "winv s1" unfolding popped(5) using winv_pop_mapping [OF assms(1) popped(1,4)] by simp
  have "cesif_descs t = cesif_descs s1" if "vme_destroy_window (nested k) (int n) s1 = (q, t)" for q t
    using inv that by (rule vme_destroy_window_cases) (auto simp: destroyed_state_def Let_def)
  then show ?thesis using popped(5,6) by (auto split: if_splits)
qed simp

section \<open>Properties\<close>

text \<open>
  What \<open>find_controller\<close> maps, \<open>return_controller\<close> unmaps. A returned address other than \<open>-1\<close> is the virtual
  address of a mapping in an active window, for the VME address, size and modifier asked for; giving the address to
  \<open>return_controller\<close> then succeeds, whatever size is passed, and the window table keeps its invariant. But the mapping descriptor that
  \<open>find_controller\<close> allocated is never freed: each such pair leaves one more behind.
\<close>

lemma ces_controller_roundtrip:
  assumes "winv s" and "find_controller k alloc vmeaddr len am offset sz param s = (va, t)" and "va \<noteq> - 1"
    and "\<forall>i. k_lock k' i" and "\<forall>i. k_relock k' i"
  shows "(\<exists>i < 8. \<exists>m \<in> set (w_mappings (window_table t ! i)). w_active (window_table t ! i) \<and> vm_kernel_va (mp_desc m) = va
      \<and> vm_vme_addrl (mp_desc m) = vmeaddr \<and> vm_sizel (mp_desc m) = len \<and> vm_am (mp_desc m) = am)
    \<and> (\<exists>u. return_controller k' va len' t = (0, u) \<and> winv u \<and> cesif_descs u = cesif_descs s + 1)"
proof -
  let ?s1 = "s\<lparr>cesif_descs := cesif_descs s + 1\<rparr>"
  obtain d d' where run: "vme_find_mapping_file k d True None ?s1 = (OK, d', t)" "va = vm_kernel_va d'"
    and d: "vm_vme_addrl d = vmeaddr" "vm_sizel d = len" "vm_am d = am"
    using assms(2,3) by (fastforce simp: find_controller_def Let_def vme_find_mapping_def split: if_splits prod.splits rc.splits)
  have inv1: "winv ?s1" using assms(1) by simp
  have invt: "winv t" using winv_find inv1 run(1) by blast
  have placed: "\<exists>i < 8. \<exists>m \<in> set (w_mappings (window_table t ! i)). w_active (window_table t ! i) \<and> mp_desc m = d'
      \<and> vm_vme_addrl d' = vmeaddr \<and> vm_sizel d' = len \<and> vm_am d' = am"
    using find_mapping_placed [OF inv1 run(1)] d by (intro exI [of _ "nat (vm_window_num d')"]) auto
  then have "\<exists>i \<in> set [0..<8]. \<exists>m \<in> set (w_mappings (window_table t ! i)). vm_kernel_va (mp_desc m) = va"
    using run(2) by auto
  from find_mapping_from_found [OF invt assms(4) window_indices this]
  obtain i m where im: "i < 8" "m \<in> set (w_mappings (window_table t ! i))" "find_vme_mapping_from_addr k' va t = (Some (mp_desc m), t)"
    by (auto simp: find_vme_mapping_from_addr_def)
  obtain u where u: "vme_release_mapping k' (mp_desc m) True t = (OK, u)" "winv u"
    using release_own_mapping [OF invt im(1,2) assms(4,5)] by blast
  have "cesif_descs u = cesif_descs s + 1"
    using release_descs [OF invt u(1) [unfolded vme_release_mapping_def]] find_descs [OF inv1 run(1)] by simp
  then show ?thesis using placed run(2) im(3) u by (auto simp: return_controller_def)
qed

section \<open>Examples\<close>

definition demo_ces :: cstate where
  "demo_ces = vme_window_init (istate.extend demo_irq_state \<lparr>cesif_descs = 0\<rparr>)"

definition demo_param :: pdparam_master where
  "demo_param = \<lparr>pd_iack = 1, pd_rdpref = 0, pd_wrpost = 0, pd_swap = 0, pd_sgmin = 0, pd_dum = [0, 0, 0]\<rparr>"

lemma demo_ces_winv: "winv demo_ces"
  unfolding demo_ces_def
  by (rule winv_init)
    (simp add: module_start_def istate.defs demo_irq_state_def dstate.defs demo_dma_state_def wstate.defs
      demo_start_def demo_window_def zero_lcsr_def zero_otrans_def wf_lcsr_def)

lemma ces_controller_roundtrip_example:
  "\<exists>t u. find_controller demo_kernel True 0x3000 0x1000 VME_A24_USER_DATA_SCT 0 4 demo_param demo_ces = (0xd0003000, t)
     \<and> return_controller demo_kernel 0xd0003000 0 t = (0, u) \<and> cesif_descs u = cesif_descs demo_ces + 1"
proof -
  let ?x = "find_controller demo_kernel True 0x3000 0x1000 VME_A24_USER_DATA_SCT 0 4 demo_param demo_ces"
  have "fst ?x = 0xd0003000" by code_simp
  then obtain t where run: "?x = (0xd0003000, t)" by (metis prod.collapse)
  from ces_controller_roundtrip [OF demo_ces_winv run, of demo_kernel 0] run show ?thesis by (auto simp: demo_kernel_def)
qed

end
