(* ===== verification/Vme_Bridge.thy ===== *)
theory Vme_Bridge
  imports Vme_Cesif
begin

text \<open>
  The bridge driver itself (\<open>src/vmebridge/driver/vme_bridge.c\<close>): the dispatch of the file operations by
  minor number, the mapping of the chip's registers and of its CRG image on the VME bus, the
  set-up and removal of the whole device.

  The state extends that of the components by what the driver holds of the kernel: the enabled
  PCI device, the allocated \<open>struct vme_bridge_device\<close> (\<open>bridge_alloc\<close> counts them), the region and mapping of
  BAR 0, the class, the character device and its nodes, the \<open>/proc\<close> entries and the interrupt line. \<open>class_live\<close> is the
  number of \<open>class_create\<close> less that of \<open>class_destroy\<close>. The answers of the kernel and the words read back from the
  hardware during one call are a record.
\<close>

section \<open>State\<close>

record bstate = cstate +
  pci_enabled :: bool
  bridge_alloc :: nat
  br_rev :: u32
  br_irq :: int
  br_slot :: int
  br_syscon :: bool
  bar0_region :: bool
  regs_mapped :: bool
  dma_usable :: bool
  vme_irq_param :: int
  vme_slotnum :: int
  class_live :: int
  chrdev :: bool
  dev_nodes :: "nat list"
  procfs :: bool
  irq_handler :: bool
  a24d32_desc :: vme_mapping
  crg_desc :: vme_mapping
  crg_base :: u32

record bridge_env =
  en_hw :: tsi148_hw
  en_kernel :: kernel
  en_dma :: dma_kernel
  en_enable :: rc
  en_kzalloc :: bool
  en_rev :: u32
  en_pdev_irq :: int
  en_parent :: "(u32 \<times> u32) option"
  en_request_region :: rc
  en_iomap :: bool
  en_reg_id :: u32
  en_dma_mask :: rc
  en_class :: rc
  en_chrdev :: bool
  en_crg_id :: u32
  en_request_irq :: rc

abbreviation (input) VME_MINOR_MWINDOW :: nat where "VME_MINOR_MWINDOW \<equiv> 0"
abbreviation (input) VME_MINOR_DMA :: nat where "VME_MINOR_DMA \<equiv> 1"
abbreviation (input) VME_MINOR_CTL :: nat where "VME_MINOR_CTL \<equiv> 3"
abbreviation (input) VME_MINOR_REGS :: nat where "VME_MINOR_REGS \<equiv> 4"
abbreviation (input) PCI_VENDOR_ID_TUNDRA :: u32 where "PCI_VENDOR_ID_TUNDRA \<equiv> 0x10e3"
abbreviation (input) PCI_DEVICE_ID_TUNDRA_TSI148 :: u32 where "PCI_DEVICE_ID_TUNDRA_TSI148 \<equiv> 0x148"
abbreviation (input) CRG_VME_BASE :: u32 where "CRG_VME_BASE \<equiv> 0xfff000"
abbreviation (input) CRG_VME_SIZE :: u32 where "CRG_VME_SIZE \<equiv> 0x1000"
abbreviation (input) A24D32_VME_SIZE :: u32 where "A24D32_VME_SIZE \<equiv> 0x1000000"

section \<open>File operations\<close>

text \<open>The table of devices: minor number, name, whether \<open>DEV_RW\<close> is among the flags.\<close>

definition devlist :: "(nat \<times> string \<times> bool) list" where
  "devlist = [(VME_MINOR_MWINDOW, ''vme_mwindow'', False), (VME_MINOR_DMA, ''vme_dma'', False),
              (VME_MINOR_CTL, ''vme_ctl'', False), (VME_MINOR_REGS, ''vme_regs'', True)]"

text \<open>None of the devices has an \<open>open\<close> method of its own.\<close>

definition vme_open :: "nat \<Rightarrow> 'a bstate_scheme \<Rightarrow> rc" where
  "vme_open minor s =
     (if minor = VME_MINOR_MWINDOW then OK
      else if minor = VME_MINOR_DMA then (if \<not> dma_usable s then Err ENODEV else OK)
      else if minor = VME_MINOR_CTL \<or> minor = VME_MINOR_REGS then OK
      else Err ENXIO)"

definition vme_release :: "kernel \<Rightarrow> nat \<Rightarrow> nat \<Rightarrow> 'a bstate_scheme \<Rightarrow> rc \<times> 'a bstate_scheme" where
  "vme_release k minor file s =
     (if minor = VME_MINOR_MWINDOW then vme_window_release k (Some file) s
      else if minor = VME_MINOR_DMA \<or> minor = VME_MINOR_CTL \<or> minor = VME_MINOR_REGS then (OK, s)
      else (Err ENXIO, s))"

text \<open>Bytes read or written, an error, or an access to \<open>devlist\<close> out of bounds.\<close>

datatype io_result = Io_len u32 | Io_err errno | Io_bug

definition vme_read :: "nat \<Rightarrow> u32 \<Rightarrow> io_result" where
  "vme_read minor n =
     (if minor \<ge> length devlist then Io_bug
      else if \<not> snd (snd (devlist ! minor)) then Io_err ENODEV
      else if minor = VME_MINOR_REGS then Io_len (vme_misc_read n)
      else Io_err ENXIO)"

definition vme_write :: "nat \<Rightarrow> u32 \<Rightarrow> io_result" where
  "vme_write minor n =
     (if minor \<ge> length devlist then Io_bug
      else if \<not> snd (snd (devlist ! minor)) then Io_err ENODEV
      else if minor = VME_MINOR_REGS then Io_len (vme_misc_write n)
      else Io_err ENXIO)"

text \<open>A command of one device given to the other is an unknown number there.\<close>

datatype bridge_cmd = Window_cmd window_cmd | Dma_cmd dma_cmd
datatype ioctl_out = Window_out user_out | Dma_out "vme_dma option" | No_ioctl_out

definition vme_ioctl ::
    "bridge_env \<Rightarrow> nat \<Rightarrow> nat \<Rightarrow> bridge_cmd \<Rightarrow> u32 \<Rightarrow> 'a bstate_scheme \<Rightarrow> dma_outcome \<times> ioctl_out \<times> 'a bstate_scheme" where
  "vme_ioctl env minor file cmd num s =
     (if minor = VME_MINOR_MWINDOW
      then let (r, out, s') = vme_window_ioctl (en_hw env) (en_kernel env) (Some file)
                 (case cmd of Window_cmd c \<Rightarrow> c | Dma_cmd _ \<Rightarrow> OTHER_IOCTL num) s
           in (Dma_rc r, Window_out out, s')
      else if minor = VME_MINOR_DMA
      then let (r, out, s') = vme_dma_ioctl (en_dma env) (case cmd of Dma_cmd c \<Rightarrow> c | Window_cmd _ \<Rightarrow> OTHER_DMA_IOCTL num) s
           in (r, Dma_out out, s')
      else (Dma_rc (Err ENXIO), No_ioctl_out, s))"

definition vme_mmap ::
    "kernel \<Rightarrow> nat \<Rightarrow> nat \<Rightarrow> vm_area \<Rightarrow> 'a bstate_scheme \<Rightarrow> rc \<times> vm_area \<times> (u32 \<times> u32) option \<times> 'a bstate_scheme" where
  "vme_mmap k minor file vma s =
     (if minor = VME_MINOR_MWINDOW then vme_window_mmap k (Some file) vma s else (Err ENXIO, vma, None, s))"

section \<open>Set-up of the parts\<close>

definition vme_bridge_create_devices :: "bridge_env \<Rightarrow> 'a bstate_scheme \<Rightarrow> rc \<times> 'a bstate_scheme" where
  "vme_bridge_create_devices env s =
     (case en_class env of
        Err e \<Rightarrow> (Err e, s)
      | OK \<Rightarrow>
          let s1 = s\<lparr>class_live := class_live s + 1\<rparr>
          in if \<not> en_chrdev env then (Err ENODEV, s1\<lparr>class_live := class_live s1 - 1\<rparr>)
             else (OK, s1\<lparr>chrdev := True, dev_nodes := map fst devlist\<rparr>))"

definition vme_bridge_remove_devices :: "'a bstate_scheme \<Rightarrow> 'a bstate_scheme" where
  "vme_bridge_remove_devices s =
     (let s1 = s\<lparr>chrdev := False\<rparr>;
          s2 = s1\<lparr>dev_nodes := fold (\<lambda>d. removeAll (fst d)) devlist (dev_nodes s1)\<rparr>
      in s2\<lparr>class_live := class_live s2 - 1\<rparr>)"

text \<open>The check of the vendor and device numbers, as it is written.\<close>

definition bad_id :: "u32 \<Rightarrow> bool" where
  "bad_id tmp \<longleftrightarrow> tmp AND 0xffff \<noteq> PCI_VENDOR_ID_TUNDRA \<and> drop_bit 16 tmp AND 0xffff \<noteq> PCI_DEVICE_ID_TUNDRA_TSI148"

definition vme_bridge_map_regs :: "bridge_env \<Rightarrow> 'a bstate_scheme \<Rightarrow> rc \<times> 'a bstate_scheme" where
  "vme_bridge_map_regs env s =
     (case en_request_region env of
        Err e \<Rightarrow> (Err e, s)
      | OK \<Rightarrow>
          let s1 = s\<lparr>bar0_region := True\<rparr>
          in if \<not> en_iomap env then (Err ENOMEM, s1\<lparr>regs_mapped := False\<rparr>)
             else let s2 = s1\<lparr>regs_mapped := True\<rparr>
                  in if bad_id (en_reg_id env) then (Err ENODEV, s2\<lparr>regs_mapped := False\<rparr>) else (OK, s2))"

definition vme_bridge_map_crg :: "bridge_env \<Rightarrow> 'a bstate_scheme \<Rightarrow> rc \<times> 'a bstate_scheme" where
  "vme_bridge_map_crg env s =
     (let k = en_kernel env;
          a24 = (a24d32_desc s)\<lparr>vm_window_num := 7, vm_am := VME_A24_USER_DATA_SCT, vm_read_prefetch_enabled := 0,
                  vm_data_width := VME_D32, vm_sizeu := 0, vm_sizel := A24D32_VME_SIZE, vm_vme_addru := 0, vm_vme_addrl := 0\<rparr>
      in case vme_create_window k a24 s of
           (Err e, a24', s1) \<Rightarrow> (Err e, s1\<lparr>a24d32_desc := a24'\<rparr>)
         | (OK, a24', s1) \<Rightarrow>
            (let s1 = s1\<lparr>a24d32_desc := a24'\<rparr>;
                 crg = (crg_desc s1)\<lparr>vm_am := VME_A24_USER_DATA_SCT, vm_read_prefetch_enabled := 0, vm_data_width := VME_D32,
                         vm_sizeu := 0, vm_sizel := CRG_VME_SIZE, vm_vme_addru := 0, vm_vme_addrl := CRG_VME_BASE\<rparr>
             in case vme_find_mapping k crg False s1 of
                  (Err e, crg', s2) \<Rightarrow> (Err e, s2\<lparr>crg_desc := crg'\<rparr>)
                | (OK, crg', s2) \<Rightarrow>
                   (let s2 = s2\<lparr>crg_desc := crg'\<rparr>;
                        (r, c) = tsi148_setup_crg CRG_VME_BASE VME_A24_USER_DATA_SCT (lcsr s2);
                        s3 = s2\<lparr>lcsr := c\<rparr>
                    in case r of
                         Err e \<Rightarrow> (Err e, snd (vme_destroy_window k (vm_window_num crg') s3))
                       | OK \<Rightarrow>
                          if bad_id (en_crg_id env)
                          then (Err ENODEV, snd (vme_destroy_window k (vm_window_num crg')
                                  (s3\<lparr>lcsr := tsi148_disable_crg (lcsr s3)\<rparr>)))
                          else (OK, s3\<lparr>crg_base := vm_kernel_va crg'\<rparr>))))"

definition vme_bridge_unmap_crg :: "kernel \<Rightarrow> 'a bstate_scheme \<Rightarrow> rc \<times> 'a bstate_scheme" where
  "vme_bridge_unmap_crg k s =
     vme_destroy_window k (vm_window_num (crg_desc s)) (s\<lparr>lcsr := tsi148_disable_crg (lcsr s)\<rparr>)"

definition vme_bridge_init_interrupts :: "bridge_env \<Rightarrow> 'a bstate_scheme \<Rightarrow> rc \<times> 'a bstate_scheme" where
  "vme_bridge_init_interrupts env s =
     (case en_request_irq env of
        Err e \<Rightarrow> (Err e, s)
      | OK \<Rightarrow>
          let s1 = s\<lparr>irq_handler := True\<rparr>;
              intmask = 0x3ff3000 OR (if br_syscon s1 then 0xfe else 0);
              (r, s2) = vme_enable_interrupts (en_hw env) intmask s1
          in if r \<noteq> OK then (Err ENODEV, s2\<lparr>irq_handler := False\<rparr>) else (OK, s2))"

definition vme_bus_error_init :: "'a bridge_dev_scheme \<Rightarrow> 'a bridge_dev_scheme" where
  "vme_bus_error_init s = s\<lparr>verr_desc := (verr_desc s)\<lparr>bd_valid := False\<rparr>, h_list := []\<rparr>"

section \<open>The device as a whole\<close>

text \<open>The exits of \<open>vme_bridge_init\<close>, from the last one up.\<close>

definition init_out_err :: "'a bstate_scheme \<Rightarrow> 'a bstate_scheme" where
  "init_out_err s = s\<lparr>pci_enabled := False\<rparr>"

definition init_out_free :: "'a bstate_scheme \<Rightarrow> 'a bstate_scheme" where
  "init_out_free s = init_out_err (s\<lparr>bridge_alloc := bridge_alloc s - 1\<rparr>)"

definition init_out_unmap_regs :: "'a bstate_scheme \<Rightarrow> 'a bstate_scheme" where
  "init_out_unmap_regs s = init_out_free (s\<lparr>regs_mapped := False, bar0_region := False\<rparr>)"

definition init_out_remove_devices :: "'a bstate_scheme \<Rightarrow> 'a bstate_scheme" where
  "init_out_remove_devices s = init_out_unmap_regs (vme_bridge_remove_devices s)"

definition init_out_unmap_crg :: "kernel \<Rightarrow> 'a bstate_scheme \<Rightarrow> 'a bstate_scheme" where
  "init_out_unmap_crg k s = init_out_remove_devices (snd (vme_bridge_unmap_crg k s))"

text \<open>The part up to the mapping of the registers: the interrupt number and the parent's address space.\<close>

definition init_probe :: "bridge_env \<Rightarrow> 'a bstate_scheme \<Rightarrow> rc \<times> 'a bstate_scheme" where
  "init_probe env s =
     (case en_enable env of
        Err e \<Rightarrow> (Err e, s)
      | OK \<Rightarrow>
          let s = s\<lparr>pci_enabled := True\<rparr>
          in if \<not> en_kzalloc env then (Err ENOMEM, init_out_err s)
             else let s = s\<lparr>bridge_alloc := bridge_alloc s + 1\<rparr>;
                      s = vme_bus_error_init s;
                      s = s\<lparr>br_rev := en_rev env AND 0xff\<rparr>;
                      irq = (if vme_irq_param s = 0 then (if en_pdev_irq env = 0 then 0x50 else en_pdev_irq env)
                             else vme_irq_param s);
                      s = s\<lparr>vme_irq_param := irq\<rparr>
                  in if irq = 0 \<or> irq = 0xff then (Err ENODEV, init_out_free s)
                     else let s = s\<lparr>br_irq := irq\<rparr>
                          in case en_parent env of
                               None \<Rightarrow> (Err ENODEV, init_out_err s)
                             | Some (start, end) \<Rightarrow>
                                 if end - start < 0x2000000 then (Err ENOMEM, init_out_err s)
                                 else case vme_bridge_map_regs env s of
                                        (Err e, s) \<Rightarrow> (Err e, init_out_err s)
                                      | (OK, s) \<Rightarrow> (OK, s))"

text \<open>The chip: slot, system controller, quiescing, windows and DMA.\<close>

definition init_chip :: "bridge_env \<Rightarrow> 'a bstate_scheme \<Rightarrow> 'a bstate_scheme" where
  "init_chip env s =
     (let s = s\<lparr>dma_usable := (en_dma_mask env = OK)\<rparr>;
          s = (if vme_slotnum s = -1 then s\<lparr>vme_slotnum := uint (tsi148_get_slotnum (lcsr s))\<rparr> else s);
          s = s\<lparr>br_slot := vme_slotnum s\<rparr>;
          s = s\<lparr>br_syscon := tsi148_get_syscon (lcsr s)\<rparr>;
          s = s\<lparr>lcsr := tsi148_quiesce (en_hw env) (lcsr s)\<rparr>;
          s = vme_window_init s;
          s = (if dma_usable s
               then let (r, s1) = vme_dma_init (en_dma env) s in (if r \<noteq> OK then s1\<lparr>dma_usable := False\<rparr> else s1) else s)
      in s\<lparr>lcsr := tsi148_init (en_hw env) (lcsr s)\<rparr>)"

definition vme_bridge_init :: "bridge_env \<Rightarrow> 'a bstate_scheme \<Rightarrow> rc \<times> 'a bstate_scheme" where
  "vme_bridge_init env s =
     (case init_probe env s of
        (Err e, s) \<Rightarrow> (Err e, s)
      | (OK, s) \<Rightarrow>
         (case vme_bridge_create_devices env (init_chip env s) of
            (Err e, s) \<Rightarrow> (Err e, init_out_unmap_regs s)
          | (OK, s) \<Rightarrow>
             (case vme_bridge_map_crg env (s\<lparr>procfs := True\<rparr>) of
                (Err e, s) \<Rightarrow> (Err e, init_out_remove_devices s)
              | (OK, s) \<Rightarrow>
                 (case vme_bridge_init_interrupts env s of
                    (Err e, s) \<Rightarrow> (Err e, init_out_unmap_crg (en_kernel env) s)
                  | (OK, s) \<Rightarrow> (OK, s)))))"

definition vme_bridge_remove :: "bridge_env \<Rightarrow> 'a bstate_scheme \<Rightarrow> 'a bstate_scheme" where
  "vme_bridge_remove env s =
     (let s = s\<lparr>lcsr := tsi148_quiesce (en_hw env) (lcsr s)\<rparr>;
          s = s\<lparr>irq_handler := False\<rparr>;
          s = snd (vme_bridge_unmap_crg (en_kernel env) s);
          s = vme_window_exit (en_kernel env) s;
          s = (if dma_usable s then vme_dma_exit s else s);
          s = s\<lparr>regs_mapped := False, bar0_region := False\<rparr>;
          s = s\<lparr>pci_enabled := False\<rparr>;
          s = s\<lparr>procfs := False\<rparr>;
          s = vme_bridge_remove_devices s;
          s = s\<lparr>class_live := class_live s - 1\<rparr>
      in s\<lparr>bridge_alloc := bridge_alloc s - 1\<rparr>)"

end
