(* ===== verification/Vme_Bridge_Props.thy ===== *)
theory Vme_Bridge_Props
  imports Vme_Bridge Vme_Dma_Sched
begin

text \<open>
  What the set-up of the device achieves, what its removal gives back, what its error exits leave
  behind, and the dispatch of the file operations.
\<close>

section \<open>The chip after set-up\<close>

text \<open>The driver's data before the first probe: statically allocated, hence zero; any state of the chip.\<close>

definition bridge_fresh :: "'a bstate_scheme \<Rightarrow> bool" where
  "bridge_fresh s \<longleftrightarrow> length (window_table s) = TSI148_NUM_OUT_WINDOWS
     \<and> (\<forall>w \<in> set (window_table s). w_users w = 0 \<and> w_rsrc w = zero_resource)
     \<and> wf_lcsr (lcsr s) \<and> iomaps s = [] \<and> (\<forall>i. pci_regions s i = None)
     \<and> a24d32_desc s = zero_mapping \<and> crg_desc s = zero_mapping"

lemma winv_lcsr:
  assumes "winv s" and "otrans c = otrans (lcsr s)" and "wf_lcsr c"
    and "window_table t = window_table s" and "pci_regions t = pci_regions s" and "iomaps t = iomaps s" and "lcsr t = c"
  shows "winv t"
  using assms by (simp add: winv_def)

lemma quiesce_otat:
  assumes "wf_lcsr c" and "t \<in> set (otrans (tsi148_quiesce hw c))"
  shows "otat t = 0"
proof -
  have len: "length (otrans (quiesce_windows c)) = 8" using quiesce_windows_frame(2) [of c] assms(1) by (simp add: wf_lcsr_def)
  obtain i where "i < 8" "t = otrans (quiesce_windows c) ! i"
    using assms(2) len by (auto simp: tsi148_quiesce_arrays in_set_conv_nth)
  then show ?thesis using quiesce_windows_off(1) [OF assms(1)] by simp
qed

lemma window_init_fields:
  "lcsr (vme_window_init s) = lcsr s" "pci_regions (vme_window_init s) = pci_regions s" "iomaps (vme_window_init s) = iomaps s"
  by (simp_all add: vme_window_init_def upt_8 set_window_fields)

lemma window_init_inactive:
  assumes "length (window_table s) = 8" and "i < 8"
  shows "\<not> w_active (window_table (vme_window_init s) ! i)" "w_mappings (window_table (vme_window_init s) ! i) = []"
proof -
  have "set [0..<8] \<subseteq> {..<length (window_table s)}" using assms(1) by auto
  from window_init_table [OF this]
  show "\<not> w_active (window_table (vme_window_init s) ! i)" "w_mappings (window_table (vme_window_init s) ! i) = []"
    using assms by (simp_all add: vme_window_init_def Let_def)
qed

text \<open>The state just before \<open>vme_window_init\<close> in \<open>init_chip\<close>.\<close>

definition quiesced :: "bridge_env \<Rightarrow> 'a bstate_scheme \<Rightarrow> 'a bstate_scheme" where
  "quiesced env s =
     (let s = s\<lparr>dma_usable := (en_dma_mask env = OK)\<rparr>;
          s = (if vme_slotnum s = -1 then s\<lparr>vme_slotnum := uint (tsi148_get_slotnum (lcsr s))\<rparr> else s);
          s = s\<lparr>br_slot := vme_slotnum s\<rparr>;
          s = s\<lparr>br_syscon := tsi148_get_syscon (lcsr s)\<rparr>
      in s\<lparr>lcsr := tsi148_quiesce (en_hw env) (lcsr s)\<rparr>)"

lemma quiesced_fields:
  "window_table (quiesced env s) = window_table s" "iomaps (quiesced env s) = iomaps s"
  "pci_regions (quiesced env s) = pci_regions s" "lcsr (quiesced env s) = tsi148_quiesce (en_hw env) (lcsr s)"
  "a24d32_desc (quiesced env s) = a24d32_desc s" "crg_desc (quiesced env s) = crg_desc s"
  by (simp_all add: quiesced_def Let_def)

lemma init_chip_fields:
  "window_table (init_chip env s) = window_table (vme_window_init (quiesced env s))"
  "iomaps (init_chip env s) = iomaps s" "pci_regions (init_chip env s) = pci_regions s"
  "lcsr (init_chip env s) = tsi148_init (en_hw env) (tsi148_quiesce (en_hw env) (lcsr s))"
proof -
  have eq: "init_chip env s =
     (let s = vme_window_init (quiesced env s);
          s = (if dma_usable s
               then let (r, s1) = vme_dma_init (en_dma env) s in (if r \<noteq> OK then s1\<lparr>dma_usable := False\<rparr> else s1) else s)
      in s\<lparr>lcsr := tsi148_init (en_hw env) (lcsr s)\<rparr>)"
    by (simp add: init_chip_def quiesced_def Let_def)
  show "window_table (init_chip env s) = window_table (vme_window_init (quiesced env s))"
    "iomaps (init_chip env s) = iomaps s" "pci_regions (init_chip env s) = pci_regions s"
    "lcsr (init_chip env s) = tsi148_init (en_hw env) (tsi148_quiesce (en_hw env) (lcsr s))"
    unfolding eq
    by (simp_all add: Let_def vme_dma_init_def split_beta window_init_fields quiesced_fields)
qed

lemma init_chip_ok:
  assumes "bridge_fresh s"
  shows "winv (init_chip env s)" "\<forall>i < 8. \<not> w_active (window_table (init_chip env s) ! i)"
proof -
  have start: "module_start (quiesced env s)"
    using assms wf_tsi148_quiesce quiesce_otat by (auto simp: module_start_def bridge_fresh_def quiesced_fields)
  show "winv (init_chip env s)"
    using winv_init [OF start]
  proof (rule winv_lcsr)
    show "otrans (lcsr (init_chip env s)) = otrans (lcsr (vme_window_init (quiesced env s)))"
      by (simp add: init_chip_fields wf_tsi148_init window_init_fields quiesced_fields)
    show "wf_lcsr (lcsr (init_chip env s))"
      using assms wf_tsi148_quiesce by (simp add: init_chip_fields wf_tsi148_init bridge_fresh_def)
  qed (simp_all add: init_chip_fields window_init_fields quiesced_fields)
  show "\<forall>i < 8. \<not> w_active (window_table (init_chip env s) ! i)"
    using window_init_inactive(1) [of "quiesced env s"] assms by (simp add: init_chip_fields quiesced_fields bridge_fresh_def)
qed

section \<open>The CRG image through the A24 window\<close>

text \<open>The descriptors \<open>vme_bridge_map_crg\<close> asks for.\<close>

definition a24_request :: vme_mapping where
  "a24_request = zero_mapping\<lparr>vm_window_num := 7, vm_am := VME_A24_USER_DATA_SCT, vm_data_width := VME_D32, vm_sizel := A24D32_VME_SIZE\<rparr>"

definition crg_request :: vme_mapping where
  "crg_request = zero_mapping\<lparr>vm_am := VME_A24_USER_DATA_SCT, vm_data_width := VME_D32, vm_sizel := CRG_VME_SIZE, vm_vme_addrl := CRG_VME_BASE\<rparr>"

lemma a24_created:
  "vm_window_num (created_desc a24_request va st) = 7" "vm_vme_addrl (created_desc a24_request va st) = 0"
  "vm_sizel (created_desc a24_request va st) = A24D32_VME_SIZE" "vm_vme_addru (created_desc a24_request va st) = 0"
  "vm_sizeu (created_desc a24_request va st) = 0" "vm_pci_addru (created_desc a24_request va st) = 0"
  "vm_am (created_desc a24_request va st) = VME_A24_USER_DATA_SCT" "vm_data_width (created_desc a24_request va st) = VME_D32"
  by (simp_all add: a24_request_def zero_mapping_def round_window_def align_down_def)

lemma crg_attr: "am_to_crgattrs VME_A24_USER_DATA_SCT = Inr 0x15"
  by code_simp

text \<open>What a successful \<open>vme_bridge_map_crg\<close> leaves when no window was in use before.\<close>

definition crg_mapped :: "'a bstate_scheme \<Rightarrow> bool" where
  "crg_mapped s \<longleftrightarrow> winv s \<and> w_active (window_table s ! 7) \<and> (\<forall>i < 7. \<not> w_active (window_table s ! i))
     \<and> vm_vme_addrl (w_desc (window_table s ! 7)) = 0 \<and> vm_sizel (w_desc (window_table s ! 7)) = A24D32_VME_SIZE
     \<and> vm_am (w_desc (window_table s ! 7)) = VME_A24_USER_DATA_SCT \<and> vm_vme_addru (w_desc (window_table s ! 7)) = 0
     \<and> vm_pci_addru (w_desc (window_table s ! 7)) = 0
     \<and> cbau (lcsr s) = 0 \<and> cbal (lcsr s) = CRG_VME_BASE \<and> crgat (lcsr s) = 0x95
     \<and> crg_base s = vm_kernel_va (w_desc (window_table s ! 7)) + CRG_VME_BASE
     \<and> vm_window_num (crg_desc s) = 7"

lemma create_a24:
  assumes "winv s" and "\<forall>i < 8. \<not> w_active (window_table s ! i)" and "vme_create_window k a24_request s = (OK, d, s1)"
  shows "winv s1" "\<exists>va st. d = created_desc a24_request va st" "w_desc (window_table s1 ! 7) = d" "crg_desc s1 = crg_desc s"
    "\<And>i. i < 8 \<Longrightarrow> w_active (window_table s1 ! i) = (i = 7)"
proof -
  show "winv s1" using winv_create assms(1,3) by blast
  have len: "7 < length (window_table s)" using winvD(2) [OF assms(1)] by simp
  obtain n name start va attrs where n: "vm_window_num a24_request = int n" and d: "d = created_desc a24_request va start"
    and s1: "s1 = created_state n name d attrs s"
    using assms(1,3) by (rule vme_create_window_cases) auto
  have "n = 7" using n by (simp add: a24_request_def)
  note s1 = s1 [unfolded this]
  show "\<exists>va st. d = created_desc a24_request va st" using d by blast
  show "crg_desc s1 = crg_desc s" unfolding s1 by (simp add: created_state_def set_window_def)
  show "w_desc (window_table s1 ! 7) = d" unfolding s1 by (simp add: created_state_fields [OF len])
  show "w_active (window_table s1 ! i) = (i = 7)" if "i < 8" for i
    unfolding s1 using assms(2) that by (simp add: created_state_fields [OF len])
qed

lemma find_crg:
  assumes "winv t" and "\<And>i. i < 8 \<Longrightarrow> w_active (window_table t ! i) = (i = 7)"
    and "vme_find_mapping k crg_request False t = (OK, d, s)"
  shows "winv s" "d = place_mapping crg_request (w_desc (window_table t ! 7)) 7" "lcsr s = lcsr t"
    "w_desc (window_table s ! 7) = w_desc (window_table t ! 7)" "\<And>i. i < 8 \<Longrightarrow> w_active (window_table s ! i) = (i = 7)"
proof -
  note run = assms(3) [unfolded vme_find_mapping_def]
  show "winv s" using winv_find assms(1) run by blast
  have len: "length (window_table t) = 8" using winvD(2) [OF assms(1)] by simp
  obtain i c where i: "i < 8" "window_suits crg_request (window_table t ! i)" "d = place_mapping crg_request (w_desc (window_table t ! i)) (int i)"
      "s = set_window i (push_mapping c) t"
    using assms(1) run by (rule find_mapping_cases) auto
  have "i = 7" using i(1,2) assms(2) by (simp add: window_suits_def Let_def)
  note i = i [unfolded this]
  show "d = place_mapping crg_request (w_desc (window_table t ! 7)) 7" using i(3) by simp
  show "lcsr s = lcsr t" "w_desc (window_table s ! 7) = w_desc (window_table t ! 7)"
    unfolding i(4) using len by (simp_all add: set_window_fields push_mapping_def)
  show "w_active (window_table s ! j) = (j = 7)" if "j < 8" for j
    unfolding i(4) using assms(2) [OF that] len by (cases "j = 7") (simp_all add: set_window_fields push_mapping_def)
qed

lemma map_crg_steps:
  assumes "vme_bridge_map_crg env s = (OK, s')" and "a24d32_desc s = zero_mapping" and "crg_desc s = zero_mapping"
    and "winv s" and "\<forall>i < 8. \<not> w_active (window_table s ! i)"
  shows "\<exists>d1 s1 d2 s2. vme_create_window (en_kernel env) a24_request s = (OK, d1, s1)
    \<and> vme_find_mapping (en_kernel env) crg_request False (s1\<lparr>a24d32_desc := d1\<rparr>) = (OK, d2, s2)
    \<and> s' = s2\<lparr>crg_desc := d2, lcsr := snd (tsi148_setup_crg CRG_VME_BASE VME_A24_USER_DATA_SCT (lcsr s2)), crg_base := vm_kernel_va d2\<rparr>"
proof -
  have a24: "(a24d32_desc s)\<lparr>vm_window_num := 7, vm_am := VME_A24_USER_DATA_SCT, vm_read_prefetch_enabled := 0,
      vm_data_width := VME_D32, vm_sizeu := 0, vm_sizel := A24D32_VME_SIZE, vm_vme_addru := 0, vm_vme_addrl := 0\<rparr> = a24_request"
    by (simp add: assms(2) a24_request_def zero_mapping_def)
  have crg: "(crg_desc s1)\<lparr>vm_am := VME_A24_USER_DATA_SCT, vm_read_prefetch_enabled := 0, vm_data_width := VME_D32, vm_sizeu := 0,
      vm_sizel := CRG_VME_SIZE, vm_vme_addru := 0, vm_vme_addrl := CRG_VME_BASE\<rparr> = crg_request"
    if "vme_create_window (en_kernel env) a24_request s = (OK, d1, s1)" for d1 s1
    using create_a24(4) [OF assms(4,5) that] by (simp add: assms(3) crg_request_def zero_mapping_def)
  show ?thesis
    using assms(1) crg unfolding vme_bridge_map_crg_def Let_def a24
    by (auto split: prod.splits rc.splits if_splits)
qed

lemma map_crg_success:
  assumes "winv s" and "\<forall>i < 8. \<not> w_active (window_table s ! i)" and "a24d32_desc s = zero_mapping" and "crg_desc s = zero_mapping"
    and "vme_bridge_map_crg env s = (OK, s')"
  shows "crg_mapped s'"
proof -
  obtain d1 s1 d2 s2 where st: "vme_create_window (en_kernel env) a24_request s = (OK, d1, s1)"
    "vme_find_mapping (en_kernel env) crg_request False (s1\<lparr>a24d32_desc := d1\<rparr>) = (OK, d2, s2)"
    and s': "s' = s2\<lparr>crg_desc := d2, lcsr := snd (tsi148_setup_crg CRG_VME_BASE VME_A24_USER_DATA_SCT (lcsr s2)), crg_base := vm_kernel_va d2\<rparr>"
    using map_crg_steps [OF assms(5,3,4,1,2)] by blast
  note c = create_a24 [OF assms(1,2) st(1)]
  obtain va pst where d1: "d1 = created_desc a24_request va pst" using c(2) by blast
  have "winv (s1\<lparr>a24d32_desc := d1\<rparr>)" using c(1) by (simp add: winv_def)
  note f = find_crg [OF this _ st(2)]
  have f': "winv s2" "d2 = place_mapping crg_request d1 7" "w_desc (window_table s2 ! 7) = d1"
    "\<And>i. i < 8 \<Longrightarrow> w_active (window_table s2 ! i) = (i = 7)"
    using f c(3,5) by simp_all
  let ?c = "snd (tsi148_setup_crg CRG_VME_BASE VME_A24_USER_DATA_SCT (lcsr s2))"
  have "winv s'"
    by (rule winv_lcsr [OF f'(1), where c = ?c]) (use winvD(1) [OF f'(1)] in \<open>simp_all add: s' setup_crg_frame\<close>)
  moreover have "cbau ?c = 0" "cbal ?c = CRG_VME_BASE" "crgat ?c = 0x95"
    by (simp_all add: tsi148_setup_crg_def crg_attr Let_def)
  ultimately show ?thesis
    using f'(2-4) a24_created [of va pst]
    by (simp add: crg_mapped_def s' d1 place_mapping_def Let_def crg_request_def)
qed

section \<open>Frames of the set-up steps\<close>

text \<open>What the driver holds of the kernel.\<close>

definition held :: "'a bstate_scheme \<Rightarrow> bool \<times> nat \<times> bool \<times> bool \<times> int \<times> bool \<times> nat list \<times> bool \<times> bool" where
  "held s = (pci_enabled s, bridge_alloc s, bar0_region s, regs_mapped s, class_live s, chrdev s, dev_nodes s, procfs s, irq_handler s)"

lemma bus_error_init_fields:
  "window_table (vme_bus_error_init s) = window_table s" "iomaps (vme_bus_error_init s) = iomaps s"
  "pci_regions (vme_bus_error_init s) = pci_regions s" "lcsr (vme_bus_error_init s) = lcsr s"
  by (simp_all add: vme_bus_error_init_def)

lemma bus_error_init_bstate:
  fixes s :: "'a bstate_scheme"
  shows "a24d32_desc (vme_bus_error_init s) = a24d32_desc s" "crg_desc (vme_bus_error_init s) = crg_desc s"
  "held (vme_bus_error_init s) = held s"
  by (simp_all add: vme_bus_error_init_def held_def)

lemma map_regs_ok:
  assumes "vme_bridge_map_regs env s = (OK, t)"
  shows "t = s\<lparr>bar0_region := True, regs_mapped := True\<rparr> \<and> \<not> bad_id (en_reg_id env)"
  using assms by (auto simp: vme_bridge_map_regs_def Let_def split: rc.splits if_splits)

lemma init_probe_ok:
  assumes "init_probe env s = (OK, t)"
  shows "window_table t = window_table s \<and> iomaps t = iomaps s \<and> pci_regions t = pci_regions s \<and> lcsr t = lcsr s
    \<and> a24d32_desc t = a24d32_desc s \<and> crg_desc t = crg_desc s \<and> \<not> bad_id (en_reg_id env) \<and> br_irq t \<noteq> 0 \<and> br_irq t \<noteq> 0xff
    \<and> held t = (True, bridge_alloc s + 1, True, True, class_live s, chrdev s, dev_nodes s, procfs s, irq_handler s)"
  using assms unfolding init_probe_def Let_def
  by (auto simp: vme_bus_error_init_def held_def split: rc.splits if_splits option.splits prod.splits dest!: map_regs_ok)

lemma window_init_bstate:
  fixes s :: "'a bstate_scheme"
  shows "held (vme_window_init s) = held s" "a24d32_desc (vme_window_init s) = a24d32_desc s" "crg_desc (vme_window_init s) = crg_desc s"
  by (simp_all add: vme_window_init_def upt_8 set_window_def held_def)

lemma init_chip_held:
  "held (init_chip env s) = held s" "a24d32_desc (init_chip env s) = a24d32_desc s" "crg_desc (init_chip env s) = crg_desc s"
proof -
  have eq: "init_chip env s =
     (let s = vme_window_init (quiesced env s);
          s = (if dma_usable s
               then let (r, s1) = vme_dma_init (en_dma env) s in (if r \<noteq> OK then s1\<lparr>dma_usable := False\<rparr> else s1) else s)
      in s\<lparr>lcsr := tsi148_init (en_hw env) (lcsr s)\<rparr>)"
    by (simp add: init_chip_def quiesced_def Let_def)
  have q: "held (quiesced env s) = held s" by (simp add: quiesced_def held_def Let_def)
  show "a24d32_desc (init_chip env s) = a24d32_desc s" "crg_desc (init_chip env s) = crg_desc s"
    unfolding eq by (simp_all add: Let_def vme_dma_init_def split_beta window_init_bstate quiesced_fields)
  have "held (init_chip env s) = held (vme_window_init (quiesced env s))"
    unfolding eq by (simp add: Let_def vme_dma_init_def split_beta held_def)
  then show "held (init_chip env s) = held s" by (simp add: window_init_bstate q)
qed

lemma create_devices_ok:
  assumes "vme_bridge_create_devices env s = (OK, t)"
  shows "t = s\<lparr>class_live := class_live s + 1, chrdev := True, dev_nodes := [0, 1, 3, 4]\<rparr>"
  using assms by (auto simp: vme_bridge_create_devices_def Let_def devlist_def split: rc.splits if_splits)

lemma create_window_held:
  assumes "winv s" and "vme_create_window k d s = (r, d', s')"
  shows "held s' = held s"
  using assms by (rule vme_create_window_cases) (auto simp: created_state_def set_window_def held_def)

lemma find_mapping_held:
  assumes "winv s" and "vme_find_mapping k d False s = (r, d', s')"
  shows "held s' = held s"
  using assms(1) assms(2) [unfolded vme_find_mapping_def]
  by (rule find_mapping_cases) (auto simp: set_window_def held_def)

lemma destroy_window_held: "held (snd (vme_destroy_window k n s)) = held s"
  by (simp add: vme_destroy_window_def mutex_lock_interruptible_def set_window_def mutex_unlock_def
        iounmap_def release_resource_def Let_def split_beta held_def)

lemma held_descs [simp]:
  "held (s\<lparr>lcsr := c\<rparr>) = held s" "held (s\<lparr>crg_desc := d\<rparr>) = held s" "held (s\<lparr>a24d32_desc := d\<rparr>) = held s"
  "held (s\<lparr>crg_base := b\<rparr>) = held s"
  by (simp_all add: held_def)

text \<open>Whether it succeeds or not, the mapping of the CRG image takes nothing of the kernel but windows.\<close>

lemma map_crg_held:
  assumes "winv s" and "vme_bridge_map_crg env s = (r, s')"
  shows "held s' = held s"
proof -
  let ?d = "(a24d32_desc s)\<lparr>vm_window_num := 7, vm_am := VME_A24_USER_DATA_SCT, vm_read_prefetch_enabled := 0,
      vm_data_width := VME_D32, vm_sizeu := 0, vm_sizel := A24D32_VME_SIZE, vm_vme_addru := 0, vm_vme_addrl := 0\<rparr>"
  obtain r1 d1 s1 where cr: "vme_create_window (en_kernel env) ?d s = (r1, d1, s1)" by (metis prod_cases3)
  note h1 = create_window_held [OF assms(1) cr] and w1 = winv_create [OF assms(1) cr]
  show ?thesis
  proof (cases r1)
    case OK
    define t where "t = s1\<lparr>a24d32_desc := d1\<rparr>"
    define c where "c = (crg_desc t)\<lparr>vm_am := VME_A24_USER_DATA_SCT, vm_read_prefetch_enabled := 0, vm_data_width := VME_D32,
                         vm_sizeu := 0, vm_sizel := CRG_VME_SIZE, vm_vme_addru := 0, vm_vme_addrl := CRG_VME_BASE\<rparr>"
    obtain r2 d2 s2 where fd: "vme_find_mapping (en_kernel env) c False t = (r2, d2, s2)" by (metis prod_cases3)
    have "winv t" using w1 by (simp add: t_def winv_def)
    from find_mapping_held [OF this fd] have h2: "held s2 = held s" using h1 by (simp add: t_def)
    show ?thesis
      using assms(2) cr fd h2 OK
      by (auto simp: vme_bridge_map_crg_def Let_def t_def [symmetric] c_def [symmetric] destroy_window_held split_beta
          split: rc.splits if_splits)
  qed (use assms(2) cr h1 in \<open>auto simp: vme_bridge_map_crg_def Let_def\<close>)
qed

lemma init_interrupts_ok:
  assumes "vme_bridge_init_interrupts env s = (OK, t)"
  shows "inteo (lcsr t) = vme_interrupts_enabled t \<and> inten (lcsr t) = vme_interrupts_enabled t
    \<and> vme_interrupts_enabled t = inteo (lcsr s) OR 0x3ff3000 OR (if br_syscon s then 0xfe else 0)
    \<and> held t = (pci_enabled s, bridge_alloc s, bar0_region s, regs_mapped s, class_live s, chrdev s, dev_nodes s, procfs s, True)
    \<and> crg_mapped t = crg_mapped s"
proof -
  obtain c where c: "tsi148_set_interrupts (en_hw env) (inteo (lcsr s) OR 0x3ff3000 OR (if br_syscon s then 0xfe else 0)) (lcsr s) = (OK, c)"
    "t = s\<lparr>irq_handler := True, vme_interrupts_enabled := inteo (lcsr s) OR 0x3ff3000 OR (if br_syscon s then 0xfe else 0), lcsr := c\<rparr>"
    using assms by (auto simp: vme_bridge_init_interrupts_def vme_enable_interrupts_def tsi148_get_int_enabled_def Let_def or.assoc
        split: rc.splits if_splits prod.splits)
  then show ?thesis
    by (auto simp: tsi148_set_interrupts_def Let_def held_def crg_mapped_def winv_def wf_lcsr_def split: if_splits)
qed

section \<open>The window manager does not look at the chip when it removes windows\<close>

definition same_windows :: "'a wstate_scheme \<Rightarrow> 'a wstate_scheme \<Rightarrow> bool" where
  "same_windows s t \<longleftrightarrow> window_table t = window_table s \<and> pci_regions t = pci_regions s \<and> iomaps t = iomaps s"

lemma destroy_same:
  "same_windows s t \<Longrightarrow> same_windows (snd (vme_destroy_window k n s)) (snd (vme_destroy_window k n t))"
  by (simp add: same_windows_def vme_destroy_window_def mutex_lock_interruptible_def set_window_def mutex_unlock_def
      tsi148_remove_window_def iounmap_def release_resource_def Let_def split_beta)

lemma exit_from_same: "same_windows s t \<Longrightarrow> same_windows (window_exit_from k is s) (window_exit_from k is t)"
proof (induction "is" arbitrary: s t)
  case (Cons i "is")
  have "window_table t = window_table s" using Cons.prems by (simp add: same_windows_def)
  then show ?case using Cons.IH Cons.IH [OF destroy_same] Cons.prems by simp
qed simp

section \<open>What removal gives back\<close>

lemma window_exit_held: "held (window_exit_from k is s) = held s"
  by (induction "is" arbitrary: s) (simp_all add: destroy_window_held)

lemma unmap_crg_held: "held (snd (vme_bridge_unmap_crg k s)) = held s"
  using destroy_window_held [of k "vm_window_num (crg_desc s)" "s\<lparr>lcsr := tsi148_disable_crg (lcsr s)\<rparr>"]
  by (simp add: vme_bridge_unmap_crg_def held_def)

text \<open>The state \<open>vme_bridge_remove\<close> has when the windows are gone.\<close>

definition unwindowed :: "bridge_env \<Rightarrow> 'a bstate_scheme \<Rightarrow> 'a bstate_scheme" where
  "unwindowed env s =
     vme_window_exit (en_kernel env) (snd (vme_bridge_unmap_crg (en_kernel env)
       (s\<lparr>lcsr := tsi148_quiesce (en_hw env) (lcsr s), irq_handler := False\<rparr>)))"

lemma unwindowed_held:
  "held (unwindowed env s)
    = (pci_enabled s, bridge_alloc s, bar0_region s, regs_mapped s, class_live s, chrdev s, dev_nodes s, procfs s, False)"
  by (simp add: unwindowed_def vme_window_exit_def window_exit_held unmap_crg_held) (simp add: held_def)

lemma remove_devices_fields:
  "window_table (vme_bridge_remove_devices s) = window_table s" "iomaps (vme_bridge_remove_devices s) = iomaps s"
  "pci_regions (vme_bridge_remove_devices s) = pci_regions s"
  by (simp_all add: vme_bridge_remove_devices_def Let_def)

lemma remove_windows:
  "window_table (vme_bridge_remove env s) = window_table (unwindowed env s)"
  "iomaps (vme_bridge_remove env s) = iomaps (unwindowed env s)"
  "pci_regions (vme_bridge_remove env s) = pci_regions (unwindowed env s)"
  by (simp_all add: vme_bridge_remove_def unwindowed_def Let_def vme_dma_exit_def remove_devices_fields)

lemma remove_held:
  "held (vme_bridge_remove env s)
    = (False, bridge_alloc s - 1, False, False, class_live s - 2, False, removeAll 4 (removeAll 3 (removeAll 1 (removeAll 0 (dev_nodes s)))), False, False)"
proof -
  have "held (vme_bridge_remove env s) = (let t = unwindowed env s in
      (False, bridge_alloc t - 1, False, False, class_live t - 2, False,
       removeAll 4 (removeAll 3 (removeAll 1 (removeAll 0 (dev_nodes t)))), False, irq_handler t))"
    by (simp add: vme_bridge_remove_def unwindowed_def Let_def vme_dma_exit_def vme_bridge_remove_devices_def devlist_def held_def)
  then show ?thesis using unwindowed_held [of env s] by (simp add: held_def Let_def)
qed

lemma unwindowed_clean:
  assumes "winv s" and "\<forall>i < 8. k_lock (en_kernel env) i"
  shows "(\<forall>i < 8. \<not> w_active (window_table (unwindowed env s) ! i) \<and> pci_regions (unwindowed env s) i = None)
    \<and> iomaps (unwindowed env s) = []"
proof -
  let ?k = "en_kernel env" and ?n = "vm_window_num (crg_desc s)"
  let ?s = "s\<lparr>irq_handler := False\<rparr>"
  let ?t = "s\<lparr>irq_handler := False, lcsr := tsi148_disable_crg (tsi148_quiesce (en_hw env) (lcsr s))\<rparr>"
  have "same_windows ?s ?t" by (simp add: same_windows_def)
  then have "same_windows (vme_window_exit ?k (snd (vme_destroy_window ?k ?n ?s))) (vme_window_exit ?k (snd (vme_destroy_window ?k ?n ?t)))"
    unfolding vme_window_exit_def by (intro exit_from_same destroy_same)
  moreover have "unwindowed env s = vme_window_exit ?k (snd (vme_destroy_window ?k ?n ?t))"
    by (simp add: unwindowed_def vme_bridge_unmap_crg_def)
  ultimately have same: "same_windows (vme_window_exit ?k (snd (vme_destroy_window ?k ?n ?s))) (unwindowed env s)" by simp
  have "winv ?s" using assms(1) by (simp add: winv_def)
  then have "winv (snd (vme_destroy_window ?k ?n ?s))" by (metis winv_destroy prod.collapse)
  from window_exit_clean [OF this assms(2)] same show ?thesis by (simp add: same_windows_def)
qed

section \<open>Error exits\<close>

text \<open>The interrupt number the probe settles on, and the points of the probe it can get past.\<close>

definition probe_irq :: "bridge_env \<Rightarrow> 'a bstate_scheme \<Rightarrow> int" where
  "probe_irq env s = (if vme_irq_param s = 0 then (if en_pdev_irq env = 0 then 0x50 else en_pdev_irq env) else vme_irq_param s)"

definition past_alloc :: "bridge_env \<Rightarrow> 'a bstate_scheme \<Rightarrow> bool" where
  "past_alloc env s \<longleftrightarrow> en_enable env = OK \<and> en_kzalloc env \<and> probe_irq env s \<noteq> 0 \<and> probe_irq env s \<noteq> 0xff"

definition parent_ok :: "bridge_env \<Rightarrow> bool" where
  "parent_ok env \<longleftrightarrow> (case en_parent env of None \<Rightarrow> False | Some (start, end) \<Rightarrow> \<not> end - start < 0x2000000)"

text \<open>Nothing is held but \<open>n\<close> structures and \<open>c\<close> classes.\<close>

definition holds_only :: "nat \<Rightarrow> bool \<Rightarrow> int \<Rightarrow> bool \<Rightarrow> 'a bstate_scheme \<Rightarrow> bool" where
  "holds_only n region c proc s \<longleftrightarrow> held s = (False, n, region, False, c, False, [], proc, False)"

lemma bus_error_init_irq: "vme_irq_param (vme_bus_error_init s) = vme_irq_param s"
  by (simp add: vme_bus_error_init_def)

lemma init_probe_err:
  assumes "init_probe env s = (Err e, t)" and "holds_only n False c False s"
  shows "holds_only (n + (if past_alloc env s then 1 else 0)) (past_alloc env s \<and> parent_ok env \<and> en_request_region env = OK) c False t"
proof -
  let ?t = "vme_bus_error_init (s\<lparr>pci_enabled := True, bridge_alloc := bridge_alloc s + 1\<rparr>)"
  show ?thesis
  proof (cases "past_alloc env s")
    case False
    then consider e' where "en_enable env = Err e'" | "en_enable env = OK" "\<not> en_kzalloc env"
      | "en_enable env = OK" "en_kzalloc env" "probe_irq env s = 0 \<or> probe_irq env s = 0xff"
      unfolding past_alloc_def by (cases "en_enable env") auto
    then show ?thesis
    proof cases
      case 3
      then have "init_probe env s = (Err ENODEV, init_out_free (?t\<lparr>br_rev := en_rev env AND 0xff, vme_irq_param := probe_irq env s\<rparr>))"
        unfolding init_probe_def Let_def by (auto simp: bus_error_init_irq probe_irq_def split: if_splits)
      then show ?thesis using assms False
        by (auto simp: init_out_free_def init_out_err_def vme_bus_error_init_def holds_only_def held_def)
    qed (use assms False in \<open>auto simp: init_probe_def init_out_err_def holds_only_def held_def\<close>)
  next
    case True
    note past = this [unfolded past_alloc_def]
    let ?s = "(vme_bus_error_init (s\<lparr>pci_enabled := True, bridge_alloc := bridge_alloc s + 1\<rparr>))
      \<lparr>br_rev := en_rev env AND 0xff, vme_irq_param := probe_irq env s, br_irq := probe_irq env s\<rparr>"
    have probe: "init_probe env s = (case en_parent env of None \<Rightarrow> (Err ENODEV, init_out_err ?s)
        | Some (start, end) \<Rightarrow> if end - start < 0x2000000 then (Err ENOMEM, init_out_err ?s)
            else case vme_bridge_map_regs env ?s of (Err e, s) \<Rightarrow> (Err e, init_out_err s) | (OK, s) \<Rightarrow> (OK, s))"
      using past unfolding init_probe_def Let_def by (simp add: bus_error_init_irq probe_irq_def split: if_splits cong: option.case_cong prod.case_cong if_cong)
    have h: "held ?s = (True, n + 1, False, False, c, False, [], False, False)"
      using assms(2) by (simp add: holds_only_def held_def vme_bus_error_init_def)
    show ?thesis
      using assms(1) h unfolding probe
      by (auto simp: True parent_ok_def init_out_err_def holds_only_def held_def vme_bridge_map_regs_def Let_def
          split: option.splits if_splits rc.splits prod.splits)
  qed
qed

lemma init_out_held:
  assumes "held s = (True, n + 1, True, True, c + 1, True, [0, 1, 3, 4], p, False)"
  shows "holds_only n False c p (init_out_remove_devices s)" "holds_only n False c p (init_out_unmap_crg k s)"
proof -
  have "holds_only n False c p (init_out_remove_devices t)" if "held t = held s" for t :: "'a bstate_scheme"
    using that assms by (simp add: init_out_remove_devices_def init_out_unmap_regs_def init_out_free_def init_out_err_def
        vme_bridge_remove_devices_def devlist_def holds_only_def held_def Let_def)
  then show "holds_only n False c p (init_out_remove_devices s)" "holds_only n False c p (init_out_unmap_crg k s)"
    by (simp_all add: init_out_unmap_crg_def unmap_crg_held)
qed

text \<open>The state the CRG image is mapped in.\<close>

lemma init_before_crg:
  assumes "bridge_fresh s" and "init_probe env s = (OK, t)" and "vme_bridge_create_devices env (init_chip env t) = (OK, u)"
  shows "winv (u\<lparr>procfs := True\<rparr>)" "\<forall>i < 8. \<not> w_active (window_table (u\<lparr>procfs := True\<rparr>) ! i)"
    "a24d32_desc (u\<lparr>procfs := True\<rparr>) = zero_mapping" "crg_desc (u\<lparr>procfs := True\<rparr>) = zero_mapping"
    "held (u\<lparr>procfs := True\<rparr>) = (True, bridge_alloc s + 1, True, True, class_live s + 1, True, [0, 1, 3, 4], True, irq_handler s)"
proof -
  note p = init_probe_ok [OF assms(2)] and u = create_devices_ok [OF assms(3)]
  have t: "bridge_fresh t" using assms(1) p by (simp add: bridge_fresh_def)
  note c = init_chip_ok [OF t, of env]
  show "winv (u\<lparr>procfs := True\<rparr>)" using c(1) by (simp add: u winv_def)
  show "\<forall>i < 8. \<not> w_active (window_table (u\<lparr>procfs := True\<rparr>) ! i)" using c(2) by (simp add: u)
  show "a24d32_desc (u\<lparr>procfs := True\<rparr>) = zero_mapping" "crg_desc (u\<lparr>procfs := True\<rparr>) = zero_mapping"
    using t by (simp_all add: u init_chip_held bridge_fresh_def)
  show "held (u\<lparr>procfs := True\<rparr>) = (True, bridge_alloc s + 1, True, True, class_live s + 1, True, [0, 1, 3, 4], True, irq_handler s)"
    using init_chip_held(1) [of env t] p by (simp add: u held_def)
qed

lemma create_devices_err:
  assumes "vme_bridge_create_devices env s = (Err e, u)"
  shows "u = s" "\<not> (en_class env = OK \<and> en_chrdev env)"
  using assms by (auto simp: vme_bridge_create_devices_def Let_def split: rc.splits if_splits)

lemma init_interrupts_err:
  assumes "vme_bridge_init_interrupts env s = (Err e, u)" and "\<not> irq_handler s"
  shows "held u = held s"
  using assms by (auto simp: vme_bridge_init_interrupts_def vme_enable_interrupts_def Let_def held_def split: rc.splits if_splits prod.splits)

section \<open>Properties\<close>

text \<open>
  C9: what a successful probe achieves, from any state of the chip. The driver holds the PCI device, the
  registers, one class, the character device with its four nodes, the \<open>/proc\<close> entries and the interrupt line; the
  window table is in order with exactly window 7 in use, which maps all of A24; the chip answers on the VME bus at
  0xfff000 with its CRG image, an access at offset 0xfff000 of the window comes out there, and \<open>crg_base\<close> is the kernel
  address of that access; the enabled interrupts of the driver are those of the chip, and they include the DMA, mailbox, location
  monitor, bus and PCI error interrupts, and the seven VME levels on the system controller.
\<close>

theorem bridge_init_success:
  assumes "bridge_fresh s" and "vme_bridge_init env s = (OK, s')"
  defines "d \<equiv> w_desc (window_table s' ! 7)"
  shows "held s' = (True, bridge_alloc s + 1, True, True, class_live s + 1, True, [0, 1, 3, 4], True, True)
    \<and> winv s' \<and> (\<forall>i < 8. w_active (window_table s' ! i) = (i = 7))
    \<and> vm_vme_addrl d = 0 \<and> vm_sizel d = 0x1000000 \<and> vm_am d = VME_A24_USER_DATA_SCT
    \<and> cbau (lcsr s') = 0 \<and> cbal (lcsr s') = 0xfff000 \<and> crgat (lcsr s') = 0x95 \<and> crg_base s' = vm_kernel_va d + 0xfff000
    \<and> otrans_translate (otrans (lcsr s') ! 7) (of_nat (unat (vm_pci_addrl d) + 0xfff000)) = 0xfff000
    \<and> inteo (lcsr s') = vme_interrupts_enabled s' \<and> inten (lcsr s') = vme_interrupts_enabled s'
    \<and> vme_interrupts_enabled s' AND 0x3ff3000 = 0x3ff3000"
proof -
  obtain t u v where pr: "init_probe env s = (OK, t)" and dv: "vme_bridge_create_devices env (init_chip env t) = (OK, u)"
    and crg: "vme_bridge_map_crg env (u\<lparr>procfs := True\<rparr>) = (OK, v)" and it: "vme_bridge_init_interrupts env v = (OK, s')"
    using assms(2) unfolding vme_bridge_init_def by (auto split: prod.splits rc.splits)
  note b = init_before_crg [OF assms(1) pr dv] and i = init_interrupts_ok [OF it]
  have m: "crg_mapped s'" using map_crg_success [OF b(1-4) crg] i by simp
  then have w: "winv s'" "w_active (window_table s' ! 7)" "vm_pci_addru d = 0" "vm_vme_addru d = 0" "vm_vme_addrl d = 0"
    and idle: "\<forall>i < 7. \<not> w_active (window_table s' ! i)" by (simp_all add: crg_mapped_def d_def)
  have "w_active (window_table s' ! j) = (j = 7)" if "j < 8" for j
    using that w(2) idle by (cases "j = 7") simp_all
  moreover have "otrans_translate (otrans (lcsr s') ! 7) (of_nat (unat (vm_pci_addrl d) + 0xfff000)) = 0xfff000"
    using window_translates(1) [OF w(1) _ w(2), where off = "0xfff000"] w(3-5) by (simp add: d_def)
  moreover have "held s' = (True, bridge_alloc s + 1, True, True, class_live s + 1, True, [0, 1, 3, 4], True, True)"
    using i map_crg_held [OF b(1) crg] b(5) by (simp add: held_def)
  moreover have "vme_interrupts_enabled s' AND 0x3ff3000 = 0x3ff3000"
    using i by (intro bit_word_eqI) (auto simp: bit_simps)
  ultimately show ?thesis using m i by (simp add: crg_mapped_def d_def)
qed

text \<open>
  What a failed probe leaves. The PCI device is disabled, the registers are unmapped, the class count is what it was, there
  is no character device, no node and no interrupt line. But the exits do not give everything back: the \<open>vme_bridge\<close>
  structure stays allocated exactly when the probe fails between the check of the interrupt number and the mapping of the
  registers included, the region of BAR 0 stays requested exactly when the mapping of the registers fails after the request, and
  the \<open>/proc\<close> entries stay exactly when the failure comes after the devices were created.
\<close>

lemma bridge_init_failure:
  assumes "bridge_fresh s" and "holds_only n False c False s" and "vme_bridge_init env s = (Err e, s')"
  defines "lost \<equiv> past_alloc env s \<and> fst (init_probe env s) \<noteq> OK"
  shows "holds_only (n + (if lost then 1 else 0)) (lost \<and> parent_ok env \<and> en_request_region env = OK) c
    (fst (init_probe env s) = OK \<and> en_class env = OK \<and> en_chrdev env) s'"
proof (cases "init_probe env s")
  case (Pair r t)
  note pr = this
  show ?thesis
  proof (cases r)
    case (Err e')
    then have "s' = t" using assms(3) pr by (simp add: vme_bridge_init_def)
    then show ?thesis using init_probe_err [OF pr [unfolded Err] assms(2)] pr Err by (simp add: lost_def)
  next
    case OK
    note pr = pr [unfolded OK]
    obtain r1 u where dv: "vme_bridge_create_devices env (init_chip env t) = (r1, u)" by fastforce
    show ?thesis
    proof (cases r1)
      case (Err e')
      have "u = init_chip env t" "\<not> (en_class env = OK \<and> en_chrdev env)" using create_devices_err dv Err by blast+
      moreover have "s' = init_out_unmap_regs u" using assms(3) pr dv Err by (simp add: vme_bridge_init_def)
      ultimately show ?thesis
        using init_probe_ok [OF pr] init_chip_held(1) [of env t] assms(2) pr
        by (auto simp: lost_def init_out_unmap_regs_def init_out_free_def init_out_err_def holds_only_def held_def)
    next
      case OK
      note dv = dv [unfolded OK]
      note b = init_before_crg [OF assms(1) pr dv]
      obtain r2 v where crg: "vme_bridge_map_crg env (u\<lparr>procfs := True\<rparr>) = (r2, v)" by fastforce
      have hv: "held v = (True, n + 1, True, True, c + 1, True, [0, 1, 3, 4], True, False)"
        using map_crg_held [OF b(1) crg] b(5) assms(2) by (simp add: holds_only_def held_def)
      have dev: "en_class env = OK \<and> en_chrdev env"
        using dv by (auto simp: vme_bridge_create_devices_def Let_def split: rc.splits if_splits)
      have "holds_only n False c True s'"
      proof (cases r2)
        case OK
        obtain e' w where it: "vme_bridge_init_interrupts env v = (Err e', w)" "s' = init_out_unmap_crg (en_kernel env) w"
          using assms(3) pr dv crg OK by (auto simp: vme_bridge_init_def split: prod.splits rc.splits)
        have "held w = held v" using init_interrupts_err [OF it(1)] hv by (simp add: held_def)
        then show ?thesis using init_out_held(2) hv it(2) by simp
      qed (use assms(3) pr dv crg init_out_held(1) [OF hv] in \<open>auto simp: vme_bridge_init_def\<close>)
      then show ?thesis using pr dev by (simp add: lost_def)
    qed
  qed
qed

text \<open>
  Removal after a successful probe, when no signal arrives: no window, PCI region or \<open>ioremap\<close> is left, and the driver gives back
  the PCI device, the registers, the \<open>vme_bridge\<close> structure, the character device, the nodes, the \<open>/proc\<close> entries and the interrupt
  line; the class is destroyed once more than it was created.
\<close>

lemma bridge_remove_after_init:
  assumes "bridge_fresh s" and "holds_only n False c False s" and "vme_bridge_init env s = (OK, s')"
    and "\<forall>i < 8. k_lock (en_kernel env') i"
  defines "t \<equiv> vme_bridge_remove env' s'"
  shows "holds_only n False (c - 1) False t \<and> iomaps t = []
    \<and> (\<forall>i < 8. \<not> w_active (window_table t ! i) \<and> pci_regions t i = None)"
proof -
  obtain t1 u v where pr: "init_probe env s = (OK, t1)" and dv: "vme_bridge_create_devices env (init_chip env t1) = (OK, u)"
    and crg: "vme_bridge_map_crg env (u\<lparr>procfs := True\<rparr>) = (OK, v)" and it: "vme_bridge_init_interrupts env v = (OK, s')"
    using assms(3) unfolding vme_bridge_init_def by (auto split: prod.splits rc.splits)
  note b = init_before_crg [OF assms(1) pr dv] and i = init_interrupts_ok [OF it]
  have w: "winv s'" using map_crg_success [OF b(1-4) crg] i by (simp add: crg_mapped_def)
  have "held s' = (True, n + 1, True, True, c + 1, True, [0, 1, 3, 4], True, True)"
    using i map_crg_held [OF b(1) crg] b(5) assms(2) by (simp add: held_def holds_only_def)
  then have "holds_only n False (c - 1) False t"
    using remove_held [of env' s'] by (simp add: t_def holds_only_def held_def)
  then show ?thesis using unwindowed_clean [OF w assms(4)] by (simp add: t_def remove_windows)
qed

text \<open>
  No minor number can be read or written. The table of devices is indexed by the minor number, but minor 2 has no
  entry in it: minor 3 meets the entry of the registers and has no branch of its own, and minor 4, the registers, reads past
  the end of the table.
\<close>

lemma registers_device_is_unreachable:
  "vme_read minor n = (if minor \<ge> 4 then Io_bug else if minor = 3 then Io_err ENXIO else Io_err ENODEV)
   \<and> vme_write minor n = vme_read minor n"
proof -
  have "minor \<ge> 4 \<or> minor = 0 \<or> minor = 1 \<or> minor = 2 \<or> minor = 3" by linarith
  then show ?thesis by (auto simp: vme_read_def vme_write_def devlist_def)
qed

section \<open>Witnesses\<close>

definition demo_bridge_state :: bstate where
  "demo_bridge_state = cstate.extend (istate.extend demo_irq_state \<lparr>cesif_descs = 0\<rparr>)
     \<lparr>pci_enabled = False, bridge_alloc = 0, br_rev = 0, br_irq = 0, br_slot = 0, br_syscon = False, bar0_region = False,
      regs_mapped = False, dma_usable = False, vme_irq_param = 0, vme_slotnum = -1, class_live = 0, chrdev = False, dev_nodes = [],
      procfs = False, irq_handler = False, a24d32_desc = zero_mapping, crg_desc = zero_mapping, crg_base = 0\<rparr>"

definition demo_bridge_env :: bridge_env where
  "demo_bridge_env = \<lparr>en_hw = plain_hw, en_kernel = demo_kernel, en_dma = demo_dma_kernel, en_enable = OK, en_kzalloc = True, en_rev = 1,
     en_pdev_irq = 17, en_parent = Some (0x80000000, 0x8fffffff), en_request_region = OK, en_iomap = True, en_reg_id = 0x014810e3,
     en_dma_mask = OK, en_class = OK, en_chrdev = True, en_crg_id = 0x014810e3, en_request_irq = OK\<rparr>"

lemma demo_bridge_fresh: "bridge_fresh demo_bridge_state" "holds_only 0 False 0 False demo_bridge_state"
  by (simp_all add: bridge_fresh_def holds_only_def held_def demo_bridge_state_def cstate.defs istate.defs demo_irq_state_def dstate.defs
      demo_dma_state_def wstate.defs demo_start_def demo_window_def zero_lcsr_def zero_otrans_def wf_lcsr_def)

text \<open>The probe of the demonstration machine, stage by stage.\<close>

definition demo_probed :: bstate where
  "demo_probed = snd (init_probe demo_bridge_env demo_bridge_state)"

definition demo_devices :: bstate where
  "demo_devices = snd (vme_bridge_create_devices demo_bridge_env (init_chip demo_bridge_env demo_probed))"

definition demo_crg :: bstate where
  "demo_crg = snd (vme_bridge_map_crg demo_bridge_env (demo_devices\<lparr>procfs := True\<rparr>))"

lemma demo_stages:
  "fst (init_probe demo_bridge_env demo_bridge_state) = OK" "fst (vme_bridge_create_devices demo_bridge_env (init_chip demo_bridge_env demo_probed)) = OK"
  "fst (vme_bridge_map_crg demo_bridge_env (demo_devices\<lparr>procfs := True\<rparr>)) = OK" "fst (vme_bridge_init_interrupts demo_bridge_env demo_crg) = OK"
  by code_simp+

lemma demo_bridge_run: "fst (vme_bridge_init demo_bridge_env demo_bridge_state) = OK"
proof -
  have "init_probe demo_bridge_env demo_bridge_state = (OK, demo_probed)"
    "vme_bridge_create_devices demo_bridge_env (init_chip demo_bridge_env demo_probed) = (OK, demo_devices)"
    "vme_bridge_map_crg demo_bridge_env (demo_devices\<lparr>procfs := True\<rparr>) = (OK, demo_crg)"
    using demo_stages by (simp_all add: prod_eq_iff demo_probed_def demo_devices_def demo_crg_def)
  then show ?thesis using demo_stages(4) by (auto simp: vme_bridge_init_def split: prod.splits rc.splits)
qed

lemma demo_bridge_bad_run: "fst (vme_bridge_init (demo_bridge_env\<lparr>en_parent := None\<rparr>) demo_bridge_state) = Err ENODEV"
  by code_simp

theorem bridge_init_success_witness:
  "cbal (lcsr (snd (vme_bridge_init demo_bridge_env demo_bridge_state))) = 0xfff000
   \<and> dev_nodes (snd (vme_bridge_init demo_bridge_env demo_bridge_state)) = [0, 1, 3, 4]"
  using bridge_init_success [OF demo_bridge_fresh(1), of demo_bridge_env "snd (vme_bridge_init demo_bridge_env demo_bridge_state)"] demo_bridge_run
  by (simp add: prod_eq_iff held_def)

lemma bridge_init_failure_example:
  "bridge_alloc (snd (vme_bridge_init (demo_bridge_env\<lparr>en_parent := None\<rparr>) demo_bridge_state)) = 1"
proof -
  let ?env = "demo_bridge_env\<lparr>en_parent := None\<rparr>"
  have "past_alloc ?env demo_bridge_state \<and> fst (init_probe ?env demo_bridge_state) \<noteq> OK" by code_simp
  then show ?thesis
    using bridge_init_failure [OF demo_bridge_fresh, of ?env ENODEV "snd (vme_bridge_init ?env demo_bridge_state)"] demo_bridge_bad_run
    by (simp add: prod_eq_iff holds_only_def held_def)
qed

lemma bridge_remove_after_init_example:
  "class_live (vme_bridge_remove demo_bridge_env (snd (vme_bridge_init demo_bridge_env demo_bridge_state))) = -1"
  using bridge_remove_after_init [OF demo_bridge_fresh, of demo_bridge_env "snd (vme_bridge_init demo_bridge_env demo_bridge_state)" demo_bridge_env] demo_bridge_run
  by (simp add: prod_eq_iff holds_only_def held_def demo_bridge_env_def demo_kernel_def)

end
