(* ===== verification/Vme_Bus.thy ===== *)
theory Vme_Bus
  imports HT_Prelude
begin

text \<open>
  The VME bus of the Linux device model (the second half of \<open>src/vmebridge/driver/vme_bridge.c\<close>): matching and probing of devices,
  registration of a driver with its devices, its removal, and the module's entry and exit.

  The devices are objects in the kernel's memory, linked through their \<open>next\<close> fields from the driver's
  \<open>devices\<close> field, so the model has an explicit store and addresses. What the driver core does is a parameter:
  whether it registers the driver and each device, where \<open>kzalloc\<close> puts an object, and how a device that is registered is
  attached, given the match and probe methods of the bus.
\<close>

section \<open>State\<close>

record vme_dev =
  vd_id :: u32
  vd_platform_data :: "nat option"
  vd_next :: "nat option"

text \<open>A driver: the address of its structure, and its methods. \<open>None\<close> is a null method.\<close>

record vme_driver =
  dr_addr :: nat
  dr_match :: "(u32 \<Rightarrow> bool) option"
  dr_probe :: "(u32 \<Rightarrow> rc) option"
  dr_remove :: "(u32 \<Rightarrow> rc) option"
  dr_shutdown :: "(u32 \<Rightarrow> unit) option"
  dr_suspend :: "(u32 \<Rightarrow> nat \<Rightarrow> rc) option"
  dr_resume :: "(u32 \<Rightarrow> rc) option"

text \<open>
  \<open>bus_devices\<close> and \<open>bus_drivers\<close> are what is registered on the bus, \<open>bus_bound\<close> the devices bound to their driver, \<open>dr_devices\<close> the
  \<open>devices\<close> field of the driver, and \<open>bus_removed\<close> the numbers for which a \<open>remove\<close> method was called, latest first.
\<close>

record bus_state =
  bus_heap :: "nat \<Rightarrow> vme_dev option"
  bus_devices :: "nat list"
  bus_bound :: "nat list"
  bus_drivers :: "nat list"
  dr_devices :: "nat option"
  bus_removed :: "u32 list"

record device_core =
  dc_driver_register :: rc
  dc_kzalloc :: "(nat \<Rightarrow> vme_dev option) \<Rightarrow> u32 \<Rightarrow> nat option"
  dc_device_register :: "u32 \<Rightarrow> rc"
  dc_attach :: "(vme_dev \<Rightarrow> bool \<times> vme_dev) \<Rightarrow> (vme_dev \<Rightarrow> rc) \<Rightarrow> vme_dev \<Rightarrow> bool \<times> vme_dev"

section \<open>Methods of the bus\<close>

text \<open>The driver a bound device belongs to is the one its \<open>platform_data\<close> points to.\<close>

definition vme_bus_match :: "vme_driver \<Rightarrow> vme_dev \<Rightarrow> bool \<times> vme_dev" where
  "vme_bus_match drv d =
     (if vd_platform_data d = Some (dr_addr drv)
      then if (case dr_match drv of None \<Rightarrow> True | Some m \<Rightarrow> m (vd_id d)) then (True, d)
           else (False, d\<lparr>vd_platform_data := None\<rparr>)
      else (False, d))"

definition vme_bus_probe :: "vme_driver \<Rightarrow> vme_dev \<Rightarrow> rc" where
  "vme_bus_probe drv d = (case dr_probe drv of Some f \<Rightarrow> f (vd_id d) | None \<Rightarrow> OK)"

definition vme_bus_remove :: "vme_driver \<Rightarrow> vme_dev \<Rightarrow> rc \<times> u32 list" where
  "vme_bus_remove drv d = (case dr_remove drv of Some f \<Rightarrow> (f (vd_id d), [vd_id d]) | None \<Rightarrow> (OK, []))"

definition vme_bus_shutdown :: "vme_driver \<Rightarrow> vme_dev \<Rightarrow> unit" where
  "vme_bus_shutdown drv d = (case dr_shutdown drv of Some f \<Rightarrow> f (vd_id d) | None \<Rightarrow> ())"

definition vme_bus_suspend :: "vme_driver \<Rightarrow> vme_dev \<Rightarrow> nat \<Rightarrow> rc" where
  "vme_bus_suspend drv d st = (case dr_suspend drv of Some f \<Rightarrow> f (vd_id d) st | None \<Rightarrow> OK)"

definition vme_bus_resume :: "vme_driver \<Rightarrow> vme_dev \<Rightarrow> rc" where
  "vme_bus_resume drv d = (case dr_resume drv of Some f \<Rightarrow> f (vd_id d) | None \<Rightarrow> OK)"

section \<open>Registration\<close>

text \<open>The last reference to a device is gone.\<close>

definition vme_dev_release :: "nat \<Rightarrow> bus_state \<Rightarrow> bus_state" where
  "vme_dev_release a s = s\<lparr>bus_heap := (bus_heap s)(a := None)\<rparr>"

text \<open>\<open>device_unregister\<close> unbinds a bound device, takes it off the bus and drops the last reference.\<close>

definition device_unregister :: "vme_driver \<Rightarrow> nat \<Rightarrow> vme_dev \<Rightarrow> bus_state \<Rightarrow> bus_state" where
  "device_unregister drv a d s =
     vme_dev_release a (s\<lparr>bus_devices := remove1 a (bus_devices s), bus_bound := remove1 a (bus_bound s),
       bus_removed := (if a \<in> set (bus_bound s) then snd (vme_bus_remove drv d) else []) @ bus_removed s\<rparr>)"

text \<open>The walk along the \<open>next\<close> fields; \<open>None\<close> is an access to memory that is not allocated, or a walk without end.\<close>

partial_function (option) unregister_chain :: "vme_driver \<Rightarrow> nat option \<Rightarrow> bus_state \<Rightarrow> bus_state option" where
  "unregister_chain drv p s =
     (case p of
        None \<Rightarrow> Some s
      | Some a \<Rightarrow>
         (case bus_heap s a of
            None \<Rightarrow> None
          | Some d \<Rightarrow> unregister_chain drv (vd_next d) (device_unregister drv a d s)))"

declare unregister_chain.simps [code]

definition vme_unregister_driver :: "vme_driver \<Rightarrow> bus_state \<Rightarrow> bus_state option" where
  "vme_unregister_driver drv s =
     map_option (\<lambda>t. t\<lparr>bus_drivers := remove1 (dr_addr drv) (bus_drivers t)\<rparr>) (unregister_chain drv (dr_devices s) s)"

definition new_vme_dev :: "vme_driver \<Rightarrow> u32 \<Rightarrow> vme_dev" where
  "new_vme_dev drv i = \<lparr>vd_id = i, vd_platform_data = Some (dr_addr drv), vd_next = None\<rparr>"

text \<open>One device: allocate, register, and link or drop it.\<close>

definition register_device :: "device_core \<Rightarrow> vme_driver \<Rightarrow> u32 \<Rightarrow> bus_state \<Rightarrow> rc \<times> bus_state" where
  "register_device core drv i s =
     (case dc_kzalloc core (bus_heap s) i of
        None \<Rightarrow> (Err ENOMEM, s)
      | Some a \<Rightarrow>
          let s1 = s\<lparr>bus_heap := (bus_heap s)(a \<mapsto> new_vme_dev drv i)\<rparr>
          in case dc_device_register core i of
               Err e \<Rightarrow> (Err e, vme_dev_release a s1)
             | OK \<Rightarrow>
                let (bound, d) = dc_attach core (vme_bus_match drv) (vme_bus_probe drv) (new_vme_dev drv i);
                    s2 = s1\<lparr>bus_heap := (bus_heap s1)(a \<mapsto> d), bus_devices := a # bus_devices s1,
                            bus_bound := (if bound then a # bus_bound s1 else bus_bound s1)\<rparr>
                in if vd_platform_data d \<noteq> None
                   then (OK, s2\<lparr>bus_heap := (bus_heap s2)(a \<mapsto> d\<lparr>vd_next := dr_devices s2\<rparr>), dr_devices := Some a\<rparr>)
                   else (OK, device_unregister drv a d s2))"

fun register_devices :: "device_core \<Rightarrow> vme_driver \<Rightarrow> u32 list \<Rightarrow> bus_state \<Rightarrow> rc \<times> bus_state" where
  "register_devices core drv [] s = (OK, s)"
| "register_devices core drv (i # is) s =
     (case register_device core drv i s of
        (Err e, s') \<Rightarrow> (Err e, s')
      | (OK, s') \<Rightarrow> register_devices core drv is s')"

definition vme_register_driver :: "device_core \<Rightarrow> vme_driver \<Rightarrow> u32 \<Rightarrow> bus_state \<Rightarrow> (rc \<times> bus_state) option" where
  "vme_register_driver core drv ndev s =
     (let s = s\<lparr>dr_devices := None\<rparr>
      in case dc_driver_register core of
           Err e \<Rightarrow> Some (Err e, s)
         | OK \<Rightarrow>
             let s = s\<lparr>bus_drivers := dr_addr drv # bus_drivers s\<rparr>;
                 (r, s) = register_devices core drv (map of_nat [0..<unat ndev]) s;
                 r = (if r = OK \<and> dr_devices s = None then Err ENODEV else r)
             in if r \<noteq> OK then map_option (Pair r) (vme_unregister_driver drv s) else Some (OK, s))"

section \<open>Entry and exit of the module\<close>

text \<open>What the module has registered: its root device, the bus type, the PCI driver.\<close>

record module_state =
  md_device :: bool
  md_bus :: bool
  md_pci_driver :: bool

definition vme_bridge_init_module :: "rc \<Rightarrow> rc \<Rightarrow> rc \<Rightarrow> module_state \<Rightarrow> rc \<times> module_state" where
  "vme_bridge_init_module dev bus pci s =
     (case dev of
        Err e \<Rightarrow> (Err e, s)
      | OK \<Rightarrow>
          let s = s\<lparr>md_device := True\<rparr>
          in case bus of
               Err e \<Rightarrow> (Err e, s\<lparr>md_device := False\<rparr>)
             | OK \<Rightarrow>
                 let s = s\<lparr>md_bus := True\<rparr>
                 in case pci of
                      Err e \<Rightarrow> (Err e, s\<lparr>md_bus := False, md_device := False\<rparr>)
                    | OK \<Rightarrow> (OK, s\<lparr>md_pci_driver := True\<rparr>))"

definition vme_bridge_exit_module :: "module_state \<Rightarrow> module_state" where
  "vme_bridge_exit_module s = s\<lparr>md_pci_driver := False, md_bus := False, md_device := False\<rparr>"

section \<open>The list of a driver's devices\<close>

text \<open>
  What is relied on of the driver core: \<open>kzalloc\<close> hands out memory that is not in use, and a registered device is
  matched and then, if it matches, probed, and is bound if both succeed.
\<close>

definition core_ok :: "device_core \<Rightarrow> bool" where
  "core_ok core \<longleftrightarrow> (\<forall>h i a. dc_kzalloc core h i = Some a \<longrightarrow> h a = None)
     \<and> (\<forall>m p d. dc_attach core m p d = (fst (m d) \<and> p (snd (m d)) = OK, snd (m d)))"

definition wf_bus :: "bus_state \<Rightarrow> bool" where
  "wf_bus s \<longleftrightarrow> set (bus_devices s) \<subseteq> dom (bus_heap s) \<and> set (bus_bound s) \<subseteq> dom (bus_heap s)"

fun chain :: "(nat \<Rightarrow> vme_dev option) \<Rightarrow> nat option \<Rightarrow> nat list \<Rightarrow> bool" where
  "chain h p [] \<longleftrightarrow> p = None"
| "chain h p (a # as) \<longleftrightarrow> p = Some a \<and> (\<exists>d. h a = Some d \<and> chain h (vd_next d) as)"

lemma chain_upd: "a \<notin> set as \<Longrightarrow> chain (h(a := x)) p as = chain h p as"
  by (induction as arbitrary: p) auto

lemma chain_used: "chain h p as \<Longrightarrow> a \<in> set as \<Longrightarrow> h a \<noteq> None"
  by (induction as arbitrary: p) auto

definition dev_id :: "bus_state \<Rightarrow> nat \<Rightarrow> u32" where
  "dev_id s a = vd_id (the (bus_heap s a))"

definition matches :: "vme_driver \<Rightarrow> u32 \<Rightarrow> bool" where
  "matches drv i \<longleftrightarrow> (case dr_match drv of None \<Rightarrow> True | Some m \<Rightarrow> m i)"

definition probed :: "vme_driver \<Rightarrow> u32 \<Rightarrow> bool" where
  "probed drv i \<longleftrightarrow> (case dr_probe drv of None \<Rightarrow> True | Some f \<Rightarrow> f i = OK)"

text \<open>
  The devices \<open>as\<close> have been added to a bus that was in state \<open>s0\<close>: they are linked from the driver, were not in use
  before, head the bus's list, and those whose probe succeeded are bound.
\<close>

definition linked :: "vme_driver \<Rightarrow> bus_state \<Rightarrow> bus_state \<Rightarrow> nat list \<Rightarrow> bool" where
  "linked drv s0 s as \<longleftrightarrow> chain (bus_heap s) (dr_devices s) as \<and> distinct as
     \<and> (\<forall>a \<in> set as. bus_heap s0 a = None) \<and> (\<forall>a. a \<notin> set as \<longrightarrow> bus_heap s a = bus_heap s0 a)
     \<and> bus_devices s = as @ bus_devices s0 \<and> bus_bound s = filter (probed drv \<circ> dev_id s) as @ bus_bound s0
     \<and> bus_drivers s = bus_drivers s0 \<and> bus_removed s = bus_removed s0"

lemma wf_bus_unused:
  assumes "wf_bus s" and "bus_heap s a = None"
  shows "a \<notin> set (bus_devices s)" "a \<notin> set (bus_bound s)"
  using assms by (auto simp: wf_bus_def)

lemma register_device_linked:
  assumes core: "core_ok core" and wf: "wf_bus s0" and l: "linked drv s0 s as" and run: "register_device core drv i s = (r, s')"
  shows "(r = OK \<and> (if matches drv i
           then \<exists>a. linked drv s0 s' (a # as) \<and> dev_id s' a = i \<and> (\<forall>b \<in> set as. dev_id s' b = dev_id s b) else s' = s))
    \<or> (r \<noteq> OK \<and> s' = s)"
proof (cases "dc_kzalloc core (bus_heap s) i")
  case None
  then show ?thesis using run by (auto simp: register_device_def)
next
  case (Some a)
  have free: "bus_heap s a = None" using core Some by (simp add: core_ok_def)
  have new: "a \<notin> set as" using l free chain_used by (fastforce simp: linked_def)
  then have free0: "bus_heap s0 a = None" using l free by (simp add: linked_def)
  note unused = wf_bus_unused [OF wf this]
  have nb: "a \<notin> set (bus_bound s)" using l new unused by (auto simp: linked_def)
  have trivial: "(bus_heap s)(a := None) = bus_heap s" using free by auto
  show ?thesis
  proof (cases "dc_device_register core i")
    case (Err e)
    then show ?thesis using run Some by (auto simp: register_device_def vme_dev_release_def trivial)
  next
    case OK
    have att: "dc_attach core (vme_bus_match drv) (vme_bus_probe drv) (new_vme_dev drv i)
      = (matches drv i \<and> probed drv i, (new_vme_dev drv i)\<lparr>vd_platform_data := if matches drv i then Some (dr_addr drv) else None\<rparr>)"
      using core by (auto simp: core_ok_def vme_bus_match_def vme_bus_probe_def new_vme_dev_def matches_def probed_def split: option.splits)
    show ?thesis
    proof (cases "matches drv i")
      case False
      then have "r = rc.OK" "s' = s"
        using run Some OK nb
        by (auto simp: register_device_def att device_unregister_def vme_dev_release_def trivial remove1_idem)
      then show ?thesis using False by simp
    next
      case True
      let ?d = "(new_vme_dev drv i)\<lparr>vd_next := dr_devices s\<rparr>"
      have s': "r = rc.OK" "s' = s\<lparr>bus_heap := (bus_heap s)(a \<mapsto> ?d), bus_devices := a # bus_devices s,
          bus_bound := (if probed drv i then a # bus_bound s else bus_bound s), dr_devices := Some a\<rparr>"
        using run Some OK True by (auto simp: register_device_def att Let_def) (simp_all add: new_vme_dev_def)
      have ids: "dev_id s' a = i" "\<And>b. b \<noteq> a \<Longrightarrow> dev_id s' b = dev_id s b"
        by (simp_all add: s' dev_id_def new_vme_dev_def)
      then have "filter (probed drv \<circ> dev_id s') as = filter (probed drv \<circ> dev_id s) as"
        using new by (intro filter_cong) (auto, metis+)
      then have "linked drv s0 s' (a # as)"
        using l new free0 ids(1) chain_upd [OF new, of "bus_heap s" "Some ?d" "dr_devices s"]
        by (auto simp: linked_def s'(2))
      moreover have "\<forall>b \<in> set as. dev_id s' b = dev_id s b" using ids(2) new by metis
      ultimately show ?thesis using s'(1) True ids(1) by auto
    qed
  qed
qed

lemma register_devices_linked:
  assumes "core_ok core" and "wf_bus s0" and "linked drv s0 s as" and "register_devices core drv is s = (r, s')"
  shows "\<exists>bs n. linked drv s0 s' (bs @ as) \<and> (\<forall>b \<in> set as. dev_id s' b = dev_id s b) \<and> n \<le> length is \<and> (r = OK \<longrightarrow> n = length is)
    \<and> map (dev_id s') bs = rev (filter (matches drv) (take n is))"
  using assms(3,4)
proof (induction "is" arbitrary: s as)
  case (Cons i "is")
  obtain r1 s1 where run: "register_device core drv i s = (r1, s1)" by fastforce
  note step = register_device_linked [OF assms(1,2) Cons.prems(1) run]
  show ?case
  proof (cases r1)
    case (Err e)
    then have "r = Err e" "s' = s" using step Cons.prems(2) run by auto
    then show ?thesis using Cons.prems(1) by (intro exI [of _ "[]"] exI [of _ 0]) simp
  next
    case OK
    then have rest: "register_devices core drv is s1 = (r, s')" using run Cons.prems(2) by simp
    show ?thesis
    proof (cases "matches drv i")
      case True
      then obtain a where a: "linked drv s0 s1 (a # as)" "dev_id s1 a = i" "\<forall>b \<in> set as. dev_id s1 b = dev_id s b"
        using step OK by auto
      from Cons.IH [OF a(1) rest] obtain bs n where ih: "linked drv s0 s' (bs @ a # as)" "n \<le> length is"
        "\<forall>b \<in> set (a # as). dev_id s' b = dev_id s1 b" "r = rc.OK \<longrightarrow> n = length is"
        "map (dev_id s') bs = rev (filter (matches drv) (take n is))" by blast
      then show ?thesis using a True by (intro exI [of _ "bs @ [a]"] exI [of _ "Suc n"]) simp
    next
      case False
      then have "s1 = s" using step OK by simp
      from Cons.IH [OF Cons.prems(1) rest [unfolded this]] obtain bs n where "linked drv s0 s' (bs @ as)" "n \<le> length is"
        "\<forall>b \<in> set as. dev_id s' b = dev_id s b" "r = rc.OK \<longrightarrow> n = length is"
        "map (dev_id s') bs = rev (filter (matches drv) (take n is))" by blast
      then show ?thesis using False by (intro exI [of _ bs] exI [of _ "Suc n"]) simp
    qed
  qed
qed (auto intro!: exI [of _ "[]"])

section \<open>Taking the devices off again\<close>

text \<open>The \<open>remove\<close> methods called when the devices numbered \<open>is\<close> are taken off in this order, latest first.\<close>

definition removals :: "vme_driver \<Rightarrow> u32 list \<Rightarrow> u32 list" where
  "removals drv is = (if dr_remove drv = None then [] else rev (filter (probed drv) is))"

lemma unregister_chain_linked:
  assumes "wf_bus s0" and "linked drv (s0\<lparr>bus_removed := rm\<rparr>) s as"
  shows "unregister_chain drv (dr_devices s) s = Some (s0\<lparr>dr_devices := dr_devices s, bus_removed := removals drv (map (dev_id s) as) @ rm\<rparr>)"
proof -
  have "unregister_chain drv p t = Some (s0\<lparr>dr_devices := dr_devices t, bus_removed := removals drv (map (dev_id t) as) @ bus_removed t\<rparr>)"
    if "chain (bus_heap t) p as" "distinct as" "\<forall>a \<in> set as. bus_heap s0 a = None"
      "\<forall>a. a \<notin> set as \<longrightarrow> bus_heap t a = bus_heap s0 a" "bus_devices t = as @ bus_devices s0"
      "bus_bound t = filter (probed drv \<circ> dev_id t) as @ bus_bound s0" "bus_drivers t = bus_drivers s0" for p t
    using that
  proof (induction as arbitrary: p t)
    case Nil
    then have "bus_heap t = bus_heap s0" by auto
    then show ?case using Nil by (simp add: unregister_chain.simps removals_def)
  next
    case (Cons a as)
    obtain d where d: "p = Some a" "bus_heap t a = Some d" "chain (bus_heap t) (vd_next d) as" using Cons.prems(1) by auto
    let ?u = "device_unregister drv a d t"
    have free: "bus_heap s0 a = None" "a \<notin> set as" using Cons.prems(2,3) by auto
    note unused = wf_bus_unused [OF assms(1) free(1)]
    have ids: "dev_id ?u b = dev_id t b" if "b \<noteq> a" for b
      using that by (simp add: device_unregister_def vme_dev_release_def dev_id_def)
    then have same: "filter (probed drv \<circ> dev_id ?u) as = filter (probed drv \<circ> dev_id t) as" "map (dev_id ?u) as = map (dev_id t) as"
      using free(2) by (auto intro!: filter_cong) metis+
    have bound: "a \<in> set (bus_bound t) \<longleftrightarrow> probed drv (dev_id t a)" using Cons.prems(6) free(2) unused by auto
    have "unregister_chain drv p t = unregister_chain drv (vd_next d) ?u" using d by (simp add: unregister_chain.simps [of _ "Some a"])
    also have "\<dots> = Some (s0\<lparr>dr_devices := dr_devices ?u, bus_removed := removals drv (map (dev_id ?u) as) @ bus_removed ?u\<rparr>)"
    proof (rule Cons.IH)
      show "chain (bus_heap ?u) (vd_next d) as"
        using d(3) chain_upd [OF free(2), of "bus_heap t" None] by (simp add: device_unregister_def vme_dev_release_def)
      show "bus_bound ?u = filter (probed drv \<circ> dev_id ?u) as @ bus_bound s0"
        using Cons.prems(6) free(2) unused unfolding same
        by (auto simp: device_unregister_def vme_dev_release_def remove1_append remove1_idem comp_def)
    qed (use Cons.prems free in \<open>auto simp: device_unregister_def vme_dev_release_def\<close>)
    also have "removals drv (map (dev_id ?u) as) @ bus_removed ?u = removals drv (map (dev_id t) (a # as)) @ bus_removed t"
      unfolding same using bound d(2)
      by (cases "dr_remove drv") (auto simp: device_unregister_def vme_dev_release_def removals_def vme_bus_remove_def dev_id_def)
    finally show ?case by (simp add: device_unregister_def vme_dev_release_def)
  qed
  then show ?thesis using assms(2) by (auto simp: linked_def)
qed

text \<open>The bus after the driver itself is registered.\<close>

definition driver_added :: "vme_driver \<Rightarrow> bus_state \<Rightarrow> bus_state" where
  "driver_added drv s = s\<lparr>dr_devices := None, bus_drivers := dr_addr drv # bus_drivers s\<rparr>"

lemma unregister_driver_linked:
  assumes "wf_bus s0" and "linked drv (driver_added drv s0) s as"
  shows "vme_unregister_driver drv s
    = Some (s0\<lparr>dr_devices := dr_devices s, bus_removed := removals drv (map (dev_id s) as) @ bus_removed s0\<rparr>)"
proof -
  have "wf_bus (driver_added drv s0)" using assms(1) by (simp add: wf_bus_def driver_added_def)
  from unregister_chain_linked [OF this, where rm = "bus_removed s0"] assms(2)
  show ?thesis by (simp add: vme_unregister_driver_def driver_added_def)
qed

lemma register_driver_cases:
  assumes "core_ok core" and "wf_bus s"
  obtains (refused) e where "dc_driver_register core = Err e" "vme_register_driver core drv ndev s = Some (Err e, s\<lparr>dr_devices := None\<rparr>)"
  | (failed) t as n e where "linked drv (driver_added drv s) t as" "n \<le> unat ndev"
      "map (dev_id t) as = rev (filter (matches drv) (map of_nat [0..<n]))"
      "vme_register_driver core drv ndev s = map_option (Pair (Err e)) (vme_unregister_driver drv t)"
  | (added) t as where "linked drv (driver_added drv s) t as" "as \<noteq> []"
      "map (dev_id t) as = rev (filter (matches drv) (map of_nat [0..<unat ndev]))" "vme_register_driver core drv ndev s = Some (OK, t)"
proof (cases "dc_driver_register core")
  case (Err e)
  then show ?thesis using refused by (simp add: vme_register_driver_def Let_def)
next
  case OK
  let ?s = "driver_added drv s" and ?is = "map of_nat [0..<unat ndev]"
  have wf: "wf_bus ?s" using assms(2) by (simp add: wf_bus_def driver_added_def)
  have start: "linked drv ?s ?s []" by (simp add: linked_def driver_added_def)
  obtain r t where run: "register_devices core drv ?is ?s = (r, t)" by fastforce
  obtain as n where l: "linked drv ?s t as" "n \<le> unat ndev" "r = rc.OK \<longrightarrow> n = unat ndev"
    and ids: "map (dev_id t) as = rev (filter (matches drv) (take n ?is))"
    using register_devices_linked [OF assms(1) wf start run] by auto
  have "take n ?is = map of_nat [0..<n]" using l(2) by (simp add: take_map)
  note ids = ids [unfolded this]
  have null: "dr_devices t = None \<longleftrightarrow> as = []" using l(1) by (cases as) (auto simp: linked_def)
  have eq: "vme_register_driver core drv ndev s = (let r = (if r = rc.OK \<and> dr_devices t = None then Err ENODEV else r)
      in if r \<noteq> rc.OK then map_option (Pair r) (vme_unregister_driver drv t) else Some (rc.OK, t))"
    using OK run by (simp add: vme_register_driver_def Let_def driver_added_def)
  show ?thesis
  proof (cases "r = rc.OK \<and> as \<noteq> []")
    case True
    then show ?thesis using added [OF l(1)] ids l(3) eq null by (simp add: Let_def)
  next
    case False
    then obtain e where "(if r = rc.OK \<and> dr_devices t = None then Err ENODEV else r) = Err e"
      using null by (cases r) auto
    then show ?thesis using failed [OF l(1,2) ids, of e] eq by (simp add: Let_def)
  qed
qed

section \<open>Properties\<close>


text \<open>
  Unregistering a driver that was registered takes the walk over freed memory safely to its end and restores the bus: every device
  is unregistered and freed, and the driver's \<open>remove\<close> method was called once for each device it had probed with
  success, and for no other.
\<close>

lemma unregister_undoes_register:
  assumes "core_ok core" and "wf_bus s" and "vme_register_driver core drv ndev s = Some (OK, t)"
  shows "\<exists>u. vme_unregister_driver drv t = Some u
    \<and> bus_heap u = bus_heap s \<and> bus_devices u = bus_devices s \<and> bus_bound u = bus_bound s \<and> bus_drivers u = bus_drivers s
    \<and> bus_removed u = (if dr_remove drv = None then []
        else filter (\<lambda>i. matches drv i \<and> probed drv i) (map of_nat [0..<unat ndev])) @ bus_removed s"
  using assms(1,2)
proof (cases rule: register_driver_cases [where drv = drv and ndev = ndev])
  case (added t' as)
  then have t: "linked drv (driver_added drv s) t as" "map (dev_id t) as = rev (filter (matches drv) (map of_nat [0..<unat ndev]))"
    using assms(3) by simp_all
  from unregister_driver_linked [OF assms(2) t(1)] show ?thesis
    by (simp add: t(2) removals_def rev_filter [symmetric] conj_commute)
next
  case (failed t' as n e)
  then show ?thesis using assms(3) by (cases "vme_unregister_driver drv t'") simp_all
qed (use assms(3) in simp)

text \<open>
  The entry of the module registers its three parts or none, and its exit takes all of them back.
\<close>

lemma module_entry_is_all_or_nothing:
  "vme_bridge_init_module dev bus pci \<lparr>md_device = False, md_bus = False, md_pci_driver = False\<rparr>
     = (if dev = OK \<and> bus = OK \<and> pci = OK then (OK, \<lparr>md_device = True, md_bus = True, md_pci_driver = True\<rparr>)
        else (if dev \<noteq> OK then dev else if bus \<noteq> OK then bus else pci, \<lparr>md_device = False, md_bus = False, md_pci_driver = False\<rparr>))
   \<and> vme_bridge_exit_module \<lparr>md_device = True, md_bus = True, md_pci_driver = True\<rparr>
     = \<lparr>md_device = False, md_bus = False, md_pci_driver = False\<rparr>"
  by (cases dev; cases bus; cases pci) (simp_all add: vme_bridge_init_module_def vme_bridge_exit_module_def)

section \<open>Witnesses\<close>

definition demo_core :: device_core where
  "demo_core = \<lparr>dc_driver_register = OK, dc_kzalloc = (\<lambda>h i. if h (unat i) = None then Some (unat i) else None),
     dc_device_register = (\<lambda>i. if i = 5 then Err ENODEV else OK),
     dc_attach = (\<lambda>m p d. (fst (m d) \<and> p (snd (m d)) = OK, snd (m d)))\<rparr>"

definition demo_driver :: vme_driver where
  "demo_driver = \<lparr>dr_addr = 100, dr_match = Some (\<lambda>i. even (unat i)), dr_probe = Some (\<lambda>i. if i = 2 then Err EIO else OK),
     dr_remove = Some (\<lambda>_. OK), dr_shutdown = None, dr_suspend = None, dr_resume = None\<rparr>"

definition demo_bus :: bus_state where
  "demo_bus = \<lparr>bus_heap = Map.empty, bus_devices = [], bus_bound = [], bus_drivers = [], dr_devices = None, bus_removed = []\<rparr>"

lemma demo_bus_ok: "core_ok demo_core" "wf_bus demo_bus"
  by (simp_all add: core_ok_def demo_core_def wf_bus_def demo_bus_def split: if_splits)

lemma demo_register: "map_option fst (vme_register_driver demo_core demo_driver 4 demo_bus) = Some OK"
  by code_simp

lemma demo_register_fails: "map_option fst (vme_register_driver demo_core demo_driver 7 demo_bus) = Some (Err ENODEV)"
  by code_simp


lemma unregister_undoes_register_example:
  "\<exists>t u. vme_register_driver demo_core demo_driver 4 demo_bus = Some (OK, t) \<and> vme_unregister_driver demo_driver t = Some u
     \<and> bus_removed u = [0] \<and> bus_heap u = Map.empty"
proof -
  obtain t where t: "vme_register_driver demo_core demo_driver 4 demo_bus = Some (OK, t)" using demo_register by auto
  have "filter (\<lambda>i. matches demo_driver i \<and> probed demo_driver i) (map of_nat [0..<unat (4 :: u32)]) = [0]" by code_simp
  then show ?thesis
    using unregister_undoes_register [OF demo_bus_ok t] t by (auto simp: demo_bus_def demo_driver_def)
qed

end
