(* ===== verification/Mtt_Text.thy ===== *)
theory Mtt_Text
  imports HT_Prelude
begin

text \<open>
  Texts as the tools of the MTT timing card read and write them (\<open>src/mttn/tools\<close>): the table of character classes of
  \<open>asmP.h\<close>, the small string routines the assembler and the emulator share, and what they use of the C library,
  \<open>strtoul\<close> with base 0 and the conversions \<open>%X\<close> and \<open>%d\<close>.

  A C string is a \<open>string\<close>, its end the terminating null character. \<open>long\<close> has 32 bits, and
  \<open>char\<close> is unsigned, as on the PowerPC the tools are built for, so that every character has an entry in the table.
\<close>

section \<open>Character classes\<close>

datatype AtomType = Seperator | Operator | Open | Close | Comment | Numeric | Alpha | Open_index | Close_index
  | Illegal_char | Terminator | Bit | Op_code | Register | Expression | Not_set

definition atomhash :: "AtomType list" where
  "atomhash =
     (let s = Seperator; o1 = Operator; i = Illegal_char
      in [Terminator, i, i, i, i, i, i, i, i, s, s, i, i, s, i, i] @ replicate 16 i
       @ [s, o1, i, Comment, i, Comment, o1, i, Open, Close, o1, o1, s, o1, Bit, o1] @ replicate 10 Numeric @ replicate 6 o1
       @ [Terminator] @ replicate 26 Alpha @ [Open_index, i, Close_index, i, Alpha]
       @ [i] @ replicate 26 Alpha @ [i, i, i, o1, i] @ replicate 128 i)"

definition atom_class :: "char \<Rightarrow> AtomType" where
  "atom_class c = atomhash ! of_char c"

text \<open>The same by ranges of character codes, which is how it is evaluated.\<close>

definition class_of_code :: "nat \<Rightarrow> AtomType" where
  "class_of_code n =
     (if n \<ge> 97 then if n \<le> 122 then Alpha else if n = 126 then Operator else Illegal_char
      else if n \<ge> 64
      then if n = 64 then Terminator else if n \<le> 90 \<or> n = 95 then Alpha
           else if n = 91 then Open_index else if n = 93 then Close_index else Illegal_char
      else if n \<ge> 48 then if n \<le> 57 then Numeric else Operator
      else if n = 32 \<or> n = 44 \<or> n = 9 \<or> n = 10 \<or> n = 13 then Seperator
      else if n = 35 \<or> n = 37 then Comment else if n = 40 then Open else if n = 41 then Close else if n = 46 then Bit
      else if n = 0 then Terminator
      else if n = 33 \<or> n = 38 \<or> n = 42 \<or> n = 43 \<or> n = 45 \<or> n = 47 then Operator else Illegal_char)"

lemma atomhash_by_range: "atomhash = map class_of_code [0..<256]"
  by code_simp

lemma atom_class_code [code]: "atom_class c = class_of_code (of_char c)"
proof -
  have "of_char c < (256 :: nat)" by simp
  then show ?thesis by (simp add: atom_class_def atomhash_by_range)
qed

definition upper :: "char \<Rightarrow> char" where
  "upper c = (if atom_class c = Alpha \<and> of_char c \<ge> (97 :: nat) then char_of (of_char c - 32 :: nat) else c)"

definition StrToUpper :: "string \<Rightarrow> string" where
  "StrToUpper s = map upper s"

text \<open>\<open>TabTo cp pos\<close> is the blanks that pad \<open>cp\<close> to \<open>pos\<close> characters.\<close>

definition TabTo :: "string \<Rightarrow> nat \<Rightarrow> string" where
  "TabTo s n = replicate (n - length s) (CHR '' '')"

section \<open>Numbers\<close>

definition digit_val :: "char \<Rightarrow> nat option" where
  "digit_val c =
     (let n = of_char c
      in if 48 \<le> n \<and> n \<le> 57 then Some (n - 48)
         else if 97 \<le> n \<and> n \<le> 122 then Some (n - 87)
         else if 65 \<le> n \<and> n \<le> 90 then Some (n - 55) else None)"

definition is_digit :: "nat \<Rightarrow> char \<Rightarrow> bool" where
  "is_digit b c = (case digit_val c of Some d \<Rightarrow> d < b | None \<Rightarrow> False)"

fun read_digits :: "nat \<Rightarrow> int \<Rightarrow> string \<Rightarrow> int \<times> string" where
  "read_digits b n [] = (n, [])"
| "read_digits b n (c # cs) = (if is_digit b c then read_digits b (n * int b + int (the (digit_val c))) cs else (n, c # cs))"

definition c_space :: "char \<Rightarrow> bool" where
  "c_space c \<longleftrightarrow> of_char c = (32 :: nat) \<or> (9 \<le> (of_char c :: nat) \<and> of_char c \<le> (13 :: nat))"

text \<open>
  \<open>strtoul(s, &ep, 0)\<close>: the value and the text at \<open>ep\<close>. Leading white space and a sign, the prefix \<open>0x\<close> of a hexadecimal
  or \<open>0\<close> of an octal number; a number that is too large gives the largest one; without a digit the value is 0
  and \<open>ep\<close> is \<open>s\<close>.
\<close>

definition strtoul0 :: "string \<Rightarrow> u32 \<times> string" where
  "strtoul0 s =
     (let t = dropWhile c_space s;
          neg = (t \<noteq> [] \<and> hd t = CHR ''-'');
          u = (if t \<noteq> [] \<and> (hd t = CHR ''-'' \<or> hd t = CHR ''+'') then tl t else t);
          (n, rest) =
            (if length u \<ge> 3 \<and> hd u = CHR ''0'' \<and> (u ! 1 = CHR ''x'' \<or> u ! 1 = CHR ''X'') \<and> is_digit 16 (u ! 2)
             then read_digits 16 0 (drop 2 u)
             else if u \<noteq> [] \<and> hd u = CHR ''0'' then read_digits 8 0 u
             else if u \<noteq> [] \<and> is_digit 10 (hd u) then read_digits 10 0 u
             else (0, s))
      in (if n \<ge> 2 ^ 32 then - 1 else if neg then - of_int n else of_int n, rest))"

definition digit_char :: "nat \<Rightarrow> char" where
  "digit_char d = char_of (if d < 10 then 48 + d else 55 + d)"

function print_digits :: "nat \<Rightarrow> int \<Rightarrow> string" where
  "print_digits b n =
     (if n < int b \<or> b < 2 then [digit_char (nat n)] else print_digits b (n div int b) @ [digit_char (nat (n mod int b))])"
  by pat_completeness auto
termination by (relation "measure (nat \<circ> snd)") (auto simp: nat_less_eq_zless int_div_less_self)

declare print_digits.simps [simp del]

text \<open>\<open>%X\<close> of a 32-bit value, and \<open>%d\<close> of one that is not negative.\<close>

definition print_hex :: "u32 \<Rightarrow> string" where
  "print_hex w = print_digits 16 (uint w)"

definition print_dec :: "nat \<Rightarrow> string" where
  "print_dec n = print_digits 10 (int n)"

section \<open>Reading what was printed\<close>

lemma digit_table:
  "map digit_char [0..<16] = ''0123456789ABCDEF''" "map digit_val ''0123456789ABCDEF'' = map Some [0..<16]"
  "map c_space ''0123456789ABCDEF'' = replicate 16 False"
  "map atom_class ''0123456789ABCDEF'' = replicate 10 Numeric @ replicate 6 Alpha"
  by code_simp+

lemma digit_char_map:
  assumes "d < 16"
  shows "f (digit_char d) = map f ''0123456789ABCDEF'' ! d"
  unfolding digit_table(1) [symmetric] using assms by simp

lemma digit_char_val:
  assumes "d < 16"
  shows "digit_val (digit_char d) = Some d" "\<not> c_space (digit_char d)"
    "atom_class (digit_char d) = (if d < 10 then Numeric else Alpha)"
  unfolding digit_char_map [OF assms, where f = digit_val] digit_char_map [OF assms, where f = c_space]
    digit_char_map [OF assms, where f = atom_class] digit_table(2-4)
  using assms by (simp_all add: nth_append)

lemma is_digit_char: "d < b \<Longrightarrow> b \<le> 16 \<Longrightarrow> is_digit b (digit_char d)"
  by (simp add: is_digit_def digit_char_val)

lemma print_digits_nonempty [simp]: "print_digits b n \<noteq> []"
  by (subst print_digits.simps) simp

text \<open>Numerals: printing is undone by reading, whatever follows, unless it is a digit.\<close>

lemma read_digits_stop: "(\<forall>c cs. rest = c # cs \<longrightarrow> \<not> is_digit b c) \<Longrightarrow> read_digits b n rest = (n, rest)"
  by (cases rest) auto

lemma div_digits:
  assumes "2 \<le> b" and "\<not> n < int b"
  shows "0 \<le> n div int b" "n div int b * int b + int (nat (n mod int b)) = n" "nat (n mod int b) < b" "n div int b \<noteq> 0"
proof -
  have n: "0 < int b" "0 \<le> n" using assms by auto
  then show "0 \<le> n div int b" by (simp add: pos_imp_zdiv_nonneg_iff)
  have "0 \<le> n mod int b" "n mod int b < int b" using n(1) by simp_all
  then show "n div int b * int b + int (nat (n mod int b)) = n" "nat (n mod int b) < b" by (simp_all add: nat_less_iff)
  show "n div int b \<noteq> 0" using assms(2) n by (simp add: div_int_pos_iff zdiv_eq_0_iff)
qed

lemma print_digits_cases:
  assumes "2 \<le> b"
  shows "n < int b \<Longrightarrow> print_digits b n = [digit_char (nat n)]"
    "\<not> n < int b \<Longrightarrow> print_digits b n = print_digits b (n div int b) @ [digit_char (nat (n mod int b))]"
  using assms by (subst print_digits.simps, simp)+

lemma read_print_acc:
  assumes "2 \<le> b" and "b \<le> 16" and "0 \<le> n"
  shows "\<exists>k. read_digits b m (print_digits b n @ rest) = read_digits b (m * int b ^ k + n) rest \<and> n < int b ^ k"
  using assms
proof (induction b n arbitrary: m rest rule: print_digits.induct)
  case (1 b n)
  show ?case
  proof (cases "n < int b")
    case True
    then have "nat n < b" "b \<le> 16" using 1(3,4) by auto
    then show ?thesis
      using True 1(2,4) by (intro exI [of _ 1]) (simp add: print_digits_cases is_digit_char digit_char_val)
  next
    case False
    note d = div_digits [OF 1(2) False]
    obtain k where k: "read_digits b m (print_digits b (n div int b) @ digit_char (nat (n mod int b)) # rest)
        = read_digits b (m * int b ^ k + n div int b) (digit_char (nat (n mod int b)) # rest)" "n div int b < int b ^ k"
      using 1 False d(1) by fastforce
    have dig: "is_digit b (digit_char (nat (n mod int b)))" "digit_val (digit_char (nat (n mod int b))) = Some (nat (n mod int b))"
      using d(3) 1(3) less_le_trans [OF d(3) 1(3)] by (simp_all add: is_digit_char digit_char_val)
    have e: "(m * int b ^ k + n div int b) * int b + int (nat (n mod int b)) = m * int b ^ Suc k + n"
      using d(2) by (simp add: algebra_simps)
    have "read_digits b m (print_digits b n @ rest) = read_digits b (m * int b ^ Suc k + n) rest"
      using k(1) dig e by (simp add: print_digits_cases(2) [OF 1(2) False])
    moreover have "n < int b ^ Suc k"
    proof -
      have "n div int b + 1 \<le> int b ^ k" using k(2) by simp
      then have "int b * (n div int b + 1) \<le> int b * int b ^ k" using 1(2) by (intro mult_left_mono) auto
      then have "int b * (n div int b) + int b \<le> int b * int b ^ k" by (simp only: distrib_left mult_1_right)
      moreover have "n = int b * (n div int b) + n mod int b" "n mod int b < int b" using 1(2) by simp_all
      ultimately show ?thesis by (simp only: power_Suc)
    qed
    ultimately show ?thesis by blast
  qed
qed

lemma read_print_digits:
  assumes "2 \<le> b" and "b \<le> 16" and "0 \<le> n" and "\<forall>c cs. rest = c # cs \<longrightarrow> \<not> is_digit b c"
  shows "read_digits b 0 (print_digits b n @ rest) = (n, rest)"
  using read_print_acc [OF assms(1-3), of 0 rest] read_digits_stop [OF assms(4)] by auto

lemma print_digits_hd:
  assumes "2 \<le> b" and "0 \<le> n"
  shows "\<exists>d < b. hd (print_digits b n) = digit_char d \<and> (d = 0 \<longrightarrow> n = 0)"
  using assms
proof (induction b n rule: print_digits.induct)
  case (1 b n)
  show ?case
  proof (cases "n < int b")
    case True
    then show ?thesis using 1(2,3) by (intro exI [of _ "nat n"]) (auto simp: print_digits_cases)
  next
    case False
    note d = div_digits [OF 1(2) False]
    then obtain e where "e < b" "hd (print_digits b (n div int b)) = digit_char e" "e = 0 \<longrightarrow> n div int b = 0" using 1 False by auto
    then show ?thesis using d(4) by (auto simp: print_digits_cases(2) [OF 1(2) False])
  qed
qed

lemma strtoul0_hex:
  assumes "\<forall>c cs. rest = c # cs \<longrightarrow> \<not> is_digit 16 c" and "list_all c_space sp"
  shows "strtoul0 (sp @ ''0x'' @ print_hex w @ rest) = (w, rest)"
proof -
  obtain d where d: "d < 16" "hd (print_digits 16 (uint w)) = digit_char d" using print_digits_hd [of 16 "uint w"] by auto
  obtain cs where cs: "print_digits 16 (uint w) @ rest = digit_char d # cs"
    using d(2) by (cases "print_digits 16 (uint w)") auto
  have sp: "dropWhile c_space (sp @ ''0x'' @ t) = ''0x'' @ t" for t
  proof -
    have "\<not> c_space (CHR ''0'')" by code_simp
    then show ?thesis using assms(2) by (induction sp) simp_all
  qed
  have "is_digit 16 (digit_char d)" using d(1) by (simp add: is_digit_char)
  moreover have "\<not> uint w \<ge> 2 ^ 32" using uint_bounded [of w] by (simp add: linorder_not_le)
  ultimately show ?thesis
    using read_print_digits [OF _ _ _ assms(1), where n = "uint w"] sp by (simp add: strtoul0_def print_hex_def cs Let_def)
qed

lemma strtoul0_dec:
  assumes "\<forall>c cs. rest = c # cs \<longrightarrow> \<not> is_digit 10 c \<and> c \<noteq> CHR ''x'' \<and> c \<noteq> CHR ''X''" and "n < 2 ^ 32"
  shows "strtoul0 (print_dec n @ rest) = (of_nat n, rest)"
proof -
  obtain d where d: "d < 10" "hd (print_digits 10 (int n)) = digit_char d" "d = 0 \<longrightarrow> n = 0" using print_digits_hd [of 10 "int n"] by auto
  obtain cs where cs: "print_digits 10 (int n) @ rest = digit_char d # cs"
    using d(2) by (cases "print_digits 10 (int n)") auto
  have ne: "digit_char d \<noteq> CHR ''-''" "digit_char d \<noteq> CHR ''+''" "(digit_char d = CHR ''0'') = (d = 0)"
  proof -
    have "\<forall>d \<in> set [0..<10]. digit_char d \<noteq> CHR ''-'' \<and> digit_char d \<noteq> CHR ''+'' \<and> (digit_char d = CHR ''0'') = (d = 0)"
      by code_simp
    then show "digit_char d \<noteq> CHR ''-''" "digit_char d \<noteq> CHR ''+''" "(digit_char d = CHR ''0'') = (d = 0)" using d(1) by auto
  qed
  show ?thesis
  proof (cases "d = 0")
    case True
    then have n: "n = 0" using d(3) by simp
    have zero: "print_digits 10 0 = ''0''" by code_simp
    have sp: "\<not> c_space (CHR ''0'')" "is_digit 8 (CHR ''0'')" "digit_val (CHR ''0'') = Some 0" by code_simp+
    have "\<forall>c cs. rest = c # cs \<longrightarrow> \<not> is_digit 8 c" using assms(1) by (force simp: is_digit_def split: option.splits)
    then have "read_digits 8 0 rest = (0, rest)" by (rule read_digits_stop)
    moreover have "\<not> (length (CHR ''0'' # rest) \<ge> 3 \<and> ((CHR ''0'' # rest) ! 1 = CHR ''x'' \<or> (CHR ''0'' # rest) ! 1 = CHR ''X''))"
      using assms(1) by (cases rest) auto
    ultimately show ?thesis by (auto simp: strtoul0_def print_dec_def n zero sp Let_def)
  next
    case False
    then have "digit_char d \<noteq> CHR ''0''" using ne(3) by simp
    moreover have "read_digits 10 0 (digit_char d # cs) = (int n, rest)"
      using read_print_digits [of 10 "int n" rest] assms(1) cs by auto
    ultimately show ?thesis
      using d(1) ne(1,2) assms(2)
      by (simp add: strtoul0_def print_dec_def cs Let_def digit_char_val is_digit_char del: read_digits.simps)
  qed
qed

lemma print_digits_chars: "2 \<le> b \<Longrightarrow> 0 \<le> n \<Longrightarrow> c \<in> set (print_digits b n) \<Longrightarrow> \<exists>d < b. c = digit_char d"
proof (induction b n rule: print_digits.induct)
  case (1 b n)
  show ?case
  proof (cases "n < int b")
    case True
    then show ?thesis using 1(2-4) by (auto simp: print_digits_cases intro!: exI [of _ "nat n"])
  next
    case False
    note d = div_digits [OF 1(2) False]
    have "c \<in> set (print_digits b (n div int b)) \<or> c = digit_char (nat (n mod int b))"
      using 1(4) by (auto simp: print_digits_cases(2) [OF 1(2) False])
    then show ?thesis using 1(1,2) False d(1,3) by auto
  qed
qed

lemma length_print_digits: "2 \<le> b \<Longrightarrow> 0 \<le> n \<Longrightarrow> n < int b ^ Suc k \<Longrightarrow> length (print_digits b n) \<le> Suc k"
proof (induction k arbitrary: n)
  case 0
  then show ?case by (simp add: print_digits_cases)
next
  case (Suc k)
  show ?case
  proof (cases "n < int b")
    case False
    note d = div_digits [OF Suc.prems(1) False]
    have "n div int b * int b \<le> n" using Suc.prems(1) by (simp add: minus_mod_eq_div_mult [symmetric])
    then have "n div int b * int b < int b ^ Suc k * int b" using Suc.prems(3) by (simp add: mult.commute)
    then have "n div int b < int b ^ Suc k" by (rule mult_right_less_imp_less) simp
    then have "length (print_digits b (n div int b)) \<le> Suc k" using Suc d(1) by blast
    then show ?thesis by (simp add: print_digits_cases(2) [OF Suc.prems(1) False])
  qed (use Suc.prems in \<open>simp add: print_digits_cases\<close>)
qed

lemma upper_dec: "map upper (print_dec n) = print_dec n"
proof (rule map_idI)
  fix c assume "c \<in> set (print_dec n)"
  then obtain d where "d < 10" "c = digit_char d" using print_digits_chars [of 10 "int n" c] by (auto simp: print_dec_def)
  then show "upper c = c" by (simp add: upper_def digit_char_val)
qed

end
