(* ===== verification/Mtt_Isa.thy ===== *)
theory Mtt_Isa
  imports Mtt_Text
begin

text \<open>
  The instruction set and the registers of the MTT card (\<open>opcodes.h\<close>, \<open>opcodes.c\<close>, \<open>asm.h\<close>, \<open>mttRegisters.h\<close>), and the look-ups by name and by
  number of the assembler and the emulator.
\<close>

section \<open>Instructions\<close>

datatype ArgType = AtNothing | AtLiteral | AtAddress | AtRegister

record OpCode =
  oc_Name :: string
  oc_Comment :: string
  oc_Number :: u8
  oc_Src1 :: ArgType
  oc_Src2 :: ArgType
  oc_Dest :: ArgType

record Instruction =
  i_Dest :: u8
  i_Src2 :: u8
  i_Number :: u8
  i_Crc :: u8
  i_Src1 :: u32

record ProgramBuf =
  pb_LoadAddress :: u32
  pb_InstructionCount :: nat
  pb_Program :: "Instruction list"

text \<open>The numbers of \<open>IdNumber\<close>.\<close>

abbreviation (input) HALT_op :: u8 where "HALT_op \<equiv> 0x00"
abbreviation (input) NOOP_op :: u8 where "NOOP_op \<equiv> 0x4d"
abbreviation (input) INT_op :: u8 where "INT_op \<equiv> 0xc1"
abbreviation (input) WEQV_op :: u8 where "WEQV_op \<equiv> 0x91"
abbreviation (input) WRLV_op :: u8 where "WRLV_op \<equiv> 0x92"
abbreviation (input) WORV_op :: u8 where "WORV_op \<equiv> 0x93"
abbreviation (input) WEQR_op :: u8 where "WEQR_op \<equiv> 0x11"
abbreviation (input) WRLR_op :: u8 where "WRLR_op \<equiv> 0x12"
abbreviation (input) WORR_op :: u8 where "WORR_op \<equiv> 0x13"
abbreviation (input) MOVV_op :: u8 where "MOVV_op \<equiv> 0xe2"
abbreviation (input) MOVR_op :: u8 where "MOVR_op \<equiv> 0x62"
abbreviation (input) MOVIR_op :: u8 where "MOVIR_op \<equiv> 0x64"
abbreviation (input) MOVRI_op :: u8 where "MOVRI_op \<equiv> 0x65"
abbreviation (input) ADDR_op :: u8 where "ADDR_op \<equiv> 0x66"
abbreviation (input) SUBR_op :: u8 where "SUBR_op \<equiv> 0x67"
abbreviation (input) LORR_op :: u8 where "LORR_op \<equiv> 0x68"
abbreviation (input) ANDR_op :: u8 where "ANDR_op \<equiv> 0x69"
abbreviation (input) XORR_op :: u8 where "XORR_op \<equiv> 0x6a"
abbreviation (input) LSR_op :: u8 where "LSR_op \<equiv> 0x6b"
abbreviation (input) RSR_op :: u8 where "RSR_op \<equiv> 0x6c"
abbreviation (input) ADDV_op :: u8 where "ADDV_op \<equiv> 0xe6"
abbreviation (input) SUBV_op :: u8 where "SUBV_op \<equiv> 0xe7"
abbreviation (input) LORV_op :: u8 where "LORV_op \<equiv> 0xe8"
abbreviation (input) ANDV_op :: u8 where "ANDV_op \<equiv> 0xe9"
abbreviation (input) XORV_op :: u8 where "XORV_op \<equiv> 0xea"
abbreviation (input) LSV_op :: u8 where "LSV_op \<equiv> 0xeb"
abbreviation (input) RSV_op :: u8 where "RSV_op \<equiv> 0xec"
abbreviation (input) WDOG_op :: u8 where "WDOG_op \<equiv> 0x34"
abbreviation (input) JMP_op :: u8 where "JMP_op \<equiv> 0x85"
abbreviation (input) BEQ_op :: u8 where "BEQ_op \<equiv> 0x86"
abbreviation (input) BNE_op :: u8 where "BNE_op \<equiv> 0x87"
abbreviation (input) BLT_op :: u8 where "BLT_op \<equiv> 0x88"
abbreviation (input) BGT_op :: u8 where "BGT_op \<equiv> 0x89"
abbreviation (input) BLE_op :: u8 where "BLE_op \<equiv> 0x8a"
abbreviation (input) BGE_op :: u8 where "BGE_op \<equiv> 0x8b"
abbreviation (input) BCR_op :: u8 where "BCR_op \<equiv> 0x8c"

definition InstructionSet :: "OpCode list" where
  "InstructionSet =
     [\<lparr>oc_Name = ''HALT'', oc_Comment = ''Stop program'', oc_Number = 0x00, oc_Src1 = AtNothing, oc_Src2 = AtNothing, oc_Dest = AtNothing\<rparr>,
      \<lparr>oc_Name = ''NOOP'', oc_Comment = ''No operation'', oc_Number = 0x4d, oc_Src1 = AtNothing, oc_Src2 = AtNothing, oc_Dest = AtNothing\<rparr>,
      \<lparr>oc_Name = ''INT'', oc_Comment = ''Interrupt[1..16]'', oc_Number = 0xc1, oc_Src1 = AtLiteral, oc_Src2 = AtNothing, oc_Dest = AtNothing\<rparr>,
      \<lparr>oc_Name = ''WEQV'', oc_Comment = ''Wait value equal'', oc_Number = 0x91, oc_Src1 = AtLiteral, oc_Src2 = AtRegister, oc_Dest = AtNothing\<rparr>,
      \<lparr>oc_Name = ''WRLV'', oc_Comment = ''Wait value relative'', oc_Number = 0x92, oc_Src1 = AtLiteral, oc_Src2 = AtRegister, oc_Dest = AtNothing\<rparr>,
      \<lparr>oc_Name = ''WORV'', oc_Comment = ''Wait value bit mask'', oc_Number = 0x93, oc_Src1 = AtLiteral, oc_Src2 = AtRegister, oc_Dest = AtNothing\<rparr>,
      \<lparr>oc_Name = ''WEQR'', oc_Comment = ''Wait register equal'', oc_Number = 0x11, oc_Src1 = AtRegister, oc_Src2 = AtRegister, oc_Dest = AtNothing\<rparr>,
      \<lparr>oc_Name = ''WRLR'', oc_Comment = ''Wait register relative'', oc_Number = 0x12, oc_Src1 = AtRegister, oc_Src2 = AtRegister, oc_Dest = AtNothing\<rparr>,
      \<lparr>oc_Name = ''WORR'', oc_Comment = ''Wait register bit mask'', oc_Number = 0x13, oc_Src1 = AtRegister, oc_Src2 = AtRegister, oc_Dest = AtNothing\<rparr>,
      \<lparr>oc_Name = ''MOVV'', oc_Comment = ''Load register'', oc_Number = 0xe2, oc_Src1 = AtLiteral, oc_Src2 = AtNothing, oc_Dest = AtRegister\<rparr>,
      \<lparr>oc_Name = ''MOVR'', oc_Comment = ''Move register'', oc_Number = 0x62, oc_Src1 = AtRegister, oc_Src2 = AtNothing, oc_Dest = AtRegister\<rparr>,
      \<lparr>oc_Name = ''MOVIR'', oc_Comment = ''Move Index register'', oc_Number = 0x64, oc_Src1 = AtRegister, oc_Src2 = AtNothing, oc_Dest = AtRegister\<rparr>,
      \<lparr>oc_Name = ''MOVRI'', oc_Comment = ''Move register Index'', oc_Number = 0x65, oc_Src1 = AtRegister, oc_Src2 = AtRegister, oc_Dest = AtNothing\<rparr>,
      \<lparr>oc_Name = ''ADDR'', oc_Comment = ''Add register'', oc_Number = 0x66, oc_Src1 = AtRegister, oc_Src2 = AtRegister, oc_Dest = AtRegister\<rparr>,
      \<lparr>oc_Name = ''SUBR'', oc_Comment = ''Subtract register'', oc_Number = 0x67, oc_Src1 = AtRegister, oc_Src2 = AtRegister, oc_Dest = AtRegister\<rparr>,
      \<lparr>oc_Name = ''LORR'', oc_Comment = ''Or register'', oc_Number = 0x68, oc_Src1 = AtRegister, oc_Src2 = AtRegister, oc_Dest = AtRegister\<rparr>,
      \<lparr>oc_Name = ''ANDR'', oc_Comment = ''And register'', oc_Number = 0x69, oc_Src1 = AtRegister, oc_Src2 = AtRegister, oc_Dest = AtRegister\<rparr>,
      \<lparr>oc_Name = ''XORR'', oc_Comment = ''ExclusiveOr register'', oc_Number = 0x6a, oc_Src1 = AtRegister, oc_Src2 = AtRegister, oc_Dest = AtRegister\<rparr>,
      \<lparr>oc_Name = ''LSR'', oc_Comment = ''LeftShift register'', oc_Number = 0x6b, oc_Src1 = AtRegister, oc_Src2 = AtRegister, oc_Dest = AtRegister\<rparr>,
      \<lparr>oc_Name = ''RSR'', oc_Comment = ''RightShift register'', oc_Number = 0x6c, oc_Src1 = AtRegister, oc_Src2 = AtRegister, oc_Dest = AtRegister\<rparr>,
      \<lparr>oc_Name = ''ADDV'', oc_Comment = ''Add value'', oc_Number = 0xe6, oc_Src1 = AtLiteral, oc_Src2 = AtRegister, oc_Dest = AtRegister\<rparr>,
      \<lparr>oc_Name = ''SUBV'', oc_Comment = ''Subtract value'', oc_Number = 0xe7, oc_Src1 = AtLiteral, oc_Src2 = AtRegister, oc_Dest = AtRegister\<rparr>,
      \<lparr>oc_Name = ''LORV'', oc_Comment = ''Or value'', oc_Number = 0xe8, oc_Src1 = AtLiteral, oc_Src2 = AtRegister, oc_Dest = AtRegister\<rparr>,
      \<lparr>oc_Name = ''ANDV'', oc_Comment = ''And value'', oc_Number = 0xe9, oc_Src1 = AtLiteral, oc_Src2 = AtRegister, oc_Dest = AtRegister\<rparr>,
      \<lparr>oc_Name = ''XORV'', oc_Comment = ''ExclusiveOr value'', oc_Number = 0xea, oc_Src1 = AtLiteral, oc_Src2 = AtRegister, oc_Dest = AtRegister\<rparr>,
      \<lparr>oc_Name = ''LSV'', oc_Comment = ''LeftShift value'', oc_Number = 0xeb, oc_Src1 = AtLiteral, oc_Src2 = AtRegister, oc_Dest = AtRegister\<rparr>,
      \<lparr>oc_Name = ''RSV'', oc_Comment = ''RightShift value'', oc_Number = 0xec, oc_Src1 = AtLiteral, oc_Src2 = AtRegister, oc_Dest = AtRegister\<rparr>,
      \<lparr>oc_Name = ''WDOG'', oc_Comment = ''Watch Dod'', oc_Number = 0x34, oc_Src1 = AtAddress, oc_Src2 = AtNothing, oc_Dest = AtNothing\<rparr>,
      \<lparr>oc_Name = ''JMP'', oc_Comment = ''Jump'', oc_Number = 0x85, oc_Src1 = AtAddress, oc_Src2 = AtNothing, oc_Dest = AtNothing\<rparr>,
      \<lparr>oc_Name = ''BEQ'', oc_Comment = ''Branch Equal'', oc_Number = 0x86, oc_Src1 = AtAddress, oc_Src2 = AtNothing, oc_Dest = AtNothing\<rparr>,
      \<lparr>oc_Name = ''BNE'', oc_Comment = ''Branch NotEqual'', oc_Number = 0x87, oc_Src1 = AtAddress, oc_Src2 = AtNothing, oc_Dest = AtNothing\<rparr>,
      \<lparr>oc_Name = ''BLT'', oc_Comment = ''Branch LessThan'', oc_Number = 0x88, oc_Src1 = AtAddress, oc_Src2 = AtNothing, oc_Dest = AtNothing\<rparr>,
      \<lparr>oc_Name = ''BGT'', oc_Comment = ''Branch GreaterThan'', oc_Number = 0x89, oc_Src1 = AtAddress, oc_Src2 = AtNothing, oc_Dest = AtNothing\<rparr>,
      \<lparr>oc_Name = ''BLE'', oc_Comment = ''Branch LessThanEqual'', oc_Number = 0x8a, oc_Src1 = AtAddress, oc_Src2 = AtNothing, oc_Dest = AtNothing\<rparr>,
      \<lparr>oc_Name = ''BGE'', oc_Comment = ''Branch GreaterThanEqual'', oc_Number = 0x8b, oc_Src1 = AtAddress, oc_Src2 = AtNothing, oc_Dest = AtNothing\<rparr>,
      \<lparr>oc_Name = ''BCR'', oc_Comment = ''Branch Carry'', oc_Number = 0x8c, oc_Src1 = AtAddress, oc_Src2 = AtNothing, oc_Dest = AtNothing\<rparr>]"

section \<open>Registers\<close>

record RegisterDsc =
  rg_Name :: string
  rg_Comment :: string
  rg_Start :: nat
  rg_End :: nat
  rg_Offset :: nat
  rg_LorG :: nat

definition Regs :: "RegisterDsc list" where
  "Regs =
     [\<lparr>rg_Name = ''GR'', rg_Comment = ''Global'', rg_Start = 0, rg_End = 211, rg_Offset = 1, rg_LorG = 1\<rparr>,
      \<lparr>rg_Name = ''OUTPUTS'', rg_Comment = ''Control of outputs'', rg_Start = 212, rg_End = 212, rg_Offset = 0, rg_LorG = 1\<rparr>,
      \<lparr>rg_Name = ''EVIN'', rg_Comment = ''Event input'', rg_Start = 213, rg_End = 213, rg_Offset = 0, rg_LorG = 1\<rparr>,
      \<lparr>rg_Name = ''EVINCNT'', rg_Comment = ''Event input counter'', rg_Start = 214, rg_End = 214, rg_Offset = 0, rg_LorG = 1\<rparr>,
      \<lparr>rg_Name = ''EVOUTCNT'', rg_Comment = ''Event output counter'', rg_Start = 215, rg_End = 215, rg_Offset = 0, rg_LorG = 1\<rparr>,
      \<lparr>rg_Name = ''EVOUTFB'', rg_Comment = ''Event output feed back'', rg_Start = 216, rg_End = 216, rg_Offset = 0, rg_LorG = 1\<rparr>,
      \<lparr>rg_Name = ''EVOUTL'', rg_Comment = ''Event output low priority'', rg_Start = 217, rg_End = 217, rg_Offset = 0, rg_LorG = 1\<rparr>,
      \<lparr>rg_Name = ''MSMR'', rg_Comment = ''MilliSecond modulo'', rg_Start = 218, rg_End = 218, rg_Offset = 0, rg_LorG = 1\<rparr>,
      \<lparr>rg_Name = ''TSYNC'', rg_Comment = ''Time from sync'', rg_Start = 219, rg_End = 219, rg_Offset = 0, rg_LorG = 1\<rparr>,
      \<lparr>rg_Name = ''VMEP2'', rg_Comment = ''VME P2 input'', rg_Start = 220, rg_End = 220, rg_Offset = 0, rg_LorG = 1\<rparr>,
      \<lparr>rg_Name = ''EVOUTH'', rg_Comment = ''Event output high priority'', rg_Start = 221, rg_End = 221, rg_Offset = 0, rg_LorG = 1\<rparr>,
      \<lparr>rg_Name = ''MSFR'', rg_Comment = ''Free running milliSecond'', rg_Start = 222, rg_End = 222, rg_Offset = 0, rg_LorG = 1\<rparr>,
      \<lparr>rg_Name = ''SYNCFR'', rg_Comment = ''Free running Sync time'', rg_Start = 223, rg_End = 223, rg_Offset = 0, rg_LorG = 1\<rparr>,
      \<lparr>rg_Name = ''INDEX'', rg_Comment = ''Index address'', rg_Start = 224, rg_End = 224, rg_Offset = 0, rg_LorG = 2\<rparr>,
      \<lparr>rg_Name = ''LR'', rg_Comment = ''Local'', rg_Start = 225, rg_End = 255, rg_Offset = 1, rg_LorG = 2\<rparr>]"

section \<open>Look-ups\<close>

text \<open>The search for an instruction by its number, and for a name, in \<open>InstructionSet\<close>.\<close>

fun find_opcode :: "u8 \<Rightarrow> OpCode list \<Rightarrow> OpCode option" where
  "find_opcode n [] = None"
| "find_opcode n (oc # ocs) = (if oc_Number oc = n then Some oc else find_opcode n ocs)"

fun name_index :: "string \<Rightarrow> OpCode list \<Rightarrow> nat \<Rightarrow> nat option" where
  "name_index s [] i = None"
| "name_index s (oc # ocs) i = (if s = oc_Name oc then Some i else name_index s ocs (i + 1))"

definition LookUpOpCode :: "string \<Rightarrow> nat option" where
  "LookUpOpCode s = (if length s \<le> 8 then name_index (StrToUpper s) InstructionSet 0 else None)"

definition has_prefix :: "string \<Rightarrow> string \<Rightarrow> bool" where
  "has_prefix p s \<longleftrightarrow> take (length p) s = p"

text \<open>The body of the loop over \<open>Regs\<close>: what entry \<open>r\<close> makes of the name \<open>s\<close>, in capitals \<open>upr\<close>.\<close>

definition reg_entry :: "string \<Rightarrow> string \<Rightarrow> RegisterDsc \<Rightarrow> u32 option" where
  "reg_entry s upr r =
     (if has_prefix (rg_Name r) upr
      then if rg_Start r < rg_End r
           then if length (rg_Name r) < length s
                then let cp = drop (length (rg_Name r)) s; (rn, ep) = strtoul0 cp
                     in if cp \<noteq> ep \<and> rn \<ge> of_nat (rg_Offset r) \<and> rn \<le> of_nat (rg_End r) - of_nat (rg_Start r) + of_nat (rg_Offset r)
                        then Some (of_nat (rg_Start r) + rn - of_nat (rg_Offset r)) else None
                else None
           else Some (of_nat (rg_Start r))
      else None)"

fun reg_search :: "string \<Rightarrow> string \<Rightarrow> RegisterDsc list \<Rightarrow> u32 option" where
  "reg_search s upr [] = None"
| "reg_search s upr (r # rs) = (case reg_entry s upr r of Some v \<Rightarrow> Some v | None \<Rightarrow> reg_search s upr rs)"

fun reg_exact :: "string \<Rightarrow> RegisterDsc list \<Rightarrow> u32 option" where
  "reg_exact upr [] = None"
| "reg_exact upr (r # rs) = (if upr = rg_Name r then Some (of_nat (rg_Start r)) else reg_exact upr rs)"

text \<open>The assembler looks for the exact name first, the emulator does not, and reports 0 for what it does not find.\<close>

definition LookUpRegister :: "string \<Rightarrow> u32 option" where
  "LookUpRegister s =
     (if length s \<le> 8
      then case reg_exact (StrToUpper s) Regs of Some v \<Rightarrow> Some v | None \<Rightarrow> reg_search s (StrToUpper s) Regs
      else None)"

definition StringToReg :: "string \<Rightarrow> u32" where
  "StringToReg s = (if length s \<le> 8 then case reg_search s (StrToUpper s) Regs of Some v \<Rightarrow> v | None \<Rightarrow> 0 else 0)"

fun reg_name :: "int \<Rightarrow> RegisterDsc list \<Rightarrow> string" where
  "reg_name n [] = ''???''"
| "reg_name n (r # rs) =
     (if n \<ge> int (rg_Start r) \<and> n \<le> int (rg_End r)
      then if rg_Start r < rg_End r then rg_Name r @ print_dec (nat (n - int (rg_Start r)) + rg_Offset r) else rg_Name r
      else reg_name n rs)"

definition GetRegisterName :: "int \<Rightarrow> string" where
  "GetRegisterName n = reg_name n Regs"

definition RegToString :: "int \<Rightarrow> string" where
  "RegToString n = reg_name n Regs"

section \<open>Names of registers\<close>

lemma Regs_names:
  "map rg_Name Regs = [''GR'', ''OUTPUTS'', ''EVIN'', ''EVINCNT'', ''EVOUTCNT'', ''EVOUTFB'', ''EVOUTL'', ''MSMR'', ''TSYNC'', ''VMEP2'',
     ''EVOUTH'', ''MSFR'', ''SYNCFR'', ''INDEX'', ''LR'']"
  by (simp add: Regs_def)

lemma reg_name_ranges:
  "n < 212 \<Longrightarrow> reg_name (int n) Regs = ''GR'' @ print_dec (n + 1)"
  "k < 31 \<Longrightarrow> reg_name (int (225 + k)) Regs = ''LR'' @ print_dec (k + 1)"
  by (simp_all add: Regs_def)

lemma reg_exact_ranges: "k < 2 ^ 32 \<Longrightarrow> reg_exact (''GR'' @ print_dec k) Regs = None \<and> reg_exact (''LR'' @ print_dec k) Regs = None"
  by (simp add: Regs_def print_dec_def)

lemma reg_search_ranges:
  "n < 212 \<Longrightarrow> reg_search (''GR'' @ print_dec (n + 1)) (''GR'' @ print_dec (n + 1)) Regs = Some (of_nat n)"
  "k < 31 \<Longrightarrow> reg_search (''LR'' @ print_dec (k + 1)) (''LR'' @ print_dec (k + 1)) Regs = Some (of_nat (225 + k))"
proof -
  have le: "(of_nat a :: u32) \<le> of_nat b \<longleftrightarrow> a \<le> b" if "a < 2 ^ 32" "b < 2 ^ 32" for a b
    using that by (simp add: word_le_nat_alt unat_of_nat take_bit_nat_eq_self)
  have conv: "strtoul0 (print_dec k) = (of_nat k, [])" if "k < 2 ^ 32" for k
    using strtoul0_dec [of "[]" k] that by simp
  have ne: "print_dec k \<noteq> []" for k by (simp add: print_dec_def)
  have R: "Regs = hd Regs # tl Regs" "hd Regs = \<lparr>rg_Name = ''GR'', rg_Comment = ''Global'', rg_Start = 0, rg_End = 211, rg_Offset = 1, rg_LorG = 1\<rparr>"
    by (simp_all add: Regs_def)
  show "reg_search (''GR'' @ print_dec (n + 1)) (''GR'' @ print_dec (n + 1)) Regs = Some (of_nat n)" if "n < 212"
    using that le [of 1 "n + 1"] le [of "n + 1" 212] conv [of "n + 1"] ne [of "n + 1"]
    by (subst R(1)) (simp add: R(2) reg_entry_def has_prefix_def)
  have L: "reg_search (''LR'' @ t) (''LR'' @ t) Regs = reg_search (''LR'' @ t) (''LR'' @ t) [last Regs]" for t
    by (simp add: Regs_def reg_entry_def has_prefix_def)
  have last: "last Regs = \<lparr>rg_Name = ''LR'', rg_Comment = ''Local'', rg_Start = 225, rg_End = 255, rg_Offset = 1, rg_LorG = 2\<rparr>"
    by (simp add: Regs_def)
  show "reg_search (''LR'' @ print_dec (k + 1)) (''LR'' @ print_dec (k + 1)) Regs = Some (of_nat (225 + k))" if "k < 31"
    using that le [of 1 "k + 1"] le [of "k + 1" 31] conv [of "k + 1"] ne [of "k + 1"]
    by (subst L) (simp add: last reg_entry_def has_prefix_def)
qed

lemma single_registers:
  "map (\<lambda>n. LookUpRegister (reg_name (int n) Regs)) [212..<225] = map (\<lambda>n. Some (of_nat n)) [212..<225]"
  "map (\<lambda>n. StringToReg (reg_name (int n) Regs)) [212..<225] = map (\<lambda>n. if n = 214 then 213 else of_nat n) [212..<225]"
  by code_simp+

lemma upt_mapD: "map f [a..<b] = map g [a..<b] \<Longrightarrow> a \<le> n \<Longrightarrow> n < b \<Longrightarrow> f n = g n"
  by (auto simp: list_eq_iff_nth_eq dest: spec [of _ "n - a"])

text \<open>Every one of the 256 registers is named, and the three ranges of their numbers.\<close>

lemma register_cases:
  fixes n :: nat
  assumes "n < 256"
  obtains (global) "n < 212" | (single) "212 \<le> n" "n < 225" | (local) k where "k < 31" "n = 225 + k"
proof -
  have "\<not> n < 225 \<Longrightarrow> n = 225 + (n - 225) \<and> n - 225 < 31" using assms by simp
  then show thesis using that by (cases "n < 212"; cases "n < 225") auto
qed

lemma numbered_name:
  assumes "k < 1000"
  shows "length (''GR'' @ print_dec k) \<le> 8" "length (''LR'' @ print_dec k) \<le> 8"
    "StrToUpper (''GR'' @ print_dec k) = ''GR'' @ print_dec k" "StrToUpper (''LR'' @ print_dec k) = ''LR'' @ print_dec k"
proof -
  have "length (print_dec k) \<le> Suc 2" unfolding print_dec_def using assms by (intro length_print_digits) simp_all
  then show "length (''GR'' @ print_dec k) \<le> 8" "length (''LR'' @ print_dec k) \<le> 8" by simp_all
  have "map upper ''GR'' = ''GR''" "map upper ''LR'' = ''LR''" by code_simp+
  then show "StrToUpper (''GR'' @ print_dec k) = ''GR'' @ print_dec k" "StrToUpper (''LR'' @ print_dec k) = ''LR'' @ print_dec k"
    by (simp_all add: StrToUpper_def upper_dec)
qed

lemma lookup_own_name:
  assumes "n < 256"
  shows "LookUpRegister (GetRegisterName (int n)) = Some (of_nat n)
    \<and> StringToReg (RegToString (int n)) = (if n = 214 then 213 else of_nat n)"
  using assms
proof (cases rule: register_cases)
  case global
  then have e: "reg_exact (''GR'' @ print_dec (n + 1)) Regs = None" using reg_exact_ranges [of "n + 1"] by simp
  have k: "n + 1 < 1000" using global by simp
  show ?thesis
    unfolding GetRegisterName_def RegToString_def reg_name_ranges(1) [OF global] LookUpRegister_def StringToReg_def numbered_name [OF k]
    using reg_search_ranges(1) [OF global] numbered_name(1) [OF k] global e by simp_all
next
  case single
  then show ?thesis
    using upt_mapD [OF single_registers(1)] upt_mapD [OF single_registers(2)] by (simp_all add: GetRegisterName_def RegToString_def)
next
  case (local k)
  then have e: "reg_exact (''LR'' @ print_dec (k + 1)) Regs = None" using reg_exact_ranges [of "k + 1"] by simp
  have kk: "k + 1 < 1000" using local by simp
  show ?thesis
    unfolding local(2) GetRegisterName_def RegToString_def reg_name_ranges(2) [OF local(1)] LookUpRegister_def StringToReg_def numbered_name [OF kk]
    using reg_search_ranges(2) [OF local(1)] numbered_name(2) [OF kk] e by simp_all
qed

section \<open>Names and numbers of instructions\<close>

text \<open>No two instructions share a number or a name, so that both searches find the entry itself.\<close>

lemma find_opcode_own: "list_all (\<lambda>oc. find_opcode (oc_Number oc) InstructionSet = Some oc) InstructionSet"
  by code_simp

lemma lookup_opcode_own: "map (\<lambda>oc. LookUpOpCode (oc_Name oc)) InstructionSet = map Some [0..<36]"
  by code_simp

end
