(* ===== verification/Mtt_Object.thy ===== *)
theory Mtt_Object
  imports Mtt_Isa
begin

text \<open>
  Object files and listings of MTT programs: writing and reading an object file (\<open>asm.c\<close>, \<open>emu.c\<close>), the words of the hexadecimal dump for
  the VHDL simulation (\<open>emu.c\<close>), and the texts of an instruction in the emulator (\<open>InstToStr\<close>) and in the disassembler
  (\<open>DisAssemble\<close>). A file is a string.
\<close>

section \<open>Object files\<close>

definition hex_field :: "u32 \<Rightarrow> string" where
  "hex_field w = ''0x'' @ print_hex w"

definition newline :: char where
  "newline = char_of (10 :: nat)"

definition inst_line :: "Instruction \<Rightarrow> string" where
  "inst_line i = hex_field (ucast (i_Number i)) @ '' '' @ hex_field (i_Src1 i) @ '' '' @ hex_field (ucast (i_Src2 i)) @ '' ''
     @ hex_field (ucast (i_Dest i)) @ '' '' @ hex_field (ucast (i_Crc i)) @ [newline]"

definition WriteObject :: "ProgramBuf \<Rightarrow> string" where
  "WriteObject code = hex_field (pb_LoadAddress code) @ '' '' @ hex_field (of_nat (pb_InstructionCount code)) @ [newline]
     @ concat (map inst_line (take (pb_InstructionCount code) (pb_Program code)))"

text \<open>\<open>fgets(ln, n, f)\<close>: the line read and what is left of the file.\<close>

fun fgets :: "nat \<Rightarrow> string \<Rightarrow> string \<times> string" where
  "fgets 0 s = ([], s)"
| "fgets (Suc n) [] = ([], [])"
| "fgets (Suc n) (c # cs) = (if n = 0 then ([], c # cs) else if c = newline then ([c], cs) else let (l, r) = fgets n cs in (c # l, r))"

text \<open>
  \<open>mem\<close> is what the allocated memory holds. A line that is missing leaves its instruction as it is in memory.
\<close>

definition parse_inst :: "string \<Rightarrow> Instruction" where
  "parse_inst ln =
     (let (number, cp) = strtoul0 ln; (src1, cp) = strtoul0 cp; (src2, cp) = strtoul0 cp; (dest, cp) = strtoul0 cp;
          (crc, cp) = strtoul0 cp
      in \<lparr>i_Dest = ucast dest, i_Src2 = ucast src2, i_Number = ucast number, i_Crc = ucast crc, i_Src1 = src1\<rparr>)"

fun read_insts :: "Instruction list \<Rightarrow> string \<Rightarrow> Instruction list" where
  "read_insts [] f = []"
| "read_insts (m # ms) f = (if f = [] then m # read_insts ms f else let (ln, f') = fgets 128 f in parse_inst ln # read_insts ms f')"

definition ReadObject :: "(nat \<Rightarrow> Instruction list) \<Rightarrow> ProgramBuf \<Rightarrow> string \<Rightarrow> ProgramBuf" where
  "ReadObject mem code f =
     (let (ln, f') = fgets 128 f;
          code = (if f = [] then code
                  else let (load, cp) = strtoul0 ln
                       in code\<lparr>pb_LoadAddress := load, pb_InstructionCount := unat (fst (strtoul0 cp))\<rparr>)
      in code\<lparr>pb_Program := read_insts (mem (pb_InstructionCount code)) f'\<rparr>)"

section \<open>The hexadecimal dump\<close>

definition inst_word :: "Instruction \<Rightarrow> u32" where
  "inst_word i = push_bit 24 (ucast (i_Dest i)) OR push_bit 16 (ucast (i_Src2 i)) OR push_bit 8 (ucast (i_Number i)) OR ucast (i_Crc i)"

definition hex8 :: "u32 \<Rightarrow> string" where
  "hex8 w = replicate (8 - length (print_hex w)) (CHR ''0'') @ print_hex w"

definition dump_line :: "u32 \<Rightarrow> string" where
  "dump_line w = ''X'' @ [CHR 0x22] @ hex8 w @ [CHR 0x22, newline]"

definition HexDump :: "ProgramBuf \<Rightarrow> string" where
  "HexDump code = concat (map (\<lambda>i. dump_line (inst_word i) @ dump_line (i_Src1 i)) (take (pb_InstructionCount code) (pb_Program code)))"

section \<open>Listings\<close>

text \<open>The text of one operand, and an instruction as \<open>InstToStr\<close> and \<open>DisAssemble\<close> print it.\<close>

definition arg_text :: "ArgType \<Rightarrow> u32 \<Rightarrow> string" where
  "arg_text t v = (case t of AtNothing \<Rightarrow> [] | AtLiteral \<Rightarrow> hex_field v | AtAddress \<Rightarrow> hex_field v | AtRegister \<Rightarrow> RegToString (sint v))"

definition pad :: "nat \<Rightarrow> string \<Rightarrow> string" where
  "pad n s = s @ TabTo s n"

definition InstToStr :: "Instruction \<Rightarrow> string" where
  "InstToStr i =
     (case find_opcode (i_Number i) InstructionSet of
        None \<Rightarrow> []
      | Some oc \<Rightarrow>
          let ln = pad 8 (oc_Name oc);
              ln = pad 16 (ln @ arg_text (oc_Src1 oc) (i_Src1 i));
              ln = pad 24 (ln @ arg_text (oc_Src2 oc) (ucast (i_Src2 i)))
          in pad 32 (ln @ arg_text (oc_Dest oc) (ucast (i_Dest i))))"

text \<open>\<open>%04X\<close> and \<open>%03X\<close>.\<close>

definition hex_min :: "nat \<Rightarrow> u32 \<Rightarrow> string" where
  "hex_min n w = replicate (n - length (print_hex w)) (CHR ''0'') @ print_hex w"

fun dis_lines :: "u32 \<Rightarrow> u32 \<Rightarrow> Instruction list \<Rightarrow> string" where
  "dis_lines adr pc [] = []"
| "dis_lines adr pc (i # is) =
     (case find_opcode (i_Number i) InstructionSet of
        None \<Rightarrow> ''Garbage object file'' @ [newline] @ dis_lines adr pc is
      | Some oc \<Rightarrow>
          (let ln = pad 16 (hex_min 4 adr @ '':'' @ hex_min 3 pc @ '' '' @ oc_Name oc);
               ln = pad 28 (ln @ arg_text (oc_Src1 oc) (i_Src1 i));
               ln = pad 36 (ln @ arg_text (oc_Src2 oc) (ucast (i_Src2 i)));
               ln = pad 44 (ln @ arg_text (oc_Dest oc) (ucast (i_Dest i)))
           in ln @ ''% '' @ oc_Comment oc @ [newline] @ dis_lines (adr + 1) (pc + 1) is))"

definition DisAssemble :: "ProgramBuf \<Rightarrow> string" where
  "DisAssemble code =
     (let oln = pad 16 ''       %''; oln = pad 28 (oln @ ''Src-1''); oln = pad 36 (oln @ ''Src-2'')
      in oln @ ''Dest'' @ [newline] @ dis_lines (pb_LoadAddress code) 0 (take (pb_InstructionCount code) (pb_Program code)))"

section \<open>Reading an object file back\<close>

lemma hex_digit_not:
  assumes "c \<in> set (hex_field w)"
  shows "c \<noteq> newline"
proof -
  have "\<forall>c \<in> set ''0x''. c \<noteq> newline" "list_all (\<lambda>d. digit_char d \<noteq> newline) [0..<16]" by code_simp+
  then show ?thesis
    using assms print_digits_chars [of 16 "uint w" c] by (force simp: hex_field_def print_hex_def list_all_iff)
qed

lemma length_hex_field: "length (hex_field w) \<le> 10"
proof -
  have "uint w < int 16 ^ Suc 7" using uint_bounded [of w] by simp
  from length_print_digits [OF _ _ this] show ?thesis by (simp add: hex_field_def print_hex_def)
qed

lemma not_digit: "\<not> is_digit 16 (CHR '' '')" "\<not> is_digit 16 newline" "c_space (CHR '' '')"
  by code_simp+


lemma strtoul0_field:
  assumes "rest = [] \<or> hd rest = CHR '' '' \<or> hd rest = newline"
  shows "strtoul0 (hex_field w @ rest) = (w, rest)" "strtoul0 (CHR '' '' # hex_field w @ rest) = (w, rest)"
proof -
  have r: "\<forall>c cs. rest = c # cs \<longrightarrow> \<not> is_digit 16 c" using assms not_digit by auto
  show "strtoul0 (hex_field w @ rest) = (w, rest)" using strtoul0_hex [OF r, of "[]"] by (simp add: hex_field_def)
  show "strtoul0 (CHR '' '' # hex_field w @ rest) = (w, rest)"
    using strtoul0_hex [OF r, of "''  ''"] strtoul0_hex [OF r, of "[CHR '' '']"] not_digit(3) by (simp add: hex_field_def)
qed

lemma fgets_line:
  assumes "\<forall>c \<in> set s. c \<noteq> newline" and "length s + 1 < n"
  shows "fgets n (s @ newline # f) = (s @ [newline], f)"
  using assms
proof (induction s arbitrary: n)
  case Nil
  then show ?case by (cases n) auto
next
  case (Cons c s)
  then obtain m where "n = Suc m" "m \<noteq> 0" "length s + 1 < m" by (cases n) auto
  then show ?case using Cons by simp
qed

text \<open>The line of an instruction without its end, and the instruction read from it.\<close>

definition inst_text :: "Instruction \<Rightarrow> string" where
  "inst_text i = hex_field (ucast (i_Number i)) @ '' '' @ hex_field (i_Src1 i) @ '' '' @ hex_field (ucast (i_Src2 i)) @ '' ''
     @ hex_field (ucast (i_Dest i)) @ '' '' @ hex_field (ucast (i_Crc i))"

lemma inst_line_text: "inst_line i = inst_text i @ [newline]"
  by (simp add: inst_line_def inst_text_def)

lemma inst_text_line: "\<forall>c \<in> set (inst_text i). c \<noteq> newline" "length (inst_text i) + 1 < 128" "inst_text i \<noteq> []"
proof -
  have "CHR '' '' \<noteq> newline" by code_simp
  then show "\<forall>c \<in> set (inst_text i). c \<noteq> newline" using hex_digit_not by (auto simp: inst_text_def)
  show "length (inst_text i) + 1 < 128"
    using length_hex_field [of "ucast (i_Number i)"] length_hex_field [of "i_Src1 i"] length_hex_field [of "ucast (i_Src2 i)"]
      length_hex_field [of "ucast (i_Dest i)"] length_hex_field [of "ucast (i_Crc i)"] by (simp add: inst_text_def)
  show "inst_text i \<noteq> []" by (simp add: inst_text_def hex_field_def)
qed

lemma byte_of_u32: "ucast (ucast (b :: u8) :: u32) = b"
  by (rule bit_word_eqI) (simp add: bit_simps)

lemma parse_inst_line: "parse_inst (inst_text i @ [newline]) = i"
  by (simp add: parse_inst_def inst_text_def strtoul0_field byte_of_u32)

lemma read_insts_lines:
  assumes "length ms = length is"
  shows "read_insts ms (concat (map inst_line is)) = is"
  using assms
proof (induction ms "is" rule: list_induct2)
  case (Cons m ms i "is")
  then show ?case
    using inst_text_line [of i] by (simp add: inst_line_text fgets_line parse_inst_line)
qed simp

section \<open>Properties\<close>

text \<open>
  C12: an object file read back gives the program that was written, for every program whose instruction count is that of
  its instructions and fits 32 bits: load address, count and every field of every instruction, whatever the buffer and the allocated memory
  held before.
\<close>

theorem object_file_roundtrip:
  assumes "length (pb_Program code) = pb_InstructionCount code" and "pb_InstructionCount code < 2 ^ 32"
    and "\<forall>n. length (mem n) = n"
  shows "ReadObject mem old (WriteObject code) = code"
proof -
  let ?head = "hex_field (pb_LoadAddress code) @ '' '' @ hex_field (of_nat (pb_InstructionCount code))"
  let ?body = "concat (map inst_line (pb_Program code))"
  have w: "WriteObject code = ?head @ newline # ?body" using assms(1) by (simp add: WriteObject_def)
  have "CHR '' '' \<noteq> newline" by code_simp
  then have "\<forall>c \<in> set ?head. c \<noteq> newline" using hex_digit_not by auto
  moreover have "length ?head + 1 < 128"
    using length_hex_field [of "pb_LoadAddress code"] length_hex_field [of "of_nat (pb_InstructionCount code)"] by simp
  ultimately have g: "fgets 128 (?head @ newline # ?body) = (?head @ [newline], ?body)" by (rule fgets_line)
  have "unat (of_nat (pb_InstructionCount code) :: u32) = pb_InstructionCount code"
    using assms(2) by (simp add: unat_of_nat take_bit_nat_eq_self)
  then show ?thesis
    using g read_insts_lines [of "mem (pb_InstructionCount code)" "pb_Program code"] assms(1,3)
    by (simp add: ReadObject_def w strtoul0_field)
qed

section \<open>Witnesses\<close>

definition demo_inst :: Instruction where
  "demo_inst = \<lparr>i_Dest = 3, i_Src2 = 225, i_Number = 0xe6, i_Crc = 0, i_Src1 = 0x1f\<rparr>"

definition demo_program :: ProgramBuf where
  "demo_program = \<lparr>pb_LoadAddress = 0x10, pb_InstructionCount = 2, pb_Program = [demo_inst, demo_inst\<lparr>i_Number := 0\<rparr>]\<rparr>"

theorem object_file_roundtrip_witness:
  "ReadObject (\<lambda>n. replicate n demo_inst) (demo_program\<lparr>pb_LoadAddress := 0\<rparr>) (WriteObject demo_program) = demo_program"
  by (rule object_file_roundtrip) (simp_all add: demo_program_def)

end
