(* ===== verification/Mtt_Emu.thy ===== *)
theory Mtt_Emu
  imports Mtt_Object
begin

text \<open>
  The emulator of the MTT card (\<open>src/mttn/tools/emu.c\<close>): the processor's state, \<open>Execute\<close> with every instruction, and the
  interactive loop \<open>Emulate\<close> with the editor of registers, whose terminal is a list of lines.

  \<open>None\<close> is what the C program has no defined behaviour for: an access outside the register array or the program, and a
  shift by a count that is not below 32. Sums, differences and shifts of \<open>int\<close> wrap around.
\<close>

section \<open>State\<close>

abbreviation (input) GREGS :: nat where "GREGS \<equiv> 224"
abbreviation (input) REGS :: nat where "REGS \<equiv> 256"

abbreviation (input) PsEQ :: u32 where "PsEQ \<equiv> 1"
abbreviation (input) PsLT :: u32 where "PsLT \<equiv> 2"
abbreviation (input) PsGT :: u32 where "PsGT \<equiv> 4"
abbreviation (input) PsCR :: u32 where "PsCR \<equiv> 8"

text \<open>\<open>shadow\<close> is the array \<open>regm\<close> that \<open>ShowDiffs\<close> compares with.\<close>

record emu =
  Regm :: "u32 list"
  shadow :: "u32 list"
  PSwd :: u32
  Pc :: u32
  waiting :: bool
  waitr :: u32
  regwa :: u32
  Dfs :: string

definition first_diff :: "emu \<Rightarrow> nat option" where
  "first_diff s = List.find (\<lambda>i. shadow s ! i \<noteq> Regm s ! i) [0..<REGS]"

definition ShowDiffs :: "emu \<Rightarrow> emu" where
  "ShowDiffs s =
     (let diff = (case first_diff s of
                    None \<Rightarrow> []
                  | Some i \<Rightarrow> RegToString (int i) @ '':'' @ hex_field (shadow s ! i) @ ''=>'' @ hex_field (Regm s ! i));
          txt = (if waiting s then ''Wait['' @ RegToString (sint (regwa s)) @ ''/'' @ hex_field (waitr s) @ '']'' else [])
      in s\<lparr>shadow := Regm s, Dfs := diff @ txt\<rparr>)"

definition psw_of :: "u32 \<Rightarrow> u32" where
  "psw_of v = (if v = 0 then PsEQ else 0) OR (if sint v > 0 then PsGT else 0) OR (if sint v < 0 then PsLT else 0)"

definition SetPSwd :: "u32 \<Rightarrow> emu \<Rightarrow> emu" where
  "SetPSwd v s = s\<lparr>PSwd := psw_of v\<rparr>"

section \<open>One instruction\<close>

definition next_pc :: "emu \<Rightarrow> emu" where
  "next_pc s = s\<lparr>Pc := Pc s + 1\<rparr>"

text \<open>The common end of the moves and of the arithmetic instructions.\<close>

definition set_reg :: "nat \<Rightarrow> u32 \<Rightarrow> emu \<Rightarrow> emu" where
  "set_reg d v s = ShowDiffs (SetPSwd v (s\<lparr>Regm := (Regm s)[d := v]\<rparr>))"

text \<open>A register named by \<open>Src1\<close>, which is a \<open>long\<close>.\<close>

definition src1_reg :: "Instruction \<Rightarrow> emu \<Rightarrow> u32 option" where
  "src1_reg i s = (if unat (i_Src1 i) < REGS then Some (Regm s ! unat (i_Src1 i)) else None)"

definition src2_reg :: "Instruction \<Rightarrow> emu \<Rightarrow> u32" where
  "src2_reg i s = Regm s ! unat (i_Src2 i)"

text \<open>A register read or written through the index register, which holds any number.\<close>

definition reg_at :: "u32 \<Rightarrow> emu \<Rightarrow> u32 option" where
  "reg_at irg s = (if unat irg < REGS then Some (Regm s ! unat irg) else None)"

definition set_reg_at :: "u32 \<Rightarrow> u32 \<Rightarrow> emu \<Rightarrow> emu option" where
  "set_reg_at irg v s = (if unat irg < REGS then Some (set_reg (unat irg) v s) else None)"

text \<open>A wait: \<open>wr\<close> is what \<open>waitr\<close> is set to when the wait starts, \<open>ready\<close> the test on the register and \<open>waitr\<close>.\<close>

definition wait_step :: "Instruction \<Rightarrow> u32 \<Rightarrow> (u32 \<Rightarrow> u32 \<Rightarrow> bool) \<Rightarrow> emu \<Rightarrow> emu" where
  "wait_step i wr ready s =
     (let s = (if \<not> waiting s then s\<lparr>waiting := True, waitr := wr, regwa := ucast (i_Src2 i)\<rparr> else s);
          s = (if ready (src2_reg i s) (waitr s) then next_pc (s\<lparr>waiting := False\<rparr>) else s)
      in ShowDiffs s)"

definition branch :: "bool \<Rightarrow> Instruction \<Rightarrow> emu \<Rightarrow> emu" where
  "branch c i s = (if c then s\<lparr>Pc := i_Src1 i\<rparr> else next_pc s)"

text \<open>The operations with two sources: the value of \<open>Src2\<close>, then that of \<open>Src1\<close>.\<close>

definition alu :: "u8 \<Rightarrow> u32 \<Rightarrow> u32 \<Rightarrow> u32 option" where
  "alu n b a =
     (if n = ADDR_op \<or> n = ADDV_op then Some (b + a)
      else if n = SUBR_op \<or> n = SUBV_op then Some (b - a)
      else if n = LORR_op \<or> n = LORV_op then Some (b OR a)
      else if n = ANDR_op \<or> n = ANDV_op then Some (b AND a)
      else if n = XORR_op \<or> n = XORV_op then Some (b XOR a)
      else if n = LSR_op \<or> n = LSV_op then (if unat a < 32 then Some (push_bit (unat a) b) else None)
      else if n = RSR_op \<or> n = RSV_op then (if unat a < 32 then Some (signed_drop_bit (unat a) b) else None)
      else None)"

definition is_alu_r :: "u8 \<Rightarrow> bool" where
  "is_alu_r n \<longleftrightarrow> n \<in> {ADDR_op, SUBR_op, LORR_op, ANDR_op, XORR_op, LSR_op, RSR_op}"

definition is_alu_v :: "u8 \<Rightarrow> bool" where
  "is_alu_v n \<longleftrightarrow> n \<in> {ADDV_op, SUBV_op, LORV_op, ANDV_op, XORV_op, LSV_op, RSV_op}"

definition Execute :: "Instruction \<Rightarrow> emu \<Rightarrow> (Instruction \<times> emu) option" where
  "Execute i s =
     (let n = i_Number i; d = unat (i_Dest i); keep = map_option (Pair i)
      in if n = HALT_op then Some (i, s)
         else if n = NOOP_op \<or> n = INT_op then Some (i, next_pc s)
         else if n = WEQV_op then Some (i, wait_step i (i_Src1 i) (\<lambda>r w. r = i_Src1 i) s)
         else if n = WEQR_op then keep (map_option (\<lambda>a. wait_step i a (\<lambda>r w. r = a) s) (src1_reg i s))
         else if n = WRLV_op then Some (i, wait_step i (src2_reg i s + i_Src1 i) (\<lambda>r w. sint r \<ge> sint w) s)
         else if n = WRLR_op
         then keep (if waiting s then Some (wait_step i 0 (\<lambda>r w. sint r \<ge> sint w) s)
                    else map_option (\<lambda>a. wait_step i (src2_reg i s + a) (\<lambda>r w. sint r \<ge> sint w) s) (src1_reg i s))
         else if n = WORV_op then Some (i, wait_step i (i_Src1 i) (\<lambda>r w. r AND i_Src1 i \<noteq> 0) s)
         else if n = WORR_op then keep (map_option (\<lambda>a. wait_step i a (\<lambda>r w. r AND a \<noteq> 0) s) (src1_reg i s))
         else if n = MOVV_op then Some (i, next_pc (set_reg d (i_Src1 i) s))
         else if n = MOVR_op then keep (map_option (\<lambda>a. next_pc (set_reg d a s)) (src1_reg i s))
         else if n = MOVIR_op
         then keep (let irg = Regm s ! GREGS
                    in if sint irg \<ge> 0 \<and> sint irg < 256 then map_option (\<lambda>v. next_pc (set_reg d v s)) (reg_at irg s) else Some (next_pc s))
         else if n = MOVRI_op
         then keep (let irg = Regm s ! GREGS
                    in if sint irg \<ge> 0 \<and> sint irg < 256 then map_option next_pc (set_reg_at irg (Regm s ! d) s) else Some (next_pc s))
         else if is_alu_r n
         then keep (case src1_reg i s of
                      None \<Rightarrow> None
                    | Some a \<Rightarrow> map_option (\<lambda>v. next_pc (set_reg d v s)) (alu n (src2_reg i s) a))
         else if is_alu_v n then keep (map_option (\<lambda>v. next_pc (set_reg d v s)) (alu n (src2_reg i s) (i_Src1 i)))
         else if n = WDOG_op then Some (i\<lparr>i_Number := n + 1\<rparr>, next_pc s)
         else if n = JMP_op then Some (i, s\<lparr>Pc := i_Src1 i\<rparr>)
         else if n = BEQ_op then Some (i, branch (PSwd s AND PsEQ \<noteq> 0) i s)
         else if n = BNE_op then Some (i, branch (PSwd s AND PsEQ = 0) i s)
         else if n = BLT_op then Some (i, branch (PSwd s AND PsLT \<noteq> 0) i s)
         else if n = BGT_op then Some (i, branch (PSwd s AND PsGT \<noteq> 0) i s)
         else if n = BLE_op then Some (i, branch (PSwd s AND PsEQ \<noteq> 0 \<or> PSwd s AND PsLT \<noteq> 0) i s)
         else if n = BGE_op then Some (i, branch (PSwd s AND PsEQ \<noteq> 0 \<or> PSwd s AND PsGT \<noteq> 0) i s)
         else if n = BCR_op then Some (i, branch (PSwd s AND PsCR \<noteq> 0) i s)
         else Some (i, s))"

definition PsToString :: "u32 \<Rightarrow> string" where
  "PsToString ps = (if ps AND PsEQ \<noteq> 0 then ''EQ.'' else ''eq.'') @ (if ps AND PsLT \<noteq> 0 then ''LT.'' else ''lt.'')
     @ (if ps AND PsGT \<noteq> 0 then ''GT.'' else ''gt.'') @ (if ps AND PsCR \<noteq> 0 then ''CR'' else ''cr'')"

section \<open>The interactive emulator\<close>

text \<open>
  \<open>se_i\<close> is the instruction listed, \<open>se_exc\<close> tells the mode. The memory of the program is exactly its instructions.
\<close>

record session =
  se_emu :: emu
  se_code :: ProgramBuf
  se_i :: nat
  se_exc :: bool

text \<open>
  The editor of registers. The loop ends with a line that starts with a full stop; it needs another line otherwise, and stays where it is
  when the terminal has none.
\<close>

definition edit_line :: "int \<Rightarrow> nat \<Rightarrow> nat \<Rightarrow> string \<Rightarrow> emu \<Rightarrow> int \<times> emu" where
  "edit_line reg mn mx ln s =
     (let goto_reg = (\<lambda>trv :: u32. if trv < of_nat mx \<and> trv \<ge> of_nat mn then (uint trv, s) else (reg, s));
          value_at = (\<lambda>cp. let (val, ep) = strtoul0 cp
                           in if cp \<noteq> ep then (reg, s\<lparr>shadow := (shadow s)[nat reg := val], Regm := (Regm s)[nat reg := val]\<rparr>) else (reg, s))
      in if ln \<noteq> [] \<and> hd ln = CHR ''/''
         then let cp = tl ln; (v, ep) = strtoul0 cp
              in if cp \<noteq> ep then goto_reg (v + of_nat mn)
                 else if length ln > 1 then goto_reg (StringToReg cp) else value_at cp
         else if ln \<noteq> [] \<and> hd ln = newline then (if reg + 1 \<ge> int mx then int mn else reg + 1, s)
         else value_at ln)"

fun EditRegs :: "int \<Rightarrow> nat \<Rightarrow> nat \<Rightarrow> string list \<Rightarrow> emu \<Rightarrow> (string list \<times> emu) option" where
  "EditRegs reg mn mx lines s =
     (if reg < 0 \<or> reg \<ge> 256 then None
      else case lines of
             [] \<Rightarrow> Some ([], s)
           | ln # lines' \<Rightarrow>
               if ln \<noteq> [] \<and> hd ln = CHR ''.'' then Some (lines', s)
               else let (reg', s') = edit_line reg mn mx ln s in EditRegs reg' mn mx lines' s')"

declare EditRegs.simps [simp del]

definition EditGlobalReg :: "int \<Rightarrow> string list \<Rightarrow> emu \<Rightarrow> (string list \<times> emu) option" where
  "EditGlobalReg reg lines s = (if reg \<ge> int GREGS then Some (lines, s) else EditRegs reg 0 GREGS lines s)"

definition EditLocalReg :: "int \<Rightarrow> string list \<Rightarrow> emu \<Rightarrow> (string list \<times> emu) option" where
  "EditLocalReg reg lines s = (if reg \<ge> int REGS \<or> reg < int GREGS then Some (lines, s) else EditRegs reg GREGS REGS lines s)"

text \<open>The instruction at \<open>Pc\<close>.\<close>

definition exec_pc :: "session \<Rightarrow> session option" where
  "exec_pc t =
     (let code = se_code t; pc = unat (Pc (se_emu t) - pb_LoadAddress code)
      in if pc < length (pb_Program code)
         then case Execute (pb_Program code ! pc) (se_emu t) of
                None \<Rightarrow> None
              | Some (i, s) \<Rightarrow> Some (t\<lparr>se_emu := s\<lparr>Dfs := []\<rparr>, se_code := code\<lparr>pb_Program := (pb_Program code)[pc := i]\<rparr>\<rparr>)
         else None)"

fun exec_n :: "nat \<Rightarrow> session \<Rightarrow> session option" where
  "exec_n 0 t = Some t"
| "exec_n (Suc n) t = (case exec_pc t of None \<Rightarrow> None | Some t' \<Rightarrow> exec_n n t')"

definition in_program :: "u32 \<Rightarrow> ProgramBuf \<Rightarrow> bool" where
  "in_program pc code \<longleftrightarrow> pc \<ge> pb_LoadAddress code \<and> pc < pb_LoadAddress code + of_nat (pb_InstructionCount code)"

text \<open>One command. The result is \<open>None\<close>, or whether the emulator exits, the lines left, and the state.\<close>

definition emu_command :: "string \<Rightarrow> string list \<Rightarrow> session \<Rightarrow> (bool \<times> string list \<times> session) option" where
  "emu_command ln lines t =
     (let c = (if ln = [] then char_of (0 :: nat) else hd ln); cp = tl ln; (v, ep) = strtoul0 cp; code = se_code t;
          go = map_option (\<lambda>t'. (False, lines, t')); stay = Some (False, lines, t);
          edited = map_option (\<lambda>(lines', s). (False, lines', t\<lparr>se_emu := s\<rparr>))
      in case atom_class c of
           Bit \<Rightarrow> if \<not> se_exc t then Some (True, lines, t) else Some (False, lines, t\<lparr>se_exc := False\<rparr>)
         | Seperator \<Rightarrow>
             if c = newline
             then if \<not> se_exc t
                  then Some (False, lines, t\<lparr>se_i := if se_i t + 1 \<ge> pb_InstructionCount code then 0 else se_i t + 1\<rparr>)
                  else go (exec_pc t)
             else stay
         | Alpha \<Rightarrow>
             if c = CHR ''x'' then go (exec_n (if sint v \<le> 0 then 1 else unat v) (t\<lparr>se_exc := True\<rparr>))
             else if c = CHR ''p''
             then if in_program v code then Some (False, lines, t\<lparr>se_emu := (se_emu t)\<lparr>waitr := 0, Pc := v\<rparr>\<rparr>) else stay
             else if c = CHR ''g'' then edited (EditGlobalReg (sint v) lines (se_emu t))
             else if c = CHR ''l'' then edited (EditLocalReg (sint (v + of_nat GREGS)) lines (se_emu t))
             else stay
         | Operator \<Rightarrow>
             if c = CHR ''/'' \<and> cp \<noteq> ep \<and> in_program v code
             then Some (False, lines, t\<lparr>se_i := unat (v - pb_LoadAddress code)\<rparr>) else stay
         | _ \<Rightarrow> stay)"

lemma EditRegs_shorter: "EditRegs reg mn mx lines s = Some (lines', s') \<Longrightarrow> length lines' \<le> length lines"
proof (induction lines arbitrary: reg s)
  case Nil
  then show ?case by (auto simp: EditRegs.simps [of reg] split: if_splits)
next
  case (Cons ln lines)
  show ?case
  proof (cases "ln \<noteq> [] \<and> hd ln = CHR ''.''")
    case False
    then have "EditRegs (fst (edit_line reg mn mx ln s)) mn mx lines (snd (edit_line reg mn mx ln s)) = Some (lines', s')"
      using Cons.prems by (simp add: EditRegs.simps [of reg] split_beta split: if_splits)
    then show ?thesis using Cons.IH le_SucI by fastforce
  qed (use Cons.prems in \<open>auto simp: EditRegs.simps [of reg] split: if_splits\<close>)
qed

lemma emu_command_shorter:
  assumes "emu_command ln lines t = Some (e, lines', t')"
  shows "length lines' \<le> length lines"
proof -
  have g: "EditGlobalReg reg lines s = Some (lines', s') \<Longrightarrow> length lines' \<le> length lines" for reg s s'
    by (auto simp: EditGlobalReg_def split: if_splits dest: EditRegs_shorter)
  have l: "EditLocalReg reg lines s = Some (lines', s') \<Longrightarrow> length lines' \<le> length lines" for reg s s'
    by (auto simp: EditLocalReg_def split: if_splits dest: EditRegs_shorter)
  show ?thesis
    using assms unfolding emu_command_def
    by (cases "atom_class (if ln = [] then char_of (0 :: nat) else hd ln)")
      (auto simp: Let_def split: if_splits prod.splits dest: g l)
qed

text \<open>\<open>Emulate\<close> without its first assignments: the loop, until the exit or the end of the lines.\<close>

function emulate_loop :: "string list \<Rightarrow> session \<Rightarrow> session option" where
  "emulate_loop lines t =
     (if se_i t \<ge> length (pb_Program (se_code t)) then None
      else case lines of
             [] \<Rightarrow> Some t
           | ln # lines' \<Rightarrow>
              (case emu_command ln lines' t of
                 None \<Rightarrow> None
               | Some (True, _, t') \<Rightarrow> Some t'
               | Some (False, lines'', t') \<Rightarrow> emulate_loop lines'' t'))"
  by pat_completeness auto
termination
  by (relation "measure (length \<circ> fst)") (auto dest: emu_command_shorter)

declare emulate_loop.simps [simp del]

definition Emulate :: "ProgramBuf \<Rightarrow> emu \<Rightarrow> string list \<Rightarrow> session option" where
  "Emulate code s lines = emulate_loop lines \<lparr>se_emu = s\<lparr>Pc := pb_LoadAddress code\<rparr>, se_code = code, se_i = 0, se_exc = False\<rparr>"

end
