(* ===== verification/Mtt_Emu_Props.thy ===== *)
theory Mtt_Emu_Props
  imports Mtt_Emu
begin

text \<open>
  What the emulator keeps and does: the register file and the status word through every instruction and every command,
  programs whose register operands are registers never leave the register array, and a subtraction followed by a conditional branch
  is a comparison.
\<close>

section \<open>What one instruction can do\<close>

lemma psw_of_cases: "psw_of v = (if v = 0 then PsEQ else if sint v > 0 then PsGT else PsLT)"
proof -
  have "sint v = 0 \<longleftrightarrow> v = 0" by (rule signed_eq_0_iff)
  then show ?thesis by (auto simp: psw_of_def)
qed

inductive exec_form :: "Instruction \<Rightarrow> emu \<Rightarrow> emu \<Rightarrow> bool" where
  idle: "exec_form i s s"
| advance: "exec_form i s (next_pc s)"
| waits: "exec_form i s (wait_step i wr rd s)"
| store: "d < 256 \<Longrightarrow> exec_form i s (next_pc (set_reg d v s))"
| jump: "exec_form i s (s\<lparr>Pc := i_Src1 i\<rparr>)"

inductive_cases exec_formE: "exec_form i s s'"

lemma byte_less: "unat (b :: u8) < 256"
  using unsigned_less [of b] by (auto intro: order_less_le_trans)

lemma index_less: "sint (w :: u32) \<ge> 0 \<Longrightarrow> sint w < 256 \<Longrightarrow> unat w < 256"
  by (simp add: unat_eq_nat_uint uint_sint [of w] take_bit_int_eq_self)

lemma branch_form: "exec_form i s (branch c i s)"
  by (simp add: branch_def exec_form.intros)

lemma execute_form:
  assumes "Execute i s = Some (i', s')"
  shows "exec_form i s s' \<and> (i' = i \<or> i_Number i = WDOG_op \<and> i' = i\<lparr>i_Number := WDOG_op + 1\<rparr>)"
  using assms byte_less [of "i_Dest i"] unfolding Execute_def Let_def
  by (auto simp: reg_at_def set_reg_at_def split: if_splits option.splits intro: exec_form.intros branch_form)

section \<open>What is kept\<close>

definition emu_ok :: "emu \<Rightarrow> bool" where
  "emu_ok s \<longleftrightarrow> length (Regm s) = REGS \<and> length (shadow s) = REGS \<and> PSwd s \<in> {0, PsEQ, PsLT, PsGT}"

lemma ShowDiffs_fields [simp]:
  "Regm (ShowDiffs s) = Regm s" "PSwd (ShowDiffs s) = PSwd s" "Pc (ShowDiffs s) = Pc s" "shadow (ShowDiffs s) = Regm s"
  "waiting (ShowDiffs s) = waiting s" "waitr (ShowDiffs s) = waitr s"
  by (simp_all add: ShowDiffs_def Let_def)

lemma step_fields [simp]:
  "Regm (next_pc s) = Regm s" "PSwd (next_pc s) = PSwd s" "Pc (next_pc s) = Pc s + 1" "shadow (next_pc s) = shadow s"
  "Regm (set_reg d v s) = (Regm s)[d := v]" "PSwd (set_reg d v s) = psw_of v" "Pc (set_reg d v s) = Pc s"
  "shadow (set_reg d v s) = (Regm s)[d := v]"
  by (simp_all add: next_pc_def set_reg_def SetPSwd_def)

lemma wait_fields [simp]:
  "Regm (wait_step i wr rd s) = Regm s" "PSwd (wait_step i wr rd s) = PSwd s" "shadow (wait_step i wr rd s) = Regm s"
  "Pc (wait_step i wr rd s) = (if rd (src2_reg i s) (if waiting s then waitr s else wr) then Pc s + 1 else Pc s)"
  by (simp_all add: wait_step_def src2_reg_def Let_def)

text \<open>One step keeps the register file, changes at most one register, and moves \<open>Pc\<close> to the next instruction, to the target, or not.\<close>

lemma exec_form_ok:
  assumes "exec_form i s s'" and "emu_ok s"
  shows "emu_ok s'" "\<exists>d v. Regm s' = Regm s \<or> d < 256 \<and> Regm s' = (Regm s)[d := v]" "Pc s' \<in> {Pc s, Pc s + 1, i_Src1 i}"
  using assms by (cases; auto simp: emu_ok_def psw_of_cases)+

lemma execute_ok:
  assumes "Execute i s = Some (i', s')" and "emu_ok s"
  shows "emu_ok s'"
  using exec_form_ok(1) execute_form [OF assms(1)] assms(2) by blast

text \<open>The program of a session is the one that was loaded, but for watchdog instructions that have run.\<close>

definition same_program :: "ProgramBuf \<Rightarrow> ProgramBuf \<Rightarrow> bool" where
  "same_program c c' \<longleftrightarrow> pb_LoadAddress c' = pb_LoadAddress c \<and> pb_InstructionCount c' = pb_InstructionCount c
     \<and> list_all2 (\<lambda>i i'. i' = i \<or> i_Number i = WDOG_op \<and> i' = i\<lparr>i_Number := WDOG_op + 1\<rparr>) (pb_Program c) (pb_Program c')"

text \<open>What the reader of object files gives: as many instructions as the header says, at addresses that do not wrap around.\<close>

definition loadable :: "ProgramBuf \<Rightarrow> bool" where
  "loadable c \<longleftrightarrow> pb_Program c \<noteq> [] \<and> pb_InstructionCount c = length (pb_Program c)
     \<and> unat (pb_LoadAddress c) + length (pb_Program c) < 2 ^ 32"

definition session_ok :: "ProgramBuf \<Rightarrow> session \<Rightarrow> bool" where
  "session_ok c t \<longleftrightarrow> emu_ok (se_emu t) \<and> same_program c (se_code t) \<and> se_i t < length (pb_Program c)"

lemma same_program_length: "same_program c c' \<Longrightarrow> length (pb_Program c') = length (pb_Program c)"
  by (auto simp: same_program_def dest: list_all2_lengthD)

text \<open>The addresses the commands accept are those of the instructions.\<close>

lemma in_program_index:
  assumes "loadable c" and "same_program c c'" and "in_program v c'"
  shows "unat (v - pb_LoadAddress c') < length (pb_Program c)"
proof -
  have c': "pb_LoadAddress c' = pb_LoadAddress c" "pb_InstructionCount c' = length (pb_Program c)"
    using assms(1,2) by (simp_all add: same_program_def loadable_def)
  have fits: "length (pb_Program c) < 2 ^ 32" and top: "unat (pb_LoadAddress c) + length (pb_Program c) < 2 ^ LENGTH(32)"
    using assms(1) by (simp_all add: loadable_def)
  have "unat (of_nat (length (pb_Program c)) :: u32) = length (pb_Program c)" using fits by (simp add: unat_of_nat take_bit_nat_eq_self)
  then have "unat (pb_LoadAddress c + of_nat (length (pb_Program c))) = unat (pb_LoadAddress c) + length (pb_Program c)"
    using top unat_add_lem [of "pb_LoadAddress c" "of_nat (length (pb_Program c))"] by simp
  moreover have "pb_LoadAddress c \<le> v" "v < pb_LoadAddress c + of_nat (length (pb_Program c))"
    using assms(3) c' by (simp_all add: in_program_def)
  ultimately show ?thesis
    using c' by (simp add: unat_sub word_less_nat_alt word_le_nat_alt)
qed

lemma exec_pc_ok:
  assumes "session_ok c t" and "exec_pc t = Some t'"
  shows "session_ok c t'"
proof -
  let ?pc = "unat (Pc (se_emu t) - pb_LoadAddress (se_code t))" and ?prog = "pb_Program (se_code t)"
  obtain i s where run: "?pc < length ?prog" "Execute (?prog ! ?pc) (se_emu t) = Some (i, s)"
    and t': "t' = t\<lparr>se_emu := s\<lparr>Dfs := []\<rparr>, se_code := (se_code t)\<lparr>pb_Program := ?prog[?pc := i]\<rparr>\<rparr>"
    using assms(2) by (auto simp: exec_pc_def Let_def split: if_splits option.splits)
  have "emu_ok s" using execute_ok [OF run(2)] assms(1) by (simp add: session_ok_def)
  moreover have "same_program c (se_code t')"
    using execute_form [OF run(2)] assms(1) run(1)
    by (auto simp: session_ok_def same_program_def t' list_all2_conv_all_nth nth_list_update)
  ultimately show ?thesis using assms(1) by (simp add: session_ok_def t' emu_ok_def)
qed

lemma exec_n_ok: "session_ok c t \<Longrightarrow> exec_n n t = Some t' \<Longrightarrow> session_ok c t'"
  by (induction n arbitrary: t) (auto split: option.splits dest: exec_pc_ok)

lemma EditRegs_ok: "emu_ok s \<Longrightarrow> EditRegs reg mn mx lines s = Some (lines', s') \<Longrightarrow> emu_ok s'"
proof (induction lines arbitrary: reg s)
  case (Cons ln lines)
  have "emu_ok (snd (edit_line reg mn mx ln s))"
    using Cons.prems(1) by (auto simp: edit_line_def Let_def emu_ok_def split_beta)
  then show ?case
    using Cons by (auto simp: EditRegs.simps [of reg] split_beta split: if_splits)
qed (auto simp: EditRegs.simps [where lines = "[]"] split: if_splits)

lemma emu_command_ok:
  assumes "loadable c" and "session_ok c t" and "emu_command ln lines t = Some (e, lines', t')"
  shows "session_ok c t'"
proof -
  have upd: "session_ok c (t\<lparr>se_exc := b\<rparr>)" "session_ok c (t\<lparr>se_emu := (se_emu t)\<lparr>waitr := 0, Pc := v\<rparr>\<rparr>)" for b v
    using assms(2) by (simp_all add: session_ok_def emu_ok_def)
  have edit: "session_ok c (t\<lparr>se_emu := s\<rparr>)" if "emu_ok s" for s using that assms(2) by (simp add: session_ok_def)
  have g: "EditGlobalReg reg lines (se_emu t) = Some (ls, s) \<Longrightarrow> session_ok c (t\<lparr>se_emu := s\<rparr>)" for reg ls s
    using assms(2) edit EditRegs_ok by (auto simp: EditGlobalReg_def session_ok_def split: if_splits)
  have l: "EditLocalReg reg lines (se_emu t) = Some (ls, s) \<Longrightarrow> session_ok c (t\<lparr>se_emu := s\<rparr>)" for reg ls s
    using assms(2) edit EditRegs_ok by (auto simp: EditLocalReg_def session_ok_def split: if_splits)
  have count: "pb_InstructionCount (se_code t) = length (pb_Program c)"
    using assms(1,2) by (simp add: session_ok_def same_program_def loadable_def)
  have advance: "session_ok c (t\<lparr>se_i := Suc (se_i t)\<rparr>)" if "\<not> pb_InstructionCount (se_code t) \<le> Suc (se_i t)"
    using that assms(2) count by (simp add: session_ok_def)
  have first: "session_ok c (t\<lparr>se_i := 0\<rparr>)" using assms(1,2) by (simp add: session_ok_def loadable_def)
  have jump: "session_ok c (t\<lparr>se_i := unat (v - pb_LoadAddress (se_code t))\<rparr>)" if "in_program v (se_code t)" for v
    using in_program_index [OF assms(1) _ that] assms(2) by (simp add: session_ok_def)
  show ?thesis
    using assms(3) upd g l advance first jump exec_pc_ok [OF assms(2)] exec_n_ok [OF upd(1)] assms(2) unfolding emu_command_def
    by (cases "atom_class (if ln = [] then char_of (0 :: nat) else hd ln)")
      (auto simp: Let_def simp del: exec_n.simps split: if_splits prod.splits)
qed

text \<open>
  The sessions the commands lead to, and the lines left: what is listed has no part in it, so that a position outside the program would show.
\<close>

inductive session_run :: "string list \<Rightarrow> session \<Rightarrow> string list \<Rightarrow> session \<Rightarrow> bool" where
  here: "session_run ls t ls t"
| command: "emu_command ln ls t = Some (False, ls', t') \<Longrightarrow> session_run ls' t' ls'' u \<Longrightarrow> session_run (ln # ls) t ls'' u"

inductive_simps session_run_Nil: "session_run [] t ls u"
inductive_simps session_run_Cons: "session_run (ln # ls) t ls' u"

lemma session_run_ok: "session_run ls t ls' u \<Longrightarrow> loadable c \<Longrightarrow> session_ok c t \<Longrightarrow> session_ok c u"
  by (induction rule: session_run.induct) (auto dest: emu_command_ok)

lemma session_ok_listed: "session_ok c t \<Longrightarrow> se_i t < length (pb_Program (se_code t))"
  using same_program_length by (fastforce simp: session_ok_def)

lemma exit_keeps_session:
  assumes "emu_command ln lines t = Some (True, lines', t')"
  shows "t' = t" "lines' = lines"
  using assms unfolding emu_command_def
  by (cases "atom_class (if ln = [] then char_of (0 :: nat) else hd ln)"; auto simp: Let_def split: if_splits prod.splits)+

text \<open>The loop ends without a result only at a command that does, and otherwise with a session the commands lead to.\<close>

lemma emulate_loop_fails:
  assumes "loadable c" and "session_ok c t"
  shows "emulate_loop lines t = None \<longleftrightarrow> (\<exists>ln ls u. session_run lines t (ln # ls) u \<and> emu_command ln ls u = None)"
  using assms(2)
proof (induction lines t rule: emulate_loop.induct)
  case (1 lines t)
  note pos = session_ok_listed [OF "1.prems"]
  show ?case
  proof (cases lines)
    case (Cons ln ls)
    show ?thesis
    proof (cases "emu_command ln ls t")
      case (Some r)
      obtain e ls' t' where r: "r = (e, ls', t')" by (cases r)
      have ok: "session_ok c t'" using emu_command_ok [OF assms(1) "1.prems"] Some r by simp
      show ?thesis
      proof (cases e)
        case False
        have run: "emulate_loop lines t = emulate_loop ls' t'"
          using pos Cons Some r False by (simp add: emulate_loop.simps [of "ln # ls"])
        have "emulate_loop ls' t' = None \<longleftrightarrow> (\<exists>ln ls u. session_run ls' t' (ln # ls) u \<and> emu_command ln ls u = None)"
          using "1.IH" [of ln ls] pos Cons Some r False ok by simp
        then show ?thesis using run Cons Some r False by (auto simp: session_run_Cons)
      qed (use pos Cons Some r in \<open>auto simp: emulate_loop.simps [of "ln # ls"] session_run_Cons\<close>)
    qed (use pos Cons in \<open>auto simp: emulate_loop.simps [of "ln # ls"] intro: here\<close>)
  qed (use pos in \<open>simp add: emulate_loop.simps [of "[]"] session_run_Nil\<close>)
qed

lemma emulate_loop_ends:
  assumes "loadable c" and "session_ok c t" and "emulate_loop lines t = Some v"
  shows "\<exists>ls. session_run lines t ls v"
  using assms(2,3)
proof (induction lines t rule: emulate_loop.induct)
  case (1 lines t)
  note pos = session_ok_listed [OF "1.prems"(1)]
  show ?case
  proof (cases lines)
    case (Cons ln ls)
    then obtain e ls' t' where cmd: "emu_command ln ls t = Some (e, ls', t')"
      using "1.prems"(2) pos by (auto simp: emulate_loop.simps [of "ln # ls"] split: option.splits)
    show ?thesis
    proof (cases e)
      case False
      then have "emulate_loop ls' t' = Some v" using "1.prems"(2) cmd pos Cons by (simp add: emulate_loop.simps [of "ln # ls"])
      then have "\<exists>ls''. session_run ls' t' ls'' v"
        using "1.IH" [of ln ls] pos Cons cmd False emu_command_ok [OF assms(1) "1.prems"(1)] by auto
      then show ?thesis using cmd False Cons by (auto simp: session_run_Cons)
    next
      case True
      then have "t' = v" using "1.prems"(2) cmd pos Cons by (simp add: emulate_loop.simps [of "ln # ls"])
      then show ?thesis using exit_keeps_session(1) [of ln ls t ls' t'] cmd True here by auto
    qed
  qed (use pos "1.prems"(2) in \<open>auto simp: emulate_loop.simps [of "[]"] intro: here\<close>)
qed

section \<open>Instructions with proper operands\<close>

text \<open>The instruction set says which instructions have a register in \<open>Src1\<close>.\<close>

definition src1_is_reg :: "u8 \<Rightarrow> bool" where
  "src1_is_reg n = (case find_opcode n InstructionSet of Some oc \<Rightarrow> oc_Src1 oc = AtRegister | None \<Rightarrow> False)"

definition typed_inst :: "Instruction \<Rightarrow> bool" where
  "typed_inst i \<longleftrightarrow> (src1_is_reg (i_Number i) \<longrightarrow> unat (i_Src1 i) < REGS)"

text \<open>A shift is by less than the width.\<close>

definition shift_defined :: "Instruction \<Rightarrow> emu \<Rightarrow> bool" where
  "shift_defined i s \<longleftrightarrow> (i_Number i \<in> {LSV_op, RSV_op} \<longrightarrow> unat (i_Src1 i) < 32)
     \<and> (i_Number i \<in> {LSR_op, RSR_op} \<longrightarrow> unat (Regm s ! unat (i_Src1 i)) < 32)"

lemma register_sources:
  "list_all src1_is_reg [WEQR_op, WRLR_op, WORR_op, MOVR_op, ADDR_op, SUBR_op, LORR_op, ANDR_op, XORR_op, LSR_op, RSR_op]"
  by code_simp

lemma alu_defined:
  assumes "is_alu_r n \<or> is_alu_v n"
  shows "alu n b a = None \<longleftrightarrow> n \<in> {LSR_op, RSR_op, LSV_op, RSV_op} \<and> \<not> unat a < 32"
  using assms by (auto simp: is_alu_r_def is_alu_v_def alu_def)

lemma index_in_range:
  assumes "sint irg \<ge> 0" and "sint irg < 256"
  shows "reg_at irg s = Some (Regm s ! unat irg)" "set_reg_at irg v s = Some (set_reg (unat irg) v s)"
  using index_less [OF assms] by (simp_all add: reg_at_def set_reg_at_def)

lemma alu_kinds:
  "is_alu_r n \<Longrightarrow> n \<noteq> LSV_op \<and> n \<noteq> RSV_op" "is_alu_v n \<Longrightarrow> n \<noteq> LSR_op \<and> n \<noteq> RSR_op"
  by (auto simp: is_alu_r_def is_alu_v_def)

lemma execute_alu:
  "is_alu_r (i_Number i) \<Longrightarrow> Execute i s = map_option (Pair i) (case src1_reg i s of None \<Rightarrow> None
     | Some a \<Rightarrow> map_option (\<lambda>v. next_pc (set_reg (unat (i_Dest i)) v s)) (alu (i_Number i) (src2_reg i s) a))"
  "is_alu_v (i_Number i) \<Longrightarrow> Execute i s = map_option (Pair i)
     (map_option (\<lambda>v. next_pc (set_reg (unat (i_Dest i)) v s)) (alu (i_Number i) (src2_reg i s) (i_Src1 i)))"
  unfolding is_alu_r_def is_alu_v_def insert_iff empty_iff
  by (elim disjE; simp add: Execute_def is_alu_r_def is_alu_v_def cong: option.case_cong)+

text \<open>With proper operands the only instruction without a result is a shift by 32 or more.\<close>

lemma execute_defined:
  assumes "typed_inst i"
  shows "Execute i s = None \<longleftrightarrow> \<not> shift_defined i s"
proof -
  have src1: "src1_reg i s = Some (Regm s ! unat (i_Src1 i))"
    if "i_Number i \<in> {WEQR_op, WRLR_op, WORR_op, MOVR_op} \<or> is_alu_r (i_Number i)"
    using that assms register_sources by (auto simp: typed_inst_def src1_reg_def is_alu_r_def)
  consider (r) "is_alu_r (i_Number i)" | (v) "is_alu_v (i_Number i)" | (other) "\<not> is_alu_r (i_Number i)" "\<not> is_alu_v (i_Number i)"
    by blast
  then show ?thesis
  proof cases
    case r
    then have "Execute i s = map_option (Pair i) (map_option (\<lambda>v. next_pc (set_reg (unat (i_Dest i)) v s))
        (alu (i_Number i) (src2_reg i s) (Regm s ! unat (i_Src1 i))))"
      using execute_alu(1) src1 by simp
    then show ?thesis using r alu_kinds(1) [OF r] by (auto simp: alu_defined shift_defined_def)
  next
    case v
    then have "Execute i s = map_option (Pair i) (map_option (\<lambda>v. next_pc (set_reg (unat (i_Dest i)) v s))
        (alu (i_Number i) (src2_reg i s) (i_Src1 i)))"
      by (rule execute_alu(2))
    then show ?thesis using v alu_kinds(2) [OF v] by (auto simp: alu_defined shift_defined_def)
  next
    case other
    then have "shift_defined i s" by (auto simp: shift_defined_def is_alu_r_def is_alu_v_def)
    moreover have "Execute i s \<noteq> None"
      using other src1 unfolding Execute_def Let_def by (auto simp: index_in_range split: if_splits)
    ultimately show ?thesis by simp
  qed
qed

definition typed_program :: "ProgramBuf \<Rightarrow> bool" where
  "typed_program c = list_all typed_inst (pb_Program c)"

lemma typed_same_program:
  assumes "same_program c c'" and "typed_program c"
  shows "typed_program c'"
proof -
  have "\<not> src1_is_reg (WDOG_op + 1)" by code_simp
  then have "typed_inst i \<Longrightarrow> typed_inst (i\<lparr>i_Number := WDOG_op + 1\<rparr>)" for i by (simp add: typed_inst_def)
  then show ?thesis
    using assms unfolding same_program_def typed_program_def by (auto simp: list_all_length list_all2_conv_all_nth)
qed

text \<open>Where execution ends: \<open>Pc\<close> outside the program, or a shift by 32 or more.\<close>

definition pc_index :: "session \<Rightarrow> nat" where
  "pc_index t = unat (Pc (se_emu t) - pb_LoadAddress (se_code t))"

definition execution_ends :: "session \<Rightarrow> bool" where
  "execution_ends t \<longleftrightarrow> \<not> pc_index t < length (pb_Program (se_code t))
     \<or> \<not> shift_defined (pb_Program (se_code t) ! pc_index t) (se_emu t)"

lemma exec_pc_defined: "typed_program (se_code t) \<Longrightarrow> exec_pc t = None \<longleftrightarrow> execution_ends t"
  using execute_defined [of "pb_Program (se_code t) ! pc_index t" "se_emu t"]
  by (auto simp: exec_pc_def execution_ends_def pc_index_def typed_program_def list_all_length Let_def split: option.splits)

text \<open>One step changes at most one register, and moves \<open>Pc\<close> to the next instruction, to the target, or not.\<close>

lemma exec_pc_moves:
  assumes "session_ok c t" and "exec_pc t = Some t'"
  shows "\<exists>d v. Regm (se_emu t') = Regm (se_emu t) \<or> d < 256 \<and> Regm (se_emu t') = (Regm (se_emu t))[d := v]"
    and "Pc (se_emu t') \<in> {Pc (se_emu t), Pc (se_emu t) + 1, i_Src1 (pb_Program (se_code t) ! pc_index t)}"
proof -
  obtain i s where run: "Execute (pb_Program (se_code t) ! pc_index t) (se_emu t) = Some (i, s)" and t': "se_emu t' = s\<lparr>Dfs := []\<rparr>"
    using assms(2) by (auto simp: exec_pc_def pc_index_def Let_def split: if_splits option.splits)
  have ok: "emu_ok (se_emu t)" using assms(1) by (simp add: session_ok_def)
  note form = exec_form_ok(2,3) [OF execute_form [OF run, THEN conjunct1] ok]
  show "\<exists>d v. Regm (se_emu t') = Regm (se_emu t) \<or> d < 256 \<and> Regm (se_emu t') = (Regm (se_emu t))[d := v]"
    using form(1) by (simp add: t')
  show "Pc (se_emu t') \<in> {Pc (se_emu t), Pc (se_emu t) + 1, i_Src1 (pb_Program (se_code t) ! pc_index t)}"
    using form(2) by (simp add: t')
qed

lemma exec_n_snoc: "exec_n (Suc n) t = (case exec_n n t of None \<Rightarrow> None | Some u \<Rightarrow> exec_pc u)"
proof (induction n arbitrary: t)
  case (Suc n)
  show ?case by (cases "exec_pc t") (use Suc in \<open>simp_all split: option.splits\<close>)
qed (simp split: option.splits)

lemma exec_n_ends:
  assumes "session_ok c t" and "typed_program c"
  shows "exec_n n t = None \<longleftrightarrow> (\<exists>k<n. \<exists>u. exec_n k t = Some u \<and> execution_ends u)"
proof (induction n)
  case (Suc n)
  show ?case
  proof (cases "exec_n n t")
    case (Some u)
    have "typed_program (se_code u)" using exec_n_ok [OF assms(1) Some] typed_same_program [OF _ assms(2)] by (simp add: session_ok_def)
    then show ?thesis
      using Suc Some exec_pc_defined by (auto simp: exec_n_snoc less_Suc_eq simp del: exec_n.simps)
  qed (use Suc in \<open>auto simp: exec_n_snoc less_Suc_eq simp del: exec_n.simps\<close>)
qed simp

section \<open>Properties\<close>

text \<open>
  C14: a program in which every operand that the instruction set declares a register is one never takes the emulator
  outside its 256 registers, however the index register is set: running it for \<open>n\<close> instructions from a session whose
  registers and list position are in order stops before the end exactly when \<open>Pc\<close> has left the program or the next instruction shifts by 32 or more, and
  what it has run until then keeps 256 registers, a status word with at most one flag, and the operands' types; the next instruction changes
  at most one register, and leaves \<open>Pc\<close>, moves it on, or sets it to its target.
\<close>

theorem typed_programs_execute:
  assumes "session_ok c t" and "typed_program c"
  shows "(exec_n n t = None \<longleftrightarrow> (\<exists>k<n. \<exists>u. exec_n k t = Some u \<and> execution_ends u))
    \<and> (\<forall>u. exec_n n t = Some u \<longrightarrow> emu_ok (se_emu u) \<and> typed_program (se_code u)
        \<and> (\<forall>v. exec_pc u = Some v \<longrightarrow>
             (\<exists>d x. Regm (se_emu v) = Regm (se_emu u) \<or> d < 256 \<and> Regm (se_emu v) = (Regm (se_emu u))[d := x])
             \<and> Pc (se_emu v) \<in> {Pc (se_emu u), Pc (se_emu u) + 1, i_Src1 (pb_Program (se_code u) ! pc_index u)}))"
proof (intro conjI allI impI)
  fix u assume "exec_n n t = Some u"
  then have ok: "session_ok c u" using exec_n_ok assms(1) by blast
  then show "emu_ok (se_emu u)" "typed_program (se_code u)" using typed_same_program [OF _ assms(2)] by (simp_all add: session_ok_def)
  fix v assume "exec_pc u = Some v"
  note moves = exec_pc_moves [OF ok this]
  show "\<exists>d x. Regm (se_emu v) = Regm (se_emu u) \<or> d < 256 \<and> Regm (se_emu v) = (Regm (se_emu u))[d := x]" by (rule moves(1))
  show "Pc (se_emu v) \<in> {Pc (se_emu u), Pc (se_emu u) + 1, i_Src1 (pb_Program (se_code u) ! pc_index u)}" by (rule moves(2))
qed (rule exec_n_ends [OF assms])

text \<open>
  C15: take a program with as many instructions as it says, at least one, at addresses that do not wrap around, and any lines typed. In every
  session the commands lead to, the register file has 256 registers, the instruction listed is one of the program, the carry flag is not set, so
  that a branch on carry is never taken, and the program is the one that was loaded but for watchdog instructions that have run. \<open>Emulate\<close> fails to
  end, or to reach the end of the lines, only in a command that fails, never for the instruction it lists; otherwise it ends in one of these sessions.
\<close>

theorem emulator_invariant:
  assumes "emu_ok s" and "loadable code"
  defines "start \<equiv> \<lparr>se_emu = s\<lparr>Pc := pb_LoadAddress code\<rparr>, se_code = code, se_i = 0, se_exc = False\<rparr>"
  shows "(\<forall>ls t. session_run lines start ls t \<longrightarrow>
        emu_ok (se_emu t) \<and> same_program code (se_code t) \<and> se_i t < length (pb_Program (se_code t)) \<and> PSwd (se_emu t) AND PsCR = 0
        \<and> (\<forall>i. i_Number i = BCR_op \<longrightarrow> Execute i (se_emu t) = Some (i, next_pc (se_emu t))))
    \<and> (Emulate code s lines = None \<longleftrightarrow> (\<exists>ln ls t. session_run lines start (ln # ls) t \<and> emu_command ln ls t = None))
    \<and> (\<forall>t. Emulate code s lines = Some t \<longrightarrow> (\<exists>ls. session_run lines start ls t))"
proof (intro conjI)
  have ok: "session_ok code start"
    using assms(1,2) by (simp add: session_ok_def emu_ok_def same_program_def list_all2_same start_def loadable_def)
  have cr: "PSwd e AND PsCR = 0" if "emu_ok e" for e using that by (auto simp: emu_ok_def)
  then have bcr: "Execute i e = Some (i, next_pc e)" if "emu_ok e" "i_Number i = BCR_op" for i e
    using that by (simp add: Execute_def is_alu_r_def is_alu_v_def branch_def)
  show "\<forall>ls t. session_run lines start ls t \<longrightarrow>
        emu_ok (se_emu t) \<and> same_program code (se_code t) \<and> se_i t < length (pb_Program (se_code t)) \<and> PSwd (se_emu t) AND PsCR = 0
        \<and> (\<forall>i. i_Number i = BCR_op \<longrightarrow> Execute i (se_emu t) = Some (i, next_pc (se_emu t)))"
    using session_run_ok [OF _ assms(2) ok] session_ok_listed cr bcr by (fastforce simp: session_ok_def)
  show "Emulate code s lines = None \<longleftrightarrow> (\<exists>ln ls t. session_run lines start (ln # ls) t \<and> emu_command ln ls t = None)"
    using emulate_loop_fails [OF assms(2) ok] by (simp add: Emulate_def start_def)
  show "\<forall>t. Emulate code s lines = Some t \<longrightarrow> (\<exists>ls. session_run lines start ls t)"
    using emulate_loop_ends [OF assms(2) ok] by (simp add: Emulate_def start_def)
qed

text \<open>When the branch after a comparison of \<open>b\<close> with \<open>a\<close> is to be taken.\<close>

definition branch_taken :: "u8 \<Rightarrow> u32 \<Rightarrow> u32 \<Rightarrow> bool" where
  "branch_taken n b a =
     (if n = BEQ_op then b = a else if n = BNE_op then b \<noteq> a else if n = BLT_op then sint b < sint a
      else if n = BGT_op then sint b > sint a else if n = BLE_op then sint b \<le> sint a else sint b \<ge> sint a)"

lemma sint_diff:
  assumes "- (2 ^ 31) \<le> sint (b :: u32) - sint (a :: u32)" and "sint b - sint a < 2 ^ 31"
  shows "sint (b - a) = sint b - sint a"
  using assms by (simp add: sint_word_ariths signed_take_bit_int_eq_self)

text \<open>
  Subtracting and branching is comparing. After \<open>SUBR\<close> with any destination, if the difference of the signed values does not
  overflow, each of the six conditional branches is taken exactly when its relation holds between the signed value of the second and that of the
  first source; otherwise execution goes on with the next instruction.
\<close>

lemma compare_and_branch:
  assumes "i_Number i = SUBR_op" and "unat (i_Src1 i) < 256" and "emu_ok s"
    and "i_Number j \<in> {BEQ_op, BNE_op, BLT_op, BGT_op, BLE_op, BGE_op}"
  defines "a \<equiv> Regm s ! unat (i_Src1 i)" and "b \<equiv> Regm s ! unat (i_Src2 i)"
  assumes "- (2 ^ 31) \<le> sint b - sint a" and "sint b - sint a < 2 ^ 31"
  shows "\<exists>s' t. Execute i s = Some (i, s') \<and> Execute j s' = Some (j, t) \<and> Regm t = (Regm s)[unat (i_Dest i) := b - a]
    \<and> Pc t = (if branch_taken (i_Number j) b a then i_Src1 j else Pc s + 2)"
proof -
  let ?s = "next_pc (set_reg (unat (i_Dest i)) (b - a) s)"
  have run: "Execute i s = Some (i, ?s)"
    using assms(1,2) by (simp add: Execute_def is_alu_r_def is_alu_v_def alu_def src1_reg_def src2_reg_def a_def b_def)
  have psw: "PSwd ?s = (if b = a then PsEQ else if sint b > sint a then PsGT else PsLT)"
    using sint_diff [OF assms(7,8)] by (simp add: psw_of_cases)
  have "sint b = sint a \<longleftrightarrow> b = a" by (rule word_eq_iff_signed [symmetric])
  then have "Execute j ?s = Some (j, branch (branch_taken (i_Number j) b a) j ?s)"
    using assms(4) psw by (auto simp: Execute_def is_alu_r_def is_alu_v_def branch_taken_def simp del: step_fields)
  then show ?thesis using run by (auto simp: branch_def)
qed

text \<open>
  A watchdog instruction runs once. Executing it changes its number to one the emulator does not know, and when the
  program counter comes back to it nothing happens any more: any number of further steps leaves the session as it is.
\<close>

lemma watchdog_stops_emulation:
  assumes "pc < length (pb_Program (se_code t))" and "i_Number (pb_Program (se_code t) ! pc) = WDOG_op"
    and "Pc (se_emu t) = pb_LoadAddress (se_code t) + of_nat pc" and "pc < 2 ^ 32"
  shows "\<exists>t'. exec_pc t = Some t' \<and> Pc (se_emu t') = Pc (se_emu t) + 1
    \<and> (\<forall>u n. se_code u = se_code t' \<and> Pc (se_emu u) = Pc (se_emu t) \<and> Dfs (se_emu u) = [] \<longrightarrow> exec_n n u = Some u)"
proof -
  let ?i = "(pb_Program (se_code t) ! pc)\<lparr>i_Number := WDOG_op + 1\<rparr>"
  let ?t = "t\<lparr>se_emu := (next_pc (se_emu t))\<lparr>Dfs := []\<rparr>, se_code := (se_code t)\<lparr>pb_Program := (pb_Program (se_code t))[pc := ?i]\<rparr>\<rparr>"
  have at: "unat (Pc (se_emu t) - pb_LoadAddress (se_code t)) = pc"
    using assms(3,4) by (simp add: unat_of_nat take_bit_nat_eq_self)
  have "Execute (pb_Program (se_code t) ! pc) (se_emu t) = Some (?i, next_pc (se_emu t))"
    using assms(2) by (simp add: Execute_def is_alu_r_def is_alu_v_def)
  then have run: "exec_pc t = Some ?t" using at assms(1) by (simp add: exec_pc_def Let_def)
  have again: "exec_n n u = Some u" if u: "se_code u = se_code ?t" "Pc (se_emu u) = Pc (se_emu t)" "Dfs (se_emu u) = []" for u n
  proof (induction n)
    case (Suc n)
    have prog: "pb_Program (se_code u) ! pc = ?i" "pc < length (pb_Program (se_code u))" using u(1) assms(1) by simp_all
    have "unat (Pc (se_emu u) - pb_LoadAddress (se_code u)) = pc" using at u(1,2) by simp
    moreover have "Execute ?i (se_emu u) = Some (?i, se_emu u)" by (simp add: Execute_def is_alu_r_def is_alu_v_def)
    moreover have "(se_emu u)\<lparr>Dfs := []\<rparr> = se_emu u" using u(3) by simp
    moreover have "(pb_Program (se_code u))[pc := ?i] = pb_Program (se_code u)" using prog(1) list_update_id by metis
    ultimately have "exec_pc u = Some u" using prog by (simp add: exec_pc_def Let_def)
    then show ?case using Suc by simp
  qed simp
  have "Pc (se_emu ?t) = Pc (se_emu t) + 1" by simp
  then show ?thesis using run again by blast
qed

text \<open>
  The store through the index register does not use its source operand: \<open>MOVRI\<close> stores the register in the destination field, which
  the instruction set leaves empty, so that assembled code always stores register 0.
\<close>

lemma index_store_ignores_source:
  assumes "i_Number i = MOVRI_op" and "Execute i s = Some (i, s')"
  shows "Execute (i\<lparr>i_Src1 := v\<rparr>) s = Some (i\<lparr>i_Src1 := v\<rparr>, s')"
  using assms by (auto simp: Execute_def is_alu_r_def is_alu_v_def set_reg_at_def Let_def split: if_splits)

section \<open>Witnesses\<close>

definition demo_emu :: emu where
  "demo_emu = \<lparr>Regm = replicate 256 0, shadow = replicate 256 0, PSwd = 0, Pc = 0x10, waiting = False, waitr = 0, regwa = 0, Dfs = []\<rparr>"

lemma demo_emu_ok: "emu_ok demo_emu"
  by (simp add: emu_ok_def demo_emu_def)

definition demo_sub :: Instruction where
  "demo_sub = \<lparr>i_Dest = 2, i_Src2 = 1, i_Number = SUBR_op, i_Crc = 0, i_Src1 = 0\<rparr>"

definition demo_branch :: Instruction where
  "demo_branch = \<lparr>i_Dest = 0, i_Src2 = 0, i_Number = BLT_op, i_Crc = 0, i_Src1 = 0x40\<rparr>"

definition demo_wdog :: ProgramBuf where
  "demo_wdog = \<lparr>pb_LoadAddress = 0x10, pb_InstructionCount = 1, pb_Program = [demo_sub\<lparr>i_Number := WDOG_op\<rparr>]\<rparr>"

definition demo_index :: ProgramBuf where
  "demo_index = \<lparr>pb_LoadAddress = 0x10, pb_InstructionCount = 2, pb_Program = [demo_sub\<lparr>i_Number := MOVIR_op\<rparr>, demo_sub\<lparr>i_Number := MOVRI_op\<rparr>]\<rparr>"

text \<open>Two moves through an index register that holds 1000 run without a register of that number; then \<open>Pc\<close> has left the program.\<close>

theorem typed_programs_execute_witness:
  "exec_n 2 \<lparr>se_emu = demo_emu\<lparr>Regm := (replicate 256 0)[224 := 1000]\<rparr>, se_code = demo_index, se_i = 0, se_exc = True\<rparr> \<noteq> None"
proof -
  let ?t = "\<lparr>se_emu = demo_emu\<lparr>Regm := (replicate 256 0)[224 := 1000]\<rparr>, se_code = demo_index, se_i = 0, se_exc = True\<rparr>"
  have "session_ok demo_index ?t"
    by (simp add: session_ok_def emu_ok_def demo_emu_def same_program_def demo_index_def)
  moreover have "typed_program demo_index" by (simp add: typed_program_def typed_inst_def demo_index_def demo_sub_def)
  ultimately have iff: "exec_n 2 ?t = None \<longleftrightarrow> (\<exists>k<2. \<exists>u. exec_n k ?t = Some u \<and> execution_ends u)"
    using typed_programs_execute [of demo_index ?t 2] by blast
  have "exec_n 1 ?t = exec_pc ?t" by (simp split: option.splits)
  then have "k < 2 \<Longrightarrow> exec_n k ?t = Some u \<Longrightarrow> \<not> execution_ends u" for k u
    by (auto simp: less_2_cases_iff execution_ends_def pc_index_def shift_defined_def demo_index_def demo_sub_def demo_emu_def
        exec_pc_def Execute_def is_alu_r_def is_alu_v_def simp del: exec_n.simps(2))
  then show ?thesis using iff by blast
qed

theorem emulator_invariant_witness:
  "\<exists>t. Emulate demo_program demo_emu [[newline], ''.'' @ [newline]] = Some t
    \<and> (\<exists>ls. session_run [[newline], ''.'' @ [newline]] \<lparr>se_emu = demo_emu, se_code = demo_program, se_i = 0, se_exc = False\<rparr> ls t)"
proof -
  let ?x = "Emulate demo_program demo_emu [[newline], ''.'' @ [newline]]"
  have "atom_class (CHR ''.'') = Bit" "atom_class newline = Seperator" by code_simp+
  then have "?x \<noteq> None"
    by (simp add: Emulate_def emulate_loop.simps emu_command_def demo_program_def Let_def split_beta)
  then obtain t where t: "?x = Some t" by auto
  have "loadable demo_program" by (simp add: loadable_def demo_program_def)
  moreover have "demo_emu\<lparr>Pc := pb_LoadAddress demo_program\<rparr> = demo_emu" by (simp add: demo_emu_def demo_program_def)
  ultimately show ?thesis using emulator_invariant [OF demo_emu_ok, of demo_program "[[newline], ''.'' @ [newline]]"] t by auto
qed

lemma compare_and_branch_example:
  "\<exists>s' t. Execute demo_sub (demo_emu\<lparr>Regm := (replicate 256 0)[0 := 5, 1 := 3]\<rparr>) = Some (demo_sub, s')
    \<and> Execute demo_branch s' = Some (demo_branch, t) \<and> Pc t = 0x40"
proof -
  let ?s = "demo_emu\<lparr>Regm := (replicate 256 0)[0 := 5, 1 := 3]\<rparr>"
  have ok: "emu_ok ?s" by (simp add: emu_ok_def demo_emu_def)
  have n: "i_Number demo_sub = SUBR_op" "unat (i_Src1 demo_sub) < 256"
    "i_Number demo_branch \<in> {BEQ_op, BNE_op, BLT_op, BGT_op, BLE_op, BGE_op}" by (simp_all add: demo_sub_def demo_branch_def)
  have v: "Regm ?s ! unat (i_Src1 demo_sub) = 5" "Regm ?s ! unat (i_Src2 demo_sub) = 3"
    by (simp_all add: demo_sub_def)
  from compare_and_branch [OF n(1,2) ok n(3), unfolded v]
  show ?thesis by (auto simp: branch_taken_def demo_branch_def)
qed

lemma watchdog_stops_emulation_example:
  "\<exists>t'. exec_pc \<lparr>se_emu = demo_emu, se_code = demo_wdog, se_i = 0, se_exc = True\<rparr> = Some t' \<and> Pc (se_emu t') = 0x11"
  using watchdog_stops_emulation [of 0 "\<lparr>se_emu = demo_emu, se_code = demo_wdog, se_i = 0, se_exc = True\<rparr>"]
  by (auto simp: demo_wdog_def demo_sub_def demo_emu_def)

end
