(* ===== verification/Mtt_Asm.thy ===== *)
theory Mtt_Asm
  imports Mtt_Object "HOL-Library.Signed_Division"
begin

text \<open>
  The assembler of the MTT card (\<open>src/mttn/tools/asm.c\<close>): the source is chopped into atoms (\<open>GetAtoms\<close>), the
  atoms are assembled in one pass with a symbol table, two stacks for expressions and a list of forward references, and
  the forward references are filled in (\<open>main\<close>).

  A result is \<open>Asm_ok\<close>, \<open>Asm_exit\<close> when the program exits with an error (a fatal error, or more than ten errors), or
  \<open>Asm_undefined\<close> where C does not define what happens: a write past the end of an array, a division by zero or a shift
  by 32 or more. Line numbers and positions, which are only printed, are left out, but for the position
  that \<open>GetAtoms\<close> compares with the size of the file.
\<close>

section \<open>Results\<close>

datatype 'a asm = Asm_ok 'a | Asm_exit | Asm_undefined

fun asm_bind :: "'a asm \<Rightarrow> ('a \<Rightarrow> 'b asm) \<Rightarrow> 'b asm" where
  "asm_bind (Asm_ok x) f = f x"
| "asm_bind Asm_exit f = Asm_exit"
| "asm_bind Asm_undefined f = Asm_undefined"

lemma asm_bind_cong [fundef_cong]:
  "m = m' \<Longrightarrow> (\<And>x. m' = Asm_ok x \<Longrightarrow> f x = f' x) \<Longrightarrow> asm_bind m f = asm_bind m' f'"
  by (cases m') auto

section \<open>Atoms\<close>

datatype OprId = OprNOOP | OprNE | OprEQ | OprGT | OprGE | OprLT | OprLE | OprAS | OprPL | OprMI | OprTI | OprDI | OprAND | OprOR
  | OprXOR | OprNOT | OprNEG | OprLSH | OprRSH | OprINC | OprDECR | OprPOP | OprSTM | OprLBL

definition OprNames :: "(OprId \<times> string) list" where
  "OprNames = [(OprNOOP, ''?''), (OprNE, ''!=''), (OprEQ, ''=''), (OprGT, ''>''), (OprGE, ''>=''), (OprLT, ''<''), (OprLE, ''<=''),
     (OprAS, '':=''), (OprPL, ''+''), (OprMI, ''-''), (OprTI, ''*''), (OprDI, ''/''), (OprAND, ''&''), (OprOR, ''!''), (OprXOR, ''!!''),
     (OprNOT, ''~''), (OprNEG, ''-~''), (OprLSH, ''<<''), (OprRSH, ''>>''), (OprINC, ''++''), (OprDECR, ''--''), (OprPOP, '';''),
     (OprSTM, ''->''), (OprLBL, '':'')]"

text \<open>The value of an atom: a number, the index of an instruction, the number of a register, or an operator.\<close>

record Atom =
  at_Type :: AtomType
  at_Text :: "string option"
  at_Value :: u32
  at_Opr :: OprId

definition blank_atom :: Atom where
  "blank_atom = \<lparr>at_Type = Seperator, at_Text = None, at_Value = 0, at_Opr = OprNOOP\<rparr>"

definition LookUpOperator :: "string \<Rightarrow> OprId" where
  "LookUpOperator s = (case List.find (\<lambda>p. snd p = s) OprNames of Some p \<Rightarrow> fst p | None \<Rightarrow> OprNOOP)"

definition alpha_atom :: "string \<Rightarrow> Atom" where
  "alpha_atom s =
     (case LookUpOpCode s of
        Some n \<Rightarrow> blank_atom\<lparr>at_Type := Op_code, at_Text := Some s, at_Value := of_nat n\<rparr>
      | None \<Rightarrow>
         (case LookUpRegister s of
            Some v \<Rightarrow> blank_atom\<lparr>at_Type := Register, at_Text := Some s, at_Value := v\<rparr>
          | None \<Rightarrow> blank_atom\<lparr>at_Type := Alpha, at_Text := Some s\<rparr>))"

text \<open>
  One turn of the loop of \<open>GetAtoms\<close> on the text at \<open>cp\<close>: it stops, with or without an error; it writes past the end of
  \<open>text\<close>, which holds 128 characters; or it makes an atom or none, moves the position and goes on with the rest. A comment that ends with
  its closing mark leaves \<open>cp\<close> at the mark.
\<close>

datatype lexed = Lex_stop bool | Lex_undefined | Lex_more "Atom option" "nat \<Rightarrow> nat" string

definition word_char :: "char \<Rightarrow> bool" where
  "word_char c \<longleftrightarrow> atom_class c = Alpha \<or> atom_class c = Numeric"

definition lex :: "string \<Rightarrow> lexed" where
  "lex s =
     (case s of
        [] \<Rightarrow> Lex_stop False
      | c # cs \<Rightarrow>
         (case atom_class c of
            Numeric \<Rightarrow>
              (let (v, ep) = strtoul0 s
               in Lex_more (Some (blank_atom\<lparr>at_Type := Numeric, at_Value := v\<rparr>)) (\<lambda>pos. pos + (length s - length ep)) ep)
          | Alpha \<Rightarrow>
              (let w = takeWhile word_char s
               in if length w \<ge> 128 then Lex_undefined
                  else Lex_more (Some (alpha_atom w)) (\<lambda>pos. pos + length w) (drop (length w) s))
          | Seperator \<Rightarrow>
              (let w = takeWhile (\<lambda>c. atom_class c = Seperator \<and> c \<noteq> newline) s; r = drop (length w) s
               in if r \<noteq> [] \<and> hd r = newline then Lex_more (Some blank_atom) (\<lambda>_. 0) (tl r)
                  else Lex_more None (\<lambda>pos. pos + length w) r)
          | Comment \<Rightarrow>
              (let w = takeWhile (\<lambda>c. atom_class c \<noteq> Comment \<and> c \<noteq> newline) cs; r = drop (length w) cs
               in if length w \<ge> 128 then Lex_undefined
                  else if r \<noteq> [] \<and> hd r \<noteq> newline
                  then Lex_more (Some (blank_atom\<lparr>at_Type := Comment, at_Text := Some w\<rparr>)) (\<lambda>pos. pos + length w) r
                  else Lex_more (Some (blank_atom\<lparr>at_Text := Some w\<rparr>)) (\<lambda>pos. pos + length w) (tl r))
          | Operator \<Rightarrow>
              (let w = takeWhile (\<lambda>c. atom_class c = Operator) s
               in if length w \<ge> 128 then Lex_undefined
                  else Lex_more (Some (blank_atom\<lparr>at_Type := Operator, at_Text := Some w, at_Opr := LookUpOperator w\<rparr>))
                         (\<lambda>pos. pos + length w) (drop (length w) s))
          | Illegal_char \<Rightarrow> Lex_stop True
          | Open \<Rightarrow> Lex_more (Some (blank_atom\<lparr>at_Type := Open\<rparr>)) Suc cs
          | Close \<Rightarrow> Lex_more (Some (blank_atom\<lparr>at_Type := Close\<rparr>)) Suc cs
          | Open_index \<Rightarrow> Lex_more (Some (blank_atom\<lparr>at_Type := Open_index\<rparr>)) Suc cs
          | Close_index \<Rightarrow> Lex_more (Some (blank_atom\<lparr>at_Type := Close_index\<rparr>)) Suc cs
          | Bit \<Rightarrow> Lex_more (Some (blank_atom\<lparr>at_Type := Bit\<rparr>)) Suc cs
          | _ \<Rightarrow> Lex_stop False))"

text \<open>Every turn that goes on consumes some of the text.\<close>

lemma read_digits_shorter:
  "length (snd (read_digits b n s)) \<le> length s"
  "s \<noteq> [] \<Longrightarrow> is_digit b (hd s) \<Longrightarrow> length (snd (read_digits b n s)) < length s"
proof -
  show le: "length (snd (read_digits b n s)) \<le> length s" for n s
    by (induction b n s rule: read_digits.induct) auto
  show "s \<noteq> [] \<Longrightarrow> is_digit b (hd s) \<Longrightarrow> length (snd (read_digits b n s)) < length s"
    using le [of "n * int b + int (the (digit_val (hd s)))" "tl s"] by (cases s) auto
qed

lemma numeric_char:
  assumes "atom_class c = Numeric"
  shows "is_digit 10 c" "\<not> c_space c" "c \<noteq> CHR ''-''" "c \<noteq> CHR ''+''"
proof -
  have n: "48 \<le> (of_char c :: nat)" "(of_char c :: nat) \<le> 57"
    using assms by (simp_all add: atom_class_code class_of_code_def split: if_splits)
  then show "is_digit 10 c" by (auto simp: is_digit_def digit_val_def Let_def)
  show "\<not> c_space c" using n by (simp add: c_space_def)
  have "(of_char (CHR ''-'') :: nat) = 45" "(of_char (CHR ''+'') :: nat) = 43" by code_simp+
  then show "c \<noteq> CHR ''-''" "c \<noteq> CHR ''+''" using n by auto
qed

lemma strtoul0_shorter:
  assumes "atom_class c = Numeric"
  shows "length (snd (strtoul0 (c # cs))) < length (c # cs)"
proof -
  note n = numeric_char [OF assms]
  have z: "is_digit 8 (CHR ''0'')" by code_simp
  have "length (snd (read_digits 16 0 (drop 2 (c # cs)))) < length (c # cs)" if "length (c # cs) \<ge> 3"
    using read_digits_shorter(1) [of 16 0 "drop 2 (c # cs)"] that by simp
  moreover have "length (snd (read_digits 8 0 (c # cs))) < length (c # cs)" if "c = CHR ''0''"
    using read_digits_shorter(2) [of "c # cs" 8 0] that z by simp
  moreover have "length (snd (read_digits 10 0 (c # cs))) < length (c # cs)"
    using read_digits_shorter(2) [of "c # cs" 10 0] n(1) by simp
  ultimately show ?thesis using n by (auto simp: strtoul0_def Let_def split_beta simp del: read_digits.simps)
qed

lemma lex_shorter:
  assumes "lex s = Lex_more a f r"
  shows "length r < length s"
proof (cases s)
  case (Cons c cs)
  have num: "length (snd (strtoul0 s)) < length s" if "atom_class c = Numeric" using strtoul0_shorter [OF that] Cons by simp
  show ?thesis
  proof (cases "atom_class c")
    case Numeric
    then show ?thesis using assms num Cons by (simp add: lex_def split_beta Let_def)
  next
    case Alpha
    then show ?thesis using assms Cons by (auto simp: lex_def Let_def word_char_def split: if_splits)
  next
    case Seperator
    let ?w = "takeWhile (\<lambda>c. atom_class c = AtomType.Seperator \<and> c \<noteq> newline) s"
    have "length (drop (length ?w) s) \<le> length s" "?w = [] \<Longrightarrow> hd (drop (length ?w) s) = c" using Cons by simp_all
    then show ?thesis using assms Seperator Cons
      by (auto simp: lex_def Let_def split: if_splits)
  next
    case Comment
    then show ?thesis using assms Cons by (auto simp: lex_def Let_def split: if_splits)
  next
    case Operator
    then show ?thesis using assms Cons by (auto simp: lex_def Let_def split: if_splits)
  qed (use assms Cons in \<open>simp_all add: lex_def\<close>)
qed (use assms in \<open>simp add: lex_def\<close>)

text \<open>
  The loop of \<open>GetAtoms\<close>: the atoms, and whether an illegal character was met. The list ends with the atom that was
  allocated last and not filled in.
\<close>

function get_atoms :: "nat \<Rightarrow> nat \<Rightarrow> string \<Rightarrow> (Atom list \<times> bool) asm" where
  "get_atoms pos sz s =
     (if pos \<le> sz
      then case lex s of
             Lex_stop err \<Rightarrow> Asm_ok ([blank_atom], err)
           | Lex_undefined \<Rightarrow> Asm_undefined
           | Lex_more a f r \<Rightarrow>
               asm_bind (get_atoms (f pos) sz r) (\<lambda>(as, err). Asm_ok (case a of None \<Rightarrow> as | Some x \<Rightarrow> x # as, err))
      else Asm_ok ([blank_atom], False))"
  by pat_completeness auto
termination by (relation "measure (\<lambda>(_, _, s). length s)") (auto dest: lex_shorter)

declare get_atoms.simps [simp del]

text \<open>No atoms at all are made of a text that starts with a full stop.\<close>

definition GetAtoms :: "nat \<Rightarrow> string \<Rightarrow> (Atom list \<times> bool) asm option" where
  "GetAtoms sz buf = (if buf \<noteq> [] \<and> hd buf = CHR ''.'' then None else Some (get_atoms 1 sz buf))"

section \<open>Symbols and stacks\<close>

record Symbol =
  sy_Name :: string
  sy_Value :: u32
  sy_Defined :: bool

text \<open>\<open>op_Sym\<close> is the index of the symbol referred to.\<close>

record Operand =
  op_Sym :: "nat option"
  op_Lit :: u32

record asm_state =
  as_prog :: "Instruction list"
  as_count :: nat
  as_load :: u32
  as_pc :: u32
  as_index :: nat
  as_inst :: nat
  as_symbols :: "Symbol list"
  as_operands :: "Operand list"
  as_noperands :: nat
  as_operators :: "OprId list"
  as_noperators :: nat
  as_forward :: "(nat \<times> nat) list"
  as_errors :: nat
  ex_lit :: bool
  ex_sr1 :: bool
  ex_sr2 :: bool
  ex_dst :: bool

abbreviation (input) SYMBOLS :: nat where "SYMBOLS \<equiv> 1024"
abbreviation (input) OPERAND_STACK :: nat where "OPERAND_STACK \<equiv> 64"
abbreviation (input) OPERATOR_STACK :: nat where "OPERATOR_STACK \<equiv> 32"
abbreviation (input) FORWARD_REFS :: nat where "FORWARD_REFS \<equiv> 100"
abbreviation (input) MAX_ERROR_COUNT :: nat where "MAX_ERROR_COUNT \<equiv> 10"

text \<open>\<open>Error\<close> for an error that is not fatal.\<close>

definition Error_asm :: "asm_state \<Rightarrow> asm_state asm" where
  "Error_asm s = (if as_errors s \<ge> MAX_ERROR_COUNT then Asm_exit else Asm_ok (s\<lparr>as_errors := as_errors s + 1\<rparr>))"

fun symbol_index :: "string \<Rightarrow> Symbol list \<Rightarrow> nat \<Rightarrow> nat option" where
  "symbol_index n [] i = None"
| "symbol_index n (x # xs) i = (if n = sy_Name x then Some i else symbol_index n xs (i + 1))"

definition GetSymbol :: "string \<Rightarrow> asm_state \<Rightarrow> (nat \<times> asm_state) asm" where
  "GetSymbol n s =
     (case symbol_index n (as_symbols s) 0 of
        Some i \<Rightarrow> Asm_ok (i, s)
      | None \<Rightarrow>
          if length (as_symbols s) \<ge> SYMBOLS then Asm_exit
          else Asm_ok (length (as_symbols s), s\<lparr>as_symbols := as_symbols s @ [\<lparr>sy_Name = n, sy_Value = 0, sy_Defined = False\<rparr>]\<rparr>))"

definition PushOperand :: "Operand \<Rightarrow> asm_state \<Rightarrow> asm_state asm" where
  "PushOperand x s =
     (if as_noperands s < OPERAND_STACK
      then Asm_ok (s\<lparr>as_operands := (as_operands s)[as_noperands s := x], as_noperands := as_noperands s + 1\<rparr>) else Asm_exit)"

definition PushOperator :: "OprId \<Rightarrow> asm_state \<Rightarrow> asm_state asm" where
  "PushOperator x s =
     (if as_noperators s < OPERATOR_STACK
      then Asm_ok (s\<lparr>as_operators := (as_operators s)[as_noperators s := x], as_noperators := as_noperators s + 1\<rparr>) else Asm_exit)"

definition PopOperand :: "asm_state \<Rightarrow> (Operand option \<times> asm_state) asm" where
  "PopOperand s =
     (if as_noperands s > 0
      then Asm_ok (Some (as_operands s ! (as_noperands s - 1)), s\<lparr>as_noperands := as_noperands s - 1\<rparr>)
      else asm_bind (Error_asm s) (\<lambda>s. Asm_ok (None, s)))"

definition PopOperator :: "asm_state \<Rightarrow> (OprId option \<times> asm_state) asm" where
  "PopOperator s =
     (if as_noperators s > 0
      then Asm_ok (Some (as_operators s ! (as_noperators s - 1)), s\<lparr>as_noperators := as_noperators s - 1\<rparr>)
      else asm_bind (Error_asm s) (\<lambda>s. Asm_ok (None, s)))"

definition ResetStacks :: "asm_state \<Rightarrow> asm_state" where
  "ResetStacks s = s\<lparr>as_noperands := 0, as_noperators := 0\<rparr>"

definition GetValue :: "Operand \<Rightarrow> asm_state \<Rightarrow> u32" where
  "GetValue x s = (case op_Sym x of Some i \<Rightarrow> sy_Value (as_symbols s ! i) | None \<Rightarrow> op_Lit x)"

definition literal :: "u32 \<Rightarrow> Operand" where
  "literal v = \<lparr>op_Sym = None, op_Lit = v\<rparr>"

section \<open>Expressions\<close>

definition truth :: "bool \<Rightarrow> u32" where
  "truth b = (if b then 0xFFFFFFFF else 0)"

text \<open>The operators with two operands, \<open>None\<close> where the operation is not defined.\<close>

definition binary_op :: "OprId \<Rightarrow> u32 \<Rightarrow> u32 \<Rightarrow> u32 option" where
  "binary_op o1 l r =
     (case o1 of
        OprNE \<Rightarrow> Some (truth (l \<noteq> r)) | OprEQ \<Rightarrow> Some (truth (l = r)) | OprGT \<Rightarrow> Some (truth (sint l > sint r))
      | OprGE \<Rightarrow> Some (truth (sint l \<ge> sint r)) | OprLT \<Rightarrow> Some (truth (sint l < sint r)) | OprLE \<Rightarrow> Some (truth (sint l \<le> sint r))
      | OprPL \<Rightarrow> Some (l + r) | OprMI \<Rightarrow> Some (l - r) | OprTI \<Rightarrow> Some (l * r)
      | OprDI \<Rightarrow> (if r = 0 \<or> (l = 0x80000000 \<and> r = - 1) then None else Some (of_int (sint l sdiv sint r)))
      | OprAND \<Rightarrow> Some (l AND r) | OprOR \<Rightarrow> Some (l OR r) | OprXOR \<Rightarrow> Some (l XOR r)
      | OprLSH \<Rightarrow> (if unat r < 32 then Some (push_bit (unat r) l) else None)
      | OprRSH \<Rightarrow> (if unat r < 32 then Some (signed_drop_bit (unat r) l) else None)
      | _ \<Rightarrow> None)"

text \<open>The two operands, the right one first; the expression ends with 0 when one is missing.\<close>

definition pop_two :: "asm_state \<Rightarrow> ((Operand \<times> Operand) option \<times> asm_state) asm" where
  "pop_two s =
     asm_bind (PopOperand s) (\<lambda>(r, s). case r of
         None \<Rightarrow> Asm_ok (None, s)
       | Some right \<Rightarrow> asm_bind (PopOperand s) (\<lambda>(l, s). Asm_ok (map_option (\<lambda>left. (left, right)) l, s)))"

definition set_symbol :: "nat \<Rightarrow> (Symbol \<Rightarrow> Symbol) \<Rightarrow> asm_state \<Rightarrow> asm_state" where
  "set_symbol i f s = s\<lparr>as_symbols := (as_symbols s)[i := f (as_symbols s ! i)]\<rparr>"

text \<open>
  What one operator does: the value of the whole expression if it ends here, and the state. First the operators with two
  operands, those with one, increment and decrement, and the assignment.
\<close>

definition do_binary :: "OprId \<Rightarrow> asm_state \<Rightarrow> (u32 option \<times> asm_state) asm" where
  "do_binary o1 s =
     asm_bind (pop_two s) (\<lambda>xs. case fst xs of
         None \<Rightarrow> Asm_ok (Some 0, snd xs)
       | Some lr \<Rightarrow>
          (case binary_op o1 (GetValue (fst lr) (snd xs)) (GetValue (snd lr) (snd xs)) of
             None \<Rightarrow> Asm_undefined
           | Some v \<Rightarrow> asm_bind (PushOperand (literal v) (snd xs)) (\<lambda>s. Asm_ok (None, s))))"

definition do_unary :: "(u32 \<Rightarrow> u32) \<Rightarrow> asm_state \<Rightarrow> (u32 option \<times> asm_state) asm" where
  "do_unary f s =
     asm_bind (PopOperand s) (\<lambda>xs. case fst xs of
         None \<Rightarrow> Asm_ok (Some 0, snd xs)
       | Some left \<Rightarrow> asm_bind (PushOperand (literal (f (GetValue left (snd xs)))) (snd xs)) (\<lambda>s. Asm_ok (None, s)))"

definition do_step :: "u32 \<Rightarrow> asm_state \<Rightarrow> (u32 option \<times> asm_state) asm" where
  "do_step d s =
     asm_bind (PopOperand s) (\<lambda>xs. case fst xs of
         None \<Rightarrow> Asm_ok (Some 0, snd xs)
       | Some left \<Rightarrow>
          (let v = GetValue left (snd xs) + d
           in case op_Sym left of
                Some i \<Rightarrow> asm_bind (PushOperand (literal v) (set_symbol i (\<lambda>y. y\<lparr>sy_Value := v\<rparr>) (snd xs))) (\<lambda>s. Asm_ok (None, s))
              | None \<Rightarrow> asm_bind (Error_asm (snd xs)) (\<lambda>s. Asm_ok (None, s))))"

definition do_assign :: "asm_state \<Rightarrow> (u32 option \<times> asm_state) asm" where
  "do_assign s =
     asm_bind (pop_two s) (\<lambda>xs. case fst xs of
         None \<Rightarrow> Asm_ok (Some 0, snd xs)
       | Some lr \<Rightarrow>
          (case op_Sym (fst lr) of
             Some i \<Rightarrow>
               asm_bind (PushOperand (snd lr) (set_symbol i (\<lambda>y. y\<lparr>sy_Value := GetValue (snd lr) (snd xs), sy_Defined := True\<rparr>) (snd xs)))
                 (\<lambda>s. Asm_ok (None, s))
           | None \<Rightarrow> asm_bind (Error_asm (snd xs)) (\<lambda>s. Asm_ok (None, s))))"

definition do_operator :: "OprId \<Rightarrow> asm_state \<Rightarrow> (u32 option \<times> asm_state) asm" where
  "do_operator o1 s =
     (case o1 of
        OprNOT \<Rightarrow> do_unary (\<lambda>v. NOT v) s
      | OprNEG \<Rightarrow> do_unary (\<lambda>v. - v) s
      | OprINC \<Rightarrow> do_step 1 s
      | OprDECR \<Rightarrow> do_step (- 1) s
      | OprPOP \<Rightarrow> asm_bind (PopOperand s) (\<lambda>xs. Asm_ok (Some (case fst xs of Some r \<Rightarrow> op_Lit r | None \<Rightarrow> 0), snd xs))
      | OprAS \<Rightarrow> do_assign s
      | OprSTM \<Rightarrow> if as_noperands s < OPERAND_STACK then Asm_ok (Some (op_Lit (as_operands s ! as_noperands s)), s) else Asm_undefined
      | OprNOOP \<Rightarrow> Asm_ok (Some 0, s)
      | OprLBL \<Rightarrow> Asm_ok (Some 0, s)
      | _ \<Rightarrow> do_binary o1 s)"

lemma asm_bind_ok: "asm_bind m f = Asm_ok y \<longleftrightarrow> (\<exists>x. m = Asm_ok x \<and> f x = Asm_ok y)"
  by (cases m) auto

lemma asm_bind_okE: "asm_bind m f = Asm_ok y \<Longrightarrow> (\<And>x. m = Asm_ok x \<Longrightarrow> f x = Asm_ok y \<Longrightarrow> P) \<Longrightarrow> P"
  by (cases m) auto

lemma stack_noperators:
  "Error_asm s = Asm_ok s' \<Longrightarrow> as_noperators s' = as_noperators s"
  "PushOperand x s = Asm_ok s' \<Longrightarrow> as_noperators s' = as_noperators s"
  "PopOperand s = Asm_ok (y, s') \<Longrightarrow> as_noperators s' = as_noperators s"
  "as_noperators (set_symbol i f s) = as_noperators s"
proof -
  show e: "Error_asm s = Asm_ok s' \<Longrightarrow> as_noperators s' = as_noperators s" for s'
    by (auto simp: Error_asm_def split: if_splits)
  show "PushOperand x s = Asm_ok s' \<Longrightarrow> as_noperators s' = as_noperators s"
    by (auto simp: PushOperand_def split: if_splits)
  show "PopOperand s = Asm_ok (y, s') \<Longrightarrow> as_noperators s' = as_noperators s"
    by (auto simp: PopOperand_def asm_bind_ok split: if_splits dest: e)
  show "as_noperators (set_symbol i f s) = as_noperators s" by (simp add: set_symbol_def)
qed

lemma pop_two_noperators: "pop_two s = Asm_ok (y, s') \<Longrightarrow> as_noperators s' = as_noperators s"
  by (auto simp: pop_two_def asm_bind_ok split: option.splits dest!: stack_noperators(3))

lemma do_noperators:
  "do_binary o1 s = Asm_ok (r, s') \<Longrightarrow> as_noperators s' = as_noperators s"
  "do_unary f s = Asm_ok (r, s') \<Longrightarrow> as_noperators s' = as_noperators s"
  "do_step d s = Asm_ok (r, s') \<Longrightarrow> as_noperators s' = as_noperators s"
  "do_assign s = Asm_ok (r, s') \<Longrightarrow> as_noperators s' = as_noperators s"
  by (auto simp: do_binary_def do_unary_def do_step_def do_assign_def Let_def stack_noperators(4) split: option.split_asm
      elim!: asm_bind_okE dest!: stack_noperators(1-3) pop_two_noperators)

lemma do_operator_noperators:
  assumes "do_operator o1 s = Asm_ok (r, s')"
  shows "as_noperators s' = as_noperators s"
  using assms unfolding do_operator_def
  by (cases o1) (auto simp: asm_bind_ok split: if_splits dest: do_noperators stack_noperators(3))

function DoExpression :: "asm_state \<Rightarrow> (u32 \<times> asm_state) asm" where
  "DoExpression s =
     asm_bind (PopOperator s) (\<lambda>(o1, s). case o1 of
         None \<Rightarrow> Asm_ok (0, s)
       | Some x \<Rightarrow>
           (case do_operator x s of
              Asm_ok (Some v, s) \<Rightarrow> Asm_ok (v, s)
            | Asm_ok (None, s) \<Rightarrow> DoExpression s
            | Asm_exit \<Rightarrow> Asm_exit
            | Asm_undefined \<Rightarrow> Asm_undefined))"
  by pat_completeness auto
termination
  by (relation "measure as_noperators")
    (auto simp: PopOperator_def asm_bind_ok split: if_splits dest!: do_operator_noperators)

declare DoExpression.simps [simp del]

section \<open>Instructions\<close>

definition CompareAtomTypes :: "AtomType \<Rightarrow> AtomType \<Rightarrow> bool" where
  "CompareAtomTypes x y \<longleftrightarrow> x = y \<or> x = Not_set \<or> y = Not_set
     \<or> (x = Expression \<and> (y = Numeric \<or> y = Alpha)) \<or> (y = Expression \<and> (x = Numeric \<or> x = Alpha))
     \<or> (x = Seperator \<and> y = Comment) \<or> (y = Seperator \<and> x = Comment)"

text \<open>The atom \<open>GetConfirm\<close> looks at is the first of a list, which is not empty; it stays at the last one.\<close>

fun skip_seps :: "Atom list \<Rightarrow> Atom list" where
  "skip_seps (a # b # as) = (if CompareAtomTypes (at_Type a) Seperator then skip_seps (b # as) else a # b # as)"
| "skip_seps as = as"

definition next_arg :: "Atom list \<Rightarrow> Atom list" where
  "next_arg as = (if tl as = [] then as else skip_seps (tl as))"

text \<open>One expected argument: \<open>None\<close> is the syntax error.\<close>

definition confirm_arg :: "bool \<Rightarrow> AtomType \<Rightarrow> Atom list option \<Rightarrow> Atom list option" where
  "confirm_arg expected t x =
     (case x of
        None \<Rightarrow> None
      | Some as \<Rightarrow> if \<not> expected then Some as else if CompareAtomTypes (at_Type (hd as)) t then Some (next_arg as) else None)"

definition expect_lit :: "OpCode \<Rightarrow> bool" where
  "expect_lit oc \<longleftrightarrow> oc_Src1 oc = AtLiteral \<or> oc_Src1 oc = AtAddress"

definition GetConfirm :: "Atom list \<Rightarrow> OpCode \<Rightarrow> asm_state \<Rightarrow> asm_state asm" where
  "GetConfirm as oc s =
     (let s = s\<lparr>ex_lit := expect_lit oc, ex_sr1 := (oc_Src1 oc = AtRegister), ex_sr2 := (oc_Src2 oc = AtRegister),
                ex_dst := (oc_Dest oc = AtRegister)\<rparr>;
          x = Some (next_arg as);
          x = confirm_arg (ex_lit s) Expression x; x = confirm_arg (ex_sr1 s) Register x;
          x = confirm_arg (ex_sr2 s) Register x; x = confirm_arg (ex_dst s) Register x
      in if x = None then Error_asm s else Asm_ok s)"

definition zero_inst :: Instruction where
  "zero_inst = \<lparr>i_Dest = 0, i_Src2 = 0, i_Number = 0, i_Crc = 0, i_Src1 = 0\<rparr>"

text \<open>A write through \<open>inst\<close>.\<close>

definition set_inst :: "(Instruction \<Rightarrow> Instruction) \<Rightarrow> asm_state \<Rightarrow> asm_state asm" where
  "set_inst f s =
     (if as_inst s < length (as_prog s) then Asm_ok (s\<lparr>as_prog := (as_prog s)[as_inst s := f (as_prog s ! as_inst s)]\<rparr>)
      else Asm_undefined)"

definition set_src1 :: "u32 \<Rightarrow> asm_state \<Rightarrow> asm_state asm" where
  "set_src1 v s = asm_bind (set_inst (\<lambda>i. i\<lparr>i_Src1 := v\<rparr>) s) (\<lambda>s. Asm_ok (s\<lparr>ex_lit := False\<rparr>))"

definition asm_label :: "Atom option \<Rightarrow> asm_state \<Rightarrow> asm_state asm" where
  "asm_label patom s =
     (case patom of
        None \<Rightarrow> Asm_undefined
      | Some p \<Rightarrow>
          if at_Type p = Alpha
          then asm_bind (GetSymbol (the (at_Text p)) s) (\<lambda>is. let i = fst is; s = snd is in
                 asm_bind (if sy_Value (as_symbols s ! i) \<noteq> 0 then Error_asm s else Asm_ok s)
                   (\<lambda>s. Asm_ok (set_symbol i (\<lambda>y. y\<lparr>sy_Value := as_pc s, sy_Defined := True\<rparr>) s)))
          else if at_Type p = Numeric
          then if as_pc s = 0 then Asm_ok (s\<lparr>as_pc := at_Value p, as_load := at_Value p\<rparr>) else Error_asm s
          else Asm_ok s)"

definition asm_symbol :: "string \<Rightarrow> asm_state \<Rightarrow> asm_state asm" where
  "asm_symbol name s =
     asm_bind (GetSymbol name s) (\<lambda>is. let i = fst is; s = snd is; v = sy_Value (as_symbols s ! i) in
       if ex_lit s
       then asm_bind (set_src1 v s) (\<lambda>s.
              if v = 0
              then if length (as_forward s) + 1 \<ge> FORWARD_REFS then Asm_exit
                   else Asm_ok (s\<lparr>as_forward := as_forward s @ [(as_inst s, i)]\<rparr>)
              else Asm_ok s)
       else PushOperand \<lparr>op_Sym = Some i, op_Lit = 0\<rparr> s)"

definition asm_opcode :: "Atom list \<Rightarrow> asm_state \<Rightarrow> asm_state asm" where
  "asm_opcode as s =
     (let s = s\<lparr>as_inst := as_index s\<rparr>; oc = InstructionSet ! unat (at_Value (hd as))
      in asm_bind (set_inst (\<lambda>_. zero_inst) s) (\<lambda>s.
         asm_bind (GetConfirm as oc s) (\<lambda>s.
         asm_bind (set_inst (\<lambda>i. i\<lparr>i_Number := oc_Number oc\<rparr>) s) (\<lambda>s.
           Asm_ok (s\<lparr>as_pc := as_pc s + 1, as_index := as_index s + 1, as_count := as_index s + 1\<rparr>)))))"

definition asm_register :: "u32 \<Rightarrow> asm_state \<Rightarrow> asm_state asm" where
  "asm_register v s =
     (if ex_sr1 s then asm_bind (set_inst (\<lambda>i. i\<lparr>i_Src1 := v\<rparr>) s) (\<lambda>s. Asm_ok (s\<lparr>ex_sr1 := False\<rparr>))
      else if ex_sr2 s then asm_bind (set_inst (\<lambda>i. i\<lparr>i_Src2 := ucast v\<rparr>) s) (\<lambda>s. Asm_ok (s\<lparr>ex_sr2 := False\<rparr>))
      else if ex_dst s then asm_bind (set_inst (\<lambda>i. i\<lparr>i_Dest := ucast v\<rparr>) s) (\<lambda>s. Asm_ok (s\<lparr>ex_dst := False\<rparr>))
      else Asm_ok s)"

text \<open>One turn of the loop of \<open>Assemble\<close>: the atom before, the atoms from here on.\<close>

definition asm_atom :: "Atom option \<Rightarrow> Atom list \<Rightarrow> asm_state \<Rightarrow> asm_state asm" where
  "asm_atom patom as s =
     (let a = hd as
      in case at_Type a of
           Numeric \<Rightarrow> if ex_lit s then set_src1 (at_Value a) s else PushOperand (literal (at_Value a)) s
         | Alpha \<Rightarrow> asm_symbol (the (at_Text a)) s
         | Operator \<Rightarrow> if at_Opr a = OprLBL then asm_label patom s else PushOperator (at_Opr a) s
         | Op_code \<Rightarrow> asm_opcode as s
         | Register \<Rightarrow> asm_register (at_Value a) s
         | Open \<Rightarrow> asm_bind (PushOperator OprSTM s) (\<lambda>s. Asm_ok (s\<lparr>ex_lit := False\<rparr>))
         | Open_index \<Rightarrow> asm_bind (PushOperator OprSTM s) (\<lambda>s. Asm_ok (s\<lparr>ex_lit := False\<rparr>))
         | Close \<Rightarrow> asm_bind (DoExpression s) (\<lambda>vs. set_src1 (fst vs) (snd vs))
         | Close_index \<Rightarrow> asm_bind (DoExpression s) (\<lambda>vs. set_src1 (fst vs) (snd vs))
         | Seperator \<Rightarrow>
             (let s = ResetStacks s
              in if ex_lit s then asm_bind (Error_asm s) (\<lambda>s. Asm_ok (s\<lparr>ex_lit := False\<rparr>)) else Asm_ok s)
         | _ \<Rightarrow> Asm_ok s)"

fun asm_atoms :: "Atom option \<Rightarrow> Atom list \<Rightarrow> asm_state \<Rightarrow> asm_state asm" where
  "asm_atoms patom [] s = Asm_ok s"
| "asm_atoms patom (a # as) s = asm_bind (asm_atom patom (a # as) s) (asm_atoms (Some a) as)"

text \<open>
  \<open>Assemble\<close> on a freshly started assembler: \<open>mem\<close> is the memory allocated for the program. An illegal character counts as
  one error.
\<close>

definition asm_start :: "Instruction list \<Rightarrow> nat \<Rightarrow> asm_state" where
  "asm_start mem errors =
     \<lparr>as_prog = mem, as_count = 0, as_load = 0, as_pc = 0, as_index = 0, as_inst = 0, as_symbols = [],
      as_operands = replicate OPERAND_STACK (literal 0), as_noperands = 0, as_operators = replicate OPERATOR_STACK OprNOOP,
      as_noperators = 0, as_forward = [], as_errors = errors, ex_lit = False, ex_sr1 = False, ex_sr2 = False, ex_dst = False\<rparr>"

definition Assemble :: "nat \<Rightarrow> string \<Rightarrow> Instruction list \<Rightarrow> asm_state asm" where
  "Assemble sz text mem =
     (case GetAtoms sz text of
        None \<Rightarrow> Asm_exit
      | Some r \<Rightarrow>
          asm_bind r (\<lambda>(as, err).
            asm_bind (set_inst (\<lambda>_. zero_inst) (asm_start mem (if err then 1 else 0))) (asm_atoms None as)))"

text \<open>The second pass.\<close>

definition fix_forward :: "Symbol list \<Rightarrow> nat \<times> nat \<Rightarrow> Instruction list \<Rightarrow> Instruction list" where
  "fix_forward syms f prog = prog[fst f := (prog ! fst f)\<lparr>i_Src1 := sy_Value (syms ! snd f)\<rparr>]"

text \<open>
  \<open>main\<close> with a source file \<open>file\<close>: the program that is written to the object file, and the number of errors. \<open>mem n\<close> is the
  memory allocated for \<open>n\<close> instructions, as many as the source has lines. The source ends at a null character or a character
  with the code 255.
\<close>

definition asm_main :: "(nat \<Rightarrow> Instruction list) \<Rightarrow> string \<Rightarrow> (ProgramBuf \<times> nat) asm" where
  "asm_main mem file =
     (if length file < 2 then Asm_exit
      else let source = takeWhile (\<lambda>c. c \<noteq> char_of (0 :: nat) \<and> c \<noteq> char_of (255 :: nat)) file
           in asm_bind (Assemble (length file) source (mem (length (filter (\<lambda>c. c = newline) source)))) (\<lambda>s.
                Asm_ok (\<lparr>pb_LoadAddress = as_load s, pb_InstructionCount = as_count s,
                         pb_Program = (if as_errors s = 0 then fold (fix_forward (as_symbols s)) (as_forward s) (as_prog s)
                                       else as_prog s)\<rparr>, as_errors s)))"

end
