(* ===== verification/Mtt_Listing.thy ===== *)
theory Mtt_Listing
  imports Mtt_Asm
begin

text \<open>
  The atoms the assembler makes of a text, whatever its place in the file, and of the listing of an instruction.
\<close>

section \<open>The atoms of a text\<close>

lemma lex_pos: "lex s = Lex_more a f r \<Longrightarrow> f pos + length r \<le> pos + length s"
proof (cases s)
  case (Cons c cs)
  assume l: "lex s = Lex_more a f r"
  have n: "length (snd (strtoul0 s)) \<le> length s" if "atom_class c = Numeric" using strtoul0_shorter [OF that, of cs] Cons by simp
  show ?thesis
  proof (cases "atom_class c = Comment")
    case True
    have "length (takeWhile (\<lambda>c. atom_class c \<noteq> Comment \<and> c \<noteq> newline) cs) \<le> length cs" by (rule length_takeWhile_le)
    then show ?thesis using l Cons True by (auto simp: lex_def Let_def length_tl split: if_split_asm)
  next
    case False
    then show ?thesis
      using l n Cons
      by (auto simp: lex_def Let_def split_beta length_tl length_takeWhile_le le_add_diff_inverse [OF length_takeWhile_le]
          split: AtomType.split_asm if_split_asm intro: le_antisym length_takeWhile_le)
  qed
qed (simp add: lex_def)

text \<open>The atoms of a text, whatever its place in the file.\<close>

definition atoms_of :: "string \<Rightarrow> (Atom list \<times> bool) asm" where
  "atoms_of s = get_atoms 0 (length s) s"

definition asm_cons :: "Atom \<Rightarrow> (Atom list \<times> bool) asm \<Rightarrow> (Atom list \<times> bool) asm" where
  "asm_cons a m = asm_bind m (\<lambda>(as, err). Asm_ok (a # as, err))"

text \<open>The comparison of the position with the size of the file never ends the loop early.\<close>

lemma get_atoms_any_pos: "pos + length s \<le> sz + 1 \<Longrightarrow> get_atoms pos sz s = atoms_of s"
proof (induction "length s" arbitrary: s pos sz rule: less_induct)
  case less
  show ?case
  proof (cases "pos \<le> sz")
    case False
    then have "length s = 0" using less.prems by linarith
    then have "s = []" by simp
    then show ?thesis using False by (simp add: atoms_of_def get_atoms.simps lex_def)
  next
    case True
    show ?thesis
    proof (cases "lex s")
      case (Lex_more a f r)
      note short = lex_shorter [OF this]
      have "get_atoms (f pos) sz r = atoms_of r" "get_atoms (f 0) (length s) r = atoms_of r"
        using less.hyps [OF short] less.prems lex_pos [OF Lex_more, of pos] lex_pos [OF Lex_more, of 0] by simp_all
      then show ?thesis using True Lex_more by (simp add: atoms_of_def [of s] get_atoms.simps [of _ _ s])
    qed (use True in \<open>simp_all add: atoms_of_def get_atoms.simps\<close>)
  qed
qed

lemma atoms_of_lex:
  "atoms_of s = (case lex s of Lex_stop err \<Rightarrow> Asm_ok ([blank_atom], err) | Lex_undefined \<Rightarrow> Asm_undefined
     | Lex_more a f r \<Rightarrow> (case a of None \<Rightarrow> atoms_of r | Some x \<Rightarrow> asm_cons x (atoms_of r)))"
proof (cases "lex s")
  case (Lex_more a f r)
  have "get_atoms (f 0) (length s) r = atoms_of r"
    using lex_pos [OF Lex_more, of 0] by (intro get_atoms_any_pos) simp
  moreover have "asm_bind m (\<lambda>(as, err). Asm_ok (as, err)) = m" for m :: "(Atom list \<times> bool) asm" by (cases m) auto
  ultimately show ?thesis
    using Lex_more by (cases a) (simp_all add: atoms_of_def [of s] get_atoms.simps [of _ _ s] asm_cons_def)
qed (simp_all add: atoms_of_def get_atoms.simps)

lemma atoms_of_newline: "atoms_of (newline # s) = asm_cons blank_atom (atoms_of s)"
proof -
  have "atom_class newline = Seperator" by code_simp
  then show ?thesis by (subst atoms_of_lex) (simp add: lex_def)
qed

lemma atoms_of_space: 
  assumes "atom_class c = Seperator" and "c \<noteq> newline"
  shows "atoms_of (c # s) = atoms_of s"
proof (cases "s \<noteq> [] \<and> atom_class (hd s) = Seperator \<and> hd s \<noteq> newline")
  case True
  then obtain d ds where s: "s = d # ds" "atom_class d = Seperator" "d \<noteq> newline" by (cases s) auto
  show ?thesis
    using assms s by (subst (1 2) atoms_of_lex) (auto simp: lex_def Let_def)
next
  case False
  let ?w = "takeWhile (\<lambda>c. atom_class c = Seperator \<and> c \<noteq> newline) s"
  have w: "?w = []" using False by (cases s) auto
  show ?thesis
  proof (cases "s \<noteq> [] \<and> hd s = newline")
    case True
    then obtain ds where "s = newline # ds" by (cases s) auto
    then show ?thesis using assms w atoms_of_newline [of ds] by (subst atoms_of_lex) (simp add: lex_def)
  next
    case False
    then show ?thesis using assms w by (subst atoms_of_lex) (auto simp: lex_def)
  qed
qed

lemma blank_class: "atom_class (CHR '' '') = Seperator" "CHR '' '' \<noteq> newline"
  by code_simp+

lemma atoms_of_blanks: "atoms_of (replicate n (CHR '' '') @ s) = atoms_of s"
  by (induction n) (simp_all add: atoms_of_space blank_class)

lemma atoms_of_word:
  assumes "w \<noteq> []" and "atom_class (hd w) = Alpha" and "list_all word_char w" and "length w < 128"
    and "s = [] \<or> \<not> word_char (hd s)"
  shows "atoms_of (w @ s) = asm_cons (alpha_atom w) (atoms_of s)"
proof -
  have "takeWhile word_char (w @ s) = w @ takeWhile word_char s" using assms(3) by (simp add: list_all_iff takeWhile_append2)
  also have "takeWhile word_char s = []" using assms(5) by (cases s) auto
  finally have t: "takeWhile word_char (w @ s) = w" by simp
  obtain c cs where w: "w = c # cs" using assms(1) by (cases w) auto
  have "lex (w @ s) = Lex_more (Some (alpha_atom w)) (\<lambda>pos. pos + length w) s"
    using t assms(2,4) by (simp add: lex_def w Let_def)
  then show ?thesis by (subst atoms_of_lex) simp
qed

definition numeric_atom :: "u32 \<Rightarrow> Atom" where
  "numeric_atom v = blank_atom\<lparr>at_Type := Numeric, at_Value := v\<rparr>"

lemma atoms_of_hex:
  assumes "s = [] \<or> \<not> is_digit 16 (hd s)"
  shows "atoms_of (hex_field v @ s) = asm_cons (numeric_atom v) (atoms_of s)"
proof -
  have "strtoul0 (hex_field v @ s) = (v, s)" using strtoul0_hex [of s "[]" v] assms by (cases s) (simp_all add: hex_field_def)
  moreover have "atom_class (CHR ''0'') = Numeric" by code_simp
  moreover have "hex_field v @ s = CHR ''0'' # tl (hex_field v @ s)" by (simp add: hex_field_def)
  ultimately have "\<exists>f. lex (hex_field v @ s) = Lex_more (Some (numeric_atom v)) f s"
    unfolding lex_def by (simp add: hex_field_def numeric_atom_def)
  then show ?thesis by (subst atoms_of_lex) auto
qed

section \<open>The atoms of a listed instruction\<close>

lemma opcode_names:
  "list_all (\<lambda>oc. oc_Name oc \<noteq> [] \<and> atom_class (hd (oc_Name oc)) = Alpha \<and> list_all word_char (oc_Name oc) \<and> length (oc_Name oc) \<le> 5
     \<and> oc_Src2 oc \<in> {AtNothing, AtRegister} \<and> oc_Dest oc \<in> {AtNothing, AtRegister}) InstructionSet"
  by code_simp

lemma find_opcode_set: "find_opcode n ocs = Some oc \<Longrightarrow> oc \<in> set ocs \<and> oc_Number oc = n"
  by (induction ocs) (auto split: if_splits)

lemma opcode_name:
  assumes "find_opcode n InstructionSet = Some oc"
  shows "oc_Name oc \<noteq> []" "atom_class (hd (oc_Name oc)) = Alpha" "list_all word_char (oc_Name oc)" "length (oc_Name oc) \<le> 5"
    "oc_Src2 oc = AtNothing \<or> oc_Src2 oc = AtRegister" "oc_Dest oc = AtNothing \<or> oc_Dest oc = AtRegister" "oc_Number oc = n"
  using find_opcode_set [OF assms] opcode_names by (auto simp: list_all_iff)

lemma opcode_atom:
  assumes "find_opcode n InstructionSet = Some oc"
  shows "at_Type (alpha_atom (oc_Name oc)) = Op_code" "InstructionSet ! unat (at_Value (alpha_atom (oc_Name oc))) = oc"
proof -
  have len: "length InstructionSet = 36" by (simp add: InstructionSet_def)
  obtain k where k: "k < 36" "InstructionSet ! k = oc"
    using find_opcode_set [OF assms] len by (auto simp: in_set_conv_nth)
  have "map (\<lambda>oc. LookUpOpCode (oc_Name oc)) InstructionSet ! k = map Some [0..<36] ! k" by (simp only: lookup_opcode_own)
  then have "LookUpOpCode (oc_Name oc) = Some k" using k len by simp
  then show "at_Type (alpha_atom (oc_Name oc)) = Op_code" "InstructionSet ! unat (at_Value (alpha_atom (oc_Name oc))) = oc"
    using k by (simp_all add: alpha_atom_def unat_of_nat take_bit_nat_eq_self)
qed

definition register_atom :: "nat \<Rightarrow> Atom" where
  "register_atom n = blank_atom\<lparr>at_Type := Register, at_Text := Some (RegToString (int n)), at_Value := of_nat n\<rparr>"

lemma single_names:
  "list_all (\<lambda>n. LookUpOpCode (reg_name (int n) Regs) = None \<and> reg_name (int n) Regs \<noteq> [] \<and> atom_class (hd (reg_name (int n) Regs)) = Alpha
     \<and> list_all word_char (reg_name (int n) Regs) \<and> length (reg_name (int n) Regs) \<le> 8) [212..<225]"
  by code_simp

lemma no_opcode_register:
  "length (''GR'' @ t) \<le> 8 \<Longrightarrow> StrToUpper (''GR'' @ t) = ''GR'' @ t \<Longrightarrow> LookUpOpCode (''GR'' @ t) = None"
  "length (''LR'' @ t) \<le> 8 \<Longrightarrow> StrToUpper (''LR'' @ t) = ''LR'' @ t \<Longrightarrow> LookUpOpCode (''LR'' @ t) = None"
  by (simp_all add: LookUpOpCode_def InstructionSet_def)

lemma dec_chars: "list_all word_char (print_dec n)"
proof -
  have "word_char c" if "c \<in> set (print_dec n)" for c
    using that print_digits_chars [of 10 "int n" c] by (auto simp: print_dec_def word_char_def digit_char_val)
  then show ?thesis by (simp add: list_all_iff)
qed

lemma register_name:
  assumes "n < 256"
  shows "LookUpOpCode (RegToString (int n)) = None \<and> RegToString (int n) \<noteq> [] \<and> atom_class (hd (RegToString (int n))) = Alpha
    \<and> list_all word_char (RegToString (int n)) \<and> length (RegToString (int n)) \<le> 8"
proof -
  have w: "list_all word_char ''GR''" "list_all word_char ''LR''" "atom_class (CHR ''G'') = Alpha" "atom_class (CHR ''L'') = Alpha" by code_simp+
  show ?thesis
    using assms
  proof (cases rule: register_cases)
    case global
    have k: "n + 1 < 1000" using global by simp
    show ?thesis
      unfolding RegToString_def reg_name_ranges(1) [OF global]
      using no_opcode_register(1) [of "print_dec (n + 1)"] numbered_name [OF k] dec_chars [of "n + 1"] w by simp
  next
    case single
    then have "n \<in> set [212..<225]" by (simp only: set_upt atLeastLessThan_iff)
    from bspec [OF single_names [unfolded list_all_iff [of _ "[212..<225]"]] this] show ?thesis unfolding RegToString_def .
  next
    case (local k)
    have kk: "k + 1 < 1000" using local by simp
    show ?thesis
      unfolding RegToString_def local(2) reg_name_ranges(2) [OF local(1)]
      using no_opcode_register(2) [of "print_dec (k + 1)"] numbered_name [OF kk] dec_chars [of "k + 1"] w by simp
  qed
qed

lemma register_alpha: "n < 256 \<Longrightarrow> alpha_atom (RegToString (int n)) = register_atom n"
  using register_name [of n] lookup_own_name [of n]
  by (simp add: alpha_atom_def register_atom_def GetRegisterName_def RegToString_def)

text \<open>The atoms of an operand.\<close>

definition arg_atoms :: "ArgType \<Rightarrow> u32 \<Rightarrow> Atom list" where
  "arg_atoms t v = (case t of AtNothing \<Rightarrow> [] | AtLiteral \<Rightarrow> [numeric_atom v] | AtAddress \<Rightarrow> [numeric_atom v] | AtRegister \<Rightarrow> [register_atom (unat v)])"

fun asm_append :: "Atom list \<Rightarrow> (Atom list \<times> bool) asm \<Rightarrow> (Atom list \<times> bool) asm" where
  "asm_append [] m = m"
| "asm_append (a # as) m = asm_cons a (asm_append as m)"

lemma asm_append_append: "asm_append (as @ bs) m = asm_append as (asm_append bs m)"
  by (induction as) simp_all

text \<open>A text an operand can be followed by: nothing, a blank or the end of the line.\<close>

definition ends_word :: "string \<Rightarrow> bool" where
  "ends_word s \<longleftrightarrow> s = [] \<or> hd s = CHR '' '' \<or> hd s = newline"

lemma ends_wordD: "ends_word s \<Longrightarrow> s = [] \<or> \<not> word_char (hd s)" "ends_word s \<Longrightarrow> s = [] \<or> \<not> is_digit 16 (hd s)"
proof -
  have "\<not> word_char (CHR '' '')" "\<not> word_char newline" by code_simp+
  then show "ends_word s \<Longrightarrow> s = [] \<or> \<not> word_char (hd s)" "ends_word s \<Longrightarrow> s = [] \<or> \<not> is_digit 16 (hd s)"
    using not_digit by (auto simp: ends_word_def)
qed

lemma sint_reg: "unat (v :: u32) < 256 \<Longrightarrow> sint v = int (unat v)"
proof -
  assume v: "unat v < 256"
  have u: "uint v = int (unat v)" by simp
  then have b: "0 \<le> uint v" "uint v < 256" using v by linarith+
  have "- (2 ^ 31) \<le> uint v" using b(1) by (rule order_trans [rotated]) simp
  moreover have "uint v < 2 ^ 31" using b(2) by (rule order_less_le_trans) simp
  ultimately have "signed_take_bit 31 (uint v) = uint v" by (rule signed_take_bit_int_eq_self)
  then have "sint v = uint v" by (simp add: sint_uint)
  then show "sint v = int (unat v)" using u by (rule trans)
qed

lemma atoms_of_arg:
  assumes "t = AtRegister \<longrightarrow> unat v < 256 \<and> ends_word s" and "t \<noteq> AtRegister \<longrightarrow> s = [] \<or> \<not> is_digit 16 (hd s)"
  shows "atoms_of (arg_text t v @ s) = asm_append (arg_atoms t v) (atoms_of s)"
proof (cases t)
  case AtRegister
  then have v: "unat v < 256" using assms(1) by simp
  note r = register_name [OF v]
  have "length (RegToString (int (unat v))) < 128" using r by linarith
  from atoms_of_word [OF _ _ _ this] r ends_wordD(1) assms(1) show ?thesis
    using AtRegister register_alpha [OF v] sint_reg [OF v] by (simp add: arg_text_def arg_atoms_def)
qed (use assms(2) in \<open>simp_all add: arg_text_def arg_atoms_def atoms_of_hex\<close>)

lemma atoms_of_ended_arg:
  assumes "t = AtRegister \<longrightarrow> unat v < 256" and "ends_word s"
  shows "atoms_of (arg_text t v @ s) = asm_append (arg_atoms t v) (atoms_of s)"
  using assms ends_wordD(2) by (intro atoms_of_arg) blast+

text \<open>
  The instructions whose listing can be read again: a known instruction with no checksum, nothing in the fields it does not
  have, registers in range, and operands that do not run into each other. The first operand starts in column 8, the second in column 16 or right
  after the first, the third in column 24 or right after the second: a register name must be followed by a blank, a number by a blank or by a name that
  does not begin with a hexadecimal digit.
\<close>

definition listable :: "Instruction \<Rightarrow> bool" where
  "listable i \<longleftrightarrow>
     (case find_opcode (i_Number i) InstructionSet of
        None \<Rightarrow> False
      | Some oc \<Rightarrow> i_Crc i = 0 \<and> (oc_Src1 oc = AtNothing \<longrightarrow> i_Src1 i = 0) \<and> (oc_Src1 oc = AtRegister \<longrightarrow> unat (i_Src1 i) < 256)
          \<and> (oc_Src2 oc = AtNothing \<longrightarrow> i_Src2 i = 0) \<and> (oc_Dest oc = AtNothing \<longrightarrow> i_Dest i = 0)
          \<and> (let a1 = arg_text (oc_Src1 oc) (i_Src1 i); a2 = arg_text (oc_Src2 oc) (ucast (i_Src2 i))
             in (oc_Src2 oc = AtNothing \<or> length a1 < 8 \<or> oc_Src1 oc \<noteq> AtRegister \<and> \<not> is_digit 16 (hd a2))
                \<and> (oc_Src2 oc = AtNothing \<or> oc_Dest oc = AtNothing \<or> max 16 (8 + length a1) + length a2 < 24)))"

definition line_atoms :: "OpCode \<Rightarrow> Instruction \<Rightarrow> Atom list" where
  "line_atoms oc i = alpha_atom (oc_Name oc) # arg_atoms (oc_Src1 oc) (i_Src1 i) @ arg_atoms (oc_Src2 oc) (ucast (i_Src2 i))
     @ arg_atoms (oc_Dest oc) (ucast (i_Dest i)) @ [blank_atom]"

lemma ends_word_blanks: "0 < n \<or> ends_word s \<Longrightarrow> ends_word (replicate n (CHR '' '') @ s)"
  by (cases n) (auto simp: ends_word_def)

lemma length_arg_text:
  assumes "t = AtRegister \<longrightarrow> unat v < 256"
  shows "length (arg_text t v) \<le> 10"
proof (cases t)
  case AtRegister
  then have "unat v < 256" using assms by simp
  from register_name [OF this] sint_reg [OF this] AtRegister show ?thesis by (simp add: arg_text_def)
qed (simp_all add: arg_text_def length_hex_field)

lemma byte_reg: "unat (ucast (b :: u8) :: u32) < 256" "unat (ucast b :: u32) = unat b"
proof -
  have b: "unat b < 256" using unsigned_less [of b] by simp
  have "unat (ucast b :: u32) = unat b mod 2 ^ 32" by (simp add: unsigned_ucast_eq take_bit_eq_mod)
  also have "\<dots> = unat b" using b by (intro mod_less) (rule order_less_le_trans, assumption, simp)
  finally show "unat (ucast b :: u32) = unat b" .
  then show "unat (ucast b :: u32) < 256" using b by simp
qed

lemma atoms_of_line:
  assumes oc: "find_opcode (i_Number i) InstructionSet = Some oc" and ok: "listable i"
  shows "atoms_of (InstToStr i @ newline # s) = asm_append (line_atoms oc i) (atoms_of s)"
proof -
  let ?a1 = "arg_text (oc_Src1 oc) (i_Src1 i)" and ?a2 = "arg_text (oc_Src2 oc) (ucast (i_Src2 i))"
  let ?a3 = "arg_text (oc_Dest oc) (ucast (i_Dest i))"
  let ?B = "\<lambda>n. replicate n (CHR '' '')"
  note nm = opcode_name [OF oc]
  define l1 where "l1 = max 16 (8 + length ?a1)"
  define l2 where "l2 = max 24 (l1 + length ?a2)"
  let ?t4 = "?B (32 - (l2 + length ?a3)) @ newline # s"
  let ?t3 = "?B (24 - (l1 + length ?a2)) @ ?a3 @ ?t4"
  let ?t2 = "?B (8 - length ?a1) @ ?a2 @ ?t3"
  have listing: "InstToStr i @ newline # s = oc_Name oc @ ?B (8 - length (oc_Name oc)) @ ?a1 @ ?t2"
    using nm(4) by (simp add: InstToStr_def oc pad_def TabTo_def Let_def l1_def l2_def max_def)
  have len: "length ?a1 \<le> 10" using ok oc by (intro length_arg_text) (simp add: listable_def)
  have e4: "ends_word ?t4" by (rule ends_word_blanks) (simp add: ends_word_def)
  have none: "arg_text AtNothing v = []" for v by (simp add: arg_text_def)
  have e3: "ends_word ?t3"
  proof (rule ends_word_blanks)
    show "0 < 24 - (l1 + length ?a2) \<or> ends_word (?a3 @ ?t4)"
      using ok oc len nm(5,6) e4 by (auto simp: listable_def l1_def none Let_def)
  qed
  have e2: "ends_word ?t2 \<or> oc_Src1 oc \<noteq> AtRegister \<and> \<not> is_digit 16 (hd ?t2)"
  proof (cases "0 < 8 - length ?a1 \<or> ends_word (?a2 @ ?t3)")
    case False
    then have "oc_Src2 oc = AtRegister" using nm(5) e3 by (auto simp: none)
    moreover from this have "?a2 \<noteq> []" using register_name [of "unat (i_Src2 i)"] byte_reg [of "i_Src2 i"] sint_reg [of "ucast (i_Src2 i)"]
      by (simp add: arg_text_def)
    ultimately show ?thesis using False ok oc by (simp add: listable_def Let_def)
  qed (blast intro: ends_word_blanks)
  have e1: "ends_word (?B (8 - length (oc_Name oc)) @ ?a1 @ ?t2)" using nm(4) by (intro ends_word_blanks) simp
  have "oc_Src1 oc = AtRegister \<longrightarrow> unat (i_Src1 i) < 256" using ok oc by (simp add: listable_def)
  then have first: "atoms_of (?a1 @ ?t2) = asm_append (arg_atoms (oc_Src1 oc) (i_Src1 i)) (atoms_of ?t2)"
    using e2 ends_wordD(2) [of ?t2] by (intro atoms_of_arg) blast+
  have w: "length (oc_Name oc) < 128" using nm(4) by simp
  have "atoms_of (InstToStr i @ newline # s) = asm_cons (alpha_atom (oc_Name oc)) (atoms_of (?a1 @ ?t2))"
    unfolding listing using atoms_of_word [OF nm(1-3) w ends_wordD(1) [OF e1]] by (simp add: atoms_of_blanks)
  also have "atoms_of (?a1 @ ?t2) = asm_append (arg_atoms (oc_Src1 oc) (i_Src1 i)) (atoms_of (?a2 @ ?t3))"
    unfolding first by (simp add: atoms_of_blanks)
  also have "atoms_of (?a2 @ ?t3) = asm_append (arg_atoms (oc_Src2 oc) (ucast (i_Src2 i))) (atoms_of (?a3 @ ?t4))"
    using atoms_of_ended_arg [OF _ e3, of "oc_Src2 oc" "ucast (i_Src2 i)"] byte_reg by (simp add: atoms_of_blanks)
  also have "atoms_of (?a3 @ ?t4) = asm_append (arg_atoms (oc_Dest oc) (ucast (i_Dest i))) (asm_cons blank_atom (atoms_of s))"
    using atoms_of_ended_arg [OF _ e4, of "oc_Dest oc" "ucast (i_Dest i)"] byte_reg by (simp add: atoms_of_blanks atoms_of_newline)
  finally show ?thesis by (simp add: line_atoms_def asm_append_append)
qed

end
