(* ===== verification/Mtt_Asm_Props.thy ===== *)
theory Mtt_Asm_Props
  imports Mtt_Listing
begin

text \<open>
  What the assembler does: the assembly of a listing back into the program, the filling in of forward references, and the value of an
  expression in parentheses.
\<close>

section \<open>The assembly of a listing\<close>

text \<open>The assembler between two lines, \<open>k\<close> instructions done.\<close>

definition between :: "Instruction list \<Rightarrow> nat \<Rightarrow> asm_state" where
  "between m k = (asm_start m 0)\<lparr>as_count := k, as_pc := of_nat k, as_index := k, as_inst := k - 1\<rparr>"

lemma arg_atoms_simps [simp]:
  "arg_atoms AtNothing v = []" "arg_atoms AtLiteral v = [numeric_atom v]" "arg_atoms AtAddress v = [numeric_atom v]"
  "arg_atoms AtRegister v = [register_atom (unat v)]"
  by (simp_all add: arg_atoms_def)

lemma atom_types [simp]:
  "at_Type (numeric_atom v) = Numeric" "at_Value (numeric_atom v) = v" "at_Type (register_atom n) = Register"
  "at_Value (register_atom n) = of_nat n" "at_Type blank_atom = Seperator"
  by (simp_all add: numeric_atom_def register_atom_def blank_atom_def)

lemma confirm_listed:
  assumes "oc_Src2 oc = AtNothing \<or> oc_Src2 oc = AtRegister" and "oc_Dest oc = AtNothing \<or> oc_Dest oc = AtRegister"
  shows "GetConfirm (a # arg_atoms (oc_Src1 oc) v @ arg_atoms (oc_Src2 oc) w @ arg_atoms (oc_Dest oc) x @ blank_atom # rest) oc s =
    Asm_ok (s\<lparr>ex_lit := expect_lit oc, ex_sr1 := (oc_Src1 oc = AtRegister), ex_sr2 := (oc_Src2 oc = AtRegister),
              ex_dst := (oc_Dest oc = AtRegister)\<rparr>)"
  using assms
  by (cases "oc_Src1 oc") (elim disjE; simp add: GetConfirm_def Let_def next_arg_def confirm_arg_def expect_lit_def CompareAtomTypes_def)+

text \<open>The assembler inside line \<open>k\<close>: what of the instruction is there, and what is still expected.\<close>

definition inside :: "Instruction list \<Rightarrow> nat \<Rightarrow> Instruction \<Rightarrow> bool \<Rightarrow> bool \<Rightarrow> bool \<Rightarrow> bool \<Rightarrow> asm_state" where
  "inside m k i l a b c = (between (m[k := i]) (k + 1))\<lparr>ex_lit := l, ex_sr1 := a, ex_sr2 := b, ex_dst := c\<rparr>"

lemmas state_defs = inside_def between_def asm_start_def

lemma assemble_operand:
  assumes k: "k < length m"
  shows "asm_atom p (numeric_atom v # r) (inside m k i True a b c) = Asm_ok (inside m k (i\<lparr>i_Src1 := v\<rparr>) False a b c)"
    and "asm_atom p (register_atom n # r) (inside m k i l True b c) = Asm_ok (inside m k (i\<lparr>i_Src1 := of_nat n\<rparr>) l False b c)"
    and "asm_atom p (register_atom n # r) (inside m k i l False True c) = Asm_ok (inside m k (i\<lparr>i_Src2 := ucast (of_nat n :: u32)\<rparr>) l False False c)"
    and "asm_atom p (register_atom n # r) (inside m k i l False False True) = Asm_ok (inside m k (i\<lparr>i_Dest := ucast (of_nat n :: u32)\<rparr>) l False False False)"
    and "asm_atom p (blank_atom # r) (inside m k i False a b c) = Asm_ok (inside m k i False a b c)"
  using k by (simp_all add: asm_atom_def asm_register_def set_src1_def set_inst_def state_defs ResetStacks_def)

lemma assemble_opcode:
  assumes oc: "find_opcode (i_Number i) InstructionSet = Some oc" and k: "k < length m"
  shows "asm_atom p (line_atoms oc i @ rest) (between m k) =
    Asm_ok (inside m k (zero_inst\<lparr>i_Number := i_Number i\<rparr>) (expect_lit oc) (oc_Src1 oc = AtRegister) (oc_Src2 oc = AtRegister)
              (oc_Dest oc = AtRegister))"
  using opcode_atom [OF oc] opcode_name(7) [OF oc] k confirm_listed [OF opcode_name(5,6) [OF oc]]
  by (simp add: asm_atom_def line_atoms_def asm_opcode_def set_inst_def state_defs)

lemma assemble_line:
  assumes oc: "find_opcode (i_Number i) InstructionSet = Some oc" and ok: "listable i" and k: "k < length m"
  shows "asm_atoms p (line_atoms oc i @ rest) (between m k) = asm_atoms (Some blank_atom) rest (between (m[k := i]) (k + 1))"
proof -
  let ?t3 = "arg_atoms (oc_Dest oc) (ucast (i_Dest i)) @ blank_atom # rest"
  let ?t2 = "arg_atoms (oc_Src2 oc) (ucast (i_Src2 i)) @ ?t3"
  let ?t1 = "arg_atoms (oc_Src1 oc) (i_Src1 i) @ ?t2"
  let ?z = "zero_inst\<lparr>i_Number := i_Number i\<rparr>"
  let ?s = "inside m k ?z (expect_lit oc) (oc_Src1 oc = AtRegister) (oc_Src2 oc = AtRegister) (oc_Dest oc = AtRegister)"
  have "asm_atoms p (line_atoms oc i @ rest) (between m k) = asm_atoms (Some (alpha_atom (oc_Name oc))) ?t1 ?s"
    using assemble_opcode [OF oc k] by (simp add: line_atoms_def)
  also have "\<dots> = asm_atoms (Some blank_atom) rest (inside m k i False False False False)"
  proof -
    have b: "ucast (ucast b :: u32) = b" for b :: u8
      by (rule bit_eqI) (auto simp: bit_simps dest: bit_imp_possible_bit)
    have z: "oc_Src1 oc = AtNothing \<Longrightarrow> i_Src1 i = 0" "oc_Src2 oc = AtNothing \<Longrightarrow> i_Src2 i = 0" "oc_Dest oc = AtNothing \<Longrightarrow> i_Dest i = 0"
      "i_Crc i = 0"
      using ok oc by (simp_all add: listable_def)
    have i: "?z\<lparr>i_Src1 := i_Src1 i, i_Src2 := i_Src2 i, i_Dest := i_Dest i\<rparr> = i" using z(4) by (simp add: zero_inst_def)
    have z0: "?z\<lparr>i_Src1 := 0\<rparr> = ?z" "?z\<lparr>i_Src1 := v, i_Src2 := 0\<rparr> = ?z\<lparr>i_Src1 := v\<rparr>"
      "?z\<lparr>i_Src1 := v, i_Src2 := w, i_Dest := 0\<rparr> = ?z\<lparr>i_Src1 := v, i_Src2 := w\<rparr>" for v w
      by (simp_all add: zero_inst_def)
    let ?A = "\<lambda>p as s. asm_atoms p as s"
    have 1: "\<exists>p'. ?A p (arg_atoms (oc_Src1 oc) (i_Src1 i) @ as) (inside m k ?z (expect_lit oc) (oc_Src1 oc = AtRegister) b c)
      = ?A p' as (inside m k (?z\<lparr>i_Src1 := i_Src1 i\<rparr>) False False b c)" for p as b c
      by (cases "oc_Src1 oc") (auto simp: expect_lit_def assemble_operand [OF k] z(1) z0)
    have 2: "\<exists>p'. ?A p (arg_atoms (oc_Src2 oc) (ucast (i_Src2 i)) @ as) (inside m k (?z\<lparr>i_Src1 := v\<rparr>) False False (oc_Src2 oc = AtRegister) c)
      = ?A p' as (inside m k (?z\<lparr>i_Src1 := v, i_Src2 := i_Src2 i\<rparr>) False False False c)" for p as v c
      using opcode_name(5) [OF oc] by (auto simp: assemble_operand [OF k] z(2) z0 b)
    have 3: "\<exists>p'. ?A p (arg_atoms (oc_Dest oc) (ucast (i_Dest i)) @ as) (inside m k (?z\<lparr>i_Src1 := v, i_Src2 := w\<rparr>) False False False (oc_Dest oc = AtRegister))
      = ?A p' as (inside m k (?z\<lparr>i_Src1 := v, i_Src2 := w, i_Dest := i_Dest i\<rparr>) False False False False)" for p as v w
      using opcode_name(6) [OF oc] by (auto simp: assemble_operand [OF k] z(3) z0 b)
    have 4: "?A p (blank_atom # rest) (inside m k i False False False False) = ?A (Some blank_atom) rest (inside m k i False False False False)" for p
      by (simp add: assemble_operand [OF k])
    obtain p1 where "?A (Some (alpha_atom (oc_Name oc))) ?t1 ?s =
        ?A p1 ?t2 (inside m k (?z\<lparr>i_Src1 := i_Src1 i\<rparr>) False False (oc_Src2 oc = AtRegister) (oc_Dest oc = AtRegister))"
      using 1 by blast
    also obtain p2 where "\<dots> = ?A p2 ?t3 (inside m k (?z\<lparr>i_Src1 := i_Src1 i, i_Src2 := i_Src2 i\<rparr>) False False False (oc_Dest oc = AtRegister))"
      using 2 by blast
    also obtain p3 where "\<dots> = ?A p3 (blank_atom # rest) (inside m k i False False False False)" using 3 i by metis
    finally show ?thesis unfolding 4 .
  qed
  also have "inside m k i False False False False = between (m[k := i]) (k + 1)" by (simp add: state_defs)
  finally show ?thesis .
qed

lemma assemble_lines:
  assumes "list_all listable insts" and "length m = k + length insts"
  shows "asm_atoms p (concat (map (\<lambda>i. line_atoms (the (find_opcode (i_Number i) InstructionSet)) i) insts) @ [blank_atom]) (between m k)
    = Asm_ok (between (take k m @ insts) (k + length insts))"
  using assms
proof (induction insts arbitrary: m k p)
  case Nil
  then show ?case by (simp add: asm_atom_def state_defs ResetStacks_def)
next
  case (Cons i insts)
  obtain oc where oc: "find_opcode (i_Number i) InstructionSet = Some oc"
    using Cons.prems(1) by (auto simp: listable_def split: option.splits)
  have k: "k < length m" using Cons.prems(2) by simp
  have "take (Suc k) (m[k := i]) = take k m @ [i]" using k by (simp add: take_Suc_conv_app_nth)
  then show ?case
    using Cons.IH [of "m[k := i]" "k + 1"] Cons.prems assemble_line [OF oc _ k, of p] oc by simp
qed

lemma atoms_of_lines:
  "list_all listable insts \<Longrightarrow> atoms_of (concat (map (\<lambda>i. InstToStr i @ [newline]) insts)) =
     Asm_ok (concat (map (\<lambda>i. line_atoms (the (find_opcode (i_Number i) InstructionSet)) i) insts) @ [blank_atom], False)"
proof (induction insts)
  case Nil
  then show ?case by (simp add: atoms_of_lex lex_def)
next
  case (Cons i insts)
  obtain oc where oc: "find_opcode (i_Number i) InstructionSet = Some oc"
    using Cons.prems by (auto simp: listable_def split: option.splits)
  have a: "asm_append as (Asm_ok (bs, e)) = Asm_ok (as @ bs, e)" for as bs e by (induction as) (simp_all add: asm_cons_def)
  show ?case using Cons oc atoms_of_line [OF oc] by (simp add: a)
qed

text \<open>The listing holds no character that ends a source or a line.\<close>

lemma listed_chars:
  assumes "listable i"
  shows "c \<in> set (InstToStr i) \<Longrightarrow> word_char c \<or> c = CHR '' ''"
proof -
  obtain oc where oc: "find_opcode (i_Number i) InstructionSet = Some oc"
    using assms by (auto simp: listable_def split: option.splits)
  have x: "word_char (CHR ''0'')" "word_char (CHR ''x'')" by code_simp+
  have h: "c \<in> set (hex_field v) \<Longrightarrow> word_char c" for c v
    using x print_digits_chars [of 16 "uint v" c] by (auto simp: hex_field_def print_hex_def word_char_def digit_char_val split: if_splits)
  have a: "c \<in> set (arg_text t v) \<Longrightarrow> word_char c" if "t = AtRegister \<longrightarrow> unat v < 256" for t v c
    using that h register_name [of "unat v"] sint_reg [of v] by (cases t) (auto simp: arg_text_def list_all_iff)
  have "c \<in> set (oc_Name oc) \<Longrightarrow> word_char c" using opcode_name(3) [OF oc] by (simp add: list_all_iff)
  moreover have "c \<in> set (arg_text (oc_Src1 oc) (i_Src1 i)) \<Longrightarrow> word_char c" using assms oc by (intro a) (auto simp: listable_def)
  moreover have "c \<in> set (arg_text t (ucast b)) \<Longrightarrow> word_char c" for t and b :: u8 by (rule a) (simp_all add: byte_reg(1))
  ultimately show "c \<in> set (InstToStr i) \<Longrightarrow> word_char c \<or> c = CHR '' ''"
    by (auto simp: InstToStr_def oc pad_def TabTo_def Let_def)
qed

lemma listing_text:
  assumes "list_all listable insts"
  defines "file \<equiv> concat (map (\<lambda>i. InstToStr i @ [newline]) insts)"
  shows "takeWhile (\<lambda>c. c \<noteq> char_of (0 :: nat) \<and> c \<noteq> char_of (255 :: nat)) file = file" "length (filter (\<lambda>c. c = newline) file) = length insts"
    "insts \<noteq> [] \<Longrightarrow> 2 \<le> length file \<and> hd file \<noteq> CHR ''.''"
proof -
  have n: "\<not> word_char (char_of (0 :: nat))" "\<not> word_char (char_of (255 :: nat))" "\<not> word_char newline"
    "newline \<noteq> char_of (0 :: nat)" "newline \<noteq> char_of (255 :: nat)" "CHR '' '' \<noteq> char_of (0 :: nat)" "CHR '' '' \<noteq> char_of (255 :: nat)"
    "CHR '' '' \<noteq> newline" "\<not> word_char (CHR ''.'')"
    by code_simp+
  note l = assms(1) [unfolded list_all_iff, THEN bspec]
  have w: "i \<in> set insts \<Longrightarrow> c \<in> set (InstToStr i) \<Longrightarrow> word_char c \<or> c = CHR '' ''" for i c using listed_chars [OF l] by blast
  show "takeWhile (\<lambda>c. c \<noteq> char_of (0 :: nat) \<and> c \<noteq> char_of (255 :: nat)) file = file"
    unfolding takeWhile_eq_all_conv file_def using n by (auto dest!: w)
  show "length (filter (\<lambda>c. c = newline) file) = length insts"
    unfolding file_def using w n(3,8)
  proof (induction insts)
    case (Cons i insts)
    then have "filter (\<lambda>c. c = newline) (InstToStr i) = []" by (fastforce simp: filter_empty_conv)
    moreover have "length (filter (\<lambda>c. c = newline) (concat (map (\<lambda>i. InstToStr i @ [newline]) insts))) = length insts"
      using Cons.prems by (intro Cons.IH) auto
    ultimately show ?case by simp
  qed simp
  show "2 \<le> length file \<and> hd file \<noteq> CHR ''.''" if ne: "insts \<noteq> []"
  proof -
    obtain i js where js: "insts = i # js" using ne by (cases insts) auto
    obtain oc where oc: "find_opcode (i_Number i) InstructionSet = Some oc"
      using l [of i] js by (auto simp: listable_def split: option.splits)
    obtain c cs where c: "oc_Name oc = c # cs" using opcode_name(1) [OF oc] by (cases "oc_Name oc") auto
    have "hd (InstToStr i) = c" "InstToStr i \<noteq> []" using c by (simp_all add: InstToStr_def oc pad_def Let_def)
    moreover have "word_char c" using opcode_name(3) [OF oc] c by simp
    ultimately show ?thesis using js n(9) by (cases "InstToStr i") (auto simp: file_def)
  qed
qed

text \<open>
  C11: Assembling the listing of a program gives the program. Write the instructions of a program one per line as the emulator prints
  them, and give the text to the assembler: the object program is loaded at 0, holds exactly those instructions in order, and
  no error is counted. This holds for any known instructions without checksum whose registers are in range, with 0 in the fields they do
  not use and operands that do not run into each other in the listing: a register name ends before the next column, and a number that does not is followed by
  a register whose name does not begin with a hexadecimal digit. The load address of the program is not in the listing and comes back as 0.
\<close>

theorem assemble_listing:
  assumes "insts \<noteq> []" and "list_all listable insts" and "\<And>n. length (mem n) = n"
  shows "asm_main mem (concat (map (\<lambda>i. InstToStr i @ [newline]) insts)) =
    Asm_ok (\<lparr>pb_LoadAddress = 0, pb_InstructionCount = length insts, pb_Program = insts\<rparr>, 0)"
proof -
  let ?f = "concat (map (\<lambda>i. InstToStr i @ [newline]) insts)"
  let ?m = "mem (length insts)"
  note f = listing_text [OF assms(2)]
  have "get_atoms 1 (length ?f) ?f = atoms_of ?f" by (rule get_atoms_any_pos) simp
  moreover have "asm_start (?m[0 := zero_inst]) 0 = between (?m[0 := zero_inst]) 0" by (simp add: state_defs)
  moreover have "set_inst (\<lambda>_. zero_inst) (asm_start ?m 0) = Asm_ok (asm_start (?m[0 := zero_inst]) 0)"
    using assms(1,3) by (simp add: set_inst_def asm_start_def)
  ultimately have "Assemble (length ?f) ?f ?m = Asm_ok (between insts (length insts))"
    using f(3) [OF assms(1)] atoms_of_lines [OF assms(2)] assemble_lines [OF assms(2), of "?m[0 := zero_inst]" 0] assms(3)
    by (simp add: Assemble_def GetAtoms_def)
  then show ?thesis using f(3) [OF assms(1)] unfolding asm_main_def Let_def f(1,2) by (simp add: state_defs)
qed

theorem assemble_listing_witness:
  "asm_main (\<lambda>n. replicate n zero_inst) (concat (map (\<lambda>i. InstToStr i @ [newline]) [demo_inst, demo_inst\<lparr>i_Number := 0x66\<rparr>])) =
    Asm_ok (\<lparr>pb_LoadAddress = 0, pb_InstructionCount = length [demo_inst, demo_inst\<lparr>i_Number := 0x66\<rparr>],
      pb_Program = [demo_inst, demo_inst\<lparr>i_Number := 0x66\<rparr>]\<rparr>, 0)"
proof (rule assemble_listing)
  show "list_all listable [demo_inst, demo_inst\<lparr>i_Number := 0x66\<rparr>]" by code_simp
qed simp_all

text \<open>
  The last condition is needed. A wait for a full 32-bit value in a register whose name begins with E is listed without a blank between
  the two, and the assembler takes the E for a digit of the number, which overflows.
\<close>

definition full_column :: Instruction where
  "full_column = \<lparr>i_Dest = 0, i_Src2 = 213, i_Number = 0x91, i_Crc = 0, i_Src1 = 0x21350000\<rparr>"

lemma full_column_listing:
  "InstToStr full_column = ''WEQV    0x21350000EVIN          ''" "strtoul0 ''0x21350000EVIN          '' = (0xFFFFFFFF, ''VIN          '')"
  by code_simp+

section \<open>Forward references\<close>

text \<open>What the stack operations and the expressions leave as it is.\<close>

definition same_code :: "asm_state \<Rightarrow> asm_state \<Rightarrow> bool" where
  "same_code s t \<longleftrightarrow> as_prog t = as_prog s \<and> as_index t = as_index s \<and> as_inst t = as_inst s \<and> as_forward t = as_forward s
     \<and> ex_lit t = ex_lit s \<and> length (as_symbols t) = length (as_symbols s)"

lemma same_code_refl [simp]: "same_code s s"
  by (simp add: same_code_def)

lemma same_code_trans [trans]: "same_code s t \<Longrightarrow> same_code t u \<Longrightarrow> same_code s u"
  by (simp add: same_code_def)

lemma same_code_stack:
  "Error_asm s = Asm_ok t \<Longrightarrow> same_code s t"
  "PushOperand x s = Asm_ok t \<Longrightarrow> same_code s t"
  "PushOperator op s = Asm_ok t \<Longrightarrow> same_code s t"
  "PopOperand s = Asm_ok (y, t) \<Longrightarrow> same_code s t"
  "PopOperator s = Asm_ok (op', t) \<Longrightarrow> same_code s t"
  "same_code s (set_symbol i f s)"
  "same_code s (ResetStacks s)"
proof -
  show e: "Error_asm s = Asm_ok t \<Longrightarrow> same_code s t" for t by (auto simp: Error_asm_def same_code_def split: if_splits)
  show "PushOperand x s = Asm_ok t \<Longrightarrow> same_code s t" by (auto simp: PushOperand_def same_code_def split: if_splits)
  show "PushOperator op s = Asm_ok t \<Longrightarrow> same_code s t" by (auto simp: PushOperator_def same_code_def split: if_splits)
  show "PopOperand s = Asm_ok (y, t) \<Longrightarrow> same_code s t"
    by (auto simp: PopOperand_def same_code_def asm_bind_ok split: if_splits dest!: e)
  show "PopOperator s = Asm_ok (op', t) \<Longrightarrow> same_code s t"
    by (auto simp: PopOperator_def same_code_def asm_bind_ok split: if_splits dest!: e)
  show "same_code s (set_symbol i f s)" "same_code s (ResetStacks s)" by (simp_all add: set_symbol_def ResetStacks_def same_code_def)
qed

lemma same_code_pop_two: "pop_two s = Asm_ok (y, t) \<Longrightarrow> same_code s t"
  by (auto simp: pop_two_def asm_bind_ok split: option.split_asm dest!: same_code_stack(4) intro: same_code_trans)

lemma same_code_set_symbol: "same_code (set_symbol i f s) t \<Longrightarrow> same_code s t"
  by (rule same_code_trans [OF same_code_stack(6)])

lemma same_code_do:
  "do_binary op s = Asm_ok (r, t) \<Longrightarrow> same_code s t"
  "do_unary g s = Asm_ok (r, t) \<Longrightarrow> same_code s t"
  "do_step d s = Asm_ok (r, t) \<Longrightarrow> same_code s t"
  "do_assign s = Asm_ok (r, t) \<Longrightarrow> same_code s t"
  unfolding do_binary_def do_unary_def do_step_def do_assign_def Let_def
  by (auto split: option.split_asm elim!: asm_bind_okE dest!: same_code_stack(1,2,4) same_code_pop_two same_code_set_symbol
      intro: same_code_trans)

lemma same_code_operator: "do_operator op s = Asm_ok (r, t) \<Longrightarrow> same_code s t"
  unfolding do_operator_def
  by (cases op) (auto simp: asm_bind_ok split: if_splits dest: same_code_do same_code_stack(4))

lemma same_code_expression: "DoExpression s = Asm_ok (v, t) \<Longrightarrow> same_code s t"
proof (induction s arbitrary: t rule: DoExpression.induct)
  case (1 s)
  obtain x u where pop: "PopOperator s = Asm_ok (x, u)" using 1(2) by (cases "PopOperator s") (auto simp: DoExpression.simps [of s])
  note su = same_code_stack(5) [OF pop]
  show ?case
  proof (cases x)
    case None
    then show ?thesis using 1(2) pop su by (simp add: DoExpression.simps [of s])
  next
    case (Some y)
    obtain r w where d: "do_operator y u = Asm_ok (r, w)"
      using 1(2) pop Some by (cases "do_operator y u") (auto simp: DoExpression.simps [of s])
    note uw = same_code_trans [OF su same_code_operator [OF d]]
    show ?thesis
    proof (cases r)
      case None
      have "same_code w t"
        using 1(2) pop Some d None by (intro 1(1) [OF pop refl Some d refl None]) (simp add: DoExpression.simps [of s])
      with uw show ?thesis by (rule same_code_trans)
    qed (use 1(2) pop Some d uw in \<open>simp add: DoExpression.simps [of s]\<close>)
  qed
qed

text \<open>
  The forward references are of different instructions that are there, to symbols that are there; the instruction whose operand is
  still expected has none.
\<close>

definition forward_inv :: "asm_state \<Rightarrow> bool" where
  "forward_inv s \<longleftrightarrow> distinct (map fst (as_forward s))
     \<and> (\<forall>k i. (k, i) \<in> set (as_forward s) \<longrightarrow> k < as_index s \<and> k < length (as_prog s) \<and> i < length (as_symbols s))
     \<and> (ex_lit s \<longrightarrow> as_inst s < as_index s \<and> (\<forall>i. (as_inst s, i) \<notin> set (as_forward s)))"

lemma forward_inv_same: "same_code s t \<Longrightarrow> forward_inv s \<Longrightarrow> forward_inv t"
  by (simp add: same_code_def forward_inv_def)

lemma forward_inv_clear: "forward_inv s \<Longrightarrow> forward_inv (s\<lparr>ex_lit := False\<rparr>)"
  by (auto simp: forward_inv_def)

lemma set_inst_ok: "set_inst f s = Asm_ok t \<longleftrightarrow> as_inst s < length (as_prog s) \<and> t = s\<lparr>as_prog := (as_prog s)[as_inst s := f (as_prog s ! as_inst s)]\<rparr>"
  by (auto simp: set_inst_def)

lemma get_symbol_code:
  assumes "GetSymbol n s = Asm_ok (i, t)"
  shows "i < length (as_symbols t)" "length (as_symbols s) \<le> length (as_symbols t)" "as_prog t = as_prog s" "as_index t = as_index s"
    "as_inst t = as_inst s" "as_forward t = as_forward s" "ex_lit t = ex_lit s"
proof -
  have si: "symbol_index n xs k = Some j \<Longrightarrow> k \<le> j \<and> j < k + length xs" for xs k j
    by (induction xs arbitrary: k) (fastforce split: if_splits)+
  show "i < length (as_symbols t)" "length (as_symbols s) \<le> length (as_symbols t)" "as_prog t = as_prog s" "as_index t = as_index s"
    "as_inst t = as_inst s" "as_forward t = as_forward s" "ex_lit t = ex_lit s"
    using assms by (auto simp: GetSymbol_def split: option.split_asm if_split_asm dest: si)
qed

lemma forward_inv_get_symbol: "GetSymbol n s = Asm_ok (i, t) \<Longrightarrow> forward_inv s \<Longrightarrow> forward_inv t"
  using get_symbol_code [of n s i t] by (fastforce simp: forward_inv_def)

lemma forward_inv_label:
  assumes "asm_label p s = Asm_ok t" and "forward_inv s"
  shows "forward_inv t"
proof -
  have "forward_inv u \<Longrightarrow> forward_inv (u\<lparr>as_pc := v, as_load := v\<rparr>)" for u v by (simp add: forward_inv_def)
  then show ?thesis
    using assms
    by (auto simp: asm_label_def Let_def split: option.split_asm if_split_asm elim!: asm_bind_okE dest!: forward_inv_get_symbol
        intro!: forward_inv_same [OF same_code_stack(6)] intro: forward_inv_same [OF same_code_stack(1)])
qed

lemma forward_inv_symbol:
  assumes "asm_symbol n s = Asm_ok t" and "forward_inv s"
  shows "forward_inv t"
proof -
  obtain i u where g: "GetSymbol n s = Asm_ok (i, u)" using assms(1) by (cases "GetSymbol n s") (auto simp: asm_symbol_def)
  note iu = forward_inv_get_symbol [OF g assms(2)]
  show ?thesis
  proof (cases "ex_lit u")
    case True
    then show ?thesis
      using assms(1) g iu get_symbol_code(1) [OF g]
      by (auto simp: asm_symbol_def Let_def set_src1_def asm_bind_ok set_inst_ok forward_inv_def split: if_split_asm)
  next
    case False
    then show ?thesis using assms(1) g iu by (auto simp: asm_symbol_def Let_def intro: forward_inv_same [OF same_code_stack(2)])
  qed
qed

lemma forward_inv_opcode:
  assumes "asm_opcode as s = Asm_ok t" and "forward_inv s"
  shows "forward_inv t"
proof -
  let ?k = "as_index s"
  obtain u where u: "?k < length (as_prog s)" and g: "GetConfirm as (InstructionSet ! unat (at_Value (hd as)))
      (s\<lparr>as_inst := ?k, as_prog := (as_prog s)[?k := zero_inst]\<rparr>) = Asm_ok u"
    and t: "\<exists>f. t = u\<lparr>as_prog := (as_prog u)[as_inst u := f], as_pc := as_pc u + 1, as_index := as_index u + 1, as_count := as_index u + 1\<rparr>"
    using assms(1) by (auto simp: asm_opcode_def Let_def asm_bind_ok set_inst_ok)
  have "as_prog u = (as_prog s)[?k := zero_inst] \<and> as_index u = ?k \<and> as_inst u = ?k \<and> as_forward u = as_forward s \<and> as_symbols u = as_symbols s"
    using g by (auto simp: GetConfirm_def Let_def Error_asm_def split: if_split_asm)
  then show ?thesis using t u assms(2) by (fastforce simp: forward_inv_def)
qed

lemma forward_inv_register: "asm_register v s = Asm_ok t \<Longrightarrow> forward_inv s \<Longrightarrow> forward_inv t"
  by (auto simp: asm_register_def asm_bind_ok set_inst_ok forward_inv_def split: if_split_asm)

lemma forward_inv_set_src1: "set_src1 v s = Asm_ok t \<Longrightarrow> forward_inv s \<Longrightarrow> forward_inv t"
  by (auto simp: set_src1_def asm_bind_ok set_inst_ok forward_inv_def)

lemma forward_inv_atom:
  assumes "asm_atom p as s = Asm_ok t" and "forward_inv s"
  shows "forward_inv t"
proof -
  have seps: "forward_inv (ResetStacks s)" by (rule forward_inv_same [OF same_code_stack(7) assms(2)])
  have e: "DoExpression s = Asm_ok (v, u) \<Longrightarrow> set_src1 v u = Asm_ok t \<Longrightarrow> forward_inv t" for v u
    using forward_inv_set_src1 forward_inv_same [OF same_code_expression assms(2)] by blast
  show ?thesis
    using assms seps
    by (cases "at_Type (hd as)")
      (auto simp: asm_atom_def Let_def asm_bind_ok split: if_split_asm
        intro: forward_inv_set_src1 forward_inv_symbol forward_inv_label forward_inv_opcode forward_inv_register e
          forward_inv_same [OF same_code_stack(1)] forward_inv_same [OF same_code_stack(2)] forward_inv_same [OF same_code_stack(3)]
        intro!: forward_inv_clear)
qed

lemma forward_inv_atoms: "asm_atoms p as s = Asm_ok t \<Longrightarrow> forward_inv s \<Longrightarrow> forward_inv t"
  by (induction p as s rule: asm_atoms.induct) (auto simp: asm_bind_ok dest: forward_inv_atom)

lemma forward_inv_assemble:
  assumes "Assemble sz src mem = Asm_ok s"
  shows "forward_inv s"
proof -
  have "forward_inv ((asm_start mem e)\<lparr>as_prog := m\<rparr>)" for e m by (simp add: forward_inv_def asm_start_def)
  then show ?thesis
    using assms by (auto simp: Assemble_def asm_bind_ok set_inst_ok split: option.split_asm dest: forward_inv_atoms)
qed

lemma fold_fix_forward:
  assumes "distinct (map fst fs)" and "\<And>k i. (k, i) \<in> set fs \<Longrightarrow> k < length prog"
  shows "length (fold (fix_forward syms) fs prog) = length prog"
    and "(k, i) \<in> set fs \<Longrightarrow> fold (fix_forward syms) fs prog ! k = (prog ! k)\<lparr>i_Src1 := sy_Value (syms ! i)\<rparr>"
    and "(\<And>i. (k, i) \<notin> set fs) \<Longrightarrow> fold (fix_forward syms) fs prog ! k = prog ! k"
proof -
  show len: "length (fold (fix_forward syms) fs prog) = length prog" for fs prog
    by (induction fs arbitrary: prog) (simp_all add: fix_forward_def)
  show other: "(\<And>i. (k, i) \<notin> set fs) \<Longrightarrow> fold (fix_forward syms) fs prog ! k = prog ! k" for fs prog
  proof (induction fs arbitrary: prog)
    case (Cons f fs)
    have "fst f \<noteq> k" using Cons.prems [of "snd f"] by auto
    then show ?case using Cons.IH Cons.prems by (simp add: fix_forward_def)
  qed simp
  show "(k, i) \<in> set fs \<Longrightarrow> fold (fix_forward syms) fs prog ! k = (prog ! k)\<lparr>i_Src1 := sy_Value (syms ! i)\<rparr>"
    using assms
  proof (induction fs arbitrary: prog)
    case (Cons f fs)
    show ?case
    proof (cases "f = (k, i)")
      case True
      have "(k, j) \<notin> set fs" for j using Cons.prems(2) True by force
      moreover have "fix_forward syms f prog ! k = (prog ! k)\<lparr>i_Src1 := sy_Value (syms ! i)\<rparr>"
        using True Cons.prems(3) [of k i] by (simp add: fix_forward_def)
      ultimately show ?thesis using other [of fs] by simp
    next
      case False
      then have m: "(k, i) \<in> set fs" using Cons.prems(1) by simp
      then have "k \<in> fst ` set fs" by force
      then have "fst f \<noteq> k" using Cons.prems(2) by auto
      then have "fix_forward syms f prog ! k = prog ! k" by (simp add: fix_forward_def)
      moreover have "fold (fix_forward syms) fs (fix_forward syms f prog) ! k = (fix_forward syms f prog ! k)\<lparr>i_Src1 := sy_Value (syms ! i)\<rparr>"
        using Cons.prems by (intro Cons.IH m) (auto simp: fix_forward_def)
      ultimately show ?thesis by simp
    qed
  qed simp
qed


definition demo_source :: string where
  "demo_source = ''JMP X'' @ [newline] @ ''X: HALT'' @ [newline]"

definition demo_atoms :: "Atom list" where
  "demo_atoms = [blank_atom\<lparr>at_Type := Op_code, at_Text := Some ''JMP'', at_Value := 28\<rparr>, blank_atom\<lparr>at_Type := Alpha, at_Text := Some ''X''\<rparr>,
     blank_atom, blank_atom\<lparr>at_Type := Alpha, at_Text := Some ''X''\<rparr>, blank_atom\<lparr>at_Type := Operator, at_Text := Some '':'', at_Opr := OprLBL\<rparr>,
     blank_atom\<lparr>at_Type := Op_code, at_Text := Some ''HALT''\<rparr>, blank_atom, blank_atom]"

lemma demo_atoms: "GetAtoms (length demo_source) demo_source = Some (Asm_ok (demo_atoms, False))"
  by code_simp

definition demo_end :: asm_state where
  "demo_end = (asm_start [zero_inst\<lparr>i_Number := 0x85\<rparr>, zero_inst] 0)
     \<lparr>as_count := 2, as_pc := 2, as_index := 2, as_inst := 1, as_symbols := [\<lparr>sy_Name = ''X'', sy_Value = 1, sy_Defined = True\<rparr>],
      as_operands := (replicate 64 (literal 0))[0 := \<lparr>op_Sym = Some 0, op_Lit = 0\<rparr>], as_forward := [(0, 0)]\<rparr>"

lemma demo_assembled: "Assemble (length demo_source) demo_source (replicate 2 zero_inst) = Asm_ok demo_end"
  unfolding Assemble_def demo_atoms by code_simp


section \<open>Expressions in parentheses\<close>

text \<open>
  An expression in parentheses gives its right operand. When the closing parenthesis evaluates two operands \<open>l\<close> and \<open>r\<close> with an operator
  that is defined on them, the value it writes into the instruction is \<open>r\<close>, and not the value of the operation, which is left on
  the stack of operands: the entry that is read is the one above the top of the stack, where \<open>r\<close> still is.
\<close>

lemma parentheses_give_right_operand:
  assumes "as_operators s ! n = OprSTM" and "as_operators s ! Suc n = op" and "as_noperators s = Suc (Suc n)"
    and "as_operands s ! m = literal l" and "as_operands s ! Suc m = literal r" and "as_noperands s = Suc (Suc m)"
    and "length (as_operands s) = OPERAND_STACK" and "Suc m < OPERAND_STACK"
    and "binary_op op l r = Some v"
  shows "DoExpression s = Asm_ok (r, s\<lparr>as_operands := (as_operands s)[m := literal v], as_noperands := Suc m, as_noperators := n\<rparr>)"
proof -
  let ?s1 = "s\<lparr>as_noperators := Suc n\<rparr>"
  let ?s2 = "s\<lparr>as_operands := (as_operands s)[m := literal v], as_noperands := Suc m, as_noperators := Suc n\<rparr>"
  have "do_operator op ?s1 = do_binary op ?s1" using assms(9) by (cases op) (simp_all add: do_operator_def binary_op_def)
  also have "\<dots> = Asm_ok (None, ?s2)"
    using assms by (simp add: do_binary_def pop_two_def PopOperand_def PushOperand_def GetValue_def literal_def)
  finally have "DoExpression s = DoExpression ?s2"
    using assms(2,3) by (subst DoExpression.simps) (simp add: PopOperator_def)
  also have "\<dots> = Asm_ok (r, ?s2\<lparr>as_noperators := n\<rparr>)"
    using assms by (subst DoExpression.simps) (simp add: PopOperator_def do_operator_def literal_def)
  finally show ?thesis by simp
qed

definition paren_state :: asm_state where
  "paren_state = (asm_start [zero_inst] 0)
     \<lparr>as_operands := (replicate 64 (literal 0))[0 := literal 2, 1 := literal 3], as_noperands := 2,
      as_operators := (replicate 32 OprNOOP)[0 := OprSTM, 1 := OprPL], as_noperators := 2\<rparr>"

lemma parentheses_give_right_operand_example:
  "\<exists>t. DoExpression paren_state = Asm_ok (3, t) \<and> as_operands t ! 0 = literal 5"
proof -
  have "binary_op OprPL 2 3 = Some 5" by (simp add: binary_op_def)
  from parentheses_give_right_operand [of paren_state 0 OprPL 0 2 3, OF _ _ _ _ _ _ _ _ this] show ?thesis
    by (simp add: paren_state_def asm_start_def)
qed

end
