(* ===== verification/Cvorg_Card.thy ===== *)
theory Cvorg_Card
  imports HT_Prelude "HOL-Library.State_Monad" "HOL-Library.Signed_Division"
begin

text \<open>
  The CVORG waveform generator as its driver sees it: the data of \<open>cvorg_priv.h\<close>, \<open>cvorg.h\<close> and \<open>ad9516.h\<close>, and the
  access functions of \<open>cvorg_priv.h\<close> on the registers that \<open>cvorg_hw.h\<close> describes.

  The card is part of the state. A register that \<open>cvorg_hw.h\<close> calls readable and writable is storage; the data register of the SRAM
  reads and writes the word the address register points to, which moves on; a command register records the commands; the
  clock register sends a frame to the AD9516, whose registers are storage, too. What the card answers by itself (the read-only registers, whether a
  frame has gone through, what a reset leaves in the registers) is the argument \<open>io\<close>. Operations are written in the state monad.
\<close>

section \<open>Data\<close>

datatype cvorg_inpol = CVORG_POSITIVE_PULSE | CVORG_NEGATIVE_PULSE

datatype cvorg_outoff = CVORG_OUT_OFFSET_0V | CVORG_OUT_OFFSET_2_5V

record cvorg_channel =
  cc_inpol :: cvorg_inpol
  cc_outoff :: cvorg_outoff
  cc_outgain :: int
  cc_reg_offset :: u32
  cc_out_enabled :: bool

text \<open>The members are C integers; a divider of 0 is bypassed.\<close>

record ad9516_pll =
  pll_a :: int
  pll_b :: int
  pll_p :: int
  pll_r :: int
  pll_dvco :: int
  pll_d1 :: int
  pll_d2 :: int
  pll_external :: bool

text \<open>
  A module and its card. The owner is an open file. The SRAM of a channel is addressed by the channel's register offset and the number of the
  32-bit word; \<open>cd_reads\<close> counts the accesses that read, \<open>cd_cmds\<close> lists the commands written, \<open>cd_ticks\<close> counts the ticks of 10 ms slept.
\<close>

record cvorg =
  cv_hw_rev :: u32
  cv_owner :: "nat option"
  cv_pll :: ad9516_pll
  cv_channels :: "cvorg_channel list"
  cd_regs :: "u32 \<Rightarrow> u32"
  cd_sram :: "u32 \<Rightarrow> nat \<Rightarrow> u32"
  cd_spi :: "u32 \<Rightarrow> u8"
  cd_spi_addr :: u32
  cd_reads :: nat
  cd_cmds :: "(u32 \<times> u32) list"
  cd_ticks :: int

record cvorg_io =
  io_reg :: "nat \<Rightarrow> u32 \<Rightarrow> u32"
  io_spi_done :: "nat \<Rightarrow> bool"
  io_readback :: "nat \<Rightarrow> u8"
  io_reset :: "(u32 \<Rightarrow> u32) \<Rightarrow> u32 \<Rightarrow> u32"
  io_le :: bool

section \<open>Registers\<close>

abbreviation (input) CVORG_INTSR :: u32 where "CVORG_INTSR \<equiv> 0x000"
abbreviation (input) CVORG_INTEN :: u32 where "CVORG_INTEN \<equiv> 0x004"
abbreviation (input) CVORG_INTLEVEL :: u32 where "CVORG_INTLEVEL \<equiv> 0x008"
abbreviation (input) CVORG_INTVECT :: u32 where "CVORG_INTVECT \<equiv> 0x00c"
abbreviation (input) CVORG_VERSION :: u32 where "CVORG_VERSION \<equiv> 0x010"
abbreviation (input) CVORG_PCB_MSB :: u32 where "CVORG_PCB_MSB \<equiv> 0x014"
abbreviation (input) CVORG_PCB_LSB :: u32 where "CVORG_PCB_LSB \<equiv> 0x018"
abbreviation (input) CVORG_TEMP :: u32 where "CVORG_TEMP \<equiv> 0x01c"
abbreviation (input) CVORG_ADCVAL :: u32 where "CVORG_ADCVAL \<equiv> 0x020"
abbreviation (input) CVORG_CTL :: u32 where "CVORG_CTL \<equiv> 0x024"
abbreviation (input) CVORG_SAMPFREQ :: u32 where "CVORG_SAMPFREQ \<equiv> 0x028"
abbreviation (input) CVORG_CLKCTL :: u32 where "CVORG_CLKCTL \<equiv> 0x02c"
abbreviation (input) CVORG_STATUS :: u32 where "CVORG_STATUS \<equiv> 0x040"
abbreviation (input) CVORG_CONFIG :: u32 where "CVORG_CONFIG \<equiv> 0x044"
abbreviation (input) CVORG_DACVAL :: u32 where "CVORG_DACVAL \<equiv> 0x048"
abbreviation (input) CVORG_SRAMADDR :: u32 where "CVORG_SRAMADDR \<equiv> 0x04c"
abbreviation (input) CVORG_SRAMDATA :: u32 where "CVORG_SRAMDATA \<equiv> 0x050"
abbreviation (input) CVORG_SEQNR :: u32 where "CVORG_SEQNR \<equiv> 0x058"
abbreviation (input) CVORG_DACCORR :: u32 where "CVORG_DACCORR \<equiv> 0x05c"

abbreviation (input) CVORG_CLKCTL_UP2DATE :: u32 where "CVORG_CLKCTL_UP2DATE \<equiv> 0x00100000"
abbreviation (input) CVORG_CLKCTL_ADDR :: u32 where "CVORG_CLKCTL_ADDR \<equiv> 0x0003ff00"
abbreviation (input) CVORG_CTL_CHAN_RESET :: u32 where "CVORG_CTL_CHAN_RESET \<equiv> 0x001"
abbreviation (input) CVORG_CTL_READADC :: u32 where "CVORG_CTL_READADC \<equiv> 0x002"
abbreviation (input) CVORG_CTL_ERR_CLEAR :: u32 where "CVORG_CTL_ERR_CLEAR \<equiv> 0x004"
abbreviation (input) CVORG_CTL_FPGA_RESET :: u32 where "CVORG_CTL_FPGA_RESET \<equiv> 0x008"
abbreviation (input) CVORG_CTL_CHAN_START :: u32 where "CVORG_CTL_CHAN_START \<equiv> 0x010"
abbreviation (input) CVORG_CTL_CHAN_STOP :: u32 where "CVORG_CTL_CHAN_STOP \<equiv> 0x020"
abbreviation (input) CVORG_CTL_CHAN_EVSTOP :: u32 where "CVORG_CTL_CHAN_EVSTOP \<equiv> 0x080"
abbreviation (input) CVORG_CTL_CHAN_LOADSEQ :: u32 where "CVORG_CTL_CHAN_LOADSEQ \<equiv> 0x100"

abbreviation (input) AD9516_PLLREADBACK :: u32 where "AD9516_PLLREADBACK \<equiv> 0x1f"

text \<open>The register an offset names within its channel, and the offset of the channel.\<close>

definition reg_of :: "u32 \<Rightarrow> u32" where
  "reg_of off = off AND 0x1ff"

definition chan_of :: "u32 \<Rightarrow> u32" where
  "chan_of off = off AND 0x200"

definition read_only :: "u32 \<Rightarrow> bool" where
  "read_only r \<longleftrightarrow> r \<in> {CVORG_INTSR, CVORG_VERSION, CVORG_PCB_MSB, CVORG_PCB_LSB, CVORG_TEMP, CVORG_ADCVAL, CVORG_SAMPFREQ, CVORG_STATUS}"

definition sram_index :: "u32 \<Rightarrow> nat" where
  "sram_index a = unat a div 4"

text \<open>What the card does when a register is written, with the value as it arrives at the card.\<close>

definition card_write :: "cvorg_io \<Rightarrow> u32 \<Rightarrow> u32 \<Rightarrow> cvorg \<Rightarrow> cvorg" where
  "card_write io off v c =
     (let r = reg_of off; ch = chan_of off; a = ch + CVORG_SRAMADDR
      in if r = CVORG_CTL
         then c\<lparr>cd_cmds := cd_cmds c @ [(ch, v)],
                cd_regs := (if v AND (CVORG_CTL_CHAN_RESET OR CVORG_CTL_FPGA_RESET) \<noteq> 0 then io_reset io (cd_regs c) else cd_regs c)\<rparr>
         else if r = CVORG_SRAMDATA
         then c\<lparr>cd_sram := (cd_sram c)(ch := (cd_sram c ch)(sram_index (cd_regs c a) := v)), cd_regs := (cd_regs c)(a := cd_regs c a + 4)\<rparr>
         else if off = CVORG_CLKCTL
         then (let x = drop_bit 8 (v AND CVORG_CLKCTL_ADDR)
               in if bit v 18 then c\<lparr>cd_spi_addr := x\<rparr> else c\<lparr>cd_spi_addr := x, cd_spi := (cd_spi c)(x := ucast v)\<rparr>)
         else c\<lparr>cd_regs := (cd_regs c)(off := v)\<rparr>)"

text \<open>What the card answers when a register is read: the value, and the card after the access.\<close>

definition card_read :: "cvorg_io \<Rightarrow> u32 \<Rightarrow> cvorg \<Rightarrow> u32 \<times> cvorg" where
  "card_read io off c =
     (let n = cd_reads c; c' = c\<lparr>cd_reads := n + 1\<rparr>; ch = chan_of off; a = ch + CVORG_SRAMADDR
      in if read_only (reg_of off) then (io_reg io n off, c')
         else if reg_of off = CVORG_SRAMDATA
         then (cd_sram c ch (sram_index (cd_regs c a)), c'\<lparr>cd_regs := (cd_regs c)(a := cd_regs c a + 4)\<rparr>)
         else if off = CVORG_CLKCTL
         then (if io_spi_done io n then CVORG_CLKCTL_UP2DATE OR push_bit 8 (cd_spi_addr c)
                 OR ucast (if cd_spi_addr c = AD9516_PLLREADBACK then io_readback io n else cd_spi c (cd_spi_addr c))
               else io_reg io n off AND NOT CVORG_CLKCTL_UP2DATE, c')
         else (cd_regs c off, c'))"

section \<open>Access functions\<close>

definition cvorg_readw :: "cvorg_io \<Rightarrow> u32 \<Rightarrow> (cvorg, u32) state" where
  "cvorg_readw io off = State (card_read io off)"

definition cvorg_writew :: "cvorg_io \<Rightarrow> u32 \<Rightarrow> u32 \<Rightarrow> (cvorg, unit) state" where
  "cvorg_writew io off v = State (\<lambda>c. ((), card_write io off v c))"

text \<open>A member of the module or of a channel.\<close>

definition gets :: "('s \<Rightarrow> 'a) \<Rightarrow> ('s, 'a) state" where
  "gets f = State (\<lambda>s. (f s, s))"

definition modify :: "('s \<Rightarrow> 's) \<Rightarrow> ('s, unit) state" where
  "modify f = State (\<lambda>s. ((), f s))"

definition channel :: "nat \<Rightarrow> (cvorg, cvorg_channel) state" where
  "channel k = gets (\<lambda>c. cv_channels c ! k)"

definition set_channel :: "nat \<Rightarrow> (cvorg_channel \<Rightarrow> cvorg_channel) \<Rightarrow> (cvorg, unit) state" where
  "set_channel k f = modify (\<lambda>c. c\<lparr>cv_channels := (cv_channels c)[k := f (cv_channels c ! k)]\<rparr>)"

definition cvorg_rchan :: "cvorg_io \<Rightarrow> nat \<Rightarrow> u32 \<Rightarrow> (cvorg, u32) state" where
  "cvorg_rchan io k off = do { ch \<leftarrow> channel k; cvorg_readw io (cc_reg_offset ch + off) }"

definition cvorg_wchan :: "cvorg_io \<Rightarrow> nat \<Rightarrow> u32 \<Rightarrow> u32 \<Rightarrow> (cvorg, unit) state" where
  "cvorg_wchan io k off v = do { ch \<leftarrow> channel k; cvorg_writew io (cc_reg_offset ch + off) v }"

definition cvorg_ochan :: "cvorg_io \<Rightarrow> nat \<Rightarrow> u32 \<Rightarrow> u32 \<Rightarrow> (cvorg, unit) state" where
  "cvorg_ochan io k off v = do { regval \<leftarrow> cvorg_rchan io k off; cvorg_wchan io k off (regval OR v) }"

definition cvorg_achan :: "cvorg_io \<Rightarrow> nat \<Rightarrow> u32 \<Rightarrow> u32 \<Rightarrow> (cvorg, unit) state" where
  "cvorg_achan io k off v = do { regval \<leftarrow> cvorg_rchan io k off; cvorg_wchan io k off (regval AND v) }"

definition cvorg_uchan :: "cvorg_io \<Rightarrow> nat \<Rightarrow> u32 \<Rightarrow> u32 \<Rightarrow> u32 \<Rightarrow> (cvorg, unit) state" where
  "cvorg_uchan io k off v m = do { _ \<leftarrow> cvorg_achan io k off (NOT m); cvorg_ochan io k off v }"

text \<open>Accesses without a byte swap: a little-endian processor hands the card the bytes in the other order.\<close>

definition cvorg_wchan_noswap :: "cvorg_io \<Rightarrow> nat \<Rightarrow> u32 \<Rightarrow> u32 \<Rightarrow> (cvorg, unit) state" where
  "cvorg_wchan_noswap io k off v = cvorg_wchan io k off (be32_to_cpu (io_le io) v)"

definition cvorg_rchan_noswap :: "cvorg_io \<Rightarrow> nat \<Rightarrow> u32 \<Rightarrow> (cvorg, u32) state" where
  "cvorg_rchan_noswap io k off = do { v \<leftarrow> cvorg_rchan io k off; State_Monad.return (cpu_to_be32 (io_le io) v) }"

text \<open>The kernel's sleep for a number of ticks.\<close>

definition tswait :: "int \<Rightarrow> (cvorg, unit) state" where
  "tswait n = modify (\<lambda>c. c\<lparr>cd_ticks := cd_ticks c + n\<rparr>)"

text \<open>Who may change the module.\<close>

definition cvorg_check_perm :: "cvorg \<Rightarrow> nat \<Rightarrow> bool" where
  "cvorg_check_perm c f \<longleftrightarrow> (case cv_owner c of None \<Rightarrow> False | Some g \<Rightarrow> g \<noteq> f)"

end
