(* ===== verification/Cvorg_Clkgen.thy ===== *)
theory Cvorg_Clkgen
  imports Cvorg_Card
begin

text \<open>
  The control of the AD9516 clock generator (\<open>src/cvorg/driver/clkgen.c\<close>): frames over the serial interface, the dividers of the
  PLL as they are written to and read from the registers, and the programming of a whole configuration.
\<close>

section \<open>The serial interface\<close>

abbreviation (input) CVORG_AD9516_OP_WRITE :: u32 where "CVORG_AD9516_OP_WRITE \<equiv> 0x70080000"
abbreviation (input) CVORG_AD9516_OP_READ :: u32 where "CVORG_AD9516_OP_READ \<equiv> 0x700c0000"

definition clkgen_ok :: "u32 \<Rightarrow> u32 \<Rightarrow> bool" where
  "clkgen_ok rval addr \<longleftrightarrow> rval AND CVORG_CLKCTL_UP2DATE \<noteq> 0 \<and> drop_bit 8 (rval AND CVORG_CLKCTL_ADDR) = addr"

fun rval_tries :: "cvorg_io \<Rightarrow> u32 \<Rightarrow> nat \<Rightarrow> u32 \<Rightarrow> (cvorg, u32) state" where
  "rval_tries io addr 0 v = State_Monad.return v"
| "rval_tries io addr (Suc n) v =
     do { v \<leftarrow> cvorg_readw io CVORG_CLKCTL; if clkgen_ok v addr then State_Monad.return v else rval_tries io addr n v }"

definition clkgen_rval :: "cvorg_io \<Rightarrow> u32 \<Rightarrow> (cvorg, u32) state" where
  "clkgen_rval io addr =
     do { _ \<leftarrow> cvorg_writew io CVORG_CLKCTL (CVORG_AD9516_OP_READ OR push_bit 8 addr); rval_tries io addr 3 0 }"

definition clkgen_rd :: "cvorg_io \<Rightarrow> u32 \<Rightarrow> (cvorg, u32) state" where
  "clkgen_rd io addr = do { rval \<leftarrow> clkgen_rval io addr; State_Monad.return (rval AND 0xff) }"

fun check_tries :: "cvorg_io \<Rightarrow> nat \<Rightarrow> (cvorg, bool) state" where
  "check_tries io 0 = State_Monad.return False"
| "check_tries io (Suc n) =
     do { v \<leftarrow> cvorg_readw io CVORG_CLKCTL; if v AND CVORG_CLKCTL_UP2DATE \<noteq> 0 then State_Monad.return True else check_tries io n }"

definition clkgen_check_write :: "cvorg_io \<Rightarrow> (cvorg, bool) state" where
  "clkgen_check_write io = check_tries io 10"

text \<open>A write that does not go through in time is only reported on the console.\<close>

definition clkgen_wr :: "cvorg_io \<Rightarrow> u32 \<Rightarrow> u8 \<Rightarrow> (cvorg, unit) state" where
  "clkgen_wr io addr data =
     do { _ \<leftarrow> cvorg_writew io CVORG_CLKCTL (CVORG_AD9516_OP_WRITE OR push_bit 8 addr OR ucast data);
          _ \<leftarrow> clkgen_check_write io; State_Monad.return () }"

definition clkgen_or :: "cvorg_io \<Rightarrow> u32 \<Rightarrow> u8 \<Rightarrow> (cvorg, unit) state" where
  "clkgen_or io addr data = do { oldval \<leftarrow> clkgen_rd io addr; clkgen_wr io addr (ucast (oldval AND 0xff) OR data) }"

definition clkgen_and :: "cvorg_io \<Rightarrow> u32 \<Rightarrow> u8 \<Rightarrow> (cvorg, unit) state" where
  "clkgen_and io addr data = do { oldval \<leftarrow> clkgen_rd io addr; clkgen_wr io addr (ucast (oldval AND 0xff) AND data) }"

section \<open>Calibration\<close>

abbreviation (input) CVORG_AD9516_CALIB_DIVIDER :: int where "CVORG_AD9516_CALIB_DIVIDER \<equiv> 2"
abbreviation (input) AD9516_OSCILLATOR_FREQ :: int where "AD9516_OSCILLATOR_FREQ \<equiv> 40000000"

text \<open>\<open>x / y + !!(x % y)\<close>.\<close>

definition div_up :: "int \<Rightarrow> int \<Rightarrow> int" where
  "div_up x y = x sdiv y + (if x smod y \<noteq> 0 then 1 else 0)"

definition calib_ticks :: "int \<Rightarrow> int \<Rightarrow> int" where
  "calib_ticks r freqref =
     (let freqref = div_up freqref 1000; interval = 4400 * r * CVORG_AD9516_CALIB_DIVIDER; interval = div_up interval freqref
      in div_up interval 10 + 1)"

definition calib_vco_sleep :: "cvorg_io \<Rightarrow> int \<Rightarrow> int \<Rightarrow> (cvorg, bool) state" where
  "calib_vco_sleep io r freqref =
     do { _ \<leftarrow> tswait (calib_ticks r freqref); v \<leftarrow> clkgen_rd io AD9516_PLLREADBACK; State_Monad.return (v AND 0x40 \<noteq> 0) }"

section \<open>Reading the dividers\<close>

abbreviation (input) AD9516_RCOUNT_LSB :: u32 where "AD9516_RCOUNT_LSB \<equiv> 0x11"
abbreviation (input) AD9516_RCOUNT_MSB :: u32 where "AD9516_RCOUNT_MSB \<equiv> 0x12"
abbreviation (input) AD9516_ACOUNT :: u32 where "AD9516_ACOUNT \<equiv> 0x13"
abbreviation (input) AD9516_BCOUNT_LSB :: u32 where "AD9516_BCOUNT_LSB \<equiv> 0x14"
abbreviation (input) AD9516_BCOUNT_MSB :: u32 where "AD9516_BCOUNT_MSB \<equiv> 0x15"
abbreviation (input) AD9516_PLL1 :: u32 where "AD9516_PLL1 \<equiv> 0x16"
abbreviation (input) AD9516_PLL3 :: u32 where "AD9516_PLL3 \<equiv> 0x18"
abbreviation (input) AD9516_CMOSDIV3_1 :: u32 where "AD9516_CMOSDIV3_1 \<equiv> 0x199"
abbreviation (input) AD9516_CMOSDIV3_2 :: u32 where "AD9516_CMOSDIV3_2 \<equiv> 0x19b"
abbreviation (input) AD9516_CMOSDIV3_BYPASS :: u32 where "AD9516_CMOSDIV3_BYPASS \<equiv> 0x19c"
abbreviation (input) AD9516_CMOSDIV4_1 :: u32 where "AD9516_CMOSDIV4_1 \<equiv> 0x19e"
abbreviation (input) AD9516_CMOSDIV4_2 :: u32 where "AD9516_CMOSDIV4_2 \<equiv> 0x1a0"
abbreviation (input) AD9516_CMOSDIV4_BYPASS :: u32 where "AD9516_CMOSDIV4_BYPASS \<equiv> 0x1a1"
abbreviation (input) AD9516_VCO_DIVIDER :: u32 where "AD9516_VCO_DIVIDER \<equiv> 0x1e0"
abbreviation (input) AD9516_INPUT_CLKS :: u32 where "AD9516_INPUT_CLKS \<equiv> 0x1e1"
abbreviation (input) AD9516_UPDATE_ALL :: u32 where "AD9516_UPDATE_ALL \<equiv> 0x232"

definition within_range :: "int \<Rightarrow> int \<Rightarrow> int \<Rightarrow> bool" where
  "within_range lo x hi \<longleftrightarrow> hi \<ge> x \<and> lo \<le> x"

definition clkgen_read_dvco :: "cvorg_io \<Rightarrow> (cvorg, int) state" where
  "clkgen_read_dvco io =
     do { dvco \<leftarrow> clkgen_rd io AD9516_VCO_DIVIDER; inputclks \<leftarrow> clkgen_rd io AD9516_INPUT_CLKS;
          State_Monad.return (if inputclks AND 1 \<noteq> 0 then 1
            else let retval = uint (dvco AND 7) + 2 in if retval \<ge> 7 then 1 else retval) }"

definition clkgen_read_d :: "cvorg_io \<Rightarrow> u32 \<Rightarrow> int \<Rightarrow> (cvorg, int) state" where
  "clkgen_read_d io offset nr =
     do { bypass \<leftarrow> clkgen_rd io (offset + 3);
          let nr = (if within_range 1 nr 2 then nr else 1);
          val \<leftarrow> clkgen_rd io (offset + of_int (nr - 1));
          State_Monad.return (if bypass AND push_bit (nat (4 + (nr - 1))) 1 \<noteq> 0 then 1
            else uint (drop_bit 4 (val AND 0xf0)) + uint (val AND 0x0f) + 2) }"

definition clkgen_read_a :: "cvorg_io \<Rightarrow> (cvorg, int) state" where
  "clkgen_read_a io = do { v \<leftarrow> clkgen_rd io AD9516_ACOUNT; State_Monad.return (uint (v AND 0x3f)) }"

definition clkgen_read_b :: "cvorg_io \<Rightarrow> (cvorg, int) state" where
  "clkgen_read_b io =
     do { l \<leftarrow> clkgen_rd io AD9516_BCOUNT_LSB; m \<leftarrow> clkgen_rd io AD9516_BCOUNT_MSB;
          State_Monad.return (uint (l OR push_bit 8 (m AND 0x1f))) }"

definition clkgen_read_r :: "cvorg_io \<Rightarrow> (cvorg, int) state" where
  "clkgen_read_r io =
     do { l \<leftarrow> clkgen_rd io AD9516_RCOUNT_LSB; m \<leftarrow> clkgen_rd io AD9516_RCOUNT_MSB;
          State_Monad.return (uint (l OR push_bit 8 (m AND 0x3f))) }"

definition clkgen_read_p :: "cvorg_io \<Rightarrow> (cvorg, int) state" where
  "clkgen_read_p io =
     do { v \<leftarrow> clkgen_rd io AD9516_PLL1; let prescaler = v AND 7;
          State_Monad.return (if prescaler = 5 then 16 else if prescaler = 6 then 32 else 1) }"

definition get_pll_conf :: "cvorg_io \<Rightarrow> ad9516_pll \<Rightarrow> (cvorg, ad9516_pll) state" where
  "get_pll_conf io pll =
     do { a \<leftarrow> clkgen_read_a io; b \<leftarrow> clkgen_read_b io; r \<leftarrow> clkgen_read_r io; p \<leftarrow> clkgen_read_p io;
          dvco \<leftarrow> clkgen_read_dvco io; d1 \<leftarrow> clkgen_read_d io AD9516_CMOSDIV3_1 1; d2 \<leftarrow> clkgen_read_d io AD9516_CMOSDIV3_1 2;
          State_Monad.return (pll\<lparr>pll_a := a, pll_b := b, pll_r := r, pll_p := p, pll_dvco := dvco, pll_d1 := d1, pll_d2 := d2\<rparr>) }"

section \<open>Writing the dividers\<close>

definition check_pll_dividers :: "ad9516_pll \<Rightarrow> ad9516_pll" where
  "check_pll_dividers pll =
     (let one = (\<lambda>x. if x = 1 then 0 else x :: int);
          pll = pll\<lparr>pll_r := one (pll_r pll), pll_dvco := one (pll_dvco pll), pll_d1 := one (pll_d1 pll), pll_d2 := one (pll_d2 pll)\<rparr>;
          d1 = pll_d1 pll; d2 = pll_d2 pll
      in if d1 = 0 \<and> d2 = 0 then pll
         else if d1 = 0 \<and> d2 \<noteq> 0 then pll\<lparr>pll_d1 := d2, pll_d2 := 0\<rparr>
         else if d1 smod 2 \<noteq> 0 \<and> \<not> d2 smod 2 \<noteq> 0 then pll\<lparr>pll_d1 := d2, pll_d2 := d1\<rparr>
         else pll)"

definition clkgen_write_a :: "cvorg_io \<Rightarrow> int \<Rightarrow> (cvorg, unit) state" where
  "clkgen_write_a io a = clkgen_wr io AD9516_ACOUNT (ucast ((of_int a :: u32) AND 0x3f))"

definition clkgen_write_b :: "cvorg_io \<Rightarrow> int \<Rightarrow> (cvorg, unit) state" where
  "clkgen_write_b io b =
     do { _ \<leftarrow> clkgen_wr io AD9516_BCOUNT_LSB (ucast ((of_int b :: u32) AND 0xff));
          clkgen_wr io AD9516_BCOUNT_MSB (ucast (drop_bit 8 (of_int b :: u32) AND 0x3f)) }"

definition clkgen_write_r :: "cvorg_io \<Rightarrow> int \<Rightarrow> (cvorg, unit) state" where
  "clkgen_write_r io r =
     do { _ \<leftarrow> clkgen_wr io AD9516_RCOUNT_LSB (ucast ((of_int r :: u32) AND 0xff));
          clkgen_wr io AD9516_RCOUNT_MSB (ucast (drop_bit 8 (of_int r :: u32) AND 0x3f)) }"

definition clkgen_write_p :: "cvorg_io \<Rightarrow> int \<Rightarrow> (cvorg, unit) state" where
  "clkgen_write_p io p =
     do { _ \<leftarrow> clkgen_and io AD9516_PLL1 0xf8; clkgen_or io AD9516_PLL1 (if p = 16 then 5 else 6) }"

text \<open>The VCO divider of the module's configuration, set to 2 where it cannot be used.\<close>

definition clkgen_write_dvco :: "cvorg_io \<Rightarrow> (cvorg, unit) state" where
  "clkgen_write_dvco io =
     do { pll \<leftarrow> gets cv_pll;
          if pll_dvco pll = 0 \<and> pll_external pll then clkgen_or io AD9516_INPUT_CLKS 1
          else do {
            let dvco = (if pll_dvco pll = 0 then 2 else pll_dvco pll);
            let dvco = (if within_range 2 dvco 6 then dvco else 2);
            _ \<leftarrow> modify (\<lambda>c. c\<lparr>cv_pll := (cv_pll c)\<lparr>pll_dvco := dvco\<rparr>\<rparr>);
            _ \<leftarrow> clkgen_wr io AD9516_VCO_DIVIDER (ucast ((of_int (dvco - 2) :: u32) AND 7));
            clkgen_and io AD9516_INPUT_CLKS 0xfe } }"

definition clkgen_write_d :: "cvorg_io \<Rightarrow> int \<Rightarrow> int \<Rightarrow> int \<Rightarrow> (cvorg, unit) state" where
  "clkgen_write_d io divider nr d =
     (if \<not> within_range 3 divider 4 \<or> \<not> within_range 1 nr 2 then State_Monad.return ()
      else let bypass_addr = (if divider = 3 then AD9516_CMOSDIV3_BYPASS else AD9516_CMOSDIV4_BYPASS);
               divider_addr = (if divider = 3 then if nr = 1 then AD9516_CMOSDIV3_1 else AD9516_CMOSDIV3_2
                               else if nr = 1 then AD9516_CMOSDIV4_1 else AD9516_CMOSDIV4_2);
               bypass_mask = (if nr = 1 then 0x10 else 0x20) :: u8
           in if d = 0 then clkgen_or io bypass_addr bypass_mask
              else let d = d - 2; m = of_int (d sdiv 2 + d smod 2) :: u32; n = of_int (d sdiv 2) :: u32
                   in do { _ \<leftarrow> clkgen_wr io divider_addr (ucast (push_bit 4 (m AND 0xf) OR (n AND 0xf)));
                           clkgen_and io bypass_addr (NOT bypass_mask) })"

definition clkgen_apply_pll_conf :: "cvorg_io \<Rightarrow> (cvorg, rc) state" where
  "clkgen_apply_pll_conf io =
     do { _ \<leftarrow> modify (\<lambda>c. c\<lparr>cv_pll := check_pll_dividers (cv_pll c)\<rparr>);
          pll \<leftarrow> gets cv_pll;
          _ \<leftarrow> clkgen_wr io AD9516_INPUT_CLKS (if pll_external pll then 9 else 2);
          _ \<leftarrow> clkgen_write_a io (pll_a pll);
          _ \<leftarrow> clkgen_write_b io (pll_b pll);
          _ \<leftarrow> clkgen_write_r io (pll_r pll);
          _ \<leftarrow> clkgen_write_p io (pll_p pll);
          _ \<leftarrow> clkgen_write_dvco io;
          _ \<leftarrow> clkgen_write_d io 3 1 (pll_d1 pll);
          _ \<leftarrow> clkgen_write_d io 3 2 (pll_d2 pll);
          _ \<leftarrow> clkgen_write_d io 4 1 (pll_d1 pll);
          _ \<leftarrow> clkgen_write_d io 4 2 (pll_d2 pll);
          _ \<leftarrow> clkgen_wr io AD9516_PLL3 0;
          _ \<leftarrow> clkgen_wr io AD9516_UPDATE_ALL 1;
          _ \<leftarrow> clkgen_wr io AD9516_PLL3 1;
          _ \<leftarrow> clkgen_wr io AD9516_UPDATE_ALL 1;
          ok \<leftarrow> calib_vco_sleep io (pll_r pll) AD9516_OSCILLATOR_FREQ;
          State_Monad.return (if ok then OK else Err EAGAIN) }"

definition clkgen_check_pll :: "ad9516_pll \<Rightarrow> rc" where
  "clkgen_check_pll pll =
     (if pll_a pll > pll_b pll \<or> pll_a pll > 63 \<or> (pll_p pll \<noteq> 16 \<and> pll_p pll \<noteq> 32)
         \<or> (pll_b pll \<le> 0 \<or> pll_b pll > 8191) \<or> (pll_r pll \<le> 0 \<or> pll_r pll > 16383)
      then Err EINVAL else OK)"

fun clkgen_wrs :: "cvorg_io \<Rightarrow> (u32 \<times> u8) list \<Rightarrow> (cvorg, unit) state" where
  "clkgen_wrs io [] = State_Monad.return ()"
| "clkgen_wrs io (x # xs) = do { _ \<leftarrow> clkgen_wr io (fst x) (snd x); clkgen_wrs io xs }"

definition clkgen_startup :: "cvorg_io \<Rightarrow> (cvorg, unit) state" where
  "clkgen_startup io =
     clkgen_wrs io [(0x10, 0x7c), (AD9516_PLL1, 0x05), (0x17, 0x04), (0x19, 0x00), (0x1a, 0x00), (0x1b, 0xab), (0x1c, 0x07), (0x1d, 0x00),
       (AD9516_PLL3, 0x00), (0xf0, 0x0b), (0xf1, 0x0b), (0xf2, 0x0b), (0xf3, 0x0b), (0xf4, 0x0b), (0xf5, 0x0b),
       (0x140, 0x42), (0x141, 0x42), (0x142, 0x48), (0x143, 0x48)]"

end
