(* ===== verification/Cvorg.thy ===== *)
theory Cvorg
  imports Cvorg_Clkgen
begin

text \<open>
  The CVORG driver (\<open>src/cvorg/driver/cvorg-skel.c\<close>), but for waveforms and ioctls: the state of a channel, gains and limits of frequency,
  applying a configuration, reset, interrupts, and the life of a module.
\<close>

section \<open>Channels\<close>

abbreviation (input) CVORG_STATUS_READY :: u32 where "CVORG_STATUS_READY \<equiv> 0x001"
abbreviation (input) CVORG_STATUS_BUSY :: u32 where "CVORG_STATUS_BUSY \<equiv> 0x004"
abbreviation (input) CVORG_STATUS_SRAM_BUSY :: u32 where "CVORG_STATUS_SRAM_BUSY \<equiv> 0x008"
abbreviation (input) CVORG_STATUS_ERR :: u32 where "CVORG_STATUS_ERR \<equiv> 0x010"
abbreviation (input) CVORG_STATUS_CLKOK :: u32 where "CVORG_STATUS_CLKOK \<equiv> 0x100"
abbreviation (input) CVORG_STATUS_STARTABLE :: u32 where "CVORG_STATUS_STARTABLE \<equiv> 0x200"

abbreviation (input) CVORG_CONFIG_MODE :: u32 where "CVORG_CONFIG_MODE \<equiv> 0xf"
abbreviation (input) CVORG_CONFIG_SEQREADY :: u32 where "CVORG_CONFIG_SEQREADY \<equiv> 0x010"
abbreviation (input) CVORG_CONFIG_OUT_OFFSET :: u32 where "CVORG_CONFIG_OUT_OFFSET \<equiv> 0x020"
abbreviation (input) CVORG_CONFIG_INPOL :: u32 where "CVORG_CONFIG_INPOL \<equiv> 0x040"
abbreviation (input) CVORG_CONFIG_OUT_GAIN_MASK :: u32 where "CVORG_CONFIG_OUT_GAIN_MASK \<equiv> 0x380"
abbreviation (input) CVORG_CONFIG_OUT_ENABLE :: u32 where "CVORG_CONFIG_OUT_ENABLE \<equiv> 0x400"

definition cvorg_channel_busy :: "cvorg_io \<Rightarrow> nat \<Rightarrow> (cvorg, bool) state" where
  "cvorg_channel_busy io k = do { v \<leftarrow> cvorg_rchan io k CVORG_STATUS; State_Monad.return (v AND CVORG_STATUS_BUSY \<noteq> 0) }"

definition cvorg_channel_ready :: "cvorg_io \<Rightarrow> nat \<Rightarrow> (cvorg, bool) state" where
  "cvorg_channel_ready io k =
     do { status \<leftarrow> cvorg_rchan io k CVORG_STATUS;
          State_Monad.return (status AND CVORG_STATUS_READY \<noteq> 0 \<and> status AND CVORG_STATUS_BUSY = 0 \<and> status AND CVORG_STATUS_ERR = 0
            \<and> status AND CVORG_STATUS_CLKOK \<noteq> 0) }"

definition cvorg_busy :: "cvorg_io \<Rightarrow> (cvorg, bool) state" where
  "cvorg_busy io =
     do { b \<leftarrow> cvorg_channel_busy io 0; if b then State_Monad.return True else cvorg_channel_busy io 1 }"

definition cvorg_channel_clear_errors :: "cvorg_io \<Rightarrow> nat \<Rightarrow> (cvorg, unit) state" where
  "cvorg_channel_clear_errors io k = cvorg_wchan io k CVORG_CTL CVORG_CTL_ERR_CLEAR"

fun sram_busy_tries :: "cvorg_io \<Rightarrow> nat \<Rightarrow> nat \<Rightarrow> (cvorg, bool) state" where
  "sram_busy_tries io k 0 = State_Monad.return True"
| "sram_busy_tries io k (Suc n) =
     do { regval \<leftarrow> cvorg_rchan io k CVORG_STATUS;
          if regval AND CVORG_STATUS_SRAM_BUSY = 0 then State_Monad.return False else sram_busy_tries io k n }"

definition cvorg_sram_busy :: "cvorg_io \<Rightarrow> nat \<Rightarrow> (cvorg, bool) state" where
  "cvorg_sram_busy io k = sram_busy_tries io k 10"

section \<open>Gains\<close>

definition cvorg_gains :: "int list" where
  "cvorg_gains = [-22, -16, -10, -4, 2, 8, 14, 20]"

definition cvorg_absdiff :: "int \<Rightarrow> int \<Rightarrow> int" where
  "cvorg_absdiff s1 s2 = (if s1 > s2 then s1 - s2 else s2 - s1)"

text \<open>The loop of \<open>cvorg_nearest\<close>: the smallest difference so far, the index it was found at, the next index.\<close>

fun nearest_loop :: "int \<Rightarrow> int list \<Rightarrow> int \<Rightarrow> nat \<Rightarrow> nat \<Rightarrow> nat" where
  "nearest_loop val [] mindiff result i = result"
| "nearest_loop val (x # xs) mindiff result i =
     (let diff = cvorg_absdiff x val
      in if diff < mindiff then nearest_loop val xs diff i (i + 1) else nearest_loop val xs mindiff result (i + 1))"

definition cvorg_nearest :: "int list \<Rightarrow> int \<Rightarrow> int" where
  "cvorg_nearest array val = array ! nearest_loop val array 0xffffffff 0 0"

definition cvorg_gain_approx :: "int \<Rightarrow> int" where
  "cvorg_gain_approx gain =
     (if gain < cvorg_gains ! 0 then cvorg_gains ! 0
      else if gain > cvorg_gains ! (length cvorg_gains - 1) then cvorg_gains ! (length cvorg_gains - 1)
      else cvorg_nearest cvorg_gains gain)"

definition cvorg_gain_to_hw :: "int \<Rightarrow> u32" where
  "cvorg_gain_to_hw gain =
     (if gain = -22 then 0 else if gain = -16 then 1 else if gain = -10 then 2 else if gain = -4 then 3
      else if gain = 2 then 4 else if gain = 8 then 5 else if gain = 14 then 6 else 7)"

definition cvorg_invalid_gain_offset :: "int \<Rightarrow> cvorg_outoff \<Rightarrow> bool" where
  "cvorg_invalid_gain_offset gain offset \<longleftrightarrow> offset = CVORG_OUT_OFFSET_2_5V \<and> gain \<noteq> 14"

section \<open>Limits of the sampling frequency\<close>

definition cvorg_freqlimits :: "(u32 \<times> u32) list" where
  "cvorg_freqlimits = [(1, 16), (10, 60), (25, 1250), (50, 3300), (60, 4700), (80, 9300), (100, 23200)]"

fun freqlimit_search :: "u32 \<Rightarrow> nat \<Rightarrow> (u32 \<times> u32) list \<Rightarrow> nat option" where
  "freqlimit_search mhz i (x # y # xs) = (if fst y \<ge> mhz \<and> fst x \<le> mhz then Some i else freqlimit_search mhz (i + 1) (y # xs))"
| "freqlimit_search mhz i xs = None"

definition cvorg_freqlimit_range :: "u32 \<Rightarrow> nat" where
  "cvorg_freqlimit_range mhz =
     (case freqlimit_search mhz 0 cvorg_freqlimits of
        Some i \<Rightarrow> i
      | None \<Rightarrow> if mhz \<le> fst (cvorg_freqlimits ! 0) then 0 else length cvorg_freqlimits - 2)"

text \<open>The smallest number of points at a frequency in MHz, by linear interpolation, and the check: \<open>True\<close> is too short.\<close>

definition freqlimit_minimum :: "u32 \<Rightarrow> u32" where
  "freqlimit_minimum mhz =
     (let i = cvorg_freqlimit_range mhz; x1 = fst (cvorg_freqlimits ! i); y1 = snd (cvorg_freqlimits ! i);
          x2 = fst (cvorg_freqlimits ! (i + 1)); y2 = snd (cvorg_freqlimits ! (i + 1)); m = (y2 - y1) div (x2 - x1)
      in if m = 0 then y2 else m * (mhz - x1) + y1)"

definition cvorg_freqlimit_check :: "u32 \<Rightarrow> u32 \<Rightarrow> bool" where
  "cvorg_freqlimit_check len hz = (len < freqlimit_minimum (hz div 1000000 + (if hz mod 1000000 \<noteq> 0 then 1 else 0)))"

section \<open>Configuration\<close>

definition cvorg_pll_cfg_init :: ad9516_pll where
  "cvorg_pll_cfg_init = \<lparr>pll_a = 0, pll_b = 4375, pll_p = 16, pll_r = 1000, pll_dvco = 2, pll_d1 = 14, pll_d2 = 1, pll_external = False\<rparr>"

text \<open>The frequency of a configuration in units of 10 kHz, computed in 32-bit integers.\<close>

definition pll_freq :: "ad9516_pll \<Rightarrow> int" where
  "pll_freq pll =
     (let n = of_int (pll_p pll * pll_b pll + pll_a pll) :: u32; freq = sint (4000 * n);
          over = (\<lambda>f d. if d \<noteq> 0 then f sdiv d else f)
      in over (over (over (over freq (pll_r pll)) (pll_dvco pll)) (pll_d1 pll)) (pll_d2 pll))"

fun sampfreq_loop :: "cvorg_io \<Rightarrow> int \<Rightarrow> nat \<Rightarrow> int \<Rightarrow> (cvorg, rc) state" where
  "sampfreq_loop io freq n sampfreq =
     (if cvorg_absdiff sampfreq freq > 1
      then case n of
             0 \<Rightarrow> State_Monad.return (Err ETIME)
           | Suc m \<Rightarrow> do { _ \<leftarrow> tswait 10; v \<leftarrow> cvorg_readw io CVORG_SAMPFREQ; sampfreq_loop io freq m (uint v div 10000) }
      else State_Monad.return OK)"

declare sampfreq_loop.simps [simp del]

definition cvorg_poll_sampfreq :: "cvorg_io \<Rightarrow> (cvorg, rc) state" where
  "cvorg_poll_sampfreq io =
     do { pll \<leftarrow> gets cv_pll;
          if pll_external pll then State_Monad.return OK
          else do { v \<leftarrow> cvorg_readw io CVORG_SAMPFREQ; sampfreq_loop io (pll_freq pll) 100 (uint v div 10000) } }"

definition apply_channel_inpol :: "cvorg_io \<Rightarrow> nat \<Rightarrow> (cvorg, unit) state" where
  "apply_channel_inpol io k =
     do { ch \<leftarrow> channel k;
          if cc_inpol ch = CVORG_NEGATIVE_PULSE then cvorg_ochan io k CVORG_CONFIG CVORG_CONFIG_INPOL
          else cvorg_achan io k CVORG_CONFIG (NOT CVORG_CONFIG_INPOL) }"

definition apply_channel_outoff :: "cvorg_io \<Rightarrow> nat \<Rightarrow> (cvorg, unit) state" where
  "apply_channel_outoff io k =
     do { ch \<leftarrow> channel k;
          if cc_outoff ch = CVORG_OUT_OFFSET_0V then cvorg_achan io k CVORG_CONFIG (NOT CVORG_CONFIG_OUT_OFFSET)
          else cvorg_ochan io k CVORG_CONFIG CVORG_CONFIG_OUT_OFFSET }"

definition apply_channel_outgain :: "cvorg_io \<Rightarrow> nat \<Rightarrow> (cvorg, unit) state" where
  "apply_channel_outgain io k =
     do { ch \<leftarrow> channel k;
          cvorg_uchan io k CVORG_CONFIG (push_bit 7 (cvorg_gain_to_hw (cc_outgain ch))) CVORG_CONFIG_OUT_GAIN_MASK }"

definition apply_channel_out_enable :: "cvorg_io \<Rightarrow> nat \<Rightarrow> (cvorg, unit) state" where
  "apply_channel_out_enable io k =
     do { ch \<leftarrow> channel k;
          if cc_out_enabled ch then cvorg_ochan io k CVORG_CONFIG CVORG_CONFIG_OUT_ENABLE
          else cvorg_achan io k CVORG_CONFIG (NOT CVORG_CONFIG_OUT_ENABLE) }"

definition apply_channel_cfg :: "cvorg_io \<Rightarrow> nat \<Rightarrow> (cvorg, unit) state" where
  "apply_channel_cfg io k =
     do { _ \<leftarrow> apply_channel_inpol io k; _ \<leftarrow> apply_channel_outoff io k; _ \<leftarrow> apply_channel_outgain io k;
          apply_channel_out_enable io k }"

text \<open>The result of the PLL is only reported.\<close>

definition cvorg_apply_cfg :: "cvorg_io \<Rightarrow> (cvorg, rc) state" where
  "cvorg_apply_cfg io =
     do { _ \<leftarrow> clkgen_apply_pll_conf io; _ \<leftarrow> apply_channel_cfg io 0; _ \<leftarrow> apply_channel_cfg io 1; State_Monad.return OK }"

definition cvorg_channel_cfg_init :: "cvorg_channel \<Rightarrow> cvorg_channel" where
  "cvorg_channel_cfg_init ch = ch\<lparr>cc_inpol := CVORG_POSITIVE_PULSE, cc_outoff := CVORG_OUT_OFFSET_0V, cc_outgain := 20, cc_out_enabled := False\<rparr>"

definition cvorg_cfg_init :: "(cvorg, unit) state" where
  "cvorg_cfg_init =
     do { _ \<leftarrow> modify (\<lambda>c. c\<lparr>cv_pll := cvorg_pll_cfg_init\<rparr>);
          _ \<leftarrow> set_channel 0 cvorg_channel_cfg_init; set_channel 1 cvorg_channel_cfg_init }"

section \<open>Reset and interrupts\<close>

definition channel_reset :: "cvorg_io \<Rightarrow> nat \<Rightarrow> (cvorg, unit) state" where
  "channel_reset io k = cvorg_wchan io k CVORG_CTL CVORG_CTL_CHAN_RESET"

definition disable_interrupts :: "cvorg_io \<Rightarrow> (cvorg, unit) state" where
  "disable_interrupts io = do { _ \<leftarrow> cvorg_writew io CVORG_INTEN 0; _ \<leftarrow> cvorg_readw io CVORG_INTSR; State_Monad.return () }"

text \<open>The vector and level of the interrupt the installation describes, if it describes one.\<close>

definition config_interrupts :: "cvorg_io \<Rightarrow> (u32 \<times> u32) option \<Rightarrow> (cvorg, unit) state" where
  "config_interrupts io isr =
     (case isr of
        None \<Rightarrow> disable_interrupts io
      | Some vl \<Rightarrow> do { _ \<leftarrow> cvorg_writew io CVORG_INTVECT (fst vl); cvorg_writew io CVORG_INTLEVEL (snd vl) })"

definition enable_interrupts :: "cvorg_io \<Rightarrow> (cvorg, unit) state" where
  "enable_interrupts io = cvorg_writew io CVORG_INTEN (1 AND 3)"

definition cvorg_reset :: "cvorg_io \<Rightarrow> (u32 \<times> u32) option \<Rightarrow> (cvorg, rc) state" where
  "cvorg_reset io isr =
     do { _ \<leftarrow> cvorg_writew io CVORG_CTL CVORG_CTL_FPGA_RESET;
          _ \<leftarrow> channel_reset io 0; _ \<leftarrow> channel_reset io 1;
          _ \<leftarrow> cvorg_cfg_init;
          _ \<leftarrow> clkgen_startup io;
          ret \<leftarrow> cvorg_apply_cfg io;
          _ \<leftarrow> config_interrupts io isr;
          _ \<leftarrow> enable_interrupts io;
          State_Monad.return ret }"

definition SkelUserHardwareReset :: "cvorg_io \<Rightarrow> (u32 \<times> u32) option \<Rightarrow> (cvorg, rc) state" where
  "SkelUserHardwareReset io isr = cvorg_reset io isr"

definition SkelUserGetModuleVersion :: "cvorg_io \<Rightarrow> (cvorg, nat \<times> nat \<times> nat \<times> nat) state" where
  "SkelUserGetModuleVersion io =
     do { ver \<leftarrow> cvorg_readw io CVORG_VERSION;
          State_Monad.return (unat (drop_bit 12 ver AND 0xf), unat (drop_bit 8 ver AND 0xf), unat (drop_bit 4 ver AND 0xf), unat (ver AND 0xf)) }"

definition get_first_set_bit :: "u32 \<Rightarrow> u32" where
  "get_first_set_bit mask' = (if mask' AND 1 \<noteq> 0 then 1 else if mask' AND 2 \<noteq> 0 then 2 else 0)"

text \<open>The index of the channel the handler takes for the source of an interrupt, and what it returns.\<close>

definition cvorg_isr :: "cvorg_io \<Rightarrow> (cvorg, (u32 \<times> u32) option) state" where
  "cvorg_isr io =
     do { mask' \<leftarrow> cvorg_readw io CVORG_INTSR;
          State_Monad.return (if mask' AND 3 = 0 then None else Some (mask' AND 0x80000000, get_first_set_bit mask')) }"

section \<open>Modules\<close>

definition cvorg_init_channel :: "nat \<Rightarrow> (cvorg, unit) state" where
  "cvorg_init_channel k = set_channel k (\<lambda>ch. ch\<lparr>cc_reg_offset := (if k = 0 then 0x000 else 0x200)\<rparr>)"

definition cvorg_init_channels :: "(cvorg, unit) state" where
  "cvorg_init_channels = do { _ \<leftarrow> cvorg_init_channel 0; cvorg_init_channel 1 }"

text \<open>\<open>True\<close> when the card is not there; \<open>bus_error\<close> when the access to it fails.\<close>

definition cvorg_version_check :: "cvorg_io \<Rightarrow> bool \<Rightarrow> (cvorg, bool) state" where
  "cvorg_version_check io bus_error =
     do { val \<leftarrow> (if bus_error then State_Monad.return 0xffffffff else cvorg_readw io CVORG_VERSION);
          _ \<leftarrow> modify (\<lambda>c. c\<lparr>cv_hw_rev := val AND 0xffff\<rparr>);
          State_Monad.return (drop_bit 16 val AND 0xff \<noteq> 0x47) }"

text \<open>The memory of a module after \<open>bzero\<close>, on a card with the registers of \<open>c\<close>.\<close>

definition zero_channel :: cvorg_channel where
  "zero_channel = \<lparr>cc_inpol = CVORG_POSITIVE_PULSE, cc_outoff = CVORG_OUT_OFFSET_0V, cc_outgain = 0, cc_reg_offset = 0, cc_out_enabled = False\<rparr>"

definition zero_pll :: ad9516_pll where
  "zero_pll = \<lparr>pll_a = 0, pll_b = 0, pll_p = 0, pll_r = 0, pll_dvco = 0, pll_d1 = 0, pll_d2 = 0, pll_external = False\<rparr>"

definition cvorg_bzero :: "cvorg \<Rightarrow> cvorg" where
  "cvorg_bzero c = c\<lparr>cv_hw_rev := 0, cv_owner := None, cv_pll := zero_pll, cv_channels := [zero_channel, zero_channel]\<rparr>"

text \<open>
  The result is the module, or the error. The arguments tell whether there is memory for it and whether its registers are mapped.
\<close>

definition SkelUserModuleInit :: "cvorg_io \<Rightarrow> bool \<Rightarrow> bool \<Rightarrow> bool \<Rightarrow> (u32 \<times> u32) option \<Rightarrow> cvorg \<Rightarrow> errno + cvorg" where
  "SkelUserModuleInit io mem iomap bus_error isr c =
     (if \<not> mem then Inl ENOMEM
      else if \<not> iomap then Inl EINVAL
      else case run_state (cvorg_version_check io bus_error) (cvorg_bzero c) of
             (True, _) \<Rightarrow> Inl ENODEV
           | (False, c) \<Rightarrow>
               (case run_state (do { _ \<leftarrow> cvorg_init_channels; cvorg_reset io isr }) c of
                  (OK, c) \<Rightarrow> Inr c
                | (Err e, c) \<Rightarrow> Inl e))"

definition cvorg_quiesce_channel :: "cvorg_io \<Rightarrow> nat \<Rightarrow> (cvorg, unit) state" where
  "cvorg_quiesce_channel io k =
     do { _ \<leftarrow> cvorg_achan io k CVORG_CONFIG (NOT CVORG_CONFIG_SEQREADY); cvorg_wchan io k CVORG_CTL CVORG_CTL_CHAN_STOP }"

definition SkelUserModuleRelease :: "cvorg_io \<Rightarrow> (cvorg, unit) state" where
  "SkelUserModuleRelease io =
     do { _ \<leftarrow> cvorg_quiesce_channel io 0; _ \<leftarrow> cvorg_quiesce_channel io 1; disable_interrupts io }"

text \<open>When a file is closed: the modules installed, \<open>None\<close> where one has no data.\<close>

definition SkelUserClientRelease :: "nat \<Rightarrow> cvorg option list \<Rightarrow> cvorg option list" where
  "SkelUserClientRelease f ms = map (map_option (\<lambda>c. if cv_owner c = Some f then c\<lparr>cv_owner := None\<rparr> else c)) ms"

end
