(* ===== verification/Cvorg_Seq.thy ===== *)
theory Cvorg_Seq
  imports Cvorg
begin

text \<open>
  Sequences of waveforms (\<open>src/cvorg/driver/cvorg-skel.c\<close>): copying them from the user, checking them, writing them to
  the SRAM and the descriptor blocks of a channel, and playing them.
\<close>

section \<open>Sequences and the memory they are in\<close>

text \<open>\<open>wv_form\<close> is the address of the samples, 0 for a null pointer.\<close>

record cvorg_wv =
  wv_recurr :: u32
  wv_size :: u32
  wv_dynamic_gain :: bool
  wv_gain_val :: int
  wv_form :: nat

record cvorg_seq =
  sq_nr :: u32
  sq_n_waves :: u32
  sq_waves :: "cvorg_wv list"

text \<open>
  The memory the driver has allocated for samples, and whether it has freed an address it did not hold. A buffer of samples is a list
  of 16-bit numbers; the descriptors are in a buffer of their own, at an address that is not used otherwise.
\<close>

record heap =
  hp_blocks :: "nat \<rightharpoonup> u16 list"
  hp_bad_free :: bool

text \<open>
  The user's side of one call: the sequence, its descriptors as the checks read them in the user's memory, and as they are copied
  later (\<open>None\<close> is a fault), the samples, the addresses the allocations give (0 when there is no memory), what a fresh buffer
  of descriptors holds, and which write-backs succeed.
\<close>

record seq_env =
  us_nr :: u32
  us_n_waves :: u32
  us_waves_null :: bool
  us_check :: "nat \<Rightarrow> cvorg_wv"
  us_desc :: "nat \<Rightarrow> cvorg_wv option"
  us_form :: "nat \<Rightarrow> u16 list option"
  us_waves_mem :: bool
  us_form_addr :: "nat \<Rightarrow> nat"
  us_junk :: "nat \<Rightarrow> cvorg_wv"
  us_writeback :: "nat \<Rightarrow> bool"

definition sysfree :: "nat \<Rightarrow> heap \<Rightarrow> heap" where
  "sysfree a h = (if a \<in> dom (hp_blocks h) then h\<lparr>hp_blocks := (hp_blocks h)(a := None)\<rparr> else h\<lparr>hp_bad_free := True\<rparr>)"

definition free_wv :: "cvorg_wv \<Rightarrow> heap \<Rightarrow> heap" where
  "free_wv wv h = (if wv_form wv = 0 \<or> wv_size wv = 0 then h else sysfree (wv_form wv) h)"

text \<open>The samples of every descriptor; the buffer of the descriptors itself is not part of the model.\<close>

definition free_seq :: "cvorg_seq \<Rightarrow> heap \<Rightarrow> heap" where
  "free_seq seq h = fold free_wv (take (unat (sq_n_waves seq)) (sq_waves seq)) h"

text \<open>One descriptor and its samples: the descriptor as it is left in kernel memory, the memory, and the error.\<close>

definition copy_wv_from_user :: "seq_env \<Rightarrow> nat \<Rightarrow> cvorg_wv \<Rightarrow> heap \<Rightarrow> cvorg_wv \<times> heap \<times> rc" where
  "copy_wv_from_user u i to h =
     (case us_desc u i of
        None \<Rightarrow> (to, h, Err EFAULT)
      | Some wv \<Rightarrow>
          let a = us_form_addr u i; to = wv\<lparr>wv_form := a\<rparr>
          in if a = 0 then (to, h, Err ENOMEM)
             else case us_form u i of
                    None \<Rightarrow> (to, h\<lparr>hp_blocks := (hp_blocks h)(a \<mapsto> replicate (unat (wv_size wv) div 2) 0)\<rparr>, Err EFAULT)
                  | Some data \<Rightarrow> (to, h\<lparr>hp_blocks := (hp_blocks h)(a \<mapsto> take (unat (wv_size wv) div 2) data)\<rparr>, OK))"

fun copy_wvs :: "seq_env \<Rightarrow> nat \<Rightarrow> nat \<Rightarrow> cvorg_wv list \<Rightarrow> heap \<Rightarrow> cvorg_wv list \<times> heap \<times> rc" where
  "copy_wvs u 0 i ws h = (ws, h, OK)"
| "copy_wvs u (Suc n) i ws h =
     (case copy_wv_from_user u i (ws ! i) h of
        (wv, h, OK) \<Rightarrow> copy_wvs u n (i + 1) (ws[i := wv]) h
      | (wv, h, Err e) \<Rightarrow> (ws[i := wv], h, Err e))"

definition seq_init :: "seq_env \<Rightarrow> heap \<Rightarrow> (errno + cvorg_seq) \<times> heap" where
  "seq_init u h =
     (let n = unat (us_n_waves u); seq = \<lparr>sq_nr = us_nr u, sq_n_waves = us_n_waves u, sq_waves = []\<rparr>
      in if \<not> us_waves_mem u then (Inl ENOMEM, h)
         else case copy_wvs u n 0 (map (us_junk u) [0..<n]) h of
                (ws, h, OK) \<Rightarrow> (Inr (seq\<lparr>sq_waves := ws\<rparr>), h)
              | (ws, h, Err e) \<Rightarrow> (Inl e, free_seq (seq\<lparr>sq_waves := ws\<rparr>) h))"

definition seq_size :: "cvorg_seq \<Rightarrow> int" where
  "seq_size seq = sint (sum_list (map wv_size (take (unat (sq_n_waves seq)) (sq_waves seq))))"

abbreviation (input) CVORG_SRAM_SIZE :: int where "CVORG_SRAM_SIZE \<equiv> 0x200000"
abbreviation (input) CVORG_MAX_SEQUENCES :: u32 where "CVORG_MAX_SEQUENCES \<equiv> 26"

definition avail_sram :: int where
  "avail_sram = CVORG_SRAM_SIZE"

section \<open>Checks\<close>

definition cvorg_check_gain_offset_wv :: "cvorg_channel \<Rightarrow> cvorg_wv \<Rightarrow> bool" where
  "cvorg_check_gain_offset_wv ch wv \<longleftrightarrow> wv_dynamic_gain wv \<and> cvorg_invalid_gain_offset (wv_gain_val wv) (cc_outoff ch)"

definition cvorg_must_check_freqlimit :: "u32 \<Rightarrow> u32 \<Rightarrow> bool" where
  "cvorg_must_check_freqlimit nr n_waves \<longleftrightarrow> nr = 0 \<or> n_waves > 2"

definition cvorg_invalid_freqlimit :: "cvorg_io \<Rightarrow> nat \<Rightarrow> u32 \<Rightarrow> u32 \<Rightarrow> cvorg_wv \<Rightarrow> (cvorg, bool) state" where
  "cvorg_invalid_freqlimit io k nr n_waves wv =
     (if \<not> cvorg_must_check_freqlimit nr n_waves \<or> wv_recurr wv = 0 then State_Monad.return False
      else do { sampfreq \<leftarrow> cvorg_rchan io k CVORG_SAMPFREQ;
                State_Monad.return (cvorg_freqlimit_check (wv_recurr wv * wv_size wv div 2) sampfreq) })"

fun invalid_waves :: "cvorg_io \<Rightarrow> nat \<Rightarrow> seq_env \<Rightarrow> nat list \<Rightarrow> (cvorg, rc) state" where
  "invalid_waves io k u [] = State_Monad.return OK"
| "invalid_waves io k u (i # is) =
     do { ch \<leftarrow> channel k; let wv = us_check u i;
          if cvorg_check_gain_offset_wv ch wv then State_Monad.return (Err EINVAL)
          else do { b \<leftarrow> cvorg_invalid_freqlimit io k (us_nr u) (us_n_waves u) wv;
                    if b then State_Monad.return (Err EINVAL)
                    else do { f \<leftarrow> cvorg_rchan io k CVORG_SAMPFREQ;
                              if f > 50000000 \<and> wv_size wv div 2 < 2 then State_Monad.return (Err EINVAL)
                              else invalid_waves io k u is } } }"

definition cvorg_invalid_seq :: "cvorg_io \<Rightarrow> nat \<Rightarrow> seq_env \<Rightarrow> (cvorg, rc) state" where
  "cvorg_invalid_seq io k u =
     (if us_n_waves u = 0 \<or> us_waves_null u then State_Monad.return (Err EINVAL) else invalid_waves io k u [0..<unat (us_n_waves u)])"

section \<open>Samples\<close>

definition bswap16 :: "u16 \<Rightarrow> u16" where
  "bswap16 x = push_bit 8 (take_bit 8 x) OR drop_bit 8 x"

definition cpu_to_be16 :: "bool \<Rightarrow> u16 \<Rightarrow> u16" where
  "cpu_to_be16 le x = (if le then bswap16 x else x)"

definition cvorg_cpu_to_hw :: "bool \<Rightarrow> u16 \<Rightarrow> u16 \<Rightarrow> u32" where
  "cvorg_cpu_to_hw le d0 d1 =
     (let first = ucast (cpu_to_be16 le d0) :: u32; second = ucast (cpu_to_be16 le d1)
      in if le then push_bit 16 first OR second else push_bit 16 second OR first)"

definition cvorg_hw_to_cpu :: "bool \<Rightarrow> u32 \<Rightarrow> u16 \<times> u16" where
  "cvorg_hw_to_cpu le hwval =
     (let first = (if le then drop_bit 16 hwval else hwval AND 0xffff); second = (if le then hwval AND 0xffff else drop_bit 16 hwval)
      in (cpu_to_be16 le (ucast first), cpu_to_be16 le (ucast second)))"

definition cvorg_cpu_to_hw_single :: "bool \<Rightarrow> u16 \<Rightarrow> u32" where
  "cvorg_cpu_to_hw_single le d0 =
     (let pointval = ucast (cpu_to_be16 le d0) in if le then push_bit 16 pointval else pointval)"

definition normalize_point :: "u16 \<Rightarrow> u16" where
  "normalize_point d = (if d AND 3 \<noteq> 0 \<and> d \<noteq> 0xffff then d + 1 else d) AND NOT 3"

definition normalize_wv :: "cvorg_wv \<Rightarrow> heap \<Rightarrow> heap" where
  "normalize_wv wv h = h\<lparr>hp_blocks := (hp_blocks h)(wv_form wv := map_option (map normalize_point) (hp_blocks h (wv_form wv)))\<rparr>"

fun sram_points :: "cvorg_io \<Rightarrow> nat \<Rightarrow> u16 list \<Rightarrow> (cvorg, unit) state" where
  "sram_points io k (x # y # ds) =
     do { _ \<leftarrow> cvorg_wchan_noswap io k CVORG_SRAMDATA (cvorg_cpu_to_hw (io_le io) x y); sram_points io k ds }"
| "sram_points io k [x] = cvorg_wchan_noswap io k CVORG_SRAMDATA (cvorg_cpu_to_hw_single (io_le io) x)"
| "sram_points io k [] = State_Monad.return ()"

text \<open>\<open>__sram\<close>: the address, then two samples with each write.\<close>

definition cvorg_sram :: "cvorg_io \<Rightarrow> nat \<Rightarrow> u16 list \<Rightarrow> u32 \<Rightarrow> (cvorg, unit) state" where
  "cvorg_sram io k data dest = do { _ \<leftarrow> cvorg_wchan io k CVORG_SRAMADDR dest; sram_points io k data }"

section \<open>Descriptor blocks\<close>

abbreviation (input) CVORG_WFSTART :: u32 where "CVORG_WFSTART \<equiv> 0x0"
abbreviation (input) CVORG_WFLEN :: u32 where "CVORG_WFLEN \<equiv> 0x4"
abbreviation (input) CVORG_WFRECURR :: u32 where "CVORG_WFRECURR \<equiv> 0x8"
abbreviation (input) CVORG_WFNEXTBLK :: u32 where "CVORG_WFNEXTBLK \<equiv> 0xc"
abbreviation (input) CVORG_WFNEXTBLK_NEXT_MASK :: u32 where "CVORG_WFNEXTBLK_NEXT_MASK \<equiv> 0x1f"
abbreviation (input) CVORG_WFNEXTBLK_LAST :: u32 where "CVORG_WFNEXTBLK_LAST \<equiv> 31"
abbreviation (input) CVORG_WFNEXTBLK_CONF_GAIN :: u32 where "CVORG_WFNEXTBLK_CONF_GAIN \<equiv> 0x100"
abbreviation (input) CVORG_WFNEXTBLK_GAIN_MASK :: u32 where "CVORG_WFNEXTBLK_GAIN_MASK \<equiv> 0xe00"

definition block_offset :: "nat \<Rightarrow> u32" where
  "block_offset i = 0x60 + 0x10 * of_nat i"

definition prev_block_offset :: "nat \<Rightarrow> u32" where
  "prev_block_offset i = 0x60 + 0x10 * (of_nat i - 1)"

definition cvorg_wv_mark_prev :: "cvorg_io \<Rightarrow> nat \<Rightarrow> u32 \<Rightarrow> nat \<Rightarrow> (cvorg, unit) state" where
  "cvorg_wv_mark_prev io k prevblock i = cvorg_uchan io k (prevblock + CVORG_WFNEXTBLK) (of_nat i) CVORG_WFNEXTBLK_NEXT_MASK"

definition cvorg_wv_mark_last :: "cvorg_io \<Rightarrow> nat \<Rightarrow> u32 \<Rightarrow> (cvorg, unit) state" where
  "cvorg_wv_mark_last io k block = cvorg_uchan io k (block + CVORG_WFNEXTBLK) CVORG_WFNEXTBLK_LAST CVORG_WFNEXTBLK_NEXT_MASK"

text \<open>The gain of a waveform; the value is rounded, and kept with the waveform.\<close>

definition cvorg_wv_gain_store :: "cvorg_io \<Rightarrow> nat \<Rightarrow> u32 \<Rightarrow> cvorg_wv \<Rightarrow> (cvorg, cvorg_wv) state" where
  "cvorg_wv_gain_store io k block wv =
     do { let off = block + CVORG_WFNEXTBLK;
          _ \<leftarrow> cvorg_achan io k off (NOT CVORG_WFNEXTBLK_CONF_GAIN);
          if \<not> wv_dynamic_gain wv then State_Monad.return wv
          else do { let wv = wv\<lparr>wv_gain_val := cvorg_gain_approx (wv_gain_val wv)\<rparr>;
                    _ \<leftarrow> cvorg_ochan io k off CVORG_WFNEXTBLK_CONF_GAIN;
                    _ \<leftarrow> cvorg_uchan io k off (push_bit 9 (cvorg_gain_to_hw (wv_gain_val wv))) CVORG_WFNEXTBLK_GAIN_MASK;
                    State_Monad.return wv } }"

definition cvorg_wv_store :: "cvorg_io \<Rightarrow> nat \<Rightarrow> u32 \<Rightarrow> cvorg_wv \<Rightarrow> (cvorg, cvorg_wv) state" where
  "cvorg_wv_store io k block wv =
     do { _ \<leftarrow> cvorg_wchan io k (block + CVORG_WFLEN) (wv_size wv div 2);
          _ \<leftarrow> cvorg_wchan io k (block + CVORG_WFRECURR) (wv_recurr wv);
          cvorg_wv_gain_store io k block wv }"

section \<open>Storing a sequence\<close>

text \<open>
  One turn of the loop of \<open>__cvorg_storeseq\<close>, with the samples of the waveform after normalisation; \<open>n\<close> is the number of waveforms.
\<close>

definition store_wave :: "cvorg_io \<Rightarrow> nat \<Rightarrow> u32 \<Rightarrow> nat \<Rightarrow> u32 \<Rightarrow> cvorg_wv \<Rightarrow> u16 list \<Rightarrow> (cvorg, cvorg_wv) state" where
  "store_wave io k n i ramaddr wv data =
     do { let currblock = block_offset i;
          _ \<leftarrow> cvorg_sram io k data ramaddr;
          _ \<leftarrow> (if i > 0 then cvorg_wv_mark_prev io k (prev_block_offset i) i else State_Monad.return ());
          _ \<leftarrow> cvorg_wchan io k (currblock + CVORG_WFSTART) ramaddr;
          wv \<leftarrow> cvorg_wv_store io k currblock wv;
          _ \<leftarrow> (if of_nat i = n - 1 then cvorg_wv_mark_last io k currblock else State_Monad.return ());
          State_Monad.return wv }"

fun store_waves :: "cvorg_io \<Rightarrow> nat \<Rightarrow> u32 \<Rightarrow> nat \<Rightarrow> u32 \<Rightarrow> cvorg_wv list \<Rightarrow> heap \<Rightarrow> (cvorg, cvorg_wv list \<times> heap) state" where
  "store_waves io k n i ramaddr [] h = State_Monad.return ([], h)"
| "store_waves io k n i ramaddr (wv # ws) h =
     do { let h = normalize_wv wv h;
          wv \<leftarrow> store_wave io k n i ramaddr wv (the (hp_blocks h (wv_form wv)));
          r \<leftarrow> store_waves io k n (i + 1) (ramaddr + wv_size wv) ws h;
          State_Monad.return (wv # fst r, snd r) }"

text \<open>A sequence of one waveform is played by repeating the waveform.\<close>

definition single_wave :: "cvorg_seq \<Rightarrow> cvorg_seq" where
  "single_wave seq =
     (if sq_n_waves seq = 1
      then seq\<lparr>sq_waves := (sq_waves seq)[0 := (sq_waves seq ! 0)\<lparr>wv_recurr := wv_recurr (sq_waves seq ! 0) * sq_nr seq\<rparr>], sq_nr := 1\<rparr>
      else seq)"

definition storeseq :: "cvorg_io \<Rightarrow> nat \<Rightarrow> cvorg_seq \<Rightarrow> heap \<Rightarrow> (cvorg, cvorg_seq \<times> heap) state" where
  "storeseq io k seq h =
     do { let seq = single_wave seq;
          _ \<leftarrow> cvorg_wchan io k CVORG_SEQNR (sq_nr seq);
          r \<leftarrow> store_waves io k (sq_n_waves seq) 0 0 (sq_waves seq) h;
          State_Monad.return (seq\<lparr>sq_waves := fst r\<rparr>, snd r) }"

definition cvorg_storeseq :: "cvorg_io \<Rightarrow> nat \<Rightarrow> cvorg_seq \<Rightarrow> heap \<Rightarrow> (cvorg, rc \<times> cvorg_seq \<times> heap) state" where
  "cvorg_storeseq io k seq h =
     (if seq_size seq > avail_sram then State_Monad.return (Err ENOMEM, seq, h)
      else if sq_n_waves seq = 0 \<or> sq_n_waves seq > CVORG_MAX_SEQUENCES then State_Monad.return (Err EINVAL, seq, h)
      else do { b \<leftarrow> cvorg_sram_busy io k;
                if b then State_Monad.return (Err EAGAIN, seq, h)
                else do { r \<leftarrow> storeseq io k seq h; State_Monad.return (OK, r) } })"

fun startable_loop :: "cvorg_io \<Rightarrow> nat \<Rightarrow> nat \<Rightarrow> u32 \<Rightarrow> (cvorg, unit) state" where
  "startable_loop io k n reg =
     (if reg AND CVORG_STATUS_SRAM_BUSY \<noteq> 0 \<or> reg AND CVORG_STATUS_STARTABLE = 0
      then case n of 0 \<Rightarrow> State_Monad.return () | Suc m \<Rightarrow> do { reg \<leftarrow> cvorg_rchan io k CVORG_STATUS; startable_loop io k m reg }
      else State_Monad.return ())"

declare startable_loop.simps [simp del]

definition cvorg_poll_startable :: "cvorg_io \<Rightarrow> nat \<Rightarrow> (cvorg, unit) state" where
  "cvorg_poll_startable io k = do { reg \<leftarrow> cvorg_rchan io k CVORG_STATUS; startable_loop io k 21 reg }"

definition play_wv :: "cvorg_io \<Rightarrow> nat \<Rightarrow> (cvorg, unit) state" where
  "play_wv io k =
     do { _ \<leftarrow> cvorg_channel_ready io k;
          _ \<leftarrow> cvorg_uchan io k CVORG_CONFIG (1 OR CVORG_CONFIG_SEQREADY) CVORG_CONFIG_MODE;
          _ \<leftarrow> cvorg_wchan io k CVORG_CTL CVORG_CTL_CHAN_LOADSEQ;
          cvorg_poll_startable io k }"

text \<open>\<open>__cvorg_loadseq\<close>.\<close>

definition loadseq :: "cvorg_io \<Rightarrow> nat \<Rightarrow> cvorg_seq \<Rightarrow> heap \<Rightarrow> (cvorg, rc \<times> cvorg_seq \<times> heap) state" where
  "loadseq io k seq h =
     do { _ \<leftarrow> cvorg_quiesce_channel io k;
          r \<leftarrow> cvorg_storeseq io k seq h;
          case fst r of
            OK \<Rightarrow> do { _ \<leftarrow> play_wv io k; State_Monad.return r }
          | Err e \<Rightarrow> State_Monad.return r }"

text \<open>The gains that are written back to the user: the descriptors' numbers and values, and whether all went well.\<close>

fun seq_user_writeback :: "seq_env \<Rightarrow> nat \<Rightarrow> cvorg_wv list \<Rightarrow> (nat \<times> int) list \<times> rc" where
  "seq_user_writeback u i [] = ([], OK)"
| "seq_user_writeback u i (wv # ws) =
     (if \<not> wv_dynamic_gain wv then seq_user_writeback u (i + 1) ws
      else if \<not> us_writeback u i then ([], Err EFAULT)
      else case seq_user_writeback u (i + 1) ws of (l, r) \<Rightarrow> ((i, wv_gain_val wv) # l, r))"

definition cvorg_loadseq :: "cvorg_io \<Rightarrow> nat \<Rightarrow> seq_env \<Rightarrow> heap \<Rightarrow> (cvorg, rc \<times> (nat \<times> int) list \<times> heap) state" where
  "cvorg_loadseq io k u h =
     do { _ \<leftarrow> cvorg_channel_clear_errors io k;
          ready \<leftarrow> cvorg_channel_ready io k;
          if \<not> ready then State_Monad.return (Err EBUSY, [], h)
          else do {
            ret \<leftarrow> cvorg_invalid_seq io k u;
            case ret of
              Err e \<Rightarrow> State_Monad.return (Err e, [], h)
            | OK \<Rightarrow>
                (case seq_init u h of
                   (Inl e, h) \<Rightarrow> State_Monad.return (Err e, [], h)
                 | (Inr seq, h) \<Rightarrow>
                     do { r \<leftarrow> loadseq io k seq h;
                          case r of
                            (Err e, seq, h) \<Rightarrow> State_Monad.return (Err e, [], free_seq seq h)
                          | (OK, seq, h) \<Rightarrow>
                              (case seq_user_writeback u 0 (sq_waves seq) of
                                 (l, ret) \<Rightarrow> State_Monad.return (ret, l, free_seq seq h)) }) } }"

end
