(* ===== verification/Cvorg_Ioctl.thy ===== *)
theory Cvorg_Ioctl
  imports Cvorg_Seq
begin

text \<open>
  The ioctls of the CVORG driver (\<open>src/cvorg/driver/cvorg-skel.c\<close>), with the check of the owner. An ioctl is a value of
  \<open>cvorg_ioctl\<close> with its argument; what it hands back is a value of \<open>cvorg_out\<close>.
\<close>

section \<open>Calls\<close>

datatype cvorg_ioctl =
    IOCGCHANNEL | IOCSCHANNEL int | IOCGOUTOFFSET | IOCSOUTOFFSET u32 | IOCGINPOLARITY | IOCSINPOLARITY bool
  | IOCGPLL | IOCSPLL ad9516_pll | IOCGSRAM u32 | IOCSSRAM u32 u16 u16 | IOCSTRIGGER u32 | IOCSLOADSEQ seq_env heap
  | IOCGCHANSTAT | IOCGSAMPFREQ | IOCTUNLOCK_FORCE | IOCTUNLOCK | IOCTLOCK | IOCGMODE | IOCSMODE u32 | IOCGOUTGAIN | IOCSOUTGAIN int
  | IOCGADC_READ u32 u32 | IOCGDAC_VAL | IOCSDAC_VAL u32 | IOCGDAC_GAIN | IOCSDAC_GAIN u16 | IOCGDAC_OFFSET | IOCSDAC_OFFSET int
  | IOCGTEMPERATURE | IOCSOUT_ENABLE bool | IOCGPCB_ID | IOC_OTHER nat

datatype cvorg_out =
    Out_none | Out_int int | Out_word u32 | Out_u64 u64 | Out_pll ad9516_pll | Out_sram u16 u16 | Out_inpol cvorg_inpol
  | Out_outoff cvorg_outoff | Out_seq "(nat \<times> int) list" heap

fun ioc_nr :: "cvorg_ioctl \<Rightarrow> nat" where
  "ioc_nr IOCGCHANNEL = 11" | "ioc_nr (IOCSCHANNEL _) = 12" | "ioc_nr IOCGOUTOFFSET = 13" | "ioc_nr (IOCSOUTOFFSET _) = 53"
| "ioc_nr IOCGINPOLARITY = 14" | "ioc_nr (IOCSINPOLARITY _) = 54" | "ioc_nr IOCGPLL = 15" | "ioc_nr (IOCSPLL _) = 55"
| "ioc_nr (IOCGSRAM _) = 16" | "ioc_nr (IOCSSRAM _ _ _) = 56" | "ioc_nr (IOCSTRIGGER _) = 57" | "ioc_nr (IOCSLOADSEQ _ _) = 58"
| "ioc_nr IOCGCHANSTAT = 19" | "ioc_nr IOCGSAMPFREQ = 20" | "ioc_nr IOCTUNLOCK_FORCE = 21" | "ioc_nr IOCTUNLOCK = 61"
| "ioc_nr IOCTLOCK = 62" | "ioc_nr IOCGMODE = 23" | "ioc_nr (IOCSMODE _) = 63" | "ioc_nr IOCGOUTGAIN = 24" | "ioc_nr (IOCSOUTGAIN _) = 64"
| "ioc_nr (IOCGADC_READ _ _) = 65" | "ioc_nr IOCGDAC_VAL = 26" | "ioc_nr (IOCSDAC_VAL _) = 66" | "ioc_nr IOCGDAC_GAIN = 27"
| "ioc_nr (IOCSDAC_GAIN _) = 67" | "ioc_nr IOCGDAC_OFFSET = 28" | "ioc_nr (IOCSDAC_OFFSET _) = 68" | "ioc_nr IOCGTEMPERATURE = 29"
| "ioc_nr (IOCSOUT_ENABLE _) = 70" | "ioc_nr IOCGPCB_ID = 31" | "ioc_nr (IOC_OTHER n) = n"

abbreviation (input) CVORG_IOCTL_NO_LOCKING :: nat where "CVORG_IOCTL_NO_LOCKING \<equiv> 10"
abbreviation (input) CVORG_IOCTL_LOCKING :: nat where "CVORG_IOCTL_LOCKING \<equiv> 50"

text \<open>The client: its open file and the channel it has chosen.\<close>

record cvorg_client =
  cl_file :: nat
  cl_channel :: nat

section \<open>The single calls\<close>

definition gs_channel_set :: "int \<Rightarrow> cvorg_client \<Rightarrow> rc \<times> cvorg_client" where
  "gs_channel_set n cl = (if within_range 1 n 2 then (OK, cl\<lparr>cl_channel := nat (n - 1)\<rparr>) else (Err EINVAL, cl))"

definition s_outoff_ioctl :: "cvorg_io \<Rightarrow> nat \<Rightarrow> u32 \<Rightarrow> (cvorg, rc) state" where
  "s_outoff_ioctl io k off =
     do { ch \<leftarrow> channel k;
          let new = (if off = 1 then CVORG_OUT_OFFSET_2_5V else CVORG_OUT_OFFSET_0V);
          if cvorg_invalid_gain_offset (cc_outgain ch) new then State_Monad.return (Err EINVAL)
          else do { _ \<leftarrow> set_channel k (\<lambda>ch. ch\<lparr>cc_outoff := new\<rparr>); _ \<leftarrow> apply_channel_outoff io k; State_Monad.return OK } }"

definition s_inpol_ioctl :: "cvorg_io \<Rightarrow> nat \<Rightarrow> bool \<Rightarrow> (cvorg, rc) state" where
  "s_inpol_ioctl io k polarity =
     do { b \<leftarrow> cvorg_channel_busy io k;
          if b then State_Monad.return (Err EBUSY)
          else do { _ \<leftarrow> set_channel k (\<lambda>ch. ch\<lparr>cc_inpol := (if polarity then CVORG_NEGATIVE_PULSE else CVORG_POSITIVE_PULSE)\<rparr>);
                    _ \<leftarrow> apply_channel_inpol io k; State_Monad.return OK } }"

definition s_trig_ioctl :: "cvorg_io \<Rightarrow> nat \<Rightarrow> u32 \<Rightarrow> (cvorg, rc) state" where
  "s_trig_ioctl io k trig =
     (if trig = 0 then do { _ \<leftarrow> cvorg_wchan io k CVORG_CTL CVORG_CTL_CHAN_START; State_Monad.return OK }
      else if trig = 1 then do { _ \<leftarrow> cvorg_wchan io k CVORG_CTL CVORG_CTL_CHAN_STOP; State_Monad.return OK }
      else if trig = 2 then do { _ \<leftarrow> cvorg_wchan io k CVORG_CTL CVORG_CTL_CHAN_EVSTOP; State_Monad.return OK }
      else State_Monad.return (Err EINVAL))"

definition cvorg_apply_pll :: "cvorg_io \<Rightarrow> (cvorg, rc) state" where
  "cvorg_apply_pll io =
     do { r \<leftarrow> clkgen_apply_pll_conf io;
          case r of Err e \<Rightarrow> State_Monad.return (Err e) | OK \<Rightarrow> cvorg_poll_sampfreq io }"

definition s_pll_ioctl :: "cvorg_io \<Rightarrow> ad9516_pll \<Rightarrow> (cvorg, rc) state" where
  "s_pll_ioctl io pll =
     do { b \<leftarrow> cvorg_busy io;
          if b then State_Monad.return (Err EBUSY)
          else case clkgen_check_pll pll of
                 Err e \<Rightarrow> State_Monad.return (Err e)
               | OK \<Rightarrow> do { _ \<leftarrow> modify (\<lambda>c. c\<lparr>cv_pll := pll\<rparr>); cvorg_apply_pll io } }"

text \<open>One word of the SRAM: with two samples to be written, or to be read.\<close>

definition gs_sram_ioctl :: "cvorg_io \<Rightarrow> nat \<Rightarrow> u32 \<Rightarrow> (u16 \<times> u16) option \<Rightarrow> (cvorg, rc \<times> cvorg_out) state" where
  "gs_sram_ioctl io k address data =
     do { b \<leftarrow> (if data \<noteq> None then cvorg_channel_busy io k else State_Monad.return False);
          if b then State_Monad.return (Err EBUSY, Out_none)
          else if address \<ge> 0x200000 then State_Monad.return (Err EINVAL, Out_none)
          else do {
            busy \<leftarrow> cvorg_sram_busy io k;
            if busy then State_Monad.return (Err EAGAIN, Out_none)
            else do {
              _ \<leftarrow> cvorg_wchan io k CVORG_SRAMADDR (address AND NOT 3);
              case data of
                None \<Rightarrow> do { rval \<leftarrow> cvorg_rchan_noswap io k CVORG_SRAMDATA;
                             let d = cvorg_hw_to_cpu (io_le io) rval;
                             State_Monad.return (OK, Out_sram (fst d) (snd d)) }
              | Some d \<Rightarrow> do { _ \<leftarrow> cvorg_wchan_noswap io k CVORG_SRAMDATA (cvorg_cpu_to_hw (io_le io) (fst d) (snd d));
                              State_Monad.return (OK, Out_none) } } } }"

definition chanstat_bits :: "(u32 \<times> u32) list" where
  "chanstat_bits = [(0x001, 0x001), (0x004, 0x002), (0x008, 0x080), (0x010, 0x004), (0x020, 0x010), (0x040, 0x020), (0x080, 0x040),
     (0x100, 0x008), (0x200, 0x100)]"

definition cvorg_g_chanstat :: "cvorg_io \<Rightarrow> nat \<Rightarrow> (cvorg, u32) state" where
  "cvorg_g_chanstat io k =
     do { val \<leftarrow> cvorg_rchan io k CVORG_STATUS;
          let status = fold (\<lambda>b s. if val AND fst b \<noteq> 0 then s OR snd b else s) chanstat_bits 0;
          cfg \<leftarrow> cvorg_rchan io k CVORG_CONFIG;
          State_Monad.return (if cfg AND CVORG_CONFIG_OUT_ENABLE \<noteq> 0 then status OR 0x200 else status) }"

definition cvorg_hw_to_mode :: "u32 \<Rightarrow> u32" where
  "cvorg_hw_to_mode regval =
     (if regval = 0x0 then 0 else if regval = 0x1 then 1 else if regval = 0x3 then 2 else if regval = 0x8 then 3
      else if regval = 0x9 then 4 else if regval = 0xa then 5 else 0)"

definition cvorg_mode_is_valid :: "u32 \<Rightarrow> bool" where
  "cvorg_mode_is_valid mode \<longleftrightarrow> mode \<in> {0, 1, 2, 3, 4, 5}"

definition cvorg_mode_to_hw :: "u32 \<Rightarrow> u32" where
  "cvorg_mode_to_hw mode =
     (if mode = 0 then 0x0 else if mode = 1 then 0x1 else if mode = 2 then 0x3 else if mode = 3 then 0x8
      else if mode = 4 then 0x9 else if mode = 5 then 0xa else 0x1)"

definition cvorg_mode_set :: "cvorg_io \<Rightarrow> nat \<Rightarrow> u32 \<Rightarrow> (cvorg, unit) state" where
  "cvorg_mode_set io k mode =
     do { regval \<leftarrow> cvorg_rchan io k CVORG_CONFIG;
          cvorg_wchan io k CVORG_CONFIG ((regval AND NOT CVORG_CONFIG_MODE) OR cvorg_mode_to_hw mode) }"

definition cvorg_mode_get :: "cvorg_io \<Rightarrow> nat \<Rightarrow> (cvorg, u32) state" where
  "cvorg_mode_get io k = do { reg \<leftarrow> cvorg_rchan io k CVORG_CONFIG; State_Monad.return (cvorg_hw_to_mode (reg AND CVORG_CONFIG_MODE)) }"

definition s_mode_ioctl :: "cvorg_io \<Rightarrow> nat \<Rightarrow> u32 \<Rightarrow> (cvorg, rc) state" where
  "s_mode_ioctl io k mode =
     (if \<not> cvorg_mode_is_valid mode then State_Monad.return (Err EINVAL)
      else do { _ \<leftarrow> cvorg_mode_set io k mode; State_Monad.return OK })"

definition s_outgain_ioctl :: "cvorg_io \<Rightarrow> nat \<Rightarrow> int \<Rightarrow> (cvorg, rc \<times> cvorg_out) state" where
  "s_outgain_ioctl io k outgain =
     do { let gain = cvorg_gain_approx outgain;
          b \<leftarrow> cvorg_channel_busy io k;
          if b then State_Monad.return (Err EBUSY, Out_none)
          else do {
            ch \<leftarrow> channel k;
            if cvorg_invalid_gain_offset gain (cc_outoff ch) then State_Monad.return (Err EINVAL, Out_none)
            else do { _ \<leftarrow> set_channel k (\<lambda>ch. ch\<lparr>cc_outgain := gain\<rparr>); _ \<leftarrow> apply_channel_outgain io k;
                      State_Monad.return (OK, Out_int gain) } } }"

definition cvorg_adc_channel_to_hw :: "u32 \<Rightarrow> u32 \<Rightarrow> u32 option" where
  "cvorg_adc_channel_to_hw ch reg =
     (if ch < 4 then Some ((reg AND NOT 0x07000000) OR push_bit 24 (ch + 1)) else None)"

definition cvorg_adc_range_to_hw :: "u32 \<Rightarrow> u32 \<Rightarrow> u32 option" where
  "cvorg_adc_range_to_hw rng reg =
     (let val = (if rng = 0 then Some 0 else if rng = 1 then Some 2 else if rng = 2 then Some 1 else if rng = 3 then Some 3 else None)
      in map_option (\<lambda>v. (reg AND NOT 0x18000000) OR push_bit 27 v) val)"

fun adc_loop :: "cvorg_io \<Rightarrow> nat \<Rightarrow> nat \<Rightarrow> u32 \<Rightarrow> (cvorg, u32 option) state" where
  "adc_loop io k n reg =
     (if reg AND 0x80000000 = 0
      then case n of 0 \<Rightarrow> State_Monad.return None | Suc m \<Rightarrow> do { reg \<leftarrow> cvorg_rchan io k CVORG_ADCVAL; adc_loop io k m reg }
      else State_Monad.return (Some (reg AND 0xffff)))"

declare adc_loop.simps [simp del]

definition cvorg_adc_read_ioctl :: "cvorg_io \<Rightarrow> nat \<Rightarrow> u32 \<Rightarrow> u32 \<Rightarrow> (cvorg, rc \<times> cvorg_out) state" where
  "cvorg_adc_read_ioctl io k adc rng =
     do { b \<leftarrow> cvorg_channel_busy io k;
          if b then State_Monad.return (Err EBUSY, Out_none)
          else case Option.bind (cvorg_adc_channel_to_hw adc 0) (cvorg_adc_range_to_hw rng) of
                 None \<Rightarrow> State_Monad.return (Err EINVAL, Out_none)
               | Some reg \<Rightarrow>
                   do { _ \<leftarrow> cvorg_uchan io k CVORG_CONFIG reg 0x1f000000;
                        _ \<leftarrow> cvorg_wchan io k CVORG_CTL CVORG_CTL_READADC;
                        reg \<leftarrow> cvorg_rchan io k CVORG_ADCVAL;
                        v \<leftarrow> adc_loop io k 11 reg;
                        State_Monad.return (case v of None \<Rightarrow> (Err EAGAIN, Out_none) | Some x \<Rightarrow> (OK, Out_word x)) } }"

definition s_dac_gain_ioctl :: "cvorg_io \<Rightarrow> nat \<Rightarrow> u16 \<Rightarrow> (cvorg, unit) state" where
  "s_dac_gain_ioctl io k v = cvorg_uchan io k CVORG_DACCORR (ucast v AND 0xffff) 0xffff"

definition g_dac_gain_ioctl :: "cvorg_io \<Rightarrow> nat \<Rightarrow> (cvorg, u32) state" where
  "g_dac_gain_ioctl io k = do { regval \<leftarrow> cvorg_rchan io k CVORG_DACCORR; State_Monad.return (regval AND 0xffff) }"

text \<open>The argument is a 16-bit signed number.\<close>

definition s_dac_offset_ioctl :: "cvorg_io \<Rightarrow> nat \<Rightarrow> int \<Rightarrow> (cvorg, rc) state" where
  "s_dac_offset_ioctl io k off =
     (if \<not> within_range (- 16384) off 16383 then State_Monad.return (Err EINVAL)
      else do { _ \<leftarrow> cvorg_uchan io k CVORG_DACCORR (push_bit 16 (of_int off AND 0x7fff)) 0x7fff0000; State_Monad.return OK })"

text \<open>The sign is extended in \<open>regval\<close>, after its value was taken.\<close>

definition g_dac_offset_ioctl :: "cvorg_io \<Rightarrow> nat \<Rightarrow> (cvorg, int) state" where
  "g_dac_offset_ioctl io k =
     do { regval \<leftarrow> cvorg_rchan io k CVORG_DACCORR;
          let regval = drop_bit 16 (regval AND 0x7fff0000);
          let val = (ucast regval :: u16);
          let regval = (if val AND 0x4000 \<noteq> 0 then regval OR 0x8000 else regval);
          State_Monad.return (sint val) }"

definition cvorg_get_temperature :: "cvorg_io \<Rightarrow> (cvorg, int) state" where
  "cvorg_get_temperature io =
     do { regtemp \<leftarrow> cvorg_readw io CVORG_TEMP;
          let temp = uint (drop_bit 4 (regtemp AND 0x7ff));
          State_Monad.return (if regtemp AND 0x800 \<noteq> 0 then - temp else temp) }"

definition cvorg_out_enable_ioctl :: "cvorg_io \<Rightarrow> nat \<Rightarrow> bool \<Rightarrow> (cvorg, unit) state" where
  "cvorg_out_enable_ioctl io k enable =
     do { _ \<leftarrow> set_channel k (\<lambda>ch. ch\<lparr>cc_out_enabled := enable\<rparr>); apply_channel_out_enable io k }"

definition cvorg_get_pcb_id :: "cvorg_io \<Rightarrow> (cvorg, u64) state" where
  "cvorg_get_pcb_id io =
     do { m \<leftarrow> cvorg_readw io CVORG_PCB_MSB; l \<leftarrow> cvorg_readw io CVORG_PCB_LSB;
          State_Monad.return (push_bit 32 (ucast m) OR ucast l) }"

definition cvorg_lock :: "nat \<Rightarrow> (cvorg, rc) state" where
  "cvorg_lock f = do { _ \<leftarrow> modify (\<lambda>c. c\<lparr>cv_owner := Some f\<rparr>); State_Monad.return OK }"

definition cvorg_unlock :: "(cvorg, rc) state" where
  "cvorg_unlock = do { _ \<leftarrow> modify (\<lambda>c. c\<lparr>cv_owner := None\<rparr>); State_Monad.return OK }"

section \<open>The dispatcher\<close>

definition no_out :: "(cvorg, rc) state \<Rightarrow> (cvorg, rc \<times> cvorg_out) state" where
  "no_out m = do { r \<leftarrow> m; State_Monad.return (r, Out_none) }"

definition out_of :: "('a \<Rightarrow> cvorg_out) \<Rightarrow> (cvorg, 'a) state \<Rightarrow> (cvorg, rc \<times> cvorg_out) state" where
  "out_of f m = do { x \<leftarrow> m; State_Monad.return (OK, f x) }"

definition finish :: "(cvorg, unit) state \<Rightarrow> (cvorg, rc \<times> cvorg_out) state" where
  "finish m = do { _ \<leftarrow> m; State_Monad.return (OK, Out_none) }"

text \<open>The switch of \<open>SkelUserIoctls\<close>; the calls on the client's own channel number are apart.\<close>

definition cvorg_switch :: "cvorg_io \<Rightarrow> nat \<Rightarrow> nat \<Rightarrow> cvorg_ioctl \<Rightarrow> (cvorg, rc \<times> cvorg_out) state" where
  "cvorg_switch io f k cm =
     (case cm of
        IOCGCHANNEL \<Rightarrow> State_Monad.return (OK, Out_int (int k + 1))
      | IOCSCHANNEL n \<Rightarrow> State_Monad.return (fst (gs_channel_set n \<lparr>cl_file = f, cl_channel = k\<rparr>), Out_none)
      | IOCSOUTOFFSET x \<Rightarrow> no_out (s_outoff_ioctl io k x)
      | IOCGOUTOFFSET \<Rightarrow> out_of (\<lambda>ch. Out_outoff (cc_outoff ch)) (channel k)
      | IOCSINPOLARITY x \<Rightarrow> no_out (s_inpol_ioctl io k x)
      | IOCGINPOLARITY \<Rightarrow> out_of (\<lambda>ch. Out_inpol (cc_inpol ch)) (channel k)
      | IOCSTRIGGER x \<Rightarrow> no_out (s_trig_ioctl io k x)
      | IOCSPLL p \<Rightarrow> no_out (s_pll_ioctl io p)
      | IOCGPLL \<Rightarrow> out_of Out_pll (gets cv_pll)
      | IOCSSRAM a x y \<Rightarrow> gs_sram_ioctl io k a (Some (x, y))
      | IOCGSRAM a \<Rightarrow> gs_sram_ioctl io k a None
      | IOCSLOADSEQ u h \<Rightarrow> do { r \<leftarrow> cvorg_loadseq io k u h; State_Monad.return (fst r, Out_seq (fst (snd r)) (snd (snd r))) }
      | IOCGCHANSTAT \<Rightarrow> out_of Out_word (cvorg_g_chanstat io k)
      | IOCGSAMPFREQ \<Rightarrow> out_of Out_word (cvorg_readw io CVORG_SAMPFREQ)
      | IOCTLOCK \<Rightarrow> no_out (cvorg_lock f)
      | IOCTUNLOCK \<Rightarrow> no_out cvorg_unlock
      | IOCTUNLOCK_FORCE \<Rightarrow> no_out cvorg_unlock
      | IOCSMODE m \<Rightarrow> no_out (s_mode_ioctl io k m)
      | IOCGMODE \<Rightarrow> out_of Out_word (cvorg_mode_get io k)
      | IOCSOUTGAIN g \<Rightarrow> s_outgain_ioctl io k g
      | IOCGOUTGAIN \<Rightarrow> out_of (\<lambda>ch. Out_int (cc_outgain ch)) (channel k)
      | IOCGADC_READ a r \<Rightarrow> cvorg_adc_read_ioctl io k a r
      | IOCSDAC_VAL v \<Rightarrow> finish (cvorg_wchan io k CVORG_DACVAL (v AND 0x3fff))
      | IOCGDAC_VAL \<Rightarrow> out_of Out_word (cvorg_rchan io k CVORG_DACVAL)
      | IOCSDAC_GAIN v \<Rightarrow> finish (s_dac_gain_ioctl io k v)
      | IOCGDAC_GAIN \<Rightarrow> out_of Out_word (g_dac_gain_ioctl io k)
      | IOCSDAC_OFFSET v \<Rightarrow> no_out (s_dac_offset_ioctl io k v)
      | IOCGDAC_OFFSET \<Rightarrow> out_of Out_int (g_dac_offset_ioctl io k)
      | IOCGTEMPERATURE \<Rightarrow> out_of Out_int (cvorg_get_temperature io)
      | IOCSOUT_ENABLE b \<Rightarrow> finish (cvorg_out_enable_ioctl io k b)
      | IOCGPCB_ID \<Rightarrow> out_of Out_u64 (cvorg_get_pcb_id io)
      | IOC_OTHER n \<Rightarrow> State_Monad.return (Err ENOTTY, Out_none))"

text \<open>\<open>signal\<close> tells that the wait for the module's lock is interrupted. The result holds the client with its channel.\<close>

definition SkelUserIoctls :: "cvorg_io \<Rightarrow> bool \<Rightarrow> cvorg_client \<Rightarrow> cvorg_ioctl \<Rightarrow> cvorg \<Rightarrow> (rc \<times> cvorg_out) \<times> cvorg_client \<times> cvorg" where
  "SkelUserIoctls io signal cl cm c =
     (if ioc_nr cm > CVORG_IOCTL_NO_LOCKING \<and> signal then ((Err EINTR, Out_none), cl, c)
      else if ioc_nr cm > CVORG_IOCTL_LOCKING \<and> cvorg_check_perm c (cl_file cl) then ((Err EACCES, Out_none), cl, c)
      else case run_state (cvorg_switch io (cl_file cl) (cl_channel cl) cm) c of
             (r, c) \<Rightarrow> (r, (case cm of IOCSCHANNEL n \<Rightarrow> snd (gs_channel_set n cl) | _ \<Rightarrow> cl), c))"

end
