(* ===== verification/Cvorg_Access.thy ===== *)
theory Cvorg_Access
  imports Cvorg_Ioctl
begin

text \<open>
  What the access functions do to the card: the rules by which the operations of the driver are run on a state.
\<close>

section \<open>The state monad\<close>

lemma run_gets [simp]: "run_state (gets f) c = (f c, c)"
  by (simp add: gets_def)

lemma run_modify [simp]: "run_state (modify f) c = ((), f c)"
  by (simp add: modify_def)

lemma run_channel [simp]: "run_state (channel k) c = (cv_channels c ! k, c)"
  by (simp add: channel_def)

lemma run_set_channel [simp]:
  "run_state (set_channel k f) c = ((), c\<lparr>cv_channels := (cv_channels c)[k := f (cv_channels c ! k)]\<rparr>)"
  by (simp add: set_channel_def)

lemma run_readw [simp]: "run_state (cvorg_readw io off) c = card_read io off c"
  by (simp add: cvorg_readw_def)

lemma run_writew [simp]: "run_state (cvorg_writew io off v) c = ((), card_write io off v c)"
  by (simp add: cvorg_writew_def)

lemma run_if [simp]: "run_state (if b then m else n) c = (if b then run_state m c else run_state n c)"
  by simp

section \<open>Offsets\<close>

definition base :: "nat \<Rightarrow> u32" where
  "base k = (if k = 0 then 0 else 0x200)"

definition cvorg_wf :: "cvorg \<Rightarrow> bool" where
  "cvorg_wf c \<longleftrightarrow> map cc_reg_offset (cv_channels c) = [0, 0x200]"

lemma wf_offset:
  assumes "cvorg_wf c" and "k < 2"
  shows "cc_reg_offset (cv_channels c ! k) = base k" "k < length (cv_channels c)"
proof -
  have l: "length (cv_channels c) = 2" using assms(1) by (auto simp: cvorg_wf_def dest: arg_cong [where f = length])
  then show "k < length (cv_channels c)" using assms(2) by simp
  have "map cc_reg_offset (cv_channels c) ! k = [0, 0x200] ! k" using assms(1) by (simp add: cvorg_wf_def)
  then show "cc_reg_offset (cv_channels c ! k) = base k" using l assms(2) by (cases k) (auto simp: base_def)
qed

lemma wf_length: "cvorg_wf c \<Longrightarrow> length (cv_channels c) = 2"
  by (auto simp: cvorg_wf_def dest: arg_cong [where f = length])

lemma wf_set_channel:
  assumes "cvorg_wf c" and "\<And>ch. cc_reg_offset (f ch) = cc_reg_offset ch"
  shows "cvorg_wf (c\<lparr>cv_channels := (cv_channels c)[k := f (cv_channels c ! k)]\<rparr>)"
proof (cases "k < length (cv_channels c)")
  case True
  have "map cc_reg_offset ((cv_channels c)[k := f (cv_channels c ! k)]) = map cc_reg_offset (cv_channels c)"
    using True assms(2) by (simp add: map_update list_update_same_conv)
  then show ?thesis using assms(1) by (simp add: cvorg_wf_def)
qed (use assms(1) in \<open>simp add: cvorg_wf_def list_update_beyond\<close>)

lemma bit_numeral_512: "bit (0x200 :: u32) n \<longleftrightarrow> n = 9"
proof -
  have "(0x200 :: u32) = push_bit 9 1" by simp
  then show ?thesis by (simp only: bit_simps) auto
qed

lemma base_plus:
  assumes "off < 0x200"
  shows "reg_of (base k + off) = off" "chan_of (base k + off) = base k"
proof -
  have u: "unat off < 2 ^ 9" using assms by (simp add: word_less_nat_alt)
  have "unat (take_bit 9 off) = unat off" using u by (simp only: unsigned_take_bit_eq take_bit_nat_eq_self)
  then have t: "off = take_bit 9 off" by (intro unsigned_word_eqI [where ?'a = nat]) simp
  have b: "bit off n \<Longrightarrow> n < 9" for n by (subst (asm) t) (simp add: bit_simps)
  have n: "\<not> bit (0x200 :: u32) n \<or> \<not> bit off n" for n using b [of n] bit_numeral_512 [of n] by auto
  then have d: "0x200 + off = 0x200 OR off" by (rule disjunctive_add)
  have "mask 9 = (0x1ff :: u32)" by (simp add: mask_eq_exp_minus_1)
  then have m: "off AND 0x1ff = off" using t [symmetric] take_bit_eq_mask [of 9 off] by (simp only:)
  have z: "off AND 0x200 = 0"
  proof (rule bit_eqI)
    show "bit (off AND 0x200) n = bit 0 n" for n using n [of n] unfolding bit_and_iff by auto
  qed
  show "reg_of (base k + off) = off" "chan_of (base k + off) = base k"
    unfolding reg_of_def chan_of_def base_def using m z by (simp_all add: d bit.conj_disj_distrib2 split: if_split)
qed

section \<open>Plain registers\<close>

definition plain :: "u32 \<Rightarrow> bool" where
  "plain off \<longleftrightarrow> off < 0x200 \<and> \<not> read_only off \<and> off \<noteq> CVORG_CTL \<and> off \<noteq> CVORG_SRAMDATA \<and> off \<noteq> CVORG_CLKCTL"

text \<open>The states after \<open>n\<close> reads, after a plain register is written, and after a command.\<close>

definition reads :: "nat \<Rightarrow> cvorg \<Rightarrow> cvorg" where
  "reads n c = c\<lparr>cd_reads := cd_reads c + n\<rparr>"

definition setreg :: "u32 \<Rightarrow> u32 \<Rightarrow> cvorg \<Rightarrow> cvorg" where
  "setreg a v c = c\<lparr>cd_regs := (cd_regs c)(a := v)\<rparr>"

definition command :: "u32 \<Rightarrow> u32 \<Rightarrow> cvorg \<Rightarrow> cvorg" where
  "command ch v c = c\<lparr>cd_cmds := cd_cmds c @ [(ch, v)]\<rparr>"

lemma reads_simps [simp]:
  "cv_hw_rev (reads n c) = cv_hw_rev c" "cv_owner (reads n c) = cv_owner c" "cv_pll (reads n c) = cv_pll c"
  "cv_channels (reads n c) = cv_channels c" "cd_regs (reads n c) = cd_regs c" "cd_sram (reads n c) = cd_sram c"
  "cd_spi (reads n c) = cd_spi c" "cd_spi_addr (reads n c) = cd_spi_addr c" "cd_cmds (reads n c) = cd_cmds c"
  "cd_ticks (reads n c) = cd_ticks c" "cd_reads (reads n c) = cd_reads c + n"
  "reads m (reads n c) = reads (n + m) c" "reads n (setreg a v c) = setreg a v (reads n c)"
  by (simp_all add: reads_def setreg_def add.assoc)

lemma setreg_simps [simp]:
  "cv_hw_rev (setreg a v c) = cv_hw_rev c" "cv_owner (setreg a v c) = cv_owner c" "cv_pll (setreg a v c) = cv_pll c"
  "cv_channels (setreg a v c) = cv_channels c" "cd_regs (setreg a v c) = (cd_regs c)(a := v)" "cd_sram (setreg a v c) = cd_sram c"
  "cd_spi (setreg a v c) = cd_spi c" "cd_spi_addr (setreg a v c) = cd_spi_addr c" "cd_cmds (setreg a v c) = cd_cmds c"
  "cd_ticks (setreg a v c) = cd_ticks c" "cd_reads (setreg a v c) = cd_reads c"
  "setreg a w (setreg a v c) = setreg a w c"
  by (simp_all add: setreg_def)

lemma command_simps [simp]:
  "cv_hw_rev (command a v c) = cv_hw_rev c" "cv_owner (command a v c) = cv_owner c" "cv_pll (command a v c) = cv_pll c"
  "cv_channels (command a v c) = cv_channels c" "cd_regs (command a v c) = cd_regs c" "cd_sram (command a v c) = cd_sram c"
  "cd_spi (command a v c) = cd_spi c" "cd_spi_addr (command a v c) = cd_spi_addr c" "cd_cmds (command a v c) = cd_cmds c @ [(a, v)]"
  "cd_ticks (command a v c) = cd_ticks c" "cd_reads (command a v c) = cd_reads c"
  by (simp_all add: command_def)

lemma wf_same_channels: "cv_channels d = cv_channels c \<Longrightarrow> cvorg_wf d = cvorg_wf c"
  by (simp add: cvorg_wf_def)

lemma wf_simps [simp]:
  "cvorg_wf (reads n c) = cvorg_wf c" "cvorg_wf (setreg a v c) = cvorg_wf c" "cvorg_wf (command a v c) = cvorg_wf c"
  by (simp_all add: cvorg_wf_def)

lemma base_clkctl: "off < 0x200 \<Longrightarrow> off \<noteq> CVORG_CLKCTL \<Longrightarrow> base k + off \<noteq> CVORG_CLKCTL"
proof
  assume o: "off < 0x200" "off \<noteq> CVORG_CLKCTL" "base k + off = CVORG_CLKCTL"
  then have "reg_of CVORG_CLKCTL = off" using base_plus(1) [OF o(1), of k] by simp
  then show False using o(2) by (simp add: reg_of_def)
qed

lemma card_plain:
  assumes "plain off"
  shows "card_read io (base k + off) c = (cd_regs c (base k + off), reads 1 c)"
    and "card_write io (base k + off) v c = setreg (base k + off) v c"
  using assms base_plus [of off k] base_clkctl [of off k]
  by (simp_all add: plain_def card_read_def card_write_def reads_def setreg_def Let_def)

lemma run_rchan:
  assumes "cvorg_wf c" and "k < 2" and "plain off"
  shows "run_state (cvorg_rchan io k off) c = (cd_regs c (base k + off), reads 1 c)"
  using assms by (simp add: cvorg_rchan_def wf_offset card_plain)

lemma run_rchan_ro:
  assumes "cvorg_wf c" and "k < 2" and "read_only off" and "off < 0x200"
  shows "run_state (cvorg_rchan io k off) c = (io_reg io (cd_reads c) (base k + off), reads 1 c)"
  using assms base_plus [of off k] by (simp add: cvorg_rchan_def wf_offset card_read_def reads_def Let_def)

lemma run_wchan:
  assumes "cvorg_wf c" and "k < 2" and "plain off"
  shows "run_state (cvorg_wchan io k off v) c = ((), setreg (base k + off) v c)"
  using assms by (simp add: cvorg_wchan_def wf_offset card_plain)

lemma run_command:
  assumes "cvorg_wf c" and "k < 2" and "v AND (CVORG_CTL_CHAN_RESET OR CVORG_CTL_FPGA_RESET) = 0"
  shows "run_state (cvorg_wchan io k CVORG_CTL v) c = ((), command (base k) v c)"
proof -
  have "reg_of (base k + CVORG_CTL) = CVORG_CTL" "chan_of (base k + CVORG_CTL) = base k" by (rule base_plus; simp)+
  then show ?thesis using assms by (simp add: cvorg_wchan_def wf_offset card_write_def command_def Let_def)
qed

lemma run_update:
  assumes "cvorg_wf c" and "k < 2" and "plain off"
  shows "run_state (cvorg_ochan io k off v) c = ((), setreg (base k + off) (cd_regs c (base k + off) OR v) (reads 1 c))"
    and "run_state (cvorg_achan io k off v) c = ((), setreg (base k + off) (cd_regs c (base k + off) AND v) (reads 1 c))"
    and "run_state (cvorg_uchan io k off v m) c =
      ((), setreg (base k + off) ((cd_regs c (base k + off) AND NOT m) OR v) (reads 2 c))"
proof -
  have o: "cvorg_wf d \<Longrightarrow> run_state (cvorg_ochan io k off v) d = ((), setreg (base k + off) (cd_regs d (base k + off) OR v) (reads 1 d))" for d v
    using assms(2,3) by (simp add: cvorg_ochan_def run_rchan run_wchan)
  then show "run_state (cvorg_ochan io k off v) c = ((), setreg (base k + off) (cd_regs c (base k + off) OR v) (reads 1 c))"
    using assms(1) .
  show a: "run_state (cvorg_achan io k off v) c = ((), setreg (base k + off) (cd_regs c (base k + off) AND v) (reads 1 c))" for v
    using assms by (simp add: cvorg_achan_def run_rchan run_wchan)
  show "run_state (cvorg_uchan io k off v m) c = ((), setreg (base k + off) ((cd_regs c (base k + off) AND NOT m) OR v) (reads 2 c))"
    using assms o by (simp add: cvorg_uchan_def a)
qed

lemma plain_regs:
  "plain CVORG_CONFIG" "plain CVORG_SRAMADDR" "plain CVORG_SEQNR" "plain CVORG_DACCORR" "plain CVORG_DACVAL" "plain CVORG_INTEN"
  "plain CVORG_INTVECT" "plain CVORG_INTLEVEL"
  by (simp_all add: plain_def read_only_def)

lemma status_regs: "read_only CVORG_STATUS" "read_only CVORG_SAMPFREQ" "read_only CVORG_ADCVAL"
  by (simp_all add: read_only_def)

section \<open>A card\<close>

text \<open>A card on a little-endian processor whose status registers read as 0 and whose serial interface always answers, with two channels.\<close>

definition quiet_io :: cvorg_io where
  "quiet_io = \<lparr>io_reg = (\<lambda>n a. 0), io_spi_done = (\<lambda>n. True), io_readback = (\<lambda>n. 0), io_reset = (\<lambda>r. r), io_le = True\<rparr>"

definition fresh_card :: cvorg where
  "fresh_card = \<lparr>cv_hw_rev = 1, cv_owner = None, cv_pll = cvorg_pll_cfg_init,
     cv_channels = [zero_channel, zero_channel\<lparr>cc_reg_offset := 0x200\<rparr>], cd_regs = (\<lambda>a. 0), cd_sram = (\<lambda>ch n. 0), cd_spi = (\<lambda>a. 0),
     cd_spi_addr = 0, cd_reads = 0, cd_cmds = [], cd_ticks = 0\<rparr>"

lemma wf_fresh_card: "cvorg_wf fresh_card"
  by (simp add: cvorg_wf_def fresh_card_def zero_channel_def)

end
