(* ===== verification/Cvorg_Clkgen_Props.thy ===== *)
theory Cvorg_Clkgen_Props
  imports Cvorg_Access
begin

text \<open>
  The clock generator: what a frame does to the registers of the AD9516, and that a configuration ends up in the registers it belongs to.
\<close>

section \<open>Frames\<close>

lemma take_bit_10:
  assumes "(addr :: u32) < 0x400"
  shows "take_bit 10 addr = addr"
proof -
  have "unat addr < 2 ^ 10" using assms by (simp add: word_less_nat_alt)
  then have "unat (take_bit 10 addr) = unat addr" by (simp only: unsigned_take_bit_eq take_bit_nat_eq_self)
  then show ?thesis by (intro unsigned_word_eqI [where ?'a = nat]) simp
qed

lemma spi_address:
  fixes addr :: u32 and d :: u8
  assumes "addr < 0x400"
  shows "drop_bit 8 ((0x700c0000 OR push_bit 8 addr) AND 0x3ff00) = addr"
    and "drop_bit 8 ((0x70080000 OR push_bit 8 addr OR ucast d) AND 0x3ff00) = addr"
    and "drop_bit 8 ((0x100000 OR push_bit 8 addr OR ucast d) AND 0x3ff00) = addr"
proof -
  note t = take_bit_10 [OF assms]
  have m: "(0x3ff00 :: u32) = push_bit 8 (mask 10)" by (simp add: mask_eq_exp_minus_1)
  have p: "push_bit 8 addr AND 0x3ff00 = push_bit 8 addr"
    unfolding m push_bit_and [symmetric] take_bit_eq_mask [symmetric] t ..
  have l: "(ucast d :: u32) AND 0x3ff00 = 0" unfolding m by (rule bit_eqI) (auto simp: bit_simps dest: bit_imp_le_length)
  have "drop_bit 8 (push_bit 8 (take_bit 10 addr)) = take_bit 10 addr" by (rule bit_eqI) (auto simp: bit_simps)
  then have b: "drop_bit 8 (push_bit 8 addr) = addr" by (simp only: t)
  show "drop_bit 8 ((0x700c0000 OR push_bit 8 addr) AND 0x3ff00) = addr"
    "drop_bit 8 ((0x70080000 OR push_bit 8 addr OR ucast d) AND 0x3ff00) = addr"
    "drop_bit 8 ((0x100000 OR push_bit 8 addr OR ucast d) AND 0x3ff00) = addr"
    by (simp_all add: bit.conj_disj_distrib2 p l b)
qed

lemma spi_data:
  fixes addr :: u32 and d :: u8
  shows "(0x100000 OR push_bit 8 addr OR ucast d) AND 0xff = ucast d"
    and "ucast (0x70080000 OR push_bit 8 addr OR ucast d :: u32) = d"
    and "(0x100000 OR push_bit 8 addr OR ucast d) AND 0x100000 \<noteq> (0 :: u32)"
proof -
  have m: "(0xff :: u32) = mask 8" by (simp add: mask_eq_exp_minus_1)
  have "take_bit 8 (ucast d :: u32) = ucast d" by (rule bit_eqI) (auto simp: bit_simps dest: bit_imp_le_length)
  then show "(0x100000 OR push_bit 8 addr OR ucast d) AND 0xff = ucast d"
    unfolding m take_bit_eq_mask [symmetric] by (simp add: take_bit_push_bit)
  show "ucast (0x70080000 OR push_bit 8 addr OR ucast d :: u32) = d"
  proof (rule bit_eqI)
    have "take_bit 8 (0x70080000 :: u32) = 0" by simp
    then have z: "n < 8 \<Longrightarrow> \<not> bit (0x70080000 :: u32) n" for n by (metis bit_0_eq bit_take_bit_iff bot_apply bot_bool_def)
    show "bit (ucast (0x70080000 OR push_bit 8 addr OR ucast d :: u32) :: u8) n = bit d n" for n
      using z by (auto simp: bit_simps dest: bit_imp_le_length)
  qed
  have "bit ((0x100000 OR push_bit 8 addr OR ucast d) AND 0x100000 :: u32) 20" by (simp add: bit_simps)
  then show "(0x100000 OR push_bit 8 addr OR ucast d) AND 0x100000 \<noteq> (0 :: u32)" by (metis bit_0_eq bot_apply bot_bool_def)
qed

text \<open>The state after a frame that reads, and after one that writes.\<close>

definition spi_look :: "u32 \<Rightarrow> cvorg \<Rightarrow> cvorg" where
  "spi_look a c = c\<lparr>cd_spi_addr := a, cd_reads := cd_reads c + 1\<rparr>"

definition spi_set :: "u32 \<Rightarrow> u8 \<Rightarrow> cvorg \<Rightarrow> cvorg" where
  "spi_set a d c = c\<lparr>cd_spi_addr := a, cd_spi := (cd_spi c)(a := d), cd_reads := cd_reads c + 1\<rparr>"

lemma clkctl: "reg_of CVORG_CLKCTL = CVORG_CLKCTL" "\<not> read_only CVORG_CLKCTL"
  by (simp_all add: reg_of_def read_only_def)

lemma run_clkgen_rd:
  assumes "\<And>n. io_spi_done io n" and "addr < 0x400"
  shows "run_state (clkgen_rd io addr) c =
    (ucast (if addr = AD9516_PLLREADBACK then io_readback io (cd_reads c) else cd_spi c addr), spi_look addr c)"
  using spi_address(1,3) [OF assms(2)] spi_data(1,3) [of addr] assms(1)
  by (simp add: clkgen_rd_def clkgen_rval_def card_write_def card_read_def clkctl numeral_3_eq_3 clkgen_ok_def spi_look_def Let_def bit_simps)

lemma run_clkgen_wr:
  assumes "\<And>n. io_spi_done io n" and "addr < 0x400"
  shows "run_state (clkgen_wr io addr d) c = ((), spi_set addr d c)"
proof -
  have t: "check_tries io 10 = check_tries io (Suc 9)" by simp
  have b: "\<not> bit (0x70080000 OR push_bit 8 addr OR ucast d :: u32) 18"
  proof -
    have "\<not> bit (take_bit 10 addr) 10" by (simp add: bit_take_bit_iff)
    then have "\<not> bit addr 10" by (simp only: take_bit_10 [OF assms(2)] not_False_eq_True)
    moreover have "\<not> bit (ucast d :: u32) 18" using bit_imp_le_length [of d 18] by (auto simp: bit_simps)
    ultimately show ?thesis by (simp add: bit_or_iff bit_push_bit_iff)
  qed
  show ?thesis
    using spi_address(2) [OF assms(2)] spi_data(2,3) [of addr] assms(1) b
    unfolding clkgen_wr_def clkgen_check_write_def t check_tries.simps
    by (simp add: card_write_def card_read_def clkctl spi_set_def Let_def)
qed

section \<open>The registers of a configuration\<close>

text \<open>What the registers of the chip stand for: counters, prescaler, VCO divider and the dividers of the outputs.\<close>

definition reg_a :: "(u32 \<Rightarrow> u8) \<Rightarrow> int" where
  "reg_a spi = uint (spi AD9516_ACOUNT) mod 64"

definition reg_b :: "(u32 \<Rightarrow> u8) \<Rightarrow> int" where
  "reg_b spi = uint (spi AD9516_BCOUNT_LSB) + 256 * (uint (spi AD9516_BCOUNT_MSB) mod 32)"

definition reg_r :: "(u32 \<Rightarrow> u8) \<Rightarrow> int" where
  "reg_r spi = uint (spi AD9516_RCOUNT_LSB) + 256 * (uint (spi AD9516_RCOUNT_MSB) mod 64)"

definition reg_p :: "(u32 \<Rightarrow> u8) \<Rightarrow> int option" where
  "reg_p spi = (if spi AD9516_PLL1 AND 7 = 5 then Some 16 else if spi AD9516_PLL1 AND 7 = 6 then Some 32 else None)"

definition reg_vco :: "(u32 \<Rightarrow> u8) \<Rightarrow> int" where
  "reg_vco spi = (if bit (spi AD9516_INPUT_CLKS) 0 then 1 else uint (spi AD9516_VCO_DIVIDER AND 7) + 2)"

definition reg_div :: "(u32 \<Rightarrow> u8) \<Rightarrow> u32 \<Rightarrow> u32 \<Rightarrow> nat \<Rightarrow> int" where
  "reg_div spi addr bypass n = (if bit (spi bypass) n then 1 else uint (drop_bit 4 (spi addr)) + uint (spi addr AND 0xf) + 2)"

text \<open>The registers hold a configuration: the output has the frequency of the oscillator times \<open>(p b + a) / (r dvco d1 d2)\<close>.\<close>

definition pll_in_regs :: "ad9516_pll \<Rightarrow> (u32 \<Rightarrow> u8) \<Rightarrow> bool" where
  "pll_in_regs pll spi \<longleftrightarrow> reg_a spi = pll_a pll \<and> reg_b spi = pll_b pll \<and> reg_p spi = Some (pll_p pll) \<and> max 1 (reg_r spi) = pll_r pll
     \<and> reg_vco spi = pll_dvco pll
     \<and> reg_div spi AD9516_CMOSDIV3_1 AD9516_CMOSDIV3_BYPASS 4 * reg_div spi AD9516_CMOSDIV3_2 AD9516_CMOSDIV3_BYPASS 5 = pll_d1 pll * pll_d2 pll
     \<and> reg_div spi AD9516_CMOSDIV4_1 AD9516_CMOSDIV4_BYPASS 4 * reg_div spi AD9516_CMOSDIV4_2 AD9516_CMOSDIV4_BYPASS 5 = pll_d1 pll * pll_d2 pll
     \<and> (bit (spi AD9516_INPUT_CLKS) 1 \<longleftrightarrow> \<not> pll_external pll)"

lemma byte_fields:
  assumes "n \<le> 8"
  shows "uint (ucast ((of_int x :: u32) AND mask n) :: u8) = x mod 2 ^ n"
    and "uint (ucast (drop_bit 8 (of_int x :: u32) AND mask n) :: u8) = x div 256 mod 2 ^ n"
proof -
  have "uint (ucast (take_bit n (of_int x :: u32)) :: u8) = take_bit n x"
    using assms by (simp add: unsigned_ucast_eq unsigned_take_bit_eq uint_word_of_int_eq take_bit_take_bit min_def)
  then show "uint (ucast ((of_int x :: u32) AND mask n) :: u8) = x mod 2 ^ n"
    unfolding take_bit_eq_mask [of n "of_int x :: u32"] take_bit_eq_mod [of n x] .
  have "uint (ucast (take_bit n (drop_bit 8 (of_int x :: u32))) :: u8) = take_bit n (drop_bit 8 x)"
  proof -
    have "uint (drop_bit 8 (of_int x :: u32)) = drop_bit 8 (take_bit 32 x)"
      by (simp add: unsigned_drop_bit_eq uint_word_of_int_eq)
    then have "uint (ucast (take_bit n (drop_bit 8 (of_int x :: u32))) :: u8) = take_bit (min 8 n) (drop_bit 8 (take_bit 32 x))"
      by (simp add: unsigned_ucast_eq unsigned_take_bit_eq take_bit_take_bit min.commute)
    also have "\<dots> = take_bit n (drop_bit 8 x)" using assms by (intro bit_eqI) (auto simp: bit_simps)
    finally show ?thesis .
  qed
  then show "uint (ucast (drop_bit 8 (of_int x :: u32) AND mask n) :: u8) = x div 256 mod 2 ^ n"
    unfolding take_bit_eq_mask [of n "drop_bit 8 (of_int x :: u32)"] drop_bit_eq_div [of 8 x] by (simp add: take_bit_eq_mod)
qed

lemma byte_masks: "(0x3f :: u32) = mask 6" "(0xff :: u32) = mask 8" "(7 :: u32) = mask 3"
  by (simp_all add: mask_eq_exp_minus_1)

text \<open>The byte of a divider.\<close>

definition div_byte :: "int \<Rightarrow> u8" where
  "div_byte d = (let d = d - 2; m = of_int (d sdiv 2 + d smod 2) :: u32; n = of_int (d sdiv 2) :: u32
     in ucast (push_bit 4 (m AND 0xf) OR (n AND 0xf)))"

lemma div_bytes:
  "list_all (\<lambda>d. uint (drop_bit 4 (div_byte d)) + uint (div_byte d AND 0xf) + 2 = d) [2..32]"
  by code_simp

lemma div_byte: "2 \<le> d \<Longrightarrow> d \<le> 32 \<Longrightarrow> uint (drop_bit 4 (div_byte d)) + uint (div_byte d AND 0xf) + 2 = d"
  using div_bytes [unfolded list_all_iff, THEN bspec, of d] by (simp only: set_upto atLeastAtMost_iff simp_thms)

section \<open>Programming a configuration\<close>

lemma spi_simps [simp]:
  "cd_spi (spi_look a c) = cd_spi c" "cv_pll (spi_look a c) = cv_pll c" "cd_spi (spi_set a d c) = (cd_spi c)(a := d)"
  "cv_pll (spi_set a d c) = cv_pll c" "cd_ticks (spi_look a c) = cd_ticks c" "cd_ticks (spi_set a d c) = cd_ticks c"
  by (simp_all add: spi_look_def spi_set_def)

lemma byte_and: "(ucast (ucast (b :: u8) :: u32) :: u8) = b" "(ucast b :: u32) AND 0xff = ucast b"
proof -
  show "(ucast (ucast b :: u32) :: u8) = b" by (rule bit_eqI) (auto simp: bit_simps dest: bit_imp_le_length)
  show "(ucast b :: u32) AND 0xff = ucast b" using spi_data(1) [of 0 b] by (simp add: bit.conj_disj_distrib2)
qed

lemma run_clkgen_modify:
  assumes "\<And>n. io_spi_done io n" and "addr < 0x400" and "addr \<noteq> AD9516_PLLREADBACK"
  shows "run_state (clkgen_or io addr d) c = ((), spi_set addr (cd_spi c addr OR d) (spi_look addr c))"
    and "run_state (clkgen_and io addr d) c = ((), spi_set addr (cd_spi c addr AND d) (spi_look addr c))"
  using assms by (simp_all add: clkgen_or_def clkgen_and_def run_clkgen_rd run_clkgen_wr byte_and)

lemma write_d_cases:
  assumes "divider = 3 \<or> divider = 4" and "nr = 1 \<or> nr = 2"
  defines "bypass \<equiv> if divider = 3 then AD9516_CMOSDIV3_BYPASS else AD9516_CMOSDIV4_BYPASS"
    and "addr \<equiv> if divider = 3 then if nr = 1 then AD9516_CMOSDIV3_1 else AD9516_CMOSDIV3_2
        else if nr = 1 then AD9516_CMOSDIV4_1 else AD9516_CMOSDIV4_2"
    and "m \<equiv> if nr = 1 then 0x10 else 0x20 :: u8"
  shows "clkgen_write_d io divider nr d =
    (if d = 0 then clkgen_or io bypass m
     else do { _ \<leftarrow> clkgen_wr io addr (div_byte d); clkgen_and io bypass (NOT m) })"
proof -
  have "within_range 3 divider 4" "within_range 1 nr 2" using assms(1,2) by (auto simp: within_range_def)
  then show ?thesis unfolding clkgen_write_d_def div_byte_def Let_def bypass_def addr_def m_def by (simp only: simp_thms if_False)
qed

lemma write_d_addrs:
  "(if b then AD9516_CMOSDIV3_BYPASS else AD9516_CMOSDIV4_BYPASS) < 0x400" "(if b then AD9516_CMOSDIV3_BYPASS else AD9516_CMOSDIV4_BYPASS) \<noteq> AD9516_PLLREADBACK"
  "(if b then if e then AD9516_CMOSDIV3_1 else AD9516_CMOSDIV3_2 else if e then AD9516_CMOSDIV4_1 else AD9516_CMOSDIV4_2) < 0x400"
  "(if b then if e then AD9516_CMOSDIV3_1 else AD9516_CMOSDIV3_2 else if e then AD9516_CMOSDIV4_1 else AD9516_CMOSDIV4_2)
    \<noteq> (if b then AD9516_CMOSDIV3_BYPASS else AD9516_CMOSDIV4_BYPASS)"
  by simp_all

lemma run_write_d:
  assumes "\<And>n. io_spi_done io n" and "divider = 3 \<or> divider = 4" and "nr = 1 \<or> nr = 2"
  defines "bypass \<equiv> if divider = 3 then AD9516_CMOSDIV3_BYPASS else AD9516_CMOSDIV4_BYPASS"
    and "addr \<equiv> if divider = 3 then if nr = 1 then AD9516_CMOSDIV3_1 else AD9516_CMOSDIV3_2
        else if nr = 1 then AD9516_CMOSDIV4_1 else AD9516_CMOSDIV4_2"
    and "m \<equiv> if nr = 1 then 0x10 else 0x20 :: u8"
  shows "cd_spi (snd (run_state (clkgen_write_d io divider nr d) c)) =
      (if d = 0 then (cd_spi c)(bypass := cd_spi c bypass OR m)
       else (cd_spi c)(addr := div_byte d, bypass := cd_spi c bypass AND NOT m))"
    and "cv_pll (snd (run_state (clkgen_write_d io divider nr d) c)) = cv_pll c"
    and "cd_ticks (snd (run_state (clkgen_write_d io divider nr d) c)) = cd_ticks c"
proof -
  note a = write_d_addrs(1,2) [where b = "divider = 3", folded bypass_def]
    write_d_addrs(3,4) [where b = "divider = 3" and e = "nr = 1", folded bypass_def addr_def]
  note w = write_d_cases [OF assms(2,3), of io d, folded bypass_def addr_def m_def]
  show "cd_spi (snd (run_state (clkgen_write_d io divider nr d) c)) =
      (if d = 0 then (cd_spi c)(bypass := cd_spi c bypass OR m)
       else (cd_spi c)(addr := div_byte d, bypass := cd_spi c bypass AND NOT m))"
    "cv_pll (snd (run_state (clkgen_write_d io divider nr d) c)) = cv_pll c"
    "cd_ticks (snd (run_state (clkgen_write_d io divider nr d) c)) = cd_ticks c"
    unfolding w using a by (simp_all add: run_clkgen_modify [OF assms(1)] run_clkgen_wr [OF assms(1)])
qed

lemma run_write_counts:
  assumes "\<And>n. io_spi_done io n"
  shows "cd_spi (snd (run_state (clkgen_write_a io x) c)) = (cd_spi c)(AD9516_ACOUNT := ucast ((of_int x :: u32) AND 0x3f))"
    and "cd_spi (snd (run_state (clkgen_write_b io x) c)) =
      (cd_spi c)(AD9516_BCOUNT_LSB := ucast ((of_int x :: u32) AND 0xff), AD9516_BCOUNT_MSB := ucast (drop_bit 8 (of_int x :: u32) AND 0x3f))"
    and "cd_spi (snd (run_state (clkgen_write_r io x) c)) =
      (cd_spi c)(AD9516_RCOUNT_LSB := ucast ((of_int x :: u32) AND 0xff), AD9516_RCOUNT_MSB := ucast (drop_bit 8 (of_int x :: u32) AND 0x3f))"
    and "cd_spi (snd (run_state (clkgen_write_p io x) c)) =
      (cd_spi c)(AD9516_PLL1 := (cd_spi c AD9516_PLL1 AND 0xf8) OR (if x = 16 then 5 else 6))"
    and "cv_pll (snd (run_state (clkgen_write_a io x) c)) = cv_pll c" "cv_pll (snd (run_state (clkgen_write_b io x) c)) = cv_pll c"
    and "cv_pll (snd (run_state (clkgen_write_r io x) c)) = cv_pll c" "cv_pll (snd (run_state (clkgen_write_p io x) c)) = cv_pll c"
    and "cd_ticks (snd (run_state (clkgen_write_a io x) c)) = cd_ticks c" "cd_ticks (snd (run_state (clkgen_write_b io x) c)) = cd_ticks c"
    and "cd_ticks (snd (run_state (clkgen_write_r io x) c)) = cd_ticks c" "cd_ticks (snd (run_state (clkgen_write_p io x) c)) = cd_ticks c"
  unfolding clkgen_write_a_def clkgen_write_b_def clkgen_write_r_def clkgen_write_p_def
  by (simp_all add: run_clkgen_wr [OF assms] run_clkgen_modify [OF assms])

lemma run_write_dvco:
  assumes "\<And>n. io_spi_done io n" and "pll_dvco (cv_pll c) \<in> {0, 2, 3, 4, 5, 6}" and "pll_dvco (cv_pll c) = 0 \<Longrightarrow> pll_external (cv_pll c)"
  shows "cd_spi (snd (run_state (clkgen_write_dvco io) c)) =
      (if pll_dvco (cv_pll c) = 0 then (cd_spi c)(AD9516_INPUT_CLKS := cd_spi c AD9516_INPUT_CLKS OR 1)
       else (cd_spi c)(AD9516_VCO_DIVIDER := ucast ((of_int (pll_dvco (cv_pll c) - 2) :: u32) AND 7),
                       AD9516_INPUT_CLKS := cd_spi c AD9516_INPUT_CLKS AND 0xfe))"
    and "cv_pll (snd (run_state (clkgen_write_dvco io) c)) = cv_pll c"
    and "cd_ticks (snd (run_state (clkgen_write_dvco io) c)) = cd_ticks c"
proof -
  let ?d = "pll_dvco (cv_pll c)"
  have r: "?d \<noteq> 0 \<Longrightarrow> within_range 2 ?d 6" using assms(2) by (auto simp: within_range_def)
  have s: "(cv_pll c)\<lparr>pll_dvco := ?d\<rparr> = cv_pll c" by simp
  show "cd_spi (snd (run_state (clkgen_write_dvco io) c)) =
      (if ?d = 0 then (cd_spi c)(AD9516_INPUT_CLKS := cd_spi c AD9516_INPUT_CLKS OR 1)
       else (cd_spi c)(AD9516_VCO_DIVIDER := ucast ((of_int (?d - 2) :: u32) AND 7), AD9516_INPUT_CLKS := cd_spi c AD9516_INPUT_CLKS AND 0xfe))"
    "cv_pll (snd (run_state (clkgen_write_dvco io) c)) = cv_pll c" "cd_ticks (snd (run_state (clkgen_write_dvco io) c)) = cd_ticks c"
    using assms(3) r s
    by (cases "?d = 0"; simp add: clkgen_write_dvco_def run_clkgen_wr [OF assms(1)] run_clkgen_modify [OF assms(1)] Let_def)+
qed

lemma run_calib:
  assumes "\<And>n. io_spi_done io n"
  shows "cd_spi (snd (run_state (calib_vco_sleep io r f) c)) = cd_spi c" "cv_pll (snd (run_state (calib_vco_sleep io r f) c)) = cv_pll c"
    "cd_ticks (snd (run_state (calib_vco_sleep io r f) c)) = cd_ticks c + calib_ticks r f"
  by (simp_all add: calib_vco_sleep_def tswait_def run_clkgen_rd [OF assms])

text \<open>The dividers after \<open>check_pll_dividers\<close>: a divider of 1 is bypassed, and the two may have changed places.\<close>

lemma checked_dividers:
  assumes "1 \<le> pll_d1 pll" and "pll_d1 pll \<le> 32" and "1 \<le> pll_d2 pll" and "pll_d2 pll \<le> 32"
  defines "q \<equiv> check_pll_dividers pll" and "v \<equiv> \<lambda>d :: int. if d = 0 then 1 else d"
  shows "v (pll_d1 q) * v (pll_d2 q) = pll_d1 pll * pll_d2 pll" "pll_d1 q = 0 \<or> 2 \<le> pll_d1 q" "pll_d2 q = 0 \<or> 2 \<le> pll_d2 q"
    "pll_d1 q \<le> 32" "pll_d2 q \<le> 32"
  using assms(1-4) unfolding q_def v_def check_pll_dividers_def Let_def by (auto simp: mult.commute)

lemma checked_others:
  "pll_a (check_pll_dividers pll) = pll_a pll" "pll_b (check_pll_dividers pll) = pll_b pll" "pll_p (check_pll_dividers pll) = pll_p pll"
  "pll_r (check_pll_dividers pll) = (if pll_r pll = 1 then 0 else pll_r pll)"
  "pll_dvco (check_pll_dividers pll) = (if pll_dvco pll = 1 then 0 else pll_dvco pll)"
  "pll_external (check_pll_dividers pll) = pll_external pll"
  by (simp_all add: check_pll_dividers_def Let_def)

lemma run_apply_pll:
  assumes "\<And>n. io_spi_done io n" and "pll_dvco (cv_pll c) \<in> {1, 2, 3, 4, 5, 6}" and "pll_dvco (cv_pll c) = 1 \<Longrightarrow> pll_external (cv_pll c)"
  defines "q \<equiv> check_pll_dividers (cv_pll c)" and "d \<equiv> snd (run_state (clkgen_apply_pll_conf io) c)"
  shows "cv_pll d = q" and "cd_ticks d = cd_ticks c + calib_ticks (pll_r q) AD9516_OSCILLATOR_FREQ"
    and "\<And>a. a \<in> {AD9516_ACOUNT, AD9516_BCOUNT_LSB, AD9516_BCOUNT_MSB, AD9516_RCOUNT_LSB, AD9516_RCOUNT_MSB} \<Longrightarrow>
      cd_spi d a = ((cd_spi c)(AD9516_ACOUNT := ucast ((of_int (pll_a q) :: u32) AND 0x3f),
        AD9516_BCOUNT_LSB := ucast ((of_int (pll_b q) :: u32) AND 0xff), AD9516_BCOUNT_MSB := ucast (drop_bit 8 (of_int (pll_b q) :: u32) AND 0x3f),
        AD9516_RCOUNT_LSB := ucast ((of_int (pll_r q) :: u32) AND 0xff), AD9516_RCOUNT_MSB := ucast (drop_bit 8 (of_int (pll_r q) :: u32) AND 0x3f))) a"
    and "cd_spi d AD9516_PLL1 = (cd_spi c AD9516_PLL1 AND 0xf8) OR (if pll_p q = 16 then 5 else 6)"
    and "cd_spi d AD9516_INPUT_CLKS = (if pll_external q then if pll_dvco q = 0 then 9 else 8 else 2)"
    and "pll_dvco q \<noteq> 0 \<Longrightarrow> cd_spi d AD9516_VCO_DIVIDER = ucast ((of_int (pll_dvco q - 2) :: u32) AND 7)"
    and "pll_d1 q \<noteq> 0 \<Longrightarrow> cd_spi d AD9516_CMOSDIV3_1 = div_byte (pll_d1 q) \<and> cd_spi d AD9516_CMOSDIV4_1 = div_byte (pll_d1 q)"
    and "pll_d2 q \<noteq> 0 \<Longrightarrow> cd_spi d AD9516_CMOSDIV3_2 = div_byte (pll_d2 q) \<and> cd_spi d AD9516_CMOSDIV4_2 = div_byte (pll_d2 q)"
    and "\<And>a. a \<in> {AD9516_CMOSDIV3_BYPASS, AD9516_CMOSDIV4_BYPASS} \<Longrightarrow>
      cd_spi d a = (let x = (if pll_d1 q = 0 then cd_spi c a OR 0x10 else cd_spi c a AND NOT 0x10)
        in if pll_d2 q = 0 then x OR 0x20 else x AND NOT 0x20)"
proof -
  have q: "pll_dvco q \<in> {0, 2, 3, 4, 5, 6}" "pll_dvco q = 0 \<Longrightarrow> pll_external q" "pll_dvco q = 0 \<Longrightarrow> pll_external q"
    using assms(2,3) by (auto simp: q_def checked_others split: if_splits)
  define c1 where "c1 = c\<lparr>cv_pll := q\<rparr>"
  have c1: "cv_pll c1 = q" "cd_spi c1 = cd_spi c" "cd_ticks c1 = cd_ticks c" by (simp_all add: c1_def)
  define x :: u8 where "x = (if pll_external q then 9 else 2)"
  have dvco: "cd_spi (snd (run_state (clkgen_write_dvco io) s)) =
      (if pll_dvco q = 0 then (cd_spi s)(AD9516_INPUT_CLKS := cd_spi s AD9516_INPUT_CLKS OR 1)
       else (cd_spi s)(AD9516_VCO_DIVIDER := ucast ((of_int (pll_dvco q - 2) :: u32) AND 7), AD9516_INPUT_CLKS := cd_spi s AD9516_INPUT_CLKS AND 0xfe))"
    "cv_pll (snd (run_state (clkgen_write_dvco io) s)) = q" "cd_ticks (snd (run_state (clkgen_write_dvco io) s)) = cd_ticks s"
    if "cv_pll s = q" for s using run_write_dvco [OF assms(1), of s] q that by auto
  note steps = run_write_counts [OF assms(1)] dvco run_write_d [OF assms(1)] run_calib [OF assms(1)] run_clkgen_wr [OF assms(1)]
  note run = d_def clkgen_apply_pll_conf_def x_def [symmetric]
  show "cv_pll d = q" "cd_ticks d = cd_ticks c + calib_ticks (pll_r q) AD9516_OSCILLATOR_FREQ"
    unfolding run by (simp_all add: split_beta q_def [symmetric] c1_def [symmetric] c1 steps x_def [symmetric])
  show "\<And>a. a \<in> {AD9516_ACOUNT, AD9516_BCOUNT_LSB, AD9516_BCOUNT_MSB, AD9516_RCOUNT_LSB, AD9516_RCOUNT_MSB} \<Longrightarrow>
      cd_spi d a = ((cd_spi c)(AD9516_ACOUNT := ucast ((of_int (pll_a q) :: u32) AND 0x3f),
        AD9516_BCOUNT_LSB := ucast ((of_int (pll_b q) :: u32) AND 0xff), AD9516_BCOUNT_MSB := ucast (drop_bit 8 (of_int (pll_b q) :: u32) AND 0x3f),
        AD9516_RCOUNT_LSB := ucast ((of_int (pll_r q) :: u32) AND 0xff), AD9516_RCOUNT_MSB := ucast (drop_bit 8 (of_int (pll_r q) :: u32) AND 0x3f))) a"
    unfolding run by (elim insertE; simp add: split_beta q_def [symmetric] c1_def [symmetric] c1 steps x_def [symmetric])
  show "cd_spi d AD9516_PLL1 = (cd_spi c AD9516_PLL1 AND 0xf8) OR (if pll_p q = 16 then 5 else 6)"
    unfolding run by (simp add: split_beta q_def [symmetric] c1_def [symmetric] c1 steps x_def [symmetric])
  have "cd_spi d AD9516_INPUT_CLKS = (if pll_dvco q = 0 then x OR 1 else x AND 0xfe)"
    unfolding run by (simp add: split_beta q_def [symmetric] c1_def [symmetric] c1 steps x_def [symmetric])
  then show "cd_spi d AD9516_INPUT_CLKS = (if pll_external q then if pll_dvco q = 0 then 9 else 8 else 2)"
    using q(2) by (auto simp: x_def)
  show "pll_dvco q \<noteq> 0 \<Longrightarrow> cd_spi d AD9516_VCO_DIVIDER = ucast ((of_int (pll_dvco q - 2) :: u32) AND 7)"
    unfolding run by (simp add: split_beta q_def [symmetric] c1_def [symmetric] c1 steps x_def [symmetric])
  show "pll_d1 q \<noteq> 0 \<Longrightarrow> cd_spi d AD9516_CMOSDIV3_1 = div_byte (pll_d1 q) \<and> cd_spi d AD9516_CMOSDIV4_1 = div_byte (pll_d1 q)"
    "pll_d2 q \<noteq> 0 \<Longrightarrow> cd_spi d AD9516_CMOSDIV3_2 = div_byte (pll_d2 q) \<and> cd_spi d AD9516_CMOSDIV4_2 = div_byte (pll_d2 q)"
    unfolding run by (simp_all add: split_beta q_def [symmetric] c1_def [symmetric] c1 steps x_def [symmetric])
  show "\<And>a. a \<in> {AD9516_CMOSDIV3_BYPASS, AD9516_CMOSDIV4_BYPASS} \<Longrightarrow>
      cd_spi d a = (let x = (if pll_d1 q = 0 then cd_spi c a OR 0x10 else cd_spi c a AND NOT 0x10)
        in if pll_d2 q = 0 then x OR 0x20 else x AND NOT 0x20)"
    unfolding run by (elim insertE; simp add: split_beta q_def [symmetric] c1_def [symmetric] c1 steps x_def [symmetric])
qed

lemma bypass_bits:
  fixes w :: u8
  shows "\<not> bit (w AND - 17 OR 32) 4" "\<not> bit ((w AND - 17) AND - 33) 4" "bit ((w OR 16) OR 32) 4" "bit ((w OR 16) AND - 33) 4"
    "bit (w OR 32) 5" "\<not> bit (w AND - 33) 5"
  by (simp_all add: bit_simps)



end
