(* ===== verification/Cvorg_Inv.thy ===== *)
theory Cvorg_Inv
  imports Cvorg_Access
begin

text \<open>
  Invariants of a CVORG module. An interface (\<open>card_readers\<close>) says what a property of the module has to survive to be kept by the calls that
  only read: reads and the address of the SRAM. A larger one (\<open>card_invariant\<close>) adds writes to
  registers other than the configuration of a channel, the rest of the configuration register, commands, the SRAM, the clock
  generator: every operation of the driver that does not set the configuration keeps such a property. The larger one is
  provided for the agreement of the configuration register with the module, and for the owner; the smaller one for the contents of the card.
\<close>

section \<open>Keeping a property\<close>

definition keeps :: "(cvorg \<Rightarrow> bool) \<Rightarrow> (cvorg, 'a) state \<Rightarrow> bool" where
  "keeps P m \<longleftrightarrow> (\<forall>c. P c \<longrightarrow> P (snd (run_state m c)))"

named_theorems keep

lemma keepsD: "keeps P m \<Longrightarrow> P c \<Longrightarrow> P (snd (run_state m c))"
  by (simp add: keeps_def)

lemma keeps_bind [keep]: "keeps P m \<Longrightarrow> (\<And>x. keeps P (f x)) \<Longrightarrow> keeps P (State_Monad.bind m f)"
  by (simp add: keeps_def split_beta)

lemma keeps_return [keep]: "keeps P (State_Monad.return x)"
  by (simp add: keeps_def)

lemma keeps_gets [keep]: "keeps P (gets f)" and keeps_channel [keep]: "keeps P (channel k)"
  by (simp_all add: keeps_def)

lemma keeps_if [keep]: "(b \<Longrightarrow> keeps P m) \<Longrightarrow> (\<not> b \<Longrightarrow> keeps P n) \<Longrightarrow> keeps P (if b then m else n)"
  by simp

lemma keeps_let [keep]: "(\<And>x. keeps P (f x)) \<Longrightarrow> keeps P (let x = a in f x)"
  by simp

lemma keeps_option [keep]: "keeps P m \<Longrightarrow> (\<And>x. a = Some x \<Longrightarrow> keeps P (f x)) \<Longrightarrow> keeps P (case a of None \<Rightarrow> m | Some x \<Rightarrow> f x)"
  by (cases a) simp_all

lemma keeps_rc [keep]: "keeps P m \<Longrightarrow> (\<And>e. keeps P (f e)) \<Longrightarrow> keeps P (case r of OK \<Rightarrow> m | Err e \<Rightarrow> f e)"
  by (cases r) simp_all

lemma keeps_nat [keep]: "keeps P m \<Longrightarrow> (\<And>i. keeps P (f i)) \<Longrightarrow> keeps P (case n of 0 \<Rightarrow> m | Suc i \<Rightarrow> f i)"
  by (cases n) simp_all

lemma keeps_pair [keep]: "(\<And>x y. keeps P (f x y)) \<Longrightarrow> keeps P (case p of (x, y) \<Rightarrow> f x y)"
  by (cases p) simp

lemma keeps_sum [keep]: "(\<And>x. keeps P (f x)) \<Longrightarrow> (\<And>x. keeps P (g x)) \<Longrightarrow> keeps P (case s of Inl x \<Rightarrow> f x | Inr x \<Rightarrow> g x)"
  by (cases s) simp_all

lemma keeps_out [keep]: "keeps P m \<Longrightarrow> keeps P (no_out m)" "keeps P m' \<Longrightarrow> keeps P (out_of f m')" "keeps P m'' \<Longrightarrow> keeps P (finish m'')"
  unfolding no_out_def out_of_def finish_def by (auto intro!: keep)

section \<open>The interface\<close>

text \<open>The bits of the configuration register that the module's own data describe: offset, polarity, gain, enable.\<close>

abbreviation (input) CONFIG_DATA :: u32 where "CONFIG_DATA \<equiv> 0x7e0"

lemma update_other_bits:
  fixes v :: "'a::len word"
  assumes "v AND d = 0" and "m AND d = 0"
  shows "((x AND NOT m) OR v) AND d = x AND d"
proof (rule bit_eqI)
  fix n assume n: "possible_bit TYPE('a word) n"
  have "\<not> bit (v AND d) n" "\<not> bit (m AND d) n" using assms by simp_all
  then show "bit (((x AND NOT m) OR v) AND d) n = bit (x AND d) n"
    using n by (auto simp: bit_and_iff bit_or_iff bit_not_iff)
qed

locale card_readers =
  fixes I :: "cvorg \<Rightarrow> bool"
  assumes inv_wf: "I c \<Longrightarrow> cvorg_wf c"
    and inv_reads: "I c \<Longrightarrow> I (reads 1 c)"
    and inv_sramaddr: "I c \<Longrightarrow> I (setreg (base k + CVORG_SRAMADDR) v c)"
begin

lemma keeps_rchan [keep]: "k < 2 \<Longrightarrow> plain off \<or> read_only off \<and> off < 0x200 \<Longrightarrow> keeps I (cvorg_rchan io k off)"
  using inv_reads inv_wf by (auto simp: keeps_def run_rchan run_rchan_ro)

lemma keeps_readw_ro [keep]: "read_only off \<Longrightarrow> off < 0x200 \<Longrightarrow> keeps I (cvorg_readw io off)"
  using inv_reads base_plus [of off 0] by (simp add: keeps_def card_read_def base_def reads_def Let_def)

lemma keeps_sramaddr [keep]: "k < 2 \<Longrightarrow> keeps I (cvorg_wchan io k CVORG_SRAMADDR v)"
  using inv_sramaddr inv_wf by (simp add: keeps_def run_wchan plain_regs)

lemma keeps_sramread [keep]: "k < 2 \<Longrightarrow> keeps I (cvorg_rchan_noswap io k CVORG_SRAMDATA)"
proof -
  assume k: "k < 2"
  have r: "reg_of (base k + CVORG_SRAMDATA) = CVORG_SRAMDATA" "chan_of (base k + CVORG_SRAMDATA) = base k" by (rule base_plus; simp)+
  have "I c \<Longrightarrow> I (c\<lparr>cd_reads := cd_reads c + 1, cd_regs := (cd_regs c)(base k + CVORG_SRAMADDR := a)\<rparr>)" for c a
    using inv_sramaddr [OF inv_reads, of c k a] by (simp add: reads_def setreg_def)
  then show "keeps I (cvorg_rchan_noswap io k CVORG_SRAMDATA)"
    using k inv_wf by (simp add: keeps_def cvorg_rchan_noswap_def cvorg_rchan_def wf_offset card_read_def r read_only_def Let_def)
qed

lemma keeps_status [keep]:
  assumes "k < 2"
  shows "keeps I (cvorg_channel_busy io k)" "keeps I (cvorg_channel_ready io k)" "keeps I (sram_busy_tries io k n)"
proof -
  show "keeps I (cvorg_channel_busy io k)" "keeps I (cvorg_channel_ready io k)"
    unfolding cvorg_channel_busy_def cvorg_channel_ready_def using assms by (auto intro!: keep simp: status_regs)
  show "keeps I (sram_busy_tries io k n)"
    using assms by (induction n) (auto intro!: keep simp: status_regs)
qed

lemma keeps_busy [keep]: "keeps I (cvorg_busy io)"
  unfolding cvorg_busy_def by (auto intro!: keep)

lemma keeps_sram_get: "k < 2 \<Longrightarrow> keeps I (gs_sram_ioctl io k a None)"
  unfolding gs_sram_ioctl_def cvorg_sram_busy_def by (auto intro!: keep)

text \<open>The calls that need no permission.\<close>

lemma keeps_reading_calls:
  assumes "k < 2" and "ioc_nr cm \<le> 50" and "cm \<noteq> IOCTUNLOCK_FORCE"
  shows "keeps I (cvorg_switch io f k cm)"
  using assms
  by (cases cm)
     (auto simp: cvorg_switch_def cvorg_g_chanstat_def cvorg_mode_get_def g_dac_gain_ioctl_def g_dac_offset_ioctl_def
        cvorg_get_temperature_def cvorg_get_pcb_id_def plain_regs status_regs read_only_def intro!: keep keeps_sram_get)

end

text \<open>What else the driver does to a card when it does not set the configuration.\<close>

locale card_invariant = card_readers +
  assumes inv_setreg: "I c \<Longrightarrow> plain off \<Longrightarrow> off \<noteq> CVORG_CONFIG \<Longrightarrow> I (setreg (base k + off) v c)"
    and inv_config: "I c \<Longrightarrow> v AND CONFIG_DATA = cd_regs c (base k + CVORG_CONFIG) AND CONFIG_DATA \<Longrightarrow> I (setreg (base k + CVORG_CONFIG) v c)"
    and inv_command: "I c \<Longrightarrow> I (command (base k) v c)"
    and inv_sram: "I c \<Longrightarrow> I (c\<lparr>cd_sram := s, cd_regs := (cd_regs c)(base k + CVORG_SRAMADDR := a)\<rparr>)"
    and inv_spi: "I c \<Longrightarrow> I (c\<lparr>cd_spi_addr := x\<rparr>)" "I c \<Longrightarrow> I (c\<lparr>cd_spi := y\<rparr>)"
    and inv_ticks: "I c \<Longrightarrow> I (c\<lparr>cd_ticks := t\<rparr>)"
    and inv_pll: "I c \<Longrightarrow> I (c\<lparr>cv_pll := p\<rparr>)"
begin

lemma keeps_tswait [keep]: "keeps I (tswait n)"
  using inv_ticks by (simp add: keeps_def tswait_def)

lemma keeps_modify_pll [keep]: "keeps I (modify (\<lambda>c. c\<lparr>cv_pll := f c\<rparr>))"
  using inv_pll by (simp add: keeps_def)

lemma keeps_wchan [keep]: "k < 2 \<Longrightarrow> plain off \<Longrightarrow> off \<noteq> CVORG_CONFIG \<Longrightarrow> keeps I (cvorg_wchan io k off v)"
  using inv_setreg inv_wf by (simp add: keeps_def run_wchan)

lemma keeps_update [keep]:
  assumes "k < 2" and "plain off" and "off \<noteq> CVORG_CONFIG"
  shows "keeps I (cvorg_ochan io k off v)" "keeps I (cvorg_achan io k off v)" "keeps I (cvorg_uchan io k off v m)"
  unfolding cvorg_uchan_def cvorg_ochan_def cvorg_achan_def using assms by (auto intro!: keep)

lemma keeps_command [keep]:
  "k < 2 \<Longrightarrow> v AND (CVORG_CTL_CHAN_RESET OR CVORG_CTL_FPGA_RESET) = 0 \<Longrightarrow> keeps I (cvorg_wchan io k CVORG_CTL v)"
  using inv_command inv_wf by (simp add: keeps_def run_command)

lemma keeps_config [keep]:
  assumes "k < 2"
  shows "v AND CONFIG_DATA = 0 \<Longrightarrow> m AND CONFIG_DATA = 0 \<Longrightarrow> keeps I (cvorg_uchan io k CVORG_CONFIG v m)"
    and "NOT w AND CONFIG_DATA = 0 \<Longrightarrow> keeps I (cvorg_achan io k CVORG_CONFIG w)"
proof -
  have r: "I c \<Longrightarrow> I (reads 2 c)" for c using inv_reads [of "reads 1 c"] inv_reads [of c] by (simp add: numeral_2_eq_2)
  show "keeps I (cvorg_uchan io k CVORG_CONFIG v m)" if "v AND CONFIG_DATA = 0" "m AND CONFIG_DATA = 0"
    using assms inv_config r update_other_bits [OF that] inv_wf by (simp add: keeps_def run_update plain_regs)
  have "NOT (NOT w) = w" by simp
  then show "keeps I (cvorg_achan io k CVORG_CONFIG w)" if "NOT w AND CONFIG_DATA = 0"
    using assms inv_config inv_reads update_other_bits [of 0 "0x7e0 :: u32" "NOT w", OF _ that] inv_wf by (simp add: keeps_def run_update plain_regs)
qed

end

section \<open>The clock generator and the SRAM\<close>

context card_invariant
begin

lemma keeps_clkctl [keep]: "keeps I (cvorg_readw io CVORG_CLKCTL)" "keeps I (cvorg_writew io CVORG_CLKCTL v)"
proof -
  have r: "reg_of CVORG_CLKCTL = CVORG_CLKCTL" by (simp add: reg_of_def)
  have "snd (card_read io CVORG_CLKCTL c) = reads 1 c" for c
    by (simp add: card_read_def r reads_def read_only_def Let_def)
  then show "keeps I (cvorg_readw io CVORG_CLKCTL)" using inv_reads by (simp add: keeps_def)
  have "card_write io CVORG_CLKCTL v c = c\<lparr>cd_spi_addr := x\<rparr> \<or> card_write io CVORG_CLKCTL v c = c\<lparr>cd_spi_addr := x, cd_spi := (cd_spi c)(x := ucast v)\<rparr>"
    if "x = drop_bit 8 (v AND CVORG_CLKCTL_ADDR)" for c x
    using that by (simp add: card_write_def r Let_def)
  then show "keeps I (cvorg_writew io CVORG_CLKCTL v)" unfolding keeps_def by (metis inv_spi run_writew snd_conv)
qed

lemma keeps_sramwrite [keep]: "k < 2 \<Longrightarrow> keeps I (cvorg_wchan_noswap io k CVORG_SRAMDATA v)"
proof -
  assume k: "k < 2"
  have r: "reg_of (base k + CVORG_SRAMDATA) = CVORG_SRAMDATA" "chan_of (base k + CVORG_SRAMDATA) = base k" by (rule base_plus; simp)+
  show "keeps I (cvorg_wchan_noswap io k CVORG_SRAMDATA v)"
    using k inv_wf inv_sram by (simp add: keeps_def cvorg_wchan_noswap_def cvorg_wchan_def wf_offset card_write_def r Let_def)
qed

lemma keeps_rval_tries [keep]: "keeps I (rval_tries io a n v)"
  by (induction n arbitrary: v) (auto intro!: keep)

lemma keeps_check_tries [keep]: "keeps I (check_tries io n)"
  by (induction n) (auto intro!: keep)

lemma keeps_clkgen_rd [keep]: "keeps I (clkgen_rd io a)"
  unfolding clkgen_rd_def clkgen_rval_def by (auto intro!: keep)

lemma keeps_clkgen_wr [keep]: "keeps I (clkgen_wr io a d)"
  unfolding clkgen_wr_def clkgen_check_write_def by (auto intro!: keep)

lemma keeps_clkgen_modify [keep]: "keeps I (clkgen_or io a d)" "keeps I (clkgen_and io a d)"
  unfolding clkgen_or_def clkgen_and_def by (auto intro!: keep)

lemma keeps_clkgen_wrs [keep]: "keeps I (clkgen_wrs io l)"
  by (induction l) (auto intro!: keep)

lemma keeps_clkgen_apply_pll_conf [keep]: "keeps I (clkgen_apply_pll_conf io)"
  unfolding clkgen_apply_pll_conf_def clkgen_write_a_def clkgen_write_b_def clkgen_write_r_def clkgen_write_p_def clkgen_write_dvco_def
    clkgen_write_d_def calib_vco_sleep_def
  by (intro keep)

lemma keeps_sampfreq_loop [keep]: "keeps I (sampfreq_loop io freq n s)"
proof (induction n arbitrary: s)
  case 0
  show ?case by (subst sampfreq_loop.simps) (auto intro!: keep simp: read_only_def)
next
  case (Suc n)
  then show ?case by (subst sampfreq_loop.simps) (auto intro!: keep simp: read_only_def)
qed

end

section \<open>Storing and playing a sequence\<close>

text \<open>The descriptor blocks are plain registers.\<close>

lemma plain_high: "0x60 \<le> off \<Longrightarrow> off < 0x200 \<Longrightarrow> plain off \<and> off \<noteq> CVORG_CONFIG"
  by (auto simp: plain_def read_only_def)

lemma unat_block_reg:
  assumes "i < 26" and "x \<in> {0, 4, 8, 12}"
  shows "unat (block_offset i + x) = 96 + 16 * i + unat x"
proof -
  have i: "unat (of_nat i :: u32) = i" using assms(1) by (simp add: unat_of_nat take_bit_nat_eq_self)
  have m: "unat (0x10 * of_nat i :: u32) = 16 * i" using i assms(1) by (subst unat_mult_lem [THEN iffD1]) simp_all
  have b: "unat (block_offset i) = 96 + 16 * i"
    unfolding block_offset_def using m assms(1) by (subst unat_add_lem [THEN iffD1]) simp_all
  have "unat x \<le> 12" using assms(2) by auto
  then show ?thesis using b assms(1) by (subst unat_add_lem [THEN iffD1]) simp_all
qed

lemma block_regs:
  assumes "i < 26" and "x \<in> {0, 4, 8, 12}"
  shows "plain (block_offset i + x)" "block_offset i + x \<noteq> CVORG_CONFIG"
proof -
  have "unat x \<le> 12" using assms(2) by auto
  then have "0x60 \<le> block_offset i + x" "block_offset i + x < 0x200"
    using unat_block_reg [OF assms] assms(1) by (simp_all add: word_le_nat_alt word_less_nat_alt)
  then show "plain (block_offset i + x)" "block_offset i + x \<noteq> CVORG_CONFIG" using plain_high by blast+
qed

lemma block_reg_0:
  "i < 26 \<Longrightarrow> plain (block_offset i)" "i < 26 \<Longrightarrow> block_offset i \<noteq> CVORG_CONFIG"
  using block_regs [of i 0] by simp_all

lemma prev_block: "0 < i \<Longrightarrow> prev_block_offset i = block_offset (i - 1)"
  by (simp add: prev_block_offset_def block_offset_def of_nat_diff)

lemma copy_wvs_length: "length (fst (copy_wvs u n i ws h)) = length ws"
  by (induction u n i ws h rule: copy_wvs.induct) (auto split: prod.splits rc.splits)

lemma seq_init_length: "seq_init u h = (Inr seq, h') \<Longrightarrow> length (sq_waves seq) = unat (sq_n_waves seq)"
  using copy_wvs_length [of u "unat (us_n_waves u)" 0 "map (us_junk u) [0..<unat (us_n_waves u)]" h]
  by (auto simp: seq_init_def Let_def split: if_splits prod.splits rc.splits)

context card_invariant
begin

lemma keeps_sram_points [keep]: "k < 2 \<Longrightarrow> keeps I (sram_points io k ds)"
  by (induction io k ds rule: sram_points.induct) (auto intro!: keep)

lemma keeps_quiesce [keep]: "k < 2 \<Longrightarrow> keeps I (cvorg_quiesce_channel io k)"
  unfolding cvorg_quiesce_channel_def by (auto intro!: keep)

lemma keeps_clear_errors [keep]: "k < 2 \<Longrightarrow> keeps I (cvorg_channel_clear_errors io k)"
  unfolding cvorg_channel_clear_errors_def by (auto intro!: keep)

lemma keeps_startable [keep]: "k < 2 \<Longrightarrow> keeps I (startable_loop io k n reg)"
proof (induction n arbitrary: reg)
  case 0
  then show ?case by (subst startable_loop.simps) (auto intro!: keep)
next
  case (Suc n)
  then show ?case by (subst startable_loop.simps) (auto intro!: keep simp: status_regs)
qed

lemma keeps_play [keep]: "k < 2 \<Longrightarrow> keeps I (play_wv io k)"
  unfolding play_wv_def cvorg_poll_startable_def by (auto intro!: keep simp: status_regs)

lemma keeps_invalid_waves [keep]: "k < 2 \<Longrightarrow> keeps I (invalid_waves io k u l)"
  by (induction l) (auto intro!: keep simp: status_regs cvorg_invalid_freqlimit_def)

lemma keeps_invalid_seq [keep]: "k < 2 \<Longrightarrow> keeps I (cvorg_invalid_seq io k u)"
  unfolding cvorg_invalid_seq_def by (auto intro!: keep)

lemma keeps_store_wave [keep]: "k < 2 \<Longrightarrow> i < 26 \<Longrightarrow> keeps I (store_wave io k n i a wv data)"
  unfolding store_wave_def cvorg_sram_def cvorg_wv_mark_prev_def cvorg_wv_mark_last_def cvorg_wv_store_def cvorg_wv_gain_store_def Let_def
  by (auto intro!: keep simp: plain_regs prev_block block_regs block_reg_0)

lemma keeps_store_waves: "k < 2 \<Longrightarrow> i + length ws \<le> 26 \<Longrightarrow> keeps I (store_waves io k n i a ws h)"
  by (induction ws arbitrary: i a h) (auto intro!: keep)

lemma keeps_storeseq:
  assumes "k < 2" and "length (sq_waves seq) = unat (sq_n_waves seq)"
  shows "keeps I (cvorg_storeseq io k seq h)"
proof (cases "sq_n_waves seq > CVORG_MAX_SEQUENCES")
  case False
  then have "length (sq_waves (single_wave seq)) \<le> 26" using assms(2) by (simp add: single_wave_def word_le_nat_alt not_less)
  then show ?thesis
    unfolding cvorg_storeseq_def storeseq_def cvorg_sram_busy_def Let_def using assms(1)
    by (auto intro!: keep keeps_store_waves simp: plain_regs)
qed (auto simp: cvorg_storeseq_def intro!: keep)

lemma keeps_loadseq:
  assumes "k < 2"
  shows "keeps I (cvorg_loadseq io k u h)"
proof -
  have l: "keeps I (loadseq io k seq h')" if "seq_init u h = (Inr seq, h')" for seq h'
    unfolding loadseq_def using assms by (auto intro!: keep keeps_storeseq seq_init_length [OF that])
  obtain s h' where s: "seq_init u h = (s, h')" by fastforce
  show ?thesis
  proof (cases s)
    case (Inl e)
    then show ?thesis unfolding cvorg_loadseq_def s Inl prod.case sum.case using assms by (auto intro!: keep)
  next
    case (Inr seq)
    then show ?thesis unfolding cvorg_loadseq_def s Inr prod.case sum.case using assms by (auto intro!: keep l [OF s [unfolded Inr]])
  qed
qed

end

section \<open>The calls\<close>

text \<open>The calls that set the configuration of a channel, and those that set the owner.\<close>

definition sets_config :: "cvorg_ioctl \<Rightarrow> bool" where
  "sets_config cm = (case cm of IOCSOUTOFFSET _ \<Rightarrow> True | IOCSINPOLARITY _ \<Rightarrow> True | IOCSOUTGAIN _ \<Rightarrow> True | IOCSOUT_ENABLE _ \<Rightarrow> True | _ \<Rightarrow> False)"

definition sets_owner :: "cvorg_ioctl \<Rightarrow> bool" where
  "sets_owner cm \<longleftrightarrow> cm = IOCTLOCK \<or> cm = IOCTUNLOCK \<or> cm = IOCTUNLOCK_FORCE"

lemma mode_to_hw_small: "cvorg_mode_to_hw mode AND CONFIG_DATA = 0"
  by (simp add: cvorg_mode_to_hw_def)

lemma push_bit_clears:
  fixes a :: u32
  assumes "24 \<le> n"
  shows "push_bit n a AND 0x7e0 = 0"
proof (rule bit_eqI)
  fix m
  have "(0x7e0 :: u32) = take_bit 24 0x7e0" by simp
  then have "bit (0x7e0 :: u32) m \<Longrightarrow> m < 24" by (metis bit_take_bit_iff)
  then show "bit (push_bit n a AND 0x7e0) m = bit 0 m" using assms unfolding bit_and_iff bit_push_bit_iff by auto
qed

lemma adc_reg_high:
  "Option.bind (cvorg_adc_channel_to_hw adc 0) (cvorg_adc_range_to_hw rng) = Some reg \<Longrightarrow> reg AND CONFIG_DATA = 0"
  using push_bit_clears [of 24 "adc + 1"]
  by (auto simp: cvorg_adc_channel_to_hw_def cvorg_adc_range_to_hw_def Let_def bit.conj_disj_distrib2 and.assoc split: if_splits)

context card_invariant
begin

lemma keeps_adc_loop [keep]: "k < 2 \<Longrightarrow> keeps I (adc_loop io k n reg)"
proof (induction n arbitrary: reg)
  case 0
  then show ?case by (subst adc_loop.simps) (auto intro!: keep)
next
  case (Suc n)
  then show ?case by (subst adc_loop.simps) (auto intro!: keep simp: status_regs)
qed

lemma keeps_mode_set: "k < 2 \<Longrightarrow> keeps I (cvorg_mode_set io k mode)"
proof -
  assume k: "k < 2"
  have "((x AND NOT 0xf) OR cvorg_mode_to_hw mode) AND CONFIG_DATA = x AND CONFIG_DATA" for x
    by (rule update_other_bits [OF mode_to_hw_small]) simp
  then show ?thesis
    using k inv_config inv_reads inv_wf by (simp add: keeps_def cvorg_mode_set_def run_rchan run_wchan plain_regs split_beta)
qed

lemma keeps_adc_read: "k < 2 \<Longrightarrow> keeps I (cvorg_adc_read_ioctl io k adc rng)"
  unfolding cvorg_adc_read_ioctl_def by (auto intro!: keep simp: status_regs adc_reg_high)

lemma keeps_sram_ioctl: "k < 2 \<Longrightarrow> keeps I (gs_sram_ioctl io k a d)"
  unfolding gs_sram_ioctl_def cvorg_sram_busy_def by (auto intro!: keep simp: plain_regs)

lemma keeps_switch:
  assumes "k < 2" and "\<not> sets_config cm" and "\<not> sets_owner cm"
  shows "keeps I (cvorg_switch io f k cm)"
  using assms
  by (cases cm)
     (auto simp: cvorg_switch_def sets_config_def sets_owner_def s_trig_ioctl_def s_pll_ioctl_def cvorg_apply_pll_def
        cvorg_poll_sampfreq_def cvorg_g_chanstat_def s_mode_ioctl_def cvorg_mode_get_def s_dac_gain_ioctl_def g_dac_gain_ioctl_def
        s_dac_offset_ioctl_def g_dac_offset_ioctl_def cvorg_get_temperature_def cvorg_get_pcb_id_def plain_regs status_regs read_only_def
        intro!: keep keeps_mode_set keeps_adc_read keeps_sram_ioctl keeps_loadseq)

end

section \<open>The configuration register and the module\<close>

definition config_of :: "cvorg_channel \<Rightarrow> u32" where
  "config_of ch = (if cc_outoff ch = CVORG_OUT_OFFSET_0V then 0 else 0x20) OR (if cc_inpol ch = CVORG_NEGATIVE_PULSE then 0x40 else 0)
     OR push_bit 7 (cvorg_gain_to_hw (cc_outgain ch)) OR (if cc_out_enabled ch then 0x400 else 0)"

definition chan_agrees :: "cvorg \<Rightarrow> nat \<Rightarrow> bool" where
  "chan_agrees c k \<longleftrightarrow> cd_regs c (base k + CVORG_CONFIG) AND CONFIG_DATA = config_of (cv_channels c ! k)
     \<and> cc_outgain (cv_channels c ! k) \<in> set cvorg_gains \<and> \<not> cvorg_invalid_gain_offset (cc_outgain (cv_channels c ! k)) (cc_outoff (cv_channels c ! k))"

definition cfg_agrees :: "cvorg \<Rightarrow> bool" where
  "cfg_agrees c \<longleftrightarrow> cvorg_wf c \<and> chan_agrees c 0 \<and> chan_agrees c 1"

text \<open>Registers of the two channels are different, and so are two registers of a channel.\<close>

lemma base_eq: "off < 0x200 \<Longrightarrow> off' < 0x200 \<Longrightarrow> base k + off = base l + off' \<Longrightarrow> off = off' \<and> base k = base l"
  using base_plus [of off k] base_plus [of off' l] by simp

lemma chan_agrees_frame:
  "cv_channels d = cv_channels c \<Longrightarrow> cd_regs d (base k + CVORG_CONFIG) AND CONFIG_DATA = cd_regs c (base k + CVORG_CONFIG) AND CONFIG_DATA \<Longrightarrow>
     chan_agrees d k = chan_agrees c k"
  by (simp add: chan_agrees_def)

interpretation cfg: card_invariant cfg_agrees
proof
  fix c off k v
  assume i: "cfg_agrees c"
  then show "cvorg_wf c" by (simp add: cfg_agrees_def)
  have s: "cfg_agrees (setreg (base k + o') v c)" if "plain o'" "o' \<noteq> CVORG_CONFIG" for o'
  proof -
    have "base l + CVORG_CONFIG \<noteq> base k + o'" for l using that base_eq [of CVORG_CONFIG o' l k] by (auto simp: plain_def)
    then show ?thesis using i by (simp add: cfg_agrees_def chan_agrees_def)
  qed
  then show "plain off \<Longrightarrow> off \<noteq> CVORG_CONFIG \<Longrightarrow> cfg_agrees (setreg (base k + off) v c)" .
  show "cfg_agrees (setreg (base k + CVORG_SRAMADDR) v c)" using s [OF plain_regs(2)] by simp
  show "cfg_agrees (setreg (base k + CVORG_CONFIG) v c)"
    if "v AND CONFIG_DATA = cd_regs c (base k + CVORG_CONFIG) AND CONFIG_DATA"
    using i that by (auto simp: cfg_agrees_def chan_agrees_def)
  show "cfg_agrees (c\<lparr>cd_sram := s, cd_regs := (cd_regs c)(base k + CVORG_SRAMADDR := a)\<rparr>)" for s a
  proof -
    have "base l + CVORG_CONFIG \<noteq> base k + CVORG_SRAMADDR" for l using base_eq [of CVORG_CONFIG CVORG_SRAMADDR l k] by auto
    then show ?thesis using i by (simp add: cfg_agrees_def chan_agrees_def cvorg_wf_def)
  qed
qed (simp_all add: cfg_agrees_def chan_agrees_def cvorg_wf_def reads_def command_def)

interpretation own: card_invariant "\<lambda>c. cvorg_wf c \<and> cv_channels c = chs \<and> cv_owner c = own" for chs own
  by unfold_locales (auto simp: cvorg_wf_def)

text \<open>What a call that only reads leaves as it was.\<close>

definition same_contents :: "cvorg \<Rightarrow> cvorg \<Rightarrow> bool" where
  "same_contents c d \<longleftrightarrow> cv_channels d = cv_channels c \<and> cv_pll d = cv_pll c \<and> cv_owner d = cv_owner c \<and> cd_sram d = cd_sram c
     \<and> cd_spi d = cd_spi c \<and> cd_cmds d = cd_cmds c
     \<and> (\<forall>a. a \<noteq> CVORG_SRAMADDR \<longrightarrow> a \<noteq> 0x200 + CVORG_SRAMADDR \<longrightarrow> cd_regs d a = cd_regs c a)"

interpretation rd: card_readers "\<lambda>d. cvorg_wf d \<and> same_contents c d" for c
  by unfold_locales (auto simp: same_contents_def base_def split: if_splits)

end
