(* ===== verification/Cvorg_Props.thy ===== *)
theory Cvorg_Props
  imports Cvorg_Inv
begin

text \<open>
  What the CVORG driver promises its clients: the configuration register agrees with what the calls report, the owner is the only one
  who changes a module, gains are rounded to the nearest one, samples are read back as they were written.
\<close>

section \<open>Setting the configuration\<close>

lemma gain_hw_cases:
  "g \<in> set cvorg_gains \<Longrightarrow> cvorg_gain_to_hw g = 0 \<or> cvorg_gain_to_hw g = 1 \<or> cvorg_gain_to_hw g = 2 \<or> cvorg_gain_to_hw g = 3
     \<or> cvorg_gain_to_hw g = 4 \<or> cvorg_gain_to_hw g = 5 \<or> cvorg_gain_to_hw g = 6 \<or> cvorg_gain_to_hw g = 7"
  by (auto simp: cvorg_gain_to_hw_def)

lemma config_of_update:
  assumes "cc_outgain ch \<in> set cvorg_gains"
  shows "config_of ch AND NOT 0x20 OR (if off = CVORG_OUT_OFFSET_0V then 0 else 0x20) = config_of (ch\<lparr>cc_outoff := off\<rparr>)"
    and "config_of ch AND NOT 0x40 OR (if pol = CVORG_NEGATIVE_PULSE then 0x40 else 0) = config_of (ch\<lparr>cc_inpol := pol\<rparr>)"
    and "config_of ch AND NOT 0x400 OR (if en then 0x400 else 0) = config_of (ch\<lparr>cc_out_enabled := en\<rparr>)"
    and "config_of ch AND NOT 0x380 OR push_bit 7 (cvorg_gain_to_hw g) = config_of (ch\<lparr>cc_outgain := g\<rparr>)"
  using gain_hw_cases [OF assms] by (elim disjE; simp add: config_of_def or.assoc or.commute or.left_commute)+

lemma and_data:
  fixes x v m :: u32
  shows "v AND CONFIG_DATA = v \<Longrightarrow> ((x AND NOT m) OR v) AND CONFIG_DATA = ((x AND CONFIG_DATA) AND NOT m) OR v"
  by (simp add: bit.conj_disj_distrib2 and.assoc and.commute and.left_commute)

lemma agrees_after_set:
  assumes "cfg_agrees c" and "k < 2" and "cc_reg_offset ch = cc_reg_offset (cv_channels c ! k)" and "cc_outgain ch \<in> set cvorg_gains"
    and "\<not> cvorg_invalid_gain_offset (cc_outgain ch) (cc_outoff ch)" and "v AND CONFIG_DATA = config_of ch"
  shows "cfg_agrees (setreg (base k + CVORG_CONFIG) v (reads n (c\<lparr>cv_channels := (cv_channels c)[k := ch]\<rparr>)))" (is "cfg_agrees ?d")
proof -
  have wf: "cvorg_wf c" "length (cv_channels c) = 2" using assms(1) wf_length by (auto simp: cfg_agrees_def)
  have "cvorg_wf (c\<lparr>cv_channels := (cv_channels c)[k := ch]\<rparr>)"
    using wf_set_channel [OF wf(1), of "\<lambda>x. if cc_reg_offset x = cc_reg_offset ch then ch else x" k] assms(3) by simp
  moreover have "chan_agrees ?d l" if "l < 2" for l
  proof (cases "l = k")
    case True
    then show ?thesis using assms wf(2) by (simp add: chan_agrees_def)
  next
    case False
    have "base l + CVORG_CONFIG \<noteq> base k + CVORG_CONFIG" using False that assms(2) by (cases l; cases k; simp add: base_def)
    moreover have "chan_agrees c l" using that assms(1) by (cases l) (auto simp: cfg_agrees_def less_2_cases_iff)
    ultimately show ?thesis using False by (simp add: chan_agrees_def)
  qed
  ultimately show ?thesis by (simp add: cfg_agrees_def)
qed

lemma run_config:
  assumes "cvorg_wf c" and "k < 2"
  shows "run_state (cvorg_ochan io k CVORG_CONFIG v) c = ((), setreg (base k + CVORG_CONFIG) (cd_regs c (base k + CVORG_CONFIG) OR v) (reads 1 c))"
    and "run_state (cvorg_achan io k CVORG_CONFIG v) c = ((), setreg (base k + CVORG_CONFIG) (cd_regs c (base k + CVORG_CONFIG) AND v) (reads 1 c))"
    and "run_state (cvorg_uchan io k CVORG_CONFIG v m) c = ((), setreg (base k + CVORG_CONFIG) ((cd_regs c (base k + CVORG_CONFIG) AND NOT m) OR v) (reads 2 c))"
  using run_update [OF assms plain_regs(1)] by simp_all

lemma agrees_get:
  assumes "cfg_agrees c" and "k < 2"
  shows "cvorg_wf c" "k < length (cv_channels c)" "cd_regs c (base k + CVORG_CONFIG) AND CONFIG_DATA = config_of (cv_channels c ! k)"
    "cc_outgain (cv_channels c ! k) \<in> set cvorg_gains" "\<not> cvorg_invalid_gain_offset (cc_outgain (cv_channels c ! k)) (cc_outoff (cv_channels c ! k))"
proof -
  have "chan_agrees c k" using assms by (auto simp: cfg_agrees_def less_2_cases_iff)
  then show "cd_regs c (base k + CVORG_CONFIG) AND CONFIG_DATA = config_of (cv_channels c ! k)"
    "cc_outgain (cv_channels c ! k) \<in> set cvorg_gains" "\<not> cvorg_invalid_gain_offset (cc_outgain (cv_channels c ! k)) (cc_outoff (cv_channels c ! k))"
    by (simp_all add: chan_agrees_def)
  show "cvorg_wf c" using assms(1) by (simp add: cfg_agrees_def)
  then show "k < length (cv_channels c)" using wf_offset(2) assms(2) by blast
qed

text \<open>Each of the calls that set the configuration: the module is changed first, then the register.\<close>

lemma keeps_apply:
  assumes "k < 2" and "cfg_agrees c" and "\<And>ch. cc_reg_offset (f ch) = cc_reg_offset ch" and "cc_outgain (f (cv_channels c ! k)) \<in> set cvorg_gains"
    and "\<not> cvorg_invalid_gain_offset (cc_outgain (f (cv_channels c ! k))) (cc_outoff (f (cv_channels c ! k)))"
    and "\<And>d. cvorg_wf d \<Longrightarrow> cv_channels d ! k = f (cv_channels c ! k) \<Longrightarrow>
      snd (run_state m d) = setreg (base k + CVORG_CONFIG) ((cd_regs d (base k + CVORG_CONFIG) AND NOT w) OR v) (reads n d)"
    and "v AND CONFIG_DATA = v" and "config_of (cv_channels c ! k) AND NOT w OR v = config_of (f (cv_channels c ! k))"
  shows "cfg_agrees (snd (run_state (do { _ \<leftarrow> set_channel k f; m }) c))"
proof -
  note a = agrees_get [OF assms(2,1)]
  let ?d = "c\<lparr>cv_channels := (cv_channels c)[k := f (cv_channels c ! k)]\<rparr>"
  have "cvorg_wf ?d" by (rule wf_set_channel [OF a(1) assms(3)])
  then have "snd (run_state m ?d) = setreg (base k + CVORG_CONFIG) ((cd_regs c (base k + CVORG_CONFIG) AND NOT w) OR v) (reads n ?d)"
    using assms(6) [of ?d] a(2) by simp
  then show ?thesis
    using agrees_after_set [OF assms(2,1) _ assms(4,5), of "(cd_regs c (base k + CVORG_CONFIG) AND NOT w) OR v" n]
      and_data [OF assms(7), of "cd_regs c (base k + CVORG_CONFIG)" w] assms(3,8) a(3) by simp
qed

section \<open>Gains\<close>

text \<open>The entry at \<open>r\<close> is as near to \<open>val\<close> as any.\<close>

definition best :: "int \<Rightarrow> int list \<Rightarrow> nat \<Rightarrow> bool" where
  "best val l r \<longleftrightarrow> r < length l \<and> (\<forall>x\<in>set l. \<bar>l ! r - val\<bar> \<le> \<bar>x - val\<bar>)"

lemma absdiff_abs: "cvorg_absdiff x y = \<bar>x - y\<bar>"
  by (simp add: cvorg_absdiff_def)

lemma best_snoc:
  "best val l r \<Longrightarrow> best val (l @ [x]) (if \<bar>x - val\<bar> < \<bar>l ! r - val\<bar> then length l else r)"
  by (auto simp: best_def nth_append)

lemma nearest_loop_best: "best val l r \<Longrightarrow> best val (l @ xs) (nearest_loop val xs \<bar>l ! r - val\<bar> r (length l))"
proof (induction xs arbitrary: l r)
  case (Cons x xs)
  have r: "r < length l" using Cons.prems by (simp add: best_def)
  let ?s = "if \<bar>x - val\<bar> < \<bar>l ! r - val\<bar> then length l else r"
  have "best val ((l @ [x]) @ xs) (nearest_loop val xs \<bar>(l @ [x]) ! ?s - val\<bar> ?s (length (l @ [x])))"
    by (rule Cons.IH [OF best_snoc [OF Cons.prems]])
  then show ?case using r by (simp add: Let_def absdiff_abs nth_append split: if_splits)
qed simp

lemma gain_approx_in: "cvorg_gain_approx g \<in> set cvorg_gains"
  and gain_approx_best: "x \<in> set cvorg_gains \<Longrightarrow> \<bar>cvorg_gain_approx g - g\<bar> \<le> \<bar>x - g\<bar>"
proof -
  have "cvorg_gain_approx g \<in> set cvorg_gains \<and> (\<forall>x\<in>set cvorg_gains. \<bar>cvorg_gain_approx g - g\<bar> \<le> \<bar>x - g\<bar>)"
  proof (cases "- 22 \<le> g \<and> g \<le> 20")
    case True
    have b: "best g ([- 22] @ tl cvorg_gains) (nearest_loop g (tl cvorg_gains) \<bar>- 22 - g\<bar> 0 1)"
      using nearest_loop_best [of g "[- 22]" 0 "tl cvorg_gains"] by (simp add: best_def)
    have "nearest_loop g cvorg_gains 0xffffffff 0 0 = nearest_loop g (tl cvorg_gains) \<bar>- 22 - g\<bar> 0 1"
      using True unfolding cvorg_gains_def by (subst nearest_loop.simps) (simp add: Let_def absdiff_abs)
    then have "cvorg_gain_approx g = cvorg_gains ! nearest_loop g (tl cvorg_gains) \<bar>- 22 - g\<bar> 0 1"
      using True by (simp add: cvorg_gain_approx_def cvorg_nearest_def) (simp add: cvorg_gains_def)
    moreover have "[- 22] @ tl cvorg_gains = cvorg_gains" by (simp add: cvorg_gains_def)
    ultimately show ?thesis using b by (simp add: best_def)
  next
    case False
    then show ?thesis by (auto simp: cvorg_gain_approx_def cvorg_gains_def)
  qed
  then show "cvorg_gain_approx g \<in> set cvorg_gains" "x \<in> set cvorg_gains \<Longrightarrow> \<bar>cvorg_gain_approx g - g\<bar> \<le> \<bar>x - g\<bar>" by blast+
qed

section \<open>The calls keep the agreement\<close>

lemma clear_then_set:
  fixes x m :: "'a::len word"
  shows "(x AND NOT m) OR m = x OR m"
  by (rule bit_eqI) (auto simp: bit_and_iff bit_or_iff bit_not_iff)

lemma run_apply:
  assumes "cvorg_wf d" and "k < 2"
  shows "snd (run_state (apply_channel_outoff io k) d) = setreg (base k + CVORG_CONFIG)
      ((cd_regs d (base k + CVORG_CONFIG) AND NOT 0x20) OR (if cc_outoff (cv_channels d ! k) = CVORG_OUT_OFFSET_0V then 0 else 0x20)) (reads 1 d)"
    and "snd (run_state (apply_channel_inpol io k) d) = setreg (base k + CVORG_CONFIG)
      ((cd_regs d (base k + CVORG_CONFIG) AND NOT 0x40) OR (if cc_inpol (cv_channels d ! k) = CVORG_NEGATIVE_PULSE then 0x40 else 0)) (reads 1 d)"
    and "snd (run_state (apply_channel_out_enable io k) d) = setreg (base k + CVORG_CONFIG)
      ((cd_regs d (base k + CVORG_CONFIG) AND NOT 0x400) OR (if cc_out_enabled (cv_channels d ! k) then 0x400 else 0)) (reads 1 d)"
    and "snd (run_state (apply_channel_outgain io k) d) = setreg (base k + CVORG_CONFIG)
      ((cd_regs d (base k + CVORG_CONFIG) AND NOT 0x380) OR push_bit 7 (cvorg_gain_to_hw (cc_outgain (cv_channels d ! k)))) (reads 2 d)"
proof -
  note s = clear_then_set [of _ "0x20 :: u32"] clear_then_set [of _ "0x40 :: u32"] clear_then_set [of _ "0x400 :: u32"]
  note r = run_config [OF assms]
  show "snd (run_state (apply_channel_outoff io k) d) = setreg (base k + CVORG_CONFIG)
      ((cd_regs d (base k + CVORG_CONFIG) AND NOT 0x20) OR (if cc_outoff (cv_channels d ! k) = CVORG_OUT_OFFSET_0V then 0 else 0x20)) (reads 1 d)"
    by (simp only: apply_channel_outoff_def run_state_bind run_channel prod.case split_beta fst_conv snd_conv run_if r s split: if_split) simp
  show "snd (run_state (apply_channel_inpol io k) d) = setreg (base k + CVORG_CONFIG)
      ((cd_regs d (base k + CVORG_CONFIG) AND NOT 0x40) OR (if cc_inpol (cv_channels d ! k) = CVORG_NEGATIVE_PULSE then 0x40 else 0)) (reads 1 d)"
    by (simp only: apply_channel_inpol_def run_state_bind run_channel prod.case split_beta fst_conv snd_conv run_if r s split: if_split) simp
  show "snd (run_state (apply_channel_out_enable io k) d) = setreg (base k + CVORG_CONFIG)
      ((cd_regs d (base k + CVORG_CONFIG) AND NOT 0x400) OR (if cc_out_enabled (cv_channels d ! k) then 0x400 else 0)) (reads 1 d)"
    by (simp only: apply_channel_out_enable_def run_state_bind run_channel prod.case split_beta fst_conv snd_conv run_if r s split: if_split) simp
  show "snd (run_state (apply_channel_outgain io k) d) = setreg (base k + CVORG_CONFIG)
      ((cd_regs d (base k + CVORG_CONFIG) AND NOT 0x380) OR push_bit 7 (cvorg_gain_to_hw (cc_outgain (cv_channels d ! k)))) (reads 2 d)"
    by (simp add: apply_channel_outgain_def r)
qed

lemma keeps_setters:
  assumes "k < 2" and "cfg_agrees c"
  shows "\<not> cvorg_invalid_gain_offset (cc_outgain (cv_channels c ! k)) off \<Longrightarrow>
      cfg_agrees (snd (run_state (do { _ \<leftarrow> set_channel k (\<lambda>ch. ch\<lparr>cc_outoff := off\<rparr>); apply_channel_outoff io k }) c))"
    and "cfg_agrees (snd (run_state (do { _ \<leftarrow> set_channel k (\<lambda>ch. ch\<lparr>cc_inpol := pol\<rparr>); apply_channel_inpol io k }) c))"
    and "cfg_agrees (snd (run_state (do { _ \<leftarrow> set_channel k (\<lambda>ch. ch\<lparr>cc_out_enabled := en\<rparr>); apply_channel_out_enable io k }) c))"
    and "g \<in> set cvorg_gains \<Longrightarrow> \<not> cvorg_invalid_gain_offset g (cc_outoff (cv_channels c ! k)) \<Longrightarrow>
      cfg_agrees (snd (run_state (do { _ \<leftarrow> set_channel k (\<lambda>ch. ch\<lparr>cc_outgain := g\<rparr>); apply_channel_outgain io k }) c))"
proof -
  note a = agrees_get [OF assms(2,1)]
  note u = config_of_update [OF a(4)]
  have g: "push_bit 7 (cvorg_gain_to_hw g) AND CONFIG_DATA = push_bit 7 (cvorg_gain_to_hw g)" if "g \<in> set cvorg_gains" for g
    using gain_hw_cases [OF that] by (elim disjE) simp_all
  show "cfg_agrees (snd (run_state (do { _ \<leftarrow> set_channel k (\<lambda>ch. ch\<lparr>cc_outoff := off\<rparr>); apply_channel_outoff io k }) c))"
    if "\<not> cvorg_invalid_gain_offset (cc_outgain (cv_channels c ! k)) off"
    by (rule keeps_apply [OF assms, where w = "0x20" and n = 1 and f = "\<lambda>ch. ch\<lparr>cc_outoff := off\<rparr>", OF _ _ _ _ _ u(1) [of off]]) (use a that run_apply(1) [OF _ assms(1)] in \<open>auto\<close>)
  show "cfg_agrees (snd (run_state (do { _ \<leftarrow> set_channel k (\<lambda>ch. ch\<lparr>cc_inpol := pol\<rparr>); apply_channel_inpol io k }) c))"
    by (rule keeps_apply [OF assms, where w = "0x40" and n = 1 and f = "\<lambda>ch. ch\<lparr>cc_inpol := pol\<rparr>", OF _ _ _ _ _ u(2) [of pol]]) (use a run_apply(2) [OF _ assms(1)] in \<open>auto\<close>)
  show "cfg_agrees (snd (run_state (do { _ \<leftarrow> set_channel k (\<lambda>ch. ch\<lparr>cc_out_enabled := en\<rparr>); apply_channel_out_enable io k }) c))"
    by (rule keeps_apply [OF assms, where w = "0x400" and n = 1 and f = "\<lambda>ch. ch\<lparr>cc_out_enabled := en\<rparr>", OF _ _ _ _ _ u(3) [of en]]) (use a run_apply(3) [OF _ assms(1)] in \<open>auto\<close>)
  show "cfg_agrees (snd (run_state (do { _ \<leftarrow> set_channel k (\<lambda>ch. ch\<lparr>cc_outgain := g\<rparr>); apply_channel_outgain io k }) c))"
    if "g \<in> set cvorg_gains" "\<not> cvorg_invalid_gain_offset g (cc_outoff (cv_channels c ! k))"
    by (rule keeps_apply [OF assms, where w = "0x380" and n = 2 and f = "\<lambda>ch. ch\<lparr>cc_outgain := g\<rparr>", OF _ _ _ _ _ u(4) [of g]]) (use a g that run_apply(4) [OF _ assms(1)] in \<open>auto\<close>)
qed

lemma agrees_owner: "cfg_agrees (c\<lparr>cv_owner := x\<rparr>) = cfg_agrees c"
  by (simp add: cfg_agrees_def chan_agrees_def cvorg_wf_def)

lemma keeps_sets_config:
  assumes "k < 2" and "sets_config cm"
  shows "keeps cfg_agrees (cvorg_switch io f k cm)"
proof -
  have b: "run_state (cvorg_channel_busy io k) c = (io_reg io (cd_reads c) (base k + CVORG_STATUS) AND CVORG_STATUS_BUSY \<noteq> 0, reads 1 c)"
    if "cvorg_wf c" for c using assms(1) that by (simp add: cvorg_channel_busy_def run_rchan_ro status_regs del: One_nat_def)
  have r: "cfg_agrees c \<Longrightarrow> cfg_agrees (reads 1 c)" "cfg_agrees c \<Longrightarrow> cvorg_wf c" for c
    by (rule cfg.inv_reads cfg.inv_wf; assumption)+
  note s = keeps_setters [OF assms(1)]
  show ?thesis
    using assms(2) s r
    by (cases cm)
       (auto simp: sets_config_def keeps_def cvorg_switch_def no_out_def finish_def s_outoff_ioctl_def s_inpol_ioctl_def s_outgain_ioctl_def
          cvorg_out_enable_ioctl_def b Let_def split_beta gain_approx_in simp del: run_set_channel One_nat_def)
qed

text \<open>A new module: after the reset and the programming of the clock generator the two configuration registers are written.\<close>

lemma gain_hw_any:
  assumes "cvorg_gain_to_hw g = h"
  obtains "h = 0" | "h = 1" | "h = 2" | "h = 3" | "h = 4" | "h = 5" | "h = 6" | "h = 7"
  using assms by (auto simp: cvorg_gain_to_hw_def split: if_splits)

lemma apply_channel_cfg_agrees:
  fixes io :: cvorg_io
  assumes "cvorg_wf c" and "k < 2"
  defines "d \<equiv> snd (run_state (apply_channel_cfg io k) c)"
  shows "cv_channels d = cv_channels c" "cv_owner d = cv_owner c"
    "cd_regs d (base k + CVORG_CONFIG) AND CONFIG_DATA = config_of (cv_channels c ! k)"
    "a \<noteq> base k + CVORG_CONFIG \<Longrightarrow> cd_regs d a = cd_regs c a"
proof -
  note r = run_apply [OF _ assms(2), of _ io]
  show "cv_channels d = cv_channels c" "cv_owner d = cv_owner c" 
    unfolding d_def apply_channel_cfg_def using assms(1) by (simp_all add: split_beta r)
  show "a \<noteq> base k + CVORG_CONFIG \<Longrightarrow> cd_regs d a = cd_regs c a"
    unfolding d_def apply_channel_cfg_def using assms(1) by (simp add: split_beta r)
  show "cd_regs d (base k + CVORG_CONFIG) AND CONFIG_DATA = config_of (cv_channels c ! k)"
    unfolding d_def apply_channel_cfg_def
    by (rule gain_hw_any [OF refl, of "cc_outgain (cv_channels c ! k)"])
       (simp_all add: assms(1) split_beta r config_of_def bit.conj_disj_distrib2 and.assoc)
qed

context card_invariant
begin

lemma keeps_writew [keep]: "plain off \<Longrightarrow> off \<noteq> CVORG_CONFIG \<Longrightarrow> keeps I (cvorg_writew io off v)"
  using inv_setreg [of _ off 0] card_plain(2) [of off io 0] by (simp add: keeps_def base_def)

lemma keeps_interrupts [keep]: "keeps I (disable_interrupts io)" "keeps I (config_interrupts io isr)" "keeps I (enable_interrupts io)"
  unfolding config_interrupts_def disable_interrupts_def enable_interrupts_def
  by (auto intro!: keep simp: plain_regs read_only_def)

lemma keeps_startup [keep]: "keeps I (clkgen_startup io)"
  unfolding clkgen_startup_def by (rule keep)

lemma keeps_release: "keeps I (SkelUserModuleRelease io)"
  unfolding SkelUserModuleRelease_def by (auto intro!: keep)

end

lemma reset_command: "cv_channels (snd (run_state (cvorg_writew io off v) c)) = cv_channels c"
  "cv_channels (snd (run_state (channel_reset io k) c)) = cv_channels c"
  by (simp_all add: channel_reset_def cvorg_wchan_def card_write_def Let_def)

lemma reset_agrees:
  assumes "cvorg_wf c"
  shows "fst (run_state (cvorg_reset io isr) c) = OK" "cfg_agrees (snd (run_state (cvorg_reset io isr) c))"
    "cv_channels (snd (run_state (cvorg_reset io isr) c)) = map cvorg_channel_cfg_init (cv_channels c)"
proof -
  define c1 where "c1 = snd (run_state (do { _ \<leftarrow> cvorg_writew io CVORG_CTL CVORG_CTL_FPGA_RESET; _ \<leftarrow> channel_reset io 0; channel_reset io 1 }) c)"
  define c2 where "c2 = snd (run_state cvorg_cfg_init c1)"
  define c3 where "c3 = snd (run_state (do { _ \<leftarrow> clkgen_startup io; clkgen_apply_pll_conf io }) c2)"
  define c4 where "c4 = snd (run_state (apply_channel_cfg io 0) c3)"
  define c5 where "c5 = snd (run_state (apply_channel_cfg io 1) c4)"
  define c6 where "c6 = snd (run_state (do { _ \<leftarrow> config_interrupts io isr; enable_interrupts io }) c5)"
  have r: "run_state (cvorg_reset io isr) c = (OK, c6)"
    unfolding c6_def c5_def c4_def c3_def c2_def c1_def by (simp add: cvorg_reset_def cvorg_apply_cfg_def split_beta del: run_writew)
  let ?chs = "map cvorg_channel_cfg_init (cv_channels c)"
  have "cv_channels c1 = cv_channels c" by (simp add: c1_def split_beta reset_command del: run_writew)
  then have ch2: "cv_channels c2 = ?chs"
    using wf_length [OF assms] by (auto simp: c2_def cvorg_cfg_init_def split_beta list_update.simps numeral_2_eq_2 length_Suc_conv)
  then have wf2: "cvorg_wf c2" using assms by (simp add: cvorg_wf_def cvorg_channel_cfg_init_def comp_def)
  have "keeps (\<lambda>c. cvorg_wf c \<and> cv_channels c = ?chs \<and> cv_owner c = cv_owner c2) (do { _ \<leftarrow> clkgen_startup io; clkgen_apply_pll_conf io })"
    by (intro keep own.keeps_startup own.keeps_clkgen_apply_pll_conf)
  from keepsD [OF this, of c2, folded c3_def] have c3: "cvorg_wf c3" "cv_channels c3 = ?chs" using wf2 ch2 by blast+
  note a0 = apply_channel_cfg_agrees [OF c3(1), where k = 0 and io = io, folded c4_def, simplified]
  have c4: "cvorg_wf c4" using wf_same_channels a0(1) c3 by blast
  note a1 = apply_channel_cfg_agrees [OF c4, where k = 1 and io = io, folded c5_def, simplified]
  have c5: "cvorg_wf c5" using wf_same_channels a1(1) c4 by blast
  have len: "length (cv_channels c) = 2" by (rule wf_length [OF assms])
  have "cfg_agrees c5"
    using c5 a0 a1 a1(4) [of "base 0 + CVORG_CONFIG"] c3(2) len
    by (simp add: cfg_agrees_def chan_agrees_def cvorg_channel_cfg_init_def cvorg_gains_def cvorg_invalid_gain_offset_def base_def)
  moreover have "keeps cfg_agrees (do { _ \<leftarrow> config_interrupts io isr; enable_interrupts io })" by (intro keep cfg.keeps_interrupts)
  ultimately have "cfg_agrees c6" using keepsD by (metis c6_def)
  moreover have "cv_channels c6 = cv_channels c5"
    unfolding c6_def
    using keepsD [OF keeps_bind [OF own.keeps_interrupts(2) own.keeps_interrupts(3)], of c5 "cv_channels c5" "cv_owner c5" io isr "\<lambda>_. io"] c5
    by (simp only: simp_thms)
  ultimately show "fst (run_state (cvorg_reset io isr) c) = OK" "cfg_agrees (snd (run_state (cvorg_reset io isr) c))"
    "cv_channels (snd (run_state (cvorg_reset io isr) c)) = map cvorg_channel_cfg_init (cv_channels c)"
    using r a0(1) a1(1) c3(2) by simp_all
qed

text \<open>A module is set up when there is memory, its registers are mapped and the card answers with the type it has.\<close>

definition found_card :: "cvorg_io \<Rightarrow> bool \<Rightarrow> cvorg \<Rightarrow> cvorg" where
  "found_card io bus_error c = snd (run_state (do { _ \<leftarrow> cvorg_version_check io bus_error; cvorg_init_channels }) (cvorg_bzero c))"

lemma wf_found_card: "cvorg_wf (found_card io bus_error c)"
  by (simp add: found_card_def cvorg_wf_def cvorg_version_check_def cvorg_init_channels_def cvorg_init_channel_def cvorg_bzero_def split_beta
      card_read_def zero_channel_def Let_def)

lemma module_init:
  "SkelUserModuleInit io mem iomap bus_error isr c =
     (if \<not> mem then Inl ENOMEM else if \<not> iomap then Inl EINVAL
      else if fst (run_state (cvorg_version_check io bus_error) (cvorg_bzero c)) then Inl ENODEV
      else Inr (snd (run_state (cvorg_reset io isr) (found_card io bus_error c))))"
  using reset_agrees(1) [OF wf_found_card, of io isr io bus_error c]
  by (auto simp: SkelUserModuleInit_def found_card_def split_beta split: if_splits bool.splits rc.splits prod.splits)

section \<open>The states a module reaches\<close>

text \<open>A module is set up, then clients call it and close their files, and it may be reset; a new client is on the first channel.\<close>

inductive cvorg_reach :: "(nat \<Rightarrow> cvorg_client) \<Rightarrow> cvorg \<Rightarrow> bool" where
  init: "SkelUserModuleInit io mem iomap bus_error isr c0 = Inr c \<Longrightarrow> cvorg_reach (\<lambda>f. \<lparr>cl_file = f, cl_channel = 0\<rparr>) c"
| call: "cvorg_reach cls c \<Longrightarrow> SkelUserIoctls io signal (cls f) cm c = (r, cl, c') \<Longrightarrow> cvorg_reach (cls(f := cl)) c'"
| reset: "cvorg_reach cls c \<Longrightarrow> run_state (SkelUserHardwareReset io isr) c = (r, c') \<Longrightarrow> cvorg_reach cls c'"
| close: "cvorg_reach cls c \<Longrightarrow> SkelUserClientRelease f [Some c] = [Some c'] \<Longrightarrow> cvorg_reach (cls(f := \<lparr>cl_file = f, cl_channel = 0\<rparr>)) c'"

inductive_cases cvorg_reachE: "cvorg_reach cls c"

lemma keeps_any_call: "k < 2 \<Longrightarrow> keeps cfg_agrees (cvorg_switch io f k cm)"
proof -
  assume k: "k < 2"
  have o: "keeps cfg_agrees (cvorg_switch io f k cm)" if "sets_owner cm"
    using that agrees_owner by (auto simp: keeps_def sets_owner_def cvorg_switch_def no_out_def cvorg_lock_def cvorg_unlock_def)
  show ?thesis using o keeps_sets_config [OF k] cfg.keeps_switch [OF k] by blast
qed

lemma reach_invariant:
  "cvorg_reach cls c \<Longrightarrow> cfg_agrees c \<and> (\<forall>f. cl_file (cls f) = f \<and> cl_channel (cls f) < 2)"
proof (induction rule: cvorg_reach.induct)
  case (init io mem iomap bus_error isr c0 c)
  then have "c = snd (run_state (cvorg_reset io isr) (found_card io bus_error c0))" by (simp add: module_init split: if_splits)
  then show ?case using reset_agrees(2) [OF wf_found_card] by simp
next
  case (call cls c io signal f cm r cl c')
  have k: "cl_channel (cls f) < 2" "cl_file (cls f) = f" using call.IH by auto
  have "cfg_agrees (snd (run_state (cvorg_switch io f (cl_channel (cls f)) cm) c))"
    using keepsD [OF keeps_any_call [OF k(1)]] call.IH by blast
  then have "cfg_agrees c'" using call.hyps(2) call.IH k(2) by (auto simp: SkelUserIoctls_def split_beta split: if_splits)
  moreover have "cl_channel cl < 2 \<and> cl_file cl = f"
    using call.hyps(2) k by (auto simp: SkelUserIoctls_def split_beta gs_channel_set_def within_range_def split: if_splits cvorg_ioctl.splits)
  ultimately show ?case using call.IH by auto
next
  case (reset cls c io isr r c')
  then show ?case using reset_agrees(2) [of c io isr] by (simp add: SkelUserHardwareReset_def cfg_agrees_def)
next
  case (close cls c f c')
  then show ?case using agrees_owner by (auto simp: SkelUserClientRelease_def split: if_splits)
qed

section \<open>Properties\<close>

text \<open>
  C17: The configuration register agrees with the module. In every state a module reaches from its set-up by calls of any clients, by resets and by closing
  files, the bits of a channel's configuration register for the output offset, the polarity of the trigger, the gain and the output enable are
  those of the values the driver keeps and reports; the gain is one the hardware has, and with an offset of 2.5 V it is 14.
\<close>

theorem configuration_agrees:
  assumes "cvorg_reach cls c" and "k < 2"
  defines "ch \<equiv> cv_channels c ! k"
  shows "cd_regs c (base k + CVORG_CONFIG) AND 0x7e0 = config_of ch \<and> cc_outgain ch \<in> set cvorg_gains
    \<and> (cc_outoff ch = CVORG_OUT_OFFSET_2_5V \<longrightarrow> cc_outgain ch = 14)"
  using agrees_get [OF conjunct1 [OF reach_invariant [OF assms(1)]] assms(2)] by (auto simp: ch_def cvorg_invalid_gain_offset_def)

text \<open>A card that answers as a CVORG.\<close>

definition answering_io :: cvorg_io where
  "answering_io = quiet_io\<lparr>io_reg := (\<lambda>n a. if a = CVORG_VERSION then 0x470001 else 0)\<rparr>"

theorem configuration_agrees_witness:
  "\<exists>c. SkelUserModuleInit answering_io True True False None fresh_card = Inr c \<and> cd_regs c 0x44 AND 0x7e0 = 0x380 \<and> cc_outgain (cv_channels c ! 0) = 20"
proof -
  let ?c = "snd (run_state (cvorg_reset answering_io None) (found_card answering_io False fresh_card))"
  have init: "SkelUserModuleInit answering_io True True False None fresh_card = Inr ?c"
    by (simp add: module_init cvorg_version_check_def answering_io_def quiet_io_def card_read_def reg_of_def read_only_def Let_def)
  have "cv_channels ?c ! 0 = cvorg_channel_cfg_init (cv_channels (found_card answering_io False fresh_card) ! 0)"
    using reset_agrees(3) [OF wf_found_card] wf_length [OF wf_found_card] by simp
  then have ch: "config_of (cv_channels ?c ! 0) = 0x380" "cc_outgain (cv_channels ?c ! 0) = 20"
    by (simp_all add: cvorg_channel_cfg_init_def config_of_def cvorg_gain_to_hw_def)
  show ?thesis using configuration_agrees [OF cvorg_reach.init [OF init], of 0] init ch by (auto simp: base_def)
qed

text \<open>
  Gains are rounded to the nearest. The gain the driver sets for a requested one is a gain of the hardware, and no other is nearer.
\<close>

lemma gain_approx_nearest:
  "cvorg_gain_approx g \<in> set cvorg_gains \<and> (\<forall>x\<in>set cvorg_gains. \<bar>cvorg_gain_approx g - g\<bar> \<le> \<bar>x - g\<bar>)"
  using gain_approx_in gain_approx_best by blast

lemma gain_approx_nearest_example: "cvorg_gain_approx 6 = 8 \<and> \<bar>cvorg_gain_approx 6 - 6\<bar> \<le> \<bar>2 - (6 :: int)\<bar>"
proof -
  have "cvorg_gain_approx 6 = 8" by code_simp
  moreover have "2 \<in> set cvorg_gains" by (simp add: cvorg_gains_def)
  ultimately show ?thesis using gain_approx_nearest [of 6] by blast
qed

text \<open>The samples in a word of the SRAM, on either kind of processor.\<close>

lemma bswap16_invol [simp]: "bswap16 (bswap16 x) = x"
  unfolding bswap16_def by (rule bit_word_eqI) (auto simp: bit_simps)

lemma hw_to_cpu_inverse: "cvorg_hw_to_cpu le (cvorg_cpu_to_hw le x y) = (x, y)"
proof -
  have hi: "ucast (drop_bit 16 (push_bit 16 (ucast a) OR ucast b :: u32)) = a" for a b :: u16
    by (rule bit_word_eqI) (auto simp: bit_simps dest: bit_imp_le_length)
  have lo: "ucast ((push_bit 16 (ucast a) OR ucast b :: u32) AND 0xffff) = b" for a b :: u16
  proof -
    have m: "w AND 0xffff = take_bit 16 w" for w :: u32 by (simp add: take_bit_eq_mask mask_eq_exp_minus_1)
    show ?thesis unfolding m by (rule bit_word_eqI) (auto simp: bit_simps)
  qed
  show ?thesis by (cases le) (simp_all add: cvorg_hw_to_cpu_def cvorg_cpu_to_hw_def cpu_to_be16_def Let_def hi lo del: drop_bit_or)
qed

lemma run_sram_data:
  assumes "cvorg_wf c" and "k < 2"
  shows "run_state (cvorg_wchan_noswap io k CVORG_SRAMDATA v) c =
      ((), c\<lparr>cd_sram := (cd_sram c)(base k := (cd_sram c (base k))(sram_index (cd_regs c (base k + CVORG_SRAMADDR)) := be32_to_cpu (io_le io) v)),
         cd_regs := (cd_regs c)(base k + CVORG_SRAMADDR := cd_regs c (base k + CVORG_SRAMADDR) + 4)\<rparr>)"
    and "run_state (cvorg_rchan_noswap io k CVORG_SRAMDATA) c =
      (cpu_to_be32 (io_le io) (cd_sram c (base k) (sram_index (cd_regs c (base k + CVORG_SRAMADDR)))),
       c\<lparr>cd_reads := cd_reads c + 1, cd_regs := (cd_regs c)(base k + CVORG_SRAMADDR := cd_regs c (base k + CVORG_SRAMADDR) + 4)\<rparr>)"
proof -
  have r: "reg_of (base k + CVORG_SRAMDATA) = CVORG_SRAMDATA" "chan_of (base k + CVORG_SRAMDATA) = base k" by (rule base_plus; simp)+
  show "run_state (cvorg_wchan_noswap io k CVORG_SRAMDATA v) c =
      ((), c\<lparr>cd_sram := (cd_sram c)(base k := (cd_sram c (base k))(sram_index (cd_regs c (base k + CVORG_SRAMADDR)) := be32_to_cpu (io_le io) v)),
         cd_regs := (cd_regs c)(base k + CVORG_SRAMADDR := cd_regs c (base k + CVORG_SRAMADDR) + 4)\<rparr>)"
    using assms by (simp add: cvorg_wchan_noswap_def cvorg_wchan_def wf_offset card_write_def r Let_def)
  show "run_state (cvorg_rchan_noswap io k CVORG_SRAMDATA) c =
      (cpu_to_be32 (io_le io) (cd_sram c (base k) (sram_index (cd_regs c (base k + CVORG_SRAMADDR)))),
       c\<lparr>cd_reads := cd_reads c + 1, cd_regs := (cd_regs c)(base k + CVORG_SRAMADDR := cd_regs c (base k + CVORG_SRAMADDR) + 4)\<rparr>)"
    using assms by (simp add: cvorg_rchan_noswap_def cvorg_rchan_def wf_offset card_read_def r read_only_def Let_def)
qed

text \<open>The states in which only reads were counted.\<close>

lemma run_status:
  assumes "cvorg_wf c" and "k < 2"
  shows "\<exists>b m. run_state (cvorg_channel_busy io k) c = (b, reads m c)" "\<exists>b m. run_state (sram_busy_tries io k n) c = (b, reads m c)"
proof -
  show "\<exists>b m. run_state (cvorg_channel_busy io k) c = (b, reads m c)"
    using assms by (auto simp: cvorg_channel_busy_def run_rchan_ro status_regs)
  have z: "c = reads 0 c" for c by (simp add: reads_def)
  show "\<exists>b m. run_state (sram_busy_tries io k n) c = (b, reads m c)" using assms(1)
  proof (induction n arbitrary: c)
    case 0
    show ?case by (intro exI [of _ True] exI [of _ 0]) (simp add: z [symmetric])
  next
    case (Suc n)
    then obtain b m where "run_state (sram_busy_tries io k n) (reads 1 c) = (b, reads m (reads 1 c))" using Suc.IH [of "reads 1 c"] by auto
    then show ?case using Suc.prems assms(2) by (auto simp: run_rchan_ro status_regs)
  qed
qed

lemma run_gs_sram:
  assumes "cvorg_wf c" and "k < 2" and "run_state (gs_sram_ioctl io k a data) c = ((OK, out), d)"
  shows "a < 0x200000"
    and "data = None \<Longrightarrow> out = (let p = cvorg_hw_to_cpu (io_le io) (cpu_to_be32 (io_le io) (cd_sram c (base k) (sram_index (a AND NOT 3)))) in Out_sram (fst p) (snd p))"
    and "cd_sram d = (case data of None \<Rightarrow> cd_sram c
      | Some p \<Rightarrow> (cd_sram c)(base k := (cd_sram c (base k))(sram_index (a AND NOT 3) := be32_to_cpu (io_le io) (cvorg_cpu_to_hw (io_le io) (fst p) (snd p)))))"
    and "cv_channels d = cv_channels c"
proof -
  define m where "m = (if data \<noteq> None then cvorg_channel_busy io k else State_Monad.return False)"
  obtain b n where b: "run_state m c = (b, reads n c)"
  proof (cases "data = None")
    case True
    then show ?thesis using that [of False 0] by (simp add: m_def reads_def)
  next
    case False
    then show ?thesis using that run_status(1) [OF assms(1,2), of io] by (auto simp: m_def)
  qed
  have wf: "cvorg_wf (reads n c)" using assms(1) by simp
  obtain s n' where s: "run_state (cvorg_sram_busy io k) (reads n c) = (s, reads n' (reads n c))"
    using run_status(2) [OF wf assms(2), of io 10] unfolding cvorg_sram_busy_def by blast
  have ok: "\<not> b" "\<not> 0x200000 \<le> a" "\<not> s"
    using assms(3) b s unfolding gs_sram_ioctl_def m_def [symmetric] by (auto split: if_splits)
  note run = run_wchan [OF _ assms(2) plain_regs(2)] run_sram_data [OF _ assms(2)]
  show "a < 0x200000" using ok(2) by simp
  show "out = (let p = cvorg_hw_to_cpu (io_le io) (cpu_to_be32 (io_le io) (cd_sram c (base k) (sram_index (a AND NOT 3)))) in Out_sram (fst p) (snd p))" if "data = None"
    using assms(1,3) b s ok that unfolding gs_sram_ioctl_def m_def [symmetric] by (simp add: run Let_def)
  show "cd_sram d = (case data of None \<Rightarrow> cd_sram c
      | Some p \<Rightarrow> (cd_sram c)(base k := (cd_sram c (base k))(sram_index (a AND NOT 3) := be32_to_cpu (io_le io) (cvorg_cpu_to_hw (io_le io) (fst p) (snd p)))))"
    "cv_channels d = cv_channels c"
    using assms(1,3) b s ok unfolding gs_sram_ioctl_def m_def [symmetric] by (cases data; auto simp: run Let_def)+
qed

text \<open>
  Samples are read back as they were written. When two samples have been written to a word of a channel's SRAM, a read of the word that succeeds, later
  and on a processor of the same kind, returns the two; and no other word of either channel was changed.
\<close>

lemma sram_set_get:
  assumes "cvorg_wf c" and "k < 2" and "run_state (gs_sram_ioctl io k a (Some (x, y))) c = ((OK, out), d)"
    and "run_state (gs_sram_ioctl io' k b None) d = ((OK, out'), e)" and "a AND NOT 3 = b AND NOT 3" and "io_le io' = io_le io"
  shows "out' = Out_sram x y \<and> cd_sram e = cd_sram d
    \<and> (\<forall>l n. (l, n) \<noteq> (base k, sram_index (a AND NOT 3)) \<longrightarrow> cd_sram d l n = cd_sram c l n)"
proof -
  have inv: "cpu_to_be32 le (be32_to_cpu le v) = v" for le v by (simp add: cpu_to_be32_def be32_to_cpu_def)
  note w = run_gs_sram [OF assms(1,2,3)]
  have wf: "cvorg_wf d" using wf_same_channels [OF w(4)] assms(1) by blast
  note r = run_gs_sram [OF wf assms(2,4)]
  have "out' = Out_sram x y" using r(2) w(3) assms(5,6) by (simp add: inv hw_to_cpu_inverse)
  moreover have "cd_sram e = cd_sram d" using r(3) by simp
  ultimately show ?thesis using w(3) by auto
qed

lemma quiet_status:
  assumes "cvorg_wf c" and "k < 2"
  shows "run_state (cvorg_channel_busy quiet_io k) c = (False, reads 1 c)" "run_state (cvorg_sram_busy quiet_io k) c = (False, reads 1 c)"
proof -
  have t: "(10 :: nat) = Suc 9" "io_reg quiet_io n a = 0" for n a by (simp_all add: quiet_io_def)
  show "run_state (cvorg_channel_busy quiet_io k) c = (False, reads 1 c)" "run_state (cvorg_sram_busy quiet_io k) c = (False, reads 1 c)"
    unfolding cvorg_sram_busy_def t(1) sram_busy_tries.simps using assms by (simp_all add: cvorg_channel_busy_def run_rchan_ro status_regs t(2))
qed

lemma quiet_sram:
  assumes "cvorg_wf c" and "k < 2" and "\<not> 0x200000 \<le> a"
  shows "fst (run_state (gs_sram_ioctl quiet_io k a (Some p)) c) = (OK, Out_none)" "fst (fst (run_state (gs_sram_ioctl quiet_io k a None) c)) = OK"
  using assms by (simp_all add: gs_sram_ioctl_def quiet_status run_wchan plain_regs run_sram_data Let_def)

lemma sram_set_get_example:
  "\<exists>d e. run_state (gs_sram_ioctl quiet_io 1 8 (Some (0x1234, 0x5678))) fresh_card = ((OK, Out_none), d)
     \<and> run_state (gs_sram_ioctl quiet_io 1 8 None) d = ((OK, Out_sram 0x1234 0x5678), e) \<and> cd_sram d 0 2 = 0"
proof -
  let ?g = "\<lambda>data. run_state (gs_sram_ioctl quiet_io 1 8 data)"
  have l: "(1 :: nat) < 2" "\<not> (0x200000 :: u32) \<le> 8" by simp_all
  have "fst (?g (Some (0x1234, 0x5678)) fresh_card) = (OK, Out_none)" by (rule quiet_sram(1) [OF wf_fresh_card l])
  then obtain d where s: "?g (Some (0x1234, 0x5678)) fresh_card = ((OK, Out_none), d)" by (metis prod.collapse)
  have wf: "cvorg_wf d" using wf_same_channels [OF run_gs_sram(4) [OF wf_fresh_card l(1) s]] wf_fresh_card by blast
  have "fst (fst (?g None d)) = OK" by (rule quiet_sram(2) [OF wf l])
  then obtain out e where g: "?g None d = ((OK, out), e)" by (metis prod.collapse)
  note r = sram_set_get [OF wf_fresh_card l(1) s g refl refl]
  have "(0, 2) \<noteq> (base 1, sram_index (8 AND NOT 3))" by (simp add: base_def)
  then have "cd_sram d 0 2 = cd_sram fresh_card 0 2" using r by blast
  then have "cd_sram d 0 2 = 0" by (simp add: fresh_card_def)
  then show ?thesis using s g r by blast
qed

text \<open>
  C19: By the commands of the CVORG driver nobody but the owner changes a module. While a module has an owner, of the commands that \<open>SkelUserIoctls\<close> serves those
  with a number above 50 are refused to another client with \<open>EACCES\<close> (unless a signal interrupts the call first), and every one of them
  leaves the module's configuration, its registers but the address of the SRAM, which reading the SRAM moves, the SRAM, the clock generator and the
  commands as they were; the owner loses the module only by the call that forces the lock open. The standard commands of the skeleton driver are not part of this:
  \<open>RESET\<close> and the raw writes do not look at the owner.
\<close>

theorem only_owner_changes_module:
  assumes "cvorg_wf c" and "cl_channel cl < 2" and "cv_owner c = Some g" and "g \<noteq> cl_file cl"
    and "SkelUserIoctls io signal cl cm c = (r, cl', c')"
  shows "same_contents (if cm = IOCTUNLOCK_FORCE \<and> \<not> signal then c\<lparr>cv_owner := None\<rparr> else c) c'
    \<and> (ioc_nr cm > 50 \<and> \<not> signal \<longrightarrow> r = (Err EACCES, Out_none))"
proof -
  have refl: "same_contents c c" by (simp add: same_contents_def)
  have p: "cvorg_check_perm c (cl_file cl)" using assms(3,4) by (simp add: cvorg_check_perm_def)
  consider (unlock) "cm = IOCTUNLOCK_FORCE" | (refused) "ioc_nr cm > 50" | (reading) "ioc_nr cm \<le> 50" "cm \<noteq> IOCTUNLOCK_FORCE" by linarith
  then show ?thesis
  proof cases
    case unlock
    then show ?thesis
      using assms(5) refl by (cases signal) (auto simp: SkelUserIoctls_def cvorg_switch_def no_out_def cvorg_unlock_def same_contents_def)
  next
    case refused
    then have "cm \<noteq> IOCTUNLOCK_FORCE" by auto
    then show ?thesis using refused assms(5) p refl by (auto simp: SkelUserIoctls_def split: if_splits)
  next
    case reading
    have "same_contents c (snd (run_state (cvorg_switch io (cl_file cl) (cl_channel cl) cm) c))"
      using keepsD [OF rd.keeps_reading_calls [OF assms(2) reading], of c c] assms(1) refl by blast
    then show ?thesis using reading assms(5) refl by (auto simp: SkelUserIoctls_def split_beta split: if_splits)
  qed
qed

theorem only_owner_changes_module_witness:
  "SkelUserIoctls quiet_io False \<lparr>cl_file = 2, cl_channel = 0\<rparr> (IOCSTRIGGER 0) (fresh_card\<lparr>cv_owner := Some 1\<rparr>) =
     ((Err EACCES, Out_none), \<lparr>cl_file = 2, cl_channel = 0\<rparr>, fresh_card\<lparr>cv_owner := Some 1\<rparr>)"
proof -
  let ?c = "fresh_card\<lparr>cv_owner := Some 1\<rparr>" and ?cl = "\<lparr>cl_file = 2, cl_channel = 0\<rparr>"
  have wf: "cvorg_wf ?c" using wf_fresh_card by (simp add: cvorg_wf_def)
  show ?thesis
    using only_owner_changes_module [OF wf, of ?cl 1 quiet_io False "IOCSTRIGGER 0"]
    by (simp add: SkelUserIoctls_def cvorg_check_perm_def)
qed

text \<open>
  The offset of the DAC is not read back. The call that reads the offset extends the sign in a variable it does not return: for every offset the
  driver accepts, a read after the write returns the offset when it is not negative, and the offset plus 32768 when it is.
\<close>

lemma dac_offset_read_back:
  assumes "cvorg_wf c" and "k < 2" and "- 16384 \<le> off" and "off \<le> 16383"
  shows "fst (run_state (do { r \<leftarrow> s_dac_offset_ioctl io k off; v \<leftarrow> g_dac_offset_ioctl io k; State_Monad.return (r, v) }) c) =
    (OK, if off < 0 then off + 32768 else off)"
proof -
  let ?a = "base k + CVORG_DACCORR"
  let ?x = "of_int off AND 0x7fff :: u32"
  have m: "?x = take_bit 15 (of_int off)" by (simp add: take_bit_eq_mask mask_eq_exp_minus_1)
  have field: "drop_bit 16 (((w AND NOT 0x7fff0000) OR push_bit 16 (take_bit 15 v)) AND 0x7fff0000) = take_bit 15 v" for w v :: u32
  proof (rule bit_word_eqI)
    have e: "0x7fff0000 = (push_bit 16 (mask 15) :: u32)" by (simp add: mask_eq_exp_minus_1)
    fix n assume "n < LENGTH(32)"
    show "bit (drop_bit 16 (((w AND NOT 0x7fff0000) OR push_bit 16 (take_bit 15 v)) AND 0x7fff0000)) n = bit (take_bit 15 v) n"
      unfolding e bit_drop_bit_eq comp_def bit_and_iff bit_or_iff bit_not_iff bit_push_bit_iff bit_mask_iff bit_take_bit_iff by auto
  qed
  have s: "sint (ucast (take_bit 15 (of_int off :: u32)) :: u16) = off mod 32768"
  proof -
    have "sint (ucast (take_bit 15 (of_int off :: u32)) :: u16) = signed_take_bit 15 (take_bit 16 (take_bit 15 (take_bit 32 off)))"
      by (simp add: sint_uint unsigned_ucast_eq unsigned_take_bit_eq unsigned_of_int)
    also have "\<dots> = take_bit 15 off" by (simp add: signed_take_bit_eq_if_positive bit_take_bit_iff)
    finally show ?thesis by (simp add: take_bit_eq_mod)
  qed
  have "off mod 32768 = (if off < 0 then off + 32768 else off)"
    using assms(3,4) mod_pos_pos_trivial [of "off + 32768" 32768] mod_pos_pos_trivial [of off 32768] by auto
  then show ?thesis
    using assms(3,4) field [of "cd_regs c ?a" "of_int off"] s
    by (simp add: s_dac_offset_ioctl_def g_dac_offset_ioctl_def within_range_def run_update [OF assms(1,2) plain_regs(4)]
        run_rchan [OF _ assms(2) plain_regs(4)] assms(1) m Let_def)
qed

lemma dac_offset_read_back_example:
  "fst (run_state (do { r \<leftarrow> s_dac_offset_ioctl quiet_io 0 (- 1); v \<leftarrow> g_dac_offset_ioctl quiet_io 0; State_Monad.return (r, v) }) fresh_card) = (OK, 32767)"
  using dac_offset_read_back [OF wf_fresh_card, of 0 "- 1" quiet_io] by simp

end
