(* ===== verification/Cvorg_Seq_Props.thy ===== *)
theory Cvorg_Seq_Props
  imports Cvorg_Props
begin

text \<open>
  What a sequence is on the card after it was stored: the walk over the descriptor blocks from the first to the last finds the
  waveforms of the sequence, with their samples in the SRAM.
\<close>

section \<open>The card's view\<close>

text \<open>A sample of the SRAM: the first of a word is in its lower half.\<close>

definition point :: "(nat \<Rightarrow> u32) \<Rightarrow> nat \<Rightarrow> u16" where
  "point sram p = ucast (drop_bit (if odd p then 16 else 0) (sram (p div 2)))"

text \<open>
  A descriptor block: the samples, the number of times they are played, and the gain that is set before, as the hardware codes it. The
  address has 21 bits, the length 20.
\<close>

definition blk :: "nat \<Rightarrow> u32 \<Rightarrow> u32" where
  "blk i x = block_offset i + x"

definition block_wave :: "cvorg \<Rightarrow> nat \<Rightarrow> nat \<Rightarrow> u16 list \<times> u32 \<times> u32 option" where
  "block_wave c k i =
     (let reg = (\<lambda>x. cd_regs c (base k + blk i x)); start = unat (reg 0 AND 0x1fffff) div 2
      in (map (\<lambda>j. point (cd_sram c (base k)) (start + j)) [0..<unat (reg 4 AND 0xfffff)], reg 8,
          if bit (reg 12) 8 then Some (drop_bit 9 (reg 12 AND 0xe00)) else None))"

text \<open>The walk: from a block to the next, until the last; \<open>None\<close> when there is no last within the blocks of the card.\<close>

fun card_walk :: "cvorg \<Rightarrow> nat \<Rightarrow> nat \<Rightarrow> nat \<Rightarrow> (u16 list \<times> u32 \<times> u32 option) list option" where
  "card_walk c k 0 i = None"
| "card_walk c k (Suc n) i =
     (let next = unat (cd_regs c (base k + blk i 12) AND 0x1f)
      in if next = 31 then Some [block_wave c k i] else map_option (Cons (block_wave c k i)) (card_walk c k n next))"

definition card_sequence :: "cvorg \<Rightarrow> nat \<Rightarrow> (u16 list \<times> u32 \<times> u32 option) list option" where
  "card_sequence c k = card_walk c k 26 0"

section \<open>Registers of the blocks\<close>

lemma blk_plain [simp]: "i < 26 \<Longrightarrow> x \<in> {0, 4, 8, 12} \<Longrightarrow> plain (blk i x)"
  by (simp add: blk_def block_regs)

lemma unat_blk: "i < 26 \<Longrightarrow> x \<in> {0, 4, 8, 12} \<Longrightarrow> unat (blk i x) = 96 + 16 * i + unat x"
  unfolding blk_def by (rule unat_block_reg)

lemma blk_eq:
  assumes "i < 26" and "j < 26" and "x \<in> {0, 4, 8, 12}" and "y \<in> {0, 4, 8, 12}"
  shows "blk i x = blk j y \<longleftrightarrow> i = j \<and> x = y"
proof
  assume "blk i x = blk j y"
  then have e: "16 * i + unat x = 16 * j + unat y" using unat_blk [OF assms(1,3)] unat_blk [OF assms(2,4)] by simp
  have "unat x < 16" "unat y < 16" using assms(3,4) by auto
  then have "(16 * i + unat x) div 16 = i" "(16 * j + unat y) div 16 = j" by simp_all
  then have "i = j \<and> unat x = unat y" using e by simp
  then show "i = j \<and> x = y" using unsigned_word_eqI [where ?'a = nat] by blast
qed simp

lemma blk_low: "i < 26 \<Longrightarrow> x \<in> {0, 4, 8, 12} \<Longrightarrow> unat v < 96 \<Longrightarrow> blk i x \<noteq> v"
  using unat_blk by fastforce

section \<open>Writing samples\<close>

lemma bit_ge_16 [simp]: "16 \<le> n \<Longrightarrow> \<not> bit (x :: u16) n"
  by (auto dest: bit_imp_le_length)

lemma bit_bswap16_byte: "r < 8 \<Longrightarrow> bit (bswap16 x) r = bit x (8 + r)" "r < 8 \<Longrightarrow> bit (bswap16 x) (8 + r) = bit x r"
  by (auto simp: bswap16_def bit_simps dest: bit_imp_le_length)

lemma card_word: "be32_to_cpu le (cvorg_cpu_to_hw le x y) = push_bit 16 (ucast y) OR ucast x"
proof (cases le)
  case True
  let ?w = "push_bit 16 (ucast (bswap16 x)) OR ucast (bswap16 y) :: u32"
  have "bit (bswap32 ?w) n = bit (push_bit 16 (ucast y) OR ucast x :: u32) n" if "n < 32" for n
  proof -
    have "n < 8 \<or> (\<exists>r<8. n = 8 + r) \<or> (\<exists>r<8. n = 16 + r) \<or> (\<exists>r<8. n = 24 + r)" using that by presburger
    then obtain r where r: "r < 8" "n = r \<or> n = 8 + r \<or> n = 16 + r \<or> n = 24 + r" by blast
    have "bit (bswap32 ?w) r = bit x r" "bit (bswap32 ?w) (8 + r) = bit x (8 + r)" "bit (bswap32 ?w) (16 + r) = bit y r" "bit (bswap32 ?w) (24 + r) = bit y (8 + r)"
      unfolding bit_bswap32_byte [OF r(1)] using r(1) bit_bswap16_byte [OF r(1), of x] bit_bswap16_byte [OF r(1), of y]
      by (simp_all add: bit_or_iff bit_push_bit_iff bit_ucast_iff)
    then show ?thesis using r by (elim disjE) (simp_all add: bit_or_iff bit_push_bit_iff bit_ucast_iff)
  qed
  then show ?thesis using True by (intro bit_word_eqI) (simp add: be32_to_cpu_def cvorg_cpu_to_hw_def cpu_to_be16_def Let_def)
qed (simp add: be32_to_cpu_def cvorg_cpu_to_hw_def cpu_to_be16_def Let_def)

lemma card_word_single: "be32_to_cpu le (cvorg_cpu_to_hw_single le x) = ucast x"
  using card_word [of le x 0] by (simp add: cvorg_cpu_to_hw_def cvorg_cpu_to_hw_single_def cpu_to_be16_def bswap16_def Let_def split: if_splits)

lemma word_points:
  "point ((s)(w := push_bit 16 (ucast y) OR ucast x)) (2 * w) = x" "point ((s)(w := push_bit 16 (ucast y) OR ucast x)) (2 * w + 1) = y"
  "p < 2 * w \<Longrightarrow> point (s(w := v)) p = point s p" "point (s(w := ucast x)) (2 * w) = x"
proof -
  show "point ((s)(w := push_bit 16 (ucast y) OR ucast x)) (2 * w) = x" "point ((s)(w := push_bit 16 (ucast y) OR ucast x)) (2 * w + 1) = y"
    "point (s(w := ucast x)) (2 * w) = x"
    by (rule bit_word_eqI; auto simp: point_def bit_simps dest: bit_imp_le_length)+
  show "p < 2 * w \<Longrightarrow> point (s(w := v)) p = point s p" by (auto simp: point_def)
qed

text \<open>Samples written from a word on: those before stay, and the new ones are there.\<close>

definition written :: "nat \<Rightarrow> u16 list \<Rightarrow> (nat \<Rightarrow> u32) \<Rightarrow> (nat \<Rightarrow> u32) \<Rightarrow> bool" where
  "written w ds s s' \<longleftrightarrow> (\<forall>p<2 * w. point s' p = point s p) \<and> (\<forall>j<length ds. point s' (2 * w + j) = ds ! j)"

lemma written_cons2:
  assumes "written (w + 1) ds (s(w := push_bit 16 (ucast y) OR ucast x)) s'"
  shows "written w (x # y # ds) s s'"
  unfolding written_def
proof (intro conjI allI impI)
  note a = assms [unfolded written_def]
  show "point s' p = point s p" if "p < 2 * w" for p using a that word_points(3) [OF that] by simp
  show "point s' (2 * w + j) = (x # y # ds) ! j" if "j < length (x # y # ds)" for j
  proof -
    consider "j = 0" | "j = 1" | "2 \<le> j" by linarith
    then show ?thesis
    proof cases
      case 3
      then have "2 * w + j = 2 * (w + 1) + (j - 2)" "j - 2 < length ds" using that by auto
      then have "point s' (2 * w + j) = ds ! (j - 2)" using a by metis
      then show ?thesis using 3 by (simp add: nth_Cons' numeral_2_eq_2)
    qed (use a word_points(1,2) [of s w y x] in auto)
  qed
qed

lemma written_one: "written w [x] s (s(w := ucast x))"
  using word_points(3,4) by (simp add: written_def)

lemma written_nil: "written w [] s s"
  by (simp add: written_def)

lemma run_sram_points:
  assumes "cvorg_wf c" and "k < 2" and "unat (cd_regs c (base k + CVORG_SRAMADDR)) = 4 * w" and "4 * w + 2 * length ds \<le> 0x200000"
  shows "\<exists>s a. snd (run_state (sram_points io k ds) c) = c\<lparr>cd_sram := (cd_sram c)(base k := s), cd_regs := (cd_regs c)(base k + CVORG_SRAMADDR := a)\<rparr>
    \<and> written w ds (cd_sram c (base k)) s"
  using assms(1,3,4)
proof (induction ds arbitrary: c w rule: induct_list012)
  case 1
  show ?case by (intro exI [of _ "cd_sram c (base k)"] exI [of _ "cd_regs c (base k + CVORG_SRAMADDR)"]) (simp add: written_nil)
next
  case (2 x)
  have "snd (run_state (sram_points io k [x]) c) =
      c\<lparr>cd_sram := (cd_sram c)(base k := (cd_sram c (base k))(w := ucast x)), cd_regs := (cd_regs c)(base k + CVORG_SRAMADDR := cd_regs c (base k + CVORG_SRAMADDR) + 4)\<rparr>"
    using 2 by (simp add: run_sram_data [OF _ assms(2)] card_word_single sram_index_def)
  then show ?case using written_one by blast
next
  case (3 x y ds)
  let ?a = "cd_regs c (base k + CVORG_SRAMADDR)"
  let ?s = "(cd_sram c (base k))(w := push_bit 16 (ucast y) OR ucast x)"
  let ?c = "c\<lparr>cd_sram := (cd_sram c)(base k := ?s), cd_regs := (cd_regs c)(base k + CVORG_SRAMADDR := ?a + 4)\<rparr>"
  have "unat (?a + 4) = unat ?a + 4" using "3.prems"(2,3) by (subst unat_add_lem [THEN iffD1]) simp_all
  then have a: "unat (cd_regs ?c (base k + CVORG_SRAMADDR)) = 4 * (w + 1)" using "3.prems"(2) by simp
  have l: "4 * (w + 1) + 2 * length ds \<le> 0x200000" using "3.prems"(3) by simp
  have wf: "cvorg_wf ?c" using "3.prems"(1) by (simp add: cvorg_wf_def)
  have r: "snd (run_state (sram_points io k (x # y # ds)) c) = snd (run_state (sram_points io k ds) ?c)"
    using "3.prems"(1,2) by (simp add: run_sram_data [OF _ assms(2)] card_word sram_index_def)
  obtain s b where "snd (run_state (sram_points io k ds) ?c) = ?c\<lparr>cd_sram := (cd_sram ?c)(base k := s), cd_regs := (cd_regs ?c)(base k + CVORG_SRAMADDR := b)\<rparr>"
    "written (w + 1) ds (cd_sram ?c (base k)) s"
    using "3.IH"(1) [OF wf a l] by blast
  then have "snd (run_state (sram_points io k (x # y # ds)) c) =
      c\<lparr>cd_sram := (cd_sram c)(base k := s), cd_regs := (cd_regs c)(base k + CVORG_SRAMADDR := b)\<rparr>" "written w (x # y # ds) (cd_sram c (base k)) s"
    using r written_cons2 by simp_all
  then show ?case by blast
qed

section \<open>Storing a waveform\<close>

text \<open>The last register of a block after the waveform's gain and, for the last waveform, the mark were written.\<close>

definition next_reg :: "cvorg_wv \<Rightarrow> bool \<Rightarrow> u32 \<Rightarrow> u32" where
  "next_reg wv lst x =
     (let x = x AND NOT CVORG_WFNEXTBLK_CONF_GAIN;
          x = (if wv_dynamic_gain wv
               then (((x OR CVORG_WFNEXTBLK_CONF_GAIN) AND NOT CVORG_WFNEXTBLK_GAIN_MASK) OR push_bit 9 (cvorg_gain_to_hw (cvorg_gain_approx (wv_gain_val wv))))
               else x)
      in if lst then (x AND NOT CVORG_WFNEXTBLK_NEXT_MASK) OR CVORG_WFNEXTBLK_LAST else x)"

definition stored_gain :: "cvorg_wv \<Rightarrow> cvorg_wv" where
  "stored_gain wv = (if wv_dynamic_gain wv then wv\<lparr>wv_gain_val := cvorg_gain_approx (wv_gain_val wv)\<rparr> else wv)"

lemma stored_gain_simps [simp]: "wv_size (stored_gain wv) = wv_size wv" "wv_form (stored_gain wv) = wv_form wv"
  "wv_recurr (stored_gain wv) = wv_recurr wv" "wv_dynamic_gain (stored_gain wv) = wv_dynamic_gain wv"
  by (simp_all add: stored_gain_def)

lemma run_wv_store:
  assumes "cvorg_wf c" and "k < 2" and "i < 26"
  shows "\<exists>n. run_state (cvorg_wv_store io k (block_offset i) wv) c = (stored_gain wv,
    reads n (c\<lparr>cd_regs := (cd_regs c)(base k + blk i 4 := wv_size wv div 2, base k + blk i 8 := wv_recurr wv,
      base k + blk i 12 := next_reg wv False (cd_regs c (base k + blk i 12)))\<rparr>))"
proof -
  have p: "plain (blk i 4)" "plain (blk i 8)" "plain (blk i 12)" using assms(3) by simp_all
  have ne: "blk i 12 \<noteq> blk i 4" "blk i 12 \<noteq> blk i 8" using blk_eq [OF assms(3,3)] by auto
  note run = run_wchan [OF _ assms(2)] run_update [OF _ assms(2)]
  let ?x = "cd_regs c (base k + blk i 12)"
  have "run_state (cvorg_wv_store io k (block_offset i) wv) c = (stored_gain wv,
    reads (if wv_dynamic_gain wv then 4 else 1) (setreg (base k + blk i 12) (next_reg wv False ?x) (setreg (base k + blk i 8) (wv_recurr wv)
      (setreg (base k + blk i 4) (wv_size wv div 2) c))))"
    unfolding cvorg_wv_store_def cvorg_wv_gain_store_def Let_def next_reg_def blk_def [symmetric]
    using assms(1) p ne by (simp add: run stored_gain_def)
  then show ?thesis by (auto simp: setreg_def)
qed

lemma next_reg_last: "next_reg wv True x = (next_reg wv False x AND NOT CVORG_WFNEXTBLK_NEXT_MASK) OR CVORG_WFNEXTBLK_LAST"
  by (simp add: next_reg_def Let_def)

text \<open>The registers after a waveform was stored in block \<open>i\<close>, where \<open>a\<close> is what the address register of the SRAM has come to.\<close>

definition wave_regs :: "nat \<Rightarrow> nat \<Rightarrow> u32 \<Rightarrow> u32 \<Rightarrow> cvorg_wv \<Rightarrow> bool \<Rightarrow> (u32 \<Rightarrow> u32) \<Rightarrow> u32 \<Rightarrow> u32" where
  "wave_regs k i a r wv lst regs =
     (let regs = regs(base k + CVORG_SRAMADDR := a);
          p = base k + blk (i - 1) 12;
          regs = (if i > 0 then regs(p := (regs p AND NOT CVORG_WFNEXTBLK_NEXT_MASK) OR of_nat i) else regs)
      in regs(base k + blk i 0 := r, base k + blk i 4 := wv_size wv div 2, base k + blk i 8 := wv_recurr wv,
           base k + blk i 12 := next_reg wv lst (regs (base k + blk i 12))))"

lemma run_sram:
  assumes "cvorg_wf c" and "k < 2" and "unat r = 4 * w" and "4 * w + 2 * length ds \<le> 0x200000"
  shows "\<exists>s a. run_state (cvorg_sram io k ds r) c = ((), c\<lparr>cd_sram := (cd_sram c)(base k := s), cd_regs := (cd_regs c)(base k + CVORG_SRAMADDR := a)\<rparr>)
    \<and> written w ds (cd_sram c (base k)) s"
proof -
  define c1 where "c1 = setreg (base k + CVORG_SRAMADDR) r c"
  have c1: "cvorg_wf c1" "unat (cd_regs c1 (base k + CVORG_SRAMADDR)) = 4 * w" using assms(1,3) by (simp_all add: c1_def)
  obtain s a where s: "snd (run_state (sram_points io k ds) c1) = c1\<lparr>cd_sram := (cd_sram c1)(base k := s), cd_regs := (cd_regs c1)(base k + CVORG_SRAMADDR := a)\<rparr>"
    "written w ds (cd_sram c1 (base k)) s" using run_sram_points [OF c1(1) assms(2) c1(2) assms(4)] by blast
  have "snd (run_state (cvorg_sram io k ds r) c) = c\<lparr>cd_sram := (cd_sram c)(base k := s), cd_regs := (cd_regs c)(base k + CVORG_SRAMADDR := a)\<rparr>" (is "_ = ?c2")
    unfolding cvorg_sram_def using s(1) by (simp add: run_wchan [OF assms(1,2) plain_regs(2)] c1_def [symmetric]) (simp add: c1_def setreg_def)
  then have "run_state (cvorg_sram io k ds r) c = ((), ?c2)" by (intro prod_eqI) simp_all
  then show ?thesis using s(2) by (auto simp: c1_def)
qed

lemma run_store_wave:
  assumes "cvorg_wf c" and "k < 2" and "i < 26" and "unat r = 4 * w" and "4 * w + 2 * length ds \<le> 0x200000"
  shows "\<exists>s a m. run_state (store_wave io k n i r wv ds) c =
      (stored_gain wv, reads m (c\<lparr>cd_sram := (cd_sram c)(base k := s), cd_regs := wave_regs k i a r wv (of_nat i = n - 1) (cd_regs c)\<rparr>))
    \<and> written w ds (cd_sram c (base k)) s"
proof -
  note run = run_wchan [OF _ assms(2)] run_update [OF _ assms(2)]
  have p: "plain (blk i 0)" "plain (blk i 12)" "i > 0 \<Longrightarrow> plain (blk (i - 1) 12)" using assms(3) by simp_all
  have b0: "block_offset i + 0 = blk i 0" "block_offset i + CVORG_WFNEXTBLK = blk i 12" "i > 0 \<Longrightarrow> prev_block_offset i + CVORG_WFNEXTBLK = blk (i - 1) 12"
    by (simp_all add: blk_def prev_block)
  obtain s a where s: "run_state (cvorg_sram io k ds r) c = ((), c\<lparr>cd_sram := (cd_sram c)(base k := s), cd_regs := (cd_regs c)(base k + CVORG_SRAMADDR := a)\<rparr>)"
    "written w ds (cd_sram c (base k)) s" using run_sram [OF assms(1,2,4,5)] by blast
  define c2 where "c2 = c\<lparr>cd_sram := (cd_sram c)(base k := s), cd_regs := (cd_regs c)(base k + CVORG_SRAMADDR := a)\<rparr>"
  have r2: "run_state (cvorg_sram io k ds r) c = ((), c2)" and wf2: "cvorg_wf c2" using s(1) assms(1) by (simp_all add: c2_def cvorg_wf_def)
  define c3 where "c3 = (if i > 0 then setreg (base k + blk (i - 1) 12) ((cd_regs c2 (base k + blk (i - 1) 12) AND NOT CVORG_WFNEXTBLK_NEXT_MASK) OR of_nat i) (reads 2 c2) else c2)"
  have r3: "run_state (if i > 0 then cvorg_wv_mark_prev io k (prev_block_offset i) i else State_Monad.return ()) c2 = ((), c3)" and wf3: "cvorg_wf c3"
    using wf2 p(3) b0(3) by (simp_all add: c3_def cvorg_wv_mark_prev_def run)
  define c4 where "c4 = setreg (base k + blk i 0) r c3"
  have r4: "run_state (cvorg_wchan io k (block_offset i + 0) r) c3 = ((), c4)" and wf4: "cvorg_wf c4"
    unfolding b0(1) using wf3 p(1) by (simp_all add: c4_def run)
  obtain m where r5: "run_state (cvorg_wv_store io k (block_offset i) wv) c4 = (stored_gain wv,
    reads m (c4\<lparr>cd_regs := (cd_regs c4)(base k + blk i 4 := wv_size wv div 2, base k + blk i 8 := wv_recurr wv,
      base k + blk i 12 := next_reg wv False (cd_regs c4 (base k + blk i 12)))\<rparr>))" (is "_ = (_, reads m ?c5)")
    using run_wv_store [OF wf4 assms(2,3)] by blast
  have wf5: "cvorg_wf ?c5" using wf4 by (simp add: cvorg_wf_def)
  have ne: "blk i 12 \<noteq> blk i 0" using blk_eq [OF assms(3,3)] by auto
  let ?W = "\<lambda>l. c\<lparr>cd_sram := (cd_sram c)(base k := s), cd_regs := wave_regs k i a r wv l (cd_regs c)\<rparr>"
  have c5: "?c5 = reads (if i > 0 then 2 else 0) (?W False)"
    using ne by (intro cvorg.equality) (simp_all add: c4_def c3_def c2_def setreg_def reads_def wave_regs_def Let_def)
  obtain m' where r6: "run_state (cvorg_wv_store io k (block_offset i) wv) c4 = (stored_gain wv, reads m' (?W False))"
    using r5 unfolding c5 by (simp only: reads_simps)
  have w: "setreg (base k + blk i 12) ((cd_regs (?W False) (base k + blk i 12) AND NOT CVORG_WFNEXTBLK_NEXT_MASK) OR CVORG_WFNEXTBLK_LAST) (reads j (?W False)) = reads j (?W True)" for j
    by (intro cvorg.equality) (simp_all add: wave_regs_def next_reg_last Let_def)
  have l: "run_state (cvorg_wv_mark_last io k (block_offset i)) (reads m' (?W False)) = ((), reads (m' + 2) (?W True))"
    unfolding cvorg_wv_mark_last_def b0(2) using run(4) [of "reads m' (?W False)" "blk i 12"] p(2) wf4 w [of "m' + 2"]
    by (simp add: wf5 [unfolded c5, simplified])
  have "\<exists>m. run_state (store_wave io k n i r wv ds) c = (stored_gain wv, reads m (?W (of_nat i = n - 1)))"
    unfolding store_wave_def Let_def by (auto simp: r2 r3 [unfolded run_if] r4 [simplified] r6 l)
  then show ?thesis using s(2) by blast
qed

section \<open>The last register of a block\<close>

definition gain_of :: "u32 \<Rightarrow> u32 option" where
  "gain_of y = (if bit y 8 then Some (drop_bit 9 (y AND 0xe00)) else None)"

definition wave_gain :: "cvorg_wv \<Rightarrow> u32 option" where
  "wave_gain wv = (if wv_dynamic_gain wv then Some (cvorg_gain_to_hw (cvorg_gain_approx (wv_gain_val wv))) else None)"

lemma gain_of_field: "y AND 0xf00 = z AND 0xf00 \<Longrightarrow> gain_of y = gain_of z"
proof -
  assume e: "y AND 0xf00 = z AND 0xf00"
  have "bit y 8 = bit (y AND 0xf00) 8" "bit z 8 = bit (z AND 0xf00) 8" by (simp_all add: bit_and_iff)
  moreover have "y AND 0xe00 = (y AND 0xf00) AND 0xe00" "z AND 0xe00 = (z AND 0xf00) AND 0xe00" by (simp_all add: and.assoc)
  ultimately show ?thesis using e by (simp add: gain_of_def)
qed

lemma gain_of_next_reg: "gain_of (next_reg wv lst x) = wave_gain wv"
proof -
  have "next_reg wv lst x AND 0xf00 = next_reg wv False x AND 0xf00"
    by (cases lst) (simp_all add: next_reg_last bit.conj_disj_distrib2 and.assoc)
  moreover have "gain_of (next_reg wv False x) = wave_gain wv"
    by (rule gain_hw_any [OF refl, of "cvorg_gain_approx (wv_gain_val wv)"])
       (simp_all add: gain_of_def wave_gain_def next_reg_def Let_def bit_and_iff bit_or_iff bit.conj_disj_distrib2 and.assoc)
  ultimately show ?thesis using gain_of_field by metis
qed

lemma low_field:
  assumes "j < 32"
  shows "((y AND NOT 0x1f) OR of_nat j) AND 0x1f = (of_nat j :: u32)" "((y AND NOT 0x1f) OR of_nat j) AND 0xf00 = (y AND 0xf00 :: u32)"
proof -
  have m: "(of_nat j :: u32) AND 0x1f = of_nat j"
  proof -
    have "(of_nat j :: u32) AND 0x1f = take_bit 5 (of_nat j)" by (simp add: take_bit_eq_mask mask_eq_exp_minus_1)
    also have "\<dots> = of_nat (take_bit 5 j)" by (simp only: take_bit_of_nat)
    finally show ?thesis using assms by (simp add: take_bit_nat_eq_self)
  qed
  have "(of_nat j :: u32) AND 0xf00 = ((of_nat j :: u32) AND 0x1f) AND 0xf00" using m by simp
  then have z: "(of_nat j :: u32) AND 0xf00 = 0" by (simp add: and.assoc)
  show "((y AND NOT 0x1f) OR of_nat j) AND 0x1f = (of_nat j :: u32)" using m by (simp add: bit.conj_disj_distrib2 and.assoc)
  show "((y AND NOT 0x1f) OR of_nat j) AND 0xf00 = (y AND 0xf00 :: u32)" by (rule update_other_bits [OF z]) simp
qed

section \<open>Storing a sequence\<close>

text \<open>The waveforms, with their samples, are in the blocks from \<open>i\<close> on, with the samples from the word \<open>w\<close> on.\<close>

fun on_card :: "cvorg \<Rightarrow> nat \<Rightarrow> nat \<Rightarrow> nat \<Rightarrow> (cvorg_wv \<times> u16 list) list \<Rightarrow> bool" where
  "on_card d k i w [] \<longleftrightarrow> True"
| "on_card d k i w ((wv, ds) # l) \<longleftrightarrow>
     unat (cd_regs d (base k + blk i 0)) = 4 * w \<and> cd_regs d (base k + blk i 4) = wv_size wv div 2 \<and> cd_regs d (base k + blk i 8) = wv_recurr wv
     \<and> cd_regs d (base k + blk i 12) AND 0x1f = (if l = [] then 31 else of_nat (i + 1)) \<and> gain_of (cd_regs d (base k + blk i 12)) = wave_gain wv
     \<and> (\<forall>j<length ds. point (cd_sram d (base k)) (2 * w + j) = ds ! j) \<and> on_card d k (i + 1) (w + unat (wv_size wv) div 4) l"

lemma and_low:
  fixes x :: u32
  shows "unat x < 2 ^ 21 \<Longrightarrow> x AND 0x1fffff = x" "unat x < 2 ^ 20 \<Longrightarrow> x AND 0xfffff = x"
proof -
  have m: "x AND 0x1fffff = take_bit 21 x" "x AND 0xfffff = take_bit 20 x" by (simp_all add: take_bit_eq_mask mask_eq_exp_minus_1)
  have t: "unat x < 2 ^ n \<Longrightarrow> take_bit n x = x" for n
    by (intro unsigned_word_eqI [where ?'a = nat]) (simp only: unsigned_take_bit_eq take_bit_nat_eq_self)
  show "unat x < 2 ^ 21 \<Longrightarrow> x AND 0x1fffff = x" "unat x < 2 ^ 20 \<Longrightarrow> x AND 0xfffff = x" unfolding m by (rule t; assumption)+
qed

lemma walk_on_card:
  assumes "on_card d k i w l" and "l \<noteq> []" and "i + length l \<le> 26" and "length l \<le> n" and "\<And>wv ds. (wv, ds) \<in> set l \<Longrightarrow> unat (wv_size wv) div 2 = length ds"
    and "4 * w + sum_list (map (\<lambda>(wv, ds). unat (wv_size wv)) l) < 0x200000"
  shows "card_walk d k n i = Some (map (\<lambda>(wv, ds). (ds, wv_recurr wv, wave_gain wv)) l)"
  using assms
proof (induction l arbitrary: i w n)
  case (Cons x l)
  obtain wv ds where x: "x = (wv, ds)" by fastforce
  obtain n' where n: "n = Suc n'" using Cons.prems(4) by (cases n) auto
  have c: "unat (cd_regs d (base k + blk i 0)) = 4 * w" "cd_regs d (base k + blk i 4) = wv_size wv div 2" "cd_regs d (base k + blk i 8) = wv_recurr wv"
    "cd_regs d (base k + blk i 12) AND 0x1f = (if l = [] then 31 else of_nat (i + 1))" "gain_of (cd_regs d (base k + blk i 12)) = wave_gain wv"
    "\<forall>j<length ds. point (cd_sram d (base k)) (2 * w + j) = ds ! j" "on_card d k (i + 1) (w + unat (wv_size wv) div 4) l"
    using Cons.prems(1) by (simp_all add: x)
  have len: "unat (wv_size wv div 2) = length ds" using Cons.prems(5) [of wv ds] by (simp add: x unat_div)
  have "map (\<lambda>j. point (cd_sram d (base k)) (2 * w + j)) [0..<length ds] = ds" using c(6) by (intro nth_equalityI) simp_all
  moreover have "unat (cd_regs d (base k + blk i 0)) < 2 ^ 21" "unat (cd_regs d (base k + blk i 4)) < 2 ^ 20"
    using Cons.prems(6) c(1,2) by (simp_all add: x unat_div)
  ultimately have b: "block_wave d k i = (ds, wv_recurr wv, wave_gain wv)"
    using c(1-3,5) len by (simp add: block_wave_def gain_of_def Let_def and_low)
  show ?case
  proof (cases "l = []")
    case True
    then show ?thesis using c(4) b by (simp add: n x Let_def)
  next
    case False
    have "i + 1 < 26" using Cons.prems(3) False by (cases l) auto
    then have "unat (of_nat (i + 1) :: u32) = i + 1" by (simp only: unat_of_nat) (simp add: take_bit_nat_eq_self)
    then have nx: "unat (cd_regs d (base k + blk i 12) AND 0x1f) = i + 1" "i + 1 \<noteq> 31" using c(4) False \<open>i + 1 < 26\<close> by simp_all
    have "card_walk d k n' (i + 1) = Some (map (\<lambda>(wv, ds). (ds, wv_recurr wv, wave_gain wv)) l)"
      using Cons.prems by (intro Cons.IH [OF c(7) False]) (auto simp: n x)
    then show ?thesis using nx b by (simp add: n x Let_def)
  qed
qed simp

text \<open>The registers that storing waveforms from block \<open>i\<close> on does not touch.\<close>

definition outside :: "nat \<Rightarrow> nat \<Rightarrow> u32 \<Rightarrow> bool" where
  "outside k i a \<longleftrightarrow> a \<noteq> base k + CVORG_SRAMADDR \<and> (\<forall>j x. i \<le> j \<longrightarrow> j < 26 \<longrightarrow> x \<in> {0, 4, 8, 12} \<longrightarrow> a \<noteq> base k + blk j x)
     \<and> (i > 0 \<longrightarrow> a \<noteq> base k + blk (i - 1) 12)"

lemma outside_Suc: "i < 26 \<Longrightarrow> outside k i a \<Longrightarrow> outside k (i + 1) a"
  by (auto simp: outside_def)

lemma blk_sramaddr: "i < 26 \<Longrightarrow> x \<in> {0, 4, 8, 12} \<Longrightarrow> blk i x \<noteq> CVORG_SRAMADDR"
  by (rule blk_low) simp_all

lemma outside_own: "i < 26 \<Longrightarrow> x \<in> {0, 4, 8} \<Longrightarrow> outside k (i + 1) (base k + blk i x)"
  by (auto simp: outside_def blk_eq blk_sramaddr)

lemma wave_regs_outside: "i < 26 \<Longrightarrow> outside k i a \<Longrightarrow> wave_regs k i b r wv lst regs a = regs a"
  by (auto simp: outside_def wave_regs_def Let_def)

lemma wave_regs_prev:
  "0 < i \<Longrightarrow> i < 26 \<Longrightarrow> wave_regs k i b r wv lst regs (base k + blk (i - 1) 12) = (regs (base k + blk (i - 1) 12) AND NOT CVORG_WFNEXTBLK_NEXT_MASK) OR of_nat i"
  by (auto simp: wave_regs_def Let_def blk_eq blk_sramaddr)

lemma wave_regs_own:
  assumes "i < 26"
  shows "wave_regs k i b r wv lst regs (base k + blk i 0) = r" "wave_regs k i b r wv lst regs (base k + blk i 4) = wv_size wv div 2"
    "wave_regs k i b r wv lst regs (base k + blk i 8) = wv_recurr wv"
    "\<exists>x. wave_regs k i b r wv lst regs (base k + blk i 12) = next_reg wv lst x"
  using assms by (auto simp: wave_regs_def Let_def blk_eq)

text \<open>What holds after the waveforms were stored.\<close>

definition stored :: "nat \<Rightarrow> nat \<Rightarrow> nat \<Rightarrow> (cvorg_wv \<times> u16 list) list \<Rightarrow> cvorg \<Rightarrow> cvorg \<Rightarrow> bool" where
  "stored k i w l c d \<longleftrightarrow> on_card d k i w l \<and> cv_channels d = cv_channels c \<and> (\<forall>p<2 * w. point (cd_sram d (base k)) p = point (cd_sram c (base k)) p)
     \<and> (\<forall>ch. ch \<noteq> base k \<longrightarrow> cd_sram d ch = cd_sram c ch) \<and> (\<forall>a. outside k i a \<longrightarrow> cd_regs d a = cd_regs c a)
     \<and> (l \<noteq> [] \<longrightarrow> i > 0 \<longrightarrow> cd_regs d (base k + blk (i - 1) 12) = (cd_regs c (base k + blk (i - 1) 12) AND NOT CVORG_WFNEXTBLK_NEXT_MASK) OR of_nat i)
     \<and> (l = [] \<longrightarrow> cd_regs d = cd_regs c \<and> cd_sram d = cd_sram c)"

lemma stored_step:
  assumes "i < 26" and "unat r = 4 * w" and "written w ds (cd_sram c (base k)) s"
    and "c1 = reads m (c\<lparr>cd_sram := (cd_sram c)(base k := s), cd_regs := wave_regs k i b r wv (l = []) (cd_regs c)\<rparr>)"
    and "stored k (i + 1) (w + unat (wv_size wv) div 4) l c1 d" and "l \<noteq> [] \<Longrightarrow> 2 * length ds \<le> 4 * (unat (wv_size wv) div 4)"
    and "l \<noteq> [] \<Longrightarrow> i + 1 < 26"
  shows "stored k i w ((wv, ds) # l) c d"
proof -
  have wr: "\<And>p. p < 2 * w \<Longrightarrow> point s p = point (cd_sram c (base k)) p" "\<And>j. j < length ds \<Longrightarrow> point s (2 * w + j) = ds ! j"
    using assms(3) by (simp_all add: written_def)
  have c1: "cd_sram c1 = (cd_sram c)(base k := s)" "cd_regs c1 = wave_regs k i b r wv (l = []) (cd_regs c)" "cv_channels c1 = cv_channels c"
    by (simp_all add: assms(4))
  have st: "on_card d k (i + 1) (w + unat (wv_size wv) div 4) l" "cv_channels d = cv_channels c1"
    "\<And>p. p < 2 * (w + unat (wv_size wv) div 4) \<Longrightarrow> point (cd_sram d (base k)) p = point (cd_sram c1 (base k)) p"
    "\<And>ch. ch \<noteq> base k \<Longrightarrow> cd_sram d ch = cd_sram c1 ch" "\<And>a. outside k (i + 1) a \<Longrightarrow> cd_regs d a = cd_regs c1 a"
    "l \<noteq> [] \<Longrightarrow> cd_regs d (base k + blk i 12) = (cd_regs c1 (base k + blk i 12) AND NOT CVORG_WFNEXTBLK_NEXT_MASK) OR of_nat (i + 1)"
    "l = [] \<Longrightarrow> cd_regs d = cd_regs c1" "l = [] \<Longrightarrow> cd_sram d = cd_sram c1"
    using assms(5) unfolding stored_def by auto
  note own = wave_regs_own [OF assms(1), of k b r wv "l = []" "cd_regs c"]
  have o: "cd_regs d (base k + blk i 0) = r" "cd_regs d (base k + blk i 4) = wv_size wv div 2" "cd_regs d (base k + blk i 8) = wv_recurr wv"
    using st(5) [OF outside_own [OF assms(1)]] own(1-3) by (simp_all add: c1(2))
  obtain x where x: "cd_regs c1 (base k + blk i 12) = next_reg wv (l = []) x" using own(4) by (auto simp: c1(2))
  have n: "cd_regs d (base k + blk i 12) AND 0x1f = (if l = [] then 31 else of_nat (i + 1)) \<and> gain_of (cd_regs d (base k + blk i 12)) = wave_gain wv"
  proof (cases "l = []")
    case True
    then show ?thesis using st(7) x gain_of_next_reg [of wv True x] by (simp add: next_reg_last bit.conj_disj_distrib2 and.assoc)
  next
    case False
    then show ?thesis
      using st(6) x low_field [of "i + 1"] gain_of_field [of "cd_regs d (base k + blk i 12)" "next_reg wv False x"] gain_of_next_reg [of wv False x] assms(7)
      by (simp del: of_nat_Suc of_nat_add)
  qed
  have pts: "p < 2 * w + length ds \<Longrightarrow> point (cd_sram d (base k)) p = point s p" for p
    using st(3,8) assms(6) by (cases "l = []") (simp_all add: c1(1))
  have "cd_sram d ch = cd_sram c ch" if "ch \<noteq> base k" for ch using st(4) that by (simp add: c1(1))
  moreover have "cd_regs d a = cd_regs c a" if "outside k i a" for a
    using st(5) [OF outside_Suc [OF assms(1) that]] wave_regs_outside [OF assms(1) that] by (simp add: c1(2))
  moreover have "cd_regs d (base k + blk (i - 1) 12) = (cd_regs c (base k + blk (i - 1) 12) AND NOT CVORG_WFNEXTBLK_NEXT_MASK) OR of_nat i" if "i > 0"
  proof -
    have "outside k (i + 1) (base k + blk (i - 1) 12)" using that assms(1) by (auto simp: outside_def blk_eq blk_sramaddr)
    then show ?thesis using st(5) wave_regs_prev [OF that assms(1)] by (simp add: c1(2))
  qed
  ultimately show ?thesis
    unfolding stored_def using o n st(1,2) assms(2) wr pts by (simp add: c1(3))
qed

lemma run_store_waves:
  assumes "k < 2"
  shows "cvorg_wf c \<Longrightarrow> n = of_nat (i + length ws) \<Longrightarrow> i + length ws \<le> 26 \<Longrightarrow> (ws \<noteq> [] \<longrightarrow> unat r = 4 * w) \<Longrightarrow> distinct (map wv_form ws) \<Longrightarrow>
    (\<forall>wv\<in>set ws. \<exists>ds. hp_blocks h (wv_form wv) = Some ds \<and> unat (wv_size wv) = 2 * length ds) \<Longrightarrow>
    (\<forall>wv\<in>set (butlast ws). 4 dvd unat (wv_size wv)) \<Longrightarrow> 4 * w + sum_list (map (\<lambda>wv. unat (wv_size wv)) ws) \<le> 0x200000 \<Longrightarrow>
    stored k i w (map (\<lambda>wv. (wv, map normalize_point (the (hp_blocks h (wv_form wv))))) ws) c (snd (run_state (store_waves io k n i r ws h) c))"
proof (induction ws arbitrary: c i r w h)
  case Nil
  then show ?case by (simp add: stored_def)
next
  case (Cons wv ws)
  obtain ds where ds: "hp_blocks h (wv_form wv) = Some ds" "unat (wv_size wv) = 2 * length ds" using Cons.prems(6) by auto
  let ?ds = "map normalize_point ds" and ?h = "normalize_wv wv h"
  have r: "unat r = 4 * w" "i < 26" "4 * w + 2 * length ?ds \<le> 0x200000" using Cons.prems(3,4,8) ds(2) by simp_all
  have l: "of_nat i = n - 1 \<longleftrightarrow> ws = []"
  proof -
    have "n - 1 = of_nat (i + length ws)" using Cons.prems(2) by simp
    moreover have "unat (of_nat i :: u32) = i" "unat (of_nat (i + length ws) :: u32) = i + length ws"
      using Cons.prems(3) by (simp_all only: unat_of_nat) (simp_all add: take_bit_nat_eq_self)
    ultimately show ?thesis by (metis add_cancel_right_right length_0_conv)
  qed
  obtain s a m where s: "run_state (store_wave io k n i r wv ?ds) c =
      (stored_gain wv, reads m (c\<lparr>cd_sram := (cd_sram c)(base k := s), cd_regs := wave_regs k i a r wv (ws = []) (cd_regs c)\<rparr>))" (is "_ = (_, ?c1)")
    "written w ?ds (cd_sram c (base k)) s"
    using run_store_wave [OF Cons.prems(1) assms r(2,1,3), of io n wv] unfolding l by blast
  have h: "hp_blocks ?h (wv_form v) = hp_blocks h (wv_form v)" if "v \<in> set ws" for v
  proof -
    have "wv_form v \<noteq> wv_form wv" using Cons.prems(5) that by (metis distinct.simps(2) image_eqI list.map(2) list.set_map)
    then show ?thesis by (simp add: normalize_wv_def)
  qed
  have hd: "the (hp_blocks ?h (wv_form wv)) = ?ds" using ds(1) by (simp add: normalize_wv_def)
  have d: "snd (run_state (store_waves io k n i r (wv # ws) h) c) = snd (run_state (store_waves io k n (i + 1) (r + wv_size wv) ws ?h) ?c1)"
    using s(1) by (simp add: Let_def hd split_beta)
  have w: "4 * (w + unat (wv_size wv) div 4) = 4 * w + unat (wv_size wv)" if "ws \<noteq> []" using Cons.prems(7) that by simp
  have "stored k (i + 1) (w + unat (wv_size wv) div 4) (map (\<lambda>wv. (wv, map normalize_point (the (hp_blocks ?h (wv_form wv))))) ws) ?c1
      (snd (run_state (store_waves io k n (i + 1) (r + wv_size wv) ws ?h) ?c1))"
  proof (rule Cons.IH)
    show "cvorg_wf ?c1" using Cons.prems(1) by (simp add: cvorg_wf_def)
    show "n = of_nat (i + 1 + length ws)" "i + 1 + length ws \<le> 26" "distinct (map wv_form ws)" using Cons.prems(2,3,5) by simp_all
    show "ws \<noteq> [] \<longrightarrow> unat (r + wv_size wv) = 4 * (w + unat (wv_size wv) div 4)"
      using Cons.prems(8) r(1) w by (auto simp: unat_add_lem [THEN iffD1])
    show "\<forall>v\<in>set ws. \<exists>ds. hp_blocks ?h (wv_form v) = Some ds \<and> unat (wv_size v) = 2 * length ds" using Cons.prems(6) h by simp
    show "\<forall>v\<in>set (butlast ws). 4 dvd unat (wv_size v)" using Cons.prems(7) by (auto split: if_splits)
    show "4 * (w + unat (wv_size wv) div 4) + (\<Sum>v\<leftarrow>ws. unat (wv_size v)) \<le> 0x200000" using Cons.prems(8) by simp
  qed
  moreover have "map (\<lambda>wv. (wv, map normalize_point (the (hp_blocks ?h (wv_form wv))))) ws = map (\<lambda>wv. (wv, map normalize_point (the (hp_blocks h (wv_form wv))))) ws"
    using h by simp
  moreover have "ws \<noteq> [] \<Longrightarrow> i + 1 < 26" using Cons.prems(3) by (cases ws) simp_all
  ultimately show ?case
    unfolding d using stored_step [OF r(2,1) s(2), of ?c1 m a wv "map (\<lambda>wv. (wv, map normalize_point (the (hp_blocks h (wv_form wv))))) ws"] ds w by simp
qed

section \<open>From the user to the card\<close>

lemma on_card_cong:
  assumes "cd_sram d (base k) = cd_sram c (base k)" and "\<And>j x. j < 26 \<Longrightarrow> x \<in> {0, 4, 8, 12} \<Longrightarrow> cd_regs d (base k + blk j x) = cd_regs c (base k + blk j x)"
  shows "i + length l \<le> 26 \<Longrightarrow> on_card d k i w l = on_card c k i w l"
proof (induction l arbitrary: i w)
  case (Cons p l)
  then show ?case using assms(1) assms(2) [of i] by (cases p) simp
qed simp

lemma run_startable: "cvorg_wf c \<Longrightarrow> k < 2 \<Longrightarrow> \<exists>m. run_state (startable_loop io k n reg) c = ((), reads m c)"
proof (induction n arbitrary: reg c)
  case 0
  have "\<exists>m. c = reads m c" by (rule exI [of _ 0]) (simp add: reads_def)
  then show ?case by (subst startable_loop.simps) auto
next
  case (Suc n)
  have "\<exists>m. c = reads m c" by (rule exI [of _ 0]) (simp add: reads_def)
  moreover obtain m where "run_state (startable_loop io k n (io_reg io (cd_reads c) (base k + CVORG_STATUS))) (reads 1 c) = ((), reads m (reads 1 c))"
    using Suc.IH [of "reads 1 c"] Suc.prems by auto
  ultimately show ?case using Suc.prems by (subst startable_loop.simps) (auto simp: run_rchan_ro status_regs)
qed

lemma run_play:
  fixes io :: cvorg_io
  assumes "cvorg_wf c" and "k < 2"
  defines "d \<equiv> snd (run_state (play_wv io k) c)"
  shows "cd_sram d = cd_sram c" "a \<noteq> base k + CVORG_CONFIG \<Longrightarrow> cd_regs d a = cd_regs c a"
proof -
  define c1 where "c1 = command (base k) CVORG_CTL_CHAN_LOADSEQ (setreg (base k + CVORG_CONFIG)
    ((cd_regs c (base k + CVORG_CONFIG) AND NOT CVORG_CONFIG_MODE) OR (1 OR CVORG_CONFIG_SEQREADY)) (reads 3 c))"
  have c1: "cvorg_wf c1" using assms(1) by (simp add: c1_def)
  obtain m where "run_state (startable_loop io k 21 (io_reg io (cd_reads c1) (base k + CVORG_STATUS))) (reads 1 c1) = ((), reads m (reads 1 c1))"
    using run_startable [OF _ assms(2), of "reads 1 c1"] c1 by (simp only: wf_simps) blast
  then have "d = reads m (reads 1 c1)"
    using assms(1,2) c1 unfolding d_def play_wv_def cvorg_poll_startable_def cvorg_channel_ready_def c1_def
    by (simp add: run_rchan_ro status_regs run_config run_command numeral_3_eq_3)
  then show "cd_sram d = cd_sram c" "a \<noteq> base k + CVORG_CONFIG \<Longrightarrow> cd_regs d a = cd_regs c a" by (simp_all add: c1_def)
qed

text \<open>What the user handed over, when it has arrived.\<close>

lemma copy_wvs_ok:
  assumes "copy_wvs u n i ws h = (ws', h', OK)" and "inj_on (us_form_addr u) {i..<i + n}" and "length ws = i + n"
  shows "length ws' = length ws \<and> (\<forall>j<i. ws' ! j = ws ! j)
    \<and> (\<forall>j. i \<le> j \<longrightarrow> j < i + n \<longrightarrow> (\<exists>wv ds. us_desc u j = Some wv \<and> us_form u j = Some ds \<and> ws' ! j = wv\<lparr>wv_form := us_form_addr u j\<rparr>
        \<and> hp_blocks h' (us_form_addr u j) = Some (take (unat (wv_size wv) div 2) ds)))
    \<and> (\<forall>a. a \<notin> us_form_addr u ` {i..<i + n} \<longrightarrow> hp_blocks h' a = hp_blocks h a)"
  using assms
proof (induction n arbitrary: i ws h)
  case (Suc n)
  obtain wv h1 r where s: "copy_wv_from_user u i (ws ! i) h = (wv, h1, r)" by (metis prod_cases3)
  have ok: "r = OK" "copy_wvs u n (i + 1) (ws[i := wv]) h1 = (ws', h', OK)" using Suc.prems(1) s by (auto split: rc.splits)
  obtain w ds where w: "us_desc u i = Some w" "us_form u i = Some ds" "wv = w\<lparr>wv_form := us_form_addr u i\<rparr>"
    "hp_blocks h1 = (hp_blocks h)(us_form_addr u i \<mapsto> take (unat (wv_size w) div 2) ds)"
    using s ok(1) by (auto simp: copy_wv_from_user_def Let_def split: option.splits if_splits)
  have I: "{i..<i + Suc n} = insert i {i + 1..<i + 1 + n}" by auto
  have inj: "inj_on (us_form_addr u) {i + 1..<i + 1 + n}" "us_form_addr u i \<notin> us_form_addr u ` {i + 1..<i + 1 + n}"
    using Suc.prems(2) unfolding I by auto
  note ih = Suc.IH [OF ok(2) inj(1)]
  have "hp_blocks h' (us_form_addr u i) = Some (take (unat (wv_size w) div 2) ds)" "ws' ! i = wv"
    using ih Suc.prems(3) inj(2) w(4) by simp_all
  then have "\<exists>wv ds. us_desc u j = Some wv \<and> us_form u j = Some ds \<and> ws' ! j = wv\<lparr>wv_form := us_form_addr u j\<rparr>
        \<and> hp_blocks h' (us_form_addr u j) = Some (take (unat (wv_size wv) div 2) ds)" if "i \<le> j" "j < i + Suc n" for j
    using w ih Suc.prems(3) that by (cases "j = i") auto
  moreover have "hp_blocks h' a = hp_blocks h a" if "a \<notin> us_form_addr u ` {i..<i + Suc n}" for a
    using ih Suc.prems(3) that w(4) unfolding I by simp
  ultimately show ?case using ih Suc.prems(3) by auto
qed simp

lemma single_wave_waves: "length (sq_waves (single_wave seq)) = length (sq_waves seq)" "sq_n_waves (single_wave seq) = sq_n_waves seq"
  by (simp_all add: single_wave_def)

text \<open>The samples of a waveform in the driver's memory.\<close>

definition samples :: "heap \<Rightarrow> cvorg_wv \<Rightarrow> u16 list" where
  "samples h wv = map normalize_point (the (hp_blocks h (wv_form wv)))"

text \<open>A sequence in the driver's memory that can be stored: its samples are there, no waveform but the last ends within a word, and all fit.\<close>

definition storable :: "heap \<Rightarrow> cvorg_seq \<Rightarrow> bool" where
  "storable h seq \<longleftrightarrow> length (sq_waves seq) = unat (sq_n_waves seq) \<and> distinct (map wv_form (sq_waves seq))
     \<and> (\<forall>wv\<in>set (sq_waves seq). \<exists>ds. hp_blocks h (wv_form wv) = Some ds \<and> unat (wv_size wv) = 2 * length ds)
     \<and> (\<forall>wv\<in>set (butlast (sq_waves seq)). 4 dvd unat (wv_size wv)) \<and> sum_list (map (\<lambda>wv. unat (wv_size wv)) (sq_waves seq)) < 0x200000"

lemma storable_single: "storable h seq \<Longrightarrow> storable h (single_wave seq)"
proof (cases "sq_n_waves seq = 1")
  case True
  assume s: "storable h seq"
  then obtain wv where "sq_waves seq = [wv]" using True by (auto simp: storable_def length_Suc_conv)
  then show ?thesis using s True by (simp add: storable_def single_wave_def)
qed (simp add: single_wave_def)

lemma storeseq_on_card:
  assumes "cvorg_wf c" and "k < 2" and "run_state (cvorg_storeseq io k seq h) c = ((OK, seq', h'), d)" and "storable h seq"
  defines "l \<equiv> map (\<lambda>wv. (wv, samples h wv)) (sq_waves (single_wave seq))"
  shows "on_card d k 0 0 l" "cvorg_wf d" "cd_regs d (base k + CVORG_SEQNR) = sq_nr (single_wave seq)" "l \<noteq> []" "length l \<le> 26"
proof -
  let ?q = "single_wave seq"
  obtain b m where b: "run_state (cvorg_sram_busy io k) c = (b, reads m c)" using run_status(2) [OF assms(1,2)] unfolding cvorg_sram_busy_def by blast
  define c1 where "c1 = setreg (base k + CVORG_SEQNR) (sq_nr ?q) (reads m c)"
  have wf: "cvorg_wf c1" using assms(1) by (simp add: c1_def)
  have ok: "sq_n_waves seq \<noteq> 0" "sq_n_waves seq \<le> CVORG_MAX_SEQUENCES"
    "d = snd (run_state (store_waves io k (sq_n_waves seq) 0 0 (sq_waves ?q) h) c1)"
    using assms(1,3) b by (auto simp: cvorg_storeseq_def storeseq_def run_wchan [OF _ assms(2) plain_regs(3)] c1_def single_wave_waves Let_def split_beta split: if_splits)
  have q: "storable h ?q" by (rule storable_single [OF assms(4)])
  have len: "length (sq_waves ?q) \<le> 26" "sq_waves ?q \<noteq> []" "sq_n_waves seq = of_nat (0 + length (sq_waves ?q))"
  proof -
    have n: "length (sq_waves ?q) = unat (sq_n_waves seq)" using q by (simp add: storable_def single_wave_waves)
    then show "length (sq_waves ?q) \<le> 26" "sq_n_waves seq = of_nat (0 + length (sq_waves ?q))" using ok(2) by (simp_all add: word_le_nat_alt)
    have "unat (sq_n_waves seq) \<noteq> 0" using ok(1) by (simp add: unat_eq_0)
    then show "sq_waves ?q \<noteq> []" using n by auto
  qed
  have s: "stored k 0 0 l c1 d"
    unfolding ok(3) l_def samples_def using q len by (intro run_store_waves [OF assms(2) wf]) (auto simp: storable_def)
  show "on_card d k 0 0 l" using s by (simp add: stored_def)
  show "cvorg_wf d" using s wf wf_same_channels [of d c1] by (simp add: stored_def)
  have "outside k 0 (base k + CVORG_SEQNR)" using blk_low by (auto simp: outside_def)
  then show "cd_regs d (base k + CVORG_SEQNR) = sq_nr ?q" using s by (simp add: stored_def c1_def)
  show "l \<noteq> []" "length l \<le> 26" using len(1,2) by (simp_all add: l_def)
qed

lemma loadseq_on_card:
  assumes "cvorg_wf c" and "k < 2" and "run_state (loadseq io k seq h) c = ((OK, seq', h'), d)" and "storable h seq"
  shows "card_sequence d k = Some (map (\<lambda>wv. (samples h wv, wv_recurr wv, wave_gain wv)) (sq_waves (single_wave seq)))"
    "cd_regs d (base k + CVORG_SEQNR) = sq_nr (single_wave seq)"
proof -
  define c1 where "c1 = snd (run_state (cvorg_quiesce_channel io k) c)"
  have c1: "cvorg_wf c1" using keepsD [OF own.keeps_quiesce [OF assms(2)], of c "cv_channels c" "cv_owner c"] assms(1) by (simp add: c1_def)
  obtain d1 where s: "run_state (cvorg_storeseq io k seq h) c1 = ((OK, seq', h'), d1)" "d = snd (run_state (play_wv io k) d1)"
    using assms(3) unfolding loadseq_def c1_def
    by (cases "run_state (cvorg_storeseq io k seq h) (snd (run_state (cvorg_quiesce_channel io k) c))") (auto simp: split_beta split: rc.splits prod.splits)
  note st = storeseq_on_card [OF c1 assms(2) s(1) assms(4)]
  note p = run_play [OF st(2) assms(2), where io = io, folded s(2)]
  let ?l = "map (\<lambda>wv. (wv, samples h wv)) (sq_waves (single_wave seq))"
  have "on_card d k 0 0 ?l"
    using on_card_cong [of d k d1 0 ?l] p st(1,5) blk_low [of _ _ CVORG_CONFIG] by simp
  moreover have "unat (wv_size wv) div 2 = length ds" if "(wv, ds) \<in> set ?l" for wv ds
    using storable_single [OF assms(4)] that by (auto simp: storable_def samples_def)
  ultimately have "card_walk d k 26 0 = Some (map (\<lambda>(wv, ds). (ds, wv_recurr wv, wave_gain wv)) ?l)"
    using st(4,5) storable_single [OF assms(4)] by (intro walk_on_card) (auto simp: storable_def comp_def)
  then show "card_sequence d k = Some (map (\<lambda>wv. (samples h wv, wv_recurr wv, wave_gain wv)) (sq_waves (single_wave seq)))"
    by (simp add: card_sequence_def comp_def)
  show "cd_regs d (base k + CVORG_SEQNR) = sq_nr (single_wave seq)" using p(2) st(3) by simp
qed

section \<open>Properties\<close>

lemma seq_init_storable:
  fixes u :: seq_env
  defines "n \<equiv> unat (us_n_waves u)"
  assumes "seq_init u h = (Inr seq, h')" and "inj_on (us_form_addr u) {..<n}"
    and "\<forall>i<n. \<forall>wv ds. us_desc u i = Some wv \<longrightarrow> us_form u i = Some ds \<longrightarrow> unat (wv_size wv) = 2 * length ds"
    and "\<forall>i wv. i + 1 < n \<longrightarrow> us_desc u i = Some wv \<longrightarrow> 4 dvd unat (wv_size wv)" and "(\<Sum>i<n. unat (wv_size (the (us_desc u i)))) < 0x200000"
  shows "storable h' seq" "sq_nr seq = us_nr u" "sq_n_waves seq = us_n_waves u"
    "map (\<lambda>wv. (samples h' wv, wv_recurr wv, wave_gain wv)) (sq_waves seq) =
      map (\<lambda>i. (map normalize_point (the (us_form u i)), wv_recurr (the (us_desc u i)), wave_gain (the (us_desc u i)))) [0..<n]"
proof -
  obtain ws where ws: "copy_wvs u n 0 (map (us_junk u) [0..<n]) h = (ws, h', OK)" "seq = \<lparr>sq_nr = us_nr u, sq_n_waves = us_n_waves u, sq_waves = ws\<rparr>"
    using assms(2) unfolding n_def by (auto simp: seq_init_def Let_def split: if_splits prod.splits rc.splits)
  have c: "length ws = n" "\<And>i. i < n \<Longrightarrow> \<exists>wv ds. us_desc u i = Some wv \<and> us_form u i = Some ds \<and> ws ! i = wv\<lparr>wv_form := us_form_addr u i\<rparr>
      \<and> hp_blocks h' (us_form_addr u i) = Some (take (unat (wv_size wv) div 2) ds)"
    using copy_wvs_ok [OF ws(1)] assms(3) by (auto simp: atLeast0LessThan)
  have i: "ws ! i = (the (us_desc u i))\<lparr>wv_form := us_form_addr u i\<rparr>" "hp_blocks h' (us_form_addr u i) = Some (the (us_form u i))"
    "unat (wv_size (the (us_desc u i))) = 2 * length (the (us_form u i))" "i + 1 < n \<Longrightarrow> 4 dvd unat (wv_size (the (us_desc u i)))" if "i < n" for i
    using c(2) [OF that] assms(4,5) that by fastforce+
  have form: "map wv_form ws = map (us_form_addr u) [0..<n]" using i(1) c(1) by (intro nth_equalityI) auto
  have size: "map (\<lambda>wv. unat (wv_size wv)) ws = map (\<lambda>i. unat (wv_size (the (us_desc u i)))) [0..<n]" using i(1) c(1) by (intro nth_equalityI) auto
  have "distinct (map wv_form ws)" unfolding form using assms(3) by (simp add: distinct_map atLeast0LessThan)
  moreover have "\<forall>wv\<in>set ws. \<exists>ds. hp_blocks h' (wv_form wv) = Some ds \<and> unat (wv_size wv) = 2 * length ds"
    using i(1-3) c(1) by (auto simp: in_set_conv_nth)
  moreover have "\<forall>wv\<in>set (butlast ws). 4 dvd unat (wv_size wv)" using i(1,4) c(1) by (auto simp: in_set_conv_nth nth_butlast)
  moreover have "sum_list (map (\<lambda>wv. unat (wv_size wv)) ws) < 0x200000" unfolding size using assms(6) by (simp add: interv_sum_list_conv_sum_set_nat atLeast0LessThan)
  ultimately show "storable h' seq" using c(1) by (simp add: storable_def ws(2) n_def)
  show "sq_nr seq = us_nr u" "sq_n_waves seq = us_n_waves u" by (simp_all add: ws(2))
  show "map (\<lambda>wv. (samples h' wv, wv_recurr wv, wave_gain wv)) (sq_waves seq) =
      map (\<lambda>i. (map normalize_point (the (us_form u i)), wv_recurr (the (us_desc u i)), wave_gain (the (us_desc u i)))) [0..<n]"
    using i(1,2) c(1) by (intro nth_equalityI) (auto simp: ws(2) samples_def wave_gain_def)
qed

lemma single_wave_played:
  assumes "length (sq_waves seq) = unat (sq_n_waves seq)"
  shows "map (\<lambda>wv. (samples h wv, wv_recurr wv, wave_gain wv)) (sq_waves (single_wave seq)) =
      map (\<lambda>(ds, m, g). (ds, m * (if sq_n_waves seq = 1 then sq_nr seq else 1), g)) (map (\<lambda>wv. (samples h wv, wv_recurr wv, wave_gain wv)) (sq_waves seq))"
    "sq_nr (single_wave seq) = (if sq_n_waves seq = 1 then 1 else sq_nr seq)"
proof -
  have "\<exists>wv. sq_waves seq = [wv]" if "sq_n_waves seq = 1" using assms that by (simp add: length_Suc_conv)
  then show "map (\<lambda>wv. (samples h wv, wv_recurr wv, wave_gain wv)) (sq_waves (single_wave seq)) =
      map (\<lambda>(ds, m, g). (ds, m * (if sq_n_waves seq = 1 then sq_nr seq else 1), g)) (map (\<lambda>wv. (samples h wv, wv_recurr wv, wave_gain wv)) (sq_waves seq))"
    by (cases "sq_n_waves seq = 1") (auto simp: single_wave_def samples_def wave_gain_def)
  show "sq_nr (single_wave seq) = (if sq_n_waves seq = 1 then 1 else sq_nr seq)" by (simp add: single_wave_def)
qed

text \<open>
  C16: The card plays the sequence the user handed over. When a sequence is loaded and the call succeeds, the walk the card makes over the
  descriptor blocks visits exactly the waveforms of the user, in order: each with the user's samples as the driver rounds them, with its
  number of repetitions and with the gain nearest to the one asked for; the number of repetitions of the sequence is
  in its register, and a sequence of one waveform is played by repeating the waveform. The sizes the user gives are those of the
  samples; all waveforms but the last have a size that is a multiple of 4, and together they are
  smaller than the SRAM: the register for the length of a waveform is one bit too narrow for one that fills it.
\<close>

theorem loaded_sequence_is_played:
  fixes u :: seq_env
  defines "n \<equiv> unat (us_n_waves u)"
  assumes "cvorg_wf c" and "k < 2" and "run_state (cvorg_loadseq io k u h) c = ((OK, l, h'), d)" and "inj_on (us_form_addr u) {..<n}"
    and "\<forall>i<n. \<forall>wv ds. us_desc u i = Some wv \<longrightarrow> us_form u i = Some ds \<longrightarrow> unat (wv_size wv) = 2 * length ds"
    and "\<forall>i wv. i + 1 < n \<longrightarrow> us_desc u i = Some wv \<longrightarrow> 4 dvd unat (wv_size wv)" and "(\<Sum>i<n. unat (wv_size (the (us_desc u i)))) < 0x200000"
  shows "card_sequence d k = Some (map (\<lambda>i. (map normalize_point (the (us_form u i)), wv_recurr (the (us_desc u i)) * (if us_n_waves u = 1 then us_nr u else 1),
      wave_gain (the (us_desc u i)))) [0..<n]) \<and> cd_regs d (base k + CVORG_SEQNR) = (if us_n_waves u = 1 then 1 else us_nr u)"
proof -
  let ?pre = "do { _ \<leftarrow> cvorg_channel_clear_errors io k; _ \<leftarrow> cvorg_channel_ready io k; cvorg_invalid_seq io k u }"
  define c1 where "c1 = snd (run_state ?pre c)"
  have "keeps (\<lambda>d. cvorg_wf d \<and> cv_channels d = cv_channels c \<and> cv_owner d = cv_owner c) ?pre"
    using assms(3) by (intro keep own.keeps_clear_errors own.keeps_status own.keeps_invalid_seq)
  from keepsD [OF this, of c, folded c1_def] have c1: "cvorg_wf c1" using assms(2) by blast
  obtain s h1 where i1: "seq_init u h = (s, h1)" by fastforce
  have "\<exists>seq. s = Inr seq \<and> fst (fst (run_state (loadseq io k seq h1) c1)) = OK \<and> snd (run_state (loadseq io k seq h1) c1) = d"
    using assms(4) unfolding cvorg_loadseq_def c1_def i1 by (auto simp: split_beta split: if_splits rc.splits sum.splits)
  then obtain seq seq' h2 where s: "seq_init u h = (Inr seq, h1)" "run_state (loadseq io k seq h1) c1 = ((OK, seq', h2), d)"
    using i1 by (metis prod.collapse)
  note i = seq_init_storable [OF s(1) assms(5-8) [unfolded n_def], folded n_def]
  have "length (sq_waves seq) = unat (sq_n_waves seq)" using i(1) by (simp add: storable_def)
  note p = single_wave_played [OF this] loadseq_on_card [OF c1 assms(3) s(2) i(1)]
  have "card_sequence d k = Some (map (\<lambda>(ds, m, g). (ds, m * (if sq_n_waves seq = 1 then sq_nr seq else 1), g))
      (map (\<lambda>wv. (samples h1 wv, wv_recurr wv, wave_gain wv)) (sq_waves seq)))" using p(1,3) by (simp only:)
  then show ?thesis using p(2,4) unfolding i(2-4) by (simp add: comp_def)
qed

text \<open>A ready channel, and a sequence of two waveforms that is played three times.\<close>

definition ready_io :: cvorg_io where
  "ready_io = quiet_io\<lparr>io_reg := (\<lambda>n a. if a = CVORG_STATUS then 0x301 else 0)\<rparr>"

definition two_waves :: seq_env where
  "two_waves = \<lparr>us_nr = 3, us_n_waves = 2, us_waves_null = False,
     us_check = (\<lambda>i. \<lparr>wv_recurr = 5, wv_size = 4, wv_dynamic_gain = (i = 1), wv_gain_val = 9, wv_form = 0\<rparr>),
     us_desc = (\<lambda>i. Some \<lparr>wv_recurr = 5, wv_size = 4, wv_dynamic_gain = (i = 1), wv_gain_val = 9, wv_form = 0\<rparr>),
     us_form = (\<lambda>i. Some (if i = 0 then [0x100, 0x203] else [0x305, 0xffff])), us_waves_mem = True, us_form_addr = (\<lambda>i. 1000 + i),
     us_junk = (\<lambda>i. \<lparr>wv_recurr = 0, wv_size = 0, wv_dynamic_gain = False, wv_gain_val = 0, wv_form = 0\<rparr>), us_writeback = (\<lambda>i. True)\<rparr>"

lemma ready_status:
  assumes "cvorg_wf c"
  shows "run_state (cvorg_channel_ready ready_io 0) c = (True, reads 1 c)" "run_state (cvorg_sram_busy ready_io 0) c = (False, reads 1 c)"
proof -
  have t: "(10 :: nat) = Suc 9" "io_reg ready_io n (base 0 + CVORG_STATUS) = 0x301" for n by (simp_all add: ready_io_def quiet_io_def base_def)
  show "run_state (cvorg_channel_ready ready_io 0) c = (True, reads 1 c)" "run_state (cvorg_sram_busy ready_io 0) c = (False, reads 1 c)"
    unfolding cvorg_sram_busy_def t(1) sram_busy_tries.simps using assms by (simp_all add: cvorg_channel_ready_def run_rchan_ro status_regs t(2))
qed

lemma two_waves_checked:
  assumes "cvorg_wf c" and "cc_outoff (cv_channels c ! 0) = CVORG_OUT_OFFSET_0V"
  shows "run_state (cvorg_invalid_seq ready_io 0 two_waves) c = (OK, reads (Suc (Suc 0)) c)"
proof -
  have n: "[0..<2] = [0, 1 :: nat]" by (simp add: upt_rec)
  have f: "io_reg ready_io n (base 0 + CVORG_SAMPFREQ) = 0" for n by (simp add: ready_io_def quiet_io_def base_def)
  show ?thesis
    using assms f by (simp add: cvorg_invalid_seq_def two_waves_def n cvorg_check_gain_offset_wv_def cvorg_invalid_gain_offset_def
        cvorg_invalid_freqlimit_def cvorg_must_check_freqlimit_def run_rchan_ro status_regs)
qed

definition no_heap :: heap where
  "no_heap = \<lparr>hp_blocks = (\<lambda>a. None), hp_bad_free = False\<rparr>"

lemma two_waves_copied:
  "fst (seq_init two_waves no_heap) = Inr \<lparr>sq_nr = 3, sq_n_waves = 2, sq_waves =
     [\<lparr>wv_recurr = 5, wv_size = 4, wv_dynamic_gain = False, wv_gain_val = 9, wv_form = 1000\<rparr>,
      \<lparr>wv_recurr = 5, wv_size = 4, wv_dynamic_gain = True, wv_gain_val = 9, wv_form = 1001\<rparr>]\<rparr>"
  by code_simp

lemma writeback_ok: "(\<And>i. us_writeback u i) \<Longrightarrow> snd (seq_user_writeback u i ws) = OK"
  by (induction u i ws rule: seq_user_writeback.induct) (auto simp: split_beta)

lemma two_waves_load: "fst (fst (run_state (cvorg_loadseq ready_io 0 two_waves no_heap) fresh_card)) = OK"
proof -
  obtain h1 where i: "seq_init two_waves no_heap = (Inr \<lparr>sq_nr = 3, sq_n_waves = 2, sq_waves =
     [\<lparr>wv_recurr = 5, wv_size = 4, wv_dynamic_gain = False, wv_gain_val = 9, wv_form = 1000\<rparr>,
      \<lparr>wv_recurr = 5, wv_size = 4, wv_dynamic_gain = True, wv_gain_val = 9, wv_form = 1001\<rparr>]\<rparr>, h1)" (is "_ = (Inr ?q, h1)")
    using two_waves_copied by (metis prod.collapse)
  have q: "seq_size ?q = 8" by (simp add: seq_size_def)
  have s: "fst (fst (run_state (loadseq ready_io 0 ?q h1) c)) = OK" if "cvorg_wf c" for c
  proof -
    have wf: "cvorg_wf (snd (run_state (cvorg_quiesce_channel ready_io 0) c))"
      using keepsD [OF own.keeps_quiesce, of 0 c "cv_channels c" "cv_owner c" ready_io] that by simp
    show ?thesis using q ready_status(2) [OF wf] by (simp add: loadseq_def cvorg_storeseq_def avail_sram_def split_beta)
  qed
  let ?c = "reads (Suc (Suc 0)) (reads 1 (command 0 CVORG_CTL_ERR_CLEAR fresh_card))"
  have c: "cvorg_wf fresh_card" "cc_outoff (cv_channels fresh_card ! 0) = CVORG_OUT_OFFSET_0V" "cvorg_wf ?c"
    using wf_fresh_card by (simp_all add: fresh_card_def zero_channel_def)
  have e: "run_state (cvorg_channel_clear_errors ready_io 0) fresh_card = ((), command 0 CVORG_CTL_ERR_CLEAR fresh_card)"
    using run_command [OF c(1), of 0] by (simp add: cvorg_channel_clear_errors_def base_def)
  have w: "snd (seq_user_writeback two_waves 0 ws) = OK" for ws by (rule writeback_ok) (simp add: two_waves_def)
  show ?thesis
    using c s [OF c(3)] w
    by (simp add: cvorg_loadseq_def e ready_status two_waves_checked i split_beta del: One_nat_def split: rc.splits)
qed

theorem loaded_sequence_is_played_witness:
  "\<exists>l h' d. run_state (cvorg_loadseq ready_io 0 two_waves no_heap) fresh_card = ((OK, l, h'), d)
     \<and> card_sequence d 0 = Some [([0x100, 0x204], 5, None), ([0x304, 0xfffc], 5, Some 5)] \<and> cd_regs d (base 0 + 0x58) = 3"
proof -
  obtain l h' d where r: "run_state (cvorg_loadseq ready_io 0 two_waves no_heap) fresh_card = ((OK, l, h'), d)"
    using two_waves_load by (metis prod.collapse)
  have n: "[0..<2] = [0, 1 :: nat]" "{..<2 :: nat} = {0, 1}" by (auto simp: upt_rec)
  have g: "cvorg_gain_to_hw (cvorg_gain_approx 9) = 5" by code_simp
  have u: "unat (us_n_waves two_waves) = 2" by (simp add: two_waves_def)
  show ?thesis
    using loaded_sequence_is_played [OF wf_fresh_card _ r, unfolded u n] r
    by (auto simp: two_waves_def inj_on_def less_2_cases_iff normalize_point_def wave_gain_def g)
qed

end
