(* ===== verification/Cdcm_Sem.thy ===== *)
theory Cdcm_Sem
  imports HT_Prelude
begin

text \<open>
  The counting semaphores with which CDCM (\<open>src/cdcm/cdcmTime.c\<close>, \<open>cdcmTime.h\<close>) gives a
  Linux kernel the LynxOS calls \<open>swait\<close>, \<open>tswait\<close>, \<open>ssignal\<close>, \<open>ssignaln\<close>, \<open>sreset\<close> and
  \<open>scount\<close>. A semaphore is its counter and the FIFO list of sleeping tasks. A task that
  has been taken off the list by a signal but has not run yet is recorded in \<open>sem_up\<close>
  (the \<open>up\<close> field of its waiter). A call that sleeps is two steps: the one that enqueues
  the waiter, and the one with which it returns (woken, timed out or interrupted).
\<close>

section \<open>The semaphore\<close>

record cdcm_sem =
  sem_count :: nat
  sem_wait :: "nat list"
  sem_up :: "nat list"

definition cdcm_sem_init :: "nat \<Rightarrow> cdcm_sem" where
  "cdcm_sem_init val = \<lparr>sem_count = val, sem_wait = [], sem_up = []\<rparr>"

definition cdcm_down_trylock :: "cdcm_sem \<Rightarrow> bool \<times> cdcm_sem" where
  "cdcm_down_trylock s =
    (if 0 < sem_count s then (False, s\<lparr>sem_count := sem_count s - 1\<rparr>) else (True, s))"

text \<open>\<open>cdcm_down_common\<close> enqueues the waiter; \<open>cdcm_down\<close> is the entry all four variants share.\<close>

definition cdcm_down_common :: "nat \<Rightarrow> cdcm_sem \<Rightarrow> cdcm_sem" where
  "cdcm_down_common task s = s\<lparr>sem_wait := sem_wait s @ [task]\<rparr>"

definition cdcm_down :: "nat \<Rightarrow> cdcm_sem \<Rightarrow> bool \<times> cdcm_sem" where
  "cdcm_down task s =
    (if 0 < sem_count s then (True, s\<lparr>sem_count := sem_count s - 1\<rparr>)
     else (False, cdcm_down_common task s))"

text \<open>
  The ways out of the sleep. The wait returns 0 when the \<open>up\<close> flag is set, and also when the sleeper is a kernel thread that is being stopped
  (\<open>stop\<close> is \<open>kthread_should_stop\<close>), which leaves its waiter on the list. It returns an error when it gives up.
\<close>

definition cdcm_down_woken :: "bool \<Rightarrow> nat \<Rightarrow> cdcm_sem \<Rightarrow> cdcm_sem option" where
  "cdcm_down_woken stop task s =
    (if task \<in> set (sem_up s) then Some (s\<lparr>sem_up := remove1 task (sem_up s)\<rparr>)
     else if stop \<and> task \<in> set (sem_wait s) then Some s
     else None)"

definition cdcm_down_give_up :: "nat \<Rightarrow> cdcm_sem \<Rightarrow> cdcm_sem option" where
  "cdcm_down_give_up task s =
    (if task \<in> set (sem_up s) then None
     else if task \<in> set (sem_wait s) then Some (s\<lparr>sem_wait := remove1 task (sem_wait s)\<rparr>)
     else None)"

definition cdcm_up_waiter :: "cdcm_sem \<Rightarrow> cdcm_sem" where
  "cdcm_up_waiter s =
    (case sem_wait s of [] \<Rightarrow> s | w # ws \<Rightarrow> s\<lparr>sem_wait := ws, sem_up := sem_up s @ [w]\<rparr>)"

definition cdcm_up :: "cdcm_sem \<Rightarrow> cdcm_sem" where
  "cdcm_up s = (if sem_wait s = [] then s\<lparr>sem_count := sem_count s + 1\<rparr> else cdcm_up_waiter s)"

definition ssignal :: "cdcm_sem \<Rightarrow> cdcm_sem" where
  "ssignal = cdcm_up"

primrec ssignaln :: "nat \<Rightarrow> cdcm_sem \<Rightarrow> cdcm_sem" where
  "ssignaln 0 s = s"
| "ssignaln (Suc n) s = ssignaln n (cdcm_up s)"

primrec up_waiters :: "nat \<Rightarrow> cdcm_sem \<Rightarrow> cdcm_sem" where
  "up_waiters 0 s = s"
| "up_waiters (Suc n) s = up_waiters n (cdcm_up_waiter s)"

definition sreset :: "cdcm_sem \<Rightarrow> cdcm_sem" where
  "sreset s =
    (if sem_count s = 0 then up_waiters (length (sem_wait s)) s else s\<lparr>sem_count := 0\<rparr>)"

definition scount :: "cdcm_sem \<Rightarrow> int" where
  "scount s = (if 0 < sem_count s then int (sem_count s) else - int (length (sem_wait s)))"

text \<open>
  \<open>tswait\<close> up to the point where it returns or sleeps: an interval of zero only tries, a
  negative one waits without limit, a positive one (in ticks of 10 ms) with a limit.
\<close>

datatype wait_result = WaitOk | WaitFailed | WaitSleeps

definition tswait :: "nat \<Rightarrow> int \<Rightarrow> cdcm_sem \<Rightarrow> wait_result \<times> cdcm_sem" where
  "tswait task interval s =
    (if interval = 0 then
       (case cdcm_down_trylock s of (failed, s') \<Rightarrow> (if failed then WaitFailed else WaitOk, s'))
     else (case cdcm_down task s of (taken, s') \<Rightarrow> (if taken then WaitOk else WaitSleeps, s')))"

section \<open>The table of semaphores\<close>

text \<open>
  \<open>get_sema\<close> finds the semaphore of a user's variable, keyed by its address, and makes one
  with the value of the variable at its first use; \<open>mem\<close> is the outcome of the allocation.
\<close>

fun get_sema :: "nat \<Rightarrow> nat \<Rightarrow> bool \<Rightarrow> (nat \<times> cdcm_sem) list \<Rightarrow> cdcm_sem option \<times> (nat \<times> cdcm_sem) list" where
  "get_sema user_sem val mem table =
    (case map_of table user_sem of
       Some s \<Rightarrow> (Some s, table)
     | None \<Rightarrow> if mem then (Some (cdcm_sem_init val), (user_sem, cdcm_sem_init val) # table)
               else (None, table))"

section \<open>Invariant and behaviour\<close>

text \<open>A task sleeps only on a semaphore whose counter is zero, and in one place only.\<close>

definition sem_ok :: "cdcm_sem \<Rightarrow> bool" where
  "sem_ok s \<longleftrightarrow> (0 < sem_count s \<longrightarrow> sem_wait s = []) \<and> distinct (sem_wait s @ sem_up s)"

named_theorems sem_defs \<open>definitions of the semaphore operations\<close>

lemmas [sem_defs] = cdcm_down_trylock_def cdcm_down_common_def cdcm_down_def cdcm_down_woken_def
  cdcm_down_give_up_def cdcm_up_waiter_def cdcm_up_def ssignal_def tswait_def

lemma sem_ok_init [simp]: "sem_ok (cdcm_sem_init n)"
  by (simp add: sem_ok_def cdcm_sem_init_def)

lemma sem_ok_up_waiter [simp]: "sem_ok s \<Longrightarrow> sem_ok (cdcm_up_waiter s)"
  by (auto simp: sem_ok_def cdcm_up_waiter_def split: list.splits)

lemma sem_ok_up [simp]: "sem_ok s \<Longrightarrow> sem_ok (cdcm_up s)"
  by (simp add: cdcm_up_def) (auto simp: sem_ok_def)

lemma sem_ok_tswait:
  assumes "sem_ok s" and "task \<notin> set (sem_wait s)" and "task \<notin> set (sem_up s)"
  shows "sem_ok (snd (tswait task interval s))"
  using assms by (auto simp: sem_defs sem_ok_def)

lemma sem_ok_woken: "sem_ok s \<Longrightarrow> cdcm_down_woken stop task s = Some t \<Longrightarrow> sem_ok t"
  by (auto simp: sem_defs sem_ok_def split: if_splits)

lemma woken_units:
  assumes "cdcm_down_woken stop task s = Some t"
  shows "sem_count t = sem_count s"
    and "length (sem_up s) = length (sem_up t) + (if task \<in> set (sem_up s) then 1 else 0)"
  using assms length_pos_if_in_set [of task "sem_up s"]
  by (auto simp: cdcm_down_woken_def length_remove1 split: if_splits)

lemma sem_ok_give_up: "sem_ok s \<Longrightarrow> cdcm_down_give_up task s = Some t \<Longrightarrow> sem_ok t"
  by (auto simp: sem_defs sem_ok_def split: if_splits)

lemma up_waiters_eq:
  "up_waiters n s = s\<lparr>sem_wait := drop n (sem_wait s), sem_up := sem_up s @ take n (sem_wait s)\<rparr>"
proof (induction n arbitrary: s)
  case (Suc n)
  show ?case by (cases "sem_wait s") (simp_all add: Suc cdcm_up_waiter_def)
qed simp

text \<open>\<open>ssignaln\<close> wakes the first sleepers in the order they came and keeps the rest of the count.\<close>

lemma ssignaln_eq:
  "ssignaln n s = s\<lparr>sem_count := sem_count s + (n - length (sem_wait s)),
     sem_wait := drop n (sem_wait s), sem_up := sem_up s @ take n (sem_wait s)\<rparr>"
proof (induction n arbitrary: s)
  case (Suc n)
  show ?case by (cases "sem_wait s") (simp_all add: Suc cdcm_up_def cdcm_up_waiter_def)
qed simp

lemma sreset_eq:
  "sem_ok s \<Longrightarrow> sreset s = s\<lparr>sem_count := 0, sem_wait := [], sem_up := sem_up s @ sem_wait s\<rparr>"
  by (auto simp: sreset_def up_waiters_eq sem_ok_def)

lemma sem_ok_sreset [simp]: "sem_ok s \<Longrightarrow> sem_ok (sreset s)"
  by (simp add: sreset_eq) (auto simp: sem_ok_def)

text \<open>\<open>scount\<close> is the units left minus the tasks asleep.\<close>

lemma scount_eq: "sem_ok s \<Longrightarrow> scount s = int (sem_count s) - int (length (sem_wait s))"
  by (auto simp: scount_def sem_ok_def)

text \<open>
  The semaphore as a machine shared by any number of tasks. The numbers count the signals given (the first units included), the waits that
  have returned success, and those of them that returned because their kernel thread was being stopped.
\<close>

record sem_run =
  run_sem :: cdcm_sem
  given :: nat
  taken :: nat
  stopped :: nat

inductive sem_step :: "sem_run \<Rightarrow> sem_run \<Rightarrow> bool" where
  sem_signal: "sem_step x (x\<lparr>run_sem := ssignal (run_sem x), given := Suc (given x)\<rparr>)"
| sem_wait_ok: "tswait task interval (run_sem x) = (WaitOk, t) \<Longrightarrow> sem_step x (x\<lparr>run_sem := t, taken := Suc (taken x)\<rparr>)"
| sem_wait_failed: "tswait task interval (run_sem x) = (WaitFailed, t) \<Longrightarrow> sem_step x (x\<lparr>run_sem := t\<rparr>)"
| sem_wait_sleeps: "tswait task interval (run_sem x) = (WaitSleeps, t) \<Longrightarrow> task \<notin> set (sem_wait (run_sem x)) \<Longrightarrow>
    task \<notin> set (sem_up (run_sem x)) \<Longrightarrow> sem_step x (x\<lparr>run_sem := t\<rparr>)"
| sem_wait_woken: "cdcm_down_woken stop task (run_sem x) = Some t \<Longrightarrow>
    sem_step x (x\<lparr>run_sem := t, taken := Suc (taken x), stopped := stopped x + (if task \<in> set (sem_up (run_sem x)) then 0 else 1)\<rparr>)"
| sem_wait_over: "cdcm_down_give_up task (run_sem x) = Some t \<Longrightarrow> sem_step x (x\<lparr>run_sem := t\<rparr>)"

definition sem_begin :: "nat \<Rightarrow> sem_run" where
  "sem_begin n = \<lparr>run_sem = cdcm_sem_init n, given = n, taken = 0, stopped = 0\<rparr>"

definition sem_start :: "sem_run \<Rightarrow> bool" where
  "sem_start x \<longleftrightarrow> x = sem_begin (given x)"

text \<open>No signal is lost and none is used twice, whatever the interleaving.\<close>

definition sem_inv :: "sem_run \<Rightarrow> bool" where
  "sem_inv x \<longleftrightarrow> sem_ok (run_sem x)
     \<and> given x + stopped x = taken x + sem_count (run_sem x) + length (sem_up (run_sem x))"

lemma sem_ok_tswait_taken:
  "sem_ok s \<Longrightarrow> tswait task interval s = (r, t) \<Longrightarrow> r \<noteq> WaitSleeps \<Longrightarrow> sem_ok t"
  by (auto simp: sem_defs sem_ok_def split: if_splits)

lemma tswait_units:
  "tswait task interval s = (r, t) \<Longrightarrow>
    sem_up t = sem_up s \<and> sem_count s = sem_count t + (if r = WaitOk then 1 else 0)"
  by (auto simp: sem_defs split: if_splits)

lemma sem_step_inv: "sem_step x y \<Longrightarrow> sem_inv x \<Longrightarrow> sem_inv y"
proof (induction rule: sem_step.induct)
  case (sem_signal x)
  then show ?case
    by (auto simp: sem_inv_def ssignal_def) (auto simp: cdcm_up_def cdcm_up_waiter_def split: list.splits)
next
  case (sem_wait_ok task interval x t)
  then show ?case
    using sem_ok_tswait_taken [OF _ sem_wait_ok(1)] tswait_units [OF sem_wait_ok(1)] by (simp add: sem_inv_def)
next
  case (sem_wait_failed task interval x t)
  then show ?case
    using sem_ok_tswait_taken [OF _ sem_wait_failed(1)] tswait_units [OF sem_wait_failed(1)] by (simp add: sem_inv_def)
next
  case (sem_wait_sleeps task interval x t)
  then show ?case
    using sem_ok_tswait [of "run_sem x" task interval] tswait_units [OF sem_wait_sleeps(1)] by (simp add: sem_inv_def)
next
  case (sem_wait_woken stop task x t)
  then show ?case
    using sem_ok_woken [OF _ sem_wait_woken(1)] woken_units [OF sem_wait_woken(1)] by (auto simp: sem_inv_def)
next
  case (sem_wait_over task x t)
  then show ?case
    using sem_ok_give_up by (auto simp: sem_inv_def) (auto simp: sem_defs split: if_splits)
qed

lemma sem_start_inv: "sem_start x \<Longrightarrow> sem_inv x"
  by (cases x) (auto simp: sem_start_def sem_begin_def sem_inv_def cdcm_sem_init_def sem_ok_def)

interpretation sem: invariant_system sem_start sem_step sem_inv
  by unfold_locales (fact sem_start_inv, fact sem_step_inv)


text \<open>
  A kernel thread (task 7) that is stopped while it sleeps returns success without a signal and leaves its waiter on the list, ahead of a second task; the next
  signal goes to that waiter, and the second task sleeps on.
\<close>

lemma stopped_thread_takes_signal:
  assumes "sem_wait s = [7]" and "sem_up s = []"
  shows "cdcm_down_woken True 7 s = Some s"
    and "sem_wait (ssignal (cdcm_down_common 8 s)) = [8]" and "cdcm_down_woken False 8 (ssignal (cdcm_down_common 8 s)) = None"
  using assms by (simp_all add: sem_defs)


end
