(* ===== verification/Inst_Desc.thy ===== *)
theory Inst_Desc
  imports HT_Prelude
begin

text \<open>
  The installation descriptors (\<open>src/include/config_data.h\<close>) and the kernel side of the
  installation library (\<open>src/utils/driver/libinstkernel.c\<close>): a driver gets from user space a
  tree of descriptors (host, drivers, modules, address spaces), clones it into kernel
  memory, looks modules and address spaces up in it and frees it at the end.

  A linked list of the source is a list; a nullable pointer is an option. The structures
  for VME, PCI and carrier address spaces, which the library treats anonymously through
  \<open>InsLibAnyAddressSpace\<close>, are one record, with the fields of the longest. Memory is
  the outcomes of the coming allocations and the number of live blocks.
\<close>

section \<open>Descriptors\<close>

datatype InsLibBusType = BusNOT_SET | BusCARRIER | BusVME | BusPMC | BusPCI

datatype InsLibEndian = EndianNOT_SET | EndianBIG | EndianLITTLE

record InsLibIntrDesc =
  ir_IsrFlag :: bool
  ir_Vector :: u32
  ir_Level :: u32

text \<open>\<open>as_Number\<close> is the space number, the base address register or the address modifier.\<close>

record InsLibAddressSpace =
  as_Mapped :: u32
  as_Number :: u32
  as_WindowSize :: u32
  as_DataWidth :: u32
  as_Endian :: InsLibEndian
  as_BaseAddress :: u32
  as_FreeModifierFlag :: bool

record InsLibModuleAddress =
  ma_Spaces :: "InsLibAddressSpace list"
  ma_BusNumber :: u32
  ma_SlotNumber :: u32
  ma_VendorId :: u32
  ma_DeviceId :: u32

record InsLibModlDesc =
  md_BusType :: InsLibBusType
  md_ModuleNumber :: u32
  md_IgnoreErrors :: bool
  md_Isr :: "InsLibIntrDesc option"
  md_ModuleAddress :: "InsLibModuleAddress option"
  md_Extra :: "string option"
  md_ModuleName :: string

record InsLibDrvrDesc =
  dd_Modules :: "InsLibModlDesc list"
  dd_DrvrName :: string
  dd_DebugFlags :: u32
  dd_EmulationFlags :: u32
  dd_ModuleCount :: u32

record InsLibHostDesc =
  hd_Drivers :: "InsLibDrvrDesc list"
  hd_HostName :: string

section \<open>Memory\<close>

record kmem =
  brk :: "bool list"
  live :: int

definition sysbrk :: "kmem \<Rightarrow> bool \<times> kmem" where
  "sysbrk k =
    (case brk k of
       [] \<Rightarrow> (True, k\<lparr>live := live k + 1\<rparr>)
     | b # bs \<Rightarrow> (b, k\<lparr>brk := bs, live := live k + of_bool b\<rparr>))"

definition sysfree :: "kmem \<Rightarrow> kmem" where
  "sysfree k = k\<lparr>live := live k - 1\<rparr>"

section \<open>Cloning\<close>

primrec InsLibCloneSpace :: "InsLibAddressSpace list \<Rightarrow> kmem \<Rightarrow> InsLibAddressSpace list \<times> kmem" where
  "InsLibCloneSpace [] k = ([], k)"
| "InsLibCloneSpace (a # as) k =
    (let (ok, k1) = sysbrk k in
     if \<not> ok then ([], k1)
     else let (rest, k2) = InsLibCloneSpace as k1 in (a # rest, k2))"

definition InsLibCloneCarSpace :: "InsLibAddressSpace list \<Rightarrow> kmem \<Rightarrow> InsLibAddressSpace list \<times> kmem" where
  "InsLibCloneCarSpace = InsLibCloneSpace"

definition InsLibCloneVmeSpace :: "InsLibAddressSpace list \<Rightarrow> kmem \<Rightarrow> InsLibAddressSpace list \<times> kmem" where
  "InsLibCloneVmeSpace = InsLibCloneSpace"

definition InsLibClonePciSpace :: "InsLibAddressSpace list \<Rightarrow> kmem \<Rightarrow> InsLibAddressSpace list \<times> kmem" where
  "InsLibClonePciSpace = InsLibCloneSpace"

definition clone_address ::
    "(InsLibAddressSpace list \<Rightarrow> kmem \<Rightarrow> InsLibAddressSpace list \<times> kmem) \<Rightarrow> InsLibModuleAddress option \<Rightarrow> kmem \<Rightarrow>
     InsLibModuleAddress option \<times> kmem" where
  "clone_address space a k =
    (case a of
       None \<Rightarrow> (None, k)
     | Some ma \<Rightarrow>
         let (ok, k1) = sysbrk k in
         if \<not> ok then (None, k1)
         else let (spaces, k2) = space (ma_Spaces ma) k1 in (Some (ma\<lparr>ma_Spaces := spaces\<rparr>), k2))"

definition InsLibCloneCar :: "InsLibModuleAddress option \<Rightarrow> kmem \<Rightarrow> InsLibModuleAddress option \<times> kmem" where
  "InsLibCloneCar = clone_address InsLibCloneCarSpace"

definition InsLibCloneVme :: "InsLibModuleAddress option \<Rightarrow> kmem \<Rightarrow> InsLibModuleAddress option \<times> kmem" where
  "InsLibCloneVme = clone_address InsLibCloneVmeSpace"

definition InsLibClonePci :: "InsLibModuleAddress option \<Rightarrow> kmem \<Rightarrow> InsLibModuleAddress option \<times> kmem" where
  "InsLibClonePci = clone_address InsLibClonePciSpace"

definition clone_module_address :: "InsLibModlDesc \<Rightarrow> kmem \<Rightarrow> InsLibModuleAddress option \<times> kmem" where
  "clone_module_address m k =
    (case md_BusType m of
       BusCARRIER \<Rightarrow> InsLibCloneCar (md_ModuleAddress m) k
     | BusVME \<Rightarrow> InsLibCloneVme (md_ModuleAddress m) k
     | BusPMC \<Rightarrow> InsLibClonePci (md_ModuleAddress m) k
     | BusPCI \<Rightarrow> InsLibClonePci (md_ModuleAddress m) k
     | BusNOT_SET \<Rightarrow> (md_ModuleAddress m, k))"

text \<open>The copy of a block that hangs off the module by a pointer: its string, its interrupt.\<close>

definition clone_block :: "'a option \<Rightarrow> kmem \<Rightarrow> 'a option \<times> kmem" where
  "clone_block b k =
    (case b of
       None \<Rightarrow> (None, k)
     | Some x \<Rightarrow> let (ok, k1) = sysbrk k in (if ok then Some x else None, k1))"

primrec InsLibCloneModule :: "InsLibModlDesc list \<Rightarrow> kmem \<Rightarrow> InsLibModlDesc list \<times> kmem" where
  "InsLibCloneModule [] k = ([], k)"
| "InsLibCloneModule (m # ms) k =
    (let (ok, k1) = sysbrk k in
     if \<not> ok then ([], k1)
     else
       let (addr, k2) = clone_module_address m k1;
           (extra, k3) = clone_block (md_Extra m) k2;
           (isr, k4) = clone_block (md_Isr m) k3;
           (rest, k5) = InsLibCloneModule ms k4
       in (m\<lparr>md_ModuleAddress := addr, md_Extra := extra, md_Isr := isr\<rparr> # rest, k5))"

primrec InsLibCloneDriver :: "InsLibDrvrDesc list \<Rightarrow> kmem \<Rightarrow> InsLibDrvrDesc list \<times> kmem" where
  "InsLibCloneDriver [] k = ([], k)"
| "InsLibCloneDriver (d # ds) k =
    (let (ok, k1) = sysbrk k in
     if \<not> ok then ([], k1)
     else let (ms, k2) = InsLibCloneModule (dd_Modules d) k1;
              (rest, k3) = InsLibCloneDriver ds k2
          in (d\<lparr>dd_Modules := ms\<rparr> # rest, k3))"

definition InsLibCloneOneDriver :: "InsLibDrvrDesc option \<Rightarrow> kmem \<Rightarrow> InsLibDrvrDesc option \<times> kmem" where
  "InsLibCloneOneDriver d k =
    (case d of
       None \<Rightarrow> (None, k)
     | Some drvrd \<Rightarrow>
         let (ok, k1) = sysbrk k in
         if \<not> ok then (None, k1)
         else let (ms, k2) = InsLibCloneModule (dd_Modules drvrd) k1
              in (Some (drvrd\<lparr>dd_Modules := ms\<rparr>), k2))"

definition InsLibCloneHost :: "InsLibHostDesc option \<Rightarrow> kmem \<Rightarrow> InsLibHostDesc option \<times> kmem" where
  "InsLibCloneHost h k =
    (case h of
       None \<Rightarrow> (None, k)
     | Some hostd \<Rightarrow>
         let (ok, k1) = sysbrk k in
         if \<not> ok then (None, k1)
         else let (ds, k2) = InsLibCloneDriver (hd_Drivers hostd) k1
              in (Some (hostd\<lparr>hd_Drivers := ds\<rparr>), k2))"

section \<open>Freeing\<close>

primrec InsLibFreeSpace :: "InsLibAddressSpace list \<Rightarrow> kmem \<Rightarrow> kmem" where
  "InsLibFreeSpace [] k = k"
| "InsLibFreeSpace (a # as) k = sysfree (InsLibFreeSpace as k)"

definition free_address :: "InsLibModuleAddress option \<Rightarrow> kmem \<Rightarrow> kmem" where
  "free_address a k =
    (case a of None \<Rightarrow> k | Some ma \<Rightarrow> sysfree (InsLibFreeSpace (ma_Spaces ma) k))"

definition InsLibFreeCar :: "InsLibModuleAddress option \<Rightarrow> kmem \<Rightarrow> kmem" where
  "InsLibFreeCar = free_address"

definition InsLibFreeVme :: "InsLibModuleAddress option \<Rightarrow> kmem \<Rightarrow> kmem" where
  "InsLibFreeVme = free_address"

definition InsLibFreePci :: "InsLibModuleAddress option \<Rightarrow> kmem \<Rightarrow> kmem" where
  "InsLibFreePci = free_address"

definition free_module_address :: "InsLibModlDesc \<Rightarrow> kmem \<Rightarrow> kmem" where
  "free_module_address m k =
    (case md_BusType m of
       BusCARRIER \<Rightarrow> InsLibFreeCar (md_ModuleAddress m) k
     | BusVME \<Rightarrow> InsLibFreeVme (md_ModuleAddress m) k
     | BusPMC \<Rightarrow> InsLibFreePci (md_ModuleAddress m) k
     | BusPCI \<Rightarrow> InsLibFreePci (md_ModuleAddress m) k
     | BusNOT_SET \<Rightarrow> k)"

definition free_block :: "'a option \<Rightarrow> kmem \<Rightarrow> kmem" where
  "free_block b k = (case b of None \<Rightarrow> k | Some x \<Rightarrow> sysfree k)"

primrec InsLibFreeModule :: "InsLibModlDesc list \<Rightarrow> kmem \<Rightarrow> kmem" where
  "InsLibFreeModule [] k = k"
| "InsLibFreeModule (m # ms) k =
    free_block (md_Isr m) (free_block (md_Extra m) (free_module_address m (InsLibFreeModule ms k)))"

primrec InsLibFreeDriver :: "InsLibDrvrDesc list \<Rightarrow> kmem \<Rightarrow> kmem" where
  "InsLibFreeDriver [] k = k"
| "InsLibFreeDriver (d # ds) k = sysfree (InsLibFreeModule (dd_Modules d) (InsLibFreeDriver ds k))"

definition InsLibFreeHost :: "InsLibHostDesc option \<Rightarrow> kmem \<Rightarrow> kmem" where
  "InsLibFreeHost h k =
    (case h of None \<Rightarrow> k | Some hostd \<Rightarrow> sysfree (InsLibFreeDriver (hd_Drivers hostd) k))"

section \<open>Lookup\<close>

text \<open>
  \<open>InsLibGetDriver\<close> keeps in \<open>seen\<close> where an enumeration (a call without a name) has got to;
  a pointer into the list of drivers is a suffix of it.
\<close>

definition InsLibGetDriver ::
    "InsLibHostDesc option \<Rightarrow> string option \<Rightarrow> InsLibDrvrDesc list \<Rightarrow> InsLibDrvrDesc list \<times> InsLibDrvrDesc list" where
  "InsLibGetDriver h dname seen =
    (case h of
       None \<Rightarrow> ([], seen)
     | Some hostd \<Rightarrow>
         (case dname of
            None \<Rightarrow> let l = (if seen \<noteq> [] then tl seen else hd_Drivers hostd) in (l, l)
          | Some n \<Rightarrow> (dropWhile (\<lambda>d. dd_DrvrName d \<noteq> n) (hd_Drivers hostd), seen)))"

definition InsLibGetModule :: "InsLibDrvrDesc option \<Rightarrow> u32 \<Rightarrow> InsLibModlDesc option" where
  "InsLibGetModule d n =
    (case d of None \<Rightarrow> None | Some drvrd \<Rightarrow> find (\<lambda>m. md_ModuleNumber m = n) (dd_Modules drvrd))"

definition get_addr_space :: "InsLibModlDesc \<Rightarrow> u32 \<Rightarrow> u32 \<Rightarrow> InsLibAddressSpace option" where
  "get_addr_space m space_number datawidth =
    (case md_ModuleAddress m of
       None \<Rightarrow> None
     | Some ma \<Rightarrow>
         find (\<lambda>a. as_Number a = space_number \<and> (datawidth = 0 \<or> as_DataWidth a = datawidth)) (ma_Spaces ma))"

definition InsLibGetAddressSpace :: "InsLibModlDesc \<Rightarrow> u32 \<Rightarrow> InsLibAddressSpace option" where
  "InsLibGetAddressSpace m n = get_addr_space m n 0"

definition InsLibGetAddressSpaceWidth :: "InsLibModlDesc \<Rightarrow> u32 \<Rightarrow> u32 \<Rightarrow> InsLibAddressSpace option" where
  "InsLibGetAddressSpaceWidth m n w = get_addr_space m n w"

section \<open>What a clone is\<close>

named_theorems inst_defs \<open>the operations on descriptors that differ only in the bus\<close>

lemmas [inst_defs] = InsLibCloneCarSpace_def InsLibCloneVmeSpace_def InsLibClonePciSpace_def
  InsLibCloneCar_def InsLibCloneVme_def InsLibClonePci_def InsLibFreeCar_def InsLibFreeVme_def
  InsLibFreePci_def clone_module_address_def free_module_address_def

lemma sysfree_simps [simp]: "live (sysfree k) = live k - 1" "brk (sysfree k) = brk k"
  by (simp_all add: sysfree_def)

lemma sysbrk_script [simp]: "brk k = [] \<Longrightarrow> sysbrk k = (True, k\<lparr>live := live k + 1\<rparr>)"
  by (simp add: sysbrk_def)

lemma sysbrk_live: "sysbrk k = (ok, k1) \<Longrightarrow> live k1 = live k + of_bool ok"
  by (auto simp: sysbrk_def split: list.splits)

text \<open>Blocks of a tree, the module descriptors counted apart.\<close>

definition address_blocks :: "InsLibModlDesc \<Rightarrow> int" where
  "address_blocks m =
    (if md_BusType m = BusNOT_SET then 0
     else case md_ModuleAddress m of None \<Rightarrow> 0 | Some ma \<Rightarrow> 1 + int (length (ma_Spaces ma)))"

definition module_blocks :: "InsLibModlDesc \<Rightarrow> int" where
  "module_blocks m = address_blocks m + of_bool (md_Extra m \<noteq> None) + of_bool (md_Isr m \<noteq> None)"

lemma live_FreeSpace [simp]: "live (InsLibFreeSpace as k) = live k - int (length as)"
  by (induction as) simp_all

lemma live_free_address: "live (free_module_address m k) = live k - address_blocks m"
  by (auto simp: inst_defs address_blocks_def free_address_def split: InsLibBusType.split option.split)

lemma live_free_block [simp]: "live (free_block b k) = live k - of_bool (b \<noteq> None)"
  by (simp add: free_block_def split: option.split)

lemma live_FreeModule: "live (InsLibFreeModule ms k) = live k - (\<Sum>m\<leftarrow>ms. module_blocks m)"
  by (induction ms) (simp_all add: live_free_address module_blocks_def)

lemma live_CloneSpace: "InsLibCloneSpace as k = (r, k1) \<Longrightarrow> live k1 = live k + int (length r)"
  by (induction as arbitrary: k r k1)
     (auto simp: Let_def split: prod.splits if_splits dest!: sysbrk_live)

lemma live_clone_block: "clone_block b k = (r, k1) \<Longrightarrow> live k1 = live k + of_bool (r \<noteq> None)"
  by (auto simp: clone_block_def split: option.splits prod.splits if_splits dest!: sysbrk_live)

lemma live_clone_address:
  assumes "clone_module_address m k = (a, k1)"
  shows "live k1 = live k + address_blocks (m\<lparr>md_ModuleAddress := a\<rparr>)"
proof (cases "md_BusType m = BusNOT_SET")
  case True
  then show ?thesis using assms by (simp add: inst_defs address_blocks_def)
next
  case False
  then have "clone_address InsLibCloneSpace (md_ModuleAddress m) k = (a, k1)"
    using assms by (simp add: inst_defs split: InsLibBusType.splits)
  then show ?thesis
    using False
    by (auto simp: clone_address_def address_blocks_def Let_def split: option.splits prod.splits if_splits
        dest!: sysbrk_live live_CloneSpace)
qed

lemma live_CloneModule:
  "InsLibCloneModule ms k = (r, k1) \<Longrightarrow>
    live k1 = live k + (\<Sum>m\<leftarrow>r. module_blocks m) + int (length r)"
proof (induction ms arbitrary: k r k1)
  case (Cons m ms)
  obtain ok a where 1: "sysbrk k = (ok, a)" by force
  show ?case
  proof (cases ok)
    case False
    then show ?thesis using Cons.prems 1 sysbrk_live [OF 1] by simp
  next
    case True
    obtain addr b where 2: "clone_module_address m a = (addr, b)" by force
    obtain extra c where 3: "clone_block (md_Extra m) b = (extra, c)" by force
    obtain isr d where 4: "clone_block (md_Isr m) c = (isr, d)" by force
    obtain rest e where 5: "InsLibCloneModule ms d = (rest, e)" by force
    show ?thesis
      using Cons.prems True 1 2 3 4 5 sysbrk_live [OF 1] live_clone_address [OF 2]
        live_clone_block [OF 3] live_clone_block [OF 4] Cons.IH [OF 5]
      by (auto simp: module_blocks_def address_blocks_def)
  qed
qed simp

text \<open>With memory to spare a clone is the descriptor it was made from.\<close>

lemma CloneSpace_enough [simp]:
  "brk k = [] \<Longrightarrow> InsLibCloneSpace as k = (as, k\<lparr>live := live k + int (length as)\<rparr>)"
  by (induction as arbitrary: k) (simp_all add: add_ac)

lemma clone_block_enough [simp]:
  "brk k = [] \<Longrightarrow> clone_block b k = (b, k\<lparr>live := live k + of_bool (b \<noteq> None)\<rparr>)"
  by (cases b) (simp_all add: clone_block_def)

lemma clone_address_enough:
  "brk k = [] \<Longrightarrow> clone_module_address m k = (md_ModuleAddress m, k\<lparr>live := live k + address_blocks m\<rparr>)"
  by (auto simp: inst_defs clone_address_def address_blocks_def Let_def add_ac
      split: InsLibBusType.split option.split)

lemma CloneModule_enough:
  "brk k = [] \<Longrightarrow>
    InsLibCloneModule ms k = (ms, k\<lparr>live := live k + (\<Sum>m\<leftarrow>ms. module_blocks m) + int (length ms)\<rparr>)"
  by (induction ms arbitrary: k) (simp_all add: clone_address_enough module_blocks_def add_ac)

text \<open>
  A clone of one driver, with enough memory, is the driver itself; whatever allocations
  failed on the way, freeing it leaves allocated exactly its module descriptors:
  \<open>InsLibFreeModule\<close> frees all that hangs off a descriptor, but not the descriptor.
\<close>

lemma clone_then_free:
  assumes "InsLibCloneOneDriver (Some d) k = (r, k1)"
  shows "(brk k = [] \<longrightarrow> r = Some d) \<and>
    (case r of
       None \<Rightarrow> live k1 = live k
     | Some e \<Rightarrow> live (InsLibFreeDriver [e] k1) = live k + int (length (dd_Modules e)))"
proof -
  obtain ok a where 1: "sysbrk k = (ok, a)" by force
  obtain ms b where 2: "InsLibCloneModule (dd_Modules d) a = (ms, b)" by force
  have "brk k = [] \<longrightarrow> r = Some d"
    using assms by (auto simp: InsLibCloneOneDriver_def CloneModule_enough)
  moreover have "case r of None \<Rightarrow> live k1 = live k
     | Some e \<Rightarrow> live (InsLibFreeDriver [e] k1) = live k + int (length (dd_Modules e))"
    using assms 1 2 sysbrk_live [OF 1] live_CloneModule [OF 2]
    by (auto simp: InsLibCloneOneDriver_def live_FreeModule split: if_splits)
  ultimately show ?thesis ..
qed

end
