(* ===== verification/Skel_Queue.thy ===== *)
theory Skel_Queue
  imports Cdcm_Sem
begin

text \<open>
  The event queue of a client of the skeleton driver (\<open>src/skel/driver/skeldrvr.c\<close>,
  \<open>skeldrvrP.h\<close>, \<open>src/include/skel.h\<close>): a circular buffer filled by the interrupt handler and
  emptied by \<open>read\<close>, with a semaphore that counts its entries and a counter of the events
  dropped. The interface a reader of the queue relies on is the locale \<open>event_queue\<close>: a
  FIFO of bounded capacity that drops its oldest entry when it is full.

  \<open>N\<close> is \<open>SkelDrvrQUEUE_SIZE\<close>, which each driver built on the skeleton sets in its
  \<open>skeluser.h\<close>. The spin locks make each operation atomic.
\<close>

section \<open>Data\<close>

record SkelDrvrConnection =
  cx_Module :: u32
  cx_ConMask :: u32

record SkelDrvrReadBuf =
  rb_Connection :: SkelDrvrConnection
  rb_Time :: "u32 \<times> u32"

record SkelDrvrQueue =
  q_QueueOff :: bool
  q_Missed :: u16
  q_Size :: int
  q_RdPntr :: nat
  q_WrPntr :: nat
  q_Entries :: "SkelDrvrReadBuf list"

record SkelDrvrClientContext =
  cc_Pid :: u32
  cc_Semaphore :: cdcm_sem
  cc_Timeout :: u32
  cc_Timer :: int
  cc_Queue :: SkelDrvrQueue
  cc_Debug :: u32
  cc_ModuleNumber :: u32
  cc_cdcmf :: nat

section \<open>Operations\<close>

definition q_put :: "nat \<Rightarrow> SkelDrvrReadBuf \<Rightarrow> SkelDrvrClientContext \<Rightarrow> SkelDrvrClientContext" where
  "q_put N rb ccon =
    (let q = cc_Queue ccon;
         q1 = q\<lparr>q_Entries := (q_Entries q)[q_WrPntr q := rb], q_WrPntr := (q_WrPntr q + 1) mod N\<rparr>
     in if q_Size q1 < int N then
          ccon\<lparr>cc_Queue := q1\<lparr>q_Size := q_Size q1 + 1\<rparr>, cc_Semaphore := ssignal (cc_Semaphore ccon)\<rparr>
        else
          ccon\<lparr>cc_Queue := q1\<lparr>q_Missed := q_Missed q1 + 1, q_RdPntr := (q_RdPntr q1 + 1) mod N\<rparr>\<rparr>)"

definition q_get :: "nat \<Rightarrow> SkelDrvrClientContext \<Rightarrow> SkelDrvrReadBuf \<times> SkelDrvrClientContext" where
  "q_get N ccon =
    (let q = cc_Queue ccon in
     (q_Entries q ! q_RdPntr q,
      ccon\<lparr>cc_Queue := q\<lparr>q_RdPntr := (q_RdPntr q + 1) mod N, q_Size := q_Size q - 1\<rparr>\<rparr>))"

definition reset_queue :: "SkelDrvrClientContext \<Rightarrow> SkelDrvrClientContext" where
  "reset_queue ccon =
    ccon\<lparr>cc_Queue := (cc_Queue ccon)\<lparr>q_Size := 0, q_RdPntr := 0, q_WrPntr := 0, q_Missed := 0\<rparr>,
         cc_Semaphore := sreset (cc_Semaphore ccon)\<rparr>"

definition client_timeout :: "SkelDrvrClientContext \<Rightarrow> SkelDrvrClientContext" where
  "client_timeout ccon =
    ccon\<lparr>cc_Timer := 0, cc_Queue := (cc_Queue ccon)\<lparr>q_Size := 0, q_Missed := 0\<rparr>\<rparr>"

definition get_queue_size :: "SkelDrvrQueue \<Rightarrow> int" where
  "get_queue_size q = q_Size q"

definition get_queue_overflow :: "SkelDrvrQueue \<Rightarrow> u16 \<times> SkelDrvrQueue" where
  "get_queue_overflow q = (q_Missed q, q\<lparr>q_Missed := 0\<rparr>)"

definition get_queue_flag :: "SkelDrvrQueue \<Rightarrow> bool" where
  "get_queue_flag q = q_QueueOff q"

definition set_queue_flag :: "u32 \<Rightarrow> SkelDrvrQueue \<Rightarrow> SkelDrvrQueue" where
  "set_queue_flag v q = q\<lparr>q_QueueOff := (v \<noteq> 0)\<rparr>"

text \<open>\<open>client_init\<close> from a zeroed context, up to the call of the user's bottom half.\<close>

definition zero_read_buf :: SkelDrvrReadBuf where
  "zero_read_buf = \<lparr>rb_Connection = \<lparr>cx_Module = 0, cx_ConMask = 0\<rparr>, rb_Time = (0, 0)\<rparr>"

definition client_init :: "nat \<Rightarrow> u32 \<Rightarrow> u32 \<Rightarrow> u32 option \<Rightarrow> nat \<Rightarrow> SkelDrvrClientContext" where
  "client_init N tmo pid module0 flp =
    reset_queue \<lparr>cc_Pid = pid, cc_Semaphore = cdcm_sem_init 0, cc_Timeout = tmo, cc_Timer = 0,
      cc_Queue = \<lparr>q_QueueOff = False, q_Missed = 0, q_Size = 0, q_RdPntr = 0, q_WrPntr = 0,
        q_Entries = replicate N zero_read_buf\<rparr>,
      cc_Debug = 0, cc_ModuleNumber = (case module0 of None \<Rightarrow> 0 | Some m \<Rightarrow> m), cc_cdcmf = flp\<rparr>"

section \<open>Bounded queues that drop the oldest entry\<close>

locale event_queue =
  fixes cap :: nat and contents :: "'q \<Rightarrow> 'a list" and missed :: "'q \<Rightarrow> 'w::len word"
    and put :: "'a \<Rightarrow> 'q \<Rightarrow> 'q" and get :: "'q \<Rightarrow> 'a \<times> 'q" and invar :: "'q \<Rightarrow> bool"
  assumes cap_pos: "invar q \<Longrightarrow> 0 < cap"
    and length_contents: "invar q \<Longrightarrow> length (contents q) \<le> cap"
    and contents_put: "invar q \<Longrightarrow>
      contents (put x q) = (if length (contents q) < cap then contents q else tl (contents q)) @ [x]"
    and missed_put: "invar q \<Longrightarrow>
      missed (put x q) = (if length (contents q) < cap then missed q else missed q + 1)"
    and contents_get: "invar q \<Longrightarrow> contents q \<noteq> [] \<Longrightarrow>
      fst (get q) = hd (contents q) \<and> contents (snd (get q)) = tl (contents q) \<and>
      missed (snd (get q)) = missed q"
    and invar_put: "invar q \<Longrightarrow> invar (put x q)"
    and invar_get: "invar q \<Longrightarrow> contents q \<noteq> [] \<Longrightarrow> invar (snd (get q))"
begin

lemma invar_puts: "invar q \<Longrightarrow> invar (fold put xs q)"
  by (induction xs arbitrary: q) (simp_all add: invar_put)

text \<open>After any number of events the queue holds the newest ones, in order.\<close>

lemma contents_puts:
  "invar q \<Longrightarrow> contents (fold put xs q) = drop (length (contents q @ xs) - cap) (contents q @ xs)"
proof (induction xs arbitrary: q)
  case Nil
  then show ?case using length_contents by simp
next
  case (Cons x xs)
  have "0 < cap" and le: "length (contents q) \<le> cap" using Cons.prems by (auto intro: cap_pos length_contents)
  have "contents (fold put (x # xs) q) =
    drop (length (contents (put x q) @ xs) - cap) (contents (put x q) @ xs)"
    using Cons by (simp add: invar_put)
  also have "\<dots> = drop (length (contents q @ x # xs) - cap) (contents q @ x # xs)"
  proof (cases "length (contents q) < cap")
    case True
    then show ?thesis using Cons.prems by (simp only: contents_put if_True append.assoc append_Cons append_Nil)
  next
    case False
    then obtain y ys where "contents q = y # ys" and "length (contents q) = cap"
      using le \<open>0 < cap\<close> by (cases "contents q") auto
    then have put: "contents (put x q) = ys @ [x]" and l: "length ys + 1 = cap" and q: "contents q = y # ys"
      using Cons.prems False by (simp_all add: contents_put)
    have "length ((ys @ [x]) @ xs) - cap = length xs" and "length ((y # ys) @ x # xs) - cap = Suc (length xs)"
      using l by simp_all
    then show ?thesis by (simp only: put q) simp
  qed
  finally show ?case .
qed

lemma missed_puts:
  "invar q \<Longrightarrow> missed (fold put xs q) = missed q + of_nat (length (contents q) + length xs - cap)"
proof (induction xs arbitrary: q)
  case Nil
  then show ?case using length_contents by simp
next
  case (Cons x xs)
  have "0 < cap" and le: "length (contents q) \<le> cap" using Cons.prems by (auto intro: cap_pos length_contents)
  then show ?case
    using Cons by (auto simp: invar_put contents_put missed_put Suc_diff_le not_less)
qed

primrec gets :: "nat \<Rightarrow> 'q \<Rightarrow> 'a list" where
  "gets 0 q = []"
| "gets (Suc n) q = fst (get q) # gets n (snd (get q))"

lemma gets_contents: "invar q \<Longrightarrow> n \<le> length (contents q) \<Longrightarrow> gets n q = take n (contents q)"
proof (induction n arbitrary: q)
  case (Suc n)
  then have ne: "contents q \<noteq> []" by auto
  then show ?case
    using Suc contents_get [OF Suc.prems(1) ne] invar_get [OF Suc.prems(1) ne]
    by (cases "contents q") auto
qed simp

end

section \<open>The circular buffer is such a queue\<close>

text \<open>
  The entries from the read pointer on, as many as \<open>Size\<close> says. The semaphore holds one
  unit per entry, those handed to a sleeping reader included.
\<close>

definition q_contents :: "nat \<Rightarrow> SkelDrvrClientContext \<Rightarrow> SkelDrvrReadBuf list" where
  "q_contents N ccon =
    (let q = cc_Queue ccon in map (\<lambda>k. q_Entries q ! ((q_RdPntr q + k) mod N)) [0..<nat (q_Size q)])"

definition q_bounds :: "nat \<Rightarrow> SkelDrvrQueue \<Rightarrow> bool" where
  "q_bounds N q \<longleftrightarrow> length (q_Entries q) = N \<and> q_RdPntr q < N \<and> q_WrPntr q < N"

definition q_ok :: "nat \<Rightarrow> SkelDrvrClientContext \<Rightarrow> bool" where
  "q_ok N ccon \<longleftrightarrow>
    (let q = cc_Queue ccon in
     q_bounds N q \<and> 0 \<le> q_Size q \<and> q_Size q \<le> int N \<and>
     q_WrPntr q = (q_RdPntr q + nat (q_Size q)) mod N)"

definition q_missed :: "SkelDrvrClientContext \<Rightarrow> u16" where
  "q_missed ccon = q_Missed (cc_Queue ccon)"

lemma q_bounds_pos: "q_bounds N q \<Longrightarrow> 0 < N"
  by (auto simp: q_bounds_def)

lemma q_bounds_put [simp]: "q_bounds N (cc_Queue c) \<Longrightarrow> q_bounds N (cc_Queue (q_put N rb c))"
  by (auto simp: q_bounds_def q_put_def Let_def)

lemma q_bounds_get [simp]: "q_bounds N (cc_Queue c) \<Longrightarrow> q_bounds N (cc_Queue (snd (q_get N c)))"
  by (auto simp: q_bounds_def q_get_def Let_def)

lemma q_bounds_reset [simp]: "q_bounds N (cc_Queue c) \<Longrightarrow> q_bounds N (cc_Queue (reset_queue c))"
  by (auto simp: q_bounds_def reset_queue_def)

lemma q_bounds_timeout [simp]: "q_bounds N (cc_Queue c) \<Longrightarrow> q_bounds N (cc_Queue (client_timeout c))"
  by (auto simp: q_bounds_def client_timeout_def)

lemma ring_index_inj:
  fixes a i j N :: nat
  assumes "(a + i) mod N = (a + j) mod N" and "i < N" and "j < N"
  shows "i = j"
proof -
  have "int N dvd int (a + i) - int (a + j)"
    using assms(1) by (simp only: mod_eq_dvd_iff [symmetric] of_nat_mod [symmetric])
  then have "int i mod int N = int j mod int N" by (simp add: mod_eq_dvd_iff)
  then show ?thesis using assms(2,3) by simp
qed

lemma q_ok_cases:
  assumes "q_ok N c"
  obtains n where "q_Size (cc_Queue c) = int n" and "n \<le> N" and "0 < N"
    and "length (q_Entries (cc_Queue c)) = N" and "q_RdPntr (cc_Queue c) < N"
    and "q_WrPntr (cc_Queue c) = (q_RdPntr (cc_Queue c) + n) mod N"
  using assms q_bounds_pos
  by (auto simp: q_ok_def q_bounds_def Let_def intro!: that [of "nat (q_Size (cc_Queue c))"])

lemma length_q_contents [simp]: "length (q_contents N c) = nat (q_Size (cc_Queue c))"
  by (simp add: q_contents_def Let_def)

lemma q_contents_put_room:
  assumes "q_ok N c" and "q_Size (cc_Queue c) < int N"
  shows "q_contents N (q_put N rb c) = q_contents N c @ [rb]"
proof -
  obtain n where n: "q_Size (cc_Queue c) = int n" "n < N" "length (q_Entries (cc_Queue c)) = N"
    "q_WrPntr (cc_Queue c) = (q_RdPntr (cc_Queue c) + n) mod N"
    using assms by (auto elim!: q_ok_cases)
  show ?thesis
  proof (rule nth_equalityI)
    show "length (q_contents N (q_put N rb c)) = length (q_contents N c @ [rb])"
      using n by (simp add: q_put_def Let_def nat_add_distrib)
  next
    fix k assume "k < length (q_contents N (q_put N rb c))"
    then have k: "k < Suc n" using n by (simp add: q_put_def Let_def nat_add_distrib)
    have "(q_RdPntr (cc_Queue c) + k) mod N = (q_RdPntr (cc_Queue c) + n) mod N \<longleftrightarrow> k = n"
      using ring_index_inj [of "q_RdPntr (cc_Queue c)" k N n] k n(2) by auto
    then show "q_contents N (q_put N rb c) ! k = (q_contents N c @ [rb]) ! k"
      using n k by (auto simp: q_contents_def q_put_def Let_def nth_append nat_add_distrib nth_list_update
          simp del: upt_Suc)
  qed
qed

lemma q_contents_put_full:
  assumes "q_ok N c" and "\<not> q_Size (cc_Queue c) < int N"
  shows "q_contents N (q_put N rb c) = tl (q_contents N c) @ [rb]"
proof -
  have "0 < N" "q_Size (cc_Queue c) = int N" "length (q_Entries (cc_Queue c)) = N"
    "q_RdPntr (cc_Queue c) < N" "q_WrPntr (cc_Queue c) = q_RdPntr (cc_Queue c)"
    using assms by (auto elim!: q_ok_cases)
  then obtain N' where N: "N = Suc N'" "q_Size (cc_Queue c) = int N" "length (q_Entries (cc_Queue c)) = N"
    "q_RdPntr (cc_Queue c) < N" "q_WrPntr (cc_Queue c) = q_RdPntr (cc_Queue c)"
    by (metis gr0_conv_Suc)
  let ?r = "q_RdPntr (cc_Queue c)"
  have ring: "((?r + 1) mod N + k) mod N = (?r + Suc k) mod N" for k
    by (simp add: mod_add_left_eq)
  have other: "(?r + Suc k) mod N \<noteq> ?r" if "k < N'" for k
    using ring_index_inj [of ?r "Suc k" N 0] that N(1,4) by auto
  have same: "(?r + Suc N') mod N = ?r"
    using N(4) unfolding N(1) [symmetric] by simp
  show ?thesis
  proof (rule nth_equalityI)
    show "length (q_contents N (q_put N rb c)) = length (tl (q_contents N c) @ [rb])"
      using N by (simp add: q_put_def Let_def)
  next
    fix k assume "k < length (q_contents N (q_put N rb c))"
    then have k: "k \<le> N'" using N by (simp add: q_put_def Let_def)
    show "q_contents N (q_put N rb c) ! k = (tl (q_contents N c) @ [rb]) ! k"
    proof (cases "k = N'")
      case True
      then show ?thesis using N same ring [of k]
        by (simp add: q_contents_def q_put_def Let_def nth_append nat_add_distrib del: upt_Suc)
    next
      case False
      then have "k < N'" using k by simp
      then show ?thesis using N other [of k] ring [of k]
        by (simp add: q_contents_def q_put_def Let_def nth_append nat_add_distrib nth_tl del: upt_Suc)
    qed
  qed
qed

lemma q_ok_put [simp]: "q_ok N c \<Longrightarrow> q_ok N (q_put N rb c)"
  by (elim q_ok_cases) (auto simp: q_ok_def q_bounds_def q_put_def Let_def nat_add_distrib mod_simps)

lemma q_ok_get:
  assumes "q_ok N c" and "q_contents N c \<noteq> []"
  shows "q_ok N (snd (q_get N c))"
proof -
  obtain n where n: "q_Size (cc_Queue c) = int (Suc n)" "0 < N" "Suc n \<le> N" "q_RdPntr (cc_Queue c) < N"
    "length (q_Entries (cc_Queue c)) = N" "q_WrPntr (cc_Queue c) = (q_RdPntr (cc_Queue c) + Suc n) mod N"
    using assms by (elim q_ok_cases) (auto simp: q_contents_def Let_def gr0_conv_Suc)
  have "((q_RdPntr (cc_Queue c) + 1) mod N + n) mod N = (q_RdPntr (cc_Queue c) + Suc n) mod N"
    by (simp add: mod_add_left_eq)
  then show ?thesis using n by (simp add: q_ok_def q_bounds_def q_get_def Let_def)
qed

lemma q_get_contents:
  assumes "q_ok N c" and "q_contents N c \<noteq> []"
  shows "fst (q_get N c) = hd (q_contents N c) \<and> q_contents N (snd (q_get N c)) = tl (q_contents N c)"
proof -
  obtain n where n: "q_Size (cc_Queue c) = int (Suc n)" "0 < N" "q_RdPntr (cc_Queue c) < N"
    using assms by (elim q_ok_cases) (auto simp: q_contents_def Let_def gr0_conv_Suc)
  have ring: "((q_RdPntr (cc_Queue c) + 1) mod N + k) mod N = (q_RdPntr (cc_Queue c) + Suc k) mod N" for k
    by (simp add: mod_add_left_eq)
  have "q_contents N c = q_Entries (cc_Queue c) ! q_RdPntr (cc_Queue c) #
      map (\<lambda>k. q_Entries (cc_Queue c) ! ((q_RdPntr (cc_Queue c) + Suc k) mod N)) [0..<n]"
    using n by (simp add: q_contents_def Let_def map_upt_Suc del: upt_Suc of_nat_Suc)
  moreover have "q_contents N (snd (q_get N c)) =
      map (\<lambda>k. q_Entries (cc_Queue c) ! ((q_RdPntr (cc_Queue c) + Suc k) mod N)) [0..<n]"
    using n ring by (simp add: q_contents_def q_get_def Let_def)
  ultimately show ?thesis by (simp add: q_get_def Let_def)
qed

interpretation skq: event_queue N "q_contents N" q_missed "q_put N" "q_get N" "q_ok N" for N
proof unfold_locales
  fix c rb assume ok: "q_ok N c"
  show "0 < N" using ok by (elim q_ok_cases)
  show "length (q_contents N c) \<le> N" using ok by (elim q_ok_cases) simp
  show "q_contents N (q_put N rb c) =
      (if length (q_contents N c) < N then q_contents N c else tl (q_contents N c)) @ [rb]"
    using ok q_contents_put_room [OF ok] q_contents_put_full [OF ok] by (elim q_ok_cases) auto
  show "q_missed (q_put N rb c) = (if length (q_contents N c) < N then q_missed c else q_missed c + 1)"
    using ok by (elim q_ok_cases) (auto simp: q_missed_def q_put_def Let_def)
  show "q_ok N (q_put N rb c)" using ok by simp
  assume ne: "q_contents N c \<noteq> []"
  show "fst (q_get N c) = hd (q_contents N c) \<and> q_contents N (snd (q_get N c)) = tl (q_contents N c) \<and>
      q_missed (snd (q_get N c)) = q_missed c"
    using q_get_contents [OF ok ne] by (simp add: q_missed_def q_get_def Let_def)
  show "q_ok N (snd (q_get N c))" using ok ne by (rule q_ok_get)
qed

lemma q_ok_reset: "q_bounds N (cc_Queue c) \<Longrightarrow> q_ok N (reset_queue c) \<and> q_contents N (reset_queue c) = []"
  by (auto simp: q_ok_def q_bounds_def reset_queue_def q_contents_def Let_def)

lemma q_ok_init: "0 < N \<Longrightarrow> q_ok N (client_init N tmo pid m0 flp)"
  unfolding client_init_def by (rule q_ok_reset [THEN conjunct1]) (simp add: q_bounds_def)

end
