(* ===== verification/Skel_Module.thy ===== *)
theory Skel_Module
  imports Skel_Queue Inst_Desc
begin

text \<open>
  The modules of the skeleton driver: the module context of \<open>skeldrvrP.h\<close>, and the code
  that maps a module's address spaces and registers its interrupt handler on VME
  (\<open>skelvme.h\<close>), PCI (\<open>skelpci.h\<close>) and carrier boards (\<open>skelcar.h\<close>).

  Three things are arguments of the model. \<open>skel_consts\<close> holds the constants a driver
  sets in its \<open>skeluser.h\<close> and the buses its build configures. \<open>bus_ops\<close> holds the bus
  services the framework calls (the CES calls of the VME bridge driver, the DRM calls of the PCI layer,
  the I/O accessors), functions on a bus state \<open>'b\<close>. \<open>skel_user\<close> holds the bottom half a
  driver supplies (the \<open>SkelUser\<close> routines), functions on a state \<open>'u\<close> that stands for the
  user data of the driver, of its modules and of its clients and for the hardware.
\<close>

section \<open>Parameters\<close>

record skel_consts =
  k_MODULE_CONTEXTS :: nat
  k_CLIENT_CONTEXTS :: nat
  k_INTERRUPTS :: nat
  k_QUEUE_SIZE :: nat
  k_CONNECTIONS :: nat
  k_CLIENT_TIMEOUT :: u32
  k_MODULE_TIMEOUT :: u32
  k_BUS_VME :: bool
  k_BUS_PCI :: bool
  k_BUS_CAR :: bool

text \<open>Calls that return a status give True when they failed.\<close>

record 'b bus_ops =
  find_controller :: "u32 \<Rightarrow> u32 \<Rightarrow> u32 \<Rightarrow> u32 \<Rightarrow> 'b \<Rightarrow> u32 \<times> 'b"
  return_controller :: "u32 \<Rightarrow> u32 \<Rightarrow> 'b \<Rightarrow> bool \<times> 'b"
  vme_intset :: "u32 \<Rightarrow> nat \<Rightarrow> 'b \<Rightarrow> bool \<times> 'b"
  vme_intclr :: "u32 \<Rightarrow> 'b \<Rightarrow> bool \<times> 'b"
  drm_get_handle :: "u32 \<Rightarrow> u32 \<Rightarrow> 'b \<Rightarrow> nat option \<times> 'b"
  drm_bus_slot :: "nat \<Rightarrow> 'b \<Rightarrow> u32 \<times> u32"
  drm_free_handle :: "nat \<Rightarrow> 'b \<Rightarrow> 'b"
  drm_map_resource :: "nat \<Rightarrow> u32 \<Rightarrow> 'b \<Rightarrow> u32 option \<times> 'b"
  drm_unmap_resource :: "nat \<Rightarrow> u32 \<Rightarrow> 'b \<Rightarrow> 'b"
  drm_register_isr :: "nat \<Rightarrow> nat \<Rightarrow> 'b \<Rightarrow> bool \<times> 'b"
  drm_unregister_isr :: "nat \<Rightarrow> 'b \<Rightarrow> 'b"
  io_read :: "nat \<Rightarrow> bool \<Rightarrow> u32 \<Rightarrow> 'b \<Rightarrow> u32 \<times> 'b"
  io_write :: "nat \<Rightarrow> bool \<Rightarrow> u32 \<Rightarrow> u32 \<Rightarrow> 'b \<Rightarrow> 'b"

datatype SkelUserReturn = UserOK | UserFAILED | UserNOT_IMPLEMENTED

record 'u skel_user =
  u_GetModuleVersion :: "nat \<Rightarrow> 'u \<Rightarrow> string \<times> 'u"
  u_GetHardwareStatus :: "nat \<Rightarrow> 'u \<Rightarrow> u32 \<times> 'u"
  u_GetUtc :: "nat \<Rightarrow> 'u \<Rightarrow> (u32 \<times> u32) \<times> 'u"
  u_HardwareReset :: "nat \<Rightarrow> 'u \<Rightarrow> 'u"
  u_GetInterruptSource :: "nat \<Rightarrow> 'u \<Rightarrow> (u32 \<times> u32) \<times> u32 \<times> 'u"
  u_EnableInterrupts :: "nat \<Rightarrow> u32 \<Rightarrow> 'u \<Rightarrow> 'u"
  u_HardwareEnable :: "nat \<Rightarrow> u32 \<Rightarrow> 'u \<Rightarrow> SkelUserReturn \<times> 'u"
  u_JtagReadByte :: "nat \<Rightarrow> 'u \<Rightarrow> SkelUserReturn \<times> u32 \<times> 'u"
  u_JtagWriteByte :: "nat \<Rightarrow> u32 \<Rightarrow> 'u \<Rightarrow> SkelUserReturn \<times> 'u"
  u_Ioctls :: "nat \<Rightarrow> nat \<Rightarrow> nat \<Rightarrow> u8 list \<Rightarrow> 'u \<Rightarrow> SkelUserReturn \<times> 'u"
  u_ModuleInit :: "nat \<Rightarrow> InsLibModlDesc \<Rightarrow> 'u \<Rightarrow> SkelUserReturn \<times> 'u"
  u_ModuleRelease :: "nat \<Rightarrow> 'u \<Rightarrow> 'u"
  u_ClientInit :: "nat \<Rightarrow> 'u \<Rightarrow> SkelUserReturn \<times> 'u"
  u_ClientRelease :: "nat \<Rightarrow> 'u \<Rightarrow> 'u"

section \<open>Module contexts\<close>

text \<open>
  A client is known by the address of its context; \<open>mc_clients\<close> is the list of connected
  clients of each interrupt. The descriptor of the module is kept in its context.
\<close>

record SkelDrvrModuleContext =
  mc_PciHandle :: "nat option"
  mc_ModuleNumber :: u32
  mc_InUse :: bool
  mc_Modld :: InsLibModlDesc
  mc_Semaphore :: cdcm_sem
  mc_Timeout :: u32
  mc_clients :: "nat list list"
  mc_enabled_ints :: u32
  mc_Debug :: u32
  mc_StandardStatus :: u32
  mc_FlashOpen :: u32

definition STATUS_NO_ISR :: u32 where "STATUS_NO_ISR = 0x001"
definition STATUS_DISABLED :: u32 where "STATUS_DISABLED = 0x004"
definition STATUS_BUS_FAULT :: u32 where "STATUS_BUS_FAULT = 0x020"
definition STATUS_FLASH_OPEN :: u32 where "STATUS_FLASH_OPEN = 0x040"
definition STATUS_EMULATION :: u32 where "STATUS_EMULATION = 0x080"
definition STATUS_NO_HARDWARE :: u32 where "STATUS_NO_HARDWARE = 0x100"
definition DEBUG_EMULATION :: u32 where "DEBUG_EMULATION = 0x100"

definition has_status :: "u32 \<Rightarrow> SkelDrvrModuleContext \<Rightarrow> bool" where
  "has_status flag m \<longleftrightarrow> mc_StandardStatus m AND flag \<noteq> 0"

definition update_mcon_status :: "u32 \<Rightarrow> SkelDrvrModuleContext \<Rightarrow> SkelDrvrModuleContext" where
  "update_mcon_status flag m = m\<lparr>mc_StandardStatus := mc_StandardStatus m OR flag\<rparr>"

definition clear_mcon_status :: "u32 \<Rightarrow> SkelDrvrModuleContext \<Rightarrow> SkelDrvrModuleContext" where
  "clear_mcon_status flag m = m\<lparr>mc_StandardStatus := mc_StandardStatus m AND NOT flag\<rparr>"

text \<open>The address spaces of the descriptor, and the descriptor with other ones.\<close>

definition spaces :: "SkelDrvrModuleContext \<Rightarrow> InsLibAddressSpace list" where
  "spaces m = (case md_ModuleAddress (mc_Modld m) of None \<Rightarrow> [] | Some ma \<Rightarrow> ma_Spaces ma)"

definition set_spaces :: "InsLibAddressSpace list \<Rightarrow> SkelDrvrModuleContext \<Rightarrow> SkelDrvrModuleContext" where
  "set_spaces as m =
    m\<lparr>mc_Modld := (mc_Modld m)\<lparr>md_ModuleAddress :=
      map_option (\<lambda>ma. ma\<lparr>ma_Spaces := as\<rparr>) (md_ModuleAddress (mc_Modld m))\<rparr>\<rparr>"

section \<open>VME modules\<close>

definition region_is_a_block :: "InsLibAddressSpace \<Rightarrow> bool" where
  "region_is_a_block vas \<longleftrightarrow>
    as_Number vas \<in> {0x00, 0x03, 0x08, 0x0b, 0x0c, 0x0f, 0x37, 0x38, 0x3b, 0x3c, 0x3f}"

definition do_vme_mapping :: "'b bus_ops \<Rightarrow> InsLibAddressSpace \<Rightarrow> 'b \<Rightarrow> u32 \<times> 'b" where
  "do_vme_mapping ops v b =
    find_controller ops (as_BaseAddress v) (as_WindowSize v) (as_Number v) (as_DataWidth v div 8) b"

definition map_vmeas ::
    "'b bus_ops \<Rightarrow> SkelDrvrModuleContext \<Rightarrow> InsLibAddressSpace \<Rightarrow> 'b \<Rightarrow>
     bool \<times> SkelDrvrModuleContext \<times> InsLibAddressSpace \<times> 'b" where
  "map_vmeas ops m vas0 b =
    (let vas = vas0\<lparr>as_Endian := EndianBIG\<rparr> in
     if has_status STATUS_EMULATION m then
       (True, update_mcon_status STATUS_NO_HARDWARE m, vas\<lparr>as_Mapped := 0\<rparr>, b)
     else if region_is_a_block vas then (True, m, vas, b)
     else
       let (addr, b1) = do_vme_mapping ops vas b in
       if addr = -1 then (False, m, vas\<lparr>as_Mapped := 0\<rparr>, b1)
       else (True, m, vas\<lparr>as_Mapped := addr\<rparr>, b1))"

primrec unmap_vme_spaces :: "'b bus_ops \<Rightarrow> bool \<Rightarrow> InsLibAddressSpace list \<Rightarrow> 'b \<Rightarrow> InsLibAddressSpace list \<times> 'b" where
  "unmap_vme_spaces ops force [] b = ([], b)"
| "unmap_vme_spaces ops force (vas # rest) b =
    (let (vas1, b1) =
       (if as_Mapped vas \<noteq> 0 \<and> (force \<or> as_FreeModifierFlag vas) then
          (case return_controller ops (as_Mapped vas) (as_WindowSize vas) b of
             (failed, b') \<Rightarrow> (if failed then vas else vas\<lparr>as_Mapped := 0\<rparr>, b'))
        else (vas, b));
       (rest1, b2) = unmap_vme_spaces ops force rest b1
     in (vas1 # rest1, b2))"

definition unmap_vmeas :: "'b bus_ops \<Rightarrow> bool \<Rightarrow> SkelDrvrModuleContext \<Rightarrow> 'b \<Rightarrow> SkelDrvrModuleContext \<times> 'b" where
  "unmap_vmeas ops force m b =
    (let (as, b1) = unmap_vme_spaces ops force (spaces m) b in (set_spaces as m, b1))"

text \<open>
  The status bit \<open>NO_ISR\<close> is clear only after a handler was registered, for which the
  descriptor of the interrupt exists; the last branch is not taken.
\<close>

definition RemoveVmeModule :: "'b bus_ops \<Rightarrow> SkelDrvrModuleContext \<Rightarrow> 'b \<Rightarrow> SkelDrvrModuleContext \<times> 'b" where
  "RemoveVmeModule ops m b =
    (let (m1, b1) =
       (if has_status STATUS_NO_ISR m then (m, b)
        else case md_Isr (mc_Modld m) of
            Some intrd \<Rightarrow>
              (case vme_intclr ops (ir_Vector intrd) b of
                 (failed, b') \<Rightarrow> (if failed then m else update_mcon_status STATUS_NO_ISR m, b'))
          | None \<Rightarrow> (m, b))
     in unmap_vmeas ops True m1 b1)"

text \<open>The loop over the address spaces; the flag says that the installation goes on.\<close>

primrec map_vme_spaces ::
    "'b bus_ops \<Rightarrow> SkelDrvrModuleContext \<Rightarrow> InsLibAddressSpace list \<Rightarrow> 'b \<Rightarrow>
     bool \<times> SkelDrvrModuleContext \<times> InsLibAddressSpace list \<times> 'b" where
  "map_vme_spaces ops m [] b = (True, m, [], b)"
| "map_vme_spaces ops m (vas # rest) b =
    (let (cc, m1, vas1, b1) = map_vmeas ops m vas b in
     if \<not> cc \<and> \<not> md_IgnoreErrors (mc_Modld m) then (False, m1, vas1 # rest, b1)
     else let (ok, m2, rest1, b2) = map_vme_spaces ops m1 rest b1 in (ok, m2, vas1 # rest1, b2))"

definition AddVmeModule ::
    "'b bus_ops \<Rightarrow> nat \<Rightarrow> SkelDrvrModuleContext \<Rightarrow> 'b \<Rightarrow> bool \<times> SkelDrvrModuleContext \<times> 'b" where
  "AddVmeModule ops i m b =
    (let (ok, m1, as, b1) = map_vme_spaces ops m (spaces m) b;
         m2 = set_spaces as m1
     in if \<not> ok then (case RemoveVmeModule ops m2 b1 of (m3, b2) \<Rightarrow> (False, m3, b2))
        else case md_Isr (mc_Modld m2) of
            None \<Rightarrow> (True, m2, b1)
          | Some intrd \<Rightarrow>
              if \<not> ir_IsrFlag intrd then (True, m2, b1)
              else case vme_intset ops (ir_Vector intrd) i b1 of
                  (failed, b2) \<Rightarrow>
                    if failed then
                      if \<not> md_IgnoreErrors (mc_Modld m2)
                      then (case RemoveVmeModule ops m2 b2 of (m3, b3) \<Rightarrow> (False, m3, b3))
                      else (True, m2, b2)
                    else (True, clear_mcon_status STATUS_NO_ISR m2, b2))"

definition vme_space :: "SkelDrvrModuleContext \<Rightarrow> u32 \<Rightarrow> u32 \<Rightarrow> InsLibAddressSpace option" where
  "vme_space m am dw = find (\<lambda>vas. as_Number vas = am \<and> as_DataWidth vas = dw) (spaces m)"

definition get_vmemap_addr :: "SkelDrvrModuleContext \<Rightarrow> u32 \<Rightarrow> u32 \<Rightarrow> u32" where
  "get_vmemap_addr m am dw = (case vme_space m am dw of None \<Rightarrow> 0 | Some vas \<Rightarrow> as_Mapped vas)"

definition get_vme_addr :: "SkelDrvrModuleContext \<Rightarrow> u32 \<Rightarrow> u32 \<Rightarrow> u32 option" where
  "get_vme_addr m am dw = map_option as_BaseAddress (vme_space m am dw)"

section \<open>PCI modules\<close>

primrec unmap_pci_spaces :: "'b bus_ops \<Rightarrow> nat \<Rightarrow> InsLibAddressSpace list \<Rightarrow> 'b \<Rightarrow> InsLibAddressSpace list \<times> 'b" where
  "unmap_pci_spaces ops h [] b = ([], b)"
| "unmap_pci_spaces ops h (pas # rest) b =
    (let (pas1, b1) = (if as_Mapped pas \<noteq> 0
                       then (pas\<lparr>as_Mapped := 0\<rparr>, drm_unmap_resource ops h (as_Number pas) b) else (pas, b));
         (rest1, b2) = unmap_pci_spaces ops h rest b1
     in (pas1 # rest1, b2))"

definition unmap_pcias :: "'b bus_ops \<Rightarrow> nat \<Rightarrow> SkelDrvrModuleContext \<Rightarrow> 'b \<Rightarrow> SkelDrvrModuleContext \<times> 'b" where
  "unmap_pcias ops h m b = (let (as, b1) = unmap_pci_spaces ops h (spaces m) b in (set_spaces as m, b1))"

text \<open>A module that reaches this code has its handle: \<open>AddPciModule\<close> gives up without one.\<close>

definition RemovePciModule :: "'b bus_ops \<Rightarrow> SkelDrvrModuleContext \<Rightarrow> 'b \<Rightarrow> SkelDrvrModuleContext \<times> 'b" where
  "RemovePciModule ops m b =
    (case mc_PciHandle m of
       None \<Rightarrow> (m, b)
     | Some h \<Rightarrow>
         let (m1, b1) = (if has_status STATUS_NO_ISR m then (m, b)
                         else (update_mcon_status STATUS_NO_ISR m, drm_unregister_isr ops h b))
         in unmap_pcias ops h m1 b1)"

definition map_pcias ::
    "'b bus_ops \<Rightarrow> nat \<Rightarrow> SkelDrvrModuleContext \<Rightarrow> InsLibAddressSpace \<Rightarrow> 'b \<Rightarrow>
     bool \<times> SkelDrvrModuleContext \<times> InsLibAddressSpace \<times> 'b" where
  "map_pcias ops h m pas b =
    (if has_status STATUS_EMULATION m then
       (True, update_mcon_status STATUS_NO_HARDWARE m, pas\<lparr>as_Mapped := 0\<rparr>, b)
     else case drm_map_resource ops h (as_Number pas) b of
         (None, b1) \<Rightarrow> (md_IgnoreErrors (mc_Modld m), m, pas\<lparr>as_Mapped := 0\<rparr>, b1)
       | (Some addr, b1) \<Rightarrow> (True, m, pas\<lparr>as_Mapped := addr\<rparr>, b1))"

primrec map_pci_spaces ::
    "'b bus_ops \<Rightarrow> nat \<Rightarrow> SkelDrvrModuleContext \<Rightarrow> InsLibAddressSpace list \<Rightarrow> 'b \<Rightarrow>
     bool \<times> SkelDrvrModuleContext \<times> InsLibAddressSpace list \<times> 'b" where
  "map_pci_spaces ops h m [] b = (True, m, [], b)"
| "map_pci_spaces ops h m (pas # rest) b =
    (let (cc, m1, pas1, b1) = map_pcias ops h m pas b in
     if \<not> cc \<and> \<not> md_IgnoreErrors (mc_Modld m) then (False, m1, pas1 # rest, b1)
     else let (ok, m2, rest1, b2) = map_pci_spaces ops h m1 rest b1 in (ok, m2, pas1 # rest1, b2))"

text \<open>
  The hunt for the board at the given bus and slot. The handles of the other boards are
  kept in an array of \<open>SkelDrvrMODULE_CONTEXTS\<close> elements that the source does not check;
  the search over more boards than that is None.
\<close>

fun hunt_loop ::
    "'b bus_ops \<Rightarrow> InsLibModuleAddress \<Rightarrow> nat \<Rightarrow> nat list \<Rightarrow> 'b \<Rightarrow> (nat option \<times> nat list \<times> 'b) option" where
  "hunt_loop ops pma 0 seen b = None"
| "hunt_loop ops pma (Suc room) seen b =
    (case drm_get_handle ops (ma_VendorId pma) (ma_DeviceId pma) b of
       (None, b1) \<Rightarrow> Some (None, seen, b1)
     | (Some h, b1) \<Rightarrow>
         if drm_bus_slot ops h b1 = (ma_BusNumber pma, ma_SlotNumber pma) then Some (Some h, seen, b1)
         else hunt_loop ops pma room (seen @ [h]) b1)"

definition pci_module_hunt :: "nat \<Rightarrow> 'b bus_ops \<Rightarrow> SkelDrvrModuleContext \<Rightarrow> 'b \<Rightarrow> (nat option \<times> 'b) option" where
  "pci_module_hunt n ops m b =
    (case md_ModuleAddress (mc_Modld m) of
       None \<Rightarrow> Some (None, b)
     | Some pma \<Rightarrow>
         (case hunt_loop ops pma n [] b of
            None \<Rightarrow> None
          | Some (found, seen, b1) \<Rightarrow> Some (found, fold (drm_free_handle ops) seen b1)))"

definition AddPciModule ::
    "nat \<Rightarrow> 'b bus_ops \<Rightarrow> nat \<Rightarrow> SkelDrvrModuleContext \<Rightarrow> 'b \<Rightarrow> (bool \<times> SkelDrvrModuleContext \<times> 'b) option" where
  "AddPciModule n ops i m b =
    (case pci_module_hunt n ops m b of
       None \<Rightarrow> None
     | Some (None, b1) \<Rightarrow> Some (False, m\<lparr>mc_PciHandle := None\<rparr>, b1)
     | Some (Some h, b1) \<Rightarrow>
         let m1 = m\<lparr>mc_PciHandle := Some h\<rparr>;
             (ok, m2, as, b2) = map_pci_spaces ops h m1 (spaces m1) b1;
             m3 = set_spaces as m2
         in Some (if \<not> ok then (case RemovePciModule ops m3 b2 of (m4, b3) \<Rightarrow> (False, m4, b3))
              else case md_Isr (mc_Modld m3) of
                  None \<Rightarrow> (True, m3, b2)
                | Some intrd \<Rightarrow>
                    if \<not> ir_IsrFlag intrd then (True, m3, b2)
                    else case drm_register_isr ops h i b2 of
                        (failed, b3) \<Rightarrow>
                          if failed then
                            if \<not> md_IgnoreErrors (mc_Modld m3)
                            then (case RemovePciModule ops m3 b3 of (m4, b4) \<Rightarrow> (False, m4, b4))
                            else (True, m3, b3)
                          else (True, clear_mcon_status STATUS_NO_ISR m3, b3)))"

section \<open>Carrier boards\<close>

definition RemoveCarModule :: "SkelDrvrModuleContext \<Rightarrow> SkelDrvrModuleContext" where
  "RemoveCarModule m =
    (let m1 = (if has_status STATUS_NO_ISR m then m else update_mcon_status STATUS_NO_ISR m)
     in set_spaces (map (\<lambda>cas. cas\<lparr>as_Mapped := 0\<rparr>) (spaces m1)) m1)"

definition AddCarModule :: "SkelDrvrModuleContext \<Rightarrow> bool" where
  "AddCarModule m = False"

section \<open>Adding and removing a module\<close>

text \<open>
  With a bus left out of the build its routines do nothing and its installation fails.
\<close>

definition RemoveModule ::
    "skel_consts \<Rightarrow> 'b bus_ops \<Rightarrow> 'u skel_user \<Rightarrow> nat \<Rightarrow> SkelDrvrModuleContext \<Rightarrow> 'b \<Rightarrow> 'u \<Rightarrow>
     SkelDrvrModuleContext \<times> 'b \<times> 'u" where
  "RemoveModule k ops usr i m b u =
    (if has_status STATUS_EMULATION m then (m, b, u)
     else
       let u1 = u_ModuleRelease usr i u;
           (m1, b1) =
             (case md_BusType (mc_Modld m) of
                BusPMC \<Rightarrow> if k_BUS_PCI k then RemovePciModule ops m b else (m, b)
              | BusPCI \<Rightarrow> if k_BUS_PCI k then RemovePciModule ops m b else (m, b)
              | BusVME \<Rightarrow> if k_BUS_VME k then RemoveVmeModule ops m b else (m, b)
              | BusCARRIER \<Rightarrow> (if k_BUS_CAR k then RemoveCarModule m else m, b)
              | BusNOT_SET \<Rightarrow> (m, b))
       in (m1, b1, u1))"

definition unmap_flagged :: "skel_consts \<Rightarrow> 'b bus_ops \<Rightarrow> SkelDrvrModuleContext \<Rightarrow> 'b \<Rightarrow> SkelDrvrModuleContext \<times> 'b" where
  "unmap_flagged k ops m b =
    (if md_BusType (mc_Modld m) = BusVME \<and> k_BUS_VME k then unmap_vmeas ops False m b else (m, b))"

definition add_on_bus ::
    "skel_consts \<Rightarrow> 'b bus_ops \<Rightarrow> nat \<Rightarrow> SkelDrvrModuleContext \<Rightarrow> 'b \<Rightarrow> (bool \<times> SkelDrvrModuleContext \<times> 'b) option" where
  "add_on_bus k ops i m b =
    (case md_BusType (mc_Modld m) of
       BusVME \<Rightarrow> Some (if k_BUS_VME k then AddVmeModule ops i m b else (False, m, b))
     | BusPMC \<Rightarrow> if k_BUS_PCI k then AddPciModule (k_MODULE_CONTEXTS k) ops i m b else Some (False, m, b)
     | BusPCI \<Rightarrow> if k_BUS_PCI k then AddPciModule (k_MODULE_CONTEXTS k) ops i m b else Some (False, m, b)
     | BusCARRIER \<Rightarrow> Some (AddCarModule m, m, b)
     | BusNOT_SET \<Rightarrow> Some (False, m, b))"

definition AddModule ::
    "skel_consts \<Rightarrow> 'b bus_ops \<Rightarrow> 'u skel_user \<Rightarrow> nat \<Rightarrow> SkelDrvrModuleContext \<Rightarrow> 'b \<Rightarrow> 'u \<Rightarrow>
     (bool \<times> SkelDrvrModuleContext \<times> 'b \<times> 'u) option" where
  "AddModule k ops usr i m b u =
    (case add_on_bus k ops i m b of
       None \<Rightarrow> None
     | Some (False, m1, b1) \<Rightarrow> Some (False, m1, b1, u)
     | Some (True, m1, b1) \<Rightarrow>
         (case u_ModuleInit usr i (mc_Modld m1) u of
            (ret, u1) \<Rightarrow>
              if ret = UserFAILED then
                (case RemoveModule k ops usr i m1 b1 u1 of (m2, b2, u2) \<Rightarrow> Some (False, m2, b2, u2))
              else (case unmap_flagged k ops m1 b1 of (m2, b2) \<Rightarrow> Some (True, m2, b2, u1))))"

end
