(* ===== verification/Skel_Rawio.thy ===== *)
theory Skel_Rawio
  imports Skel_Module
begin

text \<open>
  Raw access to the registers of a module (\<open>RawIo\<close> and \<open>RawIoBlock\<close> of
  \<open>src/skel/driver/skeldrvr.c\<close>). \<open>RawIoBlock\<close> moves a block between the hardware and user
  memory through a kernel buffer of at most 1024 items. User memory from the caller's
  pointer on and the kernel buffer are functions from an offset to a byte; \<open>cpu_big\<close> is the byte
  order of the processor. A space that is not mapped has the null pointer 0 in \<open>Mapped\<close> (in emulation, or after an unmap);
  an access through it is a fault of the kernel, \<open>None\<close> in the model. Bus errors are not trapped on Linux (\<open>recoset\<close> of CDCM always
  returns 0), so the recovery branches are not taken.
\<close>

section \<open>Single items\<close>

record SkelDrvrRawIoBlock =
  ri_SpaceNumber :: u32
  ri_Offset :: u32
  ri_DataWidth :: u32
  ri_Data :: u32

definition offset_out_of_range :: "InsLibAddressSpace \<Rightarrow> u32 \<Rightarrow> bool" where
  "offset_out_of_range anyas off \<longleftrightarrow> as_WindowSize anyas \<noteq> 0 \<and> as_WindowSize anyas \<le> off"

definition RawIo ::
    "'b bus_ops \<Rightarrow> SkelDrvrModuleContext \<Rightarrow> SkelDrvrRawIoBlock \<Rightarrow> bool \<Rightarrow> 'b \<Rightarrow> (rc \<times> SkelDrvrRawIoBlock \<times> 'b) option" where
  "RawIo ops m riob write b =
    (case InsLibGetAddressSpaceWidth (mc_Modld m) (ri_SpaceNumber riob) (ri_DataWidth riob) of
       None \<Rightarrow> Some (Err ENXIO, riob, b)
     | Some anyas \<Rightarrow>
         if offset_out_of_range anyas (ri_Offset riob) then Some (Err EINVAL, riob, b)
         else
           let r = (if ri_DataWidth riob = 0 then riob\<lparr>ri_DataWidth := as_DataWidth anyas\<rparr> else riob);
               mmap = as_Mapped anyas + ri_Offset riob;
               big = (as_Endian anyas = EndianBIG);
               w = unat (ri_DataWidth r)
           in if w \<notin> {8, 16, 32} then Some (Err EINVAL, r, b)
              else if as_Mapped anyas = 0 then None
              else if write then
                Some (OK, r, io_write ops w (w \<noteq> 8 \<and> big) (take_bit w (ri_Data r)) mmap b)
              else (case io_read ops w (w \<noteq> 8 \<and> big) mmap b of (v, b1) \<Rightarrow> Some (OK, r\<lparr>ri_Data := v\<rparr>, b1)))"

section \<open>Blocks\<close>

record SkelDrvrRawIoTransferBlock =
  rt_SpaceNumber :: u32
  rt_Offset :: u32
  rt_DataWidth :: u32
  rt_AddrIncr :: u32
  rt_BytesTr :: u32

definition TRANSFERS :: nat where "TRANSFERS = 1024"

text \<open>The parameters of a transfer that the loop does not change.\<close>

record transfer =
  tr_bits :: nat
  tr_bytes :: nat
  tr_ksize :: nat
  tr_incr :: u32
  tr_mmap :: u32
  tr_big :: bool
  tr_cpu_big :: bool

record 'b transfer_state =
  ts_uindx :: nat
  ts_kindx :: nat
  ts_hskip :: u32
  ts_kbuf :: "nat \<Rightarrow> u8"
  ts_ubuf :: "nat \<Rightarrow> u8"
  ts_bus :: 'b

text \<open>The access itself has 16 or 32 bits, and 8 for any other width.\<close>

definition access_bits :: "transfer \<Rightarrow> nat" where
  "access_bits t = (if tr_bits t = 16 then 16 else if tr_bits t = 32 then 32 else 8)"

definition access_big :: "transfer \<Rightarrow> bool" where
  "access_big t \<longleftrightarrow> access_bits t \<noteq> 8 \<and> tr_big t"

definition item_write :: "'b bus_ops \<Rightarrow> transfer \<Rightarrow> 'b transfer_state \<Rightarrow> 'b transfer_state" where
  "item_write ops t s =
    s\<lparr>ts_bus := io_write ops (access_bits t) (access_big t)
        (bytes_word (tr_cpu_big t) (slice (ts_kbuf s) (ts_kindx s) (access_bits t div 8)))
        (tr_mmap t + ts_hskip s) (ts_bus s)\<rparr>"

definition item_read :: "'b bus_ops \<Rightarrow> transfer \<Rightarrow> 'b transfer_state \<Rightarrow> 'b transfer_state" where
  "item_read ops t s =
    (let from_addr = (if access_bits t = 8 then tr_mmap t else tr_mmap t + ts_hskip s);
         (v, b) = io_read ops (access_bits t) (access_big t) from_addr (ts_bus s)
     in s\<lparr>ts_kbuf := overwrite (ts_kbuf s) (ts_kindx s) (word_bytes (tr_cpu_big t) (access_bits t div 8) v),
          ts_bus := b\<rparr>)"

definition flush :: "bool \<Rightarrow> transfer \<Rightarrow> 'b transfer_state \<Rightarrow> 'b transfer_state" where
  "flush write t s =
    (if tr_ksize t \<le> ts_kindx s then
       (if write then s\<lparr>ts_kbuf := overwrite (ts_kbuf s) 0 (slice (ts_ubuf s) (ts_uindx s) (tr_ksize t))\<rparr>
        else s\<lparr>ts_ubuf := overwrite (ts_ubuf s) (ts_uindx s) (slice (ts_kbuf s) 0 (tr_ksize t))\<rparr>)
       \<lparr>ts_uindx := ts_uindx s + tr_ksize t, ts_kindx := 0\<rparr>
     else s)"

definition transfer_item :: "'b bus_ops \<Rightarrow> bool \<Rightarrow> transfer \<Rightarrow> 'b transfer_state \<Rightarrow> 'b transfer_state" where
  "transfer_item ops write t s =
    (let s1 = (if write then item_write ops t s else item_read ops t s);
         s2 = s1\<lparr>ts_hskip := ts_hskip s1 + tr_incr t * of_nat (tr_bytes t), ts_kindx := ts_kindx s1 + tr_bytes t\<rparr>
     in flush write t s2)"

primrec transfer_loop :: "'b bus_ops \<Rightarrow> bool \<Rightarrow> transfer \<Rightarrow> nat \<Rightarrow> 'b transfer_state \<Rightarrow> 'b transfer_state" where
  "transfer_loop ops write t 0 s = s"
| "transfer_loop ops write t (Suc tremg) s = transfer_loop ops write t tremg (transfer_item ops write t s)"

text \<open>
  The number of items, and the transfer a request asks for. The item size divides the byte
  count: a width below one byte is a division by zero in the kernel, None in the model.
\<close>

definition transfer_count :: "u32 \<Rightarrow> nat \<Rightarrow> nat" where
  "transfer_count bytes_tr tszby =
    (let n = unat bytes_tr div tszby in if n = 0 \<or> 2 ^ 31 \<le> n then 1 else n)"

definition transfer_width :: "InsLibAddressSpace \<Rightarrow> u32 \<Rightarrow> nat" where
  "transfer_width anyas width =
    (let w = unat (width AND 0x3F) in if w = 0 then unat (as_DataWidth anyas) else w)"

definition make_transfer :: "bool \<Rightarrow> InsLibAddressSpace \<Rightarrow> SkelDrvrRawIoTransferBlock \<Rightarrow> transfer" where
  "make_transfer cpu_big anyas riob =
    (let tszbt = transfer_width anyas (rt_DataWidth riob);
         tszby = tszbt div 8;
         tremg = transfer_count (rt_BytesTr riob) tszby
     in \<lparr>tr_bits = tszbt, tr_bytes = tszby,
         tr_ksize = (if tremg < TRANSFERS then tremg else TRANSFERS) * tszby,
         tr_incr = rt_AddrIncr riob, tr_mmap = as_Mapped anyas + rt_Offset riob,
         tr_big = (as_Endian anyas = EndianBIG), tr_cpu_big = cpu_big\<rparr>)"

definition RawIoBlock ::
    "'b bus_ops \<Rightarrow> bool \<Rightarrow> bool \<Rightarrow> (nat \<Rightarrow> u8) \<Rightarrow> SkelDrvrModuleContext \<Rightarrow> SkelDrvrRawIoTransferBlock \<Rightarrow> bool \<Rightarrow>
     (nat \<Rightarrow> u8) \<Rightarrow> 'b \<Rightarrow> (rc \<times> (nat \<Rightarrow> u8) \<times> 'b) option" where
  "RawIoBlock ops cpu_big mem junk m riob write ubuf b =
    (case InsLibGetAddressSpace (mc_Modld m) (rt_SpaceNumber riob) of
       None \<Rightarrow> Some (Err ENXIO, ubuf, b)
     | Some anyas \<Rightarrow>
         if offset_out_of_range anyas (rt_Offset riob) then Some (Err EINVAL, ubuf, b)
         else
           let t = make_transfer cpu_big anyas riob in
           if tr_bytes t = 0 then None
           else if \<not> mem then Some (Err ENOMEM, ubuf, b)
           else if as_Mapped anyas = 0 then None
           else
             let tremg = transfer_count (rt_BytesTr riob) (tr_bytes t);
                 kbuf = (if write then overwrite junk 0 (slice ubuf 0 (tr_ksize t)) else junk);
                 s = transfer_loop ops write t tremg
                   \<lparr>ts_uindx = 0, ts_kindx = 0, ts_hskip = 0, ts_kbuf = kbuf, ts_ubuf = ubuf, ts_bus = b\<rparr>;
                 ubuf1 = (if \<not> write \<and> ts_kindx s \<noteq> 0
                          then overwrite (ts_ubuf s) (ts_uindx s) (slice (ts_kbuf s) 0 (ts_kindx s))
                          else ts_ubuf s)
             in Some (OK, ubuf1, ts_bus s))"

section \<open>The transfer without a buffer\<close>

text \<open>
  What the routine is to do: item \<open>j\<close> of the hardware is at \<open>j\<close> increments from the start, and
  belongs to the bytes of the user's buffer from \<open>j\<close> item sizes on. For writes, \<open>source_of j\<close> is
  the item of the buffer that goes to item \<open>j\<close> of the hardware.
\<close>

definition item_addr :: "transfer \<Rightarrow> nat \<Rightarrow> u32" where
  "item_addr t j = tr_mmap t + of_nat j * (tr_incr t * of_nat (tr_bytes t))"

primrec direct_read :: "'b bus_ops \<Rightarrow> transfer \<Rightarrow> nat \<Rightarrow> (nat \<Rightarrow> u8) \<times> 'b \<Rightarrow> (nat \<Rightarrow> u8) \<times> 'b" where
  "direct_read ops t 0 x = x"
| "direct_read ops t (Suc j) x =
    (let (ubuf, b) = direct_read ops t j x;
         (v, b1) = io_read ops (access_bits t) (access_big t) (item_addr t j) b
     in (overwrite ubuf (j * tr_bytes t) (word_bytes (tr_cpu_big t) (access_bits t div 8) v), b1))"

primrec direct_write :: "'b bus_ops \<Rightarrow> transfer \<Rightarrow> (nat \<Rightarrow> nat) \<Rightarrow> nat \<Rightarrow> (nat \<Rightarrow> u8) \<Rightarrow> 'b \<Rightarrow> 'b" where
  "direct_write ops t source_of 0 ubuf b = b"
| "direct_write ops t source_of (Suc j) ubuf b =
    io_write ops (access_bits t) (access_big t)
      (bytes_word (tr_cpu_big t) (slice ubuf (source_of j * tr_bytes t) (access_bits t div 8)))
      (item_addr t j) (direct_write ops t source_of j ubuf b)"

section \<open>The buffered transfer is the direct one\<close>

lemma transfer_loop_Suc:
  "transfer_loop ops write t (Suc n) s = transfer_item ops write t (transfer_loop ops write t n s)"
  by (induction n arbitrary: s) simp_all

text \<open>The user's buffer as it will be once the part of the kernel buffer in use is copied out.\<close>

definition user_view :: "'b transfer_state \<Rightarrow> nat \<Rightarrow> u8" where
  "user_view s = overwrite (ts_ubuf s) (ts_uindx s) (slice (ts_kbuf s) 0 (ts_kindx s))"

definition indices_ok :: "transfer \<Rightarrow> nat \<Rightarrow> 'b transfer_state \<Rightarrow> bool" where
  "indices_ok t n s \<longleftrightarrow> ts_uindx s + ts_kindx s = n * tr_bytes t \<and> tr_bytes t dvd ts_kindx s \<and>
    ts_kindx s < tr_ksize t \<and> ts_hskip s = of_nat n * (tr_incr t * of_nat (tr_bytes t)) \<and>
    tr_ksize t dvd ts_uindx s"

definition transfer_ok :: "transfer \<Rightarrow> bool" where
  "transfer_ok t \<longleftrightarrow> 0 < tr_bytes t \<and> access_bits t div 8 = tr_bytes t \<and> tr_bytes t dvd tr_ksize t \<and> 0 < tr_ksize t"

lemma next_multiple_le: "d dvd (a::nat) \<Longrightarrow> d dvd b \<Longrightarrow> a < b \<Longrightarrow> a + d \<le> b"
proof -
  assume d: "d dvd a" "d dvd b" "a < b"
  then have "d dvd b - a" by simp
  then have "d \<le> b - a" using d(3) by (intro dvd_imp_le) auto
  then show "a + d \<le> b" using d(3) by simp
qed

lemma ts_item [simp]:
  "ts_uindx (item_read ops t s) = ts_uindx s" "ts_kindx (item_read ops t s) = ts_kindx s"
  "ts_hskip (item_read ops t s) = ts_hskip s" "ts_ubuf (item_read ops t s) = ts_ubuf s"
  "ts_uindx (item_write ops t s) = ts_uindx s" "ts_kindx (item_write ops t s) = ts_kindx s"
  "ts_hskip (item_write ops t s) = ts_hskip s" "ts_ubuf (item_write ops t s) = ts_ubuf s"
  "ts_kbuf (item_write ops t s) = ts_kbuf s"
  by (auto simp: item_read_def item_write_def Let_def split: prod.split)

lemma indices_ok_item:
  assumes "transfer_ok t" and "indices_ok t n s"
  shows "indices_ok t (Suc n) (transfer_item ops write t s)"
proof -
  have "ts_kindx s + tr_bytes t \<le> tr_ksize t"
    using assms by (auto simp: transfer_ok_def indices_ok_def intro: next_multiple_le)
  moreover have "tr_bytes t + ts_kindx s dvd tr_bytes t + (ts_kindx s + ts_uindx s)"
    if "tr_bytes t + ts_kindx s dvd ts_uindx s"
    using that by (simp only: add.assoc [symmetric] dvd_add_right_iff dvd_refl dvd_add)
  ultimately show ?thesis
    using assms by (cases "write") (auto simp: transfer_ok_def indices_ok_def transfer_item_def flush_def Let_def algebra_simps)
qed

text \<open>A write of more than one buffer takes each later block from the block before it.\<close>

definition write_source :: "transfer \<Rightarrow> nat \<Rightarrow> nat" where
  "write_source t j = j - (if j * tr_bytes t < tr_ksize t then 0 else tr_ksize t div tr_bytes t)"

lemma write_source_bytes:
  assumes "transfer_ok t"
  shows "write_source t j * tr_bytes t = j * tr_bytes t - (if j * tr_bytes t < tr_ksize t then 0 else tr_ksize t)"
  using assms by (auto simp: write_source_def transfer_ok_def diff_mult_distrib)

lemma uindx_pos_iff:
  assumes "indices_ok t n s"
  shows "ts_uindx s = 0 \<longleftrightarrow> n * tr_bytes t < tr_ksize t"
proof
  assume "ts_uindx s = 0"
  then show "n * tr_bytes t < tr_ksize t" using assms by (simp add: indices_ok_def)
next
  assume "n * tr_bytes t < tr_ksize t"
  then have "ts_uindx s < tr_ksize t" using assms by (simp add: indices_ok_def)
  then show "ts_uindx s = 0" using assms by (auto simp: indices_ok_def dest: dvd_imp_le)
qed

definition write_inv :: "'b bus_ops \<Rightarrow> transfer \<Rightarrow> (nat \<Rightarrow> u8) \<Rightarrow> 'b \<Rightarrow> nat \<Rightarrow> 'b transfer_state \<Rightarrow> bool" where
  "write_inv ops t ubuf b n s \<longleftrightarrow> indices_ok t n s \<and> ts_ubuf s = ubuf \<and>
    (\<forall>i < tr_ksize t. ts_kbuf s i = ubuf (ts_uindx s - tr_ksize t + i)) \<and>
    ts_bus s = direct_write ops t (write_source t) n ubuf b"

lemma write_inv_item:
  assumes ok: "transfer_ok t" and inv: "write_inv ops t ubuf b n s"
  shows "write_inv ops t ubuf b (Suc n) (transfer_item ops True t s)"
proof -
  have ind: "indices_ok t n s" using inv by (simp add: write_inv_def)
  have room: "ts_kindx s + tr_bytes t \<le> tr_ksize t"
    using ok ind by (auto simp: transfer_ok_def indices_ok_def intro: next_multiple_le)
  have base: "write_source t n * tr_bytes t = ts_uindx s - tr_ksize t + ts_kindx s"
    using ind uindx_pos_iff [OF ind] by (auto simp: write_source_bytes [OF ok] indices_ok_def dest: dvd_imp_le)
  have src: "slice (ts_kbuf s) (ts_kindx s) (tr_bytes t) = slice ubuf (write_source t n * tr_bytes t) (tr_bytes t)"
    using inv room by (intro nth_equalityI) (simp_all add: write_inv_def base add.assoc)
  have bus: "ts_bus (transfer_item ops True t s) = direct_write ops t (write_source t) (Suc n) ubuf b"
    using inv ok ind src
    by (simp add: transfer_item_def flush_def item_write_def Let_def write_inv_def transfer_ok_def item_addr_def
        indices_ok_def)
  have "ts_kbuf (transfer_item ops True t s) i = ubuf (ts_uindx (transfer_item ops True t s) - tr_ksize t + i)"
    if "i < tr_ksize t" for i
    using inv that by (auto simp: write_inv_def transfer_item_def flush_def Let_def overwrite_def)
  moreover have "ts_ubuf (transfer_item ops True t s) = ubuf"
    using inv by (simp add: write_inv_def transfer_item_def flush_def Let_def)
  ultimately show ?thesis
    using bus indices_ok_item [OF ok ind] by (simp add: write_inv_def)
qed

lemma transfer_write:
  assumes ok: "transfer_ok t"
    and s: "s = \<lparr>ts_uindx = 0, ts_kindx = 0, ts_hskip = 0, ts_kbuf = overwrite junk 0 (slice ubuf 0 (tr_ksize t)),
      ts_ubuf = ubuf, ts_bus = b\<rparr>"
  shows "write_inv ops t ubuf b n (transfer_loop ops True t n s)"
proof (induction n)
  case 0
  then show ?case using ok by (simp add: s write_inv_def indices_ok_def transfer_ok_def overwrite_def)
next
  case (Suc n)
  then show ?case using ok by (simp only: transfer_loop_Suc write_inv_item)
qed

definition read_inv :: "'b bus_ops \<Rightarrow> transfer \<Rightarrow> (nat \<Rightarrow> u8) \<Rightarrow> 'b \<Rightarrow> nat \<Rightarrow> 'b transfer_state \<Rightarrow> bool" where
  "read_inv ops t ubuf b n s \<longleftrightarrow>
    indices_ok t n s \<and> (user_view s, ts_bus s) = direct_read ops t n (ubuf, b)"

lemma user_view_flush:
  "ts_kindx s \<le> tr_ksize t \<Longrightarrow> user_view (flush False t s) = user_view s \<and> ts_bus (flush False t s) = ts_bus s"
  by (auto simp: user_view_def flush_def overwrite_def fun_eq_iff)

lemma read_inv_item:
  assumes ok: "transfer_ok t" and bits: "access_bits t \<noteq> 8" and inv: "read_inv ops t ubuf b n s"
  shows "read_inv ops t ubuf b (Suc n) (transfer_item ops False t s)"
proof -
  have ind: "indices_ok t n s" using inv by (simp add: read_inv_def)
  have room: "ts_kindx s + tr_bytes t \<le> tr_ksize t"
    using ok ind by (auto simp: transfer_ok_def indices_ok_def intro: next_multiple_le)
  obtain v b1 where io: "io_read ops (access_bits t) (access_big t) (item_addr t n) (ts_bus s) = (v, b1)" by force
  let ?w = "word_bytes (tr_cpu_big t) (tr_bytes t) v"
  let ?s = "(item_read ops t s)\<lparr>ts_hskip := ts_hskip s + tr_incr t * of_nat (tr_bytes t),
      ts_kindx := ts_kindx s + tr_bytes t\<rparr>"
  have item: "ts_kbuf ?s = overwrite (ts_kbuf s) (ts_kindx s) ?w" "ts_bus ?s = b1" "ts_ubuf ?s = ts_ubuf s"
    using io ind ok bits by (simp_all add: item_read_def item_addr_def indices_ok_def transfer_ok_def Let_def)
  have "user_view ?s = overwrite (user_view s) (ts_uindx s + ts_kindx s) ?w"
    using item by (auto simp: user_view_def overwrite_def fun_eq_iff)
  then have "user_view ?s = overwrite (user_view s) (n * tr_bytes t) ?w"
    using ind by (simp add: indices_ok_def)
  moreover have "transfer_item ops False t s = flush False t ?s"
    by (simp add: transfer_item_def Let_def)
  ultimately have "user_view (transfer_item ops False t s) = overwrite (user_view s) (n * tr_bytes t) ?w"
    and "ts_bus (transfer_item ops False t s) = b1"
    using user_view_flush [of ?s t] room item by simp_all
  moreover have "direct_read ops t (Suc n) (ubuf, b) = (overwrite (user_view s) (n * tr_bytes t) ?w, b1)"
  proof -
    have "direct_read ops t n (ubuf, b) = (user_view s, ts_bus s)"
      using inv by (simp only: read_inv_def)
    then show ?thesis using io ok by (simp add: transfer_ok_def)
  qed
  ultimately show ?thesis
    using indices_ok_item [OF ok ind] by (simp add: read_inv_def)
qed

lemma transfer_read:
  assumes ok: "transfer_ok t" and bits: "access_bits t \<noteq> 8"
    and s: "s = \<lparr>ts_uindx = 0, ts_kindx = 0, ts_hskip = 0, ts_kbuf = junk, ts_ubuf = ubuf, ts_bus = b\<rparr>"
  shows "read_inv ops t ubuf b n (transfer_loop ops False t n s)"
proof (induction n)
  case 0
  then show ?case
    using ok by (auto simp: s read_inv_def indices_ok_def transfer_ok_def user_view_def overwrite_def)
next
  case (Suc n)
  then show ?case unfolding transfer_loop_Suc using ok bits by (rule read_inv_item [rotated 2])
qed

lemma make_transfer_ok:
  assumes "transfer_width anyas (rt_DataWidth riob) \<in> {8, 16, 32}"
  shows "transfer_ok (make_transfer cpu_big anyas riob)"
proof -
  have "0 < transfer_count n m" for n m by (simp add: transfer_count_def Let_def)
  then show ?thesis
    using assms by (auto simp: make_transfer_def transfer_ok_def access_bits_def Let_def TRANSFERS_def)
qed

end
