(* ===== verification/Skel.thy ===== *)
theory Skel
  imports Skel_Rawio
begin

text \<open>
  The skeleton driver (\<open>src/skel/driver/skeldrvr.c\<close>), the framework on which the drivers of
  the CVORG, VD80, ICV196 and MTT modules are built: installation of the modules, clients and their
  connections to interrupts, the delivery of interrupts to the clients' queues, and the
  entry points. The working area is a record; client contexts live in a heap, so that a
  list can hold the address of a context that was freed. The outcome of an allocation and
  the address it returns are arguments; as LynxOS documents, a failed allocation returns
  NULL. An operation between the taking and the release of a spin lock is one step.

  A dereference of a null pointer is the result \<open>Oops\<close>.
\<close>

section \<open>The working area\<close>

record ('b, 'u) skel =
  w_Drvrd :: InsLibDrvrDesc
  w_InstalledModules :: nat
  w_clients :: "nat list"
  w_Modules :: "SkelDrvrModuleContext list"
  w_heap :: "nat \<Rightarrow> SkelDrvrClientContext option"
  w_bus :: 'b
  w_user :: 'u

definition upd_module :: "nat \<Rightarrow> (SkelDrvrModuleContext \<Rightarrow> SkelDrvrModuleContext) \<Rightarrow> ('b, 'u) skel \<Rightarrow> ('b, 'u) skel" where
  "upd_module i f s = s\<lparr>w_Modules := (w_Modules s)[i := f (w_Modules s ! i)]\<rparr>"

definition upd_client :: "nat \<Rightarrow> (SkelDrvrClientContext \<Rightarrow> SkelDrvrClientContext) \<Rightarrow> ('b, 'u) skel \<Rightarrow> ('b, 'u) skel" where
  "upd_client c f s = s\<lparr>w_heap := (w_heap s)(c := map_option f (w_heap s c))\<rparr>"

definition upd_user :: "('u \<Rightarrow> 'u) \<Rightarrow> ('b, 'u) skel \<Rightarrow> ('b, 'u) skel" where
  "upd_user f s = s\<lparr>w_user := f (w_user s)\<rparr>"

definition get_mcon :: "u32 \<Rightarrow> ('b, 'u) skel \<Rightarrow> nat option" where
  "get_mcon modnr s = find (\<lambda>i. mc_ModuleNumber (w_Modules s ! i) = modnr) [0..<w_InstalledModules s]"

definition skel_get_ccon :: "nat \<Rightarrow> ('b, 'u) skel \<Rightarrow> nat option" where
  "skel_get_ccon flp s =
    find (\<lambda>c. case w_heap s c of Some ccon \<Rightarrow> cc_cdcmf ccon = flp | None \<Rightarrow> False) (w_clients s)"

section \<open>Interrupts\<close>

definition put_queues :: "nat \<Rightarrow> SkelDrvrReadBuf \<Rightarrow> nat list \<Rightarrow> ('b, 'u) skel \<Rightarrow> ('b, 'u) skel" where
  "put_queues N rb clients s = fold (\<lambda>c. upd_client c (q_put N rb)) clients s"

definition fill_interrupt ::
    "skel_consts \<Rightarrow> nat \<Rightarrow> SkelDrvrReadBuf \<Rightarrow> u32 \<Rightarrow> nat \<Rightarrow> ('b, 'u) skel \<Rightarrow> ('b, 'u) skel" where
  "fill_interrupt k i rb imask j s =
    (let interrupt = imask AND push_bit j 1;
         client_list = mc_clients (w_Modules s ! i) ! j
     in if interrupt = 0 \<or> client_list = [] then s
        else put_queues (k_QUEUE_SIZE k) (rb\<lparr>rb_Connection := (rb_Connection rb)\<lparr>cx_ConMask := interrupt\<rparr>\<rparr>)
          client_list s)"

definition fill_clients_queues ::
    "skel_consts \<Rightarrow> nat \<Rightarrow> SkelDrvrReadBuf \<Rightarrow> u32 \<Rightarrow> ('b, 'u) skel \<Rightarrow> ('b, 'u) skel" where
  "fill_clients_queues k i rb imask s = fold (fill_interrupt k i rb imask) [0..<k_INTERRUPTS k] s"

definition IntrHandler :: "skel_consts \<Rightarrow> 'u skel_user \<Rightarrow> nat \<Rightarrow> ('b, 'u) skel \<Rightarrow> ('b, 'u) skel" where
  "IntrHandler k usr i s =
    (case u_GetInterruptSource usr i (w_user s) of
       (time, interrupt, u1) \<Rightarrow>
         let s1 = s\<lparr>w_user := u1\<rparr>;
             rb = \<lparr>rb_Connection = \<lparr>cx_Module = mc_ModuleNumber (w_Modules s ! i), cx_ConMask = 0\<rparr>, rb_Time = time\<rparr>
         in if interrupt = 0 then s1 else fill_clients_queues k i rb interrupt s1)"

definition skel_isr ::
    "skel_consts \<Rightarrow> 'u skel_user \<Rightarrow> (nat \<Rightarrow> ('b, 'u) skel \<Rightarrow> ('b, 'u) skel) option \<Rightarrow> nat \<Rightarrow> ('b, 'u) skel \<Rightarrow> ('b, 'u) skel" where
  "skel_isr k usr intrhandler i s =
    (case intrhandler of Some h \<Rightarrow> h i s | None \<Rightarrow> IntrHandler k usr i s)"

section \<open>Connections\<close>

text \<open>\<open>mem j\<close> says whether the link for interrupt \<open>j\<close> could be allocated.\<close>

definition connect_one ::
    "'u skel_user \<Rightarrow> (nat \<Rightarrow> bool) \<Rightarrow> nat \<Rightarrow> nat \<Rightarrow> u32 \<Rightarrow> nat \<Rightarrow> ('b, 'u) skel \<Rightarrow> ('b, 'u) skel" where
  "connect_one usr mem c i imsk j s =
    (if imsk AND push_bit j 1 = 0 then s
     else
       let client_list = mc_clients (w_Modules s ! i) ! j;
           present = (c \<in> set client_list);
           s1 = (if \<not> present \<and> mem j
                 then upd_module i (\<lambda>m. m\<lparr>mc_clients := (mc_clients m)[j := c # client_list]\<rparr>) s else s)
       in if present \<or> mem j then
            let s2 = upd_module i (\<lambda>m. m\<lparr>mc_enabled_ints := mc_enabled_ints m OR imsk\<rparr>) s1
            in upd_user (u_EnableInterrupts usr i (mc_enabled_ints (w_Modules s2 ! i))) s2
          else s1)"

definition connection_module :: "nat \<Rightarrow> SkelDrvrConnection \<Rightarrow> ('b, 'u) skel \<Rightarrow> nat option" where
  "connection_module c conx s =
    (if cx_Module conx = 0
     then (case w_heap s c of None \<Rightarrow> None | Some ccon \<Rightarrow> get_mcon (cc_ModuleNumber ccon) s)
     else get_mcon (cx_Module conx) s)"

definition Connect ::
    "skel_consts \<Rightarrow> 'u skel_user \<Rightarrow> (nat \<Rightarrow> bool) \<Rightarrow> nat \<Rightarrow> SkelDrvrConnection \<Rightarrow> ('b, 'u) skel \<Rightarrow> ('b, 'u) skel" where
  "Connect k usr mem c conx s =
    (case connection_module c conx s of
       None \<Rightarrow> s
     | Some i \<Rightarrow> fold (connect_one usr mem c i (cx_ConMask conx)) [0..<k_INTERRUPTS k] s)"

definition disconnect_one :: "'u skel_user \<Rightarrow> nat \<Rightarrow> nat \<Rightarrow> u32 \<Rightarrow> nat \<Rightarrow> ('b, 'u) skel \<Rightarrow> ('b, 'u) skel" where
  "disconnect_one usr c i imsk j s =
    (let client_list = mc_clients (w_Modules s ! i) ! j in
     if imsk AND push_bit j 1 = 0 \<or> c \<notin> set client_list then s
     else
       let s1 = upd_module i (\<lambda>m. m\<lparr>mc_clients := (mc_clients m)[j := remove1 c client_list]\<rparr>) s
       in if remove1 c client_list = [] then
            let s2 = upd_module i (\<lambda>m. m\<lparr>mc_enabled_ints := mc_enabled_ints m AND NOT imsk\<rparr>) s1
            in upd_user (u_EnableInterrupts usr i (mc_enabled_ints (w_Modules s2 ! i))) s2
          else s1)"

definition disconnect_module :: "skel_consts \<Rightarrow> 'u skel_user \<Rightarrow> nat \<Rightarrow> nat \<Rightarrow> u32 \<Rightarrow> ('b, 'u) skel \<Rightarrow> ('b, 'u) skel" where
  "disconnect_module k usr c i imsk s = fold (disconnect_one usr c i imsk) [0..<k_INTERRUPTS k] s"

definition DisConnect ::
    "skel_consts \<Rightarrow> 'u skel_user \<Rightarrow> nat \<Rightarrow> SkelDrvrConnection \<Rightarrow> ('b, 'u) skel \<Rightarrow> ('b, 'u) skel" where
  "DisConnect k usr c conx s =
    (case connection_module c conx s of
       None \<Rightarrow> s
     | Some i \<Rightarrow> disconnect_module k usr c i (if cx_ConMask conx = 0 then -1 else cx_ConMask conx) s)"

definition DisConnectAll :: "skel_consts \<Rightarrow> 'u skel_user \<Rightarrow> nat \<Rightarrow> ('b, 'u) skel \<Rightarrow> ('b, 'u) skel" where
  "DisConnectAll k usr c s =
    fold (\<lambda>i s. DisConnect k usr c \<lparr>cx_Module = mc_ModuleNumber (w_Modules s ! i), cx_ConMask = 0\<rparr> s)
      [0..<w_InstalledModules s] s"

section \<open>Installation\<close>

definition set_mcon_defaults :: "skel_consts \<Rightarrow> InsLibDrvrDesc \<Rightarrow> SkelDrvrModuleContext \<Rightarrow> SkelDrvrModuleContext" where
  "set_mcon_defaults k d m =
    (let m1 = m\<lparr>mc_Timeout := k_MODULE_TIMEOUT k, mc_Debug := dd_DebugFlags d\<rparr>;
         m2 = (if dd_EmulationFlags d \<noteq> 0
               then update_mcon_status STATUS_EMULATION (m1\<lparr>mc_Debug := mc_Debug m1 OR DEBUG_EMULATION\<rparr>) else m1)
     in update_mcon_status STATUS_NO_ISR
          (m2\<lparr>mc_Semaphore := ssignal (sreset (mc_Semaphore m2)), mc_clients := replicate (k_INTERRUPTS k) []\<rparr>))"

definition zero_modld :: InsLibModlDesc where
  "zero_modld = \<lparr>md_BusType = BusNOT_SET, md_ModuleNumber = 0, md_IgnoreErrors = False, md_Isr = None,
    md_ModuleAddress = None, md_Extra = None, md_ModuleName = []\<rparr>"

definition zero_mcon :: SkelDrvrModuleContext where
  "zero_mcon = \<lparr>mc_PciHandle = None, mc_ModuleNumber = 0, mc_InUse = False, mc_Modld = zero_modld,
    mc_Semaphore = cdcm_sem_init 0, mc_Timeout = 0, mc_clients = [], mc_enabled_ints = 0, mc_Debug = 0,
    mc_StandardStatus = 0, mc_FlashOpen = 0\<rparr>"

definition wa_init :: "skel_consts \<Rightarrow> InsLibDrvrDesc \<Rightarrow> 'b \<Rightarrow> 'u \<Rightarrow> ('b, 'u) skel" where
  "wa_init k d b u =
    \<lparr>w_Drvrd = d, w_InstalledModules = 0, w_clients = [], w_Modules = replicate (k_MODULE_CONTEXTS k) zero_mcon,
     w_heap = (\<lambda>_. None), w_bus = b, w_user = u\<rparr>"

text \<open>The module contexts are filled without gaps: the next descriptor reuses the slot of one that failed.\<close>

fun install_loop ::
    "skel_consts \<Rightarrow> 'b bus_ops \<Rightarrow> 'u skel_user \<Rightarrow> InsLibModlDesc list \<Rightarrow> nat \<Rightarrow> int \<Rightarrow> ('b, 'u) skel \<Rightarrow>
     (int \<times> ('b, 'u) skel) option" where
  "install_loop k ops usr [] i ret s = Some (ret, s)"
| "install_loop k ops usr (modld # rest) i ret s =
    (if \<not> i < unat (dd_ModuleCount (w_Drvrd s)) then Some (ret, s)
     else
       let m = set_mcon_defaults k (w_Drvrd s)
             ((w_Modules s ! i)\<lparr>mc_Modld := modld, mc_ModuleNumber := md_ModuleNumber modld\<rparr>)
       in case AddModule k ops usr i m (w_bus s) (w_user s) of
            None \<Rightarrow> None
          | Some (mod_ok, m1, b1, u1) \<Rightarrow>
              let s1 = s\<lparr>w_bus := b1, w_user := u1\<rparr> in
              if mod_ok then
                install_loop k ops usr rest (i + 1) ret
                  (s1\<lparr>w_Modules := (w_Modules s1)[i := m1\<lparr>mc_InUse := True\<rparr>],
                      w_InstalledModules := w_InstalledModules s1 + 1\<rparr>)
              else install_loop k ops usr rest i (-1) (s1\<lparr>w_Modules := (w_Modules s1)[i := m1]\<rparr>))"

definition modules_install ::
    "skel_consts \<Rightarrow> 'b bus_ops \<Rightarrow> 'u skel_user \<Rightarrow> ('b, 'u) skel \<Rightarrow> (int \<times> ('b, 'u) skel) option" where
  "modules_install k ops usr s =
    (if k_MODULE_CONTEXTS k < unat (dd_ModuleCount (w_Drvrd s)) then Some (-2, s)
     else install_loop k ops usr (dd_Modules (w_Drvrd s)) 0 0 s)"

text \<open>
  \<open>SkelDrvrInstall\<close>: the working area, or the error with the bus and the bottom half as
  they were left. \<open>mem\<close> is the allocation of the working area.
\<close>

definition SkelDrvrInstall ::
    "skel_consts \<Rightarrow> 'b bus_ops \<Rightarrow> 'u skel_user \<Rightarrow> bool \<Rightarrow> InsLibDrvrDesc option \<Rightarrow> kmem \<Rightarrow> 'b \<Rightarrow> 'u \<Rightarrow>
     (errno \<times> 'b \<times> 'u \<times> kmem + ('b, 'u) skel \<times> kmem) option" where
  "SkelDrvrInstall k ops usr mem info km b u =
    (case InsLibCloneOneDriver info km of
       (None, km1) \<Rightarrow> Some (Inl (ENOMEM, b, u, km1))
     | (Some drvrd, km1) \<Rightarrow>
         if \<not> mem then Some (Inl (ENOMEM, b, u, InsLibFreeDriver [drvrd] km1))
         else if dd_ModuleCount drvrd = 0 then Some (Inl (EINVAL, b, u, InsLibFreeDriver [drvrd] km1))
         else
           (case modules_install k ops usr (wa_init k drvrd b u) of
              None \<Rightarrow> None
            | Some (ret, s) \<Rightarrow>
                if w_InstalledModules s \<noteq> unat (dd_ModuleCount drvrd) \<and> w_InstalledModules s = 0
                then Some (Inl (ENODEV, w_bus s, w_user s, InsLibFreeDriver [drvrd] km1))
                else Some (Inr (s, km1))))"

definition modules_uninstall ::
    "skel_consts \<Rightarrow> 'b bus_ops \<Rightarrow> 'u skel_user \<Rightarrow> ('b, 'u) skel \<Rightarrow> ('b, 'u) skel" where
  "modules_uninstall k ops usr s =
    fold (\<lambda>i s. case RemoveModule k ops usr i (w_Modules s ! i) (w_bus s) (w_user s) of
        (m1, b1, u1) \<Rightarrow> s\<lparr>w_Modules := (w_Modules s)[i := m1], w_bus := b1, w_user := u1\<rparr>)
      [0..<w_InstalledModules s] s"

text \<open>The uninstallation is refused while a client is open; else it leaves the bus, the bottom half and memory.\<close>

definition SkelDrvrUninstall ::
    "skel_consts \<Rightarrow> 'b bus_ops \<Rightarrow> 'u skel_user \<Rightarrow> kmem \<Rightarrow> ('b, 'u) skel option \<Rightarrow> errno + ('b \<times> 'u \<times> kmem) option" where
  "SkelDrvrUninstall k ops usr km wa =
    (case wa of
       None \<Rightarrow> Inr None
     | Some s \<Rightarrow>
         if w_clients s \<noteq> [] then Inl EBUSY
         else let s1 = modules_uninstall k ops usr s
              in Inr (Some (w_bus s1, w_user s1, InsLibFreeDriver [w_Drvrd s1] km)))"

section \<open>Open and close\<close>

abbreviation EBADF :: errno where "EBADF \<equiv> EOTHER 9"

text \<open>\<open>c\<close> is the address of the new context, \<open>mem\<close> and \<open>mem_link\<close> the two allocations.\<close>

definition SkelDrvrOpen ::
    "skel_consts \<Rightarrow> 'u skel_user \<Rightarrow> bool \<Rightarrow> bool \<Rightarrow> nat \<Rightarrow> u32 \<Rightarrow> nat \<Rightarrow> ('b, 'u) skel \<Rightarrow> rc \<times> ('b, 'u) skel" where
  "SkelDrvrOpen k usr mem mem_link c pid flp s =
    (if \<not> mem then (Err ENOMEM, s)
     else
       let module0 = (if w_InstalledModules s = 0 then None else Some (mc_ModuleNumber (w_Modules s ! 0)));
           ccon = client_init (k_QUEUE_SIZE k) (k_CLIENT_TIMEOUT k) pid module0 flp;
           (ret, u1) = u_ClientInit usr c (w_user s);
           s1 = s\<lparr>w_user := u1\<rparr>
       in if ret = UserFAILED then (Err EBADF, s1)
          else if \<not> mem_link then (Err ENOMEM, s1)
          else (OK, s1\<lparr>w_heap := (w_heap s1)(c \<mapsto> ccon), w_clients := c # w_clients s1\<rparr>))"

definition do_close :: "skel_consts \<Rightarrow> 'u skel_user \<Rightarrow> nat \<Rightarrow> ('b, 'u) skel \<Rightarrow> ('b, 'u) skel" where
  "do_close k usr c s =
    (let s1 = DisConnectAll k usr c s;
         s2 = upd_user (u_ClientRelease usr c) s1
     in s2\<lparr>w_clients := remove1 c (w_clients s2), w_heap := (w_heap s2)(c := None)\<rparr>)"

definition SkelDrvrClose :: "skel_consts \<Rightarrow> 'u skel_user \<Rightarrow> nat \<Rightarrow> ('b, 'u) skel \<Rightarrow> rc \<times> ('b, 'u) skel" where
  "SkelDrvrClose k usr flp s =
    (case skel_get_ccon flp s of None \<Rightarrow> (Err EBADF, s) | Some c \<Rightarrow> (OK, do_close k usr c s))"

section \<open>Read, write and select\<close>

text \<open>
  \<open>SkelDrvrRead\<close> in the parts between which other activities run: the lookup, the reset of
  a queue that is switched off and the wait; and after the wait, either the entry taken
  from the queue or the end of a wait that failed.
\<close>

datatype read_result = ReadError errno | ReadWaits nat wait_result

definition SkelDrvrRead_wait :: "nat \<Rightarrow> nat \<Rightarrow> ('b, 'u) skel \<Rightarrow> read_result \<times> ('b, 'u) skel" where
  "SkelDrvrRead_wait task flp s =
    (case skel_get_ccon flp s of
       None \<Rightarrow> (ReadError EBADF, s)
     | Some c \<Rightarrow>
         (case w_heap s c of
            None \<Rightarrow> (ReadError EFAULT, s)
          | Some ccon0 \<Rightarrow>
              let ccon = (if q_QueueOff (cc_Queue ccon0) then reset_queue ccon0 else ccon0)
              in (case tswait task (sint (cc_Timeout ccon)) (cc_Semaphore ccon) of
                    (r, sem) \<Rightarrow> (ReadWaits c r, upd_client c (\<lambda>_. ccon\<lparr>cc_Semaphore := sem\<rparr>) s))))"

definition SkelDrvrRead_got :: "skel_consts \<Rightarrow> nat \<Rightarrow> ('b, 'u) skel \<Rightarrow> SkelDrvrReadBuf option \<times> ('b, 'u) skel" where
  "SkelDrvrRead_got k c s =
    (case w_heap s c of
       None \<Rightarrow> (None, s)
     | Some ccon \<Rightarrow> (case q_get (k_QUEUE_SIZE k) ccon of (rb, ccon1) \<Rightarrow> (Some rb, upd_client c (\<lambda>_. ccon1) s)))"

definition SkelDrvrRead_failed :: "nat \<Rightarrow> ('b, 'u) skel \<Rightarrow> ('b, 'u) skel" where
  "SkelDrvrRead_failed c s = upd_client c client_timeout s"

definition SkelDrvrWrite ::
    "skel_consts \<Rightarrow> 'u skel_user \<Rightarrow> SkelDrvrConnection \<Rightarrow> ('b, 'u) skel \<Rightarrow> rc \<times> ('b, 'u) skel" where
  "SkelDrvrWrite k usr conx s =
    (case get_mcon (cx_Module conx) s of
       None \<Rightarrow> (Err EFAULT, s)
     | Some i \<Rightarrow>
         (case u_GetUtc usr i (w_user s) of
            (time, u1) \<Rightarrow>
              (OK, fill_clients_queues k i \<lparr>rb_Connection = conx, rb_Time = time\<rparr> (cx_ConMask conx)
                     (s\<lparr>w_user := u1\<rparr>))))"

definition SkelDrvrSelect :: "nat \<Rightarrow> bool \<Rightarrow> ('b, 'u) skel \<Rightarrow> errno + nat" where
  "SkelDrvrSelect flp sread s =
    (case skel_get_ccon flp s of None \<Rightarrow> Inl EBADF | Some c \<Rightarrow> if sread then Inr c else Inl EACCES)"

end
