(* ===== verification/Skel_Ioctl.thy ===== *)
theory Skel_Ioctl
  imports Skel
begin

text \<open>
  The \<open>ioctl\<close> entry point of the skeleton driver (\<open>SkelDrvrIoctl\<close> of
  \<open>src/skel/driver/skeldrvr.c\<close>) with the commands of \<open>src/include/skel.h\<close>. A command carries
  its argument: CDCM hands the driver a kernel buffer of the size and direction the
  command number encodes, so the argument is there whenever the command has one.
\<close>

section \<open>Commands\<close>

datatype skel_cmd =
    SET_DEBUG u32 | GET_DEBUG | GET_VERSION | SET_TIMEOUT u32 | GET_TIMEOUT
  | SET_QUEUE_FLAG u32 | GET_QUEUE_FLAG | GET_QUEUE_SIZE | GET_QUEUE_OVERFLOW
  | SET_MODULE u32 | GET_MODULE | GET_MODULE_COUNT | GET_MODULE_MAPS
  | CONNECT SkelDrvrConnection | GET_CLIENT_LIST | GET_CLIENT_CONNECTIONS u32
  | ENABLE u32 | RESET | GET_STATUS | GET_CLEAR_STATUS
  | RAW_READ SkelDrvrRawIoBlock | RAW_WRITE SkelDrvrRawIoBlock
  | JTAG_OPEN | JTAG_READ_BYTE | JTAG_WRITE_BYTE u32 | JTAG_CLOSE
  | RAW_BLOCK_READ SkelDrvrRawIoTransferBlock "nat \<Rightarrow> u8" | RAW_BLOCK_WRITE SkelDrvrRawIoTransferBlock "nat \<Rightarrow> u8"
  | USER_CMD nat "u8 list" | UNKNOWN_CMD

datatype skel_out =
    NoOut | OutWord u32 | OutInt int | OutVersion string | OutMaps "(u32 \<times> u32) list" | OutPids "u32 list"
  | OutConnections "SkelDrvrConnection list" | OutStatus u32 u32 | OutRaw SkelDrvrRawIoBlock | OutBytes "nat \<Rightarrow> u8"

text \<open>\<open>IoUserFail\<close> is the error code the user's bottom half has set; \<open>IoSleeps\<close> a call that waits.\<close>

datatype skel_result = IoOk skel_out | IoErr errno | IoUserFail | IoSleeps | Oops

definition MAX_MAPS :: nat where "MAX_MAPS = 10"

section \<open>Bounds of the argument\<close>

datatype ioc_dir = IOC_NONE | IOC_READ | IOC_WRITE | IOC_READ_WRITE

definition rbounds :: "ioc_dir \<Rightarrow> nat \<Rightarrow> nat" where
  "rbounds flags bytes = (if flags \<in> {IOC_WRITE, IOC_READ_WRITE} then bytes else 0)"

definition wbounds :: "ioc_dir \<Rightarrow> nat \<Rightarrow> nat" where
  "wbounds flags bytes = (if flags \<in> {IOC_READ, IOC_READ_WRITE} then bytes else 0)"

definition bounds_ok :: "ioc_dir \<Rightarrow> nat \<Rightarrow> nat \<Rightarrow> nat \<Rightarrow> bool" where
  "bounds_ok dir sz r w =
    (case dir of
       IOC_READ \<Rightarrow> \<not> w < sz
     | IOC_WRITE \<Rightarrow> \<not> r < sz
     | IOC_READ_WRITE \<Rightarrow> \<not> (w < sz \<or> r < sz)
     | IOC_NONE \<Rightarrow> True)"

lemma cdcm_buffer_bounds: "bounds_ok dir sz (rbounds dir sz) (wbounds dir sz)"
  by (cases dir) (simp_all add: bounds_ok_def rbounds_def wbounds_def)

section \<open>Debug flags\<close>

definition SkelDrvrDebugNames :: "string list" where
  "SkelDrvrDebugNames =
    [''AssertionViolation'', ''IoctlTrace'', ''ClientWarning'', ''ModuleWarning'', ''Information'', ''EmulationOn'']"

definition GetDebugFlagName :: "u32 \<Rightarrow> string" where
  "GetDebugFlagName debf =
    (case find (\<lambda>i. push_bit i 1 AND debf \<noteq> 0) [0..<6] of
       Some i \<Rightarrow> SkelDrvrDebugNames ! i | None \<Rightarrow> SkelDrvrDebugNames ! 0)"

section \<open>Operations behind the commands\<close>

definition get_module_maps_ioctl :: "SkelDrvrModuleContext \<Rightarrow> (u32 \<times> u32) list" where
  "get_module_maps_ioctl m = map (\<lambda>a. (as_Mapped a, as_Number a)) (take MAX_MAPS (spaces m))"

definition skel_get_client_list :: "skel_consts \<Rightarrow> ('b, 'u) skel \<Rightarrow> u32 list" where
  "skel_get_client_list k s =
    map (\<lambda>c. case w_heap s c of Some ccon \<Rightarrow> cc_Pid ccon | None \<Rightarrow> 0) (take (k_CLIENT_CONTEXTS k) (w_clients s))"

text \<open>The loops that collect the connections of a process stop when the table is full.\<close>

fun fill_client_list :: "nat \<Rightarrow> u32 \<Rightarrow> u32 \<Rightarrow> nat \<Rightarrow> u32 list \<Rightarrow> SkelDrvrConnection list \<Rightarrow> bool \<times> SkelDrvrConnection list" where
  "fill_client_list limit pid modnr j [] acc = (False, acc)"
| "fill_client_list limit pid modnr j (p # ps) acc =
    (if p \<noteq> pid then fill_client_list limit pid modnr j ps acc
     else let acc1 = acc @ [\<lparr>cx_Module = modnr, cx_ConMask = push_bit j 1\<rparr>]
          in if limit \<le> length acc1 then (True, acc1) else fill_client_list limit pid modnr j ps acc1)"

fun skel_fill_client_connections ::
    "nat \<Rightarrow> u32 \<Rightarrow> u32 \<Rightarrow> (nat \<times> u32 list) list \<Rightarrow> SkelDrvrConnection list \<Rightarrow> bool \<times> SkelDrvrConnection list" where
  "skel_fill_client_connections limit pid modnr [] acc = (False, acc)"
| "skel_fill_client_connections limit pid modnr ((j, ps) # rest) acc =
    (case fill_client_list limit pid modnr j ps acc of
       (True, acc1) \<Rightarrow> (True, acc1)
     | (False, acc1) \<Rightarrow> skel_fill_client_connections limit pid modnr rest acc1)"

text \<open>The lists of connected clients of a module, by interrupt, as the pids of the clients.\<close>

definition client_pids :: "skel_consts \<Rightarrow> ('b, 'u) skel \<Rightarrow> SkelDrvrModuleContext \<Rightarrow> (nat \<times> u32 list) list" where
  "client_pids k s m =
    map (\<lambda>j. (j, map (\<lambda>c. case w_heap s c of Some ccon \<Rightarrow> cc_Pid ccon | None \<Rightarrow> 0) (mc_clients m ! j)))
      [0..<k_INTERRUPTS k]"

fun collect_connections ::
    "skel_consts \<Rightarrow> ('b, 'u) skel \<Rightarrow> u32 \<Rightarrow> SkelDrvrModuleContext list \<Rightarrow> SkelDrvrConnection list \<Rightarrow> SkelDrvrConnection list" where
  "collect_connections k s pid [] acc = acc"
| "collect_connections k s pid (m # ms) acc =
    (if \<not> mc_InUse m then collect_connections k s pid ms acc
     else case skel_fill_client_connections (k_CONNECTIONS k) pid (mc_ModuleNumber m) (client_pids k s m) acc of
         (True, acc1) \<Rightarrow> acc1
       | (False, acc1) \<Rightarrow> collect_connections k s pid ms acc1)"

definition skel_get_client_connections ::
    "skel_consts \<Rightarrow> SkelDrvrClientContext \<Rightarrow> u32 \<Rightarrow> ('b, 'u) skel \<Rightarrow> SkelDrvrConnection list" where
  "skel_get_client_connections k ccon pid s =
    collect_connections k s (if pid = 0 then cc_Pid ccon else pid) (take (k_MODULE_CONTEXTS k) (w_Modules s)) []"

definition Reset :: "'u skel_user \<Rightarrow> nat \<Rightarrow> ('b, 'u) skel \<Rightarrow> ('b, 'u) skel" where
  "Reset usr i s =
    (let s1 = upd_user (u_HardwareReset usr i) s;
         s2 = upd_user (u_EnableInterrupts usr i (mc_enabled_ints (w_Modules s1 ! i))) s1
     in upd_module i (\<lambda>m. m\<lparr>mc_Semaphore := ssignal (sreset (mc_Semaphore m))\<rparr>) s2)"

definition UnLockModule :: "nat \<Rightarrow> ('b, 'u) skel \<Rightarrow> ('b, 'u) skel" where
  "UnLockModule i s = upd_module i (\<lambda>m. m\<lparr>mc_Semaphore := ssignal (mc_Semaphore m)\<rparr>) s"

definition LockModule :: "nat \<Rightarrow> bool \<Rightarrow> nat \<Rightarrow> ('b, 'u) skel \<Rightarrow> wait_result \<times> ('b, 'u) skel" where
  "LockModule task use_timer i s =
    (let m = w_Modules s ! i;
         ticks = (if use_timer \<and> mc_Timeout m \<noteq> 0 then sint (mc_Timeout m) else -1)
     in case tswait task ticks (mc_Semaphore m) of
          (r, sem) \<Rightarrow> (r, upd_module i (\<lambda>m. m\<lparr>mc_Semaphore := sem\<rparr>) s))"

text \<open>The end of \<open>JTAG_OPEN\<close> once the lock is taken, now or after a sleep.\<close>

definition jtag_opened :: "nat \<Rightarrow> ('b, 'u) skel \<Rightarrow> ('b, 'u) skel" where
  "jtag_opened i s = upd_module i (update_mcon_status STATUS_FLASH_OPEN) s"

definition jtag_open :: "nat \<Rightarrow> nat \<Rightarrow> ('b, 'u) skel \<Rightarrow> skel_result \<times> ('b, 'u) skel" where
  "jtag_open task i s =
    (case LockModule task False i s of
       (WaitOk, s1) \<Rightarrow> (IoOk NoOut, jtag_opened i s1)
     | (WaitSleeps, s1) \<Rightarrow> (IoSleeps, s1)
     | (WaitFailed, s1) \<Rightarrow> (IoErr ENOTTY, s1))"

definition jtag_close :: "'u skel_user \<Rightarrow> nat \<Rightarrow> ('b, 'u) skel \<Rightarrow> ('b, 'u) skel" where
  "jtag_close usr i s =
    UnLockModule i (Reset usr i
      (upd_module i (\<lambda>m. clear_mcon_status STATUS_FLASH_OPEN m\<lparr>mc_FlashOpen := 0\<rparr>) s))"

section \<open>The switch\<close>

text \<open>Commands on the calling client and on the driver.\<close>

definition client_cmd ::
    "skel_consts \<Rightarrow> 'u skel_user \<Rightarrow> (nat \<Rightarrow> bool) \<Rightarrow> nat \<Rightarrow> SkelDrvrClientContext \<Rightarrow> skel_cmd \<Rightarrow> ('b, 'u) skel \<Rightarrow>
     (skel_result \<times> ('b, 'u) skel) option" where
  "client_cmd k usr mem c ccon cmd s =
    (case cmd of
       SET_DEBUG v \<Rightarrow> Some (IoOk NoOut, upd_client c (\<lambda>x. x\<lparr>cc_Debug := v\<rparr>) s)
     | GET_DEBUG \<Rightarrow> Some (IoOk (OutWord (cc_Debug ccon)), s)
     | SET_TIMEOUT v \<Rightarrow> Some (IoOk NoOut, upd_client c (\<lambda>x. x\<lparr>cc_Timeout := v\<rparr>) s)
     | GET_TIMEOUT \<Rightarrow> Some (IoOk (OutWord (cc_Timeout ccon)), s)
     | SET_QUEUE_FLAG v \<Rightarrow> Some (IoOk NoOut, upd_client c (\<lambda>x. x\<lparr>cc_Queue := set_queue_flag v (cc_Queue x)\<rparr>) s)
     | GET_QUEUE_FLAG \<Rightarrow> Some (IoOk (OutWord (of_bool (get_queue_flag (cc_Queue ccon)))), s)
     | GET_QUEUE_SIZE \<Rightarrow> Some (IoOk (OutInt (get_queue_size (cc_Queue ccon))), s)
     | GET_QUEUE_OVERFLOW \<Rightarrow>
         (case get_queue_overflow (cc_Queue ccon) of
            (n, q) \<Rightarrow> Some (IoOk (OutWord (ucast n)), upd_client c (\<lambda>x. x\<lparr>cc_Queue := q\<rparr>) s))
     | SET_MODULE v \<Rightarrow>
         Some (if get_mcon v s = None then (IoErr ENODEV, s)
               else (IoOk NoOut, upd_client c (\<lambda>x. x\<lparr>cc_ModuleNumber := v\<rparr>) s))
     | GET_MODULE \<Rightarrow> Some (IoOk (OutWord (cc_ModuleNumber ccon)), s)
     | GET_MODULE_COUNT \<Rightarrow> Some (IoOk (OutWord (of_nat (w_InstalledModules s))), s)
     | CONNECT conx \<Rightarrow>
         Some (IoOk NoOut,
           if cx_ConMask conx \<noteq> 0 then Connect k usr mem c conx s
           else if cx_Module conx = 0 then DisConnectAll k usr c s
           else DisConnect k usr c conx s)
     | GET_CLIENT_LIST \<Rightarrow> Some (IoOk (OutPids (skel_get_client_list k s)), s)
     | GET_CLIENT_CONNECTIONS pid \<Rightarrow> Some (IoOk (OutConnections (skel_get_client_connections k ccon pid s)), s)
     | _ \<Rightarrow> None)"

text \<open>Commands on the selected module \<open>i\<close>.\<close>

definition module_cmd ::
    "'b bus_ops \<Rightarrow> 'u skel_user \<Rightarrow> bool \<Rightarrow> bool \<Rightarrow> (nat \<Rightarrow> u8) \<Rightarrow> nat \<Rightarrow> nat \<Rightarrow> skel_cmd \<Rightarrow> ('b, 'u) skel \<Rightarrow>
     skel_result \<times> ('b, 'u) skel" where
  "module_cmd ops usr cpu_big brk_ok junk task i cmd s =
    (let m = w_Modules s ! i in
     case cmd of
       GET_VERSION \<Rightarrow> (case u_GetModuleVersion usr i (w_user s) of (v, u1) \<Rightarrow> (IoOk (OutVersion v), s\<lparr>w_user := u1\<rparr>))
     | GET_MODULE_MAPS \<Rightarrow> (IoOk (OutMaps (get_module_maps_ioctl m)), s)
     | ENABLE v \<Rightarrow>
         (case u_HardwareEnable usr i v (w_user s) of
            (ret, u1) \<Rightarrow>
              (IoOk NoOut, upd_module i
                 (if ret = UserOK then clear_mcon_status STATUS_DISABLED else update_mcon_status STATUS_DISABLED)
                 (s\<lparr>w_user := u1\<rparr>)))
     | RESET \<Rightarrow> (IoOk NoOut, Reset usr i s)
     | GET_STATUS \<Rightarrow>
         (case u_GetHardwareStatus usr i (w_user s) of
            (h, u1) \<Rightarrow> (IoOk (OutStatus (mc_StandardStatus m) h), s\<lparr>w_user := u1\<rparr>))
     | JTAG_OPEN \<Rightarrow> jtag_open task i s
     | JTAG_CLOSE \<Rightarrow> (IoOk NoOut, jtag_close usr i s)
     | JTAG_READ_BYTE \<Rightarrow>
         if has_status STATUS_FLASH_OPEN m then
           (case u_JtagReadByte usr i (w_user s) of
              (ret, v, u1) \<Rightarrow> (if ret = UserOK then IoOk (OutWord v) else IoErr EBUSY, s\<lparr>w_user := u1\<rparr>))
         else (IoErr EBUSY, s)
     | JTAG_WRITE_BYTE v \<Rightarrow>
         if has_status STATUS_FLASH_OPEN m then
           (case u_JtagWriteByte usr i (v AND 0xFF) (w_user s) of
              (ret, u1) \<Rightarrow> (if ret = UserOK then IoOk NoOut else IoErr EBUSY, s\<lparr>w_user := u1\<rparr>))
         else (IoErr EBUSY, s)
     | RAW_READ riob \<Rightarrow>
         (case RawIo ops m riob False (w_bus s) of
            None \<Rightarrow> (Oops, s)
          | Some (OK, r, b1) \<Rightarrow> (IoOk (OutRaw r), s\<lparr>w_bus := b1\<rparr>)
          | Some (Err e, r, b1) \<Rightarrow> (IoErr e, s\<lparr>w_bus := b1\<rparr>))
     | RAW_WRITE riob \<Rightarrow>
         (case RawIo ops m riob True (w_bus s) of
            None \<Rightarrow> (Oops, s)
          | Some (OK, r, b1) \<Rightarrow> (IoOk (OutRaw r), s\<lparr>w_bus := b1\<rparr>)
          | Some (Err e, r, b1) \<Rightarrow> (IoErr e, s\<lparr>w_bus := b1\<rparr>))
     | RAW_BLOCK_READ riob ubuf \<Rightarrow>
         (case RawIoBlock ops cpu_big brk_ok junk m riob False ubuf (w_bus s) of
            None \<Rightarrow> (Oops, s)
          | Some (OK, ub, b1) \<Rightarrow> (IoOk (OutBytes ub), s\<lparr>w_bus := b1\<rparr>)
          | Some (Err e, ub, b1) \<Rightarrow> (IoErr e, s\<lparr>w_bus := b1\<rparr>))
     | RAW_BLOCK_WRITE riob ubuf \<Rightarrow>
         (case RawIoBlock ops cpu_big brk_ok junk m riob True ubuf (w_bus s) of
            None \<Rightarrow> (Oops, s)
          | Some (OK, ub, b1) \<Rightarrow> (IoOk NoOut, s\<lparr>w_bus := b1\<rparr>)
          | Some (Err e, ub, b1) \<Rightarrow> (IoErr e, s\<lparr>w_bus := b1\<rparr>))
     | _ \<Rightarrow> (IoErr ENOTTY, s))"

text \<open>
  \<open>user_range\<close> are the first and the last command number of the user's bottom half. The
  selected module may be missing; only the commands that need it notice.
\<close>

definition SkelDrvrIoctl ::
    "skel_consts \<Rightarrow> 'b bus_ops \<Rightarrow> 'u skel_user \<Rightarrow> nat \<times> nat \<Rightarrow> bool \<Rightarrow> (nat \<Rightarrow> bool) \<Rightarrow> bool \<Rightarrow> (nat \<Rightarrow> u8) \<Rightarrow>
     nat \<Rightarrow> nat \<Rightarrow> skel_cmd \<Rightarrow> ('b, 'u) skel \<Rightarrow> skel_result \<times> ('b, 'u) skel" where
  "SkelDrvrIoctl k ops usr user_range cpu_big mem brk_ok junk task flp cmd s =
    (case skel_get_ccon flp s of
       None \<Rightarrow> (IoErr EBADF, s)
     | Some c \<Rightarrow>
         (case w_heap s c of
            None \<Rightarrow> (Oops, s)
          | Some ccon \<Rightarrow>
              let mcon = get_mcon (cc_ModuleNumber ccon) s in
              case client_cmd k usr mem c ccon cmd s of
                Some r \<Rightarrow> r
              | None \<Rightarrow>
                  case cmd of
                    UNKNOWN_CMD \<Rightarrow> (IoErr ENOTTY, s)
                  | GET_CLEAR_STATUS \<Rightarrow> (IoErr ENOTTY, s)
                  | USER_CMD nr arg \<Rightarrow>
                      if fst user_range \<le> nr \<and> nr \<le> snd user_range then
                        (case mcon of
                           None \<Rightarrow> (IoErr EINVAL, s)
                         | Some i \<Rightarrow>
                             (case u_Ioctls usr c i nr arg (w_user s) of
                                (ret, u1) \<Rightarrow> (if ret = UserOK then IoOk NoOut else IoUserFail, s\<lparr>w_user := u1\<rparr>)))
                      else (IoErr ENOTTY, s)
                  | _ \<Rightarrow> (case mcon of
                       None \<Rightarrow> (Oops, s)
                     | Some i \<Rightarrow> module_cmd ops usr cpu_big brk_ok junk task i cmd s)))"

end
