(* ===== verification/Skel_Inv.thy ===== *)
theory Skel_Inv
  imports Skel_Ioctl
begin

text \<open>
  The invariant of the skeleton driver and its preservation by every operation: the lists
  of connected clients hold addresses of open clients only, each at most once, and every
  client has selected an installed module and keeps the indices of its queue in range.
\<close>

section \<open>The invariant\<close>

definition links_ok :: "skel_consts \<Rightarrow> ('b, 'u) skel \<Rightarrow> bool" where
  "links_ok k s \<longleftrightarrow>
    0 < w_InstalledModules s \<and> w_InstalledModules s \<le> length (w_Modules s) \<and>
    distinct (w_clients s) \<and> set (w_clients s) = dom (w_heap s) \<and>
    (\<forall>i < w_InstalledModules s.
      mc_ModuleNumber (w_Modules s ! i) \<noteq> 0 \<and> length (mc_clients (w_Modules s ! i)) = k_INTERRUPTS k \<and>
      (\<forall>j < k_INTERRUPTS k.
        distinct (mc_clients (w_Modules s ! i) ! j) \<and>
        set (mc_clients (w_Modules s ! i) ! j) \<subseteq> dom (w_heap s) \<and>
        (mc_clients (w_Modules s ! i) ! j \<noteq> [] \<longrightarrow> get_mcon (mc_ModuleNumber (w_Modules s ! i)) s = Some i)))"

definition client_ok :: "skel_consts \<Rightarrow> ('b, 'u) skel \<Rightarrow> SkelDrvrClientContext \<Rightarrow> bool" where
  "client_ok k s ccon \<longleftrightarrow> q_bounds (k_QUEUE_SIZE k) (cc_Queue ccon) \<and> get_mcon (cc_ModuleNumber ccon) s \<noteq> None"

definition heap_ok :: "skel_consts \<Rightarrow> ('b, 'u) skel \<Rightarrow> bool" where
  "heap_ok k s \<longleftrightarrow>
    (\<forall>c ccon. w_heap s c = Some ccon \<longrightarrow> client_ok k s ccon) \<and>
    (\<forall>c d x y. w_heap s c = Some x \<longrightarrow> w_heap s d = Some y \<longrightarrow> cc_cdcmf x = cc_cdcmf y \<longrightarrow> c = d)"

definition skel_ok :: "skel_consts \<Rightarrow> ('b, 'u) skel \<Rightarrow> bool" where
  "skel_ok k s \<longleftrightarrow> links_ok k s \<and> heap_ok k s \<and> 0 < k_QUEUE_SIZE k \<and> k_INTERRUPTS k \<le> 32"

section \<open>What the invariant depends on\<close>

text \<open>Numbers, connection lists and clients; the rest of a module is of no concern to it.\<close>

definition skeleton :: "('b, 'u) skel \<Rightarrow> nat \<times> nat list \<times> (u32 \<times> nat list list) list" where
  "skeleton s = (w_InstalledModules s, w_clients s, map (\<lambda>m. (mc_ModuleNumber m, mc_clients m)) (w_Modules s))"

definition numbers :: "('b, 'u) skel \<Rightarrow> nat \<times> u32 list" where
  "numbers s = (w_InstalledModules s, map mc_ModuleNumber (w_Modules s))"

lemma skeleton_numbers: "skeleton s = skeleton t \<Longrightarrow> numbers s = numbers t"
proof -
  assume "skeleton s = skeleton t"
  then have "map fst (snd (snd (skeleton s))) = map fst (snd (snd (skeleton t)))" by simp
  then show ?thesis using \<open>skeleton s = skeleton t\<close> by (simp add: skeleton_def numbers_def comp_def)
qed

lemma get_mcon_cong:
  assumes "numbers s = numbers t" and "w_InstalledModules s \<le> length (w_Modules s)"
  shows "get_mcon n s = get_mcon n t"
proof -
  have len: "length (w_Modules s) = length (w_Modules t)" and inst: "w_InstalledModules s = w_InstalledModules t"
    using assms(1) by (auto simp: numbers_def dest: map_eq_imp_length_eq)
  have "mc_ModuleNumber (w_Modules s ! i) = mc_ModuleNumber (w_Modules t ! i)" if "i < w_InstalledModules s" for i
    using assms that len by (auto simp: numbers_def list_eq_iff_nth_eq)
  then show ?thesis unfolding get_mcon_def inst [symmetric] by (intro find_cong) auto
qed

lemma skeleton_nth:
  assumes "skeleton s = skeleton t" and "i < length (w_Modules s)"
  shows "mc_ModuleNumber (w_Modules s ! i) = mc_ModuleNumber (w_Modules t ! i)"
    and "mc_clients (w_Modules s ! i) = mc_clients (w_Modules t ! i)"
  using assms by (auto simp: skeleton_def list_eq_iff_nth_eq)

lemma links_ok_cong:
  assumes "skeleton s = skeleton t" and "dom (w_heap s) = dom (w_heap t)" and "links_ok k s"
  shows "links_ok k t"
proof -
  have eq: "w_InstalledModules t = w_InstalledModules s" "w_clients t = w_clients s" "length (w_Modules t) = length (w_Modules s)"
    using assms(1) by (auto simp: skeleton_def dest: map_eq_imp_length_eq)
  have le: "w_InstalledModules s \<le> length (w_Modules s)" using assms(3) by (simp add: links_ok_def)
  have mod_eq: "mc_ModuleNumber (w_Modules t ! i) = mc_ModuleNumber (w_Modules s ! i)"
    "mc_clients (w_Modules t ! i) = mc_clients (w_Modules s ! i)" if "i < w_InstalledModules s" for i
    using skeleton_nth [OF assms(1), of i] that le by auto
  have "get_mcon n t = get_mcon n s" for n
    using get_mcon_cong [OF skeleton_numbers [OF assms(1)] le] by simp
  then show ?thesis using assms(2,3) eq mod_eq by (simp add: links_ok_def)
qed

lemma skel_ok_cong:
  assumes "skel_ok k s" and "skeleton s = skeleton t" and "dom (w_heap s) = dom (w_heap t)"
    and "\<And>c x y. w_heap s c = Some x \<Longrightarrow> w_heap t c = Some y \<Longrightarrow>
      q_bounds (k_QUEUE_SIZE k) (cc_Queue x) \<Longrightarrow>
      q_bounds (k_QUEUE_SIZE k) (cc_Queue y) \<and> get_mcon (cc_ModuleNumber y) s \<noteq> None \<and> cc_cdcmf y = cc_cdcmf x"
  shows "skel_ok k t"
proof -
  have "w_InstalledModules s \<le> length (w_Modules s)" using assms(1) by (simp add: skel_ok_def links_ok_def)
  then have get: "get_mcon n t = get_mcon n s" for n
    using get_mcon_cong [OF skeleton_numbers [OF assms(2)]] by simp
  have pre: "\<exists>x. w_heap s c = Some x \<and> cc_cdcmf y = cc_cdcmf x \<and> client_ok k t y" if "w_heap t c = Some y" for c y
  proof -
    have "c \<in> dom (w_heap s)" using that assms(3) by (simp add: domI)
    then obtain x where x: "w_heap s c = Some x" by blast
    moreover have "q_bounds (k_QUEUE_SIZE k) (cc_Queue x)"
      using assms(1) x by (auto simp: skel_ok_def heap_ok_def client_ok_def)
    ultimately show ?thesis using assms(4) [OF x that] by (auto simp: client_ok_def get)
  qed
  have "heap_ok k t"
    unfolding heap_ok_def
  proof (intro conjI allI impI)
    fix c y assume "w_heap t c = Some y"
    then show "client_ok k t y" using pre by blast
  next
    fix c d x y assume "w_heap t c = Some x" and "w_heap t d = Some y" and "cc_cdcmf x = cc_cdcmf y"
    then show "c = d" using pre [of c x] pre [of d y] assms(1) by (auto simp: skel_ok_def heap_ok_def)
  qed
  then show ?thesis using assms(1) links_ok_cong [OF assms(2,3)] by (simp add: skel_ok_def)
qed

named_theorems skel_frame \<open>what an operation of the skeleton driver leaves alone\<close>
named_theorems skel_keeps \<open>an operation of the skeleton driver keeps its invariant\<close>

lemma upd_user_frame [simp]:
  "skeleton (upd_user f s) = skeleton s" "w_heap (upd_user f s) = w_heap s" "w_Modules (upd_user f s) = w_Modules s"
  "w_clients (upd_user f s) = w_clients s" "w_InstalledModules (upd_user f s) = w_InstalledModules s"
  "w_bus (upd_user f s) = w_bus s" "numbers (upd_user f s) = numbers s"
  by (simp_all add: upd_user_def skeleton_def numbers_def)

lemma upd_client_frame [simp]:
  "skeleton (upd_client c f s) = skeleton s" "w_Modules (upd_client c f s) = w_Modules s"
  "w_clients (upd_client c f s) = w_clients s" "w_InstalledModules (upd_client c f s) = w_InstalledModules s"
  "dom (w_heap (upd_client c f s)) = dom (w_heap s)" "w_user (upd_client c f s) = w_user s"
  "numbers (upd_client c f s) = numbers s"
  by (auto simp: upd_client_def skeleton_def numbers_def)

lemma w_heap_upd_client [simp]: "w_heap (upd_client c f s) = (w_heap s)(c := map_option f (w_heap s c))"
  by (simp add: upd_client_def)

lemma upd_module_frame [simp]:
  "w_heap (upd_module i f s) = w_heap s" "w_clients (upd_module i f s) = w_clients s"
  "w_InstalledModules (upd_module i f s) = w_InstalledModules s" "w_user (upd_module i f s) = w_user s"
  "w_Modules (upd_module i f s) = (w_Modules s)[i := f (w_Modules s ! i)]"
  by (simp_all add: upd_module_def)

lemma map_update_same: "g y = g (xs ! i) \<Longrightarrow> map g (xs[i := y]) = map g xs"
  by (cases "i < length xs") (simp_all add: map_update list_update_same_conv list_update_beyond)

lemma skeleton_upd_module [simp]:
  assumes "mc_ModuleNumber (f (w_Modules s ! i)) = mc_ModuleNumber (w_Modules s ! i)"
    and "mc_clients (f (w_Modules s ! i)) = mc_clients (w_Modules s ! i)"
  shows "skeleton (upd_module i f s) = skeleton s"
  using assms by (simp add: skeleton_def map_update_same)

lemma numbers_upd_module [simp]:
  assumes "mc_ModuleNumber (f (w_Modules s ! i)) = mc_ModuleNumber (w_Modules s ! i)"
  shows "numbers (upd_module i f s) = numbers s"
  using assms by (simp add: numbers_def map_update_same)

lemma skel_ok_frame: "skel_ok k s \<Longrightarrow> skeleton t = skeleton s \<Longrightarrow> w_heap t = w_heap s \<Longrightarrow> skel_ok k t"
  by (rule skel_ok_cong [of k s]) (auto simp: skel_ok_def heap_ok_def client_ok_def)

lemma skel_ok_upd_client:
  assumes "skel_ok k s"
    and "\<And>x. w_heap s c = Some x \<Longrightarrow> q_bounds (k_QUEUE_SIZE k) (cc_Queue x) \<Longrightarrow>
      q_bounds (k_QUEUE_SIZE k) (cc_Queue (f x)) \<and> get_mcon (cc_ModuleNumber (f x)) s \<noteq> None \<and> cc_cdcmf (f x) = cc_cdcmf x"
  shows "skel_ok k (upd_client c f s)"
proof (rule skel_ok_cong [OF assms(1)])
  fix d x y
  assume "w_heap s d = Some x" and "w_heap (upd_client c f s) d = Some y" and "q_bounds (k_QUEUE_SIZE k) (cc_Queue x)"
  then show "q_bounds (k_QUEUE_SIZE k) (cc_Queue y) \<and> get_mcon (cc_ModuleNumber y) s \<noteq> None \<and> cc_cdcmf y = cc_cdcmf x"
    using assms by (cases "d = c") (auto simp: skel_ok_def heap_ok_def client_ok_def)
qed (simp_all del: w_heap_upd_client)

text \<open>The common case: the queue stays in bounds and the selected module is the same.\<close>

lemma skel_ok_upd_queue:
  assumes "skel_ok k s"
    and "\<And>x. q_bounds (k_QUEUE_SIZE k) (cc_Queue x) \<Longrightarrow> q_bounds (k_QUEUE_SIZE k) (cc_Queue (f x))"
    and "\<And>x. cc_ModuleNumber (f x) = cc_ModuleNumber x \<and> cc_cdcmf (f x) = cc_cdcmf x"
  shows "skel_ok k (upd_client c f s)"
  using assms by (intro skel_ok_upd_client) (auto simp: skel_ok_def heap_ok_def client_ok_def)

lemma q_put_frame [simp]:
  "cc_ModuleNumber (q_put N rb x) = cc_ModuleNumber x" "cc_cdcmf (q_put N rb x) = cc_cdcmf x"
  "cc_Pid (q_put N rb x) = cc_Pid x"
  by (simp_all add: q_put_def Let_def)

lemma skel_ok_put_queues: "skel_ok k s \<Longrightarrow> skel_ok k (put_queues (k_QUEUE_SIZE k) rb cs s)"
  unfolding put_queues_def by (induction cs arbitrary: s) (simp_all add: skel_ok_upd_queue)

lemma skel_ok_fill: "skel_ok k s \<Longrightarrow> skel_ok k (fill_clients_queues k i rb imask s)"
  unfolding fill_clients_queues_def
  by (rule fold_invariant [where Q = "\<lambda>_. True"]) (simp_all add: fill_interrupt_def Let_def skel_ok_put_queues)

lemma skel_ok_user [simp]: "skel_ok k s \<Longrightarrow> skel_ok k (s\<lparr>w_user := u\<rparr>)"
  by (erule skel_ok_frame) (simp_all add: skeleton_def)

lemma skel_ok_bus [simp]: "skel_ok k s \<Longrightarrow> skel_ok k (s\<lparr>w_bus := b\<rparr>)"
  by (erule skel_ok_frame) (simp_all add: skeleton_def)

lemma skel_ok_upd_user [simp]: "skel_ok k s \<Longrightarrow> skel_ok k (upd_user f s)"
  by (erule skel_ok_frame) simp_all

lemma skel_ok_upd_module:
  assumes "skel_ok k s" and "\<And>m. mc_ModuleNumber (f m) = mc_ModuleNumber m" and "\<And>m. mc_clients (f m) = mc_clients m"
  shows "skel_ok k (upd_module i f s)"
  using assms by (intro skel_ok_frame [OF assms(1)]) simp_all

lemma skel_ok_IntrHandler [skel_keeps]: "skel_ok k s \<Longrightarrow> skel_ok k (IntrHandler k usr i s)"
  by (auto simp: IntrHandler_def Let_def skel_ok_fill split: prod.split)

lemma skel_ok_Write [skel_keeps]: "skel_ok k s \<Longrightarrow> SkelDrvrWrite k usr conx s = (r, t) \<Longrightarrow> skel_ok k t"
  by (auto simp: SkelDrvrWrite_def skel_ok_fill split: prod.splits option.splits)

section \<open>Connections\<close>

text \<open>Changing one connection list: the new list holds open clients, each once.\<close>

definition set_list :: "nat \<Rightarrow> nat \<Rightarrow> nat list \<Rightarrow> ('b, 'u) skel \<Rightarrow> ('b, 'u) skel" where
  "set_list i j cs s = upd_module i (\<lambda>m. m\<lparr>mc_clients := (mc_clients m)[j := cs]\<rparr>) s"

definition conns :: "('b, 'u) skel \<Rightarrow> nat \<Rightarrow> nat \<Rightarrow> nat list" where
  "conns s i j = mc_clients (w_Modules s ! i) ! j"

lemma numbers_set_list [simp]: "numbers (set_list i j cs s) = numbers s"
  by (simp add: set_list_def)

lemma skel_ok_installed: "skel_ok k s \<Longrightarrow> w_InstalledModules s \<le> length (w_Modules s)"
  by (simp add: skel_ok_def links_ok_def)

lemma get_mcon_bound: "get_mcon n s = Some i \<Longrightarrow> i < w_InstalledModules s \<and> mc_ModuleNumber (w_Modules s ! i) = n"
  by (auto simp: get_mcon_def find_Some_iff)

lemma skel_ok_set_list:
  assumes ok: "skel_ok k s" and i: "get_mcon (mc_ModuleNumber (w_Modules s ! i)) s = Some i" and j: "j < k_INTERRUPTS k"
    and cs: "distinct cs" "set cs \<subseteq> dom (w_heap s)"
  shows "skel_ok k (set_list i j cs s)"
proof -
  let ?t = "set_list i j cs s"
  have le: "w_InstalledModules s \<le> length (w_Modules s)" using ok by (rule skel_ok_installed)
  then have bound: "i < length (w_Modules s)" using get_mcon_bound [OF i] by simp
  have get: "get_mcon n ?t = get_mcon n s" for n
    using get_mcon_cong [OF numbers_set_list, of i j cs s] le by (simp add: set_list_def)
  have nth: "mc_ModuleNumber (w_Modules ?t ! i') = mc_ModuleNumber (w_Modules s ! i')"
    "mc_clients (w_Modules ?t ! i') = (if i' = i then (mc_clients (w_Modules s ! i))[j := cs] else mc_clients (w_Modules s ! i'))"
    for i' using bound by (auto simp: set_list_def nth_list_update)
  have frame: "w_heap ?t = w_heap s" "w_clients ?t = w_clients s" "w_InstalledModules ?t = w_InstalledModules s"
    "length (w_Modules ?t) = length (w_Modules s)" by (simp_all add: set_list_def)
  have "links_ok k ?t"
    using ok i j cs unfolding skel_ok_def links_ok_def frame nth get by (auto simp: nth_list_update)
  moreover have "heap_ok k ?t"
    using ok by (simp add: skel_ok_def heap_ok_def client_ok_def frame get)
  ultimately show ?thesis using ok by (simp add: skel_ok_def)
qed

text \<open>Both operations, as a change of one list followed by changes the invariant does not see.\<close>

definition keeps_conns :: "('b, 'u) skel \<Rightarrow> ('b, 'u) skel \<Rightarrow> bool" where
  "keeps_conns s t \<longleftrightarrow> skeleton t = skeleton s \<and> w_heap t = w_heap s"

lemma enable_keeps:
  "keeps_conns s (upd_user f (upd_module i (\<lambda>m. m\<lparr>mc_enabled_ints := g m\<rparr>) s))"
  by (simp add: keeps_conns_def)

lemma keeps_conns_refl [simp]: "keeps_conns s s"
  by (simp add: keeps_conns_def)

lemma disconnect_one_cases:
  "keeps_conns (if imsk AND push_bit j 1 = 0 \<or> c \<notin> set (conns s i j) then s else set_list i j (remove1 c (conns s i j)) s)
    (disconnect_one usr c i imsk j s)"
  by (auto simp: disconnect_one_def conns_def set_list_def Let_def enable_keeps)

lemma connect_one_cases:
  "keeps_conns (if imsk AND push_bit j 1 = 0 \<or> c \<in> set (conns s i j) \<or> \<not> mem j then s else set_list i j (c # conns s i j) s)
    (connect_one usr mem c i imsk j s)"
  by (auto simp: connect_one_def conns_def set_list_def Let_def enable_keeps)

lemma keeps_connsD:
  assumes "keeps_conns s t"
  shows "skel_ok k s \<Longrightarrow> skel_ok k t" and "numbers t = numbers s" and "w_heap t = w_heap s"
    and "w_clients t = w_clients s" and "length (w_Modules t) = length (w_Modules s)"
    and "i < length (w_Modules s) \<Longrightarrow> conns t i j = conns s i j"
proof -
  have sk: "skeleton t = skeleton s" and hp: "w_heap t = w_heap s" using assms by (simp_all add: keeps_conns_def)
  show "skel_ok k s \<Longrightarrow> skel_ok k t" using sk hp by (rule skel_ok_frame [rotated])
  show "numbers t = numbers s" using sk by (rule skeleton_numbers)
  show "w_heap t = w_heap s" by (rule hp)
  show "w_clients t = w_clients s" using sk by (simp add: skeleton_def)
  show len: "length (w_Modules t) = length (w_Modules s)" using sk by (auto simp: skeleton_def dest: map_eq_imp_length_eq)
  show "i < length (w_Modules s) \<Longrightarrow> conns t i j = conns s i j"
    using skeleton_nth(2) [OF sk] len by (simp add: conns_def)
qed

text \<open>Invariant of the loops over the interrupts of a module: \<open>s\<close> before, \<open>t\<close> on the way.\<close>

definition loop_ok :: "skel_consts \<Rightarrow> ('b, 'u) skel \<Rightarrow> ('b, 'u) skel \<Rightarrow> bool" where
  "loop_ok k s t \<longleftrightarrow> skel_ok k t \<and> numbers t = numbers s \<and> w_heap t = w_heap s \<and> w_clients t = w_clients s \<and>
    length (w_Modules t) = length (w_Modules s)"

lemma loop_ok_refl: "skel_ok k s \<Longrightarrow> loop_ok k s s"
  by (simp add: loop_ok_def)

lemma loop_ok_trans: "loop_ok k s t \<Longrightarrow> loop_ok k t u \<Longrightarrow> loop_ok k s u"
  by (simp add: loop_ok_def)

lemma numbers_get_mcon: "loop_ok k s t \<Longrightarrow> get_mcon n t = get_mcon n s"
  unfolding loop_ok_def by (rule get_mcon_cong) (auto dest!: skel_ok_installed)

lemma numbers_nth: "loop_ok k s t \<Longrightarrow> i < length (w_Modules s) \<Longrightarrow>
    mc_ModuleNumber (w_Modules t ! i) = mc_ModuleNumber (w_Modules s ! i) \<and> w_InstalledModules t = w_InstalledModules s"
  by (auto simp: loop_ok_def numbers_def list_eq_iff_nth_eq)

lemma loop_ok_set_list:
  assumes "skel_ok k s" and "get_mcon (mc_ModuleNumber (w_Modules s ! i)) s = Some i" and "j < k_INTERRUPTS k"
    and "distinct cs" and "set cs \<subseteq> dom (w_heap s)"
  shows "loop_ok k s (set_list i j cs s)"
  using skel_ok_set_list [OF assms] by (simp add: loop_ok_def) (simp add: set_list_def)

lemma loop_ok_keeps: "skel_ok k s \<Longrightarrow> keeps_conns s t \<Longrightarrow> loop_ok k s t"
  by (simp add: loop_ok_def keeps_connsD)

lemma conns_ok:
  "skel_ok k s \<Longrightarrow> i < w_InstalledModules s \<Longrightarrow> j < k_INTERRUPTS k \<Longrightarrow>
    distinct (conns s i j) \<and> set (conns s i j) \<subseteq> dom (w_heap s)"
  by (simp add: skel_ok_def links_ok_def conns_def)

lemma disconnect_one_loop:
  assumes "skel_ok k s" and "get_mcon (mc_ModuleNumber (w_Modules s ! i)) s = Some i" and "j < k_INTERRUPTS k"
  shows "loop_ok k s (disconnect_one usr c i imsk j s)"
proof -
  have "distinct (conns s i j) \<and> set (conns s i j) \<subseteq> dom (w_heap s)"
    using assms get_mcon_bound by (intro conns_ok) auto
  then have "loop_ok k s (if imsk AND push_bit j 1 = 0 \<or> c \<notin> set (conns s i j) then s
      else set_list i j (remove1 c (conns s i j)) s)" (is "loop_ok k s ?t")
    using assms by (auto simp: loop_ok_refl intro!: loop_ok_set_list dest: notin_set_remove1)
  moreover have "skel_ok k ?t" using calculation unfolding loop_ok_def by blast
  ultimately show ?thesis using disconnect_one_cases loop_ok_keeps loop_ok_trans by blast
qed

lemma connect_one_loop:
  assumes "skel_ok k s" and "get_mcon (mc_ModuleNumber (w_Modules s ! i)) s = Some i" and "j < k_INTERRUPTS k"
    and "c \<in> dom (w_heap s)"
  shows "loop_ok k s (connect_one usr mem c i imsk j s)"
proof -
  have "distinct (conns s i j) \<and> set (conns s i j) \<subseteq> dom (w_heap s)"
    using assms get_mcon_bound by (intro conns_ok) auto
  then have "loop_ok k s (if imsk AND push_bit j 1 = 0 \<or> c \<in> set (conns s i j) \<or> \<not> mem j then s
      else set_list i j (c # conns s i j) s)" (is "loop_ok k s ?t")
    using assms by (auto simp: loop_ok_refl intro!: loop_ok_set_list)
  moreover have "skel_ok k ?t" using calculation unfolding loop_ok_def by blast
  ultimately show ?thesis using connect_one_cases loop_ok_keeps loop_ok_trans by blast
qed

lemma loop_ok_fold:
  assumes "skel_ok k s" and "\<And>j t. j \<in> set js \<Longrightarrow> loop_ok k s t \<Longrightarrow> loop_ok k t (f j t)"
  shows "loop_ok k s (fold f js s)"
  using assms(2)
proof (induction js rule: rev_induct)
  case Nil
  then show ?case using assms(1) by (simp add: loop_ok_refl)
next
  case (snoc j js)
  have "loop_ok k s (fold f js s)" using snoc by simp
  then show ?case using snoc.prems [of j] loop_ok_trans by fastforce
qed

lemma loop_ok_ok: "loop_ok k s t \<Longrightarrow> skel_ok k t"
  by (simp add: loop_ok_def)

lemma loop_ok_module:
  assumes "loop_ok k s t" and "get_mcon n s = Some i" and "skel_ok k s"
  shows "get_mcon (mc_ModuleNumber (w_Modules t ! i)) t = Some i"
  using get_mcon_bound [OF assms(2)] skel_ok_installed [OF assms(3)] numbers_nth [OF assms(1), of i]
    numbers_get_mcon [OF assms(1)] assms(2) by auto

lemma Connect_loop:
  assumes "skel_ok k s" and "c \<in> dom (w_heap s)"
  shows "loop_ok k s (Connect k usr mem c conx s)"
proof (cases "connection_module c conx s")
  case None
  then show ?thesis using assms by (simp add: Connect_def loop_ok_refl)
next
  case (Some i)
  then obtain n where n: "get_mcon n s = Some i"
    by (auto simp: connection_module_def split: if_splits option.splits)
  have "loop_ok k t (connect_one usr mem c i imsk j t)" if "loop_ok k s t" "j < k_INTERRUPTS k" for imsk j t
    using connect_one_loop [OF loop_ok_ok loop_ok_module [OF that(1) n assms(1)] that(2)] that(1) assms(2)
    by (auto simp: loop_ok_def)
  then show ?thesis using Some assms by (auto simp: Connect_def intro!: loop_ok_fold)
qed

lemma disconnect_module_loop:
  assumes "skel_ok k s" and "get_mcon n s = Some i"
  shows "loop_ok k s (disconnect_module k usr c i imsk s)"
proof -
  have "loop_ok k t (disconnect_one usr c i imsk j t)" if "loop_ok k s t" "j < k_INTERRUPTS k" for j t
    by (rule disconnect_one_loop [OF loop_ok_ok [OF that(1)] loop_ok_module [OF that(1) assms(2,1)] that(2)])
  then show ?thesis using assms by (auto simp: disconnect_module_def intro!: loop_ok_fold)
qed

lemma DisConnect_loop: "skel_ok k s \<Longrightarrow> loop_ok k s (DisConnect k usr c conx s)"
  by (auto simp: DisConnect_def connection_module_def loop_ok_refl split: option.splits if_splits
      intro!: disconnect_module_loop)

lemma DisConnectAll_loop: "skel_ok k s \<Longrightarrow> loop_ok k s (DisConnectAll k usr c s)"
  unfolding DisConnectAll_def by (rule loop_ok_fold) (auto intro: DisConnect_loop loop_ok_ok)

section \<open>Closing a client\<close>

definition shrinks :: "('b, 'u) skel \<Rightarrow> ('b, 'u) skel \<Rightarrow> bool" where
  "shrinks s t \<longleftrightarrow> (\<forall>i j. i < length (w_Modules s) \<longrightarrow> set (conns t i j) \<subseteq> set (conns s i j))"

definition cleared :: "nat \<Rightarrow> nat \<Rightarrow> nat \<Rightarrow> ('b, 'u) skel \<Rightarrow> bool" where
  "cleared n c i s \<longleftrightarrow> (\<forall>j < n. c \<notin> set (conns s i j))"

lemma shrinks_refl: "shrinks s s"
  by (simp add: shrinks_def)

lemma shrinks_trans: "shrinks s t \<Longrightarrow> shrinks t u \<Longrightarrow> length (w_Modules t) = length (w_Modules s) \<Longrightarrow> shrinks s u"
  by (simp add: shrinks_def) blast

lemma cleared_shrinks: "cleared n c i s \<Longrightarrow> shrinks s t \<Longrightarrow> i < length (w_Modules s) \<Longrightarrow> cleared n c i t"
  by (auto simp: cleared_def shrinks_def)

lemma conns_set_list:
  "i < length (w_Modules s) \<Longrightarrow> j < length (mc_clients (w_Modules s ! i)) \<Longrightarrow>
    conns (set_list i j cs s) i' j' = (if i' = i \<and> j' = j then cs else conns s i' j')"
  by (cases "i' = i") (simp_all add: conns_def set_list_def nth_list_update)

lemma disconnect_one_shrinks:
  assumes "i < length (w_Modules s)" and "j < length (mc_clients (w_Modules s ! i))"
  shows "shrinks s (disconnect_one usr c i imsk j s)"
proof -
  have "shrinks s (if imsk AND push_bit j 1 = 0 \<or> c \<notin> set (conns s i j) then s
      else set_list i j (remove1 c (conns s i j)) s)" (is "shrinks s ?t")
    using assms set_remove1_subset [of c "conns s i j"] by (auto simp: shrinks_def conns_set_list)
  moreover have "length (w_Modules ?t) = length (w_Modules s)" by (simp add: set_list_def)
  ultimately show ?thesis
    using keeps_connsD(6) [OF disconnect_one_cases [of imsk j c s i usr]] by (simp add: shrinks_def)
qed

lemma push_bit_1_nonzero: "j < 32 \<Longrightarrow> push_bit j (1 :: u32) \<noteq> 0"
  by (auto simp: push_bit_eq_mult dest: arg_cong [where f = "\<lambda>w. bit w j"] simp: bit_simps)

lemma disconnect_one_clears:
  assumes "i < length (w_Modules s)" and "j < length (mc_clients (w_Modules s ! i))"
    and "distinct (conns s i j)" and "j < 32"
  shows "c \<notin> set (conns (disconnect_one usr c i (-1) j s) i j)"
proof -
  have "length (w_Modules (if (-1 :: u32) AND push_bit j 1 = 0 \<or> c \<notin> set (conns s i j) then s
      else set_list i j (remove1 c (conns s i j)) s)) = length (w_Modules s)" by (simp add: set_list_def)
  then show ?thesis
    using keeps_connsD(6) [OF disconnect_one_cases [of "-1" j c s i usr], of i j] assms push_bit_1_nonzero [of j]
    by (simp add: conns_set_list split: if_splits)
qed

lemma skel_ok_lists: "skel_ok k s \<Longrightarrow> i < w_InstalledModules s \<Longrightarrow> length (mc_clients (w_Modules s ! i)) = k_INTERRUPTS k"
  by (simp add: skel_ok_def links_ok_def)

lemma disconnect_fold_clears:
  assumes "skel_ok k s" and "get_mcon n s = Some i" and "set js \<subseteq> {0..<k_INTERRUPTS k}"
  shows "loop_ok k s (fold (disconnect_one usr c i imsk) js s) \<and> shrinks s (fold (disconnect_one usr c i imsk) js s) \<and>
    (imsk = -1 \<longrightarrow> (\<forall>j \<in> set js. c \<notin> set (conns (fold (disconnect_one usr c i imsk) js s) i j)))"
  using assms(3)
proof (induction js rule: rev_induct)
  case Nil
  then show ?case using assms(1) by (simp add: loop_ok_refl shrinks_refl)
next
  case (snoc j js)
  define t where "t = fold (disconnect_one usr c i imsk) js s"
  have IH: "loop_ok k s t" "shrinks s t" "imsk = -1 \<longrightarrow> (\<forall>j \<in> set js. c \<notin> set (conns t i j))"
    using snoc by (simp_all add: t_def)
  have ok: "skel_ok k t" and mod: "get_mcon (mc_ModuleNumber (w_Modules t ! i)) t = Some i" and j: "j < k_INTERRUPTS k"
    using IH(1) snoc.prems loop_ok_module [OF IH(1) assms(2,1)] by (simp_all add: loop_ok_ok)
  have i: "i < w_InstalledModules t" "i < length (w_Modules t)"
    using get_mcon_bound [OF mod] skel_ok_installed [OF ok] by auto
  have len: "length (mc_clients (w_Modules t ! i)) = k_INTERRUPTS k" using ok i(1) by (rule skel_ok_lists)
  let ?u = "disconnect_one usr c i imsk j t"
  have u: "loop_ok k t ?u" using disconnect_one_loop [OF ok mod j] .
  have sh: "shrinks t ?u" using i len j by (intro disconnect_one_shrinks) auto
  have "c \<notin> set (conns ?u i j)" if "imsk = -1"
    using disconnect_one_clears [of i t j c usr] that i len j conns_ok [OF ok i(1) j] ok by (simp add: skel_ok_def)
  then have "\<forall>j' \<in> set (js @ [j]). c \<notin> set (conns ?u i j')" if "imsk = -1"
    using IH(3) that sh i(2) by (auto simp: shrinks_def)
  moreover have "shrinks s ?u" using IH(1,2) sh by (auto simp: loop_ok_def intro: shrinks_trans)
  ultimately show ?case using loop_ok_trans [OF IH(1) u] by (simp add: t_def)
qed

lemma DisConnect_clears:
  assumes ok: "skel_ok k s" and i: "i < w_InstalledModules s"
    and t: "t = DisConnect k usr c \<lparr>cx_Module = mc_ModuleNumber (w_Modules s ! i), cx_ConMask = 0\<rparr> s"
  shows "shrinks s t \<and> cleared (k_INTERRUPTS k) c i t"
proof -
  let ?n = "mc_ModuleNumber (w_Modules s ! i)"
  have nz: "?n \<noteq> 0" using ok i by (simp add: skel_ok_def links_ok_def)
  have "get_mcon ?n s \<noteq> None" using i by (auto simp: get_mcon_def find_None_iff)
  then obtain i0 where i0: "get_mcon ?n s = Some i0" by blast
  have eq: "t = fold (disconnect_one usr c i0 (-1)) [0..<k_INTERRUPTS k] s"
    using nz i0 by (simp add: t DisConnect_def connection_module_def disconnect_module_def)
  have sh: "shrinks s t" and cl: "cleared (k_INTERRUPTS k) c i0 t"
    using disconnect_fold_clears [OF ok i0, of "[0..<k_INTERRUPTS k]" usr c "-1"] by (simp_all add: eq cleared_def)
  moreover have "cleared (k_INTERRUPTS k) c i s" if "i0 \<noteq> i"
    using ok i i0 that by (auto simp: skel_ok_def links_ok_def cleared_def conns_def)
  ultimately show ?thesis
    using cleared_shrinks [OF _ sh, of "k_INTERRUPTS k" c i] i skel_ok_installed [OF ok] by (cases "i0 = i") auto
qed

lemma DisConnectAll_clears:
  assumes ok: "skel_ok k s" and i: "i < w_InstalledModules s"
  shows "cleared (k_INTERRUPTS k) c i (DisConnectAll k usr c s)"
proof -
  let ?f = "\<lambda>i s. DisConnect k usr c \<lparr>cx_Module = mc_ModuleNumber (w_Modules s ! i), cx_ConMask = 0\<rparr> s"
  have "loop_ok k s (fold ?f [0..<n] s) \<and> (\<forall>i < n. cleared (k_INTERRUPTS k) c i (fold ?f [0..<n] s))"
    if "n \<le> w_InstalledModules s" for n
    using that
  proof (induction n)
    case 0
    then show ?case using ok by (simp add: loop_ok_refl)
  next
    case (Suc n)
    let ?t = "fold ?f [0..<n] s"
    have IH: "loop_ok k s ?t" "\<forall>i < n. cleared (k_INTERRUPTS k) c i ?t" using Suc by auto
    have inst: "w_InstalledModules ?t = w_InstalledModules s" "length (w_Modules ?t) = length (w_Modules s)"
      using IH(1) by (auto simp: loop_ok_def numbers_def)
    have st: "shrinks ?t (?f n ?t) \<and> cleared (k_INTERRUPTS k) c n (?f n ?t)"
      using DisConnect_clears [OF loop_ok_ok [OF IH(1)] _ refl, of n] Suc.prems inst by simp
    moreover have "cleared (k_INTERRUPTS k) c i (?f n ?t)" if "i < n" for i
      using cleared_shrinks [of "k_INTERRUPTS k" c i ?t "?f n ?t"] st IH(2) that Suc.prems inst skel_ok_installed [OF ok] by auto
    moreover have "loop_ok k s (?f n ?t)"
      using loop_ok_trans [OF IH(1) DisConnect_loop [OF loop_ok_ok [OF IH(1)]]] .
    ultimately show ?case by (auto simp: less_Suc_eq)
  qed
  then show ?thesis using i by (simp add: DisConnectAll_def)
qed

lemma skel_ok_do_close:
  assumes ok: "skel_ok k s"
  shows "skel_ok k (do_close k usr c s)"
proof -
  let ?t = "DisConnectAll k usr c s"
  let ?u = "do_close k usr c s"
  have l: "loop_ok k s ?t" using ok by (rule DisConnectAll_loop)
  then have okt: "skel_ok k ?t" by (rule loop_ok_ok)
  have inst: "w_InstalledModules ?t = w_InstalledModules s" using l by (simp add: loop_ok_def numbers_def)
  have u: "w_InstalledModules ?u = w_InstalledModules ?t" "w_Modules ?u = w_Modules ?t"
    "w_heap ?u = (w_heap ?t)(c := None)" "w_clients ?u = remove1 c (w_clients ?t)"
    by (simp_all add: do_close_def Let_def)
  have get: "get_mcon n ?u = get_mcon n ?t" for n by (simp add: get_mcon_def u)
  have "set (mc_clients (w_Modules ?t ! i) ! j) \<subseteq> dom (w_heap ?t) - {c}"
    if "i < w_InstalledModules ?t" "j < k_INTERRUPTS k" for i j
    using DisConnectAll_clears [OF ok, of i c usr] conns_ok [OF okt that] that inst by (auto simp: cleared_def conns_def)
  then have "links_ok k ?u"
    using okt unfolding links_ok_def skel_ok_def u get by (simp add: set_remove1_eq)
  moreover have "heap_ok k ?u"
    using okt by (auto simp: heap_ok_def skel_ok_def client_ok_def u get split: if_splits)
  ultimately show ?thesis using ok by (simp add: skel_ok_def)
qed

lemma skel_ok_Close [skel_keeps]: "skel_ok k s \<Longrightarrow> SkelDrvrClose k usr flp s = (r, t) \<Longrightarrow> skel_ok k t"
  by (auto simp: SkelDrvrClose_def skel_ok_do_close split: option.splits)

section \<open>Opening a client\<close>

lemma client_init_simps [simp]:
  "cc_cdcmf (client_init N tmo pid m0 flp) = flp" "cc_Pid (client_init N tmo pid m0 flp) = pid"
  "cc_ModuleNumber (client_init N tmo pid m0 flp) = (case m0 of None \<Rightarrow> 0 | Some m \<Rightarrow> m)"
  by (simp_all add: client_init_def reset_queue_def)

lemma client_init_bounds: "0 < N \<Longrightarrow> q_bounds N (cc_Queue (client_init N tmo pid m0 flp))"
  using q_ok_init by (auto simp: q_ok_def Let_def)

lemma first_module: "0 < w_InstalledModules s \<Longrightarrow> get_mcon (mc_ModuleNumber (w_Modules s ! 0)) s = Some 0"
  by (simp add: get_mcon_def upt_rec [of 0])

lemma skel_ok_Open:
  assumes ok: "skel_ok k s" and "SkelDrvrOpen k usr mem mem_link c pid flp s = (r, t)" and fresh: "c \<notin> dom (w_heap s)"
    and new: "\<And>d x. w_heap s d = Some x \<Longrightarrow> cc_cdcmf x \<noteq> flp"
  shows "skel_ok k t"
proof -
  let ?u = "snd (u_ClientInit usr c (w_user s))"
  let ?m0 = "Some (mc_ModuleNumber (w_Modules s ! 0))"
  let ?c = "client_init (k_QUEUE_SIZE k) (k_CLIENT_TIMEOUT k) pid ?m0 flp"
  let ?v = "s\<lparr>w_user := ?u, w_heap := (w_heap s)(c \<mapsto> ?c), w_clients := c # w_clients s\<rparr>"
  have pos: "0 < w_InstalledModules s" "0 < k_QUEUE_SIZE k" using ok by (auto simp: skel_ok_def links_ok_def)
  then have "t = s \<or> t = s\<lparr>w_user := ?u\<rparr> \<or> t = ?v"
    using assms(2) by (auto simp: SkelDrvrOpen_def Let_def split: if_splits prod.splits)
  moreover have "skel_ok k ?v"
  proof -
    have get: "get_mcon n ?v = get_mcon n s" for n by (simp add: get_mcon_def)
    have "links_ok k ?v"
      using ok fresh unfolding skel_ok_def links_ok_def get by (simp add: subset_insertI2)
    moreover have "heap_ok k ?v"
      using ok new client_init_bounds [OF pos(2)] first_module [OF pos(1)]
      by (fastforce simp: skel_ok_def heap_ok_def client_ok_def get split: if_splits)
    ultimately show ?thesis using ok by (simp add: skel_ok_def)
  qed
  ultimately show ?thesis using ok by auto
qed

section \<open>Reading\<close>

lemma skel_get_ccon_in: "skel_get_ccon flp s = Some c \<Longrightarrow> c \<in> dom (w_heap s)"
  by (auto simp: skel_get_ccon_def find_Some_iff split: option.splits)

lemma reset_queue_simps [simp]:
  "cc_ModuleNumber (reset_queue x) = cc_ModuleNumber x" "cc_cdcmf (reset_queue x) = cc_cdcmf x"
  by (simp_all add: reset_queue_def)

lemma skel_ok_client:
  "skel_ok k s \<Longrightarrow> w_heap s c = Some x \<Longrightarrow>
    q_bounds (k_QUEUE_SIZE k) (cc_Queue x) \<and> get_mcon (cc_ModuleNumber x) s \<noteq> None"
  by (auto simp: skel_ok_def heap_ok_def client_ok_def)

lemma skel_ok_Read_wait:
  assumes "skel_ok k s" and "SkelDrvrRead_wait task flp s = (r, t)"
  shows "skel_ok k t \<and> dom (w_heap t) = dom (w_heap s) \<and> (\<forall>c w. r = ReadWaits c w \<longrightarrow> c \<in> dom (w_heap s))"
proof (cases "skel_get_ccon flp s")
  case None
  then show ?thesis using assms by (auto simp: SkelDrvrRead_wait_def)
next
  case (Some c)
  then obtain x where x: "w_heap s c = Some x" using skel_get_ccon_in by blast
  let ?x = "if q_QueueOff (cc_Queue x) then reset_queue x else x"
  obtain w sem where w: "tswait task (sint (cc_Timeout ?x)) (cc_Semaphore ?x) = (w, sem)" by force
  then have t: "t = upd_client c (\<lambda>_. ?x\<lparr>cc_Semaphore := sem\<rparr>) s" and r: "r = ReadWaits c w"
    using assms(2) Some x by (auto simp: SkelDrvrRead_wait_def Let_def)
  have "skel_ok k t"
    unfolding t using assms(1) skel_ok_client [OF assms(1) x] x by (intro skel_ok_upd_client) auto
  then show ?thesis using t r x by (auto simp: dom_def)
qed

lemma skel_ok_Read_got:
  "skel_ok k s \<Longrightarrow> SkelDrvrRead_got k c s = (r, t) \<Longrightarrow> skel_ok k t \<and> dom (w_heap t) = dom (w_heap s)"
proof (cases "w_heap s c")
  case (Some x)
  assume ok: "skel_ok k s" and t: "SkelDrvrRead_got k c s = (r, t)"
  then have "t = upd_client c (\<lambda>_. snd (q_get (k_QUEUE_SIZE k) x)) s"
    using Some by (auto simp: SkelDrvrRead_got_def split: prod.splits)
  moreover have "skel_ok k (upd_client c (\<lambda>_. snd (q_get (k_QUEUE_SIZE k) x)) s)"
    using skel_ok_client [OF ok Some] Some
    by (intro skel_ok_upd_client [OF ok]) (auto simp: q_get_def Let_def q_bounds_def)
  ultimately show ?thesis by (simp del: w_heap_upd_client)
qed (simp add: SkelDrvrRead_got_def)

lemma skel_ok_Read_failed: "skel_ok k s \<Longrightarrow> skel_ok k (SkelDrvrRead_failed c s)"
  unfolding SkelDrvrRead_failed_def by (intro skel_ok_upd_queue) (simp_all, simp_all add: client_timeout_def)

lemma skel_ok_sem: "skel_ok k s \<Longrightarrow> skel_ok k (upd_client c (\<lambda>x. x\<lparr>cc_Semaphore := sem\<rparr>) s)"
  by (intro skel_ok_upd_queue) simp_all

section \<open>Commands\<close>

text \<open>The invariant holds afterwards and the same clients are open.\<close>

definition stays :: "skel_consts \<Rightarrow> ('b, 'u) skel \<Rightarrow> ('b, 'u) skel \<Rightarrow> bool" where
  "stays k s t \<longleftrightarrow> skel_ok k t \<and> dom (w_heap t) = dom (w_heap s)"

lemma stays_refl [simp]: "skel_ok k s \<Longrightarrow> stays k s s"
  by (simp add: stays_def)

lemma stays_ok: "stays k s t \<Longrightarrow> skel_ok k t"
  by (simp add: stays_def)

lemma stays_user: "stays k s t \<Longrightarrow> stays k s (t\<lparr>w_user := u\<rparr>)"
  by (simp add: stays_def)

lemma stays_bus: "stays k s t \<Longrightarrow> stays k s (t\<lparr>w_bus := b\<rparr>)"
  by (simp add: stays_def)

lemma stays_upd_user: "stays k s t \<Longrightarrow> stays k s (upd_user f t)"
  by (simp add: stays_def)

lemma stays_upd_module:
  "stays k s t \<Longrightarrow> (\<And>m. mc_ModuleNumber (f m) = mc_ModuleNumber m) \<Longrightarrow> (\<And>m. mc_clients (f m) = mc_clients m) \<Longrightarrow>
    stays k s (upd_module i f t)"
  by (auto simp: stays_def intro!: skel_ok_upd_module)

lemma stays_upd_client:
  assumes "skel_ok k s" and "w_heap s c = Some x"
    and "q_bounds (k_QUEUE_SIZE k) (cc_Queue (f x))" and "get_mcon (cc_ModuleNumber (f x)) s \<noteq> None" and "cc_cdcmf (f x) = cc_cdcmf x"
  shows "stays k s (upd_client c f s)"
  using assms skel_ok_upd_client [of k s c f] unfolding stays_def by (auto simp del: w_heap_upd_client)

lemma stays_loop: "loop_ok k s t \<Longrightarrow> stays k s t"
  by (simp add: loop_ok_def stays_def)

lemmas stays_rules = stays_user stays_bus stays_upd_user stays_upd_module stays_refl

lemma stays_Reset: "stays k s t \<Longrightarrow> stays k s (Reset usr i t)"
  by (simp add: Reset_def Let_def stays_rules)

lemma status_simps [simp]:
  "mc_ModuleNumber (update_mcon_status f m) = mc_ModuleNumber m" "mc_clients (update_mcon_status f m) = mc_clients m"
  "mc_ModuleNumber (clear_mcon_status f m) = mc_ModuleNumber m" "mc_clients (clear_mcon_status f m) = mc_clients m"
  by (simp_all add: update_mcon_status_def clear_mcon_status_def)

lemma stays_jtag_close: "skel_ok k s \<Longrightarrow> stays k s (jtag_close usr i s)"
  by (simp add: jtag_close_def UnLockModule_def stays_Reset stays_rules)

lemma stays_jtag_opened: "stays k s t \<Longrightarrow> stays k s (jtag_opened i t)"
  by (simp add: jtag_opened_def stays_rules)

lemma stays_jtag_open: "skel_ok k s \<Longrightarrow> jtag_open task i s = (r, t) \<Longrightarrow> stays k s t"
  by (auto simp: jtag_open_def LockModule_def Let_def stays_rules intro!: stays_jtag_opened
      split: prod.splits wait_result.splits)

lemma stays_module_cmd:
  assumes "skel_ok k s" and "module_cmd ops usr cpu_big brk_ok junk task i cmd s = (r, t)"
  shows "stays k s t"
  using assms
  by (cases cmd) (auto simp: module_cmd_def Let_def stays_rules stays_Reset stays_jtag_close stays_jtag_open
      split: prod.splits if_splits rc.splits option.splits)

lemma stays_client_cmd:
  assumes ok: "skel_ok k s" and x: "w_heap s c = Some x" and t: "client_cmd k usr mem c x cmd s = Some (r, t)"
  shows "stays k s t"
proof -
  note loops = stays_loop [OF Connect_loop [OF ok]] stays_loop [OF DisConnect_loop [OF ok]] stays_loop [OF DisConnectAll_loop [OF ok]]
  show ?thesis
    using skel_ok_client [OF ok x] t x ok
    by (cases cmd) (auto simp: client_cmd_def get_queue_overflow_def set_queue_flag_def q_bounds_def
        split: if_splits intro!: loops stays_upd_client [OF ok x])
qed

lemma stays_Ioctl:
  assumes ok: "skel_ok k s" and t: "SkelDrvrIoctl k ops usr rng cpu_big mem brk_ok junk task flp cmd s = (r, t)"
  shows "stays k s t"
proof (cases "skel_get_ccon flp s")
  case None
  then show ?thesis using ok t by (simp add: SkelDrvrIoctl_def)
next
  case (Some c)
  then obtain x where x: "w_heap s c = Some x" using skel_get_ccon_in by blast
  obtain i where i: "get_mcon (cc_ModuleNumber x) s = Some i" using skel_ok_client [OF ok x] by blast
  show ?thesis
  proof (cases "client_cmd k usr mem c x cmd s")
    case (Some rt)
    then show ?thesis
      using t \<open>skel_get_ccon flp s = Some c\<close> x stays_client_cmd [OF ok x, of usr mem cmd r t]
      by (simp add: SkelDrvrIoctl_def Let_def)
  next
    case None
    then show ?thesis
      using ok t \<open>skel_get_ccon flp s = Some c\<close> x i
      by (cases cmd) (auto simp: SkelDrvrIoctl_def Let_def stays_rules split: prod.splits if_splits dest: stays_module_cmd)
  qed
qed

section \<open>Installation\<close>

text \<open>What adding and removing a module never changes in its context.\<close>

definition fixed_part :: "SkelDrvrModuleContext \<Rightarrow>
    u32 \<times> nat list list \<times> InsLibBusType \<times> InsLibIntrDesc option \<times> bool \<times> u32" where
  "fixed_part m = (mc_ModuleNumber m, mc_clients m, md_BusType (mc_Modld m), md_Isr (mc_Modld m),
     md_IgnoreErrors (mc_Modld m), mc_enabled_ints m)"

lemma fixed_set_spaces [simp]: "fixed_part (set_spaces as m) = fixed_part m"
  by (simp add: fixed_part_def set_spaces_def)

lemma fixed_status [simp]:
  "fixed_part (update_mcon_status f m) = fixed_part m" "fixed_part (clear_mcon_status f m) = fixed_part m"
  by (simp_all add: fixed_part_def update_mcon_status_def clear_mcon_status_def)

lemma fixed_handle [simp]: "fixed_part (m\<lparr>mc_PciHandle := h\<rparr>) = fixed_part m"
  by (simp add: fixed_part_def)

lemma fixed_map_vmeas: "map_vmeas ops m vas b = (ok, m1, vas1, b1) \<Longrightarrow> fixed_part m1 = fixed_part m"
  by (auto simp: map_vmeas_def Let_def split: if_splits prod.splits)

lemma fixed_map_vme_spaces: "map_vme_spaces ops m as b = (ok, m1, as1, b1) \<Longrightarrow> fixed_part m1 = fixed_part m"
  by (induction as arbitrary: m b ok m1 as1 b1)
     (fastforce simp: Let_def split: prod.splits if_splits dest: fixed_map_vmeas)+

lemma fixed_RemoveVme: "RemoveVmeModule ops m b = (m1, b1) \<Longrightarrow> fixed_part m1 = fixed_part m"
  by (auto simp: RemoveVmeModule_def unmap_vmeas_def Let_def split: prod.splits if_splits option.splits)

lemma fixed_AddVme: "AddVmeModule ops i m b = (ok, m1, b1) \<Longrightarrow> fixed_part m1 = fixed_part m"
  by (auto simp: AddVmeModule_def Let_def split: prod.splits if_splits option.splits
      dest!: fixed_map_vme_spaces fixed_RemoveVme)

lemma fixed_map_pcias: "map_pcias ops h m pas b = (ok, m1, pas1, b1) \<Longrightarrow> fixed_part m1 = fixed_part m"
  by (auto simp: map_pcias_def split: if_splits prod.splits option.splits)

lemma fixed_map_pci_spaces: "map_pci_spaces ops h m as b = (ok, m1, as1, b1) \<Longrightarrow> fixed_part m1 = fixed_part m"
  by (induction as arbitrary: m b ok m1 as1 b1)
     (fastforce simp: Let_def split: prod.splits if_splits dest: fixed_map_pcias)+

lemma fixed_RemovePci: "RemovePciModule ops m b = (m1, b1) \<Longrightarrow> fixed_part m1 = fixed_part m"
  by (auto simp: RemovePciModule_def unmap_pcias_def Let_def split: prod.splits if_splits option.splits)

lemma fixed_AddPci: "AddPciModule n ops i m b = Some (ok, m1, b1) \<Longrightarrow> fixed_part m1 = fixed_part m"
  by (auto simp: AddPciModule_def Let_def split: prod.splits if_splits option.splits
      dest!: fixed_map_pci_spaces fixed_RemovePci)

lemma fixed_RemoveModule: "RemoveModule k ops usr i m b u = (m1, b1, u1) \<Longrightarrow> fixed_part m1 = fixed_part m"
  by (auto simp: RemoveModule_def RemoveCarModule_def Let_def split: prod.splits if_splits InsLibBusType.splits
      dest!: fixed_RemoveVme fixed_RemovePci)

lemma fixed_add_on_bus: "add_on_bus k ops i m b = Some (ok, m1, b1) \<Longrightarrow> fixed_part m1 = fixed_part m"
  by (auto simp: add_on_bus_def split: InsLibBusType.splits if_splits dest!: fixed_AddVme fixed_AddPci)

lemma fixed_unmap_flagged: "unmap_flagged k ops m b = (m1, b1) \<Longrightarrow> fixed_part m1 = fixed_part m"
  by (auto simp: unmap_flagged_def unmap_vmeas_def Let_def split: if_splits prod.splits)

lemma fixed_AddModule: "AddModule k ops usr i m b u = Some (ok, m1, b1, u1) \<Longrightarrow> fixed_part m1 = fixed_part m"
  by (auto simp: AddModule_def split: option.splits prod.splits bool.splits if_splits
      dest!: fixed_add_on_bus fixed_RemoveModule fixed_unmap_flagged)

lemma set_mcon_defaults_simps [simp]:
  "mc_ModuleNumber (set_mcon_defaults k d m) = mc_ModuleNumber m"
  "mc_clients (set_mcon_defaults k d m) = replicate (k_INTERRUPTS k) []"
  "mc_Modld (set_mcon_defaults k d m) = mc_Modld m"
  by (simp_all add: set_mcon_defaults_def Let_def update_mcon_status_def)

text \<open>The loop: the contexts filled so far are those of installed modules, without connections.\<close>

definition install_ok :: "skel_consts \<Rightarrow> ('b, 'u) skel \<Rightarrow> bool" where
  "install_ok k s \<longleftrightarrow> w_InstalledModules s \<le> length (w_Modules s) \<and> w_clients s = [] \<and> w_heap s = (\<lambda>_. None) \<and>
    unat (dd_ModuleCount (w_Drvrd s)) \<le> length (w_Modules s) \<and>
    (\<forall>i < w_InstalledModules s. mc_ModuleNumber (w_Modules s ! i) \<noteq> 0 \<and> mc_InUse (w_Modules s ! i) \<and>
      mc_clients (w_Modules s ! i) = replicate (k_INTERRUPTS k) [])"

lemma install_loop_ok:
  assumes "install_loop k ops usr ms (w_InstalledModules s) ret s = Some (r, t)" and "install_ok k s"
    and "\<forall>m \<in> set ms. md_ModuleNumber m \<noteq> 0"
  shows "install_ok k t \<and> w_Drvrd t = w_Drvrd s"
  using assms
proof (induction ms arbitrary: s ret)
  case (Cons m ms)
  let ?m = "set_mcon_defaults k (w_Drvrd s)
    ((w_Modules s ! w_InstalledModules s)\<lparr>mc_Modld := m, mc_ModuleNumber := md_ModuleNumber m\<rparr>)"
  show ?case
  proof (cases "w_InstalledModules s < unat (dd_ModuleCount (w_Drvrd s))")
    case False
    then show ?thesis using Cons.prems by simp
  next
    case True
    then obtain mod_ok m1 b1 u1 where add: "AddModule k ops usr (w_InstalledModules s) ?m (w_bus s) (w_user s) = Some (mod_ok, m1, b1, u1)"
      using Cons.prems(1) by (auto simp: Let_def split: option.splits)
    have m1: "mc_ModuleNumber m1 = md_ModuleNumber m" "mc_clients m1 = replicate (k_INTERRUPTS k) []"
      using fixed_AddModule [OF add] by (simp_all add: fixed_part_def)
    let ?n = "w_InstalledModules s"
    let ?yes = "s\<lparr>w_bus := b1, w_user := u1, w_Modules := (w_Modules s)[?n := m1\<lparr>mc_InUse := True\<rparr>], w_InstalledModules := ?n + 1\<rparr>"
    let ?no = "s\<lparr>w_bus := b1, w_user := u1, w_Modules := (w_Modules s)[?n := m1]\<rparr>"
    have len: "?n < length (w_Modules s)" using True Cons.prems(2) by (simp add: install_ok_def)
    have "install_ok k ?yes" and "install_ok k ?no"
      using Cons.prems(2,3) m1 len by (auto simp: install_ok_def nth_list_update less_Suc_eq)
    then show ?thesis
      using Cons.prems True add Cons.IH [of ?yes ret] Cons.IH [of ?no "-1"] by (simp add: Let_def split: if_splits)
  qed
qed simp

lemma CloneModule_numbers:
  "InsLibCloneModule ms q = (r, q1) \<Longrightarrow> m \<in> set r \<Longrightarrow> \<exists>m' \<in> set ms. md_ModuleNumber m' = md_ModuleNumber m"
  by (induction ms arbitrary: q r q1) (fastforce simp: Let_def split: prod.splits if_splits)+

lemma SkelDrvrInstall_ok:
  assumes "SkelDrvrInstall k ops usr mem (Some info) km b u = Some (Inr (s, km1))"
    and "\<forall>m \<in> set (dd_Modules info). md_ModuleNumber m \<noteq> 0" and "0 < k_QUEUE_SIZE k" and "k_INTERRUPTS k \<le> 32"
  shows "install_ok k s \<and> skel_ok k s"
proof -
  obtain d km0 ret where d: "InsLibCloneOneDriver (Some info) km = (Some d, km0)"
    and inst: "modules_install k ops usr (wa_init k d b u) = Some (ret, s)"
    and pos: "unat (dd_ModuleCount d) \<noteq> 0" "\<not> (w_InstalledModules s \<noteq> unat (dd_ModuleCount d) \<and> w_InstalledModules s = 0)"
    using assms(1) by (auto simp: SkelDrvrInstall_def unat_eq_0 split: prod.splits option.splits if_splits)
  have "\<forall>m \<in> set (dd_Modules d). md_ModuleNumber m \<noteq> 0"
    using d assms(2) by (fastforce simp: InsLibCloneOneDriver_def Let_def split: prod.splits if_splits dest: CloneModule_numbers)
  moreover have "install_ok k (wa_init k d b u)" if "\<not> k_MODULE_CONTEXTS k < unat (dd_ModuleCount d)"
    using that by (simp add: install_ok_def wa_init_def)
  moreover have "0 < w_InstalledModules s" using pos by auto
  ultimately have ok: "install_ok k s" and "0 < w_InstalledModules s"
    using inst install_loop_ok [of k ops usr "dd_Modules d" "wa_init k d b u" 0 ret s]
    by (auto simp: modules_install_def wa_init_def split: if_splits)
  then have "links_ok k s" and "heap_ok k s" by (auto simp: install_ok_def links_ok_def heap_ok_def)
  then show ?thesis using ok assms by (simp add: skel_ok_def)
qed

end
