(* ===== verification/Skel_Props.thy ===== *)
theory Skel_Props
  imports Skel_Inv "HOL-Library.Sublist"
begin

text \<open>
  The skeleton driver as a state machine and its properties: reachable states hold no
  dangling client, interrupts are delivered to the connected clients, the queue of a client is a bounded
  FIFO, block transfers are what they are to be, and the module table is filled without gaps.
\<close>

section \<open>The driver as a state machine\<close>

text \<open>
  Between its parts a \<open>read\<close> lives in a table of the tasks inside the call, with the client
  and how the wait stands. The kernel calls \<open>close\<close> when the last use of the file is over,
  so never while a task reads from it; each open gives a new file. The tasks are processes: none of them is a
  kernel thread that is being stopped.
\<close>

type_synonym reads = "nat \<Rightarrow> (nat \<times> wait_result) option"

inductive skel_step ::
    "skel_consts \<Rightarrow> 'b bus_ops \<Rightarrow> 'u skel_user \<Rightarrow> nat \<times> nat \<Rightarrow> ('b, 'u) skel \<times> reads \<Rightarrow> ('b, 'u) skel \<times> reads \<Rightarrow> bool"
  for k ops usr rng where
  open_step: "SkelDrvrOpen k usr mem mem_link c pid flp s = (r, t) \<Longrightarrow> c \<notin> dom (w_heap s) \<Longrightarrow>
    (\<And>d x. w_heap s d = Some x \<Longrightarrow> cc_cdcmf x \<noteq> flp) \<Longrightarrow> skel_step k ops usr rng (s, p) (t, p)"
| close_step: "SkelDrvrClose k usr flp s = (r, t) \<Longrightarrow>
    (\<And>task c w. skel_get_ccon flp s = Some c \<Longrightarrow> p task \<noteq> Some (c, w)) \<Longrightarrow> skel_step k ops usr rng (s, p) (t, p)"
| interrupt_step: "i < w_InstalledModules s \<Longrightarrow> skel_step k ops usr rng (s, p) (IntrHandler k usr i s, p)"
| write_step: "SkelDrvrWrite k usr conx s = (r, t) \<Longrightarrow> skel_step k ops usr rng (s, p) (t, p)"
| ioctl_step: "SkelDrvrIoctl k ops usr rng cpu_big mem brk_ok junk task flp cmd s = (r, t) \<Longrightarrow>
    skel_step k ops usr rng (s, p) (t, p)"
| jtag_woken_step: "cdcm_down_woken False task (mc_Semaphore (w_Modules s ! i)) = Some sem \<Longrightarrow>
    skel_step k ops usr rng (s, p) (jtag_opened i (upd_module i (\<lambda>m. m\<lparr>mc_Semaphore := sem\<rparr>) s), p)"
| jtag_over_step: "cdcm_down_give_up task (mc_Semaphore (w_Modules s ! i)) = Some sem \<Longrightarrow>
    skel_step k ops usr rng (s, p) (upd_module i (\<lambda>m. m\<lparr>mc_Semaphore := sem\<rparr>) s, p)"
| read_step: "p task = None \<Longrightarrow> SkelDrvrRead_wait task flp s = (ReadWaits c w, t) \<Longrightarrow>
    skel_step k ops usr rng (s, p) (t, p(task \<mapsto> (c, w)))"
| woken_step: "p task = Some (c, WaitSleeps) \<Longrightarrow> w_heap s c = Some x \<Longrightarrow>
    cdcm_down_woken False task (cc_Semaphore x) = Some sem \<Longrightarrow>
    skel_step k ops usr rng (s, p) (upd_client c (\<lambda>x. x\<lparr>cc_Semaphore := sem\<rparr>) s, p(task \<mapsto> (c, WaitOk)))"
| over_step: "p task = Some (c, WaitSleeps) \<Longrightarrow> w_heap s c = Some x \<Longrightarrow>
    cdcm_down_give_up task (cc_Semaphore x) = Some sem \<Longrightarrow>
    skel_step k ops usr rng (s, p) (upd_client c (\<lambda>x. x\<lparr>cc_Semaphore := sem\<rparr>) s, p(task \<mapsto> (c, WaitFailed)))"
| got_step: "p task = Some (c, WaitOk) \<Longrightarrow> SkelDrvrRead_got k c s = (rb, t) \<Longrightarrow>
    skel_step k ops usr rng (s, p) (t, p(task := None))"
| failed_step: "p task = Some (c, WaitFailed) \<Longrightarrow>
    skel_step k ops usr rng (s, p) (SkelDrvrRead_failed c s, p(task := None))"

definition reads_ok :: "('b, 'u) skel \<Rightarrow> reads \<Rightarrow> bool" where
  "reads_ok s p \<longleftrightarrow> (\<forall>task c w. p task = Some (c, w) \<longrightarrow> c \<in> dom (w_heap s))"

definition sys_ok :: "skel_consts \<Rightarrow> ('b, 'u) skel \<times> reads \<Rightarrow> bool" where
  "sys_ok k x \<longleftrightarrow> skel_ok k (fst x) \<and> reads_ok (fst x) (snd x)"

definition sys_start :: "skel_consts \<Rightarrow> 'b bus_ops \<Rightarrow> 'u skel_user \<Rightarrow> ('b, 'u) skel \<times> reads \<Rightarrow> bool" where
  "sys_start k ops usr x \<longleftrightarrow> snd x = (\<lambda>_. None) \<and> 0 < k_QUEUE_SIZE k \<and> k_INTERRUPTS k \<le> 32 \<and>
    (\<exists>mem info km b u km1. SkelDrvrInstall k ops usr mem (Some info) km b u = Some (Inr (fst x, km1)) \<and>
      (\<forall>m \<in> set (dd_Modules info). md_ModuleNumber m \<noteq> 0))"

lemma reads_ok_stays: "reads_ok s p \<Longrightarrow> dom (w_heap t) = dom (w_heap s) \<Longrightarrow> reads_ok t p"
  by (simp add: reads_ok_def)

lemma reads_ok_upd: "reads_ok s p \<Longrightarrow> c \<in> dom (w_heap s) \<Longrightarrow> reads_ok s (p(task \<mapsto> (c, w)))"
  by (auto simp: reads_ok_def)

lemma reads_ok_end: "reads_ok s p \<Longrightarrow> reads_ok s (p(task := None))"
  by (auto simp: reads_ok_def)

lemma sys_ok_stays: "sys_ok k (s, p) \<Longrightarrow> stays k s t \<Longrightarrow> sys_ok k (t, p)"
  by (auto simp: sys_ok_def stays_def intro: reads_ok_stays)

lemma dom_fold_put [simp]: "dom (w_heap (put_queues N rb cs s)) = dom (w_heap s)"
  unfolding put_queues_def by (induction cs arbitrary: s) (simp_all del: w_heap_upd_client)

lemma dom_fill [simp]: "dom (w_heap (fill_clients_queues k i rb imask s)) = dom (w_heap s)"
  unfolding fill_clients_queues_def
  by (rule fold_invariant [where Q = "\<lambda>_. True" and P = "\<lambda>t. dom (w_heap t) = dom (w_heap s)"])
     (simp_all add: fill_interrupt_def Let_def)

lemma stays_fill: "stays k s t \<Longrightarrow> stays k s (fill_clients_queues k i rb imask t)"
  by (simp add: stays_def skel_ok_fill)

lemma stays_IntrHandler: "skel_ok k s \<Longrightarrow> stays k s (IntrHandler k usr i s)"
  by (simp add: IntrHandler_def Let_def stays_fill stays_rules split: prod.split)

lemma stays_Write: "skel_ok k s \<Longrightarrow> SkelDrvrWrite k usr conx s = (r, t) \<Longrightarrow> stays k s t"
  by (auto simp: SkelDrvrWrite_def stays_fill stays_rules split: prod.splits option.splits)

lemma Open_dom: "SkelDrvrOpen k usr mem mem_link c pid flp s = (r, t) \<Longrightarrow> dom (w_heap s) \<subseteq> dom (w_heap t)"
  by (auto simp: SkelDrvrOpen_def Let_def split: if_splits prod.splits)

lemma do_close_dom: "skel_ok k s \<Longrightarrow> dom (w_heap (do_close k usr c s)) = dom (w_heap s) - {c}"
  using DisConnectAll_loop [of k s usr c] by (simp add: do_close_def Let_def loop_ok_def)

lemma sys_ok_read: "sys_ok k (s, p) \<Longrightarrow> stays k s t \<Longrightarrow> c \<in> dom (w_heap s) \<Longrightarrow> sys_ok k (t, p(task \<mapsto> (c, w)))"
  unfolding sys_ok_def stays_def fst_conv snd_conv by (metis reads_ok_stays reads_ok_upd)

lemma sys_ok_end: "sys_ok k (s, p) \<Longrightarrow> stays k s t \<Longrightarrow> sys_ok k (t, p(task := None))"
  unfolding sys_ok_def stays_def fst_conv snd_conv by (metis reads_ok_stays reads_ok_end)

lemma stays_sem: "skel_ok k s \<Longrightarrow> stays k s (upd_client c (\<lambda>x. x\<lparr>cc_Semaphore := sem\<rparr>) s)"
  unfolding stays_def using skel_ok_sem upd_client_frame(5) by blast

lemma stays_failed: "skel_ok k s \<Longrightarrow> stays k s (SkelDrvrRead_failed c s)"
  unfolding stays_def using skel_ok_Read_failed unfolding SkelDrvrRead_failed_def using upd_client_frame(5) by blast

lemma sys_ok_close:
  assumes "sys_ok k (s, p)" and t: "SkelDrvrClose k usr flp s = (r, t)"
    and idle: "\<And>task c w. skel_get_ccon flp s = Some c \<Longrightarrow> p task \<noteq> Some (c, w)"
  shows "sys_ok k (t, p)"
proof (cases "skel_get_ccon flp s")
  case None
  then show ?thesis using assms by (simp add: SkelDrvrClose_def)
next
  case (Some c)
  have ok: "skel_ok k s" and reads: "reads_ok s p" using assms(1) by (simp_all add: sys_ok_def)
  have t: "t = do_close k usr c s" using t Some by (simp add: SkelDrvrClose_def)
  have "d \<in> dom (w_heap t)" if "p task = Some (d, w)" for task d w
    using reads that idle [OF Some, of task w] unfolding t do_close_dom [OF ok] reads_ok_def by blast
  then show ?thesis using skel_ok_do_close [OF ok] unfolding sys_ok_def reads_ok_def t by simp
qed

lemma sys_ok_open:
  assumes "sys_ok k (s, p)" and t: "SkelDrvrOpen k usr mem mem_link c pid flp s = (r, t)" and "c \<notin> dom (w_heap s)"
    and new: "\<And>d x. w_heap s d = Some x \<Longrightarrow> cc_cdcmf x \<noteq> flp"
  shows "sys_ok k (t, p)"
proof -
  have ok: "skel_ok k s" and reads: "reads_ok s p" using assms(1) by (simp_all add: sys_ok_def)
  have "skel_ok k t" using skel_ok_Open [OF ok t assms(3)] new by blast
  moreover have "reads_ok t p" using reads Open_dom [OF t] unfolding reads_ok_def by blast
  ultimately show ?thesis by (simp add: sys_ok_def)
qed

lemma skel_step_ok: "skel_step k ops usr rng x y \<Longrightarrow> sys_ok k x \<Longrightarrow> sys_ok k y"
proof (induction rule: skel_step.induct)
  case (open_step mem mem_link c pid flp s r t p)
  show ?case by (rule sys_ok_open [OF open_step(4,1,2)]) (fact open_step(3))
next
  case (close_step flp s r t p)
  show ?case by (rule sys_ok_close [OF close_step(3,1)]) (fact close_step(2))
next
  case (read_step p task flp s c w t)
  have "skel_ok k s" using read_step(3) by (simp add: sys_ok_def)
  then have "stays k s t" and "c \<in> dom (w_heap s)"
    using skel_ok_Read_wait [OF _ read_step(2)] unfolding stays_def by blast+
  then show ?case by (rule sys_ok_read [OF read_step(3)])
next
  case (woken_step p task c s x sem)
  then show ?case by (intro sys_ok_read [OF woken_step(4)] stays_sem) (auto simp: sys_ok_def)
next
  case (over_step p task c s x sem)
  then show ?case by (intro sys_ok_read [OF over_step(4)] stays_sem) (auto simp: sys_ok_def)
next
  case (got_step p task c s rb t)
  have "skel_ok k s" using got_step(3) by (simp add: sys_ok_def)
  then have "stays k s t" using skel_ok_Read_got [OF _ got_step(2)] unfolding stays_def by blast
  then show ?case by (rule sys_ok_end [OF got_step(3)])
next
  case (failed_step p task c s)
  then show ?case by (intro sys_ok_end [OF failed_step(2)] stays_failed) (auto simp: sys_ok_def)
next
  case (jtag_woken_step task s i sem p)
  then have "stays k s (jtag_opened i (upd_module i (\<lambda>m. m\<lparr>mc_Semaphore := sem\<rparr>) s))"
    by (intro stays_jtag_opened) (simp add: sys_ok_def stays_rules)
  then show ?case by (rule sys_ok_stays [OF jtag_woken_step(2)])
next
  case (jtag_over_step task s i sem p)
  then have "stays k s (upd_module i (\<lambda>m. m\<lparr>mc_Semaphore := sem\<rparr>) s)" by (simp add: sys_ok_def stays_rules)
  then show ?case by (rule sys_ok_stays [OF jtag_over_step(2)])
next
  case (interrupt_step i s p)
  then show ?case by (intro sys_ok_stays [OF interrupt_step(2)] stays_IntrHandler) (simp add: sys_ok_def)
next
  case (write_step conx s r t p)
  then show ?case by (intro sys_ok_stays [OF write_step(2)] stays_Write) (auto simp: sys_ok_def)
next
  case (ioctl_step cpu_big mem brk_ok junk task flp cmd s r t p)
  then show ?case by (intro sys_ok_stays [OF ioctl_step(2)] stays_Ioctl) (auto simp: sys_ok_def)
qed

lemma sys_start_ok: "sys_start k ops usr x \<Longrightarrow> sys_ok k x"
  using SkelDrvrInstall_ok by (fastforce simp: sys_start_def sys_ok_def reads_ok_def)

interpretation sk: invariant_system "sys_start k ops usr" "skel_step k ops usr rng" "sys_ok k" for k ops usr rng
  by unfold_locales (fact sys_start_ok, fact skel_step_ok)

section \<open>Delivery of interrupts\<close>

definition interrupt_event :: "SkelDrvrReadBuf \<Rightarrow> nat \<Rightarrow> SkelDrvrReadBuf" where
  "interrupt_event rb j = rb\<lparr>rb_Connection := (rb_Connection rb)\<lparr>cx_ConMask := push_bit j 1\<rparr>\<rparr>"

definition client_interrupts :: "skel_consts \<Rightarrow> ('b, 'u) skel \<Rightarrow> nat \<Rightarrow> u32 \<Rightarrow> nat \<Rightarrow> nat list" where
  "client_interrupts k s i imask c = filter (\<lambda>j. bit imask j \<and> c \<in> set (conns s i j)) [0..<k_INTERRUPTS k]"

lemma and_one_bit: "(imask :: u32) AND push_bit j 1 = (if bit imask j then push_bit j 1 else 0)"
  by (rule bit_word_eqI) (auto simp: bit_simps)

lemma and_power: "(imask :: u32) AND 2 ^ j = (if bit imask j then 2 ^ j else 0)"
  using and_one_bit [of imask j] by (simp add: push_bit_eq_mult)

lemma bit_less_32: "bit (imask :: u32) j \<Longrightarrow> j < 32"
  using bit_imp_le_length [of imask j] by simp

lemma put_queues_Modules [simp]: "w_Modules (put_queues N rb cs s) = w_Modules s"
  unfolding put_queues_def by (induction cs arbitrary: s) simp_all

lemma put_queues_heap:
  "distinct cs \<Longrightarrow> w_heap (put_queues N rb cs s) c = (if c \<in> set cs then map_option (q_put N rb) (w_heap s c) else w_heap s c)"
  unfolding put_queues_def by (induction cs arbitrary: s) auto

lemma fill_interrupt_Modules [simp]: "w_Modules (fill_interrupt k i rb imask j s) = w_Modules s"
  by (simp add: fill_interrupt_def Let_def)

lemma fill_interrupt_heap:
  assumes "distinct (conns s i j)"
  shows "w_heap (fill_interrupt k i rb imask j s) c =
    (if bit imask j \<and> c \<in> set (conns s i j) then map_option (q_put (k_QUEUE_SIZE k) (interrupt_event rb j)) (w_heap s c)
     else w_heap s c)"
proof (cases "bit imask j")
  case True
  then show ?thesis
    using assms push_bit_1_nonzero [OF bit_less_32 [OF True]]
    by (auto simp: fill_interrupt_def and_power conns_def interrupt_event_def put_queues_heap Let_def)
next
  case False
  then show ?thesis by (simp add: fill_interrupt_def and_power)
qed

lemma fill_fold_heap:
  assumes "\<forall>j \<in> set js. distinct (conns s i j)"
  shows "w_Modules (fold (fill_interrupt k i rb imask) js s) = w_Modules s \<and>
    w_heap (fold (fill_interrupt k i rb imask) js s) c =
      map_option (fold (\<lambda>j. q_put (k_QUEUE_SIZE k) (interrupt_event rb j))
        (filter (\<lambda>j. bit imask j \<and> c \<in> set (conns s i j)) js)) (w_heap s c)"
  using assms
proof (induction js rule: rev_induct)
  case Nil
  then show ?case by (cases "w_heap s c") simp_all
next
  case (snoc j js)
  let ?t = "fold (fill_interrupt k i rb imask) js s"
  have IH: "w_Modules ?t = w_Modules s" using snoc by simp
  then have "conns ?t i j = conns s i j" by (simp add: conns_def)
  then show ?case
    using snoc fill_interrupt_heap [of ?t i j k rb imask c] by (cases "w_heap s c") auto
qed

lemma fill_heap:
  assumes "skel_ok k s" and "i < w_InstalledModules s"
  shows "w_heap (fill_clients_queues k i rb imask s) c =
    map_option (fold (q_put (k_QUEUE_SIZE k)) (map (interrupt_event rb) (client_interrupts k s i imask c))) (w_heap s c)"
proof -
  have "\<forall>j \<in> set [0..<k_INTERRUPTS k]. distinct (conns s i j)" using conns_ok [OF assms] by simp
  then show ?thesis
    using fill_fold_heap [of "[0..<k_INTERRUPTS k]" s i k rb imask c]
    by (simp add: fill_clients_queues_def client_interrupts_def fold_map comp_def)
qed

section \<open>A client's queue against its specification\<close>

text \<open>
  The events of a client without concurrency: an interrupt puts an entry, and a \<open>read\<close>
  with a timeout of zero takes one or fails at once. The specification is a list of at
  most \<open>N\<close> entries and a counter of the entries dropped since it was last cleared.
\<close>

datatype queue_op = PutOp SkelDrvrReadBuf | ReadOp

fun spec_op :: "nat \<Rightarrow> queue_op \<Rightarrow> SkelDrvrReadBuf list \<times> u16 \<Rightarrow> SkelDrvrReadBuf option \<times> SkelDrvrReadBuf list \<times> u16" where
  "spec_op N (PutOp rb) (xs, missed) =
    (None, if length xs < N then (xs @ [rb], missed) else (tl xs @ [rb], missed + 1))"
| "spec_op N ReadOp ([], missed) = (None, [], 0)"
| "spec_op N ReadOp (x # xs, missed) = (Some x, xs, missed)"

definition read_now :: "nat \<Rightarrow> SkelDrvrClientContext \<Rightarrow> SkelDrvrReadBuf option \<times> SkelDrvrClientContext" where
  "read_now N ccon0 =
    (let ccon = (if q_QueueOff (cc_Queue ccon0) then reset_queue ccon0 else ccon0) in
     case tswait 0 (sint (cc_Timeout ccon)) (cc_Semaphore ccon) of
       (WaitOk, sem) \<Rightarrow> (case q_get N (ccon\<lparr>cc_Semaphore := sem\<rparr>) of (rb, c1) \<Rightarrow> (Some rb, c1))
     | (WaitFailed, sem) \<Rightarrow> (None, client_timeout (ccon\<lparr>cc_Semaphore := sem\<rparr>))
     | (WaitSleeps, sem) \<Rightarrow> (None, ccon\<lparr>cc_Semaphore := sem\<rparr>))"

fun queue_op_run :: "nat \<Rightarrow> queue_op \<Rightarrow> SkelDrvrClientContext \<Rightarrow> SkelDrvrReadBuf option \<times> SkelDrvrClientContext" where
  "queue_op_run N (PutOp rb) c = (None, q_put N rb c)"
| "queue_op_run N ReadOp c = read_now N c"

primrec run_ops :: "('o \<Rightarrow> 's \<Rightarrow> 'r \<times> 's) \<Rightarrow> 'o list \<Rightarrow> 's \<Rightarrow> 'r list \<times> 's" where
  "run_ops f [] s = ([], s)"
| "run_ops f (x # xs) s = (let (r, s1) = f x s; (rs, s2) = run_ops f xs s1 in (r # rs, s2))"

definition queue_agrees :: "nat \<Rightarrow> SkelDrvrClientContext \<Rightarrow> bool" where
  "queue_agrees N c \<longleftrightarrow> q_ok N c \<and> \<not> q_QueueOff (cc_Queue c) \<and> cc_Timeout c = 0 \<and>
    sem_wait (cc_Semaphore c) = [] \<and> int (sem_count (cc_Semaphore c)) = q_Size (cc_Queue c)"

definition queue_abs :: "nat \<Rightarrow> SkelDrvrClientContext \<Rightarrow> SkelDrvrReadBuf list \<times> u16" where
  "queue_abs N c = (q_contents N c, q_missed c)"

text \<open>What \<open>read_now\<close> is: the parts of \<open>SkelDrvrRead\<close> one after the other.\<close>

lemma read_now_is_SkelDrvrRead:
  assumes "skel_get_ccon flp s = Some c" and "w_heap s c = Some x" and "SkelDrvrRead_wait 0 flp s = (ReadWaits c w, t)"
  shows "w \<noteq> WaitSleeps \<Longrightarrow>
    (case w of WaitOk \<Rightarrow> SkelDrvrRead_got k c t | _ \<Rightarrow> (None, SkelDrvrRead_failed c t)) =
    (fst (read_now (k_QUEUE_SIZE k) x), upd_client c (\<lambda>_. snd (read_now (k_QUEUE_SIZE k) x)) s)"
  using assms
  by (auto simp: SkelDrvrRead_wait_def SkelDrvrRead_got_def SkelDrvrRead_failed_def read_now_def Let_def upd_client_def
      split: prod.splits wait_result.splits if_splits)

lemma queue_agrees_put: "queue_agrees N c \<Longrightarrow> queue_agrees N (q_put N rb c)"
proof -
  assume a: "queue_agrees N c"
  then have "q_ok N (q_put N rb c)" by (simp add: queue_agrees_def)
  then show ?thesis using a by (auto simp: queue_agrees_def q_put_def ssignal_def cdcm_up_def Let_def)
qed

lemma queue_abs_put: "queue_agrees N c \<Longrightarrow> queue_abs N (q_put N rb c) = snd (spec_op N (PutOp rb) (queue_abs N c))"
  using skq.contents_put [of N c rb] skq.missed_put [of N c rb]
  by (auto simp: queue_abs_def queue_agrees_def simp del: length_q_contents)

lemma queue_read:
  assumes a: "queue_agrees N c"
  shows "queue_agrees N (snd (read_now N c)) \<and> fst (read_now N c) = fst (spec_op N ReadOp (queue_abs N c)) \<and>
    queue_abs N (snd (read_now N c)) = snd (spec_op N ReadOp (queue_abs N c))"
proof (cases "q_contents N c")
  case Nil
  then have sz: "q_Size (cc_Queue c) = 0" "sem_count (cc_Semaphore c) = 0"
    using a length_q_contents [of N c] by (auto simp: queue_agrees_def elim!: q_ok_cases)
  then have "read_now N c = (None, client_timeout c)"
    using a by (simp add: read_now_def queue_agrees_def tswait_def cdcm_down_trylock_def)
  then show ?thesis
    using a sz Nil
    by (auto simp: queue_agrees_def queue_abs_def client_timeout_def q_ok_def q_bounds_def q_contents_def q_missed_def Let_def)
next
  case (Cons x xs)
  let ?c = "c\<lparr>cc_Semaphore := (cc_Semaphore c)\<lparr>sem_count := sem_count (cc_Semaphore c) - 1\<rparr>\<rparr>"
  have pos: "0 < sem_count (cc_Semaphore c)"
    using a Cons length_q_contents [of N c] by (auto simp: queue_agrees_def)
  then have rd: "read_now N c = (Some (fst (q_get N ?c)), snd (q_get N ?c))"
    using a by (simp add: read_now_def queue_agrees_def tswait_def cdcm_down_trylock_def split: prod.split)
  have ok: "q_ok N ?c" and eq: "q_contents N ?c = q_contents N c" "q_missed ?c = q_missed c"
    using a by (simp_all add: queue_agrees_def q_ok_def q_contents_def q_missed_def)
  then have ne: "q_contents N ?c \<noteq> []" using Cons by simp
  have "queue_agrees N (snd (q_get N ?c))"
    using skq.invar_get [OF ok ne] a pos by (simp add: queue_agrees_def) (simp add: q_get_def Let_def of_nat_diff)
  then show ?thesis
    using skq.contents_get [OF ok ne] rd eq Cons by (simp add: queue_abs_def)
qed

lemma queue_op_refines:
  "queue_agrees N c \<Longrightarrow> queue_op_run N op c = (r, c1) \<Longrightarrow>
    queue_agrees N c1 \<and> spec_op N op (queue_abs N c) = (r, queue_abs N c1)"
  using queue_agrees_put queue_abs_put queue_read [of N c]
  by (cases op) (auto simp: prod_eq_iff, metis fst_conv snd_conv spec_op.simps(1) surj_pair)

section \<open>A sample installation\<close>

text \<open>
  The constants of the CVORG driver (\<open>src/cvorg/include/skeluser.h\<close>), a VME bus that records
  the writes and reads back an address as its contents, a bottom half that keeps the mask of enabled
  interrupts and raises them all, and a driver with one module.
\<close>

definition cvorg_consts :: skel_consts where
  "cvorg_consts = \<lparr>k_MODULE_CONTEXTS = 8, k_CLIENT_CONTEXTS = 16, k_INTERRUPTS = 2, k_QUEUE_SIZE = 8, k_CONNECTIONS = 16,
    k_CLIENT_TIMEOUT = 2000, k_MODULE_TIMEOUT = 10, k_BUS_VME = True, k_BUS_PCI = False, k_BUS_CAR = False\<rparr>"

definition sample_ops :: "(u32 \<times> u32) list bus_ops" where
  "sample_ops = \<lparr>find_controller = (\<lambda>base sz am dw b. (0x1000, b)), return_controller = (\<lambda>addr sz b. (False, b)),
    vme_intset = (\<lambda>vec i b. (False, b)), vme_intclr = (\<lambda>vec b. (False, b)), drm_get_handle = (\<lambda>v d b. (None, b)),
    drm_bus_slot = (\<lambda>h b. (0, 0)), drm_free_handle = (\<lambda>h b. b), drm_map_resource = (\<lambda>h r b. (None, b)),
    drm_unmap_resource = (\<lambda>h r b. b), drm_register_isr = (\<lambda>h i b. (True, b)), drm_unregister_isr = (\<lambda>h b. b),
    io_read = (\<lambda>w big a b. (a, b)), io_write = (\<lambda>w big v a b. b @ [(a, v)])\<rparr>"

definition sample_user :: "u32 skel_user" where
  "sample_user = \<lparr>u_GetModuleVersion = (\<lambda>i u. ([], u)), u_GetHardwareStatus = (\<lambda>i u. (u, u)),
    u_GetUtc = (\<lambda>i u. ((0, 0), u)), u_HardwareReset = (\<lambda>i u. u), u_GetInterruptSource = (\<lambda>i u. ((1, 2), u, u)),
    u_EnableInterrupts = (\<lambda>i v u. v), u_HardwareEnable = (\<lambda>i v u. (UserOK, u)), u_JtagReadByte = (\<lambda>i u. (UserOK, 0, u)),
    u_JtagWriteByte = (\<lambda>i v u. (UserOK, u)), u_Ioctls = (\<lambda>c i nr arg u. (UserOK, u)), u_ModuleInit = (\<lambda>i d u. (UserOK, u)),
    u_ModuleRelease = (\<lambda>i u. u), u_ClientInit = (\<lambda>c u. (UserOK, u)), u_ClientRelease = (\<lambda>c u. u)\<rparr>"

definition sample_space :: InsLibAddressSpace where
  "sample_space = \<lparr>as_Mapped = 0, as_Number = 0x39, as_WindowSize = 0x100, as_DataWidth = 16, as_Endian = EndianBIG,
    as_BaseAddress = 0, as_FreeModifierFlag = False\<rparr>"

definition sample_modld :: InsLibModlDesc where
  "sample_modld = \<lparr>md_BusType = BusVME, md_ModuleNumber = 1, md_IgnoreErrors = False,
    md_Isr = Some \<lparr>ir_IsrFlag = True, ir_Vector = 0x40, ir_Level = 2\<rparr>,
    md_ModuleAddress = Some \<lparr>ma_Spaces = [sample_space], ma_BusNumber = 0, ma_SlotNumber = 0, ma_VendorId = 0, ma_DeviceId = 0\<rparr>,
    md_Extra = None, md_ModuleName = []\<rparr>"

definition sample_driver :: InsLibDrvrDesc where
  "sample_driver = \<lparr>dd_Modules = [sample_modld], dd_DrvrName = ''cvorg'', dd_DebugFlags = 0, dd_EmulationFlags = 0, dd_ModuleCount = 1\<rparr>"

definition sample_mem :: kmem where "sample_mem = \<lparr>brk = [], live = 0\<rparr>"

definition sample_module :: SkelDrvrModuleContext where
  "sample_module = zero_mcon\<lparr>mc_ModuleNumber := 1, mc_InUse := True,
    mc_Modld := sample_modld\<lparr>md_ModuleAddress := Some \<lparr>ma_Spaces = [sample_space\<lparr>as_Mapped := 0x1000\<rparr>], ma_BusNumber = 0,
      ma_SlotNumber = 0, ma_VendorId = 0, ma_DeviceId = 0\<rparr>\<rparr>,
    mc_Semaphore := cdcm_sem_init 1, mc_Timeout := 10, mc_clients := [[], []]\<rparr>"

definition sample_wa :: "((u32 \<times> u32) list, u32) skel" where
  "sample_wa = \<lparr>w_Drvrd = sample_driver, w_InstalledModules = 1, w_clients = [],
    w_Modules = sample_module # replicate 7 zero_mcon, w_heap = (\<lambda>_. None), w_bus = [], w_user = 0\<rparr>"

lemmas sample_defs = cvorg_consts_def sample_ops_def sample_user_def sample_space_def sample_modld_def sample_driver_def
  sample_mem_def sample_module_def

lemma sample_simps [simp]:
  "dd_Modules sample_driver = [sample_modld]" "dd_ModuleCount sample_driver = 1" "md_ModuleNumber sample_modld = 1"
  "k_MODULE_CONTEXTS cvorg_consts = 8" "k_QUEUE_SIZE cvorg_consts = 8" "k_INTERRUPTS cvorg_consts = 2"
  "k_CLIENT_TIMEOUT cvorg_consts = 2000"
  "w_InstalledModules sample_wa = 1" "w_heap sample_wa = (\<lambda>_. None)" "w_clients sample_wa = []" "w_user sample_wa = 0"
  "w_Modules sample_wa = sample_module # replicate 7 zero_mcon" "mc_ModuleNumber sample_module = 1"
  "mc_clients sample_module = [[], []]" "u_ClientInit sample_user c u = (UserOK, u)"
  by (simp_all add: sample_defs sample_wa_def)

lemma sample_install:
  "SkelDrvrInstall cvorg_consts sample_ops sample_user True (Some sample_driver) sample_mem [] 0 =
    Some (Inr (sample_wa, sample_mem\<lparr>live := 5\<rparr>))"
proof -
  have "InsLibCloneOneDriver (Some sample_driver) sample_mem = (Some sample_driver, sample_mem\<lparr>live := 5\<rparr>)"
    by (simp add: InsLibCloneOneDriver_def sample_defs clone_module_address_def inst_defs clone_address_def)
  moreover have "AddModule cvorg_consts sample_ops sample_user 0
      (set_mcon_defaults cvorg_consts sample_driver (zero_mcon\<lparr>mc_Modld := sample_modld, mc_ModuleNumber := 1\<rparr>)) [] 0 =
      Some (True, sample_module\<lparr>mc_InUse := False\<rparr>, [], 0)"
    by code_simp
  ultimately show ?thesis
    by (simp add: SkelDrvrInstall_def modules_install_def wa_init_def eval_nat_numeral replicate_Suc)
       (simp add: sample_wa_def sample_module_def eval_nat_numeral zero_mcon_def)
qed

end
