(* ===== verification/Skel_Theorems.thy ===== *)
theory Skel_Theorems
  imports Skel_Props
begin

text \<open>
  The theorems on the skeleton driver: its reachable states, the delivery of interrupts,
  the queues of the clients, raw block transfers, and the installation of its modules.
\<close>

section \<open>Reachable states\<close>

text \<open>
  C20: after the installation of a driver whose modules are numbered from one, in every
  reachable state of the driver each client in a list of connected clients is open (its
  context is allocated and in the driver's list), and is there only once; the list of
  clients holds exactly the allocated contexts; every client has selected an installed
  module and the indices of its queue are in the array; and a task inside \<open>read\<close> uses a
  context that is still allocated.
\<close>

theorem no_dangling_clients:
  assumes "SkelDrvrInstall k ops usr mem (Some info) km b u = Some (Inr (s0, km1))"
    and "\<forall>m \<in> set (dd_Modules info). md_ModuleNumber m \<noteq> 0" and "0 < k_QUEUE_SIZE k" and "k_INTERRUPTS k \<le> 32"
    and "(skel_step k ops usr rng)\<^sup>*\<^sup>* (s0, \<lambda>_. None) (s, p)"
  shows "(\<forall>i < w_InstalledModules s. \<forall>j < k_INTERRUPTS k.
      distinct (mc_clients (w_Modules s ! i) ! j) \<and> set (mc_clients (w_Modules s ! i) ! j) \<subseteq> set (w_clients s)) \<and>
    distinct (w_clients s) \<and> set (w_clients s) = dom (w_heap s) \<and>
    (\<forall>c x. w_heap s c = Some x \<longrightarrow> get_mcon (cc_ModuleNumber x) s \<noteq> None \<and>
      q_RdPntr (cc_Queue x) < length (q_Entries (cc_Queue x)) \<and> q_WrPntr (cc_Queue x) < length (q_Entries (cc_Queue x))) \<and>
    (\<forall>task c w. p task = Some (c, w) \<longrightarrow> c \<in> dom (w_heap s))"
proof -
  have "sys_start k ops usr (s0, \<lambda>_. None)" using assms(1-4) unfolding sys_start_def fst_conv snd_conv by blast
  then have "sys_ok k (s, p)" using assms(5) by (rule sk.reachable_invar)
  then have ok: "links_ok k s" "heap_ok k s" "reads_ok s p" by (simp_all add: sys_ok_def skel_ok_def)
  show ?thesis
    using ok(1) unfolding links_ok_def
    using ok(2,3) unfolding heap_ok_def client_ok_def q_bounds_def reads_ok_def by simp
qed

definition sample_open :: "((u32 \<times> u32) list, u32) skel" where
  "sample_open = snd (SkelDrvrOpen cvorg_consts sample_user True True 7 100 3 sample_wa)"

lemma sample_open_step:
  "skel_step cvorg_consts sample_ops sample_user (0, 0) (sample_wa, \<lambda>_. None) (sample_open, \<lambda>_. None)"
  by (rule open_step [where mem = True and mem_link = True and c = 7 and pid = 100 and flp = 3])
     (auto simp: sample_open_def prod_eq_iff)

lemma sample_open_reachable:
  "(skel_step cvorg_consts sample_ops sample_user (0, 0))\<^sup>*\<^sup>* (sample_wa, \<lambda>_. None) (sample_open, \<lambda>_. None)"
  using sample_open_step by (rule r_into_rtranclp)

theorem no_dangling_clients_witness:
  "set (w_clients sample_open) = dom (w_heap sample_open) \<and> w_clients sample_open = [7]"
  using no_dangling_clients [OF sample_install _ _ _ sample_open_reachable]
  by (simp add: sample_open_def SkelDrvrOpen_def Let_def)

text \<open>
  The raw transfers the driver has no answer to: on an address space that is not mapped (one item, or a block), or a block
  of items narrower than 8 bits.
\<close>

definition bad_transfer :: "SkelDrvrModuleContext \<Rightarrow> skel_cmd \<Rightarrow> bool" where
  "bad_transfer m cmd =
    (case cmd of
       RAW_READ riob \<Rightarrow> (\<exists>a. InsLibGetAddressSpaceWidth (mc_Modld m) (ri_SpaceNumber riob) (ri_DataWidth riob) = Some a \<and> as_Mapped a = 0)
     | RAW_WRITE riob \<Rightarrow> (\<exists>a. InsLibGetAddressSpaceWidth (mc_Modld m) (ri_SpaceNumber riob) (ri_DataWidth riob) = Some a \<and> as_Mapped a = 0)
     | RAW_BLOCK_READ riob ubuf \<Rightarrow> (\<exists>a. InsLibGetAddressSpace (mc_Modld m) (rt_SpaceNumber riob) = Some a
         \<and> (as_Mapped a = 0 \<or> transfer_width a (rt_DataWidth riob) < 8))
     | RAW_BLOCK_WRITE riob ubuf \<Rightarrow> (\<exists>a. InsLibGetAddressSpace (mc_Modld m) (rt_SpaceNumber riob) = Some a
         \<and> (as_Mapped a = 0 \<or> transfer_width a (rt_DataWidth riob) < 8))
     | _ \<Rightarrow> False)"

lemma RawIo_faults:
  "RawIo ops m riob wr b = None \<Longrightarrow>
    \<exists>a. InsLibGetAddressSpaceWidth (mc_Modld m) (ri_SpaceNumber riob) (ri_DataWidth riob) = Some a \<and> as_Mapped a = 0"
  by (auto simp: RawIo_def Let_def split: option.splits if_splits prod.splits)

lemma RawIoBlock_faults:
  assumes "RawIoBlock ops cpu_big brk_ok junk m riob wr ubuf b = None"
  shows "\<exists>a. InsLibGetAddressSpace (mc_Modld m) (rt_SpaceNumber riob) = Some a
    \<and> (as_Mapped a = 0 \<or> transfer_width a (rt_DataWidth riob) < 8)"
proof -
  have "tr_bytes (make_transfer cpu_big a riob) = transfer_width a (rt_DataWidth riob) div 8" for a
    by (simp add: make_transfer_def Let_def)
  then show ?thesis
    using assms by (auto simp: RawIoBlock_def Let_def div_eq_0_iff split: option.splits if_splits)
qed

lemma module_cmd_faults:
  assumes "fst (module_cmd ops usr cpu_big brk_ok junk task i cmd s) = Oops"
  shows "bad_transfer (w_Modules s ! i) cmd"
  using assms RawIo_faults RawIoBlock_faults
  by (cases cmd; simp add: module_cmd_def bad_transfer_def jtag_open_def Let_def
      split: option.splits prod.splits rc.splits wait_result.splits if_splits)

text \<open>
  C23: in every reachable state a command of \<open>ioctl\<close> ends in a fault of the kernel only as a raw transfer on an address
  space of the selected module that has no mapping, or as a block transfer with a data width below 8 bits. Every other
  command of every process returns: the client found for the file is allocated and its module exists, though the code does not check the module.
\<close>

theorem ioctl_faults_only_in_raw_transfers:
  assumes "SkelDrvrInstall k ops usr mem (Some info) km b u = Some (Inr (s0, km1))"
    and "\<forall>m \<in> set (dd_Modules info). md_ModuleNumber m \<noteq> 0" and "0 < k_QUEUE_SIZE k" and "k_INTERRUPTS k \<le> 32"
    and "(skel_step k ops usr rng)\<^sup>*\<^sup>* (s0, \<lambda>_. None) (s, p)"
    and "fst (SkelDrvrIoctl k ops usr rng cpu_big mem' brk_ok junk task flp cmd s) = Oops"
  shows "\<exists>c x i. skel_get_ccon flp s = Some c \<and> w_heap s c = Some x \<and> get_mcon (cc_ModuleNumber x) s = Some i
    \<and> bad_transfer (w_Modules s ! i) cmd"
proof -
  have "sys_start k ops usr (s0, \<lambda>_. None)" using assms(1-4) unfolding sys_start_def fst_conv snd_conv by blast
  then have ok: "skel_ok k s" using sk.reachable_invar [OF _ assms(5)] by (simp add: sys_ok_def)
  obtain c where c: "skel_get_ccon flp s = Some c" using assms(6) by (cases "skel_get_ccon flp s") (auto simp: SkelDrvrIoctl_def)
  obtain x where x: "w_heap s c = Some x" using c skel_get_ccon_in by blast
  obtain i where i: "get_mcon (cc_ModuleNumber x) s = Some i" using skel_ok_client [OF ok x] by blast
  have "fst (module_cmd ops usr cpu_big brk_ok junk task i cmd s) = Oops"
    using assms(6) c x i
    by (cases cmd) (auto simp: SkelDrvrIoctl_def client_cmd_def get_queue_overflow_def split: prod.splits if_splits)
  then show ?thesis using c x i module_cmd_faults by blast
qed

theorem ioctl_faults_only_in_raw_transfers_witness:
  "fst (SkelDrvrIoctl cvorg_consts sample_ops sample_user (0, 0) False (\<lambda>_. True) True (\<lambda>_. 0) 1 3 RESET sample_open) \<noteq> Oops"
  using ioctl_faults_only_in_raw_transfers [OF sample_install _ _ _ sample_open_reachable, of False "\<lambda>_. True" True "\<lambda>_. 0" 1 3 RESET]
  by (auto simp: bad_transfer_def)

section \<open>Interrupts and queues\<close>

text \<open>A signal for each entry that finds the queue not full.\<close>

lemma q_put_semaphore:
  "q_ok N x \<Longrightarrow> cc_Semaphore (q_put N rb x) = (if length (q_contents N x) < N then ssignal (cc_Semaphore x) else cc_Semaphore x)"
  by (auto simp: q_put_def Let_def elim!: q_ok_cases)

lemma q_puts_semaphore:
  "q_ok N x \<Longrightarrow>
    cc_Semaphore (fold (q_put N) rbs x) = ssignaln (length rbs - (length (q_contents N x @ rbs) - N)) (cc_Semaphore x)"
proof (induction rbs arbitrary: x)
  case (Cons rb rbs)
  have ok: "q_ok N (q_put N rb x)" and le: "length (q_contents N x) \<le> N" and pos: "0 < N"
    using skq.invar_put [OF Cons.prems] skq.length_contents [OF Cons.prems] skq.cap_pos [OF Cons.prems] by simp_all
  have len: "length (q_contents N (q_put N rb x)) = (if length (q_contents N x) < N then Suc (length (q_contents N x)) else N)"
    using skq.contents_put [OF Cons.prems, of rb] le pos by (simp del: length_q_contents)
  show ?case
  proof (cases "length (q_contents N x) < N")
    case True
    then have "length (rb # rbs) - (length (q_contents N x @ rb # rbs) - N)
      = Suc (length rbs - (length (q_contents N (q_put N rb x) @ rbs) - N))"
      using len by (simp del: length_q_contents)
    then show ?thesis using True Cons.IH [OF ok] q_put_semaphore [OF Cons.prems, of rb] by (simp add: ssignal_def del: length_q_contents)
  next
    case False
    then show ?thesis using len le Cons.IH [OF ok] q_put_semaphore [OF Cons.prems, of rb] by (simp del: length_q_contents)
  qed
qed simp

text \<open>
  C21: the interrupt handler gives every client an entry for each interrupt that the
  hardware reports and that the client is connected to, one interrupt per entry, with the module
  and the time of the interrupt, in ascending order. For a client whose queue counts its entries right, the queue then holds the
  newest entries of what it held and what arrived, the count of missed events has grown
  by the number dropped, and its semaphore has been signalled once for each entry that came while the queue was not full: arrivals that
  push out an older entry signal nobody. A client with no arrival is as it was.
\<close>

theorem interrupts_reach_connected_clients:
  assumes "skel_ok k s" and "i < w_InstalledModules s" and "w_heap s c = Some x" and "q_ok (k_QUEUE_SIZE k) x"
    and "u_GetInterruptSource usr i (w_user s) = (time, imask, u1)"
    and "arrived = map (\<lambda>j. \<lparr>rb_Connection = \<lparr>cx_Module = mc_ModuleNumber (w_Modules s ! i), cx_ConMask = push_bit j 1\<rparr>, rb_Time = time\<rparr>)
      (filter (\<lambda>j. bit imask j \<and> c \<in> set (mc_clients (w_Modules s ! i) ! j)) [0..<k_INTERRUPTS k])"
    and "dropped = length (q_contents (k_QUEUE_SIZE k) x @ arrived) - k_QUEUE_SIZE k"
  shows "\<exists>y. w_heap (IntrHandler k usr i s) c = Some y \<and>
    q_contents (k_QUEUE_SIZE k) y = drop dropped (q_contents (k_QUEUE_SIZE k) x @ arrived) \<and>
    q_missed y = q_missed x + of_nat dropped \<and>
    cc_Semaphore y = ssignaln (length arrived - dropped) (cc_Semaphore x) \<and> (arrived = [] \<longrightarrow> y = x)"
proof -
  let ?N = "k_QUEUE_SIZE k"
  let ?rb = "\<lparr>rb_Connection = \<lparr>cx_Module = mc_ModuleNumber (w_Modules s ! i), cx_ConMask = 0\<rparr>, rb_Time = time\<rparr>"
  let ?s = "s\<lparr>w_user := u1\<rparr>"
  have arr: "arrived = map (interrupt_event ?rb) (client_interrupts k ?s i imask c)"
    by (simp add: assms(6) interrupt_event_def client_interrupts_def conns_def)
  have "w_heap (IntrHandler k usr i s) c = Some (fold (q_put ?N) arrived x)"
  proof (cases "imask = 0")
    case True
    then show ?thesis using assms by (simp add: IntrHandler_def)
  next
    case False
    then show ?thesis using assms(3,5) fill_heap [of k ?s i ?rb imask c] assms(1,2)
      by (simp add: IntrHandler_def Let_def arr)
  qed
  then show ?thesis
    using skq.contents_puts [OF assms(4), of arrived] skq.missed_puts [OF assms(4), of arrived] q_puts_semaphore [OF assms(4), of arrived] assms(7)
    by (simp del: length_q_contents)
qed

definition sample_connected :: "((u32 \<times> u32) list, u32) skel" where
  "sample_connected = Connect cvorg_consts sample_user (\<lambda>_. True) 7 \<lparr>cx_Module = 1, cx_ConMask = 3\<rparr> sample_open"

lemma sample_open_eq:
  "sample_open = sample_wa\<lparr>w_heap := [7 \<mapsto> client_init 8 2000 100 (Some 1) 3], w_clients := [7]\<rparr>"
  by (simp add: sample_open_def SkelDrvrOpen_def Let_def sample_wa_def)

lemma sample_connected_eq:
  "sample_connected = sample_open\<lparr>w_Modules := sample_module\<lparr>mc_clients := [[7], [7]], mc_enabled_ints := 3\<rparr> # replicate 7 zero_mcon,
    w_user := 3\<rparr>"
  by (simp add: sample_connected_def Connect_def connection_module_def sample_open_eq get_mcon_def connect_one_def
      upd_module_def upd_user_def sample_wa_def sample_user_def upt_rec sample_module_def zero_mcon_def)

lemma sample_open_ok: "skel_ok cvorg_consts sample_open"
  using sk.reachable_invar [OF _ sample_open_reachable] sample_install
  by (fastforce simp: sys_start_def sys_ok_def)

lemma sample_connected_ok: "skel_ok cvorg_consts sample_connected"
  unfolding sample_connected_def
  by (rule loop_ok_ok [OF Connect_loop [OF sample_open_ok]]) (simp add: sample_open_eq)

theorem interrupts_reach_connected_clients_witness:
  "\<exists>y. w_heap (IntrHandler cvorg_consts sample_user 0 sample_connected) 7 = Some y \<and>
    q_contents 8 y = [\<lparr>rb_Connection = \<lparr>cx_Module = 1, cx_ConMask = 1\<rparr>, rb_Time = (1, 2)\<rparr>,
      \<lparr>rb_Connection = \<lparr>cx_Module = 1, cx_ConMask = 2\<rparr>, rb_Time = (1, 2)\<rparr>] \<and> q_missed y = 0 \<and>
    cc_Semaphore y = ssignaln 2 (cdcm_sem_init 0)"
proof -
  have "q_contents 8 (client_init 8 2000 100 (Some 1) 3) = []" "q_missed (client_init 8 2000 100 (Some 1) 3) = 0"
    "cc_Semaphore (client_init 8 2000 100 (Some 1) 3) = cdcm_sem_init 0"
    by (simp_all add: client_init_def q_contents_def reset_queue_def q_missed_def sreset_def cdcm_sem_init_def Let_def)
  moreover have "w_user sample_connected = 3" "w_InstalledModules sample_connected = 1"
    "w_heap sample_connected 7 = Some (client_init 8 2000 100 (Some 1) 3)"
    "w_Modules sample_connected ! 0 = sample_module\<lparr>mc_clients := [[7], [7]], mc_enabled_ints := 3\<rparr>"
    by (simp_all add: sample_connected_eq sample_open_eq)
  moreover have "bit (3 :: u32) 0" "bit (3 :: u32) 1" by simp_all
  ultimately show ?thesis
    using interrupts_reach_connected_clients [OF sample_connected_ok _ _ _ _ refl refl, of 0 7 "client_init 8 2000 100 (Some 1) 3" sample_user "(1, 2)" 3 3]
    by (simp add: q_ok_init sample_user_def upt_rec numeral_2_eq_2 [symmetric])
qed

text \<open>
  C22: for a client with a timeout of zero and no concurrent task, the circular buffer with
  its semaphore implements the specification of its queue: any sequence of interrupts and
  reads returns the same entries and leaves the same contents and count of missed events as
  the list that drops its oldest entry when it holds \<open>SkelDrvrQUEUE_SIZE\<close>.
\<close>

theorem client_queue_refines_list:
  "queue_agrees N c \<Longrightarrow> run_ops (queue_op_run N) opers c = (rs, c1) \<Longrightarrow>
    run_ops (spec_op N) opers (queue_abs N c) = (rs, queue_abs N c1) \<and> queue_agrees N c1"
proof (induction opers arbitrary: c rs)
  case (Cons op opers)
  obtain r c0 where 1: "queue_op_run N op c = (r, c0)" by force
  obtain rs0 where 2: "run_ops (queue_op_run N) opers c0 = (rs0, c1)" and rs: "rs = r # rs0"
    using Cons.prems(2) 1 by (auto split: prod.splits)
  show ?case using queue_op_refines [OF Cons.prems(1) 1] Cons.IH [OF _ 2] rs by (simp add: Let_def)
qed simp

theorem client_queue_refines_list_witness:
  "fst (run_ops (spec_op 2) [PutOp zero_read_buf, ReadOp, ReadOp] (queue_abs 2 (client_init 2 0 1 None 1))) =
     [None, Some zero_read_buf, None]"
proof -
  let ?c = "client_init 2 0 1 None 1"
  have "queue_agrees 2 ?c"
    using q_ok_init [of 2 0 1 None 1]
    by (simp add: queue_agrees_def) (simp add: client_init_def reset_queue_def sreset_def cdcm_sem_init_def)
  moreover have "fst (run_ops (queue_op_run 2) [PutOp zero_read_buf, ReadOp, ReadOp] ?c) = [None, Some zero_read_buf, None]"
    by code_simp
  ultimately show ?thesis
    using client_queue_refines_list [of 2 ?c "[PutOp zero_read_buf, ReadOp, ReadOp]"] by (metis fst_conv prod.collapse)
qed

section \<open>Where the driver does not do what it means to\<close>

lemma disconnect_one_effect:
  assumes "i < length (w_Modules s)" and "j < length (mc_clients (w_Modules s ! i))" and "j < 32"
  shows "conns (disconnect_one usr c i (-1) j s) i l = (if l = j then remove1 c (conns s i j) else conns s i l) \<and>
    mc_enabled_ints (w_Modules (disconnect_one usr c i (-1) j s) ! i) =
      (if c \<in> set (conns s i j) \<and> remove1 c (conns s i j) = [] then 0 else mc_enabled_ints (w_Modules s ! i))"
  using assms push_bit_1_nonzero [OF assms(3)]
  by (auto simp: disconnect_one_def conns_def Let_def upd_user_def remove1_idem)

lemma disconnect_fold_effect:
  assumes "skel_ok k s" and "get_mcon n s = Some i" and "set js \<subseteq> {0..<k_INTERRUPTS k}" and "distinct js"
    and "t = fold (disconnect_one usr c i (-1)) js s"
  shows "(\<forall>l. conns t i l = (if l \<in> set js then remove1 c (conns s i l) else conns s i l)) \<and>
    mc_enabled_ints (w_Modules t ! i) =
      (if \<exists>j \<in> set js. conns s i j = [c] then 0 else mc_enabled_ints (w_Modules s ! i))"
  using assms(3-5)
proof (induction js arbitrary: t rule: rev_induct)
  case (snoc j js)
  define u where "u = fold (disconnect_one usr c i (-1)) js s"
  have loop: "loop_ok k s u"
    using disconnect_fold_clears [OF assms(1,2), of js usr c "-1"] snoc.prems(1) by (simp add: u_def)
  have ok: "skel_ok k u" and mod: "get_mcon (mc_ModuleNumber (w_Modules u ! i)) u = Some i"
    using loop_ok_ok [OF loop] loop_ok_module [OF loop assms(2,1)] by simp_all
  have i: "i < w_InstalledModules u" "i < length (w_Modules u)"
    using get_mcon_bound [OF mod] skel_ok_installed [OF ok] by auto
  have j: "j < k_INTERRUPTS k" "j < 32" using snoc.prems(1) ok by (auto simp: skel_ok_def)
  have eff: "conns (disconnect_one usr c i (-1) j u) i l = (if l = j then remove1 c (conns u i j) else conns u i l) \<and>
      mc_enabled_ints (w_Modules (disconnect_one usr c i (-1) j u) ! i) =
        (if c \<in> set (conns u i j) \<and> remove1 c (conns u i j) = [] then 0 else mc_enabled_ints (w_Modules u ! i))" for l
    using i j skel_ok_lists [OF ok i(1)] by (intro disconnect_one_effect) auto
  have IH: "(\<forall>l. conns u i l = (if l \<in> set js then remove1 c (conns s i l) else conns s i l)) \<and>
      mc_enabled_ints (w_Modules u ! i) = (if \<exists>j \<in> set js. conns s i j = [c] then 0 else mc_enabled_ints (w_Modules s ! i))"
    using snoc.IH [OF _ _ u_def] snoc.prems by simp
  have one: "c \<in> set xs \<and> remove1 c xs = [] \<longleftrightarrow> xs = [c]" for xs by (cases xs) auto
  have "t = disconnect_one usr c i (-1) j u" using snoc.prems(3) by (simp add: u_def)
  then show ?case using eff IH snoc.prems(2) by (auto simp: one)
qed simp

text \<open>
  When a client disconnects from a module (as \<open>close\<close> does), and was the only client of
  one of its interrupts, the driver disables every interrupt of the module: also those to
  which other clients stay connected, which from then on wait in vain. (The code clears the
  whole mask instead of the bit of the interrupt that has lost its last client.)
\<close>

lemma disconnect_disables_other_clients:
  assumes "skel_ok k s" and "n \<noteq> 0" and "get_mcon n s = Some i" and "j < k_INTERRUPTS k"
    and "mc_clients (w_Modules s ! i) ! j = [c]" and "d \<in> set (mc_clients (w_Modules s ! i) ! l)" and "d \<noteq> c"
    and "t = DisConnect k usr c \<lparr>cx_Module = n, cx_ConMask = 0\<rparr> s"
  shows "d \<in> set (mc_clients (w_Modules t ! i) ! l) \<and> mc_enabled_ints (w_Modules t ! i) = 0"
proof -
  have "t = fold (disconnect_one usr c i (-1)) [0..<k_INTERRUPTS k] s"
    using assms by (simp add: DisConnect_def connection_module_def disconnect_module_def)
  from disconnect_fold_effect [OF assms(1,3) _ _ this] show ?thesis
    using assms(4-7) by (auto simp: conns_def)
qed

definition sample_two :: "((u32 \<times> u32) list, u32) skel" where
  "sample_two = Connect cvorg_consts sample_user (\<lambda>_. True) 8 \<lparr>cx_Module = 1, cx_ConMask = 2\<rparr>
    (snd (SkelDrvrOpen cvorg_consts sample_user True True 8 101 4
      (Connect cvorg_consts sample_user (\<lambda>_. True) 7 \<lparr>cx_Module = 1, cx_ConMask = 1\<rparr> sample_open)))"

lemma sample_two_ok: "skel_ok cvorg_consts sample_two"
proof -
  let ?s = "Connect cvorg_consts sample_user (\<lambda>_. True) 7 \<lparr>cx_Module = 1, cx_ConMask = 1\<rparr> sample_open"
  have l: "loop_ok cvorg_consts sample_open ?s"
    by (rule Connect_loop [OF sample_open_ok]) (simp add: sample_open_eq)
  then have h: "w_heap ?s = [7 \<mapsto> client_init 8 2000 100 (Some 1) 3]" by (simp add: loop_ok_def sample_open_eq)
  obtain r t where t: "SkelDrvrOpen cvorg_consts sample_user True True 8 101 4 ?s = (r, t)" by force
  have "skel_ok cvorg_consts t"
    by (rule skel_ok_Open [OF loop_ok_ok [OF l] t]) (auto simp: h split: if_splits)
  moreover have "8 \<in> dom (w_heap t)" using t by (auto simp: SkelDrvrOpen_def Let_def)
  ultimately show ?thesis
    unfolding sample_two_def using t loop_ok_ok [OF Connect_loop] by simp
qed

lemma disconnect_disables_other_clients_example:
  "8 \<in> set (mc_clients (w_Modules (DisConnect cvorg_consts sample_user 7 \<lparr>cx_Module = 1, cx_ConMask = 0\<rparr> sample_two) ! 0) ! 1) \<and>
   mc_enabled_ints (w_Modules (DisConnect cvorg_consts sample_user 7 \<lparr>cx_Module = 1, cx_ConMask = 0\<rparr> sample_two) ! 0) = 0"
proof -
  have "w_InstalledModules sample_two = 1 \<and> mc_ModuleNumber (w_Modules sample_two ! 0) = 1 \<and>
      mc_clients (w_Modules sample_two ! 0) = [[7], [8]]"
    by (simp add: sample_two_def SkelDrvrOpen_def sample_open_eq Connect_def connection_module_def get_mcon_def connect_one_def
        upd_module_def upd_user_def upt_rec Let_def sample_wa_def)
  then show ?thesis
    using disconnect_disables_other_clients [OF sample_two_ok _ _ _ _ _ _ refl, of 1 0 0 7 8 1 sample_user]
    by (simp add: get_mcon_def)
qed

text \<open>
  A \<open>read\<close> whose wait has failed clears the size of the queue but neither its pointers
  nor its semaphore. If an interrupt comes between the end of the wait and that moment, the
  semaphore counts an entry that the size does not; the next read takes it and leaves the
  size at minus one.
\<close>

lemma late_timeout_loses_count:
  assumes "q_ok N x" and "q_Size (cc_Queue x) = 0" and "sem_count (cc_Semaphore x) = 0" and "sem_wait (cc_Semaphore x) = []"
    and "y = client_timeout (q_put N rb x)"
  shows "q_Size (cc_Queue y) = 0 \<and> sem_count (cc_Semaphore y) = 1 \<and>
    fst (tswait task interval (cc_Semaphore y)) = WaitOk \<and> q_Size (cc_Queue (snd (q_get N y))) = -1"
  using assms
  by (auto simp: client_timeout_def q_put_def q_get_def ssignal_def cdcm_up_def tswait_def cdcm_down_def
      cdcm_down_trylock_def Let_def elim!: q_ok_cases)

lemma late_timeout_loses_count_example:
  "q_Size (cc_Queue (snd (q_get 8 (client_timeout (q_put 8 zero_read_buf (client_init 8 2000 1 None 1)))))) = -1"
  using late_timeout_loses_count [OF q_ok_init _ _ _ refl, of 8 2000 1 None 1 zero_read_buf 0 0]
  by (simp add: client_init_def reset_queue_def sreset_def cdcm_sem_init_def)

text \<open>
  Closing the JTAG port gives the module's semaphore two units, one by the reset of the
  module and one by the unlock: after it two tasks can both open the port, which is meant
  to be exclusive.
\<close>

lemma jtag_close_unlocks_twice:
  assumes "sem_ok (mc_Semaphore (w_Modules s ! i))" and "sem_wait (mc_Semaphore (w_Modules s ! i)) = []"
    and "i < length (w_Modules s)" and "t = jtag_close usr i s"
  shows "sem_count (mc_Semaphore (w_Modules t ! i)) = 2 \<and>
    fst (jtag_open task1 i t) = IoOk NoOut \<and> fst (jtag_open task2 i (snd (jtag_open task1 i t))) = IoOk NoOut"
proof -
  have "mc_Semaphore (w_Modules t ! i) = (mc_Semaphore (w_Modules s ! i))\<lparr>sem_count := 2\<rparr>"
    using assms by (simp add: jtag_close_def UnLockModule_def Reset_def Let_def sreset_eq ssignal_def cdcm_up_def
        clear_mcon_status_def)
  moreover have "length (w_Modules t) = length (w_Modules s)"
    by (simp add: assms(4) jtag_close_def UnLockModule_def Reset_def Let_def)
  ultimately show ?thesis
    using assms(3) by (simp add: jtag_open_def LockModule_def tswait_def cdcm_down_def jtag_opened_def
        update_mcon_status_def Let_def)
qed

lemma jtag_close_unlocks_twice_example:
  "sem_count (mc_Semaphore (w_Modules (jtag_close sample_user 0 sample_wa) ! 0)) = 2"
  using jtag_close_unlocks_twice [OF _ _ _ refl, of sample_wa 0 sample_user] by (simp add: sample_module_def cdcm_sem_init_def sem_ok_def)

section \<open>Raw block transfers\<close>

text \<open>
  C26: a block read of 16 or 32 bit items, of any length, through the kernel buffer of 1024 items,
  does the same accesses in the same order and leaves the same bytes in the user's buffer as
  reading item after item straight into it; if the address space is not mapped it faults.
\<close>

theorem raw_block_read_is_direct:
  assumes "InsLibGetAddressSpace (mc_Modld m) (rt_SpaceNumber riob) = Some anyas"
    and "\<not> offset_out_of_range anyas (rt_Offset riob)" and "transfer_width anyas (rt_DataWidth riob) \<in> {16, 32}"
    and "t = make_transfer cpu_big anyas riob"
  shows "RawIoBlock ops cpu_big True junk m riob False ubuf b =
    (if as_Mapped anyas = 0 then None
     else Some (OK, direct_read ops t (transfer_count (rt_BytesTr riob) (tr_bytes t)) (ubuf, b)))"
proof -
  have ok: "transfer_ok t" and bits: "access_bits t \<noteq> 8"
    using assms(3,4) make_transfer_ok [of anyas riob cpu_big] by (auto simp: make_transfer_def access_bits_def Let_def)
  let ?n = "transfer_count (rt_BytesTr riob) (tr_bytes t)"
  let ?s = "transfer_loop ops False t ?n
    \<lparr>ts_uindx = 0, ts_kindx = 0, ts_hskip = 0, ts_kbuf = junk, ts_ubuf = ubuf, ts_bus = b\<rparr>"
  have "read_inv ops t ubuf b ?n ?s" using transfer_read [OF ok bits refl] .
  then have "direct_read ops t ?n (ubuf, b) = (user_view ?s, ts_bus ?s)" by (simp add: read_inv_def)
  moreover have "user_view ?s = (if ts_kindx ?s \<noteq> 0 then overwrite (ts_ubuf ?s) (ts_uindx ?s) (slice (ts_kbuf ?s) 0 (ts_kindx ?s)) else ts_ubuf ?s)"
    by (auto simp: user_view_def overwrite_def slice_def fun_eq_iff)
  moreover have "tr_bytes t \<noteq> 0" using ok by (simp add: transfer_ok_def)
  ultimately show ?thesis
    using assms by (simp add: RawIoBlock_def Let_def)
qed

definition sample_riob :: SkelDrvrRawIoTransferBlock where
  "sample_riob = \<lparr>rt_SpaceNumber = 0x39, rt_Offset = 4, rt_DataWidth = 16, rt_AddrIncr = 1, rt_BytesTr = 4\<rparr>"

lemma sample_space_lookup: "InsLibGetAddressSpace (mc_Modld sample_module) 0x39 = Some (sample_space\<lparr>as_Mapped := 0x1000\<rparr>)"
  by (simp add: InsLibGetAddressSpace_def get_addr_space_def sample_module_def sample_modld_def sample_space_def)

definition sample_transfer :: transfer where
  "sample_transfer = \<lparr>tr_bits = 16, tr_bytes = 2, tr_ksize = 4, tr_incr = 1, tr_mmap = 0x1004, tr_big = True, tr_cpu_big = False\<rparr>"

lemma sample_transfer_eq:
  "make_transfer False (sample_space\<lparr>as_Mapped := 0x1000\<rparr>) sample_riob = sample_transfer"
  "transfer_count 4 (tr_bytes sample_transfer) = 2"
  by (simp_all add: make_transfer_def transfer_width_def transfer_count_def sample_riob_def sample_space_def
      TRANSFERS_def sample_transfer_def Let_def)

theorem raw_block_read_is_direct_witness:
  "\<exists>ubuf. RawIoBlock sample_ops False True (\<lambda>_. 0) sample_module sample_riob False (\<lambda>_. 0) [] = Some (OK, ubuf, []) \<and>
    map ubuf [0..<5] = [0x04, 0x10, 0x06, 0x10, 0]"
proof -
  let ?x = "direct_read sample_ops sample_transfer 2 (\<lambda>_. 0, [])"
  have "RawIoBlock sample_ops False True (\<lambda>_. 0) sample_module sample_riob False (\<lambda>_. 0) [] = Some (OK, ?x)"
    using raw_block_read_is_direct [of sample_module sample_riob "sample_space\<lparr>as_Mapped := 0x1000\<rparr>" sample_transfer False sample_ops "\<lambda>_. 0" "\<lambda>_. 0" "[]"]
      sample_space_lookup sample_transfer_eq
    by (simp add: sample_riob_def offset_out_of_range_def transfer_width_def sample_space_def Let_def)
  moreover have "snd ?x = []" and "map (fst ?x) [0..<5] = [0x04, 0x10, 0x06, 0x10, 0]" by code_simp+
  ultimately show ?thesis by (intro exI [of _ "fst ?x"]) (metis prod.collapse)
qed

lemma direct_write_cong:
  "(\<And>j. j < n \<Longrightarrow> f j = g j) \<Longrightarrow> direct_write ops t f n ubuf b = direct_write ops t g n ubuf b"
  by (induction n) simp_all

text \<open>
  A block write of 8, 16 or 32 bit items writes, at item \<open>j\<close> of the hardware, item \<open>j\<close> of
  the user's buffer as long as \<open>j\<close> is below 1024, and item \<open>j - 1024\<close> from there on: the first
  block is written twice, and the end of the buffer is never written. (The kernel
  buffer is refilled before the index into the user's buffer is advanced.)
\<close>

lemma raw_block_write_repeats_first_block:
  assumes "InsLibGetAddressSpace (mc_Modld m) (rt_SpaceNumber riob) = Some anyas"
    and "\<not> offset_out_of_range anyas (rt_Offset riob)" and "transfer_width anyas (rt_DataWidth riob) \<in> {8, 16, 32}"
    and "t = make_transfer cpu_big anyas riob"
  shows "RawIoBlock ops cpu_big True junk m riob True ubuf b =
    (if as_Mapped anyas = 0 then None
     else Some (OK, ubuf, direct_write ops t (\<lambda>j. if j < 1024 then j else j - 1024)
      (transfer_count (rt_BytesTr riob) (tr_bytes t)) ubuf b))"
proof -
  have ok: "transfer_ok t" using assms(3,4) make_transfer_ok by simp
  then have pos: "0 < tr_bytes t" by (simp add: transfer_ok_def)
  let ?n = "transfer_count (rt_BytesTr riob) (tr_bytes t)"
  let ?s = "transfer_loop ops True t ?n \<lparr>ts_uindx = 0, ts_kindx = 0, ts_hskip = 0,
    ts_kbuf = overwrite junk 0 (slice ubuf 0 (tr_ksize t)), ts_ubuf = ubuf, ts_bus = b\<rparr>"
  have inv: "write_inv ops t ubuf b ?n ?s" using transfer_write [OF ok refl] .
  have ksize: "tr_ksize t = (if ?n < 1024 then ?n else 1024) * tr_bytes t"
    by (simp add: assms(4) make_transfer_def TRANSFERS_def Let_def)
  have "write_source t j = (if j < 1024 then j else j - 1024)" if "j < ?n" for j
    using that pos unfolding write_source_def ksize by auto
  then have "direct_write ops t (write_source t) ?n ubuf b = direct_write ops t (\<lambda>j. if j < 1024 then j else j - 1024) ?n ubuf b"
    by (rule direct_write_cong)
  then have "ts_bus ?s = direct_write ops t (\<lambda>j. if j < 1024 then j else j - 1024) ?n ubuf b"
    using inv unfolding write_inv_def by (elim conjE) (rule trans)
  moreover have "ts_ubuf ?s = ubuf" using inv by (simp add: write_inv_def)
  ultimately show ?thesis
    using assms pos by (simp add: RawIoBlock_def Let_def)
qed

lemma raw_block_write_repeats_first_block_example:
  "RawIoBlock sample_ops False True (\<lambda>_. 0) sample_module sample_riob True (\<lambda>i. of_nat (i + 1)) [] =
    Some (OK, \<lambda>i. of_nat (i + 1), [(0x1004, 0x0201), (0x1006, 0x0403)])"
proof -
  let ?x = "direct_write sample_ops sample_transfer (\<lambda>j. if j < 1024 then j else j - 1024) 2 (\<lambda>i. of_nat (i + 1)) []"
  have "RawIoBlock sample_ops False True (\<lambda>_. 0) sample_module sample_riob True (\<lambda>i. of_nat (i + 1)) [] =
      Some (OK, \<lambda>i. of_nat (i + 1), ?x)"
    using raw_block_write_repeats_first_block [of sample_module sample_riob "sample_space\<lparr>as_Mapped := 0x1000\<rparr>" sample_transfer False
        sample_ops "\<lambda>_. 0" "\<lambda>i. of_nat (i + 1)" "[]"] sample_space_lookup sample_transfer_eq
    by (simp add: sample_riob_def offset_out_of_range_def transfer_width_def sample_space_def Let_def)
  moreover have "?x = [(0x1004, 0x0201), (0x1006, 0x0403)]" by code_simp
  ultimately show ?thesis by simp
qed

section \<open>A sleeping reader\<close>

lemma q_put_keeps_up: "task \<in> set (sem_up (cc_Semaphore x)) \<Longrightarrow> task \<in> set (sem_up (cc_Semaphore (q_put N rb x)))"
  by (auto simp: q_put_def ssignal_def cdcm_up_def cdcm_up_waiter_def Let_def split: list.splits)

lemma q_puts_keep_up:
  "task \<in> set (sem_up (cc_Semaphore x)) \<Longrightarrow> task \<in> set (sem_up (cc_Semaphore (fold (q_put N) rbs x)))"
  by (induction rbs arbitrary: x) (simp_all add: q_put_keeps_up)

lemma q_put_wakes_first:
  "q_Size (cc_Queue x) < int N \<Longrightarrow> sem_wait (cc_Semaphore x) = task # ws \<Longrightarrow>
    task \<in> set (sem_up (cc_Semaphore (q_put N rb x)))"
  by (simp add: q_put_def ssignal_def cdcm_up_def cdcm_up_waiter_def Let_def)

lemma got_after_wakeup:
  assumes "w_heap t c = Some y" and "q_ok (k_QUEUE_SIZE k) y" and "q_contents (k_QUEUE_SIZE k) y = rb # rbs"
  shows "fst (SkelDrvrRead_got k c (upd_client c (\<lambda>x. x\<lparr>cc_Semaphore := sem\<rparr>) t)) = Some rb"
proof -
  let ?y = "y\<lparr>cc_Semaphore := sem\<rparr>"
  have "q_ok (k_QUEUE_SIZE k) ?y" and "q_contents (k_QUEUE_SIZE k) ?y = rb # rbs"
    using assms(2,3) by (simp_all add: q_ok_def q_contents_def)
  then have "fst (q_get (k_QUEUE_SIZE k) ?y) = rb" using q_get_contents [of "k_QUEUE_SIZE k" ?y] by simp
  then show ?thesis using assms(1) by (cases "q_get (k_QUEUE_SIZE k) ?y") (simp add: SkelDrvrRead_got_def)
qed

text \<open>
  C25: a task that sleeps in \<open>read\<close>, first in line, on the empty queue of a client is woken by
  the first interrupt the client is connected to, and its \<open>read\<close> then returns that
  interrupt.
\<close>

theorem sleeping_reader_gets_interrupt:
  assumes "skel_ok k s" and "i < w_InstalledModules s" and "w_heap s c = Some x" and "q_ok (k_QUEUE_SIZE k) x"
    and "q_contents (k_QUEUE_SIZE k) x = []" and "sem_wait (cc_Semaphore x) = task # ws"
    and "u_GetInterruptSource usr i (w_user s) = (time, imask, u1)"
    and "filter (\<lambda>j. bit imask j \<and> c \<in> set (mc_clients (w_Modules s ! i) ! j)) [0..<k_INTERRUPTS k] = j # js"
    and "length (j # js) \<le> k_QUEUE_SIZE k"
  shows "\<exists>y sem. w_heap (IntrHandler k usr i s) c = Some y \<and> cdcm_down_woken False task (cc_Semaphore y) = Some sem \<and>
    fst (SkelDrvrRead_got k c (upd_client c (\<lambda>x. x\<lparr>cc_Semaphore := sem\<rparr>) (IntrHandler k usr i s))) =
      Some \<lparr>rb_Connection = \<lparr>cx_Module = mc_ModuleNumber (w_Modules s ! i), cx_ConMask = push_bit j 1\<rparr>, rb_Time = time\<rparr>"
proof -
  let ?N = "k_QUEUE_SIZE k"
  let ?rb = "\<lparr>rb_Connection = \<lparr>cx_Module = mc_ModuleNumber (w_Modules s ! i), cx_ConMask = 0\<rparr>, rb_Time = time\<rparr>"
  let ?s = "s\<lparr>w_user := u1\<rparr>"
  let ?rbs = "map (interrupt_event ?rb) (j # js)"
  let ?y = "fold (q_put ?N) ?rbs x"
  have ints: "client_interrupts k ?s i imask c = j # js" using assms(8) by (simp add: client_interrupts_def conns_def)
  have "bit imask j" using assms(8) by (auto dest: filter_eq_ConsD)
  then have "imask \<noteq> 0" by auto
  then have heap: "w_heap (IntrHandler k usr i s) c = Some ?y"
    using fill_heap [of k ?s i ?rb imask c] assms(1,2,3,7) ints by (simp add: IntrHandler_def Let_def)
  have "q_Size (cc_Queue x) < int ?N"
    using assms(4,5) length_q_contents [of ?N x] by (auto elim!: q_ok_cases)
  then have "task \<in> set (sem_up (cc_Semaphore ?y))"
    using q_puts_keep_up [OF q_put_wakes_first [OF _ assms(6)]] by simp
  then obtain sem where sem: "cdcm_down_woken False task (cc_Semaphore ?y) = Some sem" by (simp add: cdcm_down_woken_def)
  have "q_ok ?N ?y" and "q_contents ?N ?y = ?rbs"
    using skq.invar_puts [OF assms(4), of ?rbs] skq.contents_puts [OF assms(4), of ?rbs] assms(5,9) by simp_all
  then have "fst (SkelDrvrRead_got k c (upd_client c (\<lambda>x. x\<lparr>cc_Semaphore := sem\<rparr>) (IntrHandler k usr i s))) =
      Some (interrupt_event ?rb j)"
    using got_after_wakeup [OF heap] by simp
  then show ?thesis using heap sem unfolding interrupt_event_def by auto
qed

definition sample_sleeping :: "((u32 \<times> u32) list, u32) skel" where
  "sample_sleeping = snd (SkelDrvrRead_wait 5 3 sample_connected)"

lemma sample_sleeping_eq:
  "sample_sleeping = sample_connected\<lparr>w_heap := [7 \<mapsto> (client_init 8 2000 100 (Some 1) 3)
    \<lparr>cc_Semaphore := \<lparr>sem_count = 0, sem_wait = [5], sem_up = []\<rparr>\<rparr>]\<rparr>"
  by (simp add: sample_sleeping_def SkelDrvrRead_wait_def skel_get_ccon_def sample_connected_eq sample_open_eq
      client_init_def reset_queue_def sreset_def cdcm_sem_init_def tswait_def cdcm_down_def cdcm_down_common_def
      upd_client_def Let_def)

lemma sample_sleeping_ok: "skel_ok cvorg_consts sample_sleeping"
  using skel_ok_Read_wait [OF sample_connected_ok] by (metis prod.collapse sample_sleeping_def)

theorem sleeping_reader_gets_interrupt_witness:
  "\<exists>y sem. w_heap (IntrHandler cvorg_consts sample_user 0 sample_sleeping) 7 = Some y \<and>
    cdcm_down_woken False 5 (cc_Semaphore y) = Some sem \<and>
    fst (SkelDrvrRead_got cvorg_consts 7 (upd_client 7 (\<lambda>x. x\<lparr>cc_Semaphore := sem\<rparr>) (IntrHandler cvorg_consts sample_user 0 sample_sleeping))) =
      Some \<lparr>rb_Connection = \<lparr>cx_Module = 1, cx_ConMask = 1\<rparr>, rb_Time = (1, 2)\<rparr>"
proof -
  let ?x = "(client_init 8 2000 100 (Some 1) 3)\<lparr>cc_Semaphore := \<lparr>sem_count = 0, sem_wait = [5], sem_up = []\<rparr>\<rparr>"
  have "q_ok 8 ?x" and "q_contents 8 ?x = []"
    using q_ok_init [of 8 2000 100 "Some 1" 3]
    by (simp add: q_ok_def, simp add: q_contents_def client_init_def reset_queue_def)
  moreover have "w_user sample_sleeping = 3" "w_InstalledModules sample_sleeping = 1" "w_heap sample_sleeping 7 = Some ?x"
    "w_Modules sample_sleeping ! 0 = sample_module\<lparr>mc_clients := [[7], [7]], mc_enabled_ints := 3\<rparr>"
    by (simp_all add: sample_sleeping_eq sample_connected_eq sample_open_eq)
  ultimately show ?thesis
    using sleeping_reader_gets_interrupt [OF sample_sleeping_ok, of 0 7 ?x 5 "[]" sample_user "(1, 2)" 3 3 0 "[1]"]
    by (simp add: sample_user_def upt_rec)
qed

section \<open>Installation\<close>

lemma install_loop_numbers:
  assumes "install_loop k ops usr ms (w_InstalledModules s) ret s = Some (r, t)"
    and "w_InstalledModules s \<le> unat (dd_ModuleCount (w_Drvrd s))" and "unat (dd_ModuleCount (w_Drvrd s)) \<le> length (w_Modules s)"
  shows "\<exists>ns. map mc_ModuleNumber (take (w_InstalledModules t) (w_Modules t)) =
      map mc_ModuleNumber (take (w_InstalledModules s) (w_Modules s)) @ ns \<and>
    subseq ns (map md_ModuleNumber ms) \<and> w_InstalledModules t \<le> unat (dd_ModuleCount (w_Drvrd s)) \<and>
    (r \<noteq> -1 \<longrightarrow> ns = take (unat (dd_ModuleCount (w_Drvrd s)) - w_InstalledModules s) (map md_ModuleNumber ms))"
  using assms
proof (induction ms arbitrary: s ret)
  case Nil
  then show ?case by (intro exI [of _ "[]"]) simp
next
  case (Cons m ms)
  let ?n = "w_InstalledModules s"
  let ?m = "set_mcon_defaults k (w_Drvrd s) ((w_Modules s ! ?n)\<lparr>mc_Modld := m, mc_ModuleNumber := md_ModuleNumber m\<rparr>)"
  show ?case
  proof (cases "?n < unat (dd_ModuleCount (w_Drvrd s))")
    case False
    then show ?thesis using Cons.prems by (intro exI [of _ "[]"]) simp
  next
    case True
    then obtain mod_ok m1 b1 u1 where add: "AddModule k ops usr ?n ?m (w_bus s) (w_user s) = Some (mod_ok, m1, b1, u1)"
      using Cons.prems(1) by (auto simp: Let_def split: option.splits)
    have m1: "mc_ModuleNumber m1 = md_ModuleNumber m" using fixed_AddModule [OF add] by (simp add: fixed_part_def)
    have len: "?n < length (w_Modules s)" using True Cons.prems(3) by simp
    let ?yes = "s\<lparr>w_bus := b1, w_user := u1, w_Modules := (w_Modules s)[?n := m1\<lparr>mc_InUse := True\<rparr>], w_InstalledModules := ?n + 1\<rparr>"
    let ?no = "s\<lparr>w_bus := b1, w_user := u1, w_Modules := (w_Modules s)[?n := m1]\<rparr>"
    show ?thesis
    proof (cases mod_ok)
      case ok: True
      have "take (Suc ?n) (w_Modules ?yes) = take ?n (w_Modules s) @ [m1\<lparr>mc_InUse := True\<rparr>]"
        using len by (simp add: take_Suc_conv_app_nth)
      moreover obtain ns where "map mc_ModuleNumber (take (w_InstalledModules t) (w_Modules t)) =
          map mc_ModuleNumber (take (Suc ?n) (w_Modules ?yes)) @ ns" "subseq ns (map md_ModuleNumber ms)"
          "w_InstalledModules t \<le> unat (dd_ModuleCount (w_Drvrd s))"
          "r \<noteq> -1 \<longrightarrow> ns = take (unat (dd_ModuleCount (w_Drvrd s)) - Suc ?n) (map md_ModuleNumber ms)"
        using Cons.IH [of ?yes ret] Cons.prems True add ok by (auto simp: Let_def)
      ultimately show ?thesis
        using m1 True by (intro exI [of _ "md_ModuleNumber m # ns"]) (auto simp: take_Cons' Suc_diff_Suc)
    next
      case bad: False
      have rec: "install_loop k ops usr ms (w_InstalledModules ?no) (-1) ?no = Some (r, t)"
        using Cons.prems(1) True add bad by (simp add: Let_def)
      have "r = -1" if "install_loop k ops usr xs j (-1) v = Some (r, t)" for xs j v
        using that by (induction xs arbitrary: j v) (auto simp: Let_def split: if_splits option.splits prod.splits)
      then have "r = -1" using rec by blast
      moreover have "take ?n (w_Modules ?no) = take ?n (w_Modules s)" by simp
      moreover obtain ns where "map mc_ModuleNumber (take (w_InstalledModules t) (w_Modules t)) =
          map mc_ModuleNumber (take ?n (w_Modules ?no)) @ ns" "subseq ns (map md_ModuleNumber ms)"
          "w_InstalledModules t \<le> unat (dd_ModuleCount (w_Drvrd s))"
        using Cons.IH [OF rec] Cons.prems(2,3) by auto
      ultimately show ?thesis by (intro exI [of _ ns]) auto
    qed
  qed
qed

text \<open>
  The installation fills the module table without gaps, with modules of the description
  in its order, at most as many as it announces; and if it reports no failure, with all of
  the modules announced. (A module that fails to install leaves its slot to the next.)
\<close>

lemma modules_installed_in_order:
  assumes "modules_install k ops usr (wa_init k d b u) = Some (r, s)" and "unat (dd_ModuleCount d) \<le> k_MODULE_CONTEXTS k"
  shows "subseq (map mc_ModuleNumber (take (w_InstalledModules s) (w_Modules s))) (map md_ModuleNumber (dd_Modules d)) \<and>
    w_InstalledModules s \<le> unat (dd_ModuleCount d) \<and>
    (r = 0 \<longrightarrow> map mc_ModuleNumber (take (w_InstalledModules s) (w_Modules s)) =
      take (unat (dd_ModuleCount d)) (map md_ModuleNumber (dd_Modules d)))"
  using install_loop_numbers [of k ops usr "dd_Modules d" "wa_init k d b u" 0 r s] assms
  by (auto simp: modules_install_def wa_init_def)

lemma modules_installed_in_order_example:
  "\<exists>s. modules_install cvorg_consts sample_ops sample_user (wa_init cvorg_consts sample_driver [] 0) = Some (0, s) \<and>
    map mc_ModuleNumber (take (w_InstalledModules s) (w_Modules s)) = [1]"
proof -
  have "AddModule cvorg_consts sample_ops sample_user 0
      (set_mcon_defaults cvorg_consts sample_driver (zero_mcon\<lparr>mc_Modld := sample_modld, mc_ModuleNumber := 1\<rparr>)) [] 0 =
      Some (True, sample_module\<lparr>mc_InUse := False\<rparr>, [], 0)"
    by code_simp
  then obtain s where "modules_install cvorg_consts sample_ops sample_user (wa_init cvorg_consts sample_driver [] 0) = Some (0, s)"
    by (simp add: modules_install_def wa_init_def)
  then show ?thesis using modules_installed_in_order [of cvorg_consts sample_ops sample_user sample_driver "[]" 0 0 s] by auto
qed

end
