(* ===== verification/Sis33_Dma.thy ===== *)
theory Sis33_Dma
  imports Vmebus
begin

text \<open>
  The accesses of the SIS33 digitizer drivers to their cards (\<open>src/sis33/drivers/sis33_dma.c\<close>).
  A card is too large to be mapped, so every register access and every block of samples is
  a DMA request to the bridge driver. The bridge, the card behind it and the kernel
  services are the record \<open>sis33_bus\<close>: \<open>do_dma\<close> is \<open>vme_do_dma\<close> (to a user's buffer) or
  \<open>vme_do_dma_kernel\<close>, with the bytes that are sent and the bytes that arrive; \<open>user_ok\<close> says which addresses of the user can be
  written, and \<open>beyond\<close> is the memory behind a kernel buffer.
\<close>

section \<open>What the drivers call\<close>

abbreviation (input) VME_DMA_BSIZE_64 :: u32 where "VME_DMA_BSIZE_64 \<equiv> 1"
abbreviation (input) VME_DMA_BSIZE_2048 :: u32 where "VME_DMA_BSIZE_2048 \<equiv> 6"

record 'h sis33_bus =
  do_dma :: "bool \<Rightarrow> vme_dma \<Rightarrow> u8 list \<Rightarrow> 'h \<Rightarrow> rc \<times> u8 list \<times> 'h"
  bus_big :: bool
  kbuf_addr :: u32
  user_ok :: "u32 \<Rightarrow> bool"
  beyond :: "nat \<Rightarrow> u32"
  kalloc :: "'h \<Rightarrow> bool \<times> 'h"
  timeofday :: "'h \<Rightarrow> nat \<times> 'h"
  irq_request :: "u32 \<Rightarrow> 'h \<Rightarrow> rc \<times> 'h"
  irq_free :: "u32 \<Rightarrow> 'h \<Rightarrow> rc \<times> 'h"

definition zero_dma_attr :: vme_dma_attr where
  "zero_dma_attr = \<lparr>da_data_width = 0, da_am = 0, da_v2esst_mode = 0, da_bcast_select = 0, da_addru = 0, da_addrl = 0\<rparr>"

definition vme_side :: "u32 \<Rightarrow> u32 \<Rightarrow> vme_dma_attr" where
  "vme_side am vme_addr = zero_dma_attr\<lparr>da_addru := 0, da_addrl := vme_addr, da_am := am, da_data_width := VME_D32\<rparr>"

definition pci_side :: "u32 \<Rightarrow> vme_dma_attr" where
  "pci_side addr = zero_dma_attr\<lparr>da_addru := 0, da_addrl := addr\<rparr>"

definition dma_request :: "u32 \<Rightarrow> u32 \<Rightarrow> u32 \<Rightarrow> vme_dma_attr \<Rightarrow> vme_dma_attr \<Rightarrow> vme_dma" where
  "dma_request dir len bsize src dst =
    \<lparr>dm_status = 0, dm_length = len, dm_novmeinc = 0, dm_dir = dir, dm_src = src, dm_dst = dst,
     dm_ctrl = \<lparr>dc_vme_block_size = bsize, dc_vme_backoff_time = VME_DMA_BACKOFF_0,
       dc_pci_block_size = bsize, dc_pci_backoff_time = VME_DMA_BACKOFF_0\<rparr>\<rparr>"

section \<open>Blocks\<close>

definition sis33_dma ::
    "'h sis33_bus \<Rightarrow> u32 \<Rightarrow> u32 \<Rightarrow> u32 \<Rightarrow> nat \<Rightarrow> bool \<Rightarrow> 'h \<Rightarrow> rc \<times> u8 list \<times> 'h" where
  "sis33_dma bus vme_addr am addr len to_user h =
    do_dma bus to_user
      (dma_request VME_DMA_FROM_DEVICE (of_nat len) VME_DMA_BSIZE_2048 (vme_side am vme_addr) (pci_side addr)) [] h"

definition sis33_dma_read_mblt :: "'h sis33_bus \<Rightarrow> u32 \<Rightarrow> nat \<Rightarrow> 'h \<Rightarrow> rc \<times> u8 list \<times> 'h" where
  "sis33_dma_read_mblt bus vme_addr len h = sis33_dma bus vme_addr VME_A32_USER_MBLT (kbuf_addr bus) len False h"

definition sis33_dma_read_mblt_user :: "'h sis33_bus \<Rightarrow> u32 \<Rightarrow> u32 \<Rightarrow> nat \<Rightarrow> 'h \<Rightarrow> rc \<times> u8 list \<times> 'h" where
  "sis33_dma_read_mblt_user bus vme_addr addr len h = sis33_dma bus vme_addr VME_A32_USER_MBLT addr len True h"

text \<open>The word at index \<open>i\<close> of a buffer, as the processor reads it.\<close>

definition word_at :: "bool \<Rightarrow> u8 list \<Rightarrow> nat \<Rightarrow> u32" where
  "word_at big bs i = bytes_word big (take 4 (drop (4 * i) bs))"

definition sis33_dma_read32be_blt :: "'h sis33_bus \<Rightarrow> u32 \<Rightarrow> nat \<Rightarrow> 'h \<Rightarrow> (errno + u32 list) \<times> 'h" where
  "sis33_dma_read32be_blt bus vme_addr elems h =
    (case sis33_dma bus vme_addr VME_A32_USER_BLT (kbuf_addr bus) (elems * 4) False h of
       (Err e, bs, h1) \<Rightarrow> (Inl e, h1)
     | (OK, bs, h1) \<Rightarrow> (Inr (map (\<lambda>i. be32_to_cpu (\<not> bus_big bus) (word_at (bus_big bus) bs i)) [0..<elems]), h1))"

section \<open>Registers\<close>

text \<open>
  A failed transfer is only logged: the value read is then what the buffer holds, and a
  value written is lost.
\<close>

definition sis33_dma_read :: "'h sis33_bus \<Rightarrow> u32 \<Rightarrow> 'h \<Rightarrow> u32 \<times> 'h" where
  "sis33_dma_read bus vme_addr h =
    (case do_dma bus False
        (dma_request VME_DMA_FROM_DEVICE 4 VME_DMA_BSIZE_64 (vme_side VME_A32_USER_DATA_SCT vme_addr) (pci_side (kbuf_addr bus))) [] h of
       (r, bs, h1) \<Rightarrow> (be32_to_cpu (\<not> bus_big bus) (word_at (bus_big bus) bs 0), h1))"

definition sis33_dma_write :: "'h sis33_bus \<Rightarrow> u32 \<Rightarrow> u32 \<Rightarrow> 'h \<Rightarrow> 'h" where
  "sis33_dma_write bus vme_addr val h =
    (case do_dma bus False
        (dma_request VME_DMA_TO_DEVICE 4 VME_DMA_BSIZE_64 (pci_side (kbuf_addr bus)) (vme_side VME_A32_USER_DATA_SCT vme_addr))
        (word_bytes (bus_big bus) 4 (cpu_to_be32 (\<not> bus_big bus) val)) h of
       (r, bs, h1) \<Rightarrow> h1)"

section \<open>Byte order\<close>

text \<open>Whatever the order of the processor, a word is read in the order of the VME bus.\<close>

lemma be32_bytes_word: "be32_to_cpu (\<not> big) (bytes_word big [a, b, c, d]) = bytes_word True [a, b, c, d]"
proof (cases big)
  case False
  have "bswap32 (bytes_word False [a, b, c, d]) = bytes_word True [a, b, c, d]"
  proof (rule bit_word_eqI)
    fix n assume "n < LENGTH(32)"
    then have "n < 32" by simp
    then have "n < 8 \<or> (\<exists>r<8. n = 8 + r) \<or> (\<exists>r<8. n = 16 + r) \<or> (\<exists>r<8. n = 24 + r)"
      by presburger
    then show "bit (bswap32 (bytes_word False [a, b, c, d])) n = bit (bytes_word True [a, b, c, d]) n"
      by (elim disjE exE conjE)
        (simp_all add: bit_bswap32_byte, auto simp: bytes_word_def bit_simps dest: bit_imp_le_length)
  qed
  with False show ?thesis by (simp add: be32_to_cpu_def)
qed (simp add: be32_to_cpu_def)

lemma take4_drop:
  assumes "4 * i + 4 \<le> length bs"
  shows "take 4 (drop (4 * i) bs) = [bs ! (4 * i), bs ! (4 * i + 1), bs ! (4 * i + 2), bs ! (4 * i + 3)]"
  using assms by (auto simp: list_eq_iff_nth_eq less_Suc_eq numeral_eq_Suc)

lemma be32_word_at:
  "4 * i + 4 \<le> length bs \<Longrightarrow> be32_to_cpu (\<not> big) (word_at big bs i) = word_at True bs i"
  by (simp only: word_at_def take4_drop be32_bytes_word)

end
