(* ===== verification/Sis33_Core.thy ===== *)
theory Sis33_Core
  imports Sis33_Dma
begin

text \<open>
  The core of the SIS33 digitizer drivers (\<open>src/sis33/drivers/sis33_core.c\<close>, \<open>sis33core.h\<close>) with the
  attributes of \<open>sis33_sysfs.c\<close> that change a card. A card samples events into the
  segments of its memory; users start acquisitions on a segment and fetch the events of one.
  The operations of the hardware are the record \<open>sis33_card_ops\<close>. An ioctl is divided where the
  source gives up the lock of the card: in between, other processes and the interrupt run.
\<close>

section \<open>Data\<close>

abbreviation ENODATA :: errno where "ENODATA \<equiv> EOTHER 61"

record sis33_channel =
  ch_show_attrs :: bool
  ch_offset :: u32

record sis33_cfg =
  cf_start_delay :: int
  cf_stop_delay :: int
  cf_start_auto :: bool
  cf_stop_auto :: bool
  cf_trigger_ext_en :: bool
  cf_clksrc :: int
  cf_clkfreq :: u32
  cf_ev_tstamp_divider :: int

record sis33_event =
  ev_nr_samples :: u32
  ev_first_samp :: u32

text \<open>A pointer that may also be null or carry an error code.\<close>

datatype 'a err_ptr = NullPtr | ErrPtr errno | Ptr 'a

record sis33_segment =
  sg_acquiring :: bool
  sg_transferring :: bool
  sg_nr_samp_per_ev :: u32
  sg_nr_events :: u32
  sg_events :: "sis33_event list err_ptr"
  sg_prevticks :: "u64 list err_ptr"
  sg_endtime :: nat

record 'p sis33_card =
  c_number :: int
  c_cfg :: sis33_cfg
  c_id :: u32
  c_major_rev :: u32
  c_minor_rev :: u32
  c_max_nr_events :: u32
  c_max_delay :: u32
  c_ev_tstamp_support :: bool
  c_ev_tstamp_max_ticks_log2 :: nat
  c_ev_tstamp_divider_max :: int
  c_n_bits :: nat
  c_n_channels :: nat
  c_channels :: "sis33_channel list"
  c_ev_lengths :: "u32 list"
  c_freqs :: "u32 list"
  c_n_segments_max :: nat
  c_n_segments_min :: nat
  c_n_segments :: nat
  c_segments :: "sis33_segment list"
  c_curr_segment :: nat
  c_private :: 'p

text \<open>
  The descriptors of \<open>sis33.h\<close>. The buffer of an acquisition is its address and its
  contents.
\<close>

record sis33_acq_desc =
  ad_segment :: u32
  ad_nr_events :: u32
  ad_ev_length :: u32
  ad_flags :: u32

record sis33_acq =
  aq_addr :: u32
  aq_data :: "nat \<Rightarrow> u8"
  aq_size :: u32
  aq_nr_samples :: u32
  aq_prevticks :: u64
  aq_first_samp :: u32
  aq_be :: bool

record sis33_acq_list =
  al_segment :: u32
  al_channel :: u32
  al_n_acqs :: u32
  al_flags :: u32

definition SIS33_CLKSRC_INTERNAL :: int where "SIS33_CLKSRC_INTERNAL = 0"
definition SIS33_CLKSRC_EXTERNAL :: int where "SIS33_CLKSRC_EXTERNAL = 1"
definition SIS33_TRIGGER_STOP :: int where "SIS33_TRIGGER_STOP = 0"
definition SIS33_TRIGGER_START :: int where "SIS33_TRIGGER_START = 1"

text \<open>
  The operations of a card; None is a null pointer. \<open>acq_wait\<close> gets whether there is a time
  limit and what ends the wait, and returns None where that cannot end it.
\<close>

datatype wait_end = Completed | Signalled | Expired

record 'p sis33_card_ops =
  op_conf_acq :: "(sis33_cfg \<Rightarrow> 'p sis33_card \<Rightarrow> rc \<times> 'p sis33_card) option"
  op_conf_ev :: "(sis33_acq_desc \<Rightarrow> 'p sis33_card \<Rightarrow> rc \<times> 'p sis33_card) option"
  op_conf_channels :: "('p sis33_card \<Rightarrow> rc \<times> 'p sis33_card) option"
  op_fetch :: "(nat \<Rightarrow> nat \<Rightarrow> sis33_acq list \<Rightarrow> nat \<Rightarrow> 'p sis33_card \<Rightarrow> (errno + nat) \<times> sis33_acq list \<times> 'p sis33_card) option"
  op_trigger :: "(int \<Rightarrow> 'p sis33_card \<Rightarrow> rc \<times> 'p sis33_card) option"
  op_acq_start :: "('p sis33_card \<Rightarrow> 'p sis33_card) option"
  op_acq_wait :: "(bool \<Rightarrow> wait_end \<Rightarrow> 'p sis33_card \<Rightarrow> rc option) option"
  op_acq_cancel :: "('p sis33_card \<Rightarrow> rc \<times> 'p sis33_card) option"
  op_config_init :: "('p sis33_card \<Rightarrow> 'p sis33_card) option"

definition upd_segment :: "nat \<Rightarrow> (sis33_segment \<Rightarrow> sis33_segment) \<Rightarrow> 'p sis33_card \<Rightarrow> 'p sis33_card" where
  "upd_segment i f c = c\<lparr>c_segments := (c_segments c)[i := f (c_segments c ! i)]\<rparr>"

section \<open>Checks\<close>

definition sis33_is_acquiring :: "'p sis33_card \<Rightarrow> bool" where
  "sis33_is_acquiring c \<longleftrightarrow> (\<exists>i \<in> set [0..<c_n_segments c]. sg_acquiring (c_segments c ! i))"

definition sis33_is_transferring :: "'p sis33_card \<Rightarrow> bool" where
  "sis33_is_transferring c \<longleftrightarrow> (\<exists>i \<in> set [0..<c_n_segments c]. sg_transferring (c_segments c ! i))"

definition sis33_segment_max_nr_samples :: "'p sis33_card \<Rightarrow> u32" where
  "sis33_segment_max_nr_samples c = c_ev_lengths c ! 0 div of_nat (c_n_segments c div c_n_segments_min c)"

definition sis33_value_is_in_array :: "u32 list \<Rightarrow> u32 \<Rightarrow> bool" where
  "sis33_value_is_in_array xs v \<longleftrightarrow> v \<in> set xs"

text \<open>
  The size of a \<open>struct sis33_acq\<close> on the 32-bit target, and the number of whole elements
  in the kernel's copy of the array, whose size in bytes is computed in 32 bits. A check that would read
  behind that copy is None.
\<close>

definition sizeof_acq :: u32 where "sizeof_acq = 44"

definition acq_array_len :: "u32 \<Rightarrow> nat" where
  "acq_array_len n = unat (n * sizeof_acq) div unat sizeof_acq"

definition sis33_check_acq_buffers :: "'p sis33_card \<Rightarrow> nat \<Rightarrow> sis33_acq list \<Rightarrow> nat \<Rightarrow> rc option" where
  "sis33_check_acq_buffers c seg acqs n =
    (let acq_minsize = sg_nr_samp_per_ev (c_segments c ! seg) * 2;
         bad = (\<lambda>a. aq_size a = 0 \<or> aq_size a \<noteq> acq_minsize)
     in if (\<exists>a \<in> set (take n acqs). bad a) then Some (Err EINVAL)
        else if length acqs < n then None else Some OK)"

definition acqf_dontwait :: "u32 \<Rightarrow> bool" where "acqf_dontwait flags \<longleftrightarrow> flags AND 1 \<noteq> 0"
definition acqf_timeout :: "u32 \<Rightarrow> bool" where "acqf_timeout flags \<longleftrightarrow> flags AND 2 \<noteq> 0"

section \<open>Fetching events\<close>

text \<open>
  What follows a locked part of \<open>sis33_fetch_ioctl\<close>: a return, the wait for the acquisition (with or
  without a time limit), or the transfer of a number of events with the lock given up; \<open>FetchOops\<close> is an access outside the
  array of acquisitions.
\<close>

datatype fetch_next = FetchReturn errno | FetchWait bool | FetchGo nat | FetchOops

text \<open>Before the lock: \<open>l\<close> and \<open>acqs\<close> are None when they cannot be copied.\<close>

definition sis33_fetch_enter ::
    "sis33_acq_list option \<Rightarrow> bool \<Rightarrow> sis33_acq list option \<Rightarrow> errno + (sis33_acq_list \<times> sis33_acq list)" where
  "sis33_fetch_enter ul mem uacqs =
    (case ul of
       None \<Rightarrow> Inl EFAULT
     | Some l \<Rightarrow>
         if acqf_dontwait (al_flags l) \<and> acqf_timeout (al_flags l) then Inl EINVAL
         else if al_n_acqs l = 0 then Inl EINVAL
         else if \<not> mem then Inl ENOMEM
         else (case uacqs of None \<Rightarrow> Inl EFAULT | Some acqs \<Rightarrow> Inr (l, take (acq_array_len (al_n_acqs l)) acqs)))"

definition sis33_fetch_check :: "sis33_acq_list \<Rightarrow> sis33_acq list \<Rightarrow> 'p sis33_card \<Rightarrow> fetch_next \<times> 'p sis33_card" where
  "sis33_fetch_check l acqs c =
    (let seg = unat (al_segment l); s = c_segments c ! seg in
     if sg_acquiring s \<or> sg_transferring s then (FetchReturn EBUSY, c)
     else
       let nr_events = unat (min (sg_nr_events s) (al_n_acqs l)) in
       if nr_events = 0 then (FetchReturn ENODATA, c)
       else (case sis33_check_acq_buffers c seg acqs nr_events of
           None \<Rightarrow> (FetchOops, c)
         | Some (Err e) \<Rightarrow> (FetchReturn e, c)
         | Some OK \<Rightarrow> (FetchGo nr_events, upd_segment seg (\<lambda>s. s\<lparr>sg_transferring := True\<rparr>) c)))"

definition sis33_fetch_first ::
    "'p sis33_card_ops \<Rightarrow> sis33_acq_list \<Rightarrow> sis33_acq list \<Rightarrow> 'p sis33_card \<Rightarrow> fetch_next \<times> 'p sis33_card" where
  "sis33_fetch_first ops l acqs c =
    (if c_n_segments c \<le> unat (al_segment l) \<or> c_n_channels c \<le> unat (al_channel l) then (FetchReturn EINVAL, c)
     else if sg_acquiring (c_segments c ! unat (al_segment l)) then
       (if op_acq_wait ops = None then (FetchReturn EINVAL, c)
        else if acqf_timeout (al_flags l) then (FetchWait True, c)
        else if acqf_dontwait (al_flags l) then (FetchReturn EBUSY, c)
        else (FetchWait False, c))
     else sis33_fetch_check l acqs c)"

definition sis33_fetch_run ::
    "'p sis33_card_ops \<Rightarrow> sis33_acq_list \<Rightarrow> sis33_acq list \<Rightarrow> nat \<Rightarrow> 'p sis33_card \<Rightarrow> (errno + nat) \<times> sis33_acq list \<times> 'p sis33_card" where
  "sis33_fetch_run ops l acqs nr_events c =
    (case op_fetch ops of
       None \<Rightarrow> (Inl EINVAL, acqs, c)
     | Some f \<Rightarrow> f (unat (al_segment l)) (unat (al_channel l)) acqs nr_events c)"

definition sis33_fetch_end :: "sis33_acq_list \<Rightarrow> 'p sis33_card \<Rightarrow> 'p sis33_card" where
  "sis33_fetch_end l c = upd_segment (unat (al_segment l)) (\<lambda>s. s\<lparr>sg_transferring := False\<rparr>) c"

text \<open>
  The whole call of a process that is alone with the card: None when it has to wait, and on success the count,
  the end of the acquisition and the filled acquisitions, which \<open>out_ok\<close> says can be copied out.
\<close>

definition sis33_fetch_ioctl ::
    "'p sis33_card_ops \<Rightarrow> bool \<Rightarrow> sis33_acq_list option \<Rightarrow> bool \<Rightarrow> sis33_acq list option \<Rightarrow> 'p sis33_card \<Rightarrow>
     ((errno + nat \<times> nat \<times> sis33_acq list) \<times> 'p sis33_card) option" where
  "sis33_fetch_ioctl ops out_ok ul mem uacqs c =
    (case sis33_fetch_enter ul mem uacqs of
       Inl e \<Rightarrow> Some (Inl e, c)
     | Inr (l, acqs) \<Rightarrow>
         (case sis33_fetch_first ops l acqs c of
            (FetchReturn e, c1) \<Rightarrow> Some (Inl e, c1)
          | (FetchGo nr_events, c1) \<Rightarrow>
              (let endtime = sg_endtime (c_segments c1 ! unat (al_segment l));
                   (r, acqs1, c2) = sis33_fetch_run ops l acqs nr_events c1;
                   c3 = sis33_fetch_end l c2
               in Some (case r of
                    Inl e \<Rightarrow> (Inl e, c3)
                  | Inr n \<Rightarrow> if out_ok then (Inr (n, endtime, acqs1), c3) else (Inl EFAULT, c3)))
          | _ \<Rightarrow> None))"

section \<open>Acquisitions\<close>

text \<open>The locked part of \<open>sis33_acq_start_ioctl\<close>.\<close>

definition sis33_acq_begin ::
    "'p sis33_card_ops \<Rightarrow> sis33_acq_desc \<Rightarrow> 'p sis33_card \<Rightarrow> rc \<times> 'p sis33_card" where
  "sis33_acq_begin ops desc c =
    (let seg = unat (ad_segment desc) in
     if acqf_dontwait (ad_flags desc) \<and> acqf_timeout (ad_flags desc) then (Err EINVAL, c)
     else if c_max_nr_events c < ad_nr_events desc then (Err EINVAL, c)
     else if c_n_segments c \<le> seg then (Err EINVAL, c)
     else if \<not> sis33_value_is_in_array (c_ev_lengths c) (ad_ev_length desc) then (Err EINVAL, c)
     else if sis33_segment_max_nr_samples c < ad_nr_events desc * ad_ev_length desc then (Err EINVAL, c)
     else if sg_transferring (c_segments c ! seg) \<or> sis33_is_acquiring c then (Err EBUSY, c)
     else (case op_conf_ev ops of
         None \<Rightarrow> (Err EINVAL, c)
       | Some f \<Rightarrow>
           (case f desc c of
              (Err e, c1) \<Rightarrow> (Err e, c1)
            | (OK, c1) \<Rightarrow>
                (OK, (upd_segment seg (\<lambda>s. s\<lparr>sg_acquiring := True, sg_nr_samp_per_ev := ad_ev_length desc\<rparr>) c1)
                  \<lparr>c_curr_segment := seg\<rparr>))))"

text \<open>After the lock: the card is armed, and the caller waits unless it asked not to.\<close>

definition sis33_acq_arm :: "'p sis33_card_ops \<Rightarrow> 'p sis33_card \<Rightarrow> rc \<times> 'p sis33_card" where
  "sis33_acq_arm ops c =
    (case op_acq_start ops of
       None \<Rightarrow> (Err EINVAL, c)
     | Some f \<Rightarrow> (if op_acq_wait ops = None then Err EINVAL else OK, f c))"

definition sis33_acq_waits :: "sis33_acq_desc \<Rightarrow> bool option" where
  "sis33_acq_waits desc =
    (if acqf_timeout (ad_flags desc) then Some True
     else if acqf_dontwait (ad_flags desc) then None else Some False)"

section \<open>Attributes\<close>

text \<open>
  \<open>strtol\<close> is the kernel's \<open>simple_strtol\<close>: the value and the number of characters it read.
\<close>

definition isdigit :: "char \<Rightarrow> bool" where
  "isdigit ch \<longleftrightarrow> ch \<in> set ''0123456789''"

definition sis33_getval :: "(string \<Rightarrow> int \<times> nat) \<Rightarrow> string \<Rightarrow> errno + int" where
  "sis33_getval strtol buf =
    (if buf = '''' \<or> \<not> isdigit (hd buf) then Inl EINVAL
     else case strtol buf of (v, used) \<Rightarrow> if used + 1 < length buf then Inl EINVAL else Inr v)"

definition sis33_conf_store ::
    "'p sis33_card_ops \<Rightarrow> (sis33_cfg \<Rightarrow> sis33_cfg) \<Rightarrow> 'p sis33_card \<Rightarrow> rc \<times> 'p sis33_card" where
  "sis33_conf_store ops upd c =
    (if sis33_is_acquiring c then (Err EBUSY, c)
     else (case op_conf_acq ops of
         None \<Rightarrow> (Err EINVAL, c)
       | Some f \<Rightarrow>
           (case f (upd (c_cfg c)) c of
              (Err e, c1) \<Rightarrow> (Err e, c1)
            | (OK, c1) \<Rightarrow> (OK, c1\<lparr>c_cfg := upd (c_cfg c)\<rparr>))))"

fun fls :: "nat \<Rightarrow> nat" where
  "fls n = (if n = 0 then 0 else Suc (fls (n div 2)))"

declare fls.simps [simp del]

definition roundup_pow_of_two :: "nat \<Rightarrow> nat" where
  "roundup_pow_of_two n = 2 ^ fls (n - 1)"

definition sis33_store_n_segments :: "int \<Rightarrow> 'p sis33_card \<Rightarrow> rc \<times> 'p sis33_card" where
  "sis33_store_n_segments val c =
    (if val < int (c_n_segments_min c) then (Err EINVAL, c)
     else if sis33_is_acquiring c \<or> sis33_is_transferring c then (Err EBUSY, c)
     else
       let n = roundup_pow_of_two (nat val)
       in (OK, c\<lparr>c_n_segments := (if n = 0 then 1 else if c_n_segments_max c < n then c_n_segments_max c else n)\<rparr>))"

text \<open>
  The attributes. As in the source, the pulse of a trigger and the cancellation do not take the lock.
\<close>

datatype sis33_attr =
    StartAuto int | StopAuto int | TriggerExt int | StartDelay int | StopDelay int | TsDiv int
  | ClkSrc int | ClkFreq u32 | NSegments int | ChanOffset nat u32 | Trigger int | AcqCancel

definition sis33_store_trigger :: "'p sis33_card_ops \<Rightarrow> int \<Rightarrow> 'p sis33_card \<Rightarrow> rc \<times> 'p sis33_card" where
  "sis33_store_trigger ops val c = (case op_trigger ops of None \<Rightarrow> (Err EINVAL, c) | Some f \<Rightarrow> f val c)"

definition sis33_store_acq_cancel :: "'p sis33_card_ops \<Rightarrow> 'p sis33_card \<Rightarrow> rc \<times> 'p sis33_card" where
  "sis33_store_acq_cancel ops c = (case op_acq_cancel ops of None \<Rightarrow> (Err EINVAL, c) | Some f \<Rightarrow> f c)"

definition chan_offset_store :: "'p sis33_card_ops \<Rightarrow> nat \<Rightarrow> u32 \<Rightarrow> 'p sis33_card \<Rightarrow> rc \<times> 'p sis33_card" where
  "chan_offset_store ops i offset c =
    (if sis33_is_acquiring c then (Err EBUSY, c)
     else
       let offset_orig = ch_offset (c_channels c ! i);
           set = (\<lambda>v c. c\<lparr>c_channels := (c_channels c)[i := (c_channels c ! i)\<lparr>ch_offset := v\<rparr>]\<rparr>);
           c1 = set (offset AND 0xffff) c
       in (case op_conf_channels ops of
             None \<Rightarrow> (Err EINVAL, c1)
           | Some f \<Rightarrow> (case f c1 of (Err e, c2) \<Rightarrow> (Err e, set offset_orig c2) | (OK, c2) \<Rightarrow> (OK, c2))))"

type_synonym 'p attr_store = "'p sis33_card_ops \<Rightarrow> int \<Rightarrow> 'p sis33_card \<Rightarrow> rc \<times> 'p sis33_card"

definition sis33_store_start_auto :: "'p attr_store" where
  "sis33_store_start_auto ops v c = sis33_conf_store ops (\<lambda>g. g\<lparr>cf_start_auto := v \<noteq> 0\<rparr>) c"

definition sis33_store_stop_auto :: "'p attr_store" where
  "sis33_store_stop_auto ops v c = sis33_conf_store ops (\<lambda>g. g\<lparr>cf_stop_auto := v \<noteq> 0\<rparr>) c"

definition sis33_store_trigger_ext :: "'p attr_store" where
  "sis33_store_trigger_ext ops v c = sis33_conf_store ops (\<lambda>g. g\<lparr>cf_trigger_ext_en := v \<noteq> 0\<rparr>) c"

definition sis33_store_start_delay :: "'p attr_store" where
  "sis33_store_start_delay ops v c =
    (if v < 0 \<or> uint (c_max_delay c) < v then (Err EINVAL, c) else sis33_conf_store ops (\<lambda>g. g\<lparr>cf_start_delay := v\<rparr>) c)"

definition sis33_store_stop_delay :: "'p attr_store" where
  "sis33_store_stop_delay ops v c =
    (if v < 0 \<or> uint (c_max_delay c) < v then (Err EINVAL, c) else sis33_conf_store ops (\<lambda>g. g\<lparr>cf_stop_delay := v\<rparr>) c)"

definition sis33_store_ts_div :: "'p attr_store" where
  "sis33_store_ts_div ops v c =
    (if v \<le> 0 \<or> c_ev_tstamp_divider_max c < v then (Err EINVAL, c)
     else sis33_conf_store ops (\<lambda>g. g\<lparr>cf_ev_tstamp_divider := v\<rparr>) c)"

definition sis33_store_clk_src :: "'p attr_store" where
  "sis33_store_clk_src ops v c =
    (if v \<noteq> SIS33_CLKSRC_INTERNAL \<and> v \<noteq> SIS33_CLKSRC_EXTERNAL then (Err EINVAL, c)
     else sis33_conf_store ops (\<lambda>g. g\<lparr>cf_clksrc := v\<rparr>) c)"

definition sis33_store_clk_freq :: "'p sis33_card_ops \<Rightarrow> u32 \<Rightarrow> 'p sis33_card \<Rightarrow> rc \<times> 'p sis33_card" where
  "sis33_store_clk_freq ops v c =
    (if sis33_is_acquiring c then (Err EBUSY, c)
     else if \<not> sis33_value_is_in_array (c_freqs c) v then (Err EINVAL, c)
     else sis33_conf_store ops (\<lambda>g. g\<lparr>cf_clkfreq := v\<rparr>) c)"

lemmas conf_attr_defs = sis33_store_start_auto_def sis33_store_stop_auto_def sis33_store_trigger_ext_def sis33_store_start_delay_def
  sis33_store_stop_delay_def sis33_store_ts_div_def sis33_store_clk_src_def sis33_store_clk_freq_def

definition sis33_store :: "'p sis33_card_ops \<Rightarrow> sis33_attr \<Rightarrow> 'p sis33_card \<Rightarrow> rc \<times> 'p sis33_card" where
  "sis33_store ops a c =
    (case a of
       StartAuto v \<Rightarrow> sis33_store_start_auto ops v c
     | StopAuto v \<Rightarrow> sis33_store_stop_auto ops v c
     | TriggerExt v \<Rightarrow> sis33_store_trigger_ext ops v c
     | StartDelay v \<Rightarrow> sis33_store_start_delay ops v c
     | StopDelay v \<Rightarrow> sis33_store_stop_delay ops v c
     | TsDiv v \<Rightarrow> sis33_store_ts_div ops v c
     | ClkSrc v \<Rightarrow> sis33_store_clk_src ops v c
     | ClkFreq v \<Rightarrow> sis33_store_clk_freq ops v c
     | NSegments v \<Rightarrow> sis33_store_n_segments v c
     | ChanOffset i v \<Rightarrow> chan_offset_store ops i v c
     | Trigger v \<Rightarrow> sis33_store_trigger ops v c
     | AcqCancel \<Rightarrow> sis33_store_acq_cancel ops c)"

section \<open>Cards\<close>

text \<open>
  The numbers of the cards in use are a bit mask. \<open>sis33_card_lock\<close> takes the number it is given, or
  the lowest free one for \<open>-1\<close>.
\<close>

definition SIS33_MAX_DEVICES :: nat where "SIS33_MAX_DEVICES = 32"

definition sis33_card_lock :: "int \<Rightarrow> u32 \<Rightarrow> (errno + int) \<times> u32" where
  "sis33_card_lock idx locks =
    (if idx = -1 then
       (case find (\<lambda>i. \<not> bit locks i) [0..<SIS33_MAX_DEVICES] of
          None \<Rightarrow> (Inl ENODEV, locks)
        | Some i \<Rightarrow> (Inr (int i), locks OR push_bit i 1))
     else if bit locks (nat idx) then (Inl EBUSY, locks)
     else (Inr idx, locks OR push_bit (nat idx) 1))"

definition sis33_card_create :: "int \<Rightarrow> bool \<Rightarrow> u32 \<Rightarrow> (errno + int) \<times> u32" where
  "sis33_card_create idx mem locks =
    (if int SIS33_MAX_DEVICES \<le> idx then (Inl EINVAL, locks)
     else if \<not> mem then (Inl ENOMEM, locks)
     else sis33_card_lock idx locks)"

definition sis33_card_free :: "int \<Rightarrow> u32 \<Rightarrow> u32" where
  "sis33_card_free number locks = locks AND NOT (push_bit (nat number) 1)"

text \<open>The zeroed structures; \<open>priv\<close> is the data of the driver.\<close>

definition zero_cfg :: sis33_cfg where
  "zero_cfg = \<lparr>cf_start_delay = 0, cf_stop_delay = 0, cf_start_auto = False, cf_stop_auto = False,
    cf_trigger_ext_en = False, cf_clksrc = 0, cf_clkfreq = 0, cf_ev_tstamp_divider = 0\<rparr>"

definition zero_segment :: sis33_segment where
  "zero_segment = \<lparr>sg_acquiring = False, sg_transferring = False, sg_nr_samp_per_ev = 0, sg_nr_events = 0,
    sg_events = NullPtr, sg_prevticks = NullPtr, sg_endtime = 0\<rparr>"

definition zero_card :: "int \<Rightarrow> 'p \<Rightarrow> 'p sis33_card" where
  "zero_card number priv = \<lparr>c_number = number, c_cfg = zero_cfg, c_id = 0, c_major_rev = 0, c_minor_rev = 0,
    c_max_nr_events = 0, c_max_delay = 0, c_ev_tstamp_support = False, c_ev_tstamp_max_ticks_log2 = 0,
    c_ev_tstamp_divider_max = 0, c_n_bits = 0, c_n_channels = 0, c_channels = [], c_ev_lengths = [], c_freqs = [],
    c_n_segments_max = 0, c_n_segments_min = 0, c_n_segments = 0, c_segments = [], c_curr_segment = 0, c_private = priv\<rparr>"

text \<open>
  Registration: None where the source stops the kernel (\<open>BUG_ON\<close>); \<open>cdev\<close> and \<open>sysfs\<close> are the outcomes of
  making the device and its attributes.
\<close>

definition sis33_card_register ::
    "'p sis33_card_ops \<Rightarrow> rc \<Rightarrow> rc \<Rightarrow> 'p sis33_card \<Rightarrow> (rc \<times> 'p sis33_card) option" where
  "sis33_card_register ops cdev sysfs c =
    (if c_n_segments c = 0 \<or> c_n_segments_max c = 0 \<or> c_n_segments_min c = 0 then None
     else
       let c1 = (case op_config_init ops of None \<Rightarrow> c | Some f \<Rightarrow> f c);
           (r2, c2) = (case op_conf_acq ops of None \<Rightarrow> (OK, c1) | Some f \<Rightarrow> f (c_cfg c1) c1)
       in Some (case r2 of
           Err e \<Rightarrow> (Err e, c2)
         | OK \<Rightarrow>
             (case (case op_conf_channels ops of None \<Rightarrow> (OK, c2) | Some f \<Rightarrow> f c2) of
                (Err e, c3) \<Rightarrow> (Err e, c3)
              | (OK, c3) \<Rightarrow> (case cdev of Err e \<Rightarrow> (Err e, c3) | OK \<Rightarrow> (sysfs, c3)))))"

end
