(* ===== verification/Sis33_Inv.thy ===== *)
theory Sis33_Inv
  imports Sis33_Core
begin

text \<open>
  Processes, attributes and the interrupt on one digitizer card: the steps of the core
  between which the lock of the card is free, the contract the operations of a driver have to
  keep (locale \<open>sis33_driver\<close>), and what then holds in every reachable state.
\<close>

section \<open>Processes\<close>

text \<open>
  Where a process is in a call: about to arm the card, waiting for its acquisition, waiting
  for the acquisition on the segment it fetches, about to check that segment again, in the
  transfer, at the end of it.
\<close>

datatype sis33_proc =
    PIdle | PArm sis33_acq_desc | PAcqWait bool | PFetchWait bool sis33_acq_list "sis33_acq list"
  | PFetchAgain sis33_acq_list "sis33_acq list" | PFetch sis33_acq_list "sis33_acq list" nat | PFetchDone sis33_acq_list

definition fetch_state :: "sis33_acq_list \<Rightarrow> sis33_acq list \<Rightarrow> fetch_next \<Rightarrow> sis33_proc" where
  "fetch_state l acqs n =
    (case n of FetchWait b \<Rightarrow> PFetchWait b l acqs | FetchGo nr \<Rightarrow> PFetch l acqs nr | _ \<Rightarrow> PIdle)"

fun fetch_segment :: "sis33_proc \<Rightarrow> nat option" where
  "fetch_segment (PFetch l acqs nr) = Some (unat (al_segment l))"
| "fetch_segment (PFetchDone l) = Some (unat (al_segment l))"
| "fetch_segment _ = None"

fun wait_segment :: "sis33_proc \<Rightarrow> nat option" where
  "wait_segment (PFetchWait b l acqs) = Some (unat (al_segment l))"
| "wait_segment (PFetchAgain l acqs) = Some (unat (al_segment l))"
| "wait_segment _ = None"

text \<open>
  The steps. A kernel that has read outside an array (\<open>FetchOops\<close>) makes no further step. \<open>irq\<close> is the work the
  interrupt queues.
\<close>

inductive sis33_step ::
    "'p sis33_card_ops \<Rightarrow> ('p sis33_card \<Rightarrow> 'p sis33_card option) \<Rightarrow>
     'p sis33_card \<times> (nat \<Rightarrow> sis33_proc) \<Rightarrow> 'p sis33_card \<times> (nat \<Rightarrow> sis33_proc) \<Rightarrow> bool"
  for ops irq where
  acq_refused: "p t = PIdle \<Longrightarrow> sis33_acq_begin ops d c = (Err e, c1) \<Longrightarrow> sis33_step ops irq (c, p) (c1, p)"
| acq_begun: "p t = PIdle \<Longrightarrow> sis33_acq_begin ops d c = (OK, c1) \<Longrightarrow> sis33_step ops irq (c, p) (c1, p(t := PArm d))"
| acq_armed: "p t = PArm d \<Longrightarrow> sis33_acq_arm ops c = (r, c1) \<Longrightarrow>
    sis33_step ops irq (c, p)
      (c1, p(t := (case (r, sis33_acq_waits d) of (OK, Some b) \<Rightarrow> PAcqWait b | _ \<Rightarrow> PIdle)))"
| acq_waited: "p t = PAcqWait b \<Longrightarrow> op_acq_wait ops = Some f \<Longrightarrow> f b e c = Some r \<Longrightarrow>
    sis33_step ops irq (c, p) (c, p(t := PIdle))"
| fetch_entered: "p t = PIdle \<Longrightarrow> sis33_fetch_enter ul mem uacqs = Inr (l, acqs) \<Longrightarrow>
    sis33_fetch_first ops l acqs c = (n, c1) \<Longrightarrow> n \<noteq> FetchOops \<Longrightarrow>
    sis33_step ops irq (c, p) (c1, p(t := fetch_state l acqs n))"
| fetch_woken: "p t = PFetchWait b l acqs \<Longrightarrow> op_acq_wait ops = Some f \<Longrightarrow> f b e c = Some OK \<Longrightarrow>
    sis33_step ops irq (c, p) (c, p(t := PFetchAgain l acqs))"
| fetch_wait_failed: "p t = PFetchWait b l acqs \<Longrightarrow> op_acq_wait ops = Some f \<Longrightarrow> f b e c = Some (Err r) \<Longrightarrow>
    sis33_step ops irq (c, p) (c, p(t := PIdle))"
| fetch_interrupted: "p t = PFetchAgain l acqs \<Longrightarrow> sis33_step ops irq (c, p) (c, p(t := PIdle))"
| fetch_checked: "p t = PFetchAgain l acqs \<Longrightarrow> sis33_fetch_check l acqs c = (n, c1) \<Longrightarrow> n \<noteq> FetchOops \<Longrightarrow>
    sis33_step ops irq (c, p) (c1, p(t := fetch_state l acqs n))"
| fetch_transfer: "p t = PFetch l acqs nr \<Longrightarrow> sis33_fetch_run ops l acqs nr c = (r, acqs1, c1) \<Longrightarrow>
    sis33_step ops irq (c, p) (c1, p(t := PFetchDone l))"
| fetch_ended: "p t = PFetchDone l \<Longrightarrow> sis33_step ops irq (c, p) (sis33_fetch_end l c, p(t := PIdle))"
| interrupted: "irq c = Some c1 \<Longrightarrow> sis33_step ops irq (c, p) (c1, p)"
| stored: "sis33_store ops a c = (r, c1) \<Longrightarrow> sis33_step ops irq (c, p) (c1, p)"

section \<open>The contract of a driver\<close>

definition acquires :: "'p sis33_card \<Rightarrow> nat \<Rightarrow> bool" where
  "acquires c i \<longleftrightarrow> i < length (c_segments c) \<and> sg_acquiring (c_segments c ! i)"

definition transfers :: "'p sis33_card \<Rightarrow> nat \<Rightarrow> bool" where
  "transfers c i \<longleftrightarrow> i < length (c_segments c) \<and> sg_transferring (c_segments c ! i)"

definition table :: "'p sis33_card \<Rightarrow> nat \<times> nat \<times> nat \<times> nat" where
  "table c = (length (c_segments c), c_n_segments c, c_n_segments_min c, c_n_segments_max c)"

text \<open>
  The operations of a driver leave the table of segments and the choice of the current one
  alone, never touch the transfer flags, and may end acquisitions but not begin them.
\<close>

definition calms :: "'p sis33_card \<Rightarrow> 'p sis33_card \<Rightarrow> bool" where
  "calms c c1 \<longleftrightarrow> table c1 = table c \<and> c_curr_segment c1 = c_curr_segment c \<and> transfers c1 = transfers c \<and>
    (\<forall>i. acquires c1 i \<longrightarrow> acquires c i)"

lemma calms_refl [simp, intro!]: "calms c c"
  by (simp add: calms_def)

lemma calms_trans: "calms c c1 \<Longrightarrow> calms c1 c2 \<Longrightarrow> calms c c2"
  by (simp add: calms_def)

lemma calms_fold: "(\<And>x c. calms c (f x c)) \<Longrightarrow> calms c (fold f xs c)"
  by (induction xs arbitrary: c) (auto intro: calms_trans)

lemma calms_same:
  assumes "c_segments c1 = c_segments c" and "c_n_segments c1 = c_n_segments c" and "c_n_segments_min c1 = c_n_segments_min c"
    and "c_n_segments_max c1 = c_n_segments_max c" and "c_curr_segment c1 = c_curr_segment c"
  shows "calms c c1"
  using assms by (simp add: calms_def table_def transfers_def acquires_def fun_eq_iff)

lemma calms_upd_segment:
  assumes "\<And>s. sg_transferring (f s) = sg_transferring s" and "\<And>s. sg_acquiring (f s) \<Longrightarrow> sg_acquiring s"
  shows "calms c (upd_segment i f c)"
proof (cases "i < length (c_segments c)")
  case True
  then show ?thesis
    by (auto simp: calms_def table_def transfers_def acquires_def upd_segment_def fun_eq_iff list_update_nth_if assms(1)
        dest: assms(2) split: if_splits)
next
  case False
  then show ?thesis by (simp add: upd_segment_def list_update_beyond)
qed

lemma private_calms [simp]: "calms c (c\<lparr>c_private := x\<rparr>)" "calms c (c\<lparr>c_cfg := g\<rparr>)" "calms c (c\<lparr>c_channels := xs\<rparr>)"
  by (rule calms_same; simp)+

text \<open>Updates of a segment that leave its two flags alone.\<close>

lemma segment_calms:
  "calms c c1 \<Longrightarrow> calms c (upd_segment i (\<lambda>s. s\<lparr>sg_events := p\<rparr>) c1)"
  "calms c c1 \<Longrightarrow> calms c (upd_segment i (\<lambda>s. s\<lparr>sg_nr_events := n\<rparr>) c1)"
  "calms c c1 \<Longrightarrow> calms c (upd_segment i (\<lambda>s. s\<lparr>sg_events := p, sg_nr_events := n\<rparr>) c1)"
  "calms c c1 \<Longrightarrow> calms c (upd_segment i (\<lambda>s. s\<lparr>sg_prevticks := q\<rparr>) c1)"
  "calms c c1 \<Longrightarrow> calms c (upd_segment i (\<lambda>s. s\<lparr>sg_endtime := x\<rparr>) c1)"
  "calms c c1 \<Longrightarrow> calms c (upd_segment i (\<lambda>s. s\<lparr>sg_acquiring := False\<rparr>) c1)"
  by (erule calms_trans, rule calms_upd_segment; simp)+

locale sis33_driver =
  fixes ops :: "'p sis33_card_ops" and irq :: "'p sis33_card \<Rightarrow> 'p sis33_card option"
  assumes conf_acq_calms: "op_conf_acq ops = Some f \<Longrightarrow> calms c (snd (f g c))"
    and conf_ev_calms: "op_conf_ev ops = Some f2 \<Longrightarrow> calms c (snd (f2 d c))"
    and conf_channels_calms: "op_conf_channels ops = Some f3 \<Longrightarrow> calms c (snd (f3 c))"
    and fetch_calms: "op_fetch ops = Some f4 \<Longrightarrow> calms c (snd (snd (f4 i j acqs n c)))"
    and trigger_calms: "op_trigger ops = Some f5 \<Longrightarrow> calms c (snd (f5 v c))"
    and acq_start_calms: "op_acq_start ops = Some f6 \<Longrightarrow> calms c (f6 c)"
    and acq_cancel_calms: "op_acq_cancel ops = Some f7 \<Longrightarrow> calms c (snd (f7 c))"
    and irq_calms: "irq c = Some c1 \<Longrightarrow> calms c c1"

section \<open>The invariant\<close>

definition table_ok :: "'p sis33_card \<Rightarrow> bool" where
  "table_ok c \<longleftrightarrow> 0 < c_n_segments_min c \<and> c_n_segments_min c \<le> c_n_segments c \<and> c_n_segments c \<le> c_n_segments_max c \<and>
    length (c_segments c) = c_n_segments_max c"

definition flags_ok :: "'p sis33_card \<Rightarrow> bool" where
  "flags_ok c \<longleftrightarrow> (\<forall>i. acquires c i \<longrightarrow> i = c_curr_segment c \<and> i < c_n_segments c \<and> \<not> transfers c i)"

definition procs_ok :: "'p sis33_card \<Rightarrow> (nat \<Rightarrow> sis33_proc) \<Rightarrow> bool" where
  "procs_ok c p \<longleftrightarrow>
    (\<forall>t i. fetch_segment (p t) = Some i \<longrightarrow> transfers c i) \<and>
    (\<forall>t i. wait_segment (p t) = Some i \<longrightarrow> i < length (c_segments c)) \<and>
    (\<forall>t t' i. fetch_segment (p t) = Some i \<longrightarrow> fetch_segment (p t') = Some i \<longrightarrow> t = t') \<and>
    (\<forall>i. transfers c i \<longrightarrow> (\<exists>t. fetch_segment (p t) = Some i))"

definition sis33_ok :: "'p sis33_card \<times> (nat \<Rightarrow> sis33_proc) \<Rightarrow> bool" where
  "sis33_ok x \<longleftrightarrow> table_ok (fst x) \<and> flags_ok (fst x) \<and> procs_ok (fst x) (snd x)"

definition sis33_start :: "'p sis33_card \<times> (nat \<Rightarrow> sis33_proc) \<Rightarrow> bool" where
  "sis33_start x \<longleftrightarrow> table_ok (fst x) \<and> snd x = (\<lambda>_. PIdle) \<and> (\<forall>i. \<not> acquires (fst x) i \<and> \<not> transfers (fst x) i)"

lemma sis33_start_ok: "sis33_start x \<Longrightarrow> sis33_ok x"
  by (simp add: sis33_start_def sis33_ok_def flags_ok_def procs_ok_def)

lemma calms_ok: "calms c c1 \<Longrightarrow> sis33_ok (c, p) \<Longrightarrow> sis33_ok (c1, p)"
  by (auto simp: sis33_ok_def calms_def table_def table_ok_def flags_ok_def procs_ok_def)

text \<open>A process that is in no transfer before and after changes nothing.\<close>

lemma sis33_ok_upd:
  assumes "sis33_ok (c, p)" and "fetch_segment (p t) = None" and "fetch_segment q = None"
    and "\<And>i. wait_segment q = Some i \<Longrightarrow> i < length (c_segments c)"
  shows "sis33_ok (c, p(t := q))"
proof -
  have "fetch_segment ((p(t := q)) t') = fetch_segment (p t')" for t' using assms(2,3) by simp
  moreover have "wait_segment ((p(t := q)) t') = Some i \<Longrightarrow> i < length (c_segments c)" for t' i
    using assms(1,4) by (auto simp: sis33_ok_def procs_ok_def split: if_splits)
  ultimately show ?thesis using assms(1) unfolding sis33_ok_def procs_ok_def by simp
qed

lemma none_acquiring: "flags_ok c \<Longrightarrow> \<not> sis33_is_acquiring c \<Longrightarrow> \<not> acquires c i"
  by (auto simp: flags_ok_def sis33_is_acquiring_def acquires_def)

lemma segment_changes:
  assumes "i < length (c_segments c)"
  shows "transfers (upd_segment i (\<lambda>s. s\<lparr>sg_transferring := b\<rparr>) c) j = (if j = i then b else transfers c j)"
    and "acquires (upd_segment i (\<lambda>s. s\<lparr>sg_transferring := b\<rparr>) c) = acquires c"
    and "transfers ((upd_segment i (\<lambda>s. s\<lparr>sg_acquiring := a, sg_nr_samp_per_ev := n\<rparr>) c)\<lparr>c_curr_segment := i\<rparr>) = transfers c"
    and "acquires ((upd_segment i (\<lambda>s. s\<lparr>sg_acquiring := a, sg_nr_samp_per_ev := n\<rparr>) c)\<lparr>c_curr_segment := i\<rparr>) j =
      (if j = i then a else acquires c j)"
    and "table (upd_segment i g c) = table c" and "c_curr_segment (upd_segment i g c) = c_curr_segment c"
  using assms by (auto simp: transfers_def acquires_def upd_segment_def table_def list_update_nth_if fun_eq_iff)

lemma acquisition_begins:
  assumes "sis33_ok (c, p)" and "\<not> sis33_is_acquiring c" and "i < c_n_segments c" and "\<not> transfers c i"
  shows "sis33_ok ((upd_segment i (\<lambda>s. s\<lparr>sg_acquiring := True, sg_nr_samp_per_ev := n\<rparr>) c)\<lparr>c_curr_segment := i\<rparr>, p)"
proof -
  have i: "i < length (c_segments c)" using assms(1,3) by (simp add: sis33_ok_def table_ok_def)
  have "flags_ok c" using assms(1) by (simp add: sis33_ok_def)
  then have none: "\<not> acquires c j" for j using assms(2) by (rule none_acquiring)
  have "table_ok ((upd_segment i (\<lambda>s. s\<lparr>sg_acquiring := True, sg_nr_samp_per_ev := n\<rparr>) c)\<lparr>c_curr_segment := i\<rparr>)"
    using assms(1) by (simp add: sis33_ok_def table_ok_def upd_segment_def)
  then show ?thesis
    using assms(1,3,4) none
    by (simp add: sis33_ok_def flags_ok_def procs_ok_def segment_changes [OF i]) (simp add: upd_segment_def)
qed

text \<open>A transfer begins on a segment that is idle, and ends by the process that began it.\<close>

lemma procs_begin:
  assumes "procs_ok c p" and "fetch_segment (p t) = None" and "fetch_segment q = Some i" and "wait_segment q = None"
    and "i < length (c_segments c)" and "\<not> transfers c i"
  shows "procs_ok (upd_segment i (\<lambda>s. s\<lparr>sg_transferring := True\<rparr>) c) (p(t := q))"
proof -
  have other: "fetch_segment (p t') \<noteq> Some i" for t' using assms(1,6) by (auto simp: procs_ok_def)
  have seg: "fetch_segment ((p(t := q)) t') = (if t' = t then Some i else fetch_segment (p t'))" for t' using assms(3) by simp
  have waits: "wait_segment ((p(t := q)) t') = (if t' = t then None else wait_segment (p t'))" for t' using assms(4) by simp
  show ?thesis
    using assms(1,2,5) other unfolding procs_ok_def seg waits segment_changes(1) [OF assms(5)]
    by (simp add: upd_segment_def) (metis option.distinct(1) option.inject)
qed

lemma procs_end:
  assumes "procs_ok c p" and "fetch_segment (p t) = Some i" and "fetch_segment q = None" and "wait_segment q = None"
    and "i < length (c_segments c)"
  shows "procs_ok (upd_segment i (\<lambda>s. s\<lparr>sg_transferring := False\<rparr>) c) (p(t := q))"
proof -
  have seg: "fetch_segment ((p(t := q)) t') = (if t' = t then None else fetch_segment (p t'))" for t' using assms(3) by simp
  have waits: "wait_segment ((p(t := q)) t') = (if t' = t then None else wait_segment (p t'))" for t' using assms(4) by simp
  show ?thesis
    using assms(1,2,5) unfolding procs_ok_def seg waits segment_changes(1) [OF assms(5)]
    by (simp add: upd_segment_def) (metis option.distinct(1) option.inject)
qed

lemma transfer_flags:
  assumes "table_ok c" and "flags_ok c" and "i < length (c_segments c)" and "b \<Longrightarrow> \<not> acquires c i"
  shows "table_ok (upd_segment i (\<lambda>s. s\<lparr>sg_transferring := b\<rparr>) c)"
    and "flags_ok (upd_segment i (\<lambda>s. s\<lparr>sg_transferring := b\<rparr>) c)"
proof -
  show "table_ok (upd_segment i (\<lambda>s. s\<lparr>sg_transferring := b\<rparr>) c)"
    using assms(1) by (simp add: table_ok_def upd_segment_def)
  have "c_n_segments (upd_segment i (\<lambda>s. s\<lparr>sg_transferring := b\<rparr>) c) = c_n_segments c" by (simp add: upd_segment_def)
  then show "flags_ok (upd_segment i (\<lambda>s. s\<lparr>sg_transferring := b\<rparr>) c)"
    using assms(2,4) by (auto simp: flags_ok_def segment_changes [OF assms(3)])
qed

lemma transfer_begins:
  assumes "sis33_ok (c, p)" and "fetch_segment (p t) = None" and "i < length (c_segments c)"
    and "\<not> acquires c i" and "\<not> transfers c i" and "fetch_segment q = Some i" and "wait_segment q = None"
  shows "sis33_ok (upd_segment i (\<lambda>s. s\<lparr>sg_transferring := True\<rparr>) c, p(t := q))"
  using assms procs_begin [of c p t q i] transfer_flags [of c i True] by (simp add: sis33_ok_def)

lemma transfer_ends:
  assumes "sis33_ok (c, p)" and "fetch_segment (p t) = Some i" and "fetch_segment q = None" and "wait_segment q = None"
  shows "sis33_ok (upd_segment i (\<lambda>s. s\<lparr>sg_transferring := False\<rparr>) c, p(t := q))"
proof -
  have i: "i < length (c_segments c)" using assms(1,2) by (auto simp: sis33_ok_def procs_ok_def transfers_def)
  show ?thesis
    using assms procs_end [of c p t i q] transfer_flags [of c i False] i by (simp add: sis33_ok_def)
qed

section \<open>Every step keeps the invariant\<close>

lemma fls_bound: "n < 2 ^ fls n"
proof (induction n rule: fls.induct)
  case (1 n)
  then show ?case by (cases "n = 0") (simp_all add: fls.simps [of n])
qed

lemma roundup_pow_of_two_ge: "n \<le> roundup_pow_of_two n"
  using fls_bound [of "n - 1"] by (simp add: roundup_pow_of_two_def)

lemma n_segments_ok:
  assumes "sis33_ok (c, p)" and "sis33_store_n_segments v c = (r, c1)"
  shows "sis33_ok (c1, p)"
proof (cases "v < int (c_n_segments_min c) \<or> sis33_is_acquiring c \<or> sis33_is_transferring c")
  case True
  then have "c1 = c" using assms(2) by (auto simp: sis33_store_n_segments_def split: if_splits)
  then show ?thesis using assms(1) by simp
next
  case False
  define m where "m = roundup_pow_of_two (nat v)"
  have m: "c_n_segments_min c \<le> m" using False roundup_pow_of_two_ge [of "nat v"] by (simp add: m_def) linarith
  have c1: "c1 = c\<lparr>c_n_segments := (if m = 0 then 1 else if c_n_segments_max c < m then c_n_segments_max c else m)\<rparr>"
    using assms(2) False by (auto simp: sis33_store_n_segments_def m_def Let_def)
  have same: "acquires c1 = acquires c" "transfers c1 = transfers c" "c_segments c1 = c_segments c"
    by (simp_all add: c1 acquires_def transfers_def fun_eq_iff)
  have "\<not> acquires c i" for i using assms(1) False none_acquiring [of c i] by (simp add: sis33_ok_def)
  then show ?thesis using assms(1) m by (auto simp: sis33_ok_def table_ok_def flags_ok_def procs_ok_def same) (auto simp: c1)
qed

lemma fetch_check_ok:
  assumes "sis33_ok (c, p)" and "sis33_fetch_check l acqs c = (n, c1)" and "fetch_segment (p t) = None"
    and "unat (al_segment l) < length (c_segments c)"
  shows "sis33_ok (c1, p(t := fetch_state l acqs n))"
proof (cases "\<exists>nr. n = FetchGo nr")
  case True
  then have "c1 = upd_segment (unat (al_segment l)) (\<lambda>s. s\<lparr>sg_transferring := True\<rparr>) c \<and>
      \<not> acquires c (unat (al_segment l)) \<and> \<not> transfers c (unat (al_segment l))"
    using assms(2) by (auto simp: sis33_fetch_check_def acquires_def transfers_def Let_def split: if_splits option.splits rc.splits)
  moreover have "fetch_segment (fetch_state l acqs n) = Some (unat (al_segment l))" "wait_segment (fetch_state l acqs n) = None"
    using True by (auto simp: fetch_state_def)
  ultimately show ?thesis using transfer_begins [OF assms(1,3,4)] by simp
next
  case False
  then have "c1 = c" "fetch_segment (fetch_state l acqs n) = None" "wait_segment (fetch_state l acqs n) = None"
    using assms(2) by (auto simp: sis33_fetch_check_def fetch_state_def Let_def split: if_splits option.splits rc.splits)
  then show ?thesis using sis33_ok_upd [OF assms(1,3), of "fetch_state l acqs n"] by simp
qed

lemma fetch_first_ok:
  assumes "sis33_ok (c, p)" and "sis33_fetch_first ops l acqs c = (n, c1)" and "fetch_segment (p t) = None"
  shows "sis33_ok (c1, p(t := fetch_state l acqs n))"
proof (cases "c_n_segments c \<le> unat (al_segment l) \<or> c_n_channels c \<le> unat (al_channel l) \<or>
    sg_acquiring (c_segments c ! unat (al_segment l))")
  case True
  then have "c1 = c" and n: "(\<exists>e. n = FetchReturn e) \<or> (\<exists>b. n = FetchWait b \<and> unat (al_segment l) < c_n_segments c)"
    using assms(2) by (auto simp: sis33_fetch_first_def split: if_splits)
  moreover have "fetch_segment (fetch_state l acqs n) = None" using n by (auto simp: fetch_state_def)
  moreover have "wait_segment (fetch_state l acqs n) = Some i \<Longrightarrow> i < length (c_segments c)" for i
    using n assms(1) by (auto simp: fetch_state_def sis33_ok_def table_ok_def)
  ultimately show ?thesis using sis33_ok_upd [OF assms(1,3)] by simp
next
  case False
  then have "sis33_fetch_check l acqs c = (n, c1)" using assms(2) by (simp add: sis33_fetch_first_def)
  moreover have "unat (al_segment l) < length (c_segments c)" using False assms(1) by (simp add: sis33_ok_def table_ok_def)
  ultimately show ?thesis using fetch_check_ok [OF assms(1) _ assms(3)] by simp
qed

context sis33_driver
begin

lemma acq_begin_ok:
  assumes "sis33_ok (c, p)" and "sis33_acq_begin ops d c = (r, c1)"
  shows "sis33_ok (c1, p)"
proof (cases "c1 = c")
  case False
  let ?i = "unat (ad_segment d)"
  obtain f c2 where f: "op_conf_ev ops = Some f" and c2: "f d c = (r, c2)"
    and i: "?i < c_n_segments c" "\<not> sg_transferring (c_segments c ! ?i)" "\<not> sis33_is_acquiring c"
    and c1: "c1 = (if r = OK then (upd_segment ?i (\<lambda>s. s\<lparr>sg_acquiring := True, sg_nr_samp_per_ev := ad_ev_length d\<rparr>) c2)
        \<lparr>c_curr_segment := ?i\<rparr> else c2)"
    using assms(2) False by (auto simp: sis33_acq_begin_def Let_def split: if_splits option.splits prod.splits rc.splits)
  have calm: "calms c c2" using conf_ev_calms [OF f, of c d] c2 by simp
  have ok: "sis33_ok (c2, p)" using calm assms(1) by (rule calms_ok)
  have "\<not> acquires c j" for j using assms(1) i(3) none_acquiring [of c j] by (simp add: sis33_ok_def)
  then have "\<not> sis33_is_acquiring c2"
    using calm assms(1) by (auto simp: sis33_is_acquiring_def calms_def acquires_def sis33_ok_def table_ok_def table_def)
  moreover have "\<not> transfers c2 ?i" using calm i(2) by (auto simp: calms_def transfers_def)
  moreover have "?i < c_n_segments c2" using calm i(1) by (simp add: calms_def table_def)
  ultimately show ?thesis using acquisition_begins [OF ok] ok c1 by simp
qed (use assms(1) in simp)

lemma conf_store_calms: "calms c (snd (sis33_conf_store ops upd c))"
proof (cases "sis33_is_acquiring c")
  case False
  show ?thesis
  proof (cases "op_conf_acq ops")
    case (Some f)
    obtain r c1 where fc: "f (upd (c_cfg c)) c = (r, c1)" by fastforce
    have "calms c c1" using conf_acq_calms [OF Some, of c "upd (c_cfg c)"] fc by simp
    moreover have "calms c1 (c1\<lparr>c_cfg := upd (c_cfg c)\<rparr>)" by (rule calms_same) simp_all
    ultimately have "calms c c1 \<and> calms c (c1\<lparr>c_cfg := upd (c_cfg c)\<rparr>)" using calms_trans by blast
    then show ?thesis using False Some fc by (cases r) (simp_all add: sis33_conf_store_def)
  qed (simp add: sis33_conf_store_def)
qed (simp add: sis33_conf_store_def)

lemma chan_offset_calms: "calms c (snd (chan_offset_store ops i v c))"
proof (cases "sis33_is_acquiring c")
  case False
  define c1 where "c1 = c\<lparr>c_channels := (c_channels c)[i := (c_channels c ! i)\<lparr>ch_offset := v AND 0xffff\<rparr>]\<rparr>"
  have 1: "calms c c1" by (rule calms_same) (simp_all add: c1_def)
  show ?thesis
  proof (cases "op_conf_channels ops")
    case None
    then show ?thesis using False 1 by (simp add: chan_offset_store_def Let_def c1_def)
  next
    case (Some f)
    obtain r c2 where fc: "f c1 = (r, c2)" by fastforce
    have 2: "calms c c2" using 1 conf_channels_calms [OF Some, of c1] fc by (auto intro: calms_trans)
    have "calms c2 (c2\<lparr>c_channels := xs\<rparr>)" for xs by (rule calms_same) simp_all
    then have "calms c (c2\<lparr>c_channels := xs\<rparr>)" for xs using 2 calms_trans by blast
    then show ?thesis
      using False Some fc 2 by (cases r) (simp_all add: chan_offset_store_def Let_def c1_def)
  qed
qed (simp add: chan_offset_store_def)

lemma store_ok:
  assumes "sis33_ok (c, p)" and "sis33_store ops a c = (r, c1)"
  shows "sis33_ok (c1, p)"
proof (cases "\<exists>v. a = NSegments v")
  case True
  then show ?thesis using assms n_segments_ok by (auto simp: sis33_store_def)
next
  case False
  have "calms c (snd (sis33_store_trigger ops v c))" for v
    using trigger_calms by (auto simp: sis33_store_trigger_def split: option.splits)
  moreover have "calms c (snd (sis33_store_acq_cancel ops c))"
    using acq_cancel_calms by (auto simp: sis33_store_acq_cancel_def split: option.splits)
  ultimately have "calms c (snd (sis33_store ops a c))"
    using False conf_store_calms chan_offset_calms by (cases a) (simp_all add: sis33_store_def conf_attr_defs)
  then show ?thesis using assms calms_ok by simp
qed

lemma step_ok: "sis33_step ops irq x y \<Longrightarrow> sis33_ok x \<Longrightarrow> sis33_ok y"
proof (induction rule: sis33_step.induct)
  case (acq_refused p t d c e c1)
  then show ?case using acq_begin_ok by blast
next
  case (acq_begun p t d c c1)
  then have "sis33_ok (c1, p)" using acq_begin_ok by blast
  then show ?case by (rule sis33_ok_upd) (simp_all add: acq_begun.hyps(1))
next
  case (acq_armed p t d c r c1)
  have "calms c c1"
    using acq_armed.hyps(2) acq_start_calms by (auto simp: sis33_acq_arm_def split: option.splits)
  then have "sis33_ok (c1, p)" using acq_armed.prems by (rule calms_ok)
  then show ?case by (rule sis33_ok_upd) (auto simp: acq_armed.hyps(1) split: rc.splits option.splits)
next
  case (fetch_entered p t ul mem uacqs l acqs c n c1)
  then show ?case using fetch_first_ok [of c p ops l acqs n c1 t] by simp
next
  case (fetch_checked p t l acqs c n c1)
  have "unat (al_segment l) < length (c_segments c)"
    using fetch_checked.prems fetch_checked.hyps(1) by (auto simp: sis33_ok_def procs_ok_def dest: spec [of _ t])
  then show ?case using fetch_checked fetch_check_ok [of c p l acqs n c1 t] by simp
next
  case (fetch_transfer p t l acqs nr c r acqs1 c1)
  have "calms c c1"
    using fetch_transfer.hyps(2) fetch_calms [of _ c "unat (al_segment l)" "unat (al_channel l)" acqs nr]
    by (auto simp: sis33_fetch_run_def split: option.splits)
  then have ok: "sis33_ok (c1, p)" using fetch_transfer.prems by (rule calms_ok)
  have "fetch_segment ((p(t := PFetchDone l)) t') = fetch_segment (p t')" for t' using fetch_transfer.hyps(1) by simp
  moreover have "wait_segment ((p(t := PFetchDone l)) t') = wait_segment (p t')" for t' using fetch_transfer.hyps(1) by simp
  ultimately show ?case using ok unfolding sis33_ok_def procs_ok_def by simp
next
  case (fetch_ended p t l c)
  then show ?case unfolding sis33_fetch_end_def by (intro transfer_ends) simp_all
next
  case (interrupted c c1 p)
  then show ?case using irq_calms calms_ok by blast
next
  case (stored a c r c1 p)
  then show ?case using store_ok by blast
next
  case (fetch_woken p t b l acqs f e c)
  have "unat (al_segment l) < length (c_segments c)"
    using fetch_woken.prems fetch_woken.hyps(1) by (auto simp: sis33_ok_def procs_ok_def dest: spec [of _ t])
  then show ?case using fetch_woken by (intro sis33_ok_upd) simp_all
qed (auto intro!: sis33_ok_upd)

end

sublocale sis33_driver < runs: invariant_system sis33_start "sis33_step ops irq" sis33_ok
  by unfold_locales (fact sis33_start_ok, fact step_ok)

text \<open>What the invariant says of the flags.\<close>

lemma sis33_ok_exclusive:
  assumes "sis33_ok (c, p)"
  shows "(\<forall>i j. acquires c i \<longrightarrow> acquires c j \<longrightarrow> i = j) \<and> (\<forall>i. \<not> (acquires c i \<and> transfers c i)) \<and>
    (\<forall>t t' i. fetch_segment (p t) = Some i \<longrightarrow> fetch_segment (p t') = Some i \<longrightarrow> t = t') \<and>
    (\<forall>t i. fetch_segment (p t) = Some i \<longrightarrow> \<not> acquires c i)"
  using assms unfolding sis33_ok_def flags_ok_def procs_ok_def by (metis fst_conv snd_conv)

end
