(* ===== verification/Sis3320.thy ===== *)
theory Sis3320
  imports Sis33_Inv
begin

text \<open>
  The driver of the SIS3320 and SIS3302 digitizers (\<open>src/sis33/drivers/sis3320.c\<close>, \<open>sis3320.h\<close>): eight
  channels of 32 million samples, read through a window of 8 MB that a page register moves, with
  a directory of events per channel and, on the SIS3302, one of time stamps. Memory of the kernel is
  not modelled but for allocations that fail.
\<close>

section \<open>The device\<close>

record 'h sis3320 =
  s_vme_base :: u32
  s_version :: nat
  s_completion :: bool
  s_curr_page :: u32
  s_hw :: 'h

type_synonym 'h card20 = "'h sis3320 sis33_card"

definition hw20 :: "'h card20 \<Rightarrow> 'h" where "hw20 c = s_hw (c_private c)"

definition set_hw20 :: "'h \<Rightarrow> 'h card20 \<Rightarrow> 'h card20" where
  "set_hw20 h c = c\<lparr>c_private := (c_private c)\<lparr>s_hw := h\<rparr>\<rparr>"

definition sis3320_readw :: "'h sis33_bus \<Rightarrow> u32 \<Rightarrow> 'h card20 \<Rightarrow> u32 \<times> 'h card20" where
  "sis3320_readw bus offset c =
    (case sis33_dma_read bus (s_vme_base (c_private c) + offset) (hw20 c) of (v, h) \<Rightarrow> (v, set_hw20 h c))"

definition sis3320_writew :: "'h sis33_bus \<Rightarrow> u32 \<Rightarrow> u32 \<Rightarrow> 'h card20 \<Rightarrow> 'h card20" where
  "sis3320_writew bus offset val c =
    set_hw20 (sis33_dma_write bus (s_vme_base (c_private c) + offset) val (hw20 c)) c"

text \<open>An allocation, and whether it succeeds.\<close>

definition alloc20 :: "'h sis33_bus \<Rightarrow> 'h card20 \<Rightarrow> bool \<times> 'h card20" where
  "alloc20 bus c = (case kalloc bus (hw20 c) of (ok, h) \<Rightarrow> (ok, set_hw20 h c))"

text \<open>Registers and bits of \<open>sis3320.h\<close>.\<close>

abbreviation (input) SIS3320_FW :: u32 where "SIS3320_FW \<equiv> 0x004"
abbreviation (input) SIS3320_INTCONF :: u32 where "SIS3320_INTCONF \<equiv> 0x008"
abbreviation (input) SIS3320_INTCTL :: u32 where "SIS3320_INTCTL \<equiv> 0x00c"
abbreviation (input) SIS3320_ACQ :: u32 where "SIS3320_ACQ \<equiv> 0x010"
abbreviation (input) SIS3320_EXT_START_DELAY :: u32 where "SIS3320_EXT_START_DELAY \<equiv> 0x014"
abbreviation (input) SIS3320_EXT_STOP_DELAY :: u32 where "SIS3320_EXT_STOP_DELAY \<equiv> 0x018"
abbreviation (input) SIS3320_NR_EVENTS :: u32 where "SIS3320_NR_EVENTS \<equiv> 0x020"
abbreviation (input) SIS3320_EV_COUNTER :: u32 where "SIS3320_EV_COUNTER \<equiv> 0x024"
abbreviation (input) SIS3320_ADC_MEM_PAGE :: u32 where "SIS3320_ADC_MEM_PAGE \<equiv> 0x034"
abbreviation (input) SIS3320_DAC_CTL :: u32 where "SIS3320_DAC_CTL \<equiv> 0x050"
abbreviation (input) SIS3320_DAC_DATA :: u32 where "SIS3320_DAC_DATA \<equiv> 0x054"
abbreviation (input) SIS3320_RESET :: u32 where "SIS3320_RESET \<equiv> 0x400"
abbreviation (input) SIS3320_ARM :: u32 where "SIS3320_ARM \<equiv> 0x410"
abbreviation (input) SIS3320_DISARM :: u32 where "SIS3320_DISARM \<equiv> 0x414"
abbreviation (input) SIS3320_START_SAMP :: u32 where "SIS3320_START_SAMP \<equiv> 0x418"
abbreviation (input) SIS3320_STOP_SAMP :: u32 where "SIS3320_STOP_SAMP \<equiv> 0x41c"
abbreviation (input) SIS3302_TSTAMP_CLEAR :: u32 where "SIS3302_TSTAMP_CLEAR \<equiv> 0x42c"
abbreviation (input) SIS3302_TSTAMP_DIR :: u32 where "SIS3302_TSTAMP_DIR \<equiv> 0x10000"
abbreviation (input) EV_CONF :: u32 where "EV_CONF \<equiv> 0x00"
abbreviation (input) SAMP_LEN :: u32 where "SAMP_LEN \<equiv> 0x04"
abbreviation (input) SAMP_STADDR :: u32 where "SAMP_STADDR \<equiv> 0x08"
abbreviation (input) SPI_REG :: u32 where "SPI_REG \<equiv> 0x40"
abbreviation (input) INTCTL_EN_LEV :: u32 where "INTCTL_EN_LEV \<equiv> 0x2"
abbreviation (input) INTCTL_DICL_LEV :: u32 where "INTCTL_DICL_LEV \<equiv> 0x20000"
abbreviation (input) INTCTL_ST_LEV :: u32 where "INTCTL_ST_LEV \<equiv> 0x2000000"
abbreviation (input) EV_DIR_WRAP :: u32 where "EV_DIR_WRAP \<equiv> 0x10000000"
abbreviation (input) EV_DIR_ADDR :: u32 where "EV_DIR_ADDR \<equiv> 0x1ffffff"

definition SIS3320_GREG :: "nat \<Rightarrow> u32 \<Rightarrow> u32" where
  "SIS3320_GREG grp reg = 0x2000000 + of_nat (grp - 1) * 0x800000 + reg"

definition SIS3320_GALL :: "u32 \<Rightarrow> u32" where "SIS3320_GALL reg = 0x1000000 + reg"

definition SIS3320_EV_DIR :: "nat \<Rightarrow> u32" where
  "SIS3320_EV_DIR n = 0x2010000 + of_nat (n div 2) * 0x800000 + of_nat (n mod 2) * 0x8000"

definition SIS3320_MEM_ADC :: "nat \<Rightarrow> u32" where "SIS3320_MEM_ADC n = 0x4000000 + of_nat n * 0x800000"

definition SIS3320_PAGESIZE :: nat where "SIS3320_PAGESIZE = 0x800000"
definition SIS3320_PAGESIZE_SAMPLES :: nat where "SIS3320_PAGESIZE_SAMPLES = 0x400000"

definition sis3320_ev_lengths :: "u32 list" where
  "sis3320_ev_lengths = [33554432, 16777216, 4194304, 1048576, 262144, 65536, 16384, 4096, 1024, 512, 256, 128, 64]"

definition sis3320_ev_length_bits :: "u32 list" where
  "sis3320_ev_length_bits = [0, 0x0, 0x1, 0x2, 0x3, 0x4, 0x5, 0x6, 0x7, 0x8, 0x9, 0xa, 0xb]"

definition sis3320_200_freqs :: "u32 list" where "sis3320_200_freqs = [200000000, 100000000, 50000000]"
definition sis3320_200_freq_bits :: "u32 list" where "sis3320_200_freq_bits = [0x0, 0x1, 0x2]"
definition sis3320_250_freqs :: "u32 list" where "sis3320_250_freqs = [250000000, 200000000, 100000000, 50000000]"
definition sis3320_250_freq_bits :: "u32 list" where "sis3320_250_freq_bits = [0x7, 0x0, 0x1, 0x2]"
definition sis3302_freqs :: "u32 list" where "sis3302_freqs = [100000000, 50000000, 25000000, 10000000, 1000000]"
definition sis3302_freq_bits :: "u32 list" where "sis3302_freq_bits = [0x0, 0x1, 0x2, 0x3, 0x4]"

text \<open>The look-ups in two parallel tables, with the entry that stands in for a missing value.\<close>

definition lookup_bits :: "u32 list \<Rightarrow> u32 list \<Rightarrow> nat \<Rightarrow> u32 \<Rightarrow> u32" where
  "lookup_bits keys bits dflt v =
    (case find (\<lambda>i. keys ! i = v) [0..<length keys] of None \<Rightarrow> bits ! dflt | Some i \<Rightarrow> bits ! i)"

section \<open>The directory of events\<close>

definition sis3320_get_event :: "sis33_segment \<Rightarrow> nat \<Rightarrow> nat \<Rightarrow> sis33_event list \<Rightarrow> sis33_event" where
  "sis3320_get_event s channel event_nr events = events ! (channel * unat (sg_nr_events s) + event_nr)"

definition sis3320_get_segment_base :: "'h card20 \<Rightarrow> nat \<Rightarrow> u32" where
  "sis3320_get_segment_base c seg = (of_nat seg * (c_ev_lengths c ! 0 div of_nat (c_n_segments c))) AND 0x01fffffc"

definition sis3320_process_event :: "'h card20 \<Rightarrow> nat \<Rightarrow> u32 list \<Rightarrow> nat \<Rightarrow> sis33_event" where
  "sis3320_process_event c seg raw_events event_nr =
    (let s = c_segments c ! seg;
         reg = raw_events ! event_nr;
         next_sample = ((reg AND EV_DIR_ADDR) - of_nat event_nr * sg_nr_samp_per_ev s - sis3320_get_segment_base c seg)
           AND NOT 0x3
     in if reg AND EV_DIR_WRAP \<noteq> 0 then \<lparr>ev_nr_samples = sg_nr_samp_per_ev s, ev_first_samp = next_sample\<rparr>
        else \<lparr>ev_nr_samples = next_sample, ev_first_samp = 0\<rparr>)"

definition sis3320_read_events_dir ::
    "'h sis33_bus \<Rightarrow> nat \<Rightarrow> nat \<Rightarrow> nat \<Rightarrow> 'h card20 \<Rightarrow> (errno + sis33_event list) \<times> 'h card20" where
  "sis3320_read_events_dir bus seg channel nr_events c =
    (case sis33_dma_read32be_blt bus (s_vme_base (c_private c) + SIS3320_EV_DIR channel) nr_events (hw20 c) of
       (Inl e, h) \<Rightarrow> (Inl e, set_hw20 h c)
     | (Inr raw_events, h) \<Rightarrow> (Inr (map (sis3320_process_event c seg raw_events) [0..<nr_events]), set_hw20 h c))"

text \<open>The loop over the channels; their events stand one channel after the other.\<close>

primrec read_dirs ::
    "'h sis33_bus \<Rightarrow> nat \<Rightarrow> nat \<Rightarrow> nat list \<Rightarrow> 'h card20 \<Rightarrow> (errno + sis33_event list) \<times> 'h card20" where
  "read_dirs bus seg nr_events [] c = (Inr [], c)"
| "read_dirs bus seg nr_events (i # is) c =
    (case sis3320_read_events_dir bus seg i nr_events c of
       (Inl e, c1) \<Rightarrow> (Inl e, c1)
     | (Inr evs, c1) \<Rightarrow>
         (case read_dirs bus seg nr_events is c1 of
            (Inl e, c2) \<Rightarrow> (Inl e, c2)
          | (Inr evss, c2) \<Rightarrow> (Inr (evs @ evss), c2)))"

definition sis3320_read_segment :: "'h sis33_bus \<Rightarrow> nat \<Rightarrow> 'h card20 \<Rightarrow> 'h card20" where
  "sis3320_read_segment bus seg c =
    (let c0 = upd_segment seg (\<lambda>s. case sg_events s of Ptr _ \<Rightarrow> s\<lparr>sg_events := NullPtr, sg_nr_events := 0\<rparr> | _ \<Rightarrow> s) c;
         (v, c1) = sis3320_readw bus SIS3320_EV_COUNTER c0;
         nr = v AND 0xfffff;
         c2 = upd_segment seg (\<lambda>s. s\<lparr>sg_nr_events := nr\<rparr>) c1
     in if nr = 0 then c2
        else (case alloc20 bus c2 of
            (False, c3) \<Rightarrow> upd_segment seg (\<lambda>s. s\<lparr>sg_events := ErrPtr ENOMEM\<rparr>) c3
          | (True, c3) \<Rightarrow>
              (case alloc20 bus c3 of
                 (False, c4) \<Rightarrow> upd_segment seg (\<lambda>s. s\<lparr>sg_events := ErrPtr ENOMEM\<rparr>) c4
               | (True, c4) \<Rightarrow>
                   (case read_dirs bus seg (unat nr) [0..<c_n_channels c4] c4 of
                      (Inl e, c5) \<Rightarrow> upd_segment seg (\<lambda>s. s\<lparr>sg_events := NullPtr, sg_nr_events := 0\<rparr>) c5
                    | (Inr evs, c5) \<Rightarrow> upd_segment seg (\<lambda>s. s\<lparr>sg_events := Ptr evs\<rparr>) c5))))"

section \<open>Time stamps\<close>

text \<open>The loop works in place: the first turn has already cleared \<open>pt_cache[0]\<close> when the others subtract it.\<close>

definition sis3302_pt_cache_normalize :: "u64 list \<Rightarrow> nat \<Rightarrow> u64 list" where
  "sis3302_pt_cache_normalize pt n = fold (\<lambda>i pt. pt[i := pt ! i - pt ! 0]) [0..<n] pt"

definition sis3302_pt_cache_fill :: "u32 list \<Rightarrow> nat \<Rightarrow> u64 list" where
  "sis3302_pt_cache_fill raw n =
    map (\<lambda>i. push_bit 32 (ucast (raw ! (i * 2) AND 0xffff)) OR ucast (raw ! (i * 2 + 1))) [0..<n]"

definition sis3302_pt_cache_rawfill :: "'h sis33_bus \<Rightarrow> nat \<Rightarrow> 'h card20 \<Rightarrow> (errno + u32 list) \<times> 'h card20" where
  "sis3302_pt_cache_rawfill bus n c =
    (case sis33_dma_read32be_blt bus (s_vme_base (c_private c) + SIS3302_TSTAMP_DIR) n (hw20 c) of
       (r, h) \<Rightarrow> (r, set_hw20 h c))"

definition sis3320_read_prevticks :: "'h sis33_bus \<Rightarrow> nat \<Rightarrow> 'h card20 \<Rightarrow> 'h card20" where
  "sis3320_read_prevticks bus seg c =
    (let s = c_segments c ! seg; elems = unat (sg_nr_events s) in
     if s_version (c_private c) \<noteq> 3302 \<or> sg_nr_events s = 0 then c
     else
       let c1 = upd_segment seg (\<lambda>s. s\<lparr>sg_prevticks := NullPtr\<rparr>) c
       in (case alloc20 bus c1 of
             (False, c2) \<Rightarrow> upd_segment seg (\<lambda>s. s\<lparr>sg_prevticks := ErrPtr ENOMEM\<rparr>) c2
           | (True, c2) \<Rightarrow>
               (case alloc20 bus c2 of
                  (False, c3) \<Rightarrow> upd_segment seg (\<lambda>s. s\<lparr>sg_prevticks := ErrPtr ENOMEM\<rparr>) c3
                | (True, c3) \<Rightarrow>
                    (case sis3302_pt_cache_rawfill bus (elems * 2) c3 of
                       (Inl e, c4) \<Rightarrow> c4
                     | (Inr raw, c4) \<Rightarrow>
                         upd_segment seg
                           (\<lambda>s. s\<lparr>sg_prevticks := Ptr (sis3302_pt_cache_normalize (sis3302_pt_cache_fill raw elems) elems)\<rparr>) c4))))"

section \<open>Interrupts\<close>

definition sis3320_acq_complete :: "'h card20 \<Rightarrow> 'h card20" where
  "sis3320_acq_complete c =
    (upd_segment (c_curr_segment c) (\<lambda>s. s\<lparr>sg_acquiring := False\<rparr>) c)\<lparr>c_private := (c_private c)\<lparr>s_completion := True\<rparr>\<rparr>"

definition stamp_endtime20 :: "'h sis33_bus \<Rightarrow> 'h card20 \<Rightarrow> 'h card20" where
  "stamp_endtime20 bus c =
    (case timeofday bus (hw20 c) of
       (now, h) \<Rightarrow> upd_segment (c_curr_segment c) (\<lambda>s. s\<lparr>sg_endtime := now\<rparr>) (set_hw20 h c))"

definition sis3320_irq_work :: "'h sis33_bus \<Rightarrow> 'h card20 \<Rightarrow> 'h card20" where
  "sis3320_irq_work bus c =
    (case sis3320_readw bus SIS3320_INTCTL c of
       (status, c1) \<Rightarrow>
         if status AND INTCTL_ST_LEV = 0 then c1
         else
           let c2 = sis3320_writew bus SIS3320_INTCTL INTCTL_DICL_LEV c1;
               c3 = stamp_endtime20 bus c2;
               c4 = sis3320_read_segment bus (c_curr_segment c3) c3;
               c5 = sis3320_read_prevticks bus (c_curr_segment c4) c4;
               c6 = sis3320_acq_complete c5
           in sis3320_writew bus SIS3320_INTCTL INTCTL_EN_LEV c6)"

section \<open>Start-up\<close>

primrec spi_tries :: "'h sis33_bus \<Rightarrow> u32 \<Rightarrow> nat \<Rightarrow> 'h card20 \<Rightarrow> 'h card20" where
  "spi_tries bus vme_spi 0 c = c"
| "spi_tries bus vme_spi (Suc n) c =
    (case sis33_dma_read bus vme_spi (hw20 c) of
       (v, h) \<Rightarrow> if v AND 0x800000 = 0 then set_hw20 h c else spi_tries bus vme_spi n (set_hw20 h c))"

definition sis3320_spi_sleep :: "'h sis33_bus \<Rightarrow> u32 \<Rightarrow> 'h card20 \<Rightarrow> 'h card20" where
  "sis3320_spi_sleep bus vme_spi c = spi_tries bus vme_spi 3 c"

definition sis3320_spi_write :: "'h sis33_bus \<Rightarrow> nat \<Rightarrow> nat \<Rightarrow> u32 \<Rightarrow> u32 \<Rightarrow> 'h card20 \<Rightarrow> 'h card20" where
  "sis3320_spi_write bus grp adc addr val c =
    (let vme_spi = s_vme_base (c_private c) + SIS3320_GREG grp SPI_REG;
         sel = (if adc = 2 then 0x400000 else 0 :: u32);
         reg = (sel OR push_bit 8 (addr AND 0x1fff) OR (val AND 0xff)) AND NOT 0x200000;
         c1 = sis3320_spi_sleep bus vme_spi (set_hw20 (sis33_dma_write bus vme_spi reg (hw20 c)) c);
         reg2 = sel OR push_bit 8 0xff OR 1
     in sis3320_spi_sleep bus vme_spi (set_hw20 (sis33_dma_write bus vme_spi reg2 (hw20 c1)) c1))"

definition sis3320_spi_write_both :: "'h sis33_bus \<Rightarrow> nat \<Rightarrow> u32 \<Rightarrow> u32 \<Rightarrow> 'h card20 \<Rightarrow> 'h card20" where
  "sis3320_spi_write_both bus grp addr val c = fold (\<lambda>adc. sis3320_spi_write bus grp adc addr val) [1..<3] c"

definition sis3320_spi_write_all :: "'h sis33_bus \<Rightarrow> u32 \<Rightarrow> u32 \<Rightarrow> 'h card20 \<Rightarrow> 'h card20" where
  "sis3320_spi_write_all bus addr val c = fold (\<lambda>grp. sis3320_spi_write_both bus grp addr val) [1..<5] c"

definition sis3320_reset :: "'h sis33_bus \<Rightarrow> 'h card20 \<Rightarrow> 'h card20" where
  "sis3320_reset bus c = sis3320_writew bus SIS3320_RESET 1 c"

definition sis3320_request_irq :: "'h sis33_bus \<Rightarrow> u32 \<Rightarrow> u32 \<Rightarrow> 'h card20 \<Rightarrow> rc \<times> 'h card20" where
  "sis3320_request_irq bus vector level c =
    (case irq_request bus (vector AND 0xff) (hw20 c) of
       (Err e, h) \<Rightarrow> (Err e, set_hw20 h c)
     | (OK, h) \<Rightarrow>
         let reg = 0x800 OR 0x1000 OR push_bit 8 (level AND 0x7) OR (vector AND 0xff);
             c1 = sis3320_writew bus SIS3320_INTCONF reg (set_hw20 h c)
         in (OK, sis3320_writew bus SIS3320_INTCTL INTCTL_EN_LEV c1))"

definition sis3320_free_irq :: "'h sis33_bus \<Rightarrow> u32 \<Rightarrow> 'h card20 \<Rightarrow> 'h card20" where
  "sis3320_free_irq bus vector c =
    (let (reg, c1) = sis3320_readw bus SIS3320_INTCONF c;
         c2 = sis3320_writew bus SIS3320_INTCONF (reg AND NOT 0x800) c1;
         c3 = sis3320_writew bus SIS3320_INTCTL 0 c2
     in set_hw20 (snd (irq_free bus vector (hw20 c3))) c3)"

definition sis3320_device_init :: "'h sis33_bus \<Rightarrow> u32 \<Rightarrow> u32 \<Rightarrow> u32 \<Rightarrow> 'h card20 \<Rightarrow> rc \<times> 'h card20" where
  "sis3320_device_init bus base vector level c =
    (let c0 = c\<lparr>c_private := (c_private c)\<lparr>s_vme_base := base\<rparr>\<rparr>;
         (reg, c1) = sis3320_readw bus SIS3320_FW c0;
         c2 = c1\<lparr>c_id := drop_bit 16 reg, c_major_rev := drop_bit 8 (reg AND 0xff00), c_minor_rev := reg AND 0xff\<rparr>
     in if c_id c2 \<noteq> 0x3320 \<and> c_id c2 \<noteq> 0x3302 then (Err ENODEV, c2)
        else
          let version = (if c_id c2 = 0x3320 then (if 0x20 \<le> c_major_rev c2 then 250 else 200) else 3302 :: nat);
              c3 = c2\<lparr>c_private := (c_private c2)\<lparr>s_version := version\<rparr>\<rparr>;
              c4 = sis3320_writew bus SIS3320_ADC_MEM_PAGE 0 (sis3320_reset bus c3);
              c5 = c4\<lparr>c_private := (c_private c4)\<lparr>s_curr_page := 0\<rparr>\<rparr>;
              c6 = (if version = 250 then sis3320_spi_write_all bus 0x0f 0x2 c5 else c5);
              c7 = c6\<lparr>c_private := (c_private c6)\<lparr>s_completion := False\<rparr>\<rparr>
          in sis3320_request_irq bus vector level c7)"

definition sis3320_device_exit :: "'h sis33_bus \<Rightarrow> u32 \<Rightarrow> 'h card20 \<Rightarrow> 'h card20" where
  "sis3320_device_exit bus vector c = sis3320_free_irq bus vector c"

definition sis3320_match :: "nat \<Rightarrow> nat \<Rightarrow> nat \<Rightarrow> nat \<Rightarrow> bool" where
  "sis3320_match base_num vector_num level_num ndev \<longleftrightarrow> ndev < base_num \<and> ndev < vector_num \<and> ndev < level_num"

section \<open>Configuration\<close>

definition sis3320_get_clk_bits :: "'h card20 \<Rightarrow> u32 \<Rightarrow> u32" where
  "sis3320_get_clk_bits c freq =
    (if s_version (c_private c) = 3302 then lookup_bits sis3302_freqs sis3302_freq_bits 0 freq
     else if s_version (c_private c) = 250 then lookup_bits sis3320_250_freqs sis3320_250_freq_bits 0 freq
     else lookup_bits sis3320_200_freqs sis3320_200_freq_bits 0 freq)"

definition sis3320_acq_clk :: "'h card20 \<Rightarrow> int \<Rightarrow> u32 \<Rightarrow> u32" where
  "sis3320_acq_clk c clksrc clkfreq =
    (if clksrc = SIS33_CLKSRC_INTERNAL then push_bit 12 (sis3320_get_clk_bits c clkfreq) else push_bit 12 0x6)"

definition sis3320_get_ev_length :: "u32 \<Rightarrow> u32" where
  "sis3320_get_ev_length len = lookup_bits sis3320_ev_lengths sis3320_ev_length_bits 7 len"

definition acq_mode20 :: "'h card20 \<Rightarrow> sis33_cfg \<Rightarrow> u32" where
  "acq_mode20 c cfg = sis3320_acq_clk c (cf_clksrc cfg) (cf_clkfreq cfg)
     OR (if cf_start_auto cfg then 0x10 else 0x100000) OR (if cf_trigger_ext_en cfg then 0x100 else 0)"

definition sis3320_conf_acq :: "'h sis33_bus \<Rightarrow> sis33_cfg \<Rightarrow> 'h card20 \<Rightarrow> rc \<times> 'h card20" where
  "sis3320_conf_acq bus cfg c =
    (let c1 = sis3320_writew bus SIS3320_ACQ 0x70000000 c;
         c2 = sis3320_writew bus SIS3320_ACQ (acq_mode20 c1 cfg) c1;
         c3 = sis3320_writew bus SIS3320_EXT_START_DELAY (word_of_int (cf_start_delay cfg)) c2
     in (OK, sis3320_writew bus SIS3320_EXT_STOP_DELAY (word_of_int (cf_stop_delay cfg)) c3))"

definition sis3320_dac_write :: "'h sis33_bus \<Rightarrow> u32 \<Rightarrow> 'h card20 \<Rightarrow> 'h card20" where
  "sis3320_dac_write bus val c = sis3320_writew bus SIS3320_DAC_DATA (val AND 0xffff) c"

primrec dac_tries :: "'h sis33_bus \<Rightarrow> nat \<Rightarrow> 'h card20 \<Rightarrow> 'h card20" where
  "dac_tries bus 0 c = c"
| "dac_tries bus (Suc n) c =
    (case sis3320_readw bus SIS3320_DAC_CTL c of (v, c1) \<Rightarrow> if v AND 0x8000 = 0 then c1 else dac_tries bus n c1)"

definition sis3320_dac_poll :: "'h sis33_bus \<Rightarrow> 'h card20 \<Rightarrow> 'h card20" where
  "sis3320_dac_poll bus c = dac_tries bus 1000 c"

definition sis3320_dac_shift :: "'h sis33_bus \<Rightarrow> 'h card20 \<Rightarrow> 'h card20" where
  "sis3320_dac_shift bus c = sis3320_dac_poll bus (sis3320_writew bus SIS3320_DAC_CTL 0x1 c)"

definition sis3320_dac_cmd_channel :: "'h sis33_bus \<Rightarrow> u32 \<Rightarrow> nat \<Rightarrow> 'h card20 \<Rightarrow> 'h card20" where
  "sis3320_dac_cmd_channel bus cmd i c =
    sis3320_dac_poll bus (sis3320_writew bus SIS3320_DAC_CTL (cmd OR push_bit 4 (of_nat i)) c)"

definition sis3320_dac_load :: "'h sis33_bus \<Rightarrow> 'h card20 \<Rightarrow> 'h card20" where
  "sis3320_dac_load bus c = sis3320_dac_poll bus (sis3320_writew bus SIS3320_DAC_CTL 0x2 c)"

definition apply_channels_offset :: "'h sis33_bus \<Rightarrow> 'h card20 \<Rightarrow> 'h card20" where
  "apply_channels_offset bus c =
    fold (\<lambda>i c. sis3320_dac_cmd_channel bus 0x2 i (sis3320_dac_cmd_channel bus 0x1 i
        (sis3320_dac_write bus (ch_offset (c_channels c ! i)) c))) [0..<8] c"

definition apply_channels_offset_daisychain :: "'h sis33_bus \<Rightarrow> 'h card20 \<Rightarrow> 'h card20" where
  "apply_channels_offset_daisychain bus c =
    fold (\<lambda>i c. sis3320_dac_load bus (sis3320_dac_shift bus
        (sis3320_dac_write bus (ch_offset (c_channels c ! (8 - 1 - i))) c))) [0..<8] c"

definition sis3320_apply_channels_offset :: "'h sis33_bus \<Rightarrow> 'h card20 \<Rightarrow> 'h card20" where
  "sis3320_apply_channels_offset bus c =
    (if s_version (c_private c) = 3302 \<or> s_version (c_private c) = 250 then apply_channels_offset bus c
     else apply_channels_offset_daisychain bus c)"

definition sis3320_conf_channels :: "'h sis33_bus \<Rightarrow> 'h card20 \<Rightarrow> rc \<times> 'h card20" where
  "sis3320_conf_channels bus c = (OK, sis3320_apply_channels_offset bus c)"

definition sis3320_conf_ev :: "'h sis33_bus \<Rightarrow> sis33_acq_desc \<Rightarrow> 'h card20 \<Rightarrow> rc \<times> 'h card20" where
  "sis3320_conf_ev bus desc c =
    (let cfg = c_cfg c;
         c1 = sis3320_writew bus SIS3320_ACQ ((if ad_nr_events desc = 1 then 0x200000 else 0x20) OR acq_mode20 c cfg) c;
         c2 = sis3320_writew bus SIS3320_NR_EVENTS (ad_nr_events desc) c1;
         conf = (if cf_stop_auto cfg then 0x20 else 0)
           OR (if ad_ev_length desc \<noteq> c_ev_lengths c ! 0 then 0x10 OR sis3320_get_ev_length (ad_ev_length desc) else 0);
         c3 = sis3320_writew bus (SIS3320_GALL EV_CONF) conf c2;
         c4 = (if cf_stop_auto cfg
               then sis3320_writew bus (SIS3320_GALL SAMP_LEN) ((ad_ev_length desc - 4) AND 0x01fffffc) c3 else c3)
     in (OK, sis3320_writew bus (SIS3320_GALL SAMP_STADDR) (sis3320_get_segment_base c (unat (ad_segment desc))) c4))"

definition sis3320_config_init :: "'h card20 \<Rightarrow> 'h card20" where
  "sis3320_config_init c =
    (let (freq, offset) = (if s_version (c_private c) = 200 then (200000000, 0x99f2)
           else if s_version (c_private c) = 3302 then (100000000, 0x91be) else (250000000, 0x8dd6))
     in c\<lparr>c_cfg := \<lparr>cf_start_delay = 0, cf_stop_delay = 0, cf_start_auto = True, cf_stop_auto = True,
            cf_trigger_ext_en = True, cf_clksrc = SIS33_CLKSRC_INTERNAL, cf_clkfreq = freq, cf_ev_tstamp_divider = 1\<rparr>,
          c_channels := map (\<lambda>ch. \<lparr>ch_show_attrs = True, ch_offset = offset\<rparr>) (take (c_n_channels c) (c_channels c))
            @ drop (c_n_channels c) (c_channels c)\<rparr>)"

section \<open>Reading events\<close>

definition sis3320_put_page :: "'h sis33_bus \<Rightarrow> u32 \<Rightarrow> 'h card20 \<Rightarrow> 'h card20" where
  "sis3320_put_page bus page_nr c =
    (let page = page_nr AND 0x7 in
     if page = s_curr_page (c_private c) then c
     else sis3320_writew bus SIS3320_ADC_MEM_PAGE page (c\<lparr>c_private := (c_private c)\<lparr>s_curr_page := page\<rparr>\<rparr>))"

definition sis3320_get_offset :: "'h sis33_bus \<Rightarrow> nat \<Rightarrow> nat \<Rightarrow> 'h card20 \<Rightarrow> u32 \<times> 'h card20" where
  "sis3320_get_offset bus seg event_nr c =
    (let event_size = sg_nr_samp_per_ev (c_segments c ! seg) * 2;
         membase = sis3320_get_segment_base c seg * 2;
         offset = membase + of_nat event_nr * event_size
     in (offset AND 0x7fffff, sis3320_put_page bus (drop_bit 23 offset) c))"

definition dma_to_acq :: "'h sis33_bus \<Rightarrow> u32 \<Rightarrow> nat \<Rightarrow> nat \<Rightarrow> sis33_acq \<Rightarrow> 'h card20 \<Rightarrow> rc \<times> sis33_acq \<times> 'h card20" where
  "dma_to_acq bus vme_addr pos len acq c =
    (case sis33_dma_read_mblt_user bus vme_addr (aq_addr acq + of_nat pos) len (hw20 c) of
       (r, bs, h) \<Rightarrow> (r, acq\<lparr>aq_data := overwrite (aq_data acq) pos bs\<rparr>, set_hw20 h c))"

primrec bigpage_loop ::
    "'h sis33_bus \<Rightarrow> nat \<Rightarrow> u32 \<Rightarrow> nat list \<Rightarrow> sis33_acq \<Rightarrow> 'h card20 \<Rightarrow> rc \<times> sis33_acq \<times> 'h card20" where
  "bigpage_loop bus channel page0 [] acq c = (OK, acq, c)"
| "bigpage_loop bus channel page0 (i # is) acq c =
    (let c1 = sis3320_put_page bus (page0 + of_nat i) c
     in case dma_to_acq bus (s_vme_base (c_private c1) + SIS3320_MEM_ADC channel) (i * SIS3320_PAGESIZE) SIS3320_PAGESIZE acq c1 of
          (Err e, acq1, c2) \<Rightarrow> (Err e, acq1, c2)
        | (OK, acq1, c2) \<Rightarrow> bigpage_loop bus channel page0 is acq1 c2)"

definition sis3320_get_data_bigpage ::
    "'h sis33_bus \<Rightarrow> nat \<Rightarrow> sis33_acq \<Rightarrow> nat \<Rightarrow> nat \<Rightarrow> 'h card20 \<Rightarrow> rc \<times> sis33_acq \<times> 'h card20" where
  "sis3320_get_data_bigpage bus seg acq channel event_nr c =
    (let n = sg_nr_samp_per_ev (c_segments c ! seg);
         nr_pages = unat n div SIS3320_PAGESIZE_SAMPLES;
         page0 = drop_bit 23 ((sis3320_get_segment_base c seg + of_nat event_nr * n) * 2)
     in bigpage_loop bus channel page0 [0..<nr_pages] acq c)"

definition sis3320_get_data_smallpage ::
    "'h sis33_bus \<Rightarrow> nat \<Rightarrow> sis33_acq \<Rightarrow> nat \<Rightarrow> nat \<Rightarrow> 'h card20 \<Rightarrow> rc \<times> sis33_acq \<times> 'h card20" where
  "sis3320_get_data_smallpage bus seg acq channel event_nr c =
    (case sis3320_get_offset bus seg event_nr c of
       (offset, c1) \<Rightarrow>
         dma_to_acq bus (s_vme_base (c_private c1) + SIS3320_MEM_ADC channel + offset) 0 (unat (aq_size acq)) acq c1)"

definition sis3320_get_data ::
    "'h sis33_bus \<Rightarrow> nat \<Rightarrow> sis33_acq \<Rightarrow> nat \<Rightarrow> nat \<Rightarrow> 'h card20 \<Rightarrow> rc \<times> sis33_acq \<times> 'h card20" where
  "sis3320_get_data bus seg acq channel event_nr c =
    (if unat (sg_nr_samp_per_ev (c_segments c ! seg)) \<le> SIS3320_PAGESIZE_SAMPLES
     then sis3320_get_data_smallpage bus seg (acq\<lparr>aq_be := True\<rparr>) channel event_nr c
     else sis3320_get_data_bigpage bus seg (acq\<lparr>aq_be := True\<rparr>) channel event_nr c)"

definition sis3320_read_event ::
    "'h sis33_bus \<Rightarrow> nat \<Rightarrow> sis33_acq \<Rightarrow> nat \<Rightarrow> nat \<Rightarrow> 'h card20 \<Rightarrow> rc \<times> sis33_acq \<times> 'h card20" where
  "sis3320_read_event bus seg acq channel event_nr c =
    (let s = c_segments c ! seg in
     if sg_nr_events s = 0 then (Err ENODATA, acq, c)
     else (case sg_events s of
         NullPtr \<Rightarrow> (Err ENODATA, acq, c)
       | ErrPtr e \<Rightarrow> (Err e, acq, c)
       | Ptr events \<Rightarrow>
           (case sg_prevticks s of
              ErrPtr e \<Rightarrow> (Err e, acq, c)
            | pt \<Rightarrow>
                let event = sis3320_get_event s channel event_nr events;
                    ticks = (case pt of Ptr pt_cache \<Rightarrow> pt_cache ! event_nr | _ \<Rightarrow> 0)
                in sis3320_get_data bus seg
                     (acq\<lparr>aq_prevticks := ticks, aq_nr_samples := ev_nr_samples event, aq_first_samp := ev_first_samp event\<rparr>)
                     channel event_nr c)))"

primrec fetch_loop20 ::
    "'h sis33_bus \<Rightarrow> nat \<Rightarrow> nat \<Rightarrow> nat list \<Rightarrow> sis33_acq list \<Rightarrow> 'h card20 \<Rightarrow> rc \<times> sis33_acq list \<times> 'h card20" where
  "fetch_loop20 bus seg channel [] acqs c = (OK, acqs, c)"
| "fetch_loop20 bus seg channel (i # is) acqs c =
    (case sis3320_read_event bus seg (acqs ! i) channel i c of
       (Err e, a, c1) \<Rightarrow> (Err e, acqs[i := a], c1)
     | (OK, a, c1) \<Rightarrow> fetch_loop20 bus seg channel is (acqs[i := a]) c1)"

definition sis3320_fetch ::
    "'h sis33_bus \<Rightarrow> nat \<Rightarrow> nat \<Rightarrow> sis33_acq list \<Rightarrow> nat \<Rightarrow> 'h card20 \<Rightarrow> (errno + nat) \<times> sis33_acq list \<times> 'h card20" where
  "sis3320_fetch bus seg channel acqs nr_events c =
    (case fetch_loop20 bus seg channel [0..<nr_events] acqs c of
       (Err e, acqs1, c1) \<Rightarrow> (Inl e, acqs1, c1)
     | (OK, acqs1, c1) \<Rightarrow> (Inr nr_events, acqs1, c1))"

section \<open>Acquisitions\<close>

definition sis3320_trigger :: "'h sis33_bus \<Rightarrow> int \<Rightarrow> 'h card20 \<Rightarrow> rc \<times> 'h card20" where
  "sis3320_trigger bus trigger c =
    (if trigger = SIS33_TRIGGER_START then (OK, sis3320_writew bus SIS3320_START_SAMP 1 c)
     else if trigger = SIS33_TRIGGER_STOP then (OK, sis3320_writew bus SIS3320_STOP_SAMP 1 c)
     else (Err EINVAL, c))"

definition sis3320_acq_start :: "'h sis33_bus \<Rightarrow> 'h card20 \<Rightarrow> 'h card20" where
  "sis3320_acq_start bus c =
    (let c1 = c\<lparr>c_private := (c_private c)\<lparr>s_completion := False\<rparr>\<rparr>;
         c2 = (if s_version (c_private c1) = 3302 then sis3320_writew bus SIS3302_TSTAMP_CLEAR 1 c1 else c1)
     in sis3320_writew bus SIS3320_ARM 1 c2)"

definition sis3320_acq_wait :: "bool \<Rightarrow> wait_end \<Rightarrow> 'h card20 \<Rightarrow> rc option" where
  "sis3320_acq_wait timeout e c =
    (case e of
       Completed \<Rightarrow> if s_completion (c_private c) then Some OK else None
     | Signalled \<Rightarrow> Some (Err EINTR)
     | Expired \<Rightarrow> if timeout then Some (Err ETIME) else None)"

definition sis3320_acq_cancel :: "'h sis33_bus \<Rightarrow> 'h card20 \<Rightarrow> rc \<times> 'h card20" where
  "sis3320_acq_cancel bus c = (OK, sis3320_acq_complete (sis3320_writew bus SIS3320_DISARM 1 c))"

definition sis3320_ops :: "'h sis33_bus \<Rightarrow> 'h sis3320 sis33_card_ops" where
  "sis3320_ops bus =
    \<lparr>op_conf_acq = Some (sis3320_conf_acq bus), op_conf_ev = Some (sis3320_conf_ev bus),
     op_conf_channels = Some (sis3320_conf_channels bus), op_fetch = Some (sis3320_fetch bus),
     op_trigger = Some (sis3320_trigger bus), op_acq_start = Some (sis3320_acq_start bus),
     op_acq_wait = Some sis3320_acq_wait, op_acq_cancel = Some (sis3320_acq_cancel bus),
     op_config_init = Some sis3320_config_init\<rparr>"

section \<open>Probe and removal\<close>

text \<open>
  The probe of a card with index, base address, vector and level from the module's parameters. \<open>cdev\<close> and
  \<open>sysfs\<close> are the outcomes of the registration; the result is the error, or the card in
  use, with the mask of card numbers and the hardware.
\<close>

definition fill_card20 :: "'h card20 \<Rightarrow> 'h card20" where
  "fill_card20 c =
    (let v = s_version (c_private c) in
     c\<lparr>c_ev_tstamp_support := (v = 3302), c_ev_tstamp_max_ticks_log2 := (if v = 3302 then 48 else 0),
       c_n_bits := (if v = 3302 then 16 else 12), c_ev_tstamp_divider_max := 1, c_n_channels := 8,
       c_channels := replicate 8 \<lparr>ch_show_attrs = False, ch_offset = 0\<rparr>, c_max_nr_events := 512, c_max_delay := 0xffffff,
       c_ev_lengths := sis3320_ev_lengths,
       c_freqs := (if v = 3302 then sis3302_freqs else if v = 250 then sis3320_250_freqs else sis3320_200_freqs),
       c_n_segments_max := 2, c_n_segments_min := 1, c_n_segments := 2, c_segments := replicate 2 zero_segment,
       c_curr_segment := 0\<rparr>)"

definition sis3320_probe ::
    "'h sis33_bus \<Rightarrow> int \<Rightarrow> u32 \<Rightarrow> u32 \<Rightarrow> u32 \<Rightarrow> rc \<Rightarrow> rc \<Rightarrow> u32 \<Rightarrow> 'h \<Rightarrow> ((errno + 'h card20) \<times> u32 \<times> 'h) option" where
  "sis3320_probe bus idx base vector level cdev sysfs locks h0 =
    (let (mem0, h1) = kalloc bus h0 in
     case sis33_card_create idx mem0 locks of
       (Inl e, locks1) \<Rightarrow> Some (Inl e, locks1, h1)
     | (Inr number, locks1) \<Rightarrow>
         let (mem1, h2) = kalloc bus h1; (mem2, h3) = kalloc bus h2; (mem3, h4) = kalloc bus h3
         in if \<not> mem1 then Some (Inl ENOMEM, sis33_card_free number locks1, h2)
            else if \<not> mem2 then Some (Inl ENOMEM, sis33_card_free number locks1, h3)
            else if \<not> mem3 then Some (Inl ENOMEM, sis33_card_free number locks1, h4)
            else
              let c0 = zero_card number \<lparr>s_vme_base = 0, s_version = 0, s_completion = False, s_curr_page = 0, s_hw = h4\<rparr>
              in (case sis3320_device_init bus base vector level c0 of
                    (Err e, c1) \<Rightarrow> Some (Inl e, sis33_card_free number locks1, hw20 c1)
                  | (OK, c1) \<Rightarrow>
                      (case sis33_card_register (sis3320_ops bus) cdev sysfs (fill_card20 c1) of
                         None \<Rightarrow> None
                       | Some (OK, c2) \<Rightarrow> Some (Inr c2, locks1, hw20 c2)
                       | Some (Err e, c2) \<Rightarrow>
                           Some (Inl e, sis33_card_free number locks1, hw20 (sis3320_device_exit bus vector c2)))))"

definition sis3320_remove :: "'h sis33_bus \<Rightarrow> u32 \<Rightarrow> u32 \<Rightarrow> 'h card20 \<Rightarrow> u32 \<times> 'h" where
  "sis3320_remove bus vector locks c = (sis33_card_free (c_number c) locks, hw20 (sis3320_device_exit bus vector c))"

section \<open>The contract of the core\<close>

lemma set_hw20_calms [simp]: "calms c (set_hw20 h c)"
  by (rule calms_same) (simp_all add: set_hw20_def)

lemma writew20_calms [simp]: "calms c (sis3320_writew bus r v c)"
  by (simp add: sis3320_writew_def)

lemma readw20_calms: "sis3320_readw bus r c = (v, c1) \<Longrightarrow> calms c c1"
  by (auto simp: sis3320_readw_def split: prod.splits)

lemma writew20_calms_trans: "calms c c1 \<Longrightarrow> calms c (sis3320_writew bus r v c1)"
  using calms_trans writew20_calms by blast

lemma alloc20_calms: "alloc20 bus c = (b, c1) \<Longrightarrow> calms c c1"
  by (auto simp: alloc20_def split: prod.splits)

lemma events_dir20_calms: "calms c (snd (sis3320_read_events_dir bus seg i n c))"
  by (auto simp: sis3320_read_events_dir_def split: prod.splits sum.splits)

lemma read_dirs20_calms: "calms c (snd (read_dirs bus seg n is c))"
proof (induction "is" arbitrary: c)
  case (Cons i "is")
  obtain r c1 where 1: "sis3320_read_events_dir bus seg i n c = (r, c1)" by fastforce
  obtain r2 c2 where 2: "read_dirs bus seg n is c1 = (r2, c2)" by fastforce
  have "calms c c1" using events_dir20_calms [of c bus seg i n] 1 by simp
  moreover have "calms c1 c2" using Cons [of c1] 2 by simp
  ultimately show ?case using 1 2 by (auto split: sum.splits intro: calms_trans)
qed simp

lemma drop_events20_calms:
  "calms c (upd_segment i (\<lambda>s. case sg_events s of Ptr _ \<Rightarrow> s\<lparr>sg_events := NullPtr, sg_nr_events := 0\<rparr> | _ \<Rightarrow> s) c)"
  by (rule calms_upd_segment) (auto split: err_ptr.splits)

lemma read_segment20_calms: "calms c (sis3320_read_segment bus seg c)"
proof -
  define c0 where "c0 = upd_segment seg (\<lambda>s. case sg_events s of Ptr _ \<Rightarrow> s\<lparr>sg_events := NullPtr, sg_nr_events := 0\<rparr> | _ \<Rightarrow> s) c"
  obtain v c1 where 1: "sis3320_readw bus SIS3320_EV_COUNTER c0 = (v, c1)" by fastforce
  define c2 where "c2 = upd_segment seg (\<lambda>s. s\<lparr>sg_nr_events := v AND 0xfffff\<rparr>) c1"
  obtain b3 c3 where 3: "alloc20 bus c2 = (b3, c3)" by fastforce
  obtain b4 c4 where 4: "alloc20 bus c3 = (b4, c4)" by fastforce
  obtain r c5 where 5: "read_dirs bus seg (unat (v AND 0xfffff)) [0..<c_n_channels c4] c4 = (r, c5)" by fastforce
  have s1: "calms c c1" using drop_events20_calms readw20_calms [OF 1] calms_trans unfolding c0_def by blast
  then have s2: "calms c c2" unfolding c2_def by (rule segment_calms)
  then have s3: "calms c c3" using alloc20_calms [OF 3] calms_trans by blast
  then have s4: "calms c c4" using alloc20_calms [OF 4] calms_trans by blast
  then have s5: "calms c c5" using read_dirs20_calms [of c4 bus seg "unat (v AND 0xfffff)" "[0..<c_n_channels c4]"] 5 calms_trans by fastforce
  show ?thesis
    unfolding sis3320_read_segment_def c0_def [symmetric] Let_def 1 prod.case c2_def [symmetric] 3 4 5
    using s2 s3 s4 s5 by (auto intro: segment_calms split: sum.splits bool.splits)
qed

lemma rawfill20_calms: "calms c (snd (sis3302_pt_cache_rawfill bus n c))"
  by (simp add: sis3302_pt_cache_rawfill_def split: prod.splits)

lemma read_prevticks20_calms: "calms c (sis3320_read_prevticks bus seg c)"
proof -
  define c1 where "c1 = upd_segment seg (\<lambda>s. s\<lparr>sg_prevticks := NullPtr\<rparr>) c"
  obtain b2 c2 where 2: "alloc20 bus c1 = (b2, c2)" by fastforce
  obtain b3 c3 where 3: "alloc20 bus c2 = (b3, c3)" by fastforce
  obtain r c4 where 4: "sis3302_pt_cache_rawfill bus (unat (sg_nr_events (c_segments c ! seg)) * 2) c3 = (r, c4)" by fastforce
  have s1: "calms c c1" unfolding c1_def by (rule segment_calms) simp
  then have s2: "calms c c2" using alloc20_calms [OF 2] calms_trans by blast
  then have s3: "calms c c3" using alloc20_calms [OF 3] calms_trans by blast
  then have s4: "calms c c4"
    using rawfill20_calms [of c3 bus "unat (sg_nr_events (c_segments c ! seg)) * 2"] 4 calms_trans by fastforce
  show ?thesis
    unfolding sis3320_read_prevticks_def Let_def c1_def [symmetric] 2 prod.case 3 4
    using s1 s2 s3 s4 by (auto intro: segment_calms split: sum.splits bool.splits)
qed

lemma complete20_calms: "calms c (sis3320_acq_complete c)"
proof -
  have "calms c (upd_segment (c_curr_segment c) (\<lambda>s. s\<lparr>sg_acquiring := False\<rparr>) c)" by (rule segment_calms) simp
  then show ?thesis unfolding sis3320_acq_complete_def by (rule calms_trans [OF _ private_calms(1)])
qed

lemma stamp20_calms: "calms c (stamp_endtime20 bus c)"
  by (auto simp: stamp_endtime20_def intro: segment_calms split: prod.splits)

lemma irq_work20_calms: "calms c (sis3320_irq_work bus c)"
proof -
  obtain v c1 where 1: "sis3320_readw bus SIS3320_INTCTL c = (v, c1)" by fastforce
  note later = calms_trans [OF calms_trans [OF calms_trans [OF calms_trans [OF calms_trans [OF
    writew20_calms stamp20_calms] read_segment20_calms] read_prevticks20_calms] complete20_calms] writew20_calms]
  show ?thesis
    unfolding sis3320_irq_work_def 1 prod.case Let_def
    using readw20_calms [OF 1] calms_trans [OF readw20_calms [OF 1] later] by auto
qed

lemma put_page20_calms: "calms c (sis3320_put_page bus p c)"
  using calms_trans [OF private_calms(1) writew20_calms] by (auto simp: sis3320_put_page_def Let_def)

lemma dma_to_acq20_calms: "calms c (snd (snd (dma_to_acq bus a pos n acq c)))"
  by (simp add: dma_to_acq_def split: prod.splits)

lemma bigpage20_calms: "calms c (snd (snd (bigpage_loop bus ch page0 is acq c)))"
proof (induction "is" arbitrary: acq c)
  case (Cons i "is")
  define c1 where "c1 = sis3320_put_page bus (page0 + of_nat i) c"
  obtain r acq1 c2 where 2: "dma_to_acq bus (s_vme_base (c_private c1) + SIS3320_MEM_ADC ch) (i * SIS3320_PAGESIZE) SIS3320_PAGESIZE acq c1
      = (r, acq1, c2)" by (metis prod_cases3)
  have "calms c1 c2" using dma_to_acq20_calms [of c1] 2 by (metis snd_conv)
  then have "calms c c2" using calms_trans [OF put_page20_calms] by (simp add: c1_def)
  then show ?case using 2 Cons [of c2 acq1] by (auto simp: Let_def c1_def [symmetric] split: rc.splits intro: calms_trans)
qed simp

lemma get_data20_calms: "calms c (snd (snd (sis3320_get_data bus seg acq ch ev c)))"
proof -
  have "calms c (snd (snd (sis3320_get_data_smallpage bus seg acq' ch ev c)))" for acq'
    unfolding sis3320_get_data_smallpage_def sis3320_get_offset_def Let_def prod.case
    by (rule calms_trans [OF put_page20_calms dma_to_acq20_calms])
  then show ?thesis
    by (simp add: sis3320_get_data_def sis3320_get_data_bigpage_def Let_def bigpage20_calms)
qed

lemma read_event20_calms: "calms c (snd (snd (sis3320_read_event bus seg acq ch ev c)))"
  by (auto simp: sis3320_read_event_def Let_def get_data20_calms split: err_ptr.splits)

lemma fetch_loop20_calms: "calms c (snd (snd (fetch_loop20 bus seg ch is acqs c)))"
proof (induction "is" arbitrary: acqs c)
  case (Cons i "is")
  obtain r a c1 where 1: "sis3320_read_event bus seg (acqs ! i) ch i c = (r, a, c1)" by (metis prod_cases3)
  have "calms c c1" using read_event20_calms [of c bus seg "acqs ! i" ch i] 1 by simp
  then show ?case using 1 Cons [of c1 "acqs[i := a]"] by (auto split: rc.splits intro: calms_trans)
qed simp

lemma dac_tries_calms: "calms c (dac_tries bus n c)"
proof (induction n arbitrary: c)
  case (Suc n)
  obtain v c1 where r: "sis3320_readw bus SIS3320_DAC_CTL c = (v, c1)" by fastforce
  show ?case using Suc [of c1] readw20_calms [OF r] by (auto simp: r intro: calms_trans)
qed simp

lemma dac20_calms:
  "calms c (sis3320_dac_cmd_channel bus cmd i c)" "calms c (sis3320_dac_shift bus c)" "calms c (sis3320_dac_load bus c)"
  unfolding sis3320_dac_cmd_channel_def sis3320_dac_shift_def sis3320_dac_load_def sis3320_dac_poll_def
  by (rule calms_trans [OF writew20_calms dac_tries_calms])+

lemma conf_channels20_calms: "calms c (snd (sis3320_conf_channels bus c))"
proof -
  have w: "calms c (sis3320_dac_write bus v c)" for v and c :: "'a card20" by (simp add: sis3320_dac_write_def)
  have "calms c (apply_channels_offset bus c)" unfolding apply_channels_offset_def
    by (rule calms_fold) (rule calms_trans [OF calms_trans [OF w dac20_calms(1)] dac20_calms(1)])
  moreover have "calms c (apply_channels_offset_daisychain bus c)" unfolding apply_channels_offset_daisychain_def
    by (rule calms_fold) (rule calms_trans [OF calms_trans [OF w dac20_calms(2)] dac20_calms(3)])
  ultimately show ?thesis by (simp add: sis3320_conf_channels_def sis3320_apply_channels_offset_def)
qed

lemma conf_acq20_calms: "calms c (snd (sis3320_conf_acq bus cfg c))"
  unfolding sis3320_conf_acq_def Let_def snd_conv by (intro writew20_calms_trans) simp

lemma conf_ev20_calms: "calms c (snd (sis3320_conf_ev bus d c))"
  unfolding sis3320_conf_ev_def Let_def snd_conv by (cases "cf_stop_auto (c_cfg c)") (auto intro!: writew20_calms_trans)

lemma acq_start20_calms: "calms c (sis3320_acq_start bus c)"
  unfolding sis3320_acq_start_def Let_def by (auto intro!: writew20_calms_trans)

lemma acq_cancel20_calms: "calms c (snd (sis3320_acq_cancel bus c))"
  unfolding sis3320_acq_cancel_def snd_conv by (rule calms_trans [OF writew20_calms complete20_calms])

lemma fetch20_calms: "calms c (snd (snd (sis3320_fetch bus seg ch acqs n c)))"
  using fetch_loop20_calms [of c bus seg ch "[0..<n]" acqs] by (auto simp: sis3320_fetch_def split: prod.splits rc.splits)

interpretation sis20: sis33_driver "sis3320_ops bus" "\<lambda>c. Some (sis3320_irq_work bus c)" for bus
  by unfold_locales
    (auto simp: sis3320_ops_def conf_acq20_calms conf_ev20_calms conf_channels20_calms fetch20_calms sis3320_trigger_def
      acq_start20_calms acq_cancel20_calms irq_work20_calms)

end
