(* ===== verification/Sis3300.thy ===== *)
theory Sis3300
  imports Sis33_Inv
begin

text \<open>
  The driver of the SIS3300 digitizer (\<open>src/sis33/drivers/sis3300.c\<close>, \<open>sis3300.h\<close>): two memory banks, one per
  segment, in which the samples of two channels share a word. The driver counts the events of an acquisition itself, in its
  interrupt work, and keeps the event directory, the samples and the time stamps of a segment in caches until
  the next acquisition on it.
\<close>

section \<open>The device\<close>

record 'h sis3300 =
  t_vme_base :: u32
  t_req_events :: u32
  t_completion :: bool
  t_sampcache :: "u32 list option list list"
  t_hw :: 'h

type_synonym 'h card00 = "'h sis3300 sis33_card"

definition hw00 :: "'h card00 \<Rightarrow> 'h" where "hw00 c = t_hw (c_private c)"

definition set_hw00 :: "'h \<Rightarrow> 'h card00 \<Rightarrow> 'h card00" where
  "set_hw00 h c = c\<lparr>c_private := (c_private c)\<lparr>t_hw := h\<rparr>\<rparr>"

definition sis3300_readw :: "'h sis33_bus \<Rightarrow> u32 \<Rightarrow> 'h card00 \<Rightarrow> u32 \<times> 'h card00" where
  "sis3300_readw bus offset c =
    (case sis33_dma_read bus (t_vme_base (c_private c) + offset) (hw00 c) of (v, h) \<Rightarrow> (v, set_hw00 h c))"

definition sis3300_writew :: "'h sis33_bus \<Rightarrow> u32 \<Rightarrow> u32 \<Rightarrow> 'h card00 \<Rightarrow> 'h card00" where
  "sis3300_writew bus offset val c =
    set_hw00 (sis33_dma_write bus (t_vme_base (c_private c) + offset) val (hw00 c)) c"

definition alloc00 :: "'h sis33_bus \<Rightarrow> 'h card00 \<Rightarrow> bool \<times> 'h card00" where
  "alloc00 bus c = (case kalloc bus (hw00 c) of (ok, h) \<Rightarrow> (ok, set_hw00 h c))"

text \<open>Registers and bits of \<open>sis3300.h\<close>.\<close>

abbreviation (input) SIS3300_FW :: u32 where "SIS3300_FW \<equiv> 0x4"
abbreviation (input) SIS3300_INTCONF :: u32 where "SIS3300_INTCONF \<equiv> 0x8"
abbreviation (input) SIS3300_INTCTL :: u32 where "SIS3300_INTCTL \<equiv> 0xc"
abbreviation (input) SIS3300_ACQ :: u32 where "SIS3300_ACQ \<equiv> 0x10"
abbreviation (input) SIS3300_EXT_START_DELAY :: u32 where "SIS3300_EXT_START_DELAY \<equiv> 0x14"
abbreviation (input) SIS3300_EXT_STOP_DELAY :: u32 where "SIS3300_EXT_STOP_DELAY \<equiv> 0x18"
abbreviation (input) SIS3300_TSTAMP_PREDIV :: u32 where "SIS3300_TSTAMP_PREDIV \<equiv> 0x1c"
abbreviation (input) SIS3300_RESET :: u32 where "SIS3300_RESET \<equiv> 0x20"
abbreviation (input) SIS3300_START_SAMP :: u32 where "SIS3300_START_SAMP \<equiv> 0x30"
abbreviation (input) SIS3300_STOP_SAMP :: u32 where "SIS3300_STOP_SAMP \<equiv> 0x34"
abbreviation (input) INTCTL_ST_EV :: u32 where "INTCTL_ST_EV \<equiv> 0x10000000"
abbreviation (input) INTCTL_ST_LEV :: u32 where "INTCTL_ST_LEV \<equiv> 0x20000000"
abbreviation (input) INTCTL_ST_MASK :: u32 where "INTCTL_ST_MASK \<equiv> 0xb0000000"
abbreviation (input) ACQ_BUSY :: u32 where "ACQ_BUSY \<equiv> 0x10000"

definition SIS3300_EV_TSTAMP :: "nat \<Rightarrow> u32" where "SIS3300_EV_TSTAMP nr = push_bit nr 0x1000"
definition SIS3300_GALL :: "u32 \<Rightarrow> u32" where "SIS3300_GALL reg = 0x100000 + reg"
definition EV_DIR :: "nat \<Rightarrow> u32" where "EV_DIR bank = 0x101000 + of_nat bank * 0x1000"
definition EV_COUNTER :: "nat \<Rightarrow> u32" where "EV_COUNTER bank = 0x200010 + of_nat bank * 0x4"
definition MEMBANK :: "nat \<Rightarrow> nat \<Rightarrow> u32" where
  "MEMBANK bank chan = 0x400000 + of_nat bank * 0x200000 + of_nat (chan div 2) * 0x80000"

definition sis3300_ev_lengths :: "u32 list" where
  "sis3300_ev_lengths = [131072, 16384, 4096, 2048, 1024, 512, 256, 128]"
definition sis3300_ev_length_bits :: "u32 list" where
  "sis3300_ev_length_bits = [0x0, 0x1, 0x2, 0x3, 0x4, 0x5, 0x6, 0x7]"
definition sis3300_08_ev_lengths :: "u32 list" where
  "sis3300_08_ev_lengths = [131072, 32768, 16384, 8192, 4096, 2048, 1024, 512, 256, 128]"
definition sis3300_08_ev_length_bits :: "u32 list" where
  "sis3300_08_ev_length_bits = [0x0, 0x100001, 0x1, 0x100002, 0x2, 0x3, 0x4, 0x5, 0x6, 0x7]"
definition sis3300_freqs :: "u32 list" where
  "sis3300_freqs = [100000000, 50000000, 25000000, 12500000, 6250000, 3125000]"
definition sis3300_freq_bits :: "u32 list" where
  "sis3300_freq_bits = [0x0, 0x1, 0x2, 0x3, 0x4, 0x5]"

definition table_bits :: "u32 list \<Rightarrow> u32 list \<Rightarrow> nat \<Rightarrow> u32 \<Rightarrow> u32" where
  "table_bits keys bits dflt v =
    (case find (\<lambda>i. keys ! i = v) [0..<length keys] of None \<Rightarrow> bits ! dflt | Some i \<Rightarrow> bits ! i)"

section \<open>Configuration\<close>

definition sis3300_rev :: "'h card00 \<Rightarrow> u32" where
  "sis3300_rev c = push_bit 8 (c_major_rev c) OR c_minor_rev c"

definition sis3300_get_clk_bits :: "u32 \<Rightarrow> u32" where
  "sis3300_get_clk_bits freq = table_bits sis3300_freqs sis3300_freq_bits 0 freq"

definition sis3300_acq_clk :: "int \<Rightarrow> u32 \<Rightarrow> u32" where
  "sis3300_acq_clk clksrc clkfreq =
    push_bit 12 (if clksrc = SIS33_CLKSRC_INTERNAL then sis3300_get_clk_bits clkfreq else 0x6)"

definition sis3300_conf_acq :: "'h sis33_bus \<Rightarrow> sis33_cfg \<Rightarrow> 'h card00 \<Rightarrow> rc \<times> 'h card00" where
  "sis3300_conf_acq bus cfg c =
    (let c1 = sis3300_writew bus SIS3300_ACQ 0x70000000 c;
         val = sis3300_acq_clk (cf_clksrc cfg) (cf_clkfreq cfg)
           OR (if cf_start_auto cfg then 0x10 else 0x100000) OR (if cf_trigger_ext_en cfg then 0x100 else 0x1000000)
           OR (if cf_start_delay cfg \<noteq> 0 then 0x40 else 0x400000) OR (if cf_stop_delay cfg \<noteq> 0 then 0x80 else 0x800000);
         c2 = sis3300_writew bus SIS3300_ACQ val c1;
         c3 = sis3300_writew bus SIS3300_EXT_START_DELAY (word_of_int (cf_start_delay cfg)) c2;
         c4 = sis3300_writew bus SIS3300_EXT_STOP_DELAY (word_of_int (cf_stop_delay cfg)) c3
     in (OK, sis3300_writew bus SIS3300_TSTAMP_PREDIV (word_of_int (cf_ev_tstamp_divider cfg)) c4))"

definition sis3300_get_ev_len_bits :: "'h card00 \<Rightarrow> u32 \<Rightarrow> u32" where
  "sis3300_get_ev_len_bits c len =
    (if 0x0308 \<le> sis3300_rev c then table_bits sis3300_08_ev_lengths sis3300_08_ev_length_bits 3 len
     else table_bits sis3300_ev_lengths sis3300_ev_length_bits 3 len)"

definition sis3300_conf_ev :: "'h sis33_bus \<Rightarrow> sis33_acq_desc \<Rightarrow> 'h card00 \<Rightarrow> rc \<times> 'h card00" where
  "sis3300_conf_ev bus desc c =
    (let c1 = sis3300_writew bus SIS3300_ACQ (if ad_nr_events desc = 1 then 0x200000 else 0x20) c;
         c2 = c1\<lparr>c_private := (c_private c1)\<lparr>t_req_events := ad_nr_events desc\<rparr>\<rparr>;
         val = (if cf_stop_auto (c_cfg c) then 0 else 0x8) OR sis3300_get_ev_len_bits c2 (ad_ev_length desc)
     in (OK, sis3300_writew bus (SIS3300_GALL 0x0) val c2))"

section \<open>The caches of a segment\<close>

definition sis3300_process_raw_event :: "'h card00 \<Rightarrow> nat \<Rightarrow> u32 list \<Rightarrow> nat \<Rightarrow> sis33_event" where
  "sis3300_process_raw_event c seg raw_events event_nr =
    (let n = sg_nr_samp_per_ev (c_segments c ! seg);
         raw_event = raw_events ! event_nr;
         next_sample = (raw_event AND 0x1ffff) - of_nat event_nr * n
     in if raw_event AND 0x80000 \<noteq> 0 then \<lparr>ev_nr_samples = n, ev_first_samp = next_sample\<rparr>
        else \<lparr>ev_nr_samples = next_sample, ev_first_samp = 0\<rparr>)"

definition sis3300_read_events_dir ::
    "'h sis33_bus \<Rightarrow> nat \<Rightarrow> nat \<Rightarrow> 'h card00 \<Rightarrow> (errno + sis33_event list) \<times> 'h card00" where
  "sis3300_read_events_dir bus seg nr_events c =
    (case sis33_dma_read32be_blt bus (t_vme_base (c_private c) + EV_DIR seg) nr_events (hw00 c) of
       (Inl e, h) \<Rightarrow> (Inl e, set_hw00 h c)
     | (Inr raw_events, h) \<Rightarrow> (Inr (map (sis3300_process_raw_event c seg raw_events) [0..<nr_events]), set_hw00 h c))"

definition sis3300_evcache_free :: "nat \<Rightarrow> 'h card00 \<Rightarrow> 'h card00" where
  "sis3300_evcache_free seg c = upd_segment seg (\<lambda>s. s\<lparr>sg_events := NullPtr\<rparr>) c"

definition sis3300_evcache_get :: "'h sis33_bus \<Rightarrow> nat \<Rightarrow> 'h card00 \<Rightarrow> (errno + sis33_event list) \<times> 'h card00" where
  "sis3300_evcache_get bus seg c =
    (case sg_events (c_segments c ! seg) of
       Ptr evs \<Rightarrow> (Inr evs, c)
     | _ \<Rightarrow>
         (case alloc00 bus c of
            (False, c1) \<Rightarrow> (Inl ENOMEM, upd_segment seg (\<lambda>s. s\<lparr>sg_events := NullPtr\<rparr>) c1)
          | (True, c1) \<Rightarrow>
              (case alloc00 bus c1 of
                 (False, c2) \<Rightarrow> (Inl ENOMEM, sis3300_evcache_free seg c2)
               | (True, c2) \<Rightarrow>
                   (case sis3300_read_events_dir bus seg (unat (sg_nr_events (c_segments c ! seg))) c2 of
                      (Inl e, c3) \<Rightarrow> (Inl e, sis3300_evcache_free seg c3)
                    | (Inr evs, c3) \<Rightarrow> (Inr evs, upd_segment seg (\<lambda>s. s\<lparr>sg_events := Ptr evs\<rparr>) c3)))))"

definition sis3300_u32_swap :: "bool \<Rightarrow> u8 list \<Rightarrow> nat \<Rightarrow> u32 list" where
  "sis3300_u32_swap big bs n = map (\<lambda>i. be32_to_cpu (\<not> big) (word_at big bs i)) [0..<n]"

definition sis3300_fill_bouncebuf :: "'h sis33_bus \<Rightarrow> nat \<Rightarrow> nat \<Rightarrow> nat \<Rightarrow> 'h card00 \<Rightarrow> rc \<times> u8 list \<times> 'h card00" where
  "sis3300_fill_bouncebuf bus seg channel len c =
    (case sis33_dma_read_mblt bus (t_vme_base (c_private c) + MEMBANK seg channel) len (hw00 c) of
       (r, bs, h) \<Rightarrow> (r, bs, set_hw00 h c))"

definition set_sampcache :: "nat \<Rightarrow> nat \<Rightarrow> u32 list option \<Rightarrow> 'h card00 \<Rightarrow> 'h card00" where
  "set_sampcache seg grp x c =
    c\<lparr>c_private := (c_private c)\<lparr>t_sampcache := (t_sampcache (c_private c))[seg := (t_sampcache (c_private c) ! seg)[grp := x]]\<rparr>\<rparr>"

definition sis3300_sampcache_free :: "nat \<Rightarrow> 'h card00 \<Rightarrow> 'h card00" where
  "sis3300_sampcache_free seg c = fold (\<lambda>i. set_sampcache seg i None) [0..<4] c"

definition sis3300_sampcache_get :: "'h sis33_bus \<Rightarrow> nat \<Rightarrow> nat \<Rightarrow> 'h card00 \<Rightarrow> (errno + u32 list) \<times> 'h card00" where
  "sis3300_sampcache_get bus seg channel c =
    (case t_sampcache (c_private c) ! seg ! (channel div 2) of
       Some buf \<Rightarrow> (Inr buf, c)
     | None \<Rightarrow>
         let s = c_segments c ! seg; n = unat (sg_nr_events s * sg_nr_samp_per_ev s) in
         (case alloc00 bus c of
            (False, c1) \<Rightarrow> (Inl ENOMEM, c1)
          | (True, c1) \<Rightarrow>
              (case sis3300_fill_bouncebuf bus seg channel (n * 4) c1 of
                 (Err e, bs, c2) \<Rightarrow> (Inl e, c2)
               | (OK, bs, c2) \<Rightarrow>
                   let buf = sis3300_u32_swap (bus_big bus) bs n
                   in (Inr buf, set_sampcache seg (channel div 2) (Some buf) c2))))"

definition sis3300_pt_cache_free :: "nat \<Rightarrow> 'h card00 \<Rightarrow> 'h card00" where
  "sis3300_pt_cache_free seg c = upd_segment seg (\<lambda>s. s\<lparr>sg_prevticks := NullPtr\<rparr>) c"

definition sis3300_fill_pt_cache :: "'h sis33_bus \<Rightarrow> nat \<Rightarrow> nat \<Rightarrow> 'h card00 \<Rightarrow> (errno + u64 list) \<times> 'h card00" where
  "sis3300_fill_pt_cache bus seg n c =
    (case sis33_dma_read32be_blt bus (t_vme_base (c_private c) + SIS3300_EV_TSTAMP seg) n (hw00 c) of
       (Inl e, h) \<Rightarrow> (Inl e, set_hw00 h c)
     | (Inr buf, h) \<Rightarrow> (Inr (map (\<lambda>x. ucast (x AND 0xffffff)) buf), set_hw00 h c))"

definition sis3300_pt_cache_get :: "'h sis33_bus \<Rightarrow> nat \<Rightarrow> 'h card00 \<Rightarrow> (errno + u64 list) \<times> 'h card00" where
  "sis3300_pt_cache_get bus seg c =
    (case sg_prevticks (c_segments c ! seg) of
       Ptr pt \<Rightarrow> (Inr pt, c)
     | _ \<Rightarrow>
         (case alloc00 bus c of
            (False, c1) \<Rightarrow> (Inl ENOMEM, c1)
          | (True, c1) \<Rightarrow>
              (case sis3300_fill_pt_cache bus seg (unat (sg_nr_events (c_segments c ! seg))) c1 of
                 (Inl e, c2) \<Rightarrow> (Inl e, c2)
               | (Inr pt, c2) \<Rightarrow> (Inr pt, upd_segment seg (\<lambda>s. s\<lparr>sg_prevticks := Ptr pt\<rparr>) c2))))"

section \<open>Fetching events\<close>

text \<open>
  A sample of one channel in the word of its group, and the loop that copies the samples of an event out; a
  word outside the buffer is the memory behind it.
\<close>

definition adc_data :: "nat \<Rightarrow> u32 \<Rightarrow> u32" where
  "adc_data channel w = (if odd channel then w AND 0xfff else drop_bit 16 (w AND 0xfff0000))"

definition raw_word :: "'h sis33_bus \<Rightarrow> u32 list \<Rightarrow> nat \<Rightarrow> u32" where
  "raw_word bus buf i = (if i < length buf then buf ! i else beyond bus i)"

primrec put_samples ::
    "'h sis33_bus \<Rightarrow> nat \<Rightarrow> u32 list \<Rightarrow> nat \<Rightarrow> nat list \<Rightarrow> sis33_acq \<Rightarrow> rc \<times> sis33_acq" where
  "put_samples bus channel buf start [] acq = (OK, acq)"
| "put_samples bus channel buf start (i # is) acq =
    (if user_ok bus (aq_addr acq + of_nat (2 * i)) then
       put_samples bus channel buf start is
         (acq\<lparr>aq_data := overwrite (aq_data acq) (2 * i)
            (word_bytes (bus_big bus) 2 (adc_data channel (raw_word bus buf (start + i))))\<rparr>)
     else (Err EFAULT, acq))"

definition sis3300_read_event ::
    "'h sis33_bus \<Rightarrow> sis33_acq \<Rightarrow> nat \<Rightarrow> u32 list \<Rightarrow> nat \<Rightarrow> u64 \<Rightarrow> sis33_event \<Rightarrow> rc \<times> sis33_acq" where
  "sis3300_read_event bus acq channel buf start ticks event =
    put_samples bus channel buf start [0..<unat (ev_nr_samples event)]
      (acq\<lparr>aq_nr_samples := ev_nr_samples event, aq_first_samp := ev_first_samp event, aq_prevticks := ticks, aq_be := False\<rparr>)"

primrec fetch_loop00 ::
    "'h sis33_bus \<Rightarrow> nat \<Rightarrow> nat \<Rightarrow> u32 list \<Rightarrow> u64 list \<Rightarrow> sis33_event list \<Rightarrow> nat list \<Rightarrow> sis33_acq list \<Rightarrow> rc \<times> sis33_acq list" where
  "fetch_loop00 bus channel n buf pt events [] acqs = (OK, acqs)"
| "fetch_loop00 bus channel n buf pt events (i # is) acqs =
    (case sis3300_read_event bus (acqs ! i) channel buf (i * n) (pt ! i) (events ! i) of
       (Err e, a) \<Rightarrow> (Err e, acqs[i := a])
     | (OK, a) \<Rightarrow> fetch_loop00 bus channel n buf pt events is (acqs[i := a]))"

definition sis3300_fetch ::
    "'h sis33_bus \<Rightarrow> nat \<Rightarrow> nat \<Rightarrow> sis33_acq list \<Rightarrow> nat \<Rightarrow> 'h card00 \<Rightarrow> (errno + nat) \<times> sis33_acq list \<times> 'h card00" where
  "sis3300_fetch bus seg channel acqs nr_events c =
    (case sis3300_evcache_get bus seg c of
       (Inl e, c1) \<Rightarrow> (Inl e, acqs, c1)
     | (Inr events, c1) \<Rightarrow>
         (case sis3300_sampcache_get bus seg channel c1 of
            (Inl e, c2) \<Rightarrow> (Inl e, acqs, c2)
          | (Inr buf, c2) \<Rightarrow>
              (case sis3300_pt_cache_get bus seg c2 of
                 (Inl e, c3) \<Rightarrow> (Inl e, acqs, c3)
               | (Inr pt, c3) \<Rightarrow>
                   (case fetch_loop00 bus channel (unat (sg_nr_samp_per_ev (c_segments c3 ! seg))) buf pt events
                       [0..<nr_events] acqs of
                      (Err e, acqs1) \<Rightarrow> (Inl e, acqs1, c3)
                    | (OK, acqs1) \<Rightarrow> (Inr nr_events, acqs1, c3)))))"

section \<open>Acquisitions\<close>

definition sis3300_trigger :: "'h sis33_bus \<Rightarrow> int \<Rightarrow> 'h card00 \<Rightarrow> rc \<times> 'h card00" where
  "sis3300_trigger bus trigger c =
    (if trigger = SIS33_TRIGGER_START then (OK, sis3300_writew bus SIS3300_START_SAMP 1 c)
     else if trigger = SIS33_TRIGGER_STOP then (OK, sis3300_writew bus SIS3300_STOP_SAMP 1 c)
     else (Err EINVAL, c))"

definition sis3300_acq_start :: "'h sis33_bus \<Rightarrow> 'h card00 \<Rightarrow> 'h card00" where
  "sis3300_acq_start bus c =
    (let seg = c_curr_segment c;
         c1 = sis3300_pt_cache_free seg (sis3300_sampcache_free seg (sis3300_evcache_free seg c));
         c2 = c1\<lparr>c_private := (c_private c1)\<lparr>t_completion := False\<rparr>\<rparr>;
         c3 = sis3300_writew bus SIS3300_ACQ (push_bit seg 1) c2
     in if cf_start_auto (c_cfg c) then sis3300_writew bus SIS3300_START_SAMP 1 c3 else c3)"

definition sis3300_finish_acquisition :: "'h sis33_bus \<Rightarrow> 'h card00 \<Rightarrow> 'h card00" where
  "sis3300_finish_acquisition bus c =
    (case timeofday bus (hw00 c) of
       (now, h) \<Rightarrow>
         let seg = c_curr_segment c;
             c1 = upd_segment seg (\<lambda>s. s\<lparr>sg_endtime := now\<rparr>) (set_hw00 h c);
             c2 = sis3300_writew bus SIS3300_ACQ 0x30000 c1;
             c3 = upd_segment seg (\<lambda>s. s\<lparr>sg_acquiring := False\<rparr>) c2
         in c3\<lparr>c_private := (c_private c3)\<lparr>t_completion := True\<rparr>\<rparr>)"

definition sis3300_acq_wait :: "bool \<Rightarrow> wait_end \<Rightarrow> 'h card00 \<Rightarrow> rc option" where
  "sis3300_acq_wait timeout e c =
    (case e of
       Completed \<Rightarrow> if t_completion (c_private c) then Some OK else None
     | Signalled \<Rightarrow> Some (Err EINTR)
     | Expired \<Rightarrow> if timeout then Some (Err ETIME) else None)"

text \<open>
  The number of events is unsigned, so the test for a negative one, which the source has, never holds.
\<close>

definition sis3300_acq_cancel :: "'h sis33_bus \<Rightarrow> 'h card00 \<Rightarrow> rc \<times> 'h card00" where
  "sis3300_acq_cancel bus c =
    (let seg = c_curr_segment c in
     if \<not> sg_acquiring (c_segments c ! seg) then (OK, c)
     else
       let (curr_event, c1) = sis3300_readw bus (EV_COUNTER seg) c;
           (acq, c2) = sis3300_readw bus SIS3300_ACQ c1;
           c3 = sis3300_finish_acquisition bus c2
       in (OK, upd_segment seg
            (\<lambda>s. s\<lparr>sg_nr_events := (if acq AND ACQ_BUSY \<noteq> 0 then curr_event - 1 else curr_event)\<rparr>) c3))"

definition sis3300_config_init :: "'h card00 \<Rightarrow> 'h card00" where
  "sis3300_config_init c =
    c\<lparr>c_cfg := \<lparr>cf_start_delay = 0, cf_stop_delay = 0, cf_start_auto = True, cf_stop_auto = True, cf_trigger_ext_en = True,
        cf_clksrc = SIS33_CLKSRC_INTERNAL, cf_clkfreq = 100000000, cf_ev_tstamp_divider = 1\<rparr>,
      c_channels := map (\<lambda>ch. ch\<lparr>ch_show_attrs := False\<rparr>) (take (c_n_channels c) (c_channels c))
        @ drop (c_n_channels c) (c_channels c)\<rparr>"

definition sis3300_ops :: "'h sis33_bus \<Rightarrow> 'h sis3300 sis33_card_ops" where
  "sis3300_ops bus =
    \<lparr>op_conf_acq = Some (sis3300_conf_acq bus), op_conf_ev = Some (sis3300_conf_ev bus), op_conf_channels = None,
     op_fetch = Some (sis3300_fetch bus), op_trigger = Some (sis3300_trigger bus),
     op_acq_start = Some (sis3300_acq_start bus), op_acq_wait = Some sis3300_acq_wait,
     op_acq_cancel = Some (sis3300_acq_cancel bus), op_config_init = Some sis3300_config_init\<rparr>"

section \<open>Interrupts\<close>

definition serve_event :: "'h sis33_bus \<Rightarrow> u32 \<Rightarrow> 'h card00 \<Rightarrow> 'h card00" where
  "serve_event bus curr_event c =
    (let seg = c_curr_segment c;
         c1 = sis3300_writew bus SIS3300_INTCTL 0x110000 c;
         (acq, c2) = sis3300_readw bus SIS3300_ACQ c1;
         req = t_req_events (c_private c2);
         event_threshold = (if acq AND ACQ_BUSY \<noteq> 0 then req + 1 else req);
         c3 = (if sint event_threshold \<le> sint curr_event \<and> sg_acquiring (c_segments c2 ! seg)
               then sis3300_finish_acquisition bus (upd_segment seg (\<lambda>s. s\<lparr>sg_nr_events := req\<rparr>) c2) else c2)
     in sis3300_writew bus SIS3300_INTCTL 0x1 c3)"

definition serve_last_event :: "'h sis33_bus \<Rightarrow> u32 \<Rightarrow> 'h card00 \<Rightarrow> 'h card00" where
  "serve_last_event bus curr_event c =
    (let seg = c_curr_segment c;
         c1 = sis3300_writew bus SIS3300_INTCTL 0x220000 c;
         c2 = (if sg_acquiring (c_segments c1 ! seg)
               then sis3300_finish_acquisition bus (upd_segment seg (\<lambda>s. s\<lparr>sg_nr_events := curr_event\<rparr>) c1) else c1)
     in sis3300_writew bus SIS3300_INTCTL 0x2 c2)"

definition sis3300_do_irq :: "'h sis33_bus \<Rightarrow> u32 \<Rightarrow> 'h card00 \<Rightarrow> 'h card00" where
  "sis3300_do_irq bus status c =
    (let (curr_event, c1) = sis3300_readw bus (EV_COUNTER (c_curr_segment c)) c;
         c2 = (if status AND INTCTL_ST_EV \<noteq> 0 then serve_event bus curr_event c1 else c1)
     in if status AND INTCTL_ST_LEV \<noteq> 0 then serve_last_event bus curr_event c2 else c2)"

partial_function (option) sis3300_irq_work :: "'h sis33_bus \<Rightarrow> 'h card00 \<Rightarrow> 'h card00 option" where
  "sis3300_irq_work bus c =
    (case sis3300_readw bus SIS3300_INTCTL c of
       (v, c1) \<Rightarrow> if v AND INTCTL_ST_MASK = 0 then Some c1
         else sis3300_irq_work bus (sis3300_do_irq bus (v AND INTCTL_ST_MASK) c1))"


section \<open>Start-up, probe and removal\<close>

definition sis3300_reset :: "'h sis33_bus \<Rightarrow> 'h card00 \<Rightarrow> 'h card00" where
  "sis3300_reset bus c = sis3300_writew bus SIS3300_RESET 1 c"

definition sis3300_request_irq :: "'h sis33_bus \<Rightarrow> u32 \<Rightarrow> u32 \<Rightarrow> 'h card00 \<Rightarrow> rc \<times> 'h card00" where
  "sis3300_request_irq bus vector level c =
    (case irq_request bus (vector AND 0xff) (hw00 c) of
       (Err e, h) \<Rightarrow> (Err e, set_hw00 h c)
     | (OK, h) \<Rightarrow>
         let reg = 0x800 OR 0x1000 OR push_bit 8 (level AND 0x7) OR (vector AND 0xff);
             c1 = sis3300_writew bus SIS3300_INTCONF reg (set_hw00 h c);
             c2 = sis3300_writew bus SIS3300_INTCTL 0x1 c1
         in (OK, sis3300_writew bus SIS3300_INTCTL 0x2 c2))"

definition sis3300_device_init :: "'h sis33_bus \<Rightarrow> u32 \<Rightarrow> u32 \<Rightarrow> u32 \<Rightarrow> 'h card00 \<Rightarrow> rc \<times> 'h card00" where
  "sis3300_device_init bus base vector level c =
    (let c0 = c\<lparr>c_private := (c_private c)\<lparr>t_vme_base := base\<rparr>\<rparr>;
         (reg, c1) = sis3300_readw bus SIS3300_FW c0;
         c2 = c1\<lparr>c_id := drop_bit 16 reg, c_major_rev := drop_bit 8 (reg AND 0xff00), c_minor_rev := reg AND 0xff\<rparr>
     in if c_id c2 \<noteq> 0x3300 then (Err ENODEV, c2)
        else
          let c3 = sis3300_reset bus c2;
              c4 = c3\<lparr>c_private := (c_private c3)\<lparr>t_completion := False\<rparr>\<rparr>
          in sis3300_request_irq bus vector level c4)"

definition sis3300_free_irq :: "'h sis33_bus \<Rightarrow> u32 \<Rightarrow> 'h card00 \<Rightarrow> 'h card00" where
  "sis3300_free_irq bus vector c =
    (let (reg, c1) = sis3300_readw bus SIS3300_INTCONF c;
         c2 = sis3300_writew bus SIS3300_INTCONF (reg AND NOT 0x800) c1;
         c3 = sis3300_writew bus SIS3300_INTCTL 0 c2
     in set_hw00 (snd (irq_free bus vector (hw00 c3))) c3)"

definition sis3300_device_exit :: "'h sis33_bus \<Rightarrow> u32 \<Rightarrow> 'h card00 \<Rightarrow> 'h card00" where
  "sis3300_device_exit bus vector c = sis3300_free_irq bus vector c"

definition sis3300_match :: "nat \<Rightarrow> nat \<Rightarrow> nat \<Rightarrow> nat \<Rightarrow> bool" where
  "sis3300_match base_num vector_num level_num ndev \<longleftrightarrow> ndev < base_num \<and> ndev < vector_num \<and> ndev < level_num"

definition fill_card00 :: "'h card00 \<Rightarrow> 'h card00" where
  "fill_card00 c =
    c\<lparr>c_ev_tstamp_support := True, c_ev_tstamp_max_ticks_log2 := 24, c_ev_tstamp_divider_max := 0xffff, c_n_bits := 12,
      c_n_channels := 8, c_channels := replicate 8 \<lparr>ch_show_attrs = False, ch_offset = 0\<rparr>, c_max_nr_events := 1024,
      c_max_delay := 0xffff,
      c_ev_lengths := (if 0x0308 \<le> sis3300_rev c then sis3300_08_ev_lengths else sis3300_ev_lengths),
      c_freqs := sis3300_freqs, c_n_segments_max := 2, c_n_segments_min := 2, c_n_segments := 2,
      c_segments := replicate 2 zero_segment, c_curr_segment := 0\<rparr>"

definition sis3300_probe ::
    "'h sis33_bus \<Rightarrow> int \<Rightarrow> u32 \<Rightarrow> u32 \<Rightarrow> u32 \<Rightarrow> rc \<Rightarrow> rc \<Rightarrow> u32 \<Rightarrow> 'h \<Rightarrow> ((errno + 'h card00) \<times> u32 \<times> 'h) option" where
  "sis3300_probe bus idx base vector level cdev sysfs locks h0 =
    (let (mem0, h1) = kalloc bus h0 in
     case sis33_card_create idx mem0 locks of
       (Inl e, locks1) \<Rightarrow> Some (Inl e, locks1, h1)
     | (Inr number, locks1) \<Rightarrow>
         let (mem1, h2) = kalloc bus h1; (mem2, h3) = kalloc bus h2; (mem3, h4) = kalloc bus h3
         in if \<not> mem1 then Some (Inl ENOMEM, sis33_card_free number locks1, h2)
            else if \<not> mem2 then Some (Inl ENOMEM, sis33_card_free number locks1, h3)
            else if \<not> mem3 then Some (Inl ENOMEM, sis33_card_free number locks1, h4)
            else
              let c0 = zero_card number \<lparr>t_vme_base = 0, t_req_events = 0, t_completion = False,
                    t_sampcache = replicate 2 (replicate 4 None), t_hw = h4\<rparr>
              in (case sis3300_device_init bus base vector level c0 of
                    (Err e, c1) \<Rightarrow> Some (Inl e, sis33_card_free number locks1, hw00 c1)
                  | (OK, c1) \<Rightarrow>
                      (case sis33_card_register (sis3300_ops bus) cdev sysfs (fill_card00 c1) of
                         None \<Rightarrow> None
                       | Some (OK, c2) \<Rightarrow> Some (Inr c2, locks1, hw00 c2)
                       | Some (Err e, c2) \<Rightarrow>
                           Some (Inl e, sis33_card_free number locks1, hw00 (sis3300_device_exit bus vector c2)))))"

definition sis3300_remove :: "'h sis33_bus \<Rightarrow> u32 \<Rightarrow> u32 \<Rightarrow> 'h card00 \<Rightarrow> u32 \<times> 'h" where
  "sis3300_remove bus vector locks c = (sis33_card_free (c_number c) locks, hw00 (sis3300_device_exit bus vector c))"

section \<open>The contract of the core, on the SIS3300\<close>

lemma set_hw00_calms [simp]: "calms c (set_hw00 h c)"
  by (rule calms_same) (simp_all add: set_hw00_def)

lemma writew00_calms [simp]: "calms c (sis3300_writew bus r v c)"
  by (simp add: sis3300_writew_def)

lemma writew00_calms_trans: "calms c c1 \<Longrightarrow> calms c (sis3300_writew bus r v c1)"
  using calms_trans writew00_calms by blast

lemma readw00_calms: "sis3300_readw bus r c = (v, c1) \<Longrightarrow> calms c c1"
  by (auto simp: sis3300_readw_def split: prod.splits)

lemma alloc00_calms: "alloc00 bus c = (b, c1) \<Longrightarrow> calms c c1"
  by (auto simp: alloc00_def split: prod.splits)

lemma set_sampcache_calms [simp]: "calms c (set_sampcache seg i x c)"
  by (simp add: set_sampcache_def)

lemma sampcache_free_calms: "calms c (sis3300_sampcache_free seg c)"
  unfolding sis3300_sampcache_free_def by (rule calms_fold) simp

lemma events_dir00_calms: "calms c (snd (sis3300_read_events_dir bus seg n c))"
  by (auto simp: sis3300_read_events_dir_def split: prod.splits sum.splits)

lemma evcache00_calms:
  assumes "sis3300_evcache_get bus seg c = (r, c9)"
  shows "calms c c9"
proof -
  obtain b1 c1 where 1: "alloc00 bus c = (b1, c1)" by fastforce
  obtain b2 c2 where 2: "alloc00 bus c1 = (b2, c2)" by fastforce
  obtain r3 c3 where 3: "sis3300_read_events_dir bus seg (unat (sg_nr_events (c_segments c ! seg))) c2 = (r3, c3)" by fastforce
  have s1: "calms c c1" by (rule alloc00_calms [OF 1])
  then have s2: "calms c c2" using alloc00_calms [OF 2] calms_trans by blast
  then have s3: "calms c c3"
    using events_dir00_calms [of c2 bus seg "unat (sg_nr_events (c_segments c ! seg))"] 3 calms_trans by fastforce
  show ?thesis
    using assms s1 s2 s3 unfolding sis3300_evcache_get_def 1 prod.case 2 3 sis3300_evcache_free_def
    by (auto intro: segment_calms split: sum.splits bool.splits err_ptr.splits)
qed

lemma bouncebuf00_calms: "sis3300_fill_bouncebuf bus seg ch n c = (r, bs, c1) \<Longrightarrow> calms c c1"
  by (auto simp: sis3300_fill_bouncebuf_def split: prod.splits)

lemma sampcache00_calms:
  assumes "sis3300_sampcache_get bus seg ch c = (r, c9)"
  shows "calms c c9"
proof -
  obtain b1 c1 where 1: "alloc00 bus c = (b1, c1)" by fastforce
  define n where "n = unat (sg_nr_events (c_segments c ! seg) * sg_nr_samp_per_ev (c_segments c ! seg))"
  obtain r2 bs c2 where 2: "sis3300_fill_bouncebuf bus seg ch (n * 4) c1 = (r2, bs, c2)" by (metis prod_cases3)
  have s1: "calms c c1" by (rule alloc00_calms [OF 1])
  then have s2: "calms c c2" using bouncebuf00_calms [OF 2] calms_trans by blast
  show ?thesis
    using assms s1 s2 calms_trans [OF s2 set_sampcache_calms]
    unfolding sis3300_sampcache_get_def Let_def n_def [symmetric] 1 prod.case 2
    by (auto split: rc.splits bool.splits option.splits)
qed

lemma fill_pt00_calms: "sis3300_fill_pt_cache bus seg n c = (r, c1) \<Longrightarrow> calms c c1"
  by (auto simp: sis3300_fill_pt_cache_def split: prod.splits sum.splits)

lemma pt_cache00_calms:
  assumes "sis3300_pt_cache_get bus seg c = (r, c9)"
  shows "calms c c9"
proof -
  obtain b1 c1 where 1: "alloc00 bus c = (b1, c1)" by fastforce
  obtain r2 c2 where 2: "sis3300_fill_pt_cache bus seg (unat (sg_nr_events (c_segments c ! seg))) c1 = (r2, c2)" by fastforce
  have s1: "calms c c1" by (rule alloc00_calms [OF 1])
  then have s2: "calms c c2" using fill_pt00_calms [OF 2] calms_trans by blast
  show ?thesis
    using assms s1 s2 unfolding sis3300_pt_cache_get_def 1 prod.case 2
    by (auto intro: segment_calms split: sum.splits bool.splits err_ptr.splits)
qed

lemma fetch00_calms: "calms c (snd (snd (sis3300_fetch bus seg ch acqs n c)))"
proof -
  obtain r1 c1 where 1: "sis3300_evcache_get bus seg c = (r1, c1)" by fastforce
  obtain r2 c2 where 2: "sis3300_sampcache_get bus seg ch c1 = (r2, c2)" by fastforce
  obtain r3 c3 where 3: "sis3300_pt_cache_get bus seg c2 = (r3, c3)" by fastforce
  have s1: "calms c c1" by (rule evcache00_calms [OF 1])
  then have s2: "calms c c2" using sampcache00_calms [OF 2] calms_trans by blast
  then have s3: "calms c c3" using pt_cache00_calms [OF 3] calms_trans by blast
  show ?thesis
    using s1 s2 s3 unfolding sis3300_fetch_def 1 prod.case 2 3
    by (auto split: sum.splits prod.splits rc.splits)
qed

lemma conf_acq00_calms: "calms c (snd (sis3300_conf_acq bus cfg c))"
  unfolding sis3300_conf_acq_def Let_def snd_conv by (intro writew00_calms_trans) simp

lemma conf_ev00_calms: "calms c (snd (sis3300_conf_ev bus d c))"
  unfolding sis3300_conf_ev_def Let_def snd_conv
  by (rule writew00_calms_trans, rule calms_trans [OF writew00_calms private_calms(1)])

lemma acq_start00_calms: "calms c (sis3300_acq_start bus c)"
proof -
  have "calms c (sis3300_pt_cache_free s (sis3300_sampcache_free s (sis3300_evcache_free s c)))" for s
    unfolding sis3300_pt_cache_free_def sis3300_evcache_free_def
    by (intro segment_calms calms_trans [OF _ sampcache_free_calms] calms_refl)
  then show ?thesis unfolding sis3300_acq_start_def Let_def
    by (auto intro!: writew00_calms_trans calms_trans [OF _ private_calms(1)])
qed

lemma finish00_calms: "calms c (sis3300_finish_acquisition bus c)"
proof -
  obtain now h where t: "timeofday bus (hw00 c) = (now, h)" by fastforce
  show ?thesis unfolding sis3300_finish_acquisition_def t prod.case Let_def
    by (intro calms_trans [OF _ private_calms(1)] segment_calms writew00_calms_trans set_hw00_calms)
qed

lemma acq_cancel00_calms: "calms c (snd (sis3300_acq_cancel bus c))"
proof -
  obtain v c1 where 1: "sis3300_readw bus (EV_COUNTER (c_curr_segment c)) c = (v, c1)" by fastforce
  obtain w c2 where 2: "sis3300_readw bus SIS3300_ACQ c1 = (w, c2)" by fastforce
  have "calms c (sis3300_finish_acquisition bus c2)"
    using readw00_calms [OF 1] readw00_calms [OF 2] finish00_calms calms_trans by blast
  then show ?thesis unfolding sis3300_acq_cancel_def Let_def 1 2 prod.case by (auto intro: segment_calms)
qed

lemma serve_event00_calms: "calms c (serve_event bus v c)"
proof -
  define c1 where "c1 = sis3300_writew bus SIS3300_INTCTL 0x110000 c"
  obtain w c2 where 2: "sis3300_readw bus SIS3300_ACQ c1 = (w, c2)" by fastforce
  have s2: "calms c c2" using readw00_calms [OF 2] calms_trans writew00_calms unfolding c1_def by blast
  have "calms c (sis3300_finish_acquisition bus (upd_segment i (\<lambda>s. s\<lparr>sg_nr_events := n\<rparr>) c2))" for i n
    using calms_trans [OF segment_calms(2) [OF s2] finish00_calms] .
  then show ?thesis unfolding serve_event_def Let_def c1_def [symmetric] 2 prod.case using s2 by (auto intro!: writew00_calms_trans)
qed

lemma serve_last00_calms: "calms c (serve_last_event bus v c)"
proof -
  have "calms c (sis3300_finish_acquisition bus (upd_segment i (\<lambda>s. s\<lparr>sg_nr_events := n\<rparr>) (sis3300_writew bus r w c)))" for i n r w
    using calms_trans [OF segment_calms(2) [OF writew00_calms] finish00_calms] .
  then show ?thesis unfolding serve_last_event_def Let_def by (auto intro!: writew00_calms_trans)
qed

lemma do_irq00_calms: "calms c (sis3300_do_irq bus status c)"
proof -
  obtain v c1 where 1: "sis3300_readw bus (EV_COUNTER (c_curr_segment c)) c = (v, c1)" by fastforce
  show ?thesis unfolding sis3300_do_irq_def Let_def 1 prod.case
    using readw00_calms [OF 1] calms_trans [OF readw00_calms [OF 1] serve_event00_calms]
      calms_trans [OF readw00_calms [OF 1] serve_last00_calms]
      calms_trans [OF calms_trans [OF readw00_calms [OF 1] serve_event00_calms] serve_last00_calms] by auto
qed

lemma irq_work00_calms: "sis3300_irq_work bus c = Some c1 \<Longrightarrow> calms c c1"
proof (rule sis3300_irq_work.raw_induct [of "\<lambda>bus c c1. calms c c1"])
  fix rec :: "'a sis33_bus \<Rightarrow> 'a card00 \<Rightarrow> 'a card00 option" and bus :: "'a sis33_bus" and c :: "'a card00" and c2
  assume IH: "\<And>bus c c1. rec bus c = Some c1 \<Longrightarrow> calms c c1"
    and body: "(case sis3300_readw bus SIS3300_INTCTL c of
       (v, c1) \<Rightarrow> if v AND INTCTL_ST_MASK = 0 then Some c1
         else rec bus (sis3300_do_irq bus (v AND INTCTL_ST_MASK) c1)) = Some c2"
  obtain v c1 where 1: "sis3300_readw bus SIS3300_INTCTL c = (v, c1)" by fastforce
  show "calms c c2"
    using body readw00_calms [OF 1] calms_trans [OF calms_trans [OF readw00_calms [OF 1] do_irq00_calms] IH]
    by (auto simp: 1 split: if_splits)
qed

interpretation sis00: sis33_driver "sis3300_ops bus" "sis3300_irq_work bus" for bus
  by unfold_locales
    (auto simp: sis3300_ops_def conf_acq00_calms conf_ev00_calms fetch00_calms sis3300_trigger_def
      acq_start00_calms acq_cancel00_calms irq_work00_calms)

end
