(* ===== verification/Sis33_Acq.thy ===== *)
theory Sis33_Acq
  imports Sis33_Core
begin

text \<open>
  The user library of the digitizers (\<open>src/sis33/lib\<close>): the fetch of events with the
  normalisation of what the driver returns (\<open>sis33acq.c\<close>, \<open>__fetch\<close> in \<open>sis33.c\<close>), and the rounding of clock frequencies
  and event lengths to available ones (\<open>sis33dev.c\<close>). \<open>big\<close> is the byte order of the host, \<open>mem i\<close> whether allocation \<open>i\<close>
  succeeds.
\<close>

section \<open>Byte order\<close>

datatype endian = LITTLE_ENDIAN | BIG_ENDIAN

definition get_endian :: "bool \<Rightarrow> endian" where
  "get_endian big = (if word_bytes big 4 1 ! 0 = 1 then LITTLE_ENDIAN else BIG_ENDIAN)"

definition be_to_cpu :: "bool \<Rightarrow> u32 \<Rightarrow> u32" where
  "be_to_cpu big hwval = (if get_endian big = LITTLE_ENDIAN then bswap32 hwval else hwval)"

definition acq_swap :: "bool \<Rightarrow> (nat \<Rightarrow> u8) \<Rightarrow> nat \<Rightarrow> nat \<Rightarrow> u8" where
  "acq_swap big data n =
    fold (\<lambda>i data. overwrite data (4 * i) (word_bytes big 4 (be_to_cpu big (bytes_word big (slice data (4 * i) 4)))))
      [0..<n div 4] data"

definition swap_acq :: "bool \<Rightarrow> sis33_acq \<Rightarrow> sis33_acq" where
  "swap_acq big a =
    (if aq_be a \<and> get_endian big = LITTLE_ENDIAN
     then a\<lparr>aq_data := acq_swap big (aq_data a) (unat (aq_size a)), aq_be := False\<rparr> else a)"

definition sis33acq_list_swap :: "bool \<Rightarrow> sis33_acq list \<Rightarrow> nat \<Rightarrow> sis33_acq list" where
  "sis33acq_list_swap big acqs elems = fold (\<lambda>i acqs. acqs[i := swap_acq big (acqs ! i)]) [0..<elems] acqs"

section \<open>Order of the samples\<close>

text \<open>
  The copies need the first sample inside the buffer: None stands for a copy outside it, and \<open>Some None\<close> for
  the error return.
\<close>

definition sis33acq_reorder :: "bool \<Rightarrow> sis33_acq \<Rightarrow> sis33_acq option option" where
  "sis33acq_reorder mem a =
    (let size = unat (aq_size a); start = unat (aq_first_samp a) * 2; len1 = size - start in
     if \<not> mem then Some None
     else if size < start then None
     else
       let buf = slice (aq_data a) start len1 @ slice (aq_data a) 0 (size - len1)
       in Some (Some (a\<lparr>aq_data := overwrite (aq_data a) 0 buf, aq_first_samp := 0\<rparr>)))"

text \<open>The loop, with the array as it is left and whether all went well.\<close>

primrec sis33acq_list_reorder ::
    "(nat \<Rightarrow> bool) \<Rightarrow> nat list \<Rightarrow> sis33_acq list \<Rightarrow> (bool \<times> sis33_acq list) option" where
  "sis33acq_list_reorder mem [] acqs = Some (True, acqs)"
| "sis33acq_list_reorder mem (i # is) acqs =
    (if aq_first_samp (acqs ! i) = 0 then sis33acq_list_reorder mem is acqs
     else (case sis33acq_reorder (mem i) (acqs ! i) of
         None \<Rightarrow> None
       | Some None \<Rightarrow> Some (False, acqs)
       | Some (Some a) \<Rightarrow> sis33acq_list_reorder mem is (acqs[i := a])))"

definition sis33acq_list_normalize ::
    "bool \<Rightarrow> (nat \<Rightarrow> bool) \<Rightarrow> sis33_acq list \<Rightarrow> nat \<Rightarrow> (bool \<times> sis33_acq list) option" where
  "sis33acq_list_normalize big mem acqs elems =
    sis33acq_list_reorder mem [0..<elems] (sis33acq_list_swap big acqs elems)"

text \<open>Buffers for events, at the addresses \<open>calloc\<close> gives.\<close>

definition sis33acq_zalloc :: "bool \<Rightarrow> (nat \<Rightarrow> u32 option) \<Rightarrow> nat \<Rightarrow> u32 \<Rightarrow> sis33_acq list option" where
  "sis33acq_zalloc mem addr nr_events ev_length =
    (if \<not> mem \<or> None \<in> set (map addr [0..<nr_events]) then None
     else Some (map (\<lambda>i. \<lparr>aq_addr = the (addr i), aq_data = (\<lambda>_. 0), aq_size = ev_length * 2, aq_nr_samples = 0,
         aq_prevticks = 0, aq_first_samp = 0, aq_be = False\<rparr>) [0..<nr_events]))"

section \<open>Fetching\<close>

text \<open>
  \<open>None\<close> where the call waits or leaves the buffers; the result is None for -1, or the number of events, the end of the
  acquisition and the normalised buffers.
\<close>

definition lib_fetch ::
    "bool \<Rightarrow> (nat \<Rightarrow> bool) \<Rightarrow> 'p sis33_card_ops \<Rightarrow> bool \<Rightarrow> bool \<Rightarrow> u32 \<Rightarrow> u32 \<Rightarrow> sis33_acq list option \<Rightarrow> u32 \<Rightarrow> u32 \<Rightarrow>
     'p sis33_card \<Rightarrow> ((nat \<times> nat \<times> sis33_acq list) option \<times> 'p sis33_card) option" where
  "lib_fetch big mem ops out_ok kmem segment channel acqs n_acqs flags c =
    (if acqs = None \<or> n_acqs = 0 then Some (None, c)
     else
       let l = \<lparr>al_segment = segment, al_channel = channel, al_n_acqs = n_acqs, al_flags = flags\<rparr>
       in (case sis33_fetch_ioctl ops out_ok (Some l) kmem acqs c of
             None \<Rightarrow> None
           | Some (Inl e, c1) \<Rightarrow> Some (None, c1)
           | Some (Inr (acq_events, endtime, acqs1), c1) \<Rightarrow>
               (case sis33acq_list_normalize big mem acqs1 acq_events of
                  None \<Rightarrow> None
                | Some (False, acqs2) \<Rightarrow> Some (None, c1)
                | Some (True, acqs2) \<Rightarrow> Some (Some (acq_events, endtime, acqs2), c1))))"

definition sis33_fetch ::
    "bool \<Rightarrow> (nat \<Rightarrow> bool) \<Rightarrow> 'p sis33_card_ops \<Rightarrow> bool \<Rightarrow> bool \<Rightarrow> u32 \<Rightarrow> u32 \<Rightarrow> sis33_acq list option \<Rightarrow> u32 \<Rightarrow>
     'p sis33_card \<Rightarrow> ((nat \<times> nat \<times> sis33_acq list) option \<times> 'p sis33_card) option" where
  "sis33_fetch big mem ops out_ok kmem segment channel acqs n_acqs c =
    lib_fetch big mem ops out_ok kmem segment channel acqs n_acqs 1 c"

section \<open>Rounding\<close>

datatype sis33_round = SIS33_ROUND_NEAREST | SIS33_ROUND_DOWN | SIS33_ROUND_UP

definition round_ok :: "u32 \<Rightarrow> u32 \<Rightarrow> sis33_round \<Rightarrow> bool" where
  "round_ok candidate value r =
    (case r of SIS33_ROUND_UP \<Rightarrow> value \<le> candidate | SIS33_ROUND_DOWN \<Rightarrow> candidate \<le> value | SIS33_ROUND_NEAREST \<Rightarrow> True)"

text \<open>The difference is taken in 32 bits, and its absolute value as that of a signed number.\<close>

definition abs_diff :: "u32 \<Rightarrow> u32 \<Rightarrow> u32" where
  "abs_diff a value = word_of_int \<bar>sint (a - value)\<bar>"

text \<open>The loop of \<open>__approx\<close>: \<open>best\<close> is the element the result index names.\<close>

primrec approx_loop :: "u32 \<Rightarrow> sis33_round \<Rightarrow> u32 list \<Rightarrow> u32 \<Rightarrow> u32 \<Rightarrow> u32" where
  "approx_loop value r [] mindiff best = best"
| "approx_loop value r (x # xs) mindiff best =
    (let diff = abs_diff x value in
     if diff < mindiff \<and> round_ok x value r
     then (if diff = 0 then x else approx_loop value r xs diff x)
     else approx_loop value r xs mindiff best)"

definition approx :: "u32 list \<Rightarrow> u32 \<Rightarrow> sis33_round \<Rightarrow> u32" where
  "approx xs value r = approx_loop value r xs (NOT 0) (xs ! 0)"

definition sis33dev_round_uint :: "u32 list \<Rightarrow> u32 \<Rightarrow> sis33_round \<Rightarrow> u32" where
  "sis33dev_round_uint xs value r =
    (if xs ! 0 \<le> value then xs ! 0
     else if value \<le> xs ! (length xs - 1) then xs ! (length xs - 1)
     else approx xs value r)"

end
