(* ===== verification/Sis33_Lib_Props.thy ===== *)
theory Sis33_Lib_Props
  imports Sis33_Acq
begin

text \<open>
  The library of the digitizers: what normalisation makes of the bytes the driver fetched, and
  what rounding returns.
\<close>

section \<open>Bytes and words\<close>

lemma get_endian_simp [simp]: "get_endian big = (if big then BIG_ENDIAN else LITTLE_ENDIAN)"
  by (cases big) (simp_all add: get_endian_def word_bytes_def upt_rec)

lemma word_bytes_of_bytes: "word_bytes False 4 (bytes_word False [a, b, c, d]) = [a, b, c, d]"
proof -
  have "ucast (drop_bit (8 * j) (bytes_word False [a, b, c, d])) = [a, b, c, d] ! j" if "j < 4" for j
  proof (rule bit_word_eqI)
    fix n assume "n < LENGTH(8)"
    then have n: "n < 8" by simp
    have "j = 0 \<or> j = 1 \<or> j = 2 \<or> j = 3" using that by presburger
    then show "bit (ucast (drop_bit (8 * j) (bytes_word False [a, b, c, d])) :: u8) n = bit ([a, b, c, d] ! j) n"
      using n by (elim disjE) (auto simp: bytes_word_def bit_simps dest: bit_imp_le_length)
  qed
  from this [of 0] this [of 1] this [of 2] this [of 3] show ?thesis by (simp add: word_bytes_def upt_rec)
qed

lemma bytes_word_rev: "bytes_word True bs = bytes_word False (rev bs)"
  by (simp add: bytes_word_def)

lemma swapped_bytes: "word_bytes False 4 (bswap32 (bytes_word False [a, b, c, d])) = [d, c, b, a]"
  using be32_bytes_word [of False a b c d] by (simp add: be32_to_cpu_def bytes_word_rev word_bytes_of_bytes)

lemma slice4: "slice f k 4 = [f k, f (k + 1), f (k + 2), f (k + 3)]"
  by (simp add: slice_def upt_rec numeral_eq_Suc)

text \<open>Swapping words reverses the bytes inside each of them.\<close>

lemma swap_word:
  "overwrite f (4 * i) (word_bytes False 4 (bswap32 (bytes_word False (slice f (4 * i) 4))))
    = (\<lambda>j. if 4 * i \<le> j \<and> j < 4 * i + 4 then f (8 * i + 3 - j) else f j)"
proof
  fix j
  have "j < 4 * i \<or> 4 * i + 4 \<le> j \<or> j = 4 * i \<or> j = 4 * i + 1 \<or> j = 4 * i + 2 \<or> j = 4 * i + 3" by presburger
  then show "overwrite f (4 * i) (word_bytes False 4 (bswap32 (bytes_word False (slice f (4 * i) 4)))) j
      = (if 4 * i \<le> j \<and> j < 4 * i + 4 then f (8 * i + 3 - j) else f j)"
    unfolding slice4 swapped_bytes by (elim disjE) (simp_all add: overwrite_def)
qed

lemma swap_fold:
  "fold (\<lambda>i f j. if 4 * i \<le> j \<and> j < 4 * i + 4 then f (8 * i + 3 - j) else f j) [0..<m] f
    = (\<lambda>j. if j < 4 * m then f (4 * (j div 4) + (3 - j mod 4)) else f j)"
proof (induction m)
  case (Suc m)
  show ?case
  proof
    fix j
    let ?g = "fold (\<lambda>i f j. if 4 * i \<le> j \<and> j < 4 * i + 4 then f (8 * i + 3 - j) else f j)"
    have step: "?g [0..<Suc m] f j = (if 4 * m \<le> j \<and> j < 4 * m + 4 then ?g [0..<m] f (8 * m + 3 - j) else ?g [0..<m] f j)"
      by simp
    have at: "8 * m + 3 - j = 4 * (j div 4) + (3 - j mod 4) \<and> \<not> 8 * m + 3 - j < 4 * m" if "4 * m \<le> j" "j < 4 * m + 4"
    proof -
      from that have "j div 4 = m" by simp
      then show ?thesis using that by (simp add: minus_mod_eq_mult_div [symmetric] modulo_nat_def)
    qed
    show "?g [0..<Suc m] f j = (if j < 4 * Suc m then f (4 * (j div 4) + (3 - j mod 4)) else f j)"
    proof (cases "4 * m \<le> j \<and> j < 4 * m + 4")
      case True
      then show ?thesis unfolding step Suc using at by (simp only: if_True if_False simp_thms) simp
    qed (auto simp: step Suc)
  qed
qed simp

lemma acq_swap_bytes:
  "acq_swap False f n = (\<lambda>j. if j < 4 * (n div 4) then f (4 * (j div 4) + (3 - j mod 4)) else f j)"
  by (simp only: acq_swap_def be_to_cpu_def get_endian_simp if_False simp_thms if_True swap_word swap_fold)

section \<open>Normalisation\<close>

text \<open>
  Sample \<open>i\<close> of a buffer as the host reads it, and sample \<open>i\<close> of bytes that are words in the order of the VME bus: the low half
  of a word is the even sample.
\<close>

definition host_sample :: "bool \<Rightarrow> (nat \<Rightarrow> u8) \<Rightarrow> nat \<Rightarrow> u32" where
  "host_sample big f i = bytes_word big (slice f (2 * i) 2)"

definition vme_sample :: "(nat \<Rightarrow> u8) \<Rightarrow> nat \<Rightarrow> u32" where
  "vme_sample f i = (let w = bytes_word True (slice f (4 * (i div 2)) 4) in if even i then take_bit 16 w else drop_bit 16 w)"

lemma slice2: "slice f k 2 = [f k, f (k + 1)]"
  by (simp add: slice_def upt_rec numeral_eq_Suc)

lemma vme_sample_bytes:
  "vme_sample f (2 * k) = bytes_word False [f (4 * k + 3), f (4 * k + 2)]"
  "vme_sample f (2 * k + 1) = bytes_word False [f (4 * k + 1), f (4 * k)]"
  unfolding vme_sample_def Let_def slice4
  by (auto simp: bytes_word_def bit_simps bit_eq_iff dest: bit_imp_le_length)


definition pair_swap :: "nat \<Rightarrow> nat" where
  "pair_swap i = (if even i then i + 1 else i - 1)"

lemma host_sample_bytes: "host_sample big f i = bytes_word big [f (2 * i), f (2 * i + 1)]"
  by (simp add: host_sample_def slice2)

lemma even_odd_nat: "(\<exists>k. i = 2 * k) \<or> (\<exists>k. i = 2 * k + 1)" for i :: nat
  by presburger

lemma swapped_sample: "i < 2 * k \<Longrightarrow> host_sample False (acq_swap False f (4 * k)) i = vme_sample f i"
proof -
  assume i: "i < 2 * k"
  show ?thesis using even_odd_nat [of i]
  proof (elim disjE exE)
    fix j assume j: "i = 2 * j"
    have "(4 * j) div 4 = j" "(4 * j) mod 4 = 0" "(4 * j + 1) div 4 = j" "(4 * j + 1) mod 4 = 1" by simp_all
    then show ?thesis using i unfolding j host_sample_bytes acq_swap_bytes vme_sample_bytes by simp
  next
    fix j assume j: "i = 2 * j + 1"
    have "(4 * j + 2) div 4 = j" "(4 * j + 2) mod 4 = 2" "(4 * j + 3) div 4 = j" "(4 * j + 3) mod 4 = 3" by presburger+
    moreover have "2 * (2 * j + 1) = 4 * j + 2" "2 * (2 * j + 1) + 1 = 4 * j + 3" by simp_all
    moreover have "4 * j + 3 < 4 * (4 * k div 4)" using i unfolding j by simp
    ultimately show ?thesis unfolding j host_sample_bytes acq_swap_bytes vme_sample_bytes by simp
  qed
qed

lemma big_endian_sample: "host_sample True f i = vme_sample f (pair_swap i)"
  using even_odd_nat [of i]
proof (elim disjE exE)
  fix j assume j: "i = 2 * j"
  show ?thesis unfolding j host_sample_bytes using vme_sample_bytes(2) [of f j]
    by (simp add: pair_swap_def bytes_word_rev)
next
  fix j assume j: "i = 2 * j + 1"
  have "2 * (2 * j + 1) = 4 * j + 2" "2 * (2 * j + 1) + 1 = 4 * j + 3" "pair_swap (2 * j + 1) = 2 * j"
    by (simp_all add: pair_swap_def)
  then show ?thesis unfolding j host_sample_bytes bytes_word_rev using vme_sample_bytes(1) [of f j]
    by (simp only: rev.simps append.simps)
qed

text \<open>The two copies rotate the buffer.\<close>

definition reordered :: "sis33_acq \<Rightarrow> sis33_acq" where
  "reordered a =
    (let size = unat (aq_size a); start = unat (aq_first_samp a) * 2
     in if aq_first_samp a = 0 then a
        else a\<lparr>aq_data := overwrite (aq_data a) 0 (slice (aq_data a) start (size - start) @ slice (aq_data a) 0 start),
          aq_first_samp := 0\<rparr>)"

lemma rotated_byte:
  assumes "s \<le> n" and "j < n"
  shows "overwrite f 0 (slice f s (n - s) @ slice f 0 s) j = f ((j + s) mod n)"
proof (cases "j < n - s")
  case True
  then show ?thesis using assms by (simp add: overwrite_def nth_append add.commute)
next
  case False
  then have "n \<le> j + s" using assms by simp
  then have "(j + s) mod n = j - (n - s)" using assms by (simp add: le_mod_geq)
  then show ?thesis using assms False by (simp add: overwrite_def nth_append)
qed

lemma reordered_sample:
  assumes "unat (aq_size a) = 2 * n" and "unat (aq_first_samp a) \<le> n" and "i < n"
  shows "host_sample big (aq_data (reordered a)) i = host_sample big (aq_data a) ((i + unat (aq_first_samp a)) mod n)"
proof (cases "aq_first_samp a = 0")
  case False
  let ?s = "unat (aq_first_samp a)"
  have e: "(2 * i + ?s * 2) mod (2 * n) = 2 * ((i + ?s) mod n)" by (simp add: mult_mod_right mult.commute)
  have "Suc (2 * x) \<noteq> 2 * n" for x by presburger
  then have "(2 * i + ?s * 2 + 1) mod (2 * n) = 2 * ((i + ?s) mod n) + 1" using e by (simp add: mod_Suc)
  then show ?thesis
    using False assms e rotated_byte [of "?s * 2" "2 * n" "2 * i" "aq_data a"] rotated_byte [of "?s * 2" "2 * n" "2 * i + 1" "aq_data a"]
    by (simp add: host_sample_bytes reordered_def Let_def)
qed (use assms in \<open>simp add: reordered_def\<close>)


lemma fold_update_at:
  "n \<le> length xs \<Longrightarrow> fold (\<lambda>i xs. xs[i := g (xs ! i)]) [0..<n] xs = map g (take n xs) @ drop n xs"
proof (induction n)
  case (Suc n)
  then have IH: "fold (\<lambda>i xs. xs[i := g (xs ! i)]) [0..<n] xs = map g (take n xs) @ drop n xs" by simp
  show ?case using Suc.prems
    by (simp add: IH nth_append list_update_append Cons_nth_drop_Suc [symmetric] take_Suc_conv_app_nth)
qed simp

lemma reorder_loop:
  assumes "\<forall>i\<in>set is. mem i \<and> i < length acqs \<and> unat (aq_first_samp (acqs ! i)) * 2 \<le> unat (aq_size (acqs ! i))"
  shows "sis33acq_list_reorder mem is acqs = Some (True, fold (\<lambda>i xs. xs[i := reordered (xs ! i)]) is acqs)"
  using assms
proof (induction "is" arbitrary: acqs)
  case (Cons i "is")
  show ?case
  proof (cases "aq_first_samp (acqs ! i) = 0")
    case True
    then show ?thesis using Cons by (simp add: reordered_def)
  next
    case False
    have "sis33acq_reorder (mem i) (acqs ! i) = Some (Some (reordered (acqs ! i)))"
      using Cons.prems False by (simp add: sis33acq_reorder_def reordered_def Let_def)
    moreover have "\<forall>j\<in>set is. mem j \<and> j < length (acqs[i := reordered (acqs ! i)]) \<and>
        unat (aq_first_samp (acqs[i := reordered (acqs ! i)] ! j)) * 2 \<le> unat (aq_size (acqs[i := reordered (acqs ! i)] ! j))"
      using Cons.prems by (auto simp: list_update_nth_if reordered_def Let_def)
    ultimately show ?thesis using False Cons.IH by simp
  qed
qed simp

text \<open>
  A buffer the driver filled: an even number of samples, the first one inside.
\<close>

definition filled :: "nat \<Rightarrow> sis33_acq \<Rightarrow> bool" where
  "filled n a \<longleftrightarrow> unat (aq_size a) = 2 * n \<and> even n \<and> unat (aq_first_samp a) \<le> n"

lemma normalize_all:
  assumes "\<forall>i < elems. mem i" and "elems \<le> length acqs" and "\<forall>a \<in> set (take elems acqs). filled n a"
  shows "sis33acq_list_normalize big mem acqs elems =
    Some (True, map (\<lambda>a. reordered (swap_acq big a)) (take elems acqs) @ drop elems acqs)"
proof -
  let ?ys = "map (swap_acq big) (take elems acqs) @ drop elems acqs"
  have f: "aq_first_samp (swap_acq big a) = aq_first_samp a" "aq_size (swap_acq big a) = aq_size a" for a
    by (simp_all add: swap_acq_def)
  have at: "?ys ! i = swap_acq big (acqs ! i) \<and> filled n (acqs ! i)" if "i < elems" for i
  proof -
    have "acqs ! i \<in> set (take elems acqs)" using that assms(2) by (auto simp: in_set_conv_nth)
    then show ?thesis using that assms(2,3) by (simp add: nth_append)
  qed
  have "sis33acq_list_reorder mem [0..<elems] ?ys = Some (True, fold (\<lambda>i xs. xs[i := reordered (xs ! i)]) [0..<elems] ?ys)"
  proof (rule reorder_loop, rule ballI)
    fix i assume "i \<in> set [0..<elems]"
    then have i: "i < elems" by simp
    then show "mem i \<and> i < length ?ys \<and> unat (aq_first_samp (?ys ! i)) * 2 \<le> unat (aq_size (?ys ! i))"
      using at [OF i] assms(1,2) by (simp add: f filled_def)
  qed
  then show ?thesis
    using assms(2) by (simp add: sis33acq_list_normalize_def sis33acq_list_swap_def fold_update_at)
qed

text \<open>Sample \<open>i\<close> of a normalised buffer, in the order in which the card took them.\<close>

lemma normalized_sample:
  assumes "filled n a" and "i < n" and "aq_be a"
  shows "host_sample big (aq_data (reordered (swap_acq big a))) i =
    vme_sample (aq_data a) (if big then pair_swap ((i + unat (aq_first_samp a)) mod n) else (i + unat (aq_first_samp a)) mod n)"
proof -
  let ?b = "swap_acq big a"
  have f: "aq_first_samp ?b = aq_first_samp a" "aq_size ?b = aq_size a" by (simp_all add: swap_acq_def)
  obtain k where k: "n = 2 * k" using assms(1) by (auto simp: filled_def)
  have "host_sample big (aq_data (reordered ?b)) i = host_sample big (aq_data ?b) ((i + unat (aq_first_samp a)) mod n)"
    using reordered_sample [of ?b n i big] assms f by (simp add: filled_def)
  also have "\<dots> = vme_sample (aq_data a) (if big then pair_swap ((i + unat (aq_first_samp a)) mod n) else (i + unat (aq_first_samp a)) mod n)"
  proof (cases big)
    case True
    then show ?thesis by (simp add: swap_acq_def big_endian_sample)
  next
    case False
    moreover have "unat (aq_size a) = 4 * k" using assms(1) k by (simp add: filled_def)
    moreover have "(i + unat (aq_first_samp a)) mod n < 2 * k" using assms(2) k by simp
    ultimately show ?thesis using assms(3) by (simp add: swap_acq_def swapped_sample)
  qed
  finally show ?thesis .
qed


section \<open>Rounding, proved\<close>

lemma abs_diff_uint:
  assumes "a < 0x80000000" and "v < 0x80000000"
  shows "uint (abs_diff a v) = \<bar>uint a - uint v\<bar>"
proof -
  have b: "0 \<le> uint a" "uint a < 2 ^ 31" "0 \<le> uint v" "uint v < 2 ^ 31"
    using assms by (simp_all add: word_less_def)
  have "sint (word_of_int x :: u32) = signed_take_bit 31 x" for x by (simp add: signed_of_int)
  moreover have "a - v = word_of_int (uint a - uint v)" by simp
  ultimately have "sint (a - v) = signed_take_bit 31 (uint a - uint v)" by (simp only:)
  moreover have "signed_take_bit 31 (uint a - uint v) = uint a - uint v"
    by (rule signed_take_bit_int_eq_self) (use b in linarith)+
  moreover have "\<bar>uint a - uint v\<bar> < 2 ^ 32" unfolding abs_less_iff using b by (simp; linarith)
  ultimately show ?thesis by (simp add: abs_diff_def uint_word_of_int take_bit_int_eq_self)
qed

lemma approx_loop_best:
  "(approx_loop v r xs m best = best \<and> (\<forall>y\<in>set xs. round_ok y v r \<longrightarrow> m \<le> abs_diff y v)) \<or>
    (approx_loop v r xs m best \<in> set xs \<and> round_ok (approx_loop v r xs m best) v r \<and> abs_diff (approx_loop v r xs m best) v < m \<and>
      (\<forall>y\<in>set xs. round_ok y v r \<longrightarrow> abs_diff (approx_loop v r xs m best) v \<le> abs_diff y v))"
proof (induction xs arbitrary: m best)
  case (Cons x xs)
  show ?case
  proof (cases "abs_diff x v < m \<and> round_ok x v r")
    case True
    then show ?thesis
      using Cons [of "abs_diff x v" x] by (cases "abs_diff x v = 0") (auto simp: Let_def)
  next
    case False
    then show ?thesis using Cons [of m best] by (auto simp: Let_def not_less)
  qed
qed simp

text \<open>The approximation is the closest element on the side that was asked for, when there is one.\<close>

lemma approx_best:
  assumes "y \<in> set xs" and "round_ok y v r" and small: "\<forall>x\<in>set xs. x < 0x80000000" "v < 0x80000000"
  shows "approx xs v r \<in> set xs \<and> round_ok (approx xs v r) v r \<and>
    (\<forall>z\<in>set xs. round_ok z v r \<longrightarrow> \<bar>uint (approx xs v r) - uint v\<bar> \<le> \<bar>uint z - uint v\<bar>)"
proof -
  have d: "uint (abs_diff z v) = \<bar>uint z - uint v\<bar>" if "z \<in> set xs" for z using that small by (intro abs_diff_uint) auto
  have "\<bar>uint y - uint v\<bar> < 2 ^ 31"
    using small assms(1) by (auto simp: word_less_def abs_less_iff) (smt (verit) uint_nonnegative)+
  then have "\<not> NOT 0 \<le> abs_diff y v" using d [OF assms(1)] by (simp add: word_le_def unsigned_minus_1_eq_mask mask_eq_exp_minus_1)
  then show ?thesis
    using approx_loop_best [of v r xs "NOT 0" "xs ! 0"] assms(1,2) d unfolding approx_def word_le_def by auto
qed


text \<open>
  Rounding to the values of a card, which the library keeps in descending order: the nearest one; the least one that is not
  below, or the greatest one when all are below; the greatest one that is not above, or the least one.
\<close>

definition rounds_to :: "u32 list \<Rightarrow> u32 \<Rightarrow> sis33_round \<Rightarrow> u32 \<Rightarrow> bool" where
  "rounds_to xs v r res \<longleftrightarrow> res \<in> set xs \<and>
    (case r of
       SIS33_ROUND_NEAREST \<Rightarrow> list_all (\<lambda>y. \<bar>uint res - uint v\<bar> \<le> \<bar>uint y - uint v\<bar>) xs
     | SIS33_ROUND_UP \<Rightarrow> if v \<le> hd xs then v \<le> res \<and> list_all (\<lambda>y. v \<le> y \<longrightarrow> res \<le> y) xs else res = hd xs
     | SIS33_ROUND_DOWN \<Rightarrow> if last xs \<le> v then res \<le> v \<and> list_all (\<lambda>y. y \<le> v \<longrightarrow> y \<le> res) xs else res = last xs)"

lemma descending_ends:
  "sorted_wrt (\<ge>) xs \<Longrightarrow> y \<in> set xs \<Longrightarrow> y \<le> hd xs \<and> last xs \<le> y" for y :: u32
proof (induction xs)
  case (Cons x xs)
  then show ?case by (cases xs) auto
qed simp

text \<open>
  Rounding a clock frequency or an event length gives a value of the card, the one on the side that was asked for that is closest
  to the requested value, or the end of the table when there is none on that side, for values below \<open>2^31\<close>, up to which the
  distance computed in 32 bits is right.
\<close>

lemma rounding_gives_closest_value:
  assumes "xs \<noteq> []" and desc: "sorted_wrt (\<ge>) xs" and small: "\<forall>x\<in>set xs. x < 0x80000000" "v < 0x80000000"
  shows "rounds_to xs v r (sis33dev_round_uint xs v r)"
proof -
  have ends: "xs ! 0 = hd xs" "xs ! (length xs - 1) = last xs" using assms(1) by (simp_all add: hd_conv_nth last_conv_nth)
  have mem: "hd xs \<in> set xs" "last xs \<in> set xs" using assms(1) by simp_all
  note between = descending_ends [OF desc]
  consider "hd xs \<le> v" | "v < hd xs" "v \<le> last xs" | "v < hd xs" "last xs < v" by fastforce
  then show ?thesis
  proof cases
    case 1
    then have "sis33dev_round_uint xs v r = hd xs" by (simp add: sis33dev_round_uint_def ends)
    moreover have "\<bar>uint (hd xs) - uint v\<bar> \<le> \<bar>uint y - uint v\<bar>" if "y \<in> set xs" for y
      using between [OF that] 1 by (simp add: word_le_def)
    moreover have "last xs \<le> v" using between [OF mem(1)] 1 by simp
    ultimately show ?thesis using mem 1 between by (auto simp: rounds_to_def list_all_iff split: sis33_round.split)
  next
    case 2
    then have "sis33dev_round_uint xs v r = last xs" unfolding sis33dev_round_uint_def ends by (simp add: not_le [symmetric])
    moreover have "\<bar>uint (last xs) - uint v\<bar> \<le> \<bar>uint y - uint v\<bar>" if "y \<in> set xs" for y
      using between [OF that] 2 by (simp add: word_le_def)
    ultimately show ?thesis using mem 2 between by (auto simp: rounds_to_def list_all_iff split: sis33_round.split)
  next
    case 3
    then have res: "sis33dev_round_uint xs v r = approx xs v r" unfolding sis33dev_round_uint_def ends by (simp add: not_le [symmetric])
    have "\<exists>y \<in> set xs. round_ok y v r" using mem 3 by (cases r) (auto simp: round_ok_def intro: less_imp_le)
    then have a: "approx xs v r \<in> set xs" "round_ok (approx xs v r) v r"
      and near: "\<And>z. z \<in> set xs \<Longrightarrow> round_ok z v r \<Longrightarrow> \<bar>uint (approx xs v r) - uint v\<bar> \<le> \<bar>uint z - uint v\<bar>"
      using approx_best [of _ xs v r] small by blast+
    show ?thesis
    proof (cases r)
      case SIS33_ROUND_NEAREST
      then show ?thesis using a near unfolding res by (simp add: rounds_to_def round_ok_def list_all_iff)
    next
      case SIS33_ROUND_UP
      have "approx xs v r \<le> y" if "y \<in> set xs" "v \<le> y" for y
        using near [OF that(1)] that(2) a(2) SIS33_ROUND_UP by (simp add: round_ok_def word_le_def)
      then show ?thesis using a 3 SIS33_ROUND_UP unfolding res by (simp add: rounds_to_def round_ok_def list_all_iff less_imp_le)
    next
      case SIS33_ROUND_DOWN
      have "y \<le> approx xs v r" if "y \<in> set xs" "y \<le> v" for y
        using near [OF that(1)] that(2) a(2) SIS33_ROUND_DOWN by (simp add: round_ok_def word_le_def)
      then show ?thesis using a 3 SIS33_ROUND_DOWN unfolding res by (simp add: rounds_to_def round_ok_def list_all_iff less_imp_le)
    qed
  qed
qed

lemma rounding_gives_closest_value_example:
  "rounds_to [100000000, 50000000, 25000000, 10000000] 30000000 SIS33_ROUND_UP
      (sis33dev_round_uint [100000000, 50000000, 25000000, 10000000] 30000000 SIS33_ROUND_UP) \<and>
    sis33dev_round_uint [100000000, 50000000, 25000000, 10000000] 30000000 SIS33_ROUND_UP = 50000000"
  using rounding_gives_closest_value [of "[100000000, 50000000, 25000000, 10000000]" 30000000 SIS33_ROUND_UP]
  by (simp add: sis33dev_round_uint_def approx_def abs_diff_def round_ok_def)

end
