(* ===== verification/Sis3320_Props.thy ===== *)
theory Sis3320_Props
  imports Sis3320 Sis33_Lib_Props
begin

text \<open>
  Fetching from a SIS3320 or SIS3302: through the page register and the window of 8 MB, the driver reads
  the memory of an event whatever page was selected before, and with the library the user gets its samples in the order in
  which they were taken.
\<close>

section \<open>The memory behind the window\<close>

text \<open>
  What the fetch relies on: \<open>page\<close> is the page register and \<open>mem\<close> the memory of each channel, as functions of
  the state of the hardware. A write to the register changes the register, and a block read inside the window of a channel
  succeeds and returns the memory on the selected page.
\<close>

definition paged_memory :: "'h sis33_bus \<Rightarrow> u32 \<Rightarrow> ('h \<Rightarrow> u32) \<Rightarrow> ('h \<Rightarrow> nat \<Rightarrow> nat \<Rightarrow> u8) \<Rightarrow> bool" where
  "paged_memory bus base page mem \<longleftrightarrow>
    (\<forall>h v. page (sis33_dma_write bus (base + SIS3320_ADC_MEM_PAGE) v h) = v \<and>
      mem (sis33_dma_write bus (base + SIS3320_ADC_MEM_PAGE) v h) = mem h) \<and>
    (\<forall>h ch off addr n. ch < 8 \<longrightarrow> off + n \<le> SIS3320_PAGESIZE \<longrightarrow>
      (\<exists>h'. sis33_dma_read_mblt_user bus (base + SIS3320_MEM_ADC ch + of_nat off) addr n h =
          (OK, slice (mem h ch) (unat (page h) * SIS3320_PAGESIZE + off) n, h') \<and> page h' = page h \<and> mem h' = mem h))"

text \<open>The driver knows the page, and reading changes nothing else that matters to it.\<close>

definition knows_page :: "u32 \<Rightarrow> ('h \<Rightarrow> u32) \<Rightarrow> 'h card20 \<Rightarrow> bool" where
  "knows_page base page c \<longleftrightarrow> s_vme_base (c_private c) = base \<and> page (hw20 c) = s_curr_page (c_private c)"

definition reads :: "u32 \<Rightarrow> ('h \<Rightarrow> u32) \<Rightarrow> ('h \<Rightarrow> nat \<Rightarrow> nat \<Rightarrow> u8) \<Rightarrow> 'h card20 \<Rightarrow> 'h card20 \<Rightarrow> bool" where
  "reads base page mem c c1 \<longleftrightarrow> knows_page base page c1 \<and> mem (hw20 c1) = mem (hw20 c) \<and> c_segments c1 = c_segments c \<and>
    c_ev_lengths c1 = c_ev_lengths c \<and> c_n_segments c1 = c_n_segments c"

lemma reads_refl: "knows_page base page c \<Longrightarrow> reads base page mem c c"
  by (simp add: reads_def)

lemma reads_trans: "reads base page mem c c1 \<Longrightarrow> reads base page mem c1 c2 \<Longrightarrow> reads base page mem c c2"
  by (simp add: reads_def)

lemma put_page_reads:
  assumes "paged_memory bus base page mem" and "knows_page base page c"
  shows "reads base page mem c (sis3320_put_page bus p c)" and "page (hw20 (sis3320_put_page bus p c)) = p AND 7"
  using assms
  by (auto simp: sis3320_put_page_def Let_def paged_memory_def reads_def knows_page_def sis3320_writew_def set_hw20_def hw20_def)

lemma dma_reads:
  assumes "paged_memory bus base page mem" and "knows_page base page c" and "ch < 8" and "off + n \<le> SIS3320_PAGESIZE"
  shows "\<exists>c1. dma_to_acq bus (base + SIS3320_MEM_ADC ch + of_nat off) pos n acq c =
      (OK, acq\<lparr>aq_data := overwrite (aq_data acq) pos (slice (mem (hw20 c) ch) (unat (page (hw20 c)) * SIS3320_PAGESIZE + off) n)\<rparr>, c1) \<and>
    reads base page mem c c1 \<and> page (hw20 c1) = page (hw20 c)"
proof -
  from assms obtain h' where h: "sis33_dma_read_mblt_user bus (base + SIS3320_MEM_ADC ch + of_nat off) (aq_addr acq + of_nat pos) n (hw20 c) =
      (OK, slice (mem (hw20 c) ch) (unat (page (hw20 c)) * SIS3320_PAGESIZE + off) n, h')" "page h' = page (hw20 c)" "mem h' = mem (hw20 c)"
    unfolding paged_memory_def by blast
  then show ?thesis using assms(2)
    by (simp add: dma_to_acq_def reads_def knows_page_def set_hw20_def hw20_def)
qed

section \<open>Addresses\<close>

lemma word_of_unat: "unat w = k \<Longrightarrow> w = of_nat k" for w :: u32
  by auto

lemma word_page:
  assumes "k < 2 ^ 26"
  shows "(of_nat k :: u32) AND 0x7fffff = of_nat (k mod 2 ^ 23)" and "drop_bit 23 (of_nat k :: u32) = of_nat (k div 2 ^ 23)"
proof -
  have u: "unat (of_nat k :: u32) = k" using assms by (simp add: unat_of_nat take_bit_nat_eq_self)
  have m: "(0x7fffff :: u32) = mask 23" by (simp add: mask_eq_exp_minus_1)
  have "unat ((of_nat k :: u32) AND mask 23) = k mod 2 ^ 23"
    by (simp only: take_bit_eq_mask [symmetric] unsigned_take_bit_eq u) (simp add: take_bit_eq_mod)
  then show "(of_nat k :: u32) AND 0x7fffff = of_nat (k mod 2 ^ 23)" unfolding m by (rule word_of_unat)
  have "unat (drop_bit 23 (of_nat k :: u32)) = k div 2 ^ 23"
    by (simp only: unsigned_drop_bit_eq u) (use assms in \<open>simp add: drop_bit_eq_div take_bit_nat_eq_self\<close>)
  then show "drop_bit 23 (of_nat k :: u32) = of_nat (k div 2 ^ 23)" by (rule word_of_unat)
qed

lemma small_page: "p < 8 \<Longrightarrow> (of_nat p :: u32) AND 7 = of_nat p \<and> unat (of_nat p :: u32) = p"
proof -
  assume p: "p < 8"
  have m: "(7 :: u32) = mask 3" by (simp add: mask_eq_exp_minus_1)
  have u: "unat (of_nat p :: u32) = p" using p by (simp add: unat_of_nat take_bit_nat_eq_self)
  have "unat ((of_nat p :: u32) AND mask 3) = p"
    using p by (simp add: take_bit_eq_mask [symmetric] unsigned_take_bit_eq u take_bit_nat_eq_self)
  then have "(of_nat p :: u32) AND mask 3 = of_nat p" using u by (metis unsigned_word_eqI)
  then show ?thesis using u unfolding m by blast
qed


section \<open>One event\<close>

text \<open>
  An event of \<open>n\<close> samples, a length of the table, at byte \<open>ev * 2 * n\<close> of its segment, which begins at byte \<open>sb\<close> and has room for it.
\<close>

definition event_at :: "'h card20 \<Rightarrow> nat \<Rightarrow> nat \<Rightarrow> nat \<Rightarrow> nat \<Rightarrow> bool" where
  "event_at c seg ev n sb \<longleftrightarrow> n = unat (sg_nr_samp_per_ev (c_segments c ! seg)) \<and> sb = 2 * unat (sis3320_get_segment_base c seg) \<and>
    SIS3320_PAGESIZE dvd sb \<and> (2 * n dvd SIS3320_PAGESIZE \<or> SIS3320_PAGESIZE dvd 2 * n) \<and> sb + (ev + 1) * (2 * n) \<le> 8 * SIS3320_PAGESIZE"

lemma event_offset:
  assumes "event_at c seg ev n sb"
  shows "sis3320_get_segment_base c seg * 2 + of_nat ev * (sg_nr_samp_per_ev (c_segments c ! seg) * 2) = of_nat (sb + ev * (2 * n))"
    and "(sis3320_get_segment_base c seg + of_nat ev * sg_nr_samp_per_ev (c_segments c ! seg)) * 2 = of_nat (sb + ev * (2 * n))"
  using assms by (simp_all add: event_at_def algebra_simps)

lemma event_room:
  assumes "event_at c seg ev n sb"
  shows "SIS3320_PAGESIZE dvd sb" and "sb + ev * (2 * n) + 2 * n \<le> 8 * SIS3320_PAGESIZE"
proof -
  show "SIS3320_PAGESIZE dvd sb" using assms unfolding event_at_def by blast
  have "sb + (ev + 1) * (2 * n) \<le> 8 * SIS3320_PAGESIZE" using assms unfolding event_at_def by blast
  then show "sb + ev * (2 * n) + 2 * n \<le> 8 * SIS3320_PAGESIZE" by simp
qed

text \<open>An event that fits a page does not cross into the next one; a larger one is whole pages.\<close>

lemma no_crossing:
  assumes "p dvd s" and "(m :: nat) dvd p" and "0 < m" and "0 < p"
  shows "(s + k * m) mod p + m \<le> p"
proof -
  obtain q where q: "p = m * q" using assms(2) by blast
  obtain t where t: "s = p * t" using assms(1) by blast
  have "(s + k * m) mod p = (m * k) mod p" unfolding t by (simp only: mod_mult_self3 mult.commute mod_mult_self4)
  also have "\<dots> = m * (k mod q)" unfolding q by (simp only: mult_mod_right)
  finally have "(s + k * m) mod p + m = m * (k mod q + 1)" by (simp only: distrib_left mult_1_right)
  also have "k mod q + 1 \<le> q" using assms(4) q by (simp add: Suc_le_eq)
  then have "m * (k mod q + 1) \<le> p" unfolding q by (rule mult_le_mono2)
  finally show ?thesis .
qed

lemma smallpage_reads:
  assumes mem: "paged_memory bus base page mem" and "knows_page base page c" and at: "event_at c seg ev n sb" and "ch < 8"
    and "2 * n dvd SIS3320_PAGESIZE" and "0 < n" and "unat (aq_size acq) = 2 * n"
  shows "\<exists>c1. sis3320_get_data_smallpage bus seg acq ch ev c =
      (OK, acq\<lparr>aq_data := overwrite (aq_data acq) 0 (slice (mem (hw20 c) ch) (sb + ev * (2 * n)) (2 * n))\<rparr>, c1) \<and> reads base page mem c c1"
proof -
  define k where "k = sb + ev * (2 * n)"
  have ps: "SIS3320_PAGESIZE = 2 ^ 23" by (simp add: SIS3320_PAGESIZE_def)
  have lt: "k < 8 * SIS3320_PAGESIZE" and sb: "SIS3320_PAGESIZE dvd sb" using event_room [OF at] assms(6) by (simp_all add: k_def)
  have k: "k < 2 ^ 26" "k div SIS3320_PAGESIZE < 8" "k mod SIS3320_PAGESIZE + 2 * n \<le> SIS3320_PAGESIZE"
    using lt less_mult_imp_div_less [OF lt] no_crossing [OF sb assms(5), of ev] assms(6) unfolding k_def by (simp_all add: ps)
  define c1 where "c1 = sis3320_put_page bus (of_nat (k div 2 ^ 23)) c"
  have offset: "sis3320_get_offset bus seg ev c = (of_nat (k mod SIS3320_PAGESIZE), c1)"
    unfolding sis3320_get_offset_def Let_def event_offset(1) [OF at] k_def [symmetric] word_page [OF k(1)] c1_def ps ..
  have r1: "reads base page mem c c1" and p1: "unat (page (hw20 c1)) = k div SIS3320_PAGESIZE"
    using put_page_reads [OF mem assms(2), of "of_nat (k div 2 ^ 23)"] small_page [of "k div 2 ^ 23"] k(2)
    unfolding c1_def ps by simp_all
  then have "knows_page base page c1" and b1: "s_vme_base (c_private c1) = base" and m1: "mem (hw20 c1) = mem (hw20 c)"
    by (simp_all add: reads_def knows_page_def)
  then obtain c2 where "dma_to_acq bus (base + SIS3320_MEM_ADC ch + of_nat (k mod SIS3320_PAGESIZE)) 0 (2 * n) acq c1 =
      (OK, acq\<lparr>aq_data := overwrite (aq_data acq) 0 (slice (mem (hw20 c) ch) k (2 * n))\<rparr>, c2) \<and> reads base page mem c1 c2"
    using dma_reads [OF mem _ assms(4) k(3), of c1 0 acq] p1 by auto
  then show ?thesis
    using reads_trans [OF r1] unfolding sis3320_get_data_smallpage_def offset prod.case b1 assms(7) k_def [symmetric] by blast
qed


lemma overwrite_join:
  "overwrite (overwrite f 0 (slice g k m)) m (slice g (k + m) r) = overwrite f 0 (slice g k (m + r))"
  by (auto simp: overwrite_def fun_eq_iff)

lemma overwrite_nothing: "overwrite f 0 (slice g k 0) = f"
  by (simp add: overwrite_def)

lemma bigpage_reads:
  assumes mem: "paged_memory bus base page mem" and "knows_page base page c" and "ch < 8" and "q + r \<le> 8"
  shows "\<exists>c1. bigpage_loop bus ch (of_nat q) [0..<r] acq c =
      (OK, acq\<lparr>aq_data := overwrite (aq_data acq) 0 (slice (mem (hw20 c) ch) (q * SIS3320_PAGESIZE) (r * SIS3320_PAGESIZE))\<rparr>, c1) \<and>
    reads base page mem c c1"
proof -
  have "\<exists>c1. bigpage_loop bus ch (of_nat q) [j..<r] acq' c' =
      (OK, acq\<lparr>aq_data := overwrite (aq_data acq) 0 (slice (mem (hw20 c) ch) (q * SIS3320_PAGESIZE) (r * SIS3320_PAGESIZE))\<rparr>, c1) \<and>
    reads base page mem c c1"
    if "j \<le> r" and "reads base page mem c c'"
      and "acq' = acq\<lparr>aq_data := overwrite (aq_data acq) 0 (slice (mem (hw20 c) ch) (q * SIS3320_PAGESIZE) (j * SIS3320_PAGESIZE))\<rparr>" for j acq' c'
    using that
  proof (induction "r - j" arbitrary: j acq' c')
    case 0
    then show ?case by simp
  next
    case (Suc d)
    then have j: "j < r" by simp
    define c2 where "c2 = sis3320_put_page bus (of_nat q + of_nat j) c'"
    have kp: "knows_page base page c'" using Suc.prems(2) by (simp add: reads_def)
    have "q + j < 8" using j assms(4) by simp
    then have "(of_nat q + of_nat j) AND 7 = (of_nat (q + j) :: u32) \<and> unat (of_nat (q + j) :: u32) = q + j"
      using small_page [of "q + j"] by simp
    then have r2: "reads base page mem c' c2" and p2: "unat (page (hw20 c2)) = q + j"
      using put_page_reads [OF mem kp, of "of_nat q + of_nat j"] unfolding c2_def by simp_all
    have k2: "knows_page base page c2" "s_vme_base (c_private c2) = base" using r2 by (simp_all add: reads_def knows_page_def)
    have m2: "mem (hw20 c2) = mem (hw20 c)" using r2 Suc.prems(2) by (simp add: reads_def)
    obtain c3 where c3: "dma_to_acq bus (base + SIS3320_MEM_ADC ch + of_nat 0) (j * SIS3320_PAGESIZE) SIS3320_PAGESIZE acq' c2 =
        (OK, acq'\<lparr>aq_data := overwrite (aq_data acq') (j * SIS3320_PAGESIZE)
          (slice (mem (hw20 c) ch) ((q + j) * SIS3320_PAGESIZE + 0) SIS3320_PAGESIZE)\<rparr>, c3)" "reads base page mem c2 c3"
      using dma_reads [OF mem k2(1) assms(3), of 0 SIS3320_PAGESIZE "j * SIS3320_PAGESIZE" acq'] unfolding p2 m2 by auto
    have "reads base page mem c c3" using Suc.prems(2) r2 c3(2) reads_trans by blast
    moreover have "acq'\<lparr>aq_data := overwrite (aq_data acq') (j * SIS3320_PAGESIZE)
          (slice (mem (hw20 c) ch) ((q + j) * SIS3320_PAGESIZE + 0) SIS3320_PAGESIZE)\<rparr> =
        acq\<lparr>aq_data := overwrite (aq_data acq) 0 (slice (mem (hw20 c) ch) (q * SIS3320_PAGESIZE) (Suc j * SIS3320_PAGESIZE))\<rparr>"
      unfolding Suc.prems(3)
      using overwrite_join [of "aq_data acq" "mem (hw20 c) ch" "q * SIS3320_PAGESIZE" "j * SIS3320_PAGESIZE" SIS3320_PAGESIZE]
      by (simp add: distrib_right add.commute)
    ultimately show ?case
      using Suc.hyps(1) [of "Suc j"] Suc.hyps(2) j c3(1) k2(2)
      by (simp add: upt_conv_Cons c2_def [symmetric] Let_def)
  qed
  from this [of 0 c acq] reads_refl [OF assms(2)] show ?thesis by (simp add: overwrite_nothing)
qed


lemma get_data_reads:
  assumes mem: "paged_memory bus base page mem" and "knows_page base page c" and at: "event_at c seg ev n sb" and "ch < 8"
    and "0 < n" and "unat (aq_size acq) = 2 * n"
  shows "\<exists>c1. sis3320_get_data bus seg acq ch ev c =
      (OK, acq\<lparr>aq_be := True, aq_data := overwrite (aq_data acq) 0 (slice (mem (hw20 c) ch) (sb + ev * (2 * n)) (2 * n))\<rparr>, c1) \<and>
    reads base page mem c c1"
proof (cases "n \<le> SIS3320_PAGESIZE_SAMPLES")
  have n: "unat (sg_nr_samp_per_ev (c_segments c ! seg)) = n" using at by (simp add: event_at_def)
  case True
  have "2 * n dvd SIS3320_PAGESIZE"
  proof (rule ccontr)
    assume "\<not> 2 * n dvd SIS3320_PAGESIZE"
    then have "SIS3320_PAGESIZE dvd 2 * n" using at unfolding event_at_def by blast
    then have "SIS3320_PAGESIZE \<le> 2 * n" using assms(5) by (intro dvd_imp_le) simp_all
    then have "2 * n = SIS3320_PAGESIZE" using True by (simp add: SIS3320_PAGESIZE_def SIS3320_PAGESIZE_SAMPLES_def)
    then show False using \<open>\<not> 2 * n dvd SIS3320_PAGESIZE\<close> by simp
  qed
  then show ?thesis
    using smallpage_reads [OF mem assms(2) at assms(4) _ assms(5), of "acq\<lparr>aq_be := True\<rparr>"] assms(6) True
    by (simp add: sis3320_get_data_def n)
next
  have n: "unat (sg_nr_samp_per_ev (c_segments c ! seg)) = n" using at by (simp add: event_at_def)
  case False
  then have big: "SIS3320_PAGESIZE < 2 * n" by (simp add: SIS3320_PAGESIZE_def SIS3320_PAGESIZE_SAMPLES_def)
  have "\<not> 2 * n dvd SIS3320_PAGESIZE" using big by (auto dest!: dvd_imp_le simp: SIS3320_PAGESIZE_def)
  then have d: "SIS3320_PAGESIZE dvd 2 * n" using at unfolding event_at_def by blast
  then obtain r where r: "2 * n = SIS3320_PAGESIZE * r" by blast
  obtain t where t: "sb = SIS3320_PAGESIZE * t" using event_room(1) [OF at] by blast
  define q where "q = t + ev * r"
  have k: "sb + ev * (2 * n) = q * SIS3320_PAGESIZE" unfolding t r q_def by (simp only: distrib_left mult.commute mult.left_commute)
  have ps: "SIS3320_PAGESIZE = 2 ^ 23" by (simp add: SIS3320_PAGESIZE_def)
  have "q * SIS3320_PAGESIZE + r * SIS3320_PAGESIZE \<le> 8 * SIS3320_PAGESIZE"
    using event_room(2) [OF at] unfolding k unfolding r by (simp only: mult.commute)
  then have qr: "q + r \<le> 8" unfolding distrib_right [symmetric] by (simp add: ps)
  have "0 < r" using r big by (cases r) auto
  then have lt: "q * SIS3320_PAGESIZE < 2 ^ 26" using qr by (simp add: ps)
  have pages: "n div SIS3320_PAGESIZE_SAMPLES = r" using r by (simp add: SIS3320_PAGESIZE_def SIS3320_PAGESIZE_SAMPLES_def)
  have page0: "drop_bit 23 ((sis3320_get_segment_base c seg + of_nat ev * sg_nr_samp_per_ev (c_segments c ! seg)) * 2) = (of_nat q :: u32)"
    unfolding event_offset(2) [OF at] k word_page(2) [OF lt] by (simp add: ps)
  show ?thesis
    using bigpage_reads [OF mem assms(2,4) qr, of "acq\<lparr>aq_be := True\<rparr>"] False
    unfolding sis3320_get_data_def sis3320_get_data_bigpage_def Let_def n page0 pages k unfolding r
    by (simp add: mult.commute)
qed


section \<open>The events of a segment\<close>

text \<open>What the driver puts into the buffer of event \<open>i\<close>; \<open>m\<close> is the memory of the channel.\<close>

definition fetched20 :: "(nat \<Rightarrow> u8) \<Rightarrow> sis33_segment \<Rightarrow> sis33_event list \<Rightarrow> nat \<Rightarrow> nat \<Rightarrow> nat \<Rightarrow> nat \<Rightarrow> sis33_acq \<Rightarrow> sis33_acq" where
  "fetched20 m s evs ch n sb i a =
    a\<lparr>aq_prevticks := (case sg_prevticks s of Ptr pt \<Rightarrow> pt ! i | _ \<Rightarrow> 0),
      aq_nr_samples := ev_nr_samples (sis3320_get_event s ch i evs), aq_first_samp := ev_first_samp (sis3320_get_event s ch i evs),
      aq_be := True, aq_data := overwrite (aq_data a) 0 (slice m (sb + i * (2 * n)) (2 * n))\<rparr>"

definition has_events :: "sis33_segment \<Rightarrow> sis33_event list \<Rightarrow> bool" where
  "has_events s evs \<longleftrightarrow> sg_nr_events s \<noteq> 0 \<and> sg_events s = Ptr evs \<and> (\<forall>e. sg_prevticks s \<noteq> ErrPtr e)"

lemma read_event_reads:
  assumes "paged_memory bus base page mem" and "knows_page base page c" and "event_at c seg i n sb" and "ch < 8"
    and "0 < n" and "unat (aq_size a) = 2 * n" and "has_events (c_segments c ! seg) evs"
  shows "\<exists>c1. sis3320_read_event bus seg a ch i c = (OK, fetched20 (mem (hw20 c) ch) (c_segments c ! seg) evs ch n sb i a, c1) \<and>
    reads base page mem c c1"
proof -
  let ?s = "c_segments c ! seg"
  let ?a = "a\<lparr>aq_prevticks := (case sg_prevticks ?s of Ptr pt \<Rightarrow> pt ! i | _ \<Rightarrow> 0),
    aq_nr_samples := ev_nr_samples (sis3320_get_event ?s ch i evs), aq_first_samp := ev_first_samp (sis3320_get_event ?s ch i evs)\<rparr>"
  have "sis3320_read_event bus seg a ch i c = sis3320_get_data bus seg ?a ch i c"
    using assms(7) by (auto simp: sis3320_read_event_def has_events_def Let_def split: err_ptr.split)
  then show ?thesis using get_data_reads [OF assms(1-5), of ?a] assms(6) by (simp add: fetched20_def)
qed

lemma reads_event_at: "reads base page mem c c1 \<Longrightarrow> event_at c1 seg i n sb = event_at c seg i n sb"
  by (simp add: event_at_def reads_def sis3320_get_segment_base_def)

lemma fetch_loop_reads:
  assumes mem: "paged_memory bus base page mem" and "ch < 8" and "0 < n" and "knows_page base page c"
    and "has_events (c_segments c ! seg) evs"
    and "\<forall>i\<in>set is. i < length acqs \<and> event_at c seg i n sb \<and> unat (aq_size (acqs ! i)) = 2 * n"
  shows "\<exists>c1. fetch_loop20 bus seg ch is acqs c =
      (OK, fold (\<lambda>i xs. xs[i := fetched20 (mem (hw20 c) ch) (c_segments c ! seg) evs ch n sb i (xs ! i)]) is acqs, c1) \<and>
    reads base page mem c c1"
  using assms(4-6)
proof (induction "is" arbitrary: acqs c)
  case Nil
  then show ?case by (simp add: reads_refl)
next
  case (Cons i "is")
  let ?a = "fetched20 (mem (hw20 c) ch) (c_segments c ! seg) evs ch n sb i (acqs ! i)"
  obtain c1 where c1: "sis3320_read_event bus seg (acqs ! i) ch i c = (OK, ?a, c1)" "reads base page mem c c1"
    using read_event_reads [OF mem Cons.prems(1) _ assms(2,3) _ Cons.prems(2), of i sb "acqs ! i"] Cons.prems(3) by auto
  have same: "c_segments c1 = c_segments c" "mem (hw20 c1) = mem (hw20 c)" "knows_page base page c1" using c1(2) by (simp_all add: reads_def)
  have "\<forall>j\<in>set is. j < length (acqs[i := ?a]) \<and> event_at c1 seg j n sb \<and> unat (aq_size (acqs[i := ?a] ! j)) = 2 * n"
    using Cons.prems(3) by (auto simp: reads_event_at [OF c1(2)] list_update_nth_if fetched20_def)
  with Cons.IH [OF same(3), of "acqs[i := ?a]"] Cons.prems(2) obtain c2 where
    "fetch_loop20 bus seg ch is (acqs[i := ?a]) c1 =
      (OK, fold (\<lambda>i xs. xs[i := fetched20 (mem (hw20 c) ch) (c_segments c ! seg) evs ch n sb i (xs ! i)]) is (acqs[i := ?a]), c2)"
    "reads base page mem c1 c2" unfolding same(1,2) by auto
  then show ?case using c1 reads_trans by auto
qed

lemma fold_update_index:
  "n \<le> length xs \<Longrightarrow> length (fold (\<lambda>i xs. xs[i := g i (xs ! i)]) [0..<n] xs) = length xs \<and>
    (\<forall>j < length xs. fold (\<lambda>i xs. xs[i := g i (xs ! i)]) [0..<n] xs ! j = (if j < n then g j (xs ! j) else xs ! j))"
proof (induction n)
  case (Suc n)
  then show ?case by (auto simp: nth_list_update less_Suc_eq)
qed simp


lemma table_length:
  assumes "w \<in> set sis3320_ev_lengths"
  shows "0 < unat w" and "even (unat w)" and "unat w \<le> 0x2000000" and "2 * unat w dvd SIS3320_PAGESIZE \<or> SIS3320_PAGESIZE dvd 2 * unat w"
  using assms by (auto simp: sis3320_ev_lengths_def SIS3320_PAGESIZE_def)

lemma segment_base20:
  assumes "c_ev_lengths c = sis3320_ev_lengths" and "c_n_segments c \<in> {1, 2}" and "seg < c_n_segments c"
  shows "2 * unat (sis3320_get_segment_base c seg) = 4 * SIS3320_PAGESIZE * seg"
proof -
  have "c_n_segments c = 1 \<and> seg = 0 \<or> c_n_segments c = 2 \<and> (seg = 0 \<or> seg = 1)" using assms(2,3) by auto
  then show ?thesis using assms(1)
    by (elim disjE conjE) (simp_all add: sis3320_get_segment_base_def sis3320_ev_lengths_def SIS3320_PAGESIZE_def)
qed

lemma event_in_segment:
  assumes "c_ev_lengths c = sis3320_ev_lengths" and "c_n_segments c \<in> {1, 2}" and "seg < c_n_segments c"
    and w: "w = sg_nr_samp_per_ev (c_segments c ! seg)" "w \<in> set sis3320_ev_lengths"
    and "m * unat w \<le> 0x2000000 div c_n_segments c" and "i < m"
  shows "event_at c seg i (unat w) (4 * SIS3320_PAGESIZE * seg)"
proof -
  have "(i + 1) * unat w \<le> m * unat w" using assms(7) by (intro mult_le_mono1) simp
  then have le: "(i + 1) * (2 * unat w) \<le> 2 * (0x2000000 div c_n_segments c)" using assms(6) by simp
  have "c_n_segments c = 1 \<and> seg = 0 \<or> c_n_segments c = 2 \<and> (seg = 0 \<or> seg = 1)" using assms(2,3) by auto
  then have room: "4 * SIS3320_PAGESIZE * seg + (i + 1) * (2 * unat w) \<le> 8 * SIS3320_PAGESIZE"
    using le by (elim disjE conjE) (simp_all add: SIS3320_PAGESIZE_def)
  have d: "SIS3320_PAGESIZE dvd 4 * SIS3320_PAGESIZE * seg" by simp
  show ?thesis unfolding event_at_def
    using room d table_length(4) [OF w(2)] segment_base20 [OF assms(1-3)] w(1) by simp
qed

lemma vme_sample_local:
  assumes "\<And>x. x < 2 * n \<Longrightarrow> f x = g x" and "even n" and "i < n"
  shows "vme_sample f i = vme_sample g i"
proof -
  obtain k where k: "n = 2 * k" using assms(2) by blast
  have "i div 2 < k" using assms(3) k by simp
  then have "4 * (i div 2) + 3 < 2 * n" using k by simp
  then show ?thesis using assms(1) by (simp add: vme_sample_def slice4)
qed

lemma pair_swap_less: "even n \<Longrightarrow> i < n \<Longrightarrow> pair_swap i < n"
  by (auto simp: pair_swap_def) (metis Suc_lessI even_Suc)

text \<open>The kernel's part of a fetch by a process that finds the segment idle.\<close>

lemma fetch_ioctl_reads:
  fixes seg ch n_acqs :: u32
  assumes mem: "paged_memory bus base page mem" "knows_page base page c"
    and geometry: "c_ev_lengths c = sis3320_ev_lengths" "c_n_segments c \<in> {1, 2}" "unat seg < c_n_segments c"
      "unat seg < length (c_segments c)" "c_n_channels c = 8" "unat ch < 8"
    and s: "s = c_segments c ! unat seg" "\<not> sg_acquiring s" "\<not> sg_transferring s" "has_events s evs"
    and w: "w = sg_nr_samp_per_ev s" "w \<in> set sis3320_ev_lengths" "unat (sg_nr_events s) * unat w \<le> 0x2000000 div c_n_segments c"
    and acqs: "length acqs = unat n_acqs" "n_acqs \<noteq> 0" "unat n_acqs * 44 < 2 ^ 32"
    and k: "k = min (unat (sg_nr_events s)) (unat n_acqs)" "\<forall>a\<in>set (take k acqs). aq_size a = w * 2"
  shows "\<exists>c1. sis33_fetch_ioctl (sis3320_ops bus) True
      (Some \<lparr>al_segment = seg, al_channel = ch, al_n_acqs = n_acqs, al_flags = 1\<rparr>) True (Some acqs) c =
    Some (Inr (k, sg_endtime s,
      fold (\<lambda>i xs. xs[i := fetched20 (mem (hw20 c) (unat ch)) s evs (unat ch) (unat w) (4 * SIS3320_PAGESIZE * unat seg) i (xs ! i)]) [0..<k] acqs), c1)"
proof -
  let ?l = "\<lparr>al_segment = seg, al_channel = ch, al_n_acqs = n_acqs, al_flags = 1\<rparr>"
  let ?c = "upd_segment (unat seg) (\<lambda>s. s\<lparr>sg_transferring := True\<rparr>) c"
  let ?F = "\<lambda>s. fold (\<lambda>i xs. xs[i := fetched20 (mem (hw20 c) (unat ch)) s evs (unat ch) (unat w) (4 * SIS3320_PAGESIZE * unat seg) i (xs ! i)]) [0..<k] acqs"
  have "unat (n_acqs * 44) = unat n_acqs * 44" using acqs(3) by (simp add: unat_mult_lem [THEN iffD1])
  then have len: "acq_array_len n_acqs = unat n_acqs" by (simp add: acq_array_len_def sizeof_acq_def)
  have enter: "sis33_fetch_enter (Some ?l) True (Some acqs) = Inr (?l, acqs)"
    using acqs(1,2) by (simp add: sis33_fetch_enter_def acqf_dontwait_def acqf_timeout_def len)
  have kk: "unat (min (sg_nr_events s) n_acqs) = k" using k(1) by (simp add: min_def word_le_nat_alt)
  have k0: "0 < k" using s(4) acqs(2) k(1) by (simp add: has_events_def unat_gt_0)
  have size: "unat (w * 2) = 2 * unat w" "w * 2 \<noteq> 0"
    using table_length(1,3) [OF w(2)] by (simp_all add: unat_mult_lem [THEN iffD1] unat_eq_zero [symmetric])
  have bufs: "sis33_check_acq_buffers c (unat seg) acqs k = Some OK"
    using k acqs(1) size(2) w(1) s(1) by (auto simp: sis33_check_acq_buffers_def Let_def)
  have first: "sis33_fetch_first (sis3320_ops bus) ?l acqs c = (FetchGo k, ?c)"
    using geometry s kk k0 bufs by (simp add: sis33_fetch_first_def sis33_fetch_check_def Let_def)
  have same: "c_segments ?c ! unat seg = s\<lparr>sg_transferring := True\<rparr>" "hw20 ?c = hw20 c" "knows_page base page ?c"
    using geometry(4) s(1) mem(2) by (simp_all add: upd_segment_def hw20_def knows_page_def)
  have all: "\<forall>i\<in>set [0..<k]. i < length acqs \<and> event_at ?c (unat seg) i (unat w) (4 * SIS3320_PAGESIZE * unat seg) \<and> unat (aq_size (acqs ! i)) = 2 * unat w"
  proof
    fix i assume "i \<in> set [0..<k]"
    then have i: "i < k" "i < length acqs" "i < unat (sg_nr_events s)" using k(1) acqs(1) by simp_all
    have "acqs ! i \<in> set (take k acqs)" using i by (auto simp: in_set_conv_nth)
    then have "aq_size (acqs ! i) = w * 2" using k(2) by blast
    moreover have "event_at ?c (unat seg) i (unat w) (4 * SIS3320_PAGESIZE * unat seg)"
      using geometry w s(1) i(3) same(1)
      by (intro event_in_segment [where m = "unat (sg_nr_events s)"]) (simp_all add: upd_segment_def)
    ultimately show "i < length acqs \<and> event_at ?c (unat seg) i (unat w) (4 * SIS3320_PAGESIZE * unat seg) \<and> unat (aq_size (acqs ! i)) = 2 * unat w"
      using i(2) size(1) by simp
  qed
  have "has_events (c_segments ?c ! unat seg) evs" using s(4) unfolding same by (simp add: has_events_def)
  from fetch_loop_reads [OF mem(1) geometry(6) table_length(1) [OF w(2)] same(3) this all] obtain c2 where
    "fetch_loop20 bus (unat seg) (unat ch) [0..<k] acqs ?c = (OK, ?F (s\<lparr>sg_transferring := True\<rparr>), c2)"
    unfolding same(1,2) by blast
  moreover have "?F (s\<lparr>sg_transferring := True\<rparr>) = ?F s" by (simp add: fetched20_def sis3320_get_event_def)
  ultimately have "sis33_fetch_run (sis3320_ops bus) ?l acqs k ?c = (Inr k, ?F s, c2)"
    by (simp add: sis33_fetch_run_def sis3320_ops_def sis3320_fetch_def)
  then show ?thesis unfolding sis33_fetch_ioctl_def enter first same by (simp add: first same Let_def)
qed


text \<open>The order in which a host sees the samples of the ring: the halves of a word are exchanged on a big-endian one.\<close>

definition ring_index :: "bool \<Rightarrow> nat \<Rightarrow> nat \<Rightarrow> nat \<Rightarrow> nat" where
  "ring_index big n first j = (if big then pair_swap ((j + first) mod n) else (j + first) mod n)"

lemma fetched20_sel:
  "aq_first_samp (fetched20 m s evs ch n sb i a) = ev_first_samp (sis3320_get_event s ch i evs)"
  "aq_be (fetched20 m s evs ch n sb i a) = True" "aq_size (fetched20 m s evs ch n sb i a) = aq_size a"
  "aq_nr_samples (fetched20 m s evs ch n sb i a) = ev_nr_samples (sis3320_get_event s ch i evs)"
  by (simp_all add: fetched20_def)

lemma fetched_sample:
  assumes "even n" and "unat (aq_size a) = 2 * n" and "j < n"
    and "unat (ev_first_samp (sis3320_get_event s ch i evs)) \<le> n"
  shows "host_sample big (aq_data (reordered (swap_acq big (fetched20 m s evs ch n sb i a)))) j =
    vme_sample (\<lambda>x. m (sb + i * (2 * n) + x)) (ring_index big n (unat (ev_first_samp (sis3320_get_event s ch i evs))) j)"
proof -
  let ?f = "unat (ev_first_samp (sis3320_get_event s ch i evs))"
  have fill: "filled n (fetched20 m s evs ch n sb i a)" using assms by (simp add: filled_def fetched20_def)
  have r: "(j + ?f) mod n < n" using assms(3) by simp
  then have "ring_index big n ?f j < n" using pair_swap_less [OF assms(1) r] by (simp add: ring_index_def)
  then have "vme_sample (aq_data (fetched20 m s evs ch n sb i a)) (ring_index big n ?f j) =
      vme_sample (\<lambda>x. m (sb + i * (2 * n) + x)) (ring_index big n ?f j)"
    using assms(1) by (intro vme_sample_local [of n]) (simp_all add: fetched20_def overwrite_def)
  moreover have "host_sample big (aq_data (reordered (swap_acq big (fetched20 m s evs ch n sb i a)))) j =
      vme_sample (aq_data (fetched20 m s evs ch n sb i a)) (ring_index big n ?f j)"
    using normalized_sample [OF fill assms(3), of big] unfolding ring_index_def fetched20_sel by blast
  ultimately show ?thesis by simp
qed


section \<open>Fetching through the library\<close>

text \<open>
  What a fetch relies on: a card with the memory layout of the SIS3320, an idle segment with events of a length of the table that
  fit the segment, and buffers of the right size for them.
\<close>

definition fetch_ready :: "'h card20 \<Rightarrow> nat \<Rightarrow> sis33_event list \<Rightarrow> sis33_acq list \<Rightarrow> bool" where
  "fetch_ready c seg evs acqs \<longleftrightarrow>
    (let s = c_segments c ! seg; w = sg_nr_samp_per_ev s in
     c_ev_lengths c = sis3320_ev_lengths \<and> c_n_segments c \<in> {1, 2} \<and> seg < c_n_segments c \<and> seg < length (c_segments c) \<and>
     c_n_channels c = 8 \<and> \<not> sg_acquiring s \<and> \<not> sg_transferring s \<and> has_events s evs \<and> w \<in> set sis3320_ev_lengths \<and>
     unat (sg_nr_events s) * unat w \<le> 0x2000000 div c_n_segments c \<and>
     acqs \<noteq> [] \<and> length acqs * 44 < 2 ^ 32 \<and> list_all (\<lambda>a. aq_size a = w * 2) acqs)"

text \<open>
  C27: A user fetches events of a SIS3320 from an idle segment. Whatever page was selected before and whether
  events are smaller or larger than a page, the call gives as many events as there are and as there are buffers, and sample
  \<open>j\<close> in the buffer of event \<open>i\<close> is sample \<open>j\<close> of the card's ring for that event counted from the oldest one, on a little-endian
  host; a big-endian host gets the two samples of each word exchanged.
\<close>

theorem fetched_samples_in_order:
  fixes seg ch :: u32
  assumes mem: "paged_memory bus base page mem" "knows_page base page c" and ch: "unat ch < 8"
    and ready: "fetch_ready c (unat seg) evs acqs"
    and s: "s = c_segments c ! unat seg" and n: "n = unat (sg_nr_samp_per_ev s)"
    and firsts: "\<And>i. i < unat (sg_nr_events s) \<Longrightarrow> unat (ev_first_samp (sis3320_get_event s (unat ch) i evs)) \<le> n"
  shows "\<exists>acqs1 c1.
    sis33_fetch big (\<lambda>_. True) (sis3320_ops bus) True True seg ch (Some acqs) (of_nat (length acqs)) c =
      Some (Some (min (unat (sg_nr_events s)) (length acqs), sg_endtime s, acqs1), c1) \<and>
    (\<forall>i < min (unat (sg_nr_events s)) (length acqs).
      aq_nr_samples (acqs1 ! i) = ev_nr_samples (sis3320_get_event s (unat ch) i evs) \<and>
      (\<forall>j < n. host_sample big (aq_data (acqs1 ! i)) j =
        vme_sample (\<lambda>x. mem (hw20 c) (unat ch) (4 * SIS3320_PAGESIZE * unat seg + i * (2 * n) + x))
          (ring_index big n (unat (ev_first_samp (sis3320_get_event s (unat ch) i evs))) j)))"
proof -
  define k where "k = min (unat (sg_nr_events s)) (length acqs)"
  define w where "w = sg_nr_samp_per_ev s"
  let ?G = "fetched20 (mem (hw20 c) (unat ch)) s evs (unat ch) n (4 * SIS3320_PAGESIZE * unat seg)"
  let ?fetched = "fold (\<lambda>i xs. xs[i := ?G i (xs ! i)]) [0..<k] acqs"
  have len: "unat (of_nat (length acqs) :: u32) = length acqs" "(of_nat (length acqs) :: u32) \<noteq> 0"
    using ready by (auto simp: fetch_ready_def Let_def unat_of_nat take_bit_nat_eq_self word_of_nat_eq_0_iff dest: dvd_imp_le)
  have wl: "w \<in> set sis3320_ev_lengths" and kl: "k \<le> length acqs" using ready by (simp_all add: fetch_ready_def Let_def w_def s k_def)
  have sizes: "unat (aq_size a) = 2 * n" if "a \<in> set acqs" for a
    using that ready table_length(3) [OF wl] by (auto simp: fetch_ready_def Let_def list_all_iff n w_def s unat_mult_lem [THEN iffD1])
  have idx: "length ?fetched = length acqs" "\<And>i. i < k \<Longrightarrow> ?fetched ! i = ?G i (acqs ! i)"
    using fold_update_index [OF kl, of ?G] kl by auto
  obtain c1 where ioctl: "sis33_fetch_ioctl (sis3320_ops bus) True
      (Some \<lparr>al_segment = seg, al_channel = ch, al_n_acqs = of_nat (length acqs), al_flags = 1\<rparr>) True (Some acqs) c =
    Some (Inr (k, sg_endtime s, ?fetched), c1)"
    using fetch_ioctl_reads [OF mem, of seg ch s evs w acqs "of_nat (length acqs)" k] ready ch len
    by (auto simp: fetch_ready_def Let_def list_all_iff s w_def n k_def dest: in_set_takeD)
  have fill: "filled n (?G i (acqs ! i))" if "i < k" for i
    using that sizes [of "acqs ! i"] kl firsts [of i] table_length(2) [OF wl] by (simp add: filled_def fetched20_sel n w_def k_def)
  have "\<forall>a\<in>set (take k ?fetched). filled n a"
    using fill idx kl by (auto simp: in_set_conv_nth)
  from normalize_all [OF _ _ this, of "\<lambda>_. True" big] have
    norm: "sis33acq_list_normalize big (\<lambda>_. True) ?fetched k =
      Some (True, map (\<lambda>a. reordered (swap_acq big a)) (take k ?fetched) @ drop k ?fetched)" using idx(1) kl by simp
  have at: "(map (\<lambda>a. reordered (swap_acq big a)) (take k ?fetched) @ drop k ?fetched) ! i = reordered (swap_acq big (?G i (acqs ! i)))"
    if "i < k" for i using that idx kl by (simp add: nth_append)
  have keep: "aq_nr_samples (reordered (swap_acq big a)) = aq_nr_samples a" for a by (simp add: reordered_def swap_acq_def Let_def)
  show ?thesis
    unfolding k_def [symmetric] sis33_fetch_def lib_fetch_def Let_def ioctl
    using at len(2) norm kl firsts table_length(2) [OF wl] sizes
    by (auto simp: keep fetched20_sel fetched_sample n w_def k_def)
qed


text \<open>A card that shows the hypotheses can hold: its state is the page register, and a byte of a channel tells its place.\<close>

lemma bytes_word_of_word: "bytes_word False (word_bytes False 4 v) = v"
proof (rule bit_word_eqI)
  fix k assume "k < LENGTH(32)"
  then have "k < 32" by simp
  then have "k < 8 \<or> (\<exists>r<8. k = 8 + r) \<or> (\<exists>r<8. k = 16 + r) \<or> (\<exists>r<8. k = 24 + r)" by presburger
  moreover have "word_bytes False 4 v = [ucast v, ucast (drop_bit 8 v), ucast (drop_bit 16 v), ucast (drop_bit 24 v)]"
    by (simp add: word_bytes_def upt_rec)
  ultimately show "bit (bytes_word False (word_bytes False 4 v)) k = bit v k"
    by (elim disjE exE conjE) (auto simp: bytes_word_def bit_simps)
qed

definition demo_mem :: "u32 \<Rightarrow> nat \<Rightarrow> nat \<Rightarrow> u8" where
  "demo_mem h ch x = of_nat (ch + x)"

definition demo_bus :: "u32 sis33_bus" where
  "demo_bus = \<lparr>do_dma = (\<lambda>to_user req bs h.
      if dm_dir req = VME_DMA_TO_DEVICE then (OK, [], if da_addrl (dm_dst req) = SIS3320_ADC_MEM_PAGE then bytes_word False (rev bs) else h)
      else let a = unat (da_addrl (dm_src req)) - 0x4000000
           in (OK, slice (demo_mem h (a div SIS3320_PAGESIZE)) (unat h * SIS3320_PAGESIZE + a mod SIS3320_PAGESIZE) (unat (dm_length req)), h)),
    bus_big = True, kbuf_addr = 0, user_ok = (\<lambda>_. True), beyond = (\<lambda>_. 0), kalloc = (\<lambda>h. (True, h)), timeofday = (\<lambda>h. (0, h)),
    irq_request = (\<lambda>v h. (OK, h)), irq_free = (\<lambda>v h. (OK, h))\<rparr>"

lemma demo_window:
  assumes "ch < 8" and "off < SIS3320_PAGESIZE"
  shows "unat (SIS3320_MEM_ADC ch + of_nat off) - 0x4000000 = ch * SIS3320_PAGESIZE + off"
proof -
  have "SIS3320_MEM_ADC ch + of_nat off = of_nat (0x4000000 + ch * SIS3320_PAGESIZE + off)"
    by (simp add: SIS3320_MEM_ADC_def SIS3320_PAGESIZE_def)
  moreover have "0x4000000 + ch * SIS3320_PAGESIZE + off < 2 ^ 32" using assms by (simp add: SIS3320_PAGESIZE_def)
  then have "unat (of_nat (0x4000000 + ch * SIS3320_PAGESIZE + off) :: u32) = 0x4000000 + ch * SIS3320_PAGESIZE + off"
    by (simp only: unat_of_nat) (simp add: take_bit_nat_eq_self)
  ultimately show ?thesis by simp
qed

lemma demo_paged_memory: "paged_memory demo_bus 0 (\<lambda>h. h) demo_mem"
proof -
  have rev: "rev (word_bytes True 4 v) = word_bytes False 4 v" for v by (simp add: word_bytes_def Let_def)
  have w: "sis33_dma_write demo_bus (0 + SIS3320_ADC_MEM_PAGE) v h = v" for v h
    by (simp add: sis33_dma_write_def demo_bus_def dma_request_def vme_side_def zero_dma_attr_def cpu_to_be32_def bytes_word_of_word rev)
  have r: "sis33_dma_read_mblt_user demo_bus (0 + SIS3320_MEM_ADC ch + of_nat off) addr n h =
      (OK, slice (demo_mem h ch) (unat h * SIS3320_PAGESIZE + off) n, h)" if "ch < 8" "off + n \<le> SIS3320_PAGESIZE" for ch off addr n h
  proof (cases "n = 0")
    case False
    then have o: "off < SIS3320_PAGESIZE" using that(2) by simp
    have "n < 2 ^ 32" using that(2) by (simp add: SIS3320_PAGESIZE_def)
    then have l: "unat (of_nat n :: u32) = n" by (simp add: unat_of_nat take_bit_nat_eq_self)
    have "(ch * SIS3320_PAGESIZE + off) div SIS3320_PAGESIZE = ch" "(ch * SIS3320_PAGESIZE + off) mod SIS3320_PAGESIZE = off"
      using o by (simp_all add: div_mult_self3)
    then show ?thesis
      using demo_window [OF that(1) o]
      by (simp add: sis33_dma_read_mblt_user_def sis33_dma_def demo_bus_def dma_request_def vme_side_def zero_dma_attr_def l Let_def)
  qed (simp add: sis33_dma_read_mblt_user_def sis33_dma_def demo_bus_def dma_request_def slice_def Let_def)
  show ?thesis unfolding paged_memory_def w using r by (simp add: demo_mem_def fun_eq_iff)
qed


definition demo_card :: "u32 card20" where
  "demo_card = (zero_card 0 \<lparr>s_vme_base = 0, s_version = 200, s_completion = False, s_curr_page = 5, s_hw = 5\<rparr>)
    \<lparr>c_ev_lengths := sis3320_ev_lengths, c_n_segments := 2, c_n_channels := 8,
     c_segments := [zero_segment, zero_segment\<lparr>sg_nr_samp_per_ev := 64, sg_nr_events := 1,
       sg_events := Ptr (replicate 8 \<lparr>ev_nr_samples = 64, ev_first_samp = 4\<rparr>)\<rparr>]\<rparr>"

definition demo_acq :: sis33_acq where
  "demo_acq = \<lparr>aq_addr = 0, aq_data = (\<lambda>_. 0), aq_size = 128, aq_nr_samples = 0, aq_prevticks = 0, aq_first_samp = 0, aq_be = False\<rparr>"

theorem fetched_samples_in_order_witness:
  "\<exists>acqs1 c1. sis33_fetch False (\<lambda>_. True) (sis3320_ops demo_bus) True True 1 3 (Some [demo_acq]) 1 demo_card =
      Some (Some (1, 0, acqs1), c1) \<and>
    host_sample False (aq_data (acqs1 ! 0)) 61 = vme_sample (\<lambda>x. of_nat (3 + (4 * SIS3320_PAGESIZE + x))) 1"
proof -
  let ?evs = "replicate 8 \<lparr>ev_nr_samples = 64, ev_first_samp = 4\<rparr>"
  let ?s = "zero_segment\<lparr>sg_nr_samp_per_ev := 64, sg_nr_events := 1, sg_events := Ptr ?evs\<rparr>"
  have k: "knows_page 0 (\<lambda>h. h) demo_card" by (simp add: knows_page_def demo_card_def hw20_def zero_card_def)
  have s: "?s = c_segments demo_card ! unat (1 :: u32)" by (simp add: demo_card_def)
  have r: "fetch_ready demo_card (unat (1 :: u32)) ?evs [demo_acq]"
    by (simp add: fetch_ready_def Let_def demo_card_def has_events_def zero_segment_def demo_acq_def sis3320_ev_lengths_def)
  have e: "sis3320_get_event ?s (unat (3 :: u32)) 0 ?evs = \<lparr>ev_nr_samples = 64, ev_first_samp = 4\<rparr>"
    by (simp add: sis3320_get_event_def)
  have f: "unat (ev_first_samp (sis3320_get_event ?s (unat (3 :: u32)) i ?evs)) \<le> 64" if "i < unat (sg_nr_events ?s)" for i
    using that e by simp
  obtain acqs1 c1 where "sis33_fetch False (\<lambda>_. True) (sis3320_ops demo_bus) True True 1 3 (Some [demo_acq]) (of_nat (length [demo_acq])) demo_card =
      Some (Some (min (unat (sg_nr_events ?s)) (length [demo_acq]), sg_endtime ?s, acqs1), c1)"
    and x: "\<forall>i < min (unat (sg_nr_events ?s)) (length [demo_acq]).
      aq_nr_samples (acqs1 ! i) = ev_nr_samples (sis3320_get_event ?s (unat (3 :: u32)) i ?evs) \<and>
      (\<forall>j < 64. host_sample False (aq_data (acqs1 ! i)) j =
        vme_sample (\<lambda>x. demo_mem (hw20 demo_card) (unat (3 :: u32)) (4 * SIS3320_PAGESIZE * unat (1 :: u32) + i * (2 * 64) + x))
          (ring_index False 64 (unat (ev_first_samp (sis3320_get_event ?s (unat (3 :: u32)) i ?evs))) j))"
    using fetched_samples_in_order [where ch = 3 and n = 64 and big = False, OF demo_paged_memory k _ r s] f by auto
  then show ?thesis using x [rule_format, of 0, THEN conjunct2, rule_format, of 61] e by (simp add: zero_segment_def ring_index_def demo_mem_def)
qed

end
