(* ===== verification/Sis33_Props.thy ===== *)
theory Sis33_Props
  imports Sis3300 Sis3320_Props
begin

text \<open>
  The digitizer drivers on the core: exclusion of acquisitions and transfers on both cards, the samples of a channel
  on the SIS3300, and where checks of the core and of the drivers let through what they mean to
  refuse.
\<close>

section \<open>Acquisitions and transfers exclude each other\<close>

text \<open>
  Safe states: one segment acquires at most, none acquires while it is transferred, no two processes transfer the same
  segment, and no process transfers a segment that acquires.
\<close>

definition exclusive :: "'p sis33_card \<times> (nat \<Rightarrow> sis33_proc) \<Rightarrow> bool" where
  "exclusive x \<longleftrightarrow>
    (\<forall>i j. acquires (fst x) i \<longrightarrow> acquires (fst x) j \<longrightarrow> i = j) \<and> (\<forall>i. \<not> (acquires (fst x) i \<and> transfers (fst x) i)) \<and>
    (\<forall>t t' i. fetch_segment (snd x t) = Some i \<longrightarrow> fetch_segment (snd x t') = Some i \<longrightarrow> t = t') \<and>
    (\<forall>t i. fetch_segment (snd x t) = Some i \<longrightarrow> \<not> acquires (fst x) i)"

lemma sis33_ok_is_exclusive: "sis33_ok x \<Longrightarrow> exclusive x"
  using sis33_ok_exclusive [of "fst x" "snd x"] by (simp add: exclusive_def)

text \<open>
  C28: From the registration of a SIS3320 on, under every interleaving of acquisitions, fetches with and without waiting,
  attribute stores, cancellations and interrupts, acquisitions and transfers exclude each other: at most one segment acquires, no segment
  is transferred while it acquires, and no two processes transfer the same segment.
\<close>

theorem sis3320_acquisitions_exclude_transfers:
  assumes "sis33_start (c, \<lambda>_. PIdle)"
    and "(sis33_step (sis3320_ops bus) (\<lambda>c. Some (sis3320_irq_work bus c)))\<^sup>*\<^sup>* (c, \<lambda>_. PIdle) y"
  shows "exclusive y"
  using sis20.runs.reachable_safe [OF sis33_ok_is_exclusive assms] .

text \<open>The same holds of the SIS3300, whose interrupt work is a loop.\<close>

lemma sis3300_acquisitions_exclude_transfers:
  assumes "sis33_start (c, \<lambda>_. PIdle)"
    and "(sis33_step (sis3300_ops bus) (sis3300_irq_work bus))\<^sup>*\<^sup>* (c, \<lambda>_. PIdle) y"
  shows "exclusive y"
  using sis00.runs.reachable_safe [OF sis33_ok_is_exclusive assms] .

definition idle_card :: "u32 card20" where
  "idle_card = fill_card20 (zero_card 0 \<lparr>s_vme_base = 0, s_version = 200, s_completion = False, s_curr_page = 0, s_hw = 0\<rparr>)"

definition demo_desc :: sis33_acq_desc where
  "demo_desc = \<lparr>ad_segment = 1, ad_nr_events = 1, ad_ev_length = 64, ad_flags = 1\<rparr>"

lemma idle_card_start: "sis33_start (idle_card, \<lambda>_. PIdle)"
proof -
  have "\<not> sg_acquiring (replicate 2 zero_segment ! i) \<and> \<not> sg_transferring (replicate 2 zero_segment ! i)" if "i < 2" for i
    using that by (simp add: zero_segment_def)
  then show ?thesis by (simp add: sis33_start_def table_ok_def acquires_def transfers_def idle_card_def fill_card20_def Let_def)
qed

lemma idle_card_acquires:
  "\<exists>c1. sis33_acq_begin (sis3320_ops demo_bus) demo_desc idle_card = (OK, c1) \<and> acquires c1 1"
proof -
  have c: "c_max_nr_events idle_card = 512" "c_n_segments idle_card = 2" "c_n_segments_min idle_card = 1"
    "c_ev_lengths idle_card = sis3320_ev_lengths" "c_segments idle_card = replicate 2 zero_segment"
    by (simp_all add: idle_card_def fill_card20_def Let_def)
  have "c_segments (snd (sis3320_conf_ev demo_bus demo_desc idle_card)) = replicate 2 zero_segment"
    by (simp add: sis3320_conf_ev_def Let_def sis3320_writew_def set_hw20_def c)
  moreover have "fst (sis3320_conf_ev demo_bus demo_desc idle_card) = OK" by (simp add: sis3320_conf_ev_def Let_def)
  ultimately obtain c1 where "sis3320_conf_ev demo_bus demo_desc idle_card = (OK, c1)" "c_segments c1 = replicate 2 zero_segment"
    by (metis prod.collapse)
  then show ?thesis
    by (simp add: sis33_acq_begin_def Let_def demo_desc_def acqf_dontwait_def acqf_timeout_def c sis33_value_is_in_array_def
        sis3320_ev_lengths_def sis33_segment_max_nr_samples_def sis33_is_acquiring_def zero_segment_def upt_rec
        sis3320_ops_def acquires_def upd_segment_def)
qed

theorem sis3320_acquisitions_exclude_transfers_witness:
  "\<exists>c1. acquires c1 1 \<and> exclusive (c1 :: u32 card20, (\<lambda>_. PIdle)(7 := PArm demo_desc))"
proof -
  obtain c1 where 1: "sis33_acq_begin (sis3320_ops demo_bus) demo_desc idle_card = (OK, c1)" "acquires c1 1"
    using idle_card_acquires by blast
  have "sis33_step (sis3320_ops demo_bus) (\<lambda>c. Some (sis3320_irq_work demo_bus c)) (idle_card, \<lambda>_. PIdle)
      (c1, (\<lambda>_. PIdle)(7 := PArm demo_desc))"
    by (rule acq_begun [OF _ 1(1)]) simp
  then have "exclusive (c1, (\<lambda>_. PIdle)(7 := PArm demo_desc))"
    by (intro sis3320_acquisitions_exclude_transfers [OF idle_card_start]) (rule r_into_rtranclp)
  with 1(2) show ?thesis by blast
qed


section \<open>Samples of a SIS3300 channel\<close>

lemma half_word: "bytes_word big (word_bytes big 2 v) = take_bit 16 v"
proof -
  have "bytes_word False [ucast v, ucast (drop_bit 8 v)] = take_bit 16 v"
  proof (rule bit_word_eqI)
    fix k assume "k < LENGTH(32)"
    have "k < 8 \<or> (\<exists>r<8. k = 8 + r) \<or> 16 \<le> k" by presburger
    then show "bit (bytes_word False [ucast v, ucast (drop_bit 8 v)]) k = bit (take_bit 16 v) k"
      by (elim disjE exE conjE) (auto simp: bytes_word_def bit_simps)
  qed
  moreover have "bytes_word big (word_bytes big 2 v) = bytes_word False [ucast v, ucast (drop_bit 8 v)]"
    by (cases big) (simp_all add: bytes_word_rev word_bytes_def upt_rec)
  ultimately show ?thesis by simp
qed

lemma adc_data_small: "take_bit 16 (adc_data ch w) = adc_data ch w"
proof -
  have m: "(0xfff :: u32) = mask 12" "(0xfff0000 :: u32) = push_bit 16 (mask 12)" by (simp_all add: mask_eq_exp_minus_1 push_bit_eq_mult)
  show ?thesis by (rule bit_word_eqI) (auto simp: adc_data_def m bit_simps)
qed

lemma put_sample: "host_sample big (overwrite f (2 * i) (word_bytes big 2 v)) j = (if j = i then take_bit 16 v else host_sample big f j)"
proof (cases "j = i")
  case True
  have "word_bytes big 2 v = [word_bytes big 2 v ! 0, word_bytes big 2 v ! 1]" by (simp add: list_eq_iff_nth_eq less_Suc_eq numeral_eq_Suc)
  then have "host_sample big (overwrite f (2 * i) (word_bytes big 2 v)) i = bytes_word big (word_bytes big 2 v)"
    by (simp add: host_sample_bytes overwrite_def)
  then show ?thesis using True by (simp add: half_word)
next
  case False
  then have "overwrite f (2 * i) (word_bytes big 2 v) (2 * j) = f (2 * j)"
    "overwrite f (2 * i) (word_bytes big 2 v) (2 * j + 1) = f (2 * j + 1)"
    by (auto simp: overwrite_def)
  then show ?thesis using False by (simp only: host_sample_bytes if_False)
qed

lemma put_samples_all:
  assumes "\<forall>a. user_ok bus a"
  shows "\<exists>f. put_samples bus ch buf start is a = (OK, a\<lparr>aq_data := f\<rparr>) \<and>
    (\<forall>j. host_sample (bus_big bus) f j =
      (if j \<in> set is then adc_data ch (raw_word bus buf (start + j)) else host_sample (bus_big bus) (aq_data a) j))"
proof (induction "is" arbitrary: a)
  case (Cons i "is")
  let ?a = "a\<lparr>aq_data := overwrite (aq_data a) (2 * i) (word_bytes (bus_big bus) 2 (adc_data ch (raw_word bus buf (start + i))))\<rparr>"
  obtain f where f: "put_samples bus ch buf start is ?a = (OK, ?a\<lparr>aq_data := f\<rparr>)"
    "\<forall>j. host_sample (bus_big bus) f j =
      (if j \<in> set is then adc_data ch (raw_word bus buf (start + j)) else host_sample (bus_big bus) (aq_data ?a) j)"
    using Cons [of ?a] by blast
  then show ?case using assms by (intro exI [of _ f]) (auto simp: put_sample adc_data_small)
next
  case Nil
  show ?case by (intro exI [of _ "aq_data a"]) simp
qed


text \<open>
  The bits of a channel in a word of its pair: the even one in the upper half. What a fetch leaves in the buffer of event \<open>i\<close>: the data of the event and its samples, from the words \<open>ws\<close> of the bank.
\<close>

definition channel_bits :: "nat \<Rightarrow> u32 \<Rightarrow> u32" where
  "channel_bits ch w = take_bit 12 (drop_bit (if even ch then 16 else 0) w)"

lemma adc_data_is_channel: "adc_data ch = channel_bits ch"
proof
  fix w
  have m: "(0xfff :: u32) = mask 12" "(0xfff0000 :: u32) = push_bit 16 (mask 12)" by (simp_all add: mask_eq_exp_minus_1 push_bit_eq_mult)
  show "adc_data ch w = channel_bits ch w" by (rule bit_word_eqI) (auto simp: adc_data_def channel_bits_def m bit_simps)
qed

definition holds_event00 :: "bool \<Rightarrow> nat \<Rightarrow> (nat \<Rightarrow> u32) \<Rightarrow> nat \<Rightarrow> sis33_event \<Rightarrow> u64 \<Rightarrow> nat \<Rightarrow> sis33_acq \<Rightarrow> bool" where
  "holds_event00 big ch ws n e ticks i a \<longleftrightarrow> aq_prevticks a = ticks \<and> aq_nr_samples a = ev_nr_samples e \<and> aq_first_samp a = ev_first_samp e \<and> \<not> aq_be a \<and>
    (\<forall>j < unat (ev_nr_samples e). host_sample big (aq_data a) j = channel_bits ch (ws (i * n + j)))"

lemma read_event00:
  assumes "\<forall>a. user_ok bus a"
  shows "\<exists>a1. sis3300_read_event bus a ch buf (i * n) t e = (OK, a1) \<and> holds_event00 (bus_big bus) ch (raw_word bus buf) n e t i a1"
  using put_samples_all [OF assms, of ch buf "i * n" "[0..<unat (ev_nr_samples e)]"
      "a\<lparr>aq_nr_samples := ev_nr_samples e, aq_first_samp := ev_first_samp e, aq_prevticks := t, aq_be := False\<rparr>"]
  by (auto simp: sis3300_read_event_def holds_event00_def adc_data_is_channel)

lemma fetch_loop00_all:
  assumes "\<forall>a. user_ok bus a" and "k \<le> length acqs"
  shows "\<exists>acqs1. fetch_loop00 bus ch n buf pt evs [0..<k] acqs = (OK, acqs1) \<and>
    (\<forall>i < k. holds_event00 (bus_big bus) ch (raw_word bus buf) n (evs ! i) (pt ! i) i (acqs1 ! i))"
proof -
  have "\<exists>acqs1. fetch_loop00 bus ch n buf pt evs is acqs = (OK, acqs1) \<and> length acqs1 = length acqs \<and>
      (\<forall>i. acqs1 ! i = acqs ! i \<or> i \<in> set is \<and> holds_event00 (bus_big bus) ch (raw_word bus buf) n (evs ! i) (pt ! i) i (acqs1 ! i)) \<and>
      (\<forall>i \<in> set is. holds_event00 (bus_big bus) ch (raw_word bus buf) n (evs ! i) (pt ! i) i (acqs1 ! i))"
    if "\<forall>i\<in>set is. i < length acqs" for "is" and acqs :: "sis33_acq list"
    using that
  proof (induction "is" arbitrary: acqs)
    case (Cons i "is")
    obtain a1 where a1: "sis3300_read_event bus (acqs ! i) ch buf (i * n) (pt ! i) (evs ! i) = (OK, a1)"
      "holds_event00 (bus_big bus) ch (raw_word bus buf) n (evs ! i) (pt ! i) i a1"
      using read_event00 [OF assms(1)] by blast
    obtain acqs1 where l: "fetch_loop00 bus ch n buf pt evs is (acqs[i := a1]) = (OK, acqs1)" "length acqs1 = length (acqs[i := a1])"
      "\<forall>j. acqs1 ! j = acqs[i := a1] ! j \<or> j \<in> set is \<and> holds_event00 (bus_big bus) ch (raw_word bus buf) n (evs ! j) (pt ! j) j (acqs1 ! j)"
      "\<forall>j \<in> set is. holds_event00 (bus_big bus) ch (raw_word bus buf) n (evs ! j) (pt ! j) j (acqs1 ! j)"
      using Cons.IH [of "acqs[i := a1]"] Cons.prems by (simp only: length_list_update) (meson list.set_intros(2))
    have "holds_event00 (bus_big bus) ch (raw_word bus buf) n (evs ! i) (pt ! i) i (acqs1 ! i)"
      using l(3) a1(2) Cons.prems by (metis list.set_intros(1) nth_list_update_eq)
    moreover have "acqs1 ! j = acqs ! j \<or> j \<in> set is \<and> holds_event00 (bus_big bus) ch (raw_word bus buf) n (evs ! j) (pt ! j) j (acqs1 ! j)"
      if "j \<noteq> i" for j using l(3) that by (metis nth_list_update_neq)
    ultimately show ?case using a1(1) l(1,2,4) by (intro exI [of _ acqs1]) (auto, metis)
  qed auto
  from this [of "[0..<k]" acqs] show ?thesis using assms(2) by auto
qed

text \<open>
  The card behind the bus. Between two acquisitions its memory does not change: a block read of the VME range at \<open>a\<close> gives the bytes \<open>mem a\<close>, \<open>mem (a + 1)\<close> and so on.
  The words of the memory bank of a segment for a pair of channels, of the event directory and of the time stamps, at the addresses of the manual.
\<close>

definition card_bytes :: "(u32 \<Rightarrow> u8) \<Rightarrow> u32 \<Rightarrow> nat \<Rightarrow> u8 list" where
  "card_bytes mem a len = map (\<lambda>i. mem (a + of_nat i)) [0..<len]"

definition reads_card :: "'h sis33_bus \<Rightarrow> (u32 \<Rightarrow> u8) \<Rightarrow> bool" where
  "reads_card bus mem \<longleftrightarrow> (\<forall>to_user req bs h. dm_dir req = VME_DMA_FROM_DEVICE \<and> da_am (dm_src req) \<in> {VME_A32_USER_BLT, VME_A32_USER_MBLT} \<longrightarrow>
     (\<exists>h'. do_dma bus to_user req bs h = (OK, card_bytes mem (da_addrl (dm_src req)) (unat (dm_length req)), h')))"

definition card_word :: "(u32 \<Rightarrow> u8) \<Rightarrow> u32 \<Rightarrow> u32" where
  "card_word mem a = bytes_word True [mem a, mem (a + 1), mem (a + 2), mem (a + 3)]"

definition bank_word :: "(u32 \<Rightarrow> u8) \<Rightarrow> u32 \<Rightarrow> nat \<Rightarrow> nat \<Rightarrow> nat \<Rightarrow> u32" where
  "bank_word mem base seg pair m = card_word mem (base + (0x400000 + of_nat seg * 0x200000 + of_nat pair * 0x80000) + of_nat (4 * m))"

definition dir_event :: "(u32 \<Rightarrow> u8) \<Rightarrow> u32 \<Rightarrow> nat \<Rightarrow> u32 \<Rightarrow> nat \<Rightarrow> sis33_event" where
  "dir_event mem base seg n i =
    (let raw = card_word mem (base + (0x101000 + of_nat seg * 0x1000) + of_nat (4 * i)); stop = (raw AND 0x1ffff) - of_nat i * n
     in if raw AND 0x80000 \<noteq> 0 then \<lparr>ev_nr_samples = n, ev_first_samp = stop\<rparr> else \<lparr>ev_nr_samples = stop, ev_first_samp = 0\<rparr>)"

definition dir_ticks :: "(u32 \<Rightarrow> u8) \<Rightarrow> u32 \<Rightarrow> nat \<Rightarrow> nat \<Rightarrow> u64" where
  "dir_ticks mem base seg i = ucast (card_word mem (base + push_bit seg 0x1000 + of_nat (4 * i)) AND 0xffffff)"

text \<open>
  What the caches of a segment may hold: nothing, as the start of an acquisition leaves them, or what the card has, as a fetch leaves them.
\<close>

definition caches_hold :: "(u32 \<Rightarrow> u8) \<Rightarrow> nat \<Rightarrow> 'h card00 \<Rightarrow> bool" where
  "caches_hold mem seg c \<longleftrightarrow>
    (let s = c_segments c ! seg; base = t_vme_base (c_private c); N = unat (sg_nr_events s); n = sg_nr_samp_per_ev s; sc = t_sampcache (c_private c)
     in seg < length (c_segments c) \<and> seg < length sc \<and> length (sc ! seg) = 4
        \<and> (\<forall>evs. sg_events s = Ptr evs \<longrightarrow> evs = map (dir_event mem base seg n) [0..<N])
        \<and> (\<forall>pt. sg_prevticks s = Ptr pt \<longrightarrow> pt = map (dir_ticks mem base seg) [0..<N])
        \<and> (\<forall>g < 4. \<forall>buf. sc ! seg ! g = Some buf \<longrightarrow> buf = map (bank_word mem base seg g) [0..<N * unat n]))"

definition same_setup :: "nat \<Rightarrow> 'h card00 \<Rightarrow> 'h card00 \<Rightarrow> bool" where
  "same_setup seg c d \<longleftrightarrow> t_vme_base (c_private d) = t_vme_base (c_private c)
     \<and> sg_nr_events (c_segments d ! seg) = sg_nr_events (c_segments c ! seg)
     \<and> sg_nr_samp_per_ev (c_segments d ! seg) = sg_nr_samp_per_ev (c_segments c ! seg)"

lemma word_at_card:
  assumes "4 * i + 4 \<le> len"
  shows "be32_to_cpu (\<not> big) (word_at big (card_bytes mem a len) i) = card_word mem (a + of_nat (4 * i))"
proof -
  have "take 4 (drop (4 * i) (card_bytes mem a len)) = map (\<lambda>k. mem (a + of_nat k)) [4 * i, 4 * i + 1, 4 * i + 2, 4 * i + 3]"
    using assms by (simp add: take4_drop card_bytes_def)
  then show ?thesis
    using be32_word_at [of i "card_bytes mem a len" big] assms by (simp add: word_at_def card_word_def card_bytes_def ac_simps)
qed

lemma dma_reads_card:
  assumes "reads_card bus mem" and "len < 2 ^ 32" and "am \<in> {VME_A32_USER_BLT, VME_A32_USER_MBLT}"
  shows "\<exists>h'. sis33_dma bus a am addr len to_user h = (OK, card_bytes mem a len, h')"
proof -
  have "unat (of_nat len :: u32) = len" using assms(2) by (simp add: unat_of_nat take_bit_nat_eq_self)
  moreover let ?req = "dma_request VME_DMA_FROM_DEVICE (of_nat len) VME_DMA_BSIZE_2048 (vme_side am a) (pci_side addr)"
  have "\<exists>h'. do_dma bus to_user ?req [] h = (OK, card_bytes mem (da_addrl (dm_src ?req)) (unat (dm_length ?req)), h')"
    by (rule assms(1) [unfolded reads_card_def, rule_format]) (use assms(3) in \<open>simp add: dma_request_def vme_side_def\<close>)
  ultimately show ?thesis by (simp add: sis33_dma_def dma_request_def vme_side_def)
qed

lemma blt_reads:
  assumes "reads_card bus mem" and "4 * N < 2 ^ 32"
  shows "\<exists>h'. sis33_dma_read32be_blt bus a N h = (Inr (map (\<lambda>i. card_word mem (a + of_nat (4 * i))) [0..<N]), h')"
proof -
  obtain h' where "sis33_dma bus a VME_A32_USER_BLT (kbuf_addr bus) (N * 4) False h = (OK, card_bytes mem a (N * 4), h')"
    using dma_reads_card [OF assms(1), of "N * 4" VME_A32_USER_BLT a "kbuf_addr bus" False h] assms(2) by (auto simp: mult.commute)
  then show ?thesis by (simp add: sis33_dma_read32be_blt_def word_at_card)
qed

lemma alloc_succeeds: "\<forall>h. fst (kalloc bus h) \<Longrightarrow> \<exists>h. alloc00 bus c = (True, set_hw00 h c)"
  by (metis (mono_tags, lifting) alloc00_def case_prod_conv prod.collapse)

lemma set_hw00_fields [simp]:
  "c_segments (set_hw00 h c) = c_segments c" "t_vme_base (c_private (set_hw00 h c)) = t_vme_base (c_private c)"
  "t_sampcache (c_private (set_hw00 h c)) = t_sampcache (c_private c)"
  by (simp_all add: set_hw00_def)

lemma caches_hold_hw [simp]: "caches_hold mem seg (set_hw00 h c) = caches_hold mem seg c"
  by (simp add: caches_hold_def)

lemma same_setup_hw [simp]: "same_setup seg c (set_hw00 h d) = same_setup seg c d" "same_setup seg c c"
  by (simp_all add: same_setup_def)

text \<open>Each cache, filled or not, gives what the card has, and holds it afterwards.\<close>

lemma evcache_holds:
  assumes "reads_card bus mem" and "\<forall>h. fst (kalloc bus h)" and "caches_hold mem seg c" and "4 * unat (sg_nr_events (c_segments c ! seg)) < 2 ^ 32"
  shows "\<exists>d. sis3300_evcache_get bus seg c = (Inr (map (dir_event mem (t_vme_base (c_private c)) seg (sg_nr_samp_per_ev (c_segments c ! seg)))
      [0..<unat (sg_nr_events (c_segments c ! seg))]), d) \<and> caches_hold mem seg d \<and> same_setup seg c d"
proof (cases "\<exists>evs. sg_events (c_segments c ! seg) = Ptr evs")
  case True
  then show ?thesis using assms(3) by (auto simp: sis3300_evcache_get_def caches_hold_def Let_def)
next
  case False
  let ?N = "unat (sg_nr_events (c_segments c ! seg))"
  obtain h1 where 1: "alloc00 bus c = (True, set_hw00 h1 c)" using alloc_succeeds [OF assms(2)] by blast
  obtain h2 where 2: "alloc00 bus (set_hw00 h1 c) = (True, set_hw00 h2 (set_hw00 h1 c))" using alloc_succeeds [OF assms(2)] by blast
  let ?c = "set_hw00 h2 (set_hw00 h1 c)"
  obtain h3 where 3: "sis33_dma_read32be_blt bus (t_vme_base (c_private ?c) + EV_DIR seg) ?N (hw00 ?c) =
      (Inr (map (\<lambda>i. card_word mem (t_vme_base (c_private ?c) + EV_DIR seg + of_nat (4 * i))) [0..<?N]), h3)"
    using blt_reads [OF assms(1,4)] by blast
  have ev: "map (sis3300_process_raw_event ?c seg (map (\<lambda>i. card_word mem (t_vme_base (c_private ?c) + EV_DIR seg + of_nat (4 * i))) [0..<?N])) [0..<?N]
      = map (dir_event mem (t_vme_base (c_private c)) seg (sg_nr_samp_per_ev (c_segments c ! seg))) [0..<?N]"
    by (simp add: sis3300_process_raw_event_def dir_event_def EV_DIR_def Let_def)
  have "sis3300_evcache_get bus seg c = (Inr (map (dir_event mem (t_vme_base (c_private c)) seg (sg_nr_samp_per_ev (c_segments c ! seg))) [0..<?N]),
      upd_segment seg (\<lambda>s. s\<lparr>sg_events := Ptr (map (dir_event mem (t_vme_base (c_private c)) seg (sg_nr_samp_per_ev (c_segments c ! seg))) [0..<?N])\<rparr>)
        (set_hw00 h3 ?c))"
    using False 1 2 3 ev by (cases "sg_events (c_segments c ! seg)") (simp_all add: sis3300_evcache_get_def sis3300_read_events_dir_def del: map_eq_conv)
  then show ?thesis using assms(3) by (auto simp: upd_segment_def caches_hold_def same_setup_def Let_def)
qed

lemma pt_cache_holds:
  assumes "reads_card bus mem" and "\<forall>h. fst (kalloc bus h)" and "caches_hold mem seg c" and "4 * unat (sg_nr_events (c_segments c ! seg)) < 2 ^ 32"
  shows "\<exists>d. sis3300_pt_cache_get bus seg c = (Inr (map (dir_ticks mem (t_vme_base (c_private c)) seg) [0..<unat (sg_nr_events (c_segments c ! seg))]), d)
    \<and> caches_hold mem seg d \<and> same_setup seg c d"
proof (cases "\<exists>pt. sg_prevticks (c_segments c ! seg) = Ptr pt")
  case True
  then show ?thesis using assms(3) by (auto simp: sis3300_pt_cache_get_def caches_hold_def Let_def)
next
  case False
  let ?N = "unat (sg_nr_events (c_segments c ! seg))"
  obtain h1 where 1: "alloc00 bus c = (True, set_hw00 h1 c)" using alloc_succeeds [OF assms(2)] by blast
  let ?c = "set_hw00 h1 c"
  obtain h3 where 3: "sis33_dma_read32be_blt bus (t_vme_base (c_private ?c) + SIS3300_EV_TSTAMP seg) ?N (hw00 ?c) =
      (Inr (map (\<lambda>i. card_word mem (t_vme_base (c_private ?c) + SIS3300_EV_TSTAMP seg + of_nat (4 * i))) [0..<?N]), h3)"
    using blt_reads [OF assms(1,4)] by blast
  have "sis3300_pt_cache_get bus seg c = (Inr (map (dir_ticks mem (t_vme_base (c_private c)) seg) [0..<?N]),
      upd_segment seg (\<lambda>s. s\<lparr>sg_prevticks := Ptr (map (dir_ticks mem (t_vme_base (c_private c)) seg) [0..<?N])\<rparr>) (set_hw00 h3 ?c))"
    using False 1 3 by (cases "sg_prevticks (c_segments c ! seg)")
      (simp_all add: sis3300_pt_cache_get_def sis3300_fill_pt_cache_def dir_ticks_def [abs_def] SIS3300_EV_TSTAMP_def comp_def)
  then show ?thesis using assms(3) by (auto simp: upd_segment_def caches_hold_def same_setup_def Let_def)
qed

lemma sampcache_holds:
  assumes "reads_card bus mem" and "\<forall>h. fst (kalloc bus h)" and "caches_hold mem seg c" and "ch < 8"
    and "unat (sg_nr_events (c_segments c ! seg)) * unat (sg_nr_samp_per_ev (c_segments c ! seg)) * 4 < 2 ^ 32"
  shows "\<exists>d. sis3300_sampcache_get bus seg ch c = (Inr (map (bank_word mem (t_vme_base (c_private c)) seg (ch div 2))
      [0..<unat (sg_nr_events (c_segments c ! seg)) * unat (sg_nr_samp_per_ev (c_segments c ! seg))]), d) \<and> caches_hold mem seg d \<and> same_setup seg c d"
proof (cases "t_sampcache (c_private c) ! seg ! (ch div 2)")
  case (Some buf)
  then show ?thesis using assms(3,4) by (auto simp: sis3300_sampcache_get_def caches_hold_def Let_def)
next
  case None
  let ?s = "c_segments c ! seg"
  define m where "m = unat (sg_nr_events ?s) * unat (sg_nr_samp_per_ev ?s)"
  have m: "unat (sg_nr_events ?s * sg_nr_samp_per_ev ?s) = m" using assms(5) by (simp add: m_def unat_mult_lem [THEN iffD1])
  obtain h1 where 1: "alloc00 bus c = (True, set_hw00 h1 c)" using alloc_succeeds [OF assms(2)] by blast
  have "ch div 2 < 4" using assms(4) by simp
  let ?a = "t_vme_base (c_private c) + MEMBANK seg ch"
  obtain h2 where 2: "sis33_dma bus ?a VME_A32_USER_MBLT (kbuf_addr bus) (m * 4) False (hw00 (set_hw00 h1 c)) = (OK, card_bytes mem ?a (m * 4), h2)"
    using dma_reads_card [OF assms(1), of "m * 4" VME_A32_USER_MBLT] assms(5) unfolding m_def by blast
  have buf: "sis3300_u32_swap (bus_big bus) (card_bytes mem ?a (m * 4)) m = map (bank_word mem (t_vme_base (c_private c)) seg (ch div 2)) [0..<m]"
    by (simp add: sis3300_u32_swap_def word_at_card bank_word_def MEMBANK_def)
  have "sis3300_sampcache_get bus seg ch c = (Inr (map (bank_word mem (t_vme_base (c_private c)) seg (ch div 2)) [0..<m]),
      set_sampcache seg (ch div 2) (Some (map (bank_word mem (t_vme_base (c_private c)) seg (ch div 2)) [0..<m])) (set_hw00 h2 (set_hw00 h1 c)))"
    using None 1 2 buf by (simp add: sis3300_sampcache_get_def sis3300_fill_bouncebuf_def sis33_dma_read_mblt_def m Let_def)
  moreover have "caches_hold mem seg (set_sampcache seg (ch div 2) (Some (map (bank_word mem (t_vme_base (c_private c)) seg (ch div 2)) [0..<m])) (set_hw00 h2 (set_hw00 h1 c)))"
    using assms(3) \<open>ch div 2 < 4\<close> by (auto simp: caches_hold_def set_sampcache_def m_def nth_list_update Let_def split: if_splits)
  ultimately show ?thesis unfolding m_def by (auto simp: set_sampcache_def same_setup_def)
qed

text \<open>
  C29: A fetch of the SIS3300 gives the user, for every event, the samples of the channel that was asked for and not those
  of its neighbour in the same word. Let the memory of the card be \<open>mem\<close>, unchanged while events are fetched, and let allocations and accesses to the user's
  buffers succeed; let the caches of the segment be empty, as the start of an acquisition leaves them, or hold what the card has, as earlier fetches of any channel
  leave them; let the acquisition fit the bank of 128k words, and no event that has not wrapped be longer than its part of the bank. Then the fetch of \<open>k\<close> events
  succeeds, leaves such caches again, and sample \<open>j\<close> of event \<open>i\<close> is the channel's 12 bits of word \<open>i * n + j\<close> of the memory bank of the segment and the pair of
  the channel, read in the byte order of the bus whatever that of the processor; number, first sample and time stamp are those of the card's event directory.
\<close>

theorem sis3300_fetch_separates_channels:
  assumes "reads_card bus mem" and "\<forall>h. fst (kalloc bus h)" and "\<forall>a. user_ok bus a" and "caches_hold mem seg c" and "ch < 8"
    and "base = t_vme_base (c_private c)" and "N = unat (sg_nr_events (c_segments c ! seg))" and "n = sg_nr_samp_per_ev (c_segments c ! seg)"
    and "N * unat n \<le> 131072" and "N \<le> 1024" and "k \<le> N" and "k \<le> length acqs"
    and "\<forall>i < k. unat (ev_nr_samples (dir_event mem base seg n i)) \<le> unat n"
  shows "\<exists>acqs1 d. sis3300_fetch bus seg ch acqs k c = (Inr k, acqs1, d) \<and> caches_hold mem seg d \<and>
    (\<forall>i < k. holds_event00 (bus_big bus) ch (bank_word mem base seg (ch div 2)) (unat n) (dir_event mem base seg n i) (dir_ticks mem base seg i) i (acqs1 ! i))"
proof -
  let ?evs = "map (dir_event mem base seg n) [0..<N]" and ?pt = "map (dir_ticks mem base seg) [0..<N]"
  let ?buf = "map (bank_word mem base seg (ch div 2)) [0..<N * unat n]"
  have "4 * N < 2 ^ 32" "N * unat n * 4 < 2 ^ 32" using assms(9,10) by simp_all
  note bounds = this [unfolded assms(7,8)]
  obtain c1 where 1: "sis3300_evcache_get bus seg c = (Inr ?evs, c1)" "caches_hold mem seg c1" "same_setup seg c c1"
    using evcache_holds [OF assms(1,2,4) bounds(1)] by (auto simp: assms(6-8))
  obtain c2 where 2: "sis3300_sampcache_get bus seg ch c1 = (Inr ?buf, c2)" "caches_hold mem seg c2" "same_setup seg c1 c2"
    using sampcache_holds [OF assms(1,2) 1(2) assms(5)] 1(3) bounds(2) by (auto simp: same_setup_def assms(6-8))
  obtain d where 3: "sis3300_pt_cache_get bus seg c2 = (Inr ?pt, d)" "caches_hold mem seg d" "same_setup seg c2 d"
    using pt_cache_holds [OF assms(1,2) 2(2)] 1(3) 2(3) bounds(1) by (auto simp: same_setup_def assms(6-8))
  have n: "unat (sg_nr_samp_per_ev (c_segments d ! seg)) = unat n" using 1(3) 2(3) 3(3) by (simp add: same_setup_def assms(8))
  obtain acqs1 where loop: "fetch_loop00 bus ch (unat n) ?buf ?pt ?evs [0..<k] acqs = (OK, acqs1)"
    "\<forall>i < k. holds_event00 (bus_big bus) ch (raw_word bus ?buf) (unat n) (?evs ! i) (?pt ! i) i (acqs1 ! i)"
    using fetch_loop00_all [OF assms(3,12)] by blast
  have "sis3300_fetch bus seg ch acqs k c = (Inr k, acqs1, d)"
    unfolding sis3300_fetch_def 1(1) 2(1) 3(1) prod.case sum.case n loop(1) by simp
  moreover have "raw_word bus ?buf (i * unat n + j) = bank_word mem base seg (ch div 2) (i * unat n + j)"
    if "i < k" "j < unat (ev_nr_samples (dir_event mem base seg n i))" for i j
  proof -
    have "j < unat n" using that assms(13) by (meson less_le_trans)
    then have "i * unat n + j < (i + 1) * unat n" by simp
    also have "\<dots> \<le> N * unat n" using that(1) assms(11) by (intro mult_le_mono1) simp
    finally show ?thesis by (simp add: raw_word_def)
  qed
  then have "\<forall>i < k. holds_event00 (bus_big bus) ch (bank_word mem base seg (ch div 2)) (unat n) (dir_event mem base seg n i) (dir_ticks mem base seg i) i (acqs1 ! i)"
    using loop(2) assms(11) by (simp add: holds_event00_def)
  ultimately show ?thesis using 3(2) by blast
qed

text \<open>The start of an acquisition leaves the caches of the segment empty.\<close>

lemma acq_start_empties_caches:
  assumes "seg = c_curr_segment c" and "seg < length (c_segments c)" and "seg < length (t_sampcache (c_private c))" and "length (t_sampcache (c_private c) ! seg) = 4"
  shows "caches_hold mem seg (sis3300_acq_start bus c)"
proof -
  have four: "[0..<4] = [0, 1, 2, 3]" by (simp add: upt_rec)
  show ?thesis
    using assms by (auto simp: caches_hold_def sis3300_acq_start_def sis3300_pt_cache_free_def sis3300_evcache_free_def sis3300_sampcache_free_def
        sis3300_writew_def set_sampcache_def upd_segment_def four nth_list_update numeral_eq_Suc less_Suc_eq Let_def)
qed

text \<open>A card whose banks hold at every address the lowest byte of the address, with one event of four samples in its directory and its caches empty.\<close>

definition bank_mem :: "u32 \<Rightarrow> u8" where
  "bank_mem a = (if a < 0x400000 then if a AND 3 = 3 then 4 else 0 else ucast a)"

definition bank_bus :: "unit sis33_bus" where
  "bank_bus = \<lparr>do_dma = (\<lambda>to_user req bs h. (OK, card_bytes bank_mem (da_addrl (dm_src req)) (unat (dm_length req)), h)),
    bus_big = False, kbuf_addr = 0, user_ok = (\<lambda>_. True), beyond = (\<lambda>_. 0), kalloc = (\<lambda>h. (True, h)), timeofday = (\<lambda>h. (0, h)),
    irq_request = (\<lambda>v h. (OK, h)), irq_free = (\<lambda>v h. (OK, h))\<rparr>"

definition bank_card :: "unit card00" where
  "bank_card = (zero_card 0 \<lparr>t_vme_base = 0, t_req_events = 1, t_completion = True, t_sampcache = replicate 2 (replicate 4 None), t_hw = ()\<rparr>)
    \<lparr>c_segments := replicate 2 (zero_segment\<lparr>sg_nr_samp_per_ev := 4, sg_nr_events := 1\<rparr>)\<rparr>"

theorem sis3300_fetch_separates_channels_witness:
  "\<exists>acqs1 d. sis3300_fetch bank_bus 0 3 [demo_acq] 1 bank_card = (Inr 1, acqs1, d) \<and>
    host_sample False (aq_data (acqs1 ! 0)) 2 = channel_bits 3 (bank_word bank_mem 0 0 1 2)"
proof -
  have reads: "reads_card bank_bus bank_mem" by (simp add: reads_card_def bank_bus_def)
  have bus: "\<forall>h. fst (kalloc bank_bus h)" "\<forall>a. user_ok bank_bus a" "bus_big bank_bus = False" by (simp_all add: bank_bus_def)
  have caches: "caches_hold bank_mem 0 bank_card" by (auto simp: caches_hold_def bank_card_def zero_card_def zero_segment_def less_Suc_eq numeral_eq_Suc)
  have card: "t_vme_base (c_private bank_card) = 0" "sg_nr_events (c_segments bank_card ! 0) = 1" "sg_nr_samp_per_ev (c_segments bank_card ! 0) = 4"
    by (simp_all add: bank_card_def zero_card_def)
  have ev: "dir_event bank_mem 0 0 4 0 = \<lparr>ev_nr_samples = 4, ev_first_samp = 0\<rparr>" by code_simp
  from sis3300_fetch_separates_channels [OF reads bus(1,2) caches, of 3 0 1 4 1 "[demo_acq]"]
  show ?thesis by (auto simp: card ev bus(3) holds_event00_def)
qed

section \<open>Checks that let through\<close>

text \<open>
  The check that an acquisition fits its segment multiplies in 32 bits: on an idle SIS3320, 128 events of 32 million samples, 128
  times the memory of the card, have a product of 0 and are accepted, and the acquisition begins.
\<close>

lemma oversized_acquisition_accepted:
  assumes "c_ev_lengths c = sis3320_ev_lengths" and "128 \<le> c_max_nr_events c" and "0 < c_n_segments c"
    and "\<not> sg_transferring (c_segments c ! 0)" and "\<not> sis33_is_acquiring c" and "c_segments c \<noteq> []"
  shows "\<exists>c1. sis33_acq_begin (sis3320_ops bus) \<lparr>ad_segment = 0, ad_nr_events = 128, ad_ev_length = 33554432, ad_flags = 1\<rparr> c = (OK, c1) \<and>
    acquires c1 0 \<and> unat (sis33_segment_max_nr_samples c) < 128 * 33554432"
proof -
  have z: "(4294967296 :: u32) = 0" by (subst word_uint_eq_iff) simp
  have "unat (sis33_segment_max_nr_samples c) \<le> 33554432"
    using assms(1) by (simp add: sis33_segment_max_nr_samples_def sis3320_ev_lengths_def unat_div_distrib)
  then have room: "unat (sis33_segment_max_nr_samples c) < 128 * 33554432" by simp
  let ?d = "\<lparr>ad_segment = 0, ad_nr_events = 128, ad_ev_length = 33554432, ad_flags = 1\<rparr>"
  have segs: "c_segments (snd (sis3320_conf_ev bus ?d c)) = c_segments c"
    by (simp add: sis3320_conf_ev_def Let_def sis3320_writew_def set_hw20_def)
  have ok: "fst (sis3320_conf_ev bus ?d c) = OK" by (simp add: sis3320_conf_ev_def Let_def)
  obtain c1 where c1: "sis3320_conf_ev bus ?d c = (OK, c1)" "c_segments c1 = c_segments c" using segs ok by (metis prod.collapse)
  then show ?thesis
    using assms room
    by (simp add: z not_less sis33_acq_begin_def Let_def acqf_dontwait_def acqf_timeout_def sis33_value_is_in_array_def
        sis3320_ev_lengths_def sis3320_ops_def acquires_def upd_segment_def)
qed

lemma oversized_acquisition_accepted_example:
  "\<exists>c1. sis33_acq_begin (sis3320_ops demo_bus) \<lparr>ad_segment = 0, ad_nr_events = 128, ad_ev_length = 33554432, ad_flags = 1\<rparr> idle_card = (OK, c1) \<and>
    acquires c1 0"
proof -
  have c: "c_max_nr_events idle_card = 512" "c_n_segments idle_card = 2" "c_ev_lengths idle_card = sis3320_ev_lengths"
    "c_segments idle_card = replicate 2 zero_segment" by (simp_all add: idle_card_def fill_card20_def Let_def)
  have "\<not> sis33_is_acquiring idle_card" by (simp add: sis33_is_acquiring_def c zero_segment_def upt_rec)
  then show ?thesis
    using oversized_acquisition_accepted [of idle_card demo_bus] by (simp add: c zero_segment_def) blast
qed

text \<open>
  The time stamps of a SIS3302 are meant to be counted from the first event, but the loop subtracts in place: its first turn has
  made the first stamp 0 when the others subtract it, so all but the first stay as the card gave them.
\<close>

lemma time_stamps_not_normalized:
  assumes "n \<le> length pt" and "0 < n"
  shows "sis3302_pt_cache_normalize pt n = pt[0 := 0]"
  using assms
proof (induction n)
  case (Suc n)
  then show ?case
  proof (cases "n = 0")
    case False
    then have "sis3302_pt_cache_normalize pt n = pt[0 := 0]" using Suc by simp
    moreover have "pt \<noteq> []" using Suc.prems by auto
    ultimately show ?thesis using Suc.prems False by (simp add: sis3302_pt_cache_normalize_def list_update_same_conv)
  qed (simp add: sis3302_pt_cache_normalize_def)
qed simp

lemma time_stamps_not_normalized_example: "sis3302_pt_cache_normalize [100, 250, 300] 3 = [0, 250, 300]"
  using time_stamps_not_normalized [of 3 "[100, 250, 300]"] by simp

lemma finish00_segment:
  assumes "c_curr_segment c < length (c_segments c)"
  shows "\<exists>e. c_segments (sis3300_finish_acquisition bus c) ! c_curr_segment c =
      (c_segments c ! c_curr_segment c)\<lparr>sg_endtime := e, sg_acquiring := False\<rparr> \<and>
    length (c_segments (sis3300_finish_acquisition bus c)) = length (c_segments c)"
  using assms
  by (auto simp: sis3300_finish_acquisition_def Let_def upd_segment_def sis3300_writew_def set_hw00_def split: prod.splits)

text \<open>
  Cancelling an acquisition of the SIS3300 while it samples its first event counts one event less than the counter's 0: the segment
  then has \<open>2^32 - 1\<close> events, and a fetch from it is let through for as many events as there are buffers instead of
  finding no data.
\<close>

lemma cancel_before_first_event:
  assumes seg: "seg = c_curr_segment c" "seg < length (c_segments c)" "sg_acquiring (c_segments c ! seg)" "\<not> sg_transferring (c_segments c ! seg)"
    and "sis3300_readw bus (EV_COUNTER seg) c = (0, c1)" and "sis3300_readw bus SIS3300_ACQ c1 = (v, c2)" and "v AND ACQ_BUSY \<noteq> 0"
    and l: "unat (al_segment l) = seg" "al_n_acqs l \<noteq> 0" "length acqs = unat (al_n_acqs l)"
      "list_all (\<lambda>a. aq_size a \<noteq> 0 \<and> aq_size a = sg_nr_samp_per_ev (c_segments c ! seg) * 2) acqs"
  shows "fst (sis3300_acq_cancel bus c) = OK \<and>
    sg_nr_events (c_segments (snd (sis3300_acq_cancel bus c)) ! seg) = 0xffffffff \<and>
    fst (sis33_fetch_check l acqs (snd (sis3300_acq_cancel bus c))) = FetchGo (unat (al_n_acqs l))"
proof -
  have same: "c_segments c2 = c_segments c" "c_curr_segment c2 = c_curr_segment c"
    using assms(5,6) by (auto simp: sis3300_readw_def set_hw00_def split: prod.splits)
  define c3 where "c3 = snd (sis3300_acq_cancel bus c)"
  have ok: "sis3300_acq_cancel bus c = (OK, upd_segment seg (\<lambda>s. s\<lparr>sg_nr_events := - 1\<rparr>) (sis3300_finish_acquisition bus c2))"
    using assms(5-7) seg by (simp add: sis3300_acq_cancel_def Let_def)
  obtain e where s3: "c_segments c3 ! seg = (c_segments c ! seg)\<lparr>sg_endtime := e, sg_acquiring := False, sg_nr_events := - 1\<rparr>"
    using finish00_segment [of c2 bus] seg same unfolding c3_def ok by (auto simp: upd_segment_def)
  have "min (- 1) (al_n_acqs l) = al_n_acqs l" by (rule min_absorb2) (rule word_order.extremum)
  moreover have "sis33_check_acq_buffers c3 seg acqs (unat (al_n_acqs l)) = Some OK"
    using l(3,4) s3 by (auto simp: sis33_check_acq_buffers_def Let_def list_all_iff)
  ultimately have "fst (sis33_fetch_check l acqs c3) = FetchGo (unat (al_n_acqs l))"
    using l(1,2) s3 seg(4) by (simp add: sis33_fetch_check_def Let_def unat_eq_0)
  then show ?thesis using ok s3 unfolding c3_def by simp
qed


text \<open>A bus on which the status register reads busy and everything else 0.\<close>

definition busy_bus :: "unit sis33_bus" where
  "busy_bus = \<lparr>do_dma = (\<lambda>to_user req bs h. (OK, if da_addrl (dm_src req) = SIS3300_ACQ then [0, 1, 0, 0] else [0, 0, 0, 0], h)),
    bus_big = True, kbuf_addr = 0, user_ok = (\<lambda>_. True), beyond = (\<lambda>_. 0), kalloc = (\<lambda>h. (True, h)), timeofday = (\<lambda>h. (0, h)),
    irq_request = (\<lambda>v h. (OK, h)), irq_free = (\<lambda>v h. (OK, h))\<rparr>"

definition busy_card :: "unit card00" where
  "busy_card = bank_card\<lparr>c_segments := replicate 2 (zero_segment\<lparr>sg_acquiring := True, sg_nr_samp_per_ev := 64\<rparr>)\<rparr>"

lemma cancel_before_first_event_example:
  "sg_nr_events (c_segments (snd (sis3300_acq_cancel busy_bus busy_card)) ! 0) = 0xffffffff \<and>
    fst (sis33_fetch_check \<lparr>al_segment = 0, al_channel = 0, al_n_acqs = 1, al_flags = 1\<rparr> [demo_acq]
      (snd (sis3300_acq_cancel busy_bus busy_card))) = FetchGo 1"
proof -
  let ?l = "\<lparr>al_segment = 0, al_channel = 0, al_n_acqs = 1, al_flags = 1\<rparr>"
  have c: "c_segments busy_card = replicate 2 (zero_segment\<lparr>sg_acquiring := True, sg_nr_samp_per_ev := 64\<rparr>)"
    "c_curr_segment busy_card = 0" "t_vme_base (c_private busy_card) = 0"
    by (simp_all add: busy_card_def bank_card_def zero_card_def)
  have r: "sis33_dma_read busy_bus a h = (if a = SIS3300_ACQ then 0x10000 else 0, h)" for a h
    by (simp add: sis33_dma_read_def busy_bus_def dma_request_def vme_side_def zero_dma_attr_def be32_to_cpu_def word_at_def bytes_word_def)
  have "sis3300_readw busy_bus (EV_COUNTER 0) busy_card = (0, set_hw00 (hw00 busy_card) busy_card)"
    by (simp add: sis3300_readw_def r c EV_COUNTER_def)
  moreover have "sis3300_readw busy_bus SIS3300_ACQ (set_hw00 (hw00 busy_card) busy_card) =
      (0x10000, set_hw00 (hw00 (set_hw00 (hw00 busy_card) busy_card)) (set_hw00 (hw00 busy_card) busy_card))"
    by (simp add: sis3300_readw_def r c set_hw00_def)
  ultimately show ?thesis
    using cancel_before_first_event [of 0 busy_card busy_bus _ "0x10000" _ ?l "[demo_acq]"]
    by (simp add: c zero_segment_def demo_acq_def)
qed

end
