(* ===== verification/Vmod_Bus.thy ===== *)
theory Vmod_Bus
  imports HT_Prelude
begin

text \<open>
  The MODULBUS of the VMOD mezzanine boards (\<open>src/vmod/driver\<close>): the register in which the drivers of carrier boards enter their
  entry points (\<open>modulbus_register.c\<close>), and the module parameters from which a mezzanine driver finds its boards
  (\<open>lunargs.c\<close>). An entry point is a value of a type parameter in the register, and a function where it is called.
\<close>

section \<open>The register of carriers\<close>

record carrier_as =
  as_address :: u32
  as_width :: int
  as_size :: int
  as_is_big_endian :: bool

record ('g, 'r) register_entry =
  re_name :: string
  re_get_address_space :: 'g
  re_register_isr :: 'r

definition DRIVER_NAME_MAX_LENGTH :: nat where "DRIVER_NAME_MAX_LENGTH = 128"
definition REGISTER_SIZE :: nat where "REGISTER_SIZE = 32"

text \<open>The used entries of the table \<open>cregister\<close>.\<close>

type_synonym ('g, 'r) cregister = "('g, 'r) register_entry list"

definition find_carrier_index :: "string \<Rightarrow> ('g, 'r) cregister \<Rightarrow> nat option" where
  "find_carrier_index name reg = find (\<lambda>i. re_name (reg ! i) = name) [0..<length reg]"

text \<open>\<open>snprintf\<close> stores one character less than the size of the field.\<close>

definition modulbus_carrier_register ::
    "string \<Rightarrow> 'g \<Rightarrow> 'r \<Rightarrow> ('g, 'r) cregister \<Rightarrow> rc \<times> ('g, 'r) cregister" where
  "modulbus_carrier_register name gas risr reg =
    (if REGISTER_SIZE \<le> length reg then (Err EPERM, reg)
     else if DRIVER_NAME_MAX_LENGTH < length name then (Err EPERM, reg)
     else (case find_carrier_index name reg of
         Some _ \<Rightarrow> (Err EPERM, reg)
       | None \<Rightarrow> (OK, reg @ [\<lparr>re_name = take (DRIVER_NAME_MAX_LENGTH - 1) name, re_get_address_space = gas, re_register_isr = risr\<rparr>])))"

definition modulbus_carrier_unregister :: "string \<Rightarrow> ('g, 'r) cregister \<Rightarrow> rc \<times> ('g, 'r) cregister" where
  "modulbus_carrier_unregister name reg =
    (case find_carrier_index name reg of
       None \<Rightarrow> (Err EPERM, reg)
     | Some idx \<Rightarrow> (OK, take idx reg @ drop (idx + 1) reg))"

definition modulbus_carrier_as_entry :: "string \<Rightarrow> ('g, 'r) cregister \<Rightarrow> 'g option" where
  "modulbus_carrier_as_entry carrier reg =
    (case find (\<lambda>e. re_name e = carrier) reg of None \<Rightarrow> None | Some e \<Rightarrow> Some (re_get_address_space e))"

definition modulbus_carrier_isr_entry :: "string \<Rightarrow> ('g, 'r) cregister \<Rightarrow> 'r option" where
  "modulbus_carrier_isr_entry carrier reg =
    (case find (\<lambda>e. re_name e = carrier) reg of None \<Rightarrow> None | Some e \<Rightarrow> Some (re_register_isr e))"

section \<open>Parameters of the mezzanine drivers\<close>

definition VMOD_MAX_BOARDS :: nat where "VMOD_MAX_BOARDS = 64"

record vmod_dev =
  vd_lun :: int
  vd_carrier_name :: string
  vd_carrier_lun :: int
  vd_slot :: int
  vd_address :: u32
  vd_is_big_endian :: bool

record vmod_devices =
  vs_num_modules :: nat
  vs_module :: "vmod_dev list"

text \<open>
  \<open>call\<close> is a call of an entry point found in the register, in the state its carrier driver is in: it gives the address space of a
  slot of a board, or fails.
\<close>

type_synonym gas = "int \<Rightarrow> int \<Rightarrow> int \<Rightarrow> carrier_as option"

definition set_module_params ::
    "('g \<Rightarrow> gas) \<Rightarrow> ('g, 'r) cregister \<Rightarrow> int \<Rightarrow> string \<Rightarrow> int \<Rightarrow> int \<Rightarrow> vmod_dev option" where
  "set_module_params call reg lun cname carrier_lun slot =
    (if lun < 0 then None
     else (case modulbus_carrier_as_entry cname reg of
         None \<Rightarrow> None
       | Some get_address_space \<Rightarrow>
           (case call get_address_space carrier_lun slot 1 of
              None \<Rightarrow> None
            | Some as \<Rightarrow> Some \<lparr>vd_lun = lun, vd_carrier_name = cname, vd_carrier_lun = carrier_lun, vd_slot = slot,
                vd_address = as_address as, vd_is_big_endian = as_is_big_endian as\<rparr>)))"

text \<open>
  The loop fills the table up to the board whose parameters are wrong; the number of modules is only set at its end.
\<close>

primrec params_loop ::
    "(nat \<Rightarrow> vmod_dev option) \<Rightarrow> nat list \<Rightarrow> vmod_dev list \<Rightarrow> bool \<times> vmod_dev list" where
  "params_loop set_params [] mods = (True, mods)"
| "params_loop set_params (i # is) mods =
    (case set_params i of None \<Rightarrow> (False, mods) | Some d \<Rightarrow> params_loop set_params is (mods[i := d]))"

definition read_params ::
    "('g \<Rightarrow> gas) \<Rightarrow> ('g, 'r) cregister \<Rightarrow> int list \<Rightarrow> string list \<Rightarrow> int list \<Rightarrow> int list \<Rightarrow> vmod_devices \<Rightarrow> rc \<times> vmod_devices" where
  "read_params call reg lun carrier carrier_number slot devs =
    (if length lun \<noteq> length carrier \<or> length lun \<noteq> length carrier_number \<or> length lun \<noteq> length slot \<or> VMOD_MAX_BOARDS \<le> length lun
     then (Err EPERM, devs)
     else (case params_loop (\<lambda>i. set_module_params call reg (lun ! i) (carrier ! i) (carrier_number ! i) (slot ! i))
                [0..<length lun] (vs_module devs) of
         (False, mods) \<Rightarrow> (Err EPERM, devs\<lparr>vs_module := mods\<rparr>)
       | (True, mods) \<Rightarrow> (OK, \<lparr>vs_num_modules = length lun, vs_module = mods\<rparr>)))"

definition lun_to_index :: "vmod_devices \<Rightarrow> int \<Rightarrow> int" where
  "lun_to_index devs lun =
    (case find (\<lambda>i. vd_lun (vs_module devs ! i) = lun) [0..<vs_num_modules devs] of None \<Rightarrow> -1 | Some i \<Rightarrow> int i)"

text \<open>
  Opening a device: the index is kept in an unsigned variable, so the test for a negative one, which all
  drivers have, never holds, and the pointer stored is to element \<open>4294967295\<close> of the table.
\<close>

definition open_index :: "vmod_devices \<Rightarrow> int \<Rightarrow> u32" where
  "open_index devs minor = word_of_int (lun_to_index devs minor)"

section \<open>Callbacks of the mezzanines\<close>

record ('c, 'd) mz_callback =
  mz_callback :: "'c option"
  mz_dev :: 'd

text \<open>Registrations that the drivers of mezzanine boards make with a carrier, one after the other.\<close>

definition register_all ::
    "('c option \<Rightarrow> 'd \<Rightarrow> int \<Rightarrow> int \<Rightarrow> 's \<Rightarrow> rc \<times> 's) \<Rightarrow> ('c option \<times> 'd \<times> int \<times> int) list \<Rightarrow> 's \<Rightarrow> 's" where
  "register_all register regs s = fold (\<lambda>(c, dev, b, p) s. snd (register c dev b p s)) regs s"

text \<open>
  The contract of a carrier's table of callbacks: \<open>slot b p s\<close> says that board \<open>b\<close> has a slot \<open>p\<close>, \<open>entry s b p\<close> is what is registered for it. A
  registration for a slot replaces its entry and no other one; one for a slot that does not exist is refused.
\<close>

locale isr_table =
  fixes register :: "'c option \<Rightarrow> 'd \<Rightarrow> int \<Rightarrow> int \<Rightarrow> 's \<Rightarrow> rc \<times> 's"
    and entry :: "'s \<Rightarrow> int \<Rightarrow> int \<Rightarrow> ('c, 'd) mz_callback"
    and slot :: "int \<Rightarrow> int \<Rightarrow> 's \<Rightarrow> bool"
    and wf :: "'s \<Rightarrow> bool"
  assumes register_slot: "wf s \<Longrightarrow> slot b p s \<Longrightarrow>
      \<exists>t. register c dev b p s = (OK, t) \<and> entry t b p = \<lparr>mz_callback = c, mz_dev = dev\<rparr>"
    and register_none: "\<not> slot b p s \<Longrightarrow> register c dev b p s = (Err EPERM, s)"
    and register_wf: "wf s \<Longrightarrow> wf (snd (register c dev b p s))"
    and register_slots: "slot b' p' (snd (register c dev b p s)) = slot b' p' s"
    and register_other: "wf s \<Longrightarrow> slot b p s \<Longrightarrow> (b', p') \<noteq> (b, p) \<Longrightarrow> entry (snd (register c dev b' p' s)) b p = entry s b p"
begin

lemma register_all_keeps: "wf s \<Longrightarrow> wf (register_all register regs s) \<and> slot b p (register_all register regs s) = slot b p s"
  unfolding register_all_def by (induction regs arbitrary: s) (auto simp: register_wf register_slots)

lemma register_all_other:
  assumes "wf s" and "slot b p s" and "\<forall>(c, dev, b', p')\<in>set regs. (b', p') \<noteq> (b, p)"
  shows "entry (register_all register regs s) b p = entry s b p"
  using assms unfolding register_all_def
  by (induction regs arbitrary: s) (auto simp: register_other register_wf register_slots)

lemma last_registered:
  assumes "wf s" and "slot b p s" and "\<forall>(c, dev, b', p')\<in>set post. (b', p') \<noteq> (b, p)"
  shows "entry (register_all register (pre @ (c, dev, b, p) # post) s) b p = \<lparr>mz_callback = c, mz_dev = dev\<rparr>"
proof -
  let ?s = "register_all register pre s"
  have s: "wf ?s" "slot b p ?s" using register_all_keeps assms(1,2) by blast+
  obtain t where t: "register c dev b p ?s = (OK, t)" "entry t b p = \<lparr>mz_callback = c, mz_dev = dev\<rparr>" using register_slot [OF s] by blast
  have "wf t" "slot b p t" using register_wf [OF s(1), of c dev b p] register_slots [of b p c dev b p ?s] s(2) t(1) by simp_all
  moreover have "register_all register (pre @ (c, dev, b, p) # post) s = register_all register post t"
    using t(1) by (simp add: register_all_def)
  ultimately show ?thesis using register_all_other [OF _ _ assms(3)] t(2) by simp
qed

end

section \<open>The register as a map\<close>

text \<open>
  What the register promises its users: one entry per name, as long as it is registered. \<open>carrier_map\<close> is the map it implements.
\<close>

definition register_ok :: "('g, 'r) cregister \<Rightarrow> bool" where
  "register_ok reg \<longleftrightarrow> length reg \<le> REGISTER_SIZE \<and> distinct (map re_name reg) \<and> (\<forall>e\<in>set reg. length (re_name e) < DRIVER_NAME_MAX_LENGTH)"

definition carrier_map :: "('g, 'r) cregister \<Rightarrow> string \<rightharpoonup> 'g \<times> 'r" where
  "carrier_map reg = map_of (map (\<lambda>e. (re_name e, re_get_address_space e, re_register_isr e)) reg)"

lemma carrier_map_find:
  "carrier_map reg n = map_option (\<lambda>e. (re_get_address_space e, re_register_isr e)) (find (\<lambda>e. re_name e = n) reg)"
  by (induction reg) (auto simp: carrier_map_def)

lemma entries_are_the_map:
  "modulbus_carrier_as_entry n reg = map_option fst (carrier_map reg n)"
  "modulbus_carrier_isr_entry n reg = map_option snd (carrier_map reg n)"
  by (simp_all add: modulbus_carrier_as_entry_def modulbus_carrier_isr_entry_def carrier_map_find split: option.splits)

lemma find_index_None: "find_carrier_index n reg = None \<longleftrightarrow> n \<notin> re_name ` set reg"
  unfolding find_carrier_index_def find_None_iff by (auto simp: in_set_conv_nth image_iff) (metis nth_mem)

lemma find_index_Some: "find_carrier_index n reg = Some i \<Longrightarrow> i < length reg \<and> re_name (reg ! i) = n"
  by (auto simp: find_carrier_index_def find_Some_iff)

lemma carrier_map_dom: "dom (carrier_map reg) = re_name ` set reg"
  by (force simp: carrier_map_def dom_map_of_conv_image_fst)

lemma register_refines:
  assumes "register_ok reg" and "length n < DRIVER_NAME_MAX_LENGTH"
  shows "modulbus_carrier_register n g r reg =
      (if length reg < REGISTER_SIZE \<and> n \<notin> dom (carrier_map reg)
       then (OK, reg @ [\<lparr>re_name = n, re_get_address_space = g, re_register_isr = r\<rparr>]) else (Err EPERM, reg))"
  using assms find_index_None [of n reg]
  by (auto simp: modulbus_carrier_register_def carrier_map_dom split: option.splits)

lemma carrier_map_append:
  "n \<notin> dom (carrier_map reg) \<Longrightarrow>
    carrier_map (reg @ [\<lparr>re_name = n, re_get_address_space = g, re_register_isr = r\<rparr>]) = (carrier_map reg)(n \<mapsto> (g, r))"
  by (auto simp: carrier_map_def map_add_def fun_eq_iff dom_def split: option.splits)

lemma carrier_map_remove:
  assumes "distinct (map re_name reg)" and "i < length reg"
  shows "carrier_map (take i reg @ drop (i + 1) reg) = (carrier_map reg)(re_name (reg ! i) := None)"
proof -
  define n where "n = re_name (reg ! i)"
  have split: "reg = take i reg @ reg ! i # drop (i + 1) reg" using assms(2) by (simp add: id_take_nth_drop)
  have "distinct (map re_name (take i reg @ reg ! i # drop (i + 1) reg))" using assms(1) split by simp
  then have "n \<notin> re_name ` set (take i reg)" "n \<notin> re_name ` set (drop (i + 1) reg)" by (auto simp: n_def)
  then have "carrier_map (take i reg) n = None" "carrier_map (drop (i + 1) reg) n = None"
    using carrier_map_dom by (metis domIff)+
  then have "carrier_map (take i reg @ drop (i + 1) reg) = (carrier_map (take i reg @ reg ! i # drop (i + 1) reg))(n := None)"
    by (auto simp: carrier_map_def n_def map_add_def fun_eq_iff split: option.splits)
  then show ?thesis using split n_def by simp
qed


section \<open>What the parameters give\<close>

lemma params_loop_ok:
  assumes "params_loop f is mods = (True, ms)" and "\<forall>i\<in>set is. i < length mods" and "distinct is"
  shows "length ms = length mods \<and> (\<forall>i\<in>set is. f i = Some (ms ! i)) \<and> (\<forall>j. j \<notin> set is \<longrightarrow> ms ! j = mods ! j)"
  using assms by (induction "is" arbitrary: mods) (fastforce split: option.splits)+

text \<open>
  Reading the parameters succeeds when every board has a lun and sits in a slot that its carrier gives an address space for; every module of the table
  then has the address and the byte order of its carrier.
\<close>

lemma read_params_modules:
  assumes "read_params call reg lun carrier cnum slot devs = (OK, devs')" and "length (vs_module devs) = VMOD_MAX_BOARDS" and "i < length lun"
  shows "vs_num_modules devs' = length lun \<and> length (vs_module devs') = VMOD_MAX_BOARDS
    \<and> set_module_params call reg (lun ! i) (carrier ! i) (cnum ! i) (slot ! i) = Some (vs_module devs' ! i)"
  using assms params_loop_ok [of _ "[0..<length lun]" "vs_module devs"]
  by (auto simp: read_params_def split: if_splits prod.splits bool.splits)

lemma set_module_params_lun: "set_module_params call reg l c n s = Some d \<Longrightarrow> vd_lun d = l \<and> 0 \<le> l"
  by (auto simp: set_module_params_def split: if_splits option.splits)

lemma lun_to_index_found:
  assumes "read_params call reg lun carrier cnum slot devs = (OK, devs')" and "length (vs_module devs) = VMOD_MAX_BOARDS"
    and "distinct lun" and "i < length lun"
  shows "lun_to_index devs' (lun ! i) = int i"
proof -
  have luns: "vd_lun (vs_module devs' ! j) = lun ! j" if "j < length lun" for j
    using read_params_modules [OF assms(1,2) that] set_module_params_lun by blast
  have "find (\<lambda>j. vd_lun (vs_module devs' ! j) = lun ! i) [0..<length lun] = Some i"
    unfolding find_Some_iff using assms(3,4) luns by (intro exI [of _ i]) (auto simp: nth_eq_iff_index_eq)
  then show ?thesis using read_params_modules [OF assms(1,2,4)] by (simp add: lun_to_index_def)
qed

text \<open>A lun that no board has is not refused: the index is then all ones.\<close>

lemma open_unknown_lun:
  assumes "\<forall>i < vs_num_modules devs. vd_lun (vs_module devs ! i) \<noteq> minor"
  shows "open_index devs minor = -1"
proof -
  have "find (\<lambda>i. vd_lun (vs_module devs ! i) = minor) [0..<vs_num_modules devs] = None" using assms by (auto simp: find_None_iff)
  then show ?thesis by (simp add: open_index_def lun_to_index_def)
qed

end
