(* ===== verification/Vmodio.thy ===== *)
theory Vmodio
  imports Vme_Cesif Vmod_Bus
begin

text \<open>
  The VMOD/IO carrier (\<open>src/vmod/driver/vmodio.c\<close>), a VME board with four mezzanine slots: its module parameters, the
  address spaces it gives to mezzanine drivers, and the interrupts it takes from the VME bridge and hands to their
  callbacks. It runs on the bridge driver: the windows come from \<open>find_controller\<close> and the vectors from \<open>vme_request_irq\<close>.
  A callback and the device it is called with are type parameters.
\<close>

section \<open>The state of the driver\<close>

abbreviation (input) MAX_DEVICES :: nat where "MAX_DEVICES \<equiv> 16"
abbreviation (input) VMODIO_SLOTS :: nat where "VMODIO_SLOTS \<equiv> 4"

record vmodio =
  vo_lun :: int
  vo_vme_addr :: u32
  vo_vaddr :: u32
  vo_irq :: "int list"

record ('c, 'd) vmodio_drv =
  device_table :: "vmodio list"
  devices :: nat
  irq_to_lun :: "int list"
  lun_slot_to_irq :: "int list list"
  mezzanines_callback :: "('c, 'd) mz_callback list list"

text \<open>A table of the driver has the size it is declared with.\<close>

definition vmodio_wf :: "('c, 'd) vmodio_drv \<Rightarrow> bool" where
  "vmodio_wf d \<longleftrightarrow> length (device_table d) = MAX_DEVICES \<and> (\<forall>i < MAX_DEVICES. length (vo_irq (device_table d ! i)) = VMODIO_SLOTS)
    \<and> devices d \<le> MAX_DEVICES \<and> length (irq_to_lun d) = MAX_DEVICES
    \<and> length (lun_slot_to_irq d) = MAX_DEVICES \<and> (\<forall>i < MAX_DEVICES. length (lun_slot_to_irq d ! i) = VMODIO_SLOTS)
    \<and> length (mezzanines_callback d) = MAX_DEVICES \<and> (\<forall>i < MAX_DEVICES. length (mezzanines_callback d ! i) = VMODIO_SLOTS)"

section \<open>Interrupt numbers\<close>

definition vmodio_irq_shift :: "int \<Rightarrow> nat \<Rightarrow> int" where
  "vmodio_irq_shift base_irq slot = base_irq - (0xe - (NOT (push_bit slot 1) AND 0xf))"

definition upper_nibble_of :: "int \<Rightarrow> int" where
  "upper_nibble_of byte = 0xf AND drop_bit 4 byte"

definition interrupt_to_slot :: "int list" where
  "interrupt_to_slot = [-1, -1, -1, -1, -1, -1, -1, 3, -1, -1, -1, 2, -1, 1, 0, -1]"

definition irq_to_slot :: "int \<Rightarrow> int" where
  "irq_to_slot tmp = interrupt_to_slot ! nat (tmp AND 0xf)"

section \<open>Address spaces\<close>

definition lun_to_dev :: "int \<Rightarrow> ('c, 'd) vmodio_drv \<Rightarrow> vmodio option" where
  "lun_to_dev lun d = find (\<lambda>v. vo_lun v = lun) (take (devices d) (device_table d))"

definition vmodio_param :: pdparam_master where
  "vmodio_param = \<lparr>pd_iack = 1, pd_rdpref = 0, pd_wrpost = 0, pd_swap = 1, pd_sgmin = 0, pd_dum = [0, 0, 0]\<rparr>"

abbreviation (input) VMODIO_WINDOW_LENGTH :: u32 where "VMODIO_WINDOW_LENGTH \<equiv> 0x800"
abbreviation (input) VMODIO_DATA_SIZE :: u32 where "VMODIO_DATA_SIZE \<equiv> 2"
abbreviation (input) VMODIO_ADDRESS_MODIFIER :: u32 where "VMODIO_ADDRESS_MODIFIER \<equiv> 0x29"

definition vmodio_map :: "kernel \<Rightarrow> bool \<Rightarrow> u32 \<Rightarrow> cstate \<Rightarrow> u32 \<times> cstate" where
  "vmodio_map k alloc base_address bus =
    find_controller k alloc base_address VMODIO_WINDOW_LENGTH VMODIO_ADDRESS_MODIFIER 0 VMODIO_DATA_SIZE vmodio_param bus"

definition vmodio_offsets :: "u32 list" where
  "vmodio_offsets = [0x0000, 0x0200, 0x0400, 0x0600]"

definition vmodio_get_address_space :: "('c, 'd) vmodio_drv \<Rightarrow> gas" where
  "vmodio_get_address_space d board_number board_position address_space_number =
    (if address_space_number \<noteq> 1 then None
     else case lun_to_dev board_number d of
         None \<Rightarrow> None
       | Some dev \<Rightarrow>
           if board_position < 0 \<or> int VMODIO_SLOTS \<le> board_position then None
           else Some \<lparr>as_address = vo_vaddr dev + vmodio_offsets ! nat board_position, as_width = 16, as_size = 0x200,
                  as_is_big_endian = True\<rparr>)"

section \<open>Callbacks and interrupts\<close>

definition within_bounds :: "int \<Rightarrow> int \<Rightarrow> ('c, 'd) vmodio_drv \<Rightarrow> bool" where
  "within_bounds board position d \<longleftrightarrow> 0 \<le> board \<and> board < int (devices d) \<and> 0 \<le> position \<and> position < int VMODIO_SLOTS"

definition vmodio_register_isr ::
    "'c option \<Rightarrow> 'd \<Rightarrow> int \<Rightarrow> int \<Rightarrow> ('c, 'd) vmodio_drv \<Rightarrow> rc \<times> ('c, 'd) vmodio_drv" where
  "vmodio_register_isr callback dev board_number board_position d =
    (if \<not> within_bounds board_number board_position d then (Err EPERM, d)
     else (OK, d\<lparr>mezzanines_callback := (mezzanines_callback d)[nat board_number :=
         (mezzanines_callback d ! nat board_number)[nat board_position := \<lparr>mz_callback = callback, mz_dev = dev\<rparr>]]\<rparr>))"

text \<open>
  The handler gets a pointer to the number of its interrupt, in the table of devices: \<open>irq_id\<close> is \<open>4 * device + slot\<close>.
  The result has the calls made beside the return value; \<open>call c dev\<close> is what callback \<open>c\<close> returns.
\<close>

definition irq_id :: "nat \<Rightarrow> nat \<Rightarrow> nat" where "irq_id device slot = 4 * device + slot"

definition irqno_of :: "nat \<Rightarrow> ('c, 'd) vmodio_drv \<Rightarrow> int" where
  "irqno_of p d = vo_irq (device_table d ! (p div 4)) ! (p mod 4)"

definition vmodio_interrupt ::
    "('c \<Rightarrow> 'd \<Rightarrow> int) \<Rightarrow> nat \<Rightarrow> ('c, 'd) vmodio_drv \<Rightarrow> irqreturn \<times> ('c \<times> 'd) list" where
  "vmodio_interrupt call p d =
    (let irqno = irqno_of p d;
         carrier_number = irq_to_lun d ! nat (upper_nibble_of irqno);
         board_position = irq_to_slot irqno
     in if \<not> within_bounds carrier_number board_position d then (IRQ_NONE, [])
        else let entry = mezzanines_callback d ! nat carrier_number ! nat board_position
             in case mz_callback entry of
                  None \<Rightarrow> (IRQ_NONE, [])
                | Some c \<Rightarrow> (if call c (mz_dev entry) < 0 then IRQ_NONE else IRQ_HANDLED, [(c, mz_dev entry)]))"

section \<open>Loading and unloading the module\<close>

text \<open>
  What the kernel and the bridge do while a device is set up: \<open>ve_lock d i\<close> is the lock taken to request the vector of slot
  \<open>i\<close>. \<open>VMODIO_ISR\<close> stands for the address of \<open>vmodio_interrupt\<close>.
\<close>

record vmodio_env =
  ve_kernel :: "nat \<Rightarrow> kernel"
  ve_alloc :: "nat \<Rightarrow> bool"
  ve_lock :: "nat \<Rightarrow> nat \<Rightarrow> rc"

definition VMODIO_ISR :: nat where "VMODIO_ISR = 0"

text \<open>
  A lun that is not an index of \<open>lun_slot_to_irq\<close> makes the driver write outside the table: the result is then \<open>None\<close>.
\<close>

definition set_slot_irq :: "nat \<Rightarrow> int \<Rightarrow> nat \<Rightarrow> int \<Rightarrow> ('c, 'd) vmodio_drv \<Rightarrow> ('c, 'd) vmodio_drv option" where
  "set_slot_irq device lun i slot_irq d =
    (if lun < 0 \<or> int MAX_DEVICES \<le> lun then None
     else Some (d\<lparr>device_table := (device_table d)[device := (device_table d ! device)\<lparr>vo_irq := (vo_irq (device_table d ! device))[i := slot_irq]\<rparr>],
         lun_slot_to_irq := (lun_slot_to_irq d)[nat lun := (lun_slot_to_irq d ! nat lun)[i := slot_irq]]\<rparr>))"

primrec slots_loop ::
    "vmodio_env \<Rightarrow> nat \<Rightarrow> int \<Rightarrow> int \<Rightarrow> nat list \<Rightarrow> ('c, 'd) vmodio_drv \<times> cstate \<Rightarrow> (rc \<times> ('c, 'd) vmodio_drv \<times> cstate) option" where
  "slots_loop env device lun base_irq [] s = Some (OK, s)"
| "slots_loop env device lun base_irq (i # is) s =
    (case set_slot_irq device lun i (vmodio_irq_shift base_irq i) (fst s) of
       None \<Rightarrow> None
     | Some d \<Rightarrow>
         (case vme_request_irq (ve_lock env device i) (word_of_int (vmodio_irq_shift base_irq i)) (Some VMODIO_ISR) (irq_id device i)
                 (Some ''vmodio'') (snd s) of
            (Err e, bus) \<Rightarrow> Some (Err EPERM, d, bus)
          | (OK, bus) \<Rightarrow> slots_loop env device lun base_irq is (d, bus)))"

definition device_init ::
    "vmodio_env \<Rightarrow> nat \<Rightarrow> int \<Rightarrow> u32 \<Rightarrow> int \<Rightarrow> ('c, 'd) vmodio_drv \<times> cstate \<Rightarrow> (rc \<times> ('c, 'd) vmodio_drv \<times> cstate) option" where
  "device_init env device lun base_address base_irq s =
    (let (va, bus) = vmodio_map (ve_kernel env device) (ve_alloc env device) base_address (snd s);
         d = (fst s)\<lparr>device_table := (device_table (fst s))[device :=
               (device_table (fst s) ! device)\<lparr>vo_lun := lun, vo_vme_addr := base_address, vo_vaddr := va\<rparr>]\<rparr>
     in if va = - 1 then Some (Err EPERM, d, bus)
        else slots_loop env device lun base_irq [0..<VMODIO_SLOTS]
          (d\<lparr>irq_to_lun := (irq_to_lun d)[nat (upper_nibble_of base_irq) := lun]\<rparr>, bus))"

primrec devices_loop ::
    "vmodio_env \<Rightarrow> (nat \<Rightarrow> int \<times> u32 \<times> int) \<Rightarrow> nat list \<Rightarrow> ('c, 'd) vmodio_drv \<times> cstate \<Rightarrow> (rc \<times> ('c, 'd) vmodio_drv \<times> cstate) option" where
  "devices_loop env arg [] s = Some (OK, s)"
| "devices_loop env arg (i # is) s =
    (case arg i of (lun, base_address, base_irq) \<Rightarrow>
       (case device_init env i lun base_address base_irq s of
          None \<Rightarrow> None
        | Some (Err e, t) \<Rightarrow> Some (Err e, t)
        | Some (OK, d, bus) \<Rightarrow> devices_loop env arg is (d\<lparr>devices := devices d + 1\<rparr>, bus)))"

definition vmodio_init ::
    "vmodio_env \<Rightarrow> 'g \<Rightarrow> 'r \<Rightarrow> int list \<Rightarrow> u32 list \<Rightarrow> int list \<Rightarrow> ('c, 'd) vmodio_drv \<times> cstate \<times> ('g, 'r) cregister
      \<Rightarrow> (rc \<times> ('c, 'd) vmodio_drv \<times> cstate \<times> ('g, 'r) cregister) option" where
  "vmodio_init env gas_entry isr_entry lun base_address irq s =
    (case s of (d0, bus, reg) \<Rightarrow>
      let d = d0\<lparr>irq_to_lun := replicate MAX_DEVICES (- 1), lun_slot_to_irq := replicate MAX_DEVICES (replicate VMODIO_SLOTS (- 1))\<rparr>
      in if MAX_DEVICES \<le> length lun then Some (Err EPERM, d, bus, reg)
         else if length lun \<noteq> length base_address \<or> length lun \<noteq> length irq then Some (Err EPERM, d, bus, reg)
         else (case modulbus_carrier_register ''vmodio'' gas_entry isr_entry reg of
             (Err e, reg') \<Rightarrow> Some (Err EPERM, d, bus, reg')
           | (OK, reg') \<Rightarrow>
               (case devices_loop env (\<lambda>i. (lun ! i, base_address ! i, irq ! i)) [0..<length lun] (d\<lparr>devices := 0\<rparr>, bus) of
                  None \<Rightarrow> None
                | Some (OK, d', bus') \<Rightarrow> Some (OK, d', bus', reg')
                | Some (Err e, d', bus') \<Rightarrow> Some (Err EPERM, d', bus', snd (modulbus_carrier_unregister ''vmodio'' reg')))))"

primrec free_irqs :: "(int \<Rightarrow> rc) \<Rightarrow> int list \<Rightarrow> cstate \<Rightarrow> cstate" where
  "free_irqs lock [] bus = bus"
| "free_irqs lock (v # vs) bus = free_irqs lock vs (if 0 \<le> v then snd (vme_free_irq (lock v) (word_of_int v) bus) else bus)"

definition vmodio_exit ::
    "(int \<Rightarrow> rc) \<Rightarrow> ('c, 'd) vmodio_drv \<times> cstate \<times> ('g, 'r) cregister \<Rightarrow> ('c, 'd) vmodio_drv \<times> cstate \<times> ('g, 'r) cregister" where
  "vmodio_exit lock s =
    (case s of (d, bus, reg) \<Rightarrow>
       (d, free_irqs lock (concat (lun_slot_to_irq d)) bus, snd (modulbus_carrier_unregister ''vmodio'' reg)))"

end
