(* ===== verification/Vmodio_Props.thy ===== *)
theory Vmodio_Props
  imports Vmodio
begin

text \<open>
  Correctness of the VMOD/IO carrier on the VME bridge: the vectors of a board's four slots, what loading the module leaves in the tables
  of the driver and of the bridge, and the way of an interrupt from the bus to the callback of the mezzanine driver.
\<close>

section \<open>Mapping a window leaves the vectors alone\<close>

lemma more_set_window [simp]: "wstate.more (set_window i f s) = wstate.more s"
  by (simp add: set_window_def)

lemma more_lock: "mutex_lock_interruptible k i s = Some t \<Longrightarrow> wstate.more t = wstate.more s"
  by (auto simp: mutex_lock_interruptible_def split: if_splits)

lemma more_unlock [simp]: "wstate.more (mutex_unlock i s) = wstate.more s"
  by (simp add: mutex_unlock_def)

lemma more_search: "search_window k m is s = (r, t) \<Longrightarrow> wstate.more t = wstate.more s"
  by (induction "is" arbitrary: s) (auto dest: more_lock split: option.splits if_splits)

lemma more_add: "add_mapping k i d f s = (r, t) \<Longrightarrow> wstate.more t = wstate.more s"
  by (auto simp: add_mapping_def Let_def split: if_splits)

lemma more_alloc: "pci_bus_alloc_resource k i sz s = (r, t) \<Longrightarrow> wstate.more t = wstate.more s"
  by (auto simp: pci_bus_alloc_resource_def split: sum.splits)

lemma more_ioremap: "ioremap k a sz s = (r, t) \<Longrightarrow> wstate.more t = wstate.more s"
  by (auto simp: ioremap_def Let_def split: if_splits)

lemma more_create_out [simp]:
  "wstate.more (create_out_free i s) = wstate.more s" "wstate.more (create_out_release i s) = wstate.more s"
  "wstate.more (create_out_unmap i va s) = wstate.more s"
  by (simp_all add: create_out_free_def create_out_release_def create_out_unmap_def release_resource_def iounmap_def)

lemma more_create: "vme_create_window k d s = (r, d', t) \<Longrightarrow> wstate.more t = wstate.more s"
  by (auto simp: vme_create_window_def Let_def dest!: more_lock more_alloc more_ioremap split: if_splits option.splits prod.splits rc.splits)

lemma more_find: "vme_find_mapping k m b s = (r, d, t) \<Longrightarrow> wstate.more t = wstate.more s"
  by (auto simp: vme_find_mapping_def vme_find_mapping_file_def Let_def dest!: more_search more_add more_create
      split: rc.splits prod.splits sum.splits option.splits if_splits)

lemma irq_table_more:
  fixes s t :: "'a istate_scheme"
  assumes "wstate.more t = wstate.more s"
  shows "vme_irq_table t = vme_irq_table s"
  using assms by (cases s, cases t) simp

lemma find_controller_irq_table:
  fixes s :: "'a cstate_scheme"
  assumes "find_controller k a v l am off sz p s = (r, t)"
  shows "vme_irq_table t = vme_irq_table s"
proof -
  have "vme_irq_table u = vme_irq_table s" if "vme_find_mapping k d True (s\<lparr>cesif_descs := n\<rparr>) = (r', d', u)" for d n r' d' u
    using irq_table_more [OF more_find [OF that]] by simp
  then show ?thesis using assms by (auto simp: find_controller_def Let_def split: if_splits prod.splits rc.splits)
qed

lemma irq_look_table: "vme_irq_table t = vme_irq_table s \<Longrightarrow> irq_look t = irq_look s"
  by (simp add: irq_look_def fun_eq_iff)

section \<open>Interrupt numbers\<close>

definition slot_shift :: "nat \<Rightarrow> int" where "slot_shift s = [0, 1, 3, 7] ! s"

lemma less_4: "(s :: nat) < 4 \<longleftrightarrow> s = 0 \<or> s = 1 \<or> s = 2 \<or> s = 3" by auto

lemma irq_shift: "s < 4 \<Longrightarrow> vmodio_irq_shift b s = b - slot_shift s"
  by (auto simp: less_4 vmodio_irq_shift_def slot_shift_def)

text \<open>A base interrupt as the wiring of the board has it: the low nibble is \<open>0xe\<close>, and the vectors of the slots have only its upper nibble in common.\<close>

definition base_irq_ok :: "int \<Rightarrow> bool" where
  "base_irq_ok b \<longleftrightarrow> 0 \<le> b \<and> b < 256 \<and> b mod 16 = 14"

lemma base_irq_form: "base_irq_ok b \<Longrightarrow> \<exists>k. 0 \<le> k \<and> k < 16 \<and> b = 16 * k + 14"
  unfolding base_irq_ok_def by (intro exI [of _ "b div 16"]) (auto, presburger+)

lemma upper_nibble: "upper_nibble_of b = (b div 16) mod 16"
proof -
  have "upper_nibble_of b = take_bit 4 (drop_bit 4 b)" by (simp add: upper_nibble_of_def take_bit_eq_mask mask_eq_exp_minus_1 and.commute)
  then show ?thesis by (simp add: take_bit_eq_mod drop_bit_eq_div)
qed

lemma upper_nibble_pos: "nat (upper_nibble_of b) = nat (upper_nibble_of c) \<longleftrightarrow> upper_nibble_of b = upper_nibble_of c"
  by (rule eq_nat_nat_iff) (simp_all add: upper_nibble)

lemma low_nibble: "(b :: int) AND 0xf = b mod 16"
proof -
  have "b AND 0xf = take_bit 4 b" by (simp add: take_bit_eq_mask mask_eq_exp_minus_1)
  then show ?thesis by (simp add: take_bit_eq_mod)
qed

lemma slot_irq:
  assumes "base_irq_ok b" and "s < 4"
  shows "irq_to_slot (vmodio_irq_shift b s) = int s" "upper_nibble_of (vmodio_irq_shift b s) = upper_nibble_of b"
    "0 \<le> vmodio_irq_shift b s" "vmodio_irq_shift b s < 256"
proof -
  obtain k where k: "0 \<le> k" "k < 16" "b = 16 * k + 14" using base_irq_form [OF assms(1)] by blast
  have "vmodio_irq_shift b s = 16 * k + (14 - slot_shift s)" and "slot_shift s \<in> {0, 1, 3, 7}"
    using assms(2) k by (auto simp: irq_shift less_4 slot_shift_def)
  moreover have "(16 * k + (14 - slot_shift s)) mod 16 = 14 - slot_shift s" "(16 * k + (14 - slot_shift s)) div 16 = k"
    using calculation(2) by auto
  ultimately show "irq_to_slot (vmodio_irq_shift b s) = int s" "upper_nibble_of (vmodio_irq_shift b s) = upper_nibble_of b"
    "0 \<le> vmodio_irq_shift b s" "vmodio_irq_shift b s < 256"
    using assms(2) k by (auto simp: irq_to_slot_def low_nibble upper_nibble interrupt_to_slot_def less_4 slot_shift_def)
qed

lemma base_irq_inj: "base_irq_ok b \<Longrightarrow> base_irq_ok c \<Longrightarrow> upper_nibble_of b = upper_nibble_of c \<Longrightarrow> b = c"
  using base_irq_form [of b] base_irq_form [of c] by (auto simp: upper_nibble)

section \<open>Loading the module\<close>

abbreviation slot_vec :: "int \<Rightarrow> nat \<Rightarrow> u32" where
  "slot_vec b s \<equiv> word_of_int (vmodio_irq_shift b s)"

lemma request_ok:
  assumes "vme_request_irq lock v (Some h) a n s = (OK, t)" and "irq_table_ok s"
  shows "irq_look s v = None \<and> irq_look t = (irq_look s)(v \<mapsto> (h, a)) \<and> irq_table_ok t"
proof -
  let ?e = "\<lparr>vi_handler = Some h, vi_arg = a, vi_count = 0, vi_name = Some (case n of Some n \<Rightarrow> n | None \<Rightarrow> ''Unknown'')\<rparr>"
  have t: "unat v < VME_NUM_VECTORS" "vi_handler (vme_irq_table s ! unat v) = None" "t = s\<lparr>vme_irq_table := (vme_irq_table s)[unat v := ?e]\<rparr>"
    using assms(1) by (auto simp: vme_request_irq_def Let_def split: if_splits rc.splits)
  then show ?thesis using irq_look_update [OF assms(2) t(1), of ?e] assms(2) by (simp add: irq_look_def)
qed

lemma vmodio_wf_slot: "vmodio_wf d \<Longrightarrow> set_slot_irq dv lun i v d = Some d' \<Longrightarrow> vmodio_wf d'"
  by (cases "dv < 16") (auto simp: vmodio_wf_def set_slot_irq_def nth_list_update split: if_splits)

lemma slots_loop_ok:
  assumes "slots_loop env dv lun b is (d, bus) = Some (OK, d', bus')" and "irq_table_ok bus" and "vmodio_wf d" and "dv < 16"
    and "set is \<subseteq> {..<4}" and "distinct is"
  shows "irq_table_ok bus' \<and> vmodio_wf d'
    \<and> (\<forall>s\<in>set is. irq_look bus (slot_vec b s) = None \<and> irq_look bus' (slot_vec b s) = Some (VMODIO_ISR, irq_id dv s)
        \<and> vo_irq (device_table d' ! dv) ! s = vmodio_irq_shift b s)
    \<and> (\<forall>s. s \<notin> set is \<longrightarrow> vo_irq (device_table d' ! dv) ! s = vo_irq (device_table d ! dv) ! s)
    \<and> (\<forall>v. v \<notin> slot_vec b ` set is \<longrightarrow> irq_look bus' v = irq_look bus v)
    \<and> (\<forall>j. j \<noteq> dv \<longrightarrow> device_table d' ! j = device_table d ! j) \<and> vo_lun (device_table d' ! dv) = vo_lun (device_table d ! dv)
    \<and> irq_to_lun d' = irq_to_lun d \<and> devices d' = devices d \<and> mezzanines_callback d' = mezzanines_callback d"
  using assms
proof (induction "is" arbitrary: d bus)
  case (Cons i "is")
  obtain d1 bus1 where st: "set_slot_irq dv lun i (vmodio_irq_shift b i) d = Some d1"
      "vme_request_irq (ve_lock env dv i) (slot_vec b i) (Some VMODIO_ISR) (irq_id dv i) (Some ''vmodio'') bus = (OK, bus1)"
      "slots_loop env dv lun b is (d1, bus1) = Some (OK, d', bus')"
    using Cons.prems(1) by (auto split: option.splits prod.splits rc.splits)
  note req = request_ok [OF st(2) Cons.prems(2)]
  note IH = Cons.IH [OF st(3) _ vmodio_wf_slot [OF Cons.prems(3) st(1)] Cons.prems(4)]
  have len: "length (device_table d) = 16" "length (vo_irq (device_table d ! dv)) = 4"
    using Cons.prems(3,4) by (auto simp: vmodio_wf_def)
  have d1: "vo_irq (device_table d1 ! dv) = (vo_irq (device_table d ! dv))[i := vmodio_irq_shift b i]"
      "vo_lun (device_table d1 ! dv) = vo_lun (device_table d ! dv)"
      "irq_to_lun d1 = irq_to_lun d" "devices d1 = devices d" "mezzanines_callback d1 = mezzanines_callback d"
      "\<forall>j. j \<noteq> dv \<longrightarrow> device_table d1 ! j = device_table d ! j"
    using st(1) len Cons.prems(4) by (auto simp: set_slot_irq_def split: if_splits)
  have ih: "irq_table_ok bus' \<and> vmodio_wf d'
    \<and> (\<forall>s\<in>set is. irq_look bus1 (slot_vec b s) = None \<and> irq_look bus' (slot_vec b s) = Some (VMODIO_ISR, irq_id dv s)
        \<and> vo_irq (device_table d' ! dv) ! s = vmodio_irq_shift b s)
    \<and> (\<forall>s. s \<notin> set is \<longrightarrow> vo_irq (device_table d' ! dv) ! s = vo_irq (device_table d1 ! dv) ! s)
    \<and> (\<forall>v. v \<notin> slot_vec b ` set is \<longrightarrow> irq_look bus' v = irq_look bus1 v)
    \<and> (\<forall>j. j \<noteq> dv \<longrightarrow> device_table d' ! j = device_table d1 ! j) \<and> vo_lun (device_table d' ! dv) = vo_lun (device_table d1 ! dv)
    \<and> irq_to_lun d' = irq_to_lun d1 \<and> devices d' = devices d1 \<and> mezzanines_callback d' = mezzanines_callback d1"
    using IH req Cons.prems(5,6) by auto
  have new: "slot_vec b i \<notin> slot_vec b ` set is" using ih req by (auto simp: fun_upd_def split: if_splits)
  have late: "irq_look bus (slot_vec b s) = None" if "s \<in> set is" for s
  proof -
    have "irq_look bus1 (slot_vec b s) = None" "slot_vec b s \<noteq> slot_vec b i" using ih new that by auto
    then show ?thesis using req by simp
  qed
  have i: "i < 4" "i \<notin> set is" using Cons.prems(5,6) by auto
  show ?case using ih req new late i len d1 by (auto simp: nth_list_update)
qed simp

definition dev_loaded :: "int \<times> u32 \<times> int \<Rightarrow> nat \<Rightarrow> ('c, 'd) vmodio_drv \<Rightarrow> cstate \<Rightarrow> bool" where
  "dev_loaded arg j d bus \<longleftrightarrow> (case arg of (lun, ba, b) \<Rightarrow>
      vo_lun (device_table d ! j) = lun \<and> irq_to_lun d ! nat (upper_nibble_of b) = lun
      \<and> (\<forall>s < 4. vo_irq (device_table d ! j) ! s = vmodio_irq_shift b s \<and> irq_look bus (slot_vec b s) = Some (VMODIO_ISR, irq_id j s)))"

definition loaded :: "(nat \<Rightarrow> int \<times> u32 \<times> int) \<Rightarrow> nat \<Rightarrow> ('c, 'd) vmodio_drv \<Rightarrow> cstate \<Rightarrow> bool" where
  "loaded arg m d bus \<longleftrightarrow> vmodio_wf d \<and> devices d = m \<and> irq_table_ok bus \<and> (\<forall>j < m. dev_loaded (arg j) j d bus)"

lemma loadedD:
  assumes "loaded arg m d bus"
  shows "vmodio_wf d" "devices d = m" "irq_table_ok bus" "j < m \<Longrightarrow> dev_loaded (arg j) j d bus"
  using assms by (simp_all add: loaded_def)

lemma dev_loadedD:
  assumes "dev_loaded (l, a, c) j d bus"
  shows "vo_lun (device_table d ! j) = l" "irq_to_lun d ! nat (upper_nibble_of c) = l"
    "s < 4 \<Longrightarrow> vo_irq (device_table d ! j) ! s = vmodio_irq_shift c s" "s < 4 \<Longrightarrow> irq_look bus (slot_vec c s) = Some (VMODIO_ISR, irq_id j s)"
  using assms by (simp_all add: dev_loaded_def)

text \<open>
  A device that comes up adds its four vectors to those of the devices before it. Two boards cannot have the same upper nibble: the
  bridge refuses a vector that has a handler.
\<close>

lemma device_init_ok:
  assumes "device_init env m lun ba b (d, bus) = Some (OK, d', bus')" and "loaded arg m d bus" and "m < 16" and "arg m = (lun, ba, b)"
    and "\<forall>j \<le> m. base_irq_ok (snd (snd (arg j)))"
  shows "loaded arg (Suc m) (d'\<lparr>devices := devices d' + 1\<rparr>) bus' \<and> mezzanines_callback d' = mezzanines_callback d"
proof -
  obtain va bus1 where map: "vmodio_map (ve_kernel env m) (ve_alloc env m) ba bus = (va, bus1)" by fastforce
  let ?d = "d\<lparr>device_table := (device_table d)[m := (device_table d ! m)\<lparr>vo_lun := lun, vo_vme_addr := ba, vo_vaddr := va\<rparr>]\<rparr>"
  let ?d1 = "?d\<lparr>irq_to_lun := (irq_to_lun ?d)[nat (upper_nibble_of b) := lun]\<rparr>"
  have run: "slots_loop env m lun b [0..<4] (?d1, bus1) = Some (OK, d', bus')"
    using assms(1) map by (auto simp: device_init_def Let_def split: if_splits)
  have tbl: "vme_irq_table bus1 = vme_irq_table bus" using map find_controller_irq_table by (metis vmodio_map_def)
  have L: "vmodio_wf d" "devices d = m" "irq_table_ok bus" using loadedD [OF assms(2)] by blast+
  have wf1: "vmodio_wf ?d1" using L(1) assms(3) by (simp add: vmodio_wf_def nth_list_update)
  have "irq_table_ok bus1" "set [0..<4] \<subseteq> {..<4 :: nat}" "distinct [0..<4 :: nat]" using tbl L(3) by auto
  note S = slots_loop_ok [OF run this(1) wf1 assms(3) this(2,3)]
  have new: "irq_look bus1 (slot_vec b s) = None" "irq_look bus' (slot_vec b s) = Some (VMODIO_ISR, irq_id m s)"
      "vo_irq (device_table d' ! m) ! s = vmodio_irq_shift b s" if "s < 4" for s
    using S that by simp_all
  have rest: "irq_look bus' v = irq_look bus1 v" if "v \<notin> slot_vec b ` {..<4}" for v
    using S that by (simp add: lessThan_atLeast0)
  have other: "device_table d' ! j = device_table d ! j" if "j \<noteq> m" for j using S that by simp
  have fin: "irq_table_ok bus'" "vmodio_wf d'" "vo_lun (device_table d' ! m) = lun" "irq_to_lun d' = irq_to_lun ?d1" "devices d' = m"
      "mezzanines_callback d' = mezzanines_callback d"
    using S L(1,2) assms(3) by (simp_all add: vmodio_wf_def)
  have ok: "base_irq_ok b" using assms(4,5) by auto
  have len: "length (irq_to_lun d) = 16" using L(1) by (simp add: vmodio_wf_def)
  have nib: "nat (upper_nibble_of b) < 16" by (simp add: upper_nibble)
  have old: "dev_loaded (arg j) j d' bus'" if "j < m" for j
  proof -
    obtain l a c where arg: "arg j = (l, a, c)" by (metis prod_cases3)
    note D = dev_loadedD [OF loadedD(4) [OF assms(2) that, unfolded arg]]
    have taken: "irq_look bus1 (slot_vec c s) \<noteq> None" if "s < 4" for s using D(4) [OF that] irq_look_table [OF tbl] by simp
    have "base_irq_ok c" using assms(5) that arg by (metis less_imp_le snd_conv)
    then have "upper_nibble_of c \<noteq> upper_nibble_of b" using taken [of 0] new(1) [of 0] base_irq_inj [OF _ ok, of c] by auto
    then have "nat (upper_nibble_of c) \<noteq> nat (upper_nibble_of b)" by (simp add: upper_nibble_pos)
    moreover have "irq_look bus' (slot_vec c s) = irq_look bus (slot_vec c s)" if "s < 4" for s
    proof -
      have "slot_vec c s \<notin> slot_vec b ` {..<4}" using taken [OF that] new(1) by fastforce
      then show ?thesis using rest irq_look_table [OF tbl] by metis
    qed
    ultimately show ?thesis using D other [of j] that fin(4) unfolding dev_loaded_def arg by simp
  qed
  have "dev_loaded (arg m) m d' bus'" using new fin(3,4) len nib unfolding dev_loaded_def assms(4) by simp
  moreover have "vmodio_wf (d'\<lparr>devices := devices d' + 1\<rparr>)" using fin(2,5) assms(3) by (simp add: vmodio_wf_def)
  ultimately show ?thesis using fin(1,5,6) old unfolding loaded_def by (simp add: dev_loaded_def less_Suc_eq all_conj_distrib)
qed

lemma devices_loop_ok:
  assumes "devices_loop env arg [m..<n] (d, bus) = Some (OK, d', bus')" and "loaded arg m d bus" and "n \<le> 16" and "m \<le> n"
    and "\<forall>j < n. base_irq_ok (snd (snd (arg j)))"
  shows "loaded arg n d' bus' \<and> mezzanines_callback d' = mezzanines_callback d"
  using assms(4,1,2)
proof (induction "n - m" arbitrary: m d bus)
  case (Suc k)
  then have m: "m < n" by simp
  obtain lun ba b where arg: "arg m = (lun, ba, b)" by (metis prod_cases3)
  obtain d1 bus1 where st: "device_init env m lun ba b (d, bus) = Some (OK, d1, bus1)"
      "devices_loop env arg [Suc m..<n] (d1\<lparr>devices := devices d1 + 1\<rparr>, bus1) = Some (OK, d', bus')"
    using Suc.prems(2) arg m by (auto simp: upt_conv_Cons split: option.splits prod.splits rc.splits)
  have "loaded arg (Suc m) (d1\<lparr>devices := devices d1 + 1\<rparr>) bus1 \<and> mezzanines_callback d1 = mezzanines_callback d"
    by (rule device_init_ok [OF st(1) Suc.prems(3) _ arg]) (use m assms(3,5) in auto)
  then show ?case using Suc.hyps(1) [of "Suc m"] Suc.hyps(2) m st(2) by auto
qed simp

definition vmodio_cleared :: "('c, 'd) vmodio_drv \<Rightarrow> ('c, 'd) vmodio_drv" where
  "vmodio_cleared d = d\<lparr>irq_to_lun := replicate MAX_DEVICES (- 1), lun_slot_to_irq := replicate MAX_DEVICES (replicate VMODIO_SLOTS (- 1)), devices := 0\<rparr>"

lemma vmodio_cleared_wf: "vmodio_wf d \<Longrightarrow> vmodio_wf (vmodio_cleared d)"
  by (simp add: vmodio_wf_def vmodio_cleared_def)

lemma vmodio_init_loop:
  assumes "length lun < 16" and "length ba = length lun" and "length irq = length lun"
    and "modulbus_carrier_register ''vmodio'' g r reg = (OK, reg')"
  shows "vmodio_init env g r lun ba irq (d, bus, reg) =
    (case devices_loop env (\<lambda>i. (lun ! i, ba ! i, irq ! i)) [0..<length lun] (vmodio_cleared d, bus) of
       None \<Rightarrow> None
     | Some (OK, d', bus') \<Rightarrow> Some (OK, d', bus', reg')
     | Some (Err e, d', bus') \<Rightarrow> Some (Err EPERM, d', bus', snd (modulbus_carrier_unregister ''vmodio'' reg')))"
  using assms by (simp add: vmodio_init_def vmodio_cleared_def Let_def)

lemma vmodio_init_ok:
  assumes "vmodio_init env g r lun ba irq (d0, bus0, reg0) = Some (OK, d, bus, reg)"
  shows "length lun < 16" "length ba = length lun" "length irq = length lun"
    "devices_loop env (\<lambda>i. (lun ! i, ba ! i, irq ! i)) [0..<length lun] (vmodio_cleared d0, bus0) = Some (OK, d, bus)"
  using assms by (auto simp: vmodio_init_def vmodio_cleared_def Let_def split: if_splits prod.splits rc.splits option.splits)

lemma vmodio_init_loaded:
  assumes "vmodio_init env g r lun ba irq (d0, bus0, reg0) = Some (OK, d, bus, reg)" and "vmodio_wf d0" and "irq_table_ok bus0"
    and "\<forall>b\<in>set irq. base_irq_ok b"
  shows "loaded (\<lambda>i. (lun ! i, ba ! i, irq ! i)) (length lun) d bus"
proof -
  note I = vmodio_init_ok [OF assms(1)]
  have "loaded (\<lambda>i. (lun ! i, ba ! i, irq ! i)) 0 (vmodio_cleared d0) bus0"
    using vmodio_cleared_wf [OF assms(2)] assms(3) by (simp add: loaded_def vmodio_cleared_def)
  from devices_loop_ok [OF I(4) this] show ?thesis using I(1-3) assms(4) by simp
qed

section \<open>From the bus to the callback\<close>

abbreviation vmodio_entry :: "('c, 'd) vmodio_drv \<Rightarrow> int \<Rightarrow> int \<Rightarrow> ('c, 'd) mz_callback" where
  "vmodio_entry d b p \<equiv> mezzanines_callback d ! nat b ! nat p"

lemma vmodio_register_frame [simp]:
  "device_table (snd (vmodio_register_isr c dev b p d)) = device_table d" "devices (snd (vmodio_register_isr c dev b p d)) = devices d"
  "irq_to_lun (snd (vmodio_register_isr c dev b p d)) = irq_to_lun d"
  by (simp_all add: vmodio_register_isr_def)

lemma vmodio_register_all_frame:
  "device_table (register_all vmodio_register_isr regs d) = device_table d"
  "irq_to_lun (register_all vmodio_register_isr regs d) = irq_to_lun d"
  unfolding register_all_def by (induction regs arbitrary: d) auto

interpretation vmodio_isrs: isr_table vmodio_register_isr vmodio_entry within_bounds vmodio_wf
proof (unfold_locales, goal_cases)
  case (5 s b p b' p' c dev)
  then show ?case
    by (cases "b' = b") (auto simp: vmodio_register_isr_def within_bounds_def vmodio_wf_def nth_list_update)
qed (auto simp: vmodio_register_isr_def within_bounds_def vmodio_wf_def nth_list_update)

lemma bus_calls_isr:
  assumes "irq_look bus v = Some (h, a)" and "of_nat (tsi148_iack8 viack level) = v"
  shows "fst (handle_level viack level bus) = [Irq_call h a]"
  using assms irq_calls_look [of bus viack level] by (simp add: level_effect)


text \<open>
  C30: once the VMOD/IO module is loaded, with luns \<open>0\<close> to \<open>n - 1\<close> in any order and base interrupts as the boards are wired, an interrupt that
  the board of index \<open>i\<close> raises for its slot \<open>s\<close> reaches the mezzanine driver that registered for that slot, and only it. The bridge, answered with the
  vector of the slot, calls the handler of the carrier with the pointer of that slot; and the handler, after any registrations of callbacks, calls the one last registered
  for the lun and the slot, with its device, and reports the interrupt as handled unless the callback fails.
\<close>

theorem slot_interrupt_reaches_callback:
  assumes "vmodio_init env g r lun ba irq (d0, bus0, reg0) = Some (OK, d, bus, reg)" and "vmodio_wf d0" and "irq_table_ok bus0"
    and "\<forall>b\<in>set irq. base_irq_ok b" and "\<forall>l\<in>set lun. 0 \<le> l \<and> l < int (length lun)" and "i < length lun" and "s < 4"
    and "\<forall>(c, dev, b, p)\<in>set post. (b, p) \<noteq> (lun ! i, int s)"
    and "int (tsi148_iack8 viack level) = irq ! i - slot_shift s"
  shows "fst (handle_level viack level bus) = [Irq_call VMODIO_ISR (irq_id i s)]
    \<and> vmodio_interrupt call (irq_id i s) (register_all vmodio_register_isr (pre @ (Some c, dev, lun ! i, int s) # post) d)
        = (if call c dev < 0 then IRQ_NONE else IRQ_HANDLED, [(c, dev)])"
proof -
  let ?d = "register_all vmodio_register_isr (pre @ (Some c, dev, lun ! i, int s) # post) d"
  note L = vmodio_init_loaded [OF assms(1-4)]
  note D = dev_loadedD [OF loadedD(4) [OF L assms(6)]]
  have b: "base_irq_ok (irq ! i)" using assms(4,6) vmodio_init_ok(3) [OF assms(1)] by simp
  have shift: "vmodio_irq_shift (irq ! i) s = irq ! i - slot_shift s" by (rule irq_shift [OF assms(7)])
  have lun: "0 \<le> lun ! i" "lun ! i < int (length lun)" using assms(5,6) by (auto simp: all_set_conv_all_nth)
  have bounds: "within_bounds (lun ! i) (int s) d" using lun loadedD(2) [OF L] assms(7) by (simp add: within_bounds_def)
  have entry: "mezzanines_callback ?d ! nat (lun ! i) ! s = \<lparr>mz_callback = Some c, mz_dev = dev\<rparr>"
    using vmodio_isrs.last_registered [OF loadedD(1) [OF L] bounds assms(8)] by simp
  have no: "irqno_of (irq_id i s) ?d = vmodio_irq_shift (irq ! i) s"
    using D(3) [OF assms(7)] assms(7) by (simp add: irqno_of_def irq_id_def vmodio_register_all_frame)
  have bounds': "within_bounds (lun ! i) (int s) ?d" using bounds vmodio_isrs.register_all_keeps [OF loadedD(1) [OF L]] by blast
  have carrier: "irq_to_lun ?d ! nat (upper_nibble_of (vmodio_irq_shift (irq ! i) s)) = lun ! i"
    using D(2) slot_irq(2) [OF b assms(7)] by (simp add: vmodio_register_all_frame)
  have "of_nat (tsi148_iack8 viack level) = slot_vec (irq ! i) s" unfolding shift assms(9) [symmetric] by simp
  then show ?thesis
    using bus_calls_isr [OF D(4) [OF assms(7)]] entry no carrier bounds' slot_irq(1) [OF b assms(7)]
    by (simp add: vmodio_interrupt_def Let_def)
qed

section \<open>The invocation the source documents\<close>

lemma slots_loop_keeps:
  assumes "slots_loop env dv lun b is (d, bus) = Some (r, d', bus')" and "irq_table_ok bus"
  shows "irq_table_ok bus' \<and> (irq_look bus v = Some x \<longrightarrow> irq_look bus' v = Some x)"
  using assms
proof (induction "is" arbitrary: d bus)
  case (Cons i "is")
  obtain r1 bus1 where req: "vme_request_irq (ve_lock env dv i) (slot_vec b i) (Some VMODIO_ISR) (irq_id dv i) (Some ''vmodio'') bus = (r1, bus1)"
    by fastforce
  show ?case
  proof (cases r1)
    case OK
    then show ?thesis using Cons req request_ok [OF req [unfolded OK] Cons.prems(2)]
      by (auto split: option.splits) (metis fun_upd_other option.discI)
  next
    case (Err e)
    then have "bus1 = bus" using req by (auto simp: vme_request_irq_def Let_def split: if_splits rc.splits)
    then show ?thesis using Cons.prems req Err by (auto split: option.splits)
  qed
qed simp

lemma slots_loop_total: "0 \<le> lun \<Longrightarrow> lun < 16 \<Longrightarrow> \<exists>r t. slots_loop env dv lun b is s = Some (r, t)"
  by (induction "is" arbitrary: s) (auto simp: set_slot_irq_def split: prod.splits rc.splits)

text \<open>A device whose slot needs a vector that is taken does not come up.\<close>

lemma device_init_refused:
  assumes "irq_look bus (slot_vec b s) \<noteq> None" and "s < 4" and "irq_table_ok bus" and "vmodio_wf d" and "dv < 16" and "0 \<le> lun" and "lun < 16"
  shows "\<exists>e d' bus'. device_init env dv lun a b (d, bus) = Some (Err e, d', bus')"
proof -
  obtain va bus1 where map: "vmodio_map (ve_kernel env dv) (ve_alloc env dv) a bus = (va, bus1)" by fastforce
  have tbl: "vme_irq_table bus1 = vme_irq_table bus" using map find_controller_irq_table by (metis vmodio_map_def)
  let ?d = "d\<lparr>device_table := (device_table d)[dv := (device_table d ! dv)\<lparr>vo_lun := lun, vo_vme_addr := a, vo_vaddr := va\<rparr>],
      irq_to_lun := (irq_to_lun d)[nat (upper_nibble_of b) := lun]\<rparr>"
  have wf: "vmodio_wf ?d" using assms(4,5) by (simp add: vmodio_wf_def nth_list_update)
  obtain r d' bus' where run: "slots_loop env dv lun b [0..<4] (?d, bus1) = Some (r, d', bus')"
    using slots_loop_total [OF assms(6,7)] by (metis surj_pair)
  have ok: "irq_table_ok bus1" "set [0..<4] \<subseteq> {..<4 :: nat}" "distinct [0..<4 :: nat]" using tbl assms(3) by auto
  have "r \<noteq> OK"
  proof
    assume "r = OK"
    then have "irq_look bus1 (slot_vec b s) = None"
      using slots_loop_ok [OF run [unfolded \<open>r = OK\<close>] ok(1) wf assms(5) ok(2,3)] assms(2) by simp
    then show False using assms(1) irq_look_table [OF tbl] by simp
  qed
  then obtain e where "r = Err e" by (cases r) auto
  then show ?thesis using map run by (auto simp: device_init_def Let_def)
qed

lemma device_init_keeps:
  assumes "device_init env i l a b (d, bus) = Some (r, d', bus')" and "irq_table_ok bus"
  shows "irq_table_ok bus' \<and> (irq_look bus v = Some x \<longrightarrow> irq_look bus' v = Some x)"
proof -
  obtain va bus1 where map: "vmodio_map (ve_kernel env i) (ve_alloc env i) a bus = (va, bus1)" by fastforce
  have tbl: "vme_irq_table bus1 = vme_irq_table bus" using map find_controller_irq_table by (metis vmodio_map_def)
  then have "irq_table_ok bus1" "irq_look bus1 = irq_look bus" using assms(2) irq_look_table by auto
  then show ?thesis
    using assms(1) map by (auto simp: device_init_def Let_def split: if_splits dest: slots_loop_keeps [where v = v and x = x])
qed

lemma devices_loop_keeps:
  assumes "devices_loop env arg is (d, bus) = Some (r, d', bus')" and "irq_table_ok bus"
  shows "irq_look bus v = Some x \<longrightarrow> irq_look bus' v = Some x"
  using assms
proof (induction "is" arbitrary: d bus)
  case (Cons i "is")
  obtain l a b where arg: "arg i = (l, a, b)" by (metis prod_cases3)
  obtain r1 d1 bus1 where dev: "device_init env i l a b (d, bus) = Some (r1, d1, bus1)"
    using Cons.prems(1) arg by (auto split: option.splits)
  note K = device_init_keeps [OF dev Cons.prems(2), of v x]
  show ?case
  proof (cases r1)
    case OK
    then have "devices_loop env arg is (d1\<lparr>devices := devices d1 + 1\<rparr>, bus1) = Some (r, d', bus')" using Cons.prems(1) arg dev by simp
    then show ?thesis using Cons.IH K by blast
  next
    case (Err e)
    then show ?thesis using Cons.prems(1) arg dev K by simp
  qed
qed simp

text \<open>
  C40: the invocation that \<open>vmodio.c\<close> documents, \<open>lun=0,1,4 base_address=0x1200,0xA800,0x6000 irq=126,130,142\<close>, never loads the module: the
  last slot of the board at 130 has the vector 123, which is that of the third slot of the board at 126, and the bridge refuses it. What is more, a failed load gives back
  the name of the carrier but not the vectors: if the first board came up, the handler of the module stays installed for all four of its slots.
\<close>

theorem documented_invocation_fails:
  assumes "vmodio_wf d0" and "irq_table_ok bus0" and "modulbus_carrier_register ''vmodio'' g r reg0 = (OK, reg1)"
    and "device_init env 0 0 0x1200 126 (vmodio_cleared d0, bus0) = Some (OK, d1, bus1)"
  shows "\<exists>d bus. vmodio_init env g r [0, 1, 4] [0x1200, 0xA800, 0x6000] [126, 130, 142] (d0, bus0, reg0)
        = Some (Err EPERM, d, bus, snd (modulbus_carrier_unregister ''vmodio'' reg1))
      \<and> (\<forall>s < 4. irq_look bus (slot_vec 126 s) = Some (VMODIO_ISR, irq_id 0 s))"
proof -
  let ?arg = "\<lambda>i. ([0, 1, 4] ! i, [0x1200, 0xA800, 0x6000] ! i, [126, 130, 142] ! i) :: int \<times> u32 \<times> int"
  let ?d1 = "d1\<lparr>devices := devices d1 + 1\<rparr>"
  have "loaded ?arg 0 (vmodio_cleared d0) bus0"
    using vmodio_cleared_wf [OF assms(1)] assms(2) by (simp add: loaded_def vmodio_cleared_def)
  from device_init_ok [OF assms(4) this] have L: "loaded ?arg 1 ?d1 bus1" by (simp add: base_irq_ok_def)
  have first: "irq_look bus1 (slot_vec 126 s) = Some (VMODIO_ISR, irq_id 0 s)" if "s < 4" for s
    using dev_loadedD(4) [OF loadedD(4) [OF L, of 0]] that by simp
  have ok1: "irq_table_ok bus1" "vmodio_wf ?d1" using loadedD [OF L] by blast+
  have second: "\<exists>e d2 bus3. device_init env 1 1 0xA800 130 (?d1, bus1) = Some (Err e, d2, bus3)"
    by (rule device_init_refused [where s = 3]) (use first [of 2] ok1 in \<open>simp_all add: irq_shift slot_shift_def\<close>)
  then obtain e d2 bus3 where dev: "device_init env 1 1 0xA800 130 (?d1, bus1) = Some (Err e, d2, bus3)" by blast
  have run: "devices_loop env ?arg [0..<length [0 :: int, 1, 4]] (vmodio_cleared d0, bus0) = Some (Err e, d2, bus3)"
    using assms(4) dev by (simp add: upt_rec)
  have init: "vmodio_init env g r [0, 1, 4] [0x1200, 0xA800, 0x6000] [126, 130, 142] (d0, bus0, reg0)
      = Some (Err EPERM, d2, bus3, snd (modulbus_carrier_unregister ''vmodio'' reg1))"
    by (subst vmodio_init_loop [OF _ _ _ assms(3)], simp, simp, simp) (unfold run, simp)
  have "irq_look bus3 (slot_vec 126 s) = Some (VMODIO_ISR, irq_id 0 s)" if "s < 4" for s
    using device_init_keeps [OF dev ok1(1)] first [OF that] by blast
  then show ?thesis using init by blast
qed

section \<open>Examples\<close>

definition demo_vmodio_env :: vmodio_env where
  "demo_vmodio_env = \<lparr>ve_kernel = (\<lambda>_. demo_kernel), ve_alloc = (\<lambda>_. True), ve_lock = (\<lambda>_ _. OK)\<rparr>"

definition demo_vmodio :: "(nat, nat) vmodio_drv" where
  "demo_vmodio = \<lparr>device_table = replicate 16 \<lparr>vo_lun = 0, vo_vme_addr = 0, vo_vaddr = 0, vo_irq = [0, 0, 0, 0]\<rparr>, devices = 0,
     irq_to_lun = replicate 16 0, lun_slot_to_irq = replicate 16 [0, 0, 0, 0],
     mezzanines_callback = replicate 16 (replicate 4 \<lparr>mz_callback = None, mz_dev = 0\<rparr>)\<rparr>"

lemma demo_vmodio_wf: "vmodio_wf demo_vmodio"
  by (simp add: vmodio_wf_def demo_vmodio_def)

lemma demo_ces_irqs: "irq_table_ok demo_ces"
  by code_simp

lemma demo_vmodio_init:
  "case vmodio_init demo_vmodio_env () () [1, 0] [0x1200, 0xA800] [126, 142] (demo_vmodio, demo_ces, []) of
     Some (OK, _) \<Rightarrow> True | _ \<Rightarrow> False"
  by code_simp

lemma demo_vmodio_first:
  "case device_init demo_vmodio_env 0 0 0x1200 126 (vmodio_cleared demo_vmodio, demo_ces) of Some (OK, _) \<Rightarrow> True | _ \<Rightarrow> False"
  by code_simp

theorem slot_interrupt_reaches_callback_witness:
  "\<exists>d bus reg. vmodio_init demo_vmodio_env () () [1, 0] [0x1200, 0xA800] [126, 142] (demo_vmodio, demo_ces, []) = Some (OK, d, bus, reg)
    \<and> fst (handle_level (\<lambda>_. 139) 3 bus) = [Irq_call VMODIO_ISR (irq_id 1 2)]
    \<and> vmodio_interrupt (\<lambda>c dev. 0) (irq_id 1 2) (register_all vmodio_register_isr [(Some 5, 50, 1, 2), (Some 7, 70, 0, 2)] d) = (IRQ_HANDLED, [(7, 70)])"
proof -
  obtain d bus reg where run:
    "vmodio_init demo_vmodio_env () () [1, 0] [0x1200, 0xA800] [126, 142] (demo_vmodio, demo_ces, []) = Some (OK, d, bus, reg)"
    using demo_vmodio_init by (auto split: option.splits prod.splits rc.splits)
  have "int (tsi148_iack8 (\<lambda>_. 139) 3) = [126, 142] ! 1 - slot_shift 2" by (simp add: tsi148_iack8_def slot_shift_def)
  from slot_interrupt_reaches_callback [OF run demo_vmodio_wf demo_ces_irqs _ _ _ _ _ this, of "[]" "\<lambda>c dev. 0" "[(Some 5, 50, 1, 2)]" 7 70] run
  show ?thesis by (simp add: base_irq_ok_def)
qed

theorem documented_invocation_fails_witness:
  "\<exists>d bus. vmodio_init demo_vmodio_env () () [0, 1, 4] [0x1200, 0xA800, 0x6000] [126, 130, 142] (demo_vmodio, demo_ces, [])
      = Some (Err EPERM, d, bus, []) \<and> irq_look bus 123 = Some (VMODIO_ISR, irq_id 0 2)"
proof -
  obtain d1 bus1 where dev: "device_init demo_vmodio_env 0 0 0x1200 126 (vmodio_cleared demo_vmodio, demo_ces) = Some (OK, d1, bus1)"
    using demo_vmodio_first by (auto split: option.splits prod.splits rc.splits)
  let ?reg = "[\<lparr>re_name = ''vmodio'', re_get_address_space = (), re_register_isr = ()\<rparr>]"
  have reg: "modulbus_carrier_register ''vmodio'' () () [] = (OK, ?reg)" "snd (modulbus_carrier_unregister ''vmodio'' ?reg) = []"
    by code_simp+
  have "slot_vec 126 2 = 123" by (simp add: irq_shift slot_shift_def)
  then show ?thesis
    using documented_invocation_fails [OF demo_vmodio_wf demo_ces_irqs reg(1) dev] reg(2) by (metis less_4)
qed

end
