(* ===== verification/Modpci.thy ===== *)
theory Modpci
  imports Vmod_Bus Vme_Irq
begin

text \<open>
  The MOD-PCI carrier (\<open>src/vmod/driver/mod-pci.c\<close>), a PCI board with two mezzanine slots: its table of devices, the address spaces it
  gives, the probing and removal of a PCI device with the resources they take, and the interrupts it shares out
  to its slots. What the kernel's PCI services answer is a parameter.
\<close>

section \<open>The state of the driver\<close>

abbreviation (input) MODPCI_MAX_DEVICES :: nat where "MODPCI_MAX_DEVICES \<equiv> 16"
abbreviation (input) MOD_PCI_SLOTS :: nat where "MOD_PCI_SLOTS \<equiv> 2"
abbreviation (input) MOD_PCI_BIG_BAR :: nat where "MOD_PCI_BIG_BAR \<equiv> 3"
abbreviation (input) MOD_PCI_ONBOARD_REGS_BAR :: nat where "MOD_PCI_ONBOARD_REGS_BAR \<equiv> 4"
abbreviation (input) MOD_PCI_BAR_SIZE :: u32 where "MOD_PCI_BAR_SIZE \<equiv> 4096"

text \<open>The on-board registers the driver uses, by their offset; the NULL pointer is address 0.\<close>

abbreviation (input) INT_STAT :: u32 where "INT_STAT \<equiv> 1"
abbreviation (input) INT_DISABLE :: u32 where "INT_DISABLE \<equiv> 1"
abbreviation (input) INT_ENABLE :: u32 where "INT_ENABLE \<equiv> 3"
abbreviation (input) RESET_ASSERT :: u32 where "RESET_ASSERT \<equiv> 5"
abbreviation (input) RESET_DEASSERT :: u32 where "RESET_DEASSERT \<equiv> 7"

record mod_pci =
  mo_lun :: int
  mo_bus_number :: int
  mo_slot_number :: int
  mo_vaddr :: u32
  mo_onboard :: u32

record ('c, 'd) modpci_drv =
  pci_table :: "mod_pci list"
  pci_devices :: nat
  modpci_callbacks :: "('c, 'd) mz_callback list list"

text \<open>
  A PCI device as the kernel presents it, with the answers of the kernel to the requests of the driver; and what the driver holds of it:
  whether it is enabled, the regions requested, the mappings made, the interrupt, and the bytes written to the on-board registers.
\<close>

record pci_dev =
  pci_bus :: int
  pci_slot :: int
  pci_enable :: bool
  pci_is_mem :: "nat \<Rightarrow> bool"
  pci_len :: "nat \<Rightarrow> u32"
  pci_request_region :: "nat \<Rightarrow> bool"
  pci_ioremap :: "nat \<Rightarrow> u32"
  pci_request_irq :: rc

record pci_res =
  pr_enabled :: bool
  pr_regions :: "nat list"
  pr_maps :: "u32 list"
  pr_irq :: bool
  pr_writes :: "(u32 \<times> u8) list"

section \<open>Devices and address spaces\<close>

definition find_device_by_lun :: "int \<Rightarrow> ('c, 'd) modpci_drv \<Rightarrow> mod_pci option" where
  "find_device_by_lun lun d = find (\<lambda>v. mo_lun v = lun) (take (pci_devices d) (pci_table d))"

definition modpci_offsets :: "u32 list" where
  "modpci_offsets = [0x000, 0x200]"

definition modpci_get_address_space :: "('c, 'd) modpci_drv \<Rightarrow> gas" where
  "modpci_get_address_space d board_number board_position address_space_number =
    (case find_device_by_lun board_number d of
       None \<Rightarrow> None
     | Some dev \<Rightarrow>
         if board_position AND NOT 1 \<noteq> 0 then None
         else Some \<lparr>as_address = mo_vaddr dev + modpci_offsets ! nat board_position, as_width = 16, as_size = 512, as_is_big_endian = True\<rparr>)"

definition find_device_config :: "pci_dev \<Rightarrow> ('c, 'd) modpci_drv \<Rightarrow> nat option" where
  "find_device_config dev d =
    find (\<lambda>i. mo_bus_number (pci_table d ! i) = pci_bus dev \<and> mo_slot_number (pci_table d ! i) = pci_slot dev) [0..<pci_devices d]"

definition map_bar :: "pci_dev \<Rightarrow> nat \<Rightarrow> u32 \<Rightarrow> pci_res \<Rightarrow> u32 \<times> pci_res" where
  "map_bar dev bar bar_size r =
    (if \<not> pci_is_mem dev bar then (0, r)
     else if pci_len dev bar < bar_size then (0, r)
     else if \<not> pci_request_region dev bar then (0, r)
     else let va = pci_ioremap dev bar
          in if va = 0 then (0, r\<lparr>pr_regions := []\<rparr>)
             else (va, r\<lparr>pr_regions := bar # pr_regions r, pr_maps := va # pr_maps r\<rparr>))"

section \<open>Interrupts\<close>

definition modpci_within_range :: "int \<Rightarrow> int \<Rightarrow> ('c, 'd) modpci_drv \<Rightarrow> bool" where
  "modpci_within_range board slot d \<longleftrightarrow> 0 \<le> board \<and> board < int MODPCI_MAX_DEVICES \<and> 0 \<le> slot \<and> slot < int MOD_PCI_SLOTS"

definition modpci_iowrite8 :: "u8 \<Rightarrow> u32 \<Rightarrow> pci_res \<Rightarrow> pci_res" where
  "modpci_iowrite8 v a r = r\<lparr>pr_writes := pr_writes r @ [(a, v)]\<rparr>"

definition modpci_enable_irq :: "mod_pci \<Rightarrow> pci_res \<Rightarrow> pci_res" where
  "modpci_enable_irq dev = modpci_iowrite8 3 (mo_onboard dev + INT_ENABLE)"

definition modpci_disable_irq :: "mod_pci \<Rightarrow> pci_res \<Rightarrow> pci_res" where
  "modpci_disable_irq dev = modpci_iowrite8 3 (mo_onboard dev + INT_DISABLE)"

definition modpci_reset :: "mod_pci \<Rightarrow> pci_res \<Rightarrow> pci_res" where
  "modpci_reset dev r = modpci_iowrite8 3 (mo_onboard dev + RESET_DEASSERT) (modpci_iowrite8 3 (mo_onboard dev + RESET_ASSERT) r)"

text \<open>
  The loop over the slots that raise the interrupt; it ends at the first slot without a callback, or whose callback fails.
\<close>

primrec modpci_slots ::
    "('c \<Rightarrow> 'd \<Rightarrow> int) \<Rightarrow> ('c, 'd) mz_callback list \<Rightarrow> (nat \<Rightarrow> bool) \<Rightarrow> nat list \<Rightarrow> irqreturn \<times> ('c \<times> 'd) list" where
  "modpci_slots call cbs raised [] = (IRQ_HANDLED, [])"
| "modpci_slots call cbs raised (i # is) =
    (if \<not> raised i then modpci_slots call cbs raised is
     else case mz_callback (cbs ! i) of
         None \<Rightarrow> (IRQ_NONE, [])
       | Some c \<Rightarrow>
           if call c (mz_dev (cbs ! i)) < 0 then (IRQ_NONE, [(c, mz_dev (cbs ! i))])
           else (case modpci_slots call cbs raised is of (r, calls) \<Rightarrow> (r, (c, mz_dev (cbs ! i)) # calls)))"

text \<open>
  \<open>int_stat\<close> is what the status register reads. The lun is not checked: one that is not an index of the table makes the driver read outside it.
\<close>

definition modpci_interrupt ::
    "('c \<Rightarrow> 'd \<Rightarrow> int) \<Rightarrow> u8 \<Rightarrow> mod_pci \<Rightarrow> ('c, 'd) modpci_drv \<Rightarrow> (irqreturn \<times> ('c \<times> 'd) list) option" where
  "modpci_interrupt call int_stat dev d =
    (let raised = (\<lambda>i :: nat. if i = 0 then int_stat AND 1 = 0 else int_stat AND 2 = 0)
     in if \<not> raised 0 \<and> \<not> raised 1 then Some (IRQ_NONE, [])
        else if mo_lun dev < 0 \<or> int MODPCI_MAX_DEVICES \<le> mo_lun dev then None
        else Some (modpci_slots call (modpci_callbacks d ! nat (mo_lun dev)) raised [0..<MOD_PCI_SLOTS]))"

definition modpci_register_isr ::
    "'c option \<Rightarrow> 'd \<Rightarrow> int \<Rightarrow> int \<Rightarrow> ('c, 'd) modpci_drv \<Rightarrow> rc \<times> ('c, 'd) modpci_drv" where
  "modpci_register_isr callback source board_number board_position d =
    (if \<not> modpci_within_range board_number board_position d then (Err EPERM, d)
     else (OK, d\<lparr>modpci_callbacks := (modpci_callbacks d)[nat board_number :=
         (modpci_callbacks d ! nat board_number)[nat board_position := \<lparr>mz_callback = callback, mz_dev = source\<rparr>]]\<rparr>))"

section \<open>Probing and removing a device\<close>

definition modpci_probe :: "pci_dev \<Rightarrow> ('c, 'd) modpci_drv \<times> pci_res \<Rightarrow> rc \<times> ('c, 'd) modpci_drv \<times> pci_res" where
  "modpci_probe dev s =
    (case s of (d, r) \<Rightarrow>
     (case find_device_config dev d of
        None \<Rightarrow> (Err ENODEV, d, r)
      | Some i \<Rightarrow>
          if \<not> pci_enable dev then (Err ENODEV, d, r)
          else let r0 = r\<lparr>pr_enabled := True\<rparr>;
                   (va, r1) = map_bar dev MOD_PCI_BIG_BAR MOD_PCI_BAR_SIZE r0;
                   (ob, r2) = map_bar dev MOD_PCI_ONBOARD_REGS_BAR MOD_PCI_BAR_SIZE r1;
                   cfg = (pci_table d ! i)\<lparr>mo_vaddr := va, mo_onboard := ob\<rparr>;
                   d1 = d\<lparr>pci_table := (pci_table d)[i := cfg]\<rparr>
               in if va = 0 \<or> ob = 0 then (Err ENODEV, d1, r2\<lparr>pr_enabled := False\<rparr>)
                  else (case pci_request_irq dev of
                      Err e \<Rightarrow>
                        let r3 = modpci_disable_irq cfg r2
                        in (Err ENODEV, d1, r3\<lparr>pr_maps := remove1 va (remove1 ob (pr_maps r3)),
                              pr_regions := remove1 MOD_PCI_BIG_BAR (remove1 MOD_PCI_ONBOARD_REGS_BAR (pr_regions r3)), pr_enabled := False\<rparr>)
                    | OK \<Rightarrow> (OK, d1, modpci_enable_irq cfg (modpci_reset cfg (r2\<lparr>pr_irq := True\<rparr>))))))"

text \<open>Removing a device that has no configuration dereferences the NULL pointer.\<close>

definition modpci_remove :: "pci_dev \<Rightarrow> ('c, 'd) modpci_drv \<times> pci_res \<Rightarrow> (('c, 'd) modpci_drv \<times> pci_res) option" where
  "modpci_remove dev s =
    (case s of (d, r) \<Rightarrow>
     (case find_device_config dev d of
        None \<Rightarrow> None
      | Some i \<Rightarrow>
          let cfg = pci_table d ! i;
              r1 = (modpci_disable_irq cfg r)\<lparr>pr_irq := False\<rparr>
          in Some (d, r1\<lparr>pr_maps := remove1 (mo_vaddr cfg) (remove1 (mo_onboard cfg) (pr_maps r1)),
                pr_regions := remove1 MOD_PCI_BIG_BAR (remove1 MOD_PCI_ONBOARD_REGS_BAR (pr_regions r1)), pr_enabled := False\<rparr>)))"

section \<open>Loading and unloading the module\<close>

text \<open>\<open>pci_register\<close> is what \<open>pci_register_driver\<close> returns.\<close>

definition modpci_init ::
    "rc \<Rightarrow> 'g \<Rightarrow> 'r \<Rightarrow> int list \<Rightarrow> int list \<Rightarrow> int list \<Rightarrow> ('c, 'd) modpci_drv \<times> ('g, 'r) cregister \<Rightarrow> rc \<times> ('c, 'd) modpci_drv \<times> ('g, 'r) cregister" where
  "modpci_init pci_register gas_entry isr_entry lun bus_number slot_number s =
    (case s of (d, reg) \<Rightarrow>
     (case modulbus_carrier_register ''mod-pci'' gas_entry isr_entry reg of
        (Err e, reg') \<Rightarrow> (Err EPERM, d, reg')
      | (OK, reg') \<Rightarrow>
          if MODPCI_MAX_DEVICES \<le> length lun then (Err EPERM, d, reg')
          else if length bus_number \<noteq> length lun \<or> length slot_number \<noteq> length lun then (Err EPERM, d, reg')
          else (pci_register,
            d\<lparr>pci_table := fold (\<lambda>i t. t[i := (t ! i)\<lparr>mo_lun := lun ! i, mo_bus_number := bus_number ! i, mo_slot_number := slot_number ! i\<rparr>])
                [0..<length lun] (pci_table d),
              pci_devices := length lun\<rparr>, reg')))"

definition modpci_exit :: "('g, 'r) cregister \<Rightarrow> ('g, 'r) cregister" where
  "modpci_exit reg = snd (modulbus_carrier_unregister ''mod-pci'' reg)"

section \<open>Lemmas\<close>

definition modpci_wf :: "('c, 'd) modpci_drv \<Rightarrow> bool" where
  "modpci_wf d \<longleftrightarrow> length (pci_table d) = MODPCI_MAX_DEVICES \<and> pci_devices d \<le> MODPCI_MAX_DEVICES
    \<and> length (modpci_callbacks d) = MODPCI_MAX_DEVICES \<and> (\<forall>i < MODPCI_MAX_DEVICES. length (modpci_callbacks d ! i) = MOD_PCI_SLOTS)"

abbreviation modpci_entry :: "('c, 'd) modpci_drv \<Rightarrow> int \<Rightarrow> int \<Rightarrow> ('c, 'd) mz_callback" where
  "modpci_entry d b p \<equiv> modpci_callbacks d ! nat b ! nat p"

interpretation modpci_isrs: isr_table modpci_register_isr modpci_entry modpci_within_range modpci_wf
proof (unfold_locales, goal_cases)
  case (5 s b p b' p' c dev)
  then show ?case
    by (cases "b' = b") (auto simp: modpci_register_isr_def modpci_within_range_def modpci_wf_def nth_list_update)
qed (auto simp: modpci_register_isr_def modpci_within_range_def modpci_wf_def nth_list_update)

lemma find_config_bound: "find_device_config dev d = Some i \<Longrightarrow> i < pci_devices d"
  by (auto simp: find_device_config_def find_Some_iff)

lemma find_config_cong:
  assumes "pci_devices d' = pci_devices d" and "\<And>j. mo_bus_number (pci_table d' ! j) = mo_bus_number (pci_table d ! j)"
    and "\<And>j. mo_slot_number (pci_table d' ! j) = mo_slot_number (pci_table d ! j)"
  shows "find_device_config dev d' = find_device_config dev d"
  using assms by (simp add: find_device_config_def)

text \<open>
  A device that is probed and then removed leaves the kernel's resources as they were; only the bytes written to its
  registers remain, the last one disabling its interrupts.
\<close>

lemma probe_then_remove:
  assumes "modpci_probe dev (d, r) = (OK, d1, r1)" and "modpci_wf d" and "\<not> pr_enabled r" and "\<not> pr_irq r"
    and "pci_ioremap dev MOD_PCI_BIG_BAR \<noteq> pci_ioremap dev MOD_PCI_ONBOARD_REGS_BAR"
  shows "pr_enabled r1 \<and> pr_irq r1 \<and> (\<exists>w. modpci_remove dev (d1, r1) = Some (d1, r\<lparr>pr_writes := w\<rparr>))"
proof -
  obtain i where i: "find_device_config dev d = Some i" using assms(1) by (auto simp: modpci_probe_def split: option.splits)
  have len: "i < length (pci_table d)" using find_config_bound [OF i] assms(2) by (simp add: modpci_wf_def)
  let ?va = "pci_ioremap dev 3" and ?ob = "pci_ioremap dev 4"
  let ?cfg = "(pci_table d ! i)\<lparr>mo_vaddr := ?va, mo_onboard := ?ob\<rparr>"
  have d1: "d1 = d\<lparr>pci_table := (pci_table d)[i := ?cfg]\<rparr>"
    and r1: "r1 = modpci_enable_irq ?cfg (modpci_reset ?cfg (r\<lparr>pr_enabled := True, pr_regions := 4 # 3 # pr_regions r,
      pr_maps := ?ob # ?va # pr_maps r, pr_irq := True\<rparr>))"
    using assms(1) i by (auto simp: modpci_probe_def map_bar_def Let_def split: if_splits rc.splits)
  have "find_device_config dev d1 = Some i" unfolding i [symmetric] d1
    by (rule find_config_cong) (use len in \<open>auto simp: nth_list_update\<close>)
  then show ?thesis using assms(3-5) len unfolding r1
    by (cases r) (auto simp: modpci_remove_def d1 Let_def modpci_disable_irq_def modpci_enable_irq_def modpci_reset_def modpci_iowrite8_def)
qed

text \<open>
  A probe that fails does not always give back what it took: when the second mapping fails, the first one stays, with the region it maps
  or, if the mapping failed in \<open>ioremap\<close>, without it.
\<close>

lemma failed_probe_keeps_mapping:
  assumes "find_device_config dev d = Some i" and "pci_enable dev" and "pci_is_mem dev 3" and "\<not> pci_len dev 3 < 4096"
    and "pci_request_region dev 3" and "pci_ioremap dev 3 \<noteq> 0" and "\<not> pci_is_mem dev 4"
  shows "\<exists>d1 r1. modpci_probe dev (d, r) = (Err ENODEV, d1, r1) \<and> pr_maps r1 = pci_ioremap dev 3 # pr_maps r \<and> pr_regions r1 = 3 # pr_regions r"
  using assms by (simp add: modpci_probe_def map_bar_def Let_def)

text \<open>
  With a callback for both slots that succeeds, an interrupt calls those of the slots that raise it, in order. A slot 0 without a callback hides slot 1.
\<close>

lemma modpci_interrupt_calls:
  assumes "mz_callback (modpci_entry d (mo_lun dev) 0) = Some c0" and "mz_callback (modpci_entry d (mo_lun dev) 1) = Some c1"
    and "\<forall>c x. \<not> call c x < 0" and "0 \<le> mo_lun dev" and "mo_lun dev < 16" and "stat AND 1 = 0 \<or> stat AND 2 = 0"
  shows "modpci_interrupt call stat dev d = Some (IRQ_HANDLED,
    (if stat AND 1 = 0 then [(c0, mz_dev (modpci_entry d (mo_lun dev) 0))] else []) @
    (if stat AND 2 = 0 then [(c1, mz_dev (modpci_entry d (mo_lun dev) 1))] else []))"
  using assms by (auto simp: modpci_interrupt_def Let_def upt_rec)

lemma modpci_slot0_hides_slot1:
  assumes "mz_callback (modpci_entry d (mo_lun dev) 0) = None" and "0 \<le> mo_lun dev" and "mo_lun dev < 16" and "stat AND 1 = 0"
  shows "modpci_interrupt call stat dev d = Some (IRQ_NONE, [])"
  using assms by (auto simp: modpci_interrupt_def Let_def upt_rec)

text \<open>A module whose parameters do not fit is refused, but the carrier it registered first stays.\<close>

lemma modpci_init_leaves_carrier:
  assumes "register_ok reg" and "length reg < REGISTER_SIZE" and "''mod-pci'' \<notin> dom (carrier_map reg)" and "length bus \<noteq> length lun"
  shows "\<exists>reg'. modpci_init p g r lun bus slot (d, reg) = (Err EPERM, d, reg') \<and> carrier_map reg' ''mod-pci'' = Some (g, r)"
  using register_refines [OF assms(1), of "''mod-pci''" g r] carrier_map_append [OF assms(3), of g r] assms(2-4)
  by (simp add: modpci_init_def DRIVER_NAME_MAX_LENGTH_def)

end
