(* ===== verification/Vmod_Mezz.thy ===== *)
theory Vmod_Mezz
  imports Vmod_Bus
begin

text \<open>
  The mezzanine boards without interrupts (\<open>src/vmod/driver\<close>): the digital-to-analog converters VMOD12A2 and VMOD16A2, the
  analog-to-digital converter VMOD12E16 and the digital output board VMODDOR. What a driver writes to its board is a list of accesses; what it
  reads is a parameter.
\<close>

datatype mmio = Write16be u32 u16 | Write16 u32 u16 | Write8 u32 u8

section \<open>Loading and unloading a mezzanine driver\<close>

text \<open>
  The configuration read from the module parameters, and the character device: \<open>alloc\<close> and \<open>add\<close> are what
  \<open>alloc_chrdev_region\<close> and \<open>cdev_add\<close> return.
\<close>

record mezz =
  mz_config :: vmod_devices
  mz_region :: bool
  mz_cdev :: bool

definition chrdev_init :: "rc \<Rightarrow> rc \<Rightarrow> mezz \<Rightarrow> rc \<times> mezz" where
  "chrdev_init alloc add m =
    (case alloc of
       Err e \<Rightarrow> (Err EPERM, m)
     | OK \<Rightarrow> (case add of Err e \<Rightarrow> (Err EPERM, m\<lparr>mz_region := False\<rparr>) | OK \<Rightarrow> (OK, m\<lparr>mz_region := True, mz_cdev := True\<rparr>)))"

definition vmod12a2_init :: "rc \<times> vmod_devices \<Rightarrow> rc \<Rightarrow> rc \<Rightarrow> mezz \<Rightarrow> rc \<times> mezz" where
  "vmod12a2_init params alloc add m =
    (case params of (Err e, c) \<Rightarrow> (Err EPERM, m\<lparr>mz_config := c\<rparr>) | (OK, c) \<Rightarrow> chrdev_init alloc add (m\<lparr>mz_config := c\<rparr>))"

definition vmod12a2_exit :: "mezz \<Rightarrow> mezz" where
  "vmod12a2_exit m = m\<lparr>mz_cdev := False, mz_region := False\<rparr>"

definition vmod16a2_init :: "rc \<times> vmod_devices \<Rightarrow> rc \<Rightarrow> rc \<Rightarrow> mezz \<Rightarrow> rc \<times> mezz" where
  "vmod16a2_init params alloc add m =
    (case params of (Err e, c) \<Rightarrow> (Err EPERM, m\<lparr>mz_config := c\<rparr>) | (OK, c) \<Rightarrow> chrdev_init alloc add (m\<lparr>mz_config := c\<rparr>))"

definition vmod16a2_exit :: "mezz \<Rightarrow> mezz" where
  "vmod16a2_exit m = m\<lparr>mz_cdev := False, mz_region := False\<rparr>"

section \<open>VMOD12A2\<close>

text \<open>
  Opening never fails (\<open>open_index\<close>). An index outside the table of modules is a stray pointer, and an operation on it is \<open>None\<close>.
\<close>

definition module_at :: "vmod_devices \<Rightarrow> u32 \<Rightarrow> vmod_dev option" where
  "module_at devs idx = (if unat idx < VMOD_MAX_BOARDS then Some (vs_module devs ! unat idx) else None)"

definition vmod12a2_offsets :: "u32 list" where
  "vmod12a2_offsets = [0x0, 0x2]"

definition do_iocput :: "vmod_dev \<Rightarrow> int \<Rightarrow> int \<Rightarrow> mmio list \<Rightarrow> rc \<times> mmio list" where
  "do_iocput dev channel value log =
    (if channel \<noteq> 0 \<and> channel \<noteq> 1 then (Err EINVAL, log)
     else (OK, log @ [Write16be (vd_address dev + vmod12a2_offsets ! nat channel) (word_of_int value)]))"

datatype dac_cmd = IOCPUT int int | DAC_OTHER

text \<open>\<open>copied\<close> is whether \<open>copy_from_user\<close> succeeds.\<close>

definition vmod12a2_ioctl :: "vmod_devices \<Rightarrow> u32 \<Rightarrow> bool \<Rightarrow> dac_cmd \<Rightarrow> mmio list \<Rightarrow> (rc \<times> mmio list) option" where
  "vmod12a2_ioctl devs idx copied op log =
    (case op of
       DAC_OTHER \<Rightarrow> Some (Err ENOTTY, log)
     | IOCPUT channel value \<Rightarrow>
         if \<not> copied then Some (Err EINVAL, log)
         else (case module_at devs idx of None \<Rightarrow> None | Some dev \<Rightarrow> Some (do_iocput dev channel value log)))"

section \<open>VMOD16A2\<close>

abbreviation (input) DAC0IN :: u32 where "DAC0IN \<equiv> 0"
abbreviation (input) DAC1IN :: u32 where "DAC1IN \<equiv> 2"
abbreviation (input) LDAC0 :: u32 where "LDAC0 \<equiv> 4"
abbreviation (input) LDAC1 :: u32 where "LDAC1 \<equiv> 6"

definition do_output :: "vmod_dev \<Rightarrow> int \<Rightarrow> int \<Rightarrow> mmio list \<Rightarrow> rc \<times> mmio list" where
  "do_output dev channel value log =
    (if channel = 0 then
       (OK, log @ [Write16be (vd_address dev + DAC0IN) (word_of_int value), Write16be (vd_address dev + LDAC0) (word_of_int value)])
     else if channel = 1 then
       (OK, log @ [Write16be (vd_address dev + DAC1IN) (word_of_int value), Write16be (vd_address dev + LDAC1) (word_of_int value)])
     else (Err EINVAL, log))"

definition vmod16a2_ioctl :: "vmod_devices \<Rightarrow> u32 \<Rightarrow> bool \<Rightarrow> dac_cmd \<Rightarrow> mmio list \<Rightarrow> (rc \<times> mmio list) option" where
  "vmod16a2_ioctl devs idx copied op log =
    (case op of
       DAC_OTHER \<Rightarrow> Some (Err ENOTTY, log)
     | IOCPUT channel value \<Rightarrow>
         if \<not> copied then Some (Err EINVAL, log)
         else (case module_at devs idx of None \<Rightarrow> None | Some dev \<Rightarrow> Some (do_output dev channel value log)))"

section \<open>VMOD12E16\<close>

abbreviation (input) E16_CONTROL :: u32 where "E16_CONTROL \<equiv> 0"
abbreviation (input) E16_INTERRUPT :: u32 where "E16_INTERRUPT \<equiv> 6"
abbreviation (input) VMOD_12E16_CONVERSION_TIME :: nat where "VMOD_12E16_CONVERSION_TIME \<equiv> 2"
abbreviation (input) VMOD_12E16_MAX_CONVERSION_TIME :: nat where "VMOD_12E16_MAX_CONVERSION_TIME \<equiv> 30"

record vmod12e16_conversion =
  cv_amplification :: int
  cv_channel :: int
  cv_data :: int

record vmod12e16_dev =
  e16_config :: vmod_dev
  e16_sem :: nat

text \<open>
  The wait for the end of the conversion: \<open>ready n\<close> is what the ready register reads at the \<open>n\<close>-th time, \<open>data n\<close> what the data register
  reads then.
\<close>

function conversion_loop :: "(nat \<Rightarrow> u16) \<Rightarrow> (nat \<Rightarrow> u16) \<Rightarrow> nat \<Rightarrow> nat \<Rightarrow> u16 option" where
  "conversion_loop ready data n us_elapsed =
    (if us_elapsed < VMOD_12E16_MAX_CONVERSION_TIME then
       if ready n AND 0x8000 = 0 then Some (data n AND 0x0fff)
       else conversion_loop ready data (n + 1) (us_elapsed + VMOD_12E16_CONVERSION_TIME)
     else None)"
  by pat_completeness auto
termination by (relation "measure (\<lambda>(_, _, _, us). 30 - us)") auto

declare conversion_loop.simps [simp del]

text \<open>\<open>down\<close> is whether \<open>down_interruptible\<close> gets the semaphore; a signal makes it fail.\<close>

definition do_conversion ::
    "bool \<Rightarrow> (nat \<Rightarrow> u16) \<Rightarrow> (nat \<Rightarrow> u16) \<Rightarrow> vmod12e16_conversion \<Rightarrow> vmod12e16_dev \<times> mmio list
      \<Rightarrow> rc \<times> vmod12e16_conversion \<times> vmod12e16_dev \<times> mmio list" where
  "do_conversion down ready data cv s =
    (case s of (dev, log) \<Rightarrow>
      let regs = vd_address (e16_config dev); channel = cv_channel cv; ampli = cv_amplification cv
      in if \<not> down then (Err ERESTARTSYS, cv, dev, log)
         else let held = dev\<lparr>e16_sem := e16_sem dev - 1\<rparr>;
                  up = (\<lambda>v. v\<lparr>e16_sem := e16_sem v + 1\<rparr>);
                  log1 = log @ [Write16be (regs + E16_INTERRUPT) 0x8000]
              in if ampli AND NOT 3 \<noteq> 0 \<or> channel AND NOT 15 \<noteq> 0 then (Err EINVAL, cv, up held, log1)
                 else let log2 = log1 @ [Write16be (regs + E16_CONTROL) (word_of_int (push_bit 4 ampli OR channel))]
                      in case conversion_loop ready data 0 0 of
                           Some v \<Rightarrow> (OK, cv\<lparr>cv_data := uint v\<rparr>, up held, log2)
                         | None \<Rightarrow> (Err ETIME, cv, up held, log2))"

datatype e16_cmd = IOCCONVERT vmod12e16_conversion | E16_OTHER

text \<open>\<open>copy_in\<close> and \<open>copy_out\<close> are whether the copies from and to the caller succeed; the last result is what the caller gets.\<close>

definition vmod12e16_ioctl ::
    "bool \<Rightarrow> bool \<Rightarrow> bool \<Rightarrow> (nat \<Rightarrow> u16) \<Rightarrow> (nat \<Rightarrow> u16) \<Rightarrow> e16_cmd \<Rightarrow> vmod12e16_dev \<times> mmio list
      \<Rightarrow> rc \<times> vmod12e16_conversion option \<times> vmod12e16_dev \<times> mmio list" where
  "vmod12e16_ioctl copy_in copy_out down ready data cmd s =
    (case cmd of
       E16_OTHER \<Rightarrow> (Err ENOTTY, None, s)
     | IOCCONVERT cv \<Rightarrow>
         if \<not> copy_in then (Err EINVAL, None, s)
         else (case do_conversion down ready data cv s of
             (Err e, cv', s') \<Rightarrow> (Err e, None, s')
           | (OK, cv', s') \<Rightarrow> if \<not> copy_out then (Err EINVAL, None, s') else (OK, Some cv', s')))"

text \<open>Every device of the list gets its configuration and a free semaphore.\<close>

definition vmod12e16_init ::
    "rc \<times> vmod_devices \<Rightarrow> rc \<Rightarrow> rc \<Rightarrow> mezz \<times> vmod12e16_dev list \<Rightarrow> rc \<times> mezz \<times> vmod12e16_dev list" where
  "vmod12e16_init params alloc add s =
    (case s of (m, devs) \<Rightarrow>
     (case params of
        (Err e, c) \<Rightarrow> (Err EPERM, m\<lparr>mz_config := c\<rparr>, devs)
      | (OK, c) \<Rightarrow>
          let devs' = fold (\<lambda>i ds. ds[i := \<lparr>e16_config = vs_module c ! i, e16_sem = 1\<rparr>]) [0..<vs_num_modules c] devs
          in (case chrdev_init alloc add (m\<lparr>mz_config := c\<rparr>) of (r, m') \<Rightarrow> (r, m', devs'))))"

definition vmod12e16_exit :: "mezz \<Rightarrow> mezz" where
  "vmod12e16_exit m = m\<lparr>mz_cdev := False, mz_region := False\<rparr>"

text \<open>The library function: the converted value, or the error of the \<open>ioctl\<close>.\<close>

definition vmod12e16_convert ::
    "bool \<Rightarrow> bool \<Rightarrow> bool \<Rightarrow> (nat \<Rightarrow> u16) \<Rightarrow> (nat \<Rightarrow> u16) \<Rightarrow> int \<Rightarrow> int \<Rightarrow> int \<Rightarrow> vmod12e16_dev \<times> mmio list
      \<Rightarrow> rc \<times> int option \<times> vmod12e16_dev \<times> mmio list" where
  "vmod12e16_convert copy_in copy_out down ready data garbage channel factor s =
    (case vmod12e16_ioctl copy_in copy_out down ready data
           (IOCCONVERT \<lparr>cv_amplification = factor, cv_channel = channel, cv_data = garbage\<rparr>) s of
       (OK, Some cv, s') \<Rightarrow> (OK, Some (cv_data cv), s')
     | (r, _, s') \<Rightarrow> (r, None, s'))"

section \<open>VMODDOR\<close>

abbreviation (input) VMODDOR_MAX_DEVICES :: nat where "VMODDOR_MAX_DEVICES \<equiv> 16"

record vmoddor_dev =
  do_lun :: int
  do_cname :: string
  do_carrier :: int
  do_slot :: int
  do_is_big_endian :: bool
  do_handle :: u32

record vmoddor_arg =
  da_data :: int
  da_size :: u16
  da_offset :: u16

definition vmoddor_write_word :: "vmoddor_dev \<Rightarrow> u32 \<Rightarrow> u16 \<Rightarrow> mmio list \<Rightarrow> mmio list" where
  "vmoddor_write_word pd offset value log =
    log @ [if do_is_big_endian pd then Write16be (do_handle pd + offset) value else Write16 (do_handle pd + offset) value]"

definition vmoddor_write_byte :: "vmoddor_dev \<Rightarrow> u32 \<Rightarrow> u8 \<Rightarrow> mmio list \<Rightarrow> mmio list" where
  "vmoddor_write_byte pd offset value log = log @ [Write8 (do_handle pd + offset) value]"

definition vmoddor_write_4bits :: "vmoddor_dev \<Rightarrow> u32 \<Rightarrow> u8 \<Rightarrow> mmio list \<Rightarrow> mmio list" where
  "vmoddor_write_4bits pd offset value log = vmoddor_write_byte pd offset (value AND 0xf) log"

datatype dor_cmd = VMODDOR_WRITE vmoddor_arg | DOR_OTHER

text \<open>The device is found by its minor number as an index; the minor numbers are those of the sixteen devices allocated.\<close>

definition vmoddor_ioctl :: "vmoddor_dev list \<Rightarrow> nat \<Rightarrow> bool \<Rightarrow> dor_cmd \<Rightarrow> mmio list \<Rightarrow> rc \<times> mmio list" where
  "vmoddor_ioctl devs minor copied op log =
    (let pd = devs ! minor
     in case op of
          DOR_OTHER \<Rightarrow> (Err EINVAL, log)
        | VMODDOR_WRITE val \<Rightarrow>
            if \<not> copied then (Err EIO, log)
            else if da_size val = 16 then
              (if da_offset val \<noteq> 0 then (Err EINVAL, log) else (OK, vmoddor_write_word pd 0 (word_of_int (da_data val)) log))
            else if da_size val = 8 then
              (if 1 < da_offset val then (Err EINVAL, log)
               else (OK, vmoddor_write_byte pd (ucast (da_offset val)) (word_of_int (da_data val AND 0xff)) log))
            else if da_size val = 4 then
              (if da_offset val < 2 \<or> 5 < da_offset val then (Err EINVAL, log)
               else (OK, vmoddor_write_4bits pd (ucast (da_offset val)) (word_of_int (da_data val AND 0xff)) log))
            else (Err EINVAL, log))"

text \<open>
  Loading: \<open>cdev_alloc\<close> is whether the kernel gives the device structure. More modules than the table of sixteen has room for are written past its
  end: the result is then \<open>None\<close>.
\<close>

definition vmoddor_init ::
    "rc \<times> vmod_devices \<Rightarrow> rc \<Rightarrow> bool \<Rightarrow> rc \<Rightarrow> mezz \<times> vmoddor_dev list \<Rightarrow> (rc \<times> mezz \<times> vmoddor_dev list) option" where
  "vmoddor_init params alloc cdev_alloc add s =
    (case s of (m, devs) \<Rightarrow>
     (case params of
        (Err e, c) \<Rightarrow> Some (Err EPERM, m\<lparr>mz_config := c\<rparr>, devs)
      | (OK, c) \<Rightarrow>
         (case alloc of
            Err e \<Rightarrow> Some (Err EPERM, m\<lparr>mz_config := c\<rparr>, devs)
          | OK \<Rightarrow>
             if \<not> cdev_alloc then Some (Err EPERM, m\<lparr>mz_config := c, mz_region := True\<rparr>, devs)
             else (case add of
                 Err e \<Rightarrow> Some (Err EPERM, m\<lparr>mz_config := c, mz_region := False\<rparr>, devs)
               | OK \<Rightarrow>
                   if VMODDOR_MAX_DEVICES < vs_num_modules c then None
                   else Some (OK, m\<lparr>mz_config := c, mz_region := True, mz_cdev := True\<rparr>,
                     fold (\<lambda>i ds. ds[i := let md = vs_module c ! i in
                         \<lparr>do_lun = vd_lun md, do_cname = vd_carrier_name md, do_carrier = vd_carrier_lun md, do_slot = vd_slot md,
                          do_is_big_endian = vd_is_big_endian md, do_handle = vd_address md\<rparr>]) [0..<vs_num_modules c] devs)))))"

definition vmoddor_exit :: "mezz \<Rightarrow> mezz" where
  "vmoddor_exit m = m\<lparr>mz_cdev := False, mz_region := False\<rparr>"

section \<open>Lemmas\<close>

text \<open>The conversion is polled at most fifteen times.\<close>

lemma conversion_loop_find:
  "2 * n = us \<Longrightarrow> conversion_loop ready data n us = map_option (\<lambda>k. data k AND 0x0fff) (find (\<lambda>k. ready k AND 0x8000 = 0) [n..<15])"
proof (induction ready data n us rule: conversion_loop.induct)
  case (1 ready data n us)
  show ?case
  proof (cases "us < 30")
    case True
    then have "[n..<15] = n # [n + 1..<15]" using 1(2) by (simp add: upt_conv_Cons)
    then show ?thesis using 1 True by (simp add: conversion_loop.simps [of ready data n us])
  next
    case False
    then show ?thesis using 1(2) by (simp add: conversion_loop.simps)
  qed
qed

text \<open>
  What a conversion returns, on every branch: the value is that read at the first of the fifteen polls at which the board is ready, twelve
  bits wide; and the semaphore is always given back.
\<close>

lemma conversion_outcome:
  assumes "0 < e16_sem dev" and "do_conversion down ready data cv (dev, log) = (r, cv', dev', log')"
  shows "dev' = dev
    \<and> r = (if \<not> down then Err ERESTARTSYS
        else if cv_amplification cv AND NOT 3 \<noteq> 0 \<or> cv_channel cv AND NOT 15 \<noteq> 0 then Err EINVAL
        else if \<exists>k < 15. ready k AND 0x8000 = 0 then OK else Err ETIME)
    \<and> (r = OK \<longrightarrow> (\<exists>k < 15. ready k AND 0x8000 = 0 \<and> (\<forall>j < k. ready j AND 0x8000 \<noteq> 0) \<and> cv_data cv' = uint (data k AND 0x0fff)))"
proof -
  have loop: "conversion_loop ready data 0 0 = map_option (\<lambda>k. data k AND 0x0fff) (find (\<lambda>k. ready k AND 0x8000 = 0) [0..<15])"
    by (rule conversion_loop_find) simp
  show ?thesis
  proof (cases "find (\<lambda>k. ready k AND 0x8000 = 0) [0..<15]")
    case None
    then have "\<not> (\<exists>k < 15. ready k AND 0x8000 = 0)" by (auto simp: find_None_iff)
    then show ?thesis using assms loop None by (auto simp: do_conversion_def Let_def split: if_splits)
  next
    case (Some k)
    then have k: "k < 15" "ready k AND 0x8000 = 0" "\<forall>j < k. ready j AND 0x8000 \<noteq> 0" by (auto simp: find_Some_iff)
    show ?thesis using assms loop Some k by (auto simp: do_conversion_def Let_def split: if_splits)
  qed
qed

text \<open>
  The outputs the board has: all sixteen lines, one of two bytes, one of four groups of four lines. A request for anything else is refused and
  writes nothing; one for a group of four lines never writes more than four bits.
\<close>

definition vmoddor_valid :: "vmoddor_arg \<Rightarrow> bool" where
  "vmoddor_valid v \<longleftrightarrow> da_size v = 16 \<and> da_offset v = 0 \<or> da_size v = 8 \<and> da_offset v \<le> 1 \<or> da_size v = 4 \<and> 2 \<le> da_offset v \<and> da_offset v \<le> 5"

lemma vmoddor_outcome:
  "\<not> vmoddor_valid v \<Longrightarrow> vmoddor_ioctl devs minor True (VMODDOR_WRITE v) log = (Err EINVAL, log)"
  "vmoddor_valid v \<Longrightarrow> \<exists>a. vmoddor_ioctl devs minor True (VMODDOR_WRITE v) log = (OK, log @ [a])"
  "vmoddor_valid v \<Longrightarrow> da_size v = 4 \<Longrightarrow> \<exists>b \<le> 15. vmoddor_ioctl devs minor True (VMODDOR_WRITE v) log
      = (OK, log @ [Write8 (do_handle (devs ! minor) + ucast (da_offset v)) b])"
proof -
  have nib: "x AND 15 \<le> (15 :: u8)" for x by (rule word_and_le1)
  show "\<not> vmoddor_valid v \<Longrightarrow> vmoddor_ioctl devs minor True (VMODDOR_WRITE v) log = (Err EINVAL, log)"
    by (auto simp: vmoddor_ioctl_def vmoddor_valid_def Let_def not_le)
  show "vmoddor_valid v \<Longrightarrow> \<exists>a. vmoddor_ioctl devs minor True (VMODDOR_WRITE v) log = (OK, log @ [a])"
    by (auto simp: vmoddor_ioctl_def vmoddor_valid_def Let_def vmoddor_write_word_def vmoddor_write_byte_def vmoddor_write_4bits_def not_less)
  show "vmoddor_valid v \<Longrightarrow> da_size v = 4 \<Longrightarrow> \<exists>b \<le> 15. vmoddor_ioctl devs minor True (VMODDOR_WRITE v) log
      = (OK, log @ [Write8 (do_handle (devs ! minor) + ucast (da_offset v)) b])"
    using nib by (auto simp: vmoddor_ioctl_def vmoddor_valid_def Let_def vmoddor_write_byte_def vmoddor_write_4bits_def not_less)
qed

end
