(* ===== verification/Vmod_Ttl.thy ===== *)
theory Vmod_Ttl
  imports Vmod_Mezz
begin

text \<open>
  The digital input and output board VMOD-TTL (\<open>src/vmod/driver/vmodttldrvr.c\<close>), built on a Z8536 counter and parallel I/O chip, and its
  library (\<open>src/vmod/lib/libvmodttl.c\<close>). The chip is a parameter: a record of what a 16-bit write and a 16-bit read at an address do to its state.
\<close>

section \<open>Registers and constants\<close>

abbreviation (input) MICR :: u16 where "MICR \<equiv> 0x00"
abbreviation (input) MCCR :: u16 where "MCCR \<equiv> 0x01"
abbreviation (input) CIO_RESET :: u16 where "CIO_RESET \<equiv> 0x01"
abbreviation (input) NV :: u16 where "NV \<equiv> 0x20"
abbreviation (input) MIE :: u16 where "MIE \<equiv> 0x80"
abbreviation (input) PAE :: u16 where "PAE \<equiv> 0x04"
abbreviation (input) PCE :: u16 where "PCE \<equiv> 0x10"
abbreviation (input) PBE :: u16 where "PBE \<equiv> 0x80"
abbreviation (input) PMSR_A :: u16 where "PMSR_A \<equiv> 0x20"
abbreviation (input) PMSR_B :: u16 where "PMSR_B \<equiv> 0x28"
abbreviation (input) PCSR_A :: u16 where "PCSR_A \<equiv> 0x08"
abbreviation (input) PCSR_B :: u16 where "PCSR_B \<equiv> 0x09"
abbreviation (input) CLEAR_IP_IUS :: u16 where "CLEAR_IP_IUS \<equiv> 0x20"
abbreviation (input) CLEAR_IE :: u16 where "CLEAR_IE \<equiv> 0xe0"
abbreviation (input) DPPR_A :: u16 where "DPPR_A \<equiv> 0x22"
abbreviation (input) DPPR_B :: u16 where "DPPR_B \<equiv> 0x2a"
abbreviation (input) DPPR_C :: u16 where "DPPR_C \<equiv> 0x05"
abbreviation (input) DDR_A :: u16 where "DDR_A \<equiv> 0x23"
abbreviation (input) DDR_B :: u16 where "DDR_B \<equiv> 0x2b"
abbreviation (input) DDR_C :: u16 where "DDR_C \<equiv> 0x06"
abbreviation (input) SIOCR_A :: u16 where "SIOCR_A \<equiv> 0x24"
abbreviation (input) SIOCR_B :: u16 where "SIOCR_B \<equiv> 0x2c"
abbreviation (input) SIOCR_C :: u16 where "SIOCR_C \<equiv> 0x07"

abbreviation (input) A_CHAN_OUT :: int where "A_CHAN_OUT \<equiv> 1"
abbreviation (input) B_CHAN_OUT :: int where "B_CHAN_OUT \<equiv> 2"
abbreviation (input) C_CHAN_OUT :: int where "C_CHAN_OUT \<equiv> 4"
abbreviation (input) VMODTTL_O :: int where "VMODTTL_O \<equiv> 8"
abbreviation (input) A_CHAN_OPEN_COLLECTOR :: int where "A_CHAN_OPEN_COLLECTOR \<equiv> 1"
abbreviation (input) B_CHAN_OPEN_COLLECTOR :: int where "B_CHAN_OPEN_COLLECTOR \<equiv> 2"
abbreviation (input) C_CHAN_OPEN_COLLECTOR :: int where "C_CHAN_OPEN_COLLECTOR \<equiv> 4"
abbreviation (input) DEFAULT_DELAY :: int where "DEFAULT_DELAY \<equiv> 1"
abbreviation (input) VMODTTL_MAX_BOARDS :: nat where "VMODTTL_MAX_BOARDS \<equiv> 64"
abbreviation (input) NR_BITS :: nat where "NR_BITS \<equiv> 8"

abbreviation (input) VMODTTL_PORTC :: u32 where "VMODTTL_PORTC \<equiv> 0"
abbreviation (input) VMODTTL_PORTB :: u32 where "VMODTTL_PORTB \<equiv> 2"
abbreviation (input) VMODTTL_PORTA :: u32 where "VMODTTL_PORTA \<equiv> 4"
abbreviation (input) VMODTTL_CONTROL :: u32 where "VMODTTL_CONTROL \<equiv> 6"

abbreviation (input) VMOD_TTL_CHANNEL_A :: int where "VMOD_TTL_CHANNEL_A \<equiv> 0"
abbreviation (input) VMOD_TTL_CHANNEL_B :: int where "VMOD_TTL_CHANNEL_B \<equiv> 1"
abbreviation (input) VMOD_TTL_CHANNELS_AB :: int where "VMOD_TTL_CHANNELS_AB \<equiv> 2"

section \<open>Data\<close>

record vmodttlarg =
  ta_dev :: int
  ta_val :: int

record vmodttl_pattern =
  pa_port :: u8
  pa_pos :: u8
  pa_ptr :: u8
  pa_pmr :: u8
  pa_ppr :: u8

record vmodttlconfig =
  tc_io_flag :: int
  tc_us_pulse :: int
  tc_open_collector :: int
  tc_invert :: int
  tc_pattern_mode_a :: int
  tc_pattern_mode_b :: int
  tc_bit_pattern_a :: "vmodttl_pattern list"
  tc_bit_pattern_b :: "vmodttl_pattern list"

record vmodttl_dev =
  td_dev :: int
  td_OpenCount :: int
  td_io_flag :: int
  td_us_pulse :: int
  td_open_collector :: int
  td_config :: vmod_dev
  td_ioconfig :: vmodttlconfig

record 'h ttl_bus =
  tb_write :: "bool \<Rightarrow> u32 \<Rightarrow> u16 \<Rightarrow> 'h \<Rightarrow> 'h"
  tb_read :: "bool \<Rightarrow> u32 \<Rightarrow> 'h \<Rightarrow> u16 \<times> 'h"

section \<open>Access to the board\<close>

definition vmodttl_read_word :: "'h ttl_bus \<Rightarrow> vmodttl_dev \<Rightarrow> u32 \<Rightarrow> 'h \<Rightarrow> u16 \<times> 'h" where
  "vmodttl_read_word io pd offset h = tb_read io (vd_is_big_endian (td_config pd)) (vd_address (td_config pd) + offset) h"

definition vmodttl_write_word :: "'h ttl_bus \<Rightarrow> vmodttl_dev \<Rightarrow> u32 \<Rightarrow> u16 \<Rightarrow> 'h \<Rightarrow> 'h" where
  "vmodttl_write_word io pd offset value h = tb_write io (vd_is_big_endian (td_config pd)) (vd_address (td_config pd) + offset) value h"

text \<open>The pair of writes to the control port that the driver makes for every register: the number of the register, then its value.\<close>

definition cio_put :: "'h ttl_bus \<Rightarrow> vmodttl_dev \<Rightarrow> u16 \<Rightarrow> u16 \<Rightarrow> 'h \<Rightarrow> 'h" where
  "cio_put io pd r v h = vmodttl_write_word io pd VMODTTL_CONTROL v (vmodttl_write_word io pd VMODTTL_CONTROL r h)"

text \<open>A register is read by writing its number and reading the control port.\<close>

definition cio_get :: "'h ttl_bus \<Rightarrow> vmodttl_dev \<Rightarrow> u16 \<Rightarrow> 'h \<Rightarrow> u16 \<times> 'h" where
  "cio_get io pd r h = vmodttl_read_word io pd VMODTTL_CONTROL (vmodttl_write_word io pd VMODTTL_CONTROL r h)"

section \<open>Configuring the ports\<close>

definition inverted :: "vmodttl_dev \<Rightarrow> u16 \<Rightarrow> u16" where
  "inverted pd m = (if td_io_flag pd AND VMODTTL_O \<noteq> 0 then m else 0x00)"

definition def_io_a :: "'h ttl_bus \<Rightarrow> vmodttl_dev \<Rightarrow> 'h \<Rightarrow> 'h" where
  "def_io_a io pd h =
    (let h = cio_put io pd PCSR_A CLEAR_IE h;
         h = cio_put io pd PCSR_A CLEAR_IP_IUS h;
         h = cio_put io pd PMSR_A 0x14 h;
         h = (if td_open_collector pd AND A_CHAN_OPEN_COLLECTOR = A_CHAN_OPEN_COLLECTOR then
                if td_io_flag pd AND A_CHAN_OUT \<noteq> 0 then cio_put io pd DPPR_A 0x00 (cio_put io pd DDR_A 0x00 h)
                else cio_put io pd DPPR_A (inverted pd 0xff) (cio_put io pd DDR_A 0xff h)
              else
                let h = (if td_io_flag pd AND A_CHAN_OUT \<noteq> 0 then cio_put io pd DDR_A 0x00 h else cio_put io pd DDR_A 0xff h)
                in cio_put io pd DPPR_A (inverted pd 0xff) h)
     in cio_put io pd SIOCR_A 0x00 h)"

definition def_io_b :: "'h ttl_bus \<Rightarrow> vmodttl_dev \<Rightarrow> 'h \<Rightarrow> 'h" where
  "def_io_b io pd h =
    (let h = cio_put io pd PCSR_B CLEAR_IE h;
         h = cio_put io pd PCSR_B CLEAR_IP_IUS h;
         h = cio_put io pd PMSR_B 0x14 h;
         h = (if td_open_collector pd AND B_CHAN_OPEN_COLLECTOR = B_CHAN_OPEN_COLLECTOR then
                if td_io_flag pd AND B_CHAN_OUT \<noteq> 0 then cio_put io pd DPPR_B 0x00 (cio_put io pd DDR_B 0x00 h)
                else cio_put io pd DPPR_B (inverted pd 0xff) (cio_put io pd DDR_B 0xff h)
              else
                let h = (if td_io_flag pd AND B_CHAN_OUT \<noteq> 0 then cio_put io pd DDR_B 0x00 h else cio_put io pd DDR_B 0xff h)
                in cio_put io pd DPPR_B (inverted pd 0xff) h)
     in cio_put io pd SIOCR_B 0x00 h)"

definition def_io_c :: "'h ttl_bus \<Rightarrow> vmodttl_dev \<Rightarrow> 'h \<Rightarrow> 'h" where
  "def_io_c io pd h =
    (let h = (if td_open_collector pd AND C_CHAN_OPEN_COLLECTOR = C_CHAN_OPEN_COLLECTOR then
                cio_put io pd DPPR_C 0x00 (cio_put io pd DDR_C 0x00 h)
              else cio_put io pd DPPR_C (inverted pd 0x0f) (cio_put io pd DDR_C 0x00 h))
     in cio_put io pd SIOCR_C 0x00 h)"

text \<open>The value written last goes through an \<open>unsigned char\<close>.\<close>

definition vmodttl_def_io :: "'h ttl_bus \<Rightarrow> vmodttl_dev \<Rightarrow> 'h \<Rightarrow> 'h" where
  "vmodttl_def_io io pd h =
    (let h = cio_put io pd MCCR 0 h;
         h = def_io_c io pd (def_io_b io pd (def_io_a io pd h));
         (x, h) = cio_get io pd MCCR h;
         tmp = (ucast (x OR PAE OR PBE OR PCE) :: u8)
     in cio_put io pd MCCR (ucast tmp) h)"

definition vmodttl_default :: "'h ttl_bus \<Rightarrow> vmodttl_dev \<Rightarrow> 'h \<Rightarrow> 'h" where
  "vmodttl_default io pd h =
    (let (_, h) = vmodttl_read_word io pd VMODTTL_CONTROL h;
         h = cio_put io pd MCCR 0 h;
         (_, h) = cio_get io pd MICR h;
         h = cio_put io pd MICR 0 h;
         h = cio_put io pd MICR CIO_RESET h;
         h = vmodttl_write_word io pd VMODTTL_CONTROL 0 h;
         h = vmodttl_def_io io pd h;
         (x, h) = cio_get io pd MICR h
     in cio_put io pd MICR (x OR MIE OR NV) h)"

section \<open>Operations\<close>

definition vmodttl_config :: "'h ttl_bus \<Rightarrow> vmodttlconfig \<Rightarrow> vmodttl_dev \<times> 'h \<Rightarrow> rc \<times> vmodttl_dev \<times> 'h" where
  "vmodttl_config io conf s =
    (case s of (pd, h) \<Rightarrow>
      if A_CHAN_OUT + B_CHAN_OUT + C_CHAN_OUT < tc_io_flag conf \<or> tc_io_flag conf < 0 then (Err EINVAL, pd, h)
      else let pd1 = pd\<lparr>td_io_flag := (if tc_invert conf \<noteq> 0 then tc_io_flag conf OR VMODTTL_O else tc_io_flag conf),
                 td_us_pulse := (if tc_us_pulse conf < DEFAULT_DELAY then DEFAULT_DELAY else tc_us_pulse conf),
                 td_open_collector := tc_open_collector conf\<rparr>
           in (OK, pd1, vmodttl_def_io io pd1 h))"

text \<open>The pulse on port C; its length is not modelled.\<close>

definition strobe :: "'h ttl_bus \<Rightarrow> vmodttl_dev \<Rightarrow> u16 \<Rightarrow> 'h \<Rightarrow> 'h" where
  "strobe io pd v h = vmodttl_write_word io pd VMODTTL_PORTC 0 (vmodttl_write_word io pd VMODTTL_PORTC v h)"

definition vmodttl_read_chan :: "'h ttl_bus \<Rightarrow> vmodttlarg \<Rightarrow> vmodttl_dev \<Rightarrow> 'h \<Rightarrow> int \<times> 'h" where
  "vmodttl_read_chan io buf pd h =
    (let (val, sv, h) =
       (if ta_dev buf = VMOD_TTL_CHANNEL_A then case vmodttl_read_word io pd VMODTTL_PORTA h of (x, h) \<Rightarrow> (uint x, 0x04, h)
        else if ta_dev buf = VMOD_TTL_CHANNEL_B then case vmodttl_read_word io pd VMODTTL_PORTB h of (x, h) \<Rightarrow> (uint x, 0x08, h)
        else if ta_dev buf = VMOD_TTL_CHANNELS_AB then
          case vmodttl_read_word io pd VMODTTL_PORTA h of (x, h) \<Rightarrow>
          case vmodttl_read_word io pd VMODTTL_PORTB h of (y, h) \<Rightarrow> (uint (x AND 0xff) + push_bit 8 (uint (y AND 0xff)), 0, h)
        else (0, 0, h))
     in (val, strobe io pd sv h))"

definition vmodttl_write_chan :: "'h ttl_bus \<Rightarrow> vmodttlarg \<Rightarrow> vmodttl_dev \<Rightarrow> 'h \<Rightarrow> rc \<times> 'h" where
  "vmodttl_write_chan io buf pd h =
    (let dev = ta_dev buf; data = (word_of_int (ta_val buf) :: u16)
     in if dev < VMOD_TTL_CHANNEL_A \<or> VMOD_TTL_CHANNELS_AB < dev then (Err EINVAL, h)
        else if dev = VMOD_TTL_CHANNEL_A then
          (if td_io_flag pd AND A_CHAN_OUT = 0 then (Err EIO, h)
           else let h = vmodttl_write_word io pd VMODTTL_PORTA data h;
                    (tmp, h) = cio_get io pd MCCR h;
                    h = cio_put io pd MCCR (tmp OR PAE) h
                in (OK, strobe io pd 0x01 h))
        else if dev = VMOD_TTL_CHANNEL_B then
          (if td_io_flag pd AND B_CHAN_OUT = 0 then (Err EIO, h)
           else let h = vmodttl_write_word io pd VMODTTL_PORTB data h;
                    (tmp, h) = cio_get io pd MCCR h;
                    h = cio_put io pd MCCR (tmp OR PBE) h
                in (OK, strobe io pd 0x02 h))
        else
          (if td_io_flag pd AND B_CHAN_OUT = 0 \<or> td_io_flag pd AND A_CHAN_OUT = 0 then (Err EIO, h)
           else let h = vmodttl_write_word io pd VMODTTL_PORTA (data AND 0xff) h;
                    (tmp, h) = cio_get io pd MCCR h;
                    h = vmodttl_write_word io pd VMODTTL_PORTB (drop_bit 8 data AND 0xff) h;
                    (tmp, h) = cio_get io pd MCCR h;
                    h = cio_put io pd MCCR (tmp OR PAE OR PBE) h
                in (OK, strobe io pd 0x03 h)))"

text \<open>The commands with what their argument points to, and what they write back.\<close>

datatype ttl_cmd =
    VMODTTL_CONFIG vmodttlconfig
  | VMODTTL_READ_CONFIG
  | VMODTTL_SIMPIO
  | VMODTTL_PATTERN vmodttl_pattern
  | VMODTTL_READ_CHAN vmodttlarg
  | VMODTTL_WRITE_CHAN vmodttlarg
  | TTL_OTHER

datatype ttl_out = Ttl_none | Ttl_config vmodttlconfig | Ttl_arg vmodttlarg

text \<open>
  \<open>boards\<close> is the table \<open>pvmodttlDv\<close>, indexed by the minor number. A NULL entry is dereferenced, and a bit position
  outside the pattern is stored outside the array: the result is then \<open>None\<close>. \<open>ci\<close> and \<open>co\<close> are whether the copies from and to the caller succeed.
\<close>

type_synonym boards = "vmodttl_dev option list"

definition vmodttl_ioctl ::
    "'h ttl_bus \<Rightarrow> bool \<Rightarrow> bool \<Rightarrow> nat \<Rightarrow> ttl_cmd \<Rightarrow> boards \<times> 'h \<Rightarrow> (rc \<times> ttl_out \<times> boards \<times> 'h) option" where
  "vmodttl_ioctl io ci co minor op s =
    (case s of (bs, h) \<Rightarrow>
     (case bs ! minor of
        None \<Rightarrow> None
      | Some pd \<Rightarrow>
         (case op of
            VMODTTL_CONFIG conf \<Rightarrow>
              if \<not> ci then Some (Err EFAULT, Ttl_none, bs, h)
              else (case vmodttl_config io conf (pd\<lparr>td_ioconfig := conf\<rparr>, h) of (r, pd', h') \<Rightarrow> Some (r, Ttl_none, bs[minor := Some pd'], h'))
          | VMODTTL_READ_CONFIG \<Rightarrow>
              if \<not> co then Some (Err EFAULT, Ttl_none, bs, h) else Some (OK, Ttl_config (td_ioconfig pd), bs, h)
          | VMODTTL_SIMPIO \<Rightarrow> Some (OK, Ttl_none, bs, vmodttl_def_io io pd h)
          | VMODTTL_PATTERN buf \<Rightarrow>
              if \<not> ci then Some (Err EFAULT, Ttl_none, bs, h)
              else if NR_BITS \<le> unat (pa_pos buf) then None
              else Some (OK, Ttl_none,
                bs[minor := Some (pd\<lparr>td_ioconfig := (td_ioconfig pd)\<lparr>tc_bit_pattern_a := (tc_bit_pattern_a (td_ioconfig pd))[unat (pa_pos buf) := buf]\<rparr>\<rparr>)], h)
          | VMODTTL_READ_CHAN buf \<Rightarrow>
              if \<not> ci then Some (Err EIO, Ttl_none, bs, h)
              else let dev = ta_dev buf AND 0xff
                   in if dev < VMOD_TTL_CHANNEL_A \<or> VMOD_TTL_CHANNELS_AB < dev then Some (Err EINVAL, Ttl_none, bs, h)
                      else (case vmodttl_read_chan io buf pd h of (v, h') \<Rightarrow>
                        if \<not> co then Some (Err EFAULT, Ttl_none, bs, h') else Some (OK, Ttl_arg (buf\<lparr>ta_val := v\<rparr>), bs, h'))
          | VMODTTL_WRITE_CHAN buf \<Rightarrow>
              if \<not> ci then Some (Err EIO, Ttl_none, bs, h)
              else (case vmodttl_write_chan io buf pd h of (r, h') \<Rightarrow> Some (r, Ttl_none, bs, h'))
          | TTL_OTHER \<Rightarrow> Some (Err EINVAL, Ttl_none, bs, h))))"

definition vmodttl_open :: "nat \<Rightarrow> boards \<Rightarrow> (rc \<times> boards) option" where
  "vmodttl_open minor bs =
    (case bs ! minor of None \<Rightarrow> None | Some pd \<Rightarrow> Some (OK, bs[minor := Some (pd\<lparr>td_OpenCount := td_OpenCount pd + 1\<rparr>)]))"

definition vmodttl_release :: "nat \<Rightarrow> boards \<Rightarrow> (rc \<times> boards) option" where
  "vmodttl_release minor bs =
    (case bs ! minor of None \<Rightarrow> None | Some pd \<Rightarrow> Some (OK, bs[minor := Some (pd\<lparr>td_OpenCount := td_OpenCount pd - 1\<rparr>)]))"

section \<open>Loading and unloading the module\<close>

definition zero_ttlconfig :: vmodttlconfig where
  "zero_ttlconfig = \<lparr>tc_io_flag = 0, tc_us_pulse = 0, tc_open_collector = 0, tc_invert = 0, tc_pattern_mode_a = 0, tc_pattern_mode_b = 0,
     tc_bit_pattern_a = replicate NR_BITS \<lparr>pa_port = 0, pa_pos = 0, pa_ptr = 0, pa_pmr = 0, pa_ppr = 0\<rparr>,
     tc_bit_pattern_b = replicate NR_BITS \<lparr>pa_port = 0, pa_pos = 0, pa_ptr = 0, pa_pmr = 0, pa_ppr = 0\<rparr>\<rparr>"

definition new_board :: "vmod_devices \<Rightarrow> vmod_dev \<Rightarrow> vmodttl_dev" where
  "new_board c md = \<lparr>td_dev = lun_to_index c (vd_lun md), td_OpenCount = 0, td_io_flag = 0, td_us_pulse = 0, td_open_collector = 0,
     td_config = md, td_ioconfig = zero_ttlconfig\<rparr>"

text \<open>
  The loop over the boards: \<open>zpd i\<close> and \<open>zmsg i\<close> are whether the two allocations for board \<open>i\<close> succeed. The first result is whether the loop
  reached its end; a lun that is not an index of the table is written outside it.
\<close>

primrec ttl_boards ::
    "'h ttl_bus \<Rightarrow> (nat \<Rightarrow> bool) \<Rightarrow> (nat \<Rightarrow> bool) \<Rightarrow> vmod_devices \<Rightarrow> nat list \<Rightarrow> boards \<times> 'h \<Rightarrow> (bool \<times> boards \<times> 'h) option" where
  "ttl_boards io zpd zmsg c [] s = Some (True, s)"
| "ttl_boards io zpd zmsg c (i # is) s =
    (if \<not> zpd i then Some (False, s)
     else let md = vs_module c ! i; pd = new_board c md; bs = (fst s)[nat (vd_lun md) := Some pd]
          in if vd_lun md < 0 \<or> int VMODTTL_MAX_BOARDS \<le> vd_lun md then None
             else if \<not> zmsg i then Some (False, bs, snd s)
             else ttl_boards io zpd zmsg c is (bs, vmodttl_default io pd (snd s)))"

text \<open>The clean-up after a failed allocation runs \<open>k\<close> from 0 while \<open>k < k\<close>: it frees nothing.\<close>

definition vmodttl_init ::
    "'h ttl_bus \<Rightarrow> (nat \<Rightarrow> bool) \<Rightarrow> (nat \<Rightarrow> bool) \<Rightarrow> rc \<times> vmod_devices \<Rightarrow> rc \<Rightarrow> rc \<Rightarrow> mezz \<times> boards \<times> 'h \<Rightarrow> (rc \<times> mezz \<times> boards \<times> 'h) option" where
  "vmodttl_init io zpd zmsg params alloc add s =
    (case s of (m, b) \<Rightarrow>
     (case params of
        (Err e, c) \<Rightarrow> Some (Err EPERM, m\<lparr>mz_config := c\<rparr>, b)
      | (OK, c) \<Rightarrow>
         (case chrdev_init alloc add (m\<lparr>mz_config := c\<rparr>) of
            (Err e, m') \<Rightarrow> Some (Err EPERM, m', b)
          | (OK, m') \<Rightarrow>
             (case ttl_boards io zpd zmsg c [0..<vs_num_modules c] b of
                None \<Rightarrow> None
              | Some (True, b') \<Rightarrow> Some (OK, m', b')
              | Some (False, b') \<Rightarrow> Some (Err EPERM, m'\<lparr>mz_cdev := False, mz_region := False\<rparr>, b')))))"

text \<open>
  Registering a callback with the carrier of a board. \<open>call e\<close> is a call of the entry point \<open>e\<close> of the carrier, which changes the state of
  the carrier's driver.
\<close>

definition register_module_isr ::
    "('r \<Rightarrow> 'c option \<Rightarrow> vmodttl_dev \<Rightarrow> int \<Rightarrow> int \<Rightarrow> 's \<Rightarrow> rc \<times> 's) \<Rightarrow> ('g, 'r) cregister \<Rightarrow> vmodttl_dev \<Rightarrow> 'c option \<Rightarrow> 's \<Rightarrow> rc \<times> 's" where
  "register_module_isr call reg dev handler cs =
    (case modulbus_carrier_isr_entry (vd_carrier_name (td_config dev)) reg of
       None \<Rightarrow> (Err EPERM, cs)
     | Some register_isr \<Rightarrow>
         (case call register_isr handler dev (vd_carrier_lun (td_config dev)) (vd_slot (td_config dev)) cs of
            (Err e, cs') \<Rightarrow> (Err EPERM, cs')
          | (OK, cs') \<Rightarrow> (OK, cs')))"

definition unregister_module_isr ::
    "('r \<Rightarrow> 'c option \<Rightarrow> vmodttl_dev \<Rightarrow> int \<Rightarrow> int \<Rightarrow> 's \<Rightarrow> rc \<times> 's) \<Rightarrow> ('g, 'r) cregister \<Rightarrow> vmodttl_dev \<Rightarrow> 's \<Rightarrow> rc \<times> 's" where
  "unregister_module_isr call reg dev cs = register_module_isr call reg dev None cs"

text \<open>The loop of the exit goes over the table by position, where the boards are stored by lun.\<close>

primrec ttl_unload ::
    "('r \<Rightarrow> 'c option \<Rightarrow> vmodttl_dev \<Rightarrow> int \<Rightarrow> int \<Rightarrow> 's \<Rightarrow> rc \<times> 's) \<Rightarrow> ('g, 'r) cregister \<Rightarrow> nat list \<Rightarrow> boards \<times> 's \<Rightarrow> boards \<times> 's" where
  "ttl_unload call reg [] s = s"
| "ttl_unload call reg (i # is) s =
    (case fst s ! i of
       None \<Rightarrow> ttl_unload call reg is s
     | Some pd \<Rightarrow> ttl_unload call reg is ((fst s)[i := None], snd (unregister_module_isr call reg pd (snd s))))"

definition vmodttl_exit ::
    "('r \<Rightarrow> 'c option \<Rightarrow> vmodttl_dev \<Rightarrow> int \<Rightarrow> int \<Rightarrow> 's \<Rightarrow> rc \<times> 's) \<Rightarrow> ('g, 'r) cregister \<Rightarrow> mezz \<times> boards \<times> 's \<Rightarrow> mezz \<times> boards \<times> 's" where
  "vmodttl_exit call reg s =
    (case s of (m, b) \<Rightarrow>
      (m\<lparr>mz_cdev := False, mz_region := False\<rparr>, ttl_unload call reg [0..<vs_num_modules (mz_config m)] b))"

section \<open>The library\<close>

datatype vmodttl_conf_pattern = P_OFF | P_ANY | P_ZERO | P_ONE | P_ONE_TO_ZERO | P_ZERO_TO_ONE

record vmodttl_conf =
  lc_dir_a :: int
  lc_dir_b :: int
  lc_inverting_logic :: int
  lc_us_pulse :: int
  lc_mode_a :: int
  lc_mode_b :: int
  lc_mode_c :: int
  lc_pattern_mode_a :: int
  lc_pattern_mode_b :: int
  lc_conf_pattern_a :: "vmodttl_conf_pattern list"
  lc_conf_pattern_b :: "vmodttl_conf_pattern list"

text \<open>A system call: the command on an open file; \<open>None\<close> when the driver crashes.\<close>

type_synonym 's ttl_ioctl = "int \<Rightarrow> ttl_cmd \<Rightarrow> 's \<Rightarrow> (rc \<times> ttl_out \<times> 's) option"

text \<open>\<open>fds\<close> is the table \<open>luns_to_fd\<close>, \<open>fd\<close> what \<open>open\<close> returns.\<close>

definition lib_open :: "int \<Rightarrow> nat \<Rightarrow> int list \<Rightarrow> int \<times> int list" where
  "lib_open fd lun fds = (if fds ! lun \<noteq> 0 then (fds ! lun, fds) else if fd < 0 then (- 1, fds) else (0, fds[lun := fd]))"

definition lib_close :: "int \<Rightarrow> nat \<Rightarrow> int list \<Rightarrow> int \<times> int list" where
  "lib_close ret lun fds = (ret, fds[lun := 0])"

definition lib_write :: "'s ttl_ioctl \<Rightarrow> int list \<Rightarrow> nat \<Rightarrow> int \<Rightarrow> int \<Rightarrow> 's \<Rightarrow> (int \<times> 's) option" where
  "lib_write ioctl fds lun chan val s =
    (case ioctl (fds ! lun) (VMODTTL_WRITE_CHAN \<lparr>ta_dev = chan, ta_val = val\<rparr>) s of
       None \<Rightarrow> None
     | Some (OK, _, s') \<Rightarrow> Some (0, s')
     | Some (Err e, _, s') \<Rightarrow> Some (- 1, s'))"

definition lib_read :: "'s ttl_ioctl \<Rightarrow> int list \<Rightarrow> nat \<Rightarrow> int \<Rightarrow> 's \<Rightarrow> (int \<times> int option \<times> 's) option" where
  "lib_read ioctl fds lun chan s =
    (case ioctl (fds ! lun) (VMODTTL_READ_CHAN \<lparr>ta_dev = chan, ta_val = 0\<rparr>) s of
       None \<Rightarrow> None
     | Some (OK, Ttl_arg buf, s') \<Rightarrow>
         Some (0, Some (if chan = VMOD_TTL_CHANNELS_AB then ta_val buf AND 0xffff else ta_val buf AND 0xff), s')
     | Some (_, _, s') \<Rightarrow> Some (- 1, None, s'))"

definition vmodttl_get_from_bit_pattern :: "u8 \<Rightarrow> u8 \<Rightarrow> u8 \<Rightarrow> vmodttl_conf_pattern" where
  "vmodttl_get_from_bit_pattern pmr ptr ppr =
    (if pmr = 0 \<and> ptr = 1 \<and> ppr = 0 then P_ANY
     else if pmr = 1 \<and> ptr = 0 \<and> ppr = 0 then P_ZERO
     else if pmr = 1 \<and> ptr = 0 \<and> ppr = 1 then P_ONE
     else if pmr = 1 \<and> ptr = 1 \<and> ppr = 0 then P_ONE_TO_ZERO
     else if pmr = 1 \<and> ptr = 1 \<and> ppr = 1 then P_ZERO_TO_ONE
     else P_OFF)"

fun vmodttl_get_bit_pattern :: "vmodttl_conf_pattern \<Rightarrow> u8 \<times> u8 \<times> u8" where
  "vmodttl_get_bit_pattern P_ANY = (0, 1, 0)"
| "vmodttl_get_bit_pattern P_ZERO = (1, 0, 0)"
| "vmodttl_get_bit_pattern P_ONE = (1, 0, 1)"
| "vmodttl_get_bit_pattern P_ONE_TO_ZERO = (1, 1, 0)"
| "vmodttl_get_bit_pattern P_ZERO_TO_ONE = (1, 1, 1)"
| "vmodttl_get_bit_pattern P_OFF = (0, 0, 0)"

definition lib_pattern :: "'s ttl_ioctl \<Rightarrow> int list \<Rightarrow> nat \<Rightarrow> int \<Rightarrow> int \<Rightarrow> vmodttl_conf_pattern \<Rightarrow> 's \<Rightarrow> (int \<times> 's) option" where
  "lib_pattern ioctl fds lun port pos bit_pattern s =
    (if port < VMOD_TTL_CHANNEL_A \<or> VMOD_TTL_CHANNEL_B < port then Some (- 1, s)
     else if pos < 0 \<or> int NR_BITS \<le> pos then Some (- 1, s)
     else case vmodttl_get_bit_pattern bit_pattern of (pmr, ptr, ppr) \<Rightarrow>
       (case ioctl (fds ! lun) (VMODTTL_PATTERN
              \<lparr>pa_port = word_of_int port, pa_pos = word_of_int pos, pa_ptr = ptr, pa_pmr = pmr, pa_ppr = ppr\<rparr>) s of
          None \<Rightarrow> None
        | Some (OK, _, s') \<Rightarrow> Some (0, s')
        | Some (Err e, _, s') \<Rightarrow> Some (- 1, s')))"

text \<open>The patterns of both channels are taken from \<open>conf_pattern_a\<close>.\<close>

primrec lib_patterns :: "'s ttl_ioctl \<Rightarrow> int list \<Rightarrow> nat \<Rightarrow> vmodttl_conf \<Rightarrow> nat list \<Rightarrow> 's \<Rightarrow> 's option" where
  "lib_patterns ioctl fds lun conf [] s = Some s"
| "lib_patterns ioctl fds lun conf (i # is) s =
    (case (if lc_dir_a conf = 0 then lib_pattern ioctl fds lun 0 (int i) (lc_conf_pattern_a conf ! i) s else Some (0, s)) of
       None \<Rightarrow> None
     | Some (_, s1) \<Rightarrow>
         (case (if lc_dir_b conf = 0 then lib_pattern ioctl fds lun 1 (int i) (lc_conf_pattern_a conf ! i) s1 else Some (0, s1)) of
            None \<Rightarrow> None
          | Some (_, s2) \<Rightarrow> lib_patterns ioctl fds lun conf is s2))"

text \<open>
  \<open>ga\<close> and \<open>gb\<close> are what the memory of the structure happens to hold where the function does not set it.
\<close>

definition lib_io_config ::
    "'s ttl_ioctl \<Rightarrow> vmodttl_pattern list \<Rightarrow> vmodttl_pattern list \<Rightarrow> int list \<Rightarrow> nat \<Rightarrow> vmodttl_conf \<Rightarrow> 's \<Rightarrow> (rc \<times> 's) option" where
  "lib_io_config ioctl ga gb fds lun conf s =
    (let ttl_conf = \<lparr>tc_io_flag = (lc_dir_a conf AND 1) + push_bit 1 (lc_dir_b conf AND 1), tc_us_pulse = lc_us_pulse conf,
           tc_open_collector = lc_mode_a conf + push_bit 1 (lc_mode_b conf AND 1) + push_bit 2 (lc_mode_c conf AND 1),
           tc_invert = lc_inverting_logic conf, tc_pattern_mode_a = lc_pattern_mode_a conf, tc_pattern_mode_b = lc_pattern_mode_b conf,
           tc_bit_pattern_a = ga, tc_bit_pattern_b = gb\<rparr>
     in case ioctl (fds ! lun) (VMODTTL_CONFIG ttl_conf) s of
          None \<Rightarrow> None
        | Some (Err e, _, s') \<Rightarrow> Some (Err e, s')
        | Some (OK, _, s') \<Rightarrow> map_option (\<lambda>t. (OK, t)) (lib_patterns ioctl fds lun conf [0..<NR_BITS] s'))"

definition conf_of :: "vmodttlconfig \<Rightarrow> vmodttl_conf" where
  "conf_of t = \<lparr>lc_dir_a = tc_io_flag t AND 1, lc_dir_b = drop_bit 1 (tc_io_flag t) AND 1, lc_inverting_logic = tc_invert t,
     lc_us_pulse = tc_us_pulse t, lc_mode_a = tc_open_collector t AND 1, lc_mode_b = drop_bit 1 (tc_open_collector t) AND 1,
     lc_mode_c = drop_bit 2 (tc_open_collector t) AND 1, lc_pattern_mode_a = tc_pattern_mode_a t, lc_pattern_mode_b = tc_pattern_mode_b t,
     lc_conf_pattern_a = map (\<lambda>p. vmodttl_get_from_bit_pattern (pa_pmr p) (pa_ptr p) (pa_ppr p)) (tc_bit_pattern_a t),
     lc_conf_pattern_b = map (\<lambda>p. vmodttl_get_from_bit_pattern (pa_pmr p) (pa_ptr p) (pa_ppr p)) (tc_bit_pattern_b t)\<rparr>"

text \<open>When the call fails, the configuration is made of what the structure happens to hold.\<close>

definition lib_read_config :: "'s ttl_ioctl \<Rightarrow> vmodttlconfig \<Rightarrow> int list \<Rightarrow> nat \<Rightarrow> 's \<Rightarrow> (rc \<times> vmodttl_conf \<times> 's) option" where
  "lib_read_config ioctl garbage fds lun s =
    (case ioctl (fds ! lun) VMODTTL_READ_CONFIG s of
       None \<Rightarrow> None
     | Some (r, Ttl_config t, s') \<Rightarrow> Some (r, conf_of t, s')
     | Some (r, _, s') \<Rightarrow> Some (r, conf_of garbage, s'))"

definition lib_io_chan_config ::
    "'s ttl_ioctl \<Rightarrow> vmodttlconfig \<Rightarrow> vmodttl_pattern list \<Rightarrow> vmodttl_pattern list \<Rightarrow> int list \<Rightarrow> nat \<Rightarrow> int \<Rightarrow> vmodttl_conf \<Rightarrow> 's \<Rightarrow> (rc \<times> 's) option" where
  "lib_io_chan_config ioctl garbage ga gb fds lun chan conf s =
    (case lib_read_config ioctl garbage fds lun s of
       None \<Rightarrow> None
     | Some (_, ttl_conf, s1) \<Rightarrow>
         if chan = VMOD_TTL_CHANNEL_A then
           lib_io_config ioctl ga gb fds lun (ttl_conf\<lparr>lc_dir_a := lc_dir_a conf, lc_mode_a := lc_mode_a conf,
               lc_pattern_mode_a := lc_pattern_mode_a conf, lc_conf_pattern_a := lc_conf_pattern_a conf\<rparr>) s1
         else if chan = VMOD_TTL_CHANNEL_B then
           lib_io_config ioctl ga gb fds lun (ttl_conf\<lparr>lc_dir_b := lc_dir_b conf, lc_mode_b := lc_mode_b conf,
               lc_pattern_mode_b := lc_pattern_mode_b conf, lc_conf_pattern_b := lc_conf_pattern_b conf\<rparr>) s1
         else if chan = VMOD_TTL_CHANNELS_AB then lib_io_config ioctl ga gb fds lun conf s1
         else Some (Err EPERM, s1))"

end
