(* ===== verification/Vmod_Ttl_Props.thy ===== *)
theory Vmod_Ttl_Props
  imports Vmod_Ttl
begin

text \<open>
  Correctness of the VMOD-TTL driver and library: the chip is left configured as asked, a write goes only to a channel that is an output, and a configuration
  set through the library is read back, but for the patterns of channel B.
\<close>

section \<open>The chip\<close>

text \<open>
  What the manual of the Z8536 says of its control port: when the port is \<open>ready\<close>, a write of a register number followed by a write of a value
  stores the value in that register and in no other, and a write of a register number followed by a read gives its value; both leave the port ready. The
  command registers of the ports and the master interrupt control register do more than store, and the registers that specify a port are only sure to take a value while the ports are
  disabled in the master configuration register.
\<close>

definition command_regs :: "u16 list" where "command_regs = [MICR, PCSR_A, PCSR_B]"

definition cio_chip :: "'h ttl_bus \<Rightarrow> bool \<Rightarrow> u32 \<Rightarrow> ('h \<Rightarrow> bool) \<Rightarrow> ('h \<Rightarrow> u16 \<Rightarrow> u8) \<Rightarrow> bool" where
  "cio_chip io be a ready reg \<longleftrightarrow>
    (\<forall>h r v. ready h \<and> r \<noteq> MICR \<longrightarrow> (let h' = tb_write io be (a + VMODTTL_CONTROL) v (tb_write io be (a + VMODTTL_CONTROL) r h) in
       ready h' \<and> (\<forall>x. x \<noteq> r \<longrightarrow> reg h' x = reg h x)
       \<and> (r = MCCR \<or> r \<notin> set command_regs \<and> reg h MCCR = 0 \<longrightarrow> reg h' r = ucast v)))
    \<and> (\<forall>h r. ready h \<longrightarrow> (\<exists>h'. tb_read io be (a + VMODTTL_CONTROL) (tb_write io be (a + VMODTTL_CONTROL) r h) = (ucast (reg h r), h')
         \<and> ready h' \<and> reg h' = reg h))"

abbreviation chip_of :: "'h ttl_bus \<Rightarrow> vmodttl_dev \<Rightarrow> ('h \<Rightarrow> bool) \<Rightarrow> ('h \<Rightarrow> u16 \<Rightarrow> u8) \<Rightarrow> bool" where
  "chip_of io pd \<equiv> cio_chip io (vd_is_big_endian (td_config pd)) (vd_address (td_config pd))"

lemma cio_put_laws:
  assumes "chip_of io pd ready reg" and "ready h" and "r \<noteq> MICR"
  shows "ready (cio_put io pd r v h)" "x \<noteq> r \<Longrightarrow> reg (cio_put io pd r v h) x = reg h x"
    "r = MCCR \<or> r \<notin> set command_regs \<and> reg h MCCR = 0 \<Longrightarrow> reg (cio_put io pd r v h) r = ucast v"
  using assms unfolding cio_chip_def cio_put_def vmodttl_write_word_def Let_def by blast+

lemma cio_get_law:
  assumes "chip_of io pd ready reg" and "ready h"
  shows "\<exists>h'. cio_get io pd r h = (ucast (reg h r), h') \<and> ready h' \<and> reg h' = reg h"
  using assms unfolding cio_chip_def cio_get_def vmodttl_write_word_def vmodttl_read_word_def by blast

section \<open>The ports as they are left\<close>

definition port_dir :: "int \<Rightarrow> int \<Rightarrow> u8" where
  "port_dir io_flag out = (if io_flag AND out \<noteq> 0 then 0x00 else 0xff)"

text \<open>An output with an open collector is never inverted.\<close>

definition port_polarity :: "int \<Rightarrow> int \<Rightarrow> int \<Rightarrow> u8" where
  "port_polarity io_flag oc out = (if io_flag AND VMODTTL_O \<noteq> 0 \<and> \<not> (oc AND out = out \<and> io_flag AND out \<noteq> 0) then 0xff else 0x00)"

lemma def_io_a_regs:
  assumes "chip_of io pd ready reg" and "ready h" and "reg h MCCR = 0"
  shows "ready (def_io_a io pd h)" "reg (def_io_a io pd h) DDR_A = port_dir (td_io_flag pd) A_CHAN_OUT"
    "reg (def_io_a io pd h) DPPR_A = port_polarity (td_io_flag pd) (td_open_collector pd) A_CHAN_OUT"
    "x \<notin> {PCSR_A, PMSR_A, DDR_A, DPPR_A, SIOCR_A} \<Longrightarrow> reg (def_io_a io pd h) x = reg h x"
  using assms(2,3)
  by (simp_all add: def_io_a_def Let_def cio_put_laws [OF assms(1)] command_regs_def inverted_def port_dir_def port_polarity_def)

lemma def_io_b_regs:
  assumes "chip_of io pd ready reg" and "ready h" and "reg h MCCR = 0"
  shows "ready (def_io_b io pd h)" "reg (def_io_b io pd h) DDR_B = port_dir (td_io_flag pd) B_CHAN_OUT"
    "reg (def_io_b io pd h) DPPR_B = port_polarity (td_io_flag pd) (td_open_collector pd) B_CHAN_OUT"
    "x \<notin> {PCSR_B, PMSR_B, DDR_B, DPPR_B, SIOCR_B} \<Longrightarrow> reg (def_io_b io pd h) x = reg h x"
  using assms(2,3)
  by (simp_all add: def_io_b_def Let_def cio_put_laws [OF assms(1)] command_regs_def inverted_def port_dir_def port_polarity_def)

lemma def_io_c_regs:
  assumes "chip_of io pd ready reg" and "ready h" and "reg h MCCR = 0"
  shows "ready (def_io_c io pd h)" "reg (def_io_c io pd h) DDR_C = 0"
    "reg (def_io_c io pd h) DPPR_C
      = (if td_io_flag pd AND VMODTTL_O \<noteq> 0 \<and> td_open_collector pd AND C_CHAN_OPEN_COLLECTOR \<noteq> C_CHAN_OPEN_COLLECTOR then 0x0f else 0x00)"
    "x \<notin> {DDR_C, DPPR_C, SIOCR_C} \<Longrightarrow> reg (def_io_c io pd h) x = reg h x"
  using assms(2,3)
  by (simp_all add: def_io_c_def Let_def cio_put_laws [OF assms(1)] command_regs_def inverted_def)

text \<open>What every configuration of a board leaves in the chip: direction and polarity of the three ports, and all of them enabled.\<close>

definition ports_as :: "('h \<Rightarrow> u16 \<Rightarrow> u8) \<Rightarrow> int \<Rightarrow> int \<Rightarrow> 'h \<Rightarrow> bool" where
  "ports_as reg io_flag oc h \<longleftrightarrow> reg h DDR_A = port_dir io_flag A_CHAN_OUT \<and> reg h DDR_B = port_dir io_flag B_CHAN_OUT \<and> reg h DDR_C = 0
    \<and> reg h DPPR_A = port_polarity io_flag oc A_CHAN_OUT \<and> reg h DPPR_B = port_polarity io_flag oc B_CHAN_OUT
    \<and> reg h DPPR_C = (if io_flag AND VMODTTL_O \<noteq> 0 \<and> oc AND C_CHAN_OPEN_COLLECTOR \<noteq> C_CHAN_OPEN_COLLECTOR then 0x0f else 0x00)
    \<and> reg h MCCR = 0x94"

lemma def_io_ports:
  assumes "chip_of io pd ready reg" and "ready h"
  shows "ready (vmodttl_def_io io pd h) \<and> ports_as reg (td_io_flag pd) (td_open_collector pd) (vmodttl_def_io io pd h)"
proof -
  let ?h0 = "cio_put io pd MCCR 0 h"
  let ?h1 = "def_io_a io pd ?h0"
  let ?h2 = "def_io_b io pd ?h1"
  let ?h3 = "def_io_c io pd ?h2"
  have h0: "ready ?h0" "reg ?h0 MCCR = 0" using cio_put_laws [OF assms, where r = MCCR and v = 0] by simp_all
  note a = def_io_a_regs [OF assms(1) h0]
  have h1: "ready ?h1" "reg ?h1 MCCR = 0" using a h0 by simp_all
  note b = def_io_b_regs [OF assms(1) h1]
  have h2: "ready ?h2" "reg ?h2 MCCR = 0" using b h1 by simp_all
  note c = def_io_c_regs [OF assms(1) h2]
  have h3: "ready ?h3" "reg ?h3 MCCR = 0" using c h2 by simp_all
  obtain h4 where h4: "cio_get io pd MCCR ?h3 = (ucast (reg ?h3 MCCR), h4)" "ready h4" "reg h4 = reg ?h3"
    using cio_get_law [OF assms(1) h3(1)] by blast
  have fin: "vmodttl_def_io io pd h = cio_put io pd MCCR 0x94 h4"
    using h4(1) h3(2) by (simp add: vmodttl_def_io_def Let_def)
  note p = cio_put_laws [OF assms(1) h4(2), where r = MCCR and v = "0x94"]
  show ?thesis unfolding fin ports_as_def using p h4(3) a b c by simp
qed

section \<open>Configuring a board\<close>

lemma config_device:
  assumes "vmodttl_config io conf (pd, h) = (OK, pd', h')"
  shows "h' = vmodttl_def_io io pd' h" "td_config pd' = td_config pd" "td_ioconfig pd' = td_ioconfig pd" "1 \<le> td_us_pulse pd'"
    "td_io_flag pd' = tc_io_flag conf OR (if tc_invert conf \<noteq> 0 then VMODTTL_O else 0)" "td_open_collector pd' = tc_open_collector conf"
  using assms by (auto simp: vmodttl_config_def Let_def split: if_splits)

lemma config_accepts: "0 \<le> tc_io_flag t \<Longrightarrow> tc_io_flag t \<le> 7 \<Longrightarrow> \<exists>pd' h'. vmodttl_config io t (pd, h) = (OK, pd', h')"
  by (simp add: vmodttl_config_def Let_def)

lemma flag_and_out: "(f OR (if b then VMODTTL_O else 0)) AND A_CHAN_OUT = f AND A_CHAN_OUT" "(f OR (if b then VMODTTL_O else 0)) AND B_CHAN_OUT = f AND B_CHAN_OUT"
  by (simp_all add: bit.conj_disj_distrib2)

text \<open>
  C31: a configuration that the VMOD-TTL driver accepts is the one the chip has afterwards: direction and polarity of the ports are as asked for, an open-collector output not
  inverted, all three ports are enabled, the configuration can be read back, and the strobe lasts at least one microsecond. From then on, whatever happened to
  the chip in between, \<open>VMODTTL_SIMPIO\<close> puts the ports back as configured; and writing to a channel that was not configured as an
  output is refused with \<open>-EIO\<close> and does not touch the board.
\<close>

theorem ttl_config_reaches_chip:
  assumes "chip_of io pd ready reg" and "ready h" and "minor < length bs" and "bs ! minor = Some pd"
    and "vmodttl_ioctl io ci co minor (VMODTTL_CONFIG conf) (bs, h) = Some (OK, out, bs', h')"
    and "ready g"
  shows "ready h' \<and> ports_as reg (tc_io_flag conf OR (if tc_invert conf \<noteq> 0 then VMODTTL_O else 0)) (tc_open_collector conf) h'
    \<and> vmodttl_ioctl io ci True minor VMODTTL_READ_CONFIG (bs', g) = Some (OK, Ttl_config conf, bs', g)
    \<and> (\<exists>pd'. bs' ! minor = Some pd' \<and> 1 \<le> td_us_pulse pd')
    \<and> (\<exists>g'. vmodttl_ioctl io ci co minor VMODTTL_SIMPIO (bs', g) = Some (OK, Ttl_none, bs', g')
        \<and> ports_as reg (tc_io_flag conf OR (if tc_invert conf \<noteq> 0 then VMODTTL_O else 0)) (tc_open_collector conf) g')
    \<and> (tc_io_flag conf AND A_CHAN_OUT = 0 \<longrightarrow>
        vmodttl_ioctl io True co minor (VMODTTL_WRITE_CHAN \<lparr>ta_dev = VMOD_TTL_CHANNEL_A, ta_val = v\<rparr>) (bs', g) = Some (Err EIO, Ttl_none, bs', g))
    \<and> (tc_io_flag conf AND B_CHAN_OUT = 0 \<longrightarrow>
        vmodttl_ioctl io True co minor (VMODTTL_WRITE_CHAN \<lparr>ta_dev = VMOD_TTL_CHANNEL_B, ta_val = v\<rparr>) (bs', g) = Some (Err EIO, Ttl_none, bs', g))"
proof -
  obtain pd' where run: "vmodttl_config io conf (pd\<lparr>td_ioconfig := conf\<rparr>, h) = (OK, pd', h')" and bs': "bs' = bs[minor := Some pd']"
    using assms(4,5) by (auto simp: vmodttl_ioctl_def split: if_splits prod.splits)
  note C = config_device [OF run]
  have at: "bs' ! minor = Some pd'" using bs' assms(3) by simp
  have chip: "chip_of io pd' ready reg" using assms(1) C(2) by simp
  show ?thesis
    using def_io_ports [OF chip assms(2)] def_io_ports [OF chip assms(6)] C at flag_and_out
    by (simp add: vmodttl_ioctl_def vmodttl_write_chan_def Let_def)
qed

section \<open>The library\<close>

interpretation ttl_patterns: codec vmodttl_get_bit_pattern "\<lambda>(pmr, ptr, ppr). Some (vmodttl_get_from_bit_pattern pmr ptr ppr)" "\<lambda>_. True"
proof (unfold_locales, goal_cases)
  case (1 p)
  then show ?case by (cases p) (simp_all add: vmodttl_get_from_bit_pattern_def)
qed

definition decode :: "vmodttl_pattern \<Rightarrow> vmodttl_conf_pattern" where
  "decode p = vmodttl_get_from_bit_pattern (pa_pmr p) (pa_ptr p) (pa_ppr p)"

text \<open>The library on the driver: \<open>dev fd\<close> is the minor number of the device that file \<open>fd\<close> is open on.\<close>

definition ttl_sys :: "'h ttl_bus \<Rightarrow> (int \<Rightarrow> nat) \<Rightarrow> (boards \<times> 'h) ttl_ioctl" where
  "ttl_sys io dev fd cmd s = vmodttl_ioctl io True True (dev fd) cmd s"

abbreviation set_patterns :: "vmodttl_pattern list \<Rightarrow> vmodttl_dev \<Rightarrow> vmodttl_dev" where
  "set_patterns ps pd \<equiv> pd\<lparr>td_ioconfig := (td_ioconfig pd)\<lparr>tc_bit_pattern_a := ps\<rparr>\<rparr>"

lemma lib_pattern_run:
  assumes "bs ! m = Some pd" and "m = dev (fds ! lun)" and "i < NR_BITS" and "port = 0 \<or> port = 1"
  shows "\<exists>p. lib_pattern (ttl_sys io dev) fds lun port (int i) bp (bs, h)
      = Some (0, bs[m := Some (set_patterns ((tc_bit_pattern_a (td_ioconfig pd))[i := p]) pd)], h) \<and> decode p = bp"
proof -
  obtain pmr ptr ppr where e: "vmodttl_get_bit_pattern bp = (pmr, ptr, ppr)" by (metis prod_cases3)
  have "vmodttl_get_from_bit_pattern pmr ptr ppr = bp" using ttl_patterns.decode_encode [of bp] e by simp
  moreover have "unat (word_of_int (int i) :: u8) = i" using assms(3) by (simp add: unat_of_nat)
  ultimately show ?thesis using assms e by (auto simp: lib_pattern_def ttl_sys_def vmodttl_ioctl_def decode_def)
qed

text \<open>The step for one bit: the pattern is stored if one of the channels is an input, whatever the channel.\<close>

lemma lib_pattern_step:
  assumes "bs ! m = Some pd" and "m = dev (fds ! lun)" and "m < length bs" and "i < NR_BITS" and "i < length (tc_bit_pattern_a (td_ioconfig pd))"
  shows "\<exists>ps. lib_patterns (ttl_sys io dev) fds lun conf (i # js) (bs, h)
        = lib_patterns (ttl_sys io dev) fds lun conf js (bs[m := Some (set_patterns ps pd)], h)
      \<and> length ps = length (tc_bit_pattern_a (td_ioconfig pd)) \<and> (\<forall>j. j \<noteq> i \<longrightarrow> ps ! j = tc_bit_pattern_a (td_ioconfig pd) ! j)
      \<and> (if lc_dir_a conf = 0 \<or> lc_dir_b conf = 0 then decode (ps ! i) = lc_conf_pattern_a conf ! i else ps = tc_bit_pattern_a (td_ioconfig pd))"
proof -
  let ?a = "tc_bit_pattern_a (td_ioconfig pd)" and ?bp = "lc_conf_pattern_a conf ! i"
  obtain p where p: "lib_pattern (ttl_sys io dev) fds lun 0 (int i) ?bp (bs, h) = Some (0, bs[m := Some (set_patterns (?a[i := p]) pd)], h)"
      "decode p = ?bp"
    using lib_pattern_run [where dev = dev and fds = fds and lun = lun and port = 0 and io = io and h = h and bp = ?bp, OF assms(1,2,4)] by auto
  obtain q where q: "lib_pattern (ttl_sys io dev) fds lun 1 (int i) ?bp (bs, h) = Some (0, bs[m := Some (set_patterns (?a[i := q]) pd)], h)"
      "decode q = ?bp"
    using lib_pattern_run [where dev = dev and fds = fds and lun = lun and port = 1 and io = io and h = h and bp = ?bp, OF assms(1,2,4)] by auto
  let ?bs = "bs[m := Some (set_patterns (?a[i := p]) pd)]"
  have "?bs ! m = Some (set_patterns (?a[i := p]) pd)" using assms(3) by simp
  from lib_pattern_run [where dev = dev and fds = fds and lun = lun and port = 1 and io = io and h = h and bp = ?bp, OF this assms(2,4)] obtain r where
    r: "lib_pattern (ttl_sys io dev) fds lun 1 (int i) ?bp (?bs, h) = Some (0, bs[m := Some (set_patterns (?a[i := r]) pd)], h)" "decode r = ?bp"
    by auto
  show ?thesis
  proof (cases "lc_dir_a conf = 0"; cases "lc_dir_b conf = 0")
    assume "lc_dir_a conf = 0" "lc_dir_b conf = 0"
    then show ?thesis using p r assms(5) by (intro exI [of _ "?a[i := r]"]) simp
  next
    assume "lc_dir_a conf = 0" "lc_dir_b conf \<noteq> 0"
    then show ?thesis using p assms(5) by (intro exI [of _ "?a[i := p]"]) simp
  next
    assume "lc_dir_a conf \<noteq> 0" "lc_dir_b conf = 0"
    then show ?thesis using q assms(5) by (intro exI [of _ "?a[i := q]"]) simp
  next
    assume "lc_dir_a conf \<noteq> 0" "lc_dir_b conf \<noteq> 0"
    then show ?thesis using list_update_id [of bs m] assms(1) by (intro exI [of _ ?a]) simp
  qed
qed

lemma lib_patterns_run:
  assumes "bs ! m = Some pd" and "m = dev (fds ! lun)" and "m < length bs" and "length (tc_bit_pattern_a (td_ioconfig pd)) = NR_BITS"
    and "set js \<subseteq> {..<NR_BITS}" and "distinct js"
  shows "\<exists>ps. lib_patterns (ttl_sys io dev) fds lun conf js (bs, h) = Some (bs[m := Some (set_patterns ps pd)], h)
      \<and> length ps = NR_BITS \<and> (\<forall>j. j \<notin> set js \<longrightarrow> ps ! j = tc_bit_pattern_a (td_ioconfig pd) ! j)
      \<and> (if lc_dir_a conf = 0 \<or> lc_dir_b conf = 0 then \<forall>i\<in>set js. decode (ps ! i) = lc_conf_pattern_a conf ! i
         else ps = tc_bit_pattern_a (td_ioconfig pd))"
  using assms
proof (induction js arbitrary: bs pd)
  case Nil
  then show ?case using list_update_id [of bs m] by (intro exI [of _ "tc_bit_pattern_a (td_ioconfig pd)"]) simp
next
  case (Cons i js)
  have i: "i < NR_BITS" "i < length (tc_bit_pattern_a (td_ioconfig pd))" using Cons.prems(4,5) by simp_all
  obtain ps where ps: "lib_patterns (ttl_sys io dev) fds lun conf (i # js) (bs, h)
        = lib_patterns (ttl_sys io dev) fds lun conf js (bs[m := Some (set_patterns ps pd)], h)"
      "length ps = NR_BITS" "\<forall>j. j \<noteq> i \<longrightarrow> ps ! j = tc_bit_pattern_a (td_ioconfig pd) ! j"
      "if lc_dir_a conf = 0 \<or> lc_dir_b conf = 0 then decode (ps ! i) = lc_conf_pattern_a conf ! i else ps = tc_bit_pattern_a (td_ioconfig pd)"
    using lib_pattern_step [where conf = conf and io = io and h = h and js = js and dev = dev and fds = fds and lun = lun, OF Cons.prems(1-3) i] Cons.prems(4) by auto
  have "bs[m := Some (set_patterns ps pd)] ! m = Some (set_patterns ps pd)" using Cons.prems(3) by simp
  from Cons.IH [OF this] obtain qs where qs: "lib_patterns (ttl_sys io dev) fds lun conf js (bs[m := Some (set_patterns ps pd)], h)
        = Some (bs[m := Some (set_patterns qs pd)], h)" "length qs = NR_BITS" "\<forall>j. j \<notin> set js \<longrightarrow> qs ! j = ps ! j"
      "if lc_dir_a conf = 0 \<or> lc_dir_b conf = 0 then \<forall>i\<in>set js. decode (qs ! i) = lc_conf_pattern_a conf ! i else qs = ps"
    using Cons.prems(2,3,5,6) ps(2) by auto
  have "i \<notin> set js" using Cons.prems(6) by simp
  then show ?case using ps qs by (intro exI [of _ qs]) (auto split: if_splits)
qed

text \<open>A configuration as the enumerations of the library allow it.\<close>

definition conf_ok :: "vmodttl_conf \<Rightarrow> bool" where
  "conf_ok c \<longleftrightarrow> lc_dir_a c \<in> {0, 1} \<and> lc_dir_b c \<in> {0, 1} \<and> lc_mode_a c \<in> {0, 1} \<and> lc_mode_b c \<in> {0, 1} \<and> lc_mode_c c \<in> {0, 1}
    \<and> length (lc_conf_pattern_a c) = NR_BITS \<and> length (lc_conf_pattern_b c) = NR_BITS"

text \<open>
  C39: what \<open>vmodttl_io_config\<close> sets, \<open>vmodttl_read_config\<close> reads back, through library and driver: directions, modes, logic, pulse length and
  pattern modes; and, as soon as one of the channels is an input, the bit patterns of channel A. The bit patterns of channel B are never stored: what is read
  back for them is whatever the memory of the caller's structure held, and so it is for channel A when both channels are outputs.
\<close>

theorem ttl_config_roundtrip:
  assumes "conf_ok conf" and "m = dev (fds ! lun)" and "m < length bs" and "bs ! m = Some pd"
    and "length ga = NR_BITS" and "length gb = NR_BITS"
  shows "\<exists>s'. lib_io_config (ttl_sys io dev) ga gb fds lun conf (bs, h) = Some (OK, s')
    \<and> lib_read_config (ttl_sys io dev) garbage fds lun s' = Some (OK,
        conf\<lparr>lc_conf_pattern_a := (if lc_dir_a conf = 0 \<or> lc_dir_b conf = 0 then lc_conf_pattern_a conf else map decode ga),
             lc_conf_pattern_b := map decode gb\<rparr>, s')"
proof -
  define t where "t = \<lparr>tc_io_flag = (lc_dir_a conf AND 1) + push_bit 1 (lc_dir_b conf AND 1), tc_us_pulse = lc_us_pulse conf,
      tc_open_collector = lc_mode_a conf + push_bit 1 (lc_mode_b conf AND 1) + push_bit 2 (lc_mode_c conf AND 1),
      tc_invert = lc_inverting_logic conf, tc_pattern_mode_a = lc_pattern_mode_a conf, tc_pattern_mode_b = lc_pattern_mode_b conf,
      tc_bit_pattern_a = ga, tc_bit_pattern_b = gb\<rparr>"
  have flag: "0 \<le> tc_io_flag t" "tc_io_flag t \<le> 7" using assms(1) by (auto simp: t_def conf_ok_def)
  obtain pd1 h1 where run: "vmodttl_config io t (pd\<lparr>td_ioconfig := t\<rparr>, h) = (OK, pd1, h1)"
    using config_accepts [OF flag, where io = io and pd = "pd\<lparr>td_ioconfig := t\<rparr>" and h = h] by blast
  have pd1: "td_ioconfig pd1 = t" using config_device(3) [OF run] by simp
  let ?bs = "bs[m := Some pd1]"
  have cfg: "ttl_sys io dev (fds ! lun) (VMODTTL_CONFIG t) (bs, h) = Some (OK, Ttl_none, ?bs, h1)"
    using assms(2,4) run by (simp add: ttl_sys_def vmodttl_ioctl_def)
  have B: "?bs ! m = Some pd1" "m < length ?bs" "length (tc_bit_pattern_a (td_ioconfig pd1)) = 8" and ga: "tc_bit_pattern_a (td_ioconfig pd1) = ga"
    using assms(3,5) pd1 by (simp_all add: t_def)
  have js: "set [0..<8] \<subseteq> {..<8 :: nat}" "distinct [0..<8 :: nat]" by auto
  obtain ps where ps: "lib_patterns (ttl_sys io dev) fds lun conf [0..<8] (?bs, h1) = Some (bs[m := Some (set_patterns ps pd1)], h1)" "length ps = 8"
      "if lc_dir_a conf = 0 \<or> lc_dir_b conf = 0 then \<forall>i\<in>set [0..<8]. decode (ps ! i) = lc_conf_pattern_a conf ! i else ps = ga"
    using lib_patterns_run [where dev = dev and fds = fds and lun = lun and io = io and conf = conf and h = h1, OF B(1) assms(2) B(2,3) js]
    unfolding ga list_update_overwrite by blast
  have dec: "map decode ps = (if lc_dir_a conf = 0 \<or> lc_dir_b conf = 0 then lc_conf_pattern_a conf else map decode ga)"
    using ps(2,3) assms(1) by (auto simp: conf_ok_def list_eq_iff_nth_eq)
  have "conf_of (td_ioconfig (set_patterns ps pd1)) = conf\<lparr>lc_conf_pattern_a := map decode ps, lc_conf_pattern_b := map decode gb\<rparr>"
    using assms(1) pd1 by (cases conf) (auto simp: t_def conf_of_def conf_ok_def decode_def [abs_def])
  then have read: "lib_read_config (ttl_sys io dev) garbage fds lun (bs[m := Some (set_patterns ps pd1)], h1) = Some (OK,
      conf\<lparr>lc_conf_pattern_a := map decode ps, lc_conf_pattern_b := map decode gb\<rparr>, bs[m := Some (set_patterns ps pd1)], h1)"
    using assms(2,3) by (simp add: lib_read_config_def ttl_sys_def vmodttl_ioctl_def)
  have "lib_io_config (ttl_sys io dev) ga gb fds lun conf (bs, h) = Some (OK, bs[m := Some (set_patterns ps pd1)], h1)"
    unfolding lib_io_config_def t_def [symmetric] Let_def cfg using ps(1) by simp
  then show ?thesis using read unfolding dec by blast
qed

section \<open>Examples\<close>

text \<open>A chip with nothing but its registers and the number written last.\<close>

definition demo_cio :: "(u16 option \<times> (u16 \<Rightarrow> u8)) ttl_bus" where
  "demo_cio = \<lparr>tb_write = (\<lambda>be a v (p, f). if a \<noteq> 0x1006 then (p, f) else case p of None \<Rightarrow> (Some v, f) | Some r \<Rightarrow> (None, f(r := ucast v))),
     tb_read = (\<lambda>be a (p, f). if a \<noteq> 0x1006 then (0, p, f) else case p of None \<Rightarrow> (0, p, f) | Some r \<Rightarrow> (ucast (f r), None, f))\<rparr>"

definition demo_ttl :: vmodttl_dev where
  "demo_ttl = \<lparr>td_dev = 0, td_OpenCount = 0, td_io_flag = 0, td_us_pulse = 0, td_open_collector = 0,
     td_config = \<lparr>vd_lun = 0, vd_carrier_name = ''vmodio'', vd_carrier_lun = 0, vd_slot = 0, vd_address = 0x1000, vd_is_big_endian = True\<rparr>,
     td_ioconfig = zero_ttlconfig\<rparr>"

lemma demo_cio_chip: "chip_of demo_cio demo_ttl (\<lambda>h. fst h = None) snd"
  by (auto simp: cio_chip_def demo_cio_def demo_ttl_def Let_def)

definition demo_ttl_config :: vmodttlconfig where
  "demo_ttl_config = zero_ttlconfig\<lparr>tc_io_flag := 1, tc_invert := 1, tc_open_collector := 1\<rparr>"

theorem ttl_config_reaches_chip_witness:
  "\<exists>bs' h'. vmodttl_ioctl demo_cio True True 0 (VMODTTL_CONFIG demo_ttl_config) ([Some demo_ttl], None, \<lambda>_. 0) = Some (OK, Ttl_none, bs', h')
    \<and> snd h' DDR_A = 0x00 \<and> snd h' DPPR_A = 0x00 \<and> snd h' DDR_B = 0xff \<and> snd h' DPPR_B = 0xff
    \<and> vmodttl_ioctl demo_cio True True 0 (VMODTTL_WRITE_CHAN \<lparr>ta_dev = 1, ta_val = 5\<rparr>) (bs', None, \<lambda>_. 0) = Some (Err EIO, Ttl_none, bs', None, \<lambda>_. 0)"
proof -
  obtain pd' h' where "vmodttl_config demo_cio demo_ttl_config (demo_ttl\<lparr>td_ioconfig := demo_ttl_config\<rparr>, None, \<lambda>_. 0) = (OK, pd', h')"
    using config_accepts [of demo_ttl_config demo_cio "demo_ttl\<lparr>td_ioconfig := demo_ttl_config\<rparr>" "(None, \<lambda>_. 0)"]
    by (auto simp: demo_ttl_config_def)
  then have run: "vmodttl_ioctl demo_cio True True 0 (VMODTTL_CONFIG demo_ttl_config) ([Some demo_ttl], None, \<lambda>_. 0)
      = Some (OK, Ttl_none, [Some pd'], h')"
    by (simp add: vmodttl_ioctl_def)
  from ttl_config_reaches_chip [OF demo_cio_chip _ _ _ run, of "(None, \<lambda>_. 0)" 5] run show ?thesis
    by (simp add: ports_as_def port_dir_def port_polarity_def demo_ttl_config_def zero_ttlconfig_def)
qed

definition demo_lib_conf :: vmodttl_conf where
  "demo_lib_conf = \<lparr>lc_dir_a = 1, lc_dir_b = 0, lc_inverting_logic = 1, lc_us_pulse = 10, lc_mode_a = 1, lc_mode_b = 0, lc_mode_c = 1,
     lc_pattern_mode_a = 0, lc_pattern_mode_b = 1, lc_conf_pattern_a = [P_ONE, P_OFF, P_ANY, P_ZERO, P_ONE, P_OFF, P_ONE_TO_ZERO, P_ZERO_TO_ONE],
     lc_conf_pattern_b = replicate 8 P_ANY\<rparr>"

theorem ttl_config_roundtrip_witness:
  "\<exists>s'. lib_io_config (ttl_sys demo_cio (\<lambda>_. 0)) (tc_bit_pattern_a zero_ttlconfig) (tc_bit_pattern_b zero_ttlconfig) [3] 0 demo_lib_conf
        ([Some demo_ttl], None, \<lambda>_. 0) = Some (OK, s')
    \<and> lib_read_config (ttl_sys demo_cio (\<lambda>_. 0)) zero_ttlconfig [3] 0 s'
        = Some (OK, demo_lib_conf\<lparr>lc_conf_pattern_b := replicate 8 P_OFF\<rparr>, s')"
proof -
  have ok: "conf_ok demo_lib_conf" by (simp add: conf_ok_def demo_lib_conf_def)
  have off: "map decode (tc_bit_pattern_b zero_ttlconfig) = replicate 8 P_OFF"
    by (simp add: zero_ttlconfig_def decode_def vmodttl_get_from_bit_pattern_def)
  have "demo_lib_conf\<lparr>lc_conf_pattern_a := lc_conf_pattern_a demo_lib_conf, lc_conf_pattern_b := x\<rparr> = demo_lib_conf\<lparr>lc_conf_pattern_b := x\<rparr>"
    "lc_dir_b demo_lib_conf = 0" for x by (simp_all add: demo_lib_conf_def)
  then show ?thesis
    using ttl_config_roundtrip [OF ok, where m = 0 and dev = "\<lambda>_. 0" and fds = "[3]" and lun = 0 and bs = "[Some demo_ttl]" and pd = demo_ttl
        and ga = "tc_bit_pattern_a zero_ttlconfig" and gb = "tc_bit_pattern_b zero_ttlconfig" and io = demo_cio and h = "(None, \<lambda>_. 0)"
        and garbage = zero_ttlconfig] off
    by (simp add: zero_ttlconfig_def)
qed

end
