(* ===== verification/Spec2Isabelle.thy ===== *)
theory Spec2Isabelle
  imports HT_Prelude Vmebus Tsi148_Chip Tsi148_Attr Tsi148_Init Tsi148_Window Vme_Misc Vme_Window Vme_Window_Inv
    Vme_Window_Props Tsi148_Dma Tsi148_Dma_Chain Vme_Dma Vme_Dma_Props Vme_Dma_Sched Vme_Irq Vme_Irq_Props Vme_Cesif
    Vme_Bridge Vme_Bridge_Props Vme_Bus
    Mtt_Text Mtt_Isa Mtt_Object Mtt_Emu Mtt_Emu_Props Mtt_Asm Mtt_Listing Mtt_Asm_Props
    Cvorg_Card Cvorg_Clkgen Cvorg Cvorg_Seq Cvorg_Ioctl Cvorg_Access Cvorg_Clkgen_Props Cvorg_Inv Cvorg_Props Cvorg_Seq_Props
    Cdcm_Sem Inst_Desc Skel_Queue Skel_Module Skel_Rawio Skel Skel_Ioctl Skel_Inv Skel_Props Skel_Theorems
    Sis33_Dma Sis33_Core Sis33_Inv Sis3320 Sis3300 Sis33_Acq Sis33_Lib_Props Sis3320_Props Sis33_Props
    Vmod_Bus Vmodio Vmodio_Props Modpci Vmod_Mezz Vmod_Ttl Vmod_Ttl_Props
begin

text \<open>
  A verification development for the CERN drivers repository. Its core is the PCI-VME bridge driver (\<open>src/vmebridge/driver\<close>), the part
  every VME driver there sits on; the tools of the MTT timing card (\<open>src/mttn/tools\<close>), an assembler and an emulator, are a second, independent part, and
  the driver of the CVORG waveform generator (\<open>src/cvorg/driver\<close>), a card with two channels of sample memory and a clock generator, is a third. The fourth is
  the skeleton driver (\<open>src/skel/driver\<close>), the framework that turns such a bottom half into a driver with clients, event queues and ioctls, together with
  the semaphores of CDCM (\<open>src/cdcm\<close>) and the installation descriptors (\<open>src/utils/driver\<close>) it is built on. The fifth is
  the family of SIS33 digitizers (\<open>src/sis33\<close>): a core, the drivers of two cards, which reach them through DMA requests to the bridge, and the
  part of the user library that puts fetched samples in order. The sixth is the VMOD family (\<open>src/vmod\<close>): two carrier boards, one of them a client of the bridge,
  and the drivers of five mezzanine boards that are plugged into them.
  The bridge driver runs the
  Tundra TSI148 chip: eight outbound windows that make VME address spaces visible on the PCI bus, two DMA
  channels driven by chains of descriptors in memory, the VME interrupts and bus errors, and the chip's own registers, which
  it also maps onto the VME bus (the CRG image).

  \<^bold>\<open>The parts and the theories that model them.\<close>
  \<^item> \<open>HT_Prelude\<close>: the machine integers of the 32-bit target, error codes, alignment by masks, byte order, and the interfaces
    \<open>invariant_system\<close>, \<open>codec\<close> and \<open>register_bank\<close>.
  \<^item> \<open>Vmebus\<close>: the enumerations and descriptors of \<open>vmebus.h\<close>.
  \<^item> \<open>Tsi148_Chip\<close>: the register file of \<open>tsi148.h\<close> as a record, its inline routines, bus errors and the generation of
    interrupts (\<open>tsi148.c\<close>). What a write leaves in a register that is not plain storage is the parameter \<open>tsi148_hw\<close>.
  \<^item> \<open>Tsi148_Attr\<close>: address modifiers and attribute words, 64-bit arithmetic on register pairs.
  \<^item> \<open>Tsi148_Init\<close>: the CRG image, quiescing and initialising the chip.
  \<^item> \<open>Tsi148_Window\<close>: programming, reading back and removing an outbound window, and what the chip then does with an address.
  \<^item> \<open>Tsi148_Dma\<close>, \<open>Tsi148_Dma_Chain\<close>: the descriptor chain of a transfer; the second theory walks the chain as the chip does.
  \<^item> \<open>Vme_Misc\<close>: the last bus error and its handlers (\<open>vme_misc.c\<close>, the dispatch of \<open>vme_irq.c\<close>).
  \<^item> \<open>Vme_Window\<close>, \<open>Vme_Window_Inv\<close>, \<open>Vme_Window_Props\<close>: the window manager (\<open>vme_window.c\<close>), its invariant, its properties.
  \<^item> \<open>Vme_Dma\<close>, \<open>Vme_Dma_Props\<close>, \<open>Vme_Dma_Sched\<close>: DMA requests (\<open>vme_dma.c\<close>), their balance, and processes that compete
    for the channels.
  \<^item> \<open>Vme_Irq\<close>, \<open>Vme_Irq_Props\<close>: interrupts (\<open>vme_irq.c\<close>).
  \<^item> \<open>Vme_Cesif\<close>: the emulation of the LynxOS CES driver (\<open>vme_cesif.c\<close>).
  \<^item> \<open>Vme_Bridge\<close>, \<open>Vme_Bridge_Props\<close>: the file operations, set-up and removal of the device (\<open>vme_bridge.c\<close>).
  \<^item> \<open>Vme_Bus\<close>: the VME bus of the Linux device model (\<open>vme_bridge.c\<close>): drivers and their devices, linked in an explicit store.
  \<^item> \<open>Mtt_Text\<close>, \<open>Mtt_Isa\<close>: characters, numbers and names, the instruction set and the registers of the MTT card (\<open>asmP.h\<close>, \<open>asm.h\<close>,
    \<open>opcodes.h\<close>, \<open>opcodes.c\<close>, the look-ups of \<open>asm.c\<close> and \<open>emu.c\<close>).
  \<^item> \<open>Mtt_Object\<close>: object files, the hex dump, the listing of an instruction, the disassembler.
  \<^item> \<open>Mtt_Emu\<close>, \<open>Mtt_Emu_Props\<close>: the emulator (\<open>emu.c\<close>): every instruction, and the commands of a session as a function of its input lines.
  \<^item> \<open>Mtt_Asm\<close>, \<open>Mtt_Listing\<close>, \<open>Mtt_Asm_Props\<close>: the assembler (\<open>asm.c\<close>): atoms, symbols, expressions, instructions, forward references.
  \<^item> \<open>Cvorg_Card\<close>, \<open>Cvorg_Access\<close>: the data of a CVORG module and its card (\<open>cvorg_priv.h\<close>, \<open>cvorg_hw.h\<close>, \<open>cvorg.h\<close>), the access functions, and the
    rules by which operations are run on them.
  \<^item> \<open>Cvorg_Clkgen\<close>, \<open>Cvorg_Clkgen_Props\<close>: the clock generator (\<open>clkgen.c\<close>).
  \<^item> \<open>Cvorg\<close>, \<open>Cvorg_Seq\<close>, \<open>Cvorg_Ioctl\<close>: modules and channels, sequences of waveforms, the calls (\<open>cvorg-skel.c\<close>).
  \<^item> \<open>Cvorg_Inv\<close>, \<open>Cvorg_Props\<close>, \<open>Cvorg_Seq_Props\<close>: what every call keeps, the properties of the calls, and the walk of the card over a loaded sequence.

  \<^item> \<open>Cdcm_Sem\<close>: the semaphores LynxOS drivers wait on, as CDCM makes them on Linux (\<open>cdcmTime.c\<close>), and a step relation for the tasks that share one.
  \<^item> \<open>Inst_Desc\<close>: the descriptors of drivers, modules and address spaces (\<open>config_data.h\<close>), their copying and release (\<open>libinstkernel.c\<close>).
  \<^item> \<open>Skel_Queue\<close>: a client's context and its circular queue of events, with the interface \<open>event_queue\<close> of a queue that drops its oldest entry.
  \<^item> \<open>Skel_Module\<close>: module contexts, and modules put on and taken off the VME, PCI and carrier buses (\<open>skeldrvrP.h\<close>, \<open>skelvme.h\<close>, \<open>skelpci.h\<close>, \<open>skelcar.h\<close>).
  \<^item> \<open>Skel_Rawio\<close>: single and block transfers to the address spaces of a module (\<open>RawIo\<close>, \<open>RawIoBlock\<close> of \<open>skeldrvr.c\<close>).
  \<^item> \<open>Skel\<close>, \<open>Skel_Ioctl\<close>: installation, open, close, read, write, interrupts, connections; the standard ioctls (\<open>skeldrvr.c\<close>, \<open>skel.h\<close>).
  \<^item> \<open>Skel_Inv\<close>, \<open>Skel_Props\<close>, \<open>Skel_Theorems\<close>: the invariant of the working area, the driver as a step relation, and its properties.
  \<^item> \<open>Sis33_Dma\<close>: register accesses and block reads of the digitizers as DMA requests (\<open>sis33_dma.c\<close>); the bridge, the card and the kernel are
    the record \<open>sis33_bus\<close>.
  \<^item> \<open>Sis33_Core\<close>, \<open>Sis33_Inv\<close>: the core (\<open>sis33_core.c\<close>, \<open>sis33_sysfs.c\<close>), its step relation, and the contract of a driver as the
    locale \<open>sis33_driver\<close>, which both drivers interpret.
  \<^item> \<open>Sis3320\<close>, \<open>Sis3300\<close>: the drivers (\<open>sis3320.c\<close>, \<open>sis3300.c\<close>).
  \<^item> \<open>Sis33_Acq\<close>: normalisation, fetching and rounding of the library (\<open>sis33acq.c\<close>, \<open>sis33.c\<close>, \<open>sis33dev.c\<close>).
  \<^item> \<open>Sis33_Lib_Props\<close>, \<open>Sis3320_Props\<close>, \<open>Sis33_Props\<close>: the properties of the digitizers.
  \<^item> \<open>Vmod_Bus\<close>: the register of carriers and the module parameters of the mezzanine drivers (\<open>modulbus_register.c\<close>, \<open>lunargs.c\<close>), and the interface \<open>isr_table\<close>
    of a carrier's callbacks, which both carriers implement.
  \<^item> \<open>Vmodio\<close>, \<open>Vmodio_Props\<close>: the VMOD/IO carrier on the bridge driver (\<open>vmodio.c\<close>); \<open>Modpci\<close>: the MOD-PCI carrier (\<open>mod-pci.c\<close>).
  \<^item> \<open>Vmod_Mezz\<close>: the converters and the digital outputs (\<open>vmod12a2drvr.c\<close>, \<open>vmod16a2drvr.c\<close>, \<open>vmod12e16drvr.c\<close>, \<open>vmoddordrvr.c\<close>).
  \<^item> \<open>Vmod_Ttl\<close>, \<open>Vmod_Ttl_Props\<close>: the VMOD-TTL board with its library (\<open>vmodttldrvr.c\<close>, \<open>libvmodttl.c\<close>).

  \<^bold>\<open>State.\<close> Each component's record extends the one below it: \<open>bridge_dev\<close> (chip registers, last bus error, handlers), \<open>wstate\<close>
  (window table, the PCI regions and \<open>ioremap\<close>s the driver holds), \<open>dstate\<close> (channels, semaphore, descriptor pool, page
  references), \<open>istate\<close> (vectors and counters), \<open>cstate\<close>, \<open>bstate\<close> (what the driver holds of the kernel). An operation is a function
  from the state to its result and the new state; it is polymorphic in the extension, so that the components above can
  call it. A function that returns \<open>0\<close> or \<open>-E...\<close> has a result of type \<open>rc\<close>.
  The CVORG driver is written in the state monad: the module and its card are one record \<open>cvorg\<close>, and what the card does by itself is \<open>cvorg_io\<close>.
  The skeleton driver's working area is the record \<open>skel\<close>: the table of modules, the list of clients, and a heap from addresses to client contexts, because the
  lists of connected clients hold pointers and their validity is what is proved. The bus calls and the bottom half are the records of
  functions \<open>bus_ops\<close> and \<open>skel_user\<close>, with their states inside \<open>skel\<close>; the sizes a driver configures (\<open>skeluser.h\<close>) are \<open>skel_consts\<close>.
  A call that sleeps is two steps, with any other steps between them. A digitizer is the record \<open>sis33_card\<close> with the data of its driver and the state of
  its hardware inside; an ioctl of the core is divided where it gives up the lock of the card.
  The VMOD/IO carrier runs on a state of the bridge (\<open>cstate\<close>) and on the register of carriers beside its own tables; an access outside a table of the VMOD drivers is \<open>None\<close>. The
  Z8536 chip of the VMOD-TTL board is a record of functions, with what its manual says of the control port as the hypothesis \<open>cio_chip\<close>.

  \<^bold>\<open>The kernel and the hardware\<close> are arguments: records of the answers during one call (\<open>kernel\<close>, \<open>dma_kernel\<close>, \<open>bridge_env\<close>),
  functions for what a register reads at the \<open>n\<close>-th access. Nothing is assumed of them but what a property states.
  A mutex is a flag of the window; an operation that finds it taken, or that a signal interrupts, returns the
  source's error. The two loops that the hardware can keep going, the wait for an acknowledge and the interrupt
  handler, are \<open>partial_function (option)\<close>, and the properties show that they return. The loops of the CVORG driver count their turns, and so do
  their models: the source's numbers of tries are the fuel. The search for a PCI card in the skeleton driver is bounded by the size of its table of handles; beyond it, as for a division by
  zero in a block transfer and for a raw transfer to a space that is not mapped, the result is \<open>None\<close>. The interrupt work of the SIS3300, which runs until the card shows no source, is \<open>partial_function (option)\<close> too.

  \<^bold>\<open>What is shown.\<close>
  \<^item> Windows: in every reachable state the table, the chip and the resources agree, and an offset inside the window of a 32-bit mapping leads, by its virtual and its PCI address, to the VME address asked for;
    finding, releasing, creating, destroying, \<open>mmap\<close> and closing a file do what they promise, failures leave no trace.
  \<^item> DMA: the chain in memory, followed as the chip follows it, is the transfer that was asked for, block
    boundaries included; the scatter/gather list is the user's buffer byte by byte; a request gives channel, semaphore and descriptors back whatever the kernel answers, and the pages unless pinning failed; a
    channel has one user at a time and the queue for it never gets stuck.
  \<^item> Interrupts: each raised and enabled source is served and counted once, the handler returns, a
    vector has one owner.
  \<^item> Bus errors reach exactly the handlers registered for the address and are reported once.
  \<^item> The device: after a successful set-up the CRG image is where the driver reads it through its own A24 window; a failed
    set-up and a removal give back what the properties list, and what they do not give back.
  \<^item> The bus: registering a driver is all or nothing, and unregistering it undoes it.
  \<^item> The MTT tools: a written object file is read back; the listing of a program whose columns can be told apart assembles to the program; forward references get the
    final values of their symbols; well-typed programs never leave the register file, and the position of an emulator session stays in its program; compare and branch agree with signed comparison.
  \<^item> CVORG: after a sequence was loaded, the card's walk over the descriptor blocks finds the user's waveforms; the configuration registers agree with what
    the driver reports in every reachable state; among the calls of the bottom half only those of the owner change a module; the registers of the clock generator hold
    the configuration that was asked for, for dividers in their ranges; samples are read back, gains are rounded to the nearest.
  \<^item> The skeleton driver: in every reachable state no list of connected clients holds a closed client and no ioctl follows a null pointer, raw transfers to a space that is not mapped apart; an interrupt reaches
    exactly the connected clients, in their queues and on their semaphores, a sleeping reader gets it; the circular queue refines a bounded list; a block read through the kernel buffer is the
    direct read; the module table is filled in order. No semaphore loses a signal but to a kernel thread that is stopped. A cloned descriptor is the original.
  \<^item> The digitizers: under every interleaving acquisitions and transfers exclude each other on both cards; a fetch through driver and library gives the samples of
    an event in the order in which they were taken, across the pages of the SIS3320, and of the right channel and memory bank on the SIS3300, with its caches filled or not; rounding
    gives the closest value.
  \<^item> The VMOD boards: an interrupt of a slot of a VMOD/IO board goes through the bridge and the carrier to the callback registered last for that slot; the register of carriers
    refines a map; a configuration of the VMOD-TTL board reaches its chip and is read back through the library; a conversion of the VMOD12E16 ends after at most fifteen polls and gives its semaphore
    back; probing a MOD-PCI board and removing it leaves no resource behind.
  \<^item> Where the code does not do what it means to, the property states what it does: requests that are not aligned, ranges that end at
    or beyond 4G, unpinned buffers, listings with full columns, resets by any client, an exit that does not wait, error paths that leak, block writes beyond the kernel buffer, interrupts lost to a client
    because another one closed, acquisitions larger than the memory of the card, time stamps that are not normalised, a
    documented set of module parameters that cannot be loaded, patterns that are never stored.

  \<^bold>\<open>Not modelled.\<close> The \<open>/proc\<close> files (formatting only), the test programs and libraries, and the other drivers of the
  repository, which are clients of this one or independent of it; of the MTT tools, the command lines, the printing of listings during assembly
  and the help texts; of CVORG, the library, with its search for dividers in floating point, and the test programs; of the skeleton driver, the variants for LynxOS, the routines a driver may put
  in place of read, write and raw I/O, and debug printing; of CDCM, everything but the semaphores; of the installation library, the user side with its XML parser; of the digitizers, the conversion of 32-bit ioctls, the attributes that are only shown, the wrappers of
  the library and the memory of the kernel beyond allocations that fail; of the VMOD boards, the libraries that wrap one ioctl and those on \<open>dioaiolib\<close>, and the lengths of
  pulses and delays. In the MTT tools \<open>long\<close> and \<open>int\<close> are 32 bits wide. Timing (\<open>udelay\<close>, write posting) and the interleaving of
  operations on the same window are outside the model, except for the DMA channels.

  The properties stand in the theory of their component; the lemmas below join theories of the chip.
\<close>

section \<open>Attribute words\<close>

text \<open>
  The attribute word of a transfer keeps the address modifier. For every modifier the driver accepts, the word that
  \<open>tsi148_setup_dma_attributes\<close> (or \<open>tsi148_setup_window_attributes\<close>) builds for it with any legal data width and 2eSST mode, split into the chip's
  fields and converted back by \<open>attr_to_am\<close>, gives the modifier again; so two modifiers never share a word.
\<close>

lemma attribute_word_keeps_modifier:
  assumes "tsi148_setup_dma_attributes sst dw am = Inr w \<or> tsi148_setup_window_attributes sst dw am = Inr w"
  shows "attr_to_am (attr_of_word w) x = am"
proof -
  obtain sstm a where a: "sstm = 0x1800 \<or> sstm = 0x3800" "am_to_attr am = Some a" "sst \<in> {0, 1, 2}"
    and w: "w = attr_fields sstm sst (if dw = 16 then 0 else 1) a"
    using assms
    by (auto simp: tsi148_setup_dma_attributes_def tsi148_setup_window_attributes_def setup_attributes_eq
        split: option.splits if_splits)
  have "attr_of_word w = a"
    unfolding w using attr_fields_decode(1) [OF a(2,3) _ a(1), where dbw = "if dw = 16 then 0 else 1"] by simp
  then show ?thesis using attr_to_am_am_to_attr [OF a(2)] by simp
qed

lemma attribute_word_keeps_modifier_example:
  "tsi148_setup_dma_attributes 0 VME_D32 VME_A32_USER_BLT = Inr 0x142
   \<and> attr_to_am (attr_of_word 0x142) 0 = VME_A32_USER_BLT"
proof -
  have "tsi148_setup_dma_attributes 0 VME_D32 VME_A32_USER_BLT = Inr 0x142" by code_simp
  then show ?thesis using attribute_word_keeps_modifier [of 0 VME_D32 VME_A32_USER_BLT "0x142" 0] by simp
qed

section \<open>Register pairs\<close>

text \<open>
  Addition and subtraction on pairs of 32-bit registers. The high words \<open>add64hi\<close> and \<open>sub64hi\<close> compute, next to the 32-bit sum or
  difference of the low words, are those of the 64-bit operation on the joined pairs, carry, borrow and
  wrap-around included.
\<close>

lemma register_pair_arithmetic:
  "reg_join (add64hi lo0 hi0 lo1 hi1) (lo0 + lo1) = reg_join hi0 lo0 + reg_join hi1 lo1
   \<and> reg_join (sub64hi lo0 hi0 lo1 hi1) (lo0 - lo1) = reg_join hi0 lo0 - reg_join hi1 lo1"
  by (simp add: add64_join sub64_join)

section \<open>A quiet chip\<close>

text \<open>
  A quiesced chip is off the bus. After \<open>tsi148_quiesce\<close>, whatever state the chip was in, no outbound window decodes any
  PCI address, no inbound window is enabled, the chain of neither DMA channel leads on, the CRG image and the location monitor are off,
  and the interrupt outputs are written to zero.
\<close>

lemma quiesced_chip_is_off_the_bus:
  assumes "wf_lcsr c"
  shows "(\<forall>i < 8. \<forall>a. \<not> otrans_decodes (otrans (tsi148_quiesce hw c) ! i) a)
    \<and> (\<forall>i < 8. itat (itrans (tsi148_quiesce hw c) ! i) = 0)
    \<and> (\<forall>i < 2. dnlal (dma_desc (dma_regs (tsi148_quiesce hw c) ! i)) = 0 \<and> dcnt (dma_desc (dma_regs (tsi148_quiesce hw c) ! i)) = 0)
    \<and> crgat (tsi148_quiesce hw c) = 0 \<and> lmat (tsi148_quiesce hw c) = 0
    \<and> inteo (tsi148_quiesce hw c) = hw_inteo hw (inteo (quiesce_dma (quiesce_windows c))) 0"
proof -
  have "wf_lcsr (quiesce_windows c)" using assms by (simp add: chip_simps)
  note cut = quiesce_dma_cut [OF this]
  show ?thesis
    unfolding tsi148_quiesce_arrays otrans_decodes_def
    using quiesce_windows_off [OF assms] cut
    by (simp add: tsi148_quiesce_def tsi148_disable_crg_def Let_def)
qed

lemma quiesced_chip_is_off_the_bus_example: "\<not> otrans_decodes (otrans (tsi148_quiesce plain_hw zero_lcsr) ! 3) 0x80000000"
  using quiesced_chip_is_off_the_bus [OF wf_zero_lcsr, of plain_hw] by simp

end
